(* ===== verification/Prelude.thy ===== *)
theory Prelude imports Main "HOL-Library.Code_Target_Nat" begin

text \<open>
  Shared vocabulary of the development.

  \<^item> The effect discipline: an operation of the program that may fail and that changes
    state is a function from the state to a sum (an error or a value) and the next state.
    \<open>ret\<close>, \<open>fail\<close>, \<open>bindM\<close>, \<open>catchM\<close> are its combinators; a Go block
    \<^verbatim>\<open>x, err := f(); if err != nil { return err }\<close> is \<open>bindM f (\<lambda>x. ...)\<close>.
  \<^item> The proof rules for them: inversion of a successful or failed run, and preservation of a
    state predicate, a goal that composes along the code (\<open>keeps\<close>).
  \<^item> Generic facts on lists used as database tables (select, update with a condition, insert).
\<close>

section \<open>Collections of facts\<close>

named_theorems monad_defs \<open>definitions of the effect combinators\<close>
named_theorems keeps_intros \<open>rules for state predicates an operation keeps\<close>

section \<open>Operations with state and errors\<close>

type_synonym ('w, 'e, 'a) op = "'w \<Rightarrow> ('e + 'a) \<times> 'w"

definition ret :: "'a \<Rightarrow> ('w, 'e, 'a) op" where
  "ret x w = (Inr x, w)"

definition fail :: "'e \<Rightarrow> ('w, 'e, 'a) op" where
  "fail e w = (Inl e, w)"

definition bindM :: "('w, 'e, 'a) op \<Rightarrow> ('a \<Rightarrow> ('w, 'e, 'b) op) \<Rightarrow> ('w, 'e, 'b) op" where
  "bindM m f w = (case m w of (Inl e, w') \<Rightarrow> (Inl e, w') | (Inr x, w') \<Rightarrow> f x w')"

text \<open>\<open>catchM m h k\<close>: run \<open>m\<close>; on an error continue with \<open>h\<close>, on a value with \<open>k\<close>.\<close>

definition catchM ::
  "('w, 'e, 'a) op \<Rightarrow> ('e \<Rightarrow> ('w, 'f, 'b) op) \<Rightarrow> ('a \<Rightarrow> ('w, 'f, 'b) op) \<Rightarrow> ('w, 'f, 'b) op" where
  "catchM m h k w = (case m w of (Inl e, w') \<Rightarrow> h e w' | (Inr x, w') \<Rightarrow> k x w')"

text \<open>A run whose outcome is thrown away: \<^verbatim>\<open>_ = f()\<close>.\<close>

definition ignoreM :: "('w, 'e, 'a) op \<Rightarrow> ('w, 'f, 'b) op \<Rightarrow> ('w, 'f, 'b) op" where
  "ignoreM m k w = k (snd (m w))"

definition readM :: "('w \<Rightarrow> 'a) \<Rightarrow> ('w, 'e, 'a) op" where
  "readM f w = (Inr (f w), w)"

definition guardM :: "bool \<Rightarrow> 'e \<Rightarrow> ('w, 'e, 'a) op \<Rightarrow> ('w, 'e, 'a) op" where
  "guardM b e m = (if b then m else fail e)"

definition liftM :: "('e + 'a) \<Rightarrow> ('w, 'e, 'a) op" where
  "liftM r w = (r, w)"

text \<open>Errors translated on the way out: \<^verbatim>\<open>return mapStoreError(err)\<close>.\<close>

definition map_errM :: "('e \<Rightarrow> 'f) \<Rightarrow> ('w, 'e, 'a) op \<Rightarrow> ('w, 'f, 'a) op" where
  "map_errM g m w = (case m w of (Inl e, w') \<Rightarrow> (Inl (g e), w') | (Inr x, w') \<Rightarrow> (Inr x, w'))"

lemmas [monad_defs] = map_errM_def ret_def fail_def bindM_def catchM_def ignoreM_def readM_def guardM_def
  liftM_def

lemma ret_eq_iff [simp]: "ret x w = (r, w') \<longleftrightarrow> r = Inr x \<and> w' = w"
  by (auto simp: ret_def)

lemma fail_eq_iff [simp]: "fail e w = (r, w') \<longleftrightarrow> r = Inl e \<and> w' = w"
  by (auto simp: fail_def)

lemma readM_eq_iff [simp]: "readM f w = (r, w') \<longleftrightarrow> r = Inr (f w) \<and> w' = w"
  by (auto simp: readM_def)

lemma liftM_eq_iff [simp]: "liftM x w = (r, w') \<longleftrightarrow> r = x \<and> w' = w"
  by (auto simp: liftM_def)

lemma guardM_eq_iff [simp]:
  "guardM b e m w = (r, w') \<longleftrightarrow> (b \<and> m w = (r, w')) \<or> (\<not> b \<and> r = Inl e \<and> w' = w)"
  by (auto simp: guardM_def fail_def)

lemma bindM_Inr_iff [simp]:
  "bindM m f w = (Inr y, w') \<longleftrightarrow> (\<exists>x w1. m w = (Inr x, w1) \<and> f x w1 = (Inr y, w'))"
  by (auto simp: bindM_def split: prod.splits sum.splits)

lemma bindM_InrE:
  assumes "bindM m k w = (Inr y, w')"
  obtains x w1 where "m w = (Inr x, w1)" "k x w1 = (Inr y, w')"
  using assms by auto

lemma if_failE:
  assumes "(if b then fail e else m) w = (Inr y, w')"
  obtains "\<not> b" "m w = (Inr y, w')"
  using assms by (cases b) simp_all

lemma bindM_Inl_iff:
  "bindM m f w = (Inl e, w') \<longleftrightarrow>
     m w = (Inl e, w') \<or> (\<exists>x w1. m w = (Inr x, w1) \<and> f x w1 = (Inl e, w'))"
  by (auto simp: bindM_def split: prod.splits sum.splits)

lemma catchM_eq_iff:
  "catchM m h k w = (r, w') \<longleftrightarrow>
     (\<exists>e w1. m w = (Inl e, w1) \<and> h e w1 = (r, w')) \<or>
     (\<exists>x w1. m w = (Inr x, w1) \<and> k x w1 = (r, w'))"
  by (auto simp: catchM_def split: prod.splits sum.splits)

lemma ignoreM_eq_iff: "ignoreM m k w = (r, w') \<longleftrightarrow> k (snd (m w)) = (r, w')"
  by (simp add: ignoreM_def)

lemma map_errM_Inr_iff [simp]: "map_errM g m w = (Inr x, w') \<longleftrightarrow> m w = (Inr x, w')"
  by (auto simp: map_errM_def split: prod.splits sum.splits)

lemma map_errM_Inl_iff: "map_errM g m w = (Inl f, w') \<longleftrightarrow> (\<exists>e. m w = (Inl e, w') \<and> f = g e)"
  by (auto simp: map_errM_def split: prod.splits sum.splits)

lemma map_errM_run: "m w = (Inr x, w1) \<Longrightarrow> map_errM g m w = (Inr x, w1)"
  by simp

lemma snd_map_errM [simp]: "snd (map_errM g m w) = snd (m w)"
  by (simp add: map_errM_def split: prod.splits sum.splits)

lemma bindM_run: "m w = (Inr x, w1) \<Longrightarrow> bindM m f w = f x w1"
  by (simp add: bindM_def)

lemma bindM_run_err: "m w = (Inl e, w1) \<Longrightarrow> bindM m f w = (Inl e, w1)"
  by (simp add: bindM_def)

lemma bindM_ret [simp]: "bindM (ret x) f = f x"
  by (rule ext) (simp add: bindM_def ret_def)

lemma bindM_fail [simp]: "bindM (fail e) f = fail e"
  by (rule ext) (simp add: bindM_def fail_def)

lemma bindM_readM [simp]: "bindM (readM g) f w = f (g w) w"
  by (simp add: bindM_def readM_def)

lemma bindM_liftM_Inr [simp]: "bindM (liftM (Inr x)) f = f x"
  by (rule ext) (simp add: bindM_def liftM_def)

lemma bindM_liftM_Inl [simp]: "bindM (liftM (Inl e)) f = fail e"
  by (rule ext) (simp add: bindM_def liftM_def fail_def)

lemma guardM_True [simp]: "guardM True e m = m"
  by (simp add: guardM_def)

lemma guardM_False [simp]: "guardM False e m = fail e"
  by (simp add: guardM_def)

section \<open>Predicates an operation keeps\<close>

definition keeps :: "('w \<Rightarrow> bool) \<Rightarrow> ('w, 'e, 'a) op \<Rightarrow> bool" where
  "keeps P m \<longleftrightarrow> (\<forall>w. P w \<longrightarrow> P (snd (m w)))"

lemma keepsD: "keeps P m \<Longrightarrow> P w \<Longrightarrow> m w = (r, w') \<Longrightarrow> P w'"
  by (metis keeps_def snd_conv)

lemma keepsI: "(\<And>w r w'. P w \<Longrightarrow> m w = (r, w') \<Longrightarrow> P w') \<Longrightarrow> keeps P m"
  by (metis keeps_def prod.collapse)

lemma keeps_ret [keeps_intros]: "keeps P (ret x)"
  by (simp add: keeps_def ret_def)

lemma keeps_fail [keeps_intros]: "keeps P (fail e)"
  by (simp add: keeps_def fail_def)

lemma keeps_readM [keeps_intros]: "keeps P (readM f)"
  by (simp add: keeps_def readM_def)

lemma keeps_liftM [keeps_intros]: "keeps P (liftM r)"
  by (simp add: keeps_def liftM_def)

lemma keeps_bindM [keeps_intros]: "keeps P m \<Longrightarrow> (\<And>x. keeps P (f x)) \<Longrightarrow> keeps P (bindM m f)"
  by (auto simp: keeps_def bindM_def split: prod.splits sum.splits)

lemma keeps_catchM [keeps_intros]:
  "keeps P m \<Longrightarrow> (\<And>e. keeps P (h e)) \<Longrightarrow> (\<And>x. keeps P (k x)) \<Longrightarrow> keeps P (catchM m h k)"
  by (auto simp: keeps_def catchM_def split: prod.splits sum.splits)

lemma keeps_ignoreM [keeps_intros]: "keeps P m \<Longrightarrow> keeps P k \<Longrightarrow> keeps P (ignoreM m k)"
  by (simp add: keeps_def ignoreM_def)

lemma keeps_map_errM [keeps_intros]: "keeps P m \<Longrightarrow> keeps P (map_errM g m)"
  by (simp add: keeps_def)

lemma keeps_guardM [keeps_intros]: "keeps P m \<Longrightarrow> keeps P (guardM b e m)"
  by (simp add: guardM_def keeps_fail)

lemma keeps_if [keeps_intros]:
  "(b \<Longrightarrow> keeps P m) \<Longrightarrow> (\<not> b \<Longrightarrow> keeps P n) \<Longrightarrow> keeps P (if b then m else n)"
  by simp

lemma keeps_case_option [keeps_intros]:
  "(x = None \<Longrightarrow> keeps P m) \<Longrightarrow> (\<And>y. x = Some y \<Longrightarrow> keeps P (n y)) \<Longrightarrow>
   keeps P (case x of None \<Rightarrow> m | Some y \<Rightarrow> n y)"
  by (cases x) simp_all

lemma keeps_case_sum [keeps_intros]:
  "(\<And>e. x = Inl e \<Longrightarrow> keeps P (m e)) \<Longrightarrow> (\<And>y. x = Inr y \<Longrightarrow> keeps P (n y)) \<Longrightarrow>
   keeps P (case x of Inl e \<Rightarrow> m e | Inr y \<Rightarrow> n y)"
  by (cases x) simp_all

lemma keeps_case_prod [keeps_intros]:
  "(\<And>a b. x = (a, b) \<Longrightarrow> keeps P (f a b)) \<Longrightarrow> keeps P (case x of (a, b) \<Rightarrow> f a b)"
  by (cases x) simp

section \<open>Tables as lists of rows\<close>

text \<open>\<^verbatim>\<open>UPDATE t SET f WHERE p\<close> on a list of rows, and the number of rows it affects.\<close>

definition update_where :: "('r \<Rightarrow> bool) \<Rightarrow> ('r \<Rightarrow> 'r) \<Rightarrow> 'r list \<Rightarrow> 'r list" where
  "update_where p f rows = map (\<lambda>r. if p r then f r else r) rows"

definition affected :: "('r \<Rightarrow> bool) \<Rightarrow> 'r list \<Rightarrow> nat" where
  "affected p rows = length (filter p rows)"

lemma set_update_where:
  "set (update_where p f rows) = {r \<in> set rows. \<not> p r} \<union> f ` {r \<in> set rows. p r}"
  by (auto simp: update_where_def image_def)

lemma ball_update_where:
  "(\<forall>x \<in> set (update_where p f rows). P x) \<longleftrightarrow> (\<forall>x \<in> set rows. P (if p x then f x else x))"
  by (auto simp: update_where_def)

lemma bex_update_where:
  "(\<exists>x \<in> set (update_where p f rows). P x) \<longleftrightarrow> (\<exists>x \<in> set rows. P (if p x then f x else x))"
  by (auto simp: update_where_def)

lemma in_update_where_same: "x \<in> set rows \<Longrightarrow> \<not> p x \<Longrightarrow> x \<in> set (update_where p f rows)"
  by (simp add: set_update_where)

lemma in_update_where_new: "x \<in> set rows \<Longrightarrow> p x \<Longrightarrow> f x \<in> set (update_where p f rows)"
  by (simp add: set_update_where)

lemma in_update_whereE:
  assumes "r \<in> set (update_where p f rows)"
  obtains "r \<in> set rows" "\<not> p r" | r0 where "r0 \<in> set rows" "p r0" "r = f r0"
  using assms by (auto simp: set_update_where)

lemma length_update_where [simp]: "length (update_where p f rows) = length rows"
  by (simp add: update_where_def)

lemma map_update_where:
  "(\<And>r. r \<in> set rows \<Longrightarrow> p r \<Longrightarrow> g (f r) = g r) \<Longrightarrow> map g (update_where p f rows) = map g rows"
  by (simp add: update_where_def)

lemma update_where_none: "(\<And>r. r \<in> set rows \<Longrightarrow> \<not> p r) \<Longrightarrow> update_where p f rows = rows"
  by (simp add: update_where_def map_idI)

lemma affected_eq_0_iff: "affected p rows = 0 \<longleftrightarrow> (\<forall>r \<in> set rows. \<not> p r)"
  by (simp add: affected_def filter_empty_conv)

lemma affected_pos_iff: "0 < affected p rows \<longleftrightarrow> (\<exists>r \<in> set rows. p r)"
  using affected_eq_0_iff by (metis neq0_conv)

lemma find_Some_D: "List.find p rows = Some r \<Longrightarrow> r \<in> set rows \<and> p r"
  by (auto simp: find_Some_iff)

lemma find_None_D: "List.find p rows = None \<Longrightarrow> r \<in> set rows \<Longrightarrow> \<not> p r"
  by (auto simp: find_None_iff)

lemma find_unique_key:
  assumes "distinct (map k rows)" "r \<in> set rows"
  shows "List.find (\<lambda>x. k x = k r) rows = Some r"
  using assms
  by (induction rows) (auto simp: image_iff)

lemma find_append_None: "List.find p xs = None \<Longrightarrow> List.find p (xs @ ys) = List.find p ys"
  by (induction xs) (auto split: if_splits)

lemma find_append_Some: "List.find p xs = Some x \<Longrightarrow> List.find p (xs @ ys) = Some x"
  by (induction xs) (auto split: if_splits)

lemma distinct_key_eq:
  "distinct (map k rows) \<Longrightarrow> a \<in> set rows \<Longrightarrow> b \<in> set rows \<Longrightarrow> k a = k b \<Longrightarrow> a = b"
  by (auto simp: distinct_map inj_on_def)

text \<open>\<^verbatim>\<open>SELECT ... WHERE p ORDER BY k LIMIT 1\<close>.\<close>

definition select_first :: "('r \<Rightarrow> 'k :: linorder) \<Rightarrow> ('r \<Rightarrow> bool) \<Rightarrow> 'r list \<Rightarrow> 'r option" where
  "select_first k p rows = (case sort_key k (filter p rows) of [] \<Rightarrow> None | r # _ \<Rightarrow> Some r)"

lemma select_first_Some: "select_first k p rows = Some r \<Longrightarrow> r \<in> set rows \<and> p r"
proof -
  assume "select_first k p rows = Some r"
  then obtain rs where "sort_key k (filter p rows) = r # rs"
    by (auto simp: select_first_def split: list.splits)
  then have "r \<in> set (sort_key k (filter p rows))" by (metis list.set_intros(1))
  then show ?thesis by simp
qed

lemma select_first_None: "select_first k p rows = None \<longleftrightarrow> (\<forall>r \<in> set rows. \<not> p r)"
proof -
  have "select_first k p rows = None \<longleftrightarrow> sort_key k (filter p rows) = []"
    by (auto simp: select_first_def split: list.splits)
  also have "\<dots> \<longleftrightarrow> set (filter p rows) = {}" by (metis set_empty set_sort)
  finally show ?thesis by (auto simp: filter_empty_conv)
qed

lemma select_first_unique:
  assumes "\<And>r'. r' \<in> set rows \<Longrightarrow> p r' \<Longrightarrow> r' = r" "r \<in> set rows" "p r"
  shows "select_first k p rows = Some r"
proof (cases "select_first k p rows")
  case None
  with assms(2,3) show ?thesis by (auto simp: select_first_None)
next
  case (Some r')
  from select_first_Some[OF this] assms(1) Some show ?thesis by auto
qed

lemma distinct_snoc [simp]: "distinct (xs @ [x]) \<longleftrightarrow> distinct xs \<and> x \<notin> set xs"
  by auto

lemma all_update:
  "list_all p xs \<Longrightarrow> (\<And>x. p x \<Longrightarrow> q x \<Longrightarrow> p (f x)) \<Longrightarrow> list_all p (update_where q f xs)"
  by (auto simp: list_all_iff ball_update_where)

text \<open>\<open>new_keys n f rows\<close>: the rows have distinct keys below \<open>n\<close>, so that \<open>n\<close> is fresh.\<close>

definition new_keys :: "'k :: linorder \<Rightarrow> ('r \<Rightarrow> 'k) \<Rightarrow> 'r list \<Rightarrow> bool" where
  "new_keys n f rows \<longleftrightarrow> distinct (map f rows) \<and> list_all (\<lambda>r. f r < n) rows"

lemma new_keys_mono: "new_keys n f rows \<Longrightarrow> n \<le> m \<Longrightarrow> new_keys m f rows"
  by (auto simp: new_keys_def list_all_iff)

lemma new_keys_append: "new_keys n f rows \<Longrightarrow> f r = n \<Longrightarrow> n < m \<Longrightarrow> new_keys m f (rows @ [r])"
  by (auto simp: new_keys_def list_all_iff)

lemma new_keys_update: "(\<And>r. f (g r) = f r) \<Longrightarrow> new_keys n f (update_where p g rows) = new_keys n f rows"
  by (auto simp: new_keys_def map_update_where list_all_iff ball_update_where)

end
