(* ===== verification/GoStrings.thy ===== *)
theory GoStrings imports Prelude "HOL-Library.Char_ord" begin

text \<open>
  Strings as the Go standard library sees them: a Go string is a sequence of bytes, which is
  what HOL's type \<^typ>\<open>string\<close> is (a list of 8-bit characters). The functions of
  \<^verbatim>\<open>strings\<close>, \<^verbatim>\<open>strconv\<close>, \<^verbatim>\<open>unicode/utf8\<close>, \<^verbatim>\<open>net\<close> and \<^verbatim>\<open>net/url\<close> that the
  program calls are defined here with their documented behaviour, UTF-8 decoding included.
  Only the Unicode tables above ASCII (case mapping, letter and digit classes) are a
  parameter, the record \<open>unicode\<close>.
\<close>

section \<open>UTF-8\<close>

definition byte_of :: "char \<Rightarrow> nat" where
  "byte_of c = of_char c"

definition rune_error :: nat where
  "rune_error = 0xFFFD"

definition is_cont :: "char \<Rightarrow> bool" where
  "is_cont c \<longleftrightarrow> 0x80 \<le> byte_of c \<and> byte_of c \<le> 0xBF"

text \<open>
  \<^verbatim>\<open>utf8.DecodeRuneInString\<close>: the first rune and the number of bytes it takes; an invalid
  sequence is the replacement rune of width 1.
\<close>

definition second_ok :: "nat \<Rightarrow> char \<Rightarrow> bool" where
  "second_ok b0 c \<longleftrightarrow>
     (let b = byte_of c;
          lo = (if b0 = 0xE0 then 0xA0 else if b0 = 0xF0 then 0x90 else 0x80);
          hi = (if b0 = 0xED then 0x9F else if b0 = 0xF4 then 0x8F else 0xBF)
      in lo \<le> b \<and> b \<le> hi)"

fun decode_rune :: "string \<Rightarrow> nat \<times> nat" where
  "decode_rune [] = (rune_error, 0)"
| "decode_rune (c # cs) =
     (let b0 = byte_of c in
      if b0 < 0x80 then (b0, 1)
      else if b0 < 0xC2 \<or> 0xF4 < b0 then (rune_error, 1)
      else if b0 < 0xE0 then
        (case cs of
           c1 # _ \<Rightarrow> if is_cont c1 then ((b0 - 0xC0) * 64 + (byte_of c1 - 0x80), 2)
                    else (rune_error, 1)
         | _ \<Rightarrow> (rune_error, 1))
      else if b0 < 0xF0 then
        (case cs of
           c1 # c2 # _ \<Rightarrow>
             if second_ok b0 c1 \<and> is_cont c2
             then ((b0 - 0xE0) * 4096 + (byte_of c1 - 0x80) * 64 + (byte_of c2 - 0x80), 3)
             else (rune_error, 1)
         | _ \<Rightarrow> (rune_error, 1))
      else
        (case cs of
           c1 # c2 # c3 # _ \<Rightarrow>
             if second_ok b0 c1 \<and> is_cont c2 \<and> is_cont c3
             then ((b0 - 0xF0) * 262144 + (byte_of c1 - 0x80) * 4096
                    + (byte_of c2 - 0x80) * 64 + (byte_of c3 - 0x80), 4)
             else (rune_error, 1)
         | _ \<Rightarrow> (rune_error, 1)))"

text \<open>A string cut into its runes, each with the bytes it came from (\<^verbatim>\<open>for _, r := range s\<close>).\<close>

fun runes :: "string \<Rightarrow> (nat \<times> string) list" where
  "runes [] = []"
| "runes (c # cs) =
     (let n = snd (decode_rune (c # cs))
      in (fst (decode_rune (c # cs)), take n (c # cs)) # runes (drop (n - 1) cs))"

definition rune_count :: "string \<Rightarrow> nat" where
  "rune_count s = length (runes s)"

definition valid_utf8 :: "string \<Rightarrow> bool" where
  "valid_utf8 s \<longleftrightarrow> list_all (\<lambda>(r, bs). \<not> (r = rune_error \<and> length bs = 1)) (runes s)"

definition encode_rune :: "nat \<Rightarrow> string" where
  "encode_rune r =
     map char_of
      (if r < 0x80 then [r]
       else if r < 0x800 then [0xC0 + r div 64, 0x80 + r mod 64]
       else if 0xD800 \<le> r \<and> r \<le> 0xDFFF \<or> 0x10FFFF < r then [0xEF, 0xBF, 0xBD]
       else if r < 0x10000 then [0xE0 + r div 4096, 0x80 + r div 64 mod 64, 0x80 + r mod 64]
       else [0xF0 + r div 262144, 0x80 + r div 4096 mod 64, 0x80 + r div 64 mod 64,
             0x80 + r mod 64])"

lemma byte_of_less [simp]: "byte_of c < 256"
  by (simp add: byte_of_def)

lemma decode_rune_size: "0 < snd (decode_rune (c # cs))"
  by (auto simp: Let_def split: list.splits)

lemma runes_concat: "concat (map snd (runes s)) = s"
proof (induction s rule: runes.induct)
  case (2 c cs)
  obtain n where n: "snd (decode_rune (c # cs)) = Suc n"
    using decode_rune_size[of c cs] by (metis gr0_conv_Suc)
  with 2 show ?case
    by (simp add: Let_def append_take_drop_id del: decode_rune.simps)
qed simp

lemma runes_nonempty: "(r, bs) \<in> set (runes s) \<Longrightarrow> bs \<noteq> []"
proof (induction s rule: runes.induct)
  case (2 c cs)
  then show ?case using decode_rune_size[of c cs]
    by (auto simp: Let_def simp del: decode_rune.simps)
qed simp

lemma runes_eq_Nil [simp]: "runes s = [] \<longleftrightarrow> s = []"
  by (cases s) (simp_all add: Let_def del: decode_rune.simps)

definition ascii :: "string \<Rightarrow> bool" where
  "ascii s \<longleftrightarrow> list_all (\<lambda>c. byte_of c < 0x80) s"

lemma runes_ascii: "ascii s \<Longrightarrow> runes s = map (\<lambda>c. (byte_of c, [c])) s"
  by (induction s) (simp_all add: ascii_def)

lemma rune_count_ascii: "ascii s \<Longrightarrow> rune_count s = length s"
  by (simp add: rune_count_def runes_ascii)

lemma valid_utf8_ascii: "ascii s \<Longrightarrow> valid_utf8 s"
  by (auto simp: valid_utf8_def runes_ascii ascii_def list_all_iff rune_error_def)

lemma length_concat_ge:
  "\<forall>x \<in> set rs. snd x \<noteq> [] \<Longrightarrow> length rs \<le> length (concat (map snd rs))"
proof (induction rs)
  case (Cons x rs)
  then have "1 \<le> length (snd x)" by (simp add: Suc_le_eq)
  with Cons show ?case by simp
qed simp

lemma rune_count_le: "rune_count s \<le> length s"
proof -
  have "\<forall>x \<in> set (runes s). snd x \<noteq> []"
    using runes_nonempty by (metis prod.collapse)
  from length_concat_ge[OF this] show ?thesis
    by (simp add: rune_count_def runes_concat)
qed

section \<open>Classes of runes\<close>

record unicode =
  u_lower :: "nat \<Rightarrow> nat"
  u_upper :: "nat \<Rightarrow> nat"
  u_letter :: "nat \<Rightarrow> bool"
  u_digit :: "nat \<Rightarrow> bool"

definition rune_lower :: "unicode \<Rightarrow> nat \<Rightarrow> nat" where
  "rune_lower u r = (if r < 0x80 then (if 65 \<le> r \<and> r \<le> 90 then r + 32 else r) else u_lower u r)"

definition rune_upper :: "unicode \<Rightarrow> nat \<Rightarrow> nat" where
  "rune_upper u r = (if r < 0x80 then (if 97 \<le> r \<and> r \<le> 122 then r - 32 else r) else u_upper u r)"

definition is_letter :: "unicode \<Rightarrow> nat \<Rightarrow> bool" where
  "is_letter u r =
     (if r < 0x80 then (65 \<le> r \<and> r \<le> 90) \<or> (97 \<le> r \<and> r \<le> 122) else u_letter u r)"

definition is_digit :: "unicode \<Rightarrow> nat \<Rightarrow> bool" where
  "is_digit u r = (if r < 0x80 then 48 \<le> r \<and> r \<le> 57 else u_digit u r)"

text \<open>\<^verbatim>\<open>unicode.IsSpace\<close>: the White_Space property, a fixed finite set.\<close>

definition is_space :: "nat \<Rightarrow> bool" where
  "is_space r \<longleftrightarrow> (9 \<le> r \<and> r \<le> 13) \<or> r = 32 \<or> r = 0x85 \<or> r = 0xA0 \<or> r = 0x1680
     \<or> (0x2000 \<le> r \<and> r \<le> 0x200A) \<or> r = 0x2028 \<or> r = 0x2029 \<or> r = 0x202F \<or> r = 0x205F
     \<or> r = 0x3000"

section \<open>The package strings\<close>

definition trim_runes :: "(nat \<times> string) list \<Rightarrow> (nat \<times> string) list" where
  "trim_runes rs =
     rev (dropWhile (is_space \<circ> fst) (rev (dropWhile (is_space \<circ> fst) rs)))"

definition trim_space :: "string \<Rightarrow> string" where
  "trim_space s = concat (map snd (trim_runes (runes s)))"

definition is_blank :: "string \<Rightarrow> bool" where
  "is_blank s \<longleftrightarrow> trim_space s = []"

definition to_lower :: "unicode \<Rightarrow> string \<Rightarrow> string" where
  "to_lower u s =
     (if ascii s then map (\<lambda>c. char_of (rune_lower u (byte_of c))) s
      else concat (map (\<lambda>(r, _). encode_rune (rune_lower u r)) (runes s)))"

definition to_upper :: "unicode \<Rightarrow> string \<Rightarrow> string" where
  "to_upper u s =
     (if ascii s then map (\<lambda>c. char_of (rune_upper u (byte_of c))) s
      else concat (map (\<lambda>(r, _). encode_rune (rune_upper u r)) (runes s)))"

definition has_prefix :: "string \<Rightarrow> string \<Rightarrow> bool" where
  "has_prefix s p \<longleftrightarrow> take (length p) s = p"

definition has_suffix :: "string \<Rightarrow> string \<Rightarrow> bool" where
  "has_suffix s p \<longleftrightarrow> length p \<le> length s \<and> drop (length s - length p) s = p"

definition trim_prefix :: "string \<Rightarrow> string \<Rightarrow> string" where
  "trim_prefix s p = (if has_prefix s p then drop (length p) s else s)"

definition trim_suffix :: "string \<Rightarrow> string \<Rightarrow> string" where
  "trim_suffix s p = (if has_suffix s p then take (length s - length p) s else s)"

text \<open>\<^verbatim>\<open>strings.TrimRight\<close> and \<^verbatim>\<open>strings.Trim\<close> with a cutset of ASCII characters.\<close>

definition trim_right :: "string \<Rightarrow> char list \<Rightarrow> string" where
  "trim_right s cs = rev (dropWhile (\<lambda>c. c \<in> set cs) (rev s))"

definition trim_chars :: "string \<Rightarrow> char list \<Rightarrow> string" where
  "trim_chars s cs = trim_right (dropWhile (\<lambda>c. c \<in> set cs) s) cs"

fun contains_str :: "string \<Rightarrow> string \<Rightarrow> bool" where
  "contains_str [] p = (p = [])"
| "contains_str (c # cs) p = (has_prefix (c # cs) p \<or> contains_str cs p)"

definition contains_any :: "string \<Rightarrow> char list \<Rightarrow> bool" where
  "contains_any s cs = list_ex (\<lambda>c. c \<in> set cs) s"

fun index_byte :: "string \<Rightarrow> char \<Rightarrow> nat option" where
  "index_byte [] c = None"
| "index_byte (x # xs) c = (if x = c then Some 0 else map_option Suc (index_byte xs c))"

fun last_index_byte :: "string \<Rightarrow> char \<Rightarrow> nat option" where
  "last_index_byte [] c = None"
| "last_index_byte (x # xs) c =
     (case last_index_byte xs c of
        Some i \<Rightarrow> Some (Suc i)
      | None \<Rightarrow> if x = c then Some 0 else None)"

text \<open>\<^verbatim>\<open>strings.Split\<close> on a one-byte separator; the result is never empty.\<close>

fun split_on :: "char \<Rightarrow> string \<Rightarrow> string list" where
  "split_on d [] = [[]]"
| "split_on d (c # cs) =
     (if c = d then [] # split_on d cs
      else (case split_on d cs of p # ps \<Rightarrow> (c # p) # ps | [] \<Rightarrow> [[c]]))"

text \<open>\<^verbatim>\<open>strings.SplitN(s, d, 2)\<close>.\<close>

fun split_2 :: "char \<Rightarrow> string \<Rightarrow> string list" where
  "split_2 d [] = [[]]"
| "split_2 d (c # cs) =
     (if c = d then [[], cs]
      else (case split_2 d cs of p # ps \<Rightarrow> (c # p) # ps | [] \<Rightarrow> [[c]]))"

fun join_with :: "string \<Rightarrow> string list \<Rightarrow> string" where
  "join_with d [] = []"
| "join_with d [s] = s"
| "join_with d (s # t # r) = s @ d @ join_with d (t # r)"

fun str_fields_of :: "(nat \<times> string) list \<Rightarrow> string \<Rightarrow> string list" where
  "str_fields_of [] acc = (if acc = [] then [] else [acc])"
| "str_fields_of ((r, bs) # rs) acc =
     (if is_space r then (if acc = [] then str_fields_of rs [] else acc # str_fields_of rs [])
      else str_fields_of rs (acc @ bs))"

definition str_fields :: "string \<Rightarrow> string list" where
  "str_fields s = str_fields_of (runes s) []"

text \<open>
  \<^verbatim>\<open>strings.EqualFold\<close> against an ASCII word whose letters have no non-ASCII case variants
  (no k, no s), where it is equality up to ASCII case.
\<close>

definition ascii_lower :: "string \<Rightarrow> string" where
  "ascii_lower s = map (\<lambda>c. if 65 \<le> byte_of c \<and> byte_of c \<le> 90 then char_of (byte_of c + 32) else c) s"

definition equal_fold :: "string \<Rightarrow> string \<Rightarrow> bool" where
  "equal_fold s t \<longleftrightarrow> ascii_lower s = ascii_lower t"

definition replace_byte :: "char \<Rightarrow> char \<Rightarrow> string \<Rightarrow> string" where
  "replace_byte a b s = map (\<lambda>c. if c = a then b else c) s"

lemma has_prefix_iff: "has_prefix s p \<longleftrightarrow> (\<exists>t. s = p @ t)"
  by (auto simp: has_prefix_def) (metis append_take_drop_id)

lemma has_suffix_iff: "has_suffix s p \<longleftrightarrow> (\<exists>t. s = t @ p)"
  by (auto simp: has_suffix_def) (metis append_take_drop_id)

lemma has_prefix_append [simp]: "has_prefix (p @ s) p"
  by (simp add: has_prefix_def)

lemma has_suffix_append [simp]: "has_suffix (s @ p) p"
  by (simp add: has_suffix_def)

lemma split_on_ne [simp]: "split_on d s \<noteq> []"
  by (induction s) (auto split: list.splits)

lemma split_on_no_sep: "p \<in> set (split_on d s) \<Longrightarrow> d \<notin> set p"
proof (induction s arbitrary: p)
  case (Cons c cs)
  then show ?case
    by (cases "split_on d cs") (auto split: if_splits)
qed simp

lemma split_on_single: "d \<notin> set s \<Longrightarrow> split_on d s = [s]"
  by (induction s) auto

lemma split_on_append: "d \<notin> set s \<Longrightarrow> split_on d (s @ d # t) = s # split_on d t"
  by (induction s) auto

lemma split_2_sep: "d \<notin> set s \<Longrightarrow> split_2 d (s @ d # t) = [s, t]"
  by (induction s) auto

lemma join_split: "join_with [d] (split_on d s) = s"
proof (induction s)
  case (Cons c cs)
  then show ?case
    by (cases "split_on d cs"; cases "tl (split_on d cs)") auto
qed simp

lemma last_index_byte_Some:
  "last_index_byte s c = Some i \<Longrightarrow> i < length s \<and> s ! i = c \<and> c \<notin> set (drop (Suc i) s)"
proof (induction s arbitrary: i)
  case (Cons x xs)
  show ?case
  proof (cases "last_index_byte xs c")
    case None
    have "c \<notin> set xs" using None by (induction xs) (auto split: option.splits if_splits)
    with None Cons.prems show ?thesis by (auto split: if_splits)
  next
    case (Some j)
    with Cons show ?thesis by auto
  qed
qed simp

lemma last_index_byte_None: "last_index_byte s c = None \<longleftrightarrow> c \<notin> set s"
  by (induction s) (auto split: option.splits)

lemma last_index_byte_append:
  "c \<notin> set t \<Longrightarrow> last_index_byte (s @ c # t) c = Some (length s)"
proof (induction s)
  case Nil
  then show ?case by (simp add: last_index_byte_None[THEN iffD2])
qed simp

lemma trim_runes_Nil_iff: "trim_runes rs = [] \<longleftrightarrow> list_all (is_space \<circ> fst) rs"
proof
  assume "trim_runes rs = []"
  then have "\<forall>x \<in> set (dropWhile (is_space \<circ> fst) rs). (is_space \<circ> fst) x"
    by (simp add: trim_runes_def dropWhile_eq_Nil_conv)
  then have "dropWhile (is_space \<circ> fst) rs = []"
    by (metis hd_dropWhile hd_in_set)
  then show "list_all (is_space \<circ> fst) rs"
    by (simp add: list_all_iff)
next
  assume "list_all (is_space \<circ> fst) rs"
  then have all: "dropWhile (is_space \<circ> fst) rs = []"
    by (auto simp: list_all_iff dest: set_dropWhileD)
  show "trim_runes rs = []" by (simp add: trim_runes_def all)
qed

lemma set_trim_runes: "set (trim_runes rs) \<subseteq> set rs"
  by (auto simp: trim_runes_def dest!: set_dropWhileD)

lemma is_blank_iff: "is_blank s \<longleftrightarrow> list_all (is_space \<circ> fst) (runes s)"
proof -
  have "concat (map snd (trim_runes (runes s))) = [] \<longleftrightarrow> trim_runes (runes s) = []"
    using set_trim_runes[of "runes s"] runes_nonempty[of _ _ s]
    by (cases "trim_runes (runes s)") auto
  then show ?thesis by (simp add: is_blank_def trim_space_def trim_runes_Nil_iff)
qed

lemma dropWhile_none: "list_all (\<lambda>x. \<not> P x) xs \<Longrightarrow> dropWhile P xs = xs"
  by (cases xs) simp_all

lemma trim_space_id: "list_all (\<lambda>x. \<not> is_space (fst x)) (runes s) \<Longrightarrow> trim_space s = s"
  by (simp add: trim_space_def trim_runes_def dropWhile_none comp_def runes_concat)

lemma trim_space_graphic: "list_all (\<lambda>c. 33 \<le> byte_of c \<and> byte_of c < 0x80) s \<Longrightarrow> trim_space s = s"
  by (rule trim_space_id, subst runes_ascii)
    (auto simp: ascii_def list_all_iff is_space_def)

section \<open>Numbers\<close>

definition digit_char :: "nat \<Rightarrow> char" where
  "digit_char n = char_of (48 + n)"

fun itoa :: "nat \<Rightarrow> string" where
  "itoa n = (if n < 10 then [digit_char n] else itoa (n div 10) @ [digit_char (n mod 10)])"

declare itoa.simps [simp del]

definition itoa_int :: "int \<Rightarrow> string" where
  "itoa_int i = (if i < 0 then CHR ''-'' # itoa (nat (- i)) else itoa (nat i))"

definition is_digit_char :: "char \<Rightarrow> bool" where
  "is_digit_char c \<longleftrightarrow> 48 \<le> byte_of c \<and> byte_of c \<le> 57"

definition digits_value :: "string \<Rightarrow> nat" where
  "digits_value s = foldl (\<lambda>a c. 10 * a + (byte_of c - 48)) 0 s"

text \<open>\<^verbatim>\<open>strconv.ParseUint(s, 10, 32)\<close>.\<close>

definition parse_uint32 :: "string \<Rightarrow> nat option" where
  "parse_uint32 s =
     (if s = [] \<or> \<not> list_all is_digit_char s \<or> 2 ^ 32 \<le> digits_value s then None
      else Some (digits_value s))"

lemma byte_of_digit [simp]: "n < 10 \<Longrightarrow> byte_of (digit_char n) = 48 + n"
  by (simp add: byte_of_def digit_char_def)

lemma is_digit_digit_char [simp]: "n < 10 \<Longrightarrow> is_digit_char (digit_char n)"
  by (simp add: is_digit_char_def)

lemma itoa_digits: "list_all is_digit_char (itoa n)"
  by (induction n rule: itoa.induct) (subst itoa.simps, simp)

lemma itoa_ne [simp]: "itoa n \<noteq> []"
  by (subst itoa.simps) simp

lemma digits_value_itoa: "digits_value (itoa n) = n"
proof (induction n rule: itoa.induct)
  case (1 n)
  then show ?case by (subst itoa.simps) (auto simp: digits_value_def)
qed

lemma parse_itoa: "n < 2 ^ 32 \<Longrightarrow> parse_uint32 (itoa n) = Some n"
  by (simp add: parse_uint32_def digits_value_itoa itoa_digits)

section \<open>Addresses and URLs\<close>

text \<open>\<^verbatim>\<open>net.SplitHostPort\<close>.\<close>

definition split_host_port :: "string \<Rightarrow> (string \<times> string) option" where
  "split_host_port s =
     (case last_index_byte s (CHR '':'') of
        None \<Rightarrow> None
      | Some i \<Rightarrow>
          let port = drop (Suc i) s in
          if has_prefix s ''['' then
            (case index_byte s (CHR '']'') of
               None \<Rightarrow> None
             | Some e \<Rightarrow>
                 if Suc e \<noteq> i then None
                 else if CHR ''['' \<in> set (tl s) \<or> CHR '']'' \<in> set (drop (Suc e) s) then None
                 else Some (tl (take e s), port))
          else
            let host = take i s in
            if CHR '':'' \<in> set host \<or> CHR ''['' \<in> set s \<or> CHR '']'' \<in> set s then None
            else Some (host, port))"

definition hex_upper :: "nat \<Rightarrow> char" where
  "hex_upper n = char_of (if n < 10 then 48 + n else 55 + n)"

definition query_escape :: "string \<Rightarrow> string" where
  "query_escape s =
     concat (map (\<lambda>c. let b = byte_of c in
       if (65 \<le> b \<and> b \<le> 90) \<or> (97 \<le> b \<and> b \<le> 122) \<or> (48 \<le> b \<and> b \<le> 57)
          \<or> c \<in> set ''-_.~'' then [c]
       else if c = CHR '' '' then ''+''
       else [CHR ''%'', hex_upper (b div 16), hex_upper (b mod 16)]) s)"

text \<open>\<^verbatim>\<open>strconv.Atoi\<close> of a query value; a value out of range is out of the bounds checked next.\<close>

definition atoi :: "string \<Rightarrow> int option" where
  "atoi s =
     (let neg = has_prefix s ''-''; body = (if neg \<or> has_prefix s ''+'' then tl s else s) in
      if body = [] \<or> \<not> list_all is_digit_char body then None
      else let n = int (digits_value body) in Some (if neg then - n else n))"

end
