(* ===== verification/Encodings.thy ===== *)
theory Encodings imports GoStrings begin

text \<open>
  The text encodings of \<^verbatim>\<open>encoding/base64\<close> (raw standard and raw URL alphabet),
  \<^verbatim>\<open>encoding/base32\<close> (standard alphabet, no padding) and \<^verbatim>\<open>encoding/hex\<close>. The first two
  are one construction: the bytes as a bit string, cut into groups of k bits; the decoder puts
  the groups together again and keeps the whole bytes. One round-trip lemma serves both.
\<close>

section \<open>Bit strings\<close>

fun bits :: "nat \<Rightarrow> nat \<Rightarrow> bool list" where
  "bits 0 n = []"
| "bits (Suc k) n = bits k (n div 2) @ [odd n]"

fun bits_val :: "bool list \<Rightarrow> nat \<Rightarrow> nat" where
  "bits_val [] a = a"
| "bits_val (b # bs) a = bits_val bs (2 * a + of_bool b)"

function chunks :: "nat \<Rightarrow> 'a list \<Rightarrow> 'a list list" where
  "chunks k xs = (if k = 0 \<or> xs = [] then [] else take k xs # chunks k (drop k xs))"
  by pat_completeness auto
termination
  by (relation "measure (\<lambda>(k, xs). length xs)") auto

declare chunks.simps [simp del]

lemma length_bits [simp]: "length (bits k n) = k"
  by (induction k arbitrary: n) auto

lemma bits_val_append: "bits_val (xs @ ys) a = bits_val ys (bits_val xs a)"
  by (induction xs arbitrary: a) auto

lemma bits_val_bits: "bits_val (bits k n) 0 = n mod 2 ^ k"
proof (induction k arbitrary: n)
  case (Suc k)
  have "2 * (n div 2 mod 2 ^ k) + n mod 2 = n mod 2 ^ Suc k"
    by (simp add: mod_mult2_eq)
  with Suc show ?case by (simp add: bits_val_append of_bool_odd_eq_mod_2)
qed simp

lemma bits_bits_val: "bits (length bs) (bits_val bs 0) = bs"
proof (induction bs rule: rev_induct)
  case (snoc b bs)
  then show ?case by (simp add: bits_val_append)
qed simp

lemma bits_val_less: "bits_val bs 0 < 2 ^ length bs"
proof (induction bs rule: rev_induct)
  case (snoc b bs)
  then show ?case by (cases b) (auto simp: bits_val_append)
qed simp

lemma concat_chunks: "0 < k \<Longrightarrow> concat (chunks k xs) = xs"
  by (induction k xs rule: chunks.induct) (subst chunks.simps, auto)

lemma length_chunks: "0 < k \<Longrightarrow> length xs = k * n \<Longrightarrow> length (chunks k xs) = n"
proof (induction n arbitrary: xs)
  case 0
  then show ?case by (subst chunks.simps) simp
next
  case (Suc n)
  then show ?case by (subst chunks.simps) auto
qed

lemma chunks_lengths:
  "0 < k \<Longrightarrow> length xs = k * n \<Longrightarrow> c \<in> set (chunks k xs) \<Longrightarrow> length c = k"
proof (induction n arbitrary: xs)
  case 0
  then show ?case by (simp add: chunks.simps)
next
  case (Suc n)
  from Suc.prems(3) have "c = take k xs \<or> c \<in> set (chunks k (drop k xs))"
    by (subst (asm) chunks.simps) (auto split: if_splits)
  then show ?case
  proof
    assume "c \<in> set (chunks k (drop k xs))"
    with Suc.prems Suc.IH[of "drop k xs"] show ?thesis by simp
  qed (use Suc.prems in simp)
qed

lemma chunks_concat_map:
  "0 < k \<Longrightarrow> (\<And>x. x \<in> set xs \<Longrightarrow> length (f x) = k) \<Longrightarrow> chunks k (concat (map f xs)) = map f xs"
proof (induction xs)
  case Nil
  then show ?case by (simp add: chunks.simps)
next
  case (Cons x xs)
  moreover have "f x \<noteq> []" using Cons.prems by (metis length_greater_0_conv list.set_intros(1))
  ultimately show ?case by (subst chunks.simps) simp
qed

section \<open>Encoding by groups of bits\<close>

definition byte_bits :: "string \<Rightarrow> bool list" where
  "byte_bits s = concat (map (\<lambda>c. bits 8 (byte_of c)) s)"

definition pad_to :: "nat \<Rightarrow> bool list \<Rightarrow> bool list" where
  "pad_to k bs = bs @ replicate ((k - length bs mod k) mod k) False"

definition encode_bits :: "nat \<Rightarrow> string \<Rightarrow> string \<Rightarrow> string" where
  "encode_bits k alphabet s =
     map (\<lambda>g. alphabet ! bits_val g 0) (chunks k (pad_to k (byte_bits s)))"

definition bits_bytes :: "bool list \<Rightarrow> string" where
  "bits_bytes bs = map (\<lambda>g. char_of (bits_val g 0)) (chunks 8 (take (length bs div 8 * 8) bs))"

text \<open>
  The decoder skips CR and LF, as both packages do, refuses a character outside the alphabet
  and a number of characters no encoding has (the list \<open>bad\<close>, modulo \<open>m\<close>).
\<close>

definition decode_bits :: "nat \<Rightarrow> string \<Rightarrow> nat \<Rightarrow> nat list \<Rightarrow> string \<Rightarrow> string option" where
  "decode_bits k alphabet m bad s =
     (let t = filter (\<lambda>c. c \<noteq> CHR 0x0D \<and> c \<noteq> CHR 0x0A) s;
          ix = map (index_byte alphabet) t
      in if None \<in> set ix \<or> length t mod m \<in> set bad then None
         else Some (bits_bytes (concat (map (\<lambda>i. bits k (the i)) ix))))"

text \<open>Equations that evaluate well.\<close>

lemma bits_val_code [code]:
  "bits_val [] a = a" "bits_val (b # bs) a = bits_val bs (if b then Suc (2 * a) else 2 * a)"
  by simp_all

lemma byte_bits_code [code]: "byte_bits [] = []" "byte_bits (c # cs) = bits 8 (byte_of c) @ byte_bits cs"
  by (simp_all add: byte_bits_def)

definition group_val :: "bool list \<Rightarrow> nat" where
  "group_val g = bits_val g 0"

lemma encode_bits_code [code]:
  "encode_bits k alphabet s = map (nth alphabet) (map group_val (chunks k (pad_to k (byte_bits s))))"
  by (simp add: encode_bits_def group_val_def)

lemma bits_bytes_code [code]:
  "bits_bytes bs = map char_of (map group_val (chunks 8 (take (length bs div 8 * 8) bs)))"
  by (simp add: bits_bytes_def group_val_def)

definition base64_std :: string where
  "base64_std = ''ABCDEFGHIJKLMNOPQRSTUVWXYZabcdefghijklmnopqrstuvwxyz0123456789+/''"

definition base64_url :: string where
  "base64_url = ''ABCDEFGHIJKLMNOPQRSTUVWXYZabcdefghijklmnopqrstuvwxyz0123456789-_''"

definition base32_std :: string where
  "base32_std = ''ABCDEFGHIJKLMNOPQRSTUVWXYZ234567''"

definition raw_std_encode :: "string \<Rightarrow> string" where
  "raw_std_encode = encode_bits 6 base64_std"

definition raw_std_decode :: "string \<Rightarrow> string option" where
  "raw_std_decode = decode_bits 6 base64_std 4 [1]"

definition raw_url_encode :: "string \<Rightarrow> string" where
  "raw_url_encode = encode_bits 6 base64_url"

definition raw_url_decode :: "string \<Rightarrow> string option" where
  "raw_url_decode = decode_bits 6 base64_url 4 [1]"

definition base32_encode :: "string \<Rightarrow> string" where
  "base32_encode = encode_bits 5 base32_std"

definition base32_decode :: "string \<Rightarrow> string option" where
  "base32_decode = decode_bits 5 base32_std 8 [1, 3, 6]"

definition hex_lower :: "nat \<Rightarrow> char" where
  "hex_lower n = char_of (if n < 10 then 48 + n else 87 + n)"

definition hex_encode :: "string \<Rightarrow> string" where
  "hex_encode s = concat (map (\<lambda>c. [hex_lower (byte_of c div 16), hex_lower (byte_of c mod 16)]) s)"

section \<open>Round trips\<close>

lemma index_byte_nth: "distinct a \<Longrightarrow> i < length a \<Longrightarrow> index_byte a (a ! i) = Some i"
proof (induction a arbitrary: i)
  case (Cons x a)
  then show ?case by (cases i) auto
qed simp

lemma length_byte_bits [simp]: "length (byte_bits s) = 8 * length s"
  by (induction s) (simp_all add: byte_bits_def)

lemma bits_bytes_byte_bits: "bits_bytes (byte_bits s @ pad) = s" if "length pad < 8"
proof -
  have n: "length (byte_bits s @ pad) div 8 * 8 = length (byte_bits s)" using that by simp
  have "take (length (byte_bits s @ pad) div 8 * 8) (byte_bits s @ pad) = byte_bits s"
    by (simp only: n) simp
  moreover have "chunks 8 (byte_bits s) = map (\<lambda>c. bits 8 (byte_of c)) s"
    unfolding byte_bits_def by (rule chunks_concat_map) simp_all
  ultimately have "bits_bytes (byte_bits s @ pad)
      = map (\<lambda>g. char_of (bits_val g 0)) (map (\<lambda>c. bits 8 (byte_of c)) s)"
    by (simp only: bits_bytes_def)
  then show ?thesis
    by (simp add: bits_val_bits byte_of_def comp_def del: bits.simps)
qed

lemma pad_to_props:
  assumes "0 < k"
  obtains pad where "pad_to k bs = bs @ pad" "length pad < k"
    "length (pad_to k bs) = k * ((length bs + k - 1) div k)"
proof -
  define r where "r = length bs mod k"
  have r: "r < k" using assms by (simp add: r_def)
  have len: "length bs = k * (length bs div k) + r" by (simp add: r_def)
  let ?p = "(k - r) mod k"
  have "length bs + ?p = k * ((length bs + k - 1) div k)"
  proof (cases "r = 0")
    case True
    have "(length bs + k - 1) div k = length bs div k"
    proof -
      have "length bs + k - 1 = (k - 1) + k * (length bs div k)"
        using len True assms by simp
      moreover have "(k - 1) div k = 0" using assms by simp
      ultimately show ?thesis using assms by (simp only: div_mult_self2)
    qed
    with True len show ?thesis by simp
  next
    case False
    have "(length bs + k - 1) div k = Suc (length bs div k)"
    proof -
      have "length bs + k - 1 = (r - 1) + k * Suc (length bs div k)"
        using len False assms by simp
      moreover have "(r - 1) div k = 0" using r by simp
      ultimately show ?thesis using assms by (simp only: div_mult_self2)
    qed
    with False r len show ?thesis by simp
  qed
  then show ?thesis
    using assms that[of "replicate ?p False"] by (simp add: pad_to_def r_def)
qed

lemma length_pad_to: "0 < k \<Longrightarrow> length (pad_to k bs) = k * ((length bs + k - 1) div k)"
  by (rule pad_to_props)

lemma decode_encode:
  assumes k: "0 < k" "k \<le> 8"
    and a: "distinct alphabet" "length alphabet = 2 ^ k"
    and nl: "CHR 0x0D \<notin> set alphabet" "CHR 0x0A \<notin> set alphabet"
    and ok: "((8 * length s + k - 1) div k) mod m \<notin> set bad"
  shows "decode_bits k alphabet m bad (encode_bits k alphabet s) = Some s"
proof -
  obtain pad where P: "pad_to k (byte_bits s) = byte_bits s @ pad" "length pad < k"
    and len: "length (pad_to k (byte_bits s)) = k * ((8 * length s + k - 1) div k)"
    by (rule pad_to_props[OF k(1), of "byte_bits s"]) simp
  define cs where "cs = chunks k (pad_to k (byte_bits s))"
  have ck: "length g = k" if "g \<in> set cs" for g
    using that chunks_lengths[OF k(1) len] by (simp add: cs_def)
  have ix: "bits_val g 0 < length alphabet" if "g \<in> set cs" for g
    using bits_val_less[of g] ck[OF that] a(2) by simp
  define t where "t = map (\<lambda>g. alphabet ! bits_val g 0) cs"
  have t: "filter (\<lambda>c. c \<noteq> CHR 0x0D \<and> c \<noteq> CHR 0x0A) t = t"
    using ix nl by (auto simp: t_def filter_id_conv) (metis nth_mem)+
  have idx: "map (index_byte alphabet) t = map (\<lambda>g. Some (bits_val g 0)) cs"
    using ix index_byte_nth[OF a(1)] by (simp add: t_def)
  have "concat (map (\<lambda>i. bits k (the i)) (map (index_byte alphabet) t)) = concat cs"
  proof -
    have "map (\<lambda>g. bits k (bits_val g 0)) cs = cs"
      using ck by (metis (mono_tags, lifting) bits_bits_val map_idI)
    then show ?thesis by (simp add: idx comp_def)
  qed
  also have "\<dots> = byte_bits s @ pad"
    by (simp add: cs_def concat_chunks k(1) P(1))
  finally have dec: "concat (map (\<lambda>i. bits k (the i)) (map (index_byte alphabet) t))
      = byte_bits s @ pad" .
  have "length t mod m \<notin> set bad"
    using length_chunks[OF k(1) len] ok by (simp add: t_def cs_def)
  moreover have "None \<notin> set (map (index_byte alphabet) t)" by (auto simp: idx)
  moreover have "encode_bits k alphabet s = t" by (simp add: encode_bits_def t_def cs_def)
  moreover have "bits_bytes (byte_bits s @ pad) = s"
    by (rule bits_bytes_byte_bits) (use P(2) k(2) in simp)
  ultimately show ?thesis
    unfolding decode_bits_def Let_def by (simp only: t dec if_False simp_thms)
qed

lemma quotient_6: "(8 * n + 6 - 1) div 6 mod 4 \<notin> set [1 :: nat]"
proof -
  define q r where "q = n div 3" and "r = n mod 3"
  have "r = 0 \<or> r = 1 \<or> r = 2" unfolding r_def by linarith
  moreover have n: "n = r + 3 * q" by (simp add: q_def r_def)
  have "8 * n + 6 - 1 = (5 + 8 * r) + 6 * (4 * q)" using n by linarith
  then have "(8 * n + 6 - 1) div 6 = 4 * q + (5 + 8 * r) div 6"
    by (simp only: div_mult_self2)
  ultimately show ?thesis by auto
qed

lemma quotient_5: "(8 * n + 5 - 1) div 5 mod 8 \<notin> set [1, 3, 6 :: nat]"
proof -
  define q r where "q = n div 5" and "r = n mod 5"
  have "r = 0 \<or> r = 1 \<or> r = 2 \<or> r = 3 \<or> r = 4" unfolding r_def by linarith
  moreover have n: "n = r + 5 * q" by (simp add: q_def r_def)
  have "8 * n + 5 - 1 = (4 + 8 * r) + 5 * (8 * q)" using n by linarith
  then have "(8 * n + 5 - 1) div 5 = 8 * q + (4 + 8 * r) div 5"
    by (simp only: div_mult_self2)
  ultimately show ?thesis by auto
qed

lemma raw_std_roundtrip [simp]: "raw_std_decode (raw_std_encode s) = Some s"
  unfolding raw_std_decode_def raw_std_encode_def
  by (rule decode_encode[OF _ _ _ _ _ _ quotient_6]) (simp_all add: base64_std_def)

lemma raw_url_roundtrip [simp]: "raw_url_decode (raw_url_encode s) = Some s"
  unfolding raw_url_decode_def raw_url_encode_def
  by (rule decode_encode[OF _ _ _ _ _ _ quotient_6]) (simp_all add: base64_url_def)

lemma base32_roundtrip [simp]: "base32_decode (base32_encode s) = Some s"
  unfolding base32_decode_def base32_encode_def
  by (rule decode_encode[OF _ _ _ _ _ _ quotient_5]) (simp_all add: base32_std_def)

text \<open>The characters an encoding produces are those of its alphabet.\<close>

lemma set_encode_bits:
  assumes "0 < k" "length alphabet = 2 ^ k"
  shows "set (encode_bits k alphabet s) \<subseteq> set alphabet"
proof
  fix c assume "c \<in> set (encode_bits k alphabet s)"
  then obtain g where g: "g \<in> set (chunks k (pad_to k (byte_bits s)))"
    and c: "c = alphabet ! bits_val g 0"
    by (auto simp: encode_bits_def)
  have len: "length (pad_to k (byte_bits s)) = k * ((8 * length s + k - 1) div k)"
    using length_pad_to[OF assms(1), of "byte_bits s"] by simp
  have "length g = k" by (rule chunks_lengths[OF assms(1) len g])
  then show "c \<in> set alphabet"
    using bits_val_less[of g] assms(2) by (simp add: c)
qed

lemma length_encode_bits:
  assumes "0 < k"
  shows "length (encode_bits k alphabet s) = (8 * length s + k - 1) div k"
proof -
  have "length (pad_to k (byte_bits s)) = k * ((8 * length s + k - 1) div k)"
    using length_pad_to[OF assms, of "byte_bits s"] by simp
  from length_chunks[OF assms this] show ?thesis by (simp add: encode_bits_def)
qed

section \<open>Evaluation\<close>

text \<open>The six-bit groups by arithmetic on whole bytes, for evaluation.\<close>

lemma bits_add: "bits (j + k) n = bits j (n div 2 ^ k) @ bits k n"
proof (induction k arbitrary: n)
  case (Suc k)
  then show ?case by (simp add: div_mult2_eq)
qed simp

fun sextets :: "nat list \<Rightarrow> nat list" where
  "sextets [] = []"
| "sextets [a] = [a div 4, a mod 4 * 16]"
| "sextets [a, b] = [a div 4, a mod 4 * 16 + b div 16, b mod 16 * 4]"
| "sextets (a # b # c # s) =
     a div 4 # (a mod 4 * 16 + b div 16) # (b mod 16 * 4 + c div 64) # c mod 64 # sextets s"

lemma bits_8:
  "bits 8 n = bits 6 (n div 4) @ bits 2 n" "bits 8 n = bits 4 (n div 16) @ bits 4 n"
  "bits 8 n = bits 2 (n div 64) @ bits 6 n"
  using bits_add[of 6 2 n] bits_add[of 4 4 n] bits_add[of 2 6 n] by simp_all

lemma bits_val_acc: "bits_val bs a = a * 2 ^ length bs + bits_val bs 0"
proof (induction bs arbitrary: a)
  case (Cons b bs)
  show ?case using Cons[of "2 * a + of_bool b"] Cons[of "of_bool b"] by (simp add: algebra_simps)
qed simp

lemma group_bits:
  "group_val (bits 6 n) = n mod 64"
  "group_val (bits 2 m @ bits 4 n) = m mod 4 * 16 + n mod 16"
  "group_val (bits 4 m @ bits 2 n) = m mod 16 * 4 + n mod 4"
  by (simp_all add: group_val_def bits_val_append bits_val_bits bits_val_acc[of "bits 4 n"]
      bits_val_acc[of "bits 2 n"])

lemma chunks_first: "0 < k \<Longrightarrow> length x = k \<Longrightarrow> chunks k (x @ y) = x # chunks k y"
  by (subst chunks.simps) auto

lemma chunks_last: "0 < k \<Longrightarrow> length x = k \<Longrightarrow> chunks k x = [x]"
  using chunks_first[of k x "[]"] by (simp add: chunks.simps)

lemma chunks_two: "0 < k \<Longrightarrow> length x + length y = k \<Longrightarrow> chunks k (x @ y @ z) = (x @ y) # chunks k z"
  using chunks_first[of k "x @ y" z] by simp

lemma byte_div [simp]:
  "byte_of c div 4 mod 64 = byte_of c div 4" "byte_of c div 16 mod 16 = byte_of c div 16"
  "byte_of c div 64 mod 4 = byte_of c div 64"
  by (simp_all add: less_mult_imp_div_less)

lemma chunks_Nil [simp]: "chunks k [] = []"
  by (subst chunks.simps) simp

lemma replicate_bits: "replicate k False = bits k 0"
proof (induction k)
  case (Suc k)
  then show ?case using replicate_append_same[of k False] by simp
qed simp

lemma pad_block: "length x mod k = 0 \<Longrightarrow> pad_to k (x @ y) = x @ pad_to k y"
  by (simp add: pad_to_def mod_add_left_eq[symmetric])

lemma sextets_chunks: "map group_val (chunks 6 (pad_to 6 (byte_bits s))) = sextets (map byte_of s)"
proof (induction "map byte_of s" arbitrary: s rule: sextets.induct)
  case 1
  then show ?case by (simp add: pad_to_def byte_bits_code)
next
  case (2 a)
  then obtain c where s: "s = [c]" and a: "a = byte_of c" by auto
  have "pad_to 6 (byte_bits s) = bits 6 (a div 4) @ (bits 2 a @ bits 4 0) @ []"
    by (simp add: s a pad_to_def byte_bits_code bits_8(1) replicate_bits del: bits.simps)
  then show ?case using byte_of_less[of c]
    by (simp add: chunks_first chunks_last chunks_two group_bits s a del: bits.simps)
next
  case (3 a b)
  then obtain c d where s: "s = [c, d]" and a: "a = byte_of c" and b: "b = byte_of d" by auto
  have "pad_to 6 (byte_bits s) = bits 6 (a div 4) @ (bits 2 a @ bits 4 (b div 16)) @ (bits 4 b @ bits 2 0) @ []"
    by (simp add: s a b pad_to_def byte_bits_code bits_8(1)[of "byte_of c"] bits_8(2)[of "byte_of d"] replicate_bits
        del: bits.simps)
  then show ?case using byte_of_less[of c] byte_of_less[of d]
    by (simp add: chunks_first chunks_last chunks_two group_bits s a b del: bits.simps)
next
  case (4 a b c r)
  then obtain x y z t where s: "s = x # y # z # t" and a: "a = byte_of x" and b: "b = byte_of y"
    and c: "c = byte_of z" and r: "r = map byte_of t" by auto
  have "pad_to 6 (byte_bits s) = (bits 8 a @ bits 8 b @ bits 8 c) @ pad_to 6 (byte_bits t)"
    using pad_block[of "bits 8 a @ bits 8 b @ bits 8 c" 6 "byte_bits t"]
    by (simp add: s a b c byte_bits_code del: bits.simps)
  also have "\<dots> = bits 6 (a div 4) @ (bits 2 a @ bits 4 (b div 16)) @ (bits 4 b @ bits 2 (c div 64))
      @ bits 6 c @ pad_to 6 (byte_bits t)"
    by (simp add: bits_8(1)[of a] bits_8(2)[of b] bits_8(3)[of c] del: bits.simps)
  finally show ?case using byte_of_less[of x] byte_of_less[of y] byte_of_less[of z] 4(1)[OF r]
    by (simp add: chunks_first chunks_last chunks_two group_bits s a b c del: bits.simps)
qed

lemma base64_encode_code [code]:
  "raw_std_encode s = map (nth base64_std) (sextets (map byte_of s))"
  "raw_url_encode s = map (nth base64_url) (sextets (map byte_of s))"
  by (simp_all add: raw_std_encode_def raw_url_encode_def encode_bits_code sextets_chunks)


fun octets :: "nat list \<Rightarrow> nat list" where
  "octets [p, q] = [p * 4 + q div 16]"
| "octets [p, q, r] = [p * 4 + q div 16, q mod 16 * 16 + r div 4]"
| "octets (p # q # r # t # s) =
     (p * 4 + q div 16) # (q mod 16 * 16 + r div 4) # (r mod 4 * 64 + t) # octets s"
| "octets _ = []"

lemma bits_6:
  "bits 6 n = bits 2 (n div 16) @ bits 4 n" "bits 6 n = bits 4 (n div 4) @ bits 2 n"
  using bits_add[of 2 4 n] bits_add[of 4 2 n] by simp_all

lemma group_octet:
  "group_val (bits 6 m @ bits 2 n) = m mod 64 * 4 + n mod 4"
  "group_val (bits 4 m @ bits 4 n) = m mod 16 * 16 + n mod 16"
  "group_val (bits 2 m @ bits 6 n) = m mod 4 * 64 + n mod 64"
  by (simp_all add: group_val_def bits_val_append bits_val_bits bits_val_acc[of "bits 4 n"]
      bits_val_acc[of "bits 2 n"] bits_val_acc[of "bits 6 n"])

lemma take_block: "length x = k \<Longrightarrow> take (length (x @ y) div k * k) (x @ y) = x @ take (length y div k * k) y"
  by (cases "k = 0") (simp_all add: div_add1_eq)

lemma octets_chunks:
  assumes "\<forall>i \<in> set ix. i < 64"
  shows "map group_val (chunks 8 (take (length (concat (map (bits 6) ix)) div 8 * 8) (concat (map (bits 6) ix))))
    = octets ix"
  using assms
proof (induction ix rule: octets.induct)
  case (1 p q)
  then have "take (12 div 8 * 8) (bits 6 p @ bits 6 q) = (bits 6 p @ bits 2 (q div 16))"
    by (simp add: bits_6(1)[of q] del: bits.simps)
  with 1 show ?case by (simp add: chunks_last group_octet less_mult_imp_div_less del: bits.simps)
next
  case (2 p q r)
  then have "take (18 div 8 * 8) (bits 6 p @ bits 6 q @ bits 6 r)
      = bits 6 p @ bits 2 (q div 16) @ (bits 4 q @ bits 4 (r div 4)) @ []"
    by (simp add: bits_6(1)[of q] bits_6(2)[of r] del: bits.simps)
  with 2 show ?case
    by (simp add: chunks_last chunks_two group_octet less_mult_imp_div_less del: bits.simps)
next
  case (3 p q r t s)
  let ?b = "concat (map (bits 6) s)"
  let ?x = "bits 6 p @ bits 6 q @ bits 6 r @ bits 6 t"
  have "take (length (?x @ ?b) div 8 * 8) (?x @ ?b) = ?x @ take (length ?b div 8 * 8) ?b"
  proof -
    have "(24 + n) div 8 * 8 = 24 + n div 8 * 8" for n :: nat by presburger
    then have "length (?x @ ?b) div 8 * 8 = 24 + length ?b div 8 * 8" by simp
    then show ?thesis by (simp del: bits.simps)
  qed
  moreover have "?x = bits 6 p @ bits 2 (q div 16) @ bits 4 q @ bits 4 (r div 4) @ bits 2 r @ bits 6 t"
    by (simp add: bits_6(1)[of q] bits_6(2)[of r] del: bits.simps)
  moreover have "concat (map (bits 6) (p # q # r # t # s)) = ?x @ ?b" by simp
  ultimately have "chunks 8 (take (length (concat (map (bits 6) (p # q # r # t # s))) div 8 * 8)
      (concat (map (bits 6) (p # q # r # t # s))))
    = chunks 8 (bits 6 p @ bits 2 (q div 16) @ bits 4 q @ bits 4 (r div 4) @ bits 2 r @ bits 6 t
        @ take (length ?b div 8 * 8) ?b)"
    by (simp only: append_assoc)
  also have "\<dots> = (bits 6 p @ bits 2 (q div 16)) # (bits 4 q @ bits 4 (r div 4)) # (bits 2 r @ bits 6 t)
      # chunks 8 (take (length ?b div 8 * 8) ?b)"
    by (simp add: chunks_two del: bits.simps)
  finally have *: "chunks 8 (take (length (concat (map (bits 6) (p # q # r # t # s))) div 8 * 8)
      (concat (map (bits 6) (p # q # r # t # s))))
    = (bits 6 p @ bits 2 (q div 16)) # (bits 4 q @ bits 4 (r div 4)) # (bits 2 r @ bits 6 t)
      # chunks 8 (take (length ?b div 8 * 8) ?b)" .
  show ?case unfolding * using 3 by (simp add: group_octet less_mult_imp_div_less del: bits.simps)
qed (simp_all del: bits.simps)

lemma index_byte_less: "index_byte a c = Some i \<Longrightarrow> i < length a"
  by (induction a arbitrary: i) (auto split: if_splits)

definition decode_64 :: "string \<Rightarrow> string \<Rightarrow> string option" where
  "decode_64 alphabet s =
     (let t = filter (\<lambda>c. c \<noteq> CHR 0x0D \<and> c \<noteq> CHR 0x0A) s; ix = map (index_byte alphabet) t
      in if None \<in> set ix \<or> length t mod 4 = 1 then None
         else Some (map char_of (octets (map the ix))))"

lemma decode_64:
  assumes "length alphabet \<le> 64"
  shows "decode_bits 6 alphabet 4 [1] s = decode_64 alphabet s"
proof -
  let ?t = "filter (\<lambda>c. c \<noteq> CHR 0x0D \<and> c \<noteq> CHR 0x0A) s"
  let ?ix = "map (index_byte alphabet) ?t"
  have "bits_bytes (concat (map (\<lambda>i. bits 6 (the i)) ?ix)) = map char_of (octets (map the ?ix))"
    if "None \<notin> set ?ix"
  proof -
    have "\<forall>i \<in> set (map the ?ix). i < 64"
    proof
      fix i assume "i \<in> set (map the ?ix)"
      then obtain c where "c \<in> set ?t" "i = the (index_byte alphabet c)" by auto
      moreover with that have "index_byte alphabet c \<noteq> None" by force
      ultimately show "i < 64" using assms index_byte_less[of alphabet c i] by auto
    qed
    from octets_chunks[OF this] show ?thesis by (simp add: bits_bytes_code comp_def)
  qed
  then show ?thesis by (auto simp: decode_bits_def decode_64_def Let_def)
qed

lemma base64_decode_code [code]:
  "raw_std_decode = decode_64 base64_std" "raw_url_decode = decode_64 base64_url"
  unfolding raw_std_decode_def raw_url_decode_def
  by (rule ext, rule decode_64, simp add: base64_std_def base64_url_def)+

text \<open>\<^verbatim>\<open>hex.DecodeString\<close>: digits of either case, an even number of them.\<close>

definition hex_value :: "char \<Rightarrow> nat option" where
  "hex_value c = (let b = byte_of c in
     if 48 \<le> b \<and> b \<le> 57 then Some (b - 48) else if 97 \<le> b \<and> b \<le> 102 then Some (b - 87)
     else if 65 \<le> b \<and> b \<le> 70 then Some (b - 55) else None)"

fun hex_decode :: "string \<Rightarrow> string option" where
  "hex_decode [] = Some []"
| "hex_decode [c] = None"
| "hex_decode (c # d # cs) =
     (case (hex_value c, hex_value d, hex_decode cs) of
        (Some h, Some l, Some r) \<Rightarrow> Some (char_of (16 * h + l) # r)
      | _ \<Rightarrow> None)"

lemma hex_value_lower: "n < 16 \<Longrightarrow> hex_value (hex_lower n) = Some n"
  by (auto simp: hex_value_def hex_lower_def byte_of_def Let_def)

lemma hex_roundtrip: "hex_decode (hex_encode s) = Some s"
proof (induction s)
  case (Cons c s)
  have "byte_of c < 256" by simp
  then have "byte_of c div 16 < 16" "byte_of c mod 16 < 16" by (simp_all add: less_mult_imp_div_less)
  moreover have "char_of (byte_of c) = c" by (simp add: byte_of_def)
  ultimately show ?case using Cons by (simp add: hex_encode_def hex_value_lower)
qed (simp add: hex_encode_def)

end
