(* ===== verification/FieldCrypto.thy ===== *)
theory FieldCrypto imports Encodings GoStrings begin

text \<open>
  Column encryption, lookup hashes and opaque tokens (internal/auth/crypto.go).

  The primitives come from the Go cryptography packages and are a parameter, the record
  \<open>crypto\<close>; what the code relies on is stated as laws: an AEAD opens what it sealed
  (\<open>aead_ok\<close>), the random source fills the buffer it is given (\<open>rand_ok\<close>), a digest has its
  length (\<open>digest_ok\<close>). The random source is read at a position that every read advances, so an
  operation that draws randomness is an operation on that position.
\<close>

section \<open>Primitives\<close>

record crypto =
  c_sha256 :: "string \<Rightarrow> string"
  c_hmac_sha256 :: "string \<Rightarrow> string \<Rightarrow> string"
  c_hmac_sha1 :: "string \<Rightarrow> string \<Rightarrow> string"
  c_gcm_seal :: "string \<Rightarrow> string \<Rightarrow> string \<Rightarrow> string"
  c_gcm_open :: "string \<Rightarrow> string \<Rightarrow> string \<Rightarrow> string option"
  c_argon2id :: "string \<Rightarrow> string \<Rightarrow> nat \<Rightarrow> nat \<Rightarrow> nat \<Rightarrow> nat \<Rightarrow> string"
  c_rand :: "nat \<Rightarrow> nat \<Rightarrow> string option"

definition aead_ok :: "crypto \<Rightarrow> bool" where
  "aead_ok cr \<longleftrightarrow> (\<forall>k n p. length k = 32 \<longrightarrow> length n = 12 \<longrightarrow>
     c_gcm_open cr k n (c_gcm_seal cr k n p) = Some p)"

definition rand_ok :: "crypto \<Rightarrow> bool" where
  "rand_ok cr \<longleftrightarrow> (\<forall>d n b. c_rand cr d n = Some b \<longrightarrow> length b = n)"

definition digest_ok :: "crypto \<Rightarrow> bool" where
  "digest_ok cr \<longleftrightarrow> (\<forall>s. length (c_sha256 cr s) = 32)
     \<and> (\<forall>k s. length (c_hmac_sha256 cr k s) = 32) \<and> (\<forall>k s. length (c_hmac_sha1 cr k s) = 20)"

datatype crypto_error = CipherNotConfigured | InvalidCiphertext | KeyInvalid | RandFailed

text \<open>\<^verbatim>\<open>rand.Read(make([]byte, n))\<close> on the position of the random source.\<close>

definition rand_read :: "crypto \<Rightarrow> nat \<Rightarrow> (nat, crypto_error, string) op" where
  "rand_read cr n d =
     (case c_rand cr d n of None \<Rightarrow> (Inl RandFailed, Suc d) | Some b \<Rightarrow> (Inr b, Suc d))"

lemma rand_read_Inr:
  "rand_read cr n d = (Inr b, d') \<longleftrightarrow> c_rand cr d n = Some b \<and> d' = Suc d"
  by (auto simp: rand_read_def split: option.splits)

section \<open>The field cipher\<close>

text \<open>
  \<^verbatim>\<open>FieldCipher\<close>. The key map is an association list from version bytes to keys; a nil
  receiver is \<^const>\<open>None\<close>.
\<close>

record field_cipher =
  fc_keys :: "(nat \<times> string) list"
  fc_primary :: nat
  fc_legacy :: "string option"

definition new_field_cipher :: "string \<Rightarrow> crypto_error + field_cipher" where
  "new_field_cipher key =
     (if length key \<noteq> 32 then Inl KeyInvalid
      else Inr \<lparr>fc_keys = [(1, key)], fc_primary = 1, fc_legacy = Some key\<rparr>)"

text \<open>\<^verbatim>\<open>keys[v]\<close> of a Go map: nil, of length 0, for a missing key.\<close>

definition ring_key :: "(nat \<times> string) list \<Rightarrow> nat \<Rightarrow> string" where
  "ring_key keys v = (case map_of keys v of None \<Rightarrow> [] | Some k \<Rightarrow> k)"

definition new_field_cipher_ring ::
  "nat \<Rightarrow> (nat \<times> string) list \<Rightarrow> string option \<Rightarrow> crypto_error + field_cipher" where
  "new_field_cipher_ring primary keys legacy =
     (if primary = 0 then Inl KeyInvalid
      else if length (ring_key keys primary) \<noteq> 32 then Inl KeyInvalid
      else if list_ex (\<lambda>(v, k). v = 0 \<or> length k \<noteq> 32) keys then Inl KeyInvalid
      else Inr \<lparr>fc_keys = keys, fc_primary = primary,
                fc_legacy = (case legacy of Some k \<Rightarrow> if length k = 32 then Some k else None
                                          | None \<Rightarrow> None)\<rparr>)"

definition primary_version :: "field_cipher option \<Rightarrow> nat" where
  "primary_version co = (case co of None \<Rightarrow> 0 | Some c \<Rightarrow> fc_primary c)"

definition needs_rotation :: "field_cipher option \<Rightarrow> string \<Rightarrow> bool" where
  "needs_rotation co ct =
     (case co of None \<Rightarrow> False
      | Some c \<Rightarrow> (case ct of [] \<Rightarrow> True | b # _ \<Rightarrow> byte_of b \<noteq> fc_primary c))"

text \<open>\<^verbatim>\<open>gcmFor\<close>: AES accepts keys of 16, 24 and 32 bytes; the GCM nonce has 12.\<close>

definition gcm_for :: "string \<Rightarrow> crypto_error + string" where
  "gcm_for key = (if length key \<in> {16, 24, 32} then Inr key else Inl KeyInvalid)"

definition gcm_open :: "crypto \<Rightarrow> string \<Rightarrow> string \<Rightarrow> crypto_error + string" where
  "gcm_open cr key blob =
     (case gcm_for key of
        Inl e \<Rightarrow> Inl e
      | Inr k \<Rightarrow>
          if length blob < 12 then Inl InvalidCiphertext
          else (case c_gcm_open cr k (take 12 blob) (drop 12 blob) of
                  None \<Rightarrow> Inl InvalidCiphertext | Some p \<Rightarrow> Inr p))"

definition fc_seal ::
  "crypto \<Rightarrow> field_cipher option \<Rightarrow> string \<Rightarrow> (nat, crypto_error, string) op" where
  "fc_seal cr co plaintext =
     (case co of
        None \<Rightarrow> fail CipherNotConfigured
      | Some c \<Rightarrow>
          if length (ring_key (fc_keys c) (fc_primary c)) \<noteq> 32 then fail CipherNotConfigured
          else (case gcm_for (ring_key (fc_keys c) (fc_primary c)) of
                  Inl e \<Rightarrow> fail e
                | Inr k \<Rightarrow>
                    bindM (rand_read cr 12) (\<lambda>nonce.
                    ret (char_of (fc_primary c) # nonce @ c_gcm_seal cr k nonce plaintext))))"

definition fc_open :: "crypto \<Rightarrow> field_cipher option \<Rightarrow> string \<Rightarrow> crypto_error + string" where
  "fc_open cr co ct =
     (case co of
        None \<Rightarrow> Inl CipherNotConfigured
      | Some c \<Rightarrow>
          if fc_keys c = [] then Inl CipherNotConfigured
          else
            let legacy = (case fc_legacy c of
                            None \<Rightarrow> Inl InvalidCiphertext
                          | Some k \<Rightarrow> (case gcm_open cr k ct of
                                        Inr p \<Rightarrow> Inr p | Inl _ \<Rightarrow> Inl InvalidCiphertext))
            in (case ct of
                  [] \<Rightarrow> legacy
                | b # rest \<Rightarrow>
                    (case map_of (fc_keys c) (byte_of b) of
                       None \<Rightarrow> legacy
                     | Some k \<Rightarrow> (case gcm_open cr k rest of Inr p \<Rightarrow> Inr p | Inl _ \<Rightarrow> legacy))))"

section \<open>Lookup hashes and tokens\<close>

definition lookup_hash :: "crypto \<Rightarrow> string \<Rightarrow> string \<Rightarrow> crypto_error + string" where
  "lookup_hash cr key v =
     (if length key \<noteq> 32 then Inl KeyInvalid else Inr (c_hmac_sha256 cr key v))"

record lookup_hasher =
  lh_primary :: string
  lh_secondary :: "string list"

definition new_lookup_hasher ::
  "string option \<Rightarrow> string list \<Rightarrow> crypto_error + lookup_hasher option" where
  "new_lookup_hasher primary secondary =
     (case primary of
        None \<Rightarrow> Inr None
      | Some p \<Rightarrow>
          if length p \<noteq> 32 then Inl KeyInvalid
          else if list_ex (\<lambda>k. length k \<noteq> 32) secondary then Inl KeyInvalid
          else Inr (Some \<lparr>lh_primary = p, lh_secondary = secondary\<rparr>))"

definition lh_hash :: "crypto \<Rightarrow> lookup_hasher \<Rightarrow> string \<Rightarrow> string" where
  "lh_hash cr h v = c_hmac_sha256 cr (lh_primary h) v"

definition lh_candidates :: "crypto \<Rightarrow> lookup_hasher \<Rightarrow> string \<Rightarrow> string list" where
  "lh_candidates cr h v =
     c_hmac_sha256 cr (lh_primary h) v # map (\<lambda>k. c_hmac_sha256 cr k v) (lh_secondary h)"

definition lh_needs_rotation :: "crypto \<Rightarrow> lookup_hasher \<Rightarrow> string \<Rightarrow> string \<Rightarrow> bool" where
  "lh_needs_rotation cr h stored v \<longleftrightarrow> stored \<noteq> lh_hash cr h v"

definition hash_opaque_token :: "crypto \<Rightarrow> string \<Rightarrow> string" where
  "hash_opaque_token cr token = c_sha256 cr token"

definition new_opaque_token :: "crypto \<Rightarrow> nat \<Rightarrow> (nat, crypto_error, string) op" where
  "new_opaque_token cr n =
     bindM (rand_read cr (if n < 32 then 32 else n)) (\<lambda>raw. ret (raw_url_encode raw))"

definition constant_time_string_equal :: "string \<Rightarrow> string \<Rightarrow> bool" where
  "constant_time_string_equal l r \<longleftrightarrow> l = r"

definition normalize_email :: "unicode \<Rightarrow> string \<Rightarrow> string" where
  "normalize_email u email = to_lower u (trim_space email)"

section \<open>Well-formed keyrings\<close>

definition ring_ok :: "field_cipher \<Rightarrow> bool" where
  "ring_ok c \<longleftrightarrow> 1 \<le> fc_primary c \<and> fc_primary c < 256
     \<and> length (ring_key (fc_keys c) (fc_primary c)) = 32
     \<and> (\<forall>(v, k) \<in> set (fc_keys c). length k = 32)
     \<and> (\<forall>k. fc_legacy c = Some k \<longrightarrow> length k = 32)"

lemma ring_key_32: "length (ring_key keys v) = 32 \<longleftrightarrow> (\<exists>k. map_of keys v = Some k \<and> length k = 32)"
  by (auto simp: ring_key_def split: option.splits)

lemma new_ring_ok:
  "new_field_cipher_ring p keys legacy = Inr c \<Longrightarrow> p < 256 \<Longrightarrow> ring_ok c"
  by (fastforce simp: new_field_cipher_ring_def ring_ok_def list_ex_iff split: if_splits option.splits)

lemma new_cipher_ok: "new_field_cipher key = Inr c \<Longrightarrow> ring_ok c"
  by (auto simp: new_field_cipher_def ring_ok_def ring_key_def split: if_splits)

lemma gcm_open_sealed:
  assumes "aead_ok cr" "length k = 32" "length n = 12"
  shows "gcm_open cr k (n @ c_gcm_seal cr k n p) = Inr p"
  using assms by (simp add: gcm_open_def gcm_for_def aead_ok_def)

lemma byte_of_char_of: "v < 256 \<Longrightarrow> byte_of (char_of v) = v"
  by (simp add: byte_of_def)

lemma fc_seal_shape:
  assumes "ring_ok c" "rand_ok cr" "fc_seal cr (Some c) p d = (Inr ct, d')"
  obtains k n where "map_of (fc_keys c) (fc_primary c) = Some k" "length k = 32" "length n = 12"
    "ct = char_of (fc_primary c) # n @ c_gcm_seal cr k n p"
proof -
  from assms(1) obtain k where k: "map_of (fc_keys c) (fc_primary c) = Some k" "length k = 32"
    by (auto simp: ring_ok_def ring_key_32)
  then have "gcm_for (ring_key (fc_keys c) (fc_primary c)) = Inr k"
    by (simp add: ring_key_def gcm_for_def)
  with assms(3) k obtain n where "c_rand cr d 12 = Some n"
    "ct = char_of (fc_primary c) # n @ c_gcm_seal cr k n p"
    by (auto simp: fc_seal_def ring_key_def rand_read_Inr)
  with assms(2) k show thesis using that unfolding rand_ok_def by blast
qed

text \<open>Whoever holds the key of the version byte opens the value, whatever else is in the ring.\<close>

lemma fc_open_version:
  assumes "aead_ok cr" "map_of (fc_keys c') v = Some k" "v < 256" "length k = 32" "length n = 12"
  shows "fc_open cr (Some c') (char_of v # n @ c_gcm_seal cr k n p) = Inr p"
proof -
  have "fc_keys c' \<noteq> []" using assms(2) by auto
  with assms show ?thesis by (simp add: fc_open_def Let_def byte_of_char_of gcm_open_sealed)
qed

lemma fc_open_legacy:
  assumes "aead_ok cr" "fc_legacy c = Some k" "length k = 32" "length n = 12" "fc_keys c \<noteq> []"
    and "\<And>b rest k'. n @ c_gcm_seal cr k n p = b # rest \<Longrightarrow>
           map_of (fc_keys c) (byte_of b) = Some k' \<Longrightarrow> \<exists>e. gcm_open cr k' rest = Inl e"
  shows "fc_open cr (Some c) (n @ c_gcm_seal cr k n p) = Inr p"
proof -
  obtain b rest where br: "n @ c_gcm_seal cr k n p = b # rest"
    using assms(4) by (cases n) auto
  have "fc_legacy c = Some k" "gcm_open cr k (b # rest) = Inr p"
    using assms(2) gcm_open_sealed[OF assms(1,3,4), of p] by (simp_all add: br)
  then show ?thesis using assms(5) assms(6)[OF br]
    by (auto simp: fc_open_def Let_def br split: option.splits sum.splits)
qed

text \<open>
  A concrete instance of the primitives, for evaluating the model: the seal appends the key's
  and the nonce's first bytes, digests are fixed-length summaries. It satisfies the laws.
\<close>

definition pad_len :: "nat \<Rightarrow> string \<Rightarrow> string" where
  "pad_len n s = take n (s @ replicate n CHR 0x00)"

definition toy_seal :: "string \<Rightarrow> string \<Rightarrow> string \<Rightarrow> string" where
  "toy_seal k n p = p @ take 8 k @ take 8 n"

definition toy_open :: "string \<Rightarrow> string \<Rightarrow> string \<Rightarrow> string option" where
  "toy_open k n c = (if has_suffix c (take 8 k @ take 8 n)
                     then Some (take (length c - length (take 8 k @ take 8 n)) c) else None)"

definition toy_crypto :: crypto where
  "toy_crypto =
     \<lparr>c_sha256 = pad_len 32, c_hmac_sha256 = (\<lambda>k s. pad_len 32 (take 4 k @ s)),
      c_hmac_sha1 = (\<lambda>k s. pad_len 20 (take 4 k @ s)),
      c_gcm_seal = toy_seal, c_gcm_open = toy_open,
      c_argon2id = (\<lambda>pw salt t m p n. pad_len n (take 4 salt @ pw)),
      c_rand = (\<lambda>d n. Some (replicate n (char_of (d mod 256))))\<rparr>"

lemma length_pad_len [simp]: "length (pad_len n s) = n"
  by (simp add: pad_len_def)

lemma toy_aead: "aead_ok toy_crypto"
  by (simp add: aead_ok_def toy_crypto_def toy_seal_def toy_open_def has_suffix_def)

lemma toy_rand: "rand_ok toy_crypto"
  by (auto simp: rand_ok_def toy_crypto_def)

lemma toy_digest: "digest_ok toy_crypto"
  by (simp add: digest_ok_def toy_crypto_def)

section \<open>Properties\<close>

lemma fc_open_seal:
  assumes "aead_ok cr" "rand_ok cr" "ring_ok c" "fc_seal cr (Some c) p d = (Inr ct, d')"
  shows "fc_open cr (Some c) ct = Inr p \<and> \<not> needs_rotation (Some c) ct"
proof -
  from fc_seal_shape[OF assms(3,2,4)] obtain k n
    where ct: "map_of (fc_keys c) (fc_primary c) = Some k" "length k = 32" "length n = 12"
      "ct = char_of (fc_primary c) # n @ c_gcm_seal cr k n p" .
  have "fc_primary c < 256" using assms(3) by (simp add: ring_ok_def)
  with fc_open_version[OF assms(1) ct(1) _ ct(2,3)] show ?thesis
    by (simp add: ct(4) needs_rotation_def byte_of_char_of)
qed

text \<open>
  Property C3. Open gives back what Seal wrote: under a well-formed keyring a sealed value opens
  to the plaintext, carries the primary's version byte and is not due for rotation.
\<close>

theorem open_seal:
  assumes "aead_ok cr" "rand_ok cr" "ring_ok c" "fc_seal cr (Some c) p d = (Inr ct, d')"
  shows "fc_open cr (Some c) ct = Inr p \<and> \<not> needs_rotation (Some c) ct"
  using assms by (rule fc_open_seal)

theorem open_seal_witness:
  "let c = \<lparr>fc_keys = [(1, replicate 32 CHR ''k'')], fc_primary = 1, fc_legacy = None\<rparr>
   in fc_open toy_crypto (Some c) (projr (fst (fc_seal toy_crypto (Some c) ''a@b'' 0))) = Inr ''a@b''"
proof -
  let ?c = "\<lparr>fc_keys = [(1, replicate 32 CHR ''k'')], fc_primary = 1, fc_legacy = None\<rparr>"
  have ok: "ring_ok ?c" by (simp add: ring_ok_def ring_key_def)
  obtain ct d' where run: "fc_seal toy_crypto (Some ?c) ''a@b'' 0 = (Inr ct, d')"
    by (simp add: fc_seal_def ring_key_def gcm_for_def rand_read_def toy_crypto_def bindM_def ret_def)
  from open_seal[OF toy_aead toy_rand ok run] run show ?thesis by simp
qed

text \<open>
  Property C4. Keys rotate without a flag day: when a new keyring keeps the old primary key under
  its version, every value sealed before still opens under it, and it is due for rotation
  exactly when the primary version changed.
\<close>

theorem rotation_keeps_values:
  assumes "aead_ok cr" "rand_ok cr" "ring_ok old" "fc_seal cr (Some old) p d = (Inr ct, d')"
    and "new_field_cipher_ring v keys legacy = Inr new" "v < 256"
    and "map_of keys (fc_primary old) = map_of (fc_keys old) (fc_primary old)"
  shows "fc_open cr (Some new) ct = Inr p \<and> (needs_rotation (Some new) ct \<longleftrightarrow> v \<noteq> fc_primary old)"
proof -
  from fc_seal_shape[OF assms(3,2,4)] obtain k n
    where ct: "map_of (fc_keys old) (fc_primary old) = Some k" "length k = 32" "length n = 12"
      "ct = char_of (fc_primary old) # n @ c_gcm_seal cr k n p" .
  have new: "fc_keys new = keys" "fc_primary new = v"
    using assms(5) by (auto simp: new_field_cipher_ring_def split: if_splits)
  have "map_of (fc_keys new) (fc_primary old) = Some k" using assms(7) ct(1) new by simp
  moreover have "fc_primary old < 256" using assms(3) by (simp add: ring_ok_def)
  ultimately show ?thesis using fc_open_version[OF assms(1) _ _ ct(2,3)]
    by (auto simp: ct(4) needs_rotation_def byte_of_char_of new)
qed

theorem rotation_keeps_values_witness:
  "\<exists>new ct. new_field_cipher_ring 2 [(1, replicate 32 CHR ''a''), (2, replicate 32 CHR ''b'')] None
              = Inr new
     \<and> fc_open toy_crypto (Some new) ct = Inr ''pii'' \<and> needs_rotation (Some new) ct"
proof -
  let ?old = "\<lparr>fc_keys = [(1, replicate 32 CHR ''a'')], fc_primary = 1, fc_legacy = None\<rparr>"
  let ?keys = "[(1, replicate 32 CHR ''a''), (2, replicate 32 CHR ''b'')]"
  have ok: "ring_ok ?old" by (simp add: ring_ok_def ring_key_def)
  obtain ct d' where run: "fc_seal toy_crypto (Some ?old) ''pii'' 0 = (Inr ct, d')"
    by (simp add: fc_seal_def ring_key_def gcm_for_def rand_read_def toy_crypto_def bindM_def ret_def)
  obtain new where new: "new_field_cipher_ring 2 ?keys None = Inr new"
    by (simp add: new_field_cipher_ring_def ring_key_def)
  from rotation_keeps_values[OF toy_aead toy_rand ok run new] new show ?thesis by auto
qed

text \<open>
  Lookup keys rotate the same way: with the retired key among the secondary keys, the hash a row
  was written with is among the candidates of its value.
\<close>

lemma lookup_rotation:
  assumes "new_lookup_hasher (Some p) secondary = Inr (Some h)" "lh_primary old \<in> set (p # secondary)"
  shows "lh_hash cr old v \<in> set (lh_candidates cr h v)
    \<and> (lh_needs_rotation cr h (lh_hash cr old v) v \<longleftrightarrow> lh_hash cr old v \<noteq> lh_hash cr h v)
    \<and> \<not> lh_needs_rotation cr h (hd (lh_candidates cr h v)) v"
  using assms
  by (auto simp: new_lookup_hasher_def lh_candidates_def lh_hash_def lh_needs_rotation_def
      split: if_splits)

end
