(* ===== verification/GoTime.thy ===== *)
theory GoTime imports Prelude begin

text \<open>
  Times and durations: a \<^verbatim>\<open>time.Time\<close> is its number of nanoseconds from the Unix epoch and
  a \<^verbatim>\<open>time.Duration\<close> a number of nanoseconds, both as integers. The saturation of
  \<^verbatim>\<open>Time.Sub\<close> beyond 292 years is not modelled. The zero \<^verbatim>\<open>time.Time\<close> is the first
  instant of year 1.
\<close>

type_synonym time = int
type_synonym duration = int

definition zero_time :: time where
  "zero_time = - 62135596800 * 1000000000"

abbreviation millisecond :: duration where
  "millisecond \<equiv> 1000000"

abbreviation second :: duration where
  "second \<equiv> 1000000000"

abbreviation minute :: duration where
  "minute \<equiv> 60000000000"

abbreviation hour :: duration where
  "hour \<equiv> 3600000000000"

text \<open>\<^verbatim>\<open>Time.Unix()\<close>: whole seconds, rounded down.\<close>

definition unix :: "time \<Rightarrow> int" where
  "unix t = t div second"

text \<open>Go's integer division truncates towards zero.\<close>

definition go_div :: "int \<Rightarrow> int \<Rightarrow> int" where
  "go_div a b = sgn a * sgn b * (\<bar>a\<bar> div \<bar>b\<bar>)"

lemma go_div_nonneg: "0 \<le> a \<Longrightarrow> 0 < b \<Longrightarrow> go_div a b = a div b"
  by (cases "a = 0") (simp_all add: go_div_def)

end
