(* ===== verification/Totp.thy ===== *)
theory Totp imports FieldCrypto GoTime "HOL-Library.Word" begin

unbundle bit_operations_syntax

text \<open>
  Time-based one-time passwords (the pure part of internal/auth/mfa.go): secrets, the code of a
  time step (RFC 6238 with HMAC-SHA-1 and 6 digits) and its verification with a clock skew of
  one step. The dynamic truncation is on \<^typ>\<open>32 word\<close>, the counter on \<^typ>\<open>64 word\<close>.
\<close>

definition totp_period_seconds :: int where "totp_period_seconds = 30"
definition totp_digits :: nat where "totp_digits = 6"
definition mfa_secret_bytes :: nat where "mfa_secret_bytes = 20"
definition mfa_issuer :: string where "mfa_issuer = ''STA''"
definition mfa_secret_max_age :: duration where "mfa_secret_max_age = 15 * minute"
definition totp_clock_skew :: int where "totp_clock_skew = 1"

definition new_totp_secret :: "crypto \<Rightarrow> (nat, crypto_error, string \<times> string) op" where
  "new_totp_secret cr =
     bindM (rand_read cr mfa_secret_bytes) (\<lambda>secret. ret (secret, base32_encode secret))"

text \<open>\<^const>\<open>None\<close> is \<^verbatim>\<open>ErrAdminMFAInvalid\<close>.\<close>

definition decode_totp_secret :: "unicode \<Rightarrow> string \<Rightarrow> string option" where
  "decode_totp_secret u raw =
     (let value = to_upper u (trim_space raw) in
      if value = [] \<or> 64 < length value then None
      else (case base32_decode value of
              None \<Rightarrow> None
            | Some secret \<Rightarrow> if length secret < 16 \<or> 64 < length secret then None else Some secret))"

definition put_uint64 :: "64 word \<Rightarrow> string" where
  "put_uint64 w = map (\<lambda>i. char_of (unat (drop_bit (56 - 8 * i) w AND 0xFF))) [0..<8]"

definition be_uint32 :: "string \<Rightarrow> 32 word" where
  "be_uint32 s = foldl (\<lambda>a c. push_bit 8 a OR of_nat (byte_of c)) 0 s"

definition zero_pad :: "nat \<Rightarrow> string \<Rightarrow> string" where
  "zero_pad n s = replicate (n - length s) (CHR ''0'') @ s"

definition totp_offset :: "string \<Rightarrow> nat" where
  "totp_offset mac = unat ((of_nat (byte_of (last mac)) :: 8 word) AND 0x0F)"

definition totp_code :: "crypto \<Rightarrow> string \<Rightarrow> int \<Rightarrow> string" where
  "totp_code cr secret step =
     (let mac = c_hmac_sha1 cr secret (put_uint64 (word_of_int step));
          value = be_uint32 (take 4 (drop (totp_offset mac) mac)) AND 0x7FFFFFFF
      in zero_pad totp_digits (itoa (unat (value mod 1000000))))"

fun verify_steps :: "crypto \<Rightarrow> string \<Rightarrow> string \<Rightarrow> int \<Rightarrow> int list \<Rightarrow> int option" where
  "verify_steps cr secret code current [] = None"
| "verify_steps cr secret code current (offset # offsets) =
     (let step = current + offset in
      if step < 0 then verify_steps cr secret code current offsets
      else if constant_time_string_equal (totp_code cr secret step) code then Some step
      else verify_steps cr secret code current offsets)"

definition verify_totp :: "crypto \<Rightarrow> string \<Rightarrow> string \<Rightarrow> time \<Rightarrow> int option" where
  "verify_totp cr secret code0 now =
     (let code = trim_space code0 in
      if length code \<noteq> totp_digits then None
      else if list_ex (\<lambda>(r, _). r < 48 \<or> 57 < r) (runes code) then None
      else verify_steps cr secret code (go_div (unix now) totp_period_seconds)
             [- totp_clock_skew .. totp_clock_skew])"

definition build_otpauth_url :: "string \<Rightarrow> string \<Rightarrow> string" where
  "build_otpauth_url username secret =
     ''otpauth://totp/'' @ query_escape (mfa_issuer @ '':'' @ trim_space username)
     @ ''?secret='' @ query_escape secret @ ''&issuer='' @ query_escape mfa_issuer
     @ ''&algorithm=SHA1&digits=6&period=30''"

section \<open>Codes are six digits\<close>

lemma itoa_length: "n < 10 ^ Suc k \<Longrightarrow> length (itoa n) \<le> Suc k"
proof (induction k arbitrary: n)
  case 0
  then show ?case by (subst itoa.simps) simp
next
  case (Suc k)
  show ?case
  proof (cases "n < 10")
    case True
    then show ?thesis by (subst itoa.simps) simp
  next
    case False
    have "n div 10 < 10 ^ Suc k" using Suc.prems by (simp add: less_mult_imp_div_less)
    from Suc.IH[OF this] False show ?thesis by (subst itoa.simps) simp
  qed
qed

lemma zero_pad_digits:
  "list_all is_digit_char s \<Longrightarrow> list_all is_digit_char (zero_pad n s)"
  "length s \<le> n \<Longrightarrow> length (zero_pad n s) = n"
  by (auto simp: zero_pad_def list_all_iff is_digit_char_def byte_of_def)

lemma totp_code_digits:
  "length (totp_code cr secret step) = 6 \<and> list_all is_digit_char (totp_code cr secret step)"
proof -
  have "unat ((v :: 32 word) mod 1000000) < 10 ^ Suc 5" for v
    by (simp add: unat_mod_distrib)
  then have "length (itoa (unat ((v :: 32 word) mod 1000000))) \<le> 6" for v
    using itoa_length by fastforce
  then show ?thesis
    by (simp add: totp_code_def Let_def zero_pad_digits totp_digits_def itoa_digits)
qed

lemma digits_ascii: "list_all is_digit_char s \<Longrightarrow> ascii s"
  by (auto simp: list_all_iff ascii_def is_digit_char_def)

lemma trim_digits: "list_all is_digit_char s \<Longrightarrow> trim_space s = s"
  by (rule trim_space_graphic) (auto simp: list_all_iff is_digit_char_def)

text \<open>The slice \<^verbatim>\<open>sum[offset:offset+4]\<close> never leaves the 20 bytes of the MAC.\<close>

lemma totp_offset_le: "totp_offset mac \<le> 15"
proof -
  have "(of_nat (byte_of (last mac)) :: 8 word) AND 0x0F \<le> 0x0F" by (rule word_and_le1)
  then show ?thesis by (simp add: totp_offset_def word_le_nat_alt)
qed

lemma totp_slice_in_range:
  "digest_ok cr \<Longrightarrow> length (take 4 (drop (totp_offset (c_hmac_sha1 cr k s)) (c_hmac_sha1 cr k s))) = 4"
  using totp_offset_le[of "c_hmac_sha1 cr k s"] by (simp add: digest_ok_def)

lemma verify_steps_Some:
  "verify_steps cr secret code cur offs = Some step \<Longrightarrow>
     0 \<le> step \<and> step - cur \<in> set offs \<and> totp_code cr secret step = code"
  by (induction offs) (auto simp: Let_def constant_time_string_equal_def split: if_splits)

lemma verify_steps_None:
  "verify_steps cr secret code cur offs = None \<Longrightarrow> off \<in> set offs \<Longrightarrow> 0 \<le> cur + off \<Longrightarrow>
     totp_code cr secret (cur + off) \<noteq> code"
  by (induction offs) (auto simp: Let_def constant_time_string_equal_def split: if_splits)

lemma digits_pass: "list_all is_digit_char s \<Longrightarrow> \<not> list_ex (\<lambda>(r, _). r < 48 \<or> 57 < r) (runes s)"
  by (auto simp: runes_ascii digits_ascii list_ex_iff list_all_iff is_digit_char_def)

section \<open>Properties\<close>

lemma verify_totp_step:
  "(verify_totp cr secret code now \<noteq> None \<longleftrightarrow>
      (\<exists>step. 0 \<le> step \<and> \<bar>step - go_div (unix now) 30\<bar> \<le> 1 \<and> trim_space code = totp_code cr secret step))
   \<and> (case verify_totp cr secret code now of None \<Rightarrow> True
      | Some step \<Rightarrow> 0 \<le> step \<and> \<bar>step - go_div (unix now) 30\<bar> \<le> 1
          \<and> trim_space code = totp_code cr secret step)"
proof -
  let ?cur = "go_div (unix now) 30" and ?code = "trim_space code"
  have sound: "0 \<le> step \<and> \<bar>step - ?cur\<bar> \<le> 1 \<and> ?code = totp_code cr secret step"
    if "verify_totp cr secret code now = Some step" for step
  proof -
    from that have run: "verify_steps cr secret ?code ?cur [- 1 .. 1] = Some step"
      by (auto simp: verify_totp_def Let_def totp_period_seconds_def totp_clock_skew_def
          split: if_splits)
    have "step - ?cur \<in> {- 1 .. 1}" using verify_steps_Some[OF run] by simp
    with verify_steps_Some[OF run] show ?thesis by auto
  qed
  have complete: "verify_totp cr secret code now \<noteq> None"
    if "0 \<le> step" "\<bar>step - ?cur\<bar> \<le> 1" "?code = totp_code cr secret step" for step
  proof
    assume none: "verify_totp cr secret code now = None"
    have "length ?code = 6" "\<not> list_ex (\<lambda>(r, _). r < 48 \<or> 57 < r) (runes ?code)"
      using totp_code_digits[of cr secret step] digits_pass by (simp_all add: that(3))
    with none have "verify_steps cr secret ?code ?cur [- 1 .. 1] = None"
      by (simp add: verify_totp_def Let_def totp_digits_def totp_period_seconds_def totp_clock_skew_def)
    moreover have "step - ?cur \<in> set [- 1 .. 1]" using that(2) by auto
    ultimately have "totp_code cr secret (?cur + (step - ?cur)) \<noteq> ?code"
      by (rule verify_steps_None) (use that(1) in simp)
    with that(3) show False by simp
  qed
  show ?thesis
  proof (cases "verify_totp cr secret code now")
    case None
    then have "\<nexists>step. 0 \<le> step \<and> \<bar>step - ?cur\<bar> \<le> 1 \<and> ?code = totp_code cr secret step"
      using complete by metis
    with None show ?thesis by simp
  next
    case (Some step)
    from sound[OF Some] show ?thesis by (auto simp: Some)
  qed
qed

text \<open>
  Property C6. A code is accepted exactly when, blanks around it apart, it is the six-digit code
  of the current 30-second step or of one of its two neighbours (never of a negative step), and
  the step reported is one of those.
\<close>

theorem verify_totp_iff:
  "(verify_totp cr secret code now \<noteq> None \<longleftrightarrow>
      (\<exists>step. 0 \<le> step \<and> \<bar>step - go_div (unix now) 30\<bar> \<le> 1 \<and> trim_space code = totp_code cr secret step))
   \<and> (case verify_totp cr secret code now of None \<Rightarrow> True
      | Some step \<Rightarrow> 0 \<le> step \<and> \<bar>step - go_div (unix now) 30\<bar> \<le> 1
          \<and> trim_space code = totp_code cr secret step)"
  by (rule verify_totp_step)

lemma step_neighbour:
  assumes "0 \<le> t" "0 \<le> t'" "\<bar>t' - t\<bar> \<le> 30 * second"
  shows "\<bar>go_div (unix t) 30 - go_div (unix t') 30\<bar> \<le> 1"
proof -
  have step: "go_div (unix x) 30 = x div (30 * second)" if "0 \<le> x" for x :: int
  proof -
    have "0 \<le> unix x" using that by (simp add: unix_def)
    then have "go_div (unix x) 30 = x div second div 30" by (simp add: go_div_nonneg unix_def)
    also have "\<dots> = x div (second * 30)" by (rule zdiv_zmult2_eq[symmetric]) simp
    finally show ?thesis by simp
  qed
  have "t' div (30 * second) \<le> (t + 30 * second) div (30 * second)"
    "t div (30 * second) \<le> (t' + 30 * second) div (30 * second)"
    using assms(3) by (auto intro!: zdiv_mono1)
  then show ?thesis by (simp add: step[OF assms(1)] step[OF assms(2)])
qed

text \<open>
  A code shown at one moment is accepted at every moment at most 30 seconds before
  or after it.
\<close>

theorem totp_skew_window:
  assumes "0 \<le> t" "0 \<le> t'" "\<bar>t' - t\<bar> \<le> 30 * second"
  shows "verify_totp cr secret (totp_code cr secret (go_div (unix t) 30)) t' \<noteq> None"
proof -
  have "0 \<le> go_div (unix t) 30" using assms(1) by (simp add: go_div_nonneg unix_def)
  moreover have "trim_space (totp_code cr secret (go_div (unix t) 30)) = totp_code cr secret (go_div (unix t) 30)"
    using totp_code_digits by (simp add: trim_digits)
  ultimately show ?thesis
    using verify_totp_step[of cr secret _ t'] step_neighbour[OF assms] by blast
qed

theorem totp_skew_window_witness:
  "verify_totp toy_crypto ''0123456789abcdef''
     (totp_code toy_crypto ''0123456789abcdef'' (go_div (unix (59 * second)) 30)) (89 * second) \<noteq> None"
  by (rule totp_skew_window) simp_all

lemma upper_base32: "set s \<subseteq> set base32_std \<Longrightarrow> to_upper u s = s"
proof -
  assume s: "set s \<subseteq> set base32_std"
  have all: "\<forall>c \<in> set base32_std. byte_of c < 0x80 \<and> 33 \<le> byte_of c \<and> \<not> (97 \<le> byte_of c \<and> byte_of c \<le> 122)"
    by (simp add: base32_std_def byte_of_def)
  then have "ascii s" using s by (auto simp: ascii_def list_all_iff)
  moreover have "map (\<lambda>c. char_of (rune_upper u (byte_of c))) s = s"
    using all s by (intro map_idI) (auto simp: rune_upper_def byte_of_def)
  ultimately show ?thesis by (simp add: to_upper_def)
qed

lemma set_base32_encode: "set (base32_encode s) \<subseteq> set base32_std"
  unfolding base32_encode_def by (rule set_encode_bits) (simp_all add: base32_std_def)

lemma length_base32_encode: "length (base32_encode s) = (8 * length s + 4) div 5"
  unfolding base32_encode_def by (simp add: length_encode_bits)

lemma trim_base32: "trim_space (base32_encode s) = base32_encode s"
proof (rule trim_space_graphic)
  have "\<forall>c \<in> set base32_std. 33 \<le> byte_of c \<and> byte_of c < 0x80"
    by (simp add: base32_std_def byte_of_def)
  then show "list_all (\<lambda>c. 33 \<le> byte_of c \<and> byte_of c < 0x80) (base32_encode s)"
    using set_base32_encode by (fastforce simp: list_all_iff)
qed

text \<open>
  A secret handed out by the enrolment decodes back to the bytes it was made of, so
  the authenticator and the server compute the same codes.
\<close>

theorem totp_secret_roundtrip:
  assumes "rand_ok cr" "new_totp_secret cr d = (Inr (secret, encoded), d')"
  shows "decode_totp_secret u encoded = Some secret \<and> length secret = 20"
proof -
  from assms have s: "length secret = 20" "encoded = base32_encode secret"
    by (auto simp: new_totp_secret_def rand_read_Inr mfa_secret_bytes_def rand_ok_def)
  have len: "length (base32_encode secret) = 32" by (simp add: length_base32_encode s(1))
  then have "base32_encode secret \<noteq> []" by auto
  with len s show ?thesis
    by (simp add: decode_totp_secret_def Let_def trim_base32 upper_base32 set_base32_encode)
qed

theorem totp_secret_roundtrip_witness:
  "\<exists>secret encoded. fst (new_totp_secret toy_crypto 3) = Inr (secret, encoded)
     \<and> (\<forall>u. decode_totp_secret u encoded = Some secret)"
proof -
  obtain secret encoded d' where run: "new_totp_secret toy_crypto 3 = (Inr (secret, encoded), d')"
    by (simp add: new_totp_secret_def rand_read_def bindM_def ret_def toy_crypto_def)
  from totp_secret_roundtrip[OF toy_rand run] run show ?thesis by auto
qed

end
