(* ===== verification/Password.thy ===== *)
theory Password imports FieldCrypto begin

text \<open>
  Password hashing and verification (internal/auth/password.go): the PHC-like string
  \<^verbatim>\<open>argon2id$v=19$m=..,t=..,p=..$salt$hash\<close>, its parser with the bounds it enforces before
  any Argon2 work is done, and the two operations on it. Argon2id itself is the parameter
  \<open>c_argon2id\<close> (password, salt, iterations, memory, parallelism, length).
\<close>

definition password_memory :: nat where "password_memory = 64 * 1024"
definition password_iterations :: nat where "password_iterations = 3"
definition password_parallelism :: nat where "password_parallelism = 2"
definition password_salt_bytes :: nat where "password_salt_bytes = 16"
definition password_key_bytes :: nat where "password_key_bytes = 32"

definition format_params :: "nat \<Rightarrow> nat \<Rightarrow> nat \<Rightarrow> string" where
  "format_params m t p = ''m='' @ itoa m @ '',t='' @ itoa t @ '',p='' @ itoa p"

definition hash_password :: "crypto \<Rightarrow> string \<Rightarrow> (nat, crypto_error, string) op" where
  "hash_password cr password =
     bindM (rand_read cr password_salt_bytes) (\<lambda>salt.
     ret (''argon2id$v=19$''
          @ format_params password_memory password_iterations password_parallelism
          @ ''$'' @ raw_std_encode salt
          @ ''$'' @ raw_std_encode (c_argon2id cr password salt password_iterations password_memory
                                      password_parallelism password_key_bytes)))"

record password_params =
  pp_memory :: nat
  pp_iterations :: nat
  pp_parallelism :: nat

text \<open>One \<^verbatim>\<open>k=v\<close> item; \<^const>\<open>None\<close> is \<^verbatim>\<open>errInvalidPasswordHash\<close>.\<close>

definition parse_param :: "string \<Rightarrow> password_params \<Rightarrow> password_params option" where
  "parse_param part r =
     (case split_2 (CHR ''='') part of
        [k, v] \<Rightarrow>
          (case parse_uint32 v of
             None \<Rightarrow> None
           | Some n \<Rightarrow>
               if n = 0 then None
               else if k = ''m'' then Some (r\<lparr>pp_memory := n\<rparr>)
               else if k = ''t'' then Some (r\<lparr>pp_iterations := n\<rparr>)
               else if k = ''p'' then (if 255 < n then None else Some (r\<lparr>pp_parallelism := n\<rparr>))
               else None)
      | _ \<Rightarrow> None)"

fun parse_params_loop :: "string list \<Rightarrow> password_params \<Rightarrow> password_params option" where
  "parse_params_loop [] r = Some r"
| "parse_params_loop (part # parts) r =
     (case parse_param part r of None \<Rightarrow> None | Some r' \<Rightarrow> parse_params_loop parts r')"

definition parse_password_params :: "string \<Rightarrow> password_params option" where
  "parse_password_params raw =
     (case parse_params_loop (split_on (CHR '','') raw)
             \<lparr>pp_memory = 0, pp_iterations = 0, pp_parallelism = 0\<rparr> of
        None \<Rightarrow> None
      | Some r \<Rightarrow>
          if pp_memory r < 16 * 1024 \<or> 1024 * 1024 < pp_memory r
             \<or> pp_iterations r < 1 \<or> 10 < pp_iterations r
             \<or> pp_parallelism r < 1 \<or> 8 < pp_parallelism r
          then None else Some r)"

text \<open>\<^const>\<open>None\<close> is the error \<^verbatim>\<open>errInvalidPasswordHash\<close>.\<close>

definition verify_password :: "crypto \<Rightarrow> string \<Rightarrow> string \<Rightarrow> bool option" where
  "verify_password cr password encoded =
     (case split_on (CHR ''$'') encoded of
        [p0, p1, p2, p3, p4] \<Rightarrow>
          if p0 \<noteq> ''argon2id'' \<or> p1 \<noteq> ''v=19'' then None
          else (case parse_password_params p2 of
                  None \<Rightarrow> None
                | Some ps \<Rightarrow>
                    (case raw_std_decode p3 of
                       None \<Rightarrow> None
                     | Some salt \<Rightarrow>
                         if length salt < 16 \<or> 64 < length salt then None
                         else (case raw_std_decode p4 of
                                 None \<Rightarrow> None
                               | Some want \<Rightarrow>
                                   if length want < 16 \<or> 64 < length want then None
                                   else Some (c_argon2id cr password salt (pp_iterations ps)
                                                (pp_memory ps) (pp_parallelism ps) (length want)
                                              = want))))
      | _ \<Rightarrow> None)"

section \<open>Parsing what was printed\<close>

lemma itoa_no: "\<not> is_digit_char c \<Longrightarrow> c \<notin> set (itoa n)"
  using itoa_digits[of n] by (auto simp: list_all_iff)

lemma parse_param_print:
  "n < 2 ^ 32 \<Longrightarrow> n \<noteq> 0 \<Longrightarrow> parse_param (''m='' @ itoa n) r = Some (r\<lparr>pp_memory := n\<rparr>)"
  "n < 2 ^ 32 \<Longrightarrow> n \<noteq> 0 \<Longrightarrow> parse_param (''t='' @ itoa n) r = Some (r\<lparr>pp_iterations := n\<rparr>)"
  "n < 256 \<Longrightarrow> n \<noteq> 0 \<Longrightarrow> parse_param (''p='' @ itoa n) r = Some (r\<lparr>pp_parallelism := n\<rparr>)"
  using split_2_sep[of "CHR ''=''" "''m''"] split_2_sep[of "CHR ''=''" "''t''"]
    split_2_sep[of "CHR ''=''" "''p''"]
  by (simp_all add: parse_param_def parse_itoa)

lemma split_format_params:
  "split_on (CHR '','') (format_params m t p)
     = [''m='' @ itoa m, ''t='' @ itoa t, ''p='' @ itoa p]"
proof -
  have no: "CHR '','' \<notin> set (''m='' @ itoa m)" "CHR '','' \<notin> set (''t='' @ itoa t)"
    "CHR '','' \<notin> set (''p='' @ itoa p)"
    by (simp_all add: itoa_no is_digit_char_def byte_of_def)
  have "split_on (CHR '','')
      ((''m='' @ itoa m) @ CHR '','' # (''t='' @ itoa t) @ CHR '','' # (''p='' @ itoa p))
    = [''m='' @ itoa m, ''t='' @ itoa t, ''p='' @ itoa p]"
    using no by (simp only: split_on_append split_on_single not_False_eq_True)
  then show ?thesis by (simp add: format_params_def)
qed

lemma parse_format_params:
  assumes "16 * 1024 \<le> m" "m \<le> 1024 * 1024" "1 \<le> t" "t \<le> 10" "1 \<le> p" "p \<le> 8"
  shows "parse_password_params (format_params m t p)
    = Some \<lparr>pp_memory = m, pp_iterations = t, pp_parallelism = p\<rparr>"
  using assms by (simp add: parse_password_params_def split_format_params parse_param_print
      del: append.simps)

lemma base64_std_no: "CHR ''$'' \<notin> set (raw_std_encode s)"
proof -
  have "set (raw_std_encode s) \<subseteq> set base64_std"
    unfolding raw_std_encode_def by (rule set_encode_bits) (simp_all add: base64_std_def)
  moreover have "CHR ''$'' \<notin> set base64_std" by (simp add: base64_std_def)
  ultimately show ?thesis by blast
qed

lemma split_encoded:
  assumes "CHR ''$'' \<notin> set params"
  shows "split_on (CHR ''$'')
      (''argon2id$v=19$'' @ params @ ''$'' @ raw_std_encode s @ ''$'' @ raw_std_encode h)
    = [''argon2id'', ''v=19'', params, raw_std_encode s, raw_std_encode h]"
proof -
  have "CHR ''$'' \<notin> set ''argon2id''" "CHR ''$'' \<notin> set ''v=19''" by simp_all
  with assms base64_std_no
  have "split_on (CHR ''$'')
      (''argon2id'' @ CHR ''$'' # ''v=19'' @ CHR ''$'' # params @ CHR ''$'' # raw_std_encode s
        @ CHR ''$'' # raw_std_encode h)
    = [''argon2id'', ''v=19'', params, raw_std_encode s, raw_std_encode h]"
    by (simp only: split_on_append split_on_single not_False_eq_True)
  then show ?thesis by simp
qed

lemma verify_encoded:
  assumes "16 * 1024 \<le> m" "m \<le> 1024 * 1024" "1 \<le> t" "t \<le> 10" "1 \<le> p" "p \<le> 8"
    and "16 \<le> length s" "length s \<le> 64" "16 \<le> length h" "length h \<le> 64"
  shows "verify_password cr pw
      (''argon2id$v=19$'' @ format_params m t p @ ''$'' @ raw_std_encode s @ ''$'' @ raw_std_encode h)
    = Some (c_argon2id cr pw s t m p (length h) = h)"
proof -
  have "CHR ''$'' \<notin> set (format_params m t p)"
    by (simp add: format_params_def itoa_no is_digit_char_def byte_of_def)
  from split_encoded[OF this] show ?thesis
    using assms parse_format_params[OF assms(1-6)]
    by (simp add: verify_password_def del: append.simps)
qed

section \<open>Properties\<close>

definition argon_ok :: "crypto \<Rightarrow> bool" where
  "argon_ok cr \<longleftrightarrow> (\<forall>pw s t m p n. length (c_argon2id cr pw s t m p n) = n)"

lemma verify_own_hash:
  assumes "rand_ok cr" "argon_ok cr" "hash_password cr pw d = (Inr enc, d')"
  shows "verify_password cr pw enc = Some True
    \<and> (\<exists>salt. c_rand cr d 16 = Some salt \<and> (\<forall>other. verify_password cr other enc =
         Some (c_argon2id cr other salt 3 (64 * 1024) 2 32 = c_argon2id cr pw salt 3 (64 * 1024) 2 32)))"
proof -
  from assms(3) obtain salt where salt: "c_rand cr d 16 = Some salt"
    "enc = ''argon2id$v=19$'' @ format_params (64 * 1024) 3 2 @ ''$'' @ raw_std_encode salt
      @ ''$'' @ raw_std_encode (c_argon2id cr pw salt 3 (64 * 1024) 2 32)"
    by (auto simp: hash_password_def rand_read_Inr password_memory_def password_iterations_def
        password_parallelism_def password_salt_bytes_def password_key_bytes_def)
  have len: "length salt = 16" "length (c_argon2id cr pw salt 3 (64 * 1024) 2 32) = 32"
    using assms(1,2) salt(1) by (auto simp: rand_ok_def argon_ok_def)
  have "verify_password cr other enc =
      Some (c_argon2id cr other salt 3 (64 * 1024) 2 32 = c_argon2id cr pw salt 3 (64 * 1024) 2 32)"
    for other
    unfolding salt(2) using len
      verify_encoded[where s = salt and h = "c_argon2id cr pw salt 3 (64 * 1024) 2 32"
        and m = "64 * 1024" and t = 3 and p = 2 and cr = cr and pw = other]
    by (simp del: append.simps)
  with salt(1) show ?thesis by auto
qed

lemma toy_argon: "argon_ok toy_crypto"
  by (simp add: argon_ok_def toy_crypto_def)

text \<open>
  Property C5. A stored hash accepts its own password and, of any other password, exactly those
  with the same Argon2 tag under the stored salt and cost: verification parses back every part
  of the string that hashing printed.
\<close>

theorem verify_hash_password:
  assumes "rand_ok cr" "argon_ok cr" "hash_password cr pw d = (Inr enc, d')"
  shows "verify_password cr pw enc = Some True
    \<and> (\<exists>salt. c_rand cr d 16 = Some salt \<and> (\<forall>other. verify_password cr other enc =
         Some (c_argon2id cr other salt 3 (64 * 1024) 2 32 = c_argon2id cr pw salt 3 (64 * 1024) 2 32)))"
  using assms by (rule verify_own_hash)

theorem verify_hash_password_witness:
  "\<exists>enc. fst (hash_password toy_crypto ''correct horse'' 7) = Inr enc
     \<and> verify_password toy_crypto ''correct horse'' enc = Some True"
proof -
  obtain enc d' where run: "hash_password toy_crypto ''correct horse'' 7 = (Inr enc, d')"
    by (simp add: hash_password_def rand_read_def bindM_def ret_def toy_crypto_def)
  from verify_hash_password[OF toy_rand toy_argon run] run show ?thesis by auto
qed

text \<open>
  Whatever string is stored, a verification that runs Argon2 at all runs it with
  memory between 16 MiB and 1 GiB, 1 to 10 iterations, 1 to 8 lanes and a salt and tag of 16 to
  64 bytes; every other string is refused before any work.
\<close>

theorem verify_password_bounds:
  assumes "verify_password cr pw enc = Some b"
  shows "\<exists>salt want m t p. 16 * 1024 \<le> m \<and> m \<le> 1024 * 1024 \<and> 1 \<le> t \<and> t \<le> 10 \<and> 1 \<le> p \<and> p \<le> 8
    \<and> 16 \<le> length salt \<and> length salt \<le> 64 \<and> 16 \<le> length want \<and> length want \<le> 64
    \<and> b = (c_argon2id cr pw salt t m p (length want) = want)"
proof -
  from assms obtain ps p2 p3 p4 salt want where
    parts: "parse_password_params p2 = Some ps" "raw_std_decode p3 = Some salt"
      "raw_std_decode p4 = Some want"
    and b: "16 \<le> length salt" "length salt \<le> 64" "16 \<le> length want" "length want \<le> 64"
      "b = (c_argon2id cr pw salt (pp_iterations ps) (pp_memory ps) (pp_parallelism ps) (length want) = want)"
    by (auto simp: verify_password_def split: list.splits option.splits if_splits)
  from parts(1) have "16 * 1024 \<le> pp_memory ps" "pp_memory ps \<le> 1024 * 1024"
    "1 \<le> pp_iterations ps" "pp_iterations ps \<le> 10" "1 \<le> pp_parallelism ps" "pp_parallelism ps \<le> 8"
    by (auto simp: parse_password_params_def split: option.splits if_splits)
  with b show ?thesis by blast
qed

theorem verify_password_bounds_witness:
  "\<exists>salt want m t p. 16 * 1024 \<le> m \<and> m \<le> 1024 * 1024 \<and> 1 \<le> t \<and> t \<le> 10 \<and> 1 \<le> p \<and> p \<le> 8
    \<and> 16 \<le> length salt \<and> length salt \<le> 64 \<and> 16 \<le> length want \<and> length want \<le> 64
    \<and> (c_argon2id toy_crypto ''x'' (replicate 16 CHR ''s'') 1 (16 * 1024) 1
          (length (replicate 16 CHR ''h'')) = replicate 16 CHR ''h'')
      = (c_argon2id toy_crypto ''x'' salt t m p (length want) = want)"
proof (rule verify_password_bounds)
  show "verify_password toy_crypto ''x'' (''argon2id$v=19$'' @ format_params (16 * 1024) 1 1
      @ ''$'' @ raw_std_encode (replicate 16 CHR ''s'') @ ''$'' @ raw_std_encode (replicate 16 CHR ''h''))
    = Some (c_argon2id toy_crypto ''x'' (replicate 16 CHR ''s'') 1 (16 * 1024) 1
        (length (replicate 16 CHR ''h'')) = replicate 16 CHR ''h'')"
    by (rule verify_encoded) simp_all
qed

end
