(* ===== verification/RateLimit.thy ===== *)
theory RateLimit imports GoStrings GoTime "HOL-Library.AList" begin

text \<open>
  The rate limiters of \<^verbatim>\<open>internal/security\<close>.

  \<^item> \<open>limiter\<close>: the process-local fixed-window limiter (limiter.go). Its map of entries is an
    association list whose order is the order in which the eviction loop visits the entries;
    Go leaves that order open, and no lemma here depends on it.
  \<^item> \<open>pg_allow\<close>: the PostgreSQL bucket table (postgres_limiter.go), one upsert per hit.
  \<^item> \<open>redis_allow\<close>: the Redis script (redis_limiter.go), INCR and PEXPIRE on one key.
  \<^item> \<open>check_distributed\<close>: the two-tier check (distributed_check.go).

  The locale \<open>window_limiter\<close> is the contract a caller relies on: within a window the limiter
  lets through exactly the hits the limit has room for. The local limiter and the Redis limiter
  satisfy it; the PostgreSQL limiter does not (\<open>pg_never_denies\<close>).
\<close>

section \<open>The local fixed-window limiter\<close>

record window_entry =
  started :: time
  hits :: int

record limiter =
  entries :: "(string \<times> window_entry) list"
  lim :: int
  window :: duration
  max_keys :: int

record take_result =
  allowed :: bool
  r_limit :: int
  remaining :: int
  reset :: time

definition new_fixed_window_limiter :: "int \<Rightarrow> duration \<Rightarrow> int \<Rightarrow> limiter" where
  "new_fixed_window_limiter l w m =
     \<lparr>entries = [],
      lim = (if l < 1 then 1 else l),
      window = (if w \<le> 0 then minute else w),
      max_keys = (if m < 1 then 1024 else m)\<rparr>"

definition retry_after :: "take_result \<Rightarrow> time \<Rightarrow> int" where
  "retry_after r now =
     (if allowed r then 0
      else let d = reset r - now in
           if d \<le> 0 then 1 else go_div (d + second - 1) second)"

fun oldest_loop :: "(string \<times> window_entry) list \<Rightarrow> string \<Rightarrow> time \<Rightarrow> string" where
  "oldest_loop [] oldest_key oldest = oldest_key"
| "oldest_loop ((key, entry) # es) oldest_key oldest =
     (if oldest_key = '''' \<or> started entry < oldest then oldest_loop es key (started entry)
      else oldest_loop es oldest_key oldest)"

definition evict_oldest :: "(string \<times> window_entry) list \<Rightarrow> (string \<times> window_entry) list" where
  "evict_oldest es =
     (let k = oldest_loop es '''' zero_time in if k \<noteq> '''' then AList.delete k es else es)"

definition norm_key :: "string \<Rightarrow> string" where
  "norm_key key = (if key = '''' then ''unknown'' else key)"

definition expired :: "limiter \<Rightarrow> window_entry \<Rightarrow> time \<Rightarrow> bool" where
  "expired l e now \<longleftrightarrow> window l \<le> now - started e \<or> now < started e"

text \<open>\<^verbatim>\<open>if !exists && len(l.entries) >= l.maxKeys { l.evictOldest() }\<close>\<close>

definition make_room :: "limiter \<Rightarrow> string \<Rightarrow> (string \<times> window_entry) list" where
  "make_room l key =
     (if map_of (entries l) key = None \<and> max_keys l \<le> int (length (entries l))
      then evict_oldest (entries l) else entries l)"

text \<open>A nil limiter is \<^const>\<open>None\<close>.\<close>

definition take_hit :: "limiter option \<Rightarrow> string \<Rightarrow> time \<Rightarrow> take_result \<times> limiter option" where
  "take_hit lo key0 now =
     (case lo of
        None \<Rightarrow> (\<lparr>allowed = True, r_limit = 0, remaining = 0, reset = zero_time\<rparr>, None)
      | Some l \<Rightarrow>
          let key = norm_key key0;
              e = map_of (entries l) key;
              fresh = (\<lparr>allowed = True, r_limit = lim l, remaining = lim l - 1,
                        reset = now + window l\<rparr>,
                       Some (l\<lparr>entries := AList.update key \<lparr>started = now, hits = 1\<rparr>
                                            (make_room l key)\<rparr>))
          in case e of
               None \<Rightarrow> fresh
             | Some entry \<Rightarrow>
                 if expired l entry now then fresh
                 else if lim l \<le> hits entry
                 then (\<lparr>allowed = False, r_limit = lim l, remaining = 0,
                        reset = started entry + window l\<rparr>, Some l)
                 else let entry' = entry\<lparr>hits := hits entry + 1\<rparr> in
                      (\<lparr>allowed = True, r_limit = lim l, remaining = lim l - hits entry',
                        reset = started entry + window l\<rparr>,
                       Some (l\<lparr>entries := AList.update key entry' (entries l)\<rparr>)))"

definition allow_hit :: "limiter option \<Rightarrow> string \<Rightarrow> time \<Rightarrow> bool \<times> limiter option" where
  "allow_hit lo key now = (let (r, lo') = take_hit lo key now in (allowed r, lo'))"

definition peek :: "limiter option \<Rightarrow> string \<Rightarrow> time \<Rightarrow> take_result" where
  "peek lo key0 now =
     (case lo of
        None \<Rightarrow> \<lparr>allowed = True, r_limit = 0, remaining = 0, reset = zero_time\<rparr>
      | Some l \<Rightarrow>
          (case map_of (entries l) (norm_key key0) of
             None \<Rightarrow> \<lparr>allowed = True, r_limit = lim l, remaining = lim l, reset = now + window l\<rparr>
           | Some entry \<Rightarrow>
               if expired l entry now
               then \<lparr>allowed = True, r_limit = lim l, remaining = lim l, reset = now + window l\<rparr>
               else if lim l \<le> hits entry
               then \<lparr>allowed = False, r_limit = lim l, remaining = 0,
                     reset = started entry + window l\<rparr>
               else \<lparr>allowed = True, r_limit = lim l, remaining = lim l - hits entry,
                     reset = started entry + window l\<rparr>))"

definition rate_limit_headers :: "take_result \<Rightarrow> time \<Rightarrow> (string \<times> string) list" where
  "rate_limit_headers r now =
     (if r_limit r = 0 then []
      else [(''X-RateLimit-Limit'', itoa_int (r_limit r)),
            (''X-RateLimit-Remaining'', itoa_int (max (remaining r) 0)),
            (''X-RateLimit-Reset'', itoa_int (unix (reset r)))]
           @ (if \<not> allowed r then [(''Retry-After'', itoa_int (retry_after r now))] else []))"

section \<open>The distributed limiters\<close>

datatype limiter_error = LimiterUnavailable | LimiterKeyInvalid

text \<open>The clamping and key checks, written out in both distributed limiters.\<close>

definition clamp_limit_arg :: "int \<Rightarrow> int" where
  "clamp_limit_arg l = (if l < 1 then 1 else l)"

definition clamp_window_arg :: "duration \<Rightarrow> duration" where
  "clamp_window_arg w = (if w \<le> 0 \<or> 24 * hour < w then minute else w)"

definition bucket_key_invalid :: "string \<Rightarrow> string \<Rightarrow> bool" where
  "bucket_key_invalid ns key \<longleftrightarrow>
     ns = '''' \<or> key = '''' \<or> 64 < length ns \<or> 512 < length key
     \<or> contains_any (ns @ key) [CHR 0x00, CHR 0x0D, CHR 0x0A]"

record bucket =
  bucket_key :: string
  window_started :: time
  request_count :: int
  expires_at :: time

text \<open>
  The upsert: a new row counts 1; on a conflict a stale or future window restarts at 1 and a
  live one counts up while the count is below the limit. The statement returns
  \<^verbatim>\<open>request_count <= limit\<close> of the row it leaves.
\<close>

definition bucket_update :: "time \<Rightarrow> time \<Rightarrow> int \<Rightarrow> bucket \<Rightarrow> bucket" where
  "bucket_update now expires l b =
     (if expires_at b \<le> now \<or> now < window_started b
      then b\<lparr>window_started := now, request_count := 1, expires_at := expires\<rparr>
      else b\<lparr>request_count := (if request_count b < l then request_count b + 1
                               else request_count b)\<rparr>)"

definition pg_upsert ::
  "bucket list \<Rightarrow> string \<Rightarrow> time \<Rightarrow> time \<Rightarrow> int \<Rightarrow> bool \<times> bucket list" where
  "pg_upsert rows k now expires l =
     (case List.find (\<lambda>b. bucket_key b = k) rows of
        None \<Rightarrow> (1 \<le> l, rows @ [\<lparr>bucket_key = k, window_started = now, request_count = 1,
                                expires_at = expires\<rparr>])
      | Some b \<Rightarrow> (request_count (bucket_update now expires l b) \<le> l,
                   update_where (\<lambda>b. bucket_key b = k) (bucket_update now expires l) rows))"

text \<open>\<open>broken\<close>: the query fails (no connection, timeout, server error).\<close>

definition pg_allow ::
  "bool \<Rightarrow> bool \<Rightarrow> bucket list \<Rightarrow> string \<Rightarrow> string \<Rightarrow> int \<Rightarrow> duration \<Rightarrow> time
    \<Rightarrow> (limiter_error + bool) \<times> bucket list" where
  "pg_allow configured broken rows ns0 key0 l0 w0 now =
     (if \<not> configured then (Inl LimiterUnavailable, rows)
      else
        let l = clamp_limit_arg l0; w = clamp_window_arg w0;
            ns = trim_space ns0; key = trim_space key0
        in if bucket_key_invalid ns key then (Inl LimiterKeyInvalid, rows)
           else if broken then (Inl LimiterUnavailable, rows)
           else let (ok, rows') = pg_upsert rows (ns @ '':'' @ key) now (now + w) l
                in (Inr ok, rows'))"

text \<open>
  Redis: a key with a counter and an optional expiry in Redis's own milliseconds. A key whose
  expiry has come is absent; \<^verbatim>\<open>PEXPIRE\<close> with a non-positive time deletes the key.
\<close>

type_synonym redis = "(string \<times> int \<times> int option) list"

definition redis_get :: "redis \<Rightarrow> int \<Rightarrow> string \<Rightarrow> (int \<times> int option) option" where
  "redis_get st t k =
     (case map_of st k of
        Some (v, Some x) \<Rightarrow> if x \<le> t then None else Some (v, Some x)
      | r \<Rightarrow> r)"

definition rate_limit_script :: "redis \<Rightarrow> int \<Rightarrow> string \<Rightarrow> int \<Rightarrow> int \<times> redis" where
  "rate_limit_script st t k ttl =
     (let (old, x) = (case redis_get st t k of None \<Rightarrow> (0, None) | Some r \<Rightarrow> r);
          current = old + 1
      in (current,
          if current = 1
          then (if ttl \<le> 0 then AList.delete k st
                else AList.update k (current, Some (t + ttl)) st)
          else AList.update k (current, x) st))"

definition redis_allow ::
  "bool \<Rightarrow> bool \<Rightarrow> redis \<Rightarrow> int \<Rightarrow> string \<Rightarrow> string \<Rightarrow> int \<Rightarrow> duration
    \<Rightarrow> (limiter_error + bool) \<times> redis" where
  "redis_allow configured broken st t ns0 key0 l0 w0 =
     (if \<not> configured then (Inl LimiterUnavailable, st)
      else
        let l = clamp_limit_arg l0; w = clamp_window_arg w0;
            ns = trim_space ns0; key = trim_space key0
        in if bucket_key_invalid ns key then (Inl LimiterKeyInvalid, st)
           else if broken then (Inl LimiterUnavailable, st)
           else let (count, st') =
                      rate_limit_script st t (''ratelimit:'' @ ns @ '':'' @ key) (w div millisecond)
                in (Inr (count \<le> l), st'))"

text \<open>
  \<^verbatim>\<open>CheckDistributed\<close>: a local rejection skips the distributed limiter, a missing one lets
  the request through.
\<close>

definition check_distributed ::
  "('s \<Rightarrow> (limiter_error + bool) \<times> 's) option \<Rightarrow> bool \<Rightarrow> 's \<Rightarrow> (limiter_error + bool) \<times> 's" where
  "check_distributed distributed local_allowed st =
     (if \<not> local_allowed then (Inr False, st)
      else case distributed of None \<Rightarrow> (Inr True, st) | Some allow \<Rightarrow> allow st)"

section \<open>The local limiter: invariant\<close>

definition limiter_ok :: "limiter \<Rightarrow> bool" where
  "limiter_ok l \<longleftrightarrow> 1 \<le> lim l \<and> 0 < window l \<and> 1 \<le> max_keys l
     \<and> distinct (map fst (entries l)) \<and> int (length (entries l)) \<le> max_keys l
     \<and> (\<forall>(k, e) \<in> set (entries l). k \<noteq> '''' \<and> 1 \<le> hits e \<and> hits e \<le> lim l)"

lemma norm_key_ne [simp]: "norm_key k \<noteq> ''''"
  by (simp add: norm_key_def)

lemma new_limiter_ok: "limiter_ok (new_fixed_window_limiter l w m)"
  by (simp add: limiter_ok_def new_fixed_window_limiter_def)

lemma oldest_loop_in: "oldest_loop es k t \<in> insert k (fst ` set es)"
proof (induction es k t rule: oldest_loop.induct)
  case (2 key entry es k t)
  then show ?case by (auto simp: image_iff)
qed simp

lemma oldest_loop_empty:
  assumes "'''' \<notin> fst ` set es" "es \<noteq> []"
  shows "oldest_loop es '''' t \<in> fst ` set es"
proof -
  obtain k e es' where es: "es = (k, e) # es'" using assms(2) by (cases es) auto
  then show ?thesis using oldest_loop_in[of es' k "started e"] by simp
qed

lemma length_delete:
  "distinct (map fst es) \<Longrightarrow> k \<in> fst ` set es \<Longrightarrow> Suc (length (AList.delete k es)) = length es"
proof (induction es)
  case (Cons x es)
  show ?case
  proof (cases "fst x = k")
    case True
    with Cons.prems have "k \<notin> fst ` set es" by auto
    with True show ?thesis by (cases x) (simp add: delete_id)
  next
    case False
    with Cons show ?thesis by (cases x) auto
  qed
qed simp

lemma evict_length:
  assumes "distinct (map fst es)" "'''' \<notin> fst ` set es" "es \<noteq> []"
  shows "Suc (length (evict_oldest es)) = length es"
proof -
  have in_es: "oldest_loop es '''' zero_time \<in> fst ` set es"
    using oldest_loop_empty[OF assms(2,3)] .
  with assms(2) have "oldest_loop es '''' zero_time \<noteq> ''''" by metis
  then show ?thesis
    using length_delete[OF assms(1) in_es] by (simp add: evict_oldest_def Let_def)
qed

lemma set_evict: "set (evict_oldest es) \<subseteq> set es"
  by (auto simp: evict_oldest_def Let_def AList.delete_eq)

lemma distinct_evict: "distinct (map fst es) \<Longrightarrow> distinct (map fst (evict_oldest es))"
  by (simp add: evict_oldest_def Let_def distinct_delete)

lemma set_update_subset: "set (AList.update k v es) \<subseteq> insert (k, v) (set es)"
  by (induction es) auto

lemma ball_update:
  "\<forall>x \<in> set es. P x \<Longrightarrow> P (k, v) \<Longrightarrow> \<forall>x \<in> set (AList.update k v es). P x"
  using set_update_subset[of k v es] by blast

lemma length_update:
  "length (AList.update k v es) = (if k \<in> fst ` set es then length es else Suc (length es))"
  by (induction es) auto

lemma map_of_None_key: "map_of es k = None \<longleftrightarrow> k \<notin> fst ` set es"
  by (rule map_of_eq_None_iff)

lemma limiter_ok_update:
  assumes ok: "limiter_ok l" and es: "distinct (map fst es)" "set es \<subseteq> set (entries l)"
    and e: "1 \<le> hits e" "hits e \<le> lim l"
    and len: "int (length (AList.update (norm_key k) e es)) \<le> max_keys l"
  shows "limiter_ok (l\<lparr>entries := AList.update (norm_key k) e es\<rparr>)"
proof -
  let ?row = "\<lambda>(k, e). k \<noteq> '''' \<and> 1 \<le> hits e \<and> hits e \<le> lim l"
  have "\<forall>x \<in> set es. ?row x" using ok es(2) by (auto simp: limiter_ok_def)
  then have "\<forall>x \<in> set (AList.update (norm_key k) e es). ?row x"
    by (rule ball_update) (use e in simp)
  then show ?thesis
    using ok len distinct_update[OF es(1)] by (simp add: limiter_ok_def)
qed

lemma make_room_subset: "set (make_room l k) \<subseteq> set (entries l)"
  using set_evict by (auto simp: make_room_def)

lemma make_room_length:
  assumes ok: "limiter_ok l"
  shows "int (length (AList.update (norm_key k) e (make_room l (norm_key k)))) \<le> max_keys l"
proof (cases "map_of (entries l) (norm_key k) = None")
  case True
  then have new: "norm_key k \<notin> fst ` set (make_room l (norm_key k))"
    using make_room_subset[of l] by (auto simp: map_of_None_key)
  show ?thesis
  proof (cases "max_keys l \<le> int (length (entries l))")
    case full: True
    have "'''' \<notin> fst ` set (entries l)" "entries l \<noteq> []" "distinct (map fst (entries l))"
      using ok full by (auto simp: limiter_ok_def)
    with True full new ok show ?thesis
      using evict_length[of "entries l"]
      by (simp add: make_room_def length_update limiter_ok_def)
  next
    case False
    with True new show ?thesis by (simp add: make_room_def length_update)
  qed
next
  case False
  then have "norm_key k \<in> fst ` set (entries l)" by (simp add: map_of_None_key)
  moreover have "make_room l (norm_key k) = entries l" using False by (auto simp: make_room_def)
  ultimately show ?thesis using ok by (simp add: length_update limiter_ok_def)
qed

lemma take_hit_ok:
  assumes ok: "limiter_ok l" and run: "take_hit (Some l) k t = (r, Some l')"
  shows "limiter_ok l'"
proof -
  let ?k = "norm_key k"
  have "distinct (map fst (make_room l ?k))"
    using ok distinct_evict by (auto simp: make_room_def limiter_ok_def)
  then have fresh: "limiter_ok (l\<lparr>entries :=
      AList.update ?k \<lparr>started = t, hits = 1\<rparr> (make_room l ?k)\<rparr>)"
    by (rule limiter_ok_update[OF ok _ make_room_subset])
      (use ok make_room_length[OF ok] in \<open>simp_all add: limiter_ok_def\<close>)
  show ?thesis
  proof (cases "map_of (entries l) ?k")
    case None
    with run fresh show ?thesis by (simp add: take_hit_def Let_def)
  next
    case (Some e)
    then have e: "(?k, e) \<in> set (entries l)" by (rule map_of_SomeD)
    have inc: "limiter_ok (l\<lparr>entries := AList.update ?k (e\<lparr>hits := hits e + 1\<rparr>) (entries l)\<rparr>)"
      if "hits e < lim l"
      by (rule limiter_ok_update[OF ok])
        (use ok that e in \<open>auto simp: length_update limiter_ok_def rev_image_eqI\<close>)
    from Some run fresh inc ok show ?thesis
      by (auto simp: take_hit_def Let_def split: if_splits)
  qed
qed

section \<open>What a caller may rely on: the window contract\<close>

text \<open>\<open>grants\<close>: how many of a list of hits a limiter lets through.\<close>

fun grants :: "('s \<Rightarrow> time \<Rightarrow> bool \<times> 's) \<Rightarrow> 's \<Rightarrow> time list \<Rightarrow> nat" where
  "grants hit s [] = 0"
| "grants hit s (t # ts) =
     (let (ok, s') = hit s t in (if ok then 1 else 0) + grants hit s' ts)"

locale window_limiter =
  fixes hit :: "'s \<Rightarrow> time \<Rightarrow> bool \<times> 's"
    and used :: "'s \<Rightarrow> int"
    and live :: "'s \<Rightarrow> time \<Rightarrow> bool"
    and capacity :: int
  assumes granted_iff: "live s t \<Longrightarrow> fst (hit s t) \<longleftrightarrow> used s < capacity"
    and used_granted: "live s t \<Longrightarrow> used s < capacity \<Longrightarrow> used (snd (hit s t)) = used s + 1"
    and used_refused: "live s t \<Longrightarrow> capacity \<le> used s \<Longrightarrow> capacity \<le> used (snd (hit s t))"
    and live_hit: "live s t \<Longrightarrow> live s u \<Longrightarrow> live (snd (hit s t)) u"
begin

lemma grants_in_window:
  "\<forall>t \<in> set ts. live s t \<Longrightarrow> grants hit s ts = min (length ts) (nat (capacity - used s))"
proof (induction ts arbitrary: s)
  case (Cons t ts)
  obtain ok s' where step: "hit s t = (ok, s')" by (cases "hit s t")
  have live: "live s t" and rest: "\<forall>u \<in> set ts. live s' u"
    using Cons.prems live_hit[of s t] step by auto
  have IH: "grants hit s' ts = min (length ts) (nat (capacity - used s'))"
    by (rule Cons.IH[OF rest])
  show ?case
  proof (cases "used s < capacity")
    case True
    then have "ok" "used s' = used s + 1"
      using granted_iff[OF live] used_granted[OF live] step by auto
    moreover have "nat (capacity - used s) = Suc (nat (capacity - (used s + 1)))"
      using True by simp
    ultimately show ?thesis by (simp add: step IH)
  next
    case False
    then have "\<not> ok" "capacity \<le> used s'"
      using granted_iff[OF live] used_refused[OF live] step by auto
    with False show ?thesis by (simp add: step IH)
  qed
qed simp

lemma refused_when_full: "live s t \<Longrightarrow> capacity \<le> used s \<Longrightarrow> \<not> fst (hit s t)"
  by (simp add: granted_iff)

end

text \<open>The local limiter, seen from one key.\<close>

definition local_hit :: "string \<Rightarrow> limiter \<Rightarrow> time \<Rightarrow> bool \<times> limiter" where
  "local_hit key l t =
     (case take_hit (Some l) key t of (r, Some l') \<Rightarrow> (allowed r, l') | (r, None) \<Rightarrow> (allowed r, l))"

definition local_used :: "string \<Rightarrow> limiter \<Rightarrow> int" where
  "local_used key l = (case map_of (entries l) (norm_key key) of None \<Rightarrow> 0 | Some e \<Rightarrow> hits e)"

definition local_live :: "string \<Rightarrow> int \<Rightarrow> limiter \<Rightarrow> time \<Rightarrow> bool" where
  "local_live key c l t \<longleftrightarrow> lim l = c \<and>
     (\<exists>e. map_of (entries l) (norm_key key) = Some e \<and> \<not> expired l e t)"

lemma take_hit_live:
  assumes "map_of (entries l) (norm_key key) = Some e" "\<not> expired l e t"
  shows "take_hit (Some l) key t =
    (if lim l \<le> hits e
     then (\<lparr>allowed = False, r_limit = lim l, remaining = 0, reset = started e + window l\<rparr>, Some l)
     else (\<lparr>allowed = True, r_limit = lim l, remaining = lim l - (hits e + 1),
            reset = started e + window l\<rparr>,
           Some (l\<lparr>entries := AList.update (norm_key key) (e\<lparr>hits := hits e + 1\<rparr>) (entries l)\<rparr>)))"
  using assms by (simp add: take_hit_def Let_def)

lemma local_hit_live:
  assumes "map_of (entries l) (norm_key key) = Some e" "\<not> expired l e t"
  shows "local_hit key l t =
    (if lim l \<le> hits e then (False, l)
     else (True, l\<lparr>entries := AList.update (norm_key key) (e\<lparr>hits := hits e + 1\<rparr>) (entries l)\<rparr>))"
  by (simp add: local_hit_def take_hit_live[OF assms])

interpretation local_window: window_limiter "local_hit key" "local_used key" "local_live key c" c
  for key c
proof (unfold_locales, goal_cases)
  case (1 s t)
  then show ?case by (auto simp: local_live_def local_hit_live local_used_def split: if_splits)
next
  case (2 s t)
  then show ?case by (auto simp: local_live_def local_hit_live local_used_def update_conv')
next
  case (3 s t)
  then show ?case by (auto simp: local_live_def local_hit_live local_used_def)
next
  case (4 s t u)
  then show ?case by (auto simp: local_live_def local_hit_live update_conv' expired_def)
qed

text \<open>The Redis script, seen from one key of a store that holds it.\<close>

definition redis_hit :: "string \<Rightarrow> int \<Rightarrow> int \<Rightarrow> redis \<Rightarrow> int \<Rightarrow> bool \<times> redis" where
  "redis_hit k ttl l st t = (let (n, st') = rate_limit_script st t k ttl in (n \<le> l, st'))"

definition redis_used :: "string \<Rightarrow> redis \<Rightarrow> int" where
  "redis_used k st = (case map_of st k of None \<Rightarrow> 0 | Some (v, _) \<Rightarrow> v)"

definition redis_live :: "string \<Rightarrow> redis \<Rightarrow> int \<Rightarrow> bool" where
  "redis_live k st t \<longleftrightarrow> (\<exists>v x. redis_get st t k = Some (v, x) \<and> 1 \<le> v)"

lemma redis_get_Some: "redis_get st t k = Some (v, x) \<Longrightarrow> map_of st k = Some (v, x)"
  by (auto simp: redis_get_def split: option.splits if_splits)

lemma redis_used_get: "redis_get st t k = Some (v, x) \<Longrightarrow> redis_used k st = v"
  by (drule redis_get_Some) (simp add: redis_used_def)

lemma script_live:
  assumes "redis_get st t k = Some (v, x)" "1 \<le> v"
  shows "rate_limit_script st t k ttl = (v + 1, AList.update k (v + 1, x) st)"
  using assms by (simp add: rate_limit_script_def Let_def)

interpretation redis_window: window_limiter "redis_hit k ttl l" "redis_used k" "redis_live k" l
  for k ttl l
proof (unfold_locales, goal_cases)
  case (1 s t)
  then show ?case
    by (auto simp: redis_live_def redis_hit_def script_live redis_used_get)
next
  case (2 s t)
  then show ?case
    by (auto simp: redis_live_def redis_hit_def script_live redis_used_get)
      (simp_all add: redis_used_def update_conv')
next
  case (3 s t)
  then show ?case
    by (auto simp: redis_live_def redis_hit_def script_live redis_used_get)
      (simp_all add: redis_used_def update_conv')
next
  case (4 s t u)
  then obtain v x y w where "redis_get s t k = Some (v, x)" "1 \<le> v"
    "redis_get s u k = Some (w, y)"
    by (auto simp: redis_live_def)
  moreover from this have "w = v" "y = x" by (auto dest!: redis_get_Some)
  ultimately show ?case
    by (auto simp: redis_live_def redis_hit_def script_live redis_get_def update_conv'
        split: option.splits if_splits)
qed

text \<open>A run of one limiter over hits of any keys: the key and the verdict of each.\<close>

fun run_limiter :: "limiter option \<Rightarrow> (string \<times> time) list \<Rightarrow> (string \<times> bool) list" where
  "run_limiter lo [] = []"
| "run_limiter lo ((k, t) # hs) =
     (let (r, lo') = take_hit lo k t in (norm_key k, allowed r) # run_limiter lo' hs)"

definition granted :: "string \<Rightarrow> (string \<times> bool) list \<Rightarrow> nat" where
  "granted k tr = length (filter (\<lambda>(k', ok). k' = k \<and> ok) tr)"

definition tried :: "string \<Rightarrow> (string \<times> time) list \<Rightarrow> nat" where
  "tried k hs = length (filter (\<lambda>(k', t). norm_key k' = k) hs)"

definition key_used :: "string \<Rightarrow> limiter \<Rightarrow> int" where
  "key_used k l = (case map_of (entries l) k of None \<Rightarrow> 0 | Some e \<Rightarrow> hits e)"

text \<open>
  \<open>in_window t0 K l t\<close>: every entry of \<open>l\<close> was started between \<open>t0\<close> and \<open>t\<close>, its key is in
  \<open>K\<close>, and all keys of \<open>K\<close> fit: then no hit up to the end of the window starts a new window for
  a known key or evicts one.
\<close>

definition in_window :: "time \<Rightarrow> string set \<Rightarrow> limiter \<Rightarrow> time \<Rightarrow> bool" where
  "in_window t0 K l t \<longleftrightarrow> limiter_ok l \<and> finite K \<and> int (card K) \<le> max_keys l
     \<and> (\<forall>(k, e) \<in> set (entries l). k \<in> K \<and> t0 \<le> started e \<and> started e \<le> t)"

lemma in_window_entry:
  assumes "in_window t0 K l t" "map_of (entries l) k = Some e" "t \<le> u" "u < t0 + window l"
  shows "\<not> expired l e u"
proof -
  from assms(2) have "(k, e) \<in> set (entries l)" by (rule map_of_SomeD)
  with assms(1) have "t0 \<le> started e" "started e \<le> t" by (auto simp: in_window_def)
  with assms(3,4) show ?thesis by (simp add: expired_def)
qed

lemma in_window_room:
  assumes "in_window t0 K l t" "k \<in> K"
  shows "make_room l k = entries l"
proof (cases "map_of (entries l) k = None")
  case True
  have "distinct (map fst (entries l))" using assms(1) by (simp add: in_window_def limiter_ok_def)
  then have "length (entries l) = card (fst ` set (entries l))"
    by (metis distinct_card length_map list.set_map)
  also have "fst ` set (entries l) \<subset> K"
    using True assms by (auto simp: map_of_None_key in_window_def)
  then have "card (fst ` set (entries l)) < card K"
    using assms(1) by (simp add: in_window_def psubset_card_mono)
  finally have "int (length (entries l)) < max_keys l" using assms(1) by (simp add: in_window_def)
  then show ?thesis by (simp add: make_room_def)
qed (auto simp: make_room_def)

lemma take_hit_in_window:
  assumes w: "in_window t0 K l t" and k: "norm_key k \<in> K"
    and u: "t \<le> u" "t0 \<le> u" "u < t0 + window l"
  obtains r l' where "take_hit (Some l) k u = (r, Some l')"
    "in_window t0 K l' u" "lim l' = lim l" "window l' = window l" "max_keys l' = max_keys l"
    "allowed r \<longleftrightarrow> key_used (norm_key k) l < lim l"
    "\<And>k'. key_used k' l' =
       (if k' = norm_key k \<and> allowed r then key_used k' l + 1 else key_used k' l)"
proof -
  obtain r lo where run: "take_hit (Some l) k u = (r, lo)" by (cases "take_hit (Some l) k u")
  have ok: "limiter_ok l" using w by (simp add: in_window_def)
  have room: "make_room l (norm_key k) = entries l" by (rule in_window_room[OF w k])
  let ?row = "\<lambda>(k', e). k' \<in> K \<and> t0 \<le> started e \<and> started e \<le> u"
  have old: "\<forall>x \<in> set (entries l). ?row x" using w u(1) by (fastforce simp: in_window_def)
  have shape: "\<exists>l'. lo = Some l' \<and> lim l' = lim l \<and> window l' = window l \<and> max_keys l' = max_keys l
      \<and> (allowed r \<longleftrightarrow> key_used (norm_key k) l < lim l)
      \<and> (\<forall>k'. key_used k' l' =
            (if k' = norm_key k \<and> allowed r then key_used k' l + 1 else key_used k' l))
      \<and> (\<forall>x \<in> set (entries l'). ?row x)"
  proof (cases "map_of (entries l) (norm_key k)")
    case None
    have "1 \<le> lim l" using ok by (simp add: limiter_ok_def)
    moreover have "\<forall>x \<in> set (AList.update (norm_key k) \<lparr>started = u, hits = 1\<rparr> (entries l)). ?row x"
      by (rule ball_update[OF old]) (use k u in simp)
    ultimately show ?thesis
      using None run room by (auto simp: take_hit_def Let_def key_used_def update_conv')
  next
    case (Some e)
    have live: "\<not> expired l e u" by (rule in_window_entry[OF w Some u(1,3)])
    from Some have "(norm_key k, e) \<in> set (entries l)" by (rule map_of_SomeD)
    with old have row: "?row (norm_key k, e)" by blast
    have "\<forall>x \<in> set (AList.update (norm_key k) (e\<lparr>hits := hits e + 1\<rparr>) (entries l)). ?row x"
      by (rule ball_update[OF old]) (use row in simp)
    with Some run old live show ?thesis
      by (auto simp: take_hit_live key_used_def update_conv' split: if_splits)
  qed
  then obtain l' where l': "lo = Some l'" "lim l' = lim l" "window l' = window l"
    "max_keys l' = max_keys l" "allowed r \<longleftrightarrow> key_used (norm_key k) l < lim l"
    "\<forall>k'. key_used k' l' =
       (if k' = norm_key k \<and> allowed r then key_used k' l + 1 else key_used k' l)"
    "\<forall>x \<in> set (entries l'). ?row x"
    by blast
  have "limiter_ok l'" using take_hit_ok[OF ok] run l'(1) by simp
  then have "in_window t0 K l' u" using w l' by (simp add: in_window_def)
  with run l' that show thesis by simp
qed

lemma run_in_window:
  assumes "in_window t0 K l t" "sorted (map snd hs)"
    and "\<forall>(k, u) \<in> set hs. norm_key k \<in> K \<and> t \<le> u \<and> t0 \<le> u \<and> u < t0 + window l"
  shows "granted k (run_limiter (Some l) hs) = min (nat (lim l - key_used k l)) (tried k hs)"
  using assms
proof (induction hs arbitrary: l t)
  case Nil
  then show ?case by (simp add: granted_def tried_def)
next
  case (Cons h hs)
  obtain k1 u where h: "h = (k1, u)" by (cases h)
  from Cons.prems(3) h have u: "norm_key k1 \<in> K" "t \<le> u" "t0 \<le> u" "u < t0 + window l" by auto
  obtain r l' where step: "take_hit (Some l) k1 u = (r, Some l')"
    and w': "in_window t0 K l' u" and same: "lim l' = lim l" "window l' = window l"
    and ok: "allowed r \<longleftrightarrow> key_used (norm_key k1) l < lim l"
    and used: "\<And>k'. key_used k' l' =
       (if k' = norm_key k1 \<and> allowed r then key_used k' l + 1 else key_used k' l)"
    using take_hit_in_window[OF Cons.prems(1) u] by metis
  have "sorted (map snd hs)" "\<forall>(k, v) \<in> set hs. norm_key k \<in> K \<and> u \<le> v \<and> t0 \<le> v \<and> v < t0 + window l'"
    using Cons.prems(2,3) h same by auto
  from Cons.IH[OF w' this]
  have IH: "granted k (run_limiter (Some l') hs) = min (nat (lim l' - key_used k l')) (tried k hs)" .
  have "granted k (run_limiter (Some l) (h # hs))
      = (if norm_key k1 = k \<and> allowed r then 1 else 0) + granted k (run_limiter (Some l') hs)"
    by (simp add: h step granted_def)
  moreover have "tried k (h # hs) = (if norm_key k1 = k then 1 else 0) + tried k hs"
    by (simp add: h tried_def)
  ultimately show ?case
    using IH used[of k] ok same(1) by (auto simp: min_def nat_less_iff)
qed

text \<open>
  Property C1. A fresh fixed-window limiter, hit in time order within one window by any mix of
  keys no more numerous than it can hold, lets through exactly the first \<open>limit\<close> hits of each
  key: for every key the number of allowed hits is the smaller of the limit and of the hits
  tried.
\<close>

theorem limiter_window_exact:
  assumes "l = new_fixed_window_limiter limit duration maxKeys"
    and "sorted (map snd hs)"
    and "\<forall>(k, t) \<in> set hs. t0 \<le> t \<and> t < t0 + window l"
    and "int (card (norm_key ` fst ` set hs)) \<le> max_keys l"
  shows "granted k (run_limiter (Some l) hs) = min (nat (lim l)) (tried k hs)"
proof -
  let ?K = "norm_key ` fst ` set hs"
  have "in_window t0 ?K l t0"
    using assms(4) new_limiter_ok[of limit duration maxKeys] unfolding assms(1)
    by (simp add: in_window_def new_fixed_window_limiter_def)
  then have "granted k (run_limiter (Some l) hs) = min (nat (lim l - key_used k l)) (tried k hs)"
    by (rule run_in_window) (use assms(2,3) in \<open>auto simp: image_iff\<close>, force)
  moreover have "key_used k l = 0" by (simp add: assms(1) key_used_def new_fixed_window_limiter_def)
  ultimately show ?thesis by simp
qed

theorem limiter_window_exact_witness:
  "granted ''a'' (run_limiter (Some (new_fixed_window_limiter 2 minute 10))
     [(''a'', 0), (''b'', 1), (''a'', 2), (''a'', 3)]) = 2"
proof -
  have "granted ''a'' (run_limiter (Some (new_fixed_window_limiter 2 minute 10))
     [(''a'', 0), (''b'', 1), (''a'', 2), (''a'', 3)])
    = min (nat (lim (new_fixed_window_limiter 2 minute 10)))
       (tried ''a'' [(''a'', 0), (''b'', 1), (''a'', 2), (''a'', 3)])"
    by (rule limiter_window_exact[OF refl, of _ 0])
      (simp_all add: new_fixed_window_limiter_def norm_key_def card_insert_if)
  then show ?thesis by (simp add: new_fixed_window_limiter_def tried_def norm_key_def)
qed

text \<open>
  Every hit keeps the limiter well formed: at most \<open>maxKeys\<close> entries with distinct
  non-empty keys, each counting between 1 and the limit; the eviction makes room for a new key
  before it is stored, so the map never outgrows its bound.
\<close>

theorem take_hit_keeps_limiter:
  assumes "limiter_ok l" "take_hit (Some l) k t = (r, lo)"
  shows "\<exists>l'. lo = Some l' \<and> limiter_ok l' \<and> lim l' = lim l \<and> max_keys l' = max_keys l"
proof -
  from assms(2) obtain l' where l': "lo = Some l'" "lim l' = lim l" "max_keys l' = max_keys l"
    by (auto simp: take_hit_def Let_def split: option.splits if_splits)
  with assms take_hit_ok show ?thesis by blast
qed

theorem take_hit_keeps_limiter_witness:
  "\<exists>l'. snd (take_hit (Some (new_fixed_window_limiter 1 minute 1)) ''k'' 5) = Some l' \<and> limiter_ok l'"
  using take_hit_keeps_limiter[OF new_limiter_ok[of 1 minute 1], of "''k''" 5] by (metis prod.collapse)

text \<open>
  Peek announces what Take would answer: the same verdict and the same reset time,
  and one unit of the remaining budget more when the hit would be let through.
\<close>

theorem peek_announces_take:
  "allowed (peek lo k t) = allowed (fst (take_hit lo k t))
   \<and> r_limit (peek lo k t) = r_limit (fst (take_hit lo k t))
   \<and> reset (peek lo k t) = reset (fst (take_hit lo k t))
   \<and> (lo = None \<or> remaining (peek lo k t) =
        (if allowed (fst (take_hit lo k t)) then remaining (fst (take_hit lo k t)) + 1 else 0))"
  by (simp add: peek_def take_hit_def Let_def split: option.splits)

lemma retry_after_bounds:
  assumes "\<not> allowed r" "now < reset r"
  shows "1 \<le> retry_after r now" "reset r \<le> now + retry_after r now * second"
    "now + (retry_after r now - 1) * second < reset r"
proof -
  have eq: "retry_after r now = (reset r - now + second - 1) div second"
    using assms by (simp add: retry_after_def Let_def go_div_nonneg)
  define d where "d = reset r - now"
  define q where "q = (d + second - 1) div second"
  have "q * second + (d + second - 1) mod second = d + second - 1"
    by (simp only: q_def div_mult_mod_eq)
  moreover have "0 \<le> (d + second - 1) mod second" "(d + second - 1) mod second < second" by simp_all
  ultimately have "q * second \<le> d + second - 1" "d \<le> q * second" by linarith+
  moreover have "1 \<le> q" using calculation assms(2) by (simp add: d_def)
  ultimately show "1 \<le> retry_after r now" "reset r \<le> now + retry_after r now * second"
    "now + (retry_after r now - 1) * second < reset r"
    unfolding eq d_def[symmetric] q_def[symmetric] by (simp_all add: d_def left_diff_distrib)
qed

text \<open>
  Retry-After is honest: a refused caller that waits the announced number of
  seconds is let through by the limiter as the refusal left it, and that number is the least
  whole number of seconds that reaches the reset time.
\<close>

theorem retry_after_admits:
  assumes "limiter_ok l" "take_hit (Some l) k t = (r, lo)" "\<not> allowed r"
  shows "allowed (fst (take_hit lo k (t + retry_after r t * second)))
    \<and> t + (retry_after r t - 1) * second < reset r"
proof -
  from assms(2,3) obtain e where e: "map_of (entries l) (norm_key k) = Some e"
    "\<not> expired l e t" "lo = Some l" "reset r = started e + window l"
    by (auto simp: take_hit_def Let_def split: option.splits if_splits)
  from e(2,4) have "t < reset r" by (simp add: expired_def)
  note b = retry_after_bounds[OF assms(3) this]
  have "expired l e (t + retry_after r t * second)" using b(2) e(4) by (simp add: expired_def)
  with e b(3) show ?thesis by (simp add: take_hit_def Let_def)
qed

theorem retry_after_admits_witness:
  "let l = \<lparr>entries = [(''k'', \<lparr>started = 0, hits = 1\<rparr>)], lim = 1, window = minute, max_keys = 5\<rparr>;
       (r, lo) = take_hit (Some l) ''k'' 1
   in \<not> allowed r \<and> allowed (fst (take_hit lo ''k'' (1 + retry_after r 1 * second)))"
proof -
  let ?l = "\<lparr>entries = [(''k'', \<lparr>started = 0, hits = 1\<rparr>)], lim = 1, window = minute, max_keys = 5\<rparr>"
  obtain r lo where run: "take_hit (Some ?l) ''k'' 1 = (r, lo)" by (cases "take_hit (Some ?l) ''k'' 1")
  have ok: "limiter_ok ?l" by (simp add: limiter_ok_def)
  have no: "\<not> allowed r" using run by (auto simp: take_hit_def norm_key_def expired_def)
  from retry_after_admits[OF ok run no] no run show ?thesis by (simp add: Let_def)
qed

section \<open>The PostgreSQL limiter never refuses\<close>

fun pg_run :: "bucket list \<Rightarrow> string \<Rightarrow> string \<Rightarrow> int \<Rightarrow> duration \<Rightarrow> time list
    \<Rightarrow> (limiter_error + bool) list" where
  "pg_run rows ns key l w [] = []"
| "pg_run rows ns key l w (t # ts) =
     (let (r, rows') = pg_allow True False rows ns key l w t in r # pg_run rows' ns key l w ts)"

definition within_limit :: "string \<Rightarrow> int \<Rightarrow> bucket list \<Rightarrow> bool" where
  "within_limit k l rows \<longleftrightarrow> (\<forall>b \<in> set rows. bucket_key b = k \<longrightarrow> request_count b \<le> l)"

lemma bucket_update_count:
  "1 \<le> l \<Longrightarrow> request_count b \<le> l \<Longrightarrow> request_count (bucket_update now x l b) \<le> l"
  by (simp add: bucket_update_def)

lemma pg_upsert_true:
  assumes "1 \<le> l" "within_limit k l rows"
  shows "fst (pg_upsert rows k now x l)" "within_limit k l (snd (pg_upsert rows k now x l))"
proof -
  have same: "bucket_key (bucket_update now x l b) = bucket_key b" for b
    by (simp add: bucket_update_def)
  have all: "within_limit k l (update_where (\<lambda>b. bucket_key b = k) (bucket_update now x l) rows)"
    unfolding within_limit_def
  proof (intro ballI impI)
    fix b
    assume b: "b \<in> set (update_where (\<lambda>b. bucket_key b = k) (bucket_update now x l) rows)"
      and k: "bucket_key b = k"
    from b show "request_count b \<le> l"
    proof (rule in_update_whereE)
      assume "b \<in> set rows" "bucket_key b \<noteq> k"
      with k show ?thesis by simp
    next
      fix r0
      assume "r0 \<in> set rows" "bucket_key r0 = k" "b = bucket_update now x l r0"
      with assms show ?thesis by (simp add: within_limit_def bucket_update_count)
    qed
  qed
  show "fst (pg_upsert rows k now x l)" "within_limit k l (snd (pg_upsert rows k now x l))"
  proof (atomize (full), cases "List.find (\<lambda>b. bucket_key b = k) rows")
    case None
    with assms show "fst (pg_upsert rows k now x l) \<and> within_limit k l (snd (pg_upsert rows k now x l))"
      by (simp add: pg_upsert_def within_limit_def)
  next
    case (Some b)
    then have "b \<in> set rows \<and> bucket_key b = k" by (rule find_Some_D)
    with assms have "request_count b \<le> l" by (simp add: within_limit_def)
    with Some assms(1) all
    show "fst (pg_upsert rows k now x l) \<and> within_limit k l (snd (pg_upsert rows k now x l))"
      by (simp add: pg_upsert_def bucket_update_count)
  qed
qed

text \<open>
  Property C2. The PostgreSQL limiter never refuses: for a valid key and from a bucket table
  whose row for the key does not exceed the limit (an empty table, for one), every call of any
  sequence is allowed, however many calls fall into one window. The upsert stops counting at the
  limit and then compares the count with the limit by \<^verbatim>\<open><=\<close>.
\<close>

theorem pg_never_denies:
  assumes "\<not> bucket_key_invalid (trim_space ns) (trim_space key)"
    and "within_limit (trim_space ns @ '':'' @ trim_space key) (clamp_limit_arg l) rows"
  shows "pg_run rows ns key l w ts = replicate (length ts) (Inr True)"
  using assms(2)
proof (induction ts arbitrary: rows)
  case (Cons t ts)
  let ?k = "trim_space ns @ '':'' @ trim_space key" and ?l = "clamp_limit_arg l"
  have "1 \<le> ?l" by (simp add: clamp_limit_arg_def)
  from pg_upsert_true[OF this Cons.prems, of t "t + clamp_window_arg w"]
  have "fst (pg_allow True False rows ns key l w t) = Inr True"
    and "within_limit ?k ?l (snd (pg_allow True False rows ns key l w t))"
    using assms(1) by (simp_all add: pg_allow_def Let_def case_prod_unfold)
  with Cons.IH show ?case by (simp add: case_prod_unfold)
qed simp

theorem pg_never_denies_witness:
  "pg_run [] ''auth-login'' ''10.0.0.1'' 2 minute [0, 1, 2, 3, 4] = replicate 5 (Inr True)"
proof -
  have "pg_run [] ''auth-login'' ''10.0.0.1'' 2 minute [0, 1, 2, 3, 4]
      = replicate (length [0::int, 1, 2, 3, 4]) (Inr True)"
    by (rule pg_never_denies)
      (simp_all add: within_limit_def bucket_key_invalid_def trim_space_def trim_runes_def
        is_space_def byte_of_def contains_any_def)
  then show ?thesis by (simp only: list.size) (simp add: eval_nat_numeral)
qed

text \<open>
  The Redis limiter, once the key's window is open, lets through exactly the hits
  the limit leaves room for until the window expires.
\<close>

theorem redis_window_exact:
  assumes "\<forall>t \<in> set ts. redis_live k st t"
  shows "grants (redis_hit k ttl l) st ts = min (length ts) (nat (l - redis_used k st))"
  using assms by (rule redis_window.grants_in_window)

theorem redis_window_exact_witness:
  "grants (redis_hit ''k'' 60000 2) [(''k'', 1, Some 60000)] [1, 2, 3] = 1"
  using redis_window_exact[of "[1, 2, 3]" "''k''" "[(''k'', 1, Some 60000)]" 60000 2]
  by (simp add: redis_live_def redis_get_def redis_used_def)

end
