(* ===== verification/Database.thy ===== *)
theory Database imports RateLimit FieldCrypto begin

text \<open>
  The state the authentication service works on: the tables of the PostgreSQL database it shares
  with the notification outbox, and everything else an operation may change (limiters, random
  source, clocks).

  A statement is a function on the tables that gives an SQL error or a result; a failed
  statement leaves the tables alone. Whether the server answers at all is a list of faults in
  the state, one consumed by every statement, \<^verbatim>\<open>BEGIN\<close> and \<^verbatim>\<open>COMMIT\<close>: a theorem over
  all states covers a failure at every point. A transaction that fails, at its \<^verbatim>\<open>COMMIT\<close>
  too, leaves the tables as they were. Transactions run one at a time; the row locks and unique
  indexes that make concurrent ones behave so are not modelled.

  The constraints of the schema (migrations/*.sql) are conditions of the statements: unique keys
  give \<open>UniqueViolation\<close> (SQLSTATE 23505), checks and foreign keys \<open>OtherSQL\<close>. The UUIDs the
  server draws are numbers from a counter; 0 is \<^verbatim>\<open>uuid.Nil\<close>.
\<close>

type_synonym uuid = nat

section \<open>Errors\<close>

datatype sql_error = NoRows | UniqueViolation | OtherSQL

datatype notif_error =
    NotifInvalid | NotifNotFound | NotifConflict | NotifSQL | NotifCipher crypto_error

datatype auth_error =
    ErrInvalidInput | ErrInvalidCredentials | ErrNotConfigured | ErrInvalidSession | ErrCSRF
  | ErrRateLimited | ErrRateLimitUnavailable | ErrOAuthProvider | ErrOAuthState | ErrOAuthNotBound
  | ErrOAuthSubject | ErrInvalidToken | ErrNotFound | ErrConflict | ErrExpired
  | ErrAdminMFARequired | ErrAdminMFAInvalid | ErrAdminMFAConflict | ErrAdminMFARateLimited
  | ErrAdminRequired | ErrNoSchoolEmailOnFile
  | ErrSQL | ErrCancelled | ErrCrypto crypto_error | ErrNotifier notif_error

section \<open>Tables\<close>

record account_row =
  a_id :: uuid
  a_username :: string
  a_email_ct :: string
  a_email_hash :: string
  a_school_ct :: "string option"
  a_school_hash :: "string option"
  a_password :: string
  a_identity :: string
  a_status :: string
  a_verified_at :: "time option"
  a_updated :: time

record session_row =
  s_id :: uuid
  s_account :: uuid
  s_token :: string
  s_csrf :: string
  s_expires :: time
  s_ip :: "string option"
  s_agent :: "string option"
  s_revoked :: "time option"
  s_last_seen :: "time option"
  s_created :: time

record identity_row =
  i_account :: uuid
  i_provider :: string
  i_subject :: string

record state_row =
  o_provider :: string
  o_account :: "uuid option"
  o_state :: string
  o_verifier :: string
  o_redirect :: string
  o_return_to :: "string option"
  o_expires :: time
  o_consumed :: "time option"

record challenge_row =
  c_id :: uuid
  c_account :: uuid
  c_token :: string
  c_expires :: time
  c_consumed :: "time option"
  c_created :: time

record reset_row = challenge_row +
  c_activates :: bool

record mfa_row =
  m_account :: uuid
  m_secret :: string
  m_enabled :: "time option"
  m_pending :: "time option"
  m_verified :: "time option"

record token_row =
  t_id :: uuid
  t_account :: uuid
  t_hash :: string
  t_label :: string
  t_last_used :: "time option"
  t_revoked :: "time option"

record grant_row =
  g_account :: uuid
  g_provider :: string
  g_refresh :: string
  g_scope :: string

record outbox_row =
  e_id :: uuid
  e_account :: "uuid option"
  e_dedup :: string
  e_recipient :: string
  e_payload :: string
  e_status :: string
  e_attempts :: int
  e_max :: int
  e_error :: "string option"
  e_available :: time
  e_created :: time
  e_updated :: time

record notification_row =
  n_id :: uuid
  n_account :: uuid
  n_kind :: string
  n_dedup :: string
  n_title :: string
  n_body :: string
  n_read :: "time option"
  n_created :: time

record db =
  accounts :: "account_row list"
  sessions :: "session_row list"
  identities :: "identity_row list"
  oauth_states :: "state_row list"
  email_challenges :: "challenge_row list"
  reset_challenges :: "reset_row list"
  roles :: "(uuid \<times> string) list"
  admin_mfa :: "mfa_row list"
  api_tokens :: "token_row list"
  calendar_grants :: "grant_row list"
  outbox :: "outbox_row list"
  notices :: "notification_row list"
  app_settings :: "(string \<times> string) list"
  next_id :: uuid

text \<open>A mail as it is handed to the SMTP sender.\<close>

record mail =
  mail_to :: string
  mail_subject :: string
  mail_text :: string
  mail_html :: string

text \<open>
  \<open>sent\<close> is the log of mails handed to the sender, \<open>published\<close> the log of events handed to
  the event hub (topic, kind, subject id), \<open>blobs\<close> the keys of the objects in the object store.
\<close>

record world =
  w_db :: db
  faults :: "bool list"
  draws :: nat
  now :: time
  db_now :: time
  login_limiter :: "limiter option"
  login_account_limiter :: "limiter option"
  register_limiter :: "limiter option"
  register_email_limiter :: "limiter option"
  email_limiter :: "limiter option"
  mfa_limiter :: "limiter option"
  buckets :: "bucket list"
  redis_db :: redis
  redis_now :: int
  sent :: "mail list"
  published :: "(string \<times> string \<times> uuid) list"
  blobs :: "string list"

section \<open>Statements and transactions\<close>

definition sql :: "(db \<Rightarrow> (sql_error + 'a) \<times> db) \<Rightarrow> (world, sql_error, 'a) op" where
  "sql q w =
     (case faults w of
        [] \<Rightarrow> (fst (q (w_db w)), w\<lparr>w_db := snd (q (w_db w))\<rparr>)
      | f # fs \<Rightarrow>
          if f then (Inl OtherSQL, w\<lparr>faults := fs\<rparr>)
          else (fst (q (w_db w)), w\<lparr>w_db := snd (q (w_db w)), faults := fs\<rparr>))"

definition sql_read :: "(db \<Rightarrow> 'a option) \<Rightarrow> (world, sql_error, 'a) op" where
  "sql_read f = sql (\<lambda>d. (case f d of None \<Rightarrow> Inl NoRows | Some x \<Rightarrow> Inr x, d))"

definition sql_write :: "(db \<Rightarrow> db) \<Rightarrow> (db \<Rightarrow> 'a) \<Rightarrow> (world, sql_error, 'a) op" where
  "sql_write g f = sql (\<lambda>d. (Inr (f d), g d))"

text \<open>A write guarded by the constraints of the table.\<close>

definition sql_insert ::
  "(db \<Rightarrow> bool) \<Rightarrow> (db \<Rightarrow> bool) \<Rightarrow> (db \<Rightarrow> db) \<Rightarrow> (db \<Rightarrow> 'a) \<Rightarrow> (world, sql_error, 'a) op" where
  "sql_insert chk uniq g f = sql (\<lambda>d.
     if \<not> chk d then (Inl OtherSQL, d)
     else if \<not> uniq d then (Inl UniqueViolation, d)
     else (Inr (f d), g d))"

definition sql_nop :: "(world, sql_error, unit) op" where
  "sql_nop = sql (\<lambda>d. (Inr (), d))"

text \<open>\<^verbatim>\<open>Begin\<close>, the body, \<^verbatim>\<open>Commit\<close>, with the deferred \<^verbatim>\<open>Rollback\<close>.\<close>

definition transaction :: "(sql_error \<Rightarrow> 'e) \<Rightarrow> (world, 'e, 'a) op \<Rightarrow> (world, 'e, 'a) op" where
  "transaction conv body w =
     (case map_errM conv sql_nop w of
        (Inl e, w1) \<Rightarrow> (Inl e, w1)
      | (Inr _, w1) \<Rightarrow>
          (case body w1 of
             (Inl e, w2) \<Rightarrow> (Inl e, w2\<lparr>w_db := w_db w1\<rparr>)
           | (Inr x, w2) \<Rightarrow>
               (case map_errM conv sql_nop w2 of
                  (Inl e, w3) \<Rightarrow> (Inl e, w3\<lparr>w_db := w_db w1\<rparr>)
                | (Inr _, w3) \<Rightarrow> (Inr x, w3))))"

text \<open>Randomness drawn by an operation of the cryptography layer.\<close>

definition with_draws :: "(crypto_error \<Rightarrow> 'e) \<Rightarrow> (nat, crypto_error, 'a) op \<Rightarrow> (world, 'e, 'a) op" where
  "with_draws conv m w = (case m (draws w) of
     (Inl e, d) \<Rightarrow> (Inl (conv e), w\<lparr>draws := d\<rparr>) | (Inr x, d) \<Rightarrow> (Inr x, w\<lparr>draws := d\<rparr>))"

section \<open>What statements do\<close>

text \<open>
  \<open>same_rest w w'\<close>: between the two states only tables, faults and the random source changed.
\<close>

definition same_rest :: "world \<Rightarrow> world \<Rightarrow> bool" where
  "same_rest w w' \<longleftrightarrow> w' = w\<lparr>w_db := w_db w', faults := faults w', draws := draws w'\<rparr>"

lemma same_rest_refl [simp]: "same_rest w w"
  by (simp add: same_rest_def)

lemma same_rest_trans: "same_rest u v \<Longrightarrow> same_rest v w \<Longrightarrow> same_rest u w"
  by (cases u; cases v; cases w) (simp add: same_rest_def)

lemma same_restD:
  assumes "same_rest w w'"
  shows "now w' = now w" "db_now w' = db_now w" "mfa_limiter w' = mfa_limiter w"
    "login_limiter w' = login_limiter w" "login_account_limiter w' = login_account_limiter w"
    "email_limiter w' = email_limiter w" "buckets w' = buckets w" "redis_db w' = redis_db w"
  using assms by (cases w; cases w'; simp add: same_rest_def)+

lemma sql_InrD:
  assumes "sql q w = (Inr x, w')"
  shows "fst (q (w_db w)) = Inr x \<and> w_db w' = snd (q (w_db w)) \<and> now w' = now w
    \<and> db_now w' = db_now w \<and> draws w' = draws w"
  using assms by (auto simp: sql_def split: list.splits if_splits)

lemma with_draws_db [simp]: "w_db (snd (with_draws conv m w)) = w_db w"
  by (simp add: with_draws_def split: prod.splits sum.splits)

lemma with_draws_Inr:
  "with_draws conv m w = (Inr x, w') \<longleftrightarrow> (\<exists>d. m (draws w) = (Inr x, d) \<and> w' = w\<lparr>draws := d\<rparr>)"
  by (auto simp: with_draws_def split: prod.splits sum.splits)

lemma with_draws_Inl:
  "with_draws conv m w = (Inl e, w') \<longleftrightarrow>
     (\<exists>e' d. m (draws w) = (Inl e', d) \<and> e = conv e' \<and> w' = w\<lparr>draws := d\<rparr>)"
  by (auto simp: with_draws_def split: prod.splits sum.splits)

lemma sql_same: "sql q w = (r, w') \<Longrightarrow> same_rest w w' \<and> draws w' = draws w"
  by (auto simp: sql_def same_rest_def split: list.splits if_splits)

lemma sql_no_fault: "faults w = [] \<Longrightarrow> sql q w = (fst (q (w_db w)), w\<lparr>w_db := snd (q (w_db w))\<rparr>)"
  by (simp add: sql_def)

lemma sql_read_Inr:
  "sql_read f w = (Inr x, w') \<Longrightarrow> f (w_db w) = Some x \<and> w_db w' = w_db w \<and> now w' = now w
     \<and> db_now w' = db_now w"
  by (auto simp: sql_read_def dest!: sql_InrD split: option.splits)

lemma sql_write_Inr:
  "sql_write g f w = (Inr x, w') \<Longrightarrow> x = f (w_db w) \<and> w_db w' = g (w_db w) \<and> now w' = now w
     \<and> db_now w' = db_now w"
  by (auto simp: sql_write_def dest!: sql_InrD)

lemma sql_insert_Inr:
  "sql_insert chk uniq g f w = (Inr x, w') \<Longrightarrow> chk (w_db w) \<and> uniq (w_db w) \<and> x = f (w_db w)
     \<and> w_db w' = g (w_db w) \<and> now w' = now w \<and> db_now w' = db_now w"
  by (auto simp: sql_insert_def dest!: sql_InrD split: if_splits)

lemma sql_nop_db: "sql_nop w = (r, w') \<Longrightarrow> w_db w' = w_db w \<and> now w' = now w \<and> db_now w' = db_now w"
  by (auto simp: sql_nop_def sql_def split: list.splits if_splits)

lemma sql_Inl_db:
  "sql_read f w = (Inl e, w') \<Longrightarrow> w_db w' = w_db w"
  "sql_write g h w = (Inl e, w') \<Longrightarrow> w_db w' = w_db w"
  "sql_insert chk uniq g h w = (Inl e, w') \<Longrightarrow> w_db w' = w_db w"
  by (auto simp: sql_read_def sql_write_def sql_insert_def sql_def split: list.splits if_splits)

lemma transaction_Inr:
  assumes "transaction conv body w = (Inr x, w')"
  obtains w1 w2 where "w_db w1 = w_db w" "now w1 = now w" "db_now w1 = db_now w"
    "body w1 = (Inr x, w2)" "w_db w' = w_db w2" "now w' = now w2" "db_now w' = db_now w2"
  using assms
  by (auto simp: transaction_def split: prod.splits sum.splits dest!: sql_nop_db)

lemma transaction_Inl_db:
  "transaction conv body w = (Inl e, w') \<Longrightarrow> w_db w' = w_db w"
  by (auto simp: transaction_def map_errM_Inl_iff split: prod.splits sum.splits dest!: sql_nop_db)

text \<open>Inversion of a successful run, one statement at a time.\<close>

lemma bind_readE:
  assumes "bindM (map_errM c (sql_read f)) k w = (Inr y, w')"
  obtains x w1 where "f (w_db w) = Some x" "w_db w1 = w_db w" "now w1 = now w" "db_now w1 = db_now w"
    "k x w1 = (Inr y, w')"
  using assms by (auto dest!: sql_read_Inr)

lemma bind_writeE:
  assumes "bindM (map_errM c (sql_write g f)) k w = (Inr y, w')"
  obtains w1 where "w_db w1 = g (w_db w)" "now w1 = now w" "db_now w1 = db_now w"
    "k (f (w_db w)) w1 = (Inr y, w')"
  using assms by (auto dest!: sql_write_Inr)

lemma bind_insertE:
  assumes "bindM (map_errM c (sql_insert chk uniq g f)) k w = (Inr y, w')"
  obtains w1 where "chk (w_db w)" "uniq (w_db w)" "w_db w1 = g (w_db w)" "now w1 = now w"
    "db_now w1 = db_now w" "k (f (w_db w)) w1 = (Inr y, w')"
  using assms by (auto dest!: sql_insert_Inr)

end
