(* ===== verification/Environment.thy ===== *)
theory Environment imports Totp Password Database begin

text \<open>
  What the services use that is neither a part of this development nor a definition of it: the
  record \<open>env\<close>. Its fields stand for the cryptography packages (\<open>crypto\<close>), the Unicode tables,
  the textual form of a UUID, the address parser of \<^verbatim>\<open>net/mail\<close>, the IP parser of
  \<^verbatim>\<open>net\<close>, the JSON form of an e-mail payload, the text of a database error, the literal texts and HTML templates of mails
  (internal/email/template.go) and the SMTP sender.
\<close>

text \<open>The literal (Chinese) strings of the source, named by what they are for.\<close>

datatype message =
    VerifySubject | VerifyText | ResetSubject | ResetText | ResetTail | ActivationSubject
  | ActivationText | ResendText | ApprovedText | WillingnessTitle | WillingnessBody
  | DeadlineTitle | DeadlineBody

datatype template = VerifyButton | ResetMail | ActivationMail | ApprovedMail

record ip_address =
  ip_internal :: bool
  ip_text :: string

record env =
  e_crypto :: crypto
  e_unicode :: unicode
  e_uuid :: "uuid \<Rightarrow> string"
  e_parse_uuid :: "string \<Rightarrow> uuid option"
  e_parse_address :: "string \<Rightarrow> string option"
  e_parse_ip :: "string \<Rightarrow> ip_address option"
  e_json :: "mail \<Rightarrow> string"
  e_unjson :: "string \<Rightarrow> string + mail"
  e_sql_text :: string
  e_text :: "message \<Rightarrow> string"
  e_html :: "template \<Rightarrow> string \<Rightarrow> string \<Rightarrow> string"
  e_send :: "nat \<Rightarrow> mail \<Rightarrow> string option"

text \<open>The laws the code relies on.\<close>

definition json_ok :: "env \<Rightarrow> bool" where
  "json_ok en \<longleftrightarrow> (\<forall>m. e_unjson en (e_json en m) = Inr m)"

text \<open>
  \<^verbatim>\<open>mail.ParseAddress\<close> of a string it accepts, when the address is the whole string: a local
  part, an at sign and a domain.
\<close>

definition address_ok :: "env \<Rightarrow> bool" where
  "address_ok en \<longleftrightarrow> (\<forall>s. e_parse_address en s = Some s \<longrightarrow> CHR ''@'' \<in> set s)"

text \<open>A concrete instance, to evaluate the model.\<close>

definition toy_uuid :: "uuid \<Rightarrow> string" where
  "toy_uuid i = (let s = itoa i in replicate (36 - length s) (CHR ''0'') @ s)"

definition toy_json :: "mail \<Rightarrow> string" where
  "toy_json m = join_with ''/'' (map hex_encode [mail_to m, mail_subject m, mail_text m, mail_html m])"

definition hex_val :: "char \<Rightarrow> nat" where
  "hex_val c = (if byte_of c < 58 then byte_of c - 48 else byte_of c - 87)"

fun unhex :: "string \<Rightarrow> string" where
  "unhex (a # b # s) = char_of (16 * hex_val a + hex_val b) # unhex s"
| "unhex s = []"

definition toy_unjson :: "string \<Rightarrow> string + mail" where
  "toy_unjson s = (case map unhex (split_on (CHR ''/'') s) of
     [a, b, c, d] \<Rightarrow> Inr \<lparr>mail_to = a, mail_subject = b, mail_text = c, mail_html = d\<rparr>
   | _ \<Rightarrow> Inl ''unexpected end of JSON input'')"

definition toy_env :: env where
  "toy_env = \<lparr>e_crypto = toy_crypto,
     e_unicode = \<lparr>u_lower = (\<lambda>r. r), u_upper = (\<lambda>r. r), u_letter = (\<lambda>r. True), u_digit = (\<lambda>r. False)\<rparr>,
     e_uuid = toy_uuid, e_parse_uuid = (\<lambda>s. if s = [] then None else Some (digits_value s)),
     e_parse_address = (\<lambda>s. if CHR ''@'' \<in> set s then Some s else None),
     e_parse_ip = (\<lambda>s. if s = [] then None else Some \<lparr>ip_internal = has_prefix s ''10.'', ip_text = s\<rparr>),
     e_json = toy_json, e_unjson = toy_unjson, e_sql_text = ''connection lost'',
     e_text = (\<lambda>m. ''text''), e_html = (\<lambda>t logo link. link), e_send = (\<lambda>n m. None)\<rparr>"

lemma hex_lower_val: "n < 16 \<Longrightarrow> hex_val (hex_lower n) = n"
  by (auto simp: hex_val_def hex_lower_def byte_of_def)

lemma nibble: "byte_of c div 16 < 16"
  using byte_of_less[of c] by (intro less_mult_imp_div_less) simp

lemma unhex_hex [simp]: "unhex (hex_encode s) = s"
proof (induction s)
  case (Cons c s)
  have "byte_of c div 16 < 16" "byte_of c mod 16 < 16" by (simp_all add: nibble)
  then have "char_of (16 * hex_val (hex_lower (byte_of c div 16)) + hex_val (hex_lower (byte_of c mod 16))) = c"
    by (simp add: hex_lower_val byte_of_def)
  with Cons show ?case by (simp add: hex_encode_def)
qed (simp add: hex_encode_def)

lemma hex_no_slash: "CHR ''/'' \<notin> set (hex_encode s)"
proof -
  have ge: "48 \<le> byte_of (hex_lower n)" if "n < 16" for n
    using that by (auto simp: hex_lower_def byte_of_def)
  have "48 \<le> byte_of c" if "c \<in> set (hex_encode s)" for c
    using that ge nibble by (auto simp: hex_encode_def)
  then show ?thesis by (force simp: byte_of_def)
qed

lemma toy_json_ok: "json_ok toy_env"
proof -
  have "toy_unjson (toy_json m) = Inr m" for m
    by (cases m) (simp add: toy_unjson_def toy_json_def split_on_append split_on_single hex_no_slash)
  then show ?thesis by (simp add: json_ok_def toy_env_def)
qed

lemma toy_address: "address_ok toy_env"
  by (simp add: address_ok_def toy_env_def)

end
