(* ===== verification/AuthStore.thy ===== *)
theory AuthStore imports Database begin

text \<open>
  The PostgreSQL store of the authentication service (internal/auth/postgres_store.go): one
  definition per method, each statement with its condition, its effect and the constraints of
  its table, each transaction as the code brackets it.

  Scanned UUIDs always parse, so the \<^verbatim>\<open>uuid.Parse\<close> error branches have no counterpart.
\<close>

section \<open>Accounts and sessions as the service sees them\<close>

record account =
  acc_id :: uuid
  acc_username :: string
  acc_identity :: string
  acc_status :: string
  acc_verified :: bool

record session =
  ses_id :: uuid
  ses_account :: account
  ses_csrf :: string
  ses_expires :: time

record oauth_state =
  ost_provider :: string
  ost_account :: "uuid option"
  ost_verifier :: string
  ost_redirect :: string
  ost_return_to :: string

definition account_of :: "account_row \<Rightarrow> account" where
  "account_of r = \<lparr>acc_id = a_id r, acc_username = a_username r, acc_identity = a_identity r,
     acc_status = a_status r, acc_verified = (a_verified_at r \<noteq> None)\<rparr>"

fun map_store_error :: "sql_error \<Rightarrow> auth_error" where
  "map_store_error UniqueViolation = ErrConflict"
| "map_store_error NoRows = ErrSQL"
| "map_store_error OtherSQL = ErrSQL"

text \<open>\<^verbatim>\<open>errors.Is(err, pgx.ErrNoRows)\<close> gives \<open>e\<close>, every other error is passed on.\<close>

definition no_rows :: "auth_error \<Rightarrow> sql_error \<Rightarrow> auth_error" where
  "no_rows e x = (if x = NoRows then e else ErrSQL)"

definition db_error :: "sql_error \<Rightarrow> auth_error" where
  "db_error x = ErrSQL"

section \<open>Accounts\<close>

definition find_account :: "db \<Rightarrow> uuid \<Rightarrow> account_row option" where
  "find_account d i = List.find (\<lambda>r. a_id r = i) (accounts d)"

definition has_account :: "db \<Rightarrow> uuid \<Rightarrow> bool" where
  "has_account d i \<longleftrightarrow> list_ex (\<lambda>r. a_id r = i) (accounts d)"

definition pg_blank :: "string \<Rightarrow> bool" where
  "pg_blank s \<longleftrightarrow> list_all (\<lambda>c. c = CHR '' '') s"

definition account_chk :: "account_row \<Rightarrow> bool" where
  "account_chk r \<longleftrightarrow> \<not> pg_blank (a_username r) \<and> rune_count (a_username r) \<le> 64
     \<and> a_email_ct r \<noteq> [] \<and> a_email_hash r \<noteq> [] \<and> a_password r \<noteq> []"

text \<open>The unique indexes of \<^verbatim>\<open>accounts\<close>, for a row that is stored under its own id.\<close>

definition account_clash :: "account_row \<Rightarrow> account_row \<Rightarrow> bool" where
  "account_clash r x \<longleftrightarrow> a_username x = a_username r \<or> a_email_hash x = a_email_hash r
     \<or> (a_school_hash r \<noteq> None \<and> a_school_hash x = a_school_hash r)"

definition account_uniq :: "db \<Rightarrow> account_row \<Rightarrow> bool" where
  "account_uniq d r \<longleftrightarrow> list_all (\<lambda>x. a_id x \<noteq> a_id r \<longrightarrow> \<not> account_clash r x) (accounts d)"

definition insert_account ::
  "(uuid \<Rightarrow> time \<Rightarrow> account_row) \<Rightarrow> (world, sql_error, account) op" where
  "insert_account mk =
     bindM (readM db_now) (\<lambda>ts. sql_insert (\<lambda>d. account_chk (mk (next_id d) ts))
       (\<lambda>d. account_uniq d (mk (next_id d) ts))
       (\<lambda>d. d\<lparr>accounts := accounts d @ [mk (next_id d) ts], next_id := Suc (next_id d)\<rparr>)
       (\<lambda>d. account_of (mk (next_id d) ts)))"

definition create_account ::
  "string \<Rightarrow> string \<Rightarrow> string \<Rightarrow> string \<Rightarrow> (world, auth_error, account) op" where
  "create_account username email_ct email_hash password_hash =
     map_errM map_store_error (insert_account (\<lambda>i t.
       \<lparr>a_id = i, a_username = username, a_email_ct = email_ct, a_email_hash = email_hash,
        a_school_ct = None, a_school_hash = None, a_password = password_hash,
        a_identity = ''temporary'', a_status = ''active'', a_verified_at = None, a_updated = t\<rparr>))"

definition create_pending_account ::
  "string \<Rightarrow> string \<Rightarrow> string \<Rightarrow> string \<Rightarrow> string \<Rightarrow> string \<Rightarrow> (world, auth_error, account) op" where
  "create_pending_account username email_ct email_hash school_ct school_hash password_hash =
     map_errM map_store_error (insert_account (\<lambda>i t.
       \<lparr>a_id = i, a_username = username, a_email_ct = email_ct, a_email_hash = email_hash,
        a_school_ct = Some school_ct, a_school_hash = Some school_hash,
        a_password = password_hash, a_identity = ''temporary'',
        a_status = ''pending_verification'', a_verified_at = None, a_updated = t\<rparr>))"

definition find_account_by_username :: "string \<Rightarrow> (world, auth_error, account \<times> string) op" where
  "find_account_by_username username =
     map_errM (no_rows ErrNotFound) (sql_read (\<lambda>d.
       map_option (\<lambda>r. (account_of r, a_password r))
         (List.find (\<lambda>r. a_username r = username) (accounts d))))"

definition find_account_by_id :: "uuid \<Rightarrow> (world, auth_error, account) op" where
  "find_account_by_id i =
     bindM (map_errM (no_rows ErrNotFound) (sql_read (\<lambda>d. map_option account_of (find_account d i))))
       (\<lambda>a. if acc_status a \<noteq> ''active'' then fail ErrNotFound else ret a)"

definition get_account_contact ::
  "uuid \<Rightarrow> (world, auth_error, string \<times> string option \<times> string) op" where
  "get_account_contact i =
     map_errM (no_rows ErrNotFound) (sql_read (\<lambda>d.
       map_option (\<lambda>r. (a_email_ct r, a_school_ct r, a_status r)) (find_account d i)))"

text \<open>An \<^verbatim>\<open>UPDATE\<close> of the unique columns of one account; the result is the row count.\<close>

definition update_account_unique ::
  "uuid \<Rightarrow> (account_row \<Rightarrow> account_row) \<Rightarrow> (world, sql_error, nat) op" where
  "update_account_unique i f =
     sql_insert (\<lambda>d. list_all (\<lambda>r. a_id r = i \<longrightarrow> account_chk (f r)) (accounts d))
       (\<lambda>d. list_all (\<lambda>r. a_id r = i \<longrightarrow> account_uniq d (f r)) (accounts d))
       (\<lambda>d. d\<lparr>accounts := update_where (\<lambda>r. a_id r = i) f (accounts d)\<rparr>)
       (\<lambda>d. affected (\<lambda>r. a_id r = i) (accounts d))"

definition update_account_email :: "uuid \<Rightarrow> string \<Rightarrow> string \<Rightarrow> (world, auth_error, unit) op" where
  "update_account_email i ct h =
     bindM (readM db_now) (\<lambda>ts. bindM (map_errM map_store_error (update_account_unique i
              (\<lambda>r. r\<lparr>a_email_ct := ct, a_email_hash := h, a_updated := ts\<rparr>)))
       (\<lambda>n. if n = 0 then fail ErrNotFound else ret ()))"

definition update_account_school_email ::
  "uuid \<Rightarrow> string \<Rightarrow> string \<Rightarrow> (world, auth_error, unit) op" where
  "update_account_school_email i ct h =
     bindM (readM db_now) (\<lambda>ts. bindM (map_errM map_store_error (update_account_unique i
              (\<lambda>r. r\<lparr>a_school_ct := Some ct, a_school_hash := Some h, a_updated := ts\<rparr>)))
       (\<lambda>n. if n = 0 then fail ErrNotFound else ret ()))"

section \<open>Sessions\<close>

definition create_session ::
  "uuid \<Rightarrow> string \<Rightarrow> string \<Rightarrow> time \<Rightarrow> string option \<Rightarrow> string option
    \<Rightarrow> (world, auth_error, uuid) op" where
  "create_session acc token csrf expires ip agent =
     bindM (readM db_now) (\<lambda>ts. map_errM map_store_error (sql_insert
       (\<lambda>d. has_account d acc \<and> token \<noteq> [] \<and> csrf \<noteq> [])
       (\<lambda>d. list_all (\<lambda>s. s_token s \<noteq> token) (sessions d))
       (\<lambda>d. d\<lparr>sessions := sessions d @ [\<lparr>s_id = next_id d, s_account = acc, s_token = token,
                s_csrf = csrf, s_expires = expires, s_ip = ip, s_agent = agent, s_revoked = None,
                s_last_seen = None, s_created = ts\<rparr>], next_id := Suc (next_id d)\<rparr>)
       next_id))"

definition session_of :: "session_row \<Rightarrow> account_row \<Rightarrow> session" where
  "session_of s a = \<lparr>ses_id = s_id s, ses_account = account_of a, ses_csrf = s_csrf s,
     ses_expires = s_expires s\<rparr>"

definition session_live :: "time \<Rightarrow> session_row \<Rightarrow> bool" where
  "session_live t s \<longleftrightarrow> s_revoked s = None \<and> t < s_expires s"

definition join_session :: "db \<Rightarrow> string \<Rightarrow> time \<Rightarrow> session option" where
  "join_session d token t =
     (case List.find (\<lambda>s. s_token s = token \<and> session_live t s \<and> has_account d (s_account s))
             (sessions d) of
        None \<Rightarrow> None
      | Some s \<Rightarrow> map_option (session_of s) (find_account d (s_account s)))"

definition find_active_session :: "string \<Rightarrow> time \<Rightarrow> (world, auth_error, session) op" where
  "find_active_session token t =
     bindM (map_errM (no_rows ErrNotFound) (sql_read (\<lambda>d. join_session d token t)))
       (\<lambda>s. if acc_status (ses_account s) \<noteq> ''active'' then fail ErrNotFound else ret s)"

definition touch_session :: "uuid \<Rightarrow> time \<Rightarrow> (world, auth_error, unit) op" where
  "touch_session i t =
     map_errM db_error (sql_write (\<lambda>d. d\<lparr>sessions :=
       update_where (\<lambda>s. s_id s = i) (\<lambda>s. s\<lparr>s_last_seen := Some t\<rparr>) (sessions d)\<rparr>) (\<lambda>_. ()))"

text \<open>\<^verbatim>\<open>revoked_at = COALESCE(revoked_at, t)\<close>\<close>

definition coalesce :: "'a option \<Rightarrow> 'a \<Rightarrow> 'a option" where
  "coalesce x y = (case x of None \<Rightarrow> Some y | Some z \<Rightarrow> Some z)"

definition revoke_row :: "time \<Rightarrow> session_row \<Rightarrow> session_row" where
  "revoke_row t s = s\<lparr>s_revoked := coalesce (s_revoked s) t\<rparr>"

definition revoke_session :: "uuid \<Rightarrow> time \<Rightarrow> (world, auth_error, unit) op" where
  "revoke_session i t =
     map_errM db_error (sql_write (\<lambda>d. d\<lparr>sessions :=
       update_where (\<lambda>s. s_id s = i) (revoke_row t) (sessions d)\<rparr>) (\<lambda>_. ()))"

record session_summary =
  ss_id :: uuid
  ss_created :: time
  ss_last_seen :: "time option"
  ss_expires :: time

definition summary_of :: "session_row \<Rightarrow> session_summary" where
  "summary_of s = \<lparr>ss_id = s_id s, ss_created = s_created s, ss_last_seen = s_last_seen s,
     ss_expires = s_expires s\<rparr>"

definition last_activity :: "session_row \<Rightarrow> time" where
  "last_activity s = (case s_last_seen s of None \<Rightarrow> s_created s | Some t \<Rightarrow> t)"

definition list_active_sessions ::
  "uuid \<Rightarrow> time \<Rightarrow> (world, auth_error, session_summary list) op" where
  "list_active_sessions acc t =
     map_errM db_error (sql_read (\<lambda>d. Some (map summary_of
       (sort_key (\<lambda>s. - last_activity s)
         (filter (\<lambda>s. s_account s = acc \<and> session_live t s) (sessions d))))))"

definition revoke_account_session :: "uuid \<Rightarrow> uuid \<Rightarrow> time \<Rightarrow> (world, auth_error, bool) op" where
  "revoke_account_session acc i t =
     map_errM db_error (sql_write
       (\<lambda>d. d\<lparr>sessions := update_where
          (\<lambda>s. s_id s = i \<and> s_account s = acc \<and> s_revoked s = None) (revoke_row t) (sessions d)\<rparr>)
       (\<lambda>d. 0 < affected (\<lambda>s. s_id s = i \<and> s_account s = acc \<and> s_revoked s = None) (sessions d)))"

definition revoke_other_account_sessions ::
  "uuid \<Rightarrow> uuid \<Rightarrow> time \<Rightarrow> (world, auth_error, nat) op" where
  "revoke_other_account_sessions acc keep t =
     map_errM db_error (sql_write
       (\<lambda>d. d\<lparr>sessions := update_where
          (\<lambda>s. s_account s = acc \<and> s_id s \<noteq> keep \<and> s_revoked s = None) (revoke_row t) (sessions d)\<rparr>)
       (\<lambda>d. affected (\<lambda>s. s_account s = acc \<and> s_id s \<noteq> keep \<and> s_revoked s = None) (sessions d)))"

section \<open>OAuth identities and states\<close>

definition known_provider :: "string \<Rightarrow> bool" where
  "known_provider p \<longleftrightarrow> p = ''google'' \<or> p = ''discord''"

definition create_oauth_binding ::
  "uuid \<Rightarrow> string \<Rightarrow> string \<Rightarrow> (world, auth_error, unit) op" where
  "create_oauth_binding acc provider subject =
     map_errM map_store_error (sql_insert
       (\<lambda>d. has_account d acc \<and> known_provider provider \<and> subject \<noteq> [])
       (\<lambda>d. list_all (\<lambda>i. \<not> (i_provider i = provider \<and> (i_subject i = subject \<or> i_account i = acc)))
              (identities d))
       (\<lambda>d. d\<lparr>identities := identities d
          @ [\<lparr>i_account = acc, i_provider = provider, i_subject = subject\<rparr>]\<rparr>)
       (\<lambda>_. ()))"

text \<open>
  The update fails when a row for the new hash exists already (\<^verbatim>\<open>UNIQUE (provider, subject)\<close>
  and at most one row holds the old one).
\<close>

definition rehash_oauth_subject ::
  "string \<Rightarrow> string \<Rightarrow> string \<Rightarrow> (world, auth_error, unit) op" where
  "rehash_oauth_subject provider old new =
     map_errM db_error (sql_insert (\<lambda>_. new \<noteq> [])
       (\<lambda>d. old = new \<or> \<not> list_ex (\<lambda>i. i_provider i = provider \<and> i_subject i = old) (identities d)
          \<or> \<not> list_ex (\<lambda>i. i_provider i = provider \<and> i_subject i = new) (identities d))
       (\<lambda>d. d\<lparr>identities := update_where (\<lambda>i. i_provider i = provider \<and> i_subject i = old)
          (\<lambda>i. i\<lparr>i_subject := new\<rparr>) (identities d)\<rparr>)
       (\<lambda>_. ()))"

definition join_identity :: "db \<Rightarrow> string \<Rightarrow> string list \<Rightarrow> (account \<times> string) option" where
  "join_identity d provider hashes =
     (case List.find (\<lambda>i. i_provider i = provider \<and> i_subject i \<in> set hashes
                          \<and> has_account d (i_account i)) (identities d) of
        None \<Rightarrow> None
      | Some i \<Rightarrow> map_option (\<lambda>a. (account_of a, i_subject i)) (find_account d (i_account i)))"

definition find_account_by_oauth_subject_hashes ::
  "string \<Rightarrow> string list \<Rightarrow> (world, auth_error, account \<times> string) op" where
  "find_account_by_oauth_subject_hashes provider hashes =
     bindM (map_errM (no_rows ErrNotFound) (sql_read (\<lambda>d. join_identity d provider hashes)))
       (\<lambda>(a, matched). if acc_status a \<noteq> ''active'' then fail ErrNotFound else ret (a, matched))"

definition create_oauth_state ::
  "string \<Rightarrow> uuid option \<Rightarrow> string \<Rightarrow> string \<Rightarrow> string \<Rightarrow> string \<Rightarrow> time
    \<Rightarrow> (world, auth_error, unit) op" where
  "create_oauth_state provider acc state verifier redirect return_to expires =
     map_errM map_store_error (sql_insert
       (\<lambda>d. known_provider provider \<and> (case acc of None \<Rightarrow> True | Some i \<Rightarrow> has_account d i)
          \<and> state \<noteq> [] \<and> verifier \<noteq> [] \<and> \<not> pg_blank redirect)
       (\<lambda>d. list_all (\<lambda>x. o_state x \<noteq> state) (oauth_states d))
       (\<lambda>d. d\<lparr>oauth_states := oauth_states d @ [\<lparr>o_provider = provider, o_account = acc,
          o_state = state, o_verifier = verifier, o_redirect = redirect,
          o_return_to = (if return_to = [] then None else Some return_to), o_expires = expires,
          o_consumed = None\<rparr>]\<rparr>)
       (\<lambda>_. ()))"

definition state_live :: "string \<Rightarrow> string \<Rightarrow> time \<Rightarrow> state_row \<Rightarrow> bool" where
  "state_live provider state t r \<longleftrightarrow> o_provider r = provider \<and> o_state r = state
     \<and> o_consumed r = None \<and> t < o_expires r"

definition consume_oauth_state :: "string \<Rightarrow> string \<Rightarrow> time \<Rightarrow> (world, auth_error, oauth_state) op" where
  "consume_oauth_state provider state t =
     map_errM (no_rows ErrExpired) (sql (\<lambda>d.
       case List.find (state_live provider state t) (oauth_states d) of
         None \<Rightarrow> (Inl NoRows, d)
       | Some r \<Rightarrow>
           (Inr \<lparr>ost_provider = provider, ost_account = o_account r, ost_verifier = o_verifier r,
                 ost_redirect = o_redirect r,
                 ost_return_to = (case o_return_to r of None \<Rightarrow> [] | Some x \<Rightarrow> x)\<rparr>,
            d\<lparr>oauth_states := update_where (state_live provider state t)
               (\<lambda>r. r\<lparr>o_consumed := Some t\<rparr>) (oauth_states d)\<rparr>)))"

section \<open>E-mail verification\<close>

definition open_challenge :: "uuid \<Rightarrow> 'a challenge_row_scheme \<Rightarrow> bool" where
  "open_challenge acc c \<longleftrightarrow> c_account c = acc \<and> c_consumed c = None"

definition consume_row :: "time \<Rightarrow> 'a challenge_row_scheme \<Rightarrow> 'a challenge_row_scheme" where
  "consume_row t c = c\<lparr>c_consumed := Some t\<rparr>"

definition create_email_verification_challenge ::
  "uuid \<Rightarrow> string \<Rightarrow> time \<Rightarrow> (world, auth_error, unit) op" where
  "create_email_verification_challenge acc token expires =
     bindM (readM db_now) (\<lambda>ts. transaction db_error
       (bindM (map_errM db_error (sql_write (\<lambda>d. d\<lparr>email_challenges :=
          update_where (open_challenge acc) (consume_row ts) (email_challenges d)\<rparr>) (\<lambda>_. ())))
       (\<lambda>_. map_errM map_store_error (sql_insert
          (\<lambda>d. has_account d acc \<and> token \<noteq> [])
          (\<lambda>d. list_all (\<lambda>c. c_token c \<noteq> token) (email_challenges d))
          (\<lambda>d. d\<lparr>email_challenges := email_challenges d
             @ [\<lparr>c_id = next_id d, c_account = acc, c_token = token, c_expires = expires,
                 c_consumed = None, c_created = ts\<rparr>], next_id := Suc (next_id d)\<rparr>)
          (\<lambda>_. ())))))"

definition challenge_live :: "string \<Rightarrow> time \<Rightarrow> 'a challenge_row_scheme \<Rightarrow> bool" where
  "challenge_live token t c \<longleftrightarrow> c_token c = token \<and> c_consumed c = None \<and> t < c_expires c"

text \<open>The two updates the two confirmation methods share.\<close>

definition verify_email_of ::
  "challenge_row \<Rightarrow> time \<Rightarrow> (world, auth_error, unit) op" where
  "verify_email_of c t =
     bindM (readM db_now) (\<lambda>ts. bindM (map_errM db_error (sql_write (\<lambda>d. d\<lparr>email_challenges :=
        update_where (\<lambda>x. c_id x = c_id c) (consume_row t) (email_challenges d)\<rparr>) (\<lambda>_. ())))
     (\<lambda>_. map_errM db_error (sql_write (\<lambda>d. d\<lparr>accounts :=
        update_where (\<lambda>a. a_id a = c_account c \<and> a_status a = ''active'')
          (\<lambda>a. a\<lparr>a_verified_at := coalesce (a_verified_at a) t, a_updated := ts\<rparr>)
          (accounts d)\<rparr>) (\<lambda>_. ()))))"

definition consume_email_verification_challenge ::
  "uuid \<Rightarrow> string \<Rightarrow> time \<Rightarrow> (world, auth_error, unit) op" where
  "consume_email_verification_challenge acc token t =
     transaction db_error
       (bindM (map_errM (no_rows ErrExpired) (sql_read (\<lambda>d.
          select_first (\<lambda>c. - c_created c) (\<lambda>c. c_account c = acc \<and> challenge_live token t c)
            (email_challenges d))))
       (\<lambda>c. verify_email_of c t))"

definition consume_email_verification_token :: "string \<Rightarrow> time \<Rightarrow> (world, auth_error, unit) op" where
  "consume_email_verification_token token t =
     transaction db_error
       (bindM (map_errM (no_rows ErrExpired) (sql_read (\<lambda>d.
          select_first (\<lambda>c. - c_created c) (challenge_live token t) (email_challenges d))))
       (\<lambda>c. verify_email_of c t))"

section \<open>Password reset and activation\<close>

definition lookup_account_id_by_email_hashes :: "string list \<Rightarrow> (world, auth_error, uuid) op" where
  "lookup_account_id_by_email_hashes hashes =
     map_errM (no_rows ErrNotFound) (sql_read (\<lambda>d. map_option a_id
       (List.find (\<lambda>a. a_email_hash a \<in> set hashes \<and> a_status a = ''active'') (accounts d))))"

definition create_password_reset_challenge ::
  "uuid \<Rightarrow> string \<Rightarrow> time \<Rightarrow> bool \<Rightarrow> (world, auth_error, unit) op" where
  "create_password_reset_challenge acc token expires activates =
     bindM (readM db_now) (\<lambda>ts. transaction db_error
       (bindM (map_errM db_error (sql_write (\<lambda>d. d\<lparr>reset_challenges :=
          update_where (open_challenge acc) (consume_row ts) (reset_challenges d)\<rparr>) (\<lambda>_. ())))
       (\<lambda>_. map_errM map_store_error (sql_insert
          (\<lambda>d. has_account d acc \<and> token \<noteq> [])
          (\<lambda>d. list_all (\<lambda>c. c_token c \<noteq> token) (reset_challenges d))
          (\<lambda>d. d\<lparr>reset_challenges := reset_challenges d
             @ [\<lparr>c_id = next_id d, c_account = acc, c_token = token, c_expires = expires,
                 c_consumed = None, c_created = ts, c_activates = activates\<rparr>],
                 next_id := Suc (next_id d)\<rparr>)
          (\<lambda>_. ())))))"

definition reset_target :: "reset_row \<Rightarrow> account_row \<Rightarrow> bool" where
  "reset_target c a \<longleftrightarrow> a_id a = c_account c
     \<and> a_status a = (if c_activates c then ''pending_verification'' else ''active'')"

definition reset_account :: "reset_row \<Rightarrow> string \<Rightarrow> time \<Rightarrow> account_row \<Rightarrow> account_row" where
  "reset_account c hash t a =
     (if c_activates c
      then a\<lparr>a_password := hash, a_status := ''active'', a_identity := ''student'', a_updated := t\<rparr>
      else a\<lparr>a_password := hash, a_updated := t\<rparr>)"

definition consume_password_reset_challenge ::
  "string \<Rightarrow> string \<Rightarrow> time \<Rightarrow> (world, auth_error, unit) op" where
  "consume_password_reset_challenge token hash t =
     bindM (readM db_now) (\<lambda>ts. transaction db_error
       (bindM (map_errM (no_rows ErrExpired) (sql_read (\<lambda>d.
          select_first (\<lambda>c. - c_created c) (challenge_live token t) (reset_challenges d))))
       (\<lambda>c. bindM (map_errM db_error (sql_write (\<lambda>d. d\<lparr>reset_challenges :=
          update_where (\<lambda>x. c_id x = c_id c) (consume_row t) (reset_challenges d)\<rparr>) (\<lambda>_. ())))
       (\<lambda>_. bindM (map_errM db_error (sql_write
          (\<lambda>d. d\<lparr>accounts := update_where (reset_target c) (reset_account c hash ts) (accounts d)\<rparr>)
          (\<lambda>d. affected (reset_target c) (accounts d))))
       (\<lambda>n. if n = 0 then fail ErrNotFound
            else map_errM db_error (sql_write (\<lambda>d. d\<lparr>sessions :=
              update_where (\<lambda>s. s_account s = c_account c) (revoke_row t) (sessions d)\<rparr>) (\<lambda>_. ())))))))"

definition update_password_for_account ::
  "uuid \<Rightarrow> string \<Rightarrow> uuid \<Rightarrow> (world, auth_error, unit) op" where
  "update_password_for_account acc hash keep =
     bindM (readM db_now) (\<lambda>ts. transaction db_error
       (bindM (map_errM db_error (sql_write
          (\<lambda>d. d\<lparr>accounts := update_where (\<lambda>a. a_id a = acc \<and> a_status a = ''active'')
             (\<lambda>a. a\<lparr>a_password := hash, a_updated := ts\<rparr>) (accounts d)\<rparr>)
          (\<lambda>d. affected (\<lambda>a. a_id a = acc \<and> a_status a = ''active'') (accounts d))))
       (\<lambda>n. if n = 0 then fail ErrNotFound
            else map_errM db_error (sql_write (\<lambda>d. d\<lparr>sessions :=
              update_where (\<lambda>s. s_account s = acc \<and> s_id s \<noteq> keep) (revoke_row ts)
                (sessions d)\<rparr>) (\<lambda>_. ())))))"

section \<open>Purging accounts that never activated\<close>

definition expired_pending :: "db \<Rightarrow> time \<Rightarrow> account_row \<Rightarrow> bool" where
  "expired_pending d t a \<longleftrightarrow> a_status a = ''pending_verification''
     \<and> list_ex (\<lambda>c. c_account c = a_id a \<and> c_activates c \<and> c_consumed c = None \<and> c_expires c < t)
         (reset_challenges d)"

text \<open>
  Rows that reference an account with \<^verbatim>\<open>ON DELETE RESTRICT\<close>. Tables of other components
  that do so too are not part of the model.
\<close>

definition referenced :: "db \<Rightarrow> uuid \<Rightarrow> bool" where
  "referenced d i \<longleftrightarrow> list_ex (\<lambda>s. s_account s = i) (sessions d)
     \<or> list_ex (\<lambda>x. i_account x = i) (identities d)
     \<or> list_ex (\<lambda>x. o_account x = Some i) (oauth_states d)
     \<or> list_ex (\<lambda>c. c_account c = i) (email_challenges d)
     \<or> list_ex (\<lambda>c. c_account c = i) (reset_challenges d)
     \<or> list_ex (\<lambda>x. fst x = i) (roles d) \<or> list_ex (\<lambda>m. m_account m = i) (admin_mfa d)
     \<or> list_ex (\<lambda>e. e_account e = Some i) (outbox d) \<or> list_ex (\<lambda>n. n_account n = i) (notices d)"

definition purged :: "uuid list \<Rightarrow> account_row \<Rightarrow> bool" where
  "purged ids a \<longleftrightarrow> a_id a \<in> set ids \<and> a_status a = ''pending_verification''"

text \<open>The delete, with the rows that cascade.\<close>

definition delete_pending_accounts :: "uuid list \<Rightarrow> (world, sql_error, nat) op" where
  "delete_pending_accounts ids =
     sql_insert (\<lambda>d. list_all (\<lambda>a. purged ids a \<longrightarrow> \<not> referenced d (a_id a)) (accounts d)) (\<lambda>_. True)
       (\<lambda>d. let gone = map a_id (filter (purged ids) (accounts d)) in
            d\<lparr>accounts := filter (\<lambda>a. \<not> purged ids a) (accounts d),
              api_tokens := filter (\<lambda>t. t_account t \<notin> set gone) (api_tokens d),
              calendar_grants := filter (\<lambda>g. g_account g \<notin> set gone) (calendar_grants d)\<rparr>)
       (\<lambda>d. affected (purged ids) (accounts d))"

definition purge_expired_pending_accounts :: "time \<Rightarrow> (world, auth_error, nat) op" where
  "purge_expired_pending_accounts t =
     transaction db_error
       (bindM (map_errM db_error (sql_read (\<lambda>d.
          Some (map a_id (filter (expired_pending d t) (accounts d))))))
       (\<lambda>ids. if ids = [] then ret 0
          else bindM (map_errM db_error (sql_write (\<lambda>d. d\<lparr>reset_challenges :=
                 filter (\<lambda>c. c_account c \<notin> set ids) (reset_challenges d)\<rparr>) (\<lambda>_. ())))
          (\<lambda>_. bindM (map_errM db_error (sql_write (\<lambda>d. d\<lparr>outbox :=
                 filter (\<lambda>e. \<not> list_ex (\<lambda>i. e_account e = Some i) ids) (outbox d)\<rparr>) (\<lambda>_. ())))
          (\<lambda>_. map_errM db_error (delete_pending_accounts ids)))))"

section \<open>Roles and settings\<close>

definition has_role :: "string \<Rightarrow> uuid \<Rightarrow> (world, auth_error, bool) op" where
  "has_role role i = map_errM db_error (sql_read (\<lambda>d. Some ((i, role) \<in> set (roles d))))"

definition is_admin :: "uuid \<Rightarrow> (world, auth_error, bool) op" where
  "is_admin i = has_role ''admin'' i"

definition is_admissions_moderator :: "uuid \<Rightarrow> (world, auth_error, bool) op" where
  "is_admissions_moderator i = has_role ''admissions_moderator'' i"

definition is_service_account :: "uuid \<Rightarrow> (world, auth_error, bool) op" where
  "is_service_account i = has_role ''service'' i"

definition known_role :: "string \<Rightarrow> bool" where
  "known_role r \<longleftrightarrow> r \<in> {''admin'', ''ai_system'', ''service'', ''admissions_moderator''}"

definition grant_role :: "uuid \<Rightarrow> string \<Rightarrow> (world, auth_error, unit) op" where
  "grant_role i role =
     map_errM db_error (sql_insert (\<lambda>d. has_account d i \<and> known_role role) (\<lambda>_. True)
       (\<lambda>d. if (i, role) \<in> set (roles d) then d else d\<lparr>roles := roles d @ [(i, role)]\<rparr>) (\<lambda>_. ()))"

definition get_require_admin_mfa :: "(world, auth_error, bool \<times> bool) op" where
  "get_require_admin_mfa =
     catchM (sql_read (\<lambda>d. map_of (app_settings d) ''require_admin_mfa''))
       (\<lambda>e. if e = NoRows then ret (False, False) else fail ErrSQL)
       (\<lambda>v. ret (v = ''true'', True))"

section \<open>Administrator MFA\<close>

definition find_mfa :: "db \<Rightarrow> uuid \<Rightarrow> mfa_row option" where
  "find_mfa d i = List.find (\<lambda>m. m_account m = i) (admin_mfa d)"

definition get_admin_mfa :: "uuid \<Rightarrow> (world, auth_error, mfa_row) op" where
  "get_admin_mfa i = map_errM (no_rows ErrNotFound) (sql_read (\<lambda>d. find_mfa d i))"

definition save_admin_mfa_secret :: "uuid \<Rightarrow> string \<Rightarrow> time \<Rightarrow> (world, auth_error, unit) op" where
  "save_admin_mfa_secret i ct expires =
     (if ct = [] then fail ErrInvalidInput
      else map_errM map_store_error (sql_insert (\<lambda>d. has_account d i) (\<lambda>_. True)
        (\<lambda>d. case find_mfa d i of
               None \<Rightarrow> d\<lparr>admin_mfa := admin_mfa d @ [\<lparr>m_account = i, m_secret = ct, m_enabled = None,
                          m_pending = Some expires, m_verified = None\<rparr>]\<rparr>
             | Some _ \<Rightarrow> d\<lparr>admin_mfa := update_where (\<lambda>m. m_account m = i \<and> m_enabled m = None)
                 (\<lambda>m. m\<lparr>m_secret := ct, m_enabled := None, m_pending := Some expires\<rparr>) (admin_mfa d)\<rparr>)
        (\<lambda>_. ())))"

definition store_enable_admin_mfa :: "uuid \<Rightarrow> time \<Rightarrow> (world, auth_error, unit) op" where
  "store_enable_admin_mfa i t =
     bindM (map_errM db_error (sql_write
       (\<lambda>d. d\<lparr>admin_mfa := update_where (\<lambda>m. m_account m = i \<and> m_enabled m = None)
          (\<lambda>m. m\<lparr>m_enabled := Some t, m_verified := Some t, m_pending := None\<rparr>) (admin_mfa d)\<rparr>)
       (\<lambda>d. affected (\<lambda>m. m_account m = i \<and> m_enabled m = None) (admin_mfa d))))
     (\<lambda>n. if n \<noteq> 1 then fail ErrConflict else ret ())"

definition touch_admin_mfa_verified :: "uuid \<Rightarrow> time \<Rightarrow> (world, auth_error, unit) op" where
  "touch_admin_mfa_verified i t =
     map_errM db_error (sql_write (\<lambda>d. d\<lparr>admin_mfa :=
       update_where (\<lambda>m. m_account m = i \<and> m_enabled m \<noteq> None) (\<lambda>m. m\<lparr>m_verified := Some t\<rparr>)
         (admin_mfa d)\<rparr>) (\<lambda>_. ()))"

definition store_disable_admin_mfa :: "uuid \<Rightarrow> (world, auth_error, unit) op" where
  "store_disable_admin_mfa i =
     bindM (map_errM db_error (sql_write
       (\<lambda>d. d\<lparr>admin_mfa := filter (\<lambda>m. m_account m \<noteq> i) (admin_mfa d)\<rparr>)
       (\<lambda>d. affected (\<lambda>m. m_account m = i) (admin_mfa d))))
     (\<lambda>n. if n \<noteq> 1 then fail ErrNotFound else ret ())"

section \<open>Service tokens and calendar grants\<close>

definition join_token :: "db \<Rightarrow> string \<Rightarrow> (uuid \<times> account) option" where
  "join_token d h =
     (case List.find (\<lambda>t. t_hash t = h \<and> t_revoked t = None \<and> (t_account t, ''service'') \<in> set (roles d)
                        \<and> list_ex (\<lambda>a. a_id a = t_account t \<and> a_status a = ''active'') (accounts d))
             (api_tokens d) of
        None \<Rightarrow> None
      | Some t \<Rightarrow> map_option (\<lambda>a. (t_id t, account_of a))
          (List.find (\<lambda>a. a_id a = t_account t \<and> a_status a = ''active'') (accounts d)))"

definition find_account_by_service_token :: "string \<Rightarrow> time \<Rightarrow> (world, auth_error, account) op" where
  "find_account_by_service_token h t =
     bindM (map_errM (no_rows ErrNotFound) (sql_read (\<lambda>d. join_token d h)))
       (\<lambda>(tid, a). ignoreM (sql_write (\<lambda>d. d\<lparr>api_tokens := update_where (\<lambda>x. t_id x = tid)
                                  (\<lambda>x. x\<lparr>t_last_used := Some t\<rparr>) (api_tokens d)\<rparr>) (\<lambda>_. ()))
                    (ret a))"

definition create_service_api_token ::
  "uuid \<Rightarrow> string \<Rightarrow> string \<Rightarrow> (world, auth_error, unit) op" where
  "create_service_api_token acc h label =
     map_errM db_error (sql_insert
       (\<lambda>d. has_account d acc \<and> \<not> pg_blank label \<and> h \<noteq> [])
       (\<lambda>d. list_all (\<lambda>t. t_revoked t = None \<longrightarrow> t_hash t \<noteq> h) (api_tokens d))
       (\<lambda>d. d\<lparr>api_tokens := api_tokens d @ [\<lparr>t_id = next_id d, t_account = acc, t_hash = h,
          t_label = label, t_last_used = None, t_revoked = None\<rparr>], next_id := Suc (next_id d)\<rparr>)
       (\<lambda>_. ()))"

definition save_calendar_grant ::
  "uuid \<Rightarrow> string \<Rightarrow> string \<Rightarrow> string \<Rightarrow> (world, auth_error, unit) op" where
  "save_calendar_grant acc provider refresh scope =
     map_errM db_error (sql_insert
       (\<lambda>d. has_account d acc \<and> provider = ''google'' \<and> refresh \<noteq> [] \<and> \<not> pg_blank scope) (\<lambda>_. True)
       (\<lambda>d. if list_ex (\<lambda>g. g_account g = acc) (calendar_grants d)
            then d\<lparr>calendar_grants := update_where (\<lambda>g. g_account g = acc)
                     (\<lambda>g. g\<lparr>g_provider := provider, g_refresh := refresh, g_scope := scope\<rparr>)
                     (calendar_grants d)\<rparr>
            else d\<lparr>calendar_grants := calendar_grants d @ [\<lparr>g_account = acc, g_provider = provider,
                     g_refresh = refresh, g_scope = scope\<rparr>]\<rparr>)
       (\<lambda>_. ()))"

definition get_calendar_grant :: "uuid \<Rightarrow> string \<Rightarrow> (world, auth_error, string \<times> string) op" where
  "get_calendar_grant acc provider =
     map_errM (no_rows ErrNotFound) (sql_read (\<lambda>d. map_option (\<lambda>g. (g_refresh g, g_scope g))
       (List.find (\<lambda>g. g_account g = acc \<and> g_provider g = provider) (calendar_grants d))))"

definition delete_calendar_grant :: "uuid \<Rightarrow> string \<Rightarrow> (world, auth_error, unit) op" where
  "delete_calendar_grant acc provider =
     map_errM db_error (sql_write (\<lambda>d. d\<lparr>calendar_grants :=
       filter (\<lambda>g. \<not> (g_account g = acc \<and> g_provider g = provider)) (calendar_grants d)\<rparr>) (\<lambda>_. ()))"

end
