(* ===== verification/StoreInvariants.thy ===== *)
theory StoreInvariants imports AuthStore begin

text \<open>
  The invariant of the authentication tables and its preservation by every method of the store:
  primary and unique keys, foreign keys, and the rule that an account has at most one open
  challenge. Every preservation proof follows the code: a rule per combinator
  (\<open>keeps_intros\<close>), and one fact on the tables per write.
\<close>

section \<open>Preservation along statements\<close>

lemma keeps_sql:
  "(\<And>d. P d \<Longrightarrow> P (snd (q d))) \<Longrightarrow> keeps (\<lambda>w. P (w_db w)) (sql q)"
  by (auto simp: keeps_def sql_def split: list.splits)

lemma keeps_sql_read [keeps_intros]: "keeps (\<lambda>w. P (w_db w)) (sql_read f)"
  by (auto simp: keeps_def sql_read_def sql_def split: list.splits)

lemma keeps_sql_write: "(\<And>d. P d \<Longrightarrow> P (g d)) \<Longrightarrow> keeps (\<lambda>w. P (w_db w)) (sql_write g f)"
  by (auto simp: sql_write_def intro: keeps_sql)

lemma keeps_sql_insert:
  "(\<And>d. P d \<Longrightarrow> chk d \<Longrightarrow> uniq d \<Longrightarrow> P (g d)) \<Longrightarrow>
   keeps (\<lambda>w. P (w_db w)) (sql_insert chk uniq g f)"
  by (auto simp: sql_insert_def intro: keeps_sql)

lemma keeps_transaction [keeps_intros]:
  assumes "keeps (\<lambda>w. P (w_db w)) body"
  shows "keeps (\<lambda>w. P (w_db w)) (transaction conv body)"
proof (rule keepsI)
  fix w r w' assume P: "P (w_db w)" and run: "transaction conv body w = (r, w')"
  show "P (w_db w')"
  proof (cases r)
    case (Inl e)
    with run P show ?thesis by (auto dest: transaction_Inl_db)
  next
    case (Inr x)
    with run obtain w1 w2 where "w_db w1 = w_db w" "body w1 = (Inr x, w2)" "w_db w' = w_db w2"
      by (blast elim: transaction_Inr)
    moreover from this have "P (w_db w2)"
      using keepsD[OF assms, of w1 "Inr x" w2] P by simp
    ultimately show ?thesis by simp
  qed
qed

lemma keeps_with_draws [keeps_intros]: "keeps (\<lambda>w. P (w_db w)) (with_draws conv m)"
  by (simp add: keeps_def)

section \<open>The invariant\<close>

definition accounts_ok :: "db \<Rightarrow> bool" where
  "accounts_ok d \<longleftrightarrow> 0 < next_id d \<and> (\<forall>a \<in> set (accounts d). 0 < a_id a \<and> a_id a < next_id d)
     \<and> distinct (map a_id (accounts d))
     \<and> (\<forall>a \<in> set (accounts d). \<forall>b \<in> set (accounts d). a_id a \<noteq> a_id b \<longrightarrow> \<not> account_clash a b)"

definition sessions_ok :: "db \<Rightarrow> bool" where
  "sessions_ok d \<longleftrightarrow> (\<forall>s \<in> set (sessions d). 0 < s_id s \<and> s_id s < next_id d \<and> has_account d (s_account s))
     \<and> distinct (map s_id (sessions d)) \<and> distinct (map s_token (sessions d))"

definition one_open :: "'a challenge_row_scheme list \<Rightarrow> bool" where
  "one_open cs \<longleftrightarrow> (\<forall>c \<in> set cs. \<forall>c' \<in> set cs. c_account c = c_account c' \<longrightarrow>
     c_consumed c = None \<longrightarrow> c_consumed c' = None \<longrightarrow> c = c')"

definition challenges_ok :: "db \<Rightarrow> 'a challenge_row_scheme list \<Rightarrow> bool" where
  "challenges_ok d cs \<longleftrightarrow> (\<forall>c \<in> set cs. c_id c < next_id d \<and> has_account d (c_account c))
     \<and> distinct (map c_id cs) \<and> distinct (map c_token cs) \<and> one_open cs"

definition identities_ok :: "db \<Rightarrow> bool" where
  "identities_ok d \<longleftrightarrow> distinct (map (\<lambda>i. (i_provider i, i_subject i)) (identities d))
     \<and> distinct (map (\<lambda>i. (i_provider i, i_account i)) (identities d))
     \<and> distinct (map o_state (oauth_states d))"

definition mfa_ok :: "db \<Rightarrow> bool" where
  "mfa_ok d \<longleftrightarrow> distinct (map m_account (admin_mfa d)) \<and> distinct (map g_account (calendar_grants d))
     \<and> distinct (roles d)"

definition db_ok :: "db \<Rightarrow> bool" where
  "db_ok d \<longleftrightarrow> accounts_ok d \<and> sessions_ok d \<and> challenges_ok d (email_challenges d)
     \<and> challenges_ok d (reset_challenges d) \<and> identities_ok d \<and> mfa_ok d"

abbreviation world_ok :: "world \<Rightarrow> bool" where
  "world_ok w \<equiv> db_ok (w_db w)"

lemma accounts_unique: "accounts_ok d \<Longrightarrow> a \<in> set (accounts d) \<Longrightarrow> b \<in> set (accounts d) \<Longrightarrow>
   a_id a = a_id b \<Longrightarrow> a = b"
  by (auto simp: accounts_ok_def intro: distinct_key_eq)

lemma find_account_Some: "find_account d i = Some a \<Longrightarrow> a \<in> set (accounts d) \<and> a_id a = i"
  by (auto simp: find_account_def dest!: find_Some_D)

lemma has_account_iff: "has_account d i \<longleftrightarrow> i \<in> a_id ` set (accounts d)"
  by (auto simp: has_account_def list_ex_iff)

lemma find_account_eq:
  "accounts_ok d \<Longrightarrow> a \<in> set (accounts d) \<Longrightarrow> find_account d (a_id a) = Some a"
  unfolding find_account_def by (rule find_unique_key) (auto simp: accounts_ok_def)

section \<open>Facts on the tables\<close>

text \<open>Two tables of accounts with the same ids carry the same foreign keys.\<close>

lemma challenges_ok_cong:
  "next_id d \<le> next_id d' \<Longrightarrow> a_id ` set (accounts d) \<subseteq> a_id ` set (accounts d') \<Longrightarrow>
   challenges_ok d cs \<Longrightarrow> challenges_ok d' cs"
  by (fastforce simp: challenges_ok_def has_account_iff)

lemma sessions_ok_cong:
  "next_id d \<le> next_id d' \<Longrightarrow> a_id ` set (accounts d) \<subseteq> a_id ` set (accounts d') \<Longrightarrow>
   sessions d' = sessions d \<Longrightarrow> sessions_ok d \<Longrightarrow> sessions_ok d'"
  by (fastforce simp: sessions_ok_def has_account_iff)

lemma accounts_ok_append:
  assumes "accounts_ok d" "account_uniq d r" "a_id r = next_id d"
  shows "accounts_ok (d\<lparr>accounts := accounts d @ [r], next_id := Suc (next_id d)\<rparr>)"
proof -
  have fresh: "a_id x \<noteq> a_id r" if "x \<in> set (accounts d)" for x
    using assms(1,3) that by (auto simp: accounts_ok_def)
  then have "\<not> account_clash r x" if "x \<in> set (accounts d)" for x
    using assms(2) that by (auto simp: account_uniq_def list_all_iff)
  moreover have "account_clash x r \<longleftrightarrow> account_clash r x" for x
    by (auto simp: account_clash_def)
  ultimately have clash: "\<not> account_clash x y" if "x \<in> set (accounts d @ [r])"
      "y \<in> set (accounts d @ [r])" "a_id x \<noteq> a_id y" for x y
    using assms(1) that unfolding accounts_ok_def by (metis rotate1.simps(2) set_ConsD set_rotate1)
  have "a_id r \<notin> a_id ` set (accounts d)" using fresh by (metis imageE)
  then have "distinct (map a_id (accounts d @ [r]))"
    using assms(1) by (simp add: accounts_ok_def)
  moreover have "0 < a_id a \<and> a_id a < Suc (next_id d)" if "a \<in> set (accounts d @ [r])" for a
    using assms(1,3) that by (auto simp: accounts_ok_def less_Suc_eq)
  ultimately show ?thesis using clash by (simp add: accounts_ok_def)
qed

lemma db_ok_add_account:
  assumes "db_ok d" "account_uniq d r" "a_id r = next_id d"
  shows "db_ok (d\<lparr>accounts := accounts d @ [r], next_id := Suc (next_id d)\<rparr>)" (is "db_ok ?d")
proof -
  have "accounts_ok ?d" using assms by (simp add: db_ok_def accounts_ok_append)
  moreover have "sessions_ok ?d" using assms(1) by (auto simp: db_ok_def intro: sessions_ok_cong[of d])
  moreover have "challenges_ok ?d (email_challenges d)" "challenges_ok ?d (reset_challenges d)"
    using assms(1) by (auto simp: db_ok_def intro: challenges_ok_cong[of d])
  ultimately show ?thesis using assms(1) by (simp add: db_ok_def identities_ok_def mfa_ok_def)
qed

text \<open>An update of accounts that keeps ids and stays free of clashes.\<close>

lemma db_ok_update_accounts:
  assumes ok: "db_ok d" and id: "\<And>a. a_id (f a) = a_id a"
    and clash: "accounts_ok (d\<lparr>accounts := update_where p f (accounts d)\<rparr>)"
  shows "db_ok (d\<lparr>accounts := update_where p f (accounts d)\<rparr>)" (is "db_ok ?d")
proof -
  have "map a_id (update_where p f (accounts d)) = map a_id (accounts d)"
    by (rule map_update_where) (rule id)
  then have ids: "a_id ` set (accounts d) \<subseteq> a_id ` set (accounts ?d)" by (metis (no_types) db.ext_inject db.surjective db.update_convs(1) list.set_map order_refl)
  have "sessions_ok ?d"
    by (rule sessions_ok_cong[of d]) (use ok ids in \<open>simp_all add: db_ok_def\<close>)
  moreover have "challenges_ok ?d (email_challenges d)" "challenges_ok ?d (reset_challenges d)"
    by (rule challenges_ok_cong[of d]; use ok ids in \<open>simp add: db_ok_def\<close>)+
  ultimately show ?thesis using ok clash by (simp add: db_ok_def identities_ok_def mfa_ok_def)
qed

lemma accounts_ok_update:
  assumes ok: "accounts_ok d" and id: "\<And>a. a_id (f a) = a_id a"
    and u: "\<And>a. a_username (f a) = a_username a" "\<And>a. a_email_hash (f a) = a_email_hash a"
      "\<And>a. a_school_hash (f a) = a_school_hash a"
  shows "accounts_ok (d\<lparr>accounts := update_where p f (accounts d)\<rparr>)"
proof -
  have "map a_id (update_where p f (accounts d)) = map a_id (accounts d)"
    by (rule map_update_where) (rule id)
  moreover have "account_clash (f a) b = account_clash a b" "account_clash b (f a) = account_clash b a" for a b
    by (simp_all add: account_clash_def u)
  ultimately show ?thesis using ok
    by (auto simp: accounts_ok_def set_update_where id)
qed

lemma sessions_ok_append:
  assumes "sessions_ok d" "has_account d (s_account s)" "s_id s = next_id d" "0 < next_id d"
    "list_all (\<lambda>x. s_token x \<noteq> s_token s) (sessions d)"
  shows "sessions_ok (d\<lparr>sessions := sessions d @ [s], next_id := Suc (next_id d)\<rparr>)"
proof -
  have "s_id s \<notin> s_id ` set (sessions d)" using assms(1,3) by (auto simp: sessions_ok_def)
  moreover have "s_token s \<notin> s_token ` set (sessions d)"
    using assms(5) by (auto simp: list_all_iff)
  moreover have "has_account (d\<lparr>sessions := sessions d @ [s], next_id := Suc (next_id d)\<rparr>) i = has_account d i" for i
    by (simp add: has_account_def)
  ultimately show ?thesis using assms by (auto simp: sessions_ok_def less_Suc_eq)
qed

lemma has_account_sessions: "has_account (d\<lparr>sessions := x\<rparr>) i = has_account d i"
  by (simp add: has_account_def)

lemma db_ok_sessions:
  "db_ok d \<Longrightarrow> sessions_ok (d\<lparr>sessions := x\<rparr>) \<Longrightarrow> db_ok (d\<lparr>sessions := x\<rparr>)"
  by (simp add: db_ok_def accounts_ok_def challenges_ok_def has_account_def identities_ok_def mfa_ok_def)

text \<open>An update of sessions that keeps ids, tokens and owners.\<close>

lemma db_ok_update_sessions:
  assumes "db_ok d" "\<And>s. s_id (f s) = s_id s" "\<And>s. s_token (f s) = s_token s"
    "\<And>s. s_account (f s) = s_account s"
  shows "db_ok (d\<lparr>sessions := update_where p f (sessions d)\<rparr>)"
proof -
  have "map s_id (update_where p f (sessions d)) = map s_id (sessions d)"
    "map s_token (update_where p f (sessions d)) = map s_token (sessions d)"
    by (simp_all add: map_update_where assms)
  moreover have "\<forall>s \<in> set (update_where p f (sessions d)).
      0 < s_id s \<and> s_id s < next_id d \<and> has_account d (s_account s)"
    using assms by (auto simp: set_update_where db_ok_def sessions_ok_def)
  moreover have "distinct (map s_id (sessions d))" "distinct (map s_token (sessions d))"
    using assms(1) by (simp_all add: db_ok_def sessions_ok_def)
  ultimately have "sessions_ok (d\<lparr>sessions := update_where p f (sessions d)\<rparr>)"
    by (simp only: sessions_ok_def has_account_sessions db.simps simp_thms) simp
  then show ?thesis using assms(1) by (simp add: db_ok_sessions)
qed

lemma one_open_consume:
  "one_open cs \<Longrightarrow> one_open (update_where p (consume_row t) cs)"
  unfolding one_open_def ball_update_where by (simp add: consume_row_def)

lemma consume_row_sel [simp]:
  "c_id (consume_row t c) = c_id c" "c_account (consume_row t c) = c_account c"
  "c_token (consume_row t c) = c_token c" "c_consumed (consume_row t c) = Some t"
  "c_expires (consume_row t c) = c_expires c"
  by (simp_all add: consume_row_def)

lemma challenges_ok_consume:
  assumes "challenges_ok d cs"
  shows "challenges_ok d (update_where p (consume_row t) cs)"
proof -
  have "map c_id (update_where p (consume_row t) cs) = map c_id cs"
    "map c_token (update_where p (consume_row t) cs) = map c_token cs"
    by (simp_all add: map_update_where)
  moreover have "\<forall>c \<in> set (update_where p (consume_row t) cs).
      c_id c < next_id d \<and> has_account d (c_account c)"
    using assms unfolding ball_update_where challenges_ok_def by simp
  ultimately show ?thesis using assms by (simp add: challenges_ok_def one_open_consume)
qed

text \<open>A new open challenge, once the account's others are consumed.\<close>

lemma challenges_ok_append:
  assumes ok: "challenges_ok d cs" and acc: "has_account d (c_account c)"
    and id: "c_id c = next_id d" and token: "list_all (\<lambda>x. c_token x \<noteq> c_token c) cs"
    and none: "\<forall>x \<in> set cs. \<not> open_challenge (c_account c) x"
    and d': "next_id d' = Suc (next_id d)" "accounts d' = accounts d"
  shows "challenges_ok d' (cs @ [c])"
proof -
  have "c_id c \<notin> c_id ` set cs" using ok id by (auto simp: challenges_ok_def)
  moreover have "c_token c \<notin> c_token ` set cs" using token by (auto simp: list_all_iff)
  moreover have "one_open (cs @ [c])"
    unfolding one_open_def
  proof (intro ballI impI)
    fix x y
    assume xy: "x \<in> set (cs @ [c])" "y \<in> set (cs @ [c])" "c_account x = c_account y"
      "c_consumed x = None" "c_consumed y = None"
    have new: "z = c" if "z \<in> set (cs @ [c])" "c_account z = c_account c" "c_consumed z = None" for z
      using that none by (auto simp: open_challenge_def)
    show "x = y"
    proof (cases "x = c \<or> y = c")
      case True
      with xy new[of x] new[of y] show ?thesis by metis
    next
      case False
      with xy have "x \<in> set cs" "y \<in> set cs" by simp_all
      with xy(3-) ok show ?thesis unfolding challenges_ok_def one_open_def by blast
    qed
  qed
  moreover have "\<forall>x \<in> set (cs @ [c]). c_id x < next_id d' \<and> has_account d' (c_account x)"
    using ok acc id d' by (auto simp: challenges_ok_def has_account_def less_Suc_eq)
  moreover have "distinct (map c_id cs)" "distinct (map c_token cs)"
    using ok by (simp_all add: challenges_ok_def)
  ultimately show ?thesis by (simp only: challenges_ok_def map_append distinct_append simp_thms) simp
qed

lemma open_challenge_consumed:
  "\<forall>x \<in> set (update_where (open_challenge acc) (consume_row t) cs). \<not> open_challenge acc x"
  unfolding ball_update_where by (simp add: open_challenge_def)

text \<open>Fields the invariant does not constrain together.\<close>

lemma db_ok_parts:
  assumes "db_ok d" "accounts d' = accounts d" "sessions d' = sessions d" "next_id d' = next_id d"
    "challenges_ok d (email_challenges d')" "challenges_ok d (reset_challenges d')"
    "identities_ok d'" "mfa_ok d'"
  shows "db_ok d'"
  using assms
  by (simp add: db_ok_def accounts_ok_def sessions_ok_def challenges_ok_def has_account_def)

lemma db_ok_next_id:
  assumes "db_ok d" "accounts d' = accounts d" "sessions d' = sessions d" "next_id d' = Suc (next_id d)"
    "challenges_ok d' (email_challenges d')" "challenges_ok d' (reset_challenges d')"
    "identities d' = identities d" "oauth_states d' = oauth_states d" "admin_mfa d' = admin_mfa d"
    "calendar_grants d' = calendar_grants d" "roles d' = roles d"
  shows "db_ok d'"
proof -
  have "accounts_ok d'" "sessions_ok d'"
    using assms by (auto simp: db_ok_def accounts_ok_def sessions_ok_def has_account_def less_Suc_eq)
  with assms show ?thesis by (simp add: db_ok_def identities_ok_def mfa_ok_def)
qed

lemma challenges_ok_Suc:
  "challenges_ok d cs \<Longrightarrow> next_id d' = Suc (next_id d) \<Longrightarrow> accounts d' = accounts d \<Longrightarrow> challenges_ok d' cs"
  by (rule challenges_ok_cong[of d]) simp_all

section \<open>Every method keeps the invariant\<close>

named_theorems store_keeps \<open>the methods of the store keep the invariant\<close>

lemma keeps_insert_account:
  assumes "\<And>i ts. a_id (mk i ts) = i"
  shows "keeps world_ok (insert_account mk)"
  unfolding insert_account_def
  by (intro keeps_intros keeps_sql_insert) (simp add: db_ok_add_account assms)

lemma keeps_create_account [store_keeps]: "keeps world_ok (create_account u c h p)"
  unfolding create_account_def by (intro keeps_intros keeps_insert_account) simp

lemma keeps_create_pending_account [store_keeps]:
  "keeps world_ok (create_pending_account u c h sc sh p)"
  unfolding create_pending_account_def by (intro keeps_intros keeps_insert_account) simp

lemma keeps_find_account_by_username [store_keeps]: "keeps world_ok (find_account_by_username u)"
  unfolding find_account_by_username_def by (intro keeps_intros)

lemma keeps_find_account_by_id [store_keeps]: "keeps world_ok (find_account_by_id i)"
  unfolding find_account_by_id_def by (intro keeps_intros)

lemma keeps_get_account_contact [store_keeps]: "keeps world_ok (get_account_contact i)"
  unfolding get_account_contact_def by (intro keeps_intros)

lemma accounts_ok_set_unique:
  assumes ok: "accounts_ok d" and id: "\<And>a. a_id (f a) = a_id a"
    and uniq: "list_all (\<lambda>a. a_id a = i \<longrightarrow> account_uniq d (f a)) (accounts d)"
  shows "accounts_ok (d\<lparr>accounts := update_where (\<lambda>a. a_id a = i) f (accounts d)\<rparr>)"
proof -
  have ids: "map a_id (update_where (\<lambda>a. a_id a = i) f (accounts d)) = map a_id (accounts d)"
    by (rule map_update_where) (rule id)
  have sym: "account_clash x y = account_clash y x" for x y
    by (auto simp: account_clash_def)
  have new: "\<not> account_clash (f a) b" if "a \<in> set (accounts d)" "a_id a = i" "b \<in> set (accounts d)"
    "a_id b \<noteq> i" for a b
    using uniq that by (simp add: list_all_iff account_uniq_def id)
  have old: "\<not> account_clash a b" if "a \<in> set (accounts d)" "b \<in> set (accounts d)" "a_id a \<noteq> a_id b" for a b
    using ok that by (simp add: accounts_ok_def)
  have "\<forall>a \<in> set (update_where (\<lambda>a. a_id a = i) f (accounts d)).
    \<forall>b \<in> set (update_where (\<lambda>a. a_id a = i) f (accounts d)). a_id a \<noteq> a_id b \<longrightarrow> \<not> account_clash a b"
    unfolding ball_update_where using new old by (simp add: id) (metis sym)
  moreover have "\<forall>a \<in> set (update_where (\<lambda>a. a_id a = i) f (accounts d)). 0 < a_id a \<and> a_id a < next_id d"
    unfolding ball_update_where using ok by (auto simp: id accounts_ok_def)
  ultimately show ?thesis using ok by (simp add: accounts_ok_def ids)
qed

lemma keeps_update_account_unique:
  "(\<And>a. a_id (f a) = a_id a) \<Longrightarrow> keeps world_ok (update_account_unique i f)"
  unfolding update_account_unique_def
  by (intro keeps_sql_insert db_ok_update_accounts accounts_ok_set_unique) (simp_all add: db_ok_def)

lemma keeps_update_account_email [store_keeps]: "keeps world_ok (update_account_email i c h)"
  unfolding update_account_email_def
  by (intro keeps_intros keeps_update_account_unique) simp

lemma keeps_update_account_school_email [store_keeps]:
  "keeps world_ok (update_account_school_email i c h)"
  unfolding update_account_school_email_def
  by (intro keeps_intros keeps_update_account_unique) simp

lemma db_ok_add_session:
  assumes "db_ok d" "has_account d (s_account s)" "s_id s = next_id d"
    "list_all (\<lambda>x. s_token x \<noteq> s_token s) (sessions d)"
  shows "db_ok (d\<lparr>sessions := sessions d @ [s], next_id := Suc (next_id d)\<rparr>)" (is "db_ok ?d")
proof -
  have "sessions_ok ?d"
    using assms by (intro sessions_ok_append) (simp_all add: db_ok_def accounts_ok_def)
  moreover have "accounts_ok ?d" using assms(1) by (auto simp: db_ok_def accounts_ok_def less_Suc_eq)
  moreover have "challenges_ok ?d (email_challenges d)" "challenges_ok ?d (reset_challenges d)"
    using assms(1) by (auto simp: db_ok_def intro: challenges_ok_Suc[of d])
  ultimately show ?thesis using assms(1) by (simp add: db_ok_def identities_ok_def mfa_ok_def)
qed

lemma keeps_create_session [store_keeps]: "keeps world_ok (create_session a t c e ip ua)"
  unfolding create_session_def
  by (intro keeps_intros keeps_sql_insert db_ok_add_session) simp_all

lemma keeps_find_active_session [store_keeps]: "keeps world_ok (find_active_session h t)"
  unfolding find_active_session_def by (intro keeps_intros)

lemma revoke_row_sel [simp]:
  "s_id (revoke_row t s) = s_id s" "s_token (revoke_row t s) = s_token s"
  "s_account (revoke_row t s) = s_account s" "s_expires (revoke_row t s) = s_expires s"
  "s_revoked (revoke_row t s) \<noteq> None"
  by (simp_all add: revoke_row_def coalesce_def split: option.splits)

lemma keeps_session_writes [store_keeps]:
  "keeps world_ok (touch_session i t)" "keeps world_ok (revoke_session i t)"
  "keeps world_ok (revoke_account_session a i t)" "keeps world_ok (revoke_other_account_sessions a i t)"
  unfolding touch_session_def revoke_session_def revoke_account_session_def
    revoke_other_account_sessions_def
  by (intro keeps_intros keeps_sql_write db_ok_update_sessions; simp)+

lemma keeps_list_active_sessions [store_keeps]: "keeps world_ok (list_active_sessions a t)"
  unfolding list_active_sessions_def by (intro keeps_intros)

lemma db_ok_identities:
  assumes "db_ok d" "identities_ok (d\<lparr>identities := x, oauth_states := y\<rparr>)"
  shows "db_ok (d\<lparr>identities := x, oauth_states := y\<rparr>)"
  using assms by (simp add: db_ok_def accounts_ok_def sessions_ok_def challenges_ok_def has_account_def
      mfa_ok_def)

lemma keeps_create_oauth_binding [store_keeps]: "keeps world_ok (create_oauth_binding a p s)"
  unfolding create_oauth_binding_def
proof (intro keeps_intros keeps_sql_insert)
  fix d :: db
  assume ok: "db_ok d"
    and new: "list_all (\<lambda>i. \<not> (i_provider i = p \<and> (i_subject i = s \<or> i_account i = a))) (identities d)"
  have "(p, s) \<notin> (\<lambda>i. (i_provider i, i_subject i)) ` set (identities d)"
    "(p, a) \<notin> (\<lambda>i. (i_provider i, i_account i)) ` set (identities d)"
    using new by (auto simp: list_all_iff)
  with ok have "identities_ok (d\<lparr>identities := identities d
      @ [\<lparr>i_account = a, i_provider = p, i_subject = s\<rparr>], oauth_states := oauth_states d\<rparr>)"
    by (simp add: db_ok_def identities_ok_def)
  from db_ok_identities[OF ok this]
  show "db_ok (d\<lparr>identities := identities d @ [\<lparr>i_account = a, i_provider = p, i_subject = s\<rparr>]\<rparr>)"
    by simp
qed

text \<open>
  Changing one key of a table of distinct keys, when the new key is not there yet or the old one
  is not.
\<close>

lemma distinct_rekey:
  assumes "distinct (map k xs)" "\<And>x. x \<in> set xs \<Longrightarrow> k x = old \<Longrightarrow> k (f x) = new"
    and "old = new \<or> old \<notin> k ` set xs \<or> new \<notin> k ` set xs"
  shows "distinct (map k (update_where (\<lambda>x. k x = old) f xs))"
  using assms
proof (induction xs)
  case (Cons x xs)
  have IH: "distinct (map k (update_where (\<lambda>x. k x = old) f xs))"
    by (rule Cons.IH) (use Cons.prems in auto)
  have keys: "k ` set (update_where (\<lambda>x. k x = old) f xs) \<subseteq> (k ` set xs - {old}) \<union> (if old \<in> k ` set xs then {new} else {})"
    using Cons.prems(2) by (auto simp: set_update_where)
  show ?case
  proof (cases "k x = old")
    case True
    then have "old \<notin> k ` set xs" using Cons.prems(1) by auto
    moreover have "k (f x) = new" using True Cons.prems(2)[of x] by simp
    moreover have "new \<notin> k ` set xs" using True Cons.prems(1,3) by auto
    moreover have "update_where (\<lambda>x. k x = old) f xs = xs"
      using \<open>old \<notin> k ` set xs\<close> by (auto intro: update_where_none)
    ultimately show ?thesis using Cons.prems(1) True by (simp add: update_where_def)
  next
    case False
    have "k x \<notin> k ` set (update_where (\<lambda>x. k x = old) f xs)"
    proof
      assume "k x \<in> k ` set (update_where (\<lambda>x. k x = old) f xs)"
      with keys have "k x \<in> k ` set xs \<or> (old \<in> k ` set xs \<and> k x = new)" by (auto split: if_splits)
      with Cons.prems(1,3) False show False by auto
    qed
    moreover have "update_where (\<lambda>x. k x = old) f (x # xs) = x # update_where (\<lambda>x. k x = old) f xs"
      using False by (simp add: update_where_def)
    ultimately show ?thesis using IH by (simp only: list.map distinct.simps set_map simp_thms)
  qed
qed (simp add: update_where_def)

lemma keeps_rehash_oauth_subject [store_keeps]: "keeps world_ok (rehash_oauth_subject p old new)"
  unfolding rehash_oauth_subject_def
proof (intro keeps_intros keeps_sql_insert)
  fix d :: db
  let ?ids = "update_where (\<lambda>i. i_provider i = p \<and> i_subject i = old) (\<lambda>i. i\<lparr>i_subject := new\<rparr>) (identities d)"
  let ?k = "\<lambda>i. (i_provider i, i_subject i)"
  assume ok: "db_ok d"
    and u: "old = new \<or> \<not> list_ex (\<lambda>i. i_provider i = p \<and> i_subject i = old) (identities d)
      \<or> \<not> list_ex (\<lambda>i. i_provider i = p \<and> i_subject i = new) (identities d)"
  have "distinct (map ?k (update_where (\<lambda>i. ?k i = (p, old)) (\<lambda>i. i\<lparr>i_subject := new\<rparr>) (identities d)))"
    by (rule distinct_rekey[where new = "(p, new)"])
      (use ok u in \<open>auto simp: db_ok_def identities_ok_def list_ex_iff\<close>)
  moreover have "map (\<lambda>i. (i_provider i, i_account i)) ?ids = map (\<lambda>i. (i_provider i, i_account i)) (identities d)"
    by (rule map_update_where) simp
  ultimately have "identities_ok (d\<lparr>identities := ?ids, oauth_states := oauth_states d\<rparr>)"
    using ok by (simp add: db_ok_def identities_ok_def)
  from db_ok_identities[OF ok this] show "db_ok (d\<lparr>identities := ?ids\<rparr>)" by simp
qed

lemma keeps_find_oauth [store_keeps]: "keeps world_ok (find_account_by_oauth_subject_hashes p hs)"
  unfolding find_account_by_oauth_subject_hashes_def by (intro keeps_intros)

lemma keeps_create_oauth_state [store_keeps]: "keeps world_ok (create_oauth_state p a s v r rt e)"
  unfolding create_oauth_state_def
proof (intro keeps_intros keeps_sql_insert)
  fix d :: db
  let ?row = "\<lparr>o_provider = p, o_account = a, o_state = s, o_verifier = v, o_redirect = r,
    o_return_to = (if rt = [] then None else Some rt), o_expires = e, o_consumed = None\<rparr>"
  assume ok: "db_ok d" and new: "list_all (\<lambda>x. o_state x \<noteq> s) (oauth_states d)"
  have "s \<notin> o_state ` set (oauth_states d)" using new by (auto simp: list_all_iff)
  with ok have "identities_ok (d\<lparr>identities := identities d, oauth_states := oauth_states d @ [?row]\<rparr>)"
    by (simp add: db_ok_def identities_ok_def)
  from db_ok_identities[OF ok this] show "db_ok (d\<lparr>oauth_states := oauth_states d @ [?row]\<rparr>)" by simp
qed

lemma keeps_consume_oauth_state [store_keeps]: "keeps world_ok (consume_oauth_state p s t)"
  unfolding consume_oauth_state_def
proof (intro keeps_intros keeps_sql)
  fix d :: db
  let ?os = "update_where (state_live p s t) (\<lambda>r. r\<lparr>o_consumed := Some t\<rparr>) (oauth_states d)"
  assume ok: "db_ok d"
  have "map o_state ?os = map o_state (oauth_states d)" by (rule map_update_where) simp
  with ok have "identities_ok (d\<lparr>identities := identities d, oauth_states := ?os\<rparr>)"
    by (simp add: db_ok_def identities_ok_def)
  from db_ok_identities[OF ok this] have "db_ok (d\<lparr>oauth_states := ?os\<rparr>)" by simp
  with ok show "db_ok (snd (case List.find (state_live p s t) (oauth_states d) of
      None \<Rightarrow> (Inl NoRows, d)
    | Some r \<Rightarrow> (Inr \<lparr>ost_provider = p, ost_account = o_account r, ost_verifier = o_verifier r,
        ost_redirect = o_redirect r,
        ost_return_to = case o_return_to r of None \<Rightarrow> [] | Some x \<Rightarrow> x\<rparr>, d\<lparr>oauth_states := ?os\<rparr>)))"
    by (simp split: option.splits)
qed

section \<open>Challenges keep the invariant\<close>

lemma db_ok_consume_email:
  "db_ok d \<Longrightarrow> db_ok (d\<lparr>email_challenges := update_where p (consume_row t) (email_challenges d)\<rparr>)"
  by (rule db_ok_parts[of d])
    (auto simp: db_ok_def identities_ok_def mfa_ok_def intro: challenges_ok_consume)

lemma db_ok_consume_reset:
  "db_ok d \<Longrightarrow> db_ok (d\<lparr>reset_challenges := update_where p (consume_row t) (reset_challenges d)\<rparr>)"
  by (rule db_ok_parts[of d])
    (auto simp: db_ok_def identities_ok_def mfa_ok_def intro: challenges_ok_consume)

text \<open>
  Creating a challenge runs its two statements in one transaction: between them no challenge of
  the account is open.
\<close>

lemma keeps_two_step:
  assumes "\<And>d. db_ok d \<Longrightarrow> db_ok (g d) \<and> Q (g d)"
    and "\<And>d. db_ok d \<Longrightarrow> Q d \<Longrightarrow> chk d \<Longrightarrow> uniq d \<Longrightarrow> db_ok (h d)"
  shows "keeps world_ok (bindM (map_errM e1 (sql_write g (\<lambda>_. ())))
      (\<lambda>_. map_errM e2 (sql_insert chk uniq h f)))"
proof (rule keepsI)
  fix w r w'
  assume ok: "world_ok w"
    and run: "bindM (map_errM e1 (sql_write g (\<lambda>_. ()))) (\<lambda>_. map_errM e2 (sql_insert chk uniq h f)) w = (r, w')"
  show "world_ok w'"
  proof (cases "map_errM e1 (sql_write g (\<lambda>_. ())) w")
    case (Pair r1 w1)
    show ?thesis
    proof (cases r1)
      case (Inl e)
      with run Pair have "w' = w1" by (simp add: bindM_run_err)
      with Pair Inl ok show ?thesis by (auto simp: map_errM_Inl_iff dest: sql_Inl_db)
    next
      case (Inr u)
      with Pair ok assms(1) have w1: "db_ok (w_db w1)" "Q (w_db w1)"
        by (auto dest!: sql_write_Inr)
      from run Pair Inr have run2: "map_errM e2 (sql_insert chk uniq h f) w1 = (r, w')"
        by (simp add: bindM_run)
      show ?thesis
      proof (cases r)
        case (Inl e)
        with run2 w1 show ?thesis by (auto simp: map_errM_Inl_iff dest: sql_Inl_db)
      next
        case (Inr x)
        with run2 have "chk (w_db w1)" "uniq (w_db w1)" "w_db w' = h (w_db w1)"
          by (auto dest!: sql_insert_Inr)
        with w1 assms(2) show ?thesis by simp
      qed
    qed
  qed
qed

lemma keeps_create_email_challenge [store_keeps]:
  "keeps world_ok (create_email_verification_challenge a tok e)"
  unfolding create_email_verification_challenge_def
proof (rule keeps_bindM, rule keeps_readM, rule keeps_transaction,
    rule keeps_two_step[where Q = "\<lambda>d. \<forall>x \<in> set (email_challenges d). \<not> open_challenge a x"])
  fix ts and d :: db
  let ?d = "d\<lparr>email_challenges := update_where (open_challenge a) (consume_row ts) (email_challenges d)\<rparr>"
  show "db_ok d \<Longrightarrow> db_ok ?d \<and> (\<forall>x \<in> set (email_challenges ?d). \<not> open_challenge a x)"
    using open_challenge_consumed[of a ts "email_challenges d"] by (simp add: db_ok_consume_email)
next
  fix ts and d :: db
  let ?row = "\<lparr>c_id = next_id d, c_account = a, c_token = tok, c_expires = e, c_consumed = None,
    c_created = ts\<rparr>"
  let ?d = "d\<lparr>email_challenges := email_challenges d @ [?row], next_id := Suc (next_id d)\<rparr>"
  assume ok: "db_ok d" and none: "\<forall>x \<in> set (email_challenges d). \<not> open_challenge a x"
    and chk: "has_account d a \<and> tok \<noteq> []" and new: "list_all (\<lambda>c. c_token c \<noteq> tok) (email_challenges d)"
  have "challenges_ok d (email_challenges d)" using ok by (simp add: db_ok_def)
  then have "challenges_ok ?d (email_challenges d @ [?row])"
    by (rule challenges_ok_append) (use chk new in simp, use chk new in simp, use chk new in simp,
        use none in simp, simp, simp)
  moreover have "challenges_ok ?d (reset_challenges d)"
    using ok by (auto simp: db_ok_def intro: challenges_ok_Suc[of d])
  ultimately show "db_ok ?d" using ok by - (rule db_ok_next_id[of d], simp_all)
qed

lemma keeps_create_reset_challenge [store_keeps]:
  "keeps world_ok (create_password_reset_challenge a tok e act)"
  unfolding create_password_reset_challenge_def
proof (rule keeps_bindM, rule keeps_readM, rule keeps_transaction,
    rule keeps_two_step[where Q = "\<lambda>d. \<forall>x \<in> set (reset_challenges d). \<not> open_challenge a x"])
  fix ts and d :: db
  let ?d = "d\<lparr>reset_challenges := update_where (open_challenge a) (consume_row ts) (reset_challenges d)\<rparr>"
  show "db_ok d \<Longrightarrow> db_ok ?d \<and> (\<forall>x \<in> set (reset_challenges ?d). \<not> open_challenge a x)"
    using open_challenge_consumed[of a ts "reset_challenges d"] by (simp add: db_ok_consume_reset)
next
  fix ts and d :: db
  let ?row = "\<lparr>c_id = next_id d, c_account = a, c_token = tok, c_expires = e, c_consumed = None,
    c_created = ts, c_activates = act\<rparr>"
  let ?d = "d\<lparr>reset_challenges := reset_challenges d @ [?row], next_id := Suc (next_id d)\<rparr>"
  assume ok: "db_ok d" and none: "\<forall>x \<in> set (reset_challenges d). \<not> open_challenge a x"
    and chk: "has_account d a \<and> tok \<noteq> []" and new: "list_all (\<lambda>c. c_token c \<noteq> tok) (reset_challenges d)"
  have "challenges_ok d (reset_challenges d)" using ok by (simp add: db_ok_def)
  then have "challenges_ok ?d (reset_challenges d @ [?row])"
    by (rule challenges_ok_append) (use chk new in simp, use chk new in simp, use chk new in simp,
        use none in simp, simp, simp)
  moreover have "challenges_ok ?d (email_challenges d)"
    using ok by (auto simp: db_ok_def intro: challenges_ok_Suc[of d])
  ultimately show "db_ok ?d" using ok by - (rule db_ok_next_id[of d], simp_all)
qed

lemma db_ok_update_plain:
  assumes "db_ok d" "\<And>a. a_id (f a) = a_id a" "\<And>a. a_username (f a) = a_username a"
    "\<And>a. a_email_hash (f a) = a_email_hash a" "\<And>a. a_school_hash (f a) = a_school_hash a"
  shows "db_ok (d\<lparr>accounts := update_where p f (accounts d)\<rparr>)"
  using assms by (intro db_ok_update_accounts accounts_ok_update) (simp_all add: db_ok_def)

lemma keeps_verify_email_of: "keeps world_ok (verify_email_of c t)"
  unfolding verify_email_of_def
  by (intro keeps_intros keeps_sql_write db_ok_consume_email db_ok_update_plain) simp_all

lemma keeps_consume_email_challenge [store_keeps]:
  "keeps world_ok (consume_email_verification_challenge a tok t)"
  "keeps world_ok (consume_email_verification_token tok t)"
  unfolding consume_email_verification_challenge_def consume_email_verification_token_def
  by (intro keeps_intros keeps_verify_email_of)+

lemma keeps_lookup_account [store_keeps]: "keeps world_ok (lookup_account_id_by_email_hashes hs)"
  unfolding lookup_account_id_by_email_hashes_def by (intro keeps_intros)

lemma reset_account_sel [simp]:
  "a_id (reset_account c h t a) = a_id a" "a_username (reset_account c h t a) = a_username a"
  "a_email_hash (reset_account c h t a) = a_email_hash a"
  "a_school_hash (reset_account c h t a) = a_school_hash a"
  "a_password (reset_account c h t a) = h"
  by (simp_all add: reset_account_def)

lemma keeps_consume_reset_challenge [store_keeps]:
  "keeps world_ok (consume_password_reset_challenge tok h t)"
  unfolding consume_password_reset_challenge_def
  by (intro keeps_intros keeps_sql_write db_ok_consume_reset db_ok_update_plain
      db_ok_update_sessions) simp_all

lemma keeps_update_password [store_keeps]: "keeps world_ok (update_password_for_account a h k)"
  unfolding update_password_for_account_def
  by (intro keeps_intros keeps_sql_write db_ok_update_plain db_ok_update_sessions) simp_all

section \<open>Purge, roles, MFA, tokens and grants keep the invariant\<close>

lemma distinct_map_filter': "distinct (map k xs) \<Longrightarrow> distinct (map k (filter p xs))"
  by (simp add: distinct_map_filter)

lemma challenges_ok_filter: "challenges_ok d cs \<Longrightarrow> challenges_ok d (filter p cs)"
  unfolding challenges_ok_def one_open_def by (simp add: distinct_map_filter)

lemma db_ok_filter_reset: "db_ok d \<Longrightarrow> db_ok (d\<lparr>reset_challenges := filter p (reset_challenges d)\<rparr>)"
  by (rule db_ok_parts[of d]) (simp_all add: db_ok_def identities_ok_def mfa_ok_def challenges_ok_filter)

lemma db_ok_outbox: "db_ok d \<Longrightarrow> db_ok (d\<lparr>outbox := x\<rparr>)"
  by (rule db_ok_parts[of d]) (simp_all add: db_ok_def identities_ok_def mfa_ok_def)

lemma db_ok_mfa:
  "db_ok d \<Longrightarrow> mfa_ok (d\<lparr>roles := r, admin_mfa := m, calendar_grants := g\<rparr>) \<Longrightarrow>
   db_ok (d\<lparr>roles := r, admin_mfa := m, calendar_grants := g\<rparr>)"
  by (rule db_ok_parts[of d]) (simp_all add: db_ok_def identities_ok_def)

lemma db_ok_tokens: "db_ok d \<Longrightarrow> db_ok (d\<lparr>api_tokens := x\<rparr>)"
  by (rule db_ok_parts[of d]) (simp_all add: db_ok_def identities_ok_def mfa_ok_def)

lemma db_ok_purge:
  assumes ok: "db_ok d"
    and free: "list_all (\<lambda>a. purged ids a \<longrightarrow> \<not> referenced d (a_id a)) (accounts d)"
  shows "db_ok (d\<lparr>accounts := filter (\<lambda>a. \<not> purged ids a) (accounts d), api_tokens := x,
    calendar_grants := filter p (calendar_grants d)\<rparr>)" (is "db_ok ?d")
proof -
  have kept: "has_account ?d i" if "has_account d i" "referenced d i" for i
    using that free by (auto simp: has_account_def list_ex_iff list_all_iff)
  have "accounts_ok ?d" using ok by (simp add: db_ok_def accounts_ok_def distinct_map_filter)
  moreover have "sessions_ok ?d"
    using ok kept unfolding db_ok_def sessions_ok_def
    by (simp add: referenced_def list_ex_iff) blast
  moreover have "challenges_ok ?d (email_challenges d)" "challenges_ok ?d (reset_challenges d)"
    using ok kept unfolding db_ok_def challenges_ok_def
    by (simp_all add: referenced_def list_ex_iff) blast+
  ultimately show ?thesis using ok
    by (simp add: db_ok_def identities_ok_def mfa_ok_def distinct_map_filter)
qed

lemma keeps_purge [store_keeps]: "keeps world_ok (purge_expired_pending_accounts t)"
  unfolding purge_expired_pending_accounts_def delete_pending_accounts_def Let_def
  by (intro keeps_intros keeps_sql_write keeps_sql_insert db_ok_filter_reset db_ok_outbox db_ok_purge)

lemma keeps_roles [store_keeps]:
  "keeps world_ok (is_admin i)" "keeps world_ok (is_admissions_moderator i)"
  "keeps world_ok (is_service_account i)" "keeps world_ok (get_admin_mfa i)"
  unfolding is_admin_def is_admissions_moderator_def is_service_account_def has_role_def
    get_admin_mfa_def
  by (intro keeps_intros)+

lemma keeps_get_require [store_keeps]: "keeps world_ok get_require_admin_mfa"
  unfolding get_require_admin_mfa_def by (intro keeps_intros)

lemma keeps_grant_role [store_keeps]: "keeps world_ok (grant_role i r)"
  unfolding grant_role_def
proof (intro keeps_intros keeps_sql_insert)
  fix d :: db
  assume ok: "db_ok d"
  then have "mfa_ok (d\<lparr>roles := (if (i, r) \<in> set (roles d) then roles d else roles d @ [(i, r)]),
      admin_mfa := admin_mfa d, calendar_grants := calendar_grants d\<rparr>)"
    by (simp add: db_ok_def mfa_ok_def)
  from db_ok_mfa[OF ok this]
  show "db_ok (if (i, r) \<in> set (roles d) then d else d\<lparr>roles := roles d @ [(i, r)]\<rparr>)"
    by (simp split: if_splits)
qed

lemma db_ok_admin_mfa:
  "db_ok d \<Longrightarrow> distinct (map m_account m) \<Longrightarrow> db_ok (d\<lparr>admin_mfa := m\<rparr>)"
  using db_ok_mfa[where d = d and r = "roles d" and m = m and g = "calendar_grants d"] by (simp add: db_ok_def mfa_ok_def)

lemma db_ok_grants:
  "db_ok d \<Longrightarrow> distinct (map g_account g) \<Longrightarrow> db_ok (d\<lparr>calendar_grants := g\<rparr>)"
  using db_ok_mfa[where d = d and r = "roles d" and m = "admin_mfa d" and g = g] by (simp add: db_ok_def mfa_ok_def)

lemma db_ok_admin_mfa_update:
  assumes "db_ok d" "\<And>m. m_account (f m) = m_account m"
  shows "db_ok (d\<lparr>admin_mfa := update_where p f (admin_mfa d)\<rparr>)"
proof -
  have "map m_account (update_where p f (admin_mfa d)) = map m_account (admin_mfa d)"
    by (rule map_update_where) (rule assms(2))
  with assms(1) show ?thesis by (intro db_ok_admin_mfa) (simp_all add: db_ok_def mfa_ok_def)
qed

lemma keeps_save_admin_mfa_secret [store_keeps]: "keeps world_ok (save_admin_mfa_secret i ct e)"
  unfolding save_admin_mfa_secret_def
proof (intro keeps_intros keeps_sql_insert)
  fix d :: db
  let ?row = "\<lparr>m_account = i, m_secret = ct, m_enabled = None, m_pending = Some e, m_verified = None\<rparr>"
  assume ok: "db_ok d"
  show "db_ok (case find_mfa d i of None \<Rightarrow> d\<lparr>admin_mfa := admin_mfa d @ [?row]\<rparr>
    | Some _ \<Rightarrow> d\<lparr>admin_mfa := update_where (\<lambda>m. m_account m = i \<and> m_enabled m = None)
        (\<lambda>m. m\<lparr>m_secret := ct, m_enabled := None, m_pending := Some e\<rparr>) (admin_mfa d)\<rparr>)"
  proof (cases "find_mfa d i")
    case None
    then have "i \<notin> m_account ` set (admin_mfa d)" by (auto simp: find_mfa_def find_None_iff)
    with ok have "db_ok (d\<lparr>admin_mfa := admin_mfa d @ [?row]\<rparr>)"
      by (intro db_ok_admin_mfa) (simp_all add: db_ok_def mfa_ok_def)
    with None show ?thesis by simp
  next
    case (Some m)
    with ok show ?thesis by (simp add: db_ok_admin_mfa_update)
  qed
qed

lemma keeps_mfa_writes [store_keeps]:
  "keeps world_ok (store_enable_admin_mfa i t)" "keeps world_ok (touch_admin_mfa_verified i t)"
  unfolding store_enable_admin_mfa_def touch_admin_mfa_verified_def
  by (intro keeps_intros keeps_sql_write db_ok_admin_mfa_update; simp)+

lemma keeps_disable_mfa [store_keeps]: "keeps world_ok (store_disable_admin_mfa i)"
  unfolding store_disable_admin_mfa_def
  by (intro keeps_intros keeps_sql_write db_ok_admin_mfa)
    (simp_all add: db_ok_def mfa_ok_def distinct_map_filter)

lemma db_ok_add_token: "db_ok d \<Longrightarrow> db_ok (d\<lparr>api_tokens := x, next_id := Suc (next_id d)\<rparr>)"
  by (rule db_ok_next_id[of d]) (auto simp: db_ok_def intro: challenges_ok_Suc[of d])

lemma keeps_service_tokens [store_keeps]:
  "keeps world_ok (find_account_by_service_token h t)" "keeps world_ok (create_service_api_token i h l)"
  unfolding find_account_by_service_token_def create_service_api_token_def
  by (intro keeps_intros keeps_sql_write keeps_sql_insert db_ok_tokens db_ok_add_token; assumption)+

lemma keeps_grants [store_keeps]:
  "keeps world_ok (get_calendar_grant i p)" "keeps world_ok (delete_calendar_grant i p)"
  unfolding get_calendar_grant_def delete_calendar_grant_def
  by (intro keeps_intros keeps_sql_write db_ok_grants; simp add: db_ok_def mfa_ok_def distinct_map_filter)+

lemma keeps_save_calendar_grant [store_keeps]: "keeps world_ok (save_calendar_grant a p r s)"
  unfolding save_calendar_grant_def
proof (intro keeps_intros keeps_sql_insert)
  fix d :: db
  let ?f = "\<lambda>g. g\<lparr>g_provider := p, g_refresh := r, g_scope := s\<rparr>"
  let ?row = "\<lparr>g_account = a, g_provider = p, g_refresh = r, g_scope = s\<rparr>"
  assume ok: "db_ok d"
  have "map g_account (update_where (\<lambda>g. g_account g = a) ?f (calendar_grants d)) = map g_account (calendar_grants d)"
    by (rule map_update_where) simp
  with ok have "db_ok (d\<lparr>calendar_grants := update_where (\<lambda>g. g_account g = a) ?f (calendar_grants d)\<rparr>)"
    by (intro db_ok_grants) (simp_all add: db_ok_def mfa_ok_def)
  moreover have "db_ok (d\<lparr>calendar_grants := calendar_grants d @ [?row]\<rparr>)"
    if "\<not> list_ex (\<lambda>g. g_account g = a) (calendar_grants d)"
    using that ok by (intro db_ok_grants) (auto simp: db_ok_def mfa_ok_def list_ex_iff)
  ultimately show "db_ok (if list_ex (\<lambda>g. g_account g = a) (calendar_grants d)
    then d\<lparr>calendar_grants := update_where (\<lambda>g. g_account g = a) ?f (calendar_grants d)\<rparr>
    else d\<lparr>calendar_grants := calendar_grants d @ [?row]\<rparr>)" by simp
qed

end
