(* ===== verification/Outbox.thy ===== *)
theory Outbox imports Environment StoreInvariants begin

text \<open>
  Notifications (internal/notifications/postgres_repository.go and worker.go): in-app
  notifications, the encrypted e-mail outbox with its claim, retry and abandon cycle, and the
  worker's pass over it. The willingness inquiries, which live in tables of the applications
  component, enter the worker as a parameter.
\<close>

section \<open>Writing\<close>

fun map_notification_error :: "sql_error \<Rightarrow> notif_error" where
  "map_notification_error UniqueViolation = NotifConflict"
| "map_notification_error NoRows = NotifSQL"
| "map_notification_error OtherSQL = NotifSQL"

definition notif_sql :: "sql_error \<Rightarrow> notif_error" where
  "notif_sql e = NotifSQL"

definition notif_no_rows :: "sql_error \<Rightarrow> notif_error" where
  "notif_no_rows e = (if e = NoRows then NotifNotFound else NotifSQL)"

record notification =
  no_id :: uuid
  no_kind :: string
  no_title :: string
  no_body :: string
  no_read :: "time option"
  no_created :: time

definition notice_chk :: "db \<Rightarrow> uuid \<Rightarrow> string \<Rightarrow> string \<Rightarrow> string \<Rightarrow> string \<Rightarrow> bool" where
  "notice_chk d acc kind dedup title body \<longleftrightarrow> has_account d acc \<and> \<not> pg_blank kind
     \<and> rune_count kind \<le> 64 \<and> \<not> pg_blank dedup \<and> rune_count dedup \<le> 200 \<and> title \<noteq> [] \<and> body \<noteq> []"

text \<open>
  \<^verbatim>\<open>INSERT ... ON CONFLICT (account_id, dedup_key) DO UPDATE ... RETURNING\<close>: the row that
  was there, or the new one.
\<close>

definition upsert_notice ::
  "uuid \<Rightarrow> string \<Rightarrow> string \<Rightarrow> string \<Rightarrow> string \<Rightarrow> (world, notif_error, notification_row) op" where
  "upsert_notice acc kind dedup title body =
     bindM (readM db_now) (\<lambda>ts. map_errM map_notification_error (sql (\<lambda>d.
       if \<not> notice_chk d acc kind dedup title body then (Inl OtherSQL, d)
       else case List.find (\<lambda>n. n_account n = acc \<and> n_dedup n = dedup) (notices d) of
         Some n \<Rightarrow> (Inr n, d)
       | None \<Rightarrow>
           let n = \<lparr>n_id = next_id d, n_account = acc, n_kind = kind, n_dedup = dedup, n_title = title,
                    n_body = body, n_read = None, n_created = ts\<rparr>
           in (Inr n, d\<lparr>notices := notices d @ [n], next_id := Suc (next_id d)\<rparr>))))"

definition open_notice :: "env \<Rightarrow> field_cipher option \<Rightarrow> notification_row \<Rightarrow> crypto_error + notification" where
  "open_notice en co n =
     (case fc_open (e_crypto en) co (n_title n) of
        Inl e \<Rightarrow> Inl e
      | Inr title \<Rightarrow>
          (case fc_open (e_crypto en) co (n_body n) of
             Inl e \<Rightarrow> Inl e
           | Inr body \<Rightarrow> Inr \<lparr>no_id = n_id n, no_kind = n_kind n, no_title = title, no_body = body,
                            no_read = n_read n, no_created = n_created n\<rparr>))"

definition publish :: "bool \<Rightarrow> string \<Rightarrow> string \<Rightarrow> uuid \<Rightarrow> (world, 'e, unit) op" where
  "publish configured topic kind i w =
     (Inr (), if configured then w\<lparr>published := published w @ [(topic, kind, i)]\<rparr> else w)"

definition create_in_app ::
  "env \<Rightarrow> field_cipher option \<Rightarrow> bool \<Rightarrow> uuid \<Rightarrow> string \<Rightarrow> string \<Rightarrow> string \<Rightarrow> string
    \<Rightarrow> (world, notif_error, notification) op" where
  "create_in_app en co publisher acc kind dedup title body =
     (if is_blank kind \<or> is_blank dedup \<or> is_blank title \<or> is_blank body then fail NotifInvalid
      else
        bindM (with_draws NotifCipher (fc_seal (e_crypto en) co title)) (\<lambda>title_ct.
        bindM (with_draws NotifCipher (fc_seal (e_crypto en) co body)) (\<lambda>body_ct.
        bindM (upsert_notice acc kind dedup title_ct body_ct) (\<lambda>row.
        case open_notice en co row of
          Inl e \<Rightarrow> fail (NotifCipher e)
        | Inr n \<Rightarrow>
            bindM (publish publisher (''notifications:'' @ e_uuid en acc) ''notification.created'' (no_id n))
              (\<lambda>_. ret n)))))"

definition outbox_chk :: "db \<Rightarrow> uuid option \<Rightarrow> string \<Rightarrow> string \<Rightarrow> string \<Rightarrow> int \<Rightarrow> bool" where
  "outbox_chk d acc dedup recipient payload m \<longleftrightarrow> (case acc of None \<Rightarrow> True | Some i \<Rightarrow> has_account d i)
     \<and> \<not> pg_blank dedup \<and> rune_count dedup \<le> 200 \<and> recipient \<noteq> [] \<and> payload \<noteq> [] \<and> 1 \<le> m \<and> m \<le> 100"

definition enqueue_email ::
  "env \<Rightarrow> field_cipher option \<Rightarrow> uuid option \<Rightarrow> string \<Rightarrow> string \<Rightarrow> string \<Rightarrow> string \<Rightarrow> string
    \<Rightarrow> string \<Rightarrow> int \<Rightarrow> (world, notif_error, unit) op" where
  "enqueue_email en co acc recipient dedup subject text html kind max_attempts =
     (if recipient = [] \<or> is_blank dedup \<or> is_blank subject \<or> is_blank text \<or> is_blank kind
      then fail NotifInvalid
      else
        bindM (with_draws NotifCipher (fc_seal (e_crypto en) co
          (e_json en \<lparr>mail_to = [], mail_subject = subject, mail_text = text, mail_html = html\<rparr>)))
        (\<lambda>payload. bindM (readM db_now) (\<lambda>ts.
          map_errM map_notification_error (sql_insert
            (\<lambda>d. outbox_chk d acc dedup recipient payload max_attempts) (\<lambda>_. True)
            (\<lambda>d. if list_ex (\<lambda>e. e_account e = acc \<and> e_dedup e = dedup) (outbox d) then d
                 else d\<lparr>outbox := outbox d @ [\<lparr>e_id = next_id d, e_account = acc, e_dedup = dedup,
                   e_recipient = recipient, e_payload = payload, e_status = ''pending'',
                   e_attempts = 0, e_max = max_attempts, e_error = None, e_available = ts,
                   e_created = ts, e_updated = ts\<rparr>], next_id := Suc (next_id d)\<rparr>)
            (\<lambda>_. ())))))"

definition enqueue_email_for_account_with_max_attempts ::
  "env \<Rightarrow> field_cipher option \<Rightarrow> uuid \<Rightarrow> string \<Rightarrow> string \<Rightarrow> string \<Rightarrow> string \<Rightarrow> string \<Rightarrow> int
    \<Rightarrow> (world, notif_error, unit) op" where
  "enqueue_email_for_account_with_max_attempts en co acc dedup subject text html kind m =
     (if m < 1 \<or> 100 < m then fail NotifInvalid
      else bindM (map_errM notif_no_rows (sql_read (\<lambda>d. map_option a_email_ct
             (List.find (\<lambda>a. a_id a = acc \<and> a_status a = ''active'') (accounts d)))))
        (\<lambda>recipient. enqueue_email en co (Some acc) recipient dedup subject text html kind m))"

definition enqueue_email_for_account ::
  "env \<Rightarrow> field_cipher option \<Rightarrow> uuid \<Rightarrow> string \<Rightarrow> string \<Rightarrow> string \<Rightarrow> string \<Rightarrow> string
    \<Rightarrow> (world, notif_error, unit) op" where
  "enqueue_email_for_account en co acc dedup subject text html kind =
     enqueue_email_for_account_with_max_attempts en co acc dedup subject text html kind 8"

definition enqueue_email_to ::
  "env \<Rightarrow> field_cipher option \<Rightarrow> uuid \<Rightarrow> string \<Rightarrow> string \<Rightarrow> string \<Rightarrow> string \<Rightarrow> string
    \<Rightarrow> (world, notif_error, unit) op" where
  "enqueue_email_to en co acc recipient dedup subject text html =
     enqueue_email en co (Some acc) recipient dedup subject text html ''verification'' 8"

definition enqueue_email_address ::
  "env \<Rightarrow> field_cipher option \<Rightarrow> string \<Rightarrow> string \<Rightarrow> string \<Rightarrow> string \<Rightarrow> (world, notif_error, unit) op" where
  "enqueue_email_address en co recipient0 dedup subject text =
     (let recipient = normalize_email (e_unicode en) recipient0 in
      if recipient = [] then fail NotifInvalid
      else bindM (with_draws NotifCipher (fc_seal (e_crypto en) co recipient)) (\<lambda>ct.
        enqueue_email en co None ct dedup subject text [] ''admissions_contribution_receipt'' 8))"

section \<open>Reading and marking notifications\<close>

definition unread_count :: "uuid \<Rightarrow> (world, notif_error, nat) op" where
  "unread_count acc = map_errM notif_sql (sql_read (\<lambda>d.
     Some (length (filter (\<lambda>n. n_account n = acc \<and> n_read n = None) (notices d)))))"

definition mark_all_read :: "uuid \<Rightarrow> (world, notif_error, nat) op" where
  "mark_all_read acc =
     bindM (readM db_now) (\<lambda>ts. map_errM notif_sql (sql_write
       (\<lambda>d. d\<lparr>notices := update_where (\<lambda>n. n_account n = acc \<and> n_read n = None)
          (\<lambda>n. n\<lparr>n_read := Some ts\<rparr>) (notices d)\<rparr>)
       (\<lambda>d. affected (\<lambda>n. n_account n = acc \<and> n_read n = None) (notices d))))"

definition mark_read :: "uuid \<Rightarrow> uuid \<Rightarrow> (world, notif_error, unit) op" where
  "mark_read acc i =
     bindM (readM db_now) (\<lambda>ts.
     bindM (map_errM notif_sql (sql_write
       (\<lambda>d. d\<lparr>notices := update_where (\<lambda>n. n_id n = i \<and> n_account n = acc)
          (\<lambda>n. n\<lparr>n_read := coalesce (n_read n) ts\<rparr>) (notices d)\<rparr>)
       (\<lambda>d. affected (\<lambda>n. n_id n = i \<and> n_account n = acc) (notices d))))
     (\<lambda>k. if k \<noteq> 1 then fail NotifNotFound else ret ()))"

section \<open>The outbox\<close>

record email_task =
  et_id :: uuid
  et_recipient :: string
  et_payload :: string

definition claimable :: "time \<Rightarrow> outbox_row \<Rightarrow> bool" where
  "claimable t e \<longleftrightarrow> (e_status e \<in> {''pending'', ''failed''} \<and> e_available e \<le> t)
     \<or> (e_status e = ''processing'' \<and> e_updated e < t - 5 * minute)"

definition clamp_batch :: "int \<Rightarrow> int" where
  "clamp_batch l = (if l < 1 \<or> 100 < l then 20 else l)"

definition claim_row :: "time \<Rightarrow> outbox_row \<Rightarrow> outbox_row" where
  "claim_row t e = e\<lparr>e_status := ''processing'', e_attempts := e_attempts e + 1, e_updated := t\<rparr>"

fun claim_loop :: "time \<Rightarrow> email_task list \<Rightarrow> (world, notif_error, unit) op" where
  "claim_loop ts [] = ret ()"
| "claim_loop ts (task # tasks) =
     bindM (map_errM notif_sql (sql_write (\<lambda>d. d\<lparr>outbox :=
       update_where (\<lambda>e. e_id e = et_id task) (claim_row ts) (outbox d)\<rparr>) (\<lambda>_. ())))
     (\<lambda>_. claim_loop ts tasks)"

definition select_tasks :: "time \<Rightarrow> int \<Rightarrow> db \<Rightarrow> email_task list" where
  "select_tasks t l d =
     map (\<lambda>e. \<lparr>et_id = e_id e, et_recipient = e_recipient e, et_payload = e_payload e\<rparr>)
       (take (nat l) (sort_key e_created (filter (claimable t) (outbox d))))"

definition claim_email_outbox :: "int \<Rightarrow> (world, notif_error, email_task list) op" where
  "claim_email_outbox l =
     bindM (readM db_now) (\<lambda>ts. transaction notif_sql
       (bindM (map_errM notif_sql (sql_read (\<lambda>d. Some (select_tasks ts (clamp_batch l) d))))
       (\<lambda>tasks. bindM (claim_loop ts tasks) (\<lambda>_. ret tasks))))"

definition mark_email_sent :: "uuid \<Rightarrow> (world, notif_error, unit) op" where
  "mark_email_sent i =
     bindM (readM db_now) (\<lambda>ts. map_errM notif_sql (sql_write (\<lambda>d. d\<lparr>outbox :=
       update_where (\<lambda>e. e_id e = i)
         (\<lambda>e. e\<lparr>e_status := ''sent'', e_error := None, e_updated := ts\<rparr>) (outbox d)\<rparr>) (\<lambda>_. ())))"

definition fail_row :: "time \<Rightarrow> string \<Rightarrow> outbox_row \<Rightarrow> outbox_row" where
  "fail_row t msg e = e\<lparr>e_status := (if e_max e \<le> e_attempts e then ''abandoned'' else ''failed''),
     e_error := Some msg, e_available := t + 30 * second * min (max (e_attempts e) 1) 10,
     e_updated := t\<rparr>"

text \<open>A text parameter the server accepts: well-formed UTF-8 without NUL.\<close>

definition pg_text :: "string \<Rightarrow> bool" where
  "pg_text s \<longleftrightarrow> valid_utf8 s \<and> CHR 0x00 \<notin> set s"

definition mark_email_failed :: "uuid \<Rightarrow> string \<Rightarrow> (world, notif_error, unit) op" where
  "mark_email_failed i message0 =
     (let msg = (if 500 < length message0 then take 500 message0 else message0) in
      bindM (readM db_now) (\<lambda>ts. map_errM notif_sql (sql_insert (\<lambda>_. pg_text msg) (\<lambda>_. True)
        (\<lambda>d. d\<lparr>outbox := update_where (\<lambda>e. e_id e = i) (fail_row ts msg) (outbox d)\<rparr>) (\<lambda>_. ()))))"

section \<open>The e-mail worker\<close>

datatype worker_error =
    WorkerNotConfigured | WorkerStore notif_error | WorkerCipher crypto_error
  | WorkerPayload string | WorkerSend string

fun crypto_error_text :: "crypto_error \<Rightarrow> string" where
  "crypto_error_text CipherNotConfigured = ''field cipher is not configured''"
| "crypto_error_text InvalidCiphertext = ''invalid encrypted value''"
| "crypto_error_text KeyInvalid = ''create field cipher: invalid key size''"
| "crypto_error_text RandFailed = ''generate field cipher nonce''"

fun worker_error_text :: "env \<Rightarrow> worker_error \<Rightarrow> string" where
  "worker_error_text en WorkerNotConfigured = ''email worker is not configured''"
| "worker_error_text en (WorkerStore e) = e_sql_text en"
| "worker_error_text en (WorkerCipher e) = crypto_error_text e"
| "worker_error_text en (WorkerPayload s) = s"
| "worker_error_text en (WorkerSend s) = s"

definition safe_email_error :: "env \<Rightarrow> worker_error \<Rightarrow> string" where
  "safe_email_error en e =
     (let message = trim_space (worker_error_text en e) in
      if 500 < length message then take 500 message else message)"

definition decrypt_task :: "env \<Rightarrow> field_cipher \<Rightarrow> email_task \<Rightarrow> worker_error + mail" where
  "decrypt_task en c task =
     (case fc_open (e_crypto en) (Some c) (et_recipient task) of
        Inl e \<Rightarrow> Inl (WorkerCipher e)
      | Inr recipient \<Rightarrow>
          (case fc_open (e_crypto en) (Some c) (et_payload task) of
             Inl e \<Rightarrow> Inl (WorkerCipher e)
           | Inr payload \<Rightarrow>
               (case e_unjson en payload of
                  Inl s \<Rightarrow> Inl (WorkerPayload s)
                | Inr m \<Rightarrow> Inr \<lparr>mail_to = recipient, mail_subject = mail_subject m,
                                mail_text = mail_text m, mail_html = mail_html m\<rparr>)))"

definition send_mail :: "env \<Rightarrow> mail \<Rightarrow> (world, worker_error, unit) op" where
  "send_mail en m w =
     (case e_send en (length (sent w)) m of None \<Rightarrow> Inr () | Some e \<Rightarrow> Inl (WorkerSend e),
      w\<lparr>sent := sent w @ [m]\<rparr>)"

text \<open>\<open>keep_first e f\<close>: \<^verbatim>\<open>if firstErr == nil { firstErr = f }\<close>.\<close>

definition keep_first :: "'e option \<Rightarrow> 'e \<Rightarrow> 'e option" where
  "keep_first e f = (case e of None \<Rightarrow> Some f | Some x \<Rightarrow> Some x)"

text \<open>A failed delivery: record it, remember the first error.\<close>

definition note_failure ::
  "env \<Rightarrow> email_task \<Rightarrow> worker_error option \<Rightarrow> worker_error \<Rightarrow> (world, 'e, worker_error option) op" where
  "note_failure en task first err =
     catchM (mark_email_failed (et_id task) (safe_email_error en err))
       (\<lambda>me. ret (keep_first (keep_first first (WorkerStore me)) err))
       (\<lambda>_. ret (keep_first first err))"

definition process_task ::
  "env \<Rightarrow> field_cipher \<Rightarrow> email_task \<Rightarrow> worker_error option \<Rightarrow> (world, 'e, worker_error option) op" where
  "process_task en c task first =
     (case decrypt_task en c task of
        Inl err \<Rightarrow> note_failure en task first err
      | Inr m \<Rightarrow>
          catchM (send_mail en m) (note_failure en task first)
            (\<lambda>_. catchM (mark_email_sent (et_id task))
                    (\<lambda>e. note_failure en task first (WorkerStore e))
                    (\<lambda>_. ret first)))"

fun process_tasks ::
  "env \<Rightarrow> field_cipher \<Rightarrow> email_task list \<Rightarrow> worker_error option \<Rightarrow> (world, 'e, worker_error option) op" where
  "process_tasks en c [] first = ret first"
| "process_tasks en c (task # tasks) first =
     bindM (process_task en c task first) (process_tasks en c tasks)"

text \<open>
  \<^verbatim>\<open>ProcessOnce\<close>: the result is the first error of the pass. \<open>inquiries\<close> is the pass over the
  willingness inquiries.
\<close>

definition process_once ::
  "env \<Rightarrow> field_cipher option \<Rightarrow> int \<Rightarrow> (world, worker_error, unit) op \<Rightarrow> (world, 'e, worker_error option) op" where
  "process_once en co batch inquiries =
     (case co of
        None \<Rightarrow> ret (Some WorkerNotConfigured)
      | Some c \<Rightarrow>
          bindM (catchM inquiries (\<lambda>e. ret (Some e)) (\<lambda>_. ret None)) (\<lambda>first.
          catchM (claim_email_outbox (clamp_batch batch))
            (\<lambda>e. ret (keep_first first (WorkerStore e)))
            (\<lambda>tasks. process_tasks en c tasks first)))"

end
