(* ===== verification/StoreProperties.thy ===== *)
theory StoreProperties imports StoreInvariants begin

text \<open>
  What the methods of the store promise: what its invariant says of keys, and the exact effect of
  the security-relevant operations.
\<close>

section \<open>Keys\<close>

definition empty_db :: db where
  "empty_db = \<lparr>accounts = [], sessions = [], identities = [], oauth_states = [],
     email_challenges = [], reset_challenges = [], roles = [], admin_mfa = [], api_tokens = [],
     calendar_grants = [], outbox = [], notices = [], app_settings = [], next_id = 1\<rparr>"

lemma empty_db_ok: "db_ok empty_db"
  by (simp add: db_ok_def empty_db_def accounts_ok_def sessions_ok_def challenges_ok_def one_open_def
      identities_ok_def mfa_ok_def)

text \<open>What the invariant says of keys, in the terms of the tables.\<close>

lemma db_ok_keys:
  assumes ok: "db_ok d"
  shows "\<forall>a \<in> set (accounts d). \<forall>b \<in> set (accounts d).
      a_id a = a_id b \<or> a_username a = a_username b \<or> a_email_hash a = a_email_hash b
        \<or> (a_school_hash a \<noteq> None \<and> a_school_hash a = a_school_hash b) \<longrightarrow> a = b"
    "\<forall>s \<in> set (sessions d). has_account d (s_account s)
        \<and> (\<forall>s' \<in> set (sessions d). s_token s = s_token s' \<longrightarrow> s = s')"
    "\<forall>c \<in> set (reset_challenges d). has_account d (c_account c)
        \<and> (\<forall>c' \<in> set (reset_challenges d). open_challenge (c_account c) c
              \<longrightarrow> open_challenge (c_account c) c' \<longrightarrow> c = c')"
proof -
  have acc: "accounts_ok d" using ok by (simp add: db_ok_def)
  have A: "a = b" if "a \<in> set (accounts d)" "b \<in> set (accounts d)"
    "a_id a = a_id b \<or> account_clash a b" for a b
  proof -
    have "a_id a = a_id b" using acc that unfolding accounts_ok_def by blast
    with acc that show ?thesis by (blast intro: accounts_unique)
  qed
  have S: "s = s'" if "s \<in> set (sessions d)" "s' \<in> set (sessions d)"
    "s_token s = s_token s'" for s s'
    using that ok distinct_key_eq[of s_token] unfolding db_ok_def sessions_ok_def by blast
  have F: "\<forall>s \<in> set (sessions d). has_account d (s_account s)"
    "\<forall>c \<in> set (reset_challenges d). has_account d (c_account c)"
    "one_open (reset_challenges d)"
    using ok by (simp_all add: db_ok_def sessions_ok_def challenges_ok_def)
  show "\<forall>a \<in> set (accounts d). \<forall>b \<in> set (accounts d).
      a_id a = a_id b \<or> a_username a = a_username b \<or> a_email_hash a = a_email_hash b
        \<or> (a_school_hash a \<noteq> None \<and> a_school_hash a = a_school_hash b) \<longrightarrow> a = b"
    using A unfolding account_clash_def by metis
  show "\<forall>s \<in> set (sessions d). has_account d (s_account s)
        \<and> (\<forall>s' \<in> set (sessions d). s_token s = s_token s' \<longrightarrow> s = s')"
    using S F(1) by blast
  have "\<forall>c \<in> set (reset_challenges d). \<forall>c' \<in> set (reset_challenges d).
      open_challenge (c_account c) c \<longrightarrow> open_challenge (c_account c) c' \<longrightarrow> c = c'"
    using F(3) unfolding one_open_def open_challenge_def by metis
  then show "\<forall>c \<in> set (reset_challenges d). has_account d (c_account c)
        \<and> (\<forall>c' \<in> set (reset_challenges d). open_challenge (c_account c) c
              \<longrightarrow> open_challenge (c_account c) c' \<longrightarrow> c = c')"
    using F(2) by blast
qed

definition demo_world :: world where
  "demo_world = \<lparr>w_db = empty_db, faults = [], draws = 0, now = 1000 * second, db_now = 1000 * second,
     login_limiter = None, login_account_limiter = None, register_limiter = None,
     register_email_limiter = None, email_limiter = None, mfa_limiter = None, buckets = [],
     redis_db = [], redis_now = 0, sent = [], published = [], blobs = []\<rparr>"

section \<open>Password reset: effect, atomicity, single use\<close>

lemma consume_reset_effect:
  assumes "consume_password_reset_challenge tok h t w = (Inr (), w')"
  obtains c where "c \<in> set (reset_challenges (w_db w))" "challenge_live tok t c"
    "\<exists>a \<in> set (accounts (w_db w)). reset_target c a"
    "w_db w' = (w_db w)\<lparr>
       reset_challenges := update_where (\<lambda>x. c_id x = c_id c) (consume_row t) (reset_challenges (w_db w)),
       accounts := update_where (reset_target c) (reset_account c h (db_now w)) (accounts (w_db w)),
       sessions := update_where (\<lambda>s. s_account s = c_account c) (revoke_row t) (sessions (w_db w))\<rparr>"
proof -
  note [simp del] = bindM_Inr_iff
  from assms obtain w1 w2 where w1: "w_db w1 = w_db w" and w': "w_db w' = w_db w2"
    and body: "bindM (map_errM (no_rows ErrExpired) (sql_read (\<lambda>d.
          select_first (\<lambda>c. - c_created c) (challenge_live tok t) (reset_challenges d))))
       (\<lambda>c. bindM (map_errM db_error (sql_write (\<lambda>d. d\<lparr>reset_challenges :=
          update_where (\<lambda>x. c_id x = c_id c) (consume_row t) (reset_challenges d)\<rparr>) (\<lambda>_. ())))
       (\<lambda>_. bindM (map_errM db_error (sql_write
          (\<lambda>d. d\<lparr>accounts := update_where (reset_target c) (reset_account c h (db_now w)) (accounts d)\<rparr>)
          (\<lambda>d. affected (reset_target c) (accounts d))))
       (\<lambda>n. if n = 0 then fail ErrNotFound
            else map_errM db_error (sql_write (\<lambda>d. d\<lparr>sessions :=
              update_where (\<lambda>s. s_account s = c_account c) (revoke_row t) (sessions d)\<rparr>) (\<lambda>_. ()))))) w1
      = (Inr (), w2)"
    unfolding consume_password_reset_challenge_def by (auto elim: transaction_Inr)
  from body obtain c where
    c: "select_first (\<lambda>c. - c_created c) (challenge_live tok t) (reset_challenges (w_db w1)) = Some c"
      "0 < affected (reset_target c) (accounts (w_db w1))" and
    w2: "w_db w2 = (w_db w1)\<lparr>
       reset_challenges := update_where (\<lambda>x. c_id x = c_id c) (consume_row t) (reset_challenges (w_db w1)),
       accounts := update_where (reset_target c) (reset_account c h (db_now w)) (accounts (w_db w1)),
       sessions := update_where (\<lambda>s. s_account s = c_account c) (revoke_row t) (sessions (w_db w1))\<rparr>"
    by (auto simp: bindM_Inr_iff split: if_splits dest!: sql_read_Inr sql_write_Inr)
  from c w1 have "c \<in> set (reset_challenges (w_db w))" "challenge_live tok t c"
    "\<exists>a \<in> set (accounts (w_db w)). reset_target c a"
    by (auto dest!: select_first_Some simp: affected_pos_iff)
  with that w1 w' w2 show thesis by simp
qed

text \<open>
  Property C8. A password reset either does everything or nothing. When it succeeds, the token
  named a live challenge of the schema's only matching account; that account has the new
  password (and is active and a student if the challenge activates it), all its sessions are
  revoked, other accounts and their sessions are untouched, and the token never works again.
  When it fails, for any reason and at any statement, the database is as before.
\<close>

theorem password_reset_effect:
  assumes "world_ok w" "consume_password_reset_challenge tok h t w = (r, w')"
  shows "case r of
      Inl e \<Rightarrow> w_db w' = w_db w
    | Inr _ \<Rightarrow> (\<exists>c \<in> set (reset_challenges (w_db w)). challenge_live tok t c
        \<and> (\<exists>a \<in> set (accounts (w_db w)). reset_target c a
              \<and> find_account (w_db w') (c_account c) = Some (reset_account c h (db_now w) a))
        \<and> (\<forall>s \<in> set (sessions (w_db w')). s_account s = c_account c \<longrightarrow> s_revoked s \<noteq> None)
        \<and> (\<forall>a \<in> set (accounts (w_db w)). a_id a \<noteq> c_account c \<longrightarrow> a \<in> set (accounts (w_db w')))
        \<and> (\<forall>s \<in> set (sessions (w_db w)). s_account s \<noteq> c_account c \<longrightarrow> s \<in> set (sessions (w_db w')))
        \<and> (\<forall>h' t' f. \<exists>e. fst (consume_password_reset_challenge tok h' t' (w'\<lparr>faults := f\<rparr>)) = Inl e))"
proof (cases r)
  case (Inl e)
  with assms(2) show ?thesis
    by (auto simp: consume_password_reset_challenge_def dest: transaction_Inl_db)
next
  case (Inr u)
  with assms(2) obtain c a where c: "c \<in> set (reset_challenges (w_db w))" "challenge_live tok t c"
    and a: "a \<in> set (accounts (w_db w))" "reset_target c a"
    and w': "w_db w' = (w_db w)\<lparr>
       reset_challenges := update_where (\<lambda>x. c_id x = c_id c) (consume_row t) (reset_challenges (w_db w)),
       accounts := update_where (reset_target c) (reset_account c h (db_now w)) (accounts (w_db w)),
       sessions := update_where (\<lambda>s. s_account s = c_account c) (revoke_row t) (sessions (w_db w))\<rparr>"
    by (auto elim: consume_reset_effect)
  have ok': "world_ok w'"
    using assms keeps_consume_reset_challenge[of tok h t] by (metis keepsD)
  have "find_account (w_db w') (c_account c) = Some (reset_account c h (db_now w) a)"
  proof -
    have "reset_account c h (db_now w) a \<in> set (accounts (w_db w'))"
      using a by (simp add: w' in_update_where_new)
    moreover have "a_id (reset_account c h (db_now w) a) = c_account c"
      using a by (simp add: reset_target_def)
    ultimately show ?thesis using ok' find_account_eq unfolding db_ok_def by metis
  qed
  moreover have "\<forall>s \<in> set (sessions (w_db w')). s_account s = c_account c \<longrightarrow> s_revoked s \<noteq> None"
    by (simp add: w' ball_update_where del: not_None_eq)
  moreover have "\<forall>a \<in> set (accounts (w_db w)). a_id a \<noteq> c_account c \<longrightarrow> a \<in> set (accounts (w_db w'))"
    by (simp add: w' in_update_where_same reset_target_def)
  moreover have "\<forall>s \<in> set (sessions (w_db w)). s_account s \<noteq> c_account c \<longrightarrow> s \<in> set (sessions (w_db w'))"
    by (simp add: w' in_update_where_same)
  moreover have "\<exists>e. fst (consume_password_reset_challenge tok h' t' (w'\<lparr>faults := f\<rparr>)) = Inl e" for h' t' f
  proof (rule ccontr)
    assume "\<nexists>e. fst (consume_password_reset_challenge tok h' t' (w'\<lparr>faults := f\<rparr>)) = Inl e"
    then obtain w2 where "consume_password_reset_challenge tok h' t' (w'\<lparr>faults := f\<rparr>) = (Inr (), w2)"
      by (metis old.sum.exhaust old.unit.exhaust prod.collapse)
    then obtain c2 where c2: "c2 \<in> set (reset_challenges (w_db w'))" "challenge_live tok t' c2"
      by (auto elim: consume_reset_effect)
    have "distinct (map c_token (reset_challenges (w_db w)))" "distinct (map c_id (reset_challenges (w_db w)))"
      using assms(1) by (simp_all add: db_ok_def challenges_ok_def)
    then have "\<forall>x \<in> set (reset_challenges (w_db w)). c_token x = tok \<longrightarrow> x = c"
      using c distinct_key_eq[of c_token] unfolding challenge_live_def by blast
    then have "\<forall>x \<in> set (reset_challenges (w_db w')). c_token x = tok \<longrightarrow> c_consumed x \<noteq> None"
      by (simp add: w' ball_update_where del: not_None_eq) blast
    with c2 show False unfolding challenge_live_def by blast
  qed
  ultimately show ?thesis using c a Inr by auto
qed

definition demo_account :: account_row where
  "demo_account = \<lparr>a_id = 1, a_username = ''amy'', a_email_ct = ''ct'', a_email_hash = ''eh'',
     a_school_ct = Some ''sct'', a_school_hash = Some ''sh'', a_password = ''pw'',
     a_identity = ''temporary'', a_status = ''pending_verification'', a_verified_at = None,
     a_updated = 0\<rparr>"

definition demo_reset :: reset_row where
  "demo_reset = \<lparr>c_id = 2, c_account = 1, c_token = ''th'', c_expires = 2000 * second,
     c_consumed = None, c_created = 0, c_activates = True\<rparr>"

definition demo_pending :: world where
  "demo_pending = demo_world\<lparr>w_db := empty_db\<lparr>accounts := [demo_account],
     reset_challenges := [demo_reset], next_id := 3\<rparr>\<rparr>"

lemma demo_pending_ok: "world_ok demo_pending"
  by (simp add: demo_pending_def demo_world_def demo_account_def demo_reset_def db_ok_def empty_db_def
      accounts_ok_def sessions_ok_def challenges_ok_def one_open_def identities_ok_def mfa_ok_def
      has_account_def)

theorem password_reset_effect_witness:
  "\<exists>w'. consume_password_reset_challenge ''th'' ''new'' (1500 * second) demo_pending = (Inr (), w')
     \<and> (\<exists>e. fst (consume_password_reset_challenge ''th'' ''other'' (1600 * second) w') = Inl e)"
proof -
  have "fst (consume_password_reset_challenge ''th'' ''new'' (1500 * second) demo_pending) = Inr ()"
    by code_simp
  then obtain w' where run: "consume_password_reset_challenge ''th'' ''new'' (1500 * second) demo_pending = (Inr (), w')"
    by (metis prod.collapse)
  from password_reset_effect[OF demo_pending_ok run]
  have "\<forall>h' t' f. \<exists>e. fst (consume_password_reset_challenge ''th'' h' t' (w'\<lparr>faults := f\<rparr>)) = Inl e"
    by auto
  from this[rule_format, of "''other''" "1600 * second" "faults w'"] run show ?thesis by auto
qed

section \<open>Purging pending accounts\<close>

lemma purge_effect:
  assumes "purge_expired_pending_accounts t w = (Inr n, w')"
  shows "map a_id (filter (expired_pending (w_db w) t) (accounts (w_db w))) = [] \<and> w_db w' = w_db w \<and> n = 0
    \<or> (\<exists>ids. ids = map a_id (filter (expired_pending (w_db w) t) (accounts (w_db w)))
      \<and> n = affected (purged ids) (accounts (w_db w))
      \<and> w_db w' = (let gone = map a_id (filter (purged ids) (accounts (w_db w))) in
          (w_db w)\<lparr>accounts := filter (\<lambda>a. \<not> purged ids a) (accounts (w_db w)),
            reset_challenges := filter (\<lambda>c. c_account c \<notin> set ids) (reset_challenges (w_db w)),
            outbox := filter (\<lambda>e. \<not> list_ex (\<lambda>i. e_account e = Some i) ids) (outbox (w_db w)),
            api_tokens := filter (\<lambda>t. t_account t \<notin> set gone) (api_tokens (w_db w)),
            calendar_grants := filter (\<lambda>g. g_account g \<notin> set gone) (calendar_grants (w_db w))\<rparr>))"
proof -
  from assms obtain w1 w2 where w1: "w_db w1 = w_db w" "w_db w' = w_db w2" and
    body: "bindM (map_errM db_error (sql_read (\<lambda>d.
          Some (map a_id (filter (expired_pending d t) (accounts d))))))
       (\<lambda>ids. if ids = [] then ret 0
          else bindM (map_errM db_error (sql_write (\<lambda>d. d\<lparr>reset_challenges :=
                 filter (\<lambda>c. c_account c \<notin> set ids) (reset_challenges d)\<rparr>) (\<lambda>_. ())))
          (\<lambda>_. bindM (map_errM db_error (sql_write (\<lambda>d. d\<lparr>outbox :=
                 filter (\<lambda>e. \<not> list_ex (\<lambda>i. e_account e = Some i) ids) (outbox d)\<rparr>) (\<lambda>_. ())))
          (\<lambda>_. map_errM db_error (delete_pending_accounts ids)))) w1 = (Inr n, w2)"
    unfolding purge_expired_pending_accounts_def by (auto elim: transaction_Inr simp del: bindM_Inr_iff)
  let ?ids = "map a_id (filter (expired_pending (w_db w) t) (accounts (w_db w)))"
  show ?thesis
  proof (cases "?ids = []")
    case True
    with body w1 show ?thesis by (elim bind_readE) simp
  next
    case False
    from body obtain v0 where v0: "w_db v0 = w_db w1" and
      body1: "bindM (map_errM db_error (sql_write (\<lambda>d. d\<lparr>reset_challenges :=
                 filter (\<lambda>c. c_account c \<notin> set ?ids) (reset_challenges d)\<rparr>) (\<lambda>_. ())))
          (\<lambda>_. bindM (map_errM db_error (sql_write (\<lambda>d. d\<lparr>outbox :=
                 filter (\<lambda>e. \<not> list_ex (\<lambda>i. e_account e = Some i) ?ids) (outbox d)\<rparr>) (\<lambda>_. ())))
          (\<lambda>_. map_errM db_error (delete_pending_accounts ?ids))) v0 = (Inr n, w2)"
      using w1 False by (elim bind_readE) (simp only: option.inject if_False)
    from body1 obtain v1 where v1:
      "w_db v1 = (w_db v0)\<lparr>reset_challenges := filter (\<lambda>c. c_account c \<notin> set ?ids) (reset_challenges (w_db v0))\<rparr>"
      and body2: "bindM (map_errM db_error (sql_write (\<lambda>d. d\<lparr>outbox :=
                 filter (\<lambda>e. \<not> list_ex (\<lambda>i. e_account e = Some i) ?ids) (outbox d)\<rparr>) (\<lambda>_. ())))
          (\<lambda>_. map_errM db_error (delete_pending_accounts ?ids)) v1 = (Inr n, w2)"
      by (rule bind_writeE)
    from body2 obtain v2 where v2:
      "w_db v2 = (w_db v1)\<lparr>outbox := filter (\<lambda>e. \<not> list_ex (\<lambda>i. e_account e = Some i) ?ids) (outbox (w_db v1))\<rparr>"
      and v3: "map_errM db_error (delete_pending_accounts ?ids) v2 = (Inr n, w2)"
      by (rule bind_writeE)
    from v3 have "w_db w2 = (let gone = map a_id (filter (purged ?ids) (accounts (w_db v2))) in
            (w_db v2)\<lparr>accounts := filter (\<lambda>a. \<not> purged ?ids a) (accounts (w_db v2)),
              api_tokens := filter (\<lambda>t. t_account t \<notin> set gone) (api_tokens (w_db v2)),
              calendar_grants := filter (\<lambda>g. g_account g \<notin> set gone) (calendar_grants (w_db v2))\<rparr>)
        \<and> n = affected (purged ?ids) (accounts (w_db v2))"
      unfolding delete_pending_accounts_def by (simp only: map_errM_Inr_iff) (drule sql_insert_Inr, blast)
    with v1 v2 v0 w1 show ?thesis by (simp add: Let_def)
  qed
qed

text \<open>
  The cleanup removes exactly the accounts that are still pending and whose open
  activation challenge has expired; an account that is active, or whose activation link is
  still live, is never removed, nor is any challenge of such an account; and a run that fails
  changes nothing.
\<close>

theorem purge_only_expired:
  assumes "world_ok w" "purge_expired_pending_accounts t w = (r, w')"
  shows "case r of
      Inl e \<Rightarrow> w_db w' = w_db w
    | Inr n \<Rightarrow> accounts (w_db w') = filter (\<lambda>a. \<not> expired_pending (w_db w) t a) (accounts (w_db w))
        \<and> n = length (filter (expired_pending (w_db w) t) (accounts (w_db w)))
        \<and> (\<forall>a \<in> set (accounts (w_db w)). \<forall>c \<in> set (reset_challenges (w_db w)).
             c_account c = a_id a \<longrightarrow> c_consumed c = None \<longrightarrow> t \<le> c_expires c \<longrightarrow>
             a \<in> set (accounts (w_db w')) \<and> c \<in> set (reset_challenges (w_db w')))"
proof (cases r)
  case (Inl e)
  with assms(2) show ?thesis
    by (auto simp: purge_expired_pending_accounts_def dest: transaction_Inl_db)
next
  case (Inr n)
  let ?d = "w_db w" and ?x = "expired_pending (w_db w) t"
  let ?ids = "map a_id (filter ?x (accounts ?d))"
  have ok: "accounts_ok ?d" and one: "one_open (reset_challenges ?d)"
    using assms(1) by (simp_all add: db_ok_def challenges_ok_def)
  have ids: "a_id a \<in> set ?ids \<longleftrightarrow> ?x a" if "a \<in> set (accounts ?d)" for a
    using that accounts_unique[OF ok] by auto
  have purged: "purged ?ids a \<longleftrightarrow> ?x a" if "a \<in> set (accounts ?d)" for a
    using ids[OF that] by (auto simp: purged_def expired_pending_def)
  have live: "\<not> ?x a" if "c \<in> set (reset_challenges ?d)" "c_account c = a_id a" "c_consumed c = None"
    "t \<le> c_expires c" for a c
  proof
    assume "?x a"
    then obtain c' where "c' \<in> set (reset_challenges ?d)" "c_account c' = a_id a"
      "c_consumed c' = None" "c_expires c' < t"
      by (auto simp: expired_pending_def list_ex_iff)
    with that one have "c' = c" unfolding one_open_def by metis
    with \<open>c_expires c' < t\<close> that(4) show False by simp
  qed
  have eff: "accounts (w_db w') = filter (\<lambda>a. \<not> ?x a) (accounts ?d)
      \<and> n = length (filter ?x (accounts ?d))
      \<and> (\<forall>c \<in> set (reset_challenges ?d). c_account c \<notin> set ?ids \<longrightarrow> c \<in> set (reset_challenges (w_db w')))"
    using purge_effect[OF assms(2)[unfolded Inr]]
  proof (elim disjE exE conjE, goal_cases)
    case 1
    then have "\<forall>a \<in> set (accounts ?d). \<not> ?x a" by (simp add: filter_empty_conv)
    with 1 show ?case by simp
  next
    case (2 ids)
    have "filter (\<lambda>a. \<not> purged ids a) (accounts ?d) = filter (\<lambda>a. \<not> ?x a) (accounts ?d)"
      "affected (purged ids) (accounts ?d) = length (filter ?x (accounts ?d))"
      using purged 2 by (auto simp: affected_def intro: filter_cong arg_cong[where f = length])
    with 2 show ?case by (simp add: Let_def)
  qed
  have "a \<in> set (accounts (w_db w')) \<and> c \<in> set (reset_challenges (w_db w'))"
    if "a \<in> set (accounts ?d)" "c \<in> set (reset_challenges ?d)" "c_account c = a_id a"
      "c_consumed c = None" "t \<le> c_expires c" for a c
    using live[OF that(2-5)] eff ids[OF that(1)] that by simp
  with eff Inr show ?thesis by simp
qed

theorem purge_only_expired_witness:
  "\<exists>w'. purge_expired_pending_accounts (3000 * second) demo_pending = (Inr 1, w') \<and> accounts (w_db w') = []"
proof -
  have "fst (purge_expired_pending_accounts (3000 * second) demo_pending) = Inr 1" by code_simp
  then obtain w' where run: "purge_expired_pending_accounts (3000 * second) demo_pending = (Inr 1, w')"
    by (metis prod.collapse)
  have "filter (\<lambda>a. \<not> expired_pending (w_db demo_pending) (3000 * second) a) (accounts (w_db demo_pending)) = []"
    by code_simp
  with purge_only_expired[OF demo_pending_ok run] run show ?thesis by auto
qed

section \<open>One open challenge, one use of an OAuth state\<close>

lemma consume_if_token: "c_token (if b then consume_row t c else c) = c_token c"
  by simp

lemma create_reset_effect:
  assumes "create_password_reset_challenge a tok e act w = (Inr (), w')"
  shows "has_account (w_db w) a \<and> (\<forall>c \<in> set (reset_challenges (w_db w)). c_token c \<noteq> tok)
    \<and> w_db w' = (w_db w)\<lparr>reset_challenges :=
        update_where (open_challenge a) (consume_row (db_now w)) (reset_challenges (w_db w))
        @ [\<lparr>c_id = next_id (w_db w), c_account = a, c_token = tok, c_expires = e, c_consumed = None,
            c_created = db_now w, c_activates = act\<rparr>], next_id := Suc (next_id (w_db w))\<rparr>
    \<and> now w' = now w \<and> db_now w' = db_now w"
proof -
  from assms obtain w1 w2 where w1: "w_db w1 = w_db w" "now w1 = now w" "db_now w1 = db_now w"
    "w_db w' = w_db w2" "now w' = now w2" "db_now w' = db_now w2" and
    body: "bindM (map_errM db_error (sql_write (\<lambda>d. d\<lparr>reset_challenges :=
          update_where (open_challenge a) (consume_row (db_now w)) (reset_challenges d)\<rparr>) (\<lambda>_. ())))
       (\<lambda>_. map_errM map_store_error (sql_insert
          (\<lambda>d. has_account d a \<and> tok \<noteq> [])
          (\<lambda>d. list_all (\<lambda>c. c_token c \<noteq> tok) (reset_challenges d))
          (\<lambda>d. d\<lparr>reset_challenges := reset_challenges d
             @ [\<lparr>c_id = next_id d, c_account = a, c_token = tok, c_expires = e,
                 c_consumed = None, c_created = db_now w, c_activates = act\<rparr>],
                 next_id := Suc (next_id d)\<rparr>)
          (\<lambda>_. ()))) w1 = (Inr (), w2)"
    unfolding create_password_reset_challenge_def
    by (auto elim: transaction_Inr simp del: bindM_Inr_iff)
  from body obtain v where v: "w_db v = (w_db w1)\<lparr>reset_challenges :=
        update_where (open_challenge a) (consume_row (db_now w)) (reset_challenges (w_db w1))\<rparr>"
      "now v = now w1" "db_now v = db_now w1"
    and ins: "map_errM map_store_error (sql_insert
          (\<lambda>d. has_account d a \<and> tok \<noteq> [])
          (\<lambda>d. list_all (\<lambda>c. c_token c \<noteq> tok) (reset_challenges d))
          (\<lambda>d. d\<lparr>reset_challenges := reset_challenges d
             @ [\<lparr>c_id = next_id d, c_account = a, c_token = tok, c_expires = e,
                 c_consumed = None, c_created = db_now w, c_activates = act\<rparr>],
                 next_id := Suc (next_id d)\<rparr>)
          (\<lambda>_. ())) v = (Inr (), w2)"
    by (rule bind_writeE)
  from ins have "has_account (w_db v) a" "list_all (\<lambda>c. c_token c \<noteq> tok) (reset_challenges (w_db v))"
    and w2: "w_db w2 = (w_db v)\<lparr>reset_challenges := reset_challenges (w_db v)
             @ [\<lparr>c_id = next_id (w_db v), c_account = a, c_token = tok, c_expires = e,
                 c_consumed = None, c_created = db_now w, c_activates = act\<rparr>],
                 next_id := Suc (next_id (w_db v))\<rparr>" "now w2 = now v" "db_now w2 = db_now v"
    by (simp_all only: map_errM_Inr_iff) (drule sql_insert_Inr, blast)+
  then have "has_account (w_db w) a" "\<forall>c \<in> set (reset_challenges (w_db w)). c_token c \<noteq> tok"
    using v(1) w1(1) by (simp_all add: has_account_def list_all_iff ball_update_where consume_if_token)
  with w2 v w1 show ?thesis by simp
qed

text \<open>
  A new password challenge retires every older one of the account: afterwards the
  only open challenge of the account is the new one, so a token mailed earlier no longer resets
  anything, and no challenge of another account is touched.
\<close>

theorem new_challenge_retires_old:
  assumes "create_password_reset_challenge a tok e act w = (Inr (), w')"
  shows "(\<forall>c \<in> set (reset_challenges (w_db w')). open_challenge a c \<longrightarrow> c_token c = tok \<and> c_expires c = e
        \<and> c_activates c = act)
    \<and> (\<forall>c \<in> set (reset_challenges (w_db w)). c_account c \<noteq> a \<longrightarrow> c \<in> set (reset_challenges (w_db w')))
    \<and> (\<forall>c \<in> set (reset_challenges (w_db w)). c_account c = a \<longrightarrow> world_ok w \<longrightarrow>
         (\<forall>h t f. fst (consume_password_reset_challenge (c_token c) h t (w'\<lparr>faults := f\<rparr>)) \<noteq> Inr ()))"
proof (intro conjI ballI impI allI)
  note eff = create_reset_effect[OF assms]
  have new: "\<forall>c \<in> set (reset_challenges (w_db w')). open_challenge a c \<longrightarrow>
      c_token c = tok \<and> c_expires c = e \<and> c_activates c = act"
    using open_challenge_consumed[of a "db_now w" "reset_challenges (w_db w)"] eff by auto
  fix c assume c: "c \<in> set (reset_challenges (w_db w'))" "open_challenge a c"
  with new show "c_token c = tok" "c_expires c = e" "c_activates c = act" by blast+
next
  note eff = create_reset_effect[OF assms]
  fix c assume c: "c \<in> set (reset_challenges (w_db w))" "c_account c \<noteq> a"
  then show "c \<in> set (reset_challenges (w_db w'))"
    using eff by (simp add: in_update_where_same open_challenge_def)
next
  note eff = create_reset_effect[OF assms]
  fix c h t f
  assume c: "c \<in> set (reset_challenges (w_db w))" "c_account c = a" and ok: "world_ok w"
  show "fst (consume_password_reset_challenge (c_token c) h t (w'\<lparr>faults := f\<rparr>)) \<noteq> Inr ()"
  proof
    assume "fst (consume_password_reset_challenge (c_token c) h t (w'\<lparr>faults := f\<rparr>)) = Inr ()"
    then obtain w2 where "consume_password_reset_challenge (c_token c) h t (w'\<lparr>faults := f\<rparr>) = (Inr (), w2)"
      by (metis prod.collapse)
    then obtain c2 where c2: "c2 \<in> set (reset_challenges (w_db w'))" "challenge_live (c_token c) t c2"
      by (auto elim: consume_reset_effect)
    have "distinct (map c_token (reset_challenges (w_db w)))"
      using ok by (simp add: db_ok_def challenges_ok_def)
    then have same: "\<forall>x \<in> set (reset_challenges (w_db w)). c_token x = c_token c \<longrightarrow> x = c"
      using c distinct_key_eq[of c_token] by blast
    have "c_token c \<noteq> tok" using eff c by blast
    moreover have "\<forall>x \<in> set (update_where (open_challenge a) (consume_row (db_now w)) (reset_challenges (w_db w))).
        c_token x = c_token c \<longrightarrow> c_consumed x \<noteq> None"
      unfolding ball_update_where using same c by (auto simp: open_challenge_def simp del: not_None_eq)
    ultimately show False using c2 eff by (auto simp: challenge_live_def)
  qed
qed

theorem new_challenge_retires_old_witness:
  "\<exists>w'. create_password_reset_challenge 1 ''fresh'' (9000 * second) True demo_pending = (Inr (), w')
     \<and> fst (consume_password_reset_challenge ''th'' ''new'' (1500 * second) w') \<noteq> Inr ()"
proof -
  have "fst (create_password_reset_challenge 1 ''fresh'' (9000 * second) True demo_pending) = Inr ()"
    by code_simp
  then obtain w' where run: "create_password_reset_challenge 1 ''fresh'' (9000 * second) True demo_pending = (Inr (), w')"
    by (metis prod.collapse)
  have "demo_reset \<in> set (reset_challenges (w_db demo_pending))" "c_account demo_reset = 1"
    "c_token demo_reset = ''th''"
    by (simp_all add: demo_pending_def demo_reset_def)
  with new_challenge_retires_old[OF run] demo_pending_ok
  have "fst (consume_password_reset_challenge ''th'' ''new'' (1500 * second) (w'\<lparr>faults := faults w'\<rparr>)) \<noteq> Inr ()"
    by metis
  with run show ?thesis by auto
qed

text \<open>
  Property C9. An OAuth state works once: the callback that consumes it gets what the start
  stored, and no later callback with the same state succeeds, under any provider name and at
  any time.
\<close>

theorem oauth_state_single_use:
  assumes "world_ok w" "consume_oauth_state p s t w = (Inr st, w')"
  shows "(\<exists>r \<in> set (oauth_states (w_db w)). state_live p s t r \<and> ost_account st = o_account r
        \<and> ost_verifier st = o_verifier r \<and> ost_redirect st = o_redirect r)
    \<and> (\<forall>p' t' f. \<exists>e. fst (consume_oauth_state p' s t' (w'\<lparr>faults := f\<rparr>)) = Inl e)"
proof -
  from assms(2) obtain r where r: "List.find (state_live p s t) (oauth_states (w_db w)) = Some r"
    "ost_account st = o_account r" "ost_verifier st = o_verifier r" "ost_redirect st = o_redirect r"
    and w': "w_db w' = (w_db w)\<lparr>oauth_states := update_where (state_live p s t)
      (\<lambda>r. r\<lparr>o_consumed := Some t\<rparr>) (oauth_states (w_db w))\<rparr>"
    unfolding consume_oauth_state_def by (auto dest!: sql_InrD split: option.splits)
  from find_Some_D[OF r(1)] have live: "r \<in> set (oauth_states (w_db w))" "state_live p s t r" by auto
  have "distinct (map o_state (oauth_states (w_db w)))"
    using assms(1) by (simp add: db_ok_def identities_ok_def)
  then have same: "\<forall>x \<in> set (oauth_states (w_db w)). o_state x = s \<longrightarrow> x = r"
    using live distinct_key_eq[of o_state] unfolding state_live_def by blast
  have none: "List.find (state_live p' s t') (oauth_states (w_db w')) = None" for p' t'
  proof -
    have "\<forall>x \<in> set (oauth_states (w_db w')). \<not> state_live p' s t' x"
      using same live unfolding w' by (simp add: ball_update_where) (auto simp: state_live_def)
    then show ?thesis by (simp add: find_None_iff)
  qed
  have "\<exists>e. fst (consume_oauth_state p' s t' (w'\<lparr>faults := f\<rparr>)) = Inl e" for p' t' f
    by (auto simp: consume_oauth_state_def map_errM_def sql_def none split: list.splits prod.splits)
  with live r show ?thesis by blast
qed

definition demo_oauth :: world where
  "demo_oauth = demo_world\<lparr>w_db := empty_db\<lparr>oauth_states := [\<lparr>o_provider = ''google'', o_account = None,
     o_state = ''sh'', o_verifier = ''v'', o_redirect = ''r'', o_return_to = None,
     o_expires = 2000 * second, o_consumed = None\<rparr>]\<rparr>\<rparr>"

theorem oauth_state_single_use_witness:
  "\<exists>st w'. consume_oauth_state ''google'' ''sh'' (1500 * second) demo_oauth = (Inr st, w')
     \<and> (\<exists>e. fst (consume_oauth_state ''google'' ''sh'' (1501 * second) w') = Inl e)"
proof -
  have ok: "world_ok demo_oauth"
    by (simp add: demo_oauth_def db_ok_def empty_db_def accounts_ok_def sessions_ok_def
        challenges_ok_def one_open_def identities_ok_def mfa_ok_def)
  have "fst (consume_oauth_state ''google'' ''sh'' (1500 * second) demo_oauth)
      = Inr \<lparr>ost_provider = ''google'', ost_account = None, ost_verifier = ''v'', ost_redirect = ''r'',
          ost_return_to = []\<rparr>"
    by code_simp
  then obtain st w' where run: "consume_oauth_state ''google'' ''sh'' (1500 * second) demo_oauth = (Inr st, w')"
    by (metis prod.collapse)
  from oauth_state_single_use[OF ok run]
  have "\<exists>e. fst (consume_oauth_state ''google'' ''sh'' (1501 * second) (w'\<lparr>faults := faults w'\<rparr>)) = Inl e"
    by blast
  with run show ?thesis by auto
qed

end
