(* ===== verification/SessionStore.thy ===== *)
theory SessionStore imports StoreProperties begin

text \<open>
  The contract of the session table, as the service uses it: what a lookup by token returns
  after a session was created, and after it was revoked. The locale states it for any
  implementation; the interpretation proves it of the PostgreSQL store, under any faults.
\<close>

section \<open>The contract\<close>

locale session_store =
  fixes create :: "uuid \<Rightarrow> string \<Rightarrow> string \<Rightarrow> time \<Rightarrow> string option \<Rightarrow> string option
      \<Rightarrow> ('w, 'e, uuid) op"
    and lookup :: "string \<Rightarrow> time \<Rightarrow> ('w, 'e, session) op"
    and revoke :: "uuid \<Rightarrow> time \<Rightarrow> ('w, 'e, unit) op"
    and good :: "'w \<Rightarrow> bool"
    and owner :: "'w \<Rightarrow> string \<Rightarrow> uuid option"
    and dead :: "'w \<Rightarrow> uuid \<Rightarrow> bool"
  assumes keeps_create: "keeps good (create a tok csrf e ip ua)"
    and keeps_lookup: "keeps good (lookup tok t)"
    and keeps_revoke: "keeps good (revoke i t)"
    and create_owner: "good w \<Longrightarrow> create a tok csrf e ip ua w = (Inr i, w1) \<Longrightarrow> owner w1 tok = Some i"
    and lookup_owner: "good w \<Longrightarrow> lookup tok t w = (Inr s, w1) \<Longrightarrow> owner w tok = Some (ses_id s)"
    and lookup_dead: "good w \<Longrightarrow> lookup tok t w = (Inr s, w1) \<Longrightarrow> \<not> dead w (ses_id s)"
    and lookup_same: "lookup tok t w = (r, w1) \<Longrightarrow> owner w1 = owner w \<and> dead w1 = dead w"
    and revoke_owner: "revoke i t w = (u, w1) \<Longrightarrow> owner w1 = owner w"
    and revoke_dead: "revoke i t w = (Inr (), w1) \<Longrightarrow> owner w tok = Some i \<Longrightarrow> dead w1 i"
    and revoke_keeps_dead: "revoke i t w = (u, w1) \<Longrightarrow> dead w j \<Longrightarrow> dead w1 j"
begin

text \<open>A token whose session was revoked never finds a session again.\<close>

lemma revoked_token_unusable:
  assumes "good w" "owner w tok = Some i" "revoke i t w = (Inr (), w1)"
  shows "fst (lookup tok t' w1) \<noteq> Inr s"
proof
  assume "fst (lookup tok t' w1) = Inr s"
  then obtain w2 where l: "lookup tok t' w1 = (Inr s, w2)" by (metis prod.collapse)
  have g: "good w1" by (rule keepsD[OF keeps_revoke assms(1,3)])
  have "owner w1 tok = Some i" using revoke_owner[OF assms(3)] assms(2) by simp
  with lookup_owner[OF g l] have "ses_id s = i" by simp
  with lookup_dead[OF g l] revoke_dead[OF assms(3,2)] show False by simp
qed

text \<open>Created, then revoked: the token is dead.\<close>

lemma created_then_revoked:
  assumes "good w" "create a tok csrf e ip ua w = (Inr i, w1)" "revoke i t w1 = (Inr (), w2)"
  shows "fst (lookup tok t' w2) \<noteq> Inr s"
  by (rule revoked_token_unusable[OF keepsD[OF keeps_create assms(1,2)] create_owner[OF assms(1,2)] assms(3)])

end

section \<open>The PostgreSQL store keeps it\<close>

definition token_owner :: "world \<Rightarrow> string \<Rightarrow> uuid option" where
  "token_owner w tok = map_option s_id (List.find (\<lambda>s. s_token s = tok) (sessions (w_db w)))"

definition session_dead :: "world \<Rightarrow> uuid \<Rightarrow> bool" where
  "session_dead w i \<longleftrightarrow> (\<forall>s \<in> set (sessions (w_db w)). s_id s = i \<longrightarrow> s_revoked s \<noteq> None)"

lemma find_active_session_Inr:
  assumes "find_active_session tok t w = (Inr s, w')"
  obtains r a where "r \<in> set (sessions (w_db w))" "s_token r = tok" "session_live t r"
    "find_account (w_db w) (s_account r) = Some a" "a_status a = ''active''" "s = session_of r a"
    "w_db w' = w_db w" "now w' = now w"
proof -
  from assms obtain j w1 where "join_session (w_db w) tok t = Some s" "w_db w1 = w_db w"
    "now w1 = now w" "acc_status (ses_account s) = ''active''" "w' = w1"
    unfolding find_active_session_def by (elim bind_readE) (auto split: if_splits)
  then obtain r a where "List.find (\<lambda>s. s_token s = tok \<and> session_live t s \<and> has_account (w_db w) (s_account s))
      (sessions (w_db w)) = Some r" "find_account (w_db w) (s_account r) = Some a" "s = session_of r a"
    "w_db w' = w_db w" "now w' = now w" "a_status a = ''active''"
    by (auto simp: join_session_def session_of_def account_of_def split: option.splits)
  with that find_Some_D[of _ "sessions (w_db w)" r] show thesis by blast
qed

lemma find_active_session_db: "find_active_session tok t w = (r, w') \<Longrightarrow> w_db w' = w_db w"
  by (auto simp: find_active_session_def bindM_def sql_read_def map_errM_def sql_def ret_def fail_def
      split: prod.splits sum.splits list.splits if_splits option.splits)

lemma token_owner_eq:
  assumes "world_ok w" "s \<in> set (sessions (w_db w))"
  shows "token_owner w (s_token s) = Some (s_id s)"
proof -
  have "List.find (\<lambda>x. s_token x = s_token s) (sessions (w_db w)) = Some s"
    using assms by (intro find_unique_key) (auto simp: db_ok_def sessions_ok_def)
  then show ?thesis by (simp add: token_owner_def)
qed

lemma create_session_effect:
  assumes "create_session a tok csrf e ip ua w = (Inr i, w')"
  shows "i = next_id (w_db w) \<and> has_account (w_db w) a
    \<and> (\<forall>s \<in> set (sessions (w_db w)). s_token s \<noteq> tok)
    \<and> w_db w' = (w_db w)\<lparr>sessions := sessions (w_db w) @ [\<lparr>s_id = i, s_account = a, s_token = tok,
         s_csrf = csrf, s_expires = e, s_ip = ip, s_agent = ua, s_revoked = None, s_last_seen = None,
         s_created = db_now w\<rparr>], next_id := Suc (next_id (w_db w))\<rparr> \<and> now w' = now w"
  using assms unfolding create_session_def
  by (auto dest!: sql_insert_Inr simp: list_all_iff)

lemma revoke_session_db:
  "revoke_session i t w = (Inr (), w') \<Longrightarrow>
     w_db w' = (w_db w)\<lparr>sessions := update_where (\<lambda>s. s_id s = i) (revoke_row t) (sessions (w_db w))\<rparr>"
  by (auto simp: revoke_session_def dest!: sql_write_Inr)

lemma revoke_session_err: "revoke_session i t w = (Inl e, w') \<Longrightarrow> w_db w' = w_db w"
  by (auto simp: revoke_session_def map_errM_Inl_iff dest!: sql_Inl_db)

lemma find_update_same:
  assumes "\<And>r. s_token (f r) = s_token r" "\<And>r. s_id (f r) = s_id r"
  shows "map_option s_id (List.find (\<lambda>s. s_token s = tok) (update_where p f rows))
    = map_option s_id (List.find (\<lambda>s. s_token s = tok) rows)"
  by (induction rows) (simp_all add: update_where_def assms)

interpretation pg_sessions: session_store create_session find_active_session revoke_session
  "\<lambda>w. db_ok (w_db w)" token_owner session_dead
proof (unfold_locales, goal_cases)
  case (1 a tok csrf e ip ua)
  show ?case by (rule keeps_create_session)
next
  case (2 tok t)
  show ?case by (rule keeps_find_active_session)
next
  case (3 i t)
  show ?case by (rule keeps_session_writes(2))
next
  case (4 w a tok csrf e ip ua i w1)
  have ok: "world_ok w1" by (rule keepsD[OF keeps_create_session 4])
  let ?s = "\<lparr>s_id = i, s_account = a, s_token = tok, s_csrf = csrf, s_expires = e, s_ip = ip,
    s_agent = ua, s_revoked = None, s_last_seen = None, s_created = db_now w\<rparr>"
  have "?s \<in> set (sessions (w_db w1))" using create_session_effect[OF 4(2)] by simp
  from token_owner_eq[OF ok this] show ?case by simp
next
  case (5 w tok t s w1)
  from 5(2) obtain r a where "r \<in> set (sessions (w_db w))" "s_token r = tok" "s = session_of r a"
    by (auto elim: find_active_session_Inr)
  with token_owner_eq[OF 5(1)] show ?case by (metis session_of_def session.select_convs(1))
next
  case (6 w tok t s w1)
  from 6(2) obtain r a where "r \<in> set (sessions (w_db w))" "session_live t r" "s = session_of r a"
    by (auto elim: find_active_session_Inr)
  then show ?case by (auto simp: session_dead_def session_live_def session_of_def)
next
  case (7 tok t w r w1)
  from find_active_session_db[OF 7] show ?case by (auto simp: token_owner_def session_dead_def fun_eq_iff)
next
  case (8 i t w r w1)
  show ?case
  proof (cases r)
    case (Inl e)
    with 8 show ?thesis by (auto dest!: revoke_session_err simp: token_owner_def fun_eq_iff)
  next
    case (Inr u)
    with 8 have "w_db w1 = (w_db w)\<lparr>sessions := update_where (\<lambda>s. s_id s = i) (revoke_row t) (sessions (w_db w))\<rparr>"
      by (simp add: revoke_session_db)
    then show ?thesis by (simp add: token_owner_def fun_eq_iff find_update_same)
  qed
next
  case (9 i t w w1 tok)
  then show ?case by (simp add: revoke_session_db session_dead_def ball_update_where del: not_None_eq)
next
  case (10 i t w r w1 j)
  show ?case
  proof (cases r)
    case (Inl e)
    with 10 show ?thesis by (auto dest!: revoke_session_err simp: session_dead_def)
  next
    case (Inr u)
    with 10 show ?thesis by (simp add: revoke_session_db session_dead_def ball_update_where del: not_None_eq)
  qed
qed

end
