(* ===== verification/ServiceBase.thy ===== *)
theory ServiceBase imports Outbox SessionStore begin

text \<open>
  The parts of internal/auth/service.go that every operation of the service uses: the
  configuration, the request, rate limiting, the client address, the validation of user names,
  e-mail addresses and passwords, cookies, and the mails it queues.

  The store is the PostgreSQL store, which implements every optional interface of
  internal/auth/store.go, so the type assertions of the source all succeed; the notifier is the
  notification repository. The clock stands still during one operation.
\<close>

section \<open>Configuration and requests\<close>

datatype distributed_limiter = NoDistributed | PgDistributed | RedisDistributed

record oauth_provider =
  op_client_id :: string
  op_client_secret :: string
  op_redirect :: string
  op_auth_url :: string
  op_token_url :: string
  op_userinfo_url :: string
  op_scopes :: "string list"

record oauth_token =
  ot_access :: string
  ot_refresh :: string
  ot_scope :: "string option"

text \<open>
  \<^verbatim>\<open>Service\<close> without its mutable limiters, which are part of the state. \<open>sv_exchange\<close> (the
  exchange of a code under a PKCE verifier), \<open>sv_userinfo\<close> (\<^verbatim>\<open>sub\<close> and \<^verbatim>\<open>id\<close> of the document
  at a URL, for an access token) and \<open>sv_auth_url\<close> (the authorization URL) stand for
  \<^verbatim>\<open>golang.org/x/oauth2\<close>, the HTTP client and the provider.
\<close>

record service =
  sv_env :: env
  sv_cipher :: "field_cipher option"
  sv_hmac_key :: string
  sv_hasher :: lookup_hasher
  sv_ttl :: duration
  sv_secure :: bool
  sv_domain :: string
  sv_distributed :: distributed_limiter
  sv_notifier :: bool
  sv_notify_cipher :: "field_cipher option"
  sv_base_url :: string
  sv_require_mfa :: bool
  sv_grant_ttl :: duration
  sv_providers :: "(string \<times> oauth_provider) list"
  sv_exchange :: "oauth_provider \<Rightarrow> string \<Rightarrow> string \<Rightarrow> oauth_token option"
  sv_userinfo :: "string \<Rightarrow> string \<Rightarrow> (string \<times> string) option"
  sv_auth_url :: "oauth_provider \<Rightarrow> string \<Rightarrow> (string \<times> string) list \<Rightarrow> string"

abbreviation sv_crypto :: "service \<Rightarrow> crypto" where
  "sv_crypto sv \<equiv> e_crypto (sv_env sv)"

abbreviation sv_unicode :: "service \<Rightarrow> unicode" where
  "sv_unicode sv \<equiv> e_unicode (sv_env sv)"

definition ready :: "service \<Rightarrow> bool" where
  "ready sv \<longleftrightarrow> sv_cipher sv \<noteq> None \<and> length (sv_hmac_key sv) = 32"

text \<open>\<^verbatim>\<open>ConfigureEmailVerification\<close>: the public base URL without blanks or trailing slashes.\<close>

definition configure_email_verification :: "bool \<Rightarrow> string \<Rightarrow> service \<Rightarrow> service" where
  "configure_email_verification notifier url sv =
     sv\<lparr>sv_notifier := notifier, sv_base_url := trim_right (trim_space url) ''/''\<rparr>"

definition configure_lookup_key_rotation :: "string list \<Rightarrow> service \<Rightarrow> crypto_error + service" where
  "configure_lookup_key_rotation secondary sv =
     (case new_lookup_hasher (Some (sv_hmac_key sv)) secondary of
        Inl e \<Rightarrow> Inl e
      | Inr None \<Rightarrow> Inr sv
      | Inr (Some h) \<Rightarrow> Inr (sv\<lparr>sv_hasher := h\<rparr>))"

record request =
  rq_remote :: string
  rq_headers :: "(string \<times> string) list"
  rq_cookies :: "(string \<times> string) list"
  rq_path :: string
  rq_host :: string
  rq_url_host :: string

definition header :: "request \<Rightarrow> string \<Rightarrow> string" where
  "header rq k = (case map_of (rq_headers rq) k of None \<Rightarrow> [] | Some v \<Rightarrow> v)"

definition cookie :: "request \<Rightarrow> string \<Rightarrow> string option" where
  "cookie rq k = map_of (rq_cookies rq) k"

definition session_cookie_name :: string where "session_cookie_name = ''sta_session''"
definition csrf_cookie_name :: string where "csrf_cookie_name = ''sta_csrf''"

datatype token_kind = TokenCookie | TokenBearer

record request_session =
  rs_session :: session
  rs_kind :: token_kind
  rs_token :: string

definition uses_cookie :: "request_session \<Rightarrow> bool" where
  "uses_cookie s \<longleftrightarrow> rs_kind s = TokenCookie"

section \<open>Validation\<close>

definition username_rune :: "unicode \<Rightarrow> nat \<Rightarrow> bool" where
  "username_rune u r \<longleftrightarrow> is_letter u r \<or> is_digit u r \<or> r \<in> {46, 95, 45}"

definition normalize_username :: "unicode \<Rightarrow> string \<Rightarrow> auth_error + string" where
  "normalize_username u raw =
     (let v = to_lower u (trim_space raw) in
      if v = [] \<or> rune_count v < 3 \<or> 64 < rune_count v then Inl ErrInvalidInput
      else if list_ex (\<lambda>(r, _). \<not> username_rune u r) (runes v) then Inl ErrInvalidInput
      else Inr v)"

definition normalize_and_validate_email :: "env \<Rightarrow> string \<Rightarrow> auth_error + string" where
  "normalize_and_validate_email en raw =
     (let v = normalize_email (e_unicode en) raw in
      if v = [] \<or> 320 < length v \<or> \<not> valid_utf8 v then Inl ErrInvalidInput
      else (case e_parse_address en v of
              None \<Rightarrow> Inl ErrInvalidInput
            | Some a \<Rightarrow> if a \<noteq> v \<or> \<not> contains_str a ''@'' then Inl ErrInvalidInput else Inr v))"

definition validate_password :: "string \<Rightarrow> auth_error + unit" where
  "validate_password p =
     (let n = rune_count p in
      if \<not> valid_utf8 p \<or> n < 8 \<or> 128 < n then Inl ErrInvalidInput else Inr ())"

definition is_school_email :: "string \<Rightarrow> bool" where
  "is_school_email v =
     (case last_index_byte v (CHR ''@'') of
        None \<Rightarrow> False
      | Some at \<Rightarrow>
          if at < 1 \<or> at = length v - 1 then False
          else let domain = trim_suffix (drop (Suc at) v) ''.''
               in domain = ''edu.tw'' \<or> has_suffix domain ''.edu.tw'')"

definition is_valid_return_to :: "string \<Rightarrow> bool" where
  "is_valid_return_to v \<longleftrightarrow> has_prefix v ''/'' \<and> \<not> has_prefix v ''//'' \<and> length v \<le> 2048"

definition bearer_from_header :: "string \<Rightarrow> string" where
  "bearer_from_header raw =
     (case str_fields raw of [scheme, token] \<Rightarrow> if equal_fold scheme ''bearer'' then token else [] | _ \<Rightarrow> [])"

definition client_ip :: "env \<Rightarrow> request option \<Rightarrow> string" where
  "client_ip en rqo =
     (case rqo of
        None \<Rightarrow> ''unknown''
      | Some rq \<Rightarrow>
          let fallback = (if rq_remote rq \<noteq> [] then rq_remote rq else ''unknown'') in
          (case split_host_port (trim_space (rq_remote rq)) of
             None \<Rightarrow> fallback
           | Some (host, _) \<Rightarrow>
               (case (e_parse_ip en host, e_parse_ip en (trim_space (header rq ''X-Sta-Client-Ip''))) of
                  (Some peer, Some forwarded) \<Rightarrow>
                    if ip_internal peer then ip_text forwarded
                    else if host \<noteq> [] then host else fallback
                | _ \<Rightarrow> if host \<noteq> [] then host else fallback)))"

definition max_age :: "time \<Rightarrow> time \<Rightarrow> int" where
  "max_age expires t = (let s = go_div (expires - t) second in if s < 1 then 1 else s)"

section \<open>Rate limits\<close>

definition distributed_allow ::
  "service \<Rightarrow> string \<Rightarrow> string \<Rightarrow> int \<Rightarrow> duration \<Rightarrow> (world, limiter_error, bool) op" where
  "distributed_allow sv ns key l win w =
     (let broken = (case faults w of [] \<Rightarrow> False | f # _ \<Rightarrow> f); w1 = w\<lparr>faults := tl (faults w)\<rparr> in
      case sv_distributed sv of
        NoDistributed \<Rightarrow> (Inr True, w)
      | PgDistributed \<Rightarrow>
          (let (r, rows) = pg_allow True broken (buckets w) ns key l win (now w)
           in (r, w1\<lparr>buckets := rows\<rparr>))
      | RedisDistributed \<Rightarrow>
          (let (r, st) = redis_allow True broken (redis_db w) (redis_now w) ns key l win
           in (r, w1\<lparr>redis_db := st\<rparr>)))"

definition rate_allowed ::
  "service \<Rightarrow> (world \<Rightarrow> limiter option) \<Rightarrow> ((limiter option \<Rightarrow> limiter option) \<Rightarrow> world \<Rightarrow> world)
    \<Rightarrow> string \<Rightarrow> string \<Rightarrow> int \<Rightarrow> duration \<Rightarrow> (world, auth_error, bool) op" where
  "rate_allowed sv get upd ns key l win w =
     (let (ok, lim') = allow_hit (get w) key (now w); w1 = upd (\<lambda>_. lim') w in
      if \<not> ok then (Inr False, w1)
      else map_errM (\<lambda>_. ErrRateLimitUnavailable) (distributed_allow sv ns key l win) w1)"

definition login_allowed :: "service \<Rightarrow> request option \<Rightarrow> (world, auth_error, bool) op" where
  "login_allowed sv rq = rate_allowed sv login_limiter login_limiter_update ''auth-login''
     (client_ip (sv_env sv) rq) 120 minute"

definition register_allowed :: "service \<Rightarrow> request option \<Rightarrow> (world, auth_error, bool) op" where
  "register_allowed sv rq = rate_allowed sv register_limiter register_limiter_update ''auth-register''
     (client_ip (sv_env sv) rq) 120 minute"

section \<open>Cookies\<close>

datatype same_site = SameSiteDefault | SameSiteLax | SameSiteNone

record set_cookie =
  ck_name :: string
  ck_value :: string
  ck_domain :: string
  ck_max_age :: int
  ck_expires :: "time option"
  ck_http_only :: bool
  ck_secure :: bool
  ck_same_site :: same_site

record session_result =
  sr_account :: account
  sr_token :: string
  sr_csrf :: string
  sr_expires :: time

definition clear_legacy_cookie :: "string \<Rightarrow> string \<Rightarrow> bool \<Rightarrow> set_cookie list" where
  "clear_legacy_cookie name domain secure =
     (if \<not> secure then []
      else [\<lparr>ck_name = name, ck_value = [], ck_domain = domain, ck_max_age = -1, ck_expires = None,
             ck_http_only = (name = session_cookie_name), ck_secure = secure,
             ck_same_site = SameSiteNone\<rparr>])"

definition session_cookies :: "service \<Rightarrow> session_result \<Rightarrow> string \<Rightarrow> time \<Rightarrow> set_cookie list" where
  "session_cookies sv r domain t =
     clear_legacy_cookie session_cookie_name domain (sv_secure sv)
     @ clear_legacy_cookie csrf_cookie_name domain (sv_secure sv)
     @ [\<lparr>ck_name = session_cookie_name, ck_value = sr_token r, ck_domain = domain,
         ck_max_age = max_age (sr_expires r) t, ck_expires = Some (sr_expires r),
         ck_http_only = True, ck_secure = sv_secure sv, ck_same_site = SameSiteLax\<rparr>,
        \<lparr>ck_name = csrf_cookie_name, ck_value = sr_csrf r, ck_domain = domain,
         ck_max_age = max_age (sr_expires r) t, ck_expires = Some (sr_expires r),
         ck_http_only = False, ck_secure = sv_secure sv, ck_same_site = SameSiteLax\<rparr>]"

definition cleared_cookies :: "service \<Rightarrow> string \<Rightarrow> set_cookie list" where
  "cleared_cookies sv domain =
     concat (map (\<lambda>name.
       \<lparr>ck_name = name, ck_value = [], ck_domain = domain, ck_max_age = -1, ck_expires = None,
        ck_http_only = (name = session_cookie_name), ck_secure = sv_secure sv,
        ck_same_site = SameSiteDefault\<rparr> # clear_legacy_cookie name domain (sv_secure sv))
       [session_cookie_name, csrf_cookie_name])"

definition cookie_domain_for_request :: "service \<Rightarrow> request option \<Rightarrow> string" where
  "cookie_domain_for_request sv rqo =
     (case rqo of
        None \<Rightarrow> sv_domain sv
      | Some rq \<Rightarrow>
          if sv_domain sv = [] then sv_domain sv
          else
            let low = (\<lambda>s. to_lower (sv_unicode sv) (trim_space s));
                h0 = low (rq_host rq);
                h1 = (if h0 = [] then low (rq_url_host rq) else h0);
                host = (case split_host_port h1 of Some (h, _) \<Rightarrow> h | None \<Rightarrow> trim_chars h1 ''[]'');
                domain = to_lower (sv_unicode sv) (trim_prefix (trim_space (sv_domain sv)) ''.'')
            in if host = domain \<or> has_suffix host (''.'' @ domain) then sv_domain sv else [])"

section \<open>Mails\<close>

definition enqueue_for_account ::
  "service \<Rightarrow> uuid \<Rightarrow> string \<Rightarrow> string \<Rightarrow> string \<Rightarrow> string \<Rightarrow> string \<Rightarrow> (world, auth_error, unit) op" where
  "enqueue_for_account sv acc dedup subject text html kind =
     map_errM ErrNotifier (enqueue_email_for_account (sv_env sv) (sv_notify_cipher sv) acc dedup subject text html kind)"

definition enqueue_to ::
  "service \<Rightarrow> uuid \<Rightarrow> string \<Rightarrow> string \<Rightarrow> string \<Rightarrow> string \<Rightarrow> string \<Rightarrow> (world, auth_error, unit) op" where
  "enqueue_to sv acc recipient dedup subject text html =
     map_errM ErrNotifier (enqueue_email_to (sv_env sv) (sv_notify_cipher sv) acc recipient dedup subject text html)"

definition logo_url :: "service \<Rightarrow> string" where
  "logo_url sv = (if sv_base_url sv \<noteq> [] then sv_base_url sv @ ''/logo.svg'' else [])"

definition reset_link :: "service \<Rightarrow> string \<Rightarrow> string" where
  "reset_link sv token = sv_base_url sv @ ''/reset-password?token='' @ query_escape token"

definition dedup_key :: "service \<Rightarrow> string \<Rightarrow> uuid \<Rightarrow> string \<Rightarrow> string" where
  "dedup_key sv prefix acc token =
     prefix @ '':'' @ e_uuid (sv_env sv) acc @ '':'' @ hex_encode (hash_opaque_token (sv_crypto sv) token)"

definition seal_field :: "service \<Rightarrow> string \<Rightarrow> (world, auth_error, string) op" where
  "seal_field sv p = with_draws ErrCrypto (fc_seal (sv_crypto sv) (sv_cipher sv) p)"

definition opaque_token :: "service \<Rightarrow> nat \<Rightarrow> (world, auth_error, string) op" where
  "opaque_token sv n = with_draws ErrCrypto (new_opaque_token (sv_crypto sv) n)"

definition hashed_password :: "service \<Rightarrow> string \<Rightarrow> (world, auth_error, string) op" where
  "hashed_password sv p = with_draws ErrCrypto (hash_password (sv_crypto sv) p)"

end
