(* ===== verification/AdminMfa.thy ===== *)
theory AdminMfa imports ServiceBase begin

text \<open>
  Administrator MFA (the service half of internal/auth/mfa.go): enrolment, the per-request check
  with its grant window, and the failure limiter against guessing. The record
  \<^verbatim>\<open>AdminMFARecord\<close> is the row of \<^verbatim>\<open>admin_mfa_methods\<close>.
\<close>

section \<open>Roles\<close>

definition can_manage_admissions :: "uuid \<Rightarrow> (world, auth_error, bool) op" where
  "can_manage_admissions acc =
     bindM (is_admin acc) (\<lambda>a. if a then ret True else is_admissions_moderator acc)"

definition require_admin_account :: "uuid \<Rightarrow> (world, auth_error, unit) op" where
  "require_admin_account acc =
     bindM (can_manage_admissions acc) (\<lambda>ok. if ok then ret () else fail ErrAdminRequired)"

section \<open>Grant window and code check\<close>

definition configure_admin_mfa :: "bool \<Rightarrow> service \<Rightarrow> service" where
  "configure_admin_mfa required sv = sv\<lparr>sv_require_mfa := required\<rparr>"

definition configure_admin_mfa_grant :: "duration \<Rightarrow> service \<Rightarrow> service" where
  "configure_admin_mfa_grant ttl sv = (if 0 < ttl then sv\<lparr>sv_grant_ttl := ttl\<rparr> else sv)"

definition admin_mfa_grant_valid :: "service \<Rightarrow> mfa_row \<Rightarrow> time \<Rightarrow> bool" where
  "admin_mfa_grant_valid sv r t \<longleftrightarrow> 0 < sv_grant_ttl sv
     \<and> (case m_verified r of None \<Rightarrow> False | Some v \<Rightarrow> t - v < sv_grant_ttl sv)"

definition mfa_failure_limit :: int where "mfa_failure_limit = 8"
definition mfa_failure_window :: duration where "mfa_failure_window = 15 * minute"

text \<open>\<^verbatim>\<open>emailCipher.Open\<close> and \<^verbatim>\<open>decodeTOTPSecret\<close>; both failures are \<^verbatim>\<open>ErrAdminMFAInvalid\<close>.\<close>

definition open_mfa_secret :: "service \<Rightarrow> mfa_row \<Rightarrow> string option" where
  "open_mfa_secret sv r =
     (case fc_open (sv_crypto sv) (sv_cipher sv) (m_secret r) of
        Inl _ \<Rightarrow> None | Inr t \<Rightarrow> decode_totp_secret (sv_unicode sv) t)"

definition verify_admin_totp ::
  "service \<Rightarrow> uuid \<Rightarrow> string \<Rightarrow> string \<Rightarrow> (world, auth_error, unit) op" where
  "verify_admin_totp sv acc secret code w =
     (let key = e_uuid (sv_env sv) acc in
      if \<not> allowed (peek (mfa_limiter w) key (now w)) then (Inl ErrAdminMFARateLimited, w)
      else if verify_totp (sv_crypto sv) secret code (now w) \<noteq> None then (Inr (), w)
      else
        let w1 = w\<lparr>mfa_limiter := snd (take_hit (mfa_limiter w) key (now w))\<rparr> in
        (case distributed_allow sv ''auth-admin-mfa-fail'' key mfa_failure_limit mfa_failure_window w1 of
           (Inr False, w2) \<Rightarrow> (Inl ErrAdminMFARateLimited, w2)
         | (_, w2) \<Rightarrow> (Inl ErrAdminMFAInvalid, w2)))"

definition check_admin_code ::
  "service \<Rightarrow> uuid \<Rightarrow> mfa_row \<Rightarrow> string \<Rightarrow> (world, auth_error, unit) op" where
  "check_admin_code sv acc r code =
     (case open_mfa_secret sv r of
        None \<Rightarrow> fail ErrAdminMFAInvalid
      | Some secret \<Rightarrow> verify_admin_totp sv acc secret code)"

section \<open>Operations\<close>

definition mfa_not_found :: "auth_error \<Rightarrow> auth_error" where
  "mfa_not_found e = (if e = ErrNotFound then ErrAdminMFARequired else e)"

definition verify_admin_mfa :: "service \<Rightarrow> uuid \<Rightarrow> string \<Rightarrow> (world, auth_error, time) op" where
  "verify_admin_mfa sv acc code =
     bindM (require_admin_account acc) (\<lambda>_.
     if sv_cipher sv = None then fail ErrNotConfigured else
     bindM (map_errM mfa_not_found (get_admin_mfa acc)) (\<lambda>r.
     if m_enabled r = None then fail ErrAdminMFARequired else
     bindM (check_admin_code sv acc r code) (\<lambda>_.
     bindM (readM now) (\<lambda>t.
     bindM (touch_admin_mfa_verified acc t) (\<lambda>_.
     ret (if sv_grant_ttl sv \<le> 0 then t else t + sv_grant_ttl sv))))))"

definition admin_mfa_status :: "uuid \<Rightarrow> (world, auth_error, bool) op" where
  "admin_mfa_status acc =
     bindM (require_admin_account acc) (\<lambda>_.
     catchM (get_admin_mfa acc)
       (\<lambda>e. if e = ErrNotFound then ret False else fail e)
       (\<lambda>r. ret (m_enabled r \<noteq> None)))"

record mfa_setup =
  ms_secret :: string
  ms_url :: string
  ms_expires :: time

definition begin_admin_mfa :: "service \<Rightarrow> uuid \<Rightarrow> string \<Rightarrow> (world, auth_error, mfa_setup) op" where
  "begin_admin_mfa sv acc username =
     bindM (require_admin_account acc) (\<lambda>_.
     if sv_cipher sv = None then fail ErrNotConfigured else
     bindM (catchM (get_admin_mfa acc)
              (\<lambda>e. if e = ErrNotFound then ret () else fail e)
              (\<lambda>r. if m_enabled r \<noteq> None then fail ErrAdminMFAConflict else ret ())) (\<lambda>_.
     bindM (with_draws ErrCrypto (new_totp_secret (sv_crypto sv))) (\<lambda>(_, encoded).
     bindM (seal_field sv encoded) (\<lambda>ct.
     bindM (readM now) (\<lambda>t.
     bindM (save_admin_mfa_secret acc ct (t + mfa_secret_max_age)) (\<lambda>_.
     ret \<lparr>ms_secret = encoded, ms_url = build_otpauth_url username encoded,
          ms_expires = t + mfa_secret_max_age\<rparr>))))))"

definition enable_admin_mfa :: "service \<Rightarrow> uuid \<Rightarrow> string \<Rightarrow> (world, auth_error, unit) op" where
  "enable_admin_mfa sv acc code =
     bindM (require_admin_account acc) (\<lambda>_.
     if sv_cipher sv = None then fail ErrNotConfigured else
     bindM (map_errM mfa_not_found (get_admin_mfa acc)) (\<lambda>r.
     if m_enabled r \<noteq> None then fail ErrAdminMFAConflict else
     bindM (readM now) (\<lambda>t.
     if (case m_pending r of None \<Rightarrow> True | Some p \<Rightarrow> p \<le> t) then fail ErrAdminMFARequired else
     bindM (check_admin_code sv acc r code) (\<lambda>_. store_enable_admin_mfa acc t))))"

definition disable_admin_mfa :: "service \<Rightarrow> uuid \<Rightarrow> string \<Rightarrow> (world, auth_error, unit) op" where
  "disable_admin_mfa sv acc code =
     bindM (require_admin_account acc) (\<lambda>_.
     if sv_cipher sv = None then fail ErrNotConfigured else
     bindM (map_errM mfa_not_found (get_admin_mfa acc)) (\<lambda>r.
     if m_enabled r = None then fail ErrAdminMFARequired else
     bindM (check_admin_code sv acc r code) (\<lambda>_. store_disable_admin_mfa acc)))"

definition effective_require_admin_mfa :: "service \<Rightarrow> (world, auth_error, bool) op" where
  "effective_require_admin_mfa sv =
     catchM get_require_admin_mfa (\<lambda>_. ret (sv_require_mfa sv))
       (\<lambda>(v, is_set). ret (if is_set then v else sv_require_mfa sv))"

text \<open>An MFA record that is missing or not enabled: let through unless MFA is required.\<close>

definition unless_required :: "bool \<Rightarrow> (world, auth_error, unit) op" where
  "unless_required req = (if req then fail ErrAdminMFARequired else ret ())"

definition require_code ::
  "service \<Rightarrow> uuid \<Rightarrow> mfa_row \<Rightarrow> string \<Rightarrow> (world, auth_error, unit) op" where
  "require_code sv acc r code =
     bindM (readM now) (\<lambda>t.
     if is_blank code then
       (if admin_mfa_grant_valid sv r t then ret () else fail ErrAdminMFARequired)
     else bindM (check_admin_code sv acc r code) (\<lambda>_.
       if 0 < sv_grant_ttl sv then ignoreM (touch_admin_mfa_verified acc t) (ret ()) else ret ()))"

definition require_admin_mfa :: "service \<Rightarrow> uuid \<Rightarrow> string \<Rightarrow> (world, auth_error, unit) op" where
  "require_admin_mfa sv acc code =
     bindM (catchM (is_service_account acc) (\<lambda>_. ret False) ret) (\<lambda>service.
     if service then ret () else
     bindM (effective_require_admin_mfa sv) (\<lambda>req.
     if sv_cipher sv = None then (if req then fail ErrNotConfigured else ret ()) else
     catchM (get_admin_mfa acc)
       (\<lambda>e. if e = ErrNotFound then unless_required req else fail e)
       (\<lambda>r. if m_enabled r = None then unless_required req else require_code sv acc r code)))"

definition has_valid_admin_mfa_grant :: "service \<Rightarrow> uuid \<Rightarrow> (world, auth_error, bool) op" where
  "has_valid_admin_mfa_grant sv acc =
     bindM (catchM (is_service_account acc) (\<lambda>_. ret False) ret) (\<lambda>service.
     if service then ret True else
     bindM (effective_require_admin_mfa sv) (\<lambda>req.
     if \<not> req then ret True else
     if sv_cipher sv = None then ret False else
     catchM (get_admin_mfa acc)
       (\<lambda>e. if e = ErrNotFound then ret False else fail e)
       (\<lambda>r. if m_enabled r = None then ret False
            else bindM (readM now) (\<lambda>t. ret (admin_mfa_grant_valid sv r t)))))"

end
