(* ===== verification/AuthService.thy ===== *)
theory AuthService imports AdminMfa begin

text \<open>
  The operations of the authentication service (internal/auth/service.go and admin_contact.go):
  registration, login and sessions, service tokens, e-mail verification, password reset and
  change, OAuth, and the administrator's account operations. Each definition follows one
  method; the guards come in the order of its early returns.
\<close>

section \<open>Construction\<close>

text \<open>\<^verbatim>\<open>NewService\<close>: the service and its limiters, which are part of the state.\<close>

definition new_service ::
  "service \<Rightarrow> field_cipher option \<Rightarrow> string \<Rightarrow> duration \<Rightarrow> bool \<Rightarrow> world \<Rightarrow> (string + service) \<times> world" where
  "new_service base cipher key ttl secure w =
     (if ttl \<le> 0 then (Inl ''session TTL must be positive'', w)
      else if length key \<noteq> 32 then (Inl ''lookup HMAC key must be 32 bytes'', w)
      else (case new_lookup_hasher (Some key) [] of
              Inr (Some h) \<Rightarrow>
                (Inr (base\<lparr>sv_cipher := cipher, sv_hmac_key := key, sv_hasher := h, sv_ttl := ttl,
                   sv_secure := secure, sv_domain := [], sv_distributed := NoDistributed,
                   sv_notifier := False, sv_base_url := [], sv_require_mfa := False,
                   sv_grant_ttl := 0, sv_providers := []\<rparr>),
                 w\<lparr>login_limiter := Some (new_fixed_window_limiter 120 minute 10000),
                   login_account_limiter := Some (new_fixed_window_limiter 10 minute 10000),
                   register_limiter := Some (new_fixed_window_limiter 120 minute 10000),
                   register_email_limiter := Some (new_fixed_window_limiter 3 hour 10000),
                   email_limiter := Some (new_fixed_window_limiter 3 (10 * minute) 10000),
                   mfa_limiter := Some (new_fixed_window_limiter mfa_failure_limit mfa_failure_window 10000)\<rparr>)
            | _ \<Rightarrow> (Inl ''lookup hasher'', w)))"

definition configure_distributed_limiter :: "distributed_limiter \<Rightarrow> service \<Rightarrow> service" where
  "configure_distributed_limiter l sv = sv\<lparr>sv_distributed := l\<rparr>"

section \<open>E-mail verification\<close>

definition token_acceptable :: "string \<Rightarrow> bool" where
  "token_acceptable t \<longleftrightarrow> t \<noteq> [] \<and> length t \<le> 512"

definition issue_email_verification :: "service \<Rightarrow> uuid \<Rightarrow> (world, auth_error, time) op" where
  "issue_email_verification sv acc =
     (if \<not> sv_notifier sv then fail ErrNotConfigured
      else if acc = 0 then fail ErrRateLimited
      else
        bindM (rate_allowed sv email_limiter email_limiter_update ''auth-email-verification''
                 (e_uuid (sv_env sv) acc) 3 (10 * minute)) (\<lambda>ok.
        if \<not> ok then fail ErrRateLimited else
        bindM (opaque_token sv 32) (\<lambda>token.
        bindM (readM now) (\<lambda>t.
        bindM (create_email_verification_challenge acc (hash_opaque_token (sv_crypto sv) token)
                 (t + 30 * minute)) (\<lambda>_.
        let link = sv_base_url sv @ ''/verify-email?token='' @ query_escape token in
        bindM (enqueue_for_account sv acc (dedup_key sv ''email-verification'' acc token)
                 (e_text (sv_env sv) VerifySubject) (e_text (sv_env sv) VerifyText @ link)
                 (e_html (sv_env sv) VerifyButton [] link) ''email_verification'') (\<lambda>_.
        ret (t + 30 * minute)))))))"

definition confirm_email_verification ::
  "service \<Rightarrow> uuid \<Rightarrow> string \<Rightarrow> (world, auth_error, unit) op" where
  "confirm_email_verification sv acc token0 =
     (let token = trim_space token0 in
      if \<not> token_acceptable token then fail ErrInvalidInput
      else bindM (readM now) (\<lambda>t. consume_email_verification_challenge acc
             (hash_opaque_token (sv_crypto sv) token) t))"

definition confirm_email_verification_token :: "service \<Rightarrow> string \<Rightarrow> (world, auth_error, unit) op" where
  "confirm_email_verification_token sv token0 =
     (let token = trim_space token0 in
      if \<not> token_acceptable token then fail ErrInvalidInput
      else bindM (readM now) (\<lambda>t. consume_email_verification_token
             (hash_opaque_token (sv_crypto sv) token) t))"

section \<open>Password reset and change\<close>

definition send_password_reset_email :: "service \<Rightarrow> uuid \<Rightarrow> (world, auth_error, unit) op" where
  "send_password_reset_email sv acc =
     bindM (opaque_token sv 32) (\<lambda>token.
     bindM (readM now) (\<lambda>t.
     bindM (create_password_reset_challenge acc (hash_opaque_token (sv_crypto sv) token)
              (t + 30 * minute) False) (\<lambda>_.
     enqueue_for_account sv acc (dedup_key sv ''password-reset'' acc token)
       (e_text (sv_env sv) ResetSubject)
       (e_text (sv_env sv) ResetText @ reset_link sv token @ e_text (sv_env sv) ResetTail)
       (e_html (sv_env sv) ResetMail (logo_url sv) (reset_link sv token)) ''password_reset'')))"

definition request_password_reset :: "service \<Rightarrow> string \<Rightarrow> (world, auth_error, unit) op" where
  "request_password_reset sv raw =
     (if \<not> sv_notifier sv then fail ErrNotConfigured
      else (case normalize_and_validate_email (sv_env sv) raw of
              Inl _ \<Rightarrow> ret ()
            | Inr email \<Rightarrow>
                bindM (rate_allowed sv email_limiter email_limiter_update ''auth-password-reset''
                         (hex_encode (lh_hash (sv_crypto sv) (sv_hasher sv) email)) 3 (10 * minute)) (\<lambda>ok.
                if \<not> ok then ret () else
                catchM (lookup_account_id_by_email_hashes
                          (lh_candidates (sv_crypto sv) (sv_hasher sv) email))
                  (\<lambda>e. if e = ErrNotFound then ret () else fail e)
                  (send_password_reset_email sv))))"

definition request_password_reset_for_account :: "service \<Rightarrow> uuid \<Rightarrow> (world, auth_error, unit) op" where
  "request_password_reset_for_account sv acc =
     (if \<not> sv_notifier sv then fail ErrNotConfigured else send_password_reset_email sv acc)"

text \<open>
  The retry loop: one attempt after each wait, a last one without; \<open>cancelled a\<close> says whether the
  context ended during the wait after attempt \<open>a\<close>.
\<close>

fun enqueue_attempts ::
  "(nat \<Rightarrow> bool) \<Rightarrow> nat list \<Rightarrow> (world, auth_error, unit) op \<Rightarrow> (world, auth_error, unit) op" where
  "enqueue_attempts cancelled [] enq = enq"
| "enqueue_attempts cancelled (a # as) enq =
     catchM enq (\<lambda>_. if cancelled a then fail ErrCancelled else enqueue_attempts cancelled as enq) ret"

definition send_approved_account_activation ::
  "service \<Rightarrow> (nat \<Rightarrow> bool) \<Rightarrow> uuid \<Rightarrow> (world, auth_error, unit) op" where
  "send_approved_account_activation sv cancelled acc =
     (if \<not> sv_notifier sv then fail ErrNotConfigured
      else if acc = 0 then fail ErrInvalidInput
      else
        bindM (opaque_token sv 32) (\<lambda>token.
        bindM (readM now) (\<lambda>t.
        bindM (create_password_reset_challenge acc (hash_opaque_token (sv_crypto sv) token)
                 (t + 24 * hour) False) (\<lambda>_.
        enqueue_attempts cancelled [0, 1, 2]
          (map_errM ErrNotifier (enqueue_email_for_account_with_max_attempts (sv_env sv)
             (sv_notify_cipher sv) acc (dedup_key sv ''account-application-activation'' acc token)
             (e_text (sv_env sv) ActivationSubject)
             (e_text (sv_env sv) ApprovedText @ reset_link sv token)
             (e_html (sv_env sv) ApprovedMail (logo_url sv) (reset_link sv token))
             ''account_activation'' 100))))))"

definition confirm_password_reset :: "service \<Rightarrow> string \<Rightarrow> string \<Rightarrow> (world, auth_error, unit) op" where
  "confirm_password_reset sv token0 password =
     (let token = trim_space token0 in
      if \<not> token_acceptable token then fail ErrInvalidToken
      else
        bindM (liftM (validate_password password)) (\<lambda>_.
        bindM (hashed_password sv password) (\<lambda>hash.
        bindM (readM now) (\<lambda>t.
        map_errM (\<lambda>e. if e = ErrExpired \<or> e = ErrNotFound then ErrInvalidToken else e)
          (consume_password_reset_challenge (hash_opaque_token (sv_crypto sv) token) hash t)))))"

definition change_password ::
  "service \<Rightarrow> request_session \<Rightarrow> string \<Rightarrow> string \<Rightarrow> (world, auth_error, unit) op" where
  "change_password sv rs current password =
     (let a = ses_account (rs_session rs) in
      if acc_id a = 0 then fail ErrInvalidSession
      else
        bindM (map_errM (\<lambda>_. ErrInvalidCredentials) (find_account_by_username (acc_username a))) (\<lambda>(_, old).
        if verify_password (sv_crypto sv) current old \<noteq> Some True then fail ErrInvalidCredentials else
        bindM (liftM (validate_password password)) (\<lambda>_.
        bindM (hashed_password sv password) (\<lambda>hash.
        update_password_for_account (acc_id a) hash (ses_id (rs_session rs))))))"

section \<open>Session management\<close>

record session_list_item =
  li_summary :: session_summary
  li_current :: bool

definition list_sessions :: "request_session \<Rightarrow> (world, auth_error, session_list_item list) op" where
  "list_sessions rs =
     bindM (readM now) (\<lambda>t.
     bindM (list_active_sessions (acc_id (ses_account (rs_session rs))) t) (\<lambda>items.
     ret (map (\<lambda>s. \<lparr>li_summary = s, li_current = (ss_id s = ses_id (rs_session rs))\<rparr>) items)))"

definition revoke_own_session :: "request_session \<Rightarrow> uuid \<Rightarrow> (world, auth_error, unit) op" where
  "revoke_own_session rs i =
     (if i = ses_id (rs_session rs) then fail ErrInvalidInput
      else
        bindM (readM now) (\<lambda>t.
        bindM (revoke_account_session (acc_id (ses_account (rs_session rs))) i t) (\<lambda>revoked.
        if revoked then ret () else fail ErrNotFound)))"

definition revoke_other_sessions :: "request_session \<Rightarrow> (world, auth_error, nat) op" where
  "revoke_other_sessions rs =
     bindM (readM now) (\<lambda>t.
     revoke_other_account_sessions (acc_id (ses_account (rs_session rs))) (ses_id (rs_session rs)) t)"

definition logout :: "request_session \<Rightarrow> (world, auth_error, unit) op" where
  "logout rs = bindM (readM now) (\<lambda>t. revoke_session (ses_id (rs_session rs)) t)"

section \<open>Registration and account creation\<close>

record register_input =
  ri_username :: string
  ri_email :: string
  ri_school :: string

text \<open>\<^verbatim>\<open>NewOpaqueToken(24)\<close> and \<^verbatim>\<open>HashPassword\<close>: a password nobody knows.\<close>

definition random_password :: "service \<Rightarrow> (world, auth_error, string \<times> string) op" where
  "random_password sv =
     bindM (opaque_token sv 24) (\<lambda>p. bindM (hashed_password sv p) (\<lambda>h. ret (p, h)))"

definition register_challenge ::
  "service \<Rightarrow> account \<Rightarrow> string \<Rightarrow> (world, auth_error, account) op" where
  "register_challenge sv a school_ct =
     bindM (opaque_token sv 32) (\<lambda>token.
     bindM (readM now) (\<lambda>t.
     bindM (create_password_reset_challenge (acc_id a) (hash_opaque_token (sv_crypto sv) token)
              (t + 24 * hour) True) (\<lambda>_.
     bindM (enqueue_to sv (acc_id a) school_ct (dedup_key sv ''register-school-email'' (acc_id a) token)
              (e_text (sv_env sv) ActivationSubject)
              (e_text (sv_env sv) ActivationText @ reset_link sv token)
              (e_html (sv_env sv) ActivationMail (logo_url sv) (reset_link sv token))) (\<lambda>_.
     ret a))))"

definition register :: "service \<Rightarrow> register_input \<Rightarrow> request option \<Rightarrow> (world, auth_error, account) op" where
  "register sv inp rq =
     (if \<not> ready sv then fail ErrNotConfigured
      else
        bindM (register_allowed sv rq) (\<lambda>ok.
        if \<not> ok then fail ErrRateLimited
        else if \<not> sv_notifier sv then fail ErrNotConfigured
        else
          bindM (liftM (normalize_username (sv_unicode sv) (ri_username inp))) (\<lambda>username.
          bindM (liftM (normalize_and_validate_email (sv_env sv) (ri_email inp))) (\<lambda>contact.
          bindM (liftM (case normalize_and_validate_email (sv_env sv) (ri_school inp) of
                          Inl _ \<Rightarrow> Inl ErrInvalidInput
                        | Inr s \<Rightarrow> if is_school_email s then Inr s else Inl ErrInvalidInput)) (\<lambda>school.
          bindM (rate_allowed sv register_email_limiter register_email_limiter_update
                   ''auth-register-school-email''
                   (hex_encode (lh_hash (sv_crypto sv) (sv_hasher sv) school)) 3 hour) (\<lambda>ok2.
          if \<not> ok2 then fail ErrRateLimited else
          bindM (seal_field sv school) (\<lambda>school_ct.
          bindM (random_password sv) (\<lambda>(_, hash).
          bindM (seal_field sv contact) (\<lambda>email_ct.
          bindM (create_pending_account username email_ct (lh_hash (sv_crypto sv) (sv_hasher sv) contact)
                   school_ct (lh_hash (sv_crypto sv) (sv_hasher sv) school) hash) (\<lambda>a.
          register_challenge sv a school_ct))))))))))"

definition create_approved_account ::
  "service \<Rightarrow> string \<Rightarrow> string \<Rightarrow> (world, auth_error, account) op" where
  "create_approved_account sv raw_username raw_email =
     (if \<not> ready sv then fail ErrNotConfigured
      else
        bindM (liftM (normalize_username (sv_unicode sv) raw_username)) (\<lambda>username.
        bindM (liftM (normalize_and_validate_email (sv_env sv) raw_email)) (\<lambda>email.
        bindM (random_password sv) (\<lambda>(_, hash).
        bindM (seal_field sv email) (\<lambda>ct.
        create_account username ct (lh_hash (sv_crypto sv) (sv_hasher sv) email) hash)))))"

definition create_bot_account ::
  "service \<Rightarrow> string \<Rightarrow> string \<Rightarrow> (world, auth_error, account \<times> string) op" where
  "create_bot_account sv raw_username label =
     (if \<not> ready sv then fail ErrNotConfigured
      else
        bindM (liftM (normalize_username (sv_unicode sv) raw_username)) (\<lambda>username.
        bindM (random_password sv) (\<lambda>(password, hash).
        bindM (seal_field sv []) (\<lambda>ct.
        bindM (create_account username ct (lh_hash (sv_crypto sv) (sv_hasher sv)
                 (''bot:'' @ username @ '':'' @ password)) hash) (\<lambda>a.
        bindM (grant_role (acc_id a) ''service'') (\<lambda>_.
        bindM (opaque_token sv 32) (\<lambda>token.
        bindM (create_service_api_token (acc_id a) (hash_opaque_token (sv_crypto sv) token) label) (\<lambda>_.
        ret (a, token)))))))))"

definition create_account_with_password ::
  "service \<Rightarrow> string \<Rightarrow> string \<Rightarrow> (world, auth_error, account) op" where
  "create_account_with_password sv raw_username raw_password =
     (if \<not> ready sv then fail ErrNotConfigured
      else
        bindM (liftM (normalize_username (sv_unicode sv) raw_username)) (\<lambda>username.
        bindM (liftM (validate_password raw_password)) (\<lambda>_.
        bindM (hashed_password sv raw_password) (\<lambda>hash.
        bindM (opaque_token sv 16) (\<lambda>nonce.
        bindM (seal_field sv []) (\<lambda>ct.
        create_account username ct (lh_hash (sv_crypto sv) (sv_hasher sv)
          (''manual:'' @ username @ '':'' @ nonce)) hash))))))"

section \<open>Login and authentication\<close>

definition optional_hash :: "crypto \<Rightarrow> string \<Rightarrow> string \<Rightarrow> string option" where
  "optional_hash cr key v = (case lookup_hash cr key v of Inl _ \<Rightarrow> None | Inr h \<Rightarrow> Some h)"

definition start_session ::
  "service \<Rightarrow> account \<Rightarrow> request option \<Rightarrow> (world, auth_error, session_result) op" where
  "start_session sv a rqo =
     bindM (opaque_token sv 32) (\<lambda>token.
     bindM (opaque_token sv 32) (\<lambda>csrf.
     bindM (readM now) (\<lambda>t.
     let ip = (case rqo of None \<Rightarrow> None
               | Some _ \<Rightarrow> optional_hash (sv_crypto sv) (sv_hmac_key sv) (client_ip (sv_env sv) rqo));
         agent = (case rqo of None \<Rightarrow> None
               | Some rq \<Rightarrow> optional_hash (sv_crypto sv) (sv_hmac_key sv) (header rq ''User-Agent''))
     in
     bindM (create_session (acc_id a) (hash_opaque_token (sv_crypto sv) token)
              (hash_opaque_token (sv_crypto sv) csrf) (t + sv_ttl sv) ip agent) (\<lambda>_.
     ret \<lparr>sr_account = a, sr_token = token, sr_csrf = csrf, sr_expires = t + sv_ttl sv\<rparr>))))"

definition login ::
  "service \<Rightarrow> string \<Rightarrow> string \<Rightarrow> request option \<Rightarrow> (world, auth_error, session_result) op" where
  "login sv raw_username password rq =
     (if \<not> ready sv then fail ErrNotConfigured
      else
        bindM (login_allowed sv rq) (\<lambda>ok.
        if \<not> ok then fail ErrRateLimited else
        bindM (map_errM (\<lambda>_. ErrInvalidCredentials)
                 (liftM (normalize_username (sv_unicode sv) raw_username))) (\<lambda>username.
        bindM (rate_allowed sv login_account_limiter login_account_limiter_update ''auth-login-account''
                 (hex_encode (lh_hash (sv_crypto sv) (sv_hasher sv) username)) 10 minute) (\<lambda>ok2.
        if \<not> ok2 then fail ErrRateLimited else
        bindM (map_errM (\<lambda>_. ErrInvalidCredentials) (find_account_by_username username)) (\<lambda>(a, hash).
        if verify_password (sv_crypto sv) password hash \<noteq> Some True \<or> acc_status a \<noteq> ''active''
        then fail ErrInvalidCredentials
        else start_session sv a rq)))))"

text \<open>A service token stands for a session with no id, no CSRF hash and no expiry.\<close>

definition authenticate_bot_api_key :: "service \<Rightarrow> string \<Rightarrow> (world, auth_error, request_session) op" where
  "authenticate_bot_api_key sv token =
     (if \<not> token_acceptable token then fail ErrInvalidSession
      else
        bindM (readM now) (\<lambda>t.
        bindM (map_errM (\<lambda>_. ErrInvalidSession)
                 (find_account_by_service_token (hash_opaque_token (sv_crypto sv) token) t)) (\<lambda>a.
        ret \<lparr>rs_session = \<lparr>ses_id = 0, ses_account = a, ses_csrf = [], ses_expires = zero_time\<rparr>,
             rs_kind = TokenBearer, rs_token = token\<rparr>)))"

text \<open>The credential of a request: a cookie or a bearer token, never both.\<close>

definition request_credential :: "request \<Rightarrow> (token_kind \<times> string) option" where
  "request_credential rq =
     (let bearer = bearer_from_header (header rq ''Authorization'') in
      case cookie rq session_cookie_name of
        Some c \<Rightarrow> if bearer \<noteq> [] then None else if token_acceptable c then Some (TokenCookie, c) else None
      | None \<Rightarrow> if token_acceptable bearer then Some (TokenBearer, bearer) else None)"

definition admin_path :: "request \<Rightarrow> bool" where
  "admin_path rq \<longleftrightarrow> has_prefix (rq_path rq) ''/api/v1/admin/''"

definition authenticate :: "service \<Rightarrow> request \<Rightarrow> (world, auth_error, request_session) op" where
  "authenticate sv rq =
     (if \<not> ready sv then fail ErrNotConfigured
      else (case request_credential rq of
              None \<Rightarrow> fail ErrInvalidSession
            | Some (kind, token) \<Rightarrow>
                bindM (readM now) (\<lambda>t.
                catchM (find_active_session (hash_opaque_token (sv_crypto sv) token) t)
                  (\<lambda>_. if kind = TokenBearer
                       then catchM (authenticate_bot_api_key sv token) (\<lambda>_. fail ErrInvalidSession) ret
                       else fail ErrInvalidSession)
                  (\<lambda>s. bindM (if admin_path rq
                             then require_admin_mfa sv (acc_id (ses_account s)) (header rq ''X-Mfa-Code'')
                             else ret ()) (\<lambda>_.
                        ignoreM (touch_session (ses_id s) t)
                          (ret \<lparr>rs_session = s, rs_kind = kind, rs_token = token\<rparr>))))))"

definition authorize_mutation :: "service \<Rightarrow> request \<Rightarrow> request_session \<Rightarrow> auth_error + unit" where
  "authorize_mutation sv rq rs =
     (if rs_kind rs = TokenBearer then Inr ()
      else
        let h = header rq ''X-Csrf-Token'' in
        case cookie rq csrf_cookie_name of
          None \<Rightarrow> Inl ErrCSRF
        | Some c \<Rightarrow>
            if h = [] \<or> c = [] then Inl ErrCSRF
            else if \<not> constant_time_string_equal h c then Inl ErrCSRF
            else if \<not> constant_time_string_equal (hash_opaque_token (sv_crypto sv) h) (ses_csrf (rs_session rs))
            then Inl ErrCSRF
            else Inr ())"

end
