(* ===== verification/OAuthFlow.thy ===== *)
theory OAuthFlow imports AuthService begin

text \<open>
  OAuth (internal/auth/service.go): provider configuration, the start of an authorization with
  its state and PKCE verifier, the callback, and the calendar grant; the administrator's account
  operations (admin_contact.go), the Turnstile check (turnstile.go) and the clean-up worker
  (pending_account_cleanup.go).
\<close>

section \<open>Providers\<close>

definition calendar_scope :: string where
  "calendar_scope = ''https://www.googleapis.com/auth/calendar.events''"

definition provider_key :: "service \<Rightarrow> string \<Rightarrow> string" where
  "provider_key sv raw = to_lower (sv_unicode sv) (trim_space raw)"

definition configure_oauth :: "service \<Rightarrow> string \<Rightarrow> oauth_provider \<Rightarrow> auth_error + service" where
  "configure_oauth sv raw p =
     (let provider = provider_key sv raw in
      if provider \<noteq> ''google'' \<and> provider \<noteq> ''discord'' then Inl ErrOAuthProvider
      else if op_client_id p = [] \<or> op_client_secret p = [] \<or> op_redirect p = [] then Inl ErrOAuthProvider
      else if op_auth_url p = [] \<or> op_token_url p = [] \<or> op_userinfo_url p = [] then Inl ErrOAuthProvider
      else Inr (sv\<lparr>sv_providers := AList.update provider p (sv_providers sv)\<rparr>))"

definition requests_calendar :: "oauth_provider \<Rightarrow> bool" where
  "requests_calendar p \<longleftrightarrow> list_ex (\<lambda>s. s = calendar_scope) (op_scopes p)"

section \<open>Start\<close>

definition oauth_params :: "oauth_provider \<Rightarrow> string \<Rightarrow> (string \<times> string) list" where
  "oauth_params p challenge =
     [(''code_challenge'', challenge), (''code_challenge_method'', ''S256'')]
     @ (if requests_calendar p then [(''access_type'', ''offline''), (''prompt'', ''consent'')]
        else [(''access_type'', ''online'')])"

definition oauth_start ::
  "service \<Rightarrow> string \<Rightarrow> uuid option \<Rightarrow> string \<Rightarrow> (world, auth_error, string) op" where
  "oauth_start sv raw acc return_to0 =
     (if \<not> ready sv then fail ErrNotConfigured
      else
        let provider = provider_key sv raw in
        case map_of (sv_providers sv) provider of
          None \<Rightarrow> fail ErrOAuthProvider
        | Some p \<Rightarrow>
            let return_to = (if is_valid_return_to return_to0 then return_to0 else []) in
            bindM (opaque_token sv 32) (\<lambda>state.
            bindM (opaque_token sv 32) (\<lambda>verifier.
            bindM (seal_field sv verifier) (\<lambda>verifier_ct.
            bindM (readM now) (\<lambda>t.
            bindM (create_oauth_state provider acc (hash_opaque_token (sv_crypto sv) state) verifier_ct
                     (op_redirect p) return_to (t + 10 * minute)) (\<lambda>_.
            ret (sv_auth_url sv p state (oauth_params p (raw_url_encode (c_sha256 (sv_crypto sv) verifier))))))))))"

section \<open>Callback\<close>

record oauth_result =
  or_account :: account
  or_session :: "session_result option"
  or_bound :: bool
  or_return_to :: string

definition fetch_oauth_subject ::
  "service \<Rightarrow> string \<Rightarrow> oauth_provider \<Rightarrow> oauth_token \<Rightarrow> auth_error + string" where
  "fetch_oauth_subject sv provider p tok =
     (case sv_userinfo sv (op_userinfo_url p) (ot_access tok) of
        None \<Rightarrow> Inl ErrOAuthSubject
      | Some (sub, ident) \<Rightarrow>
          let subject = (if provider = ''discord'' then trim_space ident else trim_space sub) in
          if subject = [] \<or> 512 < length subject then Inl ErrOAuthSubject else Inr subject)"

definition granted_scope :: "oauth_provider \<Rightarrow> oauth_token \<Rightarrow> string option" where
  "granted_scope p tok =
     (case ot_scope tok of
        None \<Rightarrow> Some (join_with '' '' (op_scopes p))
      | Some raw \<Rightarrow>
          if raw = [] then Some (join_with '' '' (op_scopes p))
          else if contains_str raw calendar_scope then Some raw else None)"

definition save_calendar_grant_if_present ::
  "service \<Rightarrow> uuid \<Rightarrow> string \<Rightarrow> oauth_token \<Rightarrow> (world, auth_error, unit) op" where
  "save_calendar_grant_if_present sv acc provider tok =
     (if ot_refresh tok = [] then ret ()
      else (case map_of (sv_providers sv) provider of
              None \<Rightarrow> ret ()
            | Some p \<Rightarrow>
                if \<not> requests_calendar p then ret ()
                else (case granted_scope p tok of
                        None \<Rightarrow> ret ()
                      | Some scope \<Rightarrow>
                          bindM (seal_field sv (ot_refresh tok)) (\<lambda>ct.
                          save_calendar_grant acc provider ct scope))))"

text \<open>The conflict of a binding that exists already is none when this account holds it.\<close>

definition bind_identity ::
  "uuid \<Rightarrow> string \<Rightarrow> string \<Rightarrow> (world, auth_error, unit) op" where
  "bind_identity acc provider subject_hash =
     catchM (create_oauth_binding acc provider subject_hash)
       (\<lambda>e. if e = ErrConflict
            then catchM (find_account_by_oauth_subject_hashes provider [subject_hash])
                   (\<lambda>_. fail ErrConflict)
                   (\<lambda>(holder, _). if acc_id holder = acc then ret () else fail ErrConflict)
            else fail e)
       ret"

definition callback_bind ::
  "service \<Rightarrow> uuid \<Rightarrow> string \<Rightarrow> oauth_state \<Rightarrow> oauth_token \<Rightarrow> string \<Rightarrow> (world, auth_error, oauth_result) op" where
  "callback_bind sv acc provider st tok subject =
     bindM (bind_identity acc provider (lh_hash (sv_crypto sv) (sv_hasher sv) subject)) (\<lambda>_.
     bindM (save_calendar_grant_if_present sv acc provider tok) (\<lambda>_.
     bindM (find_account_by_id acc) (\<lambda>a.
     ret \<lparr>or_account = a, or_session = None, or_bound = True, or_return_to = ost_return_to st\<rparr>)))"

definition callback_login ::
  "service \<Rightarrow> string \<Rightarrow> oauth_state \<Rightarrow> oauth_token \<Rightarrow> string \<Rightarrow> request option
    \<Rightarrow> (world, auth_error, oauth_result) op" where
  "callback_login sv provider st tok subject rq =
     (let candidates = lh_candidates (sv_crypto sv) (sv_hasher sv) subject in
      bindM (map_errM (\<lambda>_. ErrOAuthNotBound) (find_account_by_oauth_subject_hashes provider candidates))
        (\<lambda>(a, matched).
      let rest =
        bindM (save_calendar_grant_if_present sv (acc_id a) provider tok) (\<lambda>_.
        bindM (start_session sv a rq) (\<lambda>r.
        ret \<lparr>or_account = a, or_session = Some r, or_bound = False, or_return_to = ost_return_to st\<rparr>))
      in if matched \<noteq> hd candidates
         then ignoreM (rehash_oauth_subject provider matched (hd candidates)) rest else rest))"

definition oauth_callback ::
  "service \<Rightarrow> string \<Rightarrow> string \<Rightarrow> string \<Rightarrow> uuid option \<Rightarrow> request option \<Rightarrow> (world, auth_error, oauth_result) op" where
  "oauth_callback sv raw state_value code current rq =
     (let provider = provider_key sv raw in
      case map_of (sv_providers sv) provider of
        None \<Rightarrow> fail ErrOAuthState
      | Some p \<Rightarrow>
          if state_value = [] \<or> code = [] \<or> 512 < length state_value \<or> 4096 < length code
          then fail ErrOAuthState
          else
            bindM (readM now) (\<lambda>t.
            bindM (map_errM (\<lambda>_. ErrOAuthState)
                     (consume_oauth_state provider (hash_opaque_token (sv_crypto sv) state_value) t)) (\<lambda>st.
            if (case ost_account st of None \<Rightarrow> False | Some a \<Rightarrow> current \<noteq> Some a) then fail ErrInvalidSession
            else
              (case fc_open (sv_crypto sv) (sv_cipher sv) (ost_verifier st) of
                 Inl _ \<Rightarrow> fail ErrOAuthState
               | Inr verifier \<Rightarrow>
                   (case sv_exchange sv p code verifier of
                      None \<Rightarrow> fail ErrOAuthState
                    | Some tok \<Rightarrow>
                        bindM (liftM (fetch_oauth_subject sv provider p tok)) (\<lambda>subject.
                        case ost_account st of
                          Some acc \<Rightarrow> callback_bind sv acc provider st tok subject
                        | None \<Rightarrow> callback_login sv provider st tok subject rq))))))"

section \<open>The administrator's account operations\<close>

definition open_contact :: "service \<Rightarrow> string \<Rightarrow> auth_error + string" where
  "open_contact sv ct =
     (case fc_open (sv_crypto sv) (sv_cipher sv) ct of Inl e \<Rightarrow> Inl (ErrCrypto e) | Inr s \<Rightarrow> Inr s)"

definition admin_account_contact :: "service \<Rightarrow> uuid \<Rightarrow> (world, auth_error, string \<times> string) op" where
  "admin_account_contact sv acc =
     (if sv_cipher sv = None then fail ErrNotConfigured
      else
        bindM (get_account_contact acc) (\<lambda>(email_ct, school_ct, _).
        bindM (liftM (open_contact sv email_ct)) (\<lambda>email.
        bindM (liftM (case school_ct of None \<Rightarrow> Inr []
                      | Some ct \<Rightarrow> if ct = [] then Inr [] else open_contact sv ct)) (\<lambda>school.
        ret (email, school)))))"

definition admin_update_account_email :: "service \<Rightarrow> uuid \<Rightarrow> string \<Rightarrow> (world, auth_error, unit) op" where
  "admin_update_account_email sv acc raw =
     (if sv_cipher sv = None then fail ErrNotConfigured
      else
        bindM (liftM (normalize_and_validate_email (sv_env sv) raw)) (\<lambda>email.
        bindM (seal_field sv email) (\<lambda>ct.
        update_account_email acc ct (lh_hash (sv_crypto sv) (sv_hasher sv) email))))"

definition admin_update_account_school_email ::
  "service \<Rightarrow> uuid \<Rightarrow> string \<Rightarrow> (world, auth_error, unit) op" where
  "admin_update_account_school_email sv acc raw =
     (if sv_cipher sv = None then fail ErrNotConfigured
      else
        bindM (liftM (normalize_and_validate_email (sv_env sv) raw)) (\<lambda>email.
        if \<not> is_school_email email then fail ErrInvalidInput else
        bindM (seal_field sv email) (\<lambda>ct.
        update_account_school_email acc ct (lh_hash (sv_crypto sv) (sv_hasher sv) email))))"

definition admin_resend_activation :: "service \<Rightarrow> uuid \<Rightarrow> (world, auth_error, time) op" where
  "admin_resend_activation sv acc =
     (if \<not> sv_notifier sv \<or> sv_cipher sv = None then fail ErrNotConfigured
      else
        bindM (get_account_contact acc) (\<lambda>(_, school_ct, status).
        if status \<noteq> ''pending_verification'' then fail ErrInvalidInput
        else (case school_ct of
                None \<Rightarrow> fail ErrNoSchoolEmailOnFile
              | Some ct \<Rightarrow>
                  if ct = [] then fail ErrNoSchoolEmailOnFile else
                  bindM (opaque_token sv 32) (\<lambda>token.
                  bindM (readM now) (\<lambda>t.
                  bindM (create_password_reset_challenge acc (hash_opaque_token (sv_crypto sv) token)
                           (t + 24 * hour) True) (\<lambda>_.
                  bindM (enqueue_to sv acc ct (dedup_key sv ''admin-resend-activation'' acc token)
                           (e_text (sv_env sv) ActivationSubject)
                           (e_text (sv_env sv) ResendText @ reset_link sv token)
                           (e_html (sv_env sv) ActivationMail (logo_url sv) (reset_link sv token))) (\<lambda>_.
                  ret (t + 24 * hour))))))))"

section \<open>The clean-up worker\<close>

definition cleanup_interval :: "duration \<Rightarrow> duration" where
  "cleanup_interval poll = (if poll \<le> 0 then hour else poll)"

text \<open>The passes of \<^verbatim>\<open>Run\<close> at the ticks of its clock; a failed pass is logged and ignored.\<close>

fun cleanup_run :: "time list \<Rightarrow> (world, 'e, unit) op" where
  "cleanup_run [] = ret ()"
| "cleanup_run (t # ts) = ignoreM (purge_expired_pending_accounts t) (cleanup_run ts)"

section \<open>Turnstile\<close>

datatype turnstile_error = TurnstileInvalid | TurnstileUnavailable

record turnstile =
  tv_secret :: string
  tv_hostname :: string

fun turnstile_hosts :: "unicode \<Rightarrow> string list \<Rightarrow> string list \<Rightarrow> string list option" where
  "turnstile_hosts u [] acc = Some acc"
| "turnstile_hosts u (raw # rest) acc =
     (let h = to_lower u (trim_space raw) in
      if h = [] \<or> list_ex (\<lambda>c. c \<in> {CHR ''/'', CHR '':'', CHR '' ''}) h then None
      else turnstile_hosts u rest (if h \<in> set acc then acc else acc @ [h]))"

definition new_turnstile_verifier :: "unicode \<Rightarrow> string \<Rightarrow> string \<Rightarrow> auth_error + turnstile" where
  "new_turnstile_verifier u secret0 hostname =
     (let secret = trim_space secret0 in
      case turnstile_hosts u (split_on (CHR '','') hostname) [] of
        None \<Rightarrow> Inl ErrNotConfigured
      | Some hosts \<Rightarrow>
          if secret = [] \<or> hosts = [] then Inl ErrNotConfigured
          else Inr \<lparr>tv_secret = secret, tv_hostname = join_with '','' hosts\<rparr>)"

definition turnstile_hostname_allowed :: "unicode \<Rightarrow> (string \<Rightarrow> string \<Rightarrow> bool) \<Rightarrow> string \<Rightarrow> string \<Rightarrow> bool" where
  "turnstile_hostname_allowed u eqf listed actual0 =
     (let actual = to_lower u (trim_space actual0) in
      if actual = [] then False
      else list_ex (\<lambda>h. eqf (trim_space h) actual) (split_on (CHR '','') listed))"

text \<open>
  \<open>verify\<close> is the siteverify call: for secret, token and remote address the status code and,
  when the body decodes, success, action and host name; \<^const>\<open>None\<close> when it fails. \<open>eqf\<close> is
  \<^verbatim>\<open>strings.EqualFold\<close>.
\<close>

definition turnstile_verify ::
  "env \<Rightarrow> (string \<Rightarrow> string \<Rightarrow> bool) \<Rightarrow> (string \<Rightarrow> string \<Rightarrow> string option \<Rightarrow> (nat \<times> (bool \<times> string \<times> string) option) option)
    \<Rightarrow> turnstile option \<Rightarrow> string \<Rightarrow> string \<Rightarrow> string \<Rightarrow> turnstile_error + unit" where
  "turnstile_verify en eqf verify vo token action remote =
     (case vo of
        None \<Rightarrow> Inl TurnstileUnavailable
      | Some v \<Rightarrow>
          if token = [] \<or> 2048 < length token then Inl TurnstileInvalid
          else (case verify (tv_secret v) token (if e_parse_ip en remote \<noteq> None then Some remote else None) of
                  None \<Rightarrow> Inl TurnstileUnavailable
                | Some (status, body) \<Rightarrow>
                    if status \<noteq> 200 then Inl TurnstileUnavailable
                    else (case body of
                            None \<Rightarrow> Inl TurnstileUnavailable
                          | Some (success, act, host) \<Rightarrow>
                              if \<not> success \<or> act \<noteq> action
                                \<or> \<not> turnstile_hostname_allowed (e_unicode en) eqf (tv_hostname v) host
                              then Inl TurnstileInvalid else Inr ())))"

end
