(* ===== verification/AuthHandler.thy ===== *)
theory AuthHandler imports OAuthFlow begin

text \<open>
  The HTTP handlers of the authentication service (internal/auth/handler.go). A handler is an
  operation that ends with a response, the early returns being the error side of the sum. What
  arrives over the wire is decoded by \<^verbatim>\<open>encoding/json\<close>: the body of a request is its decoded
  value, or \<^const>\<open>None\<close> when \<^verbatim>\<open>decodeJSON\<close> rejects it. Bodies of responses are values of
  \<open>payload\<close> rather than JSON text; logging is left out.
\<close>

section \<open>Responses\<close>

datatype payload =
    NoBody
  | ErrorBody string string
  | AccountBody account
  | SessionBody account time
  | MeBody account bool bool bool
  | SessionList "session_list_item list"
  | RevokedBody nat
  | QueuedBody time
  | AcceptedBody
  | MfaStatusBody bool bool
  | MfaSetupBody mfa_setup
  | MfaEnabledBody bool
  | MfaVerifiedBody time int
  | AuthorizationUrl string
  | RedirectSuccess string

record response =
  rp_status :: nat
  rp_body :: payload
  rp_cookies :: "set_cookie list"
  rp_headers :: "(string \<times> string) list"

definition respond :: "nat \<Rightarrow> payload \<Rightarrow> response" where
  "respond status body = \<lparr>rp_status = status, rp_body = body, rp_cookies = [], rp_headers = []\<rparr>"

definition write_auth_error :: "nat \<Rightarrow> string \<Rightarrow> string \<Rightarrow> response" where
  "write_auth_error status code message = respond status (ErrorBody code message)"

definition unauthorized :: response where
  "unauthorized = write_auth_error 401 ''unauthorized'' ''authentication is required''"

definition csrf_required :: response where
  "csrf_required = write_auth_error 403 ''csrf_required'' ''request verification failed''"

definition internal_error :: response where
  "internal_error = write_auth_error 500 ''internal_error'' ''internal server error''"

text \<open>The chains of \<^verbatim>\<open>errors.Is\<close>, in their order; an error that wraps two is listed twice.\<close>

definition write_service_error :: "auth_error \<Rightarrow> response" where
  "write_service_error e =
     (if e \<in> {ErrInvalidInput, ErrNoSchoolEmailOnFile}
        then write_auth_error 400 ''invalid_request'' ''request data is invalid''
      else if e = ErrInvalidCredentials
        then write_auth_error 401 ''invalid_credentials'' ''username or password is incorrect''
      else if e = ErrRateLimited then write_auth_error 429 ''rate_limited'' ''too many requests''
      else if e = ErrRateLimitUnavailable
        then write_auth_error 503 ''rate_limit_unavailable'' ''request protection is temporarily unavailable''
      else if e = ErrNotConfigured
        then write_auth_error 503 ''auth_unavailable'' ''authentication service is unavailable''
      else if e = ErrConflict
        then write_auth_error 409 ''account_conflict'' ''account data is already in use''
      else if e = ErrExpired
        then write_auth_error 422 ''verification_expired'' ''email verification token is invalid or expired''
      else if e = ErrInvalidToken
        then write_auth_error 422 ''invalid_token'' ''the token is invalid or has expired''
      else if e = ErrNotFound then write_auth_error 404 ''not_found'' ''the resource was not found''
      else internal_error)"

definition write_mfa_service_error :: "auth_error \<Rightarrow> response" where
  "write_mfa_service_error e =
     (if e = ErrInvalidSession then unauthorized
      else if e = ErrCSRF then csrf_required
      else if e = ErrAdminRequired
        then write_auth_error 403 ''admin_required'' ''administrator permission is required''
      else if e = ErrAdminMFARateLimited
        then write_auth_error 429 ''rate_limited'' ''too many MFA attempts; try again later''
      else if e \<in> {ErrAdminMFARequired, ErrAdminMFAInvalid}
        then write_auth_error 428 ''admin_mfa_required'' ''administrator MFA verification is required''
      else if e = ErrAdminMFAConflict
        then write_auth_error 409 ''admin_mfa_already_enabled'' ''administrator MFA is already enabled''
      else if e = ErrNotConfigured
        then write_auth_error 503 ''mfa_unavailable'' ''administrator MFA is unavailable''
      else internal_error)"

definition write_oauth_error :: "auth_error \<Rightarrow> response" where
  "write_oauth_error e =
     (if e \<in> {ErrOAuthProvider, ErrNotConfigured}
        then write_auth_error 503 ''oauth_unavailable'' ''OAuth provider is unavailable''
      else if e = ErrInvalidSession then unauthorized
      else if e = ErrOAuthNotBound
        then write_auth_error 403 ''oauth_not_bound'' ''this OAuth account is not bound to an STA account''
      else if e = ErrConflict
        then write_auth_error 409 ''oauth_conflict'' ''this OAuth identity is already bound''
      else write_auth_error 400 ''oauth_failed'' ''OAuth verification failed'')"

section \<open>Common steps\<close>

record handler =
  hd_service :: service
  hd_turnstile :: "turnstile option"
  hd_siteverify :: "string \<Rightarrow> string \<Rightarrow> string option \<Rightarrow> (nat \<times> (bool \<times> string \<times> string) option) option"
  hd_equal_fold :: "string \<Rightarrow> string \<Rightarrow> bool"

type_synonym 'a step = "(world, response, 'a) op"

definition authenticated :: "service \<Rightarrow> request \<Rightarrow> request_session step" where
  "authenticated sv rq = map_errM (\<lambda>_. unauthorized) (authenticate sv rq)"

definition authorized :: "service \<Rightarrow> request \<Rightarrow> request_session \<Rightarrow> unit step" where
  "authorized sv rq rs = map_errM (\<lambda>_. csrf_required) (liftM (authorize_mutation sv rq rs))"

definition decoded :: "'a option \<Rightarrow> string \<Rightarrow> 'a step" where
  "decoded body message =
     (case body of None \<Rightarrow> fail (write_auth_error 400 ''invalid_request'' message) | Some x \<Rightarrow> ret x)"

definition serve :: "(world, auth_error, 'a) op \<Rightarrow> 'a step" where
  "serve m = map_errM write_service_error m"

definition serve_mfa :: "(world, auth_error, 'a) op \<Rightarrow> 'a step" where
  "serve_mfa m = map_errM write_mfa_service_error m"

definition authenticate_mutation :: "service \<Rightarrow> request \<Rightarrow> (world, auth_error, request_session) op" where
  "authenticate_mutation sv rq =
     bindM (authenticate sv rq) (\<lambda>rs.
     bindM (map_errM (\<lambda>_. ErrCSRF) (liftM (authorize_mutation sv rq rs))) (\<lambda>_. ret rs))"

definition session_account :: "request_session \<Rightarrow> account" where
  "session_account rs = ses_account (rs_session rs)"

definition verify_turnstile :: "handler \<Rightarrow> request \<Rightarrow> string \<Rightarrow> string \<Rightarrow> unit step" where
  "verify_turnstile h rq token action =
     (if hd_turnstile h = None then ret ()
      else (case turnstile_verify (sv_env (hd_service h)) (hd_equal_fold h) (hd_siteverify h)
                   (hd_turnstile h) token action (client_ip (sv_env (hd_service h)) (Some rq)) of
              Inr _ \<Rightarrow> ret ()
            | Inl TurnstileInvalid \<Rightarrow>
                fail (write_auth_error 403 ''turnstile_invalid'' ''verification failed'')
            | Inl TurnstileUnavailable \<Rightarrow>
                fail (write_auth_error 503 ''turnstile_unavailable'' ''verification service unavailable'')))"

section \<open>Registration, login, logout\<close>

definition handle_register :: "handler \<Rightarrow> request \<Rightarrow> (register_input \<times> string) option \<Rightarrow> response step" where
  "handle_register h rq body =
     bindM (decoded body ''request body is invalid'') (\<lambda>(inp, captcha).
     bindM (verify_turnstile h rq captcha ''signup'') (\<lambda>_.
     bindM (serve (register (hd_service h) inp (Some rq))) (\<lambda>a.
     ret (respond 201 (AccountBody a)))))"

definition login_error :: "auth_error \<Rightarrow> response" where
  "login_error e =
     (let r = write_service_error e in
      if e = ErrRateLimited then r\<lparr>rp_headers := [(''Retry-After'', ''60'')]\<rparr> else r)"

definition handle_login ::
  "handler \<Rightarrow> request \<Rightarrow> (string \<times> string \<times> string) option \<Rightarrow> response step" where
  "handle_login h rq body =
     bindM (decoded body ''request body is invalid'') (\<lambda>(username, password, captcha).
     bindM (verify_turnstile h rq captcha ''login'') (\<lambda>_.
     bindM (map_errM login_error (login (hd_service h) username password (Some rq))) (\<lambda>r.
     bindM (readM now) (\<lambda>t.
     ret ((respond 200 (SessionBody (sr_account r) (sr_expires r)))
       \<lparr>rp_cookies := session_cookies (hd_service h) r
          (cookie_domain_for_request (hd_service h) (Some rq)) t\<rparr>)))))"

definition handle_me :: "service \<Rightarrow> request \<Rightarrow> response step" where
  "handle_me sv rq =
     bindM (authenticated sv rq) (\<lambda>rs.
     bindM (catchM (is_admin (acc_id (session_account rs))) (\<lambda>_. ret False) ret) (\<lambda>admin.
     bindM (catchM (can_manage_admissions (acc_id (session_account rs))) (\<lambda>_. ret False) ret) (\<lambda>manage.
     bindM (if admin \<or> manage
            then map_errM (\<lambda>_. internal_error) (has_valid_admin_mfa_grant sv (acc_id (session_account rs)))
            else ret False) (\<lambda>verified.
     ret (respond 200 (MeBody (session_account rs) admin manage verified))))))"

definition clear_cookies :: "service \<Rightarrow> request \<Rightarrow> response \<Rightarrow> response" where
  "clear_cookies sv rq r =
     r\<lparr>rp_cookies := cleared_cookies sv (cookie_domain_for_request sv (Some rq))\<rparr>"

definition handle_logout :: "service \<Rightarrow> request \<Rightarrow> response step" where
  "handle_logout sv rq =
     bindM (map_errM (\<lambda>_. clear_cookies sv rq unauthorized) (authenticate sv rq)) (\<lambda>rs.
     bindM (authorized sv rq rs) (\<lambda>_.
     bindM (map_errM (\<lambda>_. internal_error) (logout rs)) (\<lambda>_.
     ret (clear_cookies sv rq (respond 204 NoBody)))))"

section \<open>E-mail verification and passwords\<close>

definition handle_resend_email_verification :: "service \<Rightarrow> request \<Rightarrow> response step" where
  "handle_resend_email_verification sv rq =
     bindM (authenticated sv rq) (\<lambda>rs.
     bindM (authorized sv rq rs) (\<lambda>_.
     bindM (serve (issue_email_verification sv (acc_id (session_account rs)))) (\<lambda>t.
     ret (respond 202 (QueuedBody t)))))"

definition handle_confirm_email_verification :: "service \<Rightarrow> request \<Rightarrow> string option \<Rightarrow> response step" where
  "handle_confirm_email_verification sv rq body =
     bindM (decoded body ''verification token is invalid'') (\<lambda>token.
     bindM (catchM (authenticate sv rq)
              (\<lambda>_. serve (confirm_email_verification_token sv token))
              (\<lambda>rs. bindM (authorized sv rq rs) (\<lambda>_.
                    serve (confirm_email_verification sv (acc_id (session_account rs)) token)))) (\<lambda>_.
     ret (respond 204 NoBody)))"

definition handle_request_password_reset :: "service \<Rightarrow> string option \<Rightarrow> response step" where
  "handle_request_password_reset sv body =
     bindM (decoded body ''request body is invalid'') (\<lambda>email.
     ignoreM (request_password_reset sv email) (ret (respond 202 AcceptedBody)))"

definition handle_confirm_password_reset :: "service \<Rightarrow> (string \<times> string) option \<Rightarrow> response step" where
  "handle_confirm_password_reset sv body =
     bindM (decoded body ''request body is invalid'') (\<lambda>(token, password).
     bindM (serve (confirm_password_reset sv token password)) (\<lambda>_.
     ret (respond 204 NoBody)))"

definition handle_change_password :: "service \<Rightarrow> request \<Rightarrow> (string \<times> string) option \<Rightarrow> response step" where
  "handle_change_password sv rq body =
     bindM (authenticated sv rq) (\<lambda>rs.
     bindM (authorized sv rq rs) (\<lambda>_.
     bindM (decoded body ''request body is invalid'') (\<lambda>(current, password).
     bindM (serve (change_password sv rs current password)) (\<lambda>_.
     ret (respond 204 NoBody)))))"

section \<open>Sessions\<close>

definition handle_list_sessions :: "service \<Rightarrow> request \<Rightarrow> response step" where
  "handle_list_sessions sv rq =
     bindM (authenticated sv rq) (\<lambda>rs.
     bindM (serve (list_sessions rs)) (\<lambda>items.
     ret (respond 200 (SessionList items))))"

definition handle_revoke_session :: "service \<Rightarrow> request \<Rightarrow> string \<Rightarrow> response step" where
  "handle_revoke_session sv rq raw =
     bindM (authenticated sv rq) (\<lambda>rs.
     bindM (authorized sv rq rs) (\<lambda>_.
     bindM (decoded (e_parse_uuid (sv_env sv) raw) ''session id is invalid'') (\<lambda>i.
     bindM (serve (revoke_own_session rs i)) (\<lambda>_.
     ret (respond 204 NoBody)))))"

definition handle_revoke_other_sessions :: "service \<Rightarrow> request \<Rightarrow> response step" where
  "handle_revoke_other_sessions sv rq =
     bindM (authenticated sv rq) (\<lambda>rs.
     bindM (authorized sv rq rs) (\<lambda>_.
     bindM (serve (revoke_other_sessions rs)) (\<lambda>n.
     ret (respond 200 (RevokedBody n)))))"

section \<open>Administrator MFA\<close>

definition handle_admin_mfa_status :: "service \<Rightarrow> request \<Rightarrow> response step" where
  "handle_admin_mfa_status sv rq =
     bindM (authenticated sv rq) (\<lambda>rs.
     bindM (serve_mfa (admin_mfa_status (acc_id (session_account rs)))) (\<lambda>enabled.
     ret (respond 200 (MfaStatusBody enabled (sv_require_mfa sv)))))"

definition handle_admin_mfa_setup :: "service \<Rightarrow> request \<Rightarrow> response step" where
  "handle_admin_mfa_setup sv rq =
     bindM (serve_mfa (authenticate_mutation sv rq)) (\<lambda>rs.
     bindM (serve_mfa (begin_admin_mfa sv (acc_id (session_account rs)) (acc_username (session_account rs)))) (\<lambda>s.
     ret (respond 200 (MfaSetupBody s))))"

definition handle_admin_mfa_enable :: "service \<Rightarrow> request \<Rightarrow> string option \<Rightarrow> response step" where
  "handle_admin_mfa_enable sv rq body =
     bindM (serve_mfa (authenticate_mutation sv rq)) (\<lambda>rs.
     bindM (decoded body ''MFA code is invalid'') (\<lambda>code.
     bindM (serve_mfa (enable_admin_mfa sv (acc_id (session_account rs)) code)) (\<lambda>_.
     ret (respond 200 (MfaEnabledBody True)))))"

definition handle_admin_mfa_verify :: "service \<Rightarrow> request \<Rightarrow> string option \<Rightarrow> response step" where
  "handle_admin_mfa_verify sv rq body =
     bindM (serve_mfa (authenticate_mutation sv rq)) (\<lambda>rs.
     bindM (decoded body ''MFA code is invalid'') (\<lambda>code.
     bindM (serve_mfa (verify_admin_mfa sv (acc_id (session_account rs)) code)) (\<lambda>t.
     ret (respond 200 (MfaVerifiedBody t (go_div (sv_grant_ttl sv) second))))))"

definition handle_admin_mfa_disable :: "service \<Rightarrow> request \<Rightarrow> string option \<Rightarrow> response step" where
  "handle_admin_mfa_disable sv rq body =
     bindM (serve_mfa (authenticate_mutation sv rq)) (\<lambda>rs.
     bindM (decoded body ''MFA code is invalid'') (\<lambda>code.
     bindM (serve_mfa (disable_admin_mfa sv (acc_id (session_account rs)) code)) (\<lambda>_.
     ret (respond 200 (MfaEnabledBody False)))))"

section \<open>OAuth\<close>

definition handle_oauth_login_start :: "response step" where
  "handle_oauth_login_start =
     ret (write_auth_error 503 ''oauth_unavailable'' ''social login is temporarily unavailable'')"

definition handle_oauth_bind_start :: "service \<Rightarrow> request \<Rightarrow> string \<Rightarrow> string \<Rightarrow> response step" where
  "handle_oauth_bind_start sv rq provider return_to =
     bindM (authenticated sv rq) (\<lambda>rs.
     bindM (authorized sv rq rs) (\<lambda>_.
     bindM (map_errM write_oauth_error
              (oauth_start sv provider (Some (acc_id (session_account rs))) return_to)) (\<lambda>url.
     ret (respond 200 (AuthorizationUrl url)))))"

text \<open>
  \<open>RedirectSuccess target\<close> stands for the redirect to \<open>target\<close> with \<^verbatim>\<open>oauth=success\<close> in its
  query, or to the site root when \<open>target\<close> is not a URL.
\<close>

definition handle_oauth_callback ::
  "service \<Rightarrow> request \<Rightarrow> string \<Rightarrow> string \<Rightarrow> string \<Rightarrow> response step" where
  "handle_oauth_callback sv rq provider state code =
     bindM (catchM (authenticate sv rq) (\<lambda>_. ret None)
              (\<lambda>rs. ret (Some (acc_id (session_account rs))))) (\<lambda>current.
     bindM (map_errM write_oauth_error (oauth_callback sv provider state code current (Some rq))) (\<lambda>r.
     bindM (readM now) (\<lambda>t.
     let target = (if or_return_to r = [] then ''/'' else or_return_to r);
         redirect = respond 302 (RedirectSuccess target)
     in case or_session r of
          None \<Rightarrow> ret redirect
        | Some s \<Rightarrow> ret (redirect\<lparr>rp_cookies := session_cookies sv s
             (cookie_domain_for_request sv (Some rq)) t\<rparr>))))"

section \<open>Routes\<close>

text \<open>\<^verbatim>\<open>RegisterRoutes\<close>: the calls of the API, with what the router extracts from them.\<close>

datatype route =
    Register "(register_input \<times> string) option"
  | Login "(string \<times> string \<times> string) option"
  | Me
  | Logout
  | ResendEmailVerification
  | ConfirmEmailVerification "string option"
  | RequestPasswordReset "string option"
  | ConfirmPasswordReset "(string \<times> string) option"
  | ChangePassword "(string \<times> string) option"
  | ListSessions
  | RevokeSession string
  | RevokeOtherSessions
  | AdminMfaStatus
  | AdminMfaSetup
  | AdminMfaEnable "string option"
  | AdminMfaVerify "string option"
  | AdminMfaDisable "string option"
  | OAuthLoginStart
  | OAuthBindStart string string
  | OAuthCallback string string string

fun handle :: "handler \<Rightarrow> request \<Rightarrow> route \<Rightarrow> response step" where
  "handle h rq (Register b) = handle_register h rq b"
| "handle h rq (Login b) = handle_login h rq b"
| "handle h rq Me = handle_me (hd_service h) rq"
| "handle h rq Logout = handle_logout (hd_service h) rq"
| "handle h rq ResendEmailVerification = handle_resend_email_verification (hd_service h) rq"
| "handle h rq (ConfirmEmailVerification b) = handle_confirm_email_verification (hd_service h) rq b"
| "handle h rq (RequestPasswordReset b) = handle_request_password_reset (hd_service h) b"
| "handle h rq (ConfirmPasswordReset b) = handle_confirm_password_reset (hd_service h) b"
| "handle h rq (ChangePassword b) = handle_change_password (hd_service h) rq b"
| "handle h rq ListSessions = handle_list_sessions (hd_service h) rq"
| "handle h rq (RevokeSession i) = handle_revoke_session (hd_service h) rq i"
| "handle h rq RevokeOtherSessions = handle_revoke_other_sessions (hd_service h) rq"
| "handle h rq AdminMfaStatus = handle_admin_mfa_status (hd_service h) rq"
| "handle h rq AdminMfaSetup = handle_admin_mfa_setup (hd_service h) rq"
| "handle h rq (AdminMfaEnable b) = handle_admin_mfa_enable (hd_service h) rq b"
| "handle h rq (AdminMfaVerify b) = handle_admin_mfa_verify (hd_service h) rq b"
| "handle h rq (AdminMfaDisable b) = handle_admin_mfa_disable (hd_service h) rq b"
| "handle h rq OAuthLoginStart = handle_oauth_login_start"
| "handle h rq (OAuthBindStart p r) = handle_oauth_bind_start (hd_service h) rq p r"
| "handle h rq (OAuthCallback p s c) = handle_oauth_callback (hd_service h) rq p s c"

text \<open>The response a call ends with, whichever way it ends.\<close>

definition response_of :: "response step \<Rightarrow> world \<Rightarrow> response \<times> world" where
  "response_of m w = (case m w of (Inl r, w') \<Rightarrow> (r, w') | (Inr r, w') \<Rightarrow> (r, w'))"

end
