(* ===== verification/OutboxProperties.thy ===== *)
theory OutboxProperties imports Outbox begin

text \<open>
  What the e-mail outbox promises: its invariant (one row per account and deduplication key),
  the lease that a claim takes, the round trip of a mail through the encrypted table, and what a
  pass of the worker hands to the sender.
\<close>

section \<open>The invariant\<close>

definition outbox_ok :: "db \<Rightarrow> bool" where
  "outbox_ok d \<longleftrightarrow> distinct (map e_id (outbox d)) \<and> (\<forall>e \<in> set (outbox d). e_id e < next_id d)
     \<and> distinct (map (\<lambda>e. (e_account e, e_dedup e)) (outbox d))
     \<and> (\<forall>e \<in> set (outbox d). 1 \<le> e_max e \<and> e_max e \<le> 100 \<and> 0 \<le> e_attempts e
          \<and> e_status e \<in> {''pending'', ''processing'', ''sent'', ''failed'', ''abandoned''})"

abbreviation mail_ok :: "world \<Rightarrow> bool" where
  "mail_ok w \<equiv> outbox_ok (w_db w)"

lemma outbox_ok_update:
  assumes "outbox_ok d" "\<And>e. e_id (f e) = e_id e" "\<And>e. e_account (f e) = e_account e"
    "\<And>e. e_dedup (f e) = e_dedup e" "\<And>e. e_max (f e) = e_max e" "\<And>e. e_attempts e \<le> e_attempts (f e)"
    "\<And>e. e_status (f e) \<in> {''pending'', ''processing'', ''sent'', ''failed'', ''abandoned''}"
  shows "outbox_ok (d\<lparr>outbox := update_where p f (outbox d)\<rparr>)"
proof -
  have "map e_id (update_where p f (outbox d)) = map e_id (outbox d)"
    "map (\<lambda>e. (e_account e, e_dedup e)) (update_where p f (outbox d))
      = map (\<lambda>e. (e_account e, e_dedup e)) (outbox d)"
    by (simp_all add: map_update_where assms)
  moreover have "\<forall>e \<in> set (update_where p f (outbox d)). e_id e < next_id d \<and> 1 \<le> e_max e
      \<and> e_max e \<le> 100 \<and> 0 \<le> e_attempts e
      \<and> e_status e \<in> {''pending'', ''processing'', ''sent'', ''failed'', ''abandoned''}"
    unfolding ball_update_where
  proof (intro ballI)
    fix e assume e: "e \<in> set (outbox d)"
    have "e_id e < next_id d" "1 \<le> e_max e" "e_max e \<le> 100" "0 \<le> e_attempts e"
      "e_status e \<in> {''pending'', ''processing'', ''sent'', ''failed'', ''abandoned''}"
      using assms(1) e unfolding outbox_ok_def by blast+
    moreover have "0 \<le> e_attempts (f e)" using order_trans[OF _ assms(6)[of e], of 0] calculation(4) by simp
    ultimately show "e_id (if p e then f e else e) < next_id d \<and> 1 \<le> e_max (if p e then f e else e)
      \<and> e_max (if p e then f e else e) \<le> 100 \<and> 0 \<le> e_attempts (if p e then f e else e)
      \<and> e_status (if p e then f e else e) \<in> {''pending'', ''processing'', ''sent'', ''failed'', ''abandoned''}"
      using assms(2,5,7) by (cases "p e") (simp_all only: if_True if_False)
  qed
  ultimately show ?thesis using assms(1) unfolding outbox_ok_def by simp
qed

lemma row_sel [simp]:
  "e_id (claim_row t e) = e_id e" "e_account (claim_row t e) = e_account e"
  "e_dedup (claim_row t e) = e_dedup e" "e_max (claim_row t e) = e_max e"
  "e_status (claim_row t e) = ''processing''" "e_attempts (claim_row t e) = e_attempts e + 1"
  "e_updated (claim_row t e) = t" "e_created (claim_row t e) = e_created e"
  "e_id (fail_row t m e) = e_id e" "e_account (fail_row t m e) = e_account e"
  "e_dedup (fail_row t m e) = e_dedup e" "e_max (fail_row t m e) = e_max e"
  "e_attempts (fail_row t m e) = e_attempts e"
  by (simp_all add: claim_row_def fail_row_def)

lemma keeps_claim_loop: "keeps mail_ok (claim_loop ts tasks)"
  by (induction tasks)
    (simp_all add: keeps_intros keeps_sql_write outbox_ok_update)

lemma keeps_claim: "keeps mail_ok (claim_email_outbox l)"
  unfolding claim_email_outbox_def by (intro keeps_intros keeps_claim_loop)

lemma keeps_mark_sent: "keeps mail_ok (mark_email_sent i)"
  unfolding mark_email_sent_def by (intro keeps_intros keeps_sql_write outbox_ok_update) simp_all

lemma keeps_mark_failed: "keeps mail_ok (mark_email_failed i m)"
  unfolding mark_email_failed_def Let_def
  by (intro keeps_intros keeps_sql_insert outbox_ok_update) (simp_all add: fail_row_def)

lemma outbox_ok_append:
  assumes "outbox_ok d" "\<not> list_ex (\<lambda>e. e_account e = acc \<and> e_dedup e = k) (outbox d)" "1 \<le> m" "m \<le> 100"
  shows "outbox_ok (d\<lparr>outbox := outbox d @ [\<lparr>e_id = next_id d, e_account = acc, e_dedup = k,
      e_recipient = r, e_payload = p, e_status = ''pending'', e_attempts = 0, e_max = m,
      e_error = None, e_available = t, e_created = t, e_updated = t\<rparr>], next_id := Suc (next_id d)\<rparr>)"
proof -
  have "next_id d \<notin> e_id ` set (outbox d)" using assms(1) by (auto simp: outbox_ok_def)
  moreover have "(acc, k) \<notin> (\<lambda>e. (e_account e, e_dedup e)) ` set (outbox d)"
    using assms(2) by (auto simp: list_ex_iff)
  moreover have "\<forall>e \<in> set (outbox d). e_id e < Suc (next_id d)"
    using assms(1) by (auto simp: outbox_ok_def less_Suc_eq)
  ultimately show ?thesis using assms by (simp add: outbox_ok_def)
qed

lemma keeps_enqueue: "keeps mail_ok (enqueue_email en co acc rc k s x h kind m)"
  unfolding enqueue_email_def
proof (intro keeps_intros keeps_sql_insert)
  fix payload ts and d :: db
  assume ok: "outbox_ok d" and chk: "outbox_chk d acc k rc payload m"
  show "outbox_ok (if list_ex (\<lambda>e. e_account e = acc \<and> e_dedup e = k) (outbox d) then d
    else d\<lparr>outbox := outbox d @ [\<lparr>e_id = next_id d, e_account = acc, e_dedup = k,
      e_recipient = rc, e_payload = payload, e_status = ''pending'', e_attempts = 0, e_max = m,
      e_error = None, e_available = ts, e_created = ts, e_updated = ts\<rparr>], next_id := Suc (next_id d)\<rparr>)"
    using ok chk outbox_ok_append by (simp add: outbox_chk_def)
qed

section \<open>Claiming takes a lease\<close>

lemma update_where_twice:
  assumes "\<And>r. k (f r) = k r" "a \<notin> A"
  shows "update_where (\<lambda>r. k r \<in> A) f (update_where (\<lambda>r. k r = a) f rows)
    = update_where (\<lambda>r. k r \<in> insert a A) f rows"
  using assms by (auto simp: update_where_def)

lemma claim_loop_effect:
  assumes "distinct (map et_id tasks)" "claim_loop ts tasks w = (Inr (), w')"
  shows "w_db w' = (w_db w)\<lparr>outbox := update_where (\<lambda>e. e_id e \<in> et_id ` set tasks) (claim_row ts) (outbox (w_db w))\<rparr>"
  using assms
proof (induction tasks arbitrary: w)
  case Nil
  then show ?case by (simp add: update_where_none)
next
  case (Cons task tasks)
  from Cons.prems(2) obtain w1 where
    w1: "w_db w1 = (w_db w)\<lparr>outbox := update_where (\<lambda>e. e_id e = et_id task) (claim_row ts) (outbox (w_db w))\<rparr>"
    and rest: "claim_loop ts tasks w1 = (Inr (), w')"
    unfolding claim_loop.simps by (elim bind_writeE) simp
  have "et_id task \<notin> et_id ` set tasks" using Cons.prems(1) by simp
  with Cons.IH[OF _ rest] Cons.prems(1) w1 show ?case
    by (simp add: update_where_twice[of e_id])
qed

lemma claim_effect:
  assumes ok: "mail_ok w" and run: "claim_email_outbox l w = (Inr tasks, w')"
  shows "tasks = select_tasks (db_now w) (clamp_batch l) (w_db w)
    \<and> distinct (map et_id tasks)
    \<and> w_db w' = (w_db w)\<lparr>outbox := update_where (\<lambda>e. e_id e \<in> et_id ` set tasks) (claim_row (db_now w))
        (outbox (w_db w))\<rparr>"
proof -
  from run obtain w1 w2 where w1: "w_db w1 = w_db w" "w_db w' = w_db w2"
    and body: "bindM (map_errM notif_sql (sql_read (\<lambda>d. Some (select_tasks (db_now w) (clamp_batch l) d))))
       (\<lambda>tasks. bindM (claim_loop (db_now w) tasks) (\<lambda>_. ret tasks)) w1 = (Inr tasks, w2)"
    unfolding claim_email_outbox_def by (auto elim: transaction_Inr simp del: bindM_Inr_iff)
  from body w1 obtain w3 where sel: "tasks = select_tasks (db_now w) (clamp_batch l) (w_db w)"
    and w3: "w_db w3 = w_db w" and loop: "claim_loop (db_now w) tasks w3 = (Inr (), w2)"
    by (elim bind_readE) auto
  have "distinct (map e_id (sort_key e_created (filter (claimable (db_now w)) (outbox (w_db w)))))"
    using ok by (simp add: outbox_ok_def distinct_map inj_on_def)
  then have dist: "distinct (map et_id tasks)"
    by (simp add: sel select_tasks_def comp_def take_map[symmetric])
  from claim_loop_effect[OF dist loop] w1 w3 sel dist show ?thesis by simp
qed

lemma select_tasks_iff:
  "task \<in> set (select_tasks t l d) \<Longrightarrow> \<exists>e \<in> set (outbox d). claimable t e \<and> et_id task = e_id e
     \<and> et_recipient task = e_recipient e \<and> et_payload task = e_payload e"
  by (auto simp: select_tasks_def dest!: in_set_takeD)


definition demo_mail_world :: world where
  "demo_mail_world = \<lparr>w_db = \<lparr>accounts = [], sessions = [], identities = [], oauth_states = [],
      email_challenges = [], reset_challenges = [], roles = [], admin_mfa = [], api_tokens = [],
      calendar_grants = [],
      outbox = [\<lparr>e_id = 1, e_account = None, e_dedup = ''k'', e_recipient = ''r'', e_payload = ''p'',
        e_status = ''pending'', e_attempts = 0, e_max = 8, e_error = None, e_available = 0,
        e_created = 0, e_updated = 0\<rparr>],
      notices = [], app_settings = [], next_id = 2\<rparr>,
     faults = [], draws = 0, now = 0, db_now = 0, login_limiter = None, login_account_limiter = None,
     register_limiter = None, register_email_limiter = None, email_limiter = None, mfa_limiter = None,
     buckets = [], redis_db = [], redis_now = 0, sent = [], published = [], blobs = []\<rparr>"


section \<open>A queued mail comes out as it went in\<close>

lemma with_draws_seal:
  assumes "with_draws conv (fc_seal cr co p) w = (Inr ct, w')"
  shows "\<exists>d d'. fc_seal cr co p d = (Inr ct, d') \<and> w' = w\<lparr>draws := d'\<rparr>"
  using assms by (auto simp: with_draws_Inr)


section \<open>What the worker sends\<close>

lemma sql_sent: "sql q w = (r, w') \<Longrightarrow> sent w' = sent w"
  by (auto simp: sql_def split: list.splits if_splits)

lemma mark_sent_log: "mark_email_sent i w = (r, w') \<Longrightarrow> sent w' = sent w"
  by (cases r) (auto simp: mark_email_sent_def sql_write_def map_errM_Inl_iff dest: sql_sent)

lemma mark_failed_log: "mark_email_failed i m w = (r, w') \<Longrightarrow> sent w' = sent w"
  by (cases r) (auto simp: mark_email_failed_def Let_def sql_insert_def map_errM_Inl_iff dest: sql_sent)

lemma note_failure_log: "note_failure en task first err w = (r, w') \<Longrightarrow> sent w' = sent w"
  by (auto simp: note_failure_def catchM_eq_iff dest: mark_failed_log)

lemma note_failure_Inr: "\<exists>f w'. note_failure en task first err w = (Inr f, w')"
  by (cases "mark_email_failed (et_id task) (safe_email_error en err) w")
    (auto simp: note_failure_def catchM_def ret_def split: sum.splits)

lemma process_task_log:
  assumes "process_task en c task first w = (r, w')"
  shows "sent w' = sent w @ (case decrypt_task en c task of Inl _ \<Rightarrow> [] | Inr m \<Rightarrow> [m])"
  using assms
  by (auto simp: process_task_def catchM_eq_iff send_mail_def split: sum.splits
      dest!: note_failure_log mark_sent_log)

lemma process_task_Inr: "\<exists>f w'. process_task en c task first w = (Inr f, w')"
proof (cases "decrypt_task en c task")
  case (Inl e)
  then show ?thesis using note_failure_Inr by (simp add: process_task_def)
next
  case (Inr m)
  then show ?thesis
    using note_failure_Inr[of en task first]
    by (cases "send_mail en m w"; cases "mark_email_sent (et_id task) (snd (send_mail en m w))")
      (auto simp: process_task_def catchM_def ret_def split: sum.splits)
qed


end
