(* ===== verification/ServiceInvariants.thy ===== *)
theory ServiceInvariants imports AuthHandler OutboxProperties begin

text \<open>
  What the service needs of its store to keep an invariant of the database: the locale
  \<open>db_invariant\<close> lists the methods that must keep it; inside, every operation of the service and
  every route of the handler keeps it, whatever fails on the way. It is interpreted for the
  invariant of the tables (\<open>db_ok\<close>) and for that of the outbox (\<open>outbox_ok\<close>).
\<close>

named_theorems inv_keeps \<open>operations that keep the invariant\<close>

lemma keeps_db_same:
  assumes "\<And>w. w_db (snd (m w)) = w_db w"
  shows "keeps (\<lambda>w. P (w_db w)) m"
  by (simp add: keeps_def assms)

lemma distributed_allow_db: "w_db (snd (distributed_allow sv ns key l win w)) = w_db w"
  by (simp add: distributed_allow_def Let_def split: distributed_limiter.split prod.split)

lemma distributed_allow_dbD: "distributed_allow sv ns key l win w = (r, w') \<Longrightarrow> w_db w' = w_db w"
  using distributed_allow_db[of sv ns key l win w] by simp

lemma rate_allowed_db:
  assumes "\<And>f w. w_db (upd f w) = w_db w"
  shows "w_db (snd (rate_allowed sv get upd ns key l win w)) = w_db w"
  by (simp add: rate_allowed_def Let_def assms distributed_allow_db split: prod.split)

lemma verify_admin_totp_db: "w_db (snd (verify_admin_totp sv acc secret code w)) = w_db w"
  by (auto simp: verify_admin_totp_def Let_def split: prod.split sum.split bool.split
      dest!: distributed_allow_dbD)

lemmas handler_defs = handle_register_def handle_login_def handle_me_def handle_logout_def
  handle_resend_email_verification_def handle_confirm_email_verification_def
  handle_request_password_reset_def handle_confirm_password_reset_def handle_change_password_def
  handle_list_sessions_def handle_revoke_session_def handle_revoke_other_sessions_def
  handle_admin_mfa_status_def handle_admin_mfa_setup_def handle_admin_mfa_enable_def
  handle_admin_mfa_verify_def handle_admin_mfa_disable_def handle_oauth_login_start_def
  handle_oauth_bind_start_def handle_oauth_callback_def


section \<open>The contract\<close>

locale db_invariant =
  fixes P :: "db \<Rightarrow> bool"
  assumes keep_create_account: "keeps (\<lambda>w. P (w_db w)) (create_account u c h p)"
    and keep_create_pending_account: "keeps (\<lambda>w. P (w_db w)) (create_pending_account u c h sc sh p)"
    and keep_find_account_by_username: "keeps (\<lambda>w. P (w_db w)) (find_account_by_username u)"
    and keep_find_account_by_id: "keeps (\<lambda>w. P (w_db w)) (find_account_by_id i)"
    and keep_get_account_contact: "keeps (\<lambda>w. P (w_db w)) (get_account_contact i)"
    and keep_update_account_email: "keeps (\<lambda>w. P (w_db w)) (update_account_email i c h)"
    and keep_update_account_school_email: "keeps (\<lambda>w. P (w_db w)) (update_account_school_email i c h)"
    and keep_create_session: "keeps (\<lambda>w. P (w_db w)) (create_session i h c t ip ua)"
    and keep_find_active_session: "keeps (\<lambda>w. P (w_db w)) (find_active_session h t)"
    and keep_touch_session: "keeps (\<lambda>w. P (w_db w)) (touch_session i t)"
    and keep_revoke_session: "keeps (\<lambda>w. P (w_db w)) (revoke_session i t)"
    and keep_list_active_sessions: "keeps (\<lambda>w. P (w_db w)) (list_active_sessions i t)"
    and keep_revoke_account_session: "keeps (\<lambda>w. P (w_db w)) (revoke_account_session i j t)"
    and keep_revoke_other_account_sessions: "keeps (\<lambda>w. P (w_db w)) (revoke_other_account_sessions i j t)"
    and keep_create_oauth_binding: "keeps (\<lambda>w. P (w_db w)) (create_oauth_binding i p s)"
    and keep_rehash_oauth_subject: "keeps (\<lambda>w. P (w_db w)) (rehash_oauth_subject p s s2)"
    and keep_find_account_by_oauth_subject_hashes: "keeps (\<lambda>w. P (w_db w)) (find_account_by_oauth_subject_hashes p hs)"
    and keep_create_oauth_state: "keeps (\<lambda>w. P (w_db w)) (create_oauth_state p a s v r rt t)"
    and keep_consume_oauth_state: "keeps (\<lambda>w. P (w_db w)) (consume_oauth_state p s t)"
    and keep_create_email_verification_challenge: "keeps (\<lambda>w. P (w_db w)) (create_email_verification_challenge i h t)"
    and keep_consume_email_verification_challenge: "keeps (\<lambda>w. P (w_db w)) (consume_email_verification_challenge i h t)"
    and keep_consume_email_verification_token: "keeps (\<lambda>w. P (w_db w)) (consume_email_verification_token h t)"
    and keep_lookup_account_id_by_email_hashes: "keeps (\<lambda>w. P (w_db w)) (lookup_account_id_by_email_hashes hs)"
    and keep_create_password_reset_challenge: "keeps (\<lambda>w. P (w_db w)) (create_password_reset_challenge i h t b)"
    and keep_consume_password_reset_challenge: "keeps (\<lambda>w. P (w_db w)) (consume_password_reset_challenge h p t)"
    and keep_update_password_for_account: "keeps (\<lambda>w. P (w_db w)) (update_password_for_account i p j)"
    and keep_is_admin: "keeps (\<lambda>w. P (w_db w)) (is_admin i)"
    and keep_is_admissions_moderator: "keeps (\<lambda>w. P (w_db w)) (is_admissions_moderator i)"
    and keep_is_service_account: "keeps (\<lambda>w. P (w_db w)) (is_service_account i)"
    and keep_grant_role: "keeps (\<lambda>w. P (w_db w)) (grant_role i r)"
    and keep_get_require_admin_mfa: "keeps (\<lambda>w. P (w_db w)) (get_require_admin_mfa)"
    and keep_get_admin_mfa: "keeps (\<lambda>w. P (w_db w)) (get_admin_mfa i)"
    and keep_save_admin_mfa_secret: "keeps (\<lambda>w. P (w_db w)) (save_admin_mfa_secret i c t)"
    and keep_store_enable_admin_mfa: "keeps (\<lambda>w. P (w_db w)) (store_enable_admin_mfa i t)"
    and keep_touch_admin_mfa_verified: "keeps (\<lambda>w. P (w_db w)) (touch_admin_mfa_verified i t)"
    and keep_store_disable_admin_mfa: "keeps (\<lambda>w. P (w_db w)) (store_disable_admin_mfa i)"
    and keep_find_account_by_service_token: "keeps (\<lambda>w. P (w_db w)) (find_account_by_service_token h t)"
    and keep_create_service_api_token: "keeps (\<lambda>w. P (w_db w)) (create_service_api_token i h l)"
    and keep_save_calendar_grant: "keeps (\<lambda>w. P (w_db w)) (save_calendar_grant i p r s)"
    and keep_purge_expired_pending_accounts: "keeps (\<lambda>w. P (w_db w)) (purge_expired_pending_accounts t)"
    and keep_enqueue_email: "keeps (\<lambda>w. P (w_db w)) (enqueue_email en co a r k s x h kind m)"
begin

lemmas store_methods [inv_keeps] = keep_create_account
  keep_create_pending_account
  keep_find_account_by_username
  keep_find_account_by_id
  keep_get_account_contact
  keep_update_account_email
  keep_update_account_school_email
  keep_create_session
  keep_find_active_session
  keep_touch_session
  keep_revoke_session
  keep_list_active_sessions
  keep_revoke_account_session
  keep_revoke_other_account_sessions
  keep_create_oauth_binding
  keep_rehash_oauth_subject
  keep_find_account_by_oauth_subject_hashes
  keep_create_oauth_state
  keep_consume_oauth_state
  keep_create_email_verification_challenge
  keep_consume_email_verification_challenge
  keep_consume_email_verification_token
  keep_lookup_account_id_by_email_hashes
  keep_create_password_reset_challenge
  keep_consume_password_reset_challenge
  keep_update_password_for_account
  keep_is_admin
  keep_is_admissions_moderator
  keep_is_service_account
  keep_grant_role
  keep_get_require_admin_mfa
  keep_get_admin_mfa
  keep_save_admin_mfa_secret
  keep_store_enable_admin_mfa
  keep_touch_admin_mfa_verified
  keep_store_disable_admin_mfa
  keep_find_account_by_service_token
  keep_create_service_api_token
  keep_save_calendar_grant
  keep_purge_expired_pending_accounts
  keep_enqueue_email

lemma keeps_rate_allowed [inv_keeps]:
  "keeps (\<lambda>w. P (w_db w)) (rate_allowed sv email_limiter email_limiter_update ns key l win)"
  "keeps (\<lambda>w. P (w_db w)) (rate_allowed sv register_email_limiter register_email_limiter_update ns key l win)"
  "keeps (\<lambda>w. P (w_db w)) (rate_allowed sv login_account_limiter login_account_limiter_update ns key l win)"
  "keeps (\<lambda>w. P (w_db w)) (login_allowed sv rq)"
  "keeps (\<lambda>w. P (w_db w)) (register_allowed sv rq)"
  unfolding login_allowed_def register_allowed_def
  by (rule keeps_db_same, rule rate_allowed_db, simp)+

lemma keeps_draws [inv_keeps]:
  "keeps (\<lambda>w. P (w_db w)) (opaque_token sv n)" "keeps (\<lambda>w. P (w_db w)) (seal_field sv p)"
  "keeps (\<lambda>w. P (w_db w)) (hashed_password sv p)" "keeps (\<lambda>w. P (w_db w)) (random_password sv)"
  unfolding opaque_token_def seal_field_def hashed_password_def random_password_def
  by (intro keeps_intros)+

lemma keeps_enqueue_for [inv_keeps]:
  "keeps (\<lambda>w. P (w_db w)) (enqueue_email_for_account_with_max_attempts en co acc k s x h kind m)"
  "keeps (\<lambda>w. P (w_db w)) (enqueue_email_for_account en co acc k s x h kind)"
  "keeps (\<lambda>w. P (w_db w)) (enqueue_for_account sv acc k s x h kind)"
  "keeps (\<lambda>w. P (w_db w)) (enqueue_to sv acc r k s x h)"
  unfolding enqueue_for_account_def enqueue_to_def enqueue_email_for_account_def enqueue_email_to_def
    enqueue_email_for_account_with_max_attempts_def
  by (intro keeps_intros inv_keeps)+

lemma keeps_note_attempts [inv_keeps]:
  "keeps (\<lambda>w. P (w_db w)) enq \<Longrightarrow> keeps (\<lambda>w. P (w_db w)) (enqueue_attempts c as enq)"
  by (induction as) (simp_all add: keeps_intros)

lemma keeps_manage [inv_keeps]:
  "keeps (\<lambda>w. P (w_db w)) (can_manage_admissions acc)" "keeps (\<lambda>w. P (w_db w)) (require_admin_account acc)"
  unfolding can_manage_admissions_def require_admin_account_def
  by (intro keeps_intros inv_keeps)+

lemma keeps_admin_code [inv_keeps]:
  "keeps (\<lambda>w. P (w_db w)) (verify_admin_totp sv acc secret code)"
  "keeps (\<lambda>w. P (w_db w)) (check_admin_code sv acc r code)"
proof -
  show "keeps (\<lambda>w. P (w_db w)) (verify_admin_totp sv acc secret code)" for secret
    by (rule keeps_db_same, rule verify_admin_totp_db)
  then show "keeps (\<lambda>w. P (w_db w)) (check_admin_code sv acc r code)"
    by (simp add: check_admin_code_def keeps_fail split: option.split)
qed

lemma keeps_mfa_ops [inv_keeps]:
  "keeps (\<lambda>w. P (w_db w)) (verify_admin_mfa sv acc code)" "keeps (\<lambda>w. P (w_db w)) (admin_mfa_status acc)"
  "keeps (\<lambda>w. P (w_db w)) (begin_admin_mfa sv acc u)" "keeps (\<lambda>w. P (w_db w)) (enable_admin_mfa sv acc code)"
  "keeps (\<lambda>w. P (w_db w)) (disable_admin_mfa sv acc code)" "keeps (\<lambda>w. P (w_db w)) (require_admin_mfa sv acc code)"
  "keeps (\<lambda>w. P (w_db w)) (has_valid_admin_mfa_grant sv acc)"
  unfolding verify_admin_mfa_def admin_mfa_status_def begin_admin_mfa_def enable_admin_mfa_def
    disable_admin_mfa_def require_admin_mfa_def has_valid_admin_mfa_grant_def
    effective_require_admin_mfa_def unless_required_def require_code_def
  by (intro keeps_intros inv_keeps)+

lemma keeps_account_ops [inv_keeps]:
  "keeps (\<lambda>w. P (w_db w)) (issue_email_verification sv acc)" "keeps (\<lambda>w. P (w_db w)) (confirm_email_verification sv acc t)"
  "keeps (\<lambda>w. P (w_db w)) (confirm_email_verification_token sv t)"
  "keeps (\<lambda>w. P (w_db w)) (send_password_reset_email sv acc)"
  "keeps (\<lambda>w. P (w_db w)) (request_password_reset sv raw)"
  "keeps (\<lambda>w. P (w_db w)) (request_password_reset_for_account sv acc)"
  "keeps (\<lambda>w. P (w_db w)) (send_approved_account_activation sv c acc)"
  "keeps (\<lambda>w. P (w_db w)) (confirm_password_reset sv t p)" "keeps (\<lambda>w. P (w_db w)) (change_password sv rs cur p)"
  unfolding issue_email_verification_def confirm_email_verification_def
    confirm_email_verification_token_def send_password_reset_email_def request_password_reset_def
    request_password_reset_for_account_def send_approved_account_activation_def
    confirm_password_reset_def change_password_def Let_def
  by (intro keeps_intros inv_keeps)+

lemma keeps_session_ops [inv_keeps]:
  "keeps (\<lambda>w. P (w_db w)) (list_sessions rs)" "keeps (\<lambda>w. P (w_db w)) (revoke_own_session rs i)"
  "keeps (\<lambda>w. P (w_db w)) (revoke_other_sessions rs)" "keeps (\<lambda>w. P (w_db w)) (logout rs)"
  "keeps (\<lambda>w. P (w_db w)) (start_session sv a rq)" "keeps (\<lambda>w. P (w_db w)) (login sv u p rq)"
  "keeps (\<lambda>w. P (w_db w)) (authenticate_bot_api_key sv tok)"
  unfolding list_sessions_def revoke_own_session_def revoke_other_sessions_def logout_def
    start_session_def login_def authenticate_bot_api_key_def Let_def
  by (intro keeps_intros inv_keeps)+

lemma keeps_authenticate [inv_keeps]: "keeps (\<lambda>w. P (w_db w)) (authenticate sv rq)"
  unfolding authenticate_def by (intro keeps_intros inv_keeps)

lemma keeps_creation [inv_keeps]:
  "keeps (\<lambda>w. P (w_db w)) (register sv inp rq)" "keeps (\<lambda>w. P (w_db w)) (create_approved_account sv u e)"
  "keeps (\<lambda>w. P (w_db w)) (create_bot_account sv u l)" "keeps (\<lambda>w. P (w_db w)) (create_account_with_password sv u p)"
  unfolding register_def register_challenge_def create_approved_account_def create_bot_account_def
    create_account_with_password_def
  by (intro keeps_intros inv_keeps)+

lemma keeps_oauth [inv_keeps]:
  "keeps (\<lambda>w. P (w_db w)) (oauth_start sv p acc r)" "keeps (\<lambda>w. P (w_db w)) (save_calendar_grant_if_present sv i p tok)"
  "keeps (\<lambda>w. P (w_db w)) (bind_identity i p h)" "keeps (\<lambda>w. P (w_db w)) (callback_bind sv i p st tok subj)"
  "keeps (\<lambda>w. P (w_db w)) (callback_login sv p st tok subj rq)" "keeps (\<lambda>w. P (w_db w)) (oauth_callback sv p sv_tok c cur rq)"
  unfolding oauth_start_def save_calendar_grant_if_present_def bind_identity_def callback_bind_def
    callback_login_def oauth_callback_def Let_def
  by (intro keeps_intros inv_keeps)+

lemma keeps_admin_accounts [inv_keeps]:
  "keeps (\<lambda>w. P (w_db w)) (admin_account_contact sv acc)" "keeps (\<lambda>w. P (w_db w)) (admin_update_account_email sv acc e)"
  "keeps (\<lambda>w. P (w_db w)) (admin_update_account_school_email sv acc e)" "keeps (\<lambda>w. P (w_db w)) (admin_resend_activation sv acc)"
  unfolding admin_account_contact_def admin_update_account_email_def
    admin_update_account_school_email_def admin_resend_activation_def
  by (intro keeps_intros inv_keeps)+

lemma keeps_cleanup_run [inv_keeps]: "keeps (\<lambda>w. P (w_db w)) (cleanup_run ts)"
  by (induction ts) (simp_all add: keeps_intros inv_keeps)

lemma keeps_verify_turnstile [inv_keeps]: "keeps (\<lambda>w. P (w_db w)) (verify_turnstile h rq t a)"
  by (simp add: verify_turnstile_def keeps_ret keeps_fail split: sum.split turnstile_error.split)

lemma keeps_common [inv_keeps]:
  "keeps (\<lambda>w. P (w_db w)) (authenticated sv rq)" "keeps (\<lambda>w. P (w_db w)) (authorized sv rq rs)"
  "keeps (\<lambda>w. P (w_db w)) (authenticate_mutation sv rq)" "keeps (\<lambda>w. P (w_db w)) (decoded b m)"
  unfolding authenticated_def authorized_def authenticate_mutation_def decoded_def
  by (intro keeps_intros inv_keeps)+

lemma keeps_handle: "keeps (\<lambda>w. P (w_db w)) (handle h rq route)"
  by (cases route; simp only: handle.simps handler_defs serve_def serve_mfa_def Let_def;
      intro keeps_intros inv_keeps)

text \<open>The calls that other components make.\<close>

lemmas service_keeps = keeps_creation keeps_account_ops keeps_admin_accounts keeps_cleanup_run

end

section \<open>The invariant of the tables\<close>

lemma db_ok_add_mail: "db_ok d \<Longrightarrow> db_ok (d\<lparr>outbox := x, next_id := Suc (next_id d)\<rparr>)"
  by (rule db_ok_next_id[of d]) (auto simp: db_ok_def intro: challenges_ok_Suc)

lemma keeps_enqueue_email [store_keeps]:
  "keeps world_ok (enqueue_email en co acc rc k s x h kind m)"
  unfolding enqueue_email_def
  by (intro keeps_intros keeps_sql_insert) (auto simp: db_ok_add_mail)


interpretation table_inv: db_invariant db_ok
  by unfold_locales (rule store_keeps)+

section \<open>The invariant of the outbox\<close>

named_theorems mail_keeps \<open>methods that keep the invariant of the outbox\<close>

lemma outbox_ok_same: "outbox_ok d \<Longrightarrow> outbox d' = outbox d \<Longrightarrow> next_id d \<le> next_id d' \<Longrightarrow> outbox_ok d'"
  by (fastforce simp: outbox_ok_def)

lemma outbox_ok_filter: "outbox_ok d \<Longrightarrow> outbox_ok (d\<lparr>outbox := filter p (outbox d)\<rparr>)"
  by (auto simp: outbox_ok_def distinct_map_filter)

lemma mail_sql_write:
  "(\<And>d. outbox (g d) = outbox d \<and> next_id d \<le> next_id (g d)) \<Longrightarrow> keeps mail_ok (sql_write g f)"
  by (rule keeps_sql_write) (metis outbox_ok_same)

lemma mail_sql_insert:
  "(\<And>d. outbox (g d) = outbox d \<and> next_id d \<le> next_id (g d)) \<Longrightarrow> keeps mail_ok (sql_insert chk u g f)"
  by (rule keeps_sql_insert) (metis outbox_ok_same)

lemma mail_store [mail_keeps]:
  "keeps mail_ok (create_account u c h p)" "keeps mail_ok (create_pending_account u c h sc sh p)"
  "keeps mail_ok (find_account_by_username u)" "keeps mail_ok (find_account_by_id i)"
  "keeps mail_ok (get_account_contact i)" "keeps mail_ok (update_account_email i c h)"
  "keeps mail_ok (update_account_school_email i c h)" "keeps mail_ok (create_session i h c e ip ua)"
  "keeps mail_ok (find_active_session h t)" "keeps mail_ok (touch_session i t)"
  "keeps mail_ok (revoke_session i t)" "keeps mail_ok (list_active_sessions i t)"
  "keeps mail_ok (revoke_account_session i j t)" "keeps mail_ok (revoke_other_account_sessions i j t)"
  unfolding create_account_def create_pending_account_def insert_account_def find_account_by_username_def
    find_account_by_id_def get_account_contact_def update_account_email_def update_account_unique_def
    update_account_school_email_def create_session_def find_active_session_def touch_session_def
    revoke_session_def list_active_sessions_def revoke_account_session_def
    revoke_other_account_sessions_def
  by (intro keeps_intros mail_sql_write mail_sql_insert; simp)+

lemma mail_oauth_state: "keeps mail_ok (consume_oauth_state p s t)"
proof -
  have "outbox_ok (w_db (snd (consume_oauth_state p s t w)))" if "mail_ok w" for w
    using that by (auto simp: consume_oauth_state_def sql_def outbox_ok_def split: list.splits option.splits)
  then show ?thesis by (simp add: keeps_def)
qed

lemma mail_store2 [mail_keeps]:
  "keeps mail_ok (create_oauth_binding i p s)" "keeps mail_ok (rehash_oauth_subject p s s')"
  "keeps mail_ok (find_account_by_oauth_subject_hashes p hs)"
  "keeps mail_ok (create_oauth_state p a s v r rt e)" "keeps mail_ok (consume_oauth_state p s t)"
  "keeps mail_ok (create_email_verification_challenge i h t)"
  "keeps mail_ok (consume_email_verification_challenge i h t)"
  "keeps mail_ok (consume_email_verification_token h t)"
  "keeps mail_ok (lookup_account_id_by_email_hashes hs)"
  "keeps mail_ok (create_password_reset_challenge i h t b)"
  "keeps mail_ok (consume_password_reset_challenge h p t)"
  "keeps mail_ok (update_password_for_account i p j)"
  "keeps mail_ok (has_role r i)" "keeps mail_ok (grant_role i r)"
  unfolding create_oauth_binding_def rehash_oauth_subject_def find_account_by_oauth_subject_hashes_def
    create_oauth_state_def create_email_verification_challenge_def verify_email_of_def
    consume_email_verification_challenge_def consume_email_verification_token_def
    lookup_account_id_by_email_hashes_def create_password_reset_challenge_def
    consume_password_reset_challenge_def update_password_for_account_def has_role_def grant_role_def
  by (intro keeps_intros mail_oauth_state mail_sql_write mail_sql_insert; simp)+

lemma mail_store3 [mail_keeps]:
  "keeps mail_ok (is_admin i)" "keeps mail_ok (is_admissions_moderator i)"
  "keeps mail_ok (is_service_account i)" "keeps mail_ok get_require_admin_mfa"
  "keeps mail_ok (get_admin_mfa i)" "keeps mail_ok (save_admin_mfa_secret i ct e)"
  "keeps mail_ok (store_enable_admin_mfa i t)" "keeps mail_ok (touch_admin_mfa_verified i t)"
  "keeps mail_ok (store_disable_admin_mfa i)" "keeps mail_ok (find_account_by_service_token h t)"
  "keeps mail_ok (create_service_api_token i h l)" "keeps mail_ok (save_calendar_grant i p r s)"
  unfolding is_admin_def is_admissions_moderator_def is_service_account_def has_role_def
    get_require_admin_mfa_def get_admin_mfa_def save_admin_mfa_secret_def store_enable_admin_mfa_def
    touch_admin_mfa_verified_def store_disable_admin_mfa_def find_account_by_service_token_def
    create_service_api_token_def save_calendar_grant_def
  by (intro keeps_intros mail_sql_write mail_sql_insert; simp split: option.split)+

lemma mail_purge [mail_keeps]: "keeps mail_ok (purge_expired_pending_accounts t)"
  unfolding purge_expired_pending_accounts_def delete_pending_accounts_def
  by (intro keeps_intros keeps_sql_write outbox_ok_filter mail_sql_insert)
    (auto simp: Let_def outbox_ok_def)


lemmas [mail_keeps] = keeps_enqueue

interpretation mail_inv: db_invariant outbox_ok
  by unfold_locales (rule mail_keeps)+

end
