(* ===== verification/ToyService.thy ===== *)
theory ToyService imports ServiceInvariants begin

text \<open>
  A concrete service on concrete parameters (the toy cryptography of FieldCrypto, the toy
  environment of Environment), and what its building blocks evaluate to. Theorems about the
  service are applied to it.
\<close>

definition toy_ring :: field_cipher where
  "toy_ring = \<lparr>fc_keys = [(1, replicate 32 (CHR ''k''))], fc_primary = 1, fc_legacy = None\<rparr>"

definition toy_service :: service where
  "toy_service = \<lparr>sv_env = toy_env, sv_cipher = Some toy_ring,
     sv_hmac_key = replicate 32 (CHR ''h''),
     sv_hasher = \<lparr>lh_primary = replicate 32 (CHR ''h''), lh_secondary = []\<rparr>,
     sv_ttl = hour, sv_secure = True, sv_domain = ''sta.tw'', sv_distributed = NoDistributed,
     sv_notifier = True, sv_notify_cipher = Some toy_ring,
     sv_base_url = ''https://sta.tw'', sv_require_mfa = False, sv_grant_ttl = 5 * minute,
     sv_providers = [], sv_exchange = (\<lambda>p code verifier. None), sv_userinfo = (\<lambda>url tok. None),
     sv_auth_url = (\<lambda>p state params. op_auth_url p)\<rparr>"

definition toy_handler :: handler where
  "toy_handler = \<lparr>hd_service = toy_service, hd_turnstile = None, hd_siteverify = (\<lambda>s t r. None),
     hd_equal_fold = (\<lambda>a b. a = b)\<rparr>"

lemma toy_sel [simp]:
  "sv_env toy_service = toy_env" "e_crypto toy_env = toy_crypto" "sv_cipher toy_service = Some toy_ring"
  "sv_distributed toy_service = NoDistributed" "sv_ttl toy_service = hour"
  "sv_notifier toy_service" "sv_notify_cipher toy_service = Some toy_ring"
  "sv_grant_ttl toy_service = 5 * minute" "\<not> sv_require_mfa toy_service"
  by (simp_all add: toy_service_def toy_env_def)

lemma toy_ready [simp]: "ready toy_service"
  by (simp add: ready_def toy_service_def)

section \<open>Draws\<close>

definition toy_bytes :: "nat \<Rightarrow> nat \<Rightarrow> string" where
  "toy_bytes d n = replicate n (char_of (d mod 256))"

definition toy_token :: "nat \<Rightarrow> string" where
  "toy_token d = raw_url_encode (toy_bytes d 32)"

definition toy_hash :: "string \<Rightarrow> nat \<Rightarrow> string" where
  "toy_hash p d = ''argon2id$v=19$''
     @ format_params password_memory password_iterations password_parallelism
     @ ''$'' @ raw_std_encode (toy_bytes d 16)
     @ ''$'' @ raw_std_encode (c_argon2id toy_crypto p (toy_bytes d 16) password_iterations
                 password_memory password_parallelism password_key_bytes)"

definition toy_ct :: "string \<Rightarrow> nat \<Rightarrow> string" where
  "toy_ct p d = char_of (1 :: nat) # toy_bytes d 12 @ toy_seal (replicate 32 (CHR ''k'')) (toy_bytes d 12) p"

lemma toy_rand_read: "rand_read toy_crypto n d = (Inr (toy_bytes d n), Suc d)"
  by (simp add: rand_read_def toy_crypto_def toy_bytes_def)

lemma toy_opaque [simp]:
  "n \<le> 32 \<Longrightarrow> opaque_token toy_service n w = (Inr (toy_token (draws w)), w\<lparr>draws := Suc (draws w)\<rparr>)"
  by (auto simp: opaque_token_def with_draws_def new_opaque_token_def bindM_def toy_rand_read ret_def toy_token_def)

lemma toy_hashed [simp]:
  "hashed_password toy_service p w = (Inr (toy_hash p (draws w)), w\<lparr>draws := Suc (draws w)\<rparr>)"
  by (simp add: hashed_password_def with_draws_def hash_password_def bindM_def toy_rand_read ret_def
      toy_hash_def password_salt_bytes_def)

lemma toy_fc_seal: "fc_seal toy_crypto (Some toy_ring) p d = (Inr (toy_ct p d), Suc d)"
  by (simp add: fc_seal_def toy_ring_def ring_key_def gcm_for_def bindM_def toy_rand_read ret_def toy_ct_def)
    (simp add: toy_crypto_def)

lemma toy_sealed [simp]: "seal_field toy_service p w = (Inr (toy_ct p (draws w)), w\<lparr>draws := Suc (draws w)\<rparr>)"
  by (simp add: seal_field_def with_draws_def toy_fc_seal)

lemma toy_ne [simp]: "toy_ct p d \<noteq> []" "toy_hash p d \<noteq> []"
  by (simp_all add: toy_ct_def toy_hash_def)

lemma toy_opens [simp]: "fc_open toy_crypto (Some toy_ring) (toy_ct p d) = Inr p"
proof -
  have "ring_ok toy_ring" by (simp add: toy_ring_def ring_ok_def ring_key_def)
  from fc_open_seal[OF toy_aead toy_rand this toy_fc_seal] show ?thesis by simp
qed

lemma toy_verify [simp]: "verify_password toy_crypto p (toy_hash p d) = Some True"
proof -
  have "hash_password toy_crypto p d = (Inr (toy_hash p d), Suc d)"
    by (simp add: hash_password_def bindM_def toy_rand_read ret_def toy_hash_def password_salt_bytes_def)
  from verify_own_hash[OF toy_rand toy_argon this] show ?thesis by simp
qed

section \<open>Names\<close>

lemma toy_names [simp]:
  "normalize_username (e_unicode toy_env) ''Amy.Lin'' = Inr ''amy.lin''"
  "validate_password ''correct horse'' = Inr ()"
  by code_simp+

section \<open>An account\<close>

definition toy_account :: account_row where
  "toy_account = \<lparr>a_id = 1, a_username = ''amy.lin'', a_email_ct = toy_ct [] 2,
     a_email_hash = lh_hash toy_crypto (sv_hasher toy_service) (''manual:'' @ ''amy.lin'' @ '':'' @ toy_token 1),
     a_school_ct = None, a_school_hash = None, a_password = toy_hash ''correct horse'' 0,
     a_identity = ''temporary'', a_status = ''active'', a_verified_at = None, a_updated = 1000 * second\<rparr>"

definition toy_world :: world where
  "toy_world = demo_world\<lparr>w_db := empty_db\<lparr>accounts := [toy_account], next_id := 2\<rparr>, draws := 3\<rparr>"

lemma toy_created:
  "create_account_with_password toy_service ''Amy.Lin'' ''correct horse'' demo_world
    = (Inr (account_of toy_account), toy_world)"
proof -
  have h: "lh_hash toy_crypto (sv_hasher toy_service) x \<noteq> []" for x
    by (simp add: lh_hash_def toy_crypto_def pad_len_def)
  show ?thesis
    by (simp add: create_account_with_password_def bindM_def liftM_def create_account_def insert_account_def
        map_errM_def readM_def sql_insert_def sql_def account_chk_def pg_blank_def rune_count_ascii
        ascii_def byte_of_def account_uniq_def toy_world_def toy_account_def demo_world_def empty_db_def h numeral_2_eq_2)
qed

section \<open>A queued mail\<close>


end
