(* ===== verification/ServerStates.thy ===== *)
theory ServerStates imports ToyService begin

text \<open>
  The server as a whole: the states that requests, calls of the other components, the clean-up
  worker, the e-mail worker, the passing of time and failures lead to from an empty database,
  and the invariants they all have.
\<close>

section \<open>The workers keep the invariants\<close>

lemma keeps_outbox_tables [store_keeps]:
  "keeps world_ok (claim_loop ts tasks)" "keeps world_ok (claim_email_outbox l)"
  "keeps world_ok (mark_email_sent i)" "keeps world_ok (mark_email_failed i m)"
proof -
  show loop: "keeps world_ok (claim_loop ts tasks)" for ts tasks
    by (induction tasks) (simp_all add: keeps_intros keeps_sql_write db_ok_outbox)
  show "keeps world_ok (claim_email_outbox l)"
    unfolding claim_email_outbox_def by (intro keeps_intros loop)
  show "keeps world_ok (mark_email_sent i)" "keeps world_ok (mark_email_failed i m)"
    unfolding mark_email_sent_def mark_email_failed_def Let_def
    by (intro keeps_intros keeps_sql_write keeps_sql_insert db_ok_outbox; assumption)+
qed

lemma keeps_process:
  fixes P :: "db \<Rightarrow> bool"
  assumes claim: "\<And>l. keeps (\<lambda>w. P (w_db w)) (claim_email_outbox l)"
    and sent: "\<And>i. keeps (\<lambda>w. P (w_db w)) (mark_email_sent i)"
    and failed: "\<And>i m. keeps (\<lambda>w. P (w_db w)) (mark_email_failed i m)"
  shows "keeps (\<lambda>w. P (w_db w)) (process_once en co batch (ret ()))"
proof -
  have mail: "keeps (\<lambda>w. P (w_db w)) (send_mail en m)" for m
    by (simp add: keeps_def send_mail_def)
  have tasks: "keeps (\<lambda>w. P (w_db w)) (process_tasks en c tasks first)" for c tasks first
    by (induction tasks arbitrary: first)
      (simp_all add: process_task_def note_failure_def keeps_intros mail sent failed)
  show ?thesis unfolding process_once_def by (intro keeps_intros claim tasks)
qed

section \<open>Steps\<close>

inductive server_step :: "handler \<Rightarrow> world \<Rightarrow> world \<Rightarrow> bool" for h :: handler where
  request: "response_of (handle h rq route) w = (r, w') \<Longrightarrow> server_step h w w'"
| approve: "create_approved_account (hd_service h) u e w = (r1, w') \<Longrightarrow> server_step h w w'"
| activate: "send_approved_account_activation (hd_service h) c acc w = (r2, w') \<Longrightarrow> server_step h w w'"
| bot: "create_bot_account (hd_service h) u l w = (r3, w') \<Longrightarrow> server_step h w w'"
| manual: "create_account_with_password (hd_service h) u p w = (r1, w') \<Longrightarrow> server_step h w w'"
| contact: "admin_update_account_email (hd_service h) acc e w = (r2, w') \<Longrightarrow> server_step h w w'"
| school: "admin_update_account_school_email (hd_service h) acc e w = (r2, w') \<Longrightarrow> server_step h w w'"
| resend: "admin_resend_activation (hd_service h) acc w = (r4, w') \<Longrightarrow> server_step h w w'"
| reset_for: "request_password_reset_for_account (hd_service h) acc w = (r2, w') \<Longrightarrow> server_step h w w'"
| clean: "cleanup_run ts w = (r5 :: unit + unit, w') \<Longrightarrow> server_step h w w'"
| mails: "process_once (sv_env (hd_service h)) (sv_notify_cipher (hd_service h)) batch (ret ()) w
    = (r6 :: unit + worker_error option, w')
    \<Longrightarrow> server_step h w w'"
| environment: "w_db w' = w_db w \<Longrightarrow> server_step h w w'"

inductive served :: "handler \<Rightarrow> world \<Rightarrow> bool" for h :: handler where
  start: "w_db w = empty_db \<Longrightarrow> served h w"
| step: "served h w \<Longrightarrow> server_step h w w' \<Longrightarrow> served h w'"

lemma server_step_keeps:
  fixes P :: "db \<Rightarrow> bool"
  assumes inv: "db_invariant P"
    and worker: "\<And>en co b. keeps (\<lambda>w. P (w_db w)) (process_once en co b (ret ()) :: (world, unit, worker_error option) op)"
    and step: "server_step h w w'" and P: "P (w_db w)"
  shows "P (w_db w')"
  using step P
proof (induction rule: server_step.induct)
  case (request rq route w r w')
  with db_invariant.keeps_handle[OF inv, of h rq route] show ?case
    by (auto simp: response_of_def split: prod.splits sum.splits dest: keepsD)
next
  case (mails batch w r w')
  with worker show ?case by (blast dest: keepsD)
qed ((erule (1) db_invariant.service_keeps[OF inv, THEN keepsD])+, simp)

section \<open>Every state of the server\<close>

lemma served_tables: "served h w \<Longrightarrow> world_ok w"
proof (induction rule: served.induct)
  case (step w w')
  show ?case
    by (rule server_step_keeps[OF table_inv.db_invariant_axioms _ step(2,3)])
      (intro keeps_process store_keeps)
qed (simp add: empty_db_ok)

lemma served_outbox: "served h w \<Longrightarrow> mail_ok w"
proof (induction rule: served.induct)
  case (step w w')
  show ?case
    by (rule server_step_keeps[OF mail_inv.db_invariant_axioms _ step(2,3)])
      (intro keeps_process keeps_claim keeps_mark_sent keeps_mark_failed)
qed (simp add: empty_db_def outbox_ok_def)

text \<open>
  Property C7. In every state the server can reach, whatever requests, workers and failures led to
  it: no two accounts share an id, a user name, an e-mail or a school e-mail; no two sessions share
  a token; every session and every password challenge belongs to an existing account; an account
  has at most one open password challenge; and no two mails of the outbox share account and
  deduplication key.
\<close>

theorem served_keys:
  assumes "served h w"
  shows "(\<forall>a \<in> set (accounts (w_db w)). \<forall>b \<in> set (accounts (w_db w)).
      a_id a = a_id b \<or> a_username a = a_username b \<or> a_email_hash a = a_email_hash b
        \<or> (a_school_hash a \<noteq> None \<and> a_school_hash a = a_school_hash b) \<longrightarrow> a = b)
    \<and> (\<forall>s \<in> set (sessions (w_db w)). has_account (w_db w) (s_account s)
        \<and> (\<forall>s' \<in> set (sessions (w_db w)). s_token s = s_token s' \<longrightarrow> s = s'))
    \<and> (\<forall>c \<in> set (reset_challenges (w_db w)). has_account (w_db w) (c_account c)
        \<and> (\<forall>c' \<in> set (reset_challenges (w_db w)). open_challenge (c_account c) c
              \<longrightarrow> open_challenge (c_account c) c' \<longrightarrow> c = c'))
    \<and> (\<forall>e \<in> set (outbox (w_db w)). \<forall>e' \<in> set (outbox (w_db w)).
        e_account e = e_account e' \<and> e_dedup e = e_dedup e' \<longrightarrow> e = e')"
proof -
  have "e = e'" if "e \<in> set (outbox (w_db w))" "e' \<in> set (outbox (w_db w))"
    "e_account e = e_account e' \<and> e_dedup e = e_dedup e'" for e e'
    using served_outbox[OF assms] that distinct_key_eq[of "\<lambda>e. (e_account e, e_dedup e)"]
    unfolding outbox_ok_def by blast
  with db_ok_keys[OF served_tables[OF assms]] show ?thesis by blast
qed

theorem served_keys_witness:
  "\<exists>w. served toy_handler w \<and> map a_username (accounts (w_db w)) = [''amy.lin'']
     \<and> (\<forall>a \<in> set (accounts (w_db w)). \<forall>b \<in> set (accounts (w_db w)). a_username a = a_username b \<longrightarrow> a = b)"
proof -
  let ?r = "create_account_with_password toy_service ''Amy.Lin'' ''correct horse'' demo_world"
  have "served toy_handler demo_world" by (rule served.start) (simp add: demo_world_def)
  moreover have "server_step toy_handler demo_world (snd ?r)"
    by (rule server_step.manual[of _ "''Amy.Lin''" "''correct horse''" _ "fst ?r"]) (simp add: toy_handler_def)
  ultimately have s: "served toy_handler (snd ?r)" by (rule served.step)
  have "map a_username (accounts (w_db (snd ?r))) = [''amy.lin'']" by (simp add: toy_created toy_world_def toy_account_def)
  moreover have "\<forall>a \<in> set (accounts (w_db (snd ?r))). \<forall>b \<in> set (accounts (w_db (snd ?r))).
      a_username a = a_username b \<longrightarrow> a = b"
    using conjunct1[OF served_keys[OF s]] by blast
  ultimately show ?thesis using s by (intro exI[of _ "snd ?r"] conjI)
qed

end
