(* ===== verification/LoginProperties.thy ===== *)
theory LoginProperties imports ServerStates begin

text \<open>
  What login, authentication and logout promise: who gets a session, what the session opens, and
  that a session once revoked stays shut in every later state of the server.
\<close>

section \<open>Steps that leave the tables alone\<close>

lemma distributed_allow_D:
  "distributed_allow sv ns key l win w = (r, w') \<Longrightarrow> w_db w' = w_db w \<and> now w' = now w \<and> draws w' = draws w"
  by (auto simp: distributed_allow_def Let_def split: distributed_limiter.splits prod.splits)

lemma rate_allowed_D:
  assumes "rate_allowed sv get upd ns key l win w = (r, w')"
    and "\<And>f w. w_db (upd f w) = w_db w \<and> now (upd f w) = now w \<and> draws (upd f w) = draws w"
  shows "w_db w' = w_db w \<and> now w' = now w \<and> draws w' = draws w"
proof -
  obtain ok l' where "allow_hit (get w) key (now w) = (ok, l')" by fastforce
  with assms(1) consider "w' = upd (\<lambda>_. l') w"
    | x where "distributed_allow sv ns key l win (upd (\<lambda>_. l') w) = (x, w')"
    by (cases ok) (auto simp: rate_allowed_def map_errM_def split: prod.splits sum.splits)
  then show ?thesis
  proof cases
    case 1
    with assms(2) show ?thesis by simp
  next
    case 2
    from distributed_allow_D[OF this] assms(2) show ?thesis by simp
  qed
qed

lemma limiter_D:
  "login_allowed sv rq w = (r, w') \<Longrightarrow> w_db w' = w_db w \<and> now w' = now w"
  "register_allowed sv rq w = (r, w') \<Longrightarrow> w_db w' = w_db w \<and> now w' = now w"
  "rate_allowed sv login_account_limiter login_account_limiter_update ns key l win w = (r, w')
     \<Longrightarrow> w_db w' = w_db w \<and> now w' = now w"
  "rate_allowed sv register_email_limiter register_email_limiter_update ns key l win w = (r, w')
     \<Longrightarrow> w_db w' = w_db w \<and> now w' = now w"
  "rate_allowed sv email_limiter email_limiter_update ns key l win w = (r, w')
     \<Longrightarrow> w_db w' = w_db w \<and> now w' = now w"
  unfolding login_allowed_def register_allowed_def by (drule rate_allowed_D; simp)+

lemma draws_D:
  "opaque_token sv n w = (r, w') \<Longrightarrow> w_db w' = w_db w \<and> now w' = now w"
  "hashed_password sv p w = (r, w') \<Longrightarrow> w_db w' = w_db w \<and> now w' = now w"
  "seal_field sv p w = (r, w') \<Longrightarrow> w_db w' = w_db w \<and> now w' = now w"
  unfolding opaque_token_def hashed_password_def seal_field_def
  by (auto simp: with_draws_def split: prod.splits sum.splits)

lemma opaque_token_drawn:
  "opaque_token sv n w = (Inr t, w') \<Longrightarrow> new_opaque_token (sv_crypto sv) n (draws w) = (Inr t, draws w')"
  by (auto simp: opaque_token_def with_draws_Inr)

text \<open>
  \<open>reader m\<close>: the step changes neither the tables nor the clock; \<open>atomic m\<close>: it does not
  change the tables when it fails.
\<close>

named_theorems reader_intros \<open>steps that never change the tables\<close>
named_theorems atomic_intros \<open>steps that change the tables only when they succeed\<close>

definition reader :: "(world, 'e, 'a) op \<Rightarrow> bool" where
  "reader m \<longleftrightarrow> (\<forall>w. w_db (snd (m w)) = w_db w \<and> now (snd (m w)) = now w)"

definition atomic :: "(world, 'e, 'a) op \<Rightarrow> bool" where
  "atomic m \<longleftrightarrow> (\<forall>w e w'. m w = (Inl e, w') \<longrightarrow> w_db w' = w_db w)"

lemma readerD: "reader m \<Longrightarrow> m w = (r, w') \<Longrightarrow> w_db w' = w_db w \<and> now w' = now w"
  by (metis reader_def snd_conv)

lemma readerI: "(\<And>w r w'. m w = (r, w') \<Longrightarrow> w_db w' = w_db w \<and> now w' = now w) \<Longrightarrow> reader m"
  by (metis reader_def prod.collapse)

lemma atomicD: "atomic m \<Longrightarrow> m w = (Inl e, w') \<Longrightarrow> w_db w' = w_db w"
  by (auto simp: atomic_def)

lemma reader_basic [reader_intros]:
  "reader (ret x)" "reader (fail e)" "reader (liftM r)" "reader (readM f)" "reader (sql_read q)"
  "reader (login_allowed sv rq)" "reader (register_allowed sv rq)"
  "reader (rate_allowed sv login_account_limiter login_account_limiter_update ns key l win)"
  "reader (rate_allowed sv register_email_limiter register_email_limiter_update ns key l win)"
  "reader (rate_allowed sv email_limiter email_limiter_update ns key l win)"
  "reader (opaque_token sv n)" "reader (hashed_password sv p)" "reader (seal_field sv p)"
proof -
  show "reader (ret x)" "reader (fail e)" "reader (liftM r)" "reader (readM f)"
    by (simp_all add: reader_def ret_def fail_def liftM_def readM_def)
  show "reader (sql_read q)"
    by (simp add: reader_def sql_read_def sql_def split: list.split option.split)
qed (rule readerI; drule limiter_D draws_D; simp)+

lemma reader_map_errM [reader_intros]: "reader m \<Longrightarrow> reader (map_errM c m)"
  by (simp add: reader_def)

lemma reader_bindM [reader_intros]: "reader m \<Longrightarrow> (\<And>x. reader (f x)) \<Longrightarrow> reader (bindM m f)"
proof (rule readerI)
  fix w r w' assume m: "reader m" and f: "\<And>x. reader (f x)" and run: "bindM m f w = (r, w')"
  obtain r1 w1 where 1: "m w = (r1, w1)" by fastforce
  have "w_db w1 = w_db w \<and> now w1 = now w" using m 1 by (rule readerD)
  with run 1 show "w_db w' = w_db w \<and> now w' = now w"
    by (cases r1) (auto simp: bindM_def dest: readerD[OF f])
qed

text \<open>Inversion of a successful run that begins with a guard or with a step of these.\<close>

lemma reader_bindE:
  assumes "reader m" "bindM m k w = (Inr y, w')"
  obtains x w1 where "m w = (Inr x, w1)" "w_db w1 = w_db w" "now w1 = now w" "k x w1 = (Inr y, w')"
proof -
  from assms(2) obtain x w1 where "m w = (Inr x, w1)" "k x w1 = (Inr y, w')" by auto
  with readerD[OF assms(1) this(1)] that show thesis by blast
qed

lemmas reader_bindEs = reader_basic[THEN reader_bindE]

lemma lift_bindE:
  assumes "bindM (map_errM c (liftM r)) k w = (Inr y, w')"
  obtains x where "r = Inr x" "k x w = (Inr y, w')"
  using assms by auto

lemma atomic_reader: "reader m \<Longrightarrow> atomic m"
  by (auto simp: atomic_def dest: readerD)

lemma atomic_bindM [atomic_intros]: "reader m \<Longrightarrow> (\<And>x. atomic (f x)) \<Longrightarrow> atomic (bindM m f)"
  by (auto simp: atomic_def bindM_Inl_iff dest: readerD)

lemma atomic_bindM_last [atomic_intros]: "atomic m \<Longrightarrow> atomic (bindM m (\<lambda>x. ret (f x)))"
  by (auto simp: atomic_def bindM_Inl_iff)

lemma atomic_map_errM [atomic_intros]: "atomic m \<Longrightarrow> atomic (map_errM c m)"
  by (auto simp: atomic_def map_errM_Inl_iff)

lemma atomic_sql [atomic_intros]:
  "atomic (sql_write g f)" "atomic (sql_insert chk uniq g f)" "atomic (transaction c m)"
  by (auto simp: atomic_def dest: sql_Inl_db transaction_Inl_db)

lemma atomic_cases [atomic_intros]:
  "(b \<Longrightarrow> atomic m) \<Longrightarrow> (\<not> b \<Longrightarrow> atomic n) \<Longrightarrow> atomic (if b then m else n)"
  "(\<And>x y. p = (x, y) \<Longrightarrow> atomic (k x y)) \<Longrightarrow> atomic (case p of (x, y) \<Rightarrow> k x y)"
  "atomic (ret x)" "atomic (fail e)"
  by (auto simp: atomic_def split: prod.split)

section \<open>Login\<close>

definition new_session :: "service \<Rightarrow> session_result \<Rightarrow> session_row \<Rightarrow> bool" where
  "new_session sv r s \<longleftrightarrow> s_account s = acc_id (sr_account r)
     \<and> s_token s = hash_opaque_token (sv_crypto sv) (sr_token r)
     \<and> s_csrf s = hash_opaque_token (sv_crypto sv) (sr_csrf r)
     \<and> s_expires s = sr_expires r \<and> s_revoked s = None"

lemma start_session_effect:
  assumes "start_session sv a rq w = (Inr r, w')"
  obtains s where "new_session sv r s" "sr_account r = a" "sr_expires r = now w + sv_ttl sv"
    "w_db w' = (w_db w)\<lparr>sessions := sessions (w_db w) @ [s], next_id := Suc (next_id (w_db w))\<rparr>"
    "has_account (w_db w) (acc_id a)" "\<forall>x \<in> set (sessions (w_db w)). s_token x \<noteq> s_token s"
    "\<exists>d d'. new_opaque_token (sv_crypto sv) 32 d = (Inr (sr_token r), d')"
    "\<exists>d d'. new_opaque_token (sv_crypto sv) 32 d = (Inr (sr_csrf r), d')"
proof -
  from assms obtain token w1 csrf w2 ip agent i w3 where t: "opaque_token sv 32 w = (Inr token, w1)"
    and c: "opaque_token sv 32 w1 = (Inr csrf, w2)"
    and cs: "create_session (acc_id a) (hash_opaque_token (sv_crypto sv) token)
              (hash_opaque_token (sv_crypto sv) csrf) (now w2 + sv_ttl sv) ip agent w2 = (Inr i, w')"
    and r: "r = \<lparr>sr_account = a, sr_token = token, sr_csrf = csrf, sr_expires = now w2 + sv_ttl sv\<rparr>"
    unfolding start_session_def by (elim reader_bindEs) (auto simp: Let_def)
  have same: "w_db w2 = w_db w" "now w2 = now w" using draws_D(1)[OF t] draws_D(1)[OF c] by simp_all
  let ?s = "\<lparr>s_id = i, s_account = acc_id a, s_token = hash_opaque_token (sv_crypto sv) token,
      s_csrf = hash_opaque_token (sv_crypto sv) csrf, s_expires = now w2 + sv_ttl sv, s_ip = ip,
      s_agent = agent, s_revoked = None, s_last_seen = None, s_created = db_now w2\<rparr>"
  from create_session_effect[OF cs] same show thesis
    by (intro that[of ?s]) (auto simp: new_session_def r intro: opaque_token_drawn[OF t] opaque_token_drawn[OF c])
qed

lemma start_session_atomic: "atomic (start_session sv a rq)"
  unfolding start_session_def Let_def create_session_def
  by (intro atomic_intros reader_intros)

lemma login_atomic: "atomic (login sv u p rq)"
  unfolding login_def find_account_by_username_def
  by (intro atomic_intros reader_intros start_session_atomic)

lemma find_account_by_username_Inr:
  assumes "find_account_by_username u w = (Inr (a, h), w')"
  obtains row where "row \<in> set (accounts (w_db w))" "a_username row = u" "a = account_of row"
    "h = a_password row" "w_db w' = w_db w" "now w' = now w"
proof -
  from assms obtain row where f: "List.find (\<lambda>r. a_username r = u) (accounts (w_db w)) = Some row"
    and r: "a = account_of row" "h = a_password row" "w_db w' = w_db w" "now w' = now w"
    unfolding find_account_by_username_def by (auto dest!: sql_read_Inr)
  from find_Some_D[OF f] show thesis by (intro that[of row] r) simp_all
qed

lemma login_Inr:
  assumes "login sv u p rq w = (Inr r, w')"
  obtains name row w1 where "normalize_username (sv_unicode sv) u = Inr name"
    "row \<in> set (accounts (w_db w))" "a_username row = name" "a_status row = ''active''"
    "verify_password (sv_crypto sv) p (a_password row) = Some True"
    "w_db w1 = w_db w" "now w1 = now w" "start_session sv (account_of row) rq w1 = (Inr r, w')"
  using assms unfolding login_def
proof (elim if_failE reader_bindEs lift_bindE, goal_cases)
  case (1 ok w1 name ok2 w2)
  from 1(12) obtain a hash w3 where 4: "find_account_by_username name w2 = (Inr (a, hash), w3)"
    and v: "verify_password (sv_crypto sv) p hash = Some True" "acc_status a = ''active''"
    and s: "start_session sv a rq w3 = (Inr r, w')"
    by (auto split: if_splits)
  from 4 obtain row where row: "row \<in> set (accounts (w_db w2))" "a_username row = name"
      "a = account_of row" "hash = a_password row" "w_db w3 = w_db w2" "now w3 = now w2"
    by (rule find_account_by_username_Inr)
  show thesis
    by (rule 1(1)[of name row w3]) (use row v s 1 in \<open>simp_all add: account_of_def\<close>)
qed

text \<open>
  Property C13. A login either fails and leaves every table as it was, or names an active account
  by its normalized user name, whose stored hash verifies the password, and adds exactly one
  session row, for this account: unrevoked, expiring one session lifetime from now, found by the
  hash of a token that no other session has.
\<close>

theorem login_sound:
  "case login sv u p rq w of
     (Inl e, w') \<Rightarrow> w_db w' = w_db w
   | (Inr r, w') \<Rightarrow> \<exists>name row s.
       normalize_username (sv_unicode sv) u = Inr name
       \<and> row \<in> set (accounts (w_db w)) \<and> a_username row = name \<and> a_status row = ''active''
       \<and> verify_password (sv_crypto sv) p (a_password row) = Some True
       \<and> sr_account r = account_of row \<and> sr_expires r = now w + sv_ttl sv
       \<and> new_session sv r s \<and> s_token s \<notin> s_token ` set (sessions (w_db w))
       \<and> w_db w' = (w_db w)\<lparr>sessions := sessions (w_db w) @ [s], next_id := Suc (next_id (w_db w))\<rparr>"
proof -
  obtain x w' where run: "login sv u p rq w = (x, w')" by fastforce
  show ?thesis
  proof (cases x)
    case (Inl e)
    with run atomicD[OF login_atomic] show ?thesis by simp
  next
    case (Inr r)
    from run[unfolded Inr] obtain name row w1 where l: "normalize_username (sv_unicode sv) u = Inr name"
      "row \<in> set (accounts (w_db w))" "a_username row = name" "a_status row = ''active''"
      "verify_password (sv_crypto sv) p (a_password row) = Some True"
      and same: "w_db w1 = w_db w" "now w1 = now w"
      and s: "start_session sv (account_of row) rq w1 = (Inr r, w')"
      by (rule login_Inr)
    from s obtain s where "new_session sv r s" "sr_account r = account_of row"
      "sr_expires r = now w1 + sv_ttl sv"
      "w_db w' = (w_db w1)\<lparr>sessions := sessions (w_db w1) @ [s], next_id := Suc (next_id (w_db w1))\<rparr>"
      "\<forall>x \<in> set (sessions (w_db w1)). s_token x \<noteq> s_token s"
      by (rule start_session_effect)
    with l same run Inr show ?thesis
      by (auto simp: image_iff intro!: exI[of _ name] exI[of _ row] exI[of _ s])
  qed
qed

end
