(* ===== verification/ToyRun.thy ===== *)
theory ToyRun imports LoginProperties begin

text \<open>
  A run of the concrete service of ToyService: the account logs in, and its cookies authenticate
  the requests that follow. Theorems about later states are applied along this run.
\<close>

section \<open>Login\<close>

definition login_request :: request where
  "login_request = \<lparr>rq_remote = [], rq_headers = [], rq_cookies = [], rq_path = ''/api/v1/auth/login'',
     rq_host = ''sta.tw'', rq_url_host = []\<rparr>"

definition toy_session :: session_row where
  "toy_session = \<lparr>s_id = 2, s_account = 1, s_token = hash_opaque_token toy_crypto (toy_token 3),
     s_csrf = hash_opaque_token toy_crypto (toy_token 4), s_expires = 1000 * second + hour,
     s_ip = optional_hash toy_crypto (sv_hmac_key toy_service) ''unknown'',
     s_agent = optional_hash toy_crypto (sv_hmac_key toy_service) [], s_revoked = None,
     s_last_seen = None, s_created = 1000 * second\<rparr>"

definition toy_logged_in :: world where
  "toy_logged_in = toy_world\<lparr>w_db := (w_db toy_world)\<lparr>sessions := [toy_session], next_id := 3\<rparr>, draws := 5\<rparr>"

lemma toy_names_again [simp]: "normalize_username (e_unicode toy_env) ''amy.lin'' = Inr ''amy.lin''"
  by code_simp

lemma toy_hash_ne [simp]: "hash_opaque_token toy_crypto x \<noteq> []"
  by (simp add: hash_opaque_token_def toy_crypto_def pad_len_def)

lemma toy_ip [simp]: "client_ip toy_env (Some login_request) = ''unknown''"
  by code_simp

lemma toy_agent [simp]: "header login_request ''User-Agent'' = []"
  by code_simp

lemma toy_rate [simp]:
  "get w = None \<Longrightarrow> rate_allowed toy_service get upd ns key l win w = (Inr True, upd (\<lambda>_. None) w)"
  by (simp add: rate_allowed_def allow_hit_def take_hit_def distributed_allow_def map_errM_def)

lemma toy_login:
  "login toy_service ''amy.lin'' ''correct horse'' (Some login_request) toy_world
    = (Inr \<lparr>sr_account = account_of toy_account, sr_token = toy_token 3, sr_csrf = toy_token 4,
         sr_expires = 1000 * second + hour\<rparr>, toy_logged_in)"
  by (simp add: login_def bindM_def liftM_def map_errM_def login_allowed_def find_account_by_username_def sql_read_def sql_def
      toy_world_def demo_world_def toy_account_def account_of_def start_session_def readM_def
      create_session_def sql_insert_def has_account_def toy_logged_in_def toy_session_def empty_db_def)

section \<open>A request with the cookies\<close>

definition toy_request :: "string \<Rightarrow> request" where
  "toy_request path = \<lparr>rq_remote = [], rq_headers = [(''X-Csrf-Token'', toy_token 4)],
     rq_cookies = [(session_cookie_name, toy_token 3), (csrf_cookie_name, toy_token 4)],
     rq_path = path, rq_host = ''sta.tw'', rq_url_host = []\<rparr>"

lemma toy_acceptable: "token_acceptable (toy_token 3)" "toy_token 4 \<noteq> []"
  by code_simp+

lemma toy_credential: "request_credential (toy_request path) = Some (TokenCookie, toy_token 3)"
proof -
  have "bearer_from_header [] = []" by code_simp
  then show ?thesis
    using toy_acceptable(1) by (simp add: request_credential_def toy_request_def header_def cookie_def)
qed

definition toy_request_session :: request_session where
  "toy_request_session = \<lparr>rs_session = session_of toy_session toy_account, rs_kind = TokenCookie,
     rs_token = toy_token 3\<rparr>"

definition toy_touched :: world where
  "toy_touched = toy_logged_in\<lparr>w_db := (w_db toy_logged_in)\<lparr>sessions :=
     [toy_session\<lparr>s_last_seen := Some (1000 * second)\<rparr>]\<rparr>\<rparr>"

lemma toy_authenticate:
  assumes "\<not> has_prefix path ''/api/v1/admin/''"
  shows "authenticate toy_service (toy_request path) toy_logged_in = (Inr toy_request_session, toy_touched)"
proof -
  have "rq_path (toy_request path) = path" by (simp add: toy_request_def)
  with assms show ?thesis
    by (simp add: authenticate_def toy_credential bindM_def readM_def catchM_def find_active_session_def
      map_errM_def sql_read_def sql_def join_session_def toy_logged_in_def toy_world_def demo_world_def
      toy_session_def session_live_def has_account_def find_account_def toy_account_def account_of_def
      session_of_def admin_path_def ret_def ignoreM_def touch_session_def sql_write_def update_where_def
      toy_request_session_def toy_touched_def)
qed

lemma toy_authorized: "authorize_mutation toy_service (toy_request path) toy_request_session = Inr ()"
  using toy_acceptable(2)
  by (simp add: authorize_mutation_def toy_request_session_def toy_request_def header_def cookie_def
      session_cookie_name_def csrf_cookie_name_def constant_time_string_equal_def session_of_def toy_session_def)

lemma toy_logout:
  "\<exists>resp w'. handle toy_handler (toy_request ''/api/v1/auth/logout'') Logout toy_logged_in = (Inr resp, w')"
proof -
  have "\<not> has_prefix ''/api/v1/auth/logout'' ''/api/v1/admin/''" by code_simp
  from toy_authenticate[OF this] show ?thesis
    by (simp add: toy_handler_def handle_logout_def bindM_def map_errM_def authorized_def liftM_def
        toy_authorized logout_def readM_def revoke_session_def sql_write_def sql_def toy_touched_def
        toy_logged_in_def toy_world_def demo_world_def)
qed

section \<open>The states are reachable\<close>

lemma toy_served: "served toy_handler toy_world"
proof -
  have "served toy_handler demo_world" by (rule served.start) (simp add: demo_world_def)
  moreover have "server_step toy_handler demo_world toy_world"
    by (rule server_step.manual[of _ "''Amy.Lin''" "''correct horse''"]) (simp add: toy_handler_def toy_created)
  ultimately show ?thesis by (rule served.step)
qed

lemma toy_served_login: "served toy_handler toy_logged_in"
proof -
  let ?m = "handle toy_handler login_request (Login (Some (''amy.lin'', ''correct horse'', [])))"
  have "snd (response_of ?m toy_world) = toy_logged_in"
    by (simp add: toy_handler_def handle_login_def decoded_def verify_turnstile_def bindM_def map_errM_def
        toy_login readM_def response_of_def ret_def)
  then have "server_step toy_handler toy_world toy_logged_in"
    by (intro server_step.request[of _ login_request "Login (Some (''amy.lin'', ''correct horse'', []))" _
          "fst (response_of ?m toy_world)"]) (metis prod.collapse)
  with toy_served show ?thesis by (rule served.step)
qed

end
