(* ===== verification/RevokedSessions.thy ===== *)
theory RevokedSessions imports ToyRun begin

text \<open>
  A session that was revoked - by a logout, from the session list, by a password reset or change -
  is not usable in any later state of the server: the third instance of the contract
  \<open>db_invariant\<close>, for the predicate \<open>the session of this token is revoked\<close>.
\<close>

section \<open>A revoked session stays shut\<close>

text \<open>\<open>session_known tok i dead d\<close>: session \<open>i\<close> has this token hash, and is revoked if \<open>dead\<close>.\<close>

definition session_known :: "string \<Rightarrow> uuid \<Rightarrow> bool \<Rightarrow> db \<Rightarrow> bool" where
  "session_known tok i dead d \<longleftrightarrow>
     (\<exists>s \<in> set (sessions d). s_token s = tok \<and> s_id s = i \<and> (dead \<longrightarrow> s_revoked s \<noteq> None))"

abbreviation known_in :: "string \<Rightarrow> uuid \<Rightarrow> bool \<Rightarrow> world \<Rightarrow> bool" where
  "known_in tok j dead w \<equiv> session_known tok j dead (w_db w)"

named_theorems session_keeps \<open>methods after which a session keeps its id and token and stays revoked\<close>

lemma coalesce_not_None: "x \<noteq> None \<Longrightarrow> coalesce x t \<noteq> None"
  by (simp add: coalesce_def split: option.split)

lemma session_known_same: "sessions d' = sessions d \<Longrightarrow> session_known tok n dead d \<Longrightarrow> session_known tok n dead d'"
  by (simp add: session_known_def)

lemma session_known_append: "session_known tok n dead d \<Longrightarrow> sessions d' = sessions d @ xs \<Longrightarrow> session_known tok n dead d'"
  by (auto simp: session_known_def)

lemma session_known_update:
  assumes "session_known tok n dead d" "sessions d' = update_where p f (sessions d)"
    "\<And>s. s_token (f s) = s_token s" "\<And>s. s_id (f s) = s_id s" "\<And>s. s_revoked s \<noteq> None \<Longrightarrow> s_revoked (f s) \<noteq> None"
  shows "session_known tok n dead d'"
proof -
  from assms(1) obtain s where s: "s \<in> set (sessions d)" "s_token s = tok" "s_id s = n" "dead \<longrightarrow> s_revoked s \<noteq> None"
    by (auto simp: session_known_def)
  then have "(if p s then f s else s) \<in> set (sessions d')"
    by (simp add: assms(2) update_where_def)
  with s assms(3-5) show ?thesis unfolding session_known_def by (metis (full_types))
qed

lemma session_known_revoke:
  "session_known tok n dead d \<Longrightarrow> session_known tok n dead (d\<lparr>sessions := update_where p (revoke_row t) (sessions d)\<rparr>)"
  by (erule session_known_update[where p = p and f = "revoke_row t"]) (simp_all add: revoke_row_def coalesce_not_None)

lemma session_known_touch:
  "session_known tok n dead d \<Longrightarrow> session_known tok n dead (d\<lparr>sessions := update_where p (\<lambda>s. s\<lparr>s_last_seen := x\<rparr>) (sessions d)\<rparr>)"
  by (erule session_known_update[where p = p and f = "\<lambda>s. s\<lparr>s_last_seen := x\<rparr>"]) simp_all

lemma dead_sql_write: "(\<And>d. sessions (g d) = sessions d) \<Longrightarrow> keeps (known_in tok n dead) (sql_write g f)"
  by (rule keeps_sql_write) (metis session_known_same)

lemma dead_sql_insert: "(\<And>d. sessions (g d) = sessions d) \<Longrightarrow> keeps (known_in tok n dead) (sql_insert c u g f)"
  by (rule keeps_sql_insert) (metis session_known_same)

lemma dead_sessions [session_keeps]:
  "keeps (known_in tok n dead) (create_session i h c e ip ua)" "keeps (known_in tok n dead) (touch_session i t)"
  "keeps (known_in tok n dead) (revoke_session i t)" "keeps (known_in tok n dead) (revoke_account_session i j t)"
  "keeps (known_in tok n dead) (revoke_other_account_sessions i j t)"
  "keeps (known_in tok n dead) (consume_password_reset_challenge h p t)"
  "keeps (known_in tok n dead) (update_password_for_account i p j)"
proof -
  have "keeps (known_in tok n dead) (sql_write (\<lambda>d. d\<lparr>sessions := update_where (p d) (revoke_row t) (sessions d)\<rparr>) f)"
    for p t and f :: "db \<Rightarrow> 'x" by (rule keeps_sql_write) (rule session_known_revoke)
  note r = this[of "\<lambda>_. p" for p]
  show "keeps (known_in tok n dead) (create_session i h c e ip ua)"
    unfolding create_session_def
    by (intro keeps_intros keeps_sql_insert) (erule session_known_append, simp)
  show "keeps (known_in tok n dead) (touch_session i t)"
    unfolding touch_session_def by (intro keeps_intros keeps_sql_write session_known_touch)
  show "keeps (known_in tok n dead) (revoke_session i t)" "keeps (known_in tok n dead) (revoke_account_session i j t)"
    "keeps (known_in tok n dead) (revoke_other_account_sessions i j t)"
    unfolding revoke_session_def revoke_account_session_def revoke_other_account_sessions_def
    by (intro keeps_intros r)+
  show "keeps (known_in tok n dead) (consume_password_reset_challenge h p t)"
    "keeps (known_in tok n dead) (update_password_for_account i p j)"
    unfolding consume_password_reset_challenge_def update_password_for_account_def
    by (intro keeps_intros r dead_sql_write; simp)+
qed

lemma dead_store [session_keeps]:
  "keeps (known_in tok n dead) (create_account u c h p)" "keeps (known_in tok n dead) (create_pending_account u c h sc sh p)"
  "keeps (known_in tok n dead) (find_account_by_username u)" "keeps (known_in tok n dead) (find_account_by_id i)"
  "keeps (known_in tok n dead) (get_account_contact i)" "keeps (known_in tok n dead) (update_account_email i c h)"
  "keeps (known_in tok n dead) (update_account_school_email i c h)" "keeps (known_in tok n dead) (find_active_session h t)"
  "keeps (known_in tok n dead) (list_active_sessions i t)"
  unfolding create_account_def create_pending_account_def insert_account_def find_account_by_username_def
    find_account_by_id_def get_account_contact_def update_account_email_def update_account_unique_def
    update_account_school_email_def find_active_session_def list_active_sessions_def
  by (intro keeps_intros dead_sql_write dead_sql_insert; simp)+

lemma dead_oauth_state [session_keeps]: "keeps (known_in tok n dead) (consume_oauth_state p s t)"
  unfolding consume_oauth_state_def
  by (intro keeps_intros keeps_sql) (auto split: option.splits intro: session_known_same)

lemma dead_store2 [session_keeps]:
  "keeps (known_in tok n dead) (create_oauth_binding i p s)" "keeps (known_in tok n dead) (rehash_oauth_subject p s s')"
  "keeps (known_in tok n dead) (find_account_by_oauth_subject_hashes p hs)"
  "keeps (known_in tok n dead) (create_oauth_state p a s v r rt e)"
  "keeps (known_in tok n dead) (create_email_verification_challenge i h t)"
  "keeps (known_in tok n dead) (consume_email_verification_challenge i h t)"
  "keeps (known_in tok n dead) (consume_email_verification_token h t)"
  "keeps (known_in tok n dead) (lookup_account_id_by_email_hashes hs)"
  "keeps (known_in tok n dead) (create_password_reset_challenge i h t b)"
  "keeps (known_in tok n dead) (has_role r i)" "keeps (known_in tok n dead) (grant_role i r)"
  unfolding create_oauth_binding_def rehash_oauth_subject_def find_account_by_oauth_subject_hashes_def
    create_oauth_state_def create_email_verification_challenge_def verify_email_of_def
    consume_email_verification_challenge_def consume_email_verification_token_def
    lookup_account_id_by_email_hashes_def create_password_reset_challenge_def has_role_def grant_role_def
  by (intro keeps_intros dead_sql_write dead_sql_insert; simp)+

lemma dead_store3 [session_keeps]:
  "keeps (known_in tok n dead) (is_admin i)" "keeps (known_in tok n dead) (is_admissions_moderator i)"
  "keeps (known_in tok n dead) (is_service_account i)" "keeps (known_in tok n dead) get_require_admin_mfa"
  "keeps (known_in tok n dead) (get_admin_mfa i)" "keeps (known_in tok n dead) (save_admin_mfa_secret i ct e)"
  "keeps (known_in tok n dead) (store_enable_admin_mfa i t)" "keeps (known_in tok n dead) (touch_admin_mfa_verified i t)"
  "keeps (known_in tok n dead) (store_disable_admin_mfa i)" "keeps (known_in tok n dead) (find_account_by_service_token h t)"
  "keeps (known_in tok n dead) (create_service_api_token i h l)" "keeps (known_in tok n dead) (save_calendar_grant i p r s)"
  unfolding is_admin_def is_admissions_moderator_def is_service_account_def has_role_def
    get_require_admin_mfa_def get_admin_mfa_def save_admin_mfa_secret_def store_enable_admin_mfa_def
    touch_admin_mfa_verified_def store_disable_admin_mfa_def find_account_by_service_token_def
    create_service_api_token_def save_calendar_grant_def
  by (intro keeps_intros dead_sql_write dead_sql_insert; simp split: option.split)+

lemma dead_purge [session_keeps]: "keeps (known_in tok n dead) (purge_expired_pending_accounts t)"
  unfolding purge_expired_pending_accounts_def delete_pending_accounts_def
  by (intro keeps_intros dead_sql_write dead_sql_insert; simp add: Let_def)

lemma dead_mail [session_keeps]:
  "keeps (known_in tok n dead) (enqueue_email en co acc rc k s x h kind m)"
  "keeps (known_in tok n dead) (claim_loop ts tasks)" "keeps (known_in tok n dead) (claim_email_outbox l)"
  "keeps (known_in tok n dead) (mark_email_sent i)" "keeps (known_in tok n dead) (mark_email_failed i msg)"
proof -
  show loop: "keeps (known_in tok n dead) (claim_loop ts tasks)" for ts tasks
    by (induction tasks) (simp_all add: keeps_intros dead_sql_write)
  show "keeps (known_in tok n dead) (claim_email_outbox l)"
    unfolding claim_email_outbox_def by (intro keeps_intros loop)
  show "keeps (known_in tok n dead) (enqueue_email en co acc rc k s x h kind m)"
    "keeps (known_in tok n dead) (mark_email_sent i)" "keeps (known_in tok n dead) (mark_email_failed i msg)"
    unfolding enqueue_email_def mark_email_sent_def mark_email_failed_def Let_def
    by (intro keeps_intros dead_sql_write dead_sql_insert; simp)+
qed

interpretation session_inv: db_invariant "session_known tok n dead" for tok n dead
  by unfold_locales (rule session_keeps)+

lemma known_forever:
  assumes "(server_step h)\<^sup>*\<^sup>* w w'" "session_known tok n dead (w_db w)"
  shows "session_known tok n dead (w_db w')"
  using assms
proof (induction rule: rtranclp_induct)
  case (step w1 w2)
  show ?case
    by (rule server_step_keeps[OF session_inv.db_invariant_axioms _ step(2)])
      (use step in \<open>simp_all add: keeps_process session_keeps\<close>)
qed

lemma served_later: "(server_step h)\<^sup>*\<^sup>* w w' \<Longrightarrow> served h w \<Longrightarrow> served h w'"
  by (induction rule: rtranclp_induct) (auto intro: served.step)

lemma dead_token_unusable:
  assumes "world_ok w" "session_known tok n True (w_db w)"
  shows "\<exists>e w'. find_active_session tok t w = (Inl e, w')"
proof (cases "find_active_session tok t w")
  case (Pair r w')
  show ?thesis
  proof (cases r)
    case (Inr s)
    with Pair obtain x where x: "x \<in> set (sessions (w_db w))" "s_token x = tok" "session_live t x"
      by (auto elim: find_active_session_Inr)
    from assms(2) obtain y where y: "y \<in> set (sessions (w_db w))" "s_token y = tok" "s_revoked y \<noteq> None"
      by (auto simp: session_known_def)
    from assms(1) x y have "x = y"
      by (auto simp: db_ok_def sessions_ok_def intro: distinct_key_eq[of s_token])
    with x y show ?thesis by (simp add: session_live_def)
  qed (use Pair in auto)
qed

section \<open>Logout\<close>

lemma authenticate_cookie_Inr:
  assumes "authenticate sv rq w = (Inr rs, w')" "request_credential rq = Some (TokenCookie, tok)"
  obtains r a where "r \<in> set (sessions (w_db w))" "s_token r = hash_opaque_token (sv_crypto sv) tok"
    "session_live (now w) r" "find_account (w_db w) (s_account r) = Some a" "a_status a = ''active''"
    "rs = \<lparr>rs_session = session_of r a, rs_kind = TokenCookie, rs_token = tok\<rparr>"
proof -
  from assms obtain s w1 where "find_active_session (hash_opaque_token (sv_crypto sv) tok) (now w) w = (Inr s, w1)"
    and rs: "rs = \<lparr>rs_session = s, rs_kind = TokenCookie, rs_token = tok\<rparr>"
    unfolding authenticate_def by (auto simp: catchM_eq_iff ignoreM_eq_iff split: if_splits)
  from this(1) show thesis
    by (rule find_active_session_Inr) (use rs in \<open>auto intro: that\<close>)
qed

lemma logout_kills:
  assumes "handle_logout sv rq w = (Inr resp, w1)" "request_credential rq = Some (TokenCookie, tok)"
  shows "\<exists>i. session_known (hash_opaque_token (sv_crypto sv) tok) i True (w_db w1)"
proof -
  let ?h = "hash_opaque_token (sv_crypto sv) tok"
  from assms(1) obtain rs w2 where a: "authenticate sv rq w = (Inr rs, w2)"
    and l: "logout rs w2 = (Inr (), w1)"
    unfolding handle_logout_def authorized_def by (auto simp: map_errM_Inr_iff)
  from a assms(2) obtain r a where r: "r \<in> set (sessions (w_db w))" "s_token r = ?h"
    and rs: "ses_id (rs_session rs) = s_id r"
    by (rule authenticate_cookie_Inr) (simp add: session_of_def)
  have "session_known ?h (s_id r) False (w_db w)" using r by (auto simp: session_known_def)
  from keepsD[OF session_inv.keeps_authenticate this a]
  obtain x where x: "x \<in> set (sessions (w_db w2))" "s_token x = ?h" "s_id x = s_id r"
    by (auto simp: session_known_def)
  have db: "w_db w1 = (w_db w2)\<lparr>sessions := update_where (\<lambda>s. s_id s = s_id r) (revoke_row (now w2)) (sessions (w_db w2))\<rparr>"
    using l rs by (simp add: logout_def revoke_session_db)
  have "revoke_row (now w2) x \<in> set (sessions (w_db w1))"
    using x by (simp add: db in_update_where_new)
  moreover have "s_revoked (revoke_row (now w2) x) \<noteq> None"
    by (simp add: revoke_row_def coalesce_def split: option.split)
  ultimately show ?thesis using x unfolding session_known_def
    by (intro exI[of _ "s_id r"] bexI[of _ "revoke_row (now w2) x"]) (simp_all add: revoke_row_def)
qed

text \<open>
  Property C14. Once a logout with a session cookie was answered, no request that carries this
  cookie is authenticated again, in any state the server reaches afterwards, whatever other
  requests, workers and failures come in between.
\<close>

theorem logout_is_final:
  assumes "served h w" "handle h rq Logout w = (Inr resp, w1)"
    and "request_credential rq = Some (TokenCookie, tok)"
    and "(server_step h)\<^sup>*\<^sup>* w1 w2" "request_credential rq' = Some (TokenCookie, tok)"
  shows "\<exists>e w'. authenticate (hd_service h) rq' w2 = (Inl e, w')"
proof -
  let ?sv = "hd_service h"
  from logout_kills assms(2,3) obtain i
    where "session_known (hash_opaque_token (sv_crypto ?sv) tok) i True (w_db w1)" by fastforce
  then have dead: "session_known (hash_opaque_token (sv_crypto ?sv) tok) i True (w_db w2)"
    by (rule known_forever[OF assms(4)])
  have "server_step h w w1"
    by (rule server_step.request[of _ rq Logout _ resp]) (use assms(2) in \<open>simp add: response_of_def\<close>)
  with assms(1,4) have "served h w2" by (meson served.step served_later)
  from dead_token_unusable[OF served_tables[OF this] dead] obtain e v
    where "find_active_session (hash_opaque_token (sv_crypto ?sv) tok) (now w2) w2 = (Inl e, v)" by blast
  with assms(5) show ?thesis by (simp add: authenticate_def catchM_def fail_def bindM_def readM_def)
qed

theorem logout_is_final_witness:
  "\<exists>resp w1 e w'. handle toy_handler (toy_request ''/api/v1/auth/logout'') Logout toy_logged_in = (Inr resp, w1)
     \<and> authenticate toy_service (toy_request ''/api/v1/me'') w1 = (Inl e, w')"
proof -
  from toy_logout obtain resp w1
    where run: "handle toy_handler (toy_request ''/api/v1/auth/logout'') Logout toy_logged_in = (Inr resp, w1)"
    by blast
  from logout_is_final[OF toy_served_login run toy_credential rtranclp.rtrancl_refl toy_credential] run
  show ?thesis by (auto simp: toy_handler_def)
qed

end
