(* ===== verification/RequestSafety.thy ===== *)
theory RequestSafety imports RevokedSessions begin

text \<open>
  Cross-site requests: a mutating call that carries the session cookie but not the CSRF token of
  that session does nothing.
\<close>

section \<open>What authentication may write\<close>

text \<open>The tables without the time stamps that authentication refreshes.\<close>

definition forget_touches :: "db \<Rightarrow> db" where
  "forget_touches d = d\<lparr>sessions := map (\<lambda>s. s\<lparr>s_last_seen := None\<rparr>) (sessions d),
     admin_mfa := map (\<lambda>m. m\<lparr>m_verified := None\<rparr>) (admin_mfa d),
     api_tokens := map (\<lambda>t. t\<lparr>t_last_used := None\<rparr>) (api_tokens d)\<rparr>"

abbreviation same_but_touches :: "db \<Rightarrow> world \<Rightarrow> bool" where
  "same_but_touches D w \<equiv> forget_touches (w_db w) = D"

lemma touch_update:
  "map (\<lambda>s. s\<lparr>s_last_seen := None\<rparr>) (update_where p (\<lambda>s. s\<lparr>s_last_seen := x\<rparr>) rows)
     = map (\<lambda>s. s\<lparr>s_last_seen := None\<rparr>) rows"
  "map (\<lambda>m. m\<lparr>m_verified := None\<rparr>) (update_where q (\<lambda>m. m\<lparr>m_verified := x\<rparr>) ms)
     = map (\<lambda>m. m\<lparr>m_verified := None\<rparr>) ms"
  "map (\<lambda>t. t\<lparr>t_last_used := None\<rparr>) (update_where r (\<lambda>t. t\<lparr>t_last_used := x\<rparr>) ts)
     = map (\<lambda>t. t\<lparr>t_last_used := None\<rparr>) ts"
  by (simp_all add: update_where_def)

lemma forget_touch_session:
  "forget_touches (d\<lparr>sessions := update_where p (\<lambda>s. s\<lparr>s_last_seen := x\<rparr>) (sessions d)\<rparr>) = forget_touches d"
  "forget_touches (d\<lparr>admin_mfa := update_where q (\<lambda>m. m\<lparr>m_verified := x\<rparr>) (admin_mfa d)\<rparr>) = forget_touches d"
  "forget_touches (d\<lparr>api_tokens := update_where r (\<lambda>t. t\<lparr>t_last_used := x\<rparr>) (api_tokens d)\<rparr>) = forget_touches d"
  by (simp_all add: forget_touches_def touch_update)

lemma forget_reader: "reader m \<Longrightarrow> keeps (same_but_touches D) m"
  by (simp add: keeps_def reader_def)

lemma forget_sql_read: "keeps (same_but_touches D) (sql_read f)"
  by (rule forget_reader[OF reader_basic(5)])

lemma forget_verify_totp: "keeps (same_but_touches D) (verify_admin_totp sv acc secret code)"
  by (simp add: keeps_def verify_admin_totp_db)

lemma forget_authenticate: "keeps (same_but_touches D) (authenticate sv rq)"
  unfolding authenticate_def authenticate_bot_api_key_def require_admin_mfa_def require_code_def
    unless_required_def effective_require_admin_mfa_def check_admin_code_def is_service_account_def
    has_role_def get_require_admin_mfa_def get_admin_mfa_def find_active_session_def touch_session_def
    touch_admin_mfa_verified_def find_account_by_service_token_def
  by (intro keeps_intros forget_sql_read forget_verify_totp keeps_sql_write;
      simp add: forget_touch_session)

section \<open>The CSRF check\<close>

text \<open>The calls that change something on behalf of the session.\<close>

fun protected_call :: "route \<Rightarrow> bool" where
  "protected_call Logout = True"
| "protected_call ResendEmailVerification = True"
| "protected_call (ChangePassword _) = True"
| "protected_call (RevokeSession _) = True"
| "protected_call RevokeOtherSessions = True"
| "protected_call AdminMfaSetup = True"
| "protected_call (AdminMfaEnable _) = True"
| "protected_call (AdminMfaVerify _) = True"
| "protected_call (AdminMfaDisable _) = True"
| "protected_call (OAuthBindStart _ _) = True"
| "protected_call _ = False"

definition csrf_proven :: "service \<Rightarrow> request \<Rightarrow> session_row \<Rightarrow> bool" where
  "csrf_proven sv rq s \<longleftrightarrow> header rq ''X-Csrf-Token'' \<noteq> []
     \<and> cookie rq csrf_cookie_name = Some (header rq ''X-Csrf-Token'')
     \<and> hash_opaque_token (sv_crypto sv) (header rq ''X-Csrf-Token'') = s_csrf s"

lemma authorize_mutation_iff:
  "rs_kind rs = TokenCookie \<Longrightarrow> authorize_mutation sv rq rs = Inr () \<longleftrightarrow>
     header rq ''X-Csrf-Token'' \<noteq> [] \<and> cookie rq csrf_cookie_name = Some (header rq ''X-Csrf-Token'')
     \<and> hash_opaque_token (sv_crypto sv) (header rq ''X-Csrf-Token'') = ses_csrf (rs_session rs)"
  by (auto simp: authorize_mutation_def constant_time_string_equal_def Let_def split: option.split)

lemma authorize_mutation_cases: "authorize_mutation sv rq rs = Inr () \<or> authorize_mutation sv rq rs = Inl ErrCSRF"
  by (simp add: authorize_mutation_def Let_def split: option.split)

lemma unproven_not_authorized:
  assumes "authenticate sv rq w = (Inr rs, w')" "request_credential rq = Some (TokenCookie, tok)"
    and "\<And>s. s \<in> set (sessions (w_db w)) \<Longrightarrow> s_token s = hash_opaque_token (sv_crypto sv) tok
        \<Longrightarrow> \<not> csrf_proven sv rq s"
  shows "authorize_mutation sv rq rs = Inl ErrCSRF"
proof -
  from assms(1,2) obtain r a where r: "r \<in> set (sessions (w_db w))" "s_token r = hash_opaque_token (sv_crypto sv) tok"
    and rs: "rs = \<lparr>rs_session = session_of r a, rs_kind = TokenCookie, rs_token = tok\<rparr>"
    by (rule authenticate_cookie_Inr)
  from assms(3)[OF r] have "authorize_mutation sv rq rs \<noteq> Inr ()"
    by (subst authorize_mutation_iff) (auto simp: rs session_of_def csrf_proven_def)
  with authorize_mutation_cases show ?thesis by metis
qed

text \<open>A handler that authenticates, then authorizes, stops at the refusal.\<close>

lemma refused_step:
  assumes "\<And>rs w'. authenticate sv rq w = (Inr rs, w') \<Longrightarrow> authorize_mutation sv rq rs = Inl ErrCSRF"
  shows "\<exists>e w'. bindM (map_errM c (authenticate sv rq)) (\<lambda>rs. bindM (authorized sv rq rs) (k rs)) w = (Inl e, w')
      \<and> w' = snd (authenticate sv rq w)"
    "\<exists>e w'. bindM (serve_mfa (authenticate_mutation sv rq)) k' w = (Inl e, w')
      \<and> w' = snd (authenticate sv rq w)"
proof -
  show "\<exists>e w'. bindM (map_errM c (authenticate sv rq)) (\<lambda>rs. bindM (authorized sv rq rs) (k rs)) w = (Inl e, w')
      \<and> w' = snd (authenticate sv rq w)"
    using assms
    by (cases "authenticate sv rq w"; cases "fst (authenticate sv rq w)")
      (auto simp: bindM_def map_errM_def authorized_def liftM_def)
  show "\<exists>e w'. bindM (serve_mfa (authenticate_mutation sv rq)) k' w = (Inl e, w')
      \<and> w' = snd (authenticate sv rq w)"
    using assms
    by (cases "authenticate sv rq w"; cases "fst (authenticate sv rq w)")
      (auto simp: bindM_def map_errM_def serve_mfa_def authenticate_mutation_def liftM_def)
qed

text \<open>
  Property C15. A mutating call that carries a session cookie, but not in header and cookie alike the
  CSRF token of that session, is refused, and the tables stay as they were but for the time
  stamps of the authentication.
\<close>

theorem csrf_blocks_mutations:
  assumes "protected_call route" "request_credential rq = Some (TokenCookie, tok)"
    and "\<And>s. s \<in> set (sessions (w_db w)) \<Longrightarrow>
        s_token s = hash_opaque_token (sv_crypto (hd_service h)) tok \<Longrightarrow> \<not> csrf_proven (hd_service h) rq s"
  shows "\<exists>resp w'. handle h rq route w = (Inl resp, w') \<and> forget_touches (w_db w') = forget_touches (w_db w)"
proof -
  let ?sv = "hd_service h"
  have refused: "\<And>rs w'. authenticate ?sv rq w = (Inr rs, w') \<Longrightarrow> authorize_mutation ?sv rq rs = Inl ErrCSRF"
    by (rule unproven_not_authorized[OF _ assms(2,3)])
  have same: "forget_touches (w_db (snd (authenticate ?sv rq w))) = forget_touches (w_db w)"
    using forget_authenticate[of "forget_touches (w_db w)" ?sv rq] by (simp add: keeps_def)
  have "\<exists>resp w'. handle h rq route w = (Inl resp, w') \<and> w' = snd (authenticate ?sv rq w)"
    using assms(1)
    by (cases route) (simp_all only: protected_call.simps handle.simps handle_logout_def authenticated_def
        handle_resend_email_verification_def handle_change_password_def handle_revoke_session_def
        handle_revoke_other_sessions_def handle_admin_mfa_setup_def handle_admin_mfa_enable_def
        handle_admin_mfa_verify_def handle_admin_mfa_disable_def handle_oauth_bind_start_def
        refused_step[OF refused])
  with same show ?thesis by auto
qed

theorem csrf_blocks_mutations_witness:
  "\<exists>resp w'. handle toy_handler ((toy_request ''/api/v1/auth/logout'')\<lparr>rq_headers := []\<rparr>) Logout toy_logged_in
      = (Inl resp, w') \<and> forget_touches (w_db w') = forget_touches (w_db toy_logged_in)"
proof (rule csrf_blocks_mutations)
  let ?rq = "(toy_request ''/api/v1/auth/logout'')\<lparr>rq_headers := []\<rparr>"
  have no: "header ?rq x = []" for x by (simp add: header_def toy_request_def)
  show "request_credential ?rq = Some (TokenCookie, toy_token 3)"
    using toy_credential[of "''/api/v1/auth/logout''"]
    by (simp add: request_credential_def header_def cookie_def toy_request_def)
  show "\<not> csrf_proven (hd_service toy_handler) ?rq s" for s
    by (simp add: csrf_proven_def no)
qed simp

end
