(* ===== verification/MfaProperties.thy ===== *)
theory MfaProperties imports RequestSafety begin

text \<open>
  Administrator MFA: what a call that passes the check has shown, how many guesses a window
  allows, and how the flag of \<^verbatim>\<open>/me\<close> relates to the check.
\<close>

section \<open>The check cannot be skipped\<close>

lemma verify_admin_totp_Inr:
  "verify_admin_totp sv acc secret code w = (Inr (), w') \<Longrightarrow>
     verify_totp (sv_crypto sv) secret code (now w) \<noteq> None
     \<and> allowed (peek (mfa_limiter w) (e_uuid (sv_env sv) acc) (now w)) \<and> w' = w"
  by (auto simp: verify_admin_totp_def Let_def split: if_splits prod.splits sum.splits bool.splits)

lemma verify_admin_totp_refused:
  "\<not> allowed (peek (mfa_limiter w) (e_uuid (sv_env sv) acc) (now w)) \<Longrightarrow>
     verify_admin_totp sv acc secret code w = (Inl ErrAdminMFARateLimited, w)"
  by (simp add: verify_admin_totp_def)

text \<open>The statements before the code check leave tables, clock and limiter alone.\<close>

definition quiet :: "(world, 'e, 'a) op \<Rightarrow> bool" where
  "quiet m \<longleftrightarrow> (\<forall>w. w_db (snd (m w)) = w_db w \<and> now (snd (m w)) = now w
     \<and> mfa_limiter (snd (m w)) = mfa_limiter w)"

lemma quietD: "quiet m \<Longrightarrow> m w = (r, w') \<Longrightarrow>
    w_db w' = w_db w \<and> now w' = now w \<and> mfa_limiter w' = mfa_limiter w"
  by (metis quiet_def snd_conv)

lemma quiet_sql_read: "quiet (sql_read f)"
  by (simp add: quiet_def sql_read_def sql_def split: list.split option.split)

lemma quiet_ret: "quiet (ret x)" "quiet (fail e)"
  by (simp_all add: quiet_def ret_def fail_def)

lemma quiet_catchM: "quiet m \<Longrightarrow> (\<And>e. quiet (f e)) \<Longrightarrow> (\<And>x. quiet (k x)) \<Longrightarrow> quiet (catchM m f k)"
  by (simp add: quiet_def catchM_def split: prod.split sum.split) (metis snd_conv)

lemma quiet_map_errM: "quiet m \<Longrightarrow> quiet (map_errM c m)"
  by (simp add: quiet_def)

lemma quiet_mfa_reads:
  "quiet (catchM (is_service_account acc) (\<lambda>_. ret False) ret)"
  "quiet (effective_require_admin_mfa sv)" "quiet (get_admin_mfa acc)"
  unfolding is_service_account_def has_role_def effective_require_admin_mfa_def
    get_require_admin_mfa_def get_admin_mfa_def
  by (intro quiet_catchM quiet_map_errM quiet_sql_read quiet_ret;
      simp add: quiet_ret split: prod.split)+

lemma is_service_value:
  "catchM (is_service_account acc) (\<lambda>_. ret False) ret w = (Inr b, w1) \<Longrightarrow> b \<Longrightarrow> (acc, ''service'') \<in> set (roles (w_db w))"
  by (auto simp: catchM_eq_iff is_service_account_def has_role_def dest!: sql_read_Inr)

lemma require_admin_mfa_enabled:
  assumes run: "require_admin_mfa sv acc code w = (Inr (), w')"
    and "(acc, ''service'') \<notin> set (roles (w_db w))" "sv_cipher sv \<noteq> None"
    and row: "find_mfa (w_db w) acc = Some r" "m_enabled r \<noteq> None"
  obtains w1 where "w_db w1 = w_db w" "now w1 = now w" "mfa_limiter w1 = mfa_limiter w"
    "require_code sv acc r code w1 = (Inr (), w')"
proof -
  from run[unfolded require_admin_mfa_def] obtain service w1 where
    s: "catchM (is_service_account acc) (\<lambda>_. ret False) ret w = (Inr service :: auth_error + bool, w1)"
    and k1: "(if service then ret () else
     bindM (effective_require_admin_mfa sv) (\<lambda>req.
     if sv_cipher sv = None then (if req then fail ErrNotConfigured else ret ()) else
     catchM (get_admin_mfa acc)
       (\<lambda>e. if e = ErrNotFound then unless_required req else fail e)
       (\<lambda>r. if m_enabled r = None then unless_required req else require_code sv acc r code))) w1 = (Inr (), w')"
    by (rule bindM_InrE)
  from is_service_value[OF s] assms(2) have "\<not> service" by blast
  with k1 have "bindM (effective_require_admin_mfa sv) (\<lambda>req.
     if sv_cipher sv = None then (if req then fail ErrNotConfigured else ret ()) else
     catchM (get_admin_mfa acc)
       (\<lambda>e. if e = ErrNotFound then unless_required req else fail e)
       (\<lambda>r. if m_enabled r = None then unless_required req else require_code sv acc r code)) w1 = (Inr (), w')"
    by simp
  then obtain req w2 where e: "effective_require_admin_mfa sv w1 = (Inr req, w2)"
    and k2: "(if sv_cipher sv = None then (if req then fail ErrNotConfigured else ret ()) else
     catchM (get_admin_mfa acc)
       (\<lambda>e. if e = ErrNotFound then unless_required req else fail e)
       (\<lambda>r. if m_enabled r = None then unless_required req else require_code sv acc r code)) w2 = (Inr (), w')"
    by (rule bindM_InrE)
  have same: "w_db w2 = w_db w" "now w2 = now w" "mfa_limiter w2 = mfa_limiter w"
    using quietD[OF quiet_mfa_reads(1) s] quietD[OF quiet_mfa_reads(2) e] by simp_all
  have found: "find_mfa (w_db w2) acc = Some r" using row(1) same(1) by simp
  have val: "x = r" if "get_admin_mfa acc w2 = (Inr x, w3)" for x w3
    using sql_read_Inr[of "\<lambda>d. find_mfa d acc" w2 x w3] that found by (simp add: get_admin_mfa_def)
  have err: "e \<noteq> ErrNotFound" if "get_admin_mfa acc w2 = (Inl e, w3)" for e w3
    using that found
    by (auto simp: get_admin_mfa_def map_errM_Inl_iff sql_read_def sql_def no_rows_def split: list.splits if_splits)
  obtain x w3 where gx: "get_admin_mfa acc w2 = (x, w3)" by fastforce
  have g: "get_admin_mfa acc w2 = (Inr r, w3)" "require_code sv acc r code w3 = (Inr (), w')"
  proof -
    show "get_admin_mfa acc w2 = (Inr r, w3)"
      using gx k2 assms(3) err val by (cases x) (auto simp: catchM_def)
    with k2 assms(3) row(2) show "require_code sv acc r code w3 = (Inr (), w')"
      by (simp add: catchM_def)
  qed
  with quietD[OF quiet_mfa_reads(3) g(1)] same show thesis by (intro that[of w3]) simp_all
qed


section \<open>Guessing\<close>

text \<open>Attempts one after the other, each with its time and code.\<close>

fun mfa_attempts :: "service \<Rightarrow> uuid \<Rightarrow> string \<Rightarrow> (time \<times> string) list \<Rightarrow> world \<Rightarrow> (auth_error + unit) list" where
  "mfa_attempts sv acc secret [] w = []"
| "mfa_attempts sv acc secret ((t, code) # as) w =
     (case verify_admin_totp sv acc secret code (w\<lparr>now := t\<rparr>) of
        (r, w') \<Rightarrow> r # mfa_attempts sv acc secret as w')"

definition wrong_codes :: "(auth_error + unit) list \<Rightarrow> nat" where
  "wrong_codes rs = length (filter (\<lambda>r. r = Inl ErrAdminMFAInvalid) rs)"

text \<open>The limiter holds \<open>n\<close> failures of the account in a window that began between \<open>t0\<close> and \<open>t\<close>.\<close>

definition failures_at :: "string \<Rightarrow> time \<Rightarrow> time \<Rightarrow> nat \<Rightarrow> limiter \<Rightarrow> bool" where
  "failures_at key t0 t n l \<longleftrightarrow> lim l = mfa_failure_limit \<and> window l = mfa_failure_window
     \<and> (case map_of (entries l) (norm_key key) of
          None \<Rightarrow> n = 0
        | Some e \<Rightarrow> hits e = int n \<and> 1 \<le> n \<and> t0 \<le> started e \<and> started e \<le> t)"

lemma failures_peek:
  assumes "failures_at key t0 t n l" "t \<le> t'" "t' < t0 + mfa_failure_window"
  shows "allowed (peek (Some l) key t') \<longleftrightarrow> n < 8"
  using assms
  by (auto simp: failures_at_def peek_def expired_def mfa_failure_limit_def split: option.splits)

lemma failures_take:
  assumes "failures_at key t0 t n l" "t0 \<le> t" "t \<le> t'" "t' < t0 + mfa_failure_window" "n < 8"
  shows "\<exists>l'. snd (take_hit (Some l) key t') = Some l' \<and> failures_at key t0 t' (Suc n) l'"
  using assms
  by (auto simp: failures_at_def take_hit_def expired_def mfa_failure_limit_def Let_def update_conv
      split: option.splits)

lemma verify_admin_totp_wrong:
  assumes "verify_admin_totp sv acc secret code w = (r, w')"
    and "allowed (peek (mfa_limiter w) (e_uuid (sv_env sv) acc) (now w))"
  shows "r = Inr () \<and> w' = w \<or>
    mfa_limiter w' = snd (take_hit (mfa_limiter w) (e_uuid (sv_env sv) acc) (now w)) \<and> now w' = now w"
proof -
  have "mfa_limiter w2 = mfa_limiter w1 \<and> now w2 = now w1"
    if "distributed_allow sv ns k l win w1 = (x, w2)" for ns k l win w1 x w2
    using that by (auto simp: distributed_allow_def Let_def split: distributed_limiter.splits prod.splits)
  with assms show ?thesis
    by (auto simp: verify_admin_totp_def Let_def split: if_splits prod.splits sum.splits bool.splits)
qed

lemma attempts_bound:
  assumes "mfa_limiter w = Some l" "failures_at (e_uuid (sv_env sv) acc) t0 t n l" "n \<le> 8" "t0 \<le> t"
    and "sorted (map fst as)" "\<forall>a \<in> set as. t \<le> fst a \<and> fst a < t0 + mfa_failure_window"
  shows "n + wrong_codes (mfa_attempts sv acc secret as w) \<le> 8
    \<and> (\<forall>i < length as. 8 \<le> n + wrong_codes (take i (mfa_attempts sv acc secret as w))
        \<longrightarrow> mfa_attempts sv acc secret as w ! i = Inl ErrAdminMFARateLimited)"
  using assms
proof (induction as arbitrary: w l t n)
  case (Cons a as)
  obtain t' code where a: "a = (t', code)" by fastforce
  let ?w = "w\<lparr>now := t'\<rparr>" and ?key = "e_uuid (sv_env sv) acc"
  obtain r w' where run: "verify_admin_totp sv acc secret code ?w = (r, w')" by fastforce
  have t': "t \<le> t'" "t' < t0 + mfa_failure_window" "t0 \<le> t'" using Cons.prems(4,6) a by auto
  have rest: "sorted (map fst as)" "\<forall>a \<in> set as. t' \<le> fst a \<and> fst a < t0 + mfa_failure_window"
    using Cons.prems(5,6) a by auto
  have peek: "allowed (peek (mfa_limiter ?w) ?key (now ?w)) \<longleftrightarrow> n < 8"
    using failures_peek[OF Cons.prems(2) t'(1,2)] Cons.prems(1) by simp
  have weaker: "failures_at ?key t0 t' n l"
    using Cons.prems(2) t'(1) by (auto simp: failures_at_def split: option.splits)
  show ?case
  proof (cases "n < 8")
    case False
    with peek run have r: "r = Inl ErrAdminMFARateLimited" "w' = ?w" by (simp_all add: verify_admin_totp_refused)
    from Cons.IH[OF _ weaker Cons.prems(3) t'(3) rest, of w'] r Cons.prems(1)
    have IH: "n + wrong_codes (mfa_attempts sv acc secret as w') \<le> 8"
      "\<forall>i < length as. 8 \<le> n + wrong_codes (take i (mfa_attempts sv acc secret as w'))
        \<longrightarrow> mfa_attempts sv acc secret as w' ! i = Inl ErrAdminMFARateLimited" by simp_all
    with r run show ?thesis by (auto simp: a wrong_codes_def nth_Cons' take_Cons')
  next
    case True
    from verify_admin_totp_wrong[OF run] peek True
    consider "r = Inr ()" "w' = ?w" | "mfa_limiter w' = snd (take_hit (Some l) ?key t')"
      using Cons.prems(1) by auto
    then show ?thesis
    proof cases
      case 1
      from Cons.IH[OF _ weaker Cons.prems(3) t'(3) rest, of w'] 1 Cons.prems(1)
      have IH: "n + wrong_codes (mfa_attempts sv acc secret as w') \<le> 8"
        "\<forall>i < length as. 8 \<le> n + wrong_codes (take i (mfa_attempts sv acc secret as w'))
          \<longrightarrow> mfa_attempts sv acc secret as w' ! i = Inl ErrAdminMFARateLimited" by simp_all
      with 1 run True show ?thesis by (auto simp: a wrong_codes_def nth_Cons' take_Cons')
    next
      case 2
      from failures_take[OF Cons.prems(2,4) t'(1,2) True] 2 obtain l'
        where l': "mfa_limiter w' = Some l'" "failures_at ?key t0 t' (Suc n) l'" by auto
      have IH: "Suc n + wrong_codes (mfa_attempts sv acc secret as w') \<le> 8"
        "\<forall>i < length as. 8 \<le> Suc n + wrong_codes (take i (mfa_attempts sv acc secret as w'))
          \<longrightarrow> mfa_attempts sv acc secret as w' ! i = Inl ErrAdminMFARateLimited"
        using Cons.IH[OF l' _ t'(3) rest] True by simp_all
      with run True show ?thesis by (auto simp: a wrong_codes_def nth_Cons' take_Cons')
    qed
  qed
qed (simp add: wrong_codes_def)

text \<open>
  Property C17. Within a failure window of fifteen minutes at most eight wrong codes of an account are
  ever compared; after the eighth every attempt is refused, the right code included.
\<close>

theorem mfa_guess_bound:
  assumes "mfa_limiter w = Some (new_fixed_window_limiter mfa_failure_limit mfa_failure_window 10000)"
    and "sorted (map fst as)" "\<forall>a \<in> set as. t0 \<le> fst a \<and> fst a < t0 + mfa_failure_window"
  shows "wrong_codes (mfa_attempts sv acc secret as w) \<le> 8
    \<and> (\<forall>i < length as. wrong_codes (take i (mfa_attempts sv acc secret as w)) = 8
        \<longrightarrow> mfa_attempts sv acc secret as w ! i = Inl ErrAdminMFARateLimited)"
proof -
  have "failures_at (e_uuid (sv_env sv) acc) t0 t0 0
      (new_fixed_window_limiter mfa_failure_limit mfa_failure_window 10000)"
    by (simp add: failures_at_def new_fixed_window_limiter_def mfa_failure_limit_def mfa_failure_window_def)
  from attempts_bound[OF assms(1) this _ _ assms(2,3), of secret] show ?thesis by auto
qed

theorem mfa_guess_bound_witness:
  "\<exists>w as. wrong_codes (take 8 (mfa_attempts toy_service 1 ''key'' as w)) = 8 \<and> length as = 9
     \<and> mfa_attempts toy_service 1 ''key'' as w ! 8 = Inl ErrAdminMFARateLimited"
proof -
  define w where "w = demo_world\<lparr>mfa_limiter :=
    Some (new_fixed_window_limiter mfa_failure_limit mfa_failure_window 10000)\<rparr>"
  define as where "as = replicate 9 (1000 * second, ''x'')"
  have w: "wrong_codes (take 8 (mfa_attempts toy_service 1 ''key'' as w)) = 8"
    unfolding w_def as_def by code_simp
  have a: "length as = 9" "sorted (map fst as)"
    "\<forall>a \<in> set as. 1000 * second \<le> fst a \<and> fst a < 1000 * second + mfa_failure_window"
    unfolding as_def by code_simp+
  from mfa_guess_bound[OF _ a(2,3), of w toy_service 1 "''key''"] w a(1)
  have "mfa_attempts toy_service 1 ''key'' as w ! 8 = Inl ErrAdminMFARateLimited"
    by (simp add: w_def)
  with w a(1) show ?thesis by blast
qed

section \<open>A granted request\<close>

definition toy_mfa_row :: mfa_row where
  "toy_mfa_row = \<lparr>m_account = 1, m_secret = ''ct'', m_enabled = Some (900 * second), m_pending = None,
     m_verified = Some (900 * second)\<rparr>"

definition toy_mfa_world :: world where
  "toy_mfa_world = demo_world\<lparr>w_db := empty_db\<lparr>admin_mfa := [toy_mfa_row]\<rparr>\<rparr>"


section \<open>The flag of the account page\<close>

text \<open>The requirement in force: the setting of the database, or the configured one without it.\<close>

definition mfa_required :: "service \<Rightarrow> db \<Rightarrow> bool" where
  "mfa_required sv d = (case map_of (app_settings d) ''require_admin_mfa'' of
     None \<Rightarrow> sv_require_mfa sv | Some v \<Rightarrow> v = ''true'')"

lemma read_no_fault: "faults w = [] \<Longrightarrow> sql_read f w = (case f (w_db w) of None \<Rightarrow> Inl NoRows | Some x \<Rightarrow> Inr x, w)"
  by (simp add: sql_read_def sql_no_fault)

lemma effective_no_fault:
  "faults w = [] \<Longrightarrow> effective_require_admin_mfa sv w = (Inr (mfa_required sv (w_db w)), w)"
  by (simp add: effective_require_admin_mfa_def get_require_admin_mfa_def catchM_def read_no_fault
      mfa_required_def ret_def split: option.split)

lemma service_no_fault:
  "faults w = [] \<Longrightarrow> is_service_account acc w = (Inr ((acc, ''service'') \<in> set (roles (w_db w))), w)"
  by (simp add: is_service_account_def has_role_def map_errM_def read_no_fault)

lemma get_mfa_no_fault:
  "faults w = [] \<Longrightarrow> get_admin_mfa acc w
     = (case find_mfa (w_db w) acc of None \<Rightarrow> Inl ErrNotFound | Some r \<Rightarrow> Inr r, w)"
  by (simp add: get_admin_mfa_def map_errM_def read_no_fault no_rows_def split: option.split)



end
