(* ===== verification/Components.thy ===== *)
theory Components imports Outbox begin

text \<open>
  Components that keep tables of their own beside the shared ones: their state is a pair of the
  world (accounts, roles, outbox, clocks, faults) and their tables. Statements and transactions
  are those of Database over the pair; a check or foreign key that fails is told apart from a
  broken connection, because these components map SQLSTATE 23503 and 23514 to errors of their own.
\<close>

type_synonym 't state = "world \<times> 't"

datatype stmt_error = SNoRows | SUnique | SCheck | SForeign | SFail

section \<open>Statements\<close>

definition tables :: "'t state \<Rightarrow> db \<times> 't" where
  "tables s = (w_db (fst s), snd s)"

definition with_tables :: "db \<times> 't \<Rightarrow> 't state \<Rightarrow> 't state" where
  "with_tables x s = ((fst s)\<lparr>w_db := fst x\<rparr>, snd x)"

definition set_faults :: "bool list \<Rightarrow> 't state \<Rightarrow> 't state" where
  "set_faults fs s = ((fst s)\<lparr>faults := fs\<rparr>, snd s)"

definition stmt :: "(db \<times> 't \<Rightarrow> (stmt_error + 'a) \<times> db \<times> 't) \<Rightarrow> ('t state, stmt_error, 'a) op" where
  "stmt q s =
     (case faults (fst s) of
        [] \<Rightarrow> (fst (q (tables s)), with_tables (snd (q (tables s))) s)
      | f # fs \<Rightarrow>
          if f then (Inl SFail, set_faults fs s)
          else (fst (q (tables s)), set_faults fs (with_tables (snd (q (tables s))) s)))"

text \<open>\<^verbatim>\<open>QueryRow(...).Scan\<close>: no row is an error. \<^verbatim>\<open>Query\<close>: an empty result is not.\<close>

definition stmt_row :: "(db \<Rightarrow> 't \<Rightarrow> 'a option) \<Rightarrow> ('t state, stmt_error, 'a) op" where
  "stmt_row f = stmt (\<lambda>x. (case f (fst x) (snd x) of None \<Rightarrow> Inl SNoRows | Some y \<Rightarrow> Inr y, x))"

definition stmt_rows :: "(db \<Rightarrow> 't \<Rightarrow> 'a) \<Rightarrow> ('t state, stmt_error, 'a) op" where
  "stmt_rows f = stmt (\<lambda>x. (Inr (f (fst x) (snd x)), x))"

text \<open>A write: the checks, the unique keys, the effect, and what it returns.\<close>

definition stmt_insert ::
  "(db \<Rightarrow> 't \<Rightarrow> bool) \<Rightarrow> (db \<Rightarrow> 't \<Rightarrow> bool) \<Rightarrow> (db \<times> 't \<Rightarrow> db \<times> 't) \<Rightarrow> (db \<Rightarrow> 't \<Rightarrow> 'a)
    \<Rightarrow> ('t state, stmt_error, 'a) op" where
  "stmt_insert chk uniq g f = stmt (\<lambda>x.
     if \<not> chk (fst x) (snd x) then (Inl SCheck, x)
     else if \<not> uniq (fst x) (snd x) then (Inl SUnique, x)
     else (Inr (f (fst x) (snd x)), g x))"

text \<open>A write whose foreign keys (checked last) are told apart from the checks of its row.\<close>

definition stmt_add ::
  "(db \<Rightarrow> 't \<Rightarrow> bool) \<Rightarrow> (db \<Rightarrow> 't \<Rightarrow> bool) \<Rightarrow> (db \<Rightarrow> 't \<Rightarrow> bool) \<Rightarrow> (db \<times> 't \<Rightarrow> db \<times> 't) \<Rightarrow> (db \<Rightarrow> 't \<Rightarrow> 'a)
    \<Rightarrow> ('t state, stmt_error, 'a) op" where
  "stmt_add chk uniq fk g f = stmt (\<lambda>x.
     if \<not> chk (fst x) (snd x) then (Inl SCheck, x)
     else if \<not> uniq (fst x) (snd x) then (Inl SUnique, x)
     else if \<not> fk (fst x) (snd x) then (Inl SForeign, x)
     else (Inr (f (fst x) (snd x)), g x))"

definition stmt_write :: "('t \<Rightarrow> 't) \<Rightarrow> (db \<Rightarrow> 't \<Rightarrow> 'a) \<Rightarrow> ('t state, stmt_error, 'a) op" where
  "stmt_write g f = stmt (\<lambda>x. (Inr (f (fst x) (snd x)), (fst x, g (snd x))))"

definition stmt_nop :: "('t state, stmt_error, unit) op" where
  "stmt_nop = stmt (\<lambda>x. (Inr (), x))"

text \<open>
  A transaction: on an error everything is rolled back. The second form is for bodies with a
  return before the \<^verbatim>\<open>Commit\<close>: the flag says whether the commit is reached.
\<close>

definition in_tx_flag ::
  "(stmt_error \<Rightarrow> 'e) \<Rightarrow> ('t state, 'e, bool \<times> 'a) op \<Rightarrow> ('t state, 'e, 'a) op" where
  "in_tx_flag conv body s =
     (case map_errM conv stmt_nop s of
        (Inl e, s1) \<Rightarrow> (Inl e, s1)
      | (Inr _, s1) \<Rightarrow>
          (case body s1 of
             (Inl e, s2) \<Rightarrow> (Inl e, with_tables (tables s1) s2)
           | (Inr (False, x), s2) \<Rightarrow> (Inr x, with_tables (tables s1) s2)
           | (Inr (True, x), s2) \<Rightarrow>
               (case map_errM conv stmt_nop s2 of
                  (Inl e, s3) \<Rightarrow> (Inl e, with_tables (tables s1) s3)
                | (Inr _, s3) \<Rightarrow> (Inr x, s3))))"

definition in_tx :: "(stmt_error \<Rightarrow> 'e) \<Rightarrow> ('t state, 'e, 'a) op \<Rightarrow> ('t state, 'e, 'a) op" where
  "in_tx conv body = in_tx_flag conv (bindM body (\<lambda>x. ret (True, x)))"

text \<open>An operation of the shared services, and randomness.\<close>

definition core :: "(world, 'e, 'a) op \<Rightarrow> ('t state, 'e, 'a) op" where
  "core m s = (case m (fst s) of (r, w) \<Rightarrow> (r, (w, snd s)))"

abbreviation db_clock :: "('t state, 'e, time) op" where
  "db_clock \<equiv> readM (\<lambda>s. db_now (fst s))"

abbreviation clock :: "('t state, 'e, time) op" where
  "clock \<equiv> readM (\<lambda>s. now (fst s))"

section \<open>What they do\<close>

text \<open>\<open>same_clocks s s'\<close>: both clocks stand.\<close>

definition same_clocks :: "'t state \<Rightarrow> 't state \<Rightarrow> bool" where
  "same_clocks s s' \<longleftrightarrow> now (fst s') = now (fst s) \<and> db_now (fst s') = db_now (fst s)"

lemma same_clocks_refl [simp]: "same_clocks s s"
  by (simp add: same_clocks_def)

lemma same_clocks_trans: "same_clocks s t \<Longrightarrow> same_clocks t u \<Longrightarrow> same_clocks s u"
  by (simp add: same_clocks_def)

lemma tables_with [simp]: "tables (with_tables x s) = x" "tables (set_faults fs s) = tables s"
  "set_faults fs (with_tables x s) = with_tables x (set_faults fs s)"
  by (simp_all add: tables_def with_tables_def set_faults_def)

lemma clocks_with [simp]: "same_clocks s (with_tables x t) = same_clocks s t"
  "same_clocks s (set_faults fs t) = same_clocks s t" "same_clocks (with_tables x s) t = same_clocks s t"
  by (simp_all add: same_clocks_def with_tables_def set_faults_def)

lemma stmt_Inr:
  "stmt q s = (Inr y, s') \<Longrightarrow> fst (q (tables s)) = Inr y \<and> tables s' = snd (q (tables s)) \<and> same_clocks s s'"
  by (auto simp: stmt_def split: list.splits if_splits)

lemma stmt_row_Inr:
  "stmt_row f s = (Inr y, s') \<Longrightarrow> f (fst (tables s)) (snd (tables s)) = Some y \<and> tables s' = tables s
     \<and> same_clocks s s'"
  by (auto simp: stmt_row_def dest!: stmt_Inr split: option.splits)

lemma stmt_rows_Inr:
  "stmt_rows f s = (Inr y, s') \<Longrightarrow> y = f (fst (tables s)) (snd (tables s)) \<and> tables s' = tables s
     \<and> same_clocks s s'"
  by (auto simp: stmt_rows_def dest!: stmt_Inr)

lemma stmt_insert_Inr:
  "stmt_insert chk uniq g f s = (Inr y, s') \<Longrightarrow> chk (fst (tables s)) (snd (tables s))
     \<and> uniq (fst (tables s)) (snd (tables s)) \<and> y = f (fst (tables s)) (snd (tables s))
     \<and> tables s' = g (tables s) \<and> same_clocks s s'"
  by (auto simp: stmt_insert_def dest!: stmt_Inr split: if_splits)

lemma stmt_add_Inr:
  "stmt_add chk uniq fk g f s = (Inr y, s') \<Longrightarrow> chk (fst (tables s)) (snd (tables s))
     \<and> uniq (fst (tables s)) (snd (tables s)) \<and> fk (fst (tables s)) (snd (tables s))
     \<and> y = f (fst (tables s)) (snd (tables s)) \<and> tables s' = g (tables s) \<and> same_clocks s s'"
  by (auto simp: stmt_add_def dest!: stmt_Inr split: if_splits)

lemma stmt_write_Inr:
  "stmt_write g f s = (Inr y, s') \<Longrightarrow> y = f (fst (tables s)) (snd (tables s))
     \<and> tables s' = (fst (tables s), g (snd (tables s))) \<and> same_clocks s s'"
  by (auto simp: stmt_write_def dest!: stmt_Inr)

lemma stmt_Inl:
  assumes "\<And>x e'. fst (q x) = Inl e' \<Longrightarrow> snd (q x) = x" "stmt q s = (Inl e, s')"
  shows "tables s' = tables s"
  using assms(2) assms(1)[of "tables s" e]
  by (simp add: stmt_def split: list.splits if_splits) (elim conjE, hypsubst, simp)+

lemma stmt_Inl_tables:
  "stmt_row f s = (Inl e, s') \<Longrightarrow> tables s' = tables s"
  "stmt_rows f' s = (Inl e, s') \<Longrightarrow> tables s' = tables s"
  "stmt_insert chk uniq g h s = (Inl e, s') \<Longrightarrow> tables s' = tables s"
  "stmt_write g' h s = (Inl e, s') \<Longrightarrow> tables s' = tables s"
  "stmt_add chk uniq fk g h s = (Inl e, s') \<Longrightarrow> tables s' = tables s"
  unfolding stmt_row_def stmt_rows_def stmt_insert_def stmt_write_def stmt_add_def
  by (erule stmt_Inl[rotated]; simp split: if_splits option.splits)+

lemma stmt_nop_tables: "stmt_nop s = (r, s') \<Longrightarrow> tables s' = tables s \<and> same_clocks s s'"
  by (auto simp: stmt_nop_def stmt_def split: list.splits if_splits)

lemma in_tx_flag_Inr:
  assumes "in_tx_flag conv body s = (Inr x, s')"
  obtains s1 s2 where "tables s1 = tables s" "same_clocks s s1" "body s1 = (Inr (True, x), s2)"
      "tables s' = tables s2" "same_clocks s2 s'"
  | s1 s2 where "tables s1 = tables s" "same_clocks s s1" "body s1 = (Inr (False, x), s2)"
      "tables s' = tables s" "same_clocks s2 s'"
  using assms
  by (auto simp: in_tx_flag_def split: prod.splits sum.splits bool.splits dest!: stmt_nop_tables)

lemma in_tx_Inr:
  assumes "in_tx conv body s = (Inr x, s')"
  obtains s1 s2 where "tables s1 = tables s" "same_clocks s s1" "body s1 = (Inr x, s2)"
      "tables s' = tables s2" "same_clocks s2 s'"
  using assms unfolding in_tx_def by (rule in_tx_flag_Inr) auto

lemma in_tx_flag_Inl: "in_tx_flag conv body s = (Inl e, s') \<Longrightarrow> tables s' = tables s"
  by (auto simp: in_tx_flag_def map_errM_Inl_iff split: prod.splits sum.splits bool.splits
      dest!: stmt_nop_tables)

lemma in_tx_Inl: "in_tx conv body s = (Inl e, s') \<Longrightarrow> tables s' = tables s"
  unfolding in_tx_def by (rule in_tx_flag_Inl)

section \<open>Preservation\<close>

abbreviation tables_keep :: "(db \<times> 't \<Rightarrow> bool) \<Rightarrow> ('t state, 'e, 'a) op \<Rightarrow> bool" where
  "tables_keep P m \<equiv> keeps (\<lambda>s. P (tables s)) m"

lemma keeps_stmt: "(\<And>x. P x \<Longrightarrow> P (snd (q x))) \<Longrightarrow> tables_keep P (stmt q)"
  by (auto simp: keeps_def stmt_def split: list.splits)

lemma keeps_stmt_read [keeps_intros]: "tables_keep P (stmt_row f)" "tables_keep P (stmt_rows f')"
  "tables_keep P stmt_nop"
  unfolding stmt_row_def stmt_rows_def stmt_nop_def by (rule keeps_stmt; simp)+

lemma keeps_stmt_insert:
  "(\<And>d t. P (d, t) \<Longrightarrow> chk d t \<Longrightarrow> uniq d t \<Longrightarrow> P (g (d, t))) \<Longrightarrow> tables_keep P (stmt_insert chk uniq g f)"
  unfolding stmt_insert_def by (rule keeps_stmt) auto

lemma keeps_stmt_add:
  "(\<And>d t. P (d, t) \<Longrightarrow> chk d t \<Longrightarrow> uniq d t \<Longrightarrow> fk d t \<Longrightarrow> P (g (d, t))) \<Longrightarrow> tables_keep P (stmt_add chk uniq fk g f)"
  unfolding stmt_add_def by (rule keeps_stmt) auto

lemma keeps_stmt_write:
  "(\<And>d t. P (d, t) \<Longrightarrow> P (d, g t)) \<Longrightarrow> tables_keep P (stmt_write g f)"
  unfolding stmt_write_def by (rule keeps_stmt) auto

lemma keeps_in_tx_flag [keeps_intros]:
  assumes "tables_keep P body"
  shows "tables_keep P (in_tx_flag conv body)"
proof (rule keepsI)
  fix s r s' assume P: "P (tables s)" and run: "in_tx_flag conv body s = (r, s')"
  show "P (tables s')"
  proof (cases r)
    case (Inl e)
    with run P show ?thesis by (auto dest: in_tx_flag_Inl)
  next
    case (Inr x)
    from run[unfolded Inr] show ?thesis
    proof (cases rule: in_tx_flag_Inr)
      case (1 s1 s2)
      with P keepsD[OF assms _ 1(3)] show ?thesis by simp
    qed (use P in simp)
  qed
qed

lemma keeps_in_tx [keeps_intros]: "tables_keep P body \<Longrightarrow> tables_keep P (in_tx conv body)"
  unfolding in_tx_def by (intro keeps_intros)

lemma keeps_core: "keeps (\<lambda>w. Q (w_db w)) m \<Longrightarrow> (\<And>d. Q d \<longleftrightarrow> P (d, t)) \<Longrightarrow> keeps (\<lambda>s. snd s = t \<and> P (tables s)) (core m)"
  by (auto simp: keeps_def core_def tables_def split: prod.splits)

lemma tables_keep_with_draws: "tables_keep P (core (with_draws c m))"
  by (simp add: keeps_def core_def tables_def with_draws_def split: prod.splits sum.splits)

text \<open>Predicates on the rows of the component alone.\<close>

abbreviation rows_keep :: "('t \<Rightarrow> bool) \<Rightarrow> ('t state, 'e, 'a) op \<Rightarrow> bool" where
  "rows_keep R \<equiv> tables_keep (\<lambda>x. R (snd x))"

lemma rows_keep_core [keeps_intros]: "rows_keep R (core m)"
  by (auto simp: keeps_def core_def tables_def split: prod.splits)

text \<open>What fails in a transaction is undone: only its successful runs count.\<close>

lemma keeps_in_tx_success:
  assumes "\<And>s x s'. P (tables s) \<Longrightarrow> body s = (Inr x, s') \<Longrightarrow> P (tables s')"
  shows "tables_keep P (in_tx conv body)"
proof (rule keepsI)
  fix s r s' assume P: "P (tables s)" and run: "in_tx conv body s = (r, s')"
  show "P (tables s')"
  proof (cases r)
    case (Inl e)
    with run P show ?thesis by (auto dest: in_tx_Inl)
  next
    case (Inr x)
    from run[unfolded Inr] obtain s1 s2 where "tables s1 = tables s" "body s1 = (Inr x, s2)" "tables s' = tables s2"
      by (rule in_tx_Inr)
    with assms P show ?thesis by metis
  qed
qed

text \<open>Inversion of a successful run, one statement at a time.\<close>

lemma bind_rowE:
  assumes "bindM (map_errM c (stmt_row f)) k s = (Inr y, s')"
  obtains x s1 where "f (fst (tables s)) (snd (tables s)) = Some x" "tables s1 = tables s"
    "same_clocks s s1" "k x s1 = (Inr y, s')"
  using assms by (auto dest!: stmt_row_Inr)

lemma bind_rowsE:
  assumes "bindM (map_errM c (stmt_rows f)) k s = (Inr y, s')"
  obtains s1 where "tables s1 = tables s" "same_clocks s s1"
    "k (f (fst (tables s)) (snd (tables s))) s1 = (Inr y, s')"
  using assms by (auto dest!: stmt_rows_Inr)

lemma bind_stmt_writeE:
  assumes "bindM (map_errM c (stmt_write g f)) k s = (Inr y, s')"
  obtains s1 where "tables s1 = (fst (tables s), g (snd (tables s)))" "same_clocks s s1"
    "k (f (fst (tables s)) (snd (tables s))) s1 = (Inr y, s')"
  using assms by (auto dest!: stmt_write_Inr)

lemma bind_stmt_insertE:
  assumes "bindM (map_errM c (stmt_insert chk uniq g f)) k s = (Inr y, s')"
  obtains s1 where "chk (fst (tables s)) (snd (tables s))" "uniq (fst (tables s)) (snd (tables s))"
    "tables s1 = g (tables s)" "same_clocks s s1"
    "k (f (fst (tables s)) (snd (tables s))) s1 = (Inr y, s')"
  using assms by (auto dest!: stmt_insert_Inr)

end
