(* ===== verification/SupportModel.thy ===== *)
theory SupportModel imports Components begin

text \<open>
  Customer support, its data and its input checks (internal/support/model.go): ticket states,
  the validation of tickets, messages, attachments and inbound messages, and ticket numbers.
\<close>

section \<open>Constants and errors\<close>

definition max_subject_length :: nat where "max_subject_length = 200"
definition max_message_length :: nat where "max_message_length = 8000"
definition max_attachment_count :: nat where "max_attachment_count = 5"
definition max_attachment_file_bytes :: int where "max_attachment_file_bytes = 10485760"
definition max_attachment_total_bytes :: int where "max_attachment_total_bytes = 26214400"

datatype support_error =
    SupInvalidInput | SupNotFound | SupForbidden | SupConflict | SupAdminRequired
  | SupInvalidStatus | SupInvalidDiscordData | SupNoRows | SupSQL | SupCrypto crypto_error | SupOther

text \<open>\<^verbatim>\<open>TicketStatus\<close> is a string type; only these values are accepted.\<close>

datatype ticket_status = StOpen | StWaitingStaff | StWaitingUser | StClosed | StSpam

fun status_text :: "ticket_status \<Rightarrow> string" where
  "status_text StOpen = ''open''"
| "status_text StWaitingStaff = ''waiting_staff''"
| "status_text StWaitingUser = ''waiting_user''"
| "status_text StClosed = ''closed''"
| "status_text StSpam = ''spam''"

definition ticket_statuses :: "ticket_status list" where
  "ticket_statuses = [StOpen, StWaitingStaff, StWaitingUser, StClosed, StSpam]"

definition parse_status :: "string \<Rightarrow> ticket_status option" where
  "parse_status s = List.find (\<lambda>st. status_text st = s) ticket_statuses"

definition ticket_categories :: "string list" where
  "ticket_categories = [''account'', ''admissions'', ''brochure'', ''results'', ''candidate_number'',
     ''willingness'', ''technical'', ''other'']"

datatype support_operation = OpCreate | OpEdit | OpDelete

section \<open>Inputs\<close>

record create_ticket_input =
  ct_category :: string
  ct_subject :: string
  ct_body :: string

record attachment_input =
  ai_name :: string
  ai_key :: string
  ai_mime :: string
  ai_size :: int
  ai_sha256 :: string

text \<open>\<^verbatim>\<open>x_operation\<close> is \<^const>\<open>None\<close> for a string that names no operation.\<close>

record external_message =
  x_channel :: string
  x_id :: string
  x_author :: string
  x_body :: string
  x_operation :: "support_operation option"
  x_created :: "time option"

record external_email =
  xe_id :: string
  xe_number :: string
  xe_from :: string
  xe_subject :: string
  xe_body :: string
  xe_created :: "time option"

section \<open>Validation\<close>

definition contains_control :: "string \<Rightarrow> bool" where
  "contains_control v \<longleftrightarrow> list_ex (\<lambda>(r, _). r < 0x20 \<or> r = 0x7F) (runes v)"

definition contains_message_control :: "string \<Rightarrow> bool" where
  "contains_message_control v \<longleftrightarrow>
     list_ex (\<lambda>(r, _). (r < 0x20 \<and> r \<noteq> 10 \<and> r \<noteq> 13 \<and> r \<noteq> 9) \<or> r = 0x7F) (runes v)"

definition valid_category :: "string \<Rightarrow> bool" where
  "valid_category c \<longleftrightarrow> c \<in> set ticket_categories"

definition trim_ticket :: "create_ticket_input \<Rightarrow> create_ticket_input" where
  "trim_ticket i = \<lparr>ct_category = trim_space (ct_category i), ct_subject = trim_space (ct_subject i),
     ct_body = trim_space (ct_body i)\<rparr>"

definition validate_create_ticket :: "create_ticket_input \<Rightarrow> support_error + unit" where
  "validate_create_ticket i0 =
     (let i = trim_ticket i0 in
      if \<not> valid_category (ct_category i) \<or> ct_subject i = [] \<or> max_subject_length < length (ct_subject i)
         \<or> ct_body i = [] \<or> max_message_length < length (ct_body i) then Inl SupInvalidInput
      else if contains_control (ct_subject i) \<or> contains_message_control (ct_body i) then Inl SupInvalidInput
      else Inr ())"

definition validate_message_body :: "string \<Rightarrow> support_error + unit" where
  "validate_message_body body0 =
     (let body = trim_space body0 in
      if body = [] \<or> max_message_length < length body \<or> contains_message_control body
      then Inl SupInvalidInput else Inr ())"

definition valid_storage_key :: "string \<Rightarrow> bool" where
  "valid_storage_key v0 =
     (let v = trim_space v0 in
      if v = [] \<or> 1024 < length v \<or> has_prefix v ''/'' \<or> contains_any v [CHR 0x5C, CHR 0x00, CHR 0x0D, CHR 0x0A]
      then False
      else list_all (\<lambda>p. p \<noteq> [] \<and> p \<noteq> ''.'' \<and> p \<noteq> ''..'') (split_on (CHR ''/'') v))"

text \<open>\<^verbatim>\<open>^[0-9a-f]{64}$\<close> and \<^verbatim>\<open>^T-[0-9]{6}$\<close>\<close>

definition sha256_pattern :: "string \<Rightarrow> bool" where
  "sha256_pattern s \<longleftrightarrow> length s = 64 \<and> list_all (\<lambda>c. c \<in> set ''0123456789abcdef'') s"

definition ticket_number_pattern :: "string \<Rightarrow> bool" where
  "ticket_number_pattern s \<longleftrightarrow> has_prefix s ''T-'' \<and> length s = 8 \<and> list_all is_digit_char (drop 2 s)"

fun attachments_ok :: "unicode \<Rightarrow> int \<Rightarrow> attachment_input list \<Rightarrow> bool" where
  "attachments_ok u used [] = True"
| "attachments_ok u used (a # as) =
     (if is_blank (ai_name a) \<or> 255 < rune_count (ai_name a) \<or> \<not> valid_storage_key (ai_key a) then False
      else if ai_size a \<le> 0 \<or> max_attachment_file_bytes < ai_size a then False
      else if is_blank (ai_mime a) \<or> 128 < length (ai_mime a) \<or> contains_control (ai_mime a)
              \<or> \<not> sha256_pattern (to_lower u (trim_space (ai_sha256 a))) then False
      else if max_attachment_total_bytes < used + ai_size a then False
      else attachments_ok u (used + ai_size a) as)"

definition validate_attachments :: "unicode \<Rightarrow> attachment_input list \<Rightarrow> support_error + unit" where
  "validate_attachments u as =
     (if max_attachment_count < length as \<or> \<not> attachments_ok u 0 as then Inl SupInvalidInput else Inr ())"

definition validate_status :: "string \<Rightarrow> bool \<Rightarrow> support_error + unit" where
  "validate_status status admin =
     (case parse_status status of
        None \<Rightarrow> Inl SupInvalidStatus
      | Some st \<Rightarrow> if \<not> admin \<and> st \<noteq> StWaitingStaff \<and> st \<noteq> StClosed then Inl SupInvalidStatus else Inr ())"

definition external_id_ok :: "nat \<Rightarrow> string \<Rightarrow> bool" where
  "external_id_ok n v \<longleftrightarrow> \<not> is_blank v \<and> length v \<le> n \<and> \<not> contains_control v"

definition validate_external_message :: "external_message \<Rightarrow> support_error + unit" where
  "validate_external_message i =
     (if \<not> external_id_ok 64 (x_channel i) \<or> \<not> external_id_ok 256 (x_id i) \<or> \<not> external_id_ok 256 (x_author i)
      then Inl SupInvalidDiscordData
      else if x_operation i = None then Inl SupInvalidDiscordData
      else if x_operation i \<noteq> Some OpDelete \<and> (is_blank (x_body i) \<or> max_message_length < length (x_body i)
              \<or> contains_message_control (x_body i)) then Inl SupInvalidDiscordData
      else Inr ())"

definition validate_external_email :: "env \<Rightarrow> external_email \<Rightarrow> support_error + unit" where
  "validate_external_email en i =
     (let ext = trim_space (xe_id i); number = trim_space (xe_number i); sender = trim_space (xe_from i);
          subject = trim_space (xe_subject i); body = trim_space (xe_body i) in
      if ext = [] \<or> 256 < length ext \<or> contains_control ext then Inl SupInvalidInput
      else if \<not> ticket_number_pattern number \<or> subject = [] \<or> max_subject_length < rune_count subject
              \<or> contains_control subject then Inl SupInvalidInput
      else (case e_parse_address en sender of
              None \<Rightarrow> Inl SupInvalidInput
            | Some a \<Rightarrow> if a = [] \<or> 320 < length a \<or> contains_control a then Inl SupInvalidInput
                        else validate_message_body body))"

section \<open>Ticket numbers\<close>

function number_digits :: "int \<Rightarrow> string \<Rightarrow> string" where
  "number_digits v acc =
     (if 0 < v then number_digits (v div 10) (digit_char (nat (v mod 10)) # acc) else acc)"
  by pat_completeness auto
termination by (relation "measure (\<lambda>(v, _). nat v)") auto

declare number_digits.simps [simp del]

definition left_pad_number :: "int \<Rightarrow> nat \<Rightarrow> string" where
  "left_pad_number v width =
     (let digits = number_digits v (if v = 0 then ''0'' else [])
      in replicate (width - length digits) (CHR ''0'') @ digits)"

definition ticket_number :: "int \<Rightarrow> string" where
  "ticket_number v = ''T-'' @ left_pad_number v 6"

text \<open>\<^verbatim>\<open>strconv.ParseInt\<close> of six digits, which always fits.\<close>

definition parse_ticket_number_value :: "string \<Rightarrow> support_error + int" where
  "parse_ticket_number_value s =
     (if \<not> ticket_number_pattern s then Inl SupInvalidInput else Inr (int (digits_value (drop 2 s))))"

subsection \<open>Round trip\<close>

lemma digits_value_append: "digits_value (s @ t) = digits_value s * 10 ^ length t + digits_value t"
proof -
  have "foldl (\<lambda>a c. 10 * a + (byte_of c - 48)) a t = a * 10 ^ length t + digits_value t" for a
  proof (induction t rule: rev_induct)
    case (snoc c t)
    have dv: "digits_value (t @ [c]) = 10 * digits_value t + (byte_of c - 48)" by (simp add: digits_value_def)
    show ?case unfolding dv foldl_append snoc by simp
  qed (simp add: digits_value_def)
  from this[of "digits_value s"] show ?thesis by (simp add: digits_value_def)
qed

lemma number_digits_spec:
  "list_all is_digit_char acc \<Longrightarrow> list_all is_digit_char (number_digits v acc)
     \<and> digits_value (number_digits v acc) = nat v * 10 ^ length acc + digits_value acc
     \<and> (\<forall>k. length acc \<le> k \<longrightarrow> v < 10 ^ (k - length acc) \<longrightarrow> length (number_digits v acc) \<le> k)"
proof (induction v acc rule: number_digits.induct)
  case (1 v acc)
  show ?case
  proof (cases "0 < v")
    case True
    let ?t = "digit_char (nat (v mod 10)) # acc"
    have d: "nat (v mod 10) < 10" using True by simp
    have v: "nat v = nat (v div 10) * 10 + nat (v mod 10)"
    proof -
      have "int (nat v) = int (nat (v div 10) * 10 + nat (v mod 10))" using True by simp
      then show ?thesis by (simp only: of_nat_eq_iff)
    qed
    have digit: "digits_value ?t = nat (v mod 10) * 10 ^ length acc + digits_value acc"
      using digits_value_append[of "[digit_char (nat (v mod 10))]" acc] d
      by (simp add: digits_value_def)
    from 1(1)[OF True] 1(2) d have IH: "list_all is_digit_char (number_digits (v div 10) ?t)"
      "digits_value (number_digits (v div 10) ?t) = nat (v div 10) * 10 ^ length ?t + digits_value ?t"
      "\<And>k. length ?t \<le> k \<Longrightarrow> v div 10 < 10 ^ (k - length ?t) \<Longrightarrow> length (number_digits (v div 10) ?t) \<le> k"
      by simp_all
    have "length (number_digits v acc) \<le> k" if k: "length acc \<le> k" "v < 10 ^ (k - length acc)" for k
    proof -
      have pos: "length acc < k" using k True by (cases "k = length acc") auto
      then obtain m where m: "k - length acc = Suc m" by (metis Suc_diff_Suc)
      with k(2) have "v div 10 < 10 ^ m" by simp
      moreover have "k - length ?t = m" using m by simp
      ultimately have "v div 10 < 10 ^ (k - length ?t)" by simp
      from IH(3)[OF _ this] pos True show ?thesis by (simp add: number_digits.simps[of v])
    qed
    with True IH(1,2) digit show ?thesis
      by (simp add: number_digits.simps[of v] v algebra_simps)
  next
    case False
    with 1(2) show ?thesis by (simp add: number_digits.simps[of v])
  qed
qed

lemma digits_value_zeros: "digits_value (replicate n (CHR ''0'') @ s) = digits_value s"
  by (induction n) (simp_all add: digits_value_def byte_of_def)

lemma left_pad_number_spec:
  assumes "0 \<le> v" "v < 10 ^ w" "0 < w"
  shows "length (left_pad_number v w) = w \<and> list_all is_digit_char (left_pad_number v w)
    \<and> digits_value (left_pad_number v w) = nat v"
proof -
  define start :: string where "start = (if v = 0 then ''0'' else [])"
  have s: "list_all is_digit_char start" "digits_value start = 0" "length start \<le> w" "v < 10 ^ (w - length start)"
    using assms by (auto simp: start_def is_digit_char_def digits_value_def byte_of_def)
  from number_digits_spec[OF s(1), of v] s
  have d: "list_all is_digit_char (number_digits v start)" "length (number_digits v start) \<le> w"
    "digits_value (number_digits v start) = nat v * 10 ^ length start"
    by auto
  have "nat v * 10 ^ length start = nat v" by (simp add: start_def)
  with d show ?thesis
    by (simp add: left_pad_number_def start_def[symmetric] Let_def digits_value_zeros)
      (simp add: list_all_iff is_digit_char_def byte_of_def)
qed

text \<open>
  Property C19. The number printed on a ticket reads back as the ticket's number, for every number the
  pattern of six digits can hold.
\<close>

theorem ticket_number_roundtrip:
  assumes "0 \<le> v" "v < 1000000"
  shows "parse_ticket_number_value (ticket_number v) = Inr v"
  using left_pad_number_spec[of v 6] assms
  by (simp add: parse_ticket_number_value_def ticket_number_def ticket_number_pattern_def has_prefix_def)

theorem ticket_number_roundtrip_witness:
  "parse_ticket_number_value (ticket_number 1234) = Inr 1234 \<and> ticket_number 1234 = ''T-001234''
    \<and> parse_ticket_number_value (ticket_number 1000000) = Inl SupInvalidInput"
proof -
  have "ticket_number 1234 = ''T-001234''"
    "parse_ticket_number_value (ticket_number 1000000) = Inl SupInvalidInput"
    by code_simp+
  then show ?thesis using ticket_number_roundtrip[of 1234] by simp
qed

end
