(* ===== verification/SupportStore.thy ===== *)
theory SupportStore imports SupportModel begin

text \<open>
  Customer support, the repository (internal/support/postgres_repository.go): tickets, messages,
  attachments, the Discord outbox with its per-ticket order, and the inbound Discord and e-mail
  adapters. JSON texts (the payload of a mail) and the Chinese literals are parameters.
\<close>

section \<open>Tables\<close>

record ticket_row =
  tk_id :: uuid
  tk_number :: int
  tk_account :: "uuid option"
  tk_requester_ct :: "string option"
  tk_category :: string
  tk_subject :: string
  tk_status :: string
  tk_assigned :: "uuid option"
  tk_channel :: "string option"
  tk_sync :: string
  tk_latest :: time
  tk_closed :: "time option"
  tk_created :: time
  tk_updated :: time

record message_row =
  sm_id :: uuid
  sm_ticket :: uuid
  sm_author :: "uuid option"
  sm_author_type :: string
  sm_source :: string
  sm_author_hash :: "string option"
  sm_body :: string
  sm_status :: string
  sm_created :: time
  sm_edited :: "time option"
  sm_deleted :: "time option"

text \<open>The platform of a bridge is always \<^verbatim>\<open>discord\<close>.\<close>

record bridge_row =
  sb_message :: uuid
  sb_external :: string
  sb_status :: string
  sb_synced :: "time option"

record discord_row =
  dq_id :: uuid
  dq_ticket :: uuid
  dq_message :: "uuid option"
  dq_operation :: string
  dq_external :: "string option"
  dq_payload :: "(string \<times> string) list"
  dq_status :: string
  dq_attempts :: int
  dq_max :: int
  dq_error :: "string option"
  dq_available :: time
  dq_created :: time
  dq_updated :: time

record ticket_event =
  te_ticket :: uuid
  te_actor :: "uuid option"
  te_type :: string
  te_data :: "(string \<times> string) list"

record attachment_row =
  sa_id :: uuid
  sa_ticket :: uuid
  sa_message :: uuid
  sa_key :: string
  sa_name :: string
  sa_mime :: string
  sa_size :: int
  sa_sha256 :: string
  sa_created :: time

record discord_task =
  dt_id :: uuid
  dt_ticket :: uuid
  dt_message :: "uuid option"
  dt_number :: int
  dt_subject :: string
  dt_channel :: string
  dt_operation :: string
  dt_body :: string
  dt_author_type :: string
  dt_external :: string

text \<open>\<open>posted\<close> is the log of tasks handed to the Discord sender.\<close>

record support_tables =
  tickets :: "ticket_row list"
  messages :: "message_row list"
  bridges :: "bridge_row list"
  discord_queue :: "discord_row list"
  inbound_dedup :: "(string \<times> uuid) list"
  email_dedup :: "(string \<times> uuid) list"
  ticket_events :: "ticket_event list"
  attachments :: "attachment_row list"
  next_number :: int
  posted :: "discord_task list"

type_synonym 'a support_op = "(support_tables state, support_error, 'a) op"

section \<open>The repository and its texts\<close>

datatype support_text =
    TxNewSubject | TxMessagePre | TxMessagePost | TxCreatedTitle | TxCreatedPre | TxStop
  | TxReplyTitle | TxReplyPre | TxReplyPost | TxDiscordReplyPre | TxEmailReplyPre
  | TxClosedTitle | TxClosedPre | TxClosedPost | TxReopenedPre | TxReopenedPost | TxReopenedBody
  | TxLink | LbTicket | LbCategory | LbSubject

record support_repo =
  sp_env :: env
  sp_cipher :: field_cipher
  sp_email :: string
  sp_base_url :: string
  sp_json :: "string \<Rightarrow> string \<Rightarrow> string"
  sp_text :: "support_text \<Rightarrow> string"

abbreviation sp_crypto :: "support_repo \<Rightarrow> crypto" where
  "sp_crypto r \<equiv> e_crypto (sp_env r)"

definition new_support_repository ::
  "env \<Rightarrow> field_cipher option \<Rightarrow> string \<Rightarrow> string \<Rightarrow> (string \<Rightarrow> string \<Rightarrow> string)
    \<Rightarrow> (support_text \<Rightarrow> string) \<Rightarrow> support_repo option" where
  "new_support_repository en cipher email url json say =
     map_option (\<lambda>c. \<lparr>sp_env = en, sp_cipher = c, sp_email = trim_space email,
       sp_base_url = trim_right (trim_space url) ''/'', sp_json = json, sp_text = say\<rparr>) cipher"

text \<open>\<^verbatim>\<open>mapSupportError\<close>, and the two ways errors are passed on without it.\<close>

fun map_support_error :: "stmt_error \<Rightarrow> support_error" where
  "map_support_error SNoRows = SupNotFound"
| "map_support_error SUnique = SupConflict"
| "map_support_error SCheck = SupInvalidInput"
| "map_support_error SForeign = SupInvalidInput"
| "map_support_error SFail = SupSQL"

definition raw_error :: "stmt_error \<Rightarrow> support_error" where
  "raw_error e = (if e = SNoRows then SupNoRows else SupSQL)"

definition row_missing :: "stmt_error \<Rightarrow> support_error" where
  "row_missing e = (if e = SNoRows then SupNotFound else SupSQL)"

section \<open>Values\<close>

record requester =
  rq_account :: "uuid option"
  rq_username :: string
  rq_email :: string

record ticket =
  tv_id :: uuid
  tv_number :: string
  tv_category :: string
  tv_subject :: string
  tv_status :: string
  tv_assigned :: "uuid option"
  tv_sync :: string
  tv_created :: time
  tv_updated :: time
  tv_closed :: "time option"
  tv_requester :: "requester option"

record attachment =
  av_id :: uuid
  av_ticket :: uuid
  av_message :: uuid
  av_name :: string
  av_mime :: string
  av_size :: int
  av_sha256 :: string
  av_created :: time
  av_key :: string

record support_message =
  mv_id :: uuid
  mv_author_type :: string
  mv_source :: string
  mv_body :: string
  mv_created :: time
  mv_edited :: "time option"
  mv_status :: string
  mv_attachments :: "attachment list"

definition ticket_of :: "ticket_row \<Rightarrow> ticket" where
  "ticket_of r = \<lparr>tv_id = tk_id r, tv_number = ticket_number (tk_number r), tv_category = tk_category r,
     tv_subject = tk_subject r, tv_status = tk_status r, tv_assigned = tk_assigned r, tv_sync = tk_sync r,
     tv_created = tk_created r, tv_updated = tk_updated r, tv_closed = tk_closed r, tv_requester = None\<rparr>"

definition message_of :: "message_row \<Rightarrow> support_message" where
  "message_of r = \<lparr>mv_id = sm_id r, mv_author_type = sm_author_type r, mv_source = sm_source r,
     mv_body = sm_body r, mv_created = sm_created r, mv_edited = sm_edited r, mv_status = sm_status r,
     mv_attachments = []\<rparr>"

definition attachment_of :: "attachment_row \<Rightarrow> attachment" where
  "attachment_of r = \<lparr>av_id = sa_id r, av_ticket = sa_ticket r, av_message = sa_message r, av_name = sa_name r,
     av_mime = sa_mime r, av_size = sa_size r, av_sha256 = sa_sha256 r, av_created = sa_created r,
     av_key = sa_key r\<rparr>"

section \<open>Constraints\<close>

definition has_ticket :: "support_tables \<Rightarrow> uuid \<Rightarrow> bool" where
  "has_ticket t i \<longleftrightarrow> list_ex (\<lambda>r. tk_id r = i) (tickets t)"

definition has_message :: "support_tables \<Rightarrow> uuid \<Rightarrow> bool" where
  "has_message t i \<longleftrightarrow> list_ex (\<lambda>r. sm_id r = i) (messages t)"

definition opt_account :: "db \<Rightarrow> uuid option \<Rightarrow> bool" where
  "opt_account d a \<longleftrightarrow> (case a of None \<Rightarrow> True | Some i \<Rightarrow> has_account d i)"

definition known_status :: "string \<Rightarrow> bool" where
  "known_status s \<longleftrightarrow> s \<in> status_text ` set ticket_statuses"

text \<open>The checks of \<^verbatim>\<open>support_tickets\<close>, the consistency of status and closing time among them.\<close>

definition ticket_chk :: "db \<Rightarrow> ticket_row \<Rightarrow> bool" where
  "ticket_chk d r \<longleftrightarrow> opt_account d (tk_account r) \<and> opt_account d (tk_assigned r)
     \<and> (tk_account r \<noteq> None \<or> tk_requester_ct r \<noteq> None) \<and> tk_requester_ct r \<noteq> Some []
     \<and> tk_category r \<in> set ticket_categories \<and> known_status (tk_status r)
     \<and> tk_sync r \<in> {''disabled'', ''pending'', ''processing'', ''synced'', ''failed'', ''archived''}
     \<and> \<not> pg_blank (tk_subject r)
     \<and> (case tk_channel r of None \<Rightarrow> True | Some c \<Rightarrow> \<not> pg_blank c)
     \<and> (tk_status r = ''closed'' \<longleftrightarrow> tk_closed r \<noteq> None)"

definition message_chk :: "db \<Rightarrow> support_tables \<Rightarrow> message_row \<Rightarrow> bool" where
  "message_chk d t r \<longleftrightarrow> has_ticket t (sm_ticket r) \<and> opt_account d (sm_author r)
     \<and> sm_author_type r \<in> {''user'', ''admin'', ''system''}
     \<and> sm_source r \<in> {''website'', ''discord'', ''email'', ''system''}
     \<and> sm_status r \<in> {''active'', ''edited'', ''deleted''}
     \<and> (\<not> pg_blank (sm_body r) \<or> sm_status r = ''deleted'') \<and> sm_author_hash r \<noteq> Some []"

definition attachment_chk :: "support_tables \<Rightarrow> attachment_row \<Rightarrow> bool" where
  "attachment_chk t r \<longleftrightarrow> has_ticket t (sa_ticket r) \<and> has_message t (sa_message r)
     \<and> 0 < sa_size r \<and> sa_size r \<le> 10485760 \<and> sha256_pattern (sa_sha256 r) \<and> \<not> pg_blank (sa_name r)
     \<and> \<not> pg_blank (sa_key r) \<and> \<not> pg_blank (sa_mime r) \<and> rune_count (sa_mime r) \<le> 128"

definition message_operation :: "string \<Rightarrow> bool" where
  "message_operation op \<longleftrightarrow> op \<in> {''create_message'', ''edit_message'', ''delete_message''}"

definition discord_chk :: "support_tables \<Rightarrow> discord_row \<Rightarrow> bool" where
  "discord_chk t r \<longleftrightarrow> has_ticket t (dq_ticket r)
     \<and> (case dq_message r of None \<Rightarrow> True | Some m \<Rightarrow> has_message t m)
     \<and> (message_operation (dq_operation r) \<longleftrightarrow> dq_message r \<noteq> None)"

text \<open>\<^verbatim>\<open>UPDATE support_tickets SET f WHERE id = i\<close>, with the trigger on \<^verbatim>\<open>updated_at\<close>.\<close>

definition update_ticket :: "uuid \<Rightarrow> (time \<Rightarrow> ticket_row \<Rightarrow> ticket_row) \<Rightarrow> (support_tables state, stmt_error, unit) op" where
  "update_ticket i f =
     bindM db_clock (\<lambda>ts. stmt_insert
       (\<lambda>d t. list_all (\<lambda>r. tk_id r = i \<longrightarrow> ticket_chk d (f ts r)) (tickets t)) (\<lambda>_ _. True)
       (\<lambda>(d, t). (d, t\<lparr>tickets := update_where (\<lambda>r. tk_id r = i) (\<lambda>r. (f ts r)\<lparr>tk_updated := ts\<rparr>) (tickets t)\<rparr>))
       (\<lambda>_ _. ()))"

definition add_row :: "(support_tables \<Rightarrow> support_tables) \<Rightarrow> db \<times> support_tables \<Rightarrow> db \<times> support_tables" where
  "add_row g x = ((fst x)\<lparr>next_id := Suc (next_id (fst x))\<rparr>, g (snd x))"

section \<open>Writing one row\<close>

definition new_ticket :: "uuid \<Rightarrow> create_ticket_input \<Rightarrow> time \<Rightarrow> db \<Rightarrow> support_tables \<Rightarrow> ticket_row" where
  "new_ticket acc i ts d t = \<lparr>tk_id = next_id d, tk_number = next_number t, tk_account = Some acc,
     tk_requester_ct = None, tk_category = ct_category i, tk_subject = ct_subject i,
     tk_status = ''waiting_staff'', tk_assigned = None, tk_channel = None, tk_sync = ''pending'',
     tk_latest = ts, tk_closed = None, tk_created = ts, tk_updated = ts\<rparr>"

definition insert_ticket :: "uuid \<Rightarrow> create_ticket_input \<Rightarrow> (support_tables state, stmt_error, ticket) op" where
  "insert_ticket acc i =
     bindM db_clock (\<lambda>ts. stmt_insert (\<lambda>d t. ticket_chk d (new_ticket acc i ts d t)) (\<lambda>_ _. True)
       (\<lambda>(d, t). add_row (\<lambda>t. t\<lparr>tickets := tickets t @ [new_ticket acc i ts d t],
          next_number := next_number t + 1\<rparr>) (d, t))
       (\<lambda>d t. ticket_of (new_ticket acc i ts d t)))"

definition new_message ::
  "uuid \<Rightarrow> uuid option \<Rightarrow> string \<Rightarrow> string \<Rightarrow> string option \<Rightarrow> string \<Rightarrow> time \<Rightarrow> db \<Rightarrow> message_row" where
  "new_message ticket author kind source hash body created d = \<lparr>sm_id = next_id d, sm_ticket = ticket,
     sm_author = author, sm_author_type = kind, sm_source = source, sm_author_hash = hash, sm_body = body,
     sm_status = ''active'', sm_created = created, sm_edited = None, sm_deleted = None\<rparr>"

definition insert_support_message ::
  "uuid \<Rightarrow> uuid option \<Rightarrow> string \<Rightarrow> string \<Rightarrow> string option \<Rightarrow> string \<Rightarrow> time \<Rightarrow> support_message support_op" where
  "insert_support_message ticket author kind source hash body created =
     (let mk = new_message ticket author kind source hash body created in
      map_errM map_support_error (stmt_insert (\<lambda>d t. message_chk d t (mk d)) (\<lambda>_ _. True)
        (\<lambda>(d, t). add_row (\<lambda>t. t\<lparr>messages := messages t @ [mk d]\<rparr>) (d, t))
        (\<lambda>d t. message_of (mk d))))"

definition new_attachment :: "unicode \<Rightarrow> uuid \<Rightarrow> uuid \<Rightarrow> attachment_input \<Rightarrow> time \<Rightarrow> db \<Rightarrow> attachment_row" where
  "new_attachment u ticket message i ts d = \<lparr>sa_id = next_id d, sa_ticket = ticket, sa_message = message,
     sa_key = ai_key i, sa_name = ai_name i, sa_mime = ai_mime i, sa_size = ai_size i,
     sa_sha256 = to_lower u (ai_sha256 i), sa_created = ts\<rparr>"

fun insert_attachment_rows ::
  "unicode \<Rightarrow> uuid \<Rightarrow> uuid \<Rightarrow> attachment_input list \<Rightarrow> attachment list support_op" where
  "insert_attachment_rows u ticket message [] = ret []"
| "insert_attachment_rows u ticket message (i # is) =
     bindM db_clock (\<lambda>ts.
     bindM (map_errM map_support_error (stmt_insert
       (\<lambda>d t. attachment_chk t (new_attachment u ticket message i ts d))
       (\<lambda>d t. list_all (\<lambda>a. sa_key a \<noteq> ai_key i) (attachments t))
       (\<lambda>(d, t). add_row (\<lambda>t. t\<lparr>attachments := attachments t @ [new_attachment u ticket message i ts d]\<rparr>) (d, t))
       (\<lambda>d t. attachment_of (new_attachment u ticket message i ts d)))) (\<lambda>a.
     bindM (insert_attachment_rows u ticket message is) (\<lambda>as. ret (a # as))))"

definition insert_support_attachments ::
  "unicode \<Rightarrow> uuid \<Rightarrow> uuid \<Rightarrow> attachment_input list \<Rightarrow> attachment list support_op" where
  "insert_support_attachments u ticket message is =
     bindM (liftM (validate_attachments u is)) (\<lambda>_. insert_attachment_rows u ticket message is)"

definition add_ticket_event ::
  "uuid \<Rightarrow> uuid option \<Rightarrow> string \<Rightarrow> (string \<times> string) list \<Rightarrow> unit support_op" where
  "add_ticket_event ticket actor kind data =
     map_errM raw_error (stmt_insert
       (\<lambda>d t. has_ticket t ticket \<and> opt_account d actor \<and> \<not> pg_blank kind \<and> rune_count kind \<le> 32) (\<lambda>_ _. True)
       (\<lambda>(d, t). (d, t\<lparr>ticket_events := ticket_events t
          @ [\<lparr>te_ticket = ticket, te_actor = actor, te_type = kind, te_data = data\<rparr>]\<rparr>))
       (\<lambda>_ _. ()))"

definition new_discord ::
  "uuid \<Rightarrow> uuid option \<Rightarrow> string \<Rightarrow> (string \<times> string) list \<Rightarrow> time \<Rightarrow> db \<Rightarrow> discord_row" where
  "new_discord ticket message op payload ts d = \<lparr>dq_id = next_id d, dq_ticket = ticket, dq_message = message,
     dq_operation = op, dq_external = None, dq_payload = payload, dq_status = ''pending'', dq_attempts = 0,
     dq_max = 8, dq_error = None, dq_available = ts, dq_created = ts, dq_updated = ts\<rparr>"

definition enqueue_discord ::
  "uuid \<Rightarrow> uuid option \<Rightarrow> string \<Rightarrow> (string \<times> string) list \<Rightarrow> unit support_op" where
  "enqueue_discord ticket message op payload =
     bindM db_clock (\<lambda>ts. map_errM raw_error (stmt_insert
       (\<lambda>d t. discord_chk t (new_discord ticket message op payload ts d)) (\<lambda>_ _. True)
       (\<lambda>(d, t). add_row (\<lambda>t. t\<lparr>discord_queue := discord_queue t @ [new_discord ticket message op payload ts d]\<rparr>) (d, t))
       (\<lambda>_ _. ())))"

definition enqueue_discord_channel :: "uuid \<Rightarrow> string \<Rightarrow> string \<Rightarrow> unit support_op" where
  "enqueue_discord_channel ticket number subject =
     enqueue_discord ticket None ''create_channel'' [(''ticket_number'', number), (''subject'', subject)]"

definition enqueue_discord_message :: "ticket_row \<Rightarrow> support_message \<Rightarrow> string \<Rightarrow> unit support_op" where
  "enqueue_discord_message r m kind =
     enqueue_discord (tk_id r) (Some (mv_id m)) ''create_message'' [(''body'', mv_body m), (''author_type'', kind)]"

definition enqueue_discord_archive :: "ticket_row \<Rightarrow> unit support_op" where
  "enqueue_discord_archive r = enqueue_discord (tk_id r) None ''archive_channel'' []"

definition enqueue_discord_reopen :: "ticket_row \<Rightarrow> unit support_op" where
  "enqueue_discord_reopen r = enqueue_discord (tk_id r) None ''reopen_channel'' []"

section \<open>Mails and notices\<close>

definition support_seal :: "support_repo \<Rightarrow> string \<Rightarrow> string support_op" where
  "support_seal r p = core (with_draws SupCrypto (fc_seal (sp_crypto r) (Some (sp_cipher r)) p))"

definition ticket_url :: "support_repo \<Rightarrow> uuid \<Rightarrow> string" where
  "ticket_url r i = (if sp_base_url r = [] then ''/support/tickets/'' @ e_uuid (sp_env r) i
     else sp_base_url r @ ''/support/tickets/'' @ e_uuid (sp_env r) i)"

definition format_official_body :: "support_repo \<Rightarrow> ticket \<Rightarrow> string \<Rightarrow> string" where
  "format_official_body r tk body =
     sp_text r LbTicket @ tv_number tk @ [CHR 0x0A] @ sp_text r LbCategory @ tv_category tk @ [CHR 0x0A]
     @ sp_text r LbSubject @ tv_subject tk @ [CHR 0x0A, CHR 0x0A] @ body @ [CHR 0x0A]"

definition mail_row :: "uuid option \<Rightarrow> string \<Rightarrow> string \<Rightarrow> string \<Rightarrow> time \<Rightarrow> db \<Rightarrow> outbox_row" where
  "mail_row acc dedup recipient payload ts d = \<lparr>e_id = next_id d, e_account = acc, e_dedup = dedup,
     e_recipient = recipient, e_payload = payload, e_status = ''pending'', e_attempts = 0, e_max = 8,
     e_error = None, e_available = ts, e_created = ts, e_updated = ts\<rparr>"

definition support_enqueue_email ::
  "support_repo \<Rightarrow> uuid option \<Rightarrow> string \<Rightarrow> string \<Rightarrow> string \<Rightarrow> string \<Rightarrow> unit support_op" where
  "support_enqueue_email r acc recipient dedup subject body =
     (if recipient = [] \<or> is_blank dedup \<or> is_blank subject \<or> is_blank body then ret ()
      else
        bindM (support_seal r (sp_json r subject body)) (\<lambda>payload.
        bindM db_clock (\<lambda>ts.
        map_errM raw_error (stmt_insert (\<lambda>d t. outbox_chk d acc dedup recipient payload 8) (\<lambda>_ _. True)
          (\<lambda>(d, t). if list_ex (\<lambda>e. e_account e = acc \<and> e_dedup e = dedup) (outbox d) then (d, t)
             else (d\<lparr>outbox := outbox d @ [mail_row acc dedup recipient payload ts d],
                     next_id := Suc (next_id d)\<rparr>, t))
          (\<lambda>_ _. ())))))"

definition support_dedup :: "support_repo \<Rightarrow> ticket \<Rightarrow> string \<Rightarrow> string" where
  "support_dedup r tk suffix = ''support:'' @ e_uuid (sp_env r) (tv_id tk) @ '':'' @ suffix"

definition enqueue_official_email ::
  "support_repo \<Rightarrow> ticket \<Rightarrow> string \<Rightarrow> string \<Rightarrow> string \<Rightarrow> unit support_op" where
  "enqueue_official_email r tk suffix subject body =
     (if sp_email r = [] then ret ()
      else bindM (support_seal r (sp_email r)) (\<lambda>recipient.
        support_enqueue_email r None recipient (support_dedup r tk suffix) subject body))"

definition notice_row :: "uuid \<Rightarrow> string \<Rightarrow> string \<Rightarrow> string \<Rightarrow> time \<Rightarrow> db \<Rightarrow> notification_row" where
  "notice_row acc dedup title body ts d = \<lparr>n_id = next_id d, n_account = acc, n_kind = ''support'',
     n_dedup = dedup, n_title = title, n_body = body, n_read = None, n_created = ts\<rparr>"

definition insert_notice :: "uuid \<Rightarrow> string \<Rightarrow> string \<Rightarrow> string \<Rightarrow> unit support_op" where
  "insert_notice acc dedup title body =
     bindM db_clock (\<lambda>ts. map_errM raw_error (stmt_insert
       (\<lambda>d t. notice_chk d acc ''support'' dedup title body) (\<lambda>_ _. True)
       (\<lambda>(d, t). if list_ex (\<lambda>n. n_account n = acc \<and> n_dedup n = dedup) (notices d) then (d, t)
          else (d\<lparr>notices := notices d @ [notice_row acc dedup title body ts d],
                  next_id := Suc (next_id d)\<rparr>, t))
       (\<lambda>_ _. ())))"

definition enqueue_user_notice ::
  "support_repo \<Rightarrow> ticket \<Rightarrow> string \<Rightarrow> string \<Rightarrow> string \<Rightarrow> uuid option \<Rightarrow> unit support_op" where
  "enqueue_user_notice r tk suffix title body acc =
     bindM (map_errM raw_error (stmt_row (\<lambda>d t. case acc of
         Some i \<Rightarrow> map_option a_email_ct (List.find (\<lambda>a. a_id a = i \<and> a_status a = ''active'') (accounts d))
       | None \<Rightarrow> map_option (\<lambda>k. case tk_requester_ct k of None \<Rightarrow> [] | Some c \<Rightarrow> c)
                   (List.find (\<lambda>k. tk_id k = tv_id tk) (tickets t))))) (\<lambda>recipient.
     bindM (case acc of
         None \<Rightarrow> ret ()
       | Some i \<Rightarrow>
           bindM (support_seal r title) (\<lambda>title_ct.
           bindM (support_seal r body) (\<lambda>body_ct.
           insert_notice i (support_dedup r tk suffix) title_ct body_ct))) (\<lambda>_.
     support_enqueue_email r acc recipient (support_dedup r tk suffix) title
       (body @ sp_text r TxLink @ ticket_url r (tv_id tk))))"

section \<open>Tickets and messages\<close>

definition is_admin_tx :: "uuid \<Rightarrow> bool support_op" where
  "is_admin_tx acc = catchM (stmt_rows (\<lambda>d t. (acc, ''admin'') \<in> set (roles d))) (\<lambda>_. ret False) ret"

definition lock_ticket :: "uuid \<Rightarrow> ticket_row support_op" where
  "lock_ticket i = map_errM row_missing (stmt_row (\<lambda>d t. List.find (\<lambda>r. tk_id r = i) (tickets t)))"

definition lock_ticket_by_channel :: "string \<Rightarrow> ticket_row support_op" where
  "lock_ticket_by_channel c =
     map_errM row_missing (stmt_row (\<lambda>d t. List.find (\<lambda>r. tk_channel r = Some c) (tickets t)))"

definition lock_ticket_by_number :: "int \<Rightarrow> ticket_row support_op" where
  "lock_ticket_by_number n =
     map_errM row_missing (stmt_row (\<lambda>d t. List.find (\<lambda>r. tk_number r = n) (tickets t)))"

definition ended :: "ticket_row \<Rightarrow> bool" where
  "ended r \<longleftrightarrow> tk_status r = ''closed'' \<or> tk_status r = ''spam''"

text \<open>\<^verbatim>\<open>SET status = s, latest_message_at = CURRENT_TIMESTAMP\<close>\<close>

definition answered :: "string \<Rightarrow> time \<Rightarrow> ticket_row \<Rightarrow> ticket_row" where
  "answered s ts k = k\<lparr>tk_status := s, tk_latest := ts\<rparr>"

definition create_ticket_with_attachments ::
  "support_repo \<Rightarrow> uuid \<Rightarrow> create_ticket_input \<Rightarrow> attachment_input list
    \<Rightarrow> (ticket \<times> support_message list) support_op" where
  "create_ticket_with_attachments r acc input0 files =
     bindM (liftM (validate_create_ticket input0)) (\<lambda>_.
     bindM (liftM (validate_attachments (e_unicode (sp_env r)) files)) (\<lambda>_.
     let input = trim_ticket input0 in
     in_tx raw_error (
       bindM (map_errM map_support_error (insert_ticket acc input)) (\<lambda>k.
       bindM clock (\<lambda>t.
       bindM (insert_support_message (tv_id k) (Some acc) ''user'' ''website'' None (ct_body input) t) (\<lambda>m.
       bindM (insert_support_attachments (e_unicode (sp_env r)) (tv_id k) (mv_id m) files) (\<lambda>as.
       bindM (add_ticket_event (tv_id k) (Some acc) ''created''
                [(''category'', ct_category input), (''subject'', ct_subject input)]) (\<lambda>_.
       bindM (enqueue_discord_channel (tv_id k) (tv_number k) (tv_subject k)) (\<lambda>_.
       bindM (enqueue_official_email r k ''new'' (sp_text r TxNewSubject @ tv_number k)
                (format_official_body r k (ct_body input))) (\<lambda>_.
       bindM (enqueue_user_notice r k ''created'' (sp_text r TxCreatedTitle)
                (sp_text r TxCreatedPre @ tv_number k @ sp_text r TxStop) (Some acc)) (\<lambda>_.
       ret (k, [m\<lparr>mv_attachments := as\<rparr>]))))))))))))"

definition create_ticket ::
  "support_repo \<Rightarrow> uuid \<Rightarrow> create_ticket_input \<Rightarrow> (ticket \<times> support_message list) support_op" where
  "create_ticket r acc input = create_ticket_with_attachments r acc input []"

definition add_user_message_with_attachments ::
  "support_repo \<Rightarrow> uuid \<Rightarrow> uuid \<Rightarrow> string \<Rightarrow> attachment_input list \<Rightarrow> support_message support_op" where
  "add_user_message_with_attachments r acc i body0 files =
     bindM (liftM (validate_message_body body0)) (\<lambda>_.
     bindM (liftM (validate_attachments (e_unicode (sp_env r)) files)) (\<lambda>_.
     let body = trim_space body0 in
     in_tx raw_error (
       bindM (lock_ticket i) (\<lambda>k.
       if tk_account k \<noteq> Some acc then fail SupForbidden
       else if ended k then fail SupConflict
       else
         bindM clock (\<lambda>t.
         bindM (insert_support_message i (Some acc) ''user'' ''website'' None body t) (\<lambda>m.
         bindM (insert_support_attachments (e_unicode (sp_env r)) i (mv_id m) files) (\<lambda>as.
         bindM (map_errM raw_error (update_ticket i (answered ''waiting_staff''))) (\<lambda>_.
         bindM (add_ticket_event i (Some acc) ''user_message'' [(''message_id'', e_uuid (sp_env r) (mv_id m))]) (\<lambda>_.
         bindM (enqueue_discord_message k (m\<lparr>mv_attachments := as\<rparr>) ''user'') (\<lambda>_.
         bindM (enqueue_official_email r (ticket_of k) ''message''
                  (sp_text r TxMessagePre @ tv_number (ticket_of k) @ sp_text r TxMessagePost)
                  (format_official_body r (ticket_of k) body)) (\<lambda>_.
         ret (m\<lparr>mv_attachments := as\<rparr>))))))))))))"

definition add_user_message :: "support_repo \<Rightarrow> uuid \<Rightarrow> uuid \<Rightarrow> string \<Rightarrow> support_message support_op" where
  "add_user_message r acc i body = add_user_message_with_attachments r acc i body []"

definition add_admin_message_with_attachments ::
  "support_repo \<Rightarrow> uuid \<Rightarrow> uuid \<Rightarrow> string \<Rightarrow> attachment_input list \<Rightarrow> support_message support_op" where
  "add_admin_message_with_attachments r adm i body0 files =
     bindM (liftM (validate_message_body body0)) (\<lambda>_.
     bindM (liftM (validate_attachments (e_unicode (sp_env r)) files)) (\<lambda>_.
     let body = trim_space body0 in
     in_tx raw_error (
       bindM (is_admin_tx adm) (\<lambda>ok.
       if \<not> ok then fail SupAdminRequired else
       bindM (lock_ticket i) (\<lambda>k.
       if ended k then fail SupConflict
       else
         bindM clock (\<lambda>t.
         bindM (insert_support_message i (Some adm) ''admin'' ''website'' None body t) (\<lambda>m.
         bindM (insert_support_attachments (e_unicode (sp_env r)) i (mv_id m) files) (\<lambda>as.
         bindM (map_errM raw_error (update_ticket i (answered ''waiting_user''))) (\<lambda>_.
         bindM (add_ticket_event i (Some adm) ''admin_message'' [(''message_id'', e_uuid (sp_env r) (mv_id m))]) (\<lambda>_.
         bindM (enqueue_discord_message k (m\<lparr>mv_attachments := as\<rparr>) ''admin'') (\<lambda>_.
         bindM (enqueue_user_notice r (ticket_of k) (''message:'' @ e_uuid (sp_env r) (mv_id m))
                  (sp_text r TxReplyTitle)
                  (sp_text r TxReplyPre @ tv_number (ticket_of k) @ sp_text r TxReplyPost) (tk_account k)) (\<lambda>_.
         ret (m\<lparr>mv_attachments := as\<rparr>)))))))))))))"

definition add_admin_message :: "support_repo \<Rightarrow> uuid \<Rightarrow> uuid \<Rightarrow> string \<Rightarrow> support_message support_op" where
  "add_admin_message r adm i body = add_admin_message_with_attachments r adm i body []"

definition close_row :: "time \<Rightarrow> ticket_row \<Rightarrow> ticket_row" where
  "close_row ts k = k\<lparr>tk_status := ''closed'', tk_closed := coalesce (tk_closed k) ts, tk_latest := ts\<rparr>"

definition reopen_row :: "string \<Rightarrow> uuid option \<Rightarrow> time \<Rightarrow> ticket_row \<Rightarrow> ticket_row" where
  "reopen_row status assign ts k =
     (let k1 = k\<lparr>tk_status := status, tk_closed := None, tk_latest := ts\<rparr>
      in case assign of None \<Rightarrow> k1 | Some a \<Rightarrow> k1\<lparr>tk_assigned := Some a\<rparr>)"

definition status_update :: "string \<Rightarrow> uuid option \<Rightarrow> bool \<Rightarrow> time \<Rightarrow> ticket_row \<Rightarrow> ticket_row" where
  "status_update status assign admin =
     (if status = ''closed'' then close_row else reopen_row status (if admin then assign else None))"

text \<open>What follows the update: the channel, the notice or the mail the change calls for.\<close>

definition after_status ::
  "support_repo \<Rightarrow> ticket_row \<Rightarrow> string \<Rightarrow> bool \<Rightarrow> ticket \<Rightarrow> unit support_op" where
  "after_status r k status admin updated =
     (if status = ''closed'' then
        bindM (enqueue_discord_archive k) (\<lambda>_.
        enqueue_user_notice r updated ''closed'' (sp_text r TxClosedTitle)
          (sp_text r TxClosedPre @ tv_number updated @ sp_text r TxClosedPost) (tk_account k))
      else if tk_status k = ''closed'' then enqueue_discord_reopen k
      else if \<not> admin \<and> status = ''waiting_staff'' then
        enqueue_official_email r updated ''reopened''
          (sp_text r TxReopenedPre @ tv_number updated @ sp_text r TxReopenedPost)
          (sp_text r TxReopenedBody @ ticket_url r (tv_id updated))
      else ret ())"

definition change_status ::
  "support_repo \<Rightarrow> uuid \<Rightarrow> uuid \<Rightarrow> ticket_row \<Rightarrow> string \<Rightarrow> uuid option \<Rightarrow> bool \<Rightarrow> (bool \<times> ticket) support_op" where
  "change_status r actor i k status assign admin =
     bindM (case assign of None \<Rightarrow> ret True | Some a \<Rightarrow> is_admin_tx a) (\<lambda>can.
     if \<not> can then fail SupForbidden else
     bindM (map_errM raw_error (update_ticket i (status_update status assign admin))) (\<lambda>_.
     bindM (add_ticket_event i (Some actor) ''status_changed''
              [(''from'', tk_status k), (''to'', status)]) (\<lambda>_.
     bindM clock (\<lambda>t.
     let updated0 = (ticket_of k)\<lparr>tv_status := status\<rparr>;
         updated = (if status = ''closed'' then updated0\<lparr>tv_closed := Some t\<rparr> else updated0)
     in bindM (after_status r k status admin updated) (\<lambda>_. ret (True, updated))))))"

definition set_ticket_status ::
  "support_repo \<Rightarrow> uuid \<Rightarrow> uuid \<Rightarrow> string \<Rightarrow> uuid option \<Rightarrow> bool \<Rightarrow> ticket support_op" where
  "set_ticket_status r actor i status assign admin =
     bindM (liftM (validate_status status admin)) (\<lambda>_.
     in_tx_flag raw_error (
       bindM (if admin then is_admin_tx actor else ret True) (\<lambda>ok.
       if \<not> ok then fail SupAdminRequired else
       bindM (lock_ticket i) (\<lambda>k.
       if \<not> admin \<and> tk_account k \<noteq> Some actor then fail SupForbidden
       else if \<not> admin \<and> tk_status k = ''spam'' then fail SupConflict
       else if \<not> admin \<and> status = ''closed'' \<and> tk_status k = ''closed'' then ret (False, ticket_of k)
       else change_status r actor i k status assign admin))))"

section \<open>Reading\<close>

text \<open>\<^verbatim>\<open>scanTicket\<close>: the requester, with the address decrypted, when he is asked for.\<close>

definition find_username :: "db \<Rightarrow> uuid option \<Rightarrow> account_row option" where
  "find_username d acc = (case acc of None \<Rightarrow> None | Some i \<Rightarrow> find_account d i)"

definition scan_ticket :: "support_repo \<Rightarrow> bool \<Rightarrow> ticket_row \<times> account_row option \<Rightarrow> support_error + ticket" where
  "scan_ticket r include x =
     (let k = fst x; a = snd x; base = ticket_of k;
          ct = (case a of Some row \<Rightarrow> a_email_ct row
                | None \<Rightarrow> (case tk_requester_ct k of None \<Rightarrow> [] | Some c \<Rightarrow> c));
          who = map_option a_id a; name = (case a of None \<Rightarrow> [] | Some row \<Rightarrow> a_username row) in
      if \<not> include then Inr base
      else (case (if ct = [] then Inr [] else fc_open (sp_crypto r) (Some (sp_cipher r)) ct) of
              Inl e \<Rightarrow> Inl (SupCrypto e)
            | Inr email \<Rightarrow>
                Inr (if who \<noteq> None \<or> name \<noteq> [] \<or> email \<noteq> []
                     then base\<lparr>tv_requester := Some \<lparr>rq_account = who, rq_username = name, rq_email = email\<rparr>\<rparr>
                     else base)))"

fun scan_tickets :: "support_repo \<Rightarrow> bool \<Rightarrow> (ticket_row \<times> account_row option) list \<Rightarrow> support_error + ticket list" where
  "scan_tickets r include [] = Inr []"
| "scan_tickets r include (x # xs) =
     (case scan_ticket r include x of
        Inl e \<Rightarrow> Inl e
      | Inr k \<Rightarrow> (case scan_tickets r include xs of Inl e \<Rightarrow> Inl e | Inr ks \<Rightarrow> Inr (k # ks)))"

definition listed :: "uuid option \<Rightarrow> string \<Rightarrow> ticket_row \<Rightarrow> bool" where
  "listed acc status k \<longleftrightarrow> (acc = None \<or> tk_account k = acc) \<and> (status = [] \<or> tk_status k = status)"

text \<open>\<^verbatim>\<open>ORDER BY latest_message_at DESC, created_at DESC\<close>\<close>

definition newest_first :: "ticket_row list \<Rightarrow> ticket_row list" where
  "newest_first ks = sort_key (\<lambda>k. - tk_latest k) (sort_key (\<lambda>k. - tk_created k) ks)"

definition list_tickets ::
  "support_repo \<Rightarrow> uuid option \<Rightarrow> string \<Rightarrow> int \<Rightarrow> int \<Rightarrow> ticket list support_op" where
  "list_tickets r acc status0 limit0 offset0 =
     (let n = nat (if limit0 < 1 \<or> 100 < limit0 then 50 else limit0); off = nat (if offset0 < 0 then 0 else offset0);
          status = trim_space status0 in
      bindM (map_errM raw_error (stmt_rows (\<lambda>d t. map (\<lambda>k. (k, find_username d (tk_account k)))
               (take n (drop off (newest_first (filter (listed acc status) (tickets t)))))))) (\<lambda>rows.
      bindM (liftM (scan_tickets r (acc = None) rows)) (\<lambda>ks.
      ret (if acc = None then ks else map (\<lambda>k. k\<lparr>tv_assigned := None\<rparr>) ks))))"

definition load_attachments :: "uuid \<Rightarrow> attachment list support_op" where
  "load_attachments i = map_errM raw_error (stmt_rows (\<lambda>d t. map attachment_of
     (sort_key sa_created (filter (\<lambda>a. sa_ticket a = i) (attachments t)))))"

definition get_ticket ::
  "support_repo \<Rightarrow> uuid option \<Rightarrow> uuid \<Rightarrow> (ticket \<times> support_message list) support_op" where
  "get_ticket r acc i =
     bindM (map_errM row_missing (stmt_row (\<lambda>d t. map_option (\<lambda>k. (k, find_username d (tk_account k)))
              (List.find (\<lambda>k. tk_id k = i \<and> (acc = None \<or> tk_account k = acc)) (tickets t))))) (\<lambda>row.
     bindM (liftM (scan_ticket r (acc = None) row)) (\<lambda>k.
     bindM (map_errM raw_error (stmt_rows (\<lambda>d t. map message_of
              (sort_key sm_created (filter (\<lambda>m. sm_ticket m = i) (messages t)))))) (\<lambda>ms.
     bindM (load_attachments i) (\<lambda>as.
     ret (if acc = None then k else k\<lparr>tv_assigned := None, tv_requester := None\<rparr>,
          map (\<lambda>m. m\<lparr>mv_attachments := filter (\<lambda>a. av_message a = mv_id m) as\<rparr>) ms)))))"

definition get_attachment :: "uuid option \<Rightarrow> uuid \<Rightarrow> uuid \<Rightarrow> attachment support_op" where
  "get_attachment acc i a =
     map_errM row_missing (stmt_row (\<lambda>d t. map_option attachment_of
       (List.find (\<lambda>x. sa_id x = a \<and> sa_ticket x = i
          \<and> list_ex (\<lambda>k. tk_id k = i \<and> (acc = None \<or> tk_account k = acc)) (tickets t)) (attachments t))))"

definition support_is_admin :: "uuid \<Rightarrow> bool support_op" where
  "support_is_admin acc = map_errM raw_error (stmt_rows (\<lambda>d t. (acc, ''admin'') \<in> set (roles d)))"

end
