(* ===== verification/SupportSync.thy ===== *)
theory SupportSync imports SupportStore begin

text \<open>
  Customer support, its bridges: messages that arrive from Discord and by e-mail, the Discord
  outbox with its claims, and the worker that empties it (internal/support/postgres_repository.go,
  worker.go, discord.go). The HTTP calls to Discord are a parameter.
\<close>

section \<open>Inbound messages\<close>

definition author_hash :: "support_repo \<Rightarrow> string \<Rightarrow> string \<Rightarrow> support_error + string option" where
  "author_hash r key author =
     (if length key \<noteq> 32 then Inr None
      else (case lookup_hash (sp_crypto r) key author of Inl e \<Rightarrow> Inl (SupCrypto e) | Inr h \<Rightarrow> Inr (Some h)))"

definition find_bridge :: "support_tables \<Rightarrow> string \<Rightarrow> uuid option" where
  "find_bridge t ext = map_option sb_message (List.find (\<lambda>b. sb_external b = ext) (bridges t))"

definition get_support_message :: "uuid \<Rightarrow> support_message support_op" where
  "get_support_message i =
     map_errM raw_error (stmt_row (\<lambda>d t. map_option message_of (List.find (\<lambda>m. sm_id m = i) (messages t))))"

definition insert_bridge :: "uuid \<Rightarrow> string \<Rightarrow> unit support_op" where
  "insert_bridge i ext =
     bindM db_clock (\<lambda>ts. map_errM map_support_error (stmt_insert (\<lambda>d t. has_message t i)
       (\<lambda>d t. list_all (\<lambda>b. sb_message b \<noteq> i \<and> sb_external b \<noteq> ext) (bridges t))
       (\<lambda>(d, t). (d, t\<lparr>bridges := bridges t
          @ [\<lparr>sb_message = i, sb_external = ext, sb_status = ''sent'', sb_synced = Some ts\<rparr>]\<rparr>))
       (\<lambda>_ _. ())))"

definition insert_inbound_dedup :: "string \<Rightarrow> uuid \<Rightarrow> unit support_op" where
  "insert_inbound_dedup ext i =
     map_errM raw_error (stmt_insert (\<lambda>d t. has_message t i) (\<lambda>_ _. True)
       (\<lambda>(d, t). if ext \<in> fst ` set (inbound_dedup t) then (d, t)
          else (d, t\<lparr>inbound_dedup := inbound_dedup t @ [(ext, i)]\<rparr>)) (\<lambda>_ _. ()))"

definition apply_discord_create ::
  "support_repo \<Rightarrow> ticket_row \<Rightarrow> string \<Rightarrow> string \<Rightarrow> string \<Rightarrow> time \<Rightarrow> string \<Rightarrow> support_message support_op" where
  "apply_discord_create r k ext author body created key =
     catchM (stmt_row (\<lambda>d t. find_bridge t ext))
       (\<lambda>e. if e \<noteq> SNoRows then fail SupSQL else
         bindM (liftM (author_hash r key author)) (\<lambda>hash.
         bindM (insert_support_message (tk_id k) None ''admin'' ''discord'' hash body created) (\<lambda>m.
         bindM (insert_bridge (mv_id m) ext) (\<lambda>_.
         bindM (insert_inbound_dedup ext (mv_id m)) (\<lambda>_.
         bindM (map_errM raw_error (update_ticket (tk_id k) (answered ''waiting_user''))) (\<lambda>_.
         bindM (add_ticket_event (tk_id k) None ''discord_message'' [(''message_id'', e_uuid (sp_env r) (mv_id m))]) (\<lambda>_.
         bindM (enqueue_user_notice r (ticket_of k) (''discord-message:'' @ e_uuid (sp_env r) (mv_id m))
                  (sp_text r TxReplyTitle)
                  (sp_text r TxDiscordReplyPre @ tv_number (ticket_of k) @ sp_text r TxReplyPost) (tk_account k)) (\<lambda>_.
         ret m))))))))
       get_support_message"

definition revise_row :: "support_operation \<Rightarrow> string \<Rightarrow> time \<Rightarrow> message_row \<Rightarrow> message_row" where
  "revise_row op body ts m =
     (if op = OpDelete then m\<lparr>sm_body := [], sm_status := ''deleted'', sm_deleted := Some ts\<rparr>
      else m\<lparr>sm_body := body, sm_status := ''edited'', sm_edited := Some ts\<rparr>)"

definition revise_message ::
  "support_operation \<Rightarrow> string \<Rightarrow> uuid \<Rightarrow> uuid \<Rightarrow> support_message support_op" where
  "revise_message op body i ticket =
     bindM db_clock (\<lambda>ts.
     bindM (map_errM map_support_error (stmt_insert
       (\<lambda>d t. list_all (\<lambda>m. sm_id m = i \<and> sm_ticket m = ticket \<longrightarrow> message_chk d t (revise_row op body ts m)) (messages t))
       (\<lambda>_ _. True)
       (\<lambda>(d, t). (d, t\<lparr>messages := update_where (\<lambda>m. sm_id m = i \<and> sm_ticket m = ticket)
                       (revise_row op body ts) (messages t)\<rparr>))
       (\<lambda>d t. map_option (\<lambda>m. message_of (revise_row op body ts m))
                (List.find (\<lambda>m. sm_id m = i \<and> sm_ticket m = ticket) (messages t))))) (\<lambda>m.
     case m of None \<Rightarrow> fail SupNotFound | Some m \<Rightarrow> ret m))"

fun operation_text :: "support_operation \<Rightarrow> string" where
  "operation_text OpCreate = ''create''"
| "operation_text OpEdit = ''edit''"
| "operation_text OpDelete = ''delete''"

definition apply_discord_revision ::
  "support_repo \<Rightarrow> ticket_row \<Rightarrow> support_operation \<Rightarrow> string \<Rightarrow> string \<Rightarrow> support_message support_op" where
  "apply_discord_revision r k op ext body =
     bindM (map_errM row_missing (stmt_row (\<lambda>d t. find_bridge t ext))) (\<lambda>i.
     bindM (revise_message op body i (tk_id k)) (\<lambda>m.
     bindM db_clock (\<lambda>ts.
     bindM (map_errM raw_error (stmt_write (\<lambda>t. t\<lparr>bridges := update_where (\<lambda>b. sb_message b = i)
              (\<lambda>b. b\<lparr>sb_status := (if op = OpDelete then ''deleted'' else ''edited''), sb_synced := Some ts\<rparr>)
              (bridges t)\<rparr>) (\<lambda>_ _. ()))) (\<lambda>_.
     bindM (add_ticket_event (tk_id k) None (''discord_message_'' @ operation_text op)
              [(''message_id'', e_uuid (sp_env r) i)]) (\<lambda>_.
     ret m)))))"

definition apply_discord_message ::
  "support_repo \<Rightarrow> external_message \<Rightarrow> string \<Rightarrow> support_message support_op" where
  "apply_discord_message r i key =
     bindM (liftM (validate_external_message i)) (\<lambda>_.
     bindM clock (\<lambda>t.
     let ext = trim_space (x_id i); body = trim_space (x_body i);
         created = (case x_created i of None \<Rightarrow> t | Some c \<Rightarrow> c) in
     in_tx raw_error (
       bindM (lock_ticket_by_channel (trim_space (x_channel i))) (\<lambda>k.
       if ended k then fail SupConflict
       else (case x_operation i of
               Some OpCreate \<Rightarrow> apply_discord_create r k ext (trim_space (x_author i)) body created key
             | Some op \<Rightarrow> apply_discord_revision r k op ext body
             | None \<Rightarrow> fail SupInvalidDiscordData)))))"

definition apply_email_message ::
  "support_repo \<Rightarrow> external_email \<Rightarrow> string \<Rightarrow> support_message support_op" where
  "apply_email_message r i key =
     bindM (liftM (validate_external_email (sp_env r) i)) (\<lambda>_.
     bindM clock (\<lambda>t.
     let ext = trim_space (xe_id i); body = trim_space (xe_body i); sender = trim_space (xe_from i);
         created = (case xe_created i of None \<Rightarrow> t | Some c \<Rightarrow> c) in
     bindM (liftM (parse_ticket_number_value (trim_space (xe_number i)))) (\<lambda>n.
     in_tx raw_error (
       bindM (lock_ticket_by_number n) (\<lambda>k.
       if ended k then fail SupConflict else
       catchM (stmt_row (\<lambda>d t. map_of (email_dedup t) ext))
         (\<lambda>e. if e \<noteq> SNoRows then fail SupSQL else
           bindM (liftM (author_hash r key sender)) (\<lambda>hash.
           bindM (insert_support_message (tk_id k) None ''admin'' ''email'' hash body created) (\<lambda>m.
           bindM (map_errM map_support_error (stmt_insert (\<lambda>d t. has_message t (mv_id m) \<and> \<not> pg_blank ext)
                    (\<lambda>d t. ext \<notin> fst ` set (email_dedup t))
                    (\<lambda>(d, t). (d, t\<lparr>email_dedup := email_dedup t @ [(ext, mv_id m)]\<rparr>)) (\<lambda>_ _. ()))) (\<lambda>_.
           bindM (map_errM raw_error (update_ticket (tk_id k) (answered ''waiting_user''))) (\<lambda>_.
           bindM (add_ticket_event (tk_id k) None ''email_message'' [(''message_id'', e_uuid (sp_env r) (mv_id m))]) (\<lambda>_.
           bindM (enqueue_discord_message k m ''admin'') (\<lambda>_.
           bindM (enqueue_user_notice r (ticket_of k) (''email-message:'' @ e_uuid (sp_env r) (mv_id m))
                    (sp_text r TxReplyTitle)
                    (sp_text r TxEmailReplyPre @ tv_number (ticket_of k) @ sp_text r TxReplyPost) (tk_account k)) (\<lambda>_.
           ret m))))))))
         get_support_message)))))"

section \<open>The Discord outbox\<close>

text \<open>
  What may be claimed: due, or left over by a worker that died five minutes ago, and no older
  task of the ticket unsent.
\<close>

definition discord_due :: "time \<Rightarrow> discord_row \<Rightarrow> bool" where
  "discord_due ts o1 \<longleftrightarrow> ((dq_status o1 = ''pending'' \<or> dq_status o1 = ''failed'') \<and> dq_available o1 \<le> ts)
     \<or> (dq_status o1 = ''processing'' \<and> dq_updated o1 < ts - 5 * minute)"

definition discord_blocked :: "discord_row list \<Rightarrow> discord_row \<Rightarrow> bool" where
  "discord_blocked os o1 \<longleftrightarrow> list_ex (\<lambda>p. dq_ticket p = dq_ticket o1 \<and> dq_id p \<noteq> dq_id o1
     \<and> dq_created p < dq_created o1 \<and> dq_status p \<noteq> ''sent'') os"

definition claimable_discord :: "support_tables \<Rightarrow> time \<Rightarrow> nat \<Rightarrow> discord_row list" where
  "claimable_discord t ts n = take n (sort_key dq_created
     (filter (\<lambda>o1. has_ticket t (dq_ticket o1) \<and> discord_due ts o1 \<and> \<not> discord_blocked (discord_queue t) o1)
       (discord_queue t)))"

definition discord_task_of :: "support_tables \<Rightarrow> discord_row \<Rightarrow> discord_task" where
  "discord_task_of t o1 =
     (let k = List.find (\<lambda>k. tk_id k = dq_ticket o1) (tickets t) in
      \<lparr>dt_id = dq_id o1, dt_ticket = dq_ticket o1, dt_message = dq_message o1,
       dt_number = (case k of None \<Rightarrow> 0 | Some k \<Rightarrow> tk_number k),
       dt_subject = (case k of None \<Rightarrow> [] | Some k \<Rightarrow> tk_subject k),
       dt_channel = (case k of None \<Rightarrow> [] | Some k \<Rightarrow> (case tk_channel k of None \<Rightarrow> [] | Some c \<Rightarrow> c)),
       dt_operation = dq_operation o1,
       dt_body = (case dq_message o1 of None \<Rightarrow> []
                  | Some i \<Rightarrow> (case List.find (\<lambda>m. sm_id m = i) (messages t) of None \<Rightarrow> [] | Some m \<Rightarrow> sm_body m)),
       dt_author_type = (case map_of (dq_payload o1) ''author_type'' of None \<Rightarrow> [] | Some s \<Rightarrow> s),
       dt_external = (case dq_external o1 of None \<Rightarrow> [] | Some s \<Rightarrow> s)\<rparr>)"

text \<open>
  The rows are scanned with \<^verbatim>\<open>message_id\<close> into a plain string, which rejects \<^verbatim>\<open>NULL\<close>: a row
  without a message makes the whole claim fail.
\<close>

definition scan_discord_rows :: "support_tables \<Rightarrow> discord_row list \<Rightarrow> support_error + discord_task list" where
  "scan_discord_rows t os =
     (if list_ex (\<lambda>o1. dq_message o1 = None) os then Inl SupOther else Inr (map (discord_task_of t) os))"

fun take_discord_tasks :: "time \<Rightarrow> discord_task list \<Rightarrow> unit support_op" where
  "take_discord_tasks ts [] = ret ()"
| "take_discord_tasks ts (k # ks) =
     bindM (map_errM raw_error (stmt_write (\<lambda>t. t\<lparr>discord_queue := update_where (\<lambda>o1. dq_id o1 = dt_id k)
              (\<lambda>o1. o1\<lparr>dq_status := ''processing'', dq_attempts := dq_attempts o1 + 1, dq_updated := ts\<rparr>)
              (discord_queue t)\<rparr>) (\<lambda>_ _. ()))) (\<lambda>_.
     take_discord_tasks ts ks)"

definition claim_discord_outbox :: "int \<Rightarrow> discord_task list support_op" where
  "claim_discord_outbox limit0 =
     (let n = nat (if limit0 < 1 \<or> 100 < limit0 then 20 else limit0) in
      bindM db_clock (\<lambda>ts.
      in_tx raw_error (
        bindM (map_errM raw_error (stmt_rows (\<lambda>d t. scan_discord_rows t (claimable_discord t ts n)))) (\<lambda>res.
        bindM (liftM res) (\<lambda>tasks.
        bindM (take_discord_tasks ts tasks) (\<lambda>_.
        ret tasks))))))"

definition upsert_bridge :: "uuid \<Rightarrow> string \<Rightarrow> unit support_op" where
  "upsert_bridge i ext =
     bindM db_clock (\<lambda>ts. map_errM map_support_error (stmt_insert (\<lambda>d t. has_message t i)
       (\<lambda>d t. list_all (\<lambda>b. sb_message b = i \<or> sb_external b \<noteq> ext) (bridges t))
       (\<lambda>(d, t). if list_ex (\<lambda>b. sb_message b = i) (bridges t)
          then (d, t\<lparr>bridges := update_where (\<lambda>b. sb_message b = i)
                 (\<lambda>b. b\<lparr>sb_external := ext, sb_status := ''sent'', sb_synced := Some ts\<rparr>) (bridges t)\<rparr>)
          else (d, t\<lparr>bridges := bridges t
                 @ [\<lparr>sb_message = i, sb_external = ext, sb_status = ''sent'', sb_synced = Some ts\<rparr>]\<rparr>))
       (\<lambda>_ _. ())))"

definition set_sync :: "uuid \<Rightarrow> string \<Rightarrow> unit support_op" where
  "set_sync i status = map_errM raw_error (update_ticket i (\<lambda>ts k. k\<lparr>tk_sync := status\<rparr>))"

definition discord_effect :: "discord_task \<Rightarrow> string \<Rightarrow> unit support_op" where
  "discord_effect k ext =
     (if dt_operation k = ''create_channel'' then
        (if is_blank ext then fail SupOther
         else map_errM raw_error (update_ticket (dt_ticket k)
                (\<lambda>ts r. r\<lparr>tk_channel := Some ext, tk_sync := ''synced''\<rparr>)))
      else if dt_operation k = ''create_message'' then
        (case dt_message k of
           None \<Rightarrow> fail SupOther
         | Some m \<Rightarrow> if is_blank ext then fail SupOther else upsert_bridge m ext)
      else if dt_operation k = ''archive_channel'' \<or> dt_operation k = ''reopen_channel'' then
        bindM (set_sync (dt_ticket k) ''archived'') (\<lambda>_.
        if dt_operation k = ''reopen_channel'' then set_sync (dt_ticket k) ''synced'' else ret ())
      else ret ())"

definition mark_discord_sent :: "discord_task \<Rightarrow> string \<Rightarrow> unit support_op" where
  "mark_discord_sent k ext =
     bindM db_clock (\<lambda>ts. in_tx raw_error (
       bindM (discord_effect k ext) (\<lambda>_.
       map_errM raw_error (stmt_write (\<lambda>t. t\<lparr>discord_queue := update_where (\<lambda>o1. dq_id o1 = dt_id k)
         (\<lambda>o1. o1\<lparr>dq_status := ''sent'', dq_error := None, dq_updated := ts\<rparr>) (discord_queue t)\<rparr>) (\<lambda>_ _. ())))))"

definition discord_backoff :: "int \<Rightarrow> duration" where
  "discord_backoff n = 30 * second * min (max n 1) 10"

definition mark_discord_failed :: "discord_task \<Rightarrow> string \<Rightarrow> unit support_op" where
  "mark_discord_failed k message0 =
     (let message = (if 500 < length message0 then take 500 message0 else message0) in
      bindM db_clock (\<lambda>ts. map_errM raw_error (stmt_insert
        (\<lambda>d t. valid_utf8 message) (\<lambda>_ _. True)
        (\<lambda>(d, t). (d, t\<lparr>discord_queue := update_where (\<lambda>o1. dq_id o1 = dt_id k)
           (\<lambda>o1. o1\<lparr>dq_status := (if dq_max o1 \<le> dq_attempts o1 then ''abandoned'' else ''failed''),
              dq_error := Some message, dq_available := ts + discord_backoff (dq_attempts o1),
              dq_updated := ts\<rparr>) (discord_queue t)\<rparr>)) (\<lambda>_ _. ()))))"

section \<open>The sender and the worker\<close>

record discord_config =
  dc_token :: string
  dc_guild :: string
  dc_category :: string
  dc_archive :: string
  dc_role :: string

definition new_discord_sender :: "discord_config \<Rightarrow> discord_config option" where
  "new_discord_sender c0 =
     (let c = \<lparr>dc_token = trim_space (dc_token c0), dc_guild = trim_space (dc_guild c0),
         dc_category = trim_space (dc_category c0), dc_archive = trim_space (dc_archive c0),
         dc_role = trim_space (dc_role c0)\<rparr> in
      if dc_token c = [] \<or> dc_guild c = [] \<or> dc_category c = [] \<or> dc_role c = [] then None else Some c)"

text \<open>\<^verbatim>\<open>%06d\<close> of a ticket number.\<close>

definition discord_channel_name :: "int \<Rightarrow> string" where
  "discord_channel_name n = ''ticket-'' @ left_pad_number n 6"

text \<open>\<open>user\<close>, \<open>staff\<close>, \<open>colon\<close> and \<open>note\<close> are the Chinese literals.\<close>

definition discord_message_content ::
  "string \<Rightarrow> string \<Rightarrow> string \<Rightarrow> string \<Rightarrow> discord_task \<Rightarrow> string" where
  "discord_message_content user staff colon note k =
     (let content = ''['' @ discord_channel_name (dt_number k) @ ''] ''
            @ (if dt_author_type k = ''user'' then user else staff) @ colon @ trim_space (dt_body k)
      in if 1900 < length content then take 1900 content @ note else content)"

text \<open>
  \<^verbatim>\<open>DiscordSender.Send\<close>: which call it makes. \<open>http\<close> makes it and gives the id of the response,
  or the error text; the guards stand before it.
\<close>

datatype discord_call =
    CreateChannel string
  | PostMessage string discord_task
  | EditMessage string string discord_task
  | RemoveMessage string string
  | ArchiveChannel string string
  | ReopenChannel string string

definition discord_send ::
  "discord_config \<Rightarrow> (discord_call \<Rightarrow> string + string) \<Rightarrow> discord_task \<Rightarrow> string + string" where
  "discord_send c http k =
     (let keep = (\<lambda>x r. case r of Inl e \<Rightarrow> Inl e | Inr _ \<Rightarrow> Inr x) in
      if dc_token c = [] then Inl ''Discord support sender is not configured''
      else if dt_operation k = ''create_channel'' then
        (case http (CreateChannel (discord_channel_name (dt_number k))) of
           Inl e \<Rightarrow> Inl e
         | Inr i \<Rightarrow> if is_blank i then Inl ''Discord channel response did not contain an id'' else Inr i)
      else if dt_operation k = ''create_message'' then
        (if is_blank (dt_channel k) then Inl ''Discord support channel is not ready''
         else (case http (PostMessage (dt_channel k) k) of
                 Inl e \<Rightarrow> Inl e
               | Inr i \<Rightarrow> if is_blank i then Inl ''Discord message response did not contain an id'' else Inr i))
      else if dt_operation k = ''edit_message'' then
        (if dt_channel k = [] \<or> dt_external k = [] then Inl ''Discord edit data is incomplete''
         else keep (dt_external k) (http (EditMessage (dt_channel k) (dt_external k) k)))
      else if dt_operation k = ''delete_message'' then
        (if dt_channel k = [] \<or> dt_external k = [] then Inl ''Discord delete data is incomplete''
         else keep (dt_external k) (http (RemoveMessage (dt_channel k) (dt_external k))))
      else if dt_operation k = ''archive_channel'' then
        (if is_blank (dt_channel k) then Inl ''Discord archive channel is missing''
         else keep (dt_channel k) (http (ArchiveChannel (dt_channel k)
                (''closed-'' @ discord_channel_name (dt_number k)))))
      else if dt_operation k = ''reopen_channel'' then
        (if is_blank (dt_channel k) then Inl ''Discord reopen channel is missing''
         else keep (dt_channel k) (http (ReopenChannel (dt_channel k) (discord_channel_name (dt_number k)))))
      else Inl ''unknown Discord support outbox operation'')"

definition safe_worker_error :: "string \<Rightarrow> string" where
  "safe_worker_error e = (let m = trim_space e in if 500 < length m then take 500 m else m)"

text \<open>The text of a repository error, as the worker stores it, is \<open>e_sql_text\<close>.\<close>

definition post_discord :: "(nat \<Rightarrow> discord_task \<Rightarrow> string + string) \<Rightarrow> discord_task \<Rightarrow> (support_tables state, 'e, string + string) op" where
  "post_discord send k s = (Inr (send (length (posted (snd s))) k),
     (fst s, (snd s)\<lparr>posted := posted (snd s) @ [k]\<rparr>))"

datatype discord_failure = SendFailed string | StoreFailed support_error

definition first_failure :: "discord_failure option \<Rightarrow> discord_failure \<Rightarrow> discord_failure option" where
  "first_failure old new = (case old of None \<Rightarrow> Some new | Some _ \<Rightarrow> old)"

text \<open>\<^verbatim>\<open>MarkDiscordOutboxFailed\<close> inside the loop; its own error comes first.\<close>

definition note_discord_failure ::
  "discord_task \<Rightarrow> string \<Rightarrow> discord_failure \<Rightarrow> discord_failure option
    \<Rightarrow> (support_tables state, 'e, discord_failure option) op" where
  "note_discord_failure k message e old =
     catchM (mark_discord_failed k (safe_worker_error message))
       (\<lambda>me. ret (first_failure (first_failure old (StoreFailed me)) e))
       (\<lambda>_. ret (first_failure old e))"

definition sync_task ::
  "env \<Rightarrow> (nat \<Rightarrow> discord_task \<Rightarrow> string + string) \<Rightarrow> discord_task \<Rightarrow> discord_failure option
    \<Rightarrow> (support_tables state, 'e, discord_failure option) op" where
  "sync_task en send k old =
     bindM (post_discord send k) (\<lambda>res.
     case res of
       Inl e \<Rightarrow> note_discord_failure k e (SendFailed e) old
     | Inr ext \<Rightarrow>
         catchM (mark_discord_sent k ext)
           (\<lambda>me. note_discord_failure k (e_sql_text en) (StoreFailed me) old)
           (\<lambda>_. ret old))"

fun sync_tasks ::
  "env \<Rightarrow> (nat \<Rightarrow> discord_task \<Rightarrow> string + string) \<Rightarrow> discord_task list \<Rightarrow> discord_failure option
    \<Rightarrow> (support_tables state, 'e, discord_failure option) op" where
  "sync_tasks en send [] old = ret old"
| "sync_tasks en send (k # ks) old = bindM (sync_task en send k old) (\<lambda>e. sync_tasks en send ks e)"

definition discord_process_once ::
  "env \<Rightarrow> (nat \<Rightarrow> discord_task \<Rightarrow> string + string) \<Rightarrow> int
    \<Rightarrow> (support_tables state, 'e, discord_failure option) op" where
  "discord_process_once en send batch0 =
     (let batch = (if batch0 < 1 \<or> 100 < batch0 then 20 else batch0) in
      catchM (claim_discord_outbox batch) (\<lambda>e. ret (Some (StoreFailed e)))
        (\<lambda>tasks. sync_tasks en send tasks None))"

end
