(* ===== verification/Storage.thy ===== *)
theory Storage imports Components begin

text \<open>
  Object storage and uploads (internal/storage/blob.go and scanner.go): the checks on storage keys,
  file names and file types, the staging of an upload, the malware scan of a staged file. The
  object store's own answers and the bytes clamd sends back are parameters; of the objects the
  state keeps the keys (\<open>blobs\<close>).
\<close>

section \<open>Keys\<close>

definition max_portfolio_file_bytes :: int where
  "max_portfolio_file_bytes = 50 * 2 ^ 20"

definition validate_storage_key :: "string \<Rightarrow> bool" where
  "validate_storage_key key \<longleftrightarrow>
     \<not> (key = [] \<or> has_prefix key ''/'' \<or> CHR 0x5C \<in> set key)
     \<and> list_all (\<lambda>p. p \<noteq> [] \<and> p \<noteq> ''.'' \<and> p \<noteq> ''..'') (split_on (CHR ''/'') key)"

section \<open>File names and types\<close>

text \<open>\<^verbatim>\<open>filepath.Base\<close> and \<^verbatim>\<open>filepath.Ext\<close>, with the separator of Unix.\<close>

definition after_last :: "char \<Rightarrow> string \<Rightarrow> string" where
  "after_last c s = (case last_index_byte s c of None \<Rightarrow> s | Some i \<Rightarrow> drop (Suc i) s)"

definition file_base :: "string \<Rightarrow> string" where
  "file_base s =
     (if s = [] then ''.''
      else let b = after_last (CHR ''/'') (trim_right s ''/'') in if b = [] then ''/'' else b)"

definition file_ext :: "string \<Rightarrow> string" where
  "file_ext s = (let b = after_last (CHR ''/'') s in
     case last_index_byte b (CHR ''.'') of None \<Rightarrow> [] | Some i \<Rightarrow> drop i b)"

definition is_control :: "nat \<Rightarrow> bool" where
  "is_control r \<longleftrightarrow> r < 0x20 \<or> (0x7F \<le> r \<and> r < 0xA0)"

definition sanitize_file_name :: "string \<Rightarrow> string option" where
  "sanitize_file_name name0 =
     (let name = trim_space name0 in
      if name = [] \<or> 255 < length name \<or> contains_any name [CHR ''/'', CHR 0x5C] then None
      else if list_ex (\<lambda>(r, _). is_control r) (runes name) then None
      else if file_base name \<noteq> name then None
      else Some name)"

definition openxml :: string where
  "openxml = ''application/vnd.openxmlformats-officedocument''"

definition allowed_types :: "(string \<times> string) list" where
  "allowed_types =
     [(''.pdf'', ''application/pdf''), (''.csv'', ''text/csv''), (''.tsv'', ''text/tab-separated-values''),
      (''.txt'', ''text/plain''), (''.json'', ''application/json''), (''.doc'', ''application/msword''),
      (''.docx'', openxml @ ''.wordprocessingml.document''), (''.ppt'', ''application/vnd.ms-powerpoint''),
      (''.pptx'', openxml @ ''.presentationml.presentation''), (''.xls'', ''application/vnd.ms-excel''),
      (''.xlsx'', openxml @ ''.spreadsheetml.sheet''), (''.jpg'', ''image/jpeg''), (''.jpeg'', ''image/jpeg''),
      (''.png'', ''image/png''), (''.gif'', ''image/gif''), (''.webp'', ''image/webp'')]"

definition has_expected_signature :: "string \<Rightarrow> string \<Rightarrow> bool" where
  "has_expected_signature ext h =
     (if ext = ''.pdf'' then has_prefix h ''%PDF-''
      else if ext \<in> {''.csv'', ''.tsv'', ''.txt''} then h \<noteq> []
      else if ext = ''.json'' then (let t = trim_space h in has_prefix t ''{'' \<or> has_prefix t ''['')
      else if ext \<in> {''.jpg'', ''.jpeg''} then has_prefix h [CHR 0xFF, CHR 0xD8, CHR 0xFF]
      else if ext = ''.png'' then has_prefix h ([CHR 0x89] @ ''PNG'' @ [CHR 0x0D, CHR 0x0A, CHR 0x1A, CHR 0x0A])
      else if ext = ''.gif'' then has_prefix h ''GIF87a'' \<or> has_prefix h ''GIF89a''
      else if ext = ''.webp'' then 12 \<le> length h \<and> take 4 h = ''RIFF'' \<and> take 4 (drop 8 h) = ''WEBP''
      else if ext \<in> {''.doc'', ''.xls'', ''.ppt''}
        then has_prefix h [CHR 0xD0, CHR 0xCF, CHR 0x11, CHR 0xE0, CHR 0xA1, CHR 0xB1, CHR 0x1A, CHR 0xE1]
      else if ext \<in> {''.docx'', ''.xlsx'', ''.pptx''} then has_prefix h ''PK''
      else False)"

definition validate_file_type :: "unicode \<Rightarrow> string \<Rightarrow> string \<Rightarrow> string \<Rightarrow> string option" where
  "validate_file_type u name declared0 h =
     (let ext = to_lower u (file_ext name);
          declared = to_lower u (trim_space (hd (split_on (CHR '';'') declared0))) in
      case map_of allowed_types ext of
        None \<Rightarrow> None
      | Some ty \<Rightarrow>
          if declared \<noteq> [] \<and> declared \<noteq> ty \<and> \<not> (has_prefix declared openxml \<and> has_prefix ty openxml) then None
          else if \<not> has_expected_signature ext h then None
          else Some ty)"

section \<open>Staging\<close>

text \<open>
  A part of a multipart form: the name and content type the client declares and the bytes, or
  \<^const>\<open>None\<close> when reading them fails. \<open>sg_data\<close> is the content of the staging file.
\<close>

record upload =
  up_name :: string
  up_declared :: string
  up_data :: "string option"

record staged =
  sg_name :: string
  sg_type :: string
  sg_size :: int
  sg_sha256 :: string
  sg_data :: string

definition stage_upload_with_limit :: "crypto \<Rightarrow> unicode \<Rightarrow> upload \<Rightarrow> int \<Rightarrow> staged option" where
  "stage_upload_with_limit cr u f max_bytes =
     (if max_bytes \<le> 0 \<or> max_portfolio_file_bytes < max_bytes then None
      else case sanitize_file_name (up_name f) of
        None \<Rightarrow> None
      | Some name \<Rightarrow>
          (case up_data f of
             None \<Rightarrow> None
           | Some body \<Rightarrow>
               if body = [] \<or> max_bytes < int (length body) then None
               else case validate_file_type u name (up_declared f) (take 512 body) of
                 None \<Rightarrow> None
               | Some ty \<Rightarrow> Some \<lparr>sg_name = name, sg_type = ty, sg_size = int (length body),
                                  sg_sha256 = hex_encode (c_sha256 cr body), sg_data = body\<rparr>))"

definition stage_upload :: "crypto \<Rightarrow> unicode \<Rightarrow> upload \<Rightarrow> staged option" where
  "stage_upload cr u f = stage_upload_with_limit cr u f max_portfolio_file_bytes"

section \<open>Malware scan\<close>

datatype scan_error = MalwareDetected | ScannerUnavailable

record clamav =
  cv_network :: string
  cv_address :: string

definition new_clamav_scanner :: "string \<Rightarrow> clamav option" where
  "new_clamav_scanner raw =
     (let v = trim_space raw;
          choice = (if has_prefix v ''tcp://'' then Some (''tcp'', trim_prefix v ''tcp://'')
                    else if has_prefix v ''unix://'' then Some (''unix'', trim_prefix v ''unix://'')
                    else if contains_str v ''://'' then None
                    else Some (''tcp'', v)) in
      if v = [] \<or> 512 < length v \<or> contains_any v [CHR 0x00, CHR 0x0D, CHR 0x0A] then None
      else case choice of
        None \<Rightarrow> None
      | Some (network, address) \<Rightarrow>
          if address = [] \<or> (network = ''tcp'' \<and> CHR '':'' \<notin> set address) then None
          else Some \<lparr>cv_network = network, cv_address = address\<rparr>)"

text \<open>What clamd answers to the streamed file, \<^const>\<open>None\<close> when the exchange fails.\<close>

definition clamav_verdict :: "string option \<Rightarrow> scan_error option" where
  "clamav_verdict answer =
     (case answer of
        None \<Rightarrow> Some ScannerUnavailable
      | Some response \<Rightarrow>
          let message = trim_space (trim_right response [CHR 0x00]) in
          if has_suffix message ''FOUND'' \<or> contains_str message ''FOUND'' then Some MalwareDetected
          else if \<not> has_suffix message ''OK'' then Some ScannerUnavailable
          else None)"

type_synonym scanner = "string \<Rightarrow> string option"

definition scan_staged_upload :: "scanner option \<Rightarrow> staged \<Rightarrow> scan_error option" where
  "scan_staged_upload sc f = (case sc of None \<Rightarrow> None | Some scan \<Rightarrow> clamav_verdict (scan (sg_data f)))"

section \<open>Objects\<close>

text \<open>The client of the object store: which writes, removals and signatures it performs.\<close>

record blob_store =
  bs_put :: "string \<Rightarrow> bool"
  bs_remove :: "string \<Rightarrow> bool"
  bs_sign :: "string \<Rightarrow> duration \<Rightarrow> string option"

definition blob_put :: "blob_store \<Rightarrow> string \<Rightarrow> int \<Rightarrow> ('t state, 'e, bool) op" where
  "blob_put b key n s =
     (if \<not> validate_storage_key key \<or> n \<le> 0 \<or> max_portfolio_file_bytes < n \<or> \<not> bs_put b key then (Inr False, s)
      else (Inr True, ((fst s)\<lparr>blobs := key # filter (\<lambda>k. k \<noteq> key) (blobs (fst s))\<rparr>, snd s)))"

definition blob_remove :: "blob_store \<Rightarrow> string \<Rightarrow> ('t state, 'e, bool) op" where
  "blob_remove b key s =
     (if \<not> validate_storage_key key \<or> \<not> bs_remove b key then (Inr False, s)
      else (Inr True, ((fst s)\<lparr>blobs := filter (\<lambda>k. k \<noteq> key) (blobs (fst s))\<rparr>, snd s)))"

definition blob_presign :: "blob_store \<Rightarrow> string \<Rightarrow> duration \<Rightarrow> string option" where
  "blob_presign b key expiry =
     (if \<not> validate_storage_key key then None
      else bs_sign b key (if expiry \<le> 0 \<or> 15 * minute < expiry then 5 * minute else expiry))"

text \<open>A UUID drawn by the server program itself (\<^verbatim>\<open>uuid.New()\<close>).\<close>

definition fresh_uuid :: "('t state, 'e, uuid) op" where
  "fresh_uuid s = (Inr (next_id (w_db (fst s))),
     ((fst s)\<lparr>w_db := (w_db (fst s))\<lparr>next_id := Suc (next_id (w_db (fst s)))\<rparr>\<rparr>, snd s))"

section \<open>What a staged file satisfies\<close>

lemma file_base_plain: "name \<noteq> [] \<Longrightarrow> CHR ''/'' \<notin> set name \<Longrightarrow> file_base name = name"
proof -
  assume n: "name \<noteq> []" "CHR ''/'' \<notin> set name"
  have idx: "last_index_byte s c = None" if "c \<notin> set s" for s c
    using that by (induction s) auto
  have "trim_right name ''/'' = name"
  proof (cases "rev name")
    case (Cons y ys)
    then have "y \<in> set name" by (metis list.set_intros(1) set_rev)
    with n(2) have "dropWhile (\<lambda>c. c \<in> set ''/'') (rev name) = rev name" using Cons by auto
    then show ?thesis by (simp add: trim_right_def)
  qed (use n in simp)
  with n idx[of "CHR ''/''" name] show ?thesis by (simp add: file_base_def after_last_def Let_def)
qed

lemma sanitize_Some:
  assumes "sanitize_file_name raw = Some name"
  shows "name \<noteq> []" "length name \<le> 255" "CHR ''/'' \<notin> set name" "CHR 0x5C \<notin> set name"
    "list_all (\<lambda>(r, _). \<not> is_control r) (runes name)"
  using assms
  by (auto simp: sanitize_file_name_def Let_def contains_any_def list_ex_iff list_all_iff split: if_splits)

lemma stage_upload_Some:
  assumes "stage_upload_with_limit cr u f m = Some g"
  shows "sanitize_file_name (up_name f) = Some (sg_name g)" "0 < sg_size g" "sg_size g \<le> m"
    "sg_size g = int (length (sg_data g))" "sg_sha256 g = hex_encode (c_sha256 cr (sg_data g))"
    "map_of allowed_types (to_lower u (file_ext (sg_name g))) = Some (sg_type g)"
    "has_expected_signature (to_lower u (file_ext (sg_name g))) (take 512 (sg_data g))"
  using assms
  by (auto simp: stage_upload_with_limit_def validate_file_type_def Let_def split: if_splits option.splits)

lemma scan_passes:
  "scan_staged_upload sc g = None \<longleftrightarrow> (case sc of None \<Rightarrow> True | Some scan \<Rightarrow>
     (case scan (sg_data g) of None \<Rightarrow> False | Some response \<Rightarrow>
        let message = trim_space (trim_right response [CHR 0x00]) in
        \<not> contains_str message ''FOUND'' \<and> has_suffix message ''OK''))"
proof -
  have suffix: "contains_str s p" if "has_suffix s p" "p \<noteq> []" for s p
  proof -
    from that(1) obtain t where "s = t @ p" by (auto simp: has_suffix_iff)
    moreover have "contains_str (t @ p) p" if "p \<noteq> []" for t
    proof (induction t)
      case Nil
      from that show ?case by (cases p) (auto simp: has_prefix_def)
    qed simp
    ultimately show ?thesis using that(2) by blast
  qed
  show ?thesis
    by (auto simp: scan_staged_upload_def clamav_verdict_def Let_def suffix split: option.splits if_splits)
qed

lemma keeps_blobs [keeps_intros]:
  "tables_keep P (blob_put b key n)" "tables_keep P (blob_remove b key)"
  by (auto simp: keeps_def blob_put_def blob_remove_def tables_def)

end
