(* ===== verification/ComponentHttp.thy ===== *)
theory ComponentHttp imports Storage AuthHandler begin

text \<open>
  What the HTTP handlers of the components share. Each component has its own copy of these
  helpers in its handler.go, with its own texts; a component's guard is one of its own
  definitions, built from the steps below.

  A handler is an operation over the component's state that ends with a reply; an early return is
  the error side of the sum. A reply is the status with an error code and message, or with the
  value that is encoded.
\<close>

datatype 'p reply = Refused nat string string | Replied nat 'p

type_synonym ('t, 'p, 'a) route = "('t state, 'p reply, 'a) op"

abbreviation refuse_unauthorized :: "'p reply" where
  "refuse_unauthorized \<equiv> Refused 401 ''unauthorized'' ''authentication is required''"

abbreviation refuse_mfa :: "'p reply" where
  "refuse_mfa \<equiv> Refused 428 ''admin_mfa_required'' ''administrator MFA verification is required''"

abbreviation refuse_csrf :: "'p reply" where
  "refuse_csrf \<equiv> Refused 403 ''csrf_required'' ''request verification failed''"

abbreviation refuse_internal :: "'p reply" where
  "refuse_internal \<equiv> Refused 500 ''internal_error'' ''internal server error''"

abbreviation refuse_admin :: "'p reply" where
  "refuse_admin \<equiv> Refused 403 ''admin_required'' ''administrator permission is required''"

section \<open>Steps\<close>

definition session_step :: "service \<Rightarrow> request \<Rightarrow> ('t, 'p, request_session) route" where
  "session_step sv rq =
     map_errM (\<lambda>e. if e \<in> {ErrAdminMFARequired, ErrAdminMFAInvalid} then refuse_mfa else refuse_unauthorized)
       (core (authenticate sv rq))"

definition csrf_step :: "service \<Rightarrow> request \<Rightarrow> request_session \<Rightarrow> ('t, 'p, unit) route" where
  "csrf_step sv rq rs = map_errM (\<lambda>_. refuse_csrf) (liftM (authorize_mutation sv rq rs))"

definition admin_step :: "(uuid \<Rightarrow> ('t state, 'e, bool) op) \<Rightarrow> request_session \<Rightarrow> ('t, 'p, unit) route" where
  "admin_step check rs =
     bindM (map_errM (\<lambda>_. refuse_internal) (check (acc_id (session_account rs)))) (\<lambda>ok.
     if ok then ret () else fail refuse_admin)"

definition mfa_step :: "service \<Rightarrow> request \<Rightarrow> request_session \<Rightarrow> ('t, 'p, unit) route" where
  "mfa_step sv rq rs = map_errM (\<lambda>_. refuse_mfa)
     (core (require_admin_mfa sv (acc_id (session_account rs)) (header rq ''X-Mfa-Code'')))"

definition path_uuid :: "env \<Rightarrow> string \<Rightarrow> string \<Rightarrow> string \<Rightarrow> ('t, 'p, uuid) route" where
  "path_uuid en raw code message =
     (case e_parse_uuid en raw of None \<Rightarrow> fail (Refused 400 code message) | Some i \<Rightarrow> ret i)"

text \<open>A request body is its decoded value, \<^const>\<open>None\<close> when the decoder rejects it.\<close>

definition body_step :: "'b option \<Rightarrow> string \<Rightarrow> string \<Rightarrow> ('t, 'p, 'b) route" where
  "body_step body code message =
     (case body of None \<Rightarrow> fail (Refused 400 code message) | Some x \<Rightarrow> ret x)"

section \<open>Runs\<close>

lemma core_Inr: "core m s = (Inr x, s') \<longleftrightarrow> m (fst s) = (Inr x, fst s') \<and> snd s' = snd s"
  by (cases s; cases s') (auto simp: core_def split: prod.splits)

lemma core_Inl: "core m s = (Inl e, s') \<longleftrightarrow> m (fst s) = (Inl e, fst s') \<and> snd s' = snd s"
  by (cases s; cases s') (auto simp: core_def split: prod.splits)

lemma csrf_step_Inr: "csrf_step sv rq rs s = (Inr u, s') \<longleftrightarrow> authorize_mutation sv rq rs = Inr () \<and> s' = s"
  by (auto simp: csrf_step_def)

section \<open>The steps leave the tables of the component alone\<close>

lemma rows_keep_steps [keeps_intros]:
  "rows_keep R (session_step sv rq)" "rows_keep R (csrf_step sv rq rs)" "rows_keep R (mfa_step sv rq rs)"
  "rows_keep R (path_uuid en raw code msg)" "rows_keep R (body_step body code msg)" "rows_keep R fresh_uuid"
  by (auto simp: session_step_def csrf_step_def mfa_step_def path_uuid_def body_step_def
      intro!: keeps_intros split: option.splits)
    (auto simp: keeps_def fresh_uuid_def tables_def)

lemma rows_keep_admin [keeps_intros]: "rows_keep R (check (acc_id (session_account rs))) \<Longrightarrow> rows_keep R (admin_step check rs)"
  unfolding admin_step_def by (intro keeps_intros)

end
