(* ===== verification/Pagination.thy ===== *)
theory Pagination imports ComponentHttp Outbox "HOL-Library.Product_Lexorder" begin

text \<open>
  Keyset pagination (internal/pagination/cursor.go), and what it is used for first: the list of
  notifications (internal/notifications/postgres_repository.go and handler.go). The JSON form of a
  cursor is a parameter with the law \<open>codec_ok\<close>.

  The locale \<open>keyset\<close> is the contract of such a list: a page is the first rows below a position in
  a descending order. Whoever follows the pages sees every row once, in order, if no two rows tie.
\<close>

section \<open>Cursors\<close>

record cursor =
  cu_time :: time
  cu_id :: string

definition zero_cursor :: cursor where
  "zero_cursor = \<lparr>cu_time = zero_time, cu_id = []\<rparr>"

record cursor_json =
  cj_marshal :: "cursor \<Rightarrow> string option"
  cj_unmarshal :: "string \<Rightarrow> cursor option"

definition codec_ok :: "cursor_json \<Rightarrow> bool" where
  "codec_ok j \<longleftrightarrow> (\<forall>c s. cj_marshal j c = Some s \<longrightarrow> s \<noteq> [] \<and> cj_unmarshal j s = Some c)"

definition cursor_zero :: "cursor \<Rightarrow> bool" where
  "cursor_zero c \<longleftrightarrow> cu_id c = []"

definition encode_cursor :: "cursor_json \<Rightarrow> cursor \<Rightarrow> string" where
  "encode_cursor j c = (case cj_marshal j c of None \<Rightarrow> [] | Some raw \<Rightarrow> raw_url_encode raw)"

definition decode_cursor :: "env \<Rightarrow> cursor_json \<Rightarrow> string \<Rightarrow> cursor option" where
  "decode_cursor en j token =
     (if token = [] then Some zero_cursor
      else case raw_url_decode token of
        None \<Rightarrow> None
      | Some raw \<Rightarrow>
          (case cj_unmarshal j raw of
             None \<Rightarrow> None
           | Some c \<Rightarrow> if cu_id c = [] \<or> cu_time c = zero_time then None
                     else if e_parse_uuid en (cu_id c) = None then None
                     else Some c))"

definition cursor_uuid :: "env \<Rightarrow> cursor \<Rightarrow> uuid" where
  "cursor_uuid en c = (case e_parse_uuid en (cu_id c) of None \<Rightarrow> 0 | Some i \<Rightarrow> i)"

definition clamp_limit :: "int \<Rightarrow> int \<Rightarrow> int \<Rightarrow> int" where
  "clamp_limit requested def most = (if requested \<le> 0 then def else if most < requested then most else requested)"

definition next_cursor :: "env \<Rightarrow> cursor_json \<Rightarrow> int \<Rightarrow> int \<Rightarrow> time \<Rightarrow> uuid \<Rightarrow> string" where
  "next_cursor en j page_len l t i =
     (if page_len < l then [] else encode_cursor j \<lparr>cu_time = t, cu_id = e_uuid en i\<rparr>)"

text \<open>A position that survives the round trip through a token.\<close>

definition cursor_good :: "env \<Rightarrow> cursor_json \<Rightarrow> time \<Rightarrow> uuid \<Rightarrow> bool" where
  "cursor_good en j t i \<longleftrightarrow> t \<noteq> zero_time \<and> e_uuid en i \<noteq> [] \<and> e_parse_uuid en (e_uuid en i) = Some i
     \<and> cj_marshal j \<lparr>cu_time = t, cu_id = e_uuid en i\<rparr> \<noteq> None"

lemma raw_url_encode_empty: "raw_url_encode [] = []"
  by code_simp

lemma raw_url_encode_Nil: "raw_url_encode s = [] \<longleftrightarrow> s = []"
  by (metis option.inject raw_url_encode_empty raw_url_roundtrip)

lemma cursor_roundtrip:
  assumes "codec_ok j" "cursor_good en j t i"
  defines "c \<equiv> \<lparr>cu_time = t, cu_id = e_uuid en i\<rparr>"
  shows "encode_cursor j c \<noteq> []" "decode_cursor en j (encode_cursor j c) = Some c" "cursor_uuid en c = i"
proof -
  from assms(2) obtain raw where raw: "cj_marshal j c = Some raw" by (auto simp: cursor_good_def c_def)
  with assms(1) have u: "raw \<noteq> []" "cj_unmarshal j raw = Some c" by (auto simp: codec_ok_def)
  show "encode_cursor j c \<noteq> []" using raw u by (simp add: encode_cursor_def raw_url_encode_Nil)
  then show "decode_cursor en j (encode_cursor j c) = Some c"
    using raw u assms(2) by (simp add: decode_cursor_def encode_cursor_def cursor_good_def c_def)
  show "cursor_uuid en c = i" using assms(2) by (simp add: cursor_uuid_def cursor_good_def c_def)
qed

section \<open>The contract of a keyset list\<close>

locale keyset =
  fixes key :: "'r \<Rightarrow> 'k :: linorder"
    and rows :: "'r list"
    and page :: "nat \<Rightarrow> 'k option \<Rightarrow> 'r list"
  assumes desc: "sorted_wrt (\<lambda>a b. key b \<le> key a) rows"
    and page: "page l c = take l (filter (\<lambda>r. case c of None \<Rightarrow> True | Some k \<Rightarrow> key r < k) rows)"
begin

definition below :: "'k option \<Rightarrow> 'r list" where
  "below c = filter (\<lambda>r. case c of None \<Rightarrow> True | Some k \<Rightarrow> key r < k) rows"

lemma below_after:
  assumes no_ties: "distinct (map key rows)" and split: "below c = xs @ x # ys"
  shows "below (Some (key x)) = ys"
proof -
  have s: "sorted_wrt (\<lambda>a b. key b \<le> key a) (xs @ x # ys)"
    unfolding split[symmetric] below_def by (rule sorted_wrt_filter[OF desc])
  have d: "distinct (map key (xs @ x # ys))"
    unfolding split[symmetric] below_def by (rule distinct_map_filter[OF no_ties])
  have le: "key x < k" if "c = Some k" for k
  proof -
    have "x \<in> set (below c)" unfolding split by simp
    with that show ?thesis by (simp add: below_def)
  qed
  have imp: "(case c of None \<Rightarrow> True | Some k \<Rightarrow> key r < k)" if "key r < key x" for r
    using that le by (cases c) (auto dest: less_trans)
  have "below (Some (key x)) = filter (\<lambda>r. key r < key x) (below c)"
    unfolding below_def filter_filter by (rule filter_cong[OF refl]) (use imp in auto)
  also have "\<dots> = filter (\<lambda>r. key r < key x) xs @ filter (\<lambda>r. key r < key x) (x # ys)"
    by (simp only: split filter_append)
  also have "filter (\<lambda>r. key r < key x) xs = []"
    using s by (auto simp: sorted_wrt_append filter_empty_conv)
  also have "filter (\<lambda>r. key r < key x) (x # ys) = ys"
    using s d by (auto simp: sorted_wrt_append intro!: filter_True) (metis image_eqI order_le_neq_trans)
  finally show ?thesis by simp
qed

text \<open>A full page continues below its last row; a page that is not full was the last.\<close>

lemma page_step:
  assumes "distinct (map key rows)" "page l c \<noteq> []"
  shows "below c = page l c @ below (Some (key (last (page l c))))"
proof -
  have p: "page l c = take l (below c)" unfolding page below_def by (rule refl)
  with assms(2) have "page l c = butlast (page l c) @ [last (page l c)]" by simp
  with p have "below c = butlast (page l c) @ last (page l c) # drop l (below c)"
    by (metis append.assoc append_Cons append_Nil append_take_drop_id)
  with below_after[OF assms(1) this] show ?thesis
    by (metis append.assoc append_Cons append_Nil append_butlast_last_id assms(2))
qed

lemma page_last: "length (page l c) < l \<Longrightarrow> page l c = below c"
  unfolding page below_def by simp

lemma page_length: "length (page l c) \<le> l"
  unfolding page by simp

lemma below_all: "below None = rows"
  by (simp add: below_def)

end

section \<open>Notifications\<close>

definition notice_key :: "notification_row \<Rightarrow> time \<times> uuid" where
  "notice_key n = (n_created n, n_id n)"

text \<open>\<^verbatim>\<open>ORDER BY created_at DESC, id DESC\<close>\<close>

definition notices_of :: "uuid \<Rightarrow> db \<Rightarrow> notification_row list" where
  "notices_of acc d = rev (sort_key notice_key (filter (\<lambda>n. n_account n = acc) (notices d)))"

definition page_notices :: "uuid \<Rightarrow> db \<Rightarrow> nat \<Rightarrow> (time \<times> uuid) option \<Rightarrow> notification_row list" where
  "page_notices acc d l after =
     take l (filter (\<lambda>n. case after of None \<Rightarrow> True | Some k \<Rightarrow> notice_key n < k) (notices_of acc d))"

fun open_notices :: "env \<Rightarrow> field_cipher option \<Rightarrow> notification_row list \<Rightarrow> notif_error + notification list" where
  "open_notices en co [] = Inr []"
| "open_notices en co (n # ns) =
     (case open_notice en co n of
        Inl e \<Rightarrow> Inl (NotifCipher e)
      | Inr x \<Rightarrow> (case open_notices en co ns of Inl e \<Rightarrow> Inl e | Inr xs \<Rightarrow> Inr (x # xs)))"

definition list_notices ::
  "env \<Rightarrow> field_cipher option \<Rightarrow> cursor_json \<Rightarrow> uuid \<Rightarrow> int \<Rightarrow> cursor
    \<Rightarrow> (world, notif_error, notification list \<times> string) op" where
  "list_notices en co j acc l0 after =
     (let l = clamp_limit l0 50 100;
          position = (if cursor_zero after then None else Some (cu_time after, cursor_uuid en after)) in
      bindM (map_errM notif_sql (sql_read (\<lambda>d. Some (page_notices acc d (nat l) position)))) (\<lambda>rows.
      bindM (liftM (open_notices en co rows)) (\<lambda>items.
      ret (items, if items = [] then []
                  else next_cursor en j (int (length items)) l (no_created (last items)) (no_id (last items))))))"

section \<open>The routes\<close>

datatype notif_body =
    NoticesBody "notification list" string | UnreadBody nat | MarkedBody nat | NoNoticeBody

type_synonym 'a notif_step = "(world, notif_body reply, 'a) op"

definition notif_refused :: "nat \<Rightarrow> string \<Rightarrow> string \<Rightarrow> notif_body reply" where
  "notif_refused status code message = Refused status code message"

definition notif_internal :: "notif_body reply" where
  "notif_internal = notif_refused 500 ''internal_error'' ''internal server error''"

definition notif_session :: "service \<Rightarrow> request \<Rightarrow> request_session notif_step" where
  "notif_session sv rq =
     map_errM (\<lambda>_. notif_refused 401 ''unauthorized'' ''authentication is required'') (authenticate sv rq)"

definition notif_mutation :: "service \<Rightarrow> request \<Rightarrow> request_session notif_step" where
  "notif_mutation sv rq =
     bindM (notif_session sv rq) (\<lambda>rs.
     bindM (map_errM (\<lambda>_. notif_refused 403 ''csrf_required'' ''request verification failed'')
              (liftM (authorize_mutation sv rq rs))) (\<lambda>_. ret rs))"

definition notification_page_query ::
  "env \<Rightarrow> cursor_json \<Rightarrow> string \<Rightarrow> string \<Rightarrow> (int \<times> cursor) option" where
  "notification_page_query en j raw token =
     (case (if raw = [] then Some 50
            else case atoi raw of None \<Rightarrow> None | Some n \<Rightarrow> if n < 1 \<or> 100 < n then None else Some n) of
        None \<Rightarrow> None
      | Some l \<Rightarrow> map_option (Pair l) (decode_cursor en j token))"

definition handle_unread_count :: "service \<Rightarrow> request \<Rightarrow> notif_body reply notif_step" where
  "handle_unread_count sv rq =
     bindM (notif_session sv rq) (\<lambda>rs.
     bindM (map_errM (\<lambda>_. notif_internal) (unread_count (acc_id (session_account rs)))) (\<lambda>n.
     ret (Replied 200 (UnreadBody n))))"

definition handle_mark_all_read :: "service \<Rightarrow> request \<Rightarrow> notif_body reply notif_step" where
  "handle_mark_all_read sv rq =
     bindM (notif_mutation sv rq) (\<lambda>rs.
     bindM (map_errM (\<lambda>_. notif_internal) (mark_all_read (acc_id (session_account rs)))) (\<lambda>n.
     ret (Replied 200 (MarkedBody n))))"

definition handle_list_notices ::
  "service \<Rightarrow> cursor_json \<Rightarrow> request \<Rightarrow> string \<Rightarrow> string \<Rightarrow> notif_body reply notif_step" where
  "handle_list_notices sv j rq raw token =
     bindM (notif_session sv rq) (\<lambda>rs.
     case notification_page_query (sv_env sv) j raw token of
       None \<Rightarrow> fail (notif_refused 400 ''invalid_query'' ''notification query is invalid'')
     | Some (l, after) \<Rightarrow>
         bindM (map_errM (\<lambda>_. notif_internal)
           (list_notices (sv_env sv) (sv_notify_cipher sv) j (acc_id (session_account rs)) l after)) (\<lambda>(items, next).
         ret (Replied 200 (NoticesBody items next))))"

definition handle_mark_read :: "service \<Rightarrow> request \<Rightarrow> string \<Rightarrow> notif_body reply notif_step" where
  "handle_mark_read sv rq raw_id =
     bindM (notif_mutation sv rq) (\<lambda>rs.
     case e_parse_uuid (sv_env sv) raw_id of
       None \<Rightarrow> fail (notif_refused 400 ''invalid_notification_id'' ''notification id is invalid'')
     | Some i \<Rightarrow>
         bindM (map_errM (\<lambda>e. if e = NotifNotFound
                              then notif_refused 404 ''not_found'' ''notification not found'' else notif_internal)
                  (mark_read (acc_id (session_account rs)) i)) (\<lambda>_.
         ret (Replied 204 NoNoticeBody)))"

section \<open>Following the pages\<close>

lemma notices_desc: "sorted_wrt (\<lambda>a b. notice_key b \<le> notice_key a) (notices_of acc d)"
proof -
  have "sorted (map notice_key (sort_key notice_key (filter (\<lambda>n. n_account n = acc) (notices d))))" by simp
  then show ?thesis unfolding notices_of_def sorted_wrt_rev sorted_map by simp
qed

interpretation notice_list: keyset notice_key "notices_of acc d" "page_notices acc d" for acc d
  by unfold_locales (simp_all add: notices_desc page_notices_def)

text \<open>A client that asks for the next page as long as it is given a cursor.\<close>

fun walk_notices ::
  "env \<Rightarrow> field_cipher option \<Rightarrow> cursor_json \<Rightarrow> uuid \<Rightarrow> int \<Rightarrow> nat \<Rightarrow> string \<Rightarrow> world \<Rightarrow> notification list option" where
  "walk_notices en co j acc l 0 token w = None"
| "walk_notices en co j acc l (Suc k) token w =
     (case decode_cursor en j token of
        None \<Rightarrow> None
      | Some c \<Rightarrow>
          (case list_notices en co j acc l c w of
             (Inr (items, next), w') \<Rightarrow>
               if next = [] then Some items
               else map_option (append items) (walk_notices en co j acc l k next w')
           | _ \<Rightarrow> None))"

lemma open_notices_append:
  "open_notices en co (xs @ ys) = Inr zs \<Longrightarrow>
     \<exists>as bs. open_notices en co xs = Inr as \<and> open_notices en co ys = Inr bs \<and> zs = as @ bs"
  by (induction xs arbitrary: zs) (auto split: sum.splits)

lemma open_notice_key: "open_notice en co n = Inr x \<Longrightarrow> no_created x = n_created n \<and> no_id x = n_id n"
  by (auto simp: open_notice_def split: sum.splits)

lemma open_notices_key:
  "open_notices en co ns = Inr xs \<Longrightarrow> map (\<lambda>x. (no_created x, no_id x)) xs = map notice_key ns"
  by (induction ns arbitrary: xs) (auto simp: notice_key_def dest: open_notice_key split: sum.splits)

lemma list_notices_run:
  assumes "faults w = []" "1 \<le> l" "l \<le> 100"
    and "open_notices en co (page_notices acc (w_db w) (nat l)
           (if cursor_zero c then None else Some (cu_time c, cursor_uuid en c))) = Inr items"
  shows "list_notices en co j acc l c w = (Inr (items, if items = [] then []
     else next_cursor en j (int (length items)) l (no_created (last items)) (no_id (last items))), w)"
  using assms
  by (simp add: list_notices_def clamp_limit_def Let_def bindM_def map_errM_def sql_read_def sql_def liftM_def ret_def)

lemma walk_below:
  assumes ok: "codec_ok j" "faults w = []" "1 \<le> l" "l \<le> 100"
    and keys: "distinct (map n_id (notices (w_db w)))"
    and good: "\<And>n. n \<in> set (notices_of acc (w_db w)) \<Longrightarrow> cursor_good en j (n_created n) (n_id n)"
  shows "decode_cursor en j token = Some c \<Longrightarrow>
    open_notices en co (notice_list.below acc (w_db w)
      (if cursor_zero c then None else Some (cu_time c, cursor_uuid en c))) = Inr items \<Longrightarrow>
    length items div nat l < k \<Longrightarrow> walk_notices en co j acc l k token w = Some items"
proof (induction k arbitrary: token c items)
  case (Suc k)
  let ?d = "w_db w" let ?L = "nat l"
  define p where "p = (if cursor_zero c then None else Some (cu_time c, cursor_uuid en c))"
  let ?page = "page_notices acc ?d ?L p"
  have L: "0 < ?L" using ok(3) by simp
  have ids: "distinct (map notice_key (notices_of acc ?d))"
  proof -
    have "distinct (map n_id (notices_of acc ?d))"
      using keys by (auto simp: notices_of_def distinct_map intro: inj_on_subset)
    then show ?thesis by (auto simp: distinct_map inj_on_def notice_key_def)
  qed
  note all = Suc.prems(2)[folded p_def]
  show ?case
  proof (cases "length ?page < ?L")
    case True
    with notice_list.page_last have eq: "?page = notice_list.below acc ?d p" by blast
    have "length items = length ?page"
      using open_notices_key[OF all] unfolding eq by (metis length_map)
    with True have "int (length items) < l" by simp
    with list_notices_run[OF ok(2,3,4) all[folded eq, unfolded p_def], of j] Suc.prems(1) show ?thesis
      by (simp add: next_cursor_def)
  next
    case False
    with notice_list.page_length[of acc ?d ?L p] L have full: "length ?page = ?L" "?page \<noteq> []" by auto
    let ?n = "last ?page"
    from notice_list.page_step[OF ids full(2)]
    have split: "notice_list.below acc ?d p = ?page @ notice_list.below acc ?d (Some (notice_key ?n))" .
    from open_notices_append[OF all[unfolded split]] obtain as bs where
      parts: "open_notices en co ?page = Inr as"
        "open_notices en co (notice_list.below acc ?d (Some (notice_key ?n))) = Inr bs" "items = as @ bs" by blast
    from open_notices_key[OF parts(1)] full have as: "length as = ?L" "as \<noteq> []" by (metis length_map, metis list.map_disc_iff)
    have lst: "no_created (last as) = n_created ?n" "no_id (last as) = n_id ?n"
      using arg_cong[OF open_notices_key[OF parts(1)], of last] as(2) full(2)
      by (simp_all add: last_map notice_key_def)
    have "?n \<in> set (notices_of acc ?d)"
      using last_in_set[OF full(2)] by (auto simp: page_notices_def dest!: in_set_takeD)
    with good have g: "cursor_good en j (n_created ?n) (n_id ?n)" by blast
    let ?c = "\<lparr>cu_time = n_created ?n, cu_id = e_uuid en (n_id ?n)\<rparr>"
    note rt = cursor_roundtrip[OF ok(1) g]
    have run: "list_notices en co j acc l c w = (Inr (as, encode_cursor j ?c), w)"
      using list_notices_run[OF ok(2,3,4) parts(1)[unfolded p_def], of j, folded p_def] as ok(3)
      by (simp add: next_cursor_def lst)
    have nz: "\<not> cursor_zero ?c" using g by (simp add: cursor_zero_def cursor_good_def)
    have "length items div ?L = Suc (length bs div ?L)"
      using parts(3) as(1) div_add_self1[of ?L "length bs"] L by (simp only: length_append)
    with Suc.prems(3) have less: "length bs div ?L < k" by simp
    have "walk_notices en co j acc l k (encode_cursor j ?c) w = Some bs"
    proof (rule Suc.IH[OF rt(2) _ less])
      have "Some (cu_time ?c, cursor_uuid en ?c) = Some (notice_key ?n)"
        unfolding rt(3) notice_key_def by simp
      with parts(2) nz show "open_notices en co (notice_list.below acc ?d
          (if cursor_zero ?c then None else Some (cu_time ?c, cursor_uuid en ?c))) = Inr bs" by (simp only: if_False)
    qed
    with run Suc.prems(1) rt(1) parts(3) show ?thesis by simp
  qed
qed simp

end
