(* ===== verification/SupportHandler.thy ===== *)
theory SupportHandler imports SupportSync Pagination begin

text \<open>
  Customer support, the routes (internal/support/handler.go): who may call them, the reading of
  bodies and files, the signed inbound webhooks. The state is the support tables beside the
  handler's limiter of messages. A body is given twice, as what the JSON decoder and what the
  form parser make of it; which one is read depends on the content type. The JSON decoders of the
  webhooks are parameters; the rate-limit headers are left out.
\<close>

section \<open>The handler\<close>

record support_handler =
  sh_auth :: service
  sh_repo :: support_repo
  sh_blobs :: "blob_store option"
  sh_discord_secret :: string
  sh_email_secret :: string
  sh_lookup_key :: string
  sh_distributed :: distributed_limiter
  sh_scanner :: "scanner option"
  sh_discord_json :: "string \<Rightarrow> external_message option"
  sh_email_json :: "string \<Rightarrow> external_email option"

abbreviation sh_env :: "support_handler \<Rightarrow> env" where
  "sh_env h \<equiv> sv_env (sh_auth h)"

definition new_support_handler :: "support_handler \<Rightarrow> support_handler" where
  "new_support_handler h = h\<lparr>sh_discord_secret := trim_space (sh_discord_secret h),
     sh_email_secret := trim_space (sh_email_secret h)\<rparr>"

definition new_message_limiter :: "limiter option" where
  "new_message_limiter = Some (new_fixed_window_limiter 30 minute 10000)"

datatype support_body =
    TicketOut ticket "support_message list" | TicketsOut "ticket list" | MessageOut support_message
  | StatusOut ticket | AttachmentOut attachment string int

type_synonym support_side = "support_tables \<times> limiter option"
type_synonym 'a support_route = "(support_side, support_body, 'a) route"

text \<open>An operation of the repository, which does not see the limiter.\<close>

definition beside :: "('t state, 'e, 'a) op \<Rightarrow> (('t \<times> 'x) state, 'e, 'a) op" where
  "beside m s = (case m (fst s, fst (snd s)) of (r, s') \<Rightarrow> (r, (fst s', (snd s', snd (snd s)))))"

fun support_refusal :: "support_error \<Rightarrow> support_body reply" where
  "support_refusal SupNotFound = Refused 404 ''not_found'' ''support ticket not found''"
| "support_refusal SupForbidden = Refused 403 ''forbidden'' ''support ticket access is forbidden''"
| "support_refusal SupAdminRequired = refuse_admin"
| "support_refusal SupConflict = Refused 409 ''conflict'' ''support ticket cannot be changed in its current state''"
| "support_refusal SupInvalidStatus = Refused 400 ''invalid_status'' ''support ticket status is invalid''"
| "support_refusal SupInvalidInput = Refused 400 ''invalid_request'' ''support request is invalid''"
| "support_refusal SupInvalidDiscordData = Refused 400 ''invalid_request'' ''support request is invalid''"
| "support_refusal _ = refuse_internal"

definition serve_support :: "'a support_op \<Rightarrow> 'a support_route" where
  "serve_support m = map_errM support_refusal (beside m)"

section \<open>Guards\<close>

definition require_verified :: "support_handler \<Rightarrow> request \<Rightarrow> request_session support_route" where
  "require_verified h rq =
     bindM (session_step (sh_auth h) rq) (\<lambda>rs.
     if \<not> acc_verified (session_account rs)
     then fail (Refused 403 ''email_verification_required'' ''email verification is required'')
     else ret rs)"

definition require_verified_mutation :: "support_handler \<Rightarrow> request \<Rightarrow> request_session support_route" where
  "require_verified_mutation h rq =
     bindM (require_verified h rq) (\<lambda>rs. bindM (csrf_step (sh_auth h) rq rs) (\<lambda>_. ret rs))"

definition support_require_admin :: "support_handler \<Rightarrow> request \<Rightarrow> request_session support_route" where
  "support_require_admin h rq =
     bindM (require_verified h rq) (\<lambda>rs.
     bindM (admin_step (\<lambda>i. beside (support_is_admin i)) rs) (\<lambda>_.
     bindM (mfa_step (sh_auth h) rq rs) (\<lambda>_. ret rs)))"

definition support_require_admin_mutation :: "support_handler \<Rightarrow> request \<Rightarrow> request_session support_route" where
  "support_require_admin_mutation h rq =
     bindM (support_require_admin h rq) (\<lambda>rs.
     bindM (csrf_step (sh_auth h) rq rs) (\<lambda>_.
     bindM (mfa_step (sh_auth h) rq rs) (\<lambda>_. ret rs)))"

text \<open>\<^verbatim>\<open>allowMessage\<close> and the two refusals that follow it.\<close>

definition allow_message :: "support_handler \<Rightarrow> string \<Rightarrow> (support_side state, limiter_error, bool) op" where
  "allow_message h key s =
     (let (r, l) = take_hit (snd (snd s)) key (now (fst s));
          distributed = (if sh_distributed h = NoDistributed then None
            else Some (distributed_allow ((sh_auth h)\<lparr>sv_distributed := sh_distributed h\<rparr>)
                   ''support-messages'' key 30 minute))
      in core (check_distributed distributed (allowed r)) (fst s, (fst (snd s), l)))"

definition message_allowed :: "support_handler \<Rightarrow> uuid \<Rightarrow> unit support_route" where
  "message_allowed h acc =
     bindM (map_errM (\<lambda>_. Refused 503 ''rate_limit_unavailable'' ''request protection is temporarily unavailable'')
              (allow_message h (e_uuid (sh_env h) acc))) (\<lambda>ok.
     if ok then ret () else fail (Refused 429 ''rate_limited'' ''too many support messages''))"

definition parse_ticket_id :: "support_handler \<Rightarrow> string \<Rightarrow> uuid support_route" where
  "parse_ticket_id h raw = path_uuid (sh_env h) raw ''invalid_ticket_id'' ''ticket id is invalid''"

text \<open>
  The limit and the offset share one error variable; a limit that does not parse is 0 or out of
  range, so that the offset cannot hide it.
\<close>

definition support_page_query :: "string \<Rightarrow> string \<Rightarrow> (int \<times> int) option" where
  "support_page_query raw_limit raw_offset =
     (case (if raw_limit = [] then Some 50 else atoi raw_limit, if raw_offset = [] then Some 0 else atoi raw_offset) of
        (Some n, Some k) \<Rightarrow> if n < 1 \<or> 100 < n \<or> k < 0 \<or> 10000 < k then None else Some (n, k)
      | _ \<Rightarrow> None)"

section \<open>Files\<close>

text \<open>A parsed form: its values and the two file fields. \<open>TooLarge\<close> and parse errors are \<^const>\<open>None\<close>.\<close>

record form =
  fm_value :: "string \<Rightarrow> string"
  fm_attachments :: "upload list"
  fm_file :: "upload list"

record 'b body =
  bd_json :: "'b option"
  bd_form :: "form option"

definition is_multipart :: "env \<Rightarrow> request \<Rightarrow> bool" where
  "is_multipart en rq = has_prefix
     (to_lower (e_unicode en) (trim_space (hd (split_on (CHR '';'') (header rq ''Content-Type''))))) ''multipart/form-data''"

datatype upload_error = UpScan scan_error | UpOther

fun remove_uploads :: "blob_store option \<Rightarrow> attachment_input list \<Rightarrow> ('t state, 'e, unit) op" where
  "remove_uploads None as = ret ()"
| "remove_uploads (Some b) [] = ret ()"
| "remove_uploads (Some b) (a # as) =
     bindM (blob_remove b (ai_key a)) (\<lambda>_. remove_uploads (Some b) as)"

definition attachment_key :: "env \<Rightarrow> uuid \<Rightarrow> uuid \<Rightarrow> string" where
  "attachment_key en acc i = ''support/'' @ e_uuid en acc @ ''/'' @ e_uuid en i"

text \<open>The loop over the files; \<open>used\<close> and \<open>ups\<close> are what it has accumulated.\<close>

fun upload_loop ::
  "support_handler \<Rightarrow> blob_store \<Rightarrow> uuid \<Rightarrow> int \<Rightarrow> attachment_input list \<Rightarrow> upload list
    \<Rightarrow> ('t state, upload_error, attachment_input list) op" where
  "upload_loop h b acc used ups [] =
     (case validate_attachments (e_unicode (sh_env h)) ups of
        Inr _ \<Rightarrow> ret ups
      | Inl _ \<Rightarrow> bindM (remove_uploads (Some b) ups) (\<lambda>_. fail UpOther))"
| "upload_loop h b acc used ups (f # fs) =
     (case stage_upload_with_limit (e_crypto (sh_env h)) (e_unicode (sh_env h)) f max_attachment_file_bytes of
        None \<Rightarrow> bindM (remove_uploads (Some b) ups) (\<lambda>_. fail UpOther)
      | Some g \<Rightarrow>
          (case scan_staged_upload (sh_scanner h) g of
             Some e \<Rightarrow> bindM (remove_uploads (Some b) ups) (\<lambda>_. fail (UpScan e))
           | None \<Rightarrow>
               if max_attachment_total_bytes < used + sg_size g
               then bindM (remove_uploads (Some b) ups) (\<lambda>_. fail UpOther)
               else
                 bindM fresh_uuid (\<lambda>i.
                 let key = attachment_key (sh_env h) acc i in
                 bindM (blob_put b key (sg_size g)) (\<lambda>ok.
                 if \<not> ok then
                   bindM (remove_uploads (Some b) ups) (\<lambda>_.
                   bindM (blob_remove b key) (\<lambda>_. fail UpOther))
                 else upload_loop h b acc (used + sg_size g)
                   (ups @ [\<lparr>ai_name = sg_name g, ai_key = key, ai_mime = sg_type g, ai_size = sg_size g,
                            ai_sha256 = sg_sha256 g\<rparr>]) fs))))"

definition upload_attachments ::
  "support_handler \<Rightarrow> form \<Rightarrow> uuid \<Rightarrow> ('t state, upload_error, attachment_input list) op" where
  "upload_attachments h fm acc =
     (let files = (if fm_attachments fm = [] then fm_file fm else fm_attachments fm) in
      if max_attachment_count < length files then fail UpOther
      else case sh_blobs h of
        None \<Rightarrow> if files = [] then ret [] else fail UpOther
      | Some b \<Rightarrow> upload_loop h b acc 0 [] files)"

definition parse_upload ::
  "support_handler \<Rightarrow> request \<Rightarrow> 'b body \<Rightarrow> uuid \<Rightarrow> (form \<Rightarrow> 'b)
    \<Rightarrow> ('t state, upload_error, 'b \<times> attachment_input list) op" where
  "parse_upload h rq body acc mk =
     (if \<not> is_multipart (sh_env h) rq then
        (case bd_json body of None \<Rightarrow> fail UpOther | Some x \<Rightarrow> ret (x, []))
      else case bd_form body of
        None \<Rightarrow> fail UpOther
      | Some fm \<Rightarrow> bindM (upload_attachments h fm acc) (\<lambda>ups. ret (mk fm, ups)))"

definition parse_create_ticket ::
  "support_handler \<Rightarrow> request \<Rightarrow> create_ticket_input body \<Rightarrow> uuid
    \<Rightarrow> ('t state, upload_error, create_ticket_input \<times> attachment_input list) op" where
  "parse_create_ticket h rq body acc = parse_upload h rq body acc
     (\<lambda>fm. \<lparr>ct_category = fm_value fm ''category'', ct_subject = fm_value fm ''subject'',
             ct_body = fm_value fm ''body''\<rparr>)"

definition parse_message ::
  "support_handler \<Rightarrow> request \<Rightarrow> string body \<Rightarrow> uuid
    \<Rightarrow> ('t state, upload_error, string \<times> attachment_input list) op" where
  "parse_message h rq body acc = parse_upload h rq body acc (\<lambda>fm. fm_value fm ''body'')"

fun upload_refusal :: "support_body reply \<Rightarrow> upload_error \<Rightarrow> support_body reply" where
  "upload_refusal r (UpScan MalwareDetected) = Refused 422 ''malware_detected'' ''uploaded file was rejected''"
| "upload_refusal r (UpScan ScannerUnavailable) =
     Refused 503 ''scan_unavailable'' ''file scanning is temporarily unavailable''"
| "upload_refusal r UpOther = r"

section \<open>Routes of the owner of a ticket\<close>

definition invalid_ticket :: "support_body reply" where
  "invalid_ticket = Refused 400 ''invalid_ticket'' ''ticket data is invalid''"

definition invalid_message :: "support_body reply" where
  "invalid_message = Refused 400 ''invalid_message'' ''support message is invalid''"

text \<open>What every refusal after an upload does first.\<close>

definition drop_uploads :: "support_handler \<Rightarrow> attachment_input list \<Rightarrow> support_body reply \<Rightarrow> 'a support_route" where
  "drop_uploads h ups r = bindM (remove_uploads (sh_blobs h) ups) (\<lambda>_. fail r)"

definition support_create_ticket ::
  "support_handler \<Rightarrow> request \<Rightarrow> create_ticket_input body \<Rightarrow> support_body reply support_route" where
  "support_create_ticket h rq body =
     bindM (require_verified_mutation h rq) (\<lambda>rs.
     let acc = acc_id (session_account rs) in
     bindM (map_errM (upload_refusal invalid_ticket) (parse_create_ticket h rq body acc)) (\<lambda>(input, ups).
     case validate_create_ticket input of
       Inl _ \<Rightarrow> drop_uploads h ups invalid_ticket
     | Inr _ \<Rightarrow>
         catchM (beside (if ups = [] then create_ticket (sh_repo h) acc input
                         else create_ticket_with_attachments (sh_repo h) acc input ups))
           (\<lambda>e. drop_uploads h ups (support_refusal e))
           (\<lambda>(k, ms). ret (Replied 201 (TicketOut k ms)))))"

definition listed_status :: "string \<Rightarrow> string \<Rightarrow> string \<Rightarrow> (int \<times> int \<times> string) support_route" where
  "listed_status raw_limit raw_offset raw_status =
     (case support_page_query raw_limit raw_offset of
        None \<Rightarrow> fail (Refused 400 ''invalid_query'' ''support ticket query is invalid'')
      | Some (n, k) \<Rightarrow>
          let status = trim_space raw_status in
          if status \<noteq> [] \<and> validate_status status True \<noteq> Inr ()
          then fail (Refused 400 ''invalid_query'' ''support ticket status is invalid'')
          else ret (n, k, status))"

definition support_list_tickets ::
  "support_handler \<Rightarrow> request \<Rightarrow> string \<Rightarrow> string \<Rightarrow> string \<Rightarrow> support_body reply support_route" where
  "support_list_tickets h rq raw_limit raw_offset raw_status =
     bindM (require_verified h rq) (\<lambda>rs.
     bindM (listed_status raw_limit raw_offset raw_status) (\<lambda>(n, k, status).
     bindM (serve_support (list_tickets (sh_repo h) (Some (acc_id (session_account rs))) status n k)) (\<lambda>ks.
     ret (Replied 200 (TicketsOut ks)))))"

definition support_get_ticket :: "support_handler \<Rightarrow> request \<Rightarrow> string \<Rightarrow> support_body reply support_route" where
  "support_get_ticket h rq raw =
     bindM (require_verified h rq) (\<lambda>rs.
     bindM (parse_ticket_id h raw) (\<lambda>i.
     bindM (serve_support (get_ticket (sh_repo h) (Some (acc_id (session_account rs))) i)) (\<lambda>(k, ms).
     ret (Replied 200 (TicketOut k ms)))))"

text \<open>The message itself, once it may be written; \<open>plain\<close> and \<open>with_files\<close> are the repository's two ways.\<close>

definition post_message ::
  "support_handler \<Rightarrow> request \<Rightarrow> string body \<Rightarrow> uuid \<Rightarrow> (string \<Rightarrow> support_message support_op)
    \<Rightarrow> (string \<Rightarrow> attachment_input list \<Rightarrow> support_message support_op) \<Rightarrow> support_body reply support_route" where
  "post_message h rq body acc plain with_files =
     bindM (map_errM (upload_refusal invalid_message) (parse_message h rq body acc)) (\<lambda>(txt, ups).
     case validate_message_body txt of
       Inl _ \<Rightarrow> drop_uploads h ups invalid_message
     | Inr _ \<Rightarrow>
         catchM (beside (if ups = [] then plain (trim_space txt) else with_files (trim_space txt) ups))
           (\<lambda>e. drop_uploads h ups (support_refusal e))
           (\<lambda>m. ret (Replied 201 (MessageOut m))))"

definition support_add_user_message ::
  "support_handler \<Rightarrow> request \<Rightarrow> string \<Rightarrow> string body \<Rightarrow> support_body reply support_route" where
  "support_add_user_message h rq raw body =
     bindM (require_verified_mutation h rq) (\<lambda>rs.
     let acc = acc_id (session_account rs) in
     bindM (message_allowed h acc) (\<lambda>_.
     bindM (parse_ticket_id h raw) (\<lambda>i.
     post_message h rq body acc (add_user_message (sh_repo h) acc i)
       (add_user_message_with_attachments (sh_repo h) acc i))))"

definition change_user_status ::
  "support_handler \<Rightarrow> request \<Rightarrow> string \<Rightarrow> string \<Rightarrow> support_body reply support_route" where
  "change_user_status h rq raw status =
     bindM (require_verified_mutation h rq) (\<lambda>rs.
     bindM (parse_ticket_id h raw) (\<lambda>i.
     bindM (serve_support (set_ticket_status (sh_repo h) (acc_id (session_account rs)) i status None False)) (\<lambda>k.
     ret (Replied 200 (StatusOut k)))))"

definition download_attachment ::
  "support_handler \<Rightarrow> uuid option \<Rightarrow> string \<Rightarrow> string \<Rightarrow> support_body reply support_route" where
  "download_attachment h acc raw raw_attachment =
     (case sh_blobs h of
        None \<Rightarrow> fail (Refused 503 ''storage_unavailable'' ''support attachment storage is unavailable'')
      | Some store \<Rightarrow>
          bindM (parse_ticket_id h raw) (\<lambda>i.
          bindM (path_uuid (sh_env h) raw_attachment ''invalid_attachment_id'' ''attachment id is invalid'') (\<lambda>a.
          bindM (serve_support (get_attachment acc i a)) (\<lambda>x.
          case blob_presign store (av_key x) (5 * minute) of
            None \<Rightarrow> fail (Refused 502 ''storage_unavailable'' ''support attachment storage is unavailable'')
          | Some url \<Rightarrow> ret (Replied 200 (AttachmentOut x url 300))))))"

definition download_user_attachment ::
  "support_handler \<Rightarrow> request \<Rightarrow> string \<Rightarrow> string \<Rightarrow> support_body reply support_route" where
  "download_user_attachment h rq raw raw_attachment =
     bindM (require_verified h rq) (\<lambda>rs.
     download_attachment h (Some (acc_id (session_account rs))) raw raw_attachment)"

section \<open>Routes of the staff\<close>

definition list_admin_tickets ::
  "support_handler \<Rightarrow> request \<Rightarrow> string \<Rightarrow> string \<Rightarrow> string \<Rightarrow> support_body reply support_route" where
  "list_admin_tickets h rq raw_limit raw_offset raw_status =
     bindM (support_require_admin h rq) (\<lambda>_.
     bindM (listed_status raw_limit raw_offset raw_status) (\<lambda>(n, k, status).
     bindM (serve_support (list_tickets (sh_repo h) None status n k)) (\<lambda>ks.
     ret (Replied 200 (TicketsOut ks)))))"

definition get_admin_ticket :: "support_handler \<Rightarrow> request \<Rightarrow> string \<Rightarrow> support_body reply support_route" where
  "get_admin_ticket h rq raw =
     bindM (support_require_admin h rq) (\<lambda>_.
     bindM (parse_ticket_id h raw) (\<lambda>i.
     bindM (serve_support (get_ticket (sh_repo h) None i)) (\<lambda>(k, ms). ret (Replied 200 (TicketOut k ms)))))"

text \<open>The input has the new status, the new assignee, or both; without a status the ticket keeps its own.\<close>

definition update_admin_ticket ::
  "support_handler \<Rightarrow> request \<Rightarrow> string \<Rightarrow> (string option \<times> uuid option) option
    \<Rightarrow> support_body reply support_route" where
  "update_admin_ticket h rq raw body =
     bindM (support_require_admin_mutation h rq) (\<lambda>rs.
     bindM (parse_ticket_id h raw) (\<lambda>i.
     bindM (body_step (case body of Some (None, None) \<Rightarrow> None | b \<Rightarrow> b)
              ''invalid_ticket_update'' ''ticket update is invalid'') (\<lambda>(status0, assign).
     bindM (case status0 of
              None \<Rightarrow> bindM (serve_support (get_ticket (sh_repo h) None i)) (\<lambda>(k, _). ret (tv_status k))
            | Some st \<Rightarrow> ret (trim_space st)) (\<lambda>status.
     bindM (serve_support (set_ticket_status (sh_repo h) (acc_id (session_account rs)) i status assign True)) (\<lambda>k.
     ret (Replied 200 (StatusOut k)))))))"

definition support_add_admin_message ::
  "support_handler \<Rightarrow> request \<Rightarrow> string \<Rightarrow> string body \<Rightarrow> support_body reply support_route" where
  "support_add_admin_message h rq raw body =
     bindM (support_require_admin_mutation h rq) (\<lambda>rs.
     let acc = acc_id (session_account rs) in
     bindM (message_allowed h acc) (\<lambda>_.
     bindM (parse_ticket_id h raw) (\<lambda>i.
     post_message h rq body acc (add_admin_message (sh_repo h) acc i)
       (add_admin_message_with_attachments (sh_repo h) acc i))))"

definition close_admin_ticket :: "support_handler \<Rightarrow> request \<Rightarrow> string \<Rightarrow> support_body reply support_route" where
  "close_admin_ticket h rq raw =
     bindM (support_require_admin_mutation h rq) (\<lambda>rs.
     bindM (parse_ticket_id h raw) (\<lambda>i.
     bindM (serve_support (set_ticket_status (sh_repo h) (acc_id (session_account rs)) i ''closed'' None True)) (\<lambda>k.
     ret (Replied 200 (StatusOut k)))))"

definition download_admin_attachment ::
  "support_handler \<Rightarrow> request \<Rightarrow> string \<Rightarrow> string \<Rightarrow> support_body reply support_route" where
  "download_admin_attachment h rq raw raw_attachment =
     bindM (support_require_admin h rq) (\<lambda>_. download_attachment h None raw raw_attachment)"

section \<open>Webhooks\<close>

definition verify_webhook_signature :: "crypto \<Rightarrow> string \<Rightarrow> string \<Rightarrow> string \<Rightarrow> bool" where
  "verify_webhook_signature cr secret body signature =
     (if is_blank secret \<or> is_blank signature then False
      else case hex_decode (trim_space signature) of
        None \<Rightarrow> False
      | Some got \<Rightarrow> constant_time_string_equal got (c_hmac_sha256 cr secret body))"

text \<open>The bytes of the body are \<^const>\<open>None\<close> when reading them fails or they are too many.\<close>

definition signed_body ::
  "support_handler \<Rightarrow> string \<Rightarrow> request \<Rightarrow> string option \<Rightarrow> string \<Rightarrow> string support_route" where
  "signed_body h secret rq bytes message =
     (case bytes of
        None \<Rightarrow> fail (Refused 401 ''invalid_signature'' message)
      | Some body \<Rightarrow>
          if verify_webhook_signature (e_crypto (sh_env h)) secret body (header rq ''X-Sta-Signature'') then ret body
          else fail (Refused 401 ''invalid_signature'' message))"

definition discord_webhook ::
  "support_handler \<Rightarrow> request \<Rightarrow> string option \<Rightarrow> support_body reply support_route" where
  "discord_webhook h rq bytes =
     bindM (signed_body h (sh_discord_secret h) rq bytes ''Discord webhook signature is invalid'') (\<lambda>body.
     bindM (body_step (case sh_discord_json h body of
                None \<Rightarrow> None
              | Some x \<Rightarrow> if validate_external_message x = Inr () then Some x else None)
              ''invalid_message'' ''Discord message is invalid'') (\<lambda>x.
     bindM (serve_support (apply_discord_message (sh_repo h) x (sh_lookup_key h))) (\<lambda>m.
     ret (Replied 200 (MessageOut m)))))"

definition email_webhook ::
  "support_handler \<Rightarrow> request \<Rightarrow> string option \<Rightarrow> support_body reply support_route" where
  "email_webhook h rq bytes =
     bindM (signed_body h (sh_email_secret h) rq bytes ''Email webhook signature is invalid'') (\<lambda>body.
     bindM (body_step (case sh_email_json h body of
                None \<Rightarrow> None
              | Some x \<Rightarrow> if validate_external_email (sh_env h) x = Inr () then Some x else None)
              ''invalid_message'' ''Email message is invalid'') (\<lambda>x.
     bindM (serve_support (apply_email_message (sh_repo h) x (sh_lookup_key h))) (\<lambda>m.
     ret (Replied 200 (MessageOut m)))))"

section \<open>Dispatch\<close>

datatype support_call =
    ListTicketsCall string string string | CreateTicketCall "create_ticket_input body" | GetTicketCall string
  | DownloadUserCall string string | UserMessageCall string "string body" | CloseUserCall string
  | ReopenUserCall string | ListAdminCall string string string | GetAdminCall string
  | DownloadAdminCall string string | UpdateAdminCall string "(string option \<times> uuid option) option"
  | AdminMessageCall string "string body" | CloseAdminCall string
  | DiscordHookCall "string option" | EmailHookCall "string option"

fun support_route :: "support_handler \<Rightarrow> request \<Rightarrow> support_call \<Rightarrow> support_body reply support_route" where
  "support_route h rq (ListTicketsCall n k st) = support_list_tickets h rq n k st"
| "support_route h rq (CreateTicketCall body) = support_create_ticket h rq body"
| "support_route h rq (GetTicketCall raw) = support_get_ticket h rq raw"
| "support_route h rq (DownloadUserCall raw a) = download_user_attachment h rq raw a"
| "support_route h rq (UserMessageCall raw body) = support_add_user_message h rq raw body"
| "support_route h rq (CloseUserCall raw) = change_user_status h rq raw ''closed''"
| "support_route h rq (ReopenUserCall raw) = change_user_status h rq raw ''waiting_staff''"
| "support_route h rq (ListAdminCall n k st) = list_admin_tickets h rq n k st"
| "support_route h rq (GetAdminCall raw) = get_admin_ticket h rq raw"
| "support_route h rq (DownloadAdminCall raw a) = download_admin_attachment h rq raw a"
| "support_route h rq (UpdateAdminCall raw body) = update_admin_ticket h rq raw body"
| "support_route h rq (AdminMessageCall raw body) = support_add_admin_message h rq raw body"
| "support_route h rq (CloseAdminCall raw) = close_admin_ticket h rq raw"
| "support_route h rq (DiscordHookCall bytes) = discord_webhook h rq bytes"
| "support_route h rq (EmailHookCall bytes) = email_webhook h rq bytes"

end
