(* ===== verification/RequestSteps.thy ===== *)
theory RequestSteps imports ComponentHttp begin

text \<open>
  The guards every route starts with pass or refuse and do little else: the database's clock
  stands, no object is stored, no identifier is given back, and the rows of the component stay.
\<close>

definition calm :: "world \<Rightarrow> world \<Rightarrow> bool" where
  "calm w0 w \<longleftrightarrow> next_id (w_db w0) \<le> next_id (w_db w) \<and> db_now w = db_now w0 \<and> blobs w = blobs w0"

lemma calm_refl: "calm w w"
  by (simp add: calm_def)

lemma calm_trans: "calm w0 w1 \<Longrightarrow> calm w1 w2 \<Longrightarrow> calm w0 w2"
  by (simp add: calm_def)

section \<open>The shared services\<close>

lemma calm_sql: "(\<And>d. next_id d \<le> next_id (snd (q d))) \<Longrightarrow> keeps (calm w0) (sql q)"
  by (auto simp: keeps_def calm_def sql_def split: list.splits intro: order_trans)

lemma calm_read [keeps_intros]: "keeps (calm w0) (sql_read f)"
  unfolding sql_read_def by (rule calm_sql) simp

lemma calm_write: "(\<And>d. next_id d \<le> next_id (g d)) \<Longrightarrow> keeps (calm w0) (sql_write g f)"
  unfolding sql_write_def by (rule calm_sql) simp

lemma calm_distributed: "keeps (calm w0) (distributed_allow sv ns key l win)"
  by (auto simp: keeps_def calm_def distributed_allow_def Let_def split: distributed_limiter.split prod.splits)

lemma calm_check_distributed:
  "keeps (calm w0) (check_distributed (if b then None else Some (distributed_allow sv ns key l win)) ok)"
  using calm_distributed by (auto simp: keeps_def check_distributed_def)

lemma calm_totp: "keeps (calm w0) (verify_admin_totp sv acc secret code)"
proof -
  let ?key = "e_uuid (sv_env sv) acc"
  have "snd (verify_admin_totp sv acc secret code w) =
     (if \<not> allowed (peek (mfa_limiter w) ?key (now w)) \<or> verify_totp (sv_crypto sv) secret code (now w) \<noteq> None then w
      else snd (distributed_allow sv ''auth-admin-mfa-fail'' ?key mfa_failure_limit mfa_failure_window
             (w\<lparr>mfa_limiter := snd (take_hit (mfa_limiter w) ?key (now w))\<rparr>)))" for w
    by (simp add: verify_admin_totp_def Let_def split: prod.split sum.split bool.split)
  then show ?thesis using calm_distributed by (auto simp: keeps_def calm_def)
qed

lemma calm_store:
  "keeps (calm w0) (find_active_session h t)" "keeps (calm w0) (touch_session i t)"
  "keeps (calm w0) (find_account_by_service_token h t)" "keeps (calm w0) (is_service_account i)"
  "keeps (calm w0) get_require_admin_mfa" "keeps (calm w0) (get_admin_mfa i)"
  "keeps (calm w0) (touch_admin_mfa_verified i t)"
  unfolding find_active_session_def touch_session_def find_account_by_service_token_def is_service_account_def
    has_role_def get_require_admin_mfa_def get_admin_mfa_def touch_admin_mfa_verified_def
  by (intro keeps_intros calm_write; simp)+

lemma calm_mfa: "keeps (calm w0) (require_admin_mfa sv acc code)"
  unfolding require_admin_mfa_def effective_require_admin_mfa_def unless_required_def require_code_def
    check_admin_code_def
  by (intro keeps_intros calm_store calm_totp)

lemma calm_authenticate: "keeps (calm w0) (authenticate sv rq)"
  unfolding authenticate_def authenticate_bot_api_key_def
  by (intro keeps_intros calm_store calm_mfa)

section \<open>The steps of a route\<close>

text \<open>\<open>calm_rows s0 s\<close>: the same rows of the component in a calm world.\<close>

definition calm_rows :: "'t state \<Rightarrow> 't state \<Rightarrow> bool" where
  "calm_rows s0 s \<longleftrightarrow> calm (fst s0) (fst s) \<and> snd s = snd s0"

lemma calm_rows_refl: "calm_rows s s"
  by (simp add: calm_rows_def calm_refl)

lemma calm_rows_trans: "calm_rows s0 s1 \<Longrightarrow> calm_rows s1 s2 \<Longrightarrow> calm_rows s0 s2"
  by (auto simp: calm_rows_def intro: calm_trans)

lemma calm_rowsD: "(\<And>s0. keeps (calm_rows s0) m) \<Longrightarrow> m s = (x, s') \<Longrightarrow> calm_rows s s'"
  using keepsD[of "calm_rows s", OF _ calm_rows_refl] by blast

lemma calm_core: "keeps (calm (fst s0)) m \<Longrightarrow> keeps (calm_rows s0) (core m)"
  by (auto simp: keeps_def core_def calm_rows_def split: prod.splits)

lemma calm_stmt_read [keeps_intros]:
  "keeps (calm_rows s0) (stmt_row f)" "keeps (calm_rows s0) (stmt_rows f')"
  by (auto simp: keeps_def stmt_row_def stmt_rows_def stmt_def calm_rows_def calm_def tables_def with_tables_def
      set_faults_def split: list.splits)

lemma calm_steps [keeps_intros]:
  "keeps (calm_rows s0) (session_step sv rq)" "keeps (calm_rows s0) (csrf_step sv rq rs)"
  "keeps (calm_rows s0) (mfa_step sv rq rs)" "keeps (calm_rows s0) (path_uuid en raw code msg)"
  "keeps (calm_rows s0) (body_step body code msg)"
  unfolding session_step_def csrf_step_def mfa_step_def path_uuid_def body_step_def
  by (intro keeps_intros calm_core calm_authenticate calm_mfa)+

lemma calm_admin [keeps_intros]:
  "keeps (calm_rows s0) (check (acc_id (session_account rs))) \<Longrightarrow> keeps (calm_rows s0) (admin_step check rs)"
  unfolding admin_step_def by (intro keeps_intros)

section \<open>A limiter of the component\<close>

text \<open>
  \<^verbatim>\<open>checkRateLimit\<close>, of which every handler has a copy: the local limiter (\<open>sel\<close> reads it, \<open>put\<close> stores
  it back), then the distributed one, and the two refusals.
\<close>

definition rate_step ::
  "service \<Rightarrow> distributed_limiter \<Rightarrow> ('t \<Rightarrow> limiter option) \<Rightarrow> (limiter option \<Rightarrow> 't \<Rightarrow> 't)
    \<Rightarrow> string \<Rightarrow> string \<Rightarrow> int \<Rightarrow> duration \<Rightarrow> ('t, 'p, unit) route" where
  "rate_step sv dl sel put ns key l win s =
     (let (r, lo) = take_hit (sel (snd s)) key (now (fst s));
          distributed = (if dl = NoDistributed then None
            else Some (distributed_allow (sv\<lparr>sv_distributed := dl\<rparr>) ns key l win))
      in bindM (map_errM
                  (\<lambda>_. Refused 503 ''rate_limit_unavailable'' ''rate limiting is temporarily unavailable'')
                  (core (check_distributed distributed (allowed r)))) (\<lambda>ok.
         if ok then ret () else fail (Refused 429 ''rate_limited'' ''too many requests'')) (fst s, put lo (snd s)))"

lemma rate_step_Inr:
  assumes "rate_step sv dl sel put ns key l win s = (Inr u, s')"
  shows "allowed (fst (take_hit (sel (snd s)) key (now (fst s))))"
    "snd s' = put (snd (take_hit (sel (snd s)) key (now (fst s)))) (snd s)"
  using assms
  by (auto simp: rate_step_def Let_def core_Inr check_distributed_def split: prod.splits if_splits option.splits)

lemma rows_keep_rate:
  assumes "\<And>lo t. R t \<Longrightarrow> R (put lo t)"
  shows "rows_keep R (rate_step sv dl sel put ns key l win)"
  using assms
  by (auto simp: keeps_def rate_step_def tables_def core_def bindM_def map_errM_def Let_def ret_def fail_def
      split: prod.splits sum.splits)

section \<open>Guards keep what does not depend on the shared tables\<close>

text \<open>
  \<open>steady P\<close>: the predicate speaks of the component's rows and of the identifiers given out so far,
  so that whatever else happens to the shared tables leaves it true.
\<close>

locale steady =
  fixes P :: "db \<times> 't \<Rightarrow> bool"
  assumes later: "P (d, t) \<Longrightarrow> next_id d \<le> next_id d' \<Longrightarrow> P (d', t)"
begin

lemma calm: "(\<And>s0. keeps (calm_rows s0) m) \<Longrightarrow> tables_keep P m"
proof (rule keepsI)
  fix s r s'
  assume k: "\<And>s0. keeps (calm_rows s0) m" and P: "P (tables s)" and run: "m s = (r, s')"
  have "calm_rows s s'" by (rule calm_rowsD[OF k run])
  with P show "P (tables s')" by (auto simp: calm_rows_def calm_def tables_def intro: later)
qed

lemma guards:
  "tables_keep P (session_step sv rq)" "tables_keep P (csrf_step sv rq rs)" "tables_keep P (mfa_step sv rq rs)"
  "tables_keep P (path_uuid en raw code msg)" "tables_keep P (body_step body code msg)"
  by (intro calm calm_steps)+

lemma admin: "(\<And>s0. keeps (calm_rows s0) (check (acc_id (session_account rs)))) \<Longrightarrow> tables_keep P (admin_step check rs)"
  by (intro calm calm_admin)

lemma rate:
  assumes "\<And>d t lo. P (d, t) \<Longrightarrow> P (d, put lo t)"
  shows "tables_keep P (rate_step sv dl sel put ns key l win)"
proof (rule keepsI)
  fix s r s'
  assume P: "P (tables s)" and run: "rate_step sv dl sel put ns key l win s = (r, s')"
  define x where "x = take_hit (sel (snd s)) key (now (fst s))"
  define c where "c = check_distributed (if dl = NoDistributed then None
    else Some (distributed_allow (sv\<lparr>sv_distributed := dl\<rparr>) ns key l win)) (allowed (fst x)) (fst s)"
  have "s' = (snd c, put (snd x) (snd s))"
    using run by (auto simp: rate_step_def Let_def x_def c_def core_def bindM_def map_errM_def ret_def fail_def
        split: prod.splits sum.splits if_splits)
  moreover have "calm (fst s) (snd c)"
    using calm_check_distributed calm_refl unfolding c_def keeps_def by blast
  ultimately show "P (tables s')" using P assms by (auto simp: tables_def calm_def intro: later)
qed

end

end
