(* ===== verification/SupportInvariants.thy ===== *)
theory SupportInvariants imports SupportSync begin

text \<open>
  The invariant of the support tables and its preservation by every operation of the repository
  and by the worker, whatever fails on the way.
\<close>

section \<open>The invariant\<close>

definition ticket_ok :: "ticket_row \<Rightarrow> bool" where
  "ticket_ok k \<longleftrightarrow> known_status (tk_status k) \<and> (tk_account k \<noteq> None \<or> tk_requester_ct k \<noteq> None)
     \<and> (tk_status k = ''closed'' \<longleftrightarrow> tk_closed k \<noteq> None)"

definition tickets_ok :: "db \<Rightarrow> support_tables \<Rightarrow> bool" where
  "tickets_ok d t \<longleftrightarrow> new_keys (next_id d) tk_id (tickets t) \<and> new_keys (next_number t) tk_number (tickets t)
     \<and> list_all ticket_ok (tickets t)"

definition messages_ok :: "db \<Rightarrow> support_tables \<Rightarrow> bool" where
  "messages_ok d t \<longleftrightarrow> new_keys (next_id d) sm_id (messages t)
     \<and> list_all (\<lambda>m. has_ticket t (sm_ticket m)) (messages t)"

definition bridges_ok :: "support_tables \<Rightarrow> bool" where
  "bridges_ok t \<longleftrightarrow> distinct (map sb_message (bridges t)) \<and> distinct (map sb_external (bridges t))
     \<and> list_all (\<lambda>b. has_message t (sb_message b)) (bridges t)"

definition dedup_ok :: "support_tables \<Rightarrow> bool" where
  "dedup_ok t \<longleftrightarrow> distinct (map fst (email_dedup t)) \<and> list_all (\<lambda>x. has_message t (snd x)) (email_dedup t)
     \<and> distinct (map fst (inbound_dedup t)) \<and> list_all (\<lambda>x. has_message t (snd x)) (inbound_dedup t)"

definition files_ok :: "support_tables \<Rightarrow> bool" where
  "files_ok t \<longleftrightarrow> distinct (map sa_key (attachments t))
     \<and> list_all (\<lambda>a. has_ticket t (sa_ticket a)) (attachments t)
     \<and> list_all (\<lambda>a. has_message t (sa_message a)) (attachments t)
     \<and> list_all (\<lambda>a. 0 < sa_size a \<and> sa_size a \<le> 10485760) (attachments t)"

definition queue_ok :: "db \<Rightarrow> support_tables \<Rightarrow> bool" where
  "queue_ok d t \<longleftrightarrow> new_keys (next_id d) dq_id (discord_queue t)
     \<and> list_all (\<lambda>o1. has_ticket t (dq_ticket o1)) (discord_queue t)
     \<and> list_all (\<lambda>o1. message_operation (dq_operation o1) \<longleftrightarrow> dq_message o1 \<noteq> None) (discord_queue t)"

definition support_ok :: "db \<times> support_tables \<Rightarrow> bool" where
  "support_ok x \<longleftrightarrow> tickets_ok (fst x) (snd x) \<and> messages_ok (fst x) (snd x) \<and> bridges_ok (snd x)
     \<and> dedup_ok (snd x) \<and> files_ok (snd x) \<and> queue_ok (fst x) (snd x)"

lemmas support_ok_defs = support_ok_def tickets_ok_def messages_ok_def bridges_ok_def dedup_ok_def
  files_ok_def queue_ok_def

named_theorems support_keeps \<open>operations that keep the invariant of the support tables\<close>

section \<open>Facts on the tables, one per write\<close>

lemma ok_core: "support_ok (d, t) \<Longrightarrow> next_id d \<le> next_id d' \<Longrightarrow> support_ok (d', t)"
  by (auto simp: support_ok_defs elim: new_keys_mono)

text \<open>More rows, same references: what refers to a ticket or a message still does.\<close>

definition more_rows :: "support_tables \<Rightarrow> support_tables \<Rightarrow> bool" where
  "more_rows t t' \<longleftrightarrow> (\<forall>i. has_ticket t i \<longrightarrow> has_ticket t' i) \<and> (\<forall>i. has_message t i \<longrightarrow> has_message t' i)"

lemma more_rows_list_all:
  assumes "more_rows t t'"
  shows "list_all (\<lambda>m. has_ticket t (f m)) xs \<Longrightarrow> list_all (\<lambda>m. has_ticket t' (f m)) xs"
    "list_all (\<lambda>m. has_message t (g m)) ys \<Longrightarrow> list_all (\<lambda>m. has_message t' (g m)) ys"
  using assms by (auto simp: more_rows_def list_all_iff)

lemma ok_add_ticket:
  assumes "support_ok (d, t)" "tk_id k = next_id d" "tk_number k = next_number t" "ticket_chk d k"
  shows "support_ok (add_row (\<lambda>t. t\<lparr>tickets := tickets t @ [k], next_number := next_number t + 1\<rparr>) (d, t))"
proof -
  have "more_rows t (t\<lparr>tickets := tickets t @ [k], next_number := next_number t + 1\<rparr>)"
    by (simp add: more_rows_def has_ticket_def has_message_def)
  note m = more_rows_list_all[OF this]
  from assms show ?thesis
    by (auto simp: support_ok_defs add_row_def ticket_chk_def ticket_ok_def m
        intro: new_keys_append elim: new_keys_mono)
qed

lemma ok_add_message:
  assumes "support_ok (d, t)" "sm_id m = next_id d" "has_ticket t (sm_ticket m)"
  shows "support_ok (add_row (\<lambda>t. t\<lparr>messages := messages t @ [m]\<rparr>) (d, t))"
proof -
  have "more_rows t (t\<lparr>messages := messages t @ [m]\<rparr>)"
    by (simp add: more_rows_def has_ticket_def has_message_def)
  note r = more_rows_list_all[OF this]
  have "has_ticket (t\<lparr>messages := messages t @ [m]\<rparr>) i = has_ticket t i" for i by (simp add: has_ticket_def)
  with assms show ?thesis
    by (auto simp: support_ok_defs add_row_def r intro: new_keys_append elim: new_keys_mono)
qed

lemma ok_add_attachment:
  assumes "support_ok (d, t)" "attachment_chk t a" "list_all (\<lambda>x. sa_key x \<noteq> sa_key a) (attachments t)"
  shows "support_ok (add_row (\<lambda>t. t\<lparr>attachments := attachments t @ [a]\<rparr>) (d, t))"
proof -
  have "has_ticket (t\<lparr>attachments := x\<rparr>) i = has_ticket t i" "has_message (t\<lparr>attachments := x\<rparr>) i = has_message t i" for i x
    by (simp_all add: has_ticket_def has_message_def)
  moreover have "sa_key a \<notin> sa_key ` set (attachments t)" using assms(3) by (auto simp: list_all_iff)
  ultimately show ?thesis using assms(1,2)
    by (auto simp: support_ok_defs add_row_def attachment_chk_def elim: new_keys_mono)
qed

lemma ok_add_discord:
  assumes "support_ok (d, t)" "dq_id o1 = next_id d" "discord_chk t o1"
  shows "support_ok (add_row (\<lambda>t. t\<lparr>discord_queue := discord_queue t @ [o1]\<rparr>) (d, t))"
proof -
  have "has_ticket (t\<lparr>discord_queue := x\<rparr>) i = has_ticket t i" "has_message (t\<lparr>discord_queue := x\<rparr>) i = has_message t i" for i x
    by (simp_all add: has_ticket_def has_message_def)
  with assms show ?thesis
    by (auto simp: support_ok_defs add_row_def discord_chk_def intro: new_keys_append elim: new_keys_mono)
qed

lemma ok_events: "support_ok (d, t) \<Longrightarrow> support_ok (d, t\<lparr>ticket_events := e\<rparr>)"
  by (simp add: support_ok_defs has_ticket_def has_message_def)

lemma ok_posted: "support_ok (d, t) \<Longrightarrow> support_ok (d, t\<lparr>posted := e\<rparr>)"
  by (simp add: support_ok_defs has_ticket_def has_message_def)

lemma list_ex_update_where:
  "(\<And>r. g (f r) = g r) \<Longrightarrow> list_ex (\<lambda>r. g r = i) (update_where p f rows) = list_ex (\<lambda>r. g r = i) rows"
  by (auto simp: list_ex_iff bex_update_where)

lemma list_all_update_where:
  "list_all q (update_where p f rows) = list_all (\<lambda>r. q (if p r then f r else r)) rows"
  by (auto simp: list_all_iff ball_update_where)

lemma ok_update_ticket:
  assumes "support_ok (d, t)" "list_all (\<lambda>r. tk_id r = i \<longrightarrow> ticket_chk d (f r)) (tickets t)"
    and f: "\<And>r. tk_id (f r) = tk_id r" "\<And>r. tk_number (f r) = tk_number r"
  shows "support_ok (d, t\<lparr>tickets := update_where (\<lambda>r. tk_id r = i) (\<lambda>r. (f r)\<lparr>tk_updated := ts\<rparr>) (tickets t)\<rparr>)"
proof -
  let ?u = "update_where (\<lambda>r. tk_id r = i) (\<lambda>r. (f r)\<lparr>tk_updated := ts\<rparr>) (tickets t)"
  have same: "has_ticket (t\<lparr>tickets := ?u\<rparr>) j = has_ticket t j" "has_message (t\<lparr>tickets := ?u\<rparr>) j = has_message t j" for j
    by (simp_all add: has_ticket_def has_message_def list_ex_update_where f)
  have "list_all ticket_ok ?u"
    using assms(1,2)
    by (auto simp: support_ok_def tickets_ok_def list_all_iff ball_update_where ticket_chk_def ticket_ok_def)
  then have "tickets_ok d (t\<lparr>tickets := ?u\<rparr>)"
    using assms(1) by (simp add: support_ok_def tickets_ok_def new_keys_update f)
  then show ?thesis
    using assms(1) by (simp add: support_ok_def messages_ok_def bridges_ok_def dedup_ok_def files_ok_def queue_ok_def same)
qed

lemma ok_update_discord:
  assumes "support_ok (d, t)" "\<And>o1. dq_id (f o1) = dq_id o1" "\<And>o1. dq_ticket (f o1) = dq_ticket o1"
    "\<And>o1. dq_operation (f o1) = dq_operation o1" "\<And>o1. dq_message (f o1) = dq_message o1"
  shows "support_ok (d, t\<lparr>discord_queue := update_where p f (discord_queue t)\<rparr>)"
proof -
  have "(if p r then q (f r) else q r) = q r" if "\<And>r. q (f r) = q r" for q :: "discord_row \<Rightarrow> 'b" and r
    using that by simp
  with assms show ?thesis
    by (simp add: support_ok_defs has_ticket_def has_message_def new_keys_update list_all_update_where
        if_distrib cong: if_cong)
qed

lemma ok_update_message:
  assumes "support_ok (d, t)" "\<And>m. sm_id (f m) = sm_id m" "\<And>m. sm_ticket (f m) = sm_ticket m"
  shows "support_ok (d, t\<lparr>messages := update_where p f (messages t)\<rparr>)"
proof -
  let ?u = "update_where p f (messages t)"
  have same: "has_ticket (t\<lparr>messages := ?u\<rparr>) j = has_ticket t j" "has_message (t\<lparr>messages := ?u\<rparr>) j = has_message t j" for j
    by (simp_all add: has_ticket_def has_message_def list_ex_update_where assms)
  have tk: "sm_ticket (if p m then f m else m) = sm_ticket m" for m by (simp add: assms)
  show ?thesis using assms(1)
    by (simp add: support_ok_defs same new_keys_update assms(2) list_all_update_where tk)
qed

lemma ok_add_bridge:
  assumes "support_ok (d, t)" "has_message t i" "list_all (\<lambda>b. sb_message b \<noteq> i \<and> sb_external b \<noteq> x) (bridges t)"
    "sb_message b = i" "sb_external b = x"
  shows "support_ok (d, t\<lparr>bridges := bridges t @ [b]\<rparr>)"
proof -
  have "has_ticket (t\<lparr>bridges := y\<rparr>) j = has_ticket t j" "has_message (t\<lparr>bridges := y\<rparr>) j = has_message t j" for j y
    by (simp_all add: has_ticket_def has_message_def)
  with assms show ?thesis by (auto simp: support_ok_defs list_all_iff)
qed

lemma ok_update_bridge:
  assumes "support_ok (d, t)" "\<And>b. sb_message (f b) = sb_message b" "\<And>b. sb_external (f b) = sb_external b"
  shows "support_ok (d, t\<lparr>bridges := update_where p f (bridges t)\<rparr>)"
proof -
  have "sb_message (if p b then f b else b) = sb_message b" for b by (simp add: assms)
  with assms show ?thesis
    by (simp add: support_ok_defs has_ticket_def has_message_def map_update_where list_all_update_where)
qed

lemma ok_dedup:
  "support_ok (d, t) \<Longrightarrow> has_message t i \<Longrightarrow> x \<notin> fst ` set (email_dedup t) \<Longrightarrow>
     support_ok (d, t\<lparr>email_dedup := email_dedup t @ [(x, i)]\<rparr>)"
  "support_ok (d, t) \<Longrightarrow> has_message t i \<Longrightarrow> x \<notin> fst ` set (inbound_dedup t) \<Longrightarrow>
     support_ok (d, t\<lparr>inbound_dedup := inbound_dedup t @ [(x, i)]\<rparr>)"
  by (auto simp: support_ok_defs has_ticket_def has_message_def)

section \<open>Every operation\<close>

lemma keeps_update_ticket [support_keeps]:
  assumes "\<And>ts r. tk_id (f ts r) = tk_id r" "\<And>ts r. tk_number (f ts r) = tk_number r"
  shows "tables_keep support_ok (update_ticket i f)"
  unfolding update_ticket_def
  by (intro keeps_intros keeps_stmt_insert) (simp add: ok_update_ticket assms)

lemma new_ticket_keys [simp]:
  "tk_id (new_ticket acc i ts d t) = next_id d" "tk_number (new_ticket acc i ts d t) = next_number t"
  by (simp_all add: new_ticket_def)

lemma answered_keys [simp]:
  "tk_id (answered s ts r) = tk_id r" "tk_number (answered s ts r) = tk_number r"
  by (simp_all add: answered_def)

lemma status_update_keys [simp]:
  "tk_id (status_update s a b ts r) = tk_id r" "tk_number (status_update s a b ts r) = tk_number r"
  by (simp_all add: status_update_def close_row_def reopen_row_def Let_def split: option.split)

lemma keeps_rows [support_keeps]:
  "tables_keep support_ok (insert_ticket acc inp)"
  "tables_keep support_ok (insert_support_message k a ty so h b c)"
  "tables_keep support_ok (insert_attachment_rows u k m is)"
  "tables_keep support_ok (insert_support_attachments u k m is)"
  "tables_keep support_ok (add_ticket_event k act ty dat)"
  "tables_keep support_ok (enqueue_discord k msg opn pl)"
proof -
  show "tables_keep support_ok (insert_ticket acc inp)"
    unfolding insert_ticket_def
    by (intro keeps_intros keeps_stmt_insert) (simp add: add_row_def ok_add_ticket[unfolded add_row_def, simplified])
  show "tables_keep support_ok (insert_support_message k a ty so h b c)"
    unfolding insert_support_message_def Let_def
    by (intro keeps_intros keeps_stmt_insert) (simp add: ok_add_message new_message_def message_chk_def)
  show rows: "tables_keep support_ok (insert_attachment_rows u k m is)" for u k m "is"
  proof (induction "is")
    case (Cons i "is")
    have key: "sa_key (new_attachment u k m i ts d) = ai_key i" for ts d by (simp add: new_attachment_def)
    show ?case unfolding insert_attachment_rows.simps
      by (intro keeps_intros keeps_stmt_insert Cons) (simp add: ok_add_attachment key)
  qed (simp add: keeps_ret)
  show "tables_keep support_ok (insert_support_attachments u k m is)"
    unfolding insert_support_attachments_def by (intro keeps_intros rows)
  show "tables_keep support_ok (add_ticket_event k act ty dat)"
    unfolding add_ticket_event_def by (intro keeps_intros keeps_stmt_insert) (simp add: ok_events)
  show "tables_keep support_ok (enqueue_discord k msg opn pl)"
    unfolding enqueue_discord_def
    by (intro keeps_intros keeps_stmt_insert) (simp add: ok_add_discord new_discord_def)
qed

lemma keeps_mails [support_keeps]:
  "tables_keep support_ok (support_seal r p)"
  "tables_keep support_ok (support_enqueue_email r acc rc k sub b)"
  "tables_keep support_ok (enqueue_official_email r tk sf sub b)"
  "tables_keep support_ok (insert_notice i k ti b)"
  "tables_keep support_ok (enqueue_user_notice r tk sf ti b acc)"
proof -
  show seal: "tables_keep support_ok (support_seal r p)" for p
    unfolding support_seal_def by (rule tables_keep_with_draws)
  show mail: "tables_keep support_ok (support_enqueue_email r acc rc k sub b)" for acc rc k sub b
    unfolding support_enqueue_email_def
    by (intro keeps_intros keeps_stmt_insert seal) (auto intro: ok_core)
  show "tables_keep support_ok (enqueue_official_email r tk sf sub b)"
    unfolding enqueue_official_email_def by (intro keeps_intros seal mail)
  show notice: "tables_keep support_ok (insert_notice i k ti b)" for i k ti b
    unfolding insert_notice_def by (intro keeps_intros keeps_stmt_insert) (auto intro: ok_core)
  show "tables_keep support_ok (enqueue_user_notice r tk sf ti b acc)"
    unfolding enqueue_user_notice_def by (intro keeps_intros seal mail notice)
qed

lemma keeps_locks [support_keeps]:
  "tables_keep support_ok (is_admin_tx i)" "tables_keep support_ok (lock_ticket i)"
  "tables_keep support_ok (lock_ticket_by_channel c)" "tables_keep support_ok (lock_ticket_by_number n)"
  "tables_keep support_ok (get_support_message i)" "tables_keep support_ok (load_attachments i)"
  "tables_keep support_ok (support_is_admin i)" "tables_keep support_ok (get_attachment acc i a)"
  unfolding is_admin_tx_def lock_ticket_def lock_ticket_by_channel_def lock_ticket_by_number_def
    get_support_message_def load_attachments_def support_is_admin_def get_attachment_def
  by (intro keeps_intros)+

lemma keeps_tickets [support_keeps]:
  "tables_keep support_ok (create_ticket_with_attachments r acc inp files)"
  "tables_keep support_ok (add_user_message_with_attachments r acc i b files)"
  "tables_keep support_ok (add_admin_message_with_attachments r acc i b files)"
  "tables_keep support_ok (set_ticket_status r acc i st assign adm)"
  "tables_keep support_ok (list_tickets r who st n1 n2)" "tables_keep support_ok (get_ticket r who i)"
  unfolding create_ticket_with_attachments_def add_user_message_with_attachments_def
    add_admin_message_with_attachments_def set_ticket_status_def change_status_def list_tickets_def get_ticket_def
    after_status_def enqueue_discord_channel_def enqueue_discord_message_def enqueue_discord_archive_def
    enqueue_discord_reopen_def Let_def
  by (intro keeps_intros support_keeps; simp)+

lemma keeps_inbound [support_keeps]:
  "tables_keep support_ok (insert_bridge i x)" "tables_keep support_ok (insert_inbound_dedup x i)"
  "tables_keep support_ok (revise_message op b i k)" "tables_keep support_ok (upsert_bridge i x)"
proof -
  show "tables_keep support_ok (insert_bridge i x)"
    unfolding insert_bridge_def
    by (intro keeps_intros keeps_stmt_insert) (simp add: ok_add_bridge[where i = i and x = x])
  show "tables_keep support_ok (insert_inbound_dedup x i)"
    unfolding insert_inbound_dedup_def by (intro keeps_intros keeps_stmt_insert) (simp add: ok_dedup)
  show "tables_keep support_ok (revise_message op b i k)"
    unfolding revise_message_def
    by (intro keeps_intros keeps_stmt_insert) (simp add: ok_update_message revise_row_def)
  show "tables_keep support_ok (upsert_bridge i x)"
    unfolding upsert_bridge_def
  proof (intro keeps_intros keeps_stmt_insert, simp, intro conjI impI, goal_cases)
    case (1 ts d t)
    let ?f = "\<lambda>b. b\<lparr>sb_external := x, sb_status := ''sent'', sb_synced := Some ts\<rparr>"
    let ?u = "update_where (\<lambda>b. sb_message b = i) ?f (bridges t)"
    have ok: "support_ok (d, t)" and m: "has_message t i"
      and u: "\<forall>b \<in> set (bridges t). sb_message b = i \<or> sb_external b \<noteq> x"
      using 1 by (auto simp: list_all_iff)
    have dm: "distinct (map sb_message (bridges t))" "distinct (map sb_external (bridges t))"
      using ok by (simp_all add: support_ok_def bridges_ok_def)
    have maps: "map sb_message ?u = map sb_message (bridges t)" by (simp add: map_update_where)
    have "distinct (map sb_external ?u)"
      using dm u by (induction "bridges t") (auto simp: update_where_def distinct_map inj_on_def)
    moreover have "list_all (\<lambda>b. has_message t (sb_message b)) ?u"
      using ok m by (auto simp: support_ok_def bridges_ok_def list_all_iff ball_update_where)
    moreover have "has_ticket (t\<lparr>bridges := ?u\<rparr>) = has_ticket t" "has_message (t\<lparr>bridges := ?u\<rparr>) = has_message t"
      by (simp_all add: has_ticket_def has_message_def fun_eq_iff)
    ultimately show ?case using ok maps dm by (simp add: support_ok_defs)
  next
    case (2 ts d t)
    then show ?case by (auto intro: ok_add_bridge[where i = i and x = x] simp: list_all_iff list_ex_iff)
  qed
qed

lemma keeps_apply [support_keeps]:
  "tables_keep support_ok (apply_discord_create r k x a b c key)"
  "tables_keep support_ok (apply_discord_revision r k op x b)"
  "tables_keep support_ok (apply_discord_message r inp key)"
  "tables_keep support_ok (apply_email_message r ein key)"
proof -
  show create: "tables_keep support_ok (apply_discord_create r k x a b c key)" for k x a b c
    unfolding apply_discord_create_def by (intro keeps_intros support_keeps; simp)
  show revise: "tables_keep support_ok (apply_discord_revision r k op x b)" for k op x b
    unfolding apply_discord_revision_def
    by (intro keeps_intros support_keeps keeps_stmt_write ok_update_bridge; simp)
  have op: "tables_keep support_ok (case oo of OpCreate \<Rightarrow> apply_discord_create r k x a b c key
      | OpEdit \<Rightarrow> apply_discord_revision r k OpEdit x b
      | OpDelete \<Rightarrow> apply_discord_revision r k OpDelete x b)" for oo k x a b c
    by (cases oo) (simp_all add: create revise)
  show "tables_keep support_ok (apply_discord_message r inp key)"
    unfolding apply_discord_message_def Let_def by (intro keeps_intros support_keeps op)
  show "tables_keep support_ok (apply_email_message r ein key)"
    unfolding apply_email_message_def enqueue_discord_message_def Let_def
    by (intro keeps_intros support_keeps keeps_stmt_insert; simp add: ok_dedup)
qed

lemma keeps_worker [support_keeps]:
  "tables_keep support_ok (take_discord_tasks ts ks)" "tables_keep support_ok (claim_discord_outbox n)"
  "tables_keep support_ok (mark_discord_sent k x)" "tables_keep support_ok (mark_discord_failed k msg)"
  "tables_keep support_ok (discord_process_once en send n)"
proof -
  show take: "tables_keep support_ok (take_discord_tasks ts ks)" for ts ks
    by (induction ks) (simp_all add: keeps_intros keeps_stmt_write ok_update_discord)
  show claim: "tables_keep support_ok (claim_discord_outbox n)" for n
    unfolding claim_discord_outbox_def Let_def by (intro keeps_intros take)
  show sent: "tables_keep support_ok (mark_discord_sent k x)" for k x
    unfolding mark_discord_sent_def discord_effect_def set_sync_def
    by (intro keeps_intros support_keeps keeps_stmt_write ok_update_discord; simp)
  show failed: "tables_keep support_ok (mark_discord_failed k msg)" for k msg
    unfolding mark_discord_failed_def Let_def
    by (intro keeps_intros keeps_stmt_insert) (simp add: ok_update_discord)
  have post: "tables_keep support_ok (post_discord send k)" for k
    by (auto simp: keeps_def post_discord_def tables_def ok_posted)
  have "tables_keep support_ok (sync_tasks en send ks old)" for ks old
    by (induction ks arbitrary: old)
      (auto simp: sync_task_def note_discord_failure_def intro!: keeps_intros post sent failed)
  then show "tables_keep support_ok (discord_process_once en send n)"
    unfolding discord_process_once_def Let_def by (intro keeps_intros claim)
qed

section \<open>The states of the component\<close>

definition no_tickets :: support_tables where
  "no_tickets = \<lparr>tickets = [], messages = [], bridges = [], discord_queue = [], inbound_dedup = [],
     email_dedup = [], ticket_events = [], attachments = [], next_number = 1, posted = []\<rparr>"

text \<open>
  The calls of the handlers and bridges, the passes of the worker, and what goes on outside: the
  other components change the shared tables, time passes.
\<close>

inductive support_step ::
  "support_repo \<Rightarrow> (nat \<Rightarrow> discord_task \<Rightarrow> string + string) \<Rightarrow> support_tables state \<Rightarrow> support_tables state \<Rightarrow> bool"
  for r :: support_repo and send :: "nat \<Rightarrow> discord_task \<Rightarrow> string + string" where
  create: "create_ticket_with_attachments r acc inp files s = (x1, s') \<Longrightarrow> support_step r send s s'"
| user: "add_user_message_with_attachments r acc i b files s = (x2, s') \<Longrightarrow> support_step r send s s'"
| admin: "add_admin_message_with_attachments r acc i b files s = (x2, s') \<Longrightarrow> support_step r send s s'"
| status: "set_ticket_status r acc i st assign adm s = (x3, s') \<Longrightarrow> support_step r send s s'"
| discord: "apply_discord_message r dmsg key s = (x2, s') \<Longrightarrow> support_step r send s s'"
| email: "apply_email_message r emsg key s = (x2, s') \<Longrightarrow> support_step r send s s'"
| worker: "discord_process_once en send n s = (x4 :: unit + discord_failure option, s') \<Longrightarrow> support_step r send s s'"
| outside: "snd s' = snd s \<Longrightarrow> next_id (w_db (fst s)) \<le> next_id (w_db (fst s')) \<Longrightarrow>
    db_now (fst s) \<le> db_now (fst s') \<Longrightarrow> support_step r send s s'"

inductive support_reachable ::
  "support_repo \<Rightarrow> (nat \<Rightarrow> discord_task \<Rightarrow> string + string) \<Rightarrow> support_tables state \<Rightarrow> bool"
  for r :: support_repo and send :: "nat \<Rightarrow> discord_task \<Rightarrow> string + string" where
  start: "snd s = no_tickets \<Longrightarrow> support_reachable r send s"
| step: "support_reachable r send s \<Longrightarrow> support_step r send s s' \<Longrightarrow> support_reachable r send s'"

lemma support_step_keeps: "support_step r send s s' \<Longrightarrow> support_ok (tables s) \<Longrightarrow> support_ok (tables s')"
proof (induction rule: support_step.induct)
  case (outside s' s)
  then show ?case by (auto simp: tables_def intro: ok_core)
qed (drule keeps_tickets(1-4)[THEN keepsD, rotated] keeps_apply(3,4)[THEN keepsD, rotated]
    keeps_worker(5)[THEN keepsD, rotated]; assumption)+

lemma support_reachable_ok: "support_reachable r send s \<Longrightarrow> support_ok (tables s)"
proof (induction rule: support_reachable.induct)
  case (start s)
  then show ?case by (simp add: tables_def support_ok_defs no_tickets_def new_keys_def)
qed (blast intro: support_step_keeps)

end
