(* ===== verification/SupportEffects.thy ===== *)
theory SupportEffects imports SupportInvariants begin

text \<open>
  What the operations on tickets do to the tables when they succeed: the rows they add or change,
  and which operations leave tickets, messages and queue alone.
\<close>

section \<open>Operations that leave the tickets alone\<close>

text \<open>\<open>quiet R c s\<close>: but for events and attachments the support tables are \<open>R\<close>, the clocks \<open>c\<close>.\<close>

definition core_rows :: "support_tables \<Rightarrow> support_tables" where
  "core_rows t = t\<lparr>ticket_events := [], attachments := []\<rparr>"

definition quiet :: "support_tables \<Rightarrow> time \<times> time \<Rightarrow> support_tables state \<Rightarrow> bool" where
  "quiet R c s \<longleftrightarrow> core_rows (snd s) = R \<and> (now (fst s), db_now (fst s)) = c"

lemma quiet_same: "quiet (core_rows (snd s)) (now (fst s), db_now (fst s)) s"
  by (simp add: quiet_def)

lemma core_rows_sel [simp]:
  "tickets (core_rows t) = tickets t" "messages (core_rows t) = messages t"
  "discord_queue (core_rows t) = discord_queue t" "bridges (core_rows t) = bridges t"
  "email_dedup (core_rows t) = email_dedup t" "posted (core_rows t) = posted t"
  "next_number (core_rows t) = next_number t" "inbound_dedup (core_rows t) = inbound_dedup t"
  by (simp_all add: core_rows_def)

lemma keeps_stmt_quiet:
  assumes "\<And>d t. core_rows (snd (snd (q (d, t)))) = core_rows t"
  shows "keeps (quiet R c) (stmt q)"
  using assms by (auto simp: keeps_def quiet_def stmt_def tables_def with_tables_def set_faults_def split: list.splits)

lemma quiet_read [keeps_intros]: "keeps (quiet R c) (stmt_row f)" "keeps (quiet R c) (stmt_rows f')"
  unfolding stmt_row_def stmt_rows_def by (rule keeps_stmt_quiet; simp)+

lemma quiet_insert:
  "(\<And>d t. core_rows (snd (g (d, t))) = core_rows t) \<Longrightarrow> keeps (quiet R c) (stmt_insert chk uniq g f)"
  unfolding stmt_insert_def by (rule keeps_stmt_quiet) auto

named_theorems quiet_ops \<open>operations that leave tickets, messages and queue alone\<close>

lemma quiet_writes [quiet_ops]:
  "keeps (quiet R c) (add_ticket_event k act ty dat)"
  "keeps (quiet R c) (support_seal r p)"
  "keeps (quiet R c) (support_enqueue_email r acc rc dk sub b)"
  "keeps (quiet R c) (insert_notice n dk ti b)"
  "keeps (quiet R c) (insert_attachment_rows u k m is)"
proof -
  show "keeps (quiet R c) (add_ticket_event k act ty dat)"
    unfolding add_ticket_event_def by (intro keeps_intros quiet_insert) (simp add: core_rows_def)
  show seal: "keeps (quiet R c) (support_seal r p)" for r p
    unfolding support_seal_def
    by (auto simp: keeps_def core_def quiet_def with_draws_def split: prod.splits sum.splits)
  show "keeps (quiet R c) (support_enqueue_email r acc rc dk sub b)"
    unfolding support_enqueue_email_def by (intro keeps_intros seal quiet_insert) simp
  show "keeps (quiet R c) (insert_notice n dk ti b)"
    unfolding insert_notice_def by (intro keeps_intros quiet_insert) simp
  show "keeps (quiet R c) (insert_attachment_rows u k m is)"
  proof (induction "is")
    case (Cons i "is")
    show ?case unfolding insert_attachment_rows.simps
      by (intro keeps_intros quiet_insert Cons) (simp add: add_row_def core_rows_def)
  qed (simp add: keeps_ret)
qed

lemma quiet_mails [quiet_ops]:
  "keeps (quiet R c) (enqueue_official_email r tk sf sub b)"
  "keeps (quiet R c) (enqueue_user_notice r tk sf ti b acc)"
  "keeps (quiet R c) (insert_support_attachments u k m is)"
  "keeps (quiet R c) (is_admin_tx i)"
  unfolding enqueue_official_email_def enqueue_user_notice_def insert_support_attachments_def is_admin_tx_def
  by (intro keeps_intros quiet_ops)+

lemma quiet_rowsD:
  assumes "\<And>R c. keeps (quiet R c) m" "m s = (r, s')"
  shows "tickets (snd s') = tickets (snd s) \<and> messages (snd s') = messages (snd s)
    \<and> discord_queue (snd s') = discord_queue (snd s) \<and> bridges (snd s') = bridges (snd s)
    \<and> email_dedup (snd s') = email_dedup (snd s) \<and> inbound_dedup (snd s') = inbound_dedup (snd s)
    \<and> posted (snd s') = posted (snd s) \<and> same_clocks s s'"
proof -
  have "core_rows (snd s') = core_rows (snd s) \<and> same_clocks s s'"
    using keepsD[OF assms(1) quiet_same assms(2)] by (simp add: quiet_def same_clocks_def)
  then show ?thesis by (metis core_rows_sel)
qed

section \<open>Runs that fail, locks and guards\<close>

lemma stmt_row_not_found:
  "(\<And>d. f d (snd s) = None) \<Longrightarrow> \<exists>e s'. stmt_row f s = (Inl e, s') \<and> tables s' = tables s"
  by (cases "stmt_row f s"; cases "fst (stmt_row f s)")
    (auto dest: stmt_row_Inr stmt_Inl_tables simp: tables_def)

lemma in_tx_flag_fails:
  assumes "\<And>s1 b x s2. tables s1 = tables s \<Longrightarrow> body s1 \<noteq> (Inr (b, x), s2)"
  shows "\<exists>e s'. in_tx_flag conv body s = (Inl e, s') \<and> tables s' = tables s"
proof -
  obtain x s' where run: "in_tx_flag conv body s = (x, s')" by (cases "in_tx_flag conv body s")
  show ?thesis
  proof (cases x)
    case (Inl e)
    with run in_tx_flag_Inl[of conv body s e s'] show ?thesis by blast
  next
    case (Inr y)
    from run[unfolded Inr] show ?thesis
      by (rule in_tx_flag_Inr) (use assms in blast)+
  qed
qed

lemma in_tx_fails:
  assumes "\<And>s1 x s2. tables s1 = tables s \<Longrightarrow> body s1 \<noteq> (Inr x, s2)"
  shows "\<exists>e s'. in_tx conv body s = (Inl e, s') \<and> tables s' = tables s"
  unfolding in_tx_def by (rule in_tx_flag_fails) (use assms in auto)

lemma lift_then_fails:
  assumes "\<And>x. r = Inr x \<Longrightarrow> \<exists>e s'. k x s = (Inl e, s') \<and> P s'" "P s"
  shows "\<exists>e s'. bindM (liftM r) k s = (Inl e, s') \<and> P s'"
  using assms by (cases r) (auto simp: bindM_Inl_iff)

lemma map_err_fails: "\<exists>e s'. m s = (Inl e, s') \<and> P s' \<Longrightarrow> \<exists>e s'. map_errM c m s = (Inl e, s') \<and> P s'"
  by (auto simp: map_errM_Inl_iff)

lemma bind_fails: "\<exists>e s'. m s = (Inl e, s') \<and> P s' \<Longrightarrow> \<exists>e s'. bindM m k s = (Inl e, s') \<and> P s'"
  by (auto simp: bindM_Inl_iff)

lemma lock_ticket_Inr:
  "lock_ticket i s = (Inr k, s') \<Longrightarrow> k \<in> set (tickets (snd (tables s))) \<and> tk_id k = i \<and> tables s' = tables s
     \<and> same_clocks s s'"
  unfolding lock_ticket_def by (auto dest!: stmt_row_Inr find_Some_D)

lemma stmt_rows_clocks: "stmt_rows f s = (r, s') \<Longrightarrow> same_clocks s s'"
  by (auto simp: stmt_rows_def stmt_def same_clocks_def set_faults_def with_tables_def
      split: list.splits if_splits)

lemma is_admin_tx_Inr:
  assumes "is_admin_tx i s = (Inr b, s')"
  shows "tables s' = tables s \<and> same_clocks s s' \<and> (b \<longrightarrow> (i, ''admin'') \<in> set (roles (fst (tables s))))"
proof -
  let ?q = "stmt_rows (\<lambda>d t. (i, ''admin'') \<in> set (roles d)) s"
  obtain x s1 where q: "?q = (x, s1)" by (cases ?q)
  from assms q have "s1 = s'" "b = (case x of Inl _ \<Rightarrow> False | Inr y \<Rightarrow> y)"
    by (auto simp: is_admin_tx_def catchM_def ret_def split: sum.splits)
  with q stmt_rows_clocks[OF q] show ?thesis
    by (cases x) (auto dest: stmt_rows_Inr stmt_Inl_tables(2))
qed

section \<open>Rows that are added\<close>

lemma insert_ticket_Inr:
  assumes "insert_ticket acc i s = (Inr v, s')"
  shows "v = ticket_of (new_ticket acc i (db_now (fst s)) (fst (tables s)) (snd (tables s)))
    \<and> snd s' = (snd s)\<lparr>tickets := tickets (snd s) @ [new_ticket acc i (db_now (fst s)) (fst (tables s)) (snd (tables s))],
          next_number := next_number (snd s) + 1\<rparr> \<and> same_clocks s s'"
  using assms unfolding insert_ticket_def by (auto dest!: stmt_insert_Inr simp: tables_def add_row_def)

lemma insert_message_Inr:
  assumes "insert_support_message k a ty so h b c s = (Inr m, s')"
  shows "m = message_of (new_message k a ty so h b c (fst (tables s)))
    \<and> snd s' = (snd s)\<lparr>messages := messages (snd s) @ [new_message k a ty so h b c (fst (tables s))]\<rparr>
    \<and> same_clocks s s'"
  using assms unfolding insert_support_message_def Let_def by (auto dest!: stmt_insert_Inr simp: tables_def add_row_def)

lemma enqueue_discord_Inr:
  assumes "enqueue_discord k m opn pl s = (Inr v, s')"
  shows "snd s' = (snd s)\<lparr>discord_queue := discord_queue (snd s)
      @ [new_discord k m opn pl (db_now (fst s)) (fst (tables s))]\<rparr> \<and> same_clocks s s'"
  using assms unfolding enqueue_discord_def by (auto dest!: stmt_insert_Inr simp: tables_def add_row_def)

section \<open>Opening a ticket\<close>

lemma create_ticket_Inr:
  fixes s :: "support_tables state"
  defines "row \<equiv> \<lambda>inp acc. new_ticket acc (trim_ticket inp) (db_now (fst s)) (w_db (fst s)) (snd s)"
  assumes "create_ticket_with_attachments r acc inp files s = (Inr v, s')"
  shows "fst v = ticket_of (row inp acc) \<and> tickets (snd s') = tickets (snd s) @ [row inp acc]
    \<and> (\<exists>m. messages (snd s') = messages (snd s) @ [m] \<and> sm_ticket m = tk_id (row inp acc) \<and> sm_author m = Some acc
          \<and> sm_body m = trim_space (ct_body inp) \<and> sm_status m = ''active'')
    \<and> (\<exists>pl d. discord_queue (snd s') = discord_queue (snd s)
          @ [new_discord (tk_id (row inp acc)) None ''create_channel'' pl (db_now (fst s)) d])
    \<and> posted (snd s') = posted (snd s) \<and> same_clocks s s'"
proof -
  let ?u = "e_unicode (sp_env r)" let ?i = "trim_ticket inp"
  define body where "body = (
       bindM (map_errM map_support_error (insert_ticket acc ?i)) (\<lambda>k.
       bindM clock (\<lambda>t.
       bindM (insert_support_message (tv_id k) (Some acc) ''user'' ''website'' None (ct_body ?i) t) (\<lambda>m.
       bindM (insert_support_attachments ?u (tv_id k) (mv_id m) files) (\<lambda>files'.
       bindM (add_ticket_event (tv_id k) (Some acc) ''created''
                [(''category'', ct_category ?i), (''subject'', ct_subject ?i)]) (\<lambda>_.
       bindM (enqueue_discord_channel (tv_id k) (tv_number k) (tv_subject k)) (\<lambda>_.
       bindM (enqueue_official_email r k ''new'' (sp_text r TxNewSubject @ tv_number k)
                (format_official_body r k (ct_body ?i))) (\<lambda>_.
       bindM (enqueue_user_notice r k ''created'' (sp_text r TxCreatedTitle)
                (sp_text r TxCreatedPre @ tv_number k @ sp_text r TxStop) (Some acc)) (\<lambda>_.
       ret (k, [m\<lparr>mv_attachments := files'\<rparr>]))))))))))"
  have "in_tx raw_error body s = (Inr v, s')"
    using assms(2) unfolding create_ticket_with_attachments_def body_def Let_def by auto
  then obtain s1 s2 where s1: "tables s1 = tables s" "same_clocks s s1" and run: "body s1 = (Inr v, s2)"
    and s2: "tables s' = tables s2" "same_clocks s2 s'" by (rule in_tx_Inr)
  from run obtain k a1 t a2 m a3 files' a4 u1 a5 u2 a6 u3 a7 u4 a8 where
    k: "map_errM map_support_error (insert_ticket acc ?i) s1 = (Inr k, a1)"
    and c: "(clock :: time support_op) a1 = (Inr t, a2)"
    and m: "insert_support_message (tv_id k) (Some acc) ''user'' ''website'' None (ct_body ?i) t a2 = (Inr m, a3)"
    and at: "insert_support_attachments ?u (tv_id k) (mv_id m) files a3 = (Inr files', a4)"
    and e: "add_ticket_event (tv_id k) (Some acc) ''created''
                [(''category'', ct_category ?i), (''subject'', ct_subject ?i)] a4 = (Inr u1, a5)"
    and q: "enqueue_discord_channel (tv_id k) (tv_number k) (tv_subject k) a5 = (Inr u2, a6)"
    and o1: "enqueue_official_email r k ''new'' (sp_text r TxNewSubject @ tv_number k)
                (format_official_body r k (ct_body ?i)) a6 = (Inr u3, a7)"
    and n: "enqueue_user_notice r k ''created'' (sp_text r TxCreatedTitle)
                (sp_text r TxCreatedPre @ tv_number k @ sp_text r TxStop) (Some acc) a7 = (Inr u4, a8)"
    and v: "(ret (k, [m\<lparr>mv_attachments := files'\<rparr>]) :: (ticket \<times> support_message list) support_op) a8 = (Inr v, s2)"
    unfolding body_def by (elim bindM_InrE) (rule that; assumption)
  have row: "row inp acc = new_ticket acc ?i (db_now (fst s1)) (fst (tables s1)) (snd (tables s1))"
    using s1 by (simp add: row_def same_clocks_def tables_def)
  note k' = insert_ticket_Inr[OF k[unfolded map_errM_Inr_iff], folded row]
  note m' = insert_message_Inr[OF m]
  note q' = enqueue_discord_Inr[OF q[unfolded enqueue_discord_channel_def]]
  note quiet = quiet_rowsD[OF quiet_mails(3) at] quiet_rowsD[OF quiet_writes(1) e]
    quiet_rowsD[OF quiet_mails(1) o1] quiet_rowsD[OF quiet_mails(2) n]
  have a2: "a2 = a1" using c by simp
  have "db_now (fst a5) = db_now (fst s)"
    using k' m' quiet s1 a2 by (simp add: same_clocks_def)
  moreover have "same_clocks s s'" using k' m' q' quiet s1 s2 v a2 by (simp add: same_clocks_def)
  ultimately show ?thesis using k' m' q' quiet s1 s2 v a2
    by (simp add: tables_def new_message_def ticket_of_def trim_ticket_def row_def) blast
qed

end
