(* ===== verification/SupportDelivery.thy ===== *)
theory SupportDelivery imports SupportEffects begin

text \<open>
  The Discord side of support: a message that Discord delivers twice is stored once, ended tickets
  take no message from anywhere, and what the outbox really delivers.
\<close>

section \<open>The queue as the operations leave it\<close>

text \<open>
  Every ticket's first task asks for its channel and has no message; while none is sent, the rows
  stand in the order of their creation, all pending.
\<close>

fun opened :: "uuid set \<Rightarrow> discord_row list \<Rightarrow> bool" where
  "opened seen [] = True"
| "opened seen (q # qs) = (if dq_message q = None then opened (insert (dq_ticket q) seen) qs
     else dq_ticket q \<in> seen \<and> opened seen qs)"

definition channel_rows :: "discord_row list \<Rightarrow> uuid set" where
  "channel_rows qs = dq_ticket ` {q \<in> set qs. dq_message q = None}"

lemma opened_append: "opened seen (qs @ [q]) \<longleftrightarrow> opened seen qs \<and> (dq_message q = None \<or> dq_ticket q \<in> seen \<union> channel_rows qs)"
  by (induction qs arbitrary: seen) (auto simp: channel_rows_def)

lemma opened_split: "opened seen (xs @ q # ys) \<Longrightarrow> dq_message q = None \<or> dq_ticket q \<in> seen \<union> channel_rows xs"
proof (induction xs arbitrary: seen)
  case (Cons a xs)
  then have "opened (if dq_message a = None then insert (dq_ticket a) seen else seen) (xs @ q # ys)"
    by (auto split: if_splits)
  from Cons.IH[OF this] show ?case by (auto simp: channel_rows_def split: if_splits)
qed (auto split: if_splits)

definition waiting_row :: "time \<Rightarrow> discord_row \<Rightarrow> bool" where
  "waiting_row T q \<longleftrightarrow> dq_status q = ''pending'' \<and> dq_available q = dq_created q \<and> dq_created q \<le> T"

definition stuck_rows :: "time \<Rightarrow> support_tables \<Rightarrow> bool" where
  "stuck_rows T t \<longleftrightarrow> posted t = [] \<and> sorted (map dq_created (discord_queue t))
     \<and> list_all (waiting_row T) (discord_queue t) \<and> opened {} (discord_queue t)
     \<and> (\<forall>i. has_ticket t i \<longrightarrow> i \<in> channel_rows (discord_queue t))"

definition stuck :: "time \<Rightarrow> support_tables state \<Rightarrow> bool" where
  "stuck T s \<longleftrightarrow> db_now (fst s) = T \<and> stuck_rows T (snd s)"

lemma stuck_later: "stuck_rows T t \<Longrightarrow> T \<le> T' \<Longrightarrow> stuck_rows T' t"
  by (auto simp: stuck_rows_def waiting_row_def list_all_iff)

text \<open>One more row, created now.\<close>

lemma stuck_add:
  assumes "stuck_rows T t" "dq_message q = None \<or> has_ticket t (dq_ticket q)" "waiting_row T q" "dq_created q = T"
  shows "stuck_rows T (t\<lparr>discord_queue := discord_queue t @ [q]\<rparr>)"
proof -
  have "has_ticket (t\<lparr>discord_queue := y\<rparr>) i = has_ticket t i" for i y by (simp add: has_ticket_def)
  moreover have "channel_rows (discord_queue t) \<subseteq> channel_rows (discord_queue t @ [q])"
    by (auto simp: channel_rows_def)
  moreover have "\<forall>x \<in> set (discord_queue t). dq_created x \<le> T"
    using assms(1) by (auto simp: stuck_rows_def waiting_row_def list_all_iff)
  ultimately show ?thesis using assms
    by (auto simp: stuck_rows_def opened_append sorted_append list_all_iff)
qed

text \<open>Nothing that changes neither the queue nor the tickets' ids matters.\<close>

lemma stuck_frame:
  "stuck_rows T t \<Longrightarrow> discord_queue t' = discord_queue t \<Longrightarrow> posted t' = posted t
    \<Longrightarrow> map tk_id (tickets t') = map tk_id (tickets t) \<Longrightarrow> stuck_rows T t'"
proof -
  assume "map tk_id (tickets t') = map tk_id (tickets t)"
  then have "has_ticket t' i = has_ticket t i" for i
    unfolding has_ticket_def list_ex_iff by (metis (mono_tags, lifting) imageE imageI list.set_map)
  then show "stuck_rows T t \<Longrightarrow> discord_queue t' = discord_queue t \<Longrightarrow> posted t' = posted t \<Longrightarrow> stuck_rows T t'"
    by (simp add: stuck_rows_def)
qed

lemma stuck_simps [simp]:
  "stuck_rows T (t\<lparr>messages := a\<rparr>) = stuck_rows T t" "stuck_rows T (t\<lparr>bridges := b\<rparr>) = stuck_rows T t"
  "stuck_rows T (t\<lparr>inbound_dedup := c\<rparr>) = stuck_rows T t" "stuck_rows T (t\<lparr>email_dedup := e\<rparr>) = stuck_rows T t"
  "stuck_rows T (t\<lparr>ticket_events := f\<rparr>) = stuck_rows T t" "stuck_rows T (t\<lparr>attachments := g\<rparr>) = stuck_rows T t"
  by (simp_all add: stuck_rows_def has_ticket_def)

section \<open>Preservation\<close>

lemma keeps_stmt_stuck:
  "(\<And>d t. stuck_rows T t \<Longrightarrow> stuck_rows T (snd (snd (q (d, t))))) \<Longrightarrow> keeps (stuck T) (stmt q)"
  by (auto simp: keeps_def stuck_def stmt_def tables_def with_tables_def set_faults_def split: list.splits)

lemma stuck_reads [keeps_intros]: "keeps (stuck T) (stmt_row f)" "keeps (stuck T) (stmt_rows f')"
  "keeps (stuck T) stmt_nop"
  unfolding stmt_row_def stmt_rows_def stmt_nop_def by (rule keeps_stmt_stuck; simp)+

lemma stuck_insert:
  "(\<And>d t. stuck_rows T t \<Longrightarrow> chk d t \<Longrightarrow> stuck_rows T (snd (g (d, t)))) \<Longrightarrow> keeps (stuck T) (stmt_insert chk uniq g f)"
  unfolding stmt_insert_def by (rule keeps_stmt_stuck) auto

lemma stuck_write: "(\<And>t. stuck_rows T t \<Longrightarrow> stuck_rows T (g t)) \<Longrightarrow> keeps (stuck T) (stmt_write g f)"
  unfolding stmt_write_def by (rule keeps_stmt_stuck) auto

lemma stuck_clock: "keeps (stuck T) (f T) \<Longrightarrow> keeps (stuck T) (bindM db_clock f)"
  by (auto simp: keeps_def stuck_def)

lemma stuck_in_tx_run:
  assumes body: "\<And>s1 r1 s2. stuck T s1 \<Longrightarrow> tables s1 = tables s \<Longrightarrow> body s1 = (r1, s2) \<Longrightarrow> stuck T s2"
    and s: "stuck T s" and run: "in_tx_flag conv body s = (r, s')"
  shows "stuck T s'"
proof -
  have nop: "stuck T t' \<and> tables t' = tables t" if "stuck T t" "map_errM conv stmt_nop t = (x, t')" for t x t'
    using that by (auto simp: map_errM_def stmt_nop_def stmt_def stuck_def tables_def with_tables_def set_faults_def
        split: prod.splits sum.splits list.splits if_splits)
  have roll: "stuck T (with_tables (tables s1) s2)" if "stuck T s1" "stuck T s2" for s1 s2
    using that by (simp add: stuck_def with_tables_def tables_def)
  obtain r0 s1 where n1: "map_errM conv stmt_nop s = (r0, s1)" by (metis surj_pair)
  obtain r1 s2 where b: "body s1 = (r1, s2)" by (metis surj_pair)
  obtain r2 s3 where n2: "map_errM conv stmt_nop s2 = (r2, s3)" by (metis surj_pair)
  have s1: "stuck T s1" "tables s1 = tables s" using nop[OF s n1] by simp_all
  have s2: "stuck T s2" using body[OF s1 b] .
  have s3: "stuck T s3" using nop[OF s2 n2] by simp
  show ?thesis
    using run s1 s2 s3 roll[OF s1(1) s2] roll[OF s1(1) s3]
    by (simp add: in_tx_flag_def n1 b n2 split: sum.splits prod.splits bool.splits)
qed

lemma stuck_in_tx_flag [keeps_intros]: "keeps (stuck T) body \<Longrightarrow> keeps (stuck T) (in_tx_flag conv body)"
  by (rule keepsI, rule stuck_in_tx_run) (auto dest: keepsD)

lemma stuck_in_tx [keeps_intros]: "keeps (stuck T) body \<Longrightarrow> keeps (stuck T) (in_tx conv body)"
  unfolding in_tx_def by (intro keeps_intros)

lemma stuck_core [keeps_intros]: "keeps (stuck T) (core (with_draws c m))"
  by (auto simp: keeps_def core_def stuck_def with_draws_def split: prod.splits sum.splits)

section \<open>Every operation but the creation of a ticket\<close>

named_theorems stuck_ops \<open>operations that keep the queue as it is, or add to it\<close>

lemma update_ticket_stuck:
  assumes "\<And>ts r. tk_id (f ts r) = tk_id r"
  shows "keeps (stuck T) (update_ticket i f)"
  unfolding update_ticket_def
  by (intro keeps_intros stuck_insert) (simp, erule stuck_frame; simp add: map_update_where assms)

lemma enqueue_discord_stuck:
  assumes "message_operation opn \<or> m = None"
  shows "keeps (stuck T) (enqueue_discord k m opn pl)"
  unfolding enqueue_discord_def
  by (intro stuck_clock keeps_intros stuck_insert)
    (use assms in \<open>simp add: add_row_def, intro stuck_add;
       auto simp: new_discord_def discord_chk_def waiting_row_def\<close>)

lemma stuck_writes [stuck_ops]:
  "keeps (stuck T) (insert_support_message k a ty so h b c)"
  "keeps (stuck T) (insert_attachment_rows u k m is)"
  "keeps (stuck T) (add_ticket_event k act ty dat)"
  "keeps (stuck T) (support_seal r p)"
  "keeps (stuck T) (support_enqueue_email r acc rc dk sub b)"
  "keeps (stuck T) (insert_notice n dk ti b)"
  "keeps (stuck T) (insert_bridge n x)" "keeps (stuck T) (insert_inbound_dedup x n)"
  "keeps (stuck T) (revise_message op b n k)"
proof -
  show "keeps (stuck T) (insert_support_message k a ty so h b c)"
    unfolding insert_support_message_def Let_def
    by (intro keeps_intros stuck_insert) (simp add: add_row_def)
  show "keeps (stuck T) (insert_attachment_rows u k m is)"
  proof (induction "is")
    case (Cons i "is")
    show ?case unfolding insert_attachment_rows.simps
      by (intro keeps_intros stuck_insert Cons) (simp add: add_row_def)
  qed (simp add: keeps_ret)
  show "keeps (stuck T) (add_ticket_event k act ty dat)"
    unfolding add_ticket_event_def by (intro keeps_intros stuck_insert) simp
  show seal: "keeps (stuck T) (support_seal r p)" for r p
    unfolding support_seal_def by (intro keeps_intros)
  show "keeps (stuck T) (support_enqueue_email r acc rc dk sub b)"
    unfolding support_enqueue_email_def by (intro keeps_intros seal stuck_insert) simp
  show "keeps (stuck T) (insert_notice n dk ti b)"
    unfolding insert_notice_def by (intro keeps_intros stuck_insert) simp
  show "keeps (stuck T) (insert_bridge n x)"
    unfolding insert_bridge_def by (intro keeps_intros stuck_insert) simp
  show "keeps (stuck T) (insert_inbound_dedup x n)"
    unfolding insert_inbound_dedup_def by (intro keeps_intros stuck_insert) simp
  show "keeps (stuck T) (revise_message op b n k)"
    unfolding revise_message_def by (intro keeps_intros stuck_insert) simp
qed

lemma stuck_mails [stuck_ops]:
  "keeps (stuck T) (enqueue_official_email r tk sf sub b)"
  "keeps (stuck T) (enqueue_user_notice r tk sf ti b acc)"
  "keeps (stuck T) (insert_support_attachments u k m is)"
  "keeps (stuck T) (is_admin_tx i)"
  "keeps (stuck T) (lock_ticket i)" "keeps (stuck T) (lock_ticket_by_channel c)"
  "keeps (stuck T) (lock_ticket_by_number n)" "keeps (stuck T) (get_support_message i)"
  unfolding enqueue_official_email_def enqueue_user_notice_def insert_support_attachments_def is_admin_tx_def
    lock_ticket_def lock_ticket_by_channel_def lock_ticket_by_number_def get_support_message_def
  by (intro keeps_intros stuck_ops)+

lemma status_updates_stuck [stuck_ops]:
  "keeps (stuck T) (update_ticket i (answered st))" "keeps (stuck T) (update_ticket i (status_update st a b))"
  by (rule update_ticket_stuck; simp)+

lemma enqueues_stuck [stuck_ops]:
  "keeps (stuck T) (enqueue_discord_message k m kind)" "keeps (stuck T) (enqueue_discord_archive k)"
  "keeps (stuck T) (enqueue_discord_reopen k)"
  unfolding enqueue_discord_message_def enqueue_discord_archive_def enqueue_discord_reopen_def
  by (rule enqueue_discord_stuck; simp add: message_operation_def)+

lemma stuck_calls [stuck_ops]:
  "keeps (stuck T) (add_user_message_with_attachments r acc i b files)"
  "keeps (stuck T) (add_admin_message_with_attachments r acc i b files)"
  "keeps (stuck T) (set_ticket_status r acc i st assign adm)"
  "keeps (stuck T) (apply_email_message r ein key)"
  unfolding add_user_message_with_attachments_def add_admin_message_with_attachments_def
    set_ticket_status_def change_status_def after_status_def apply_email_message_def Let_def
  by (intro keeps_intros stuck_ops stuck_insert; simp)+

lemma stuck_apply [stuck_ops]: "keeps (stuck T) (apply_discord_message r inp key)"
proof -
  have create: "keeps (stuck T) (apply_discord_create r k x a b c key)" for k x a b c
    unfolding apply_discord_create_def by (intro keeps_intros stuck_ops)
  have revise: "keeps (stuck T) (apply_discord_revision r k op x b)" for k op x b
    unfolding apply_discord_revision_def
    by (intro keeps_intros stuck_ops stuck_write) simp
  have op: "keeps (stuck T) (case oo of OpCreate \<Rightarrow> apply_discord_create r k x a b c key
      | OpEdit \<Rightarrow> apply_discord_revision r k OpEdit x b
      | OpDelete \<Rightarrow> apply_discord_revision r k OpDelete x b)" for oo k x a b c
    by (cases oo) (simp_all add: create revise)
  show ?thesis unfolding apply_discord_message_def Let_def by (intro keeps_intros stuck_ops op)
qed

section \<open>What the worker finds\<close>

lemma claimable_head:
  assumes "stuck_rows T t" "claimable_discord t ts n = q # qs" "T \<le> ts" "distinct (map dq_id (discord_queue t))"
  shows "dq_message q = None"
proof (rule ccontr)
  let ?P = "\<lambda>o1. has_ticket t (dq_ticket o1) \<and> discord_due ts o1 \<and> \<not> discord_blocked (discord_queue t) o1"
  let ?Q = "discord_queue t"
  assume some: "dq_message q \<noteq> None"
  have s: "sorted (map dq_created ?Q)" using assms(1) by (simp add: stuck_rows_def)
  then have "sorted (map dq_created (filter ?P ?Q))" by (rule sorted_filter)
  then have "sort_key dq_created (filter ?P ?Q) = filter ?P ?Q" by (rule sort_key_id_if_sorted)
  with assms(2) have "\<exists>zs. filter ?P ?Q = q # zs"
    by (cases "filter ?P ?Q"; cases n) (auto simp: claimable_discord_def)
  then obtain xs ys where Q: "?Q = xs @ q # ys" and no: "\<forall>u \<in> set xs. \<not> ?P u" and yes: "?P q"
    by (auto simp: filter_eq_Cons_iff)
  from assms(1) Q some opened_split[of "{}" xs q ys] obtain c where
    c: "c \<in> set xs" "dq_ticket c = dq_ticket q"
    by (auto simp: stuck_rows_def channel_rows_def)
  have "waiting_row T c" using assms(1) c(1) Q by (simp add: stuck_rows_def list_all_iff)
  then have "discord_due ts c" using assms(3) by (auto simp: waiting_row_def discord_due_def)
  with no c yes have "discord_blocked ?Q c" by auto
  then obtain p where p: "p \<in> set ?Q" "dq_ticket p = dq_ticket q" "dq_created p < dq_created c" "dq_status p \<noteq> ''sent''"
    using c by (auto simp: discord_blocked_def list_ex_iff)
  have "dq_created c \<le> dq_created q" using s c(1) Q by (auto simp: sorted_append)
  with p have less: "dq_created p < dq_created q" by simp
  then have "dq_id p \<noteq> dq_id q" using assms(4) p(1) Q by (metis distinct_map in_set_conv_decomp inj_on_eq_iff less_irrefl)
  with p less yes show False by (auto simp: discord_blocked_def list_ex_iff)
qed

lemma claim_body_stuck:
  assumes "stuck T s" "distinct (map dq_id (discord_queue (snd s)))"
    and "bindM (map_errM raw_error (stmt_rows (\<lambda>d t. scan_discord_rows t (claimable_discord t T n)))) (\<lambda>res.
        bindM (liftM res) (\<lambda>tasks.
        bindM (take_discord_tasks T tasks) (\<lambda>_.
        ret tasks))) s = (r, s')"
  shows "stuck T s' \<and> (\<forall>tasks. r = Inr tasks \<longrightarrow> tasks = [])"
proof -
  let ?q = "stmt_rows (\<lambda>d t. scan_discord_rows t (claimable_discord t T n)) s"
  obtain x s1 where q: "?q = (x, s1)" by (metis surj_pair)
  have s1: "stuck T s1" using keepsD[OF stuck_reads(2) assms(1) q] .
  show ?thesis
  proof (cases x)
    case (Inl e)
    with assms(3) q s1 show ?thesis by (auto simp: bindM_def map_errM_def)
  next
    case (Inr res)
    with q have res: "res = scan_discord_rows (snd s) (claimable_discord (snd s) T n)"
      by (auto dest!: stmt_rows_Inr simp: tables_def)
    show ?thesis
    proof (cases "claimable_discord (snd s) T n")
      case Nil
      with assms(3) q s1 Inr res show ?thesis
        by (auto simp: bindM_def map_errM_def scan_discord_rows_def liftM_def ret_def)
    next
      case (Cons o1 os)
      from claimable_head[OF _ Cons _ assms(2)] assms(1) have "dq_message o1 = None" by (auto simp: stuck_def)
      with assms(3) q s1 Inr res Cons show ?thesis
        by (auto simp: bindM_def map_errM_def scan_discord_rows_def liftM_def)
    qed
  qed
qed

lemma claim_stuck:
  assumes "stuck T s" "distinct (map dq_id (discord_queue (snd s)))" "claim_discord_outbox limit s = (r, s')"
  shows "stuck T s' \<and> (\<forall>tasks. r = Inr tasks \<longrightarrow> tasks = [])"
proof -
  define n where "n = nat (if limit < 1 \<or> 100 < limit then 20 else limit)"
  define body where "body =
     bindM (map_errM raw_error (stmt_rows (\<lambda>d t. scan_discord_rows t (claimable_discord t T n)))) (\<lambda>res.
        bindM (liftM res) (\<lambda>tasks.
        bindM (take_discord_tasks T tasks) (\<lambda>_.
        ret tasks)))"
  have run: "in_tx raw_error body s = (r, s')"
    using assms(1,3) by (simp add: claim_discord_outbox_def body_def n_def stuck_def Let_def)
  have b: "stuck T s2 \<and> (\<forall>tasks. r1 = Inr tasks \<longrightarrow> tasks = [])"
    if "stuck T s1" "tables s1 = tables s" "body s1 = (r1, s2)" for s1 r1 s2
  proof (rule claim_body_stuck[OF that(1) _ that(3)[unfolded body_def]])
    show "distinct (map dq_id (discord_queue (snd s1)))" using assms(2) that(2) by (simp add: tables_def)
  qed
  have "stuck T s'"
    using run[unfolded in_tx_def]
  proof (rule stuck_in_tx_run[rotated 2])
    fix s1 :: "support_tables state" and r1 s2
    assume *: "stuck T s1" "tables s1 = tables s" "bindM body (\<lambda>x. ret (True, x)) s1 = (r1, s2)"
    obtain r2 s3 where "body s1 = (r2, s3)" by (metis surj_pair)
    with b[OF *(1,2) this] *(3) show "stuck T s2" by (cases r2) (auto simp: bindM_def ret_def)
  qed (rule assms(1))
  moreover have "tasks = []" if "r = Inr tasks" for tasks
  proof -
    from run[unfolded that] obtain s1 s2 where *: "tables s1 = tables s" "same_clocks s s1" "body s1 = (Inr tasks, s2)"
      by (rule in_tx_Inr)
    have "stuck T s1" using assms(1) * by (simp add: stuck_def tables_def same_clocks_def)
    from b[OF this *(1,3)] show ?thesis by simp
  qed
  ultimately show ?thesis by blast
qed

lemma worker_stuck:
  assumes "stuck T s" "distinct (map dq_id (discord_queue (snd s)))" "discord_process_once en send n s = (r, s')"
  shows "stuck T s'"
proof -
  let ?claim = "claim_discord_outbox (if n < 1 \<or> 100 < n then 20 else n)"
  obtain x s1 where run: "?claim s = (x, s1)" by (metis surj_pair)
  from claim_stuck[OF assms(1,2) run] assms(3) run show ?thesis
    by (cases x) (auto simp: discord_process_once_def catchM_def Let_def ret_def)
qed

text \<open>A new ticket comes with its channel task.\<close>

lemma create_clocks: "keeps (same_clocks s0) (create_ticket_with_attachments r acc inp files)"
proof -
  have stmt: "keeps (same_clocks s0) (stmt q)" for q :: "db \<times> support_tables \<Rightarrow> (stmt_error + 'a) \<times> db \<times> support_tables"
    by (auto simp: keeps_def stmt_def split: list.splits)
  have tx: "keeps (same_clocks s0) (in_tx conv body)" if body: "keeps (same_clocks s0) body"
    for conv and body :: "(ticket \<times> support_message list) support_op"
  proof (rule keepsI)
    fix s r1 s' assume s: "same_clocks s0 s" and run: "in_tx conv body s = (r1, s')"
    let ?body = "bindM body (\<lambda>x. ret (True, x))"
    have nop: "keeps (same_clocks s0) (map_errM conv stmt_nop)"
      unfolding stmt_nop_def by (intro keeps_intros stmt)
    obtain x0 s1 where n1: "map_errM conv stmt_nop s = (x0, s1)" by (metis surj_pair)
    obtain x1 s2 where b: "?body s1 = (x1, s2)" by (metis surj_pair)
    obtain x2 s3 where n2: "map_errM conv stmt_nop s2 = (x2, s3)" by (metis surj_pair)
    have s1: "same_clocks s0 s1" using keepsD[OF nop s n1] .
    have "keeps (same_clocks s0) ?body" using body by (intro keeps_intros)
    from keepsD[OF this s1 b] have s2: "same_clocks s0 s2" .
    have s3: "same_clocks s0 s3" using keepsD[OF nop s2 n2] .
    show "same_clocks s0 s'"
      using run s1 s2 s3 by (auto simp: in_tx_def in_tx_flag_def n1 b n2 split: sum.splits prod.splits bool.splits)
  qed
  have seal: "keeps (same_clocks s0) (support_seal r p)" for p
    by (auto simp: keeps_def support_seal_def core_def same_clocks_def with_draws_def split: prod.splits sum.splits)
  have rows: "keeps (same_clocks s0) (insert_attachment_rows u k m is)" for u k m "is"
  proof (induction "is")
    case (Cons i "is")
    show ?case unfolding insert_attachment_rows.simps stmt_insert_def by (intro keeps_intros stmt Cons)
  qed (simp add: keeps_ret)
  show ?thesis
    unfolding create_ticket_with_attachments_def insert_ticket_def insert_support_message_def
      insert_support_attachments_def add_ticket_event_def enqueue_discord_channel_def enqueue_discord_def
      enqueue_official_email_def support_enqueue_email_def enqueue_user_notice_def insert_notice_def
      stmt_insert_def stmt_row_def Let_def
    by (intro keeps_intros tx stmt seal rows)
qed

lemma create_stuck:
  assumes "stuck T s" "create_ticket_with_attachments r acc inp files s = (x, s')"
  shows "stuck T s'"
proof (cases x)
  case (Inl e)
  have "same_clocks s s'" using keepsD[OF create_clocks same_clocks_refl assms(2)] .
  moreover have "snd s' = snd s"
    using assms(2) in_tx_Inl unfolding create_ticket_with_attachments_def Inl
    by (auto simp: bindM_Inl_iff Let_def tables_def dest!: in_tx_Inl)
  ultimately show ?thesis using assms(1) by (simp add: stuck_def same_clocks_def)
next
  case (Inr v)
  let ?row = "new_ticket acc (trim_ticket inp) (db_now (fst s)) (w_db (fst s)) (snd s)"
  note * = create_ticket_Inr[OF assms(2)[unfolded Inr]]
  then obtain pl d where q: "discord_queue (snd s') = discord_queue (snd s)
      @ [new_discord (tk_id ?row) None ''create_channel'' pl (db_now (fst s)) d]" by blast
  let ?q = "new_discord (tk_id ?row) None ''create_channel'' pl (db_now (fst s)) d"
  have T: "db_now (fst s) = T" and rows: "stuck_rows T (snd s)" using assms(1) by (simp_all add: stuck_def)
  have new: "waiting_row T ?q" "dq_created ?q = T" "dq_message ?q = None" "dq_ticket ?q = tk_id ?row"
    using T by (simp_all add: new_discord_def waiting_row_def)
  have t: "tickets (snd s') = tickets (snd s) @ [?row]" "posted (snd s') = posted (snd s)" "same_clocks s s'"
    using * by blast+
  from stuck_add[OF rows _ new(1,2)] new(3)
  have old: "stuck_rows T ((snd s)\<lparr>discord_queue := discord_queue (snd s) @ [?q]\<rparr>)" by simp
  have "stuck_rows T (snd s')"
    unfolding stuck_rows_def
  proof (intro conjI allI impI)
    fix i assume "has_ticket (snd s') i"
    then have "has_ticket (snd s) i \<or> i = tk_id ?row" by (auto simp: has_ticket_def t)
    then show "i \<in> channel_rows (discord_queue (snd s'))"
    proof
      assume "has_ticket (snd s) i"
      with rows show ?thesis by (auto simp: stuck_rows_def channel_rows_def q)
    next
      assume "i = tk_id ?row"
      with new(3,4) show ?thesis unfolding channel_rows_def q by (intro image_eqI[of _ _ ?q]) simp_all
    qed
  qed (use old q t in \<open>simp_all add: stuck_rows_def\<close>)
  then show ?thesis using t(3) T by (simp add: stuck_def same_clocks_def)
qed

lemma start_stuck: "snd s = no_tickets \<Longrightarrow> stuck (db_now (fst s)) s"
  by (simp add: stuck_def stuck_rows_def no_tickets_def has_ticket_def)

lemma step_stuck:
  assumes "support_step r send s s'" "support_ok (tables s)" "stuck_rows (db_now (fst s)) (snd s)"
  shows "stuck_rows (db_now (fst s')) (snd s')"
proof -
  have s: "stuck (db_now (fst s)) s" using assms(3) by (simp add: stuck_def)
  have d: "distinct (map dq_id (discord_queue (snd s)))"
    using assms(2) by (simp add: support_ok_def queue_ok_def new_keys_def tables_def)
  have *: "stuck T s' \<Longrightarrow> stuck_rows (db_now (fst s')) (snd s')" for T by (simp add: stuck_def)
  show ?thesis using assms(1)
  proof cases
    case outside
    with assms(3) show ?thesis by (auto intro: stuck_later)
  next
    case (create acc inp files x1)
    then show ?thesis by (intro *[OF create_stuck[OF s]])
  next
    case (worker en n x4)
    then show ?thesis by (intro *[OF worker_stuck[OF s d]])
  qed (rule *[OF keepsD[OF stuck_calls(1) s]] *[OF keepsD[OF stuck_calls(2) s]] *[OF keepsD[OF stuck_calls(3) s]]
      *[OF keepsD[OF stuck_calls(4) s]] *[OF keepsD[OF stuck_apply s]]; assumption)+
qed

lemma reachable_stuck: "support_reachable r send s \<Longrightarrow> stuck_rows (db_now (fst s)) (snd s)"
proof (induction rule: support_reachable.induct)
  case (start s)
  then show ?case using start_stuck[of s] by (simp add: stuck_def)
next
  case (step s s')
  then show ?case by (blast intro: step_stuck support_reachable_ok)
qed

text \<open>
  Property C24. In every state the calls, the worker and the passing of time can lead to, whatever Discord
  would answer, no task has been handed to the Discord sender, and the next claim hands over none
  either: it fails, or finds nothing due. Each ticket's first task carries no message, and a claim
  that meets a task without a message fails as a whole. (Two transactions that begin in the
  same microsecond are taken in the order of their inserts.)
\<close>

theorem discord_never_delivers:
  assumes "support_reachable r send s"
  shows "posted (snd s) = [] \<and> (\<forall>n s'. claim_discord_outbox n s = (Inr tasks, s') \<longrightarrow> tasks = [])"
proof -
  have s: "stuck (db_now (fst s)) s" using reachable_stuck[OF assms] by (simp add: stuck_def)
  have d: "distinct (map dq_id (discord_queue (snd s)))"
    using support_reachable_ok[OF assms] by (simp add: support_ok_def queue_ok_def new_keys_def tables_def)
  from claim_stuck[OF s d] s show ?thesis by (auto simp: stuck_def stuck_rows_def)
qed

end
