(* ===== verification/SupportEnded.thy ===== *)
theory SupportEnded imports SupportDelivery begin

text \<open>
  Ended tickets: no step of the component adds, edits or removes a message of a ticket that is
  closed or marked as spam.
\<close>

section \<open>The messages of one ticket\<close>

definition thread :: "uuid \<Rightarrow> support_tables \<Rightarrow> message_row list" where
  "thread i t = filter (\<lambda>m. sm_ticket m = i) (messages t)"

definition frozen :: "uuid \<Rightarrow> message_row list \<Rightarrow> db \<times> support_tables \<Rightarrow> bool" where
  "frozen i M x \<longleftrightarrow> thread i (snd x) = M"

lemma thread_simps [simp]:
  "thread i (t\<lparr>tickets := a\<rparr>) = thread i t" "thread i (t\<lparr>bridges := b\<rparr>) = thread i t"
  "thread i (t\<lparr>inbound_dedup := c\<rparr>) = thread i t" "thread i (t\<lparr>email_dedup := e\<rparr>) = thread i t"
  "thread i (t\<lparr>ticket_events := f\<rparr>) = thread i t" "thread i (t\<lparr>attachments := g\<rparr>) = thread i t"
  "thread i (t\<lparr>discord_queue := h\<rparr>) = thread i t" "thread i (t\<lparr>posted := p\<rparr>) = thread i t"
  by (simp_all add: thread_def)

lemma thread_update:
  assumes "\<And>m. p m \<Longrightarrow> sm_ticket m \<noteq> i" "\<And>m. sm_ticket (f m) = sm_ticket m"
  shows "thread i (t\<lparr>messages := update_where p f (messages t)\<rparr>) = thread i t"
proof -
  have "filter (\<lambda>m. sm_ticket m = i) (update_where p f ms) = filter (\<lambda>m. sm_ticket m = i) ms" for ms
    using assms by (induction ms) (auto simp: update_where_def)
  then show ?thesis by (simp add: thread_def)
qed

named_theorems frozen_ops \<open>operations that leave the messages of a ticket alone\<close>

lemma frozen_message [frozen_ops]:
  assumes "k \<noteq> i" shows "tables_keep (frozen i M) (insert_support_message k a ty so h b c)"
  using assms unfolding insert_support_message_def Let_def
  by (intro keeps_intros keeps_stmt_insert) (simp add: frozen_def add_row_def thread_def new_message_def)

lemma frozen_revise [frozen_ops]:
  assumes "k \<noteq> i" shows "tables_keep (frozen i M) (revise_message op b n k)"
  using assms unfolding revise_message_def
  by (intro keeps_intros keeps_stmt_insert) (auto simp: frozen_def revise_row_def intro!: thread_update)

lemma frozen_writes [frozen_ops]:
  "tables_keep (frozen i M) (insert_attachment_rows u k m is)"
  "tables_keep (frozen i M) (add_ticket_event k act ty dat)"
  "tables_keep (frozen i M) (enqueue_discord k msg opn pl)"
  "tables_keep (frozen i M) (update_ticket k f)"
  "tables_keep (frozen i M) (support_seal r p)"
  "tables_keep (frozen i M) (support_enqueue_email r acc rc dk sub b)"
  "tables_keep (frozen i M) (insert_notice n dk ti b)"
  "tables_keep (frozen i M) (insert_bridge n x)" "tables_keep (frozen i M) (insert_inbound_dedup x n)"
  "tables_keep (frozen i M) (upsert_bridge n x)"
proof -
  show "tables_keep (frozen i M) (insert_attachment_rows u k m is)"
  proof (induction "is")
    case (Cons j "is")
    show ?case unfolding insert_attachment_rows.simps
      by (intro keeps_intros keeps_stmt_insert Cons) (simp add: add_row_def frozen_def)
  qed (simp add: keeps_ret)
  show seal: "tables_keep (frozen i M) (support_seal r p)" for r p
    unfolding support_seal_def by (rule tables_keep_with_draws)
  show "tables_keep (frozen i M) (support_enqueue_email r acc rc dk sub b)"
    unfolding support_enqueue_email_def by (intro keeps_intros seal keeps_stmt_insert) (simp add: frozen_def)
qed (unfold add_ticket_event_def enqueue_discord_def update_ticket_def insert_notice_def insert_bridge_def
    insert_inbound_dedup_def upsert_bridge_def;
    intro keeps_intros keeps_stmt_insert; simp add: frozen_def add_row_def)+

lemma frozen_mails [frozen_ops]:
  "tables_keep (frozen i M) (enqueue_official_email r tk sf sub b)"
  "tables_keep (frozen i M) (enqueue_user_notice r tk sf ti b acc)"
  "tables_keep (frozen i M) (insert_support_attachments u k m is)"
  "tables_keep (frozen i M) (is_admin_tx j)" "tables_keep (frozen i M) (lock_ticket j)"
  "tables_keep (frozen i M) (get_support_message n)"
  "tables_keep (frozen i M) (enqueue_discord_message k0 msg2 kind)"
  "tables_keep (frozen i M) (enqueue_discord_archive k0)" "tables_keep (frozen i M) (enqueue_discord_reopen k0)"
  unfolding enqueue_official_email_def enqueue_user_notice_def insert_support_attachments_def is_admin_tx_def
    lock_ticket_def get_support_message_def enqueue_discord_message_def enqueue_discord_archive_def
    enqueue_discord_reopen_def
  by (intro keeps_intros frozen_ops)+

section \<open>Calls on other tickets, and calls that write no message\<close>

lemma frozen_status: "tables_keep (frozen i M) (set_ticket_status r acc k st assign adm)"
  unfolding set_ticket_status_def change_status_def after_status_def Let_def
  by (intro keeps_intros frozen_ops)

lemma frozen_worker: "tables_keep (frozen i M) (discord_process_once en send n)"
proof -
  have take: "tables_keep (frozen i M) (take_discord_tasks ts ks)" for ts ks
  proof (induction ks)
    case (Cons k ks)
    show ?case unfolding take_discord_tasks.simps
      by (intro keeps_intros keeps_stmt_write Cons) (simp add: frozen_def)
  qed (simp add: keeps_ret)
  have claim: "tables_keep (frozen i M) (claim_discord_outbox n)" for n
    unfolding claim_discord_outbox_def Let_def by (intro keeps_intros take)
  have sent: "tables_keep (frozen i M) (mark_discord_sent k x)" for k x
    unfolding mark_discord_sent_def discord_effect_def set_sync_def
    by (intro keeps_intros frozen_ops keeps_stmt_write) (simp add: frozen_def)
  have failed: "tables_keep (frozen i M) (mark_discord_failed k msg)" for k msg
    unfolding mark_discord_failed_def Let_def
    by (intro keeps_intros keeps_stmt_insert) (simp add: frozen_def)
  have post: "tables_keep (frozen i M) (post_discord send k)" for k
    by (simp add: keeps_def post_discord_def tables_def frozen_def)
  have "tables_keep (frozen i M) (sync_tasks en send ks old)" for ks old
    by (induction ks arbitrary: old)
      (auto simp: sync_task_def note_discord_failure_def intro!: keeps_intros post sent failed)
  then show ?thesis unfolding discord_process_once_def Let_def by (intro keeps_intros claim)
qed

text \<open>A transaction that locks a ticket and goes on only when it has not ended.\<close>

lemma ended_only:
  assumes "distinct (map tk_id (tickets t))" "\<exists>k \<in> set (tickets t). tk_id k = i \<and> ended k"
    "k' \<in> set (tickets t)" "\<not> ended k'"
  shows "tk_id k' \<noteq> i"
  using assms by (auto simp: distinct_map dest: inj_onD)

lemma frozen_locked:
  assumes run: "in_tx conv (bindM lock rest) s = (r, s')"
    and lock: "\<And>s1 k s2. lock s1 = (Inr k, s2) \<Longrightarrow> k \<in> set (tickets (snd (tables s1))) \<and> tables s2 = tables s1"
    and rest: "\<And>k s1 v s2. rest k s1 = (Inr v, s2) \<Longrightarrow> \<not> ended k" "\<And>k. tk_id k \<noteq> i \<Longrightarrow> tables_keep (frozen i M) (rest k)"
    and once: "distinct (map tk_id (tickets (snd s)))" "\<exists>k \<in> set (tickets (snd s)). tk_id k = i \<and> ended k"
    and start: "frozen i M (tables s)"
  shows "frozen i M (tables s')"
proof (cases r)
  case (Inl e')
  with run in_tx_Inl start show ?thesis by metis
next
  case (Inr v)
  from run[unfolded Inr] obtain s1 s2 where s1: "tables s1 = tables s"
    and b: "bindM lock rest s1 = (Inr v, s2)" and s2: "tables s' = tables s2"
    by (rule in_tx_Inr)
  from b obtain k s3 where l: "lock s1 = (Inr k, s3)" and rs: "rest k s3 = (Inr v, s2)"
    by (elim bindM_InrE)
  have "k \<in> set (tickets (snd s))" and s3: "tables s3 = tables s"
    using lock[OF l] s1 by (simp_all add: tables_def)
  from ended_only[OF once this(1) rest(1)[OF rs]] have "tk_id k \<noteq> i" .
  from keepsD[OF rest(2)[OF this] _ rs] start s2 s3 show ?thesis by simp
qed

lemma frozen_user:
  assumes "add_user_message_with_attachments r acc j b files s = (x, s')"
    and once: "distinct (map tk_id (tickets (snd s)))" "\<exists>k \<in> set (tickets (snd s)). tk_id k = i \<and> ended k"
    and start: "frozen i M (tables s)"
  shows "frozen i M (tables s')"
proof (cases "j = i")
  case False
  then have "tables_keep (frozen i M) (add_user_message_with_attachments r acc j b files)"
    unfolding add_user_message_with_attachments_def Let_def by (intro keeps_intros frozen_ops)
  from keepsD[OF this start assms(1)] show ?thesis .
next
  case True
  have stuck: "\<not> (\<exists>k. lock_ticket j s1 = (Inr k, s2) \<and> \<not> ended k)" if "tables s1 = tables s" for s1 s2
  proof (clarify)
    fix k assume l: "lock_ticket j s1 = (Inr k, s2)" and k: "\<not> ended k"
    from lock_ticket_Inr[OF l] that have "k \<in> set (tickets (snd s))" "tk_id k = i" by (simp_all add: tables_def True)
    with ended_only[OF once _ k] show False by blast
  qed
  have "\<exists>e s2. add_user_message_with_attachments r acc j b files s = (Inl e, s2) \<and> tables s2 = tables s"
    unfolding add_user_message_with_attachments_def Let_def
    by (intro lift_then_fails in_tx_fails refl) (use stuck in \<open>auto split: if_splits\<close>)
  with assms(1) start show ?thesis by auto
qed

lemma frozen_admin:
  assumes "add_admin_message_with_attachments r acc j b files s = (x, s')"
    and once: "distinct (map tk_id (tickets (snd s)))" "\<exists>k \<in> set (tickets (snd s)). tk_id k = i \<and> ended k"
    and start: "frozen i M (tables s)"
  shows "frozen i M (tables s')"
proof (cases "j = i")
  case False
  then have "tables_keep (frozen i M) (add_admin_message_with_attachments r acc j b files)"
    unfolding add_admin_message_with_attachments_def Let_def by (intro keeps_intros frozen_ops)
  from keepsD[OF this start assms(1)] show ?thesis .
next
  case True
  have stuck: "\<not> (\<exists>k. lock_ticket j s1 = (Inr k, s2) \<and> \<not> ended k)" if "tables s1 = tables s" for s1 s2
  proof (clarify)
    fix k assume l: "lock_ticket j s1 = (Inr k, s2)" and k: "\<not> ended k"
    from lock_ticket_Inr[OF l] that have "k \<in> set (tickets (snd s))" "tk_id k = i" by (simp_all add: tables_def True)
    with ended_only[OF once _ k] show False by blast
  qed
  have "\<exists>e s2. add_admin_message_with_attachments r acc j b files s = (Inl e, s2) \<and> tables s2 = tables s"
    unfolding add_admin_message_with_attachments_def Let_def
    by (intro lift_then_fails in_tx_fails refl) (use stuck in \<open>auto split: if_splits dest!: is_admin_tx_Inr\<close>)
  with assms(1) start show ?thesis by auto
qed

text \<open>Inbound messages name their ticket by channel or number.\<close>

lemma frozen_email:
  assumes "apply_email_message r ein key s = (x, s')"
    and once: "distinct (map tk_id (tickets (snd s)))" "\<exists>k \<in> set (tickets (snd s)). tk_id k = i \<and> ended k"
    and start: "frozen i M (tables s)"
  shows "frozen i M (tables s')"
proof -
  have lock: "lock_ticket_by_number n s1 = (Inr k, s2) \<Longrightarrow> k \<in> set (tickets (snd (tables s1))) \<and> tables s2 = tables s1" for n s1 k s2
    unfolding lock_ticket_by_number_def by (auto dest!: stmt_row_Inr find_Some_D)
  show ?thesis
  proof (cases x)
    case (Inl e)
    have "tables s' = tables s"
      using assms(1) unfolding apply_email_message_def Inl Let_def by (auto simp: bindM_Inl_iff dest!: in_tx_Inl)
    with start show ?thesis by simp
  next
    case (Inr m)
    from assms(1)[unfolded apply_email_message_def Inr Let_def] show ?thesis
    proof (elim bindM_InrE, goal_cases)
      case (1 u s1 t s2 n s3)
      then have "s3 = s" by simp
      note run = 1(4)[unfolded this]
      show ?case
      proof (rule frozen_locked[OF run lock _ _ once start], assumption, goal_cases)
        case (2 k)
        then show ?case by (intro keeps_intros frozen_ops keeps_stmt_insert) (simp_all add: frozen_def)
      qed (simp split: if_splits)
    qed
  qed
qed

lemma frozen_discord:
  assumes "apply_discord_message r inp key s = (x, s')"
    and once: "distinct (map tk_id (tickets (snd s)))" "\<exists>k \<in> set (tickets (snd s)). tk_id k = i \<and> ended k"
    and start: "frozen i M (tables s)"
  shows "frozen i M (tables s')"
proof -
  have lock: "lock_ticket_by_channel c s1 = (Inr k, s2) \<Longrightarrow> k \<in> set (tickets (snd (tables s1))) \<and> tables s2 = tables s1" for c s1 k s2
    unfolding lock_ticket_by_channel_def by (auto dest!: stmt_row_Inr find_Some_D)
  have create: "tables_keep (frozen i M) (apply_discord_create r k y a b c key)" if "tk_id k \<noteq> i" for k y a b c
    using that unfolding apply_discord_create_def by (intro keeps_intros frozen_ops)
  have revise: "tables_keep (frozen i M) (apply_discord_revision r k op y b)" if "tk_id k \<noteq> i" for k op y b
    using that unfolding apply_discord_revision_def
    by (intro keeps_intros frozen_ops keeps_stmt_write) (auto simp: frozen_def)
  show ?thesis
  proof (cases x)
    case (Inl e)
    have "tables s' = tables s"
      using assms(1) unfolding apply_discord_message_def Inl Let_def by (auto simp: bindM_Inl_iff dest!: in_tx_Inl)
    with start show ?thesis by simp
  next
    case (Inr m)
    from assms(1)[unfolded apply_discord_message_def Inr Let_def] show ?thesis
    proof (elim bindM_InrE, goal_cases)
      case (1 u s1 t s2)
      then have "s2 = s" by simp
      note run = 1(3)[unfolded this]
      show ?case
      proof (rule frozen_locked[OF run lock _ _ once start], assumption)
        fix k :: ticket_row assume "tk_id k \<noteq> i"
        then show "tables_keep (frozen i M) (if ended k then fail SupConflict
         else case x_operation inp of None \<Rightarrow> fail SupInvalidDiscordData
              | Some OpCreate \<Rightarrow> apply_discord_create r k (trim_space (x_id inp)) (trim_space (x_author inp))
                  (trim_space (x_body inp)) (case x_created inp of None \<Rightarrow> t | Some c \<Rightarrow> c) key
              | Some OpEdit \<Rightarrow> apply_discord_revision r k OpEdit (trim_space (x_id inp)) (trim_space (x_body inp))
              | Some OpDelete \<Rightarrow> apply_discord_revision r k OpDelete (trim_space (x_id inp)) (trim_space (x_body inp)))"
          by (cases "x_operation inp"; cases "the (x_operation inp)") (auto intro!: keeps_intros create revise)
      qed (auto split: if_splits)
    qed
  qed
qed

lemma frozen_create:
  assumes "create_ticket_with_attachments r acc inp files s = (x, s')" "frozen i M (tables s)" "i < next_id (w_db (fst s))"
  shows "frozen i M (tables s')"
proof (cases x)
  case (Inl e)
  then have "tables s' = tables s"
    using assms(1) unfolding create_ticket_with_attachments_def by (auto simp: bindM_Inl_iff Let_def dest!: in_tx_Inl)
  with assms(2) show ?thesis by simp
next
  case (Inr v)
  from create_ticket_Inr[OF assms(1)[unfolded Inr]] obtain m where
    "messages (snd s') = messages (snd s) @ [m]" "sm_ticket m = next_id (w_db (fst s))"
    by (auto simp: new_ticket_def)
  with assms(2,3) show ?thesis by (simp add: frozen_def thread_def tables_def)
qed

text \<open>
  Property C25. In a state where the invariant holds - as it does in every reachable one - a ticket that is
  closed or marked as spam takes nothing more: no call of a user or an
  administrator, no message from Discord, no e-mail and no pass of the worker adds, edits or
  removes one of its messages.
\<close>

theorem ended_tickets_frozen:
  assumes "support_ok (tables s)" "support_step r send s s'"
    and "k \<in> set (tickets (snd s))" "tk_status k \<in> {''closed'', ''spam''}"
  shows "filter (\<lambda>m. sm_ticket m = tk_id k) (messages (snd s')) = filter (\<lambda>m. sm_ticket m = tk_id k) (messages (snd s))"
proof -
  let ?P = "frozen (tk_id k) (thread (tk_id k) (snd s))"
  note ok = assms(1)
  have once: "distinct (map tk_id (tickets (snd s)))"
    using ok by (simp add: support_ok_def tickets_ok_def new_keys_def tables_def)
  have new: "tk_id k < next_id (w_db (fst s))"
    using ok assms(3) by (simp add: support_ok_def tickets_ok_def new_keys_def tables_def list_all_iff)
  have ex: "\<exists>x \<in> set (tickets (snd s)). tk_id x = tk_id k \<and> ended x"
    using assms(3,4) by (auto simp: ended_def)
  have start: "?P (tables s)" by (simp add: frozen_def tables_def)
  have "?P (tables s')"
    using assms(2)
  proof cases
    case create then show ?thesis using frozen_create[OF _ start new] by blast
  next
    case user then show ?thesis using frozen_user[OF _ once ex start] by blast
  next
    case admin then show ?thesis using frozen_admin[OF _ once ex start] by blast
  next
    case status then show ?thesis using keepsD[OF frozen_status start] by blast
  next
    case discord then show ?thesis using frozen_discord[OF _ once ex start] by blast
  next
    case email then show ?thesis using frozen_email[OF _ once ex start] by blast
  next
    case worker then show ?thesis using keepsD[OF frozen_worker start] by blast
  next
    case outside then show ?thesis using start by (simp add: frozen_def tables_def)
  qed
  then show ?thesis by (simp add: frozen_def thread_def tables_def)
qed

section \<open>Messages that Discord delivers twice\<close>

text \<open>
  A message that Discord delivers again - its id is linked to a stored message already - is
  not stored again: the tables stay as they are, and the answer, if there is one, is the stored message.
\<close>

theorem discord_redelivery:
  assumes "apply_discord_message r inp key s = (res, s')" "x_operation inp = Some OpCreate"
    and "find_bridge (snd s) (trim_space (x_id inp)) = Some i"
  shows "tables s' = tables s \<and> (\<forall>m. res = Inr m \<longrightarrow> m \<in> message_of ` {x \<in> set (messages (snd s)). sm_id x = i})"
proof (cases res)
  case (Inl e)
  then have "tables s' = tables s"
    using assms(1) unfolding apply_discord_message_def Let_def by (auto simp: bindM_Inl_iff dest!: in_tx_Inl)
  with Inl show ?thesis by simp
next
  case (Inr m)
  from assms(1)[unfolded apply_discord_message_def Inr Let_def] show ?thesis
  proof (elim bindM_InrE, goal_cases)
    case (1 u s1 t s2)
    then have s2: "s2 = s" by simp
    from 1(3)[unfolded s2] obtain s3 s4 where s3: "tables s3 = tables s" and s4: "tables s' = tables s4" and
      run: "bindM (lock_ticket_by_channel (trim_space (x_channel inp))) (\<lambda>k.
       if ended k then fail SupConflict
       else (case x_operation inp of
               Some OpCreate \<Rightarrow> apply_discord_create r k (trim_space (x_id inp)) (trim_space (x_author inp))
                 (trim_space (x_body inp)) (case x_created inp of None \<Rightarrow> t | Some c \<Rightarrow> c) key
             | Some op \<Rightarrow> apply_discord_revision r k op (trim_space (x_id inp)) (trim_space (x_body inp))
             | None \<Rightarrow> fail SupInvalidDiscordData)) s3 = (Inr m, s4)"
      by (rule in_tx_Inr)
    from run obtain k s5 where l: "lock_ticket_by_channel (trim_space (x_channel inp)) s3 = (Inr k, s5)"
      and c: "apply_discord_create r k (trim_space (x_id inp)) (trim_space (x_author inp))
                 (trim_space (x_body inp)) (case x_created inp of None \<Rightarrow> t | Some c \<Rightarrow> c) key s5 = (Inr m, s4)"
      using assms(2) by (elim bindM_InrE) (simp split: if_splits)
    have s5: "tables s5 = tables s"
      using l s3 unfolding lock_ticket_by_channel_def by (auto dest!: stmt_row_Inr)
    have b: "find_bridge (snd (tables s5)) (trim_space (x_id inp)) = Some i" using assms(3) s5 by (simp add: tables_def)
    obtain y s6 where q: "stmt_row (\<lambda>d t. find_bridge t (trim_space (x_id inp))) s5 = (y, s6)" by (metis surj_pair)
    show ?case
    proof (cases y)
      case (Inl e)
      have "e \<noteq> SNoRows" using q[unfolded Inl] b
        by (auto simp: stmt_row_def stmt_def split: list.splits if_splits option.splits)
      with c q Inl show ?thesis by (simp add: apply_discord_create_def catchM_def)
    next
      case yi: (Inr j)
      from stmt_row_Inr[OF q[unfolded yi]] b have j: "j = i" "tables s6 = tables s" using s5 by simp_all
      with c q yi have "get_support_message i s6 = (Inr m, s4)" by (simp add: apply_discord_create_def catchM_def)
      then have "tables s4 = tables s6 \<and> map_option message_of (List.find (\<lambda>m. sm_id m = i) (messages (snd (tables s6)))) = Some m"
        unfolding get_support_message_def by (auto dest!: stmt_row_Inr)
      with j s4 Inr show ?thesis by (auto simp: tables_def dest!: find_Some_D)
    qed
  qed
qed

end
