(* ===== verification/SupportProperties.thy ===== *)
theory SupportProperties imports SupportEnded ToyRun begin

text \<open>
  What support promises: consistent tables in every state, tickets that only their owner and the
  administrators reach, ended tickets that take no message, inbound messages that are applied
  once, and what a change of status does.
\<close>

section \<open>A ticket of a concrete account\<close>

definition support_demo :: support_repo where
  "support_demo = \<lparr>sp_env = toy_env, sp_cipher = toy_ring, sp_email = ''h@a'',
     sp_base_url = [], sp_json = (\<lambda>s b. s @ b), sp_text = (\<lambda>t. ''x'')\<rparr>"

definition support_world :: "support_tables state" where
  "support_world = (demo_world\<lparr>w_db := empty_db\<lparr>accounts := [toy_account\<lparr>a_email_ct := ''ct'', a_email_hash := ''h'', a_password := ''p''\<rparr>],
     next_id := 2\<rparr>\<rparr>, no_tickets)"

definition demo_input :: create_ticket_input where
  "demo_input = \<lparr>ct_category = ''other'', ct_subject = ''s'', ct_body = ''q''\<rparr>"

text \<open>One ticket written down, and the one the account opens.\<close>

definition demo_row :: ticket_row where
  "demo_row = \<lparr>tk_id = 2, tk_number = 1, tk_account = Some 1, tk_requester_ct = None, tk_category = ''other'',
     tk_subject = ''s'', tk_status = ''open'', tk_assigned = None, tk_channel = Some ''c'', tk_sync = ''pending'',
     tk_latest = 0, tk_closed = None, tk_created = 0, tk_updated = 0\<rparr>"

definition demo_state :: "support_tables state" where
  "demo_state = (fst support_world, no_tickets\<lparr>tickets := [demo_row]\<rparr>)"

definition demo_opened :: "support_tables state" where
  "demo_opened = snd (create_ticket support_demo 1 demo_input support_world)"

lemma demo_created:
  "map_sum id (map_prod tv_id (map mv_body)) (fst (create_ticket support_demo 1 demo_input support_world))
     = Inr (2, [''q''])"
  by code_simp

lemma demo_reachable: "support_reachable support_demo send demo_opened"
proof -
  have "support_reachable support_demo send support_world"
    by (rule support_reachable.start) (simp add: support_world_def)
  moreover have "support_step support_demo send support_world demo_opened"
    by (rule support_step.create[of _ 1 demo_input "[]" _ "fst (create_ticket support_demo 1 demo_input support_world)"])
      (simp add: demo_opened_def create_ticket_def)
  ultimately show ?thesis by (rule support_reachable.step)
qed

text \<open>
  Property C20. Opening a ticket that succeeds adds one row with the next number and waiting for the staff,
  one message with the trimmed text of the account, and one task that asks for a Discord channel.
\<close>

theorem create_ticket_effect:
  assumes "create_ticket_with_attachments r acc inp files s = (Inr v, s')"
  shows "(\<exists>k. tickets (snd s') = tickets (snd s) @ [k] \<and> fst v = ticket_of k \<and> tk_id k = next_id (w_db (fst s))
       \<and> tk_number k = next_number (snd s) \<and> tk_account k = Some acc \<and> tk_status k = ''waiting_staff''
       \<and> tk_subject k = trim_space (ct_subject inp) \<and> tk_category k = trim_space (ct_category inp))
    \<and> (\<exists>m. messages (snd s') = messages (snd s) @ [m] \<and> sm_ticket m = next_id (w_db (fst s))
       \<and> sm_author m = Some acc \<and> sm_body m = trim_space (ct_body inp))
    \<and> (\<exists>q. discord_queue (snd s') = discord_queue (snd s) @ [q] \<and> dq_ticket q = next_id (w_db (fst s))
       \<and> dq_operation q = ''create_channel'' \<and> dq_message q = None)"
  using create_ticket_Inr[OF assms] by (auto simp: new_ticket_def trim_ticket_def new_discord_def)

theorem create_ticket_effect_witness:
  "\<exists>v. create_ticket support_demo 1 demo_input support_world = (Inr v, demo_opened)
    \<and> map tk_id (tickets (snd demo_opened)) = [2] \<and> map sm_ticket (messages (snd demo_opened)) = [2]"
proof -
  let ?run = "create_ticket support_demo 1 demo_input support_world"
  obtain v where run: "?run = (Inr v, demo_opened)"
    using demo_created unfolding demo_opened_def by (cases ?run; cases "fst ?run") auto
  have "next_id (w_db (fst support_world)) = 2" "tickets (snd support_world) = []" "messages (snd support_world) = []"
    by (simp_all add: support_world_def no_tickets_def)
  with run create_ticket_effect[OF run[unfolded create_ticket_def]] show ?thesis by auto
qed

lemma demo_opened_rows: "tk_id ` set (tickets (snd demo_opened)) = {2}" "sm_ticket ` set (messages (snd demo_opened)) = {2}"
proof -
  let ?run = "create_ticket support_demo 1 demo_input support_world"
  obtain v where run: "?run = (Inr v, demo_opened)"
    using demo_created unfolding demo_opened_def by (cases ?run; cases "fst ?run") auto
  have "next_id (w_db (fst support_world)) = 2" "tickets (snd support_world) = []" "messages (snd support_world) = []"
    by (simp_all add: support_world_def no_tickets_def)
  with create_ticket_Inr[OF run[unfolded create_ticket_def]]
  show "tk_id ` set (tickets (snd demo_opened)) = {2}" "sm_ticket ` set (messages (snd demo_opened)) = {2}"
    by (auto simp: new_ticket_def)
qed

section \<open>Consistent tables\<close>

lemma has_iff: "has_ticket t i \<longleftrightarrow> i \<in> tk_id ` set (tickets t)" "has_message t i \<longleftrightarrow> i \<in> sm_id ` set (messages t)"
  by (auto simp: has_ticket_def has_message_def list_ex_iff)

text \<open>
  Property C21. Whatever is called, in whatever order and whatever fails: tickets have their own ids and
  numbers and are closed exactly when they have a closing time; messages, attachments, links to
  Discord and queued tasks belong to existing tickets and messages; a Discord message and an
  e-mail are taken in at most once, an attachment file belongs to one message, and no stored
  attachment exceeds the limit.
\<close>

theorem support_invariant:
  assumes "support_reachable r send s"
  shows "distinct (map tk_id (tickets (snd s))) \<and> distinct (map tk_number (tickets (snd s)))
    \<and> (\<forall>k \<in> set (tickets (snd s)). (tk_status k = ''closed'' \<longleftrightarrow> tk_closed k \<noteq> None)
         \<and> tk_status k \<in> {''open'', ''waiting_staff'', ''waiting_user'', ''closed'', ''spam''})
    \<and> distinct (map sm_id (messages (snd s)))
    \<and> sm_ticket ` set (messages (snd s)) \<subseteq> tk_id ` set (tickets (snd s))
    \<and> sa_message ` set (attachments (snd s)) \<subseteq> sm_id ` set (messages (snd s))
    \<and> distinct (map sa_key (attachments (snd s)))
    \<and> (\<forall>a \<in> set (attachments (snd s)). 0 < sa_size a \<and> sa_size a \<le> 10485760)
    \<and> distinct (map sb_external (bridges (snd s))) \<and> distinct (map sb_message (bridges (snd s)))
    \<and> sb_message ` set (bridges (snd s)) \<subseteq> sm_id ` set (messages (snd s))
    \<and> distinct (map fst (email_dedup (snd s)))
    \<and> dq_ticket ` set (discord_queue (snd s)) \<subseteq> tk_id ` set (tickets (snd s))
    \<and> (\<forall>q \<in> set (discord_queue (snd s)). message_operation (dq_operation q) \<longleftrightarrow> dq_message q \<noteq> None)"
  using support_reachable_ok[OF assms]
  by (simp add: support_ok_defs tables_def new_keys_def list_all_iff has_iff ticket_ok_def known_status_def
      ticket_statuses_def image_subset_iff) blast

theorem support_invariant_witness:
  "tk_id ` set (tickets (snd demo_opened)) = {2} \<and> sm_ticket ` set (messages (snd demo_opened)) = {2}
    \<and> sm_ticket ` set (messages (snd demo_opened)) \<subseteq> tk_id ` set (tickets (snd demo_opened))"
proof -
  have "sm_ticket ` set (messages (snd demo_opened)) \<subseteq> tk_id ` set (tickets (snd demo_opened))"
    using support_invariant[OF demo_reachable[of "\<lambda>_ _. Inl []"]] by (elim conjE)
  with demo_opened_rows show ?thesis by (intro conjI)
qed

section \<open>Other accounts' tickets\<close>

text \<open>
  Property C22. A ticket of another account is out of reach: reading it, reading one of its
  attachments, writing to it and changing its status all fail, whatever the input, and change
  nothing.
\<close>

theorem support_isolation:
  assumes "\<forall>k \<in> set (tickets (snd s)). tk_id k = i \<longrightarrow> tk_account k \<noteq> Some acc"
  shows "(\<exists>e s'. get_ticket r (Some acc) i s = (Inl e, s') \<and> tables s' = tables s)
    \<and> (\<exists>e s'. get_attachment (Some acc) i a s = (Inl e, s') \<and> tables s' = tables s)
    \<and> (\<exists>e s'. add_user_message_with_attachments r acc i body files s = (Inl e, s') \<and> tables s' = tables s)
    \<and> (\<exists>e s'. set_ticket_status r acc i st assign False s = (Inl e, s') \<and> tables s' = tables s)"
proof (intro conjI)
  have none: "List.find (\<lambda>k. tk_id k = i \<and> (Some acc = None \<or> tk_account k = Some acc)) (tickets (snd s)) = None"
    using assms by (auto simp: find_None_iff)
  show "\<exists>e s'. get_ticket r (Some acc) i s = (Inl e, s') \<and> tables s' = tables s"
    unfolding get_ticket_def
    by (intro bind_fails map_err_fails stmt_row_not_found) (simp only: none option.map)
  have "\<not> list_ex (\<lambda>k. tk_id k = i \<and> (Some acc = None \<or> tk_account k = Some acc)) (tickets (snd s))"
    using assms by (auto simp: list_ex_iff)
  then have "List.find (\<lambda>x. sa_id x = a \<and> sa_ticket x = i
      \<and> list_ex (\<lambda>k. tk_id k = i \<and> (Some acc = None \<or> tk_account k = Some acc)) (tickets (snd s))) (attachments (snd s)) = None"
    by (auto simp: find_None_iff)
  then show "\<exists>e s'. get_attachment (Some acc) i a s = (Inl e, s') \<and> tables s' = tables s"
    unfolding get_attachment_def by (intro map_err_fails stmt_row_not_found) simp
  have other: "tk_account k \<noteq> Some acc" if "lock_ticket i s1 = (Inr k, s2)" "tables s1 = tables s" for k s1 s2
    using lock_ticket_Inr[OF that(1)] that(2) assms by (auto simp: tables_def)
  show "\<exists>e s'. add_user_message_with_attachments r acc i body files s = (Inl e, s') \<and> tables s' = tables s"
    unfolding add_user_message_with_attachments_def Let_def
    by (intro lift_then_fails in_tx_fails refl) (auto dest: other)
  show "\<exists>e s'. set_ticket_status r acc i st assign False s = (Inl e, s') \<and> tables s' = tables s"
    unfolding set_ticket_status_def
    by (intro lift_then_fails in_tx_flag_fails refl) (auto dest: other)
qed

theorem support_isolation_witness:
  "\<exists>e s'. get_ticket support_demo (Some 7) 2 demo_state = (Inl e, s') \<and> tables s' = tables demo_state"
proof -
  have "\<forall>k \<in> set (tickets (snd demo_state)). tk_id k = 2 \<longrightarrow> tk_account k \<noteq> Some 7"
    by (simp add: demo_state_def demo_row_def)
  from support_isolation[OF this] show ?thesis by blast
qed

section \<open>What a change of status does\<close>

text \<open>Events, outboxes and notices leave tickets and messages alone.\<close>

definition framed :: "ticket_row list \<Rightarrow> message_row list \<Rightarrow> db \<times> support_tables \<Rightarrow> bool" where
  "framed T M x \<longleftrightarrow> tickets (snd x) = T \<and> messages (snd x) = M"

lemma framed_writes:
  "tables_keep (framed T M) (add_ticket_event k act ty dat)"
  "tables_keep (framed T M) (enqueue_discord k msg opn pl)"
  "tables_keep (framed T M) (support_seal r p)"
  "tables_keep (framed T M) (support_enqueue_email r acc rc dk sub b)"
  "tables_keep (framed T M) (insert_notice n dk ti b)"
proof -
  show "tables_keep (framed T M) (add_ticket_event k act ty dat)"
    unfolding add_ticket_event_def by (intro keeps_intros keeps_stmt_insert) (simp add: framed_def)
  show "tables_keep (framed T M) (enqueue_discord k msg opn pl)"
    unfolding enqueue_discord_def by (intro keeps_intros keeps_stmt_insert) (simp add: framed_def add_row_def)
  show seal: "tables_keep (framed T M) (support_seal r p)" for r p
    unfolding support_seal_def by (rule tables_keep_with_draws)
  show "tables_keep (framed T M) (support_enqueue_email r acc rc dk sub b)"
    unfolding support_enqueue_email_def by (intro keeps_intros seal keeps_stmt_insert) (simp add: framed_def)
  show "tables_keep (framed T M) (insert_notice n dk ti b)"
    unfolding insert_notice_def by (intro keeps_intros keeps_stmt_insert) (simp add: framed_def)
qed

lemma framed_mails:
  "tables_keep (framed T M) (enqueue_official_email r tk sf sub b)"
  "tables_keep (framed T M) (enqueue_user_notice r tk sf ti b acc)"
  "tables_keep (framed T M) (after_status r k st adm tk)"
  unfolding enqueue_official_email_def enqueue_user_notice_def after_status_def
    enqueue_discord_archive_def enqueue_discord_reopen_def
  by (intro keeps_intros framed_writes)+

lemma framed_admin: "tables_keep (framed T M) (is_admin_tx i)"
  unfolding is_admin_tx_def by (intro keeps_intros)

lemma update_ticket_Inr:
  "update_ticket i f s = (Inr u, s') \<Longrightarrow> tables s' = (fst (tables s), (snd (tables s))\<lparr>tickets :=
     update_where (\<lambda>r. tk_id r = i) (\<lambda>r. (f (db_now (fst s)) r)\<lparr>tk_updated := db_now (fst s)\<rparr>)
       (tickets (snd (tables s)))\<rparr>) \<and> same_clocks s s'"
  unfolding update_ticket_def by (auto dest!: stmt_insert_Inr split: prod.splits)

lemma assign_Inr:
  assumes "(case assign of None \<Rightarrow> ret True | Some a \<Rightarrow> is_admin_tx a) s = (Inr b, s')"
  shows "tables s' = tables s \<and> same_clocks s s'"
  using assms by (cases assign) (auto dest: is_admin_tx_Inr)

definition status_row :: "string \<Rightarrow> uuid option \<Rightarrow> bool \<Rightarrow> time \<Rightarrow> ticket_row \<Rightarrow> ticket_row" where
  "status_row st assign admin ts x = (status_update st assign admin ts x)\<lparr>tk_updated := ts\<rparr>"

lemma change_status_Inr:
  assumes "change_status r actor i k st assign admin s = (Inr v, s')"
  shows "fst v \<and> framed (update_where (\<lambda>x. tk_id x = i) (status_row st assign admin (db_now (fst s)))
      (tickets (snd (tables s)))) (messages (snd (tables s))) (tables s')"
proof -
  from assms obtain can s1 where as: "(case assign of None \<Rightarrow> ret True | Some a \<Rightarrow> is_admin_tx a) s = (Inr can, s1)"
    and r1: "(if \<not> can then fail SupForbidden else
       bindM (map_errM raw_error (update_ticket i (status_update st assign admin))) (\<lambda>_.
       bindM (add_ticket_event i (Some actor) ''status_changed''
              [(''from'', tk_status k), (''to'', st)]) (\<lambda>_.
       bindM clock (\<lambda>t.
       let updated0 = (ticket_of k)\<lparr>tv_status := st\<rparr>;
           updated = (if st = ''closed'' then updated0\<lparr>tv_closed := Some t\<rparr> else updated0)
       in bindM (after_status r k st admin updated) (\<lambda>_. ret (True, updated)))))) s1 = (Inr v, s')"
    unfolding change_status_def by (elim bindM_InrE)
  from r1 obtain u s2 u' s3 t s4 where
    up: "map_errM raw_error (update_ticket i (status_update st assign admin)) s1 = (Inr u, s2)"
    and ev: "add_ticket_event i (Some actor) ''status_changed'' [(''from'', tk_status k), (''to'', st)] s2 = (Inr u', s3)"
    and cl: "(clock :: time support_op) s3 = (Inr t, s4)"
    and r2: "(let updated0 = (ticket_of k)\<lparr>tv_status := st\<rparr>;
           updated = (if st = ''closed'' then updated0\<lparr>tv_closed := Some t\<rparr> else updated0)
       in bindM (after_status r k st admin updated) (\<lambda>_. ret (True, updated))) s4 = (Inr v, s')"
    by (elim if_failE bindM_InrE) (rule that; assumption)
  from cl r2 obtain w w' where af: "after_status r k st admin w s3 = (Inr w', s')" and v: "fst v"
    by (auto simp: Let_def readM_def)
  note s1 = assign_Inr[OF as]
  have "db_now (fst s1) = db_now (fst s)" using s1 by (simp add: same_clocks_def)
  with s1 up[unfolded map_errM_Inr_iff, THEN update_ticket_Inr]
  have "framed (update_where (\<lambda>x. tk_id x = i) (status_row st assign admin (db_now (fst s)))
      (tickets (snd (tables s)))) (messages (snd (tables s))) (tables s2)"
    by (simp add: framed_def status_row_def[abs_def])
  from keepsD[OF framed_mails(3) keepsD[OF framed_writes(1) this ev] af] v show ?thesis by simp
qed

text \<open>
  Property C23. A change of status that succeeds was asked for by the owner - to close the ticket, or
  to hand it back to the staff, and never for a ticket marked as spam - or by an administrator.
  It changes this ticket's row alone, and no message; closing keeps the first closing time and
  the assignee, whoever was to be assigned.
\<close>

theorem set_status_effect:
  assumes "set_ticket_status r actor i st assign admin s = (Inr v, s')"
  shows "\<exists>k \<in> set (tickets (snd s)). tk_id k = i
    \<and> (if admin then (actor, ''admin'') \<in> set (roles (w_db (fst s)))
       else tk_account k = Some actor \<and> tk_status k \<noteq> ''spam'' \<and> st \<in> {''waiting_staff'', ''closed''})
    \<and> messages (snd s') = messages (snd s)
    \<and> (tickets (snd s') = tickets (snd s) \<and> \<not> admin \<and> st = ''closed'' \<and> tk_status k = ''closed''
       \<or> tickets (snd s') = update_where (\<lambda>x. tk_id x = i)
           (\<lambda>x. (if st = ''closed'' then x\<lparr>tk_status := ''closed'', tk_latest := db_now (fst s),
                     tk_closed := coalesce (tk_closed x) (db_now (fst s)), tk_updated := db_now (fst s)\<rparr>
                 else x\<lparr>tk_status := st, tk_latest := db_now (fst s), tk_closed := None,
                     tk_updated := db_now (fst s),
                     tk_assigned := (if admin \<and> assign \<noteq> None then assign else tk_assigned x)\<rparr>))
           (tickets (snd s)))"
proof -
  have row: "status_row st assign admin ts x = (if st = ''closed'' then x\<lparr>tk_status := ''closed'', tk_latest := ts,
                     tk_closed := coalesce (tk_closed x) ts, tk_updated := ts\<rparr>
                 else x\<lparr>tk_status := st, tk_latest := ts, tk_closed := None, tk_updated := ts,
                     tk_assigned := (if admin \<and> assign \<noteq> None then assign else tk_assigned x)\<rparr>)" for ts x
    by (cases x) (auto simp: status_row_def status_update_def close_row_def reopen_row_def Let_def split: option.split)
  define body where "body =
     bindM (if admin then is_admin_tx actor else ret True) (\<lambda>ok.
       if \<not> ok then fail SupAdminRequired else
       bindM (lock_ticket i) (\<lambda>k.
       if \<not> admin \<and> tk_account k \<noteq> Some actor then fail SupForbidden
       else if \<not> admin \<and> tk_status k = ''spam'' then fail SupConflict
       else if \<not> admin \<and> st = ''closed'' \<and> tk_status k = ''closed'' then ret (False, ticket_of k)
       else change_status r actor i k st assign admin))"
  from assms obtain u s0 where valid: "validate_status st admin = Inr u" "s0 = s"
    and run: "in_tx_flag raw_error body s = (Inr v, s')"
    unfolding set_ticket_status_def body_def by auto
  have own: "\<not> admin \<Longrightarrow> st \<in> {''waiting_staff'', ''closed''}"
    using valid by (auto simp: validate_status_def parse_status_def ticket_statuses_def split: if_splits)
  have inner: "\<exists>k \<in> set (tickets (snd s)). tk_id k = i
      \<and> (if admin then (actor, ''admin'') \<in> set (roles (w_db (fst s))) else tk_account k = Some actor \<and> tk_status k \<noteq> ''spam'')
      \<and> (\<not> c \<longrightarrow> \<not> admin \<and> st = ''closed'' \<and> tk_status k = ''closed'')
      \<and> (c \<longrightarrow> framed (update_where (\<lambda>x. tk_id x = i) (status_row st assign admin (db_now (fst s)))
             (tickets (snd s))) (messages (snd s)) (tables s2))"
    if "body s1 = (Inr (c, v), s2)" "tables s1 = tables s" "same_clocks s s1" for s1 c s2
  proof -
    from that(1) obtain ok s3 k s4 where
      a: "(if admin then is_admin_tx actor else ret True) s1 = (Inr ok, s3)" and "ok"
      and l: "lock_ticket i s3 = (Inr k, s4)"
      and rest: "(if \<not> admin \<and> tk_account k \<noteq> Some actor then fail SupForbidden
       else if \<not> admin \<and> tk_status k = ''spam'' then fail SupConflict
       else if \<not> admin \<and> st = ''closed'' \<and> tk_status k = ''closed'' then ret (False, ticket_of k)
       else change_status r actor i k st assign admin) s4 = (Inr (c, v), s2)"
      unfolding body_def by (elim if_failE bindM_InrE) simp
    have s3: "tables s3 = tables s1" "same_clocks s1 s3"
      "admin \<longrightarrow> (actor, ''admin'') \<in> set (roles (fst (tables s1)))"
      using a \<open>ok\<close> by (auto split: if_splits dest!: is_admin_tx_Inr)
    from lock_ticket_Inr[OF l] s3 that(2,3) have k: "k \<in> set (tickets (snd s))" "tk_id k = i"
      and s4: "tables s4 = tables s" "same_clocks s s4"
      by (auto simp: tables_def intro: same_clocks_trans)
    have g: "if admin then (actor, ''admin'') \<in> set (roles (w_db (fst s)))
       else tk_account k = Some actor \<and> tk_status k \<noteq> ''spam''"
      using rest s3(3) that(2) by (cases admin) (simp_all add: tables_def split: if_splits)
    show ?thesis
    proof (cases "\<not> admin \<and> st = ''closed'' \<and> tk_status k = ''closed''")
      case True
      with rest g k show ?thesis by (intro bexI[of _ k]) (simp_all split: if_splits)
    next
      case False
      then have "change_status r actor i k st assign admin s4 = (Inr (c, v), s2)"
        using rest g by (cases admin) (simp_all split: if_splits)
      from change_status_Inr[OF this] s4 have "c \<and> framed (update_where (\<lambda>x. tk_id x = i)
          (status_row st assign admin (db_now (fst s))) (tickets (snd s))) (messages (snd s)) (tables s2)"
        by (simp add: same_clocks_def tables_def)
      with k g False show ?thesis by blast
    qed
  qed
  from run show ?thesis
  proof (cases rule: in_tx_flag_Inr)
    case (1 s1 s2)
    from inner[OF 1(3) 1(1,2)] 1(4) own show ?thesis
      by (auto simp: framed_def row[abs_def] tables_def)
  next
    case (2 s1 s2)
    from inner[OF 2(3) 2(1,2)] 2(4) own show ?thesis
      by (auto simp: tables_def)
  qed
qed

lemma demo_closed:
  "map_sum id tv_status (fst (set_ticket_status support_demo 1 2 ''closed'' None False demo_state)) = Inr ''closed''"
  by code_simp

theorem set_status_effect_witness:
  "\<exists>v s'. set_ticket_status support_demo 1 2 ''closed'' None False demo_state = (Inr v, s')
    \<and> map tk_status (tickets (snd s')) = [''closed''] \<and> messages (snd s') = []"
proof -
  let ?run = "set_ticket_status support_demo 1 2 ''closed'' None False demo_state"
  obtain v s' where run: "?run = (Inr v, s')"
    using demo_closed by (cases ?run; cases "fst ?run") auto
  from set_status_effect[OF run] have closed: "map tk_status (tickets (snd s')) = [''closed''] \<and> messages (snd s') = []"
    by (auto simp: demo_state_def demo_row_def no_tickets_def update_where_def)
  show ?thesis by (rule exI, rule exI, rule conjI[OF run closed])
qed

section \<open>Witnesses\<close>

theorem discord_never_delivers_witness:
  "posted (snd demo_opened) = [] \<and> tk_id ` set (tickets (snd demo_opened)) = {2}"
  using discord_never_delivers[OF demo_reachable[of "\<lambda>_ _. Inr ''id''"], of "[]"] demo_opened_rows by simp

text \<open>A world with a closed ticket is reached by closing the opened one.\<close>

definition demo_done :: "support_tables state" where
  "demo_done = (fst support_world, no_tickets\<lparr>tickets := [demo_row],
     messages := [\<lparr>sm_id = 3, sm_ticket = 2, sm_author = None, sm_author_type = ''admin'', sm_source = ''discord'',
        sm_author_hash = None, sm_body = ''a'', sm_status = ''active'', sm_created = 0, sm_edited = None, sm_deleted = None\<rparr>],
     bridges := [\<lparr>sb_message = 3, sb_external = ''x1'', sb_status = ''sent'', sb_synced = None\<rparr>]\<rparr>)"

definition demo_delivery :: external_message where
  "demo_delivery = \<lparr>x_channel = ''c'', x_id = ''x1'', x_author = ''u'', x_body = ''a'', x_operation = Some OpCreate, x_created = None\<rparr>"

theorem discord_redelivery_witness:
  "\<exists>res s'. apply_discord_message support_demo demo_delivery [] demo_done = (res, s') \<and> tables s' = tables demo_done"
proof -
  have t: "trim_space (x_id demo_delivery) = ''x1''" by code_simp
  have b: "find_bridge (snd demo_done) (trim_space (x_id demo_delivery)) = Some 3"
    unfolding t by (simp add: find_bridge_def demo_done_def)
  have o: "x_operation demo_delivery = Some OpCreate" by (simp add: demo_delivery_def)
  obtain res s' where run: "apply_discord_message support_demo demo_delivery [] demo_done = (res, s')"
    by (metis surj_pair)
  from discord_redelivery[OF run o b] run show ?thesis by blast
qed

text \<open>The ticket of the last witness, closed: its owner writes to it once more.\<close>

definition demo_ended :: "support_tables state" where
  "demo_ended = (fst demo_done, (snd demo_done)\<lparr>tickets := [demo_row\<lparr>tk_status := ''closed'', tk_closed := Some 0\<rparr>],
     next_number := 2\<rparr>)"

theorem ended_tickets_frozen_witness:
  "map sm_id (filter (\<lambda>m. sm_ticket m = 2) (messages (snd (snd (add_user_message support_demo 1 2 ''hello''
       (fst demo_ended\<lparr>w_db := empty_db\<lparr>next_id := 4\<rparr>\<rparr>, snd demo_ended)))))) = [3]"
proof -
  let ?s = "(fst demo_ended\<lparr>w_db := empty_db\<lparr>next_id := 4\<rparr>\<rparr>, snd demo_ended)"
  let ?k = "demo_row\<lparr>tk_status := ''closed'', tk_closed := Some 0\<rparr>"
  let ?m = "add_user_message support_demo 1 2 ''hello'' ?s"
  have ok: "support_ok (tables ?s)"
    by (simp add: support_ok_defs tables_def demo_ended_def demo_done_def demo_row_def no_tickets_def new_keys_def
        ticket_ok_def known_status_def ticket_statuses_def has_ticket_def has_message_def empty_db_def)
  have step: "support_step support_demo (\<lambda>_ _. Inl []) ?s (snd ?m)"
    by (rule support_step.user[of _ 1 2 "''hello''" "[]" _ "fst ?m"]) (simp add: add_user_message_def)
  have k: "?k \<in> set (tickets (snd ?s))" "tk_status ?k \<in> {''closed'', ''spam''}"
    by (simp_all add: demo_ended_def)
  have "tk_id ?k = 2" "filter (\<lambda>m. sm_ticket m = 2) (messages (snd ?s)) = messages (snd demo_done)"
    "map sm_id (messages (snd demo_done)) = [3]"
    by (simp_all add: demo_row_def demo_ended_def demo_done_def)
  with ended_tickets_frozen[OF ok step k] show ?thesis by simp
qed

end
