(* ===== verification/SupportHttp.thy ===== *)
theory SupportHttp imports SupportHandler RequestSteps SupportProperties begin

text \<open>
  What the routes of customer support promise: they do to the tables what the repository's
  operations do and nothing else (\<open>routes_are_steps\<close>), a webhook without a signature does
  nothing, and a file that is stored belongs to a message.
\<close>

section \<open>Routes are sequences of steps\<close>

definition inner :: "support_side state \<Rightarrow> support_tables state" where
  "inner s = (fst s, fst (snd s))"

text \<open>\<open>via r send S s\<close>: the repository's steps lead from \<open>S\<close> to \<open>s\<close>.\<close>

definition via ::
  "support_repo \<Rightarrow> (nat \<Rightarrow> discord_task \<Rightarrow> string + string) \<Rightarrow> support_side state \<Rightarrow> support_side state \<Rightarrow> bool" where
  "via r send S s \<longleftrightarrow> (support_step r send)\<^sup>*\<^sup>* (inner S) (inner s)"

lemma via_steps:
  "(\<And>s x s'. m s = (x, s') \<Longrightarrow> (support_step r send)\<^sup>*\<^sup>* (inner s) (inner s')) \<Longrightarrow> keeps (via r send S) m"
  by (rule keepsI) (auto simp: via_def intro: rtranclp_trans)

lemma calm_is_step:
  "calm (fst s) (fst s') \<Longrightarrow> snd s' = snd s \<Longrightarrow> support_step r send s s'"
  by (rule support_step.outside) (simp_all add: calm_def)

lemma via_outside:
  "(\<And>s x s'. m s = (x, s') \<Longrightarrow> fst (snd s') = fst (snd s) \<and> next_id (w_db (fst s)) \<le> next_id (w_db (fst s'))
      \<and> db_now (fst s') = db_now (fst s)) \<Longrightarrow> keeps (via r send S) m"
  by (rule via_steps, rule r_into_rtranclp, rule support_step.outside) (auto simp: inner_def)

lemma via_calm: "(\<And>s0. keeps (calm_rows s0) m) \<Longrightarrow> keeps (via r send S) m"
  by (rule via_outside) (auto simp: calm_rows_def calm_def dest!: calm_rowsD[rotated])

lemma via_beside:
  assumes "\<And>s x s'. m s = (x, s') \<Longrightarrow> support_step r send s s'"
  shows "keeps (via r send S) (beside m)"
  by (rule via_steps, rule r_into_rtranclp) (auto simp: beside_def inner_def split: prod.splits intro: assms)

lemma via_beside_calm: "(\<And>s0. keeps (calm_rows s0) m) \<Longrightarrow> keeps (via r send S) (beside m)"
  by (rule via_beside, rule calm_is_step) (auto simp: calm_rows_def dest!: calm_rowsD[rotated])

subsection \<open>What the handlers call\<close>

lemma calm_reads [keeps_intros]:
  "keeps (calm_rows s0) (list_tickets r acc st n k)" "keeps (calm_rows s0) (get_ticket r acc i)"
  "keeps (calm_rows s0) (get_attachment acc i a)" "keeps (calm_rows s0) (support_is_admin i)"
  unfolding list_tickets_def get_ticket_def get_attachment_def support_is_admin_def load_attachments_def Let_def
  by (intro keeps_intros)+

lemma via_objects [keeps_intros]:
  "keeps (via r send S) fresh_uuid" "keeps (via r send S) (blob_put b key n)" "keeps (via r send S) (blob_remove b key)"
  by (rule via_outside; simp add: fresh_uuid_def blob_put_def blob_remove_def split: if_splits; auto)+

lemma via_remove [keeps_intros]: "keeps (via r send S) (remove_uploads b ups)"
  by (induction b ups rule: remove_uploads.induct) (simp_all add: keeps_intros)

lemma via_upload [keeps_intros]: "keeps (via r send S) (upload_loop h b acc used ups fs)"
  by (induction fs arbitrary: used ups) (simp_all only: upload_loop.simps Let_def; intro keeps_intros; simp)+

lemma via_parse [keeps_intros]: "keeps (via r send S) (parse_upload h rq body acc mk)"
  unfolding parse_upload_def upload_attachments_def Let_def by (intro keeps_intros)

lemma via_limiter [keeps_intros]: "keeps (via r send S) (message_allowed h acc)"
proof -
  have "fst (snd s') = fst (snd s) \<and> calm (fst s) (fst s')" if "allow_message h key s = (x, s')" for key s x s'
  proof -
    have "keeps (calm_rows t) (core (check_distributed (if sh_distributed h = NoDistributed then None
        else Some (distributed_allow ((sh_auth h)\<lparr>sv_distributed := sh_distributed h\<rparr>) ''support-messages'' key 30 minute)) ok))"
      for ok and t :: "support_side state"
      by (rule calm_core, rule calm_check_distributed)
    note calm = calm_rowsD[OF this]
    obtain r l where hit: "take_hit (snd (snd s)) key (now (fst s)) = (r, l)" by (rule prod.exhaust)
    note that[unfolded allow_message_def Let_def hit prod.case]
    from calm[OF this] show ?thesis by (simp add: calm_rows_def)
  qed
  then have "keeps (via r send S) (allow_message h key)" for key
    by (intro via_outside) (auto simp: calm_def)
  then show ?thesis unfolding message_allowed_def by (intro keeps_intros)
qed

lemma via_guards [keeps_intros]:
  "keeps (via r send S) (require_verified h rq)" "keeps (via r send S) (require_verified_mutation h rq)"
  "keeps (via r send S) (support_require_admin h rq)" "keeps (via r send S) (support_require_admin_mutation h rq)"
proof -
  have steps: "keeps (via r send S) (session_step sv rq)" "keeps (via r send S) (csrf_step sv rq rs)"
    "keeps (via r send S) (mfa_step sv rq rs)"
    "keeps (via r send S) (admin_step (\<lambda>i. beside (support_is_admin i)) rs)" for sv rs
    unfolding admin_step_def by (intro via_calm keeps_intros via_beside_calm)+
  show "keeps (via r send S) (require_verified h rq)" "keeps (via r send S) (require_verified_mutation h rq)"
    "keeps (via r send S) (support_require_admin h rq)" "keeps (via r send S) (support_require_admin_mutation h rq)"
    unfolding require_verified_def require_verified_mutation_def support_require_admin_def
      support_require_admin_mutation_def by (intro keeps_intros steps)+
qed

lemma via_pure [keeps_intros]:
  "keeps (via r send S) (parse_ticket_id h raw)" "keeps (via r send S) (body_step body code msg)"
  "keeps (via r send S) (path_uuid en raw code msg)" "keeps (via r send S) (listed_status n k st)"
  "keeps (via r send S) (signed_body h secret rq bytes msg)"
  unfolding parse_ticket_id_def body_step_def path_uuid_def listed_status_def signed_body_def Let_def
  by (intro keeps_intros)+

lemma via_repository [keeps_intros]:
  "keeps (via r send S) (beside (create_ticket r acc inp))"
  "keeps (via r send S) (beside (create_ticket_with_attachments r acc inp files))"
  "keeps (via r send S) (beside (add_user_message r acc i b))"
  "keeps (via r send S) (beside (add_user_message_with_attachments r acc i b files))"
  "keeps (via r send S) (beside (add_admin_message r acc i b))"
  "keeps (via r send S) (beside (add_admin_message_with_attachments r acc i b files))"
  "keeps (via r send S) (beside (set_ticket_status r acc i st assign adm))"
  "keeps (via r send S) (beside (apply_discord_message r dmsg key))"
  "keeps (via r send S) (beside (apply_email_message r emsg key))"
  unfolding create_ticket_def add_user_message_def add_admin_message_def
  by (rule via_beside, erule support_step.intros)+

lemma via_reads [keeps_intros]:
  "keeps (via r send S) (beside (list_tickets rr acc st n k))" "keeps (via r send S) (beside (get_ticket rr acc i))"
  "keeps (via r send S) (beside (get_attachment acc i a))"
  by (intro via_beside_calm keeps_intros)+

lemma via_route: "keeps (via (sh_repo h) send S) (support_route h rq call)"
proof -
  have drop: "keeps (via r send S) (drop_uploads h ups rep)" for r ups rep
    unfolding drop_uploads_def by (intro keeps_intros)
  have post: "keeps (via (sh_repo h) send S) (post_message h rq body acc (add_user_message (sh_repo h) acc i)
      (add_user_message_with_attachments (sh_repo h) acc i))"
    "keeps (via (sh_repo h) send S) (post_message h rq body acc (add_admin_message (sh_repo h) acc i)
      (add_admin_message_with_attachments (sh_repo h) acc i))" for body acc i
    unfolding post_message_def parse_message_def if_distrib[of beside]
    by (intro keeps_intros drop)+
  show ?thesis
    by (cases call; simp only: support_route.simps;
        unfold support_list_tickets_def support_create_ticket_def parse_create_ticket_def support_get_ticket_def
          download_user_attachment_def download_attachment_def support_add_user_message_def change_user_status_def
          list_admin_tickets_def get_admin_ticket_def download_admin_attachment_def update_admin_ticket_def
          support_add_admin_message_def close_admin_ticket_def discord_webhook_def email_webhook_def
          serve_support_def Let_def if_distrib[of beside];
        intro keeps_intros drop post)
qed

section \<open>Stored files\<close>

text \<open>
  \<open>stored A B s\<close>: the objects in the store are \<open>B\<close>, and every key of \<open>A\<close> is the key of an attachment.
\<close>

definition stored :: "string set \<Rightarrow> string list \<Rightarrow> support_tables state \<Rightarrow> bool" where
  "stored A B s \<longleftrightarrow> A \<subseteq> sa_key ` set (attachments (snd s)) \<and> blobs (fst s) = B"

lemma stored_stmt:
  assumes "\<And>d t. sa_key ` set (attachments t) \<subseteq> sa_key ` set (attachments (snd (snd (q (d, t)))))"
  shows "keeps (stored A B) (stmt q)"
proof -
  have faults_same: "stored A B (set_faults fs s) = stored A B s"
    "stored A B (with_tables x (set_faults fs s)) = stored A B (with_tables x s)" for x fs s
    by (simp_all add: stored_def set_faults_def with_tables_def)
  have "stored A B (with_tables (snd (q (tables s))) s')" if "stored A B s" "blobs (fst s') = blobs (fst s)" for s s'
    using that assms[of "snd s" "w_db (fst s)"] by (auto simp: stored_def with_tables_def tables_def)
  then show ?thesis
    by (intro keepsI) (auto simp: stmt_def faults_same split: list.splits if_splits)
qed

lemma stored_read [keeps_intros]:
  "keeps (stored A B) (stmt_row f)" "keeps (stored A B) (stmt_rows f')" "keeps (stored A B) stmt_nop"
  unfolding stmt_row_def stmt_rows_def stmt_nop_def by (rule stored_stmt; simp)+

lemma stored_insert:
  "(\<And>d t. sa_key ` set (attachments t) \<subseteq> sa_key ` set (attachments (snd (g (d, t))))) \<Longrightarrow>
     keeps (stored A B) (stmt_insert chk uniq g f)"
  unfolding stmt_insert_def by (rule stored_stmt) auto

lemma stored_write:
  "(\<And>t. attachments (g t) = attachments t) \<Longrightarrow> keeps (stored A B) (stmt_write g f)"
  unfolding stmt_write_def by (rule stored_stmt) simp

lemma stored_tx_flag [keeps_intros]:
  assumes "keeps (stored A B) body"
  shows "keeps (stored A B) (in_tx_flag conv body)"
proof (rule keepsI)
  fix s r s' assume P: "stored A B s" and run: "in_tx_flag conv body s = (r, s')"
  note nop = keepsD[OF keeps_map_errM[OF stored_read(3)[of A B]]]
  have undone: "stored A B (with_tables (tables s1) s2)" if "stored A B s1" "stored A B s2" for s1 s2
    using that by (simp add: stored_def with_tables_def tables_def)
  obtain r1 s1 where begun: "map_errM conv stmt_nop s = (r1, s1)" by (rule prod.exhaust)
  note s1 = nop[OF P begun]
  show "stored A B s'"
  proof (cases r1)
    case (Inl e)
    with run begun s1 show ?thesis by (simp add: in_tx_flag_def)
  next
    case (Inr u)
    obtain r2 s2 where ran: "body s1 = (r2, s2)" by (rule prod.exhaust)
    note s2 = keepsD[OF assms s1 ran]
    obtain r3 s3 where committed: "map_errM conv stmt_nop s2 = (r3, s3)" by (rule prod.exhaust)
    note s3 = nop[OF s2 committed]
    show ?thesis
      using run begun Inr ran committed s2 undone[OF s1 s2] undone[OF s1 s3] s3
      by (auto simp: in_tx_flag_def split: sum.splits prod.splits bool.splits)
  qed
qed

lemma stored_tx [keeps_intros]: "keeps (stored A B) body \<Longrightarrow> keeps (stored A B) (in_tx conv body)"
  unfolding in_tx_def by (intro keeps_intros)

subsection \<open>The repository stores nothing and forgets no attachment\<close>

named_theorems stored_ops \<open>operations that keep \<open>stored\<close>\<close>

lemma stored_core_draws [stored_ops]: "keeps (stored A B) (core (with_draws c m))"
  by (auto simp: keeps_def stored_def core_def with_draws_def split: prod.splits sum.splits)

lemma stored_update [stored_ops]: "keeps (stored A B) (update_ticket i f)"
  unfolding update_ticket_def by (intro keeps_intros stored_insert) simp

lemma stored_rows [stored_ops]:
  "keeps (stored A B) (insert_ticket acc inp)"
  "keeps (stored A B) (insert_support_message k a ty so h b c)"
  "keeps (stored A B) (add_ticket_event k act ty dat)"
  "keeps (stored A B) (enqueue_discord k msg opn pl)"
  "keeps (stored A B) (insert_notice i dk ti b)"
  "keeps (stored A B) (support_enqueue_email r who rc dk sub b)"
  "keeps (stored A B) (insert_bridge m x)" "keeps (stored A B) (insert_inbound_dedup x m)"
  "keeps (stored A B) (revise_message op b m k)"
  unfolding insert_ticket_def insert_support_message_def add_ticket_event_def enqueue_discord_def insert_notice_def
    support_enqueue_email_def support_seal_def insert_bridge_def insert_inbound_dedup_def revise_message_def Let_def
  by (intro keeps_intros stored_insert stored_ops; simp add: add_row_def)+

lemma stored_attachment_rows [stored_ops]: "keeps (stored A B) (insert_attachment_rows u k m is)"
proof (induction "is")
  case (Cons i "is")
  show ?case unfolding insert_attachment_rows.simps
    by (intro keeps_intros stored_insert Cons) (auto simp: add_row_def)
qed (simp add: keeps_ret)

lemma stored_parts [stored_ops]:
  "keeps (stored A B) (insert_support_attachments u k m is)"
  "keeps (stored A B) (enqueue_official_email r tk sf sub b)"
  "keeps (stored A B) (enqueue_user_notice r tk sf ti b acc)"
  "keeps (stored A B) (is_admin_tx i)" "keeps (stored A B) (lock_ticket i)"
  "keeps (stored A B) (lock_ticket_by_channel x)" "keeps (stored A B) (lock_ticket_by_number n)"
  "keeps (stored A B) (get_support_message i)"
  unfolding insert_support_attachments_def enqueue_official_email_def enqueue_user_notice_def support_seal_def
    is_admin_tx_def lock_ticket_def lock_ticket_by_channel_def lock_ticket_by_number_def get_support_message_def
  by (intro keeps_intros stored_ops)+

lemma stored_methods [stored_ops]:
  "keeps (stored A B) (create_ticket_with_attachments r acc inp files)"
  "keeps (stored A B) (add_user_message_with_attachments r acc i b files)"
  "keeps (stored A B) (add_admin_message_with_attachments r acc i b files)"
  "keeps (stored A B) (set_ticket_status r acc i st assign adm)"
  unfolding create_ticket_with_attachments_def add_user_message_with_attachments_def
    add_admin_message_with_attachments_def set_ticket_status_def change_status_def after_status_def
    enqueue_discord_channel_def enqueue_discord_message_def enqueue_discord_archive_def enqueue_discord_reopen_def Let_def
  by (intro keeps_intros stored_ops)+

lemma stored_inbound [stored_ops]:
  "keeps (stored A B) (apply_discord_message r dmsg key)" "keeps (stored A B) (apply_email_message r emsg key)"
proof -
  have create: "keeps (stored A B) (apply_discord_create r k x a b c key)" for k x a b c
    unfolding apply_discord_create_def by (intro keeps_intros stored_ops)
  have revise: "keeps (stored A B) (apply_discord_revision r k op x b)" for k op x b
    unfolding apply_discord_revision_def by (intro keeps_intros stored_ops stored_write) simp
  have op: "keeps (stored A B) (case oo of None \<Rightarrow> fail SupInvalidDiscordData
      | Some OpCreate \<Rightarrow> apply_discord_create r k x a b c key
      | Some OpEdit \<Rightarrow> apply_discord_revision r k OpEdit x b
      | Some OpDelete \<Rightarrow> apply_discord_revision r k OpDelete x b)" for oo k x a b c
    by (auto simp: create revise keeps_fail split: option.split support_operation.split)
  show "keeps (stored A B) (apply_discord_message r dmsg key)"
    unfolding apply_discord_message_def Let_def by (intro keeps_intros stored_ops op)
  show "keeps (stored A B) (apply_email_message r emsg key)"
    unfolding apply_email_message_def enqueue_discord_message_def Let_def
    by (intro keeps_intros stored_ops stored_insert) simp
qed

subsection \<open>What was uploaded becomes attachments\<close>

text \<open>\<open>ends Q m\<close>: a successful run ends in \<open>Q\<close>.\<close>

definition ends :: "('w \<Rightarrow> bool) \<Rightarrow> ('w, 'e, 'a) op \<Rightarrow> bool" where
  "ends Q m \<longleftrightarrow> (\<forall>s x s'. m s = (Inr x, s') \<longrightarrow> Q s')"

lemma ends_fail: "ends Q (fail e)"
  by (simp add: ends_def)

lemma ends_later: "(\<And>x. ends Q (f x)) \<Longrightarrow> ends Q (bindM m f)"
  by (auto simp: ends_def)

lemma ends_here: "ends Q m \<Longrightarrow> (\<And>x. keeps Q (f x)) \<Longrightarrow> ends Q (bindM m f)"
  unfolding ends_def by (metis bindM_Inr_iff keepsD)

lemma ends_if: "(b \<Longrightarrow> ends Q m) \<Longrightarrow> (\<not> b \<Longrightarrow> ends Q n) \<Longrightarrow> ends Q (if b then m else n)"
  by simp

text \<open>The keys alone, whatever the store holds.\<close>

definition has_keys :: "string set \<Rightarrow> support_tables state \<Rightarrow> bool" where
  "has_keys A s \<longleftrightarrow> A \<subseteq> sa_key ` set (attachments (snd s))"

lemma keys_of_stored: "(\<And>B. keeps (stored A B) m) \<Longrightarrow> keeps (has_keys A) m"
  by (rule keepsI) (meson has_keys_def keepsD stored_def)

lemma ends_tx: "ends (has_keys A) body \<Longrightarrow> ends (has_keys A) (in_tx conv body)"
  unfolding ends_def by (metis in_tx_Inr has_keys_def prod.inject tables_def)

lemma ends_attachment_rows: "ends (has_keys (ai_key ` set is)) (insert_attachment_rows u k m is)"
proof (induction "is")
  case (Cons i "is")
  have one: "has_keys {ai_key i} s'"
    if "stmt_insert (\<lambda>d t. attachment_chk t (new_attachment u k m i ts d))
       (\<lambda>d t. list_all (\<lambda>a. sa_key a \<noteq> ai_key i) (attachments t))
       (\<lambda>(d, t). add_row (\<lambda>t. t\<lparr>attachments := attachments t @ [new_attachment u k m i ts d]\<rparr>) (d, t))
       (\<lambda>d t. attachment_of (new_attachment u k m i ts d)) s = (Inr a, s')" for ts s a s'
    using that by (auto dest!: stmt_insert_Inr simp: has_keys_def tables_def add_row_def new_attachment_def)
  have "has_keys (ai_key ` set (i # is)) s'" if run: "insert_attachment_rows u k m (i # is) s = (Inr v, s')" for s v s'
  proof -
    from run obtain s1 w where "has_keys {ai_key i} s1" "insert_attachment_rows u k m is s1 = (Inr w, s')"
      by (auto dest!: one)
    moreover from this have "has_keys {ai_key i} s'"
      using keepsD[OF keys_of_stored[OF stored_attachment_rows]] by blast
    moreover have "has_keys (ai_key ` set is) s'"
      using Cons calculation(2) unfolding ends_def by blast
    ultimately show ?thesis by (simp add: has_keys_def)
  qed
  then show ?case by (simp add: ends_def)
qed (simp add: ends_def has_keys_def)

lemma ends_attachments: "ends (has_keys (ai_key ` set is)) (insert_support_attachments u k m is)"
  unfolding insert_support_attachments_def by (intro ends_later ends_attachment_rows)

lemma ends_methods:
  "ends (has_keys (ai_key ` set files)) (create_ticket_with_attachments r acc inp files)"
  "ends (has_keys (ai_key ` set files)) (add_user_message_with_attachments r acc i b files)"
  "ends (has_keys (ai_key ` set files)) (add_admin_message_with_attachments r acc i b files)"
proof -
  have rest: "keeps (has_keys A) (add_ticket_event k act ty dat)" "keeps (has_keys A) (enqueue_discord k msg opn pl)"
    "keeps (has_keys A) (enqueue_official_email r tk sf sub b)"
    "keeps (has_keys A) (enqueue_user_notice r tk sf ti b who)" "keeps (has_keys A) (update_ticket k f)"
    for A k act ty dat msg opn pl tk sf sub b ti who f
    by (intro keys_of_stored stored_ops)+
  show "ends (has_keys (ai_key ` set files)) (create_ticket_with_attachments r acc inp files)"
    unfolding create_ticket_with_attachments_def enqueue_discord_channel_def Let_def
    by (rule ends_later, rule ends_later, rule ends_tx, rule ends_later, rule ends_later, rule ends_later,
        rule ends_here, rule ends_attachments) (intro keeps_intros rest)
  show "ends (has_keys (ai_key ` set files)) (add_user_message_with_attachments r acc i b files)"
    unfolding add_user_message_with_attachments_def enqueue_discord_message_def Let_def
    by (rule ends_later, rule ends_later, rule ends_tx, rule ends_later, rule ends_if, rule ends_fail,
        rule ends_if, rule ends_fail, rule ends_later, rule ends_later, rule ends_here, rule ends_attachments)
      (intro keeps_intros rest)
  show "ends (has_keys (ai_key ` set files)) (add_admin_message_with_attachments r acc i b files)"
    unfolding add_admin_message_with_attachments_def enqueue_discord_message_def Let_def
    by (rule ends_later, rule ends_later, rule ends_tx, rule ends_later, rule ends_if, rule ends_fail,
        rule ends_later, rule ends_if, rule ends_fail, rule ends_later, rule ends_later, rule ends_here,
        rule ends_attachments)
      (intro keeps_intros rest)
qed

subsection \<open>Every route\<close>

text \<open>\<open>owns K s\<close>: an object of the store belongs to an attachment or to \<open>K\<close>.\<close>

definition owns :: "string set \<Rightarrow> support_side state \<Rightarrow> bool" where
  "owns K s \<longleftrightarrow> set (blobs (fst s)) \<subseteq> K \<union> sa_key ` set (attachments (fst (snd s)))"

definition upload_keys :: "attachment_input list \<Rightarrow> string set" where
  "upload_keys ups = ai_key ` set ups"

definition removes :: "support_handler \<Rightarrow> bool" where
  "removes h \<longleftrightarrow> (case sh_blobs h of None \<Rightarrow> True | Some b \<Rightarrow> \<forall>k. bs_remove b k)"

definition keys_valid :: "attachment_input list \<Rightarrow> bool" where
  "keys_valid ups \<longleftrightarrow> (\<forall>a \<in> set ups. validate_storage_key (ai_key a))"

lemma owns_calm: "(\<And>s0. keeps (calm_rows s0) m) \<Longrightarrow> keeps (owns K) m"
  by (rule keepsI) (auto simp: owns_def calm_rows_def calm_def dest!: calm_rowsD[rotated])

lemma owns_beside:
  assumes "\<And>A B. keeps (stored A B) m"
  shows "keeps (owns K) (beside m)"
proof (rule keepsI)
  fix s r s' assume O: "owns K s" and run: "beside m s = (r, s')"
  obtain r1 t where m: "m (inner s) = (r1, t)" by (rule prod.exhaust)
  have "stored (sa_key ` set (attachments (snd (inner s)))) (blobs (fst s)) t"
    by (rule keepsD[OF assms _ m]) (simp add: stored_def inner_def)
  moreover have "s' = (fst t, (snd t, snd (snd s)))" using m run by (simp add: beside_def inner_def)
  ultimately have b: "blobs (fst s') = blobs (fst s)"
    and a: "sa_key ` set (attachments (fst (snd s))) \<subseteq> sa_key ` set (attachments (fst (snd s')))"
    by (simp_all add: stored_def inner_def)
  show "owns K s'" using O unfolding owns_def b by (rule subset_trans) (use a in blast)
qed

lemma owns_limiter: "keeps (owns K) (message_allowed h acc)"
proof -
  have "keeps (owns K) (allow_message h key)" for key
  proof (rule keepsI)
    fix s x s' assume O: "owns K s" and run: "allow_message h key s = (x, s')"
    have "keeps (calm_rows t) (core (check_distributed (if sh_distributed h = NoDistributed then None
        else Some (distributed_allow ((sh_auth h)\<lparr>sv_distributed := sh_distributed h\<rparr>) ''support-messages'' key 30 minute)) ok))"
      for ok and t :: "support_side state"
      by (rule calm_core, rule calm_check_distributed)
    note calm = calm_rowsD[OF this]
    obtain r l where hit: "take_hit (snd (snd s)) key (now (fst s)) = (r, l)" by (rule prod.exhaust)
    note run[unfolded allow_message_def Let_def hit prod.case]
    from calm[OF this] O show "owns K s'" by (simp add: calm_rows_def calm_def owns_def)
  qed
  then show ?thesis unfolding message_allowed_def by (intro keeps_intros)
qed

lemma owns_guards:
  "keeps (owns K) (require_verified h rq)" "keeps (owns K) (require_verified_mutation h rq)"
  "keeps (owns K) (support_require_admin h rq)" "keeps (owns K) (support_require_admin_mutation h rq)"
  "keeps (owns K) (parse_ticket_id h raw)" "keeps (owns K) (body_step body code msg)"
  "keeps (owns K) (path_uuid en raw code msg)" "keeps (owns K) (listed_status n k st)"
  "keeps (owns K) (signed_body h secret rq bytes msg)"
proof -
  have steps: "keeps (owns K) (session_step sv rq)" "keeps (owns K) (csrf_step sv rq rs)"
    "keeps (owns K) (mfa_step sv rq rs)" for sv rs
    by (intro owns_calm keeps_intros)+
  have "keeps (stored A B) (support_is_admin i)" for A B i
    unfolding support_is_admin_def by (intro keeps_intros)
  then have admin: "keeps (owns K) (admin_step (\<lambda>i. beside (support_is_admin i)) rs)" for rs
    unfolding admin_step_def by (intro keeps_intros owns_beside)
  show "keeps (owns K) (require_verified h rq)" "keeps (owns K) (require_verified_mutation h rq)"
    "keeps (owns K) (support_require_admin h rq)" "keeps (owns K) (support_require_admin_mutation h rq)"
    "keeps (owns K) (parse_ticket_id h raw)" "keeps (owns K) (body_step body code msg)"
    "keeps (owns K) (path_uuid en raw code msg)" "keeps (owns K) (listed_status n k st)"
    "keeps (owns K) (signed_body h secret rq bytes msg)"
    unfolding require_verified_def require_verified_mutation_def support_require_admin_def
      support_require_admin_mutation_def parse_ticket_id_def body_step_def path_uuid_def listed_status_def
      signed_body_def Let_def by (intro keeps_intros steps admin)+
qed

lemma remove_uploads_gone:
  assumes "removes h" "keys_valid ups" "owns (K \<union> upload_keys ups) s" "sh_blobs h \<noteq> None \<or> ups = []"
    "remove_uploads (sh_blobs h) ups s = (r, s')"
  shows "owns K s'"
proof (cases "sh_blobs h")
  case None
  with assms show ?thesis by (simp add: ret_def upload_keys_def)
next
  case (Some b)
  have "owns K s'" if "keys_valid ups" "owns (K \<union> upload_keys ups) s" "remove_uploads (Some b) ups s = (r, s')" for s
    using that
  proof (induction ups arbitrary: s)
    case Nil
    then show ?case by (simp add: ret_def upload_keys_def)
  next
    case (Cons a ups)
    let ?s1 = "((fst s)\<lparr>blobs := filter (\<lambda>k. k \<noteq> ai_key a) (blobs (fst s))\<rparr>, snd s)"
    have run: "remove_uploads (Some b) ups ?s1 = (r, s')"
      using Cons.prems assms(1) Some by (simp add: bindM_def blob_remove_def keys_valid_def removes_def)
    have "owns (K \<union> upload_keys ups) ?s1" using Cons.prems(2) by (auto simp: owns_def upload_keys_def)
    from Cons.IH[OF _ this run] Cons.prems(1) show ?case by (simp add: keys_valid_def)
  qed
  with assms Some show ?thesis by simp
qed

lemma owns_remove [keeps_intros]: "keeps (owns K) (blob_remove b key)"
  by (auto simp: keeps_def owns_def blob_remove_def)

text \<open>What is left of an upload: nothing after a failure, valid keys after a success.\<close>

definition upshot :: "string set \<Rightarrow> 'e + attachment_input list \<Rightarrow> support_side state \<Rightarrow> bool" where
  "upshot K r s' \<longleftrightarrow> (case r of Inl e \<Rightarrow> owns K s' | Inr new \<Rightarrow> owns (K \<union> upload_keys new) s' \<and> keys_valid new)"

lemma upshot_after:
  assumes "removes h" "sh_blobs h = Some b" "keys_valid ups" "owns (K \<union> upload_keys ups) s"
    "bindM (remove_uploads (Some b) ups) (\<lambda>_. n) s = (r, s')"
    and n: "keeps (owns K) n" "\<And>s x s'. n s \<noteq> (Inr x, s')"
  shows "upshot K r s'"
proof -
  obtain r1 s1 where one: "(remove_uploads (Some b) ups :: (support_side state, 'a, unit) op) s = (r1, s1)"
    by (rule prod.exhaust)
  have o1: "owns K s1" using remove_uploads_gone[OF assms(1,3,4)] assms(2) one by simp
  show ?thesis
  proof (cases r1)
    case (Inl e)
    with assms(5) one o1 show ?thesis by (auto simp: bindM_def upshot_def)
  next
    case (Inr u)
    with assms(5) one have two: "n s1 = (r, s')" by (simp add: bindM_def)
    with keepsD[OF n(1) o1 two] n(2) show ?thesis by (cases r) (auto simp: upshot_def)
  qed
qed

lemma upload_loop_owns:
  assumes h: "removes h" "sh_blobs h = Some b"
    and "keys_valid ups" "owns (K \<union> upload_keys ups) s" "upload_loop h b acc used ups fs s = (r, s')"
  shows "upshot K r s'"
  using assms(3-5)
proof (induction fs arbitrary: used ups s)
  case Nil
  show ?case
  proof (cases "validate_attachments (e_unicode (sh_env h)) ups")
    case (Inl e)
    with Nil.prems(3) have "bindM (remove_uploads (Some b) ups) (\<lambda>_. fail UpOther) s = (r, s')" by simp
    from upshot_after[OF h Nil.prems(1,2) this] show ?thesis by (simp add: keeps_fail)
  next
    case (Inr u)
    with Nil.prems show ?thesis by (simp add: upshot_def)
  qed
next
  case (Cons f fs)
  note stop = upshot_after[OF h Cons.prems(1,2)]
  define put_file :: "staged \<Rightarrow> (support_side state, upload_error, attachment_input list) op" where "put_file g = bindM fresh_uuid (\<lambda>i. let key = attachment_key (sh_env h) acc i in
         bindM (blob_put b key (sg_size g)) (\<lambda>ok.
         if \<not> ok then bindM (remove_uploads (Some b) ups) (\<lambda>_. bindM (blob_remove b key) (\<lambda>_. fail UpOther))
         else upload_loop h b acc (used + sg_size g)
           (ups @ [\<lparr>ai_name = sg_name g, ai_key = key, ai_mime = sg_type g, ai_size = sg_size g,
                    ai_sha256 = sg_sha256 g\<rparr>]) fs))" for g
  consider (out) e where "bindM (remove_uploads (Some b) ups) (\<lambda>_. fail e) s = (r, s')"
    | (on) g where "put_file g s = (r, s')"
    using Cons.prems(3) unfolding upload_loop.simps put_file_def[symmetric] by (auto split: option.splits if_splits)
  then show ?case
  proof cases
    case out
    from stop[OF out] show ?thesis by (simp add: keeps_fail)
  next
    case (on g)
    define key where "key = attachment_key (sh_env h) acc (next_id (w_db (fst s)))"
    define s1 :: "support_side state" where "s1 = ((fst s)\<lparr>w_db := (w_db (fst s))\<lparr>next_id := Suc (next_id (w_db (fst s)))\<rparr>\<rparr>, snd s)"
    define s2 :: "support_side state" where "s2 = ((fst s1)\<lparr>blobs := key # filter (\<lambda>k. k \<noteq> key) (blobs (fst s1))\<rparr>, snd s1)"
    let ?up = "\<lparr>ai_name = sg_name g, ai_key = key, ai_mime = sg_type g, ai_size = sg_size g, ai_sha256 = sg_sha256 g\<rparr>"
    have o1: "owns (K \<union> upload_keys ups) s1" using Cons.prems(2) by (simp add: owns_def s1_def)
    have drawn: "(fresh_uuid :: (support_side state, upload_error, uuid) op) s = (Inr (next_id (w_db (fst s))), s1)" by (simp add: fresh_uuid_def s1_def)
    have run: "bindM (blob_put b key (sg_size g)) (\<lambda>ok.
         if \<not> ok then bindM (remove_uploads (Some b) ups) (\<lambda>_. bindM (blob_remove b key) (\<lambda>_. fail UpOther))
         else upload_loop h b acc (used + sg_size g) (ups @ [?up]) fs) s1 = (r, s')"
      using on[unfolded put_file_def bindM_run[of fresh_uuid, OF drawn] Let_def, folded key_def] .
    show ?thesis
    proof (cases "\<not> validate_storage_key key \<or> sg_size g \<le> 0 \<or> max_portfolio_file_bytes < sg_size g \<or> \<not> bs_put b key")
      case True
      with run have "bindM (remove_uploads (Some b) ups) (\<lambda>_. bindM (blob_remove b key) (\<lambda>_. fail UpOther)) s1 = (r, s')"
        by (simp add: bindM_def blob_put_def)
      from upshot_after[OF h Cons.prems(1) o1 this] show ?thesis
        by (simp add: keeps_intros)
    next
      case False
      with run have "upload_loop h b acc (used + sg_size g) (ups @ [?up]) fs s2 = (r, s')"
        by (simp add: bindM_def blob_put_def s2_def)
      moreover have "keys_valid (ups @ [?up])" using Cons.prems(1) False by (simp add: keys_valid_def)
      moreover have "owns (K \<union> upload_keys (ups @ [?up])) s2"
        using o1 by (auto simp: owns_def s2_def upload_keys_def)
      ultimately show ?thesis by (rule Cons.IH[rotated 2])
    qed
  qed
qed

lemma parse_upload_owns:
  assumes "removes h" "owns K s" "parse_upload h rq body acc mk s = (r, s')"
  shows "case r of Inl e \<Rightarrow> owns K s'
    | Inr (x, ups) \<Rightarrow> owns (K \<union> upload_keys ups) s' \<and> keys_valid ups \<and> (sh_blobs h \<noteq> None \<or> ups = [])"
proof -
  have none: "upload_keys [] = {}" "keys_valid []" by (simp_all add: upload_keys_def keys_valid_def)
  have up: "case r of Inl e \<Rightarrow> owns K s'
      | Inr ups \<Rightarrow> owns (K \<union> upload_keys ups) s' \<and> keys_valid ups \<and> (sh_blobs h \<noteq> None \<or> ups = [])"
    if "upload_attachments h fm acc s = (r, s')" for fm r s'
  proof (cases "sh_blobs h")
    case None
    with that assms(2) none show ?thesis
      by (auto simp: upload_attachments_def Let_def split: if_splits sum.splits)
  next
    case (Some b)
    show ?thesis
    proof (cases "max_attachment_count < length (if fm_attachments fm = [] then fm_file fm else fm_attachments fm)")
      case True
      with that assms(2) Some show ?thesis by (simp add: upload_attachments_def Let_def)
    next
      case False
      with that Some have "upload_loop h b acc 0 [] (if fm_attachments fm = [] then fm_file fm else fm_attachments fm) s = (r, s')"
        by (simp add: upload_attachments_def Let_def)
      from upload_loop_owns[OF assms(1) Some none(2) _ this, of K] assms(2) none(1) Some show ?thesis
        by (simp add: upshot_def split: sum.splits)
    qed
  qed
  show ?thesis
  proof (cases "is_multipart (sh_env h) rq")
    case False
    with assms none show ?thesis by (auto simp: parse_upload_def split: option.splits)
  next
    case True
    show ?thesis
    proof (cases "bd_form body")
      case None
      with True assms show ?thesis by (simp add: parse_upload_def)
    next
      case (Some fm)
      obtain r1 s1 where one: "(upload_attachments h fm acc :: (support_side state, upload_error, attachment_input list) op) s = (r1, s1)"
        by (rule prod.exhaust)
      with True Some assms(3) up[OF one] show ?thesis
        by (auto simp: parse_upload_def bindM_def split: sum.splits)
    qed
  qed
qed

text \<open>Files are uploaded, the operation is tried, the files of a refused one are dropped.\<close>

lemma owns_uploads:
  assumes h: "removes h"
    and op: "\<And>x ups. ends (has_keys (upload_keys ups)) (m x ups)" "\<And>x ups A B. keeps (stored A B) (m x ups)"
  shows "keeps (owns K) (bindM (map_errM g (parse_upload h rq body acc mk)) (\<lambda>(x, ups).
      case check x of Inl e \<Rightarrow> drop_uploads h ups refused
      | Inr u \<Rightarrow> catchM (beside (m x ups)) (\<lambda>e. drop_uploads h ups (support_refusal e)) (\<lambda>y. ret (f y))))"
proof (rule keepsI)
  fix s r s'
  assume O: "owns K s" and run: "bindM (map_errM g (parse_upload h rq body acc mk)) (\<lambda>(x, ups).
      case check x of Inl e \<Rightarrow> drop_uploads h ups refused
      | Inr u \<Rightarrow> catchM (beside (m x ups)) (\<lambda>e. drop_uploads h ups (support_refusal e)) (\<lambda>y. ret (f y))) s = (r, s')"
  obtain r1 s1 where parsed: "parse_upload h rq body acc mk s = (r1, s1)" by (rule prod.exhaust)
  note after = parse_upload_owns[OF h O parsed]
  show "owns K s'"
  proof (cases r1)
    case (Inl e)
    with run parsed after show ?thesis by (simp add: bindM_def map_errM_def)
  next
    case (Inr y)
    obtain x ups where y: "y = (x, ups)" by (rule prod.exhaust)
    have o1: "owns (K \<union> upload_keys ups) s1" and v: "keys_valid ups" "sh_blobs h \<noteq> None \<or> ups = []"
      using after by (simp_all add: Inr y)
    have dropped: "owns K t'" if "owns (K \<union> upload_keys ups) t" "drop_uploads h ups rep t = (q, t')"
      for rep t t' and q :: "support_body reply + 'h"
    proof -
      obtain r2 t2 where two: "(remove_uploads (sh_blobs h) ups :: (support_side state, support_body reply, unit) op) t = (r2, t2)"
        by (rule prod.exhaust)
      with that(2) have "t' = t2" by (cases r2) (simp_all add: drop_uploads_def bindM_def)
      with remove_uploads_gone[OF h v(1) that(1) v(2) two] show ?thesis by simp
    qed
    from run parsed have rest: "(case check x of Inl e \<Rightarrow> drop_uploads h ups refused
      | Inr u \<Rightarrow> catchM (beside (m x ups)) (\<lambda>e. drop_uploads h ups (support_refusal e)) (\<lambda>y. ret (f y))) s1 = (r, s')"
      by (simp add: bindM_def map_errM_def Inr y)
    show ?thesis
    proof (cases "check x")
      case (Inl e)
      with rest dropped[OF o1] show ?thesis by simp
    next
      case (Inr u)
      obtain r2 s2 where two: "beside (m x ups) s1 = (r2, s2)" by (rule prod.exhaust)
      have o2: "owns (K \<union> upload_keys ups) s2" using keepsD[OF owns_beside[OF op(2)] o1 two] .
      show ?thesis
      proof (cases r2)
        case (Inl e)
        with rest \<open>check x = Inr u\<close> two dropped[OF o2] show ?thesis by (simp add: catchM_def)
      next
        case (Inr z)
        have "has_keys (upload_keys ups) (inner s2)"
          using op(1)[of ups x] two Inr by (auto simp: ends_def beside_def inner_def split: prod.splits)
        with o2 have "owns K s2" by (auto simp: owns_def has_keys_def inner_def)
        with rest \<open>check x = Inr u\<close> two Inr show ?thesis by (simp add: catchM_def)
      qed
    qed
  qed
qed

lemma owns_route:
  assumes h: "removes h"
  shows "keeps (owns K) (support_route h rq call)"
proof -
  have create: "ends (has_keys (upload_keys ups)) (if ups = [] then create_ticket r acc inp else create_ticket_with_attachments r acc inp ups)"
    "keeps (stored A B) (if ups = [] then create_ticket r acc inp else create_ticket_with_attachments r acc inp ups)"
    for r acc inp ups A B
    using ends_methods(1)[of ups] stored_methods(1) by (auto simp: create_ticket_def upload_keys_def)
  have user: "ends (has_keys (upload_keys ups)) (if ups = [] then add_user_message r acc i msg else add_user_message_with_attachments r acc i msg ups)"
    "keeps (stored A B) (if ups = [] then add_user_message r acc i msg else add_user_message_with_attachments r acc i msg ups)"
    for r acc i msg ups A B
    using ends_methods(2)[of ups] stored_methods(2) by (auto simp: add_user_message_def upload_keys_def)
  have admin: "ends (has_keys (upload_keys ups)) (if ups = [] then add_admin_message r acc i msg else add_admin_message_with_attachments r acc i msg ups)"
    "keeps (stored A B) (if ups = [] then add_admin_message r acc i msg else add_admin_message_with_attachments r acc i msg ups)"
    for r acc i msg ups A B
    using ends_methods(3)[of ups] stored_methods(3) by (auto simp: add_admin_message_def upload_keys_def)
  have post: "keeps (owns K) (post_message h rq body acc (add_user_message r acc i) (add_user_message_with_attachments r acc i))"
    "keeps (owns K) (post_message h rq body acc (add_admin_message r acc i) (add_admin_message_with_attachments r acc i))"
    for body acc r i
    unfolding post_message_def parse_message_def by (intro owns_uploads h user admin)+
  have out: "(\<lambda>(k, ms). ret (Replied 201 (TicketOut k ms)))
      = (\<lambda>y. (ret (case y of (k, ms) \<Rightarrow> Replied 201 (TicketOut k ms)) :: support_body reply support_route))"
    by (simp add: fun_eq_iff split: prod.split)
  have ticket: "keeps (owns K) (bindM (map_errM g (parse_create_ticket h rq body acc)) (\<lambda>(inp, ups).
      case validate_create_ticket inp of Inl e \<Rightarrow> drop_uploads h ups invalid_ticket
      | Inr u \<Rightarrow> catchM (beside (if ups = [] then create_ticket r acc inp else create_ticket_with_attachments r acc inp ups))
          (\<lambda>e. drop_uploads h ups (support_refusal e)) (\<lambda>(k, ms). ret (Replied 201 (TicketOut k ms)))))" for g body acc r
    unfolding parse_create_ticket_def out by (intro owns_uploads h create)
  have serve: "keeps (owns K) (serve_support m)" if "\<And>A B. keeps (stored A B) m" for m :: "'x support_op"
    unfolding serve_support_def by (intro keeps_intros owns_beside that)
  have reads: "keeps (stored A B) (list_tickets r acc st n k)" "keeps (stored A B) (get_ticket r acc i)"
    "keeps (stored A B) (get_attachment acc i a)" for A B r acc st n k i a
    unfolding list_tickets_def get_ticket_def get_attachment_def load_attachments_def Let_def by (intro keeps_intros)+
  show ?thesis
    by (cases call; simp only: support_route.simps;
        unfold support_list_tickets_def support_create_ticket_def support_get_ticket_def
          download_user_attachment_def download_attachment_def support_add_user_message_def change_user_status_def
          list_admin_tickets_def get_admin_ticket_def download_admin_attachment_def update_admin_ticket_def
          support_add_admin_message_def close_admin_ticket_def discord_webhook_def email_webhook_def Let_def;
        intro owns_guards owns_limiter ticket post keeps_intros serve reads stored_methods stored_inbound)
qed

section \<open>Properties\<close>

lemma signed_body_cases:
  "signed_body h secret rq bytes m s = (Inl (Refused 401 ''invalid_signature'' m), s)
   \<or> (\<exists>body. bytes = Some body \<and> trim_space secret \<noteq> []
        \<and> hex_decode (trim_space (header rq ''X-Sta-Signature''))
            = Some (c_hmac_sha256 (e_crypto (sh_env h)) secret body))"
  by (auto simp: signed_body_def verify_webhook_signature_def is_blank_def constant_time_string_equal_def
      split: option.splits)


text \<open>
  Property C27. A webhook whose body does not carry the HMAC of its bytes under the configured secret,
  and every webhook while no secret is configured, is refused and changes nothing.
\<close>

theorem webhook_needs_signature:
  "((\<exists>m. support_route h rq (DiscordHookCall bytes) s = (Inl (Refused 401 ''invalid_signature'' m), s))
      \<or> (\<exists>body. bytes = Some body \<and> trim_space (sh_discord_secret h) \<noteq> []
          \<and> hex_decode (trim_space (header rq ''X-Sta-Signature''))
              = Some (c_hmac_sha256 (e_crypto (sh_env h)) (sh_discord_secret h) body)))
   \<and> ((\<exists>m. support_route h rq (EmailHookCall bytes) s = (Inl (Refused 401 ''invalid_signature'' m), s))
      \<or> (\<exists>body. bytes = Some body \<and> trim_space (sh_email_secret h) \<noteq> []
          \<and> hex_decode (trim_space (header rq ''X-Sta-Signature''))
              = Some (c_hmac_sha256 (e_crypto (sh_env h)) (sh_email_secret h) body)))"
  using signed_body_cases[of h "sh_discord_secret h" rq bytes "''Discord webhook signature is invalid''" s]
    signed_body_cases[of h "sh_email_secret h" rq bytes "''Email webhook signature is invalid''" s]
  by (auto simp: discord_webhook_def email_webhook_def bindM_Inl_iff)


text \<open>A verified account with a live session uploads a file with a ticket that has no subject.\<close>

definition toy_support :: support_handler where
  "toy_support = \<lparr>sh_auth = toy_service, sh_repo = support_demo,
     sh_blobs = Some \<lparr>bs_put = (\<lambda>k. True), bs_remove = (\<lambda>k. True), bs_sign = (\<lambda>k d. Some k)\<rparr>,
     sh_discord_secret = ''secret'', sh_email_secret = [], sh_lookup_key = [], sh_distributed = NoDistributed,
     sh_scanner = None, sh_discord_json = (\<lambda>b. Some demo_delivery), sh_email_json = (\<lambda>b. None)\<rparr>"

definition toy_form_request :: request where
  "toy_form_request = (toy_request ''/api/v1/support/tickets'')\<lparr>rq_headers :=
     [(''X-Csrf-Token'', toy_token 4), (''Content-Type'', ''multipart/form-data; boundary=b'')]\<rparr>"

definition toy_form :: form where
  "toy_form = \<lparr>fm_value = (\<lambda>k. if k = ''subject'' then [] else ''other''), fm_attachments = [],
     fm_file = [\<lparr>up_name = ''a.txt'', up_declared = ''text/plain'', up_data = Some ''hello''\<rparr>]\<rparr>"

definition toy_side :: "support_side state" where
  "toy_side = (toy_logged_in\<lparr>w_db := (w_db toy_logged_in)\<lparr>accounts := [toy_account\<lparr>a_verified_at := Some 0\<rparr>]\<rparr>,
     blobs := [''old'']\<rparr>, (no_tickets, None))"

definition toy_upload :: support_call where
  "toy_upload = CreateTicketCall \<lparr>bd_json = None, bd_form = Some toy_form\<rparr>"



end
