(* ===== verification/SupportGateway.thy ===== *)
theory SupportGateway imports SupportInvariants begin

text \<open>
  The Discord gateway of customer support (internal/support/gateway.go): one connection reads
  frames until it ends, hands the messages of the guild to the repository and answers
  heartbeats; the caller reconnects with a growing pause. The socket is the list of frames it
  delivers, each with whether an answer to it can be sent; the JSON decoders and the parser of
  timestamps are parameters. The timer that sends heartbeats by itself is left out.
\<close>

section \<open>Frames\<close>

definition op_dispatch :: int where "op_dispatch = 0"
definition op_heartbeat :: int where "op_heartbeat = 1"
definition op_reconnect :: int where "op_reconnect = 7"
definition op_invalid_session :: int where "op_invalid_session = 9"
definition op_hello :: int where "op_hello = 10"

text \<open>\<^verbatim>\<open>1 | 1 << 9 | 1 << 15\<close>: guilds, guild messages, message content.\<close>

definition gateway_intents :: int where
  "gateway_intents = 1 + 2 ^ 9 + 2 ^ 15"

record envelope =
  en_op :: int
  en_seq :: "int option"
  en_event :: string
  en_data :: string

record gateway_message =
  gm_id :: string
  gm_channel :: string
  gm_guild :: string
  gm_content :: string
  gm_timestamp :: string
  gm_author :: string
  gm_bot :: bool

record gateway =
  gw_token :: string
  gw_guild :: string
  gw_repo :: support_repo
  gw_lookup_key :: string
  gw_hello :: "string \<Rightarrow> int option"
  gw_message :: "string \<Rightarrow> gateway_message option"
  gw_time :: "string \<Rightarrow> time option"

definition gateway_configured :: "gateway \<Rightarrow> bool" where
  "gateway_configured g \<longleftrightarrow> \<not> is_blank (gw_token g) \<and> \<not> is_blank (gw_guild g)"

datatype gateway_send = SendIdentify string int | SendHeartbeat "int option"

datatype gateway_end =
    NoHello | BadInterval | IdentifyFailed | ReceiveFailed | HeartbeatFailed | ReconnectAsked | SessionRejected

section \<open>Messages\<close>

text \<open>Errors are logged at most.\<close>

definition gateway_accepts :: "gateway \<Rightarrow> gateway_message \<Rightarrow> bool" where
  "gateway_accepts g m \<longleftrightarrow> gm_guild m = gw_guild g \<and> \<not> gm_bot m \<and> \<not> is_blank (gm_id m) \<and> \<not> is_blank (gm_channel m)"

definition imported :: "gateway \<Rightarrow> gateway_message \<Rightarrow> time \<Rightarrow> external_message" where
  "imported g m t = \<lparr>x_channel = gm_channel m, x_id = gm_id m, x_author = gm_author m, x_body = gm_content m,
     x_operation = Some OpCreate,
     x_created = (let c = (if gm_timestamp m = [] then t
                           else case gw_time g (gm_timestamp m) of None \<Rightarrow> t | Some c \<Rightarrow> c)
                  in if c = zero_time then None else Some c)\<rparr>"

definition gateway_handle :: "gateway \<Rightarrow> string \<Rightarrow> unit support_op" where
  "gateway_handle g raw =
     (case gw_message g raw of
        None \<Rightarrow> ret ()
      | Some m \<Rightarrow>
          if \<not> gateway_accepts g m then ret ()
          else bindM clock (\<lambda>t. ignoreM (apply_discord_message (gw_repo g) (imported g m t) (gw_lookup_key g)) (ret ())))"

section \<open>A connection\<close>

type_synonym frames = "(envelope \<times> bool) list"

definition seq_after :: "int option \<Rightarrow> envelope \<Rightarrow> int option" where
  "seq_after seq x = (case en_seq x of None \<Rightarrow> seq | Some n \<Rightarrow> Some n)"

text \<open>What is sent is accumulated in reverse order.\<close>

fun gateway_loop ::
  "gateway \<Rightarrow> frames \<Rightarrow> int option \<Rightarrow> gateway_send list \<Rightarrow> (gateway_end \<times> gateway_send list) support_op" where
  "gateway_loop g [] seq out = ret (ReceiveFailed, out)"
| "gateway_loop g ((x, ok) # xs) seq out =
     (let now_seq = seq_after seq x in
      if en_op x = op_dispatch then
        bindM (if en_event x = ''MESSAGE_CREATE'' then gateway_handle g (en_data x) else ret ()) (\<lambda>_.
        gateway_loop g xs now_seq out)
      else if en_op x = op_heartbeat then
        (if ok then gateway_loop g xs now_seq (SendHeartbeat now_seq # out) else ret (HeartbeatFailed, out))
      else if en_op x = op_reconnect then ret (ReconnectAsked, out)
      else if en_op x = op_invalid_session then ret (SessionRejected, out)
      else gateway_loop g xs now_seq out)"

definition run_connection :: "gateway \<Rightarrow> frames \<Rightarrow> (gateway_end \<times> gateway_send list) support_op" where
  "run_connection g fs =
     (case fs of
        [] \<Rightarrow> ret (ReceiveFailed, [])
      | (x, ok) # xs \<Rightarrow>
          if en_op x \<noteq> op_hello then ret (NoHello, [])
          else if (case gw_hello g (en_data x) of None \<Rightarrow> True | Some n \<Rightarrow> n < 1000) then ret (BadInterval, [])
          else if \<not> ok then ret (IdentifyFailed, [])
          else gateway_loop g xs None [SendIdentify (gw_token g) gateway_intents])"

text \<open>The pause before the next connection.\<close>

definition next_pause :: "duration \<Rightarrow> duration" where
  "next_pause b = (if b < 30 * second then min (2 * b) (30 * second) else b)"

text \<open>\<^verbatim>\<open>Run\<close>: connections one after the other until the context ends; \<open>pauses\<close> are what it waits.\<close>

fun gateway_run :: "gateway \<Rightarrow> frames list \<Rightarrow> duration \<Rightarrow> duration list support_op" where
  "gateway_run g [] pause = ret []"
| "gateway_run g (fs # rest) pause =
     bindM (run_connection g fs) (\<lambda>_. bindM (gateway_run g rest (next_pause pause)) (\<lambda>ps. ret (pause # ps)))"

section \<open>What it does\<close>

text \<open>Each pause is at least a second and at most thirty, and they never shrink.\<close>

lemma next_pause_bounds: "second \<le> b \<Longrightarrow> b \<le> 30 * second \<Longrightarrow> b \<le> next_pause b \<and> next_pause b \<le> 30 * second"
  by (auto simp: next_pause_def)

lemma gateway_run_pauses:
  "gateway_run g fss pause s = (Inr ps, s') \<Longrightarrow> second \<le> pause \<Longrightarrow> pause \<le> 30 * second \<Longrightarrow>
     sorted (pause # ps) \<and> (\<forall>p \<in> set ps. second \<le> p \<and> p \<le> 30 * second) \<and> length ps = length fss"
proof (induction fss arbitrary: pause s ps)
  case (Cons fs fss)
  from Cons.prems(1) obtain s1 qs where rest: "gateway_run g fss (next_pause pause) s1 = (Inr qs, s')" and ps: "ps = pause # qs"
    by auto
  from next_pause_bounds[OF Cons.prems(2,3)] Cons.prems(2) have b: "pause \<le> next_pause pause"
    "second \<le> next_pause pause" "next_pause pause \<le> 30 * second" by auto
  from Cons.IH[OF rest b(2,3)] b(1) Cons.prems(2,3) ps show ?case by auto
qed simp

text \<open>The gateway is one more caller of the repository: its runs are steps of \<^const>\<open>support_step\<close>.\<close>

lemma gateway_handle_steps:
  assumes "gateway_handle g raw s = (x, s')"
  shows "(support_step (gw_repo g) send)\<^sup>*\<^sup>* s s'"
proof -
  have "s' = s \<or> (\<exists>m t y. apply_discord_message (gw_repo g) (imported g m t) (gw_lookup_key g) s = (y, s'))"
    using assms by (auto simp: gateway_handle_def ignoreM_def split: option.splits if_splits) (metis prod.collapse)
  then show ?thesis by (auto intro: support_step.discord)
qed

lemma gateway_loop_steps:
  "gateway_loop g fs seq out s = (x, s') \<Longrightarrow> (support_step (gw_repo g) send)\<^sup>*\<^sup>* s s'"
proof (induction g fs seq out arbitrary: s rule: gateway_loop.induct)
  case (2 g y ok xs seq out)
  let ?m = "if en_event y = ''MESSAGE_CREATE'' then gateway_handle g (en_data y) else ret ()"
  let ?seq = "seq_after seq y"
  show ?case
  proof (cases "en_op y = op_dispatch")
    case True
    obtain r s1 where m: "?m s = (r, s1)" by (rule prod.exhaust)
    have first: "(support_step (gw_repo g) send)\<^sup>*\<^sup>* s s1"
      using m gateway_handle_steps by (auto split: if_splits)
    show ?thesis
    proof (cases r)
      case (Inl e)
      with True m 2(4) first show ?thesis by (simp add: Let_def bindM_def)
    next
      case (Inr u)
      with True m 2(4) have "gateway_loop g xs ?seq out s1 = (x, s')" by (simp add: Let_def bindM_def)
      from 2(1)[OF refl True this] first show ?thesis by (rule rtranclp_trans[rotated])
    qed
  next
    case False
    with 2 show ?thesis by (auto simp: Let_def split: if_splits)
  qed
qed simp

lemma run_connection_steps: "run_connection g fs s = (x, s') \<Longrightarrow> (support_step (gw_repo g) send)\<^sup>*\<^sup>* s s'"
  by (auto simp: run_connection_def split: list.splits if_splits intro: gateway_loop_steps)

end
