(* ===== verification/GoDate.thy ===== *)
theory GoDate imports GoTime begin

text \<open>
  Calendar years in \<^verbatim>\<open>time.Time.AddDate(1, 0, 0)\<close> (UTC). Days are counted from 1 March of
  year 0, so that a leap day is the last day of its year: adding a year keeps the day within the
  year, and 29 February becomes 1 March of a common year, as Go normalises it.
\<close>

definition day_length :: duration where
  "day_length = 24 * hour"

text \<open>The first day of a year that begins in March, and the year a day is in.\<close>

definition march_first :: "int \<Rightarrow> int" where
  "march_first y = 365 * y + y div 4 - y div 100 + y div 400"

definition march_year :: "int \<Rightarrow> int" where
  "march_year z =
     (let era = z div 146097; doe = z mod 146097;
          yoe = (doe - doe div 1460 + doe div 36524 - doe div 146096) div 365
      in era * 400 + yoe)"

definition epoch_day :: int where
  "epoch_day = 719468"

definition add_year :: "time \<Rightarrow> time" where
  "add_year t =
     (let z = t div day_length + epoch_day; y = march_year z
      in (march_first (y + 1) + (z - march_first y) - epoch_day) * day_length + t mod day_length)"

lemma div_next:
  fixes n :: int
  assumes "1 < n"
  shows "(y + 1) div n = y div n + (if n dvd y + 1 then 1 else 0)"
proof -
  let ?q = "y div n" let ?r = "y mod n"
  have y: "y = n * ?q + ?r" by simp
  have r: "0 \<le> ?r" "?r < n" using assms by simp_all
  show ?thesis
  proof (cases "?r + 1 = n")
    case True
    have "y + 1 = n * ?q + (?r + 1)" using y by linarith
    then have e: "y + 1 = n * (?q + 1)" unfolding True by (simp only: distrib_left mult_1_right)
    then have "(y + 1) div n = ?q + 1" using assms by simp
    moreover have "n dvd y + 1" unfolding e by simp
    ultimately show ?thesis by simp
  next
    case False
    with r have lt: "0 < ?r + 1" "?r + 1 < n" by simp_all
    have e: "y + 1 = (?r + 1) + n * ?q" using y by linarith
    have "(y + 1) div n = (?r + 1) div n + ?q"
      unfolding e using assms by (simp only: div_mult_self2)
    also have "(?r + 1) div n = 0" using lt by (intro div_pos_pos_trivial) simp_all
    finally have "(y + 1) div n = ?q" by simp
    moreover have "\<not> n dvd y + 1"
    proof
      assume "n dvd y + 1"
      then have "n dvd ?r + 1" unfolding e by (simp only: dvd_add_left_iff dvd_triv_left)
      with lt show False by (auto dest: zdvd_imp_le)
    qed
    ultimately show ?thesis by simp
  qed
qed

lemma march_first_step: "march_first (y + 1) - march_first y = 365 \<or> march_first (y + 1) - march_first y = 366"
proof -
  have "(4 :: int) dvd y + 1" if "(100 :: int) dvd y + 1" using that by (rule dvd_trans[rotated]) simp
  moreover have "(100 :: int) dvd y + 1" if "(400 :: int) dvd y + 1" using that by (rule dvd_trans[rotated]) simp
  moreover have "march_first (y + 1) - march_first y = 365 + (if (4 :: int) dvd y + 1 then 1 else 0)
      - (if (100 :: int) dvd y + 1 then 1 else 0) + (if (400 :: int) dvd y + 1 then 1 else 0)"
    unfolding march_first_def by (simp only: div_next[of 4] div_next[of 100] div_next[of 400]) simp
  ultimately show ?thesis by (simp split: if_split_asm if_split)
qed

text \<open>A year is 365 or 366 days.\<close>

lemma add_year_length: "add_year t - t = 365 * day_length \<or> add_year t - t = 366 * day_length"
proof -
  let ?z = "t div day_length + epoch_day" let ?y = "march_year ?z"
  have "add_year t = (march_first (?y + 1) - march_first ?y) * day_length + (t div day_length * day_length + t mod day_length)"
    by (simp add: add_year_def Let_def algebra_simps)
  then have "add_year t - t = (march_first (?y + 1) - march_first ?y) * day_length" by simp
  with march_first_step[of ?y] show ?thesis by (elim disjE) simp_all
qed

lemma add_year_later: "t < add_year t"
  using add_year_length[of t] by (auto simp: day_length_def)

text \<open>29 February 2024 becomes 1 March 2025; 15 January 2024 becomes 15 January 2025.\<close>

lemma add_year_examples:
  "add_year (1709164800 * second) = 1740787200 * second" "add_year (1705276800 * second) = 1736899200 * second"
  by code_simp+

end
