(* ===== verification/VerificationStore.thy ===== *)
theory VerificationStore imports Components GoDate "HOL-Library.List_Lexorder" begin

text \<open>
  Student verification, the repository (internal/verification/model.go and postgres_repository.go):
  requests by school e-mail or by document, one-time codes with their attempts, the review by an
  administrator, the list of school domains, and the annual clean-up.
  Schools and programmes belong to other components; their keys are here for the foreign keys.
  The two limiters of the component stand with its tables; no transaction touches them.
\<close>

section \<open>Tables\<close>

datatype ver_method = MethodSchoolEmail | MethodDocument

record domain_row =
  vd_id :: uuid
  vd_school :: string
  vd_domain :: string
  vd_active :: bool
  vd_by :: "uuid option"
  vd_created :: time

record ver_request_row =
  vr_id :: uuid
  vr_account :: uuid
  vr_year :: int
  vr_school :: string
  vr_program :: "string option"
  vr_method :: ver_method
  vr_status :: string
  vr_email_ct :: "string option"
  vr_email_hash :: "string option"
  vr_reason :: "string option"
  vr_reviewer :: "uuid option"
  vr_reviewed :: "time option"
  vr_created :: time

record ver_document_row =
  vdoc_id :: uuid
  vdoc_request :: uuid
  vdoc_name :: string
  vdoc_key :: string
  vdoc_mime :: string
  vdoc_size :: int
  vdoc_sha256 :: string
  vdoc_status :: string
  vdoc_reason :: "string option"
  vdoc_reviewer :: "uuid option"
  vdoc_reviewed :: "time option"
  vdoc_created :: time

record code_row =
  vc_id :: uuid
  vc_request :: uuid
  vc_hash :: string
  vc_expires :: time
  vc_attempts :: int
  vc_consumed :: "time option"
  vc_created :: time

record student_row =
  stu_id :: uuid
  stu_account :: uuid
  stu_source :: "uuid option"
  stu_year :: int
  stu_school :: string
  stu_program :: "string option"
  stu_method :: ver_method
  stu_status :: string
  stu_verified :: time
  stu_expires :: time
  stu_by :: "uuid option"

record ver_event =
  ve_request :: "uuid option"
  ve_student :: "uuid option"
  ve_actor :: "uuid option"
  ve_action :: string
  ve_from :: string
  ve_to :: string
  ve_reason :: string

record run_row =
  run_id :: uuid
  run_year :: int
  run_status :: string
  run_documents :: nat
  run_requests :: nat
  run_promoted :: nat
  run_error :: "string option"
  run_completed :: "time option"

record ver_tables =
  ver_schools :: "string list"
  ver_programs :: "(int \<times> string \<times> string) list"
  ver_domains :: "domain_row list"
  ver_requests :: "ver_request_row list"
  ver_documents :: "ver_document_row list"
  ver_codes :: "code_row list"
  ver_students :: "student_row list"
  ver_events :: "ver_event list"
  ver_runs :: "run_row list"
  ver_email_rate :: "limiter option"
  ver_upload_rate :: "limiter option"

datatype ver_error =
    VerNotFound | VerForbidden | VerConflict | VerInvalid | VerInvalidCode | VerInvalidStatus | VerAdminRequired
  | VerNoRows | VerSQL | VerCrypto crypto_error | VerNotif notif_error | VerRate | VerUnconfigured | VerRemove
  | VerStuck

type_synonym 'a ver_op = "(ver_tables state, ver_error, 'a) op"

text \<open>\<^verbatim>\<open>mapVerificationError\<close> (it leaves \<^verbatim>\<open>pgx.ErrNoRows\<close> alone), and errors passed on as they are.\<close>

fun map_verification_error :: "stmt_error \<Rightarrow> ver_error" where
  "map_verification_error SNoRows = VerNoRows"
| "map_verification_error SUnique = VerConflict"
| "map_verification_error SForeign = VerNotFound"
| "map_verification_error SCheck = VerInvalid"
| "map_verification_error SFail = VerSQL"

definition ver_raw :: "stmt_error \<Rightarrow> ver_error" where
  "ver_raw e = (if e = SNoRows then VerNoRows else VerSQL)"

definition or_missing :: "ver_error \<Rightarrow> stmt_error \<Rightarrow> ver_error" where
  "or_missing e x = (if x = SNoRows then e else VerSQL)"

section \<open>Values\<close>

record ver_request =
  rv_id :: uuid
  rv_year :: int
  rv_school :: string
  rv_program :: string
  rv_method :: ver_method
  rv_status :: string
  rv_documents :: nat
  rv_created :: time
  rv_reviewed :: "time option"

record ver_document =
  dv_id :: uuid
  dv_request :: uuid
  dv_name :: string
  dv_mime :: string
  dv_size :: int
  dv_sha256 :: string
  dv_status :: string
  dv_reason :: string
  dv_reviewed :: "time option"
  dv_created :: time
  dv_key :: string

record ver_domain =
  ev_id :: uuid
  ev_school :: string
  ev_domain :: string
  ev_active :: bool
  ev_created :: time

record student_verification =
  sver_id :: uuid
  sver_year :: int
  sver_school :: string
  sver_program :: string
  sver_method :: ver_method
  sver_status :: string
  sver_verified :: time
  sver_expires :: time

record ver_input =
  vi_year :: int
  vi_school :: string
  vi_program :: string
  vi_email :: string

record review_input =
  ri_approved :: bool
  ri_reason :: string

record review_result =
  rr_request :: ver_request
  rr_student :: "student_verification option"

record cleanup_report =
  cr_year :: int
  cr_documents :: nat
  cr_requests :: nat
  cr_promoted :: nat

definition or_empty :: "string option \<Rightarrow> string" where
  "or_empty o1 = (case o1 of None \<Rightarrow> [] | Some s \<Rightarrow> s)"

definition documents_of :: "ver_tables \<Rightarrow> uuid \<Rightarrow> ver_document_row list" where
  "documents_of t i = filter (\<lambda>d. vdoc_request d = i) (ver_documents t)"

definition ver_request_of :: "ver_request_row \<Rightarrow> nat \<Rightarrow> ver_request" where
  "ver_request_of r n = \<lparr>rv_id = vr_id r, rv_year = vr_year r, rv_school = vr_school r,
     rv_program = or_empty (vr_program r), rv_method = vr_method r, rv_status = vr_status r,
     rv_documents = n, rv_created = vr_created r, rv_reviewed = vr_reviewed r\<rparr>"

definition ver_document_of :: "ver_document_row \<Rightarrow> ver_document" where
  "ver_document_of d = \<lparr>dv_id = vdoc_id d, dv_request = vdoc_request d, dv_name = vdoc_name d,
     dv_mime = vdoc_mime d, dv_size = vdoc_size d, dv_sha256 = vdoc_sha256 d, dv_status = vdoc_status d,
     dv_reason = or_empty (vdoc_reason d), dv_reviewed = vdoc_reviewed d, dv_created = vdoc_created d,
     dv_key = vdoc_key d\<rparr>"

definition ver_domain_of :: "domain_row \<Rightarrow> ver_domain" where
  "ver_domain_of d = \<lparr>ev_id = vd_id d, ev_school = vd_school d, ev_domain = vd_domain d,
     ev_active = vd_active d, ev_created = vd_created d\<rparr>"

definition student_of :: "student_row \<Rightarrow> student_verification" where
  "student_of r = \<lparr>sver_id = stu_id r, sver_year = stu_year r, sver_school = stu_school r,
     sver_program = or_empty (stu_program r), sver_method = stu_method r, sver_status = stu_status r,
     sver_verified = stu_verified r, sver_expires = stu_expires r\<rparr>"

section \<open>Requests and codes\<close>

definition ver_is_admin :: "uuid \<Rightarrow> bool ver_op" where
  "ver_is_admin acc = map_errM ver_raw (stmt_rows (\<lambda>d t. (acc, ''admin'') \<in> set (roles d)))"

text \<open>The check in front of the administrator's operations.\<close>

definition as_ver_admin :: "uuid \<Rightarrow> 'a ver_op \<Rightarrow> 'a ver_op" where
  "as_ver_admin acc m = bindM (ver_is_admin acc) (\<lambda>ok. if \<not> ok then fail VerAdminRequired else m)"

definition is_school_email_allowed :: "string \<Rightarrow> string \<Rightarrow> bool ver_op" where
  "is_school_email_allowed school domain = map_errM ver_raw (stmt_rows (\<lambda>d t.
     list_ex (\<lambda>r. vd_school r = school \<and> vd_domain r = domain \<and> vd_active r) (ver_domains t)))"

definition nullable_code :: "string \<Rightarrow> string option" where
  "nullable_code v = (if trim_space v = [] then None else Some (trim_space v))"

definition three_digits :: "string \<Rightarrow> bool" where
  "three_digits s \<longleftrightarrow> length s = 3 \<and> list_all is_digit_char s"

definition new_request ::
  "uuid \<Rightarrow> ver_input \<Rightarrow> ver_method \<Rightarrow> string option \<Rightarrow> string option \<Rightarrow> time \<Rightarrow> db \<Rightarrow> ver_request_row" where
  "new_request acc i m ct hash ts d = \<lparr>vr_id = next_id d, vr_account = acc, vr_year = vi_year i,
     vr_school = vi_school i, vr_program = nullable_code (vi_program i), vr_method = m,
     vr_status = ''pending'', vr_email_ct = ct, vr_email_hash = hash, vr_reason = None, vr_reviewer = None,
     vr_reviewed = None, vr_created = ts\<rparr>"

definition ver_request_chk :: "ver_request_row \<Rightarrow> bool" where
  "ver_request_chk r \<longleftrightarrow> 100 \<le> vr_year r \<and> vr_year r \<le> 999
     \<and> (case vr_program r of None \<Rightarrow> True | Some p \<Rightarrow> three_digits p)
     \<and> (vr_email_ct r \<noteq> None \<and> vr_email_hash r \<noteq> None \<longleftrightarrow> vr_method r = MethodSchoolEmail)
     \<and> (vr_email_ct r = None \<longleftrightarrow> vr_email_hash r = None)"

definition ver_request_fk :: "db \<Rightarrow> ver_tables \<Rightarrow> ver_request_row \<Rightarrow> bool" where
  "ver_request_fk d t r \<longleftrightarrow> has_account d (vr_account r) \<and> vr_school r \<in> set (ver_schools t)"

definition insert_request :: "uuid \<Rightarrow> ver_input \<Rightarrow> ver_method \<Rightarrow> string option \<Rightarrow> string option
    \<Rightarrow> (ver_tables state, stmt_error, ver_request) op" where
  "insert_request acc i m ct hash =
     bindM db_clock (\<lambda>ts. stmt (\<lambda>x. let d = fst x; t = snd x; r = new_request acc i m ct hash ts d in
       if vr_program r \<noteq> None \<and> (vr_year r, vr_school r, or_empty (vr_program r)) \<notin> set (ver_programs t)
       then (Inl SNoRows, x)
       else if \<not> ver_request_chk r then (Inl SCheck, x)
       else if \<not> ver_request_fk d t r then (Inl SForeign, x)
       else (Inr (ver_request_of r 0),
             (d\<lparr>next_id := Suc (next_id d)\<rparr>, t\<lparr>ver_requests := ver_requests t @ [r]\<rparr>))))"

definition create_request ::
  "uuid \<Rightarrow> ver_input \<Rightarrow> ver_method \<Rightarrow> string option \<Rightarrow> string option \<Rightarrow> ver_request ver_op" where
  "create_request acc i m ct hash =
     map_errM (\<lambda>e. if e = SNoRows then VerForbidden else map_verification_error e) (insert_request acc i m ct hash)"

definition create_email_request :: "uuid \<Rightarrow> ver_input \<Rightarrow> string \<Rightarrow> string \<Rightarrow> ver_request ver_op" where
  "create_email_request acc i ct hash = create_request acc i MethodSchoolEmail (Some ct) (Some hash)"

definition create_document_request :: "uuid \<Rightarrow> ver_input \<Rightarrow> ver_request ver_op" where
  "create_document_request acc i = create_request acc i MethodDocument None None"

definition find_request :: "ver_tables \<Rightarrow> uuid \<Rightarrow> ver_request_row option" where
  "find_request t i = List.find (\<lambda>r. vr_id r = i) (ver_requests t)"

definition new_code :: "uuid \<Rightarrow> string \<Rightarrow> time \<Rightarrow> time \<Rightarrow> db \<Rightarrow> code_row" where
  "new_code i hash expires ts d = \<lparr>vc_id = next_id d, vc_request = i, vc_hash = hash, vc_expires = expires,
     vc_attempts = 0, vc_consumed = None, vc_created = ts\<rparr>"

definition open_code :: "uuid \<Rightarrow> code_row \<Rightarrow> bool" where
  "open_code i c \<longleftrightarrow> vc_request c = i \<and> vc_consumed c = None"

definition create_email_challenge :: "uuid \<Rightarrow> string \<Rightarrow> time \<Rightarrow> unit ver_op" where
  "create_email_challenge i hash expires =
     bindM db_clock (\<lambda>ts. in_tx ver_raw (
       bindM (map_errM ver_raw (stmt_write (\<lambda>t. t\<lparr>ver_codes :=
         update_where (open_code i) (\<lambda>c. c\<lparr>vc_consumed := Some ts\<rparr>) (ver_codes t)\<rparr>) (\<lambda>_ _. ()))) (\<lambda>_.
       bindM (map_errM (or_missing VerNotFound) (stmt_row (\<lambda>d t. map_option vr_status (find_request t i)))) (\<lambda>status.
       if status \<noteq> ''pending'' then fail VerInvalidStatus
       else map_errM map_verification_error (stmt_add (\<lambda>d t. hash \<noteq> []) (\<lambda>_ _. True) (\<lambda>d t. find_request t i \<noteq> None)
              (\<lambda>(d, t). (d\<lparr>next_id := Suc (next_id d)\<rparr>, t\<lparr>ver_codes := ver_codes t @ [new_code i hash expires ts d]\<rparr>))
              (\<lambda>_ _. ()))))))"

text \<open>The newest open code of the account's request that has not expired.\<close>

definition live_code :: "ver_tables \<Rightarrow> uuid \<Rightarrow> uuid \<Rightarrow> time \<Rightarrow> (code_row \<times> ver_request_row) option" where
  "live_code t acc i at =
     (case sort_key (\<lambda>c. - vc_created c) (filter (\<lambda>c. open_code i c \<and> at < vc_expires c) (ver_codes t)) of
        [] \<Rightarrow> None
      | c # _ \<Rightarrow> map_option (Pair c) (List.find (\<lambda>r. vr_id r = i \<and> vr_account r = acc) (ver_requests t)))"

definition update_code :: "uuid \<Rightarrow> (code_row \<Rightarrow> code_row) \<Rightarrow> unit ver_op" where
  "update_code i f = map_errM ver_raw (stmt_insert
     (\<lambda>d t. list_all (\<lambda>c. vc_id c = i \<longrightarrow> 0 \<le> vc_attempts (f c) \<and> vc_attempts (f c) \<le> 5) (ver_codes t)) (\<lambda>_ _. True)
     (\<lambda>(d, t). (d, t\<lparr>ver_codes := update_where (\<lambda>c. vc_id c = i) f (ver_codes t)\<rparr>)) (\<lambda>_ _. ()))"

definition add_ver_event :: "ver_event \<Rightarrow> unit ver_op" where
  "add_ver_event e = map_errM ver_raw (stmt_insert
     (\<lambda>d t. \<not> pg_blank (ve_action e) \<and> (case ve_actor e of None \<Rightarrow> True | Some a \<Rightarrow> has_account d a)) (\<lambda>_ _. True)
     (\<lambda>(d, t). (d, t\<lparr>ver_events := ver_events t @ [e]\<rparr>)) (\<lambda>_ _. ()))"

text \<open>\<^verbatim>\<open>UPDATE accounts SET identity_status = s ... WHERE id = acc AND account_status = 'active'\<close>\<close>

definition set_identity :: "uuid \<Rightarrow> string \<Rightarrow> unit ver_op" where
  "set_identity acc s = bindM db_clock (\<lambda>ts. map_errM ver_raw (stmt_insert (\<lambda>_ _. True) (\<lambda>_ _. True)
     (\<lambda>(d, t). (d\<lparr>accounts := update_where (\<lambda>a. a_id a = acc \<and> a_status a = ''active'')
        (\<lambda>a. a\<lparr>a_identity := s, a_updated := ts\<rparr>) (accounts d)\<rparr>, t)) (\<lambda>_ _. ())))"

section \<open>Verifications\<close>

definition same_entitlement :: "uuid \<Rightarrow> ver_request \<Rightarrow> student_row \<Rightarrow> bool" where
  "same_entitlement acc q r \<longleftrightarrow> stu_account r = acc \<and> stu_year r = rv_year q \<and> stu_school r = rv_school q
     \<and> stu_program r = (if rv_program q = [] then None else Some (rv_program q))"

definition new_student :: "ver_request_row \<Rightarrow> ver_method \<Rightarrow> time \<Rightarrow> time \<Rightarrow> uuid option \<Rightarrow> db \<Rightarrow> student_row" where
  "new_student r m verified expires who d = \<lparr>stu_id = next_id d, stu_account = vr_account r,
     stu_source = Some (vr_id r), stu_year = vr_year r, stu_school = vr_school r,
     stu_program = (case vr_program r of None \<Rightarrow> None | Some p \<Rightarrow> if p = [] then None else Some p),
     stu_method = m, stu_status = ''active'', stu_verified = verified, stu_expires = expires, stu_by = who\<rparr>"

definition student_fk :: "db \<Rightarrow> ver_tables \<Rightarrow> student_row \<Rightarrow> bool" where
  "student_fk d t r \<longleftrightarrow> has_account d (stu_account r) \<and> stu_school r \<in> set (ver_schools t)
     \<and> (case stu_program r of None \<Rightarrow> True | Some p \<Rightarrow> (stu_year r, stu_school r, p) \<in> set (ver_programs t))
     \<and> (case stu_by r of None \<Rightarrow> True | Some a \<Rightarrow> has_account d a)"

text \<open>The unique index on account, year, school and \<^verbatim>\<open>COALESCE(program_code, '-')\<close>.\<close>

definition entitlement_key :: "student_row \<Rightarrow> uuid \<times> int \<times> string \<times> string" where
  "entitlement_key r = (stu_account r, stu_year r, stu_school r,
     case stu_program r of None \<Rightarrow> ''-'' | Some p \<Rightarrow> p)"

definition insert_student :: "uuid \<Rightarrow> ver_method \<Rightarrow> time \<Rightarrow> time \<Rightarrow> uuid option \<Rightarrow> (ver_tables state, stmt_error, uuid) op" where
  "insert_student i m verified expires who = stmt (\<lambda>x. let d = fst x; t = snd x in
     case find_request t i of
       None \<Rightarrow> (Inl SNoRows, x)
     | Some q \<Rightarrow>
         let r = new_student q m verified expires who d in
         if expires \<le> verified then (Inl SCheck, x)
         else if entitlement_key r \<in> entitlement_key ` set (ver_students t) then (Inl SUnique, x)
         else if \<not> student_fk d t r then (Inl SForeign, x)
         else (Inr (stu_id r), (d\<lparr>next_id := Suc (next_id d)\<rparr>, t\<lparr>ver_students := ver_students t @ [r]\<rparr>)))"

definition renew_student :: "uuid \<Rightarrow> uuid \<Rightarrow> ver_method \<Rightarrow> time \<Rightarrow> time \<Rightarrow> uuid option \<Rightarrow> (ver_tables state, stmt_error, unit) op" where
  "renew_student k i m verified expires who = stmt_add (\<lambda>d t. verified < expires) (\<lambda>_ _. True)
     (\<lambda>d t. find_request t i \<noteq> None \<and> (case who of None \<Rightarrow> True | Some a \<Rightarrow> has_account d a))
     (\<lambda>(d, t). (d, t\<lparr>ver_students := update_where (\<lambda>r. stu_id r = k)
        (\<lambda>r. r\<lparr>stu_source := Some i, stu_method := m, stu_status := ''active'', stu_verified := verified,
               stu_expires := expires, stu_by := who\<rparr>) (ver_students t)\<rparr>)) (\<lambda>_ _. ())"

definition upsert_verification ::
  "ver_request \<Rightarrow> ver_method \<Rightarrow> time \<Rightarrow> time \<Rightarrow> uuid option \<Rightarrow> student_verification ver_op" where
  "upsert_verification q m verified expires who =
     bindM (map_errM map_verification_error (stmt_rows (\<lambda>d t. map_option stu_id
         (case find_request t (rv_id q) of None \<Rightarrow> None
          | Some r \<Rightarrow> List.find (same_entitlement (vr_account r) q) (ver_students t))))) (\<lambda>found.
     bindM (map_errM map_verification_error (case found of
         None \<Rightarrow> insert_student (rv_id q) m verified expires who
       | Some k \<Rightarrow> bindM (renew_student k (rv_id q) m verified expires who) (\<lambda>_. ret k))) (\<lambda>k.
     map_errM ver_raw (stmt_row (\<lambda>d t. map_option student_of (List.find (\<lambda>r. stu_id r = k) (ver_students t))))))"

definition approve_request :: "uuid \<Rightarrow> time \<Rightarrow> unit ver_op" where
  "approve_request i at = map_errM ver_raw (stmt_write (\<lambda>t. t\<lparr>ver_requests :=
     update_where (\<lambda>r. vr_id r = i) (\<lambda>r. r\<lparr>vr_status := ''approved'', vr_reviewed := Some at\<rparr>) (ver_requests t)\<rparr>) (\<lambda>_ _. ()))"

text \<open>A wrong code is committed as an attempt before the error is returned.\<close>

definition accept_code :: "uuid \<Rightarrow> code_row \<Rightarrow> ver_request \<Rightarrow> time \<Rightarrow> time \<Rightarrow> student_verification ver_op" where
  "accept_code acc c q at expires =
     bindM (update_code (vc_id c) (\<lambda>c. c\<lparr>vc_consumed := Some at\<rparr>)) (\<lambda>_.
     bindM (approve_request (rv_id q) at) (\<lambda>_.
     bindM (upsert_verification q MethodSchoolEmail at expires None) (\<lambda>item.
     bindM (set_identity acc ''student'') (\<lambda>_.
     bindM (add_ver_event \<lparr>ve_request = Some (rv_id q), ve_student = Some (sver_id item), ve_actor = Some acc,
              ve_action = ''approved_by_school_email'', ve_from = ''pending'', ve_to = ''approved'', ve_reason = ''-''\<rparr>) (\<lambda>_.
     ret item)))))"

definition consume_email_code ::
  "uuid \<Rightarrow> uuid \<Rightarrow> string \<Rightarrow> time \<Rightarrow> time \<Rightarrow> student_verification ver_op" where
  "consume_email_code acc i hash at expires =
     bindM (in_tx ver_raw (
       bindM (map_errM (or_missing VerInvalidCode) (stmt_row (\<lambda>d t. live_code t acc i at))) (\<lambda>(c, r).
       let q = ver_request_of r 0 in
       if rv_status q \<noteq> ''pending'' \<or> 5 \<le> vc_attempts c then fail VerInvalidCode
       else if vc_hash c \<noteq> hash then
         bindM (update_code (vc_id c) (\<lambda>c. c\<lparr>vc_attempts := vc_attempts c + 1\<rparr>)) (\<lambda>_. ret None)
       else bindM (accept_code acc c q at expires) (\<lambda>item. ret (Some item)))))
       (\<lambda>res. case res of None \<Rightarrow> fail VerInvalidCode | Some item \<Rightarrow> ret item)"

section \<open>Documents\<close>

definition new_document :: "uuid \<Rightarrow> string \<Rightarrow> string \<Rightarrow> string \<Rightarrow> int \<Rightarrow> string \<Rightarrow> time \<Rightarrow> db \<Rightarrow> ver_document_row" where
  "new_document i name key mime nbytes sha ts d = \<lparr>vdoc_id = next_id d, vdoc_request = i, vdoc_name = name,
     vdoc_key = key, vdoc_mime = mime, vdoc_size = nbytes, vdoc_sha256 = sha, vdoc_status = ''pending'',
     vdoc_reason = None, vdoc_reviewer = None, vdoc_reviewed = None, vdoc_created = ts\<rparr>"

definition hex64 :: "string \<Rightarrow> bool" where
  "hex64 s \<longleftrightarrow> length s = 64 \<and> list_all (\<lambda>c. c \<in> set ''0123456789abcdef'') s"

definition create_document ::
  "uuid \<Rightarrow> uuid \<Rightarrow> string \<Rightarrow> string \<Rightarrow> string \<Rightarrow> int \<Rightarrow> string \<Rightarrow> ver_request ver_op" where
  "create_document acc i name key mime nbytes sha =
     bindM db_clock (\<lambda>ts. in_tx ver_raw (
       bindM (map_errM (or_missing VerNotFound) (stmt_row (\<lambda>d t.
           List.find (\<lambda>r. vr_id r = i \<and> vr_account r = acc) (ver_requests t)))) (\<lambda>r.
       if vr_method r \<noteq> MethodDocument \<or> vr_status r \<noteq> ''pending'' then fail VerInvalidStatus
       else
         bindM (map_errM map_verification_error (stmt_add
             (\<lambda>d t. 0 < nbytes \<and> hex64 sha \<and> rune_count mime \<le> 128)
             (\<lambda>d t. list_all (\<lambda>x. vdoc_key x \<noteq> key) (ver_documents t)) (\<lambda>d t. find_request t i \<noteq> None)
             (\<lambda>(d, t). (d\<lparr>next_id := Suc (next_id d)\<rparr>,
                t\<lparr>ver_documents := ver_documents t @ [new_document i name key mime nbytes sha ts d]\<rparr>)) (\<lambda>_ _. ()))) (\<lambda>_.
         bindM (map_errM ver_raw (stmt_rows (\<lambda>d t. length (documents_of t i)))) (\<lambda>n.
         ret (ver_request_of r n))))))"

definition list_documents :: "uuid \<Rightarrow> uuid \<Rightarrow> ver_document list ver_op" where
  "list_documents adm i =
     as_ver_admin adm (
       bindM (map_errM ver_raw (stmt_rows (\<lambda>d t. map ver_document_of
         (sort_key vdoc_created (sort_key vdoc_id (documents_of t i)))))) (\<lambda>items.
       if items \<noteq> [] then ret items
       else bindM (map_errM ver_raw (stmt_rows (\<lambda>d t. find_request t i \<noteq> None))) (\<lambda>known.
            if known then ret items else fail VerNotFound)))"

definition get_document :: "uuid \<Rightarrow> uuid \<Rightarrow> uuid \<Rightarrow> ver_document ver_op" where
  "get_document adm i k =
     as_ver_admin adm (map_errM (or_missing VerNotFound) (stmt_row (\<lambda>d t.
       map_option ver_document_of (List.find (\<lambda>x. vdoc_request x = i \<and> vdoc_id x = k) (ver_documents t)))))"

section \<open>Lists and review\<close>

definition requests_where :: "(ver_request_row \<Rightarrow> bool) \<Rightarrow> ver_request list ver_op" where
  "requests_where p = map_errM ver_raw (stmt_rows (\<lambda>d t.
     map (\<lambda>r. ver_request_of r (length (documents_of t (vr_id r))))
       (sort_key (\<lambda>r. - vr_created r) (filter p (ver_requests t)))))"

definition list_requests :: "uuid \<Rightarrow> ver_request list ver_op" where
  "list_requests acc = requests_where (\<lambda>r. vr_account r = acc)"

definition list_pending_requests :: "uuid \<Rightarrow> ver_request list ver_op" where
  "list_pending_requests adm = as_ver_admin adm (requests_where (\<lambda>r. vr_status r = ''pending''))"

definition nullif_empty :: "string \<Rightarrow> string option" where
  "nullif_empty s = (if s = [] then None else Some s)"

definition review_rows :: "uuid \<Rightarrow> string \<Rightarrow> string \<Rightarrow> uuid \<Rightarrow> time \<Rightarrow> ver_tables \<Rightarrow> ver_tables" where
  "review_rows i status reason adm ts t = t\<lparr>
     ver_requests := update_where (\<lambda>r. vr_id r = i) (\<lambda>r. r\<lparr>vr_status := status, vr_reason := nullif_empty reason,
        vr_reviewer := Some adm, vr_reviewed := Some ts\<rparr>) (ver_requests t)\<rparr>"

definition review_documents :: "uuid \<Rightarrow> string \<Rightarrow> string \<Rightarrow> uuid \<Rightarrow> time \<Rightarrow> ver_tables \<Rightarrow> ver_tables" where
  "review_documents i status reason adm ts t = t\<lparr>
     ver_documents := update_where (\<lambda>x. vdoc_request x = i) (\<lambda>x. x\<lparr>vdoc_status := status,
        vdoc_reason := nullif_empty reason, vdoc_reviewer := Some adm, vdoc_reviewed := Some ts\<rparr>) (ver_documents t)\<rparr>"

definition review_writes ::
  "uuid \<Rightarrow> uuid \<Rightarrow> review_input \<Rightarrow> time \<Rightarrow> time \<Rightarrow> time \<Rightarrow> uuid \<Rightarrow> ver_request \<Rightarrow> student_verification option ver_op" where
  "review_writes adm i input verified expires ts acc q =
     (let status = (if ri_approved input then ''approved'' else ''rejected'') in
      bindM (map_errM ver_raw (stmt_insert (\<lambda>d t. has_account d adm) (\<lambda>_ _. True)
          (\<lambda>(d, t). (d, review_rows i status (ri_reason input) adm ts t)) (\<lambda>_ _. ()))) (\<lambda>_.
      bindM (map_errM ver_raw (stmt_insert (\<lambda>d t. has_account d adm) (\<lambda>_ _. True)
          (\<lambda>(d, t). (d, review_documents i status (ri_reason input) adm ts t)) (\<lambda>_ _. ()))) (\<lambda>_.
      bindM (if \<not> ri_approved input then ret None
             else bindM (upsert_verification q MethodDocument verified expires (Some adm)) (\<lambda>item.
                  bindM (set_identity acc ''student'') (\<lambda>_. ret (Some item)))) (\<lambda>item.
      bindM (add_ver_event \<lparr>ve_request = Some i, ve_student = None, ve_actor = Some adm,
          ve_action = (if ri_approved input then ''approved_by_admin'' else ''rejected''), ve_from = ''pending'',
          ve_to = status, ve_reason = ri_reason input\<rparr>) (\<lambda>_.
      ret item)))))"

definition review_document_request ::
  "uuid \<Rightarrow> uuid \<Rightarrow> review_input \<Rightarrow> time \<Rightarrow> time \<Rightarrow> review_result ver_op" where
  "review_document_request adm i input verified expires =
     as_ver_admin adm (bindM db_clock (\<lambda>ts. in_tx ver_raw (
       bindM (map_errM (or_missing VerNotFound) (stmt_row (\<lambda>d t.
           map_option (\<lambda>r. (r, length (documents_of t i))) (find_request t i)))) (\<lambda>(r, n).
       let q = ver_request_of r n in
       if rv_method q \<noteq> MethodDocument \<or> rv_status q \<noteq> ''pending'' then fail VerInvalidStatus
       else if ri_approved input \<and> n = 0 then fail VerInvalid
       else bindM (review_writes adm i input verified expires ts (vr_account r) q) (\<lambda>item.
            ret \<lparr>rr_request = q\<lparr>rv_status := (if ri_approved input then ''approved'' else ''rejected''),
                   rv_reviewed := Some verified\<rparr>, rr_student = item\<rparr>)))))"

section \<open>Domains\<close>

text \<open>The label pattern of \<^verbatim>\<open>school_email_domains_format\<close> and of the service.\<close>

definition label_char :: "char \<Rightarrow> bool" where
  "label_char c \<longleftrightarrow> c \<in> set ''abcdefghijklmnopqrstuvwxyz0123456789''"

definition domain_label :: "string \<Rightarrow> bool" where
  "domain_label s \<longleftrightarrow> s \<noteq> [] \<and> length s \<le> 63 \<and> label_char (hd s) \<and> label_char (last s)
     \<and> list_all (\<lambda>c. label_char c \<or> c = CHR ''-'') s"

definition domain_pattern :: "string \<Rightarrow> bool" where
  "domain_pattern s \<longleftrightarrow> (let ls = split_on (CHR ''.'') s in 2 \<le> length ls \<and> list_all domain_label ls)"

definition new_domain :: "uuid \<Rightarrow> string \<Rightarrow> string \<Rightarrow> time \<Rightarrow> db \<Rightarrow> domain_row" where
  "new_domain adm school domain ts d = \<lparr>vd_id = next_id d, vd_school = school, vd_domain = domain,
     vd_active = True, vd_by = Some adm, vd_created = ts\<rparr>"

definition add_domain :: "uuid \<Rightarrow> string \<Rightarrow> string \<Rightarrow> ver_domain ver_op" where
  "add_domain adm school domain =
     as_ver_admin adm (bindM db_clock (\<lambda>ts. map_errM map_verification_error (stmt_add
       (\<lambda>d t. domain_pattern domain \<and> length domain \<le> 253)
       (\<lambda>d t. list_all (\<lambda>x. vd_school x \<noteq> school \<or> vd_domain x \<noteq> domain) (ver_domains t))
       (\<lambda>d t. school \<in> set (ver_schools t) \<and> has_account d adm)
       (\<lambda>(d, t). (d\<lparr>next_id := Suc (next_id d)\<rparr>, t\<lparr>ver_domains := ver_domains t @ [new_domain adm school domain ts d]\<rparr>))
       (\<lambda>d t. ver_domain_of (new_domain adm school domain ts d)))))"

text \<open>\<^verbatim>\<open>ORDER BY school_code, domain\<close>, in the order of bytes (the collation is not modelled).\<close>

definition list_domains :: "uuid \<Rightarrow> ver_domain list ver_op" where
  "list_domains adm =
     as_ver_admin adm (map_errM ver_raw (stmt_rows (\<lambda>d t. map ver_domain_of
       (sort_key vd_school (sort_key vd_domain (ver_domains t))))))"

definition set_domain_active :: "uuid \<Rightarrow> uuid \<Rightarrow> bool \<Rightarrow> unit ver_op" where
  "set_domain_active adm i active =
     as_ver_admin adm (bindM (map_errM ver_raw (stmt_write
         (\<lambda>t. t\<lparr>ver_domains := update_where (\<lambda>x. vd_id x = i) (\<lambda>x. x\<lparr>vd_active := active\<rparr>) (ver_domains t)\<rparr>)
         (\<lambda>d t. affected (\<lambda>x. vd_id x = i) (ver_domains t)))) (\<lambda>n.
       if n \<noteq> 1 then fail VerNotFound else ret ()))"

section \<open>The annual clean-up\<close>

text \<open>\<open>remove\<close> says which removals the object store performs; its effect is outside the transaction.\<close>

definition remove_blob :: "(string \<Rightarrow> bool) \<Rightarrow> string \<Rightarrow> (ver_tables state, 'e, bool) op" where
  "remove_blob remove key s =
     (if remove key then (Inr True, ((fst s)\<lparr>blobs := filter (\<lambda>k. k \<noteq> key) (blobs (fst s))\<rparr>, snd s))
      else (Inr False, s))"

fun remove_blobs :: "(string \<Rightarrow> bool) \<Rightarrow> string list \<Rightarrow> (ver_tables state, 'e, bool) op" where
  "remove_blobs remove [] = ret True"
| "remove_blobs remove (k # ks) = bindM (remove_blob remove k) (\<lambda>ok. if ok then remove_blobs remove ks else ret False)"

definition start_run :: "int \<Rightarrow> (ver_tables state, stmt_error, uuid \<times> string) op" where
  "start_run year = stmt (\<lambda>x. let d = fst x; t = snd x in
     case List.find (\<lambda>r. run_year r = year) (ver_runs t) of
       Some r \<Rightarrow> (Inr (run_id r, run_status r), x)
     | None \<Rightarrow> (Inr (next_id d, ''running''), (d\<lparr>next_id := Suc (next_id d)\<rparr>, t\<lparr>ver_runs := ver_runs t
         @ [\<lparr>run_id = next_id d, run_year = year, run_status = ''running'', run_documents = 0, run_requests = 0,
             run_promoted = 0, run_error = None, run_completed = None\<rparr>]\<rparr>)))"

definition update_run :: "uuid \<Rightarrow> (run_row \<Rightarrow> run_row) \<Rightarrow> unit ver_op" where
  "update_run i f = map_errM ver_raw (stmt_write (\<lambda>t. t\<lparr>ver_runs :=
     update_where (\<lambda>r. run_id r = i) f (ver_runs t)\<rparr>) (\<lambda>_ _. ()))"

definition year_requests :: "int \<Rightarrow> ver_tables \<Rightarrow> uuid set" where
  "year_requests year t = vr_id ` {r \<in> set (ver_requests t). vr_year r = year}"

definition year_keys :: "int \<Rightarrow> ver_tables \<Rightarrow> string list" where
  "year_keys year t = map vdoc_key (filter (\<lambda>x. vdoc_request x \<in> year_requests year t) (ver_documents t))"

text \<open>
  \<^verbatim>\<open>DELETE FROM verification_requests\<close>: documents and codes go with their request, verifications
  lose their source, and so would events - but the trigger on \<^verbatim>\<open>verification_events\<close> rejects every
  update, the one the foreign key makes included, and the statement fails.
\<close>

definition events_refer :: "uuid set \<Rightarrow> ver_tables \<Rightarrow> bool" where
  "events_refer gone t \<longleftrightarrow> list_ex (\<lambda>e. case ve_request e of None \<Rightarrow> False | Some i \<Rightarrow> i \<in> gone) (ver_events t)"

definition delete_requests :: "int \<Rightarrow> (ver_tables state, stmt_error, nat) op" where
  "delete_requests year = stmt (\<lambda>x. let d = fst x; t = snd x; gone = year_requests year t in
     if events_refer gone t then (Inl SFail, x)
     else (Inr (affected (\<lambda>r. vr_year r = year) (ver_requests t)),
       (d, t\<lparr>ver_requests := filter (\<lambda>r. vr_year r \<noteq> year) (ver_requests t),
             ver_documents := filter (\<lambda>y. vdoc_request y \<notin> gone) (ver_documents t),
             ver_codes := filter (\<lambda>c. vc_request c \<notin> gone) (ver_codes t),
             ver_students := update_where (\<lambda>r. case stu_source r of None \<Rightarrow> False | Some i \<Rightarrow> i \<in> gone)
                (\<lambda>r. r\<lparr>stu_source := None\<rparr>) (ver_students t)\<rparr>)))"

definition expire_students :: "time \<Rightarrow> unit ver_op" where
  "expire_students at = map_errM ver_raw (stmt_write (\<lambda>t. t\<lparr>ver_students :=
     update_where (\<lambda>r. stu_status r = ''active'' \<and> stu_expires r \<le> at) (\<lambda>r. r\<lparr>stu_status := ''expired''\<rparr>)
       (ver_students t)\<rparr>) (\<lambda>_ _. ()))"

definition no_entitlement :: "ver_tables \<Rightarrow> time \<Rightarrow> account_row \<Rightarrow> bool" where
  "no_entitlement t at a \<longleftrightarrow> a_identity a = ''student'' \<and> \<not> list_ex (\<lambda>r. stu_account r = a_id a
     \<and> stu_status r = ''active'' \<and> at < stu_expires r) (ver_students t)"

definition promote_seniors :: "time \<Rightarrow> nat ver_op" where
  "promote_seniors at = bindM db_clock (\<lambda>ts. map_errM ver_raw (stmt_insert (\<lambda>_ _. True) (\<lambda>_ _. True)
     (\<lambda>(d, t). (d\<lparr>accounts := update_where (no_entitlement t at)
        (\<lambda>a. a\<lparr>a_identity := ''senior'', a_updated := ts\<rparr>) (accounts d)\<rparr>, t))
     (\<lambda>d t. affected (no_entitlement t at) (accounts d))))"

definition purge_rows :: "uuid \<Rightarrow> int \<Rightarrow> nat \<Rightarrow> time \<Rightarrow> cleanup_report ver_op" where
  "purge_rows run year n at =
     bindM (map_errM ver_raw (delete_requests year)) (\<lambda>reqs.
     bindM (expire_students at) (\<lambda>_.
     bindM (promote_seniors at) (\<lambda>promoted.
     bindM db_clock (\<lambda>ts.
     bindM (update_run run (\<lambda>r. r\<lparr>run_status := ''completed'', run_documents := n, run_requests := reqs,
              run_promoted := promoted, run_completed := Some ts, run_error := None\<rparr>)) (\<lambda>_.
     ret \<lparr>cr_year = year, cr_documents = n, cr_requests = reqs, cr_promoted = promoted\<rparr>)))))"

definition purge_objects ::
  "(string \<Rightarrow> bool) \<Rightarrow> uuid \<Rightarrow> int \<Rightarrow> time \<Rightarrow> string list \<Rightarrow> cleanup_report option ver_op" where
  "purge_objects remove run year at keys =
     bindM (remove_blobs remove keys) (\<lambda>ok.
     if \<not> ok then
       bindM (update_run run (\<lambda>r. r\<lparr>run_status := ''failed'', run_error := Some ''object removal failed''\<rparr>)) (\<lambda>_.
       ret None)
     else bindM (purge_rows run year (length keys) at) (\<lambda>report. ret (Some report)))"

definition purge_annual_data :: "(string \<Rightarrow> bool) \<Rightarrow> int \<Rightarrow> time \<Rightarrow> cleanup_report ver_op" where
  "purge_annual_data remove year at =
     (if year < 100 \<or> 999 < year then fail VerInvalid
      else bindM (in_tx ver_raw (
        bindM (map_errM ver_raw (start_run year)) (\<lambda>(run, status).
        if status = ''completed'' then ret (Some \<lparr>cr_year = year, cr_documents = 0, cr_requests = 0, cr_promoted = 0\<rparr>)
        else bindM (map_errM ver_raw (stmt_rows (\<lambda>d t. year_keys year t))) (purge_objects remove run year at))))
        (\<lambda>res. case res of None \<Rightarrow> fail VerRemove | Some report \<Rightarrow> ret report))"

end
