(* ===== verification/VerificationService.thy ===== *)
theory VerificationService imports VerificationStore ComponentHttp begin

text \<open>
  Student verification, the service and its routes (internal/verification/service.go and
  handler.go). The two limiters live in the component's tables. The code of six digits is drawn by
  \<^verbatim>\<open>crypto/rand.Int\<close>, which reads three bytes, keeps twenty bits and starts again at a value of a
  million or more; the loop is a \<^verbatim>\<open>partial_function\<close>, \<open>VerStuck\<close> stands for a run that never
  ends, and \<open>draw_code_returns\<close> says when it does end. Rate-limit headers are left out.
\<close>

section \<open>The service\<close>

record ver_config =
  vs_auth :: service
  vs_cipher :: "field_cipher option"
  vs_lookup_key :: string
  vs_notifications :: bool
  vs_blobs :: "blob_store option"
  vs_scanner :: "scanner option"
  vs_distributed :: distributed_limiter
  vs_subject :: string
  vs_body :: "string \<Rightarrow> string"

abbreviation vs_env :: "ver_config \<Rightarrow> env" where
  "vs_env v \<equiv> sv_env (vs_auth v)"

definition new_ver_service :: "ver_config \<Rightarrow> ver_config option" where
  "new_ver_service v = (if vs_cipher v = None \<or> length (vs_lookup_key v) \<noteq> 32 then None else Some v)"

definition new_ver_limiters :: "ver_tables \<Rightarrow> ver_tables" where
  "new_ver_limiters t = t\<lparr>ver_email_rate := Some (new_fixed_window_limiter 5 (10 * minute) 10000),
     ver_upload_rate := Some (new_fixed_window_limiter 20 minute 10000)\<rparr>"

definition email_hit :: "string \<Rightarrow> bool ver_op" where
  "email_hit key s =
     (let (ok, l) = allow_hit (ver_email_rate (snd s)) key (now (fst s))
      in (Inr ok, (fst s, (snd s)\<lparr>ver_email_rate := l\<rparr>)))"

definition ver_distributed :: "ver_config \<Rightarrow> string \<Rightarrow> string \<Rightarrow> int \<Rightarrow> duration \<Rightarrow> (world, limiter_error, bool) op" where
  "ver_distributed v ns key l win =
     distributed_allow ((vs_auth v)\<lparr>sv_distributed := vs_distributed v\<rparr>) ns key l win"

definition validate_request_input :: "env \<Rightarrow> ver_input \<Rightarrow> bool \<Rightarrow> ver_error + (ver_input \<times> string)" where
  "validate_request_input en i0 email_required =
     (let i = i0\<lparr>vi_school := trim_space (vi_school i0), vi_program := trim_space (vi_program i0),
                 vi_email := normalize_email (e_unicode en) (vi_email i0)\<rparr>; email = vi_email i in
      if vi_year i < 100 \<or> 999 < vi_year i \<or> \<not> three_digits (vi_school i)
         \<or> (vi_program i \<noteq> [] \<and> \<not> three_digits (vi_program i)) then Inl VerInvalid
      else if \<not> email_required then Inr (i\<lparr>vi_email := []\<rparr>, [])
      else if e_parse_address en email \<noteq> Some email \<or> CHR ''@'' \<notin> set email then Inl VerInvalid
      else if 320 < length email then Inl VerInvalid
      else Inr (i, email))"

definition email_domain_of :: "unicode \<Rightarrow> string \<Rightarrow> string" where
  "email_domain_of u v = (case split_on (CHR ''@'') v of [_, d] \<Rightarrow> to_lower u d | _ \<Rightarrow> [])"

text \<open>\<^verbatim>\<open>rand.Int(rand.Reader, 1000000)\<close>: the value, or \<^const>\<open>None\<close> when the source fails.\<close>

definition code_value :: "string \<Rightarrow> nat" where
  "code_value b = (byte_of (b ! 0) mod 16) * 65536 + byte_of (b ! 1) * 256 + byte_of (b ! 2)"

partial_function (option) draw_code :: "crypto \<Rightarrow> nat \<Rightarrow> (nat option \<times> nat) option" where
  "draw_code cr d =
     (case c_rand cr d 3 of
        None \<Rightarrow> Some (None, Suc d)
      | Some b \<Rightarrow> if code_value b < 1000000 then Some (Some (code_value b), Suc d) else draw_code cr (Suc d))"

definition new_verification_code :: "crypto \<Rightarrow> (world, ver_error, string) op" where
  "new_verification_code cr w =
     (case draw_code cr (draws w) of
        None \<Rightarrow> (Inl VerStuck, w)
      | Some (None, d) \<Rightarrow> (Inl (VerCrypto RandFailed), w\<lparr>draws := d\<rparr>)
      | Some (Some n, d) \<Rightarrow> (Inr (zero_pad 6 (itoa n)), w\<lparr>draws := d\<rparr>))"

definition code_hash_input :: "env \<Rightarrow> uuid \<Rightarrow> string \<Rightarrow> string" where
  "code_hash_input en i code = ''student-verification:'' @ e_uuid en i @ '':'' @ code"

definition ver_lookup :: "ver_config \<Rightarrow> string \<Rightarrow> ver_error + string" where
  "ver_lookup v s = (case lookup_hash (e_crypto (vs_env v)) (vs_lookup_key v) s of
     Inl e \<Rightarrow> Inl (VerCrypto e) | Inr h \<Rightarrow> Inr h)"

text \<open>The challenge and its mail, once the request exists.\<close>

definition send_code :: "ver_config \<Rightarrow> uuid \<Rightarrow> string \<Rightarrow> ver_request \<Rightarrow> (ver_request \<times> time) ver_op" where
  "send_code v acc ct q =
     bindM (core (new_verification_code (e_crypto (vs_env v)))) (\<lambda>code.
     bindM clock (\<lambda>t.
     bindM (liftM (ver_lookup v (code_hash_input (vs_env v) (rv_id q) code))) (\<lambda>hash.
     bindM (create_email_challenge (rv_id q) hash (t + 10 * minute)) (\<lambda>_.
     if \<not> vs_notifications v then fail VerUnconfigured
     else bindM (map_errM VerNotif (core (enqueue_email_to (vs_env v) (sv_notify_cipher (vs_auth v)) acc ct
            (''verification-'' @ e_uuid (vs_env v) (rv_id q)) (vs_subject v) (vs_body v code) []))) (\<lambda>_.
          ret (q, t + 10 * minute))))))"

definition create_school_email_request :: "ver_config \<Rightarrow> uuid \<Rightarrow> ver_input \<Rightarrow> (ver_request \<times> time) ver_op" where
  "create_school_email_request v acc input0 =
     (let key = e_uuid (vs_env v) acc in
      bindM (email_hit key) (\<lambda>ok. if \<not> ok then fail VerConflict else
      bindM (map_errM (\<lambda>_. VerRate) (core (ver_distributed v ''verification-email'' key 5 (10 * minute)))) (\<lambda>ok.
      if \<not> ok then fail VerConflict else
      bindM (liftM (validate_request_input (vs_env v) input0 True)) (\<lambda>(input, email).
      bindM (is_school_email_allowed (vi_school input) (email_domain_of (e_unicode (vs_env v)) email)) (\<lambda>ok.
      if \<not> ok then fail VerForbidden else
      bindM (core (with_draws VerCrypto (fc_seal (e_crypto (vs_env v)) (vs_cipher v) email))) (\<lambda>ct.
      bindM (liftM (ver_lookup v email)) (\<lambda>hash.
      bindM (create_email_request acc input ct hash) (\<lambda>q.
      send_code v acc ct q))))))))"

definition code_pattern :: "string \<Rightarrow> bool" where
  "code_pattern s \<longleftrightarrow> length s = 6 \<and> list_all is_digit_char s"

definition verify_school_email :: "ver_config \<Rightarrow> uuid \<Rightarrow> uuid \<Rightarrow> string \<Rightarrow> student_verification ver_op" where
  "verify_school_email v acc i code =
     (if \<not> code_pattern (trim_space code) then fail VerInvalidCode
      else bindM clock (\<lambda>t.
           bindM (liftM (ver_lookup v (code_hash_input (vs_env v) i (trim_space code)))) (\<lambda>hash.
           consume_email_code acc i hash t (add_year t))))"

definition request_by_document :: "ver_config \<Rightarrow> uuid \<Rightarrow> ver_input \<Rightarrow> ver_request ver_op" where
  "request_by_document v acc input0 =
     bindM (liftM (validate_request_input (vs_env v) input0 False)) (\<lambda>(input, _). create_document_request acc input)"

definition review_request :: "uuid \<Rightarrow> uuid \<Rightarrow> review_input \<Rightarrow> review_result ver_op" where
  "review_request adm i input =
     (if \<not> ri_approved input \<and> is_blank (ri_reason input) then fail VerInvalid
      else if 2000 < length (ri_reason input) then fail VerInvalid
      else bindM clock (\<lambda>t. review_document_request adm i input t (add_year t)))"

definition add_school_domain :: "ver_config \<Rightarrow> uuid \<Rightarrow> string \<Rightarrow> string \<Rightarrow> ver_domain ver_op" where
  "add_school_domain v adm school0 domain0 =
     (let school = trim_space school0; domain = to_lower (e_unicode (vs_env v)) (trim_space domain0) in
      if \<not> three_digits school \<or> \<not> domain_pattern domain \<or> CHR ''@'' \<in> set domain \<or> 253 < length domain
      then fail VerInvalid
      else add_domain adm school domain)"

definition purge_year :: "ver_config \<Rightarrow> int \<Rightarrow> cleanup_report ver_op" where
  "purge_year v year =
     (case vs_blobs v of
        None \<Rightarrow> fail VerUnconfigured
      | Some b \<Rightarrow> bindM clock (\<lambda>t. purge_annual_data (\<lambda>k. validate_storage_key k \<and> bs_remove b k) year t))"

section \<open>The routes\<close>

datatype ver_body =
    RequestsOut "ver_request list" | CodeSentOut ver_request time | StudentOut student_verification
  | RequestOut ver_request | ReviewOut review_result | DocumentsOut "ver_document list"
  | DownloadOut ver_document string int | DomainsOut "ver_domain list" | DomainOut ver_domain | NothingOut

type_synonym 'a ver_step = "(ver_tables, ver_body, 'a) route"

definition ver_require_auth :: "ver_config \<Rightarrow> request \<Rightarrow> request_session ver_step" where
  "ver_require_auth v rq = session_step (vs_auth v) rq"

definition ver_require_mutation :: "ver_config \<Rightarrow> request \<Rightarrow> request_session ver_step" where
  "ver_require_mutation v rq =
     bindM (ver_require_auth v rq) (\<lambda>rs. bindM (csrf_step (vs_auth v) rq rs) (\<lambda>_. ret rs))"

definition ver_require_admin :: "ver_config \<Rightarrow> request \<Rightarrow> request_session ver_step" where
  "ver_require_admin v rq =
     bindM (ver_require_auth v rq) (\<lambda>rs.
     bindM (admin_step ver_is_admin rs) (\<lambda>_.
     bindM (mfa_step (vs_auth v) rq rs) (\<lambda>_. ret rs)))"

definition ver_require_admin_mutation :: "ver_config \<Rightarrow> request \<Rightarrow> request_session ver_step" where
  "ver_require_admin_mutation v rq =
     bindM (ver_require_admin v rq) (\<lambda>rs.
     bindM (csrf_step (vs_auth v) rq rs) (\<lambda>_.
     bindM (mfa_step (vs_auth v) rq rs) (\<lambda>_. ret rs)))"

fun ver_service_error :: "ver_error \<Rightarrow> ver_body reply" where
  "ver_service_error VerNotFound = Refused 404 ''not_found'' ''verification resource not found''"
| "ver_service_error VerForbidden = Refused 403 ''forbidden'' ''verification operation is not allowed''"
| "ver_service_error VerAdminRequired = refuse_admin"
| "ver_service_error VerInvalidCode = Refused 422 ''invalid_code'' ''verification code is invalid''"
| "ver_service_error VerConflict = Refused 409 ''conflict'' ''verification request conflicts with existing data''"
| "ver_service_error VerInvalidStatus = Refused 409 ''invalid_status'' ''verification status transition is invalid''"
| "ver_service_error VerInvalid = Refused 400 ''invalid_request'' ''verification data is invalid''"
| "ver_service_error _ = refuse_internal"

definition serve_ver :: "'a ver_op \<Rightarrow> 'a ver_step" where
  "serve_ver m = map_errM ver_service_error m"

definition acc_of :: "request_session \<Rightarrow> uuid" where
  "acc_of rs = acc_id (session_account rs)"

definition ver_request_id :: "ver_config \<Rightarrow> string \<Rightarrow> uuid ver_step" where
  "ver_request_id v raw = path_uuid (vs_env v) raw ''invalid_request_id'' ''request id is invalid''"

definition route_list_requests :: "ver_config \<Rightarrow> request \<Rightarrow> ver_body reply ver_step" where
  "route_list_requests v rq =
     bindM (ver_require_auth v rq) (\<lambda>rs.
     bindM (map_errM (\<lambda>_. refuse_internal) (list_requests (acc_of rs))) (\<lambda>items.
     ret (Replied 200 (RequestsOut items))))"

definition route_school_email_request :: "ver_config \<Rightarrow> request \<Rightarrow> ver_input option \<Rightarrow> ver_body reply ver_step" where
  "route_school_email_request v rq body =
     bindM (ver_require_mutation v rq) (\<lambda>rs.
     bindM (body_step body ''invalid_request'' ''verification request is invalid'') (\<lambda>input.
     bindM (serve_ver (create_school_email_request v (acc_of rs) input)) (\<lambda>(q, expires).
     ret (Replied 201 (CodeSentOut q expires)))))"

definition route_verify_email :: "ver_config \<Rightarrow> request \<Rightarrow> string \<Rightarrow> string option \<Rightarrow> ver_body reply ver_step" where
  "route_verify_email v rq raw body =
     bindM (ver_require_mutation v rq) (\<lambda>rs.
     bindM (ver_request_id v raw) (\<lambda>i.
     bindM (body_step body ''invalid_code'' ''verification code is invalid'') (\<lambda>code.
     bindM (serve_ver (verify_school_email v (acc_of rs) i code)) (\<lambda>item.
     ret (Replied 200 (StudentOut item))))))"

definition route_document_request :: "ver_config \<Rightarrow> request \<Rightarrow> ver_input option \<Rightarrow> ver_body reply ver_step" where
  "route_document_request v rq body =
     bindM (ver_require_mutation v rq) (\<lambda>rs.
     bindM (body_step body ''invalid_request'' ''verification request is invalid'') (\<lambda>input.
     bindM (serve_ver (request_by_document v (acc_of rs) input)) (\<lambda>q.
     ret (Replied 201 (RequestOut q)))))"

text \<open>The multipart form: rejected, without the file, or with it.\<close>

datatype form_file = FormInvalid | FormWithoutFile | FormFile upload

definition upload_allowed :: "ver_config \<Rightarrow> uuid \<Rightarrow> bool ver_step" where
  "upload_allowed v acc s =
     (let key = e_uuid (vs_env v) acc;
          (r, l) = take_hit (ver_upload_rate (snd s)) key (now (fst s));
          distributed = (if vs_distributed v = NoDistributed then None
                         else Some (ver_distributed v ''verification-upload'' key 20 minute))
      in map_errM (\<lambda>_. Refused 503 ''rate_limit_unavailable'' ''rate limiting is temporarily unavailable'')
           (core (check_distributed distributed (allowed r))) (fst s, (snd s)\<lparr>ver_upload_rate := l\<rparr>))"

definition staged_document :: "ver_config \<Rightarrow> form_file \<Rightarrow> staged ver_step" where
  "staged_document v form =
     (case form of
        FormInvalid \<Rightarrow> fail (Refused 400 ''invalid_multipart'' ''multipart request is invalid'')
      | FormWithoutFile \<Rightarrow> fail (Refused 400 ''file_required'' ''verification file is required'')
      | FormFile f \<Rightarrow>
          (case stage_upload (e_crypto (vs_env v)) (e_unicode (vs_env v)) f of
             None \<Rightarrow> fail (Refused 400 ''invalid_file'' ''verification file is invalid'')
           | Some g \<Rightarrow>
               (case scan_staged_upload (vs_scanner v) g of
                  None \<Rightarrow> ret g
                | Some MalwareDetected \<Rightarrow> fail (Refused 422 ''malware_detected'' ''uploaded file was rejected'')
                | Some ScannerUnavailable \<Rightarrow>
                    fail (Refused 503 ''scan_unavailable'' ''file scanning is temporarily unavailable''))))"

definition document_key :: "env \<Rightarrow> uuid \<Rightarrow> uuid \<Rightarrow> uuid \<Rightarrow> string" where
  "document_key en acc i file = ''verification/'' @ e_uuid en acc @ ''/'' @ e_uuid en i @ ''/'' @ e_uuid en file"

definition route_upload_document ::
  "ver_config \<Rightarrow> request \<Rightarrow> string \<Rightarrow> form_file \<Rightarrow> ver_body reply ver_step" where
  "route_upload_document v rq raw form =
     bindM (ver_require_mutation v rq) (\<lambda>rs.
     case vs_blobs v of
       None \<Rightarrow> fail (Refused 503 ''storage_unavailable'' ''verification storage is unavailable'')
     | Some store \<Rightarrow>
         bindM (upload_allowed v (acc_of rs)) (\<lambda>ok.
         if \<not> ok then fail (Refused 429 ''rate_limited'' ''too many uploads'') else
         bindM (ver_request_id v raw) (\<lambda>i.
         bindM (staged_document v form) (\<lambda>g.
         bindM fresh_uuid (\<lambda>file.
         let key = document_key (vs_env v) (acc_of rs) i file in
         bindM (blob_put store key (sg_size g)) (\<lambda>ok.
         if \<not> ok then fail (Refused 502 ''storage_unavailable'' ''verification storage is unavailable'')
         else catchM (create_document (acc_of rs) i (sg_name g) key (sg_type g) (sg_size g) (sg_sha256 g))
                (\<lambda>e. bindM (blob_remove store key) (\<lambda>_. fail (ver_service_error e)))
                (\<lambda>q. ret (Replied 201 (RequestOut q)))))))))"

definition route_pending_requests :: "ver_config \<Rightarrow> request \<Rightarrow> ver_body reply ver_step" where
  "route_pending_requests v rq =
     bindM (ver_require_admin v rq) (\<lambda>rs.
     bindM (serve_ver (list_pending_requests (acc_of rs))) (\<lambda>items. ret (Replied 200 (RequestsOut items))))"

definition route_review :: "ver_config \<Rightarrow> request \<Rightarrow> string \<Rightarrow> review_input option \<Rightarrow> ver_body reply ver_step" where
  "route_review v rq raw body =
     bindM (ver_require_admin_mutation v rq) (\<lambda>rs.
     bindM (ver_request_id v raw) (\<lambda>i.
     bindM (body_step body ''invalid_review'' ''review data is invalid'') (\<lambda>input.
     bindM (serve_ver (review_request (acc_of rs) i input)) (\<lambda>r. ret (Replied 200 (ReviewOut r))))))"

definition route_list_documents :: "ver_config \<Rightarrow> request \<Rightarrow> string \<Rightarrow> ver_body reply ver_step" where
  "route_list_documents v rq raw =
     bindM (ver_require_admin v rq) (\<lambda>rs.
     bindM (ver_request_id v raw) (\<lambda>i.
     bindM (serve_ver (list_documents (acc_of rs) i)) (\<lambda>items. ret (Replied 200 (DocumentsOut items)))))"

definition route_download_document :: "ver_config \<Rightarrow> request \<Rightarrow> string \<Rightarrow> string \<Rightarrow> ver_body reply ver_step" where
  "route_download_document v rq raw raw_document =
     bindM (ver_require_admin v rq) (\<lambda>rs.
     case vs_blobs v of
       None \<Rightarrow> fail (Refused 503 ''storage_unavailable'' ''verification storage is unavailable'')
     | Some store \<Rightarrow>
         bindM (ver_request_id v raw) (\<lambda>i.
         bindM (path_uuid (vs_env v) raw_document ''invalid_document_id'' ''document id is invalid'') (\<lambda>k.
         bindM (serve_ver (get_document (acc_of rs) i k)) (\<lambda>x.
         case blob_presign store (dv_key x) (5 * minute) of
           None \<Rightarrow> fail (Refused 502 ''storage_unavailable'' ''verification storage is unavailable'')
         | Some url \<Rightarrow> ret (Replied 200 (DownloadOut x url 300))))))"

definition route_list_domains :: "ver_config \<Rightarrow> request \<Rightarrow> ver_body reply ver_step" where
  "route_list_domains v rq =
     bindM (ver_require_admin v rq) (\<lambda>rs.
     bindM (serve_ver (list_domains (acc_of rs))) (\<lambda>items. ret (Replied 200 (DomainsOut items))))"

definition route_add_domain :: "ver_config \<Rightarrow> request \<Rightarrow> (string \<times> string) option \<Rightarrow> ver_body reply ver_step" where
  "route_add_domain v rq body =
     bindM (ver_require_admin_mutation v rq) (\<lambda>rs.
     bindM (body_step body ''invalid_domain'' ''domain data is invalid'') (\<lambda>(school, domain).
     bindM (serve_ver (add_school_domain v (acc_of rs) school domain)) (\<lambda>x. ret (Replied 201 (DomainOut x)))))"

definition route_domain_active :: "ver_config \<Rightarrow> request \<Rightarrow> string \<Rightarrow> bool option \<Rightarrow> ver_body reply ver_step" where
  "route_domain_active v rq raw body =
     bindM (ver_require_admin_mutation v rq) (\<lambda>rs.
     bindM (path_uuid (vs_env v) raw ''invalid_domain_id'' ''domain id is invalid'') (\<lambda>i.
     bindM (body_step body ''invalid_domain'' ''domain state is invalid'') (\<lambda>active.
     bindM (serve_ver (set_domain_active (acc_of rs) i active)) (\<lambda>_. ret (Replied 204 NothingOut)))))"

section \<open>Dispatch\<close>

datatype ver_call =
    ListRequestsCall | SchoolEmailCall "ver_input option" | VerifyEmailCall string "string option"
  | DocumentRequestCall "ver_input option" | UploadCall string form_file | PendingCall
  | DocumentsCall string | DownloadCall string string | ReviewCall string "review_input option"
  | DomainsCall | AddDomainCall "(string \<times> string) option" | DomainActiveCall string "bool option"

fun ver_route :: "ver_config \<Rightarrow> request \<Rightarrow> ver_call \<Rightarrow> ver_body reply ver_step" where
  "ver_route v rq ListRequestsCall = route_list_requests v rq"
| "ver_route v rq (SchoolEmailCall body) = route_school_email_request v rq body"
| "ver_route v rq (VerifyEmailCall raw body) = route_verify_email v rq raw body"
| "ver_route v rq (DocumentRequestCall body) = route_document_request v rq body"
| "ver_route v rq (UploadCall raw form) = route_upload_document v rq raw form"
| "ver_route v rq PendingCall = route_pending_requests v rq"
| "ver_route v rq (DocumentsCall raw) = route_list_documents v rq raw"
| "ver_route v rq (DownloadCall raw raw_document) = route_download_document v rq raw raw_document"
| "ver_route v rq (ReviewCall raw body) = route_review v rq raw body"
| "ver_route v rq DomainsCall = route_list_domains v rq"
| "ver_route v rq (AddDomainCall body) = route_add_domain v rq body"
| "ver_route v rq (DomainActiveCall raw body) = route_domain_active v rq raw body"

section \<open>Drawing a code\<close>

text \<open>The loop ends at the first draw below a million, and the code then has six digits.\<close>

lemma draw_code_returns:
  assumes "\<And>m. m < n \<Longrightarrow> \<exists>b. c_rand cr (d + m) 3 = Some b \<and> 1000000 \<le> code_value b"
    and "c_rand cr (d + n) 3 = Some b" "code_value b < 1000000"
  shows "draw_code cr d = Some (Some (code_value b), Suc (d + n))"
  using assms
proof (induction n arbitrary: d)
  case 0
  then show ?case by (subst draw_code.simps) simp
next
  case (Suc n)
  from Suc.prems(1)[of 0] obtain b0 where "c_rand cr d 3 = Some b0" "1000000 \<le> code_value b0" by auto
  moreover have "draw_code cr (Suc d) = Some (Some (code_value b), Suc (Suc d + n))"
    by (rule Suc.IH) (use Suc.prems(1)[of "Suc _"] Suc.prems(2,3) in simp_all)
  ultimately show ?case by (subst draw_code.simps) simp
qed

end
