(* ===== verification/VerificationInvariants.thy ===== *)
theory VerificationInvariants imports VerificationService begin

text \<open>
  The states of student verification: what the routes and the annual clean-up can lead to, with the
  other components, time and failures in between, and two invariants of them. \<open>ver_typed\<close>: every row
  has the form its column types, checks and the code promise. \<open>ver_logged\<close>: a request that is not
  pending any more has an event in the append-only log.
\<close>

section \<open>The invariants\<close>

definition ver_typed :: "ver_tables \<Rightarrow> bool" where
  "ver_typed t \<longleftrightarrow>
     list_all (\<lambda>r. ver_request_chk r \<and> vr_status r \<in> {''pending'', ''approved'', ''rejected''}) (ver_requests t)
     \<and> list_all (\<lambda>c. 0 \<le> vc_attempts c \<and> vc_attempts c \<le> 5 \<and> vc_hash c \<noteq> []) (ver_codes t)
     \<and> list_all (\<lambda>x. 0 < vdoc_size x \<and> hex64 (vdoc_sha256 x)
          \<and> vdoc_status x \<in> {''pending'', ''approved'', ''rejected''}) (ver_documents t)
     \<and> distinct (map vdoc_key (ver_documents t))
     \<and> list_all (\<lambda>r. stu_verified r < stu_expires r \<and> stu_status r \<in> {''active'', ''expired''}) (ver_students t)
     \<and> list_all (\<lambda>x. domain_pattern (vd_domain x) \<and> length (vd_domain x) \<le> 253) (ver_domains t)
     \<and> list_all (\<lambda>r. 100 \<le> run_year r \<and> run_year r \<le> 999) (ver_runs t) \<and> distinct (map run_year (ver_runs t))"

definition has_event :: "ver_tables \<Rightarrow> uuid \<Rightarrow> bool" where
  "has_event t i \<longleftrightarrow> list_ex (\<lambda>e. ve_request e = Some i) (ver_events t)"

text \<open>\<open>logged_but o\<close>: all but the request \<open>o\<close> under way in a transaction.\<close>

definition logged_but :: "uuid option \<Rightarrow> ver_tables \<Rightarrow> bool" where
  "logged_but o1 t \<longleftrightarrow> list_all (\<lambda>r. vr_status r = ''pending'' \<or> o1 = Some (vr_id r) \<or> has_event t (vr_id r)) (ver_requests t)"

abbreviation ver_logged :: "ver_tables \<Rightarrow> bool" where
  "ver_logged \<equiv> logged_but None"

named_theorems ver_keeps \<open>operations that keep the form of the verification rows\<close>
named_theorems log_keeps \<open>operations that keep the log complete\<close>

section \<open>The form of the rows\<close>

lemma typed_limiters: "ver_typed (t\<lparr>ver_email_rate := l\<rparr>) = ver_typed t" "ver_typed (t\<lparr>ver_upload_rate := l\<rparr>) = ver_typed t"
  by (simp_all add: ver_typed_def)

lemma typed_reads [ver_keeps]:
  "rows_keep R (ver_is_admin acc)" "rows_keep R (is_school_email_allowed a b)"
  "rows_keep R (requests_where p)" "rows_keep R (list_requests acc)" "rows_keep R (list_pending_requests acc)"
  "rows_keep R (list_documents acc i)" "rows_keep R (get_document acc i k)" "rows_keep R (list_domains acc)"
  unfolding ver_is_admin_def is_school_email_allowed_def requests_where_def list_requests_def
    list_pending_requests_def as_ver_admin_def list_documents_def get_document_def list_domains_def
  by (intro keeps_intros)+

lemma typed_create [ver_keeps]: "rows_keep ver_typed (create_request acc i m ct hash)"
proof -
  have "rows_keep ver_typed (insert_request acc i m ct hash)"
    unfolding insert_request_def Let_def
    by (intro keeps_intros keeps_stmt) (auto simp: ver_typed_def new_request_def)
  then show ?thesis unfolding create_request_def by (intro keeps_intros)
qed

lemma typed_challenge [ver_keeps]: "rows_keep ver_typed (create_email_challenge i hash expires)"
  unfolding create_email_challenge_def
  by (intro keeps_intros keeps_stmt_write keeps_stmt_add; simp)
    (auto simp: ver_typed_def new_code_def intro: all_update)

lemma typed_update_code:
  "(\<And>c. vc_hash (f c) = vc_hash c) \<Longrightarrow> rows_keep ver_typed (update_code k f)"
  unfolding update_code_def
  by (intro keeps_intros keeps_stmt_insert) (auto simp: ver_typed_def list_all_iff ball_update_where)

lemma typed_upsert [ver_keeps]: "rows_keep ver_typed (upsert_verification q m verified expires who)"
proof -
  have "rows_keep ver_typed (insert_student i m verified expires who)" for i
    unfolding insert_student_def
    by (intro keeps_stmt) (auto simp: ver_typed_def new_student_def Let_def split: option.splits)
  moreover have "rows_keep ver_typed (renew_student k i m verified expires who)" for k i
    unfolding renew_student_def
    by (intro keeps_stmt_add) (auto simp: ver_typed_def list_all_iff ball_update_where)
  ultimately show ?thesis unfolding upsert_verification_def by (intro keeps_intros)
qed

lemma typed_writes [ver_keeps]:
  "rows_keep ver_typed (approve_request i at)" "rows_keep ver_typed (add_ver_event e)"
  "rows_keep ver_typed (set_identity acc s)"
  unfolding approve_request_def add_ver_event_def set_identity_def
  by (intro keeps_intros keeps_stmt_write keeps_stmt_insert;
      auto simp: ver_typed_def ver_request_chk_def list_all_iff ball_update_where)+

lemma typed_codes [ver_keeps]:
  "rows_keep ver_typed (accept_code acc c q at expires)" "rows_keep ver_typed (consume_email_code acc i hash at expires)"
proof -
  show "rows_keep ver_typed (accept_code acc c q at expires)" for c q
    unfolding accept_code_def by (intro keeps_intros ver_keeps typed_update_code; simp)
  then show "rows_keep ver_typed (consume_email_code acc i hash at expires)"
    unfolding consume_email_code_def Let_def by (intro keeps_intros ver_keeps typed_update_code; simp)
qed

lemma typed_document [ver_keeps]: "rows_keep ver_typed (create_document acc i name key mime nbytes sha)"
proof -
  have "ver_typed (t\<lparr>ver_documents := ver_documents t @ [new_document i name key mime nbytes sha ts d]\<rparr>)"
    if "ver_typed t" "0 < nbytes" "hex64 sha" "list_all (\<lambda>x. vdoc_key x \<noteq> key) (ver_documents t)" for t ts d
    using that by (auto simp: ver_typed_def new_document_def list_all_iff)
  then show ?thesis
    unfolding create_document_def by (intro keeps_intros keeps_stmt_add; simp)
qed

lemma typed_review [ver_keeps]: "rows_keep ver_typed (review_document_request adm i input verified expires)"
proof -
  have "ver_typed (review_rows i st reason adm ts t)" "ver_typed (review_documents i st reason adm ts t)"
    if "ver_typed t" "st \<in> {''approved'', ''rejected''}" for st reason ts t
    using that by (auto simp: ver_typed_def review_rows_def review_documents_def ver_request_chk_def
        list_all_iff ball_update_where map_update_where)
  then show ?thesis
    unfolding review_document_request_def review_writes_def as_ver_admin_def Let_def
    by (intro keeps_intros ver_keeps keeps_stmt_insert; simp)
qed

lemma typed_domains [ver_keeps]:
  "rows_keep ver_typed (add_domain adm school domain)" "rows_keep ver_typed (set_domain_active adm i active)"
  unfolding add_domain_def set_domain_active_def as_ver_admin_def
  by (intro keeps_intros ver_keeps keeps_stmt_add keeps_stmt_write;
      auto simp: ver_typed_def new_domain_def list_all_iff ball_update_where)+

section \<open>The clean-up\<close>

lemma rows_keep_remove: "rows_keep R (remove_blobs remove ks)"
proof (induction ks)
  case (Cons k ks)
  have "rows_keep R (remove_blob remove k)" by (auto simp: keeps_def remove_blob_def tables_def)
  with Cons show ?case by (auto intro!: keeps_intros)
qed (simp add: keeps_ret)

lemma typed_purge [ver_keeps]: "rows_keep ver_typed (purge_annual_data remove year at)"
proof (cases "year < 100 \<or> 999 < year")
  case True
  then show ?thesis by (simp add: purge_annual_data_def keeps_fail)
next
  case False
  have start: "rows_keep ver_typed (start_run year)"
    unfolding start_run_def using False
    by (intro keeps_stmt) (auto simp: ver_typed_def Let_def find_None_iff split: option.splits)
  have update: "rows_keep ver_typed (update_run k f)" if "\<And>r. run_year (f r) = run_year r" for k f
    unfolding update_run_def
    by (intro keeps_intros keeps_stmt_write)
      (auto simp: ver_typed_def list_all_iff ball_update_where map_update_where that)
  have delete: "rows_keep ver_typed (delete_requests year)"
    unfolding delete_requests_def Let_def
    by (intro keeps_stmt) (auto simp: ver_typed_def list_all_iff ball_update_where distinct_map_filter split: if_splits)
  have expire: "rows_keep ver_typed (expire_students at)" "rows_keep ver_typed (promote_seniors at)"
    unfolding expire_students_def promote_seniors_def
    by (intro keeps_intros keeps_stmt_write keeps_stmt_insert;
        auto simp: ver_typed_def list_all_iff ball_update_where)+
  show ?thesis
    unfolding purge_annual_data_def purge_objects_def purge_rows_def using False
    by (simp, intro keeps_intros start update delete expire rows_keep_remove; simp)
qed

section \<open>The log\<close>

lemma logged_frame:
  "ver_requests t' = ver_requests t \<Longrightarrow> ver_events t' = ver_events t \<Longrightarrow> logged_but o1 t' = logged_but o1 t"
  by (simp add: logged_but_def has_event_def)

lemma logged_limiters:
  "logged_but o1 (t\<lparr>ver_email_rate := l\<rparr>) = logged_but o1 t" "logged_but o1 (t\<lparr>ver_upload_rate := l\<rparr>) = logged_but o1 t"
  by (simp_all add: logged_but_def has_event_def)

lemma log_create [log_keeps]: "rows_keep (logged_but o1) (create_request acc i m ct hash)"
proof -
  have "rows_keep (logged_but o1) (insert_request acc i m ct hash)"
    unfolding insert_request_def Let_def
    by (intro keeps_intros keeps_stmt) (auto simp: logged_but_def has_event_def new_request_def)
  then show ?thesis unfolding create_request_def by (intro keeps_intros)
qed

lemma log_codes [log_keeps]:
  "rows_keep (logged_but o1) (create_email_challenge i hash expires)" "rows_keep (logged_but o1) (update_code k f)"
  unfolding create_email_challenge_def update_code_def
  by (intro keeps_intros keeps_stmt_write keeps_stmt_add keeps_stmt_insert; simp add: logged_but_def has_event_def)+

lemma log_students [log_keeps]:
  "rows_keep (logged_but o1) (upsert_verification q m verified expires who)"
  "rows_keep (logged_but o1) (set_identity acc s)"
proof -
  have "rows_keep (logged_but o1) (insert_student i m verified expires who)" for i
    unfolding insert_student_def
    by (intro keeps_stmt) (auto simp: logged_but_def has_event_def Let_def split: option.splits)
  moreover have "rows_keep (logged_but o1) (renew_student k i m verified expires who)" for k i
    unfolding renew_student_def by (intro keeps_stmt_add) (simp add: logged_but_def has_event_def)
  ultimately show "rows_keep (logged_but o1) (upsert_verification q m verified expires who)"
    unfolding upsert_verification_def by (intro keeps_intros)
  show "rows_keep (logged_but o1) (set_identity acc s)"
    unfolding set_identity_def by (intro keeps_intros keeps_stmt_insert) simp
qed

lemma log_event_keeps [log_keeps]: "rows_keep (logged_but o1) (add_ver_event e)"
  unfolding add_ver_event_def
  by (intro keeps_intros keeps_stmt_insert) (auto simp: logged_but_def has_event_def list_all_iff)

lemma log_documents [log_keeps]:
  "rows_keep (logged_but o1) (create_document acc i name key mime nbytes sha)"
  "rows_keep (logged_but o1) (add_domain adm school domain)" "rows_keep (logged_but o1) (set_domain_active adm i active)"
  unfolding create_document_def add_domain_def set_domain_active_def as_ver_admin_def
  by (intro keeps_intros ver_keeps keeps_stmt_add keeps_stmt_write; simp add: logged_but_def has_event_def)+

lemma approve_turns:
  "approve_request i at s = (Inr u, s') \<Longrightarrow> ver_logged (snd (tables s)) \<Longrightarrow> logged_but (Some i) (snd (tables s'))"
  by (auto simp: approve_request_def logged_but_def has_event_def list_all_iff dest!: stmt_write_Inr
      elim!: in_update_whereE)

lemma event_turns:
  "add_ver_event e s = (Inr u, s') \<Longrightarrow> ve_request e = Some i \<Longrightarrow> logged_but (Some i) (snd (tables s))
    \<Longrightarrow> ver_logged (snd (tables s'))"
  by (cases "tables s")
    (auto simp: add_ver_event_def logged_but_def has_event_def list_all_iff dest!: stmt_insert_Inr)

lemma accept_code_logged:
  assumes run: "accept_code acc c q at expires s = (Inr item, s')" and ok: "ver_logged (snd (tables s))"
  shows "ver_logged (snd (tables s'))"
proof -
  from run obtain s1 s2 s3 s4 it where
    r: "update_code (vc_id c) (\<lambda>c. c\<lparr>vc_consumed := Some at\<rparr>) s = (Inr (), s1)"
      "approve_request (rv_id q) at s1 = (Inr (), s2)"
      "upsert_verification q MethodSchoolEmail at expires None s2 = (Inr it, s3)"
      "set_identity acc ''student'' s3 = (Inr (), s4)"
      "add_ver_event \<lparr>ve_request = Some (rv_id q), ve_student = Some (sver_id it), ve_actor = Some acc,
         ve_action = ''approved_by_school_email'', ve_from = ''pending'', ve_to = ''approved'', ve_reason = ''-''\<rparr> s4
       = (Inr (), s')"
    unfolding accept_code_def by auto
  have 1: "ver_logged (snd (tables s1))" using keepsD[OF log_codes(2) ok r(1)] .
  note 2 = approve_turns[OF r(2) 1]
  note 3 = keepsD[OF log_students(1) 2 r(3)]
  note 4 = keepsD[OF log_students(2) 3 r(4)]
  from event_turns[OF r(5) _ 4] show ?thesis by simp
qed

lemma log_consume [log_keeps]: "rows_keep ver_logged (consume_email_code acc i hash at expires)"
  unfolding consume_email_code_def
proof (rule keeps_bindM, rule keeps_in_tx_success)
  fix s x s'
  assume ok: "ver_logged (snd (tables s))"
    and run: "bindM (map_errM (or_missing VerInvalidCode) (stmt_row (\<lambda>d t. live_code t acc i at))) (\<lambda>(c, r).
       let q = ver_request_of r 0 in
       if rv_status q \<noteq> ''pending'' \<or> 5 \<le> vc_attempts c then fail VerInvalidCode
       else if vc_hash c \<noteq> hash then
         bindM (update_code (vc_id c) (\<lambda>c. c\<lparr>vc_attempts := vc_attempts c + 1\<rparr>)) (\<lambda>_. ret None)
       else bindM (accept_code acc c q at expires) (\<lambda>item. ret (Some item))) s = (Inr x, s')"
  from run obtain c r s1 where
    same: "tables s1 = tables s" and
    body: "(let q = ver_request_of r 0 in
       if rv_status q \<noteq> ''pending'' \<or> 5 \<le> vc_attempts c then fail VerInvalidCode
       else if vc_hash c \<noteq> hash then
         bindM (update_code (vc_id c) (\<lambda>c. c\<lparr>vc_attempts := vc_attempts c + 1\<rparr>)) (\<lambda>_. ret None)
       else bindM (accept_code acc c q at expires) (\<lambda>item. ret (Some item))) s1 = (Inr x, s')"
    by (elim bind_rowE) (auto split: prod.splits)
  from ok same have ok1: "ver_logged (snd (tables s1))" by simp
  from body show "ver_logged (snd (tables s'))"
    by (auto simp: Let_def split: if_splits dest: keepsD[OF log_codes(2) ok1] accept_code_logged[OF _ ok1])
qed (intro keeps_intros)

lemma review_rows_turn: "ver_logged t \<Longrightarrow> logged_but (Some i) (review_rows i st reason adm ts t)"
  unfolding logged_but_def has_event_def review_rows_def list_all_iff
  by (simp add: ball_update_where)

lemma review_documents_log:
  "logged_but o1 (review_documents i st reason adm ts t) = logged_but o1 t"
  by (rule logged_frame) (simp_all add: review_documents_def)

lemma review_writes_logged:
  assumes run: "review_writes adm i input verified expires ts acc q s = (Inr item, s')"
    and ok: "ver_logged (snd (tables s))"
  shows "ver_logged (snd (tables s'))"
proof -
  let ?st = "if ri_approved input then ''approved'' else ''rejected''"
  let ?student = "if \<not> ri_approved input then ret None
      else bindM (upsert_verification q MethodDocument verified expires (Some adm)) (\<lambda>item.
           bindM (set_identity acc ''student'') (\<lambda>_. ret (Some item)))"
  from run obtain u1 s1 u2 s2 it s3 u3 s4 where
    rows: "stmt_insert (\<lambda>d t. has_account d adm) (\<lambda>_ _. True)
        (\<lambda>(d, t). (d, review_rows i ?st (ri_reason input) adm ts t)) (\<lambda>_ _. ()) s = (Inr u1, s1)" and
    files: "stmt_insert (\<lambda>d t. has_account d adm) (\<lambda>_ _. True)
        (\<lambda>(d, t). (d, review_documents i ?st (ri_reason input) adm ts t)) (\<lambda>_ _. ()) s1 = (Inr u2, s2)" and
    student: "?student s2 = (Inr it, s3)" and
    event: "add_ver_event \<lparr>ve_request = Some i, ve_student = None, ve_actor = Some adm,
        ve_action = (if ri_approved input then ''approved_by_admin'' else ''rejected''), ve_from = ''pending'',
        ve_to = ?st, ve_reason = ri_reason input\<rparr> s3 = (Inr u3, s4)" and
    last: "(ret it :: student_verification option ver_op) s4 = (Inr item, s')"
    unfolding review_writes_def Let_def bindM_Inr_iff map_errM_Inr_iff
    by (elim exE conjE) (rule that; assumption)
  have "snd (tables s1) = review_rows i ?st (ri_reason input) adm ts (snd (tables s))"
    using stmt_insert_Inr[OF rows] by (simp add: case_prod_beta)
  moreover have "snd (tables s2) = review_documents i ?st (ri_reason input) adm ts (snd (tables s1))"
    using stmt_insert_Inr[OF files] by (simp add: case_prod_beta)
  ultimately have 2: "logged_but (Some i) (snd (tables s2))"
    using review_rows_turn[OF ok] by (simp only: review_documents_log)
  have "rows_keep (logged_but (Some i)) ?student" by (intro keeps_intros log_keeps)
  from keepsD[OF this 2 student] have "logged_but (Some i) (snd (tables s3))" .
  from event_turns[OF event _ this] last show ?thesis by simp
qed

lemma log_review [log_keeps]: "rows_keep ver_logged (review_document_request adm i input verified expires)"
  unfolding review_document_request_def as_ver_admin_def
  by (rule keeps_bindM, rule ver_keeps, rule keeps_if, rule keeps_fail, rule keeps_bindM, rule keeps_readM,
      rule keeps_in_tx_success, elim bind_rowE)
    (auto simp: Let_def split: prod.splits if_splits dest: review_writes_logged)

lemma log_purge [log_keeps]: "rows_keep (logged_but o1) (purge_annual_data remove year at)"
proof -
  have start: "rows_keep (logged_but o1) (start_run year)"
    unfolding start_run_def
    by (intro keeps_stmt) (auto simp: logged_but_def has_event_def Let_def split: option.splits)
  have update: "rows_keep (logged_but o1) (update_run k f)" for k f
    unfolding update_run_def by (intro keeps_intros keeps_stmt_write) (simp add: logged_but_def has_event_def)
  have delete: "rows_keep (logged_but o1) (delete_requests year)"
    unfolding delete_requests_def Let_def
    by (intro keeps_stmt) (auto simp: logged_but_def has_event_def list_all_iff)
  have expire: "rows_keep (logged_but o1) (expire_students at)" "rows_keep (logged_but o1) (promote_seniors at)"
    unfolding expire_students_def promote_seniors_def
    by (intro keeps_intros keeps_stmt_write keeps_stmt_insert; simp add: logged_but_def has_event_def)+
  show ?thesis
    unfolding purge_annual_data_def purge_objects_def purge_rows_def
    by (intro keeps_intros start update delete expire rows_keep_remove; simp)
qed

section \<open>The routes\<close>

text \<open>\<open>R\<close> holds across the service if every repository operation keeps it and the limiters do not matter.\<close>

lemma rows_keep_limiters:
  assumes "\<And>t l. R (t\<lparr>ver_email_rate := l\<rparr>) = R t" "\<And>t l. R (t\<lparr>ver_upload_rate := l\<rparr>) = R t"
  shows "rows_keep R (email_hit key)" "rows_keep R (upload_allowed v acc)"
proof -
  show "rows_keep R (email_hit key)" using assms(1) by (auto simp: keeps_def email_hit_def tables_def split: prod.splits)
  show "rows_keep R (upload_allowed v acc)"
  proof (rule keepsI)
    fix s r s' assume R: "R (snd (tables s))" and run: "upload_allowed v acc s = (r, s')"
    then have "snd s' = (snd s)\<lparr>ver_upload_rate := snd (take_hit (ver_upload_rate (snd s)) (e_uuid (vs_env v) acc) (now (fst s)))\<rparr>"
      by (auto simp: upload_allowed_def Let_def core_def map_errM_def split: prod.splits sum.splits)
    with R assms(2) show "R (snd (tables s'))" by (simp add: tables_def)
  qed
qed

lemma rows_keep_routes:
  assumes lim: "\<And>t l. R (t\<lparr>ver_email_rate := l\<rparr>) = R t" "\<And>t l. R (t\<lparr>ver_upload_rate := l\<rparr>) = R t"
    and ops: "\<And>acc i m ct hash. rows_keep R (create_request acc i m ct hash)"
      "\<And>i hash expires. rows_keep R (create_email_challenge i hash expires)"
      "\<And>acc i hash at expires. rows_keep R (consume_email_code acc i hash at expires)"
      "\<And>acc i name key mime nbytes sha. rows_keep R (create_document acc i name key mime nbytes sha)"
      "\<And>adm i input verified expires. rows_keep R (review_document_request adm i input verified expires)"
      "\<And>adm school domain. rows_keep R (add_domain adm school domain)"
      "\<And>adm i active. rows_keep R (set_domain_active adm i active)"
  shows "rows_keep R (ver_route v rq call)"
proof -
  note hits = rows_keep_limiters[of R, OF lim]
  have send: "rows_keep R (send_code v acc ct q)" for acc ct q
    unfolding send_code_def by (intro keeps_intros ops)
  have serve: "rows_keep R (create_school_email_request v acc input)" "rows_keep R (verify_school_email v acc i code)"
    "rows_keep R (request_by_document v acc input)" "rows_keep R (review_request adm i rev)"
    "rows_keep R (add_school_domain v adm school domain)" for acc input i code adm rev school domain
    unfolding create_school_email_request_def verify_school_email_def request_by_document_def review_request_def
      add_school_domain_def create_email_request_def create_document_request_def Let_def
    by (intro keeps_intros ops hits send ver_keeps)+
  have guards: "rows_keep R (ver_require_auth v rq)" "rows_keep R (ver_require_mutation v rq)"
    "rows_keep R (ver_require_admin v rq)" "rows_keep R (ver_require_admin_mutation v rq)"
    unfolding ver_require_auth_def ver_require_mutation_def ver_require_admin_def ver_require_admin_mutation_def
    by (intro keeps_intros ver_keeps)+
  have staged: "rows_keep R (staged_document v form)" for form
    unfolding staged_document_def
    by (auto intro!: keeps_intros split: form_file.splits option.splits scan_error.splits)
  show ?thesis
    by (cases call; simp only: ver_route.simps;
        unfold route_list_requests_def route_school_email_request_def route_verify_email_def
          route_document_request_def route_upload_document_def route_pending_requests_def route_review_def
          route_list_documents_def route_download_document_def route_list_domains_def route_add_domain_def
          route_domain_active_def serve_ver_def ver_request_id_def Let_def;
        intro keeps_intros guards serve ops hits staged ver_keeps)
qed

section \<open>Reachable states\<close>

text \<open>No request, code, document, verification, event or run: the tables of a fresh installation.\<close>

definition ver_fresh :: "ver_tables \<Rightarrow> bool" where
  "ver_fresh t \<longleftrightarrow> ver_requests t = [] \<and> ver_codes t = [] \<and> ver_documents t = [] \<and> ver_students t = []
     \<and> ver_events t = [] \<and> ver_runs t = [] \<and> ver_domains t = []"

inductive ver_reachable :: "ver_config \<Rightarrow> ver_tables state \<Rightarrow> bool" for v :: ver_config where
  start: "ver_fresh (snd s) \<Longrightarrow> ver_reachable v s"
| route: "ver_reachable v s \<Longrightarrow> ver_route v rq call s = (r, s') \<Longrightarrow> ver_reachable v s'"
| purge: "ver_reachable v s \<Longrightarrow> purge_year v year s = (report, s') \<Longrightarrow> ver_reachable v s'"
| outside: "ver_reachable v s \<Longrightarrow> snd s' = snd s \<Longrightarrow> ver_reachable v s'"

lemma purge_year_keeps:
  "rows_keep ver_typed (purge_year v year)" "rows_keep ver_logged (purge_year v year)"
  unfolding purge_year_def by (intro keeps_intros ver_keeps log_keeps)+

lemma ver_reachable_ok: "ver_reachable v s \<Longrightarrow> ver_typed (snd (tables s)) \<and> ver_logged (snd (tables s))"
proof (induction rule: ver_reachable.induct)
  case (start s)
  then show ?case by (auto simp: tables_def ver_fresh_def ver_typed_def logged_but_def)
next
  case (route s rq call r s')
  have "rows_keep ver_typed (ver_route v rq call)"
    by (intro rows_keep_routes typed_limiters ver_keeps)
  moreover have "rows_keep ver_logged (ver_route v rq call)"
    by (intro rows_keep_routes logged_limiters log_keeps)
  ultimately show ?case using route by (blast dest: keepsD)
next
  case (purge s year report s')
  then show ?case using purge_year_keeps by (blast dest: keepsD)
qed (simp add: tables_def)

end
