(* ===== verification/VerificationProperties.thy ===== *)
theory VerificationProperties imports VerificationInvariants begin

text \<open>
  The promises of student verification: the form of its rows, what a code entered does on every
  path, how often a code can be guessed, and what the annual clean-up cannot do.
\<close>

section \<open>The form of the rows\<close>

text \<open>Property C39. In every state the routes, the annual clean-up and anything outside can lead to,
  from empty tables on, every row of student verification is of the declared form: years of three
  digits, known statuses, at most five attempts on a code, a school e-mail exactly on requests of that
  method, digests of 64 hexadecimal digits, object keys and clean-up years unique, verifications that
  end after they begin, domains the pattern admits; and a request that was decided has an event in the
  append-only log.\<close>

theorem verification_rows_typed:
  assumes "ver_reachable v s"
  shows "ver_typed (snd s) \<and> ver_logged (snd s)"
  using ver_reachable_ok[OF assms] by (simp add: tables_def)

section \<open>Codes\<close>

lemma find_by_id:
  assumes "distinct (map vr_id (ver_requests t))" "List.find (\<lambda>r. vr_id r = i \<and> vr_account r = acc) (ver_requests t) = Some q"
  shows "find_request t i = Some q" "vr_id q = i" "vr_account q = acc"
  using assms find_unique_key[OF assms(1), of q] by (auto simp: find_request_def dest!: find_Some_D)

text \<open>What an upsert leaves behind.\<close>

definition entitled :: "ver_request_row \<Rightarrow> time \<Rightarrow> student_row \<Rightarrow> bool" where
  "entitled q expires r \<longleftrightarrow> stu_account r = vr_account q \<and> stu_year r = vr_year q \<and> stu_school r = vr_school q
     \<and> stu_source r = Some (vr_id q) \<and> stu_status r = ''active'' \<and> stu_expires r = expires"

lemma upsert_Inr:
  assumes run: "upsert_verification (ver_request_of q n) m verified expires who s = (Inr item, s')"
    and q: "find_request (snd (tables s)) (vr_id q) = Some q'" "vr_account q' = vr_account q" "vr_year q' = vr_year q"
      "vr_school q' = vr_school q" "vr_id q' = vr_id q"
  shows "\<exists>k. sver_id item = k \<and> (\<exists>r \<in> set (ver_students (snd (tables s'))). stu_id r = k \<and> entitled q expires r)
      \<and> filter (\<lambda>r. stu_id r \<noteq> k) (ver_students (snd (tables s'))) = filter (\<lambda>r. stu_id r \<noteq> k) (ver_students (snd (tables s)))"
    and "snd (tables s') = (snd (tables s))\<lparr>ver_students := ver_students (snd (tables s'))\<rparr>"
    and "accounts (fst (tables s')) = accounts (fst (tables s))" and "same_clocks s s'"
proof -
  from run obtain s1 k s2 where
    found: "tables s1 = tables s" "same_clocks s s1" and
    stored: "(case List.find (same_entitlement (vr_account q') (ver_request_of q n)) (ver_students (snd (tables s))) of
        None \<Rightarrow> insert_student (vr_id q) m verified expires who
      | Some x \<Rightarrow> bindM (renew_student (stu_id x) (vr_id q) m verified expires who) (\<lambda>_. ret (stu_id x))) s1 = (Inr k, s2)" and
    read: "map_errM ver_raw (stmt_row (\<lambda>d t. map_option student_of (List.find (\<lambda>r. stu_id r = k) (ver_students t)))) s2 = (Inr item, s')"
    unfolding upsert_verification_def
    by (elim bind_rowsE bindM_InrE) (auto simp: q(1) ver_request_of_def split: option.splits)
  have same2: "tables s' = tables s2" "same_clocks s2 s'" and id: "sver_id item = k"
    using read by (auto dest!: stmt_row_Inr find_Some_D simp: student_of_def)
  have "(\<exists>r \<in> set (ver_students (snd (tables s2))). stu_id r = k \<and> entitled q expires r)
      \<and> filter (\<lambda>r. stu_id r \<noteq> k) (ver_students (snd (tables s2))) = filter (\<lambda>r. stu_id r \<noteq> k) (ver_students (snd (tables s)))
      \<and> snd (tables s2) = (snd (tables s))\<lparr>ver_students := ver_students (snd (tables s2))\<rparr>
      \<and> accounts (fst (tables s2)) = accounts (fst (tables s)) \<and> same_clocks s1 s2"
  proof (cases "List.find (same_entitlement (vr_account q') (ver_request_of q n)) (ver_students (snd (tables s)))")
    case None
    with stored found q show ?thesis
      by (auto simp: insert_student_def Let_def new_student_def entitled_def dest!: stmt_Inr split: if_splits)
  next
    case (Some x)
    then have x: "x \<in> set (ver_students (snd (tables s)))" "same_entitlement (vr_account q') (ver_request_of q n) x"
      by (auto dest: find_Some_D)
    let ?f = "\<lambda>r. r\<lparr>stu_source := Some (vr_id q), stu_method := m, stu_status := ''active'', stu_verified := verified,
               stu_expires := expires, stu_by := who\<rparr>"
    from stored Some have k: "k = stu_id x" and
      t2: "tables s2 = (fst (tables s), (snd (tables s))\<lparr>ver_students := update_where (\<lambda>r. stu_id r = k) ?f (ver_students (snd (tables s)))\<rparr>)"
      and c: "same_clocks s1 s2"
      using found by (auto simp: renew_student_def case_prod_beta dest!: stmt_add_Inr)
    have "?f x \<in> set (ver_students (snd (tables s2)))" using x(1) k by (simp add: t2 set_update_where)
    moreover have "stu_id (?f x) = k \<and> entitled q expires (?f x)"
      using x(2) k q by (simp add: same_entitlement_def entitled_def ver_request_of_def)
    ultimately have 1: "\<exists>r \<in> set (ver_students (snd (tables s2))). stu_id r = k \<and> entitled q expires r" by (rule bexI[rotated])
    have "filter (\<lambda>r. stu_id r \<noteq> k) (update_where (\<lambda>r. stu_id r = k) ?f rows) = filter (\<lambda>r. stu_id r \<noteq> k) rows" for rows
      by (induction rows) (simp_all add: update_where_def)
    then have "filter (\<lambda>r. stu_id r \<noteq> k) (ver_students (snd (tables s2))) = filter (\<lambda>r. stu_id r \<noteq> k) (ver_students (snd (tables s)))"
      by (simp add: t2)
    with 1 c show ?thesis by (simp add: t2)
  qed
  with found same2 id show
    "\<exists>k. sver_id item = k \<and> (\<exists>r \<in> set (ver_students (snd (tables s'))). stu_id r = k \<and> entitled q expires r)
      \<and> filter (\<lambda>r. stu_id r \<noteq> k) (ver_students (snd (tables s'))) = filter (\<lambda>r. stu_id r \<noteq> k) (ver_students (snd (tables s)))"
    "snd (tables s') = (snd (tables s))\<lparr>ver_students := ver_students (snd (tables s'))\<rparr>"
    "accounts (fst (tables s')) = accounts (fst (tables s))" "same_clocks s s'"
    by (auto intro: same_clocks_trans)
qed

text \<open>The effect of a right code and of a wrong one; \<open>c\<close> is the code, \<open>q\<close> its request, \<open>ts\<close> the
  time of the database.\<close>

definition code_used ::
  "uuid \<Rightarrow> code_row \<Rightarrow> ver_request_row \<Rightarrow> time \<Rightarrow> time \<Rightarrow> time \<Rightarrow> db \<times> ver_tables \<Rightarrow> db \<times> ver_tables
    \<Rightarrow> student_verification \<Rightarrow> bool" where
  "code_used acc c q at expires ts x x' item \<longleftrightarrow>
     ver_codes (snd x') = update_where (\<lambda>y. vc_id y = vc_id c) (\<lambda>y. y\<lparr>vc_consumed := Some at\<rparr>) (ver_codes (snd x))
     \<and> ver_requests (snd x') = update_where (\<lambda>r. vr_id r = vr_id q)
         (\<lambda>r. r\<lparr>vr_status := ''approved'', vr_reviewed := Some at\<rparr>) (ver_requests (snd x))
     \<and> accounts (fst x') = update_where (\<lambda>a. a_id a = acc \<and> a_status a = ''active'')
         (\<lambda>a. a\<lparr>a_identity := ''student'', a_updated := ts\<rparr>) (accounts (fst x))
     \<and> ver_events (snd x') = ver_events (snd x) @ [\<lparr>ve_request = Some (vr_id q), ve_student = Some (sver_id item),
         ve_actor = Some acc, ve_action = ''approved_by_school_email'', ve_from = ''pending'', ve_to = ''approved'',
         ve_reason = ''-''\<rparr>]
     \<and> (\<exists>r \<in> set (ver_students (snd x')). stu_id r = sver_id item \<and> entitled q expires r)
     \<and> filter (\<lambda>r. stu_id r \<noteq> sver_id item) (ver_students (snd x')) = filter (\<lambda>r. stu_id r \<noteq> sver_id item) (ver_students (snd x))
     \<and> ver_documents (snd x') = ver_documents (snd x) \<and> ver_domains (snd x') = ver_domains (snd x)"

definition code_refused :: "code_row \<Rightarrow> db \<times> ver_tables \<Rightarrow> db \<times> ver_tables" where
  "code_refused c x = (fst x, (snd x)\<lparr>ver_codes := update_where (\<lambda>y. vc_id y = vc_id c)
     (\<lambda>y. y\<lparr>vc_attempts := vc_attempts y + 1\<rparr>) (ver_codes (snd x))\<rparr>)"

lemma live_code_D:
  assumes "live_code t acc i at = Some (c, q)"
  shows "c \<in> set (ver_codes t)" "open_code i c" "at < vc_expires c"
    "List.find (\<lambda>r. vr_id r = i \<and> vr_account r = acc) (ver_requests t) = Some q"
proof -
  from assms obtain cs where s: "sort_key (\<lambda>c. - vc_created c) (filter (\<lambda>c. open_code i c \<and> at < vc_expires c) (ver_codes t)) = c # cs"
    and q: "List.find (\<lambda>r. vr_id r = i \<and> vr_account r = acc) (ver_requests t) = Some q"
    by (auto simp: live_code_def split: list.splits)
  from s have "c \<in> set (filter (\<lambda>c. open_code i c \<and> at < vc_expires c) (ver_codes t))"
    by (metis list.set_intros(1) set_sort)
  with q show "c \<in> set (ver_codes t)" "open_code i c" "at < vc_expires c"
    "List.find (\<lambda>r. vr_id r = i \<and> vr_account r = acc) (ver_requests t) = Some q" by auto
qed

lemma update_code_Inr:
  "update_code k f s = (Inr u, s') \<Longrightarrow> tables s' = (fst (tables s), (snd (tables s))\<lparr>ver_codes :=
     update_where (\<lambda>c. vc_id c = k) f (ver_codes (snd (tables s)))\<rparr>) \<and> same_clocks s s'"
  by (auto simp: update_code_def case_prod_beta dest!: stmt_insert_Inr)

lemma accept_code_Inr:
  assumes run: "accept_code acc c (ver_request_of q 0) at expires s = (Inr item, s')"
    and ids: "distinct (map vr_id (ver_requests (snd (tables s))))"
    and q: "List.find (\<lambda>r. vr_id r = i \<and> vr_account r = acc) (ver_requests (snd (tables s))) = Some q"
  shows "code_used acc c q at expires (db_now (fst s)) (tables s) (tables s') item"
proof -
  note qi = find_by_id[OF ids q]
  from run obtain u1 s1 u2 s2 s3 u4 s4 u5 where
    code: "update_code (vc_id c) (\<lambda>c. c\<lparr>vc_consumed := Some at\<rparr>) s = (Inr u1, s1)" and
    req: "approve_request (vr_id q) at s1 = (Inr u2, s2)" and
    stu: "upsert_verification (ver_request_of q 0) MethodSchoolEmail at expires None s2 = (Inr item, s3)" and
    ident: "set_identity acc ''student'' s3 = (Inr u4, s4)" and
    event: "add_ver_event \<lparr>ve_request = Some (vr_id q), ve_student = Some (sver_id item), ve_actor = Some acc,
        ve_action = ''approved_by_school_email'', ve_from = ''pending'', ve_to = ''approved'', ve_reason = ''-''\<rparr> s4 = (Inr u5, s')"
    unfolding accept_code_def ver_request_of_def by auto
  note c1 = update_code_Inr[OF code]
  let ?g = "\<lambda>r. r\<lparr>vr_status := ''approved'', vr_reviewed := Some at\<rparr>"
  have r2: "tables s2 = (fst (tables s1), (snd (tables s1))\<lparr>ver_requests :=
      update_where (\<lambda>r. vr_id r = vr_id q) ?g (ver_requests (snd (tables s1)))\<rparr>)" "same_clocks s1 s2"
    using req by (auto simp: approve_request_def dest!: stmt_write_Inr)
  have "find_request (snd (tables s2)) (vr_id q) = Some (?g q)"
  proof -
    have "q \<in> set (ver_requests (snd (tables s)))" using q by (auto dest: find_Some_D)
    then have "?g q \<in> set (update_where (\<lambda>r. vr_id r = vr_id q) ?g (ver_requests (snd (tables s))))" by (simp add: set_update_where)
    moreover have "distinct (map vr_id (update_where (\<lambda>r. vr_id r = vr_id q) ?g (ver_requests (snd (tables s)))))"
      using ids by (simp add: map_update_where)
    ultimately show ?thesis using find_unique_key[of vr_id _ "?g q"] by (simp add: find_request_def r2 c1)
  qed
  note st = upsert_Inr[OF stu this]
  from ident have acc: "tables s4 = ((fst (tables s3))\<lparr>accounts := update_where (\<lambda>a. a_id a = acc \<and> a_status a = ''active'')
      (\<lambda>a. a\<lparr>a_identity := ''student'', a_updated := db_now (fst s3)\<rparr>) (accounts (fst (tables s3)))\<rparr>, snd (tables s3))"
    by (auto simp: set_identity_def case_prod_beta dest!: stmt_insert_Inr)
  from event have ev: "snd (tables s') = (snd (tables s4))\<lparr>ver_events := ver_events (snd (tables s4)) @
      [\<lparr>ve_request = Some (vr_id q), ve_student = Some (sver_id item), ve_actor = Some acc,
        ve_action = ''approved_by_school_email'', ve_from = ''pending'', ve_to = ''approved'', ve_reason = ''-''\<rparr>]\<rparr>"
    "fst (tables s') = fst (tables s4)"
    by (auto simp: add_ver_event_def case_prod_beta dest!: stmt_insert_Inr)
  have clock: "db_now (fst s3) = db_now (fst s)"
    using c1 r2(2) st(4) by (simp add: same_clocks_def)
  have frame: "ver_codes (snd (tables s3)) = ver_codes (snd (tables s2))"
    "ver_requests (snd (tables s3)) = ver_requests (snd (tables s2))"
    "ver_events (snd (tables s3)) = ver_events (snd (tables s2))"
    "ver_documents (snd (tables s3)) = ver_documents (snd (tables s2))"
    "ver_domains (snd (tables s3)) = ver_domains (snd (tables s2))"
    by (subst st(2); simp)+
  show ?thesis
    unfolding code_used_def using st(1,3) by (simp add: ev acc frame r2 c1 clock)
qed

lemma consume_cases:
  assumes run: "consume_email_code acc i hash at expires s = (r, s')"
    and ids: "distinct (map vr_id (ver_requests (snd s)))"
  shows "case r of
      Inr item \<Rightarrow> (\<exists>c q. live_code (snd s) acc i at = Some (c, q) \<and> vr_status q = ''pending'' \<and> vc_attempts c < 5
        \<and> vc_hash c = hash \<and> code_used acc c q at expires (db_now (fst s)) (tables s) (tables s') item)
    | Inl e \<Rightarrow> tables s' = tables s
        \<or> (e = VerInvalidCode \<and> (\<exists>c q. live_code (snd s) acc i at = Some (c, q) \<and> vr_status q = ''pending''
             \<and> vc_attempts c < 5 \<and> vc_hash c \<noteq> hash \<and> tables s' = code_refused c (tables s)))"
proof -
  let ?body = "bindM (map_errM (or_missing VerInvalidCode) (stmt_row (\<lambda>d t. live_code t acc i at))) (\<lambda>(c, r).
       let q = ver_request_of r 0 in
       if rv_status q \<noteq> ''pending'' \<or> 5 \<le> vc_attempts c then fail VerInvalidCode
       else if vc_hash c \<noteq> hash then
         bindM (update_code (vc_id c) (\<lambda>c. c\<lparr>vc_attempts := vc_attempts c + 1\<rparr>)) (\<lambda>_. ret None)
       else bindM (accept_code acc c q at expires) (\<lambda>item. ret (Some item)))"
  have run': "bindM (in_tx ver_raw ?body) (\<lambda>res. case res of None \<Rightarrow> fail VerInvalidCode | Some item \<Rightarrow> ret item) s = (r, s')"
    using run by (simp only: consume_email_code_def)
  obtain tr s0 where tx: "in_tx ver_raw ?body s = (tr, s0)" by (rule prod.exhaust)
  show ?thesis
  proof (cases tr)
    case (Inl e)
    from run'[unfolded bindM_def tx Inl] have "r = Inl e" "s' = s0" by auto
    with in_tx_Inl[OF tx[unfolded Inl]] show ?thesis by simp
  next
    case (Inr res)
    from run'[unfolded bindM_def tx Inr] have r: "(case res of None \<Rightarrow> fail VerInvalidCode | Some item \<Rightarrow> ret item) s0 = (r, s')" by simp
    from tx[unfolded Inr] obtain s1 s2 where b: "tables s1 = tables s" "same_clocks s s1" "?body s1 = (Inr res, s2)" "tables s0 = tables s2"
      by (rule in_tx_Inr)
    from b(3) obtain x s3 where x: "live_code (snd (tables s1)) acc i at = Some x" "tables s3 = tables s1" "same_clocks s1 s3"
      and rest0: "(case x of (c, q) \<Rightarrow> let q = ver_request_of q 0 in
       if rv_status q \<noteq> ''pending'' \<or> 5 \<le> vc_attempts c then fail VerInvalidCode
       else if vc_hash c \<noteq> hash then
         bindM (update_code (vc_id c) (\<lambda>c. c\<lparr>vc_attempts := vc_attempts c + 1\<rparr>)) (\<lambda>_. ret None)
       else bindM (accept_code acc c q at expires) (\<lambda>item. ret (Some item))) s3 = (Inr res, s2)"
      by (rule bind_rowE)
    obtain c q where cq: "x = (c, q)" by (cases x)
    note live = x(1)[unfolded cq] and same = x(2,3) and rest = rest0[unfolded cq prod.case]
    have live': "live_code (snd s) acc i at = Some (c, q)" using live b(1) by (simp add: tables_def)
    have st: "vr_status q = ''pending''" "vc_attempts c < 5"
      using rest by (auto simp: Let_def ver_request_of_def split: if_splits)
    show ?thesis
    proof (cases "vc_hash c = hash")
      case False
      with rest st obtain u where "update_code (vc_id c) (\<lambda>c. c\<lparr>vc_attempts := vc_attempts c + 1\<rparr>) s3 = (Inr u, s2)" "res = None"
        by (auto simp: Let_def ver_request_of_def split: if_splits)
      with update_code_Inr[OF this(1)] r b(1,4) same live' st False show ?thesis
        by (auto simp: code_refused_def)
    next
      case True
      with rest st obtain item where acc: "accept_code acc c (ver_request_of q 0) at expires s3 = (Inr item, s2)" "res = Some item"
        by (auto simp: Let_def ver_request_of_def split: if_splits)
      have t3: "tables s3 = tables s" using same b(1) by simp
      have "code_used acc c q at expires (db_now (fst s3)) (tables s3) (tables s2) item"
        using accept_code_Inr[OF acc(1)] live_code_D(4)[OF live'] ids t3 by (simp add: tables_def)
      moreover have "db_now (fst s3) = db_now (fst s)" using b(2) same(2) by (simp add: same_clocks_def)
      ultimately show ?thesis using r acc(2) live' st True b(4) t3 by auto
    qed
  qed
qed


section \<open>How often a code can be guessed\<close>

text \<open>\<open>sole_code t acc i c q\<close>: \<open>c\<close> is the open code of the request \<open>q\<close> of the account; issuing a code
  consumes every earlier one of the request (\<open>create_email_challenge\<close>).\<close>

definition sole_code :: "ver_tables \<Rightarrow> uuid \<Rightarrow> uuid \<Rightarrow> code_row \<Rightarrow> ver_request_row \<Rightarrow> bool" where
  "sole_code t acc i c q \<longleftrightarrow> filter (open_code i) (ver_codes t) = [c] \<and> distinct (map vc_id (ver_codes t))
     \<and> List.find (\<lambda>r. vr_id r = i \<and> vr_account r = acc) (ver_requests t) = Some q \<and> vr_status q = ''pending''"

lemma sole_live:
  assumes "sole_code t acc i c q"
  shows "live_code t acc i at = (if at < vc_expires c then Some (c, q) else None)"
proof -
  have "filter (\<lambda>x. open_code i x \<and> at < vc_expires x) (ver_codes t) = filter (\<lambda>x. at < vc_expires x) (filter (open_code i) (ver_codes t))"
    unfolding filter_filter by (rule filter_cong) auto
  with assms show ?thesis by (simp add: live_code_def sole_code_def)
qed

lemma consume_wrong:
  assumes sole: "sole_code (snd s) acc i c q" and ok: "faults (fst s) = []" "0 \<le> vc_attempts c" "vc_attempts c < 5"
    and wrong: "hash \<noteq> vc_hash c" "at < vc_expires c"
  shows "consume_email_code acc i hash at expires s = (Inl VerInvalidCode, (fst s, snd (code_refused c (tables s))))"
proof -
  have c: "c \<in> set (ver_codes (snd s))" using sole by (metis sole_code_def filter_eq_ConsD in_set_conv_decomp)
  have one: "x = c" if "x \<in> set (ver_codes (snd s))" "vc_id x = vc_id c" for x
    using that c sole by (auto simp: sole_code_def distinct_map inj_on_def)
  have chk: "list_all (\<lambda>x. vc_id x = vc_id c \<longrightarrow> 0 \<le> vc_attempts (x\<lparr>vc_attempts := vc_attempts x + 1\<rparr>)
      \<and> vc_attempts (x\<lparr>vc_attempts := vc_attempts x + 1\<rparr>) \<le> 5) (ver_codes (snd s))"
    using ok(2,3) by (auto simp: list_all_iff dest: one)
  show ?thesis
    using ok(1,3) wrong sole_live[OF sole] chk sole
    by (simp add: consume_email_code_def in_tx_def in_tx_flag_def bindM_def map_errM_def stmt_nop_def stmt_def stmt_row_def
        stmt_insert_def tables_def with_tables_def update_code_def Let_def ver_request_of_def sole_code_def ret_def
        fail_def code_refused_def)
qed

lemma consume_locked:
  assumes "sole_code (snd s) acc i c q" "faults (fst s) = []" "5 \<le> vc_attempts c \<or> vc_expires c \<le> at"
  shows "consume_email_code acc i hash at expires s = (Inl VerInvalidCode, s)"
  using assms sole_live[OF assms(1)]
  by (cases s) (auto simp: consume_email_code_def in_tx_def in_tx_flag_def bindM_def map_errM_def stmt_nop_def stmt_def
      stmt_row_def tables_def with_tables_def Let_def ver_request_of_def ret_def fail_def or_missing_def)

lemma sole_refused:
  assumes "sole_code (snd s) acc i c q"
  shows "sole_code (snd (code_refused c (tables s))) acc i (c\<lparr>vc_attempts := vc_attempts c + 1\<rparr>) q"
proof -
  let ?f = "\<lambda>y. y\<lparr>vc_attempts := vc_attempts y + 1\<rparr>"
  have "filter (open_code i) (update_where (\<lambda>y. vc_id y = vc_id c) ?f rows) =
      map (\<lambda>y. if vc_id y = vc_id c then ?f y else y) (filter (open_code i) rows)" for rows
    by (induction rows) (auto simp: update_where_def open_code_def)
  with assms show ?thesis
    by (auto simp: sole_code_def code_refused_def tables_def map_update_where)
qed

fun try_codes :: "uuid \<Rightarrow> uuid \<Rightarrow> (string \<times> time) list \<Rightarrow> ver_tables state \<Rightarrow> ver_tables state" where
  "try_codes acc i [] s = s"
| "try_codes acc i ((hash, at) # tries) s = try_codes acc i tries (snd (consume_email_code acc i hash at (add_year at) s))"

lemma tries_lock:
  assumes "sole_code (snd s) acc i c q" "faults (fst s) = []" "0 \<le> vc_attempts c"
    "\<And>h t. (h, t) \<in> set tries \<Longrightarrow> h \<noteq> vc_hash c \<and> t < vc_expires c" "5 \<le> vc_attempts c + int (length tries)"
  shows "consume_email_code acc i hash at expires (try_codes acc i tries s) = (Inl VerInvalidCode, try_codes acc i tries s)"
  using assms
proof (induction tries arbitrary: s c)
  case Nil
  then show ?case using consume_locked[OF Nil(1,2)] by simp
next
  case (Cons x tries)
  obtain h t where x: "x = (h, t)" by (cases x)
  have w: "h \<noteq> vc_hash c" "t < vc_expires c" using Cons.prems(4) x by auto
  show ?case
  proof (cases "vc_attempts c < 5")
    case True
    let ?s = "(fst s, snd (code_refused c (tables s)))" let ?c = "c\<lparr>vc_attempts := vc_attempts c + 1\<rparr>"
    note step = consume_wrong[OF Cons.prems(1,2,3) True w, of "add_year t"]
    have "consume_email_code acc i hash at expires (try_codes acc i tries ?s) = (Inl VerInvalidCode, try_codes acc i tries ?s)"
      by (rule Cons.IH[of ?s ?c]) (use Cons.prems sole_refused[OF Cons.prems(1)] in auto)
    with step x show ?thesis by simp
  next
    case False
    then have "5 \<le> vc_attempts c \<or> vc_expires c \<le> t" by simp
    note step = consume_locked[OF Cons.prems(1,2) this, of h "add_year t"]
    have "consume_email_code acc i hash at expires (try_codes acc i tries s) = (Inl VerInvalidCode, try_codes acc i tries s)"
      by (rule Cons.IH[OF Cons.prems(1,2,3)]) (use Cons.prems(4) False in auto)
    with step x show ?thesis by simp
  qed
qed

text \<open>Property C38. A code admits at most five wrong guesses: once five wrong digests have been tried
  against it before its end (those counted before the run included), every further attempt is refused
  and changes nothing - at any time, with the right digest too. Only a new code, which needs a new
  request, opens the way again. The database answers throughout; \<open>email_code_outcome\<close> covers failures.\<close>

theorem code_guess_bound:
  assumes "sole_code (snd s) acc i c q" "faults (fst s) = []" "0 \<le> vc_attempts c"
    "\<And>h t. (h, t) \<in> set tries \<Longrightarrow> h \<noteq> vc_hash c \<and> t < vc_expires c" "5 \<le> vc_attempts c + int (length tries)"
  shows "consume_email_code acc i hash at expires (try_codes acc i tries s) = (Inl VerInvalidCode, try_codes acc i tries s)"
  by (rule tries_lock[OF assms])

section \<open>The annual clean-up\<close>

definition no_completed_run :: "int \<Rightarrow> ver_tables \<Rightarrow> bool" where
  "no_completed_run year t \<longleftrightarrow> list_all (\<lambda>r. run_year r = year \<longrightarrow> run_status r \<noteq> ''completed'') (ver_runs t)"

definition decided :: "int \<Rightarrow> ver_tables \<Rightarrow> bool" where
  "decided year t \<longleftrightarrow> list_ex (\<lambda>r. vr_year r = year \<and> vr_status r \<noteq> ''pending'') (ver_requests t)"

definition same_proofs :: "ver_tables \<Rightarrow> ver_tables \<Rightarrow> bool" where
  "same_proofs t t' \<longleftrightarrow> ver_requests t' = ver_requests t \<and> ver_documents t' = ver_documents t
     \<and> ver_events t' = ver_events t \<and> ver_students t' = ver_students t"

lemma delete_blocked:
  assumes "ver_logged (snd (tables s))" "decided year (snd (tables s))"
  shows "\<exists>e s'. delete_requests year s = (Inl e, s')"
proof -
  have "events_refer (year_requests year (snd (tables s))) (snd (tables s))"
    using assms by (force simp: events_refer_def logged_but_def decided_def has_event_def list_all_iff list_ex_iff year_requests_def)
  then show ?thesis by (auto simp: delete_requests_def stmt_def Let_def split: list.splits)
qed

text \<open>The body of the clean-up commits nothing but a failed run.\<close>

definition unpurged :: "int \<Rightarrow> ver_tables \<Rightarrow> ver_tables \<Rightarrow> bool" where
  "unpurged year t0 t \<longleftrightarrow> same_proofs t0 t \<and> no_completed_run year t"

lemma keeps_unpurged:
  "rows_keep (unpurged year t0) (remove_blobs remove ks)" "rows_keep (unpurged year t0) (start_run year)"
  "rows_keep (unpurged year t0) (update_run k (\<lambda>r. r\<lparr>run_status := ''failed'', run_error := e\<rparr>))"
proof -
  show "rows_keep (unpurged year t0) (remove_blobs remove ks)" by (rule rows_keep_remove)
  show "rows_keep (unpurged year t0) (start_run year)"
    unfolding start_run_def
    by (intro keeps_stmt) (auto simp: Let_def unpurged_def same_proofs_def no_completed_run_def split: option.splits)
  have "no_completed_run year (t\<lparr>ver_runs := update_where (\<lambda>r. run_id r = k)
      (\<lambda>r. r\<lparr>run_status := ''failed'', run_error := e\<rparr>) (ver_runs t)\<rparr>)" if "no_completed_run year t" for t
    using that by (auto simp: no_completed_run_def list_all_iff elim!: in_update_whereE)
  then show "rows_keep (unpurged year t0) (update_run k (\<lambda>r. r\<lparr>run_status := ''failed'', run_error := e\<rparr>))"
    unfolding update_run_def by (intro keeps_intros keeps_stmt_write) (simp add: unpurged_def same_proofs_def)
qed

lemma start_run_status:
  "no_completed_run year (snd (tables s)) \<Longrightarrow> start_run year s = (Inr (k, status), s') \<Longrightarrow> status \<noteq> ''completed''"
  by (auto simp: start_run_def no_completed_run_def list_all_iff Let_def dest!: stmt_Inr find_Some_D split: option.splits)

lemma purge_never_completes:
  assumes run: "purge_annual_data remove year at s = (rep, s')"
    and ok: "ver_logged (snd s)" "decided year (snd s)" "no_completed_run year (snd s)"
  shows "\<exists>e. rep = Inl e" "same_proofs (snd s) (snd s')" "no_completed_run year (snd s')"
proof -
  let ?Q = "unpurged year (snd s)"
  have Q0: "?Q (snd (tables s))" using ok(3) by (simp add: unpurged_def same_proofs_def tables_def)
  have good: "ver_logged t \<and> decided year t" if "?Q t" for t
    using that ok(1,2) by (simp add: unpurged_def same_proofs_def logged_but_def has_event_def decided_def)
  note q = keeps_unpurged[of year "snd s"]
  let ?rest = "\<lambda>(run, status).
        if status = ''completed'' then ret (Some \<lparr>cr_year = year, cr_documents = 0, cr_requests = 0, cr_promoted = 0\<rparr>)
        else bindM (map_errM ver_raw (stmt_rows (\<lambda>d t. year_keys year t))) (purge_objects remove run year at)"
  let ?body = "bindM (map_errM ver_raw (start_run year)) ?rest"
  have body: "res = None \<and> ?Q (snd (tables s2))" if "?body s1 = (Inr res, s2)" "tables s1 = tables s" for s1 s2 res
  proof -
    from that(1) obtain x s3 where "start_run year s1 = (Inr x, s3)" "?rest x s3 = (Inr res, s2)"
      by (elim bindM_InrE) simp
    then obtain k status where st: "start_run year s1 = (Inr (k, status), s3)" and rest: "?rest (k, status) s3 = (Inr res, s2)"
      by (cases x) simp
    have Q3: "?Q (snd (tables s3))" using keepsD[OF q(2) _ st] Q0 that(2) by simp
    have "status \<noteq> ''completed''" by (rule start_run_status[OF _ st]) (use ok(3) that(2) in \<open>simp add: tables_def\<close>)
    with rest obtain s4 where s4: "tables s4 = tables s3"
      and obj: "purge_objects remove k year at (year_keys year (snd (tables s3))) s4 = (Inr res, s2)"
      by (simp only: prod.case if_False) (elim bind_rowsE)
    from obj obtain removed s5 where rem: "(remove_blobs remove (year_keys year (snd (tables s3))) :: bool ver_op) s4 = (Inr removed, s5)" and
      fin: "(if \<not> removed then
            bindM (update_run k (\<lambda>r. r\<lparr>run_status := ''failed'', run_error := Some ''object removal failed''\<rparr>)) (\<lambda>_.
            ret None)
          else bindM (purge_rows k year (length (year_keys year (snd (tables s3)))) at) (\<lambda>report. ret (Some report))) s5 = (Inr res, s2)"
      unfolding purge_objects_def by (rule bindM_InrE)
    have Q5: "?Q (snd (tables s5))" using keepsD[OF q(1) _ rem] Q3 s4 by simp
    show ?thesis
    proof (cases removed)
      case False
      with fin obtain u where "update_run k (\<lambda>r. r\<lparr>run_status := ''failed'', run_error := Some ''object removal failed''\<rparr>) s5 = (Inr u, s2)"
        "res = None" by auto
      with keepsD[OF q(3) Q5] show ?thesis by blast
    next
      case True
      with fin obtain report where "purge_rows k year (length (year_keys year (snd (tables s3)))) at s5 = (Inr report, s2)" by auto
      then obtain n s6 where "delete_requests year s5 = (Inr n, s6)" unfolding purge_rows_def by auto
      with delete_blocked[of s5 year] good[OF Q5] show ?thesis by auto
    qed
  qed
  have "(\<exists>e. rep = Inl e) \<and> ?Q (snd (tables s'))"
  proof (cases "year < 100 \<or> 999 < year")
    case True
    with run Q0 show ?thesis by (simp add: purge_annual_data_def)
  next
    case False
    obtain tr s0 where tx: "in_tx ver_raw ?body s = (tr, s0)" by (rule prod.exhaust)
    from run False have fin: "bindM (in_tx ver_raw ?body) (\<lambda>res. case res of None \<Rightarrow> fail VerRemove | Some report \<Rightarrow> ret report) s = (rep, s')"
      by (simp only: purge_annual_data_def if_False)
    show ?thesis
    proof (cases tr)
      case (Inl e)
      with fin tx in_tx_Inl[OF tx[unfolded Inl]] Q0 show ?thesis by (auto simp: bindM_def)
    next
      case (Inr res)
      from tx[unfolded Inr] obtain s1 s2 where "tables s1 = tables s" "?body s1 = (Inr res, s2)" "tables s0 = tables s2"
        by (rule in_tx_Inr)
      with body have "res = None" "?Q (snd (tables s0))" by simp_all
      with fin tx Inr show ?thesis by (auto simp: bindM_def)
    qed
  qed
  then show "\<exists>e. rep = Inl e" "same_proofs (snd s) (snd s')" "no_completed_run year (snd s')"
    by (auto simp: unpurged_def tables_def)
qed

lemma remove_blobs_all:
  "(\<And>k. k \<in> set ks \<Longrightarrow> remove k) \<Longrightarrow> remove_blobs remove ks s =
     (Inr True, ((fst s)\<lparr>blobs := filter (\<lambda>k. k \<notin> set ks) (blobs (fst s))\<rparr>, snd s))"
  by (induction ks arbitrary: s) (auto simp: ret_def bindM_def remove_blob_def filter_filter intro!: arg_cong[where f = "\<lambda>x. _\<lparr>blobs := x\<rparr>"] filter_cong)

lemma purge_loses_objects:
  assumes ok: "ver_logged (snd s)" "decided year (snd s)" "no_completed_run year (snd s)"
    and year: "100 \<le> year" "year \<le> 999" and live: "faults (fst s) = []"
    and store: "\<And>k. k \<in> set (year_keys year (snd s)) \<Longrightarrow> remove k"
  shows "purge_annual_data remove year at s =
    (Inl VerSQL, ((fst s)\<lparr>blobs := filter (\<lambda>k. k \<notin> set (year_keys year (snd s))) (blobs (fst s))\<rparr>, snd s))"
proof -
  obtain w t where s: "s = (w, t)" by (cases s)
  let ?run = "\<lparr>run_id = next_id (w_db w), run_year = year, run_status = ''running'', run_documents = 0, run_requests = 0,
     run_promoted = 0, run_error = None, run_completed = None\<rparr>"
  have ev: "events_refer (year_requests year t) t"
    using ok(1,2) s by (force simp: events_refer_def logged_but_def decided_def has_event_def list_all_iff list_ex_iff year_requests_def)
  note defs = purge_annual_data_def in_tx_def in_tx_flag_def bindM_def map_errM_def stmt_nop_def stmt_def start_run_def
    tables_def with_tables_def stmt_rows_def purge_objects_def purge_rows_def delete_requests_def Let_def ret_def fail_def ver_raw_def
  show ?thesis
  proof (cases "List.find (\<lambda>r. run_year r = year) (ver_runs t)")
    case None
    have keys: "year_keys year (t\<lparr>ver_runs := x\<rparr>) = year_keys year t" "year_requests year (t\<lparr>ver_runs := x\<rparr>) = year_requests year t"
      "events_refer gone (t\<lparr>ver_runs := x\<rparr>) = events_refer gone t" for x gone
      by (simp_all add: year_keys_def year_requests_def events_refer_def)
    show ?thesis
      using year live ev store None by (simp add: defs s keys remove_blobs_all)
  next
    case (Some r)
    then have "run_status r \<noteq> ''completed''" using ok(3) s by (auto simp: no_completed_run_def list_all_iff dest: find_Some_D)
    with year live ev store Some show ?thesis by (simp add: defs s remove_blobs_all)
  qed
qed

text \<open>Property C37. The annual clean-up of a year never completes once one request of that year was
  decided. Every decided request has an event in a log that a trigger keeps from being updated, and
  deleting the request would set the event's reference to null. So every run, whatever fails or not,
  ends with an error, and the requests, documents, events and verifications stay; nobody of that year
  is ever promoted. Yet when the database answers and the store removes what it is asked to, the
  objects of all the year's documents are gone afterwards, and the rows that point to them are not.\<close>

theorem purge_blocked:
  assumes "ver_logged (snd s)" "decided year (snd s)" "no_completed_run year (snd s)"
    and "purge_annual_data remove year at s = (rep, s')"
  shows "(\<exists>e. rep = Inl e) \<and> same_proofs (snd s) (snd s') \<and> no_completed_run year (snd s')
    \<and> (faults (fst s) = [] \<and> 100 \<le> year \<and> year \<le> 999 \<and> (\<forall>k \<in> set (year_keys year (snd s)). remove k) \<longrightarrow>
         rep = Inl VerSQL \<and> snd s' = snd s
         \<and> blobs (fst s') = filter (\<lambda>k. k \<notin> set (year_keys year (snd s))) (blobs (fst s)))"
  using purge_never_completes[OF assms(4,1,2,3)] purge_loses_objects[OF assms(1,2,3), of remove at] assms(4) by auto

end
