(* ===== verification/VerificationExamples.thy ===== *)
theory VerificationExamples imports VerificationProperties ToyService begin

text \<open>A concrete state of student verification, and the promises applied to it.\<close>

definition demo_request :: ver_request_row where
  "demo_request = \<lparr>vr_id = 5, vr_account = 1, vr_year = 113, vr_school = ''001'', vr_program = None,
     vr_method = MethodSchoolEmail, vr_status = ''pending'', vr_email_ct = Some ''c'', vr_email_hash = Some ''h'',
     vr_reason = None, vr_reviewer = None, vr_reviewed = None, vr_created = 1\<rparr>"

definition demo_code :: code_row where
  "demo_code = \<lparr>vc_id = 7, vc_request = 5, vc_hash = ''right'', vc_expires = 100, vc_attempts = 3,
     vc_consumed = None, vc_created = 1\<rparr>"

definition no_verifications :: ver_tables where
  "no_verifications = \<lparr>ver_schools = [''001''], ver_programs = [], ver_domains = [], ver_requests = [],
     ver_documents = [], ver_codes = [], ver_students = [], ver_events = [], ver_runs = [],
     ver_email_rate = None, ver_upload_rate = None\<rparr>"

definition ver_demo :: "ver_tables state" where
  "ver_demo = (toy_world\<lparr>w_db := (w_db toy_world)\<lparr>next_id := 10\<rparr>\<rparr>,
     no_verifications\<lparr>ver_requests := [demo_request], ver_codes := [demo_code]\<rparr>)"

definition demo_item :: student_verification where
  "demo_item = \<lparr>sver_id = 10, sver_year = 113, sver_school = ''001'', sver_program = [],
     sver_method = MethodSchoolEmail, sver_status = ''active'', sver_verified = 50, sver_expires = 200\<rparr>"

lemma demo_consumed: "fst (consume_email_code 1 5 ''right'' 50 200 ver_demo) = Inr demo_item"
  by code_simp


theorem code_guess_bound_witness:
  "consume_email_code 1 5 ''right'' 30 200 (try_codes 1 5 [(''wrong'', 10), (''guess'', 20)] ver_demo)
    = (Inl VerInvalidCode, try_codes 1 5 [(''wrong'', 10), (''guess'', 20)] ver_demo)"
proof (rule code_guess_bound[where c = demo_code and q = demo_request])
  show "sole_code (snd ver_demo) 1 5 demo_code demo_request"
    by (simp add: sole_code_def ver_demo_def open_code_def demo_code_def demo_request_def)
  show "faults (fst ver_demo) = []" by (simp add: ver_demo_def toy_world_def demo_world_def)
qed (auto simp: demo_code_def)

definition purge_demo :: "ver_tables state" where
  "purge_demo = ((fst ver_demo)\<lparr>blobs := [''verification/1'', ''portfolio/2'']\<rparr>,
     no_verifications\<lparr>
       ver_requests := [demo_request\<lparr>vr_method := MethodDocument, vr_status := ''rejected'', vr_email_ct := None, vr_email_hash := None\<rparr>],
       ver_documents := [\<lparr>vdoc_id = 6, vdoc_request = 5, vdoc_name = ''card.pdf'', vdoc_key = ''verification/1'',
         vdoc_mime = ''application/pdf'', vdoc_size = 9, vdoc_sha256 = replicate 64 (CHR ''a''), vdoc_status = ''rejected'',
         vdoc_reason = None, vdoc_reviewer = Some 1, vdoc_reviewed = Some 3, vdoc_created = 2\<rparr>],
       ver_events := [\<lparr>ve_request = Some 5, ve_student = None, ve_actor = Some 1, ve_action = ''rejected'',
         ve_from = ''pending'', ve_to = ''rejected'', ve_reason = ''unreadable''\<rparr>]\<rparr>)"

theorem purge_blocked_witness:
  "\<exists>s'. purge_annual_data (\<lambda>k. True) 113 60 purge_demo = (Inl VerSQL, s') \<and> snd s' = snd purge_demo
    \<and> ver_documents (snd s') \<noteq> [] \<and> blobs (fst s') = [''portfolio/2'']"
proof -
  obtain rep s' where run: "purge_annual_data (\<lambda>k. True) 113 60 purge_demo = (rep, s')" by (rule prod.exhaust)
  have "ver_logged (snd purge_demo)" "decided 113 (snd purge_demo)" "no_completed_run 113 (snd purge_demo)"
    by (simp_all add: purge_demo_def logged_but_def has_event_def decided_def no_completed_run_def demo_request_def no_verifications_def)
  note out = purge_blocked[OF this run]
  have "faults (fst purge_demo) = []" by (simp add: purge_demo_def ver_demo_def toy_world_def demo_world_def)
  moreover have "year_keys 113 (snd purge_demo) = [''verification/1'']"
    by (auto simp: year_keys_def year_requests_def purge_demo_def demo_request_def image_iff)
  ultimately show ?thesis using out run by (simp add: purge_demo_def)
qed

definition toy_store :: blob_store where
  "toy_store = \<lparr>bs_put = (\<lambda>k. True), bs_remove = (\<lambda>k. True), bs_sign = (\<lambda>k d. Some k)\<rparr>"

definition toy_ver :: ver_config where
  "toy_ver = \<lparr>vs_auth = toy_service, vs_cipher = Some toy_ring, vs_lookup_key = replicate 32 (CHR ''k''),
     vs_notifications = True, vs_blobs = Some toy_store, vs_scanner = None, vs_distributed = NoDistributed,
     vs_subject = ''code'', vs_body = (\<lambda>c. c)\<rparr>"

lemma purged_runs:
  "map run_year (ver_runs (snd (snd (purge_year toy_ver 113 (fst ver_demo, no_verifications))))) = [113]"
  by code_simp

theorem verification_rows_typed_witness:
  "ver_typed (snd (snd (purge_year toy_ver 113 (fst ver_demo, no_verifications))))
    \<and> map run_year (ver_runs (snd (snd (purge_year toy_ver 113 (fst ver_demo, no_verifications))))) = [113]"
proof -
  have "ver_reachable toy_ver (fst ver_demo, no_verifications)"
    by (rule ver_reachable.start) (simp add: ver_fresh_def no_verifications_def)
  then have "ver_reachable toy_ver (snd (purge_year toy_ver 113 (fst ver_demo, no_verifications)))"
    by (rule ver_reachable.purge[OF _ prod.collapse[symmetric]])
  from verification_rows_typed[OF this] purged_runs show ?thesis by simp
qed

end
