(* ===== verification/NoticePages.thy ===== *)
theory NoticePages imports Pagination ToyService begin

text \<open>
  The promise of the notification list: following the cursors ends and shows everything once.
\<close>

text \<open>Property C40. Following the cursors of the notification list from its start, with any page
  size the route admits, ends after at most one page more than the full ones and gives every
  notification of the account exactly once, newest first. The hypotheses: the database answers, the
  ids are keys, every row opens under the cipher, and the JSON text of a cursor reads back.\<close>

theorem notice_pages_complete:
  assumes "codec_ok j" "faults w = []" "1 \<le> l" "l \<le> 100" "distinct (map n_id (notices (w_db w)))"
    and "\<And>n. n \<in> set (notices_of acc (w_db w)) \<Longrightarrow> cursor_good en j (n_created n) (n_id n)"
    and "open_notices en co (notices_of acc (w_db w)) = Inr items"
  shows "walk_notices en co j acc l (Suc (length items div nat l)) [] w = Some items"
  by (rule walk_below[OF assms(1-6), where c = zero_cursor])
    (simp_all add: decode_cursor_def cursor_zero_def zero_cursor_def notice_list.below_all assms(7))

definition toy_cursor_json :: cursor_json where
  "toy_cursor_json = \<lparr>cj_marshal = (\<lambda>c. if cu_time c < 0 then None
        else Some (replicate (nat (cu_time c)) (CHR ''a'') @ CHR ''b'' # cu_id c)),
     cj_unmarshal = (\<lambda>s. let n = length (takeWhile (\<lambda>x. x = CHR ''a'') s) in
        Some \<lparr>cu_time = int n, cu_id = drop (Suc n) s\<rparr>)\<rparr>"

lemma toy_cursor_ok: "codec_ok toy_cursor_json"
proof -
  have "takeWhile (\<lambda>x. x = CHR ''a'') (replicate n (CHR ''a'') @ CHR ''b'' # s) = replicate n (CHR ''a'')" for n s
    by (induction n) simp_all
  then show ?thesis by (auto simp: codec_ok_def toy_cursor_json_def Let_def)
qed

definition toy_notice :: "uuid \<Rightarrow> time \<Rightarrow> notification_row" where
  "toy_notice i t = \<lparr>n_id = i, n_account = 1, n_kind = ''k'', n_dedup = itoa i, n_title = toy_ct ''T'' i,
     n_body = toy_ct ''B'' i, n_read = None, n_created = t\<rparr>"

definition three_notices :: world where
  "three_notices = toy_world\<lparr>w_db := (w_db toy_world)\<lparr>notices := [toy_notice 2 5, toy_notice 3 7, toy_notice 4 7]\<rparr>\<rparr>"

definition shown :: "uuid \<Rightarrow> time \<Rightarrow> notification" where
  "shown i t = \<lparr>no_id = i, no_kind = ''k'', no_title = ''T'', no_body = ''B'', no_read = None, no_created = t\<rparr>"

lemma toy_notice_opens: "open_notice toy_env (Some toy_ring) (toy_notice i t) = Inr (shown i t)"
  by (simp add: open_notice_def toy_notice_def shown_def toy_env_def)

lemma three_of: "notices_of 1 (w_db three_notices) = [toy_notice 4 7, toy_notice 3 7, toy_notice 2 5]"
  by (simp add: notices_of_def three_notices_def toy_notice_def notice_key_def)

lemma toy_cursor_good: "i \<in> {2, 3, 4} \<Longrightarrow> t \<in> {5, 7} \<Longrightarrow> cursor_good toy_env toy_cursor_json t i"
proof -
  have "e_parse_uuid toy_env (e_uuid toy_env 2) = Some 2" "e_parse_uuid toy_env (e_uuid toy_env 3) = Some 3"
    "e_parse_uuid toy_env (e_uuid toy_env 4) = Some 4" "e_uuid toy_env 2 \<noteq> []" "e_uuid toy_env 3 \<noteq> []"
    "e_uuid toy_env 4 \<noteq> []" by code_simp+
  then show "i \<in> {2, 3, 4} \<Longrightarrow> t \<in> {5, 7} \<Longrightarrow> cursor_good toy_env toy_cursor_json t i"
    by (auto simp: cursor_good_def toy_cursor_json_def zero_time_def)
qed

theorem notice_pages_complete_witness:
  "walk_notices toy_env (Some toy_ring) toy_cursor_json 1 2 2 [] three_notices
    = Some [shown 4 7, shown 3 7, shown 2 5]"
proof -
  have "walk_notices toy_env (Some toy_ring) toy_cursor_json 1 2
      (Suc (length [shown 4 7, shown 3 7, shown 2 5] div nat 2)) [] three_notices
    = Some [shown 4 7, shown 3 7, shown 2 5]"
  proof (rule notice_pages_complete[OF toy_cursor_ok])
    show "faults three_notices = []" by (simp add: three_notices_def toy_world_def demo_world_def)
    show "distinct (map n_id (notices (w_db three_notices)))" by (simp add: three_notices_def toy_notice_def)
    fix n assume "n \<in> set (notices_of 1 (w_db three_notices))"
    then show "cursor_good toy_env toy_cursor_json (n_created n) (n_id n)"
      unfolding three_of by (auto simp: toy_notice_def toy_cursor_good)
  next
    show "open_notices toy_env (Some toy_ring) (notices_of 1 (w_db three_notices))
      = Inr [shown 4 7, shown 3 7, shown 2 5]"
      unfolding three_of by (simp add: toy_notice_opens)
  qed simp_all
  moreover have "Suc (length [shown 4 7, shown 3 7, shown 2 5] div nat 2) = 2" by simp
  ultimately show ?thesis by (simp only:)
qed

end
