(* ===== verification/ForumStore.thy ===== *)
theory ForumStore imports Pagination VerificationStore begin

text \<open>
  Forum and experiences, the repository (internal/content/model.go, postgres_repository.go and
  reactions.go): spaces with their members, threads and posts with their moderation, and emoji
  reactions. Programmes, schools and applications stand with these tables because the scope of a
  space is decided by a confirmed application; internal/applications writes both. The order of
  texts in a list is that of their bytes. The limiters of the two components stand with the
  tables; no transaction touches them.
\<close>

section \<open>Tables\<close>

record space_row =
  sp_id :: uuid
  sp_type :: string
  sp_name :: string
  sp_year :: "int option"
  sp_school :: "string option"
  sp_program :: "string option"
  sp_active :: bool

record membership_row =
  mb_account :: uuid
  mb_space :: uuid
  mb_status :: string
  mb_joined :: time
  mb_removed :: "time option"

record thread_row =
  th_id :: uuid
  th_space :: uuid
  th_account :: uuid
  th_title :: string
  th_status :: string
  th_created :: time
  th_updated :: time

record post_row =
  po_id :: uuid
  po_thread :: uuid
  po_account :: uuid
  po_body :: string
  po_quote :: "uuid option"
  po_status :: string
  po_created :: time

record experience_row =
  xp_id :: uuid
  xp_author :: uuid
  xp_visibility :: string
  xp_public :: "uuid option"
  xp_created :: time
  xp_updated :: time

record revision_row =
  xr_id :: uuid
  xr_experience :: uuid
  xr_version :: int
  xr_title :: string
  xr_body :: string
  xr_author_type :: string
  xr_outcome :: string
  xr_status :: string
  xr_reason :: "string option"
  xr_reviewer :: "uuid option"
  xr_reviewed :: "time option"

record revision_event =
  xe_revision :: uuid
  xe_actor :: uuid
  xe_action :: string
  xe_from :: "string option"
  xe_to :: string
  xe_reason :: string

record reaction_row =
  rx_type :: string
  rx_target :: uuid
  rx_account :: uuid
  rx_emoji :: string

record program_row =
  pr_year :: int
  pr_school :: string
  pr_code :: string
  pr_name :: string
  pr_review :: string

record application_row =
  ap_id :: uuid
  ap_account :: uuid
  ap_year :: int
  ap_school :: string
  ap_program :: string
  ap_status :: string
  ap_locked :: "time option"

record request_ticket_row =
  rt_id :: uuid
  rt_account :: uuid
  rt_year :: int
  rt_school :: string
  rt_program :: string
  rt_reason :: string
  rt_status :: string
  rt_reviewer :: "uuid option"
  rt_reviewed :: "time option"
  rt_created :: time

record audit_row =
  au_actor :: uuid
  au_action :: string
  au_entity :: string
  au_key :: string
  au_before :: string
  au_after :: string
  au_reason :: string

record forum_limiters =
  fl_thread :: "limiter option"
  fl_post :: "limiter option"
  fl_experience :: "limiter option"
  fl_revision :: "limiter option"
  fl_reaction :: "limiter option"
  fl_application :: "limiter option"
  fl_ticket :: "limiter option"

record forum_tables =
  f_schools :: "(string \<times> string) list"
  f_programs :: "program_row list"
  f_applications :: "application_row list"
  f_tickets :: "request_ticket_row list"
  f_audit :: "audit_row list"
  f_spaces :: "space_row list"
  f_members :: "membership_row list"
  f_threads :: "thread_row list"
  f_posts :: "post_row list"
  f_experiences :: "experience_row list"
  f_revisions :: "revision_row list"
  f_events :: "revision_event list"
  f_reactions :: "reaction_row list"
  f_limiters :: forum_limiters

datatype content_error =
    CtNotFound | CtForbidden | CtConflict | CtInvalidStatus | CtAdminRequired | CtInvalidReaction | CtSQL

type_synonym 'a forum_op = "(forum_tables state, content_error, 'a) op"

fun map_content_error :: "stmt_error \<Rightarrow> content_error" where
  "map_content_error SUnique = CtConflict"
| "map_content_error SForeign = CtNotFound"
| "map_content_error _ = CtSQL"

text \<open>Errors passed on as they are, and \<^verbatim>\<open>pgx.ErrNoRows\<close> given a meaning.\<close>

definition ct_raw :: "stmt_error \<Rightarrow> content_error" where
  "ct_raw e = CtSQL"

definition ct_missing :: "content_error \<Rightarrow> stmt_error \<Rightarrow> content_error" where
  "ct_missing e x = (if x = SNoRows then e else map_content_error x)"

section \<open>Values\<close>

record forum_space =
  fs_id :: uuid
  fs_type :: string
  fs_name :: string
  fs_year :: "int option"
  fs_school :: string
  fs_program :: string
  fs_joined :: bool

record forum_thread =
  ft_id :: uuid
  ft_space :: uuid
  ft_title :: string
  ft_created :: time
  ft_updated :: time

record reaction_tally =
  tl_emoji :: string
  tl_count :: int
  tl_mine :: bool

record forum_post =
  fp_id :: uuid
  fp_thread :: uuid
  fp_body :: string
  fp_quote :: "uuid option"
  fp_created :: time
  fp_reactions :: "reaction_tally list"

record admin_thread =
  at_id :: uuid
  at_space :: uuid
  at_title :: string
  at_status :: string
  at_account :: uuid
  at_author :: string
  at_created :: time
  at_updated :: time

record admin_post =
  adp_id :: uuid
  adp_thread :: uuid
  adp_body :: string
  adp_quote :: "uuid option"
  adp_status :: string
  adp_account :: uuid
  adp_author :: string
  adp_created :: time

definition normalize_reaction :: "string \<Rightarrow> string option" where
  "normalize_reaction raw =
     (let token = trim_space raw in
      if token = [] \<or> 32 < length token then None
      else if list_ex (\<lambda>(r, _). r < 32 \<or> r = 127) (runes token) then None
      else Some token)"

definition valid_content_text :: "string \<Rightarrow> string \<Rightarrow> bool" where
  "valid_content_text title body \<longleftrightarrow>
     \<not> (is_blank title \<or> 300 < length title \<or> is_blank body \<or> 500000 < length body)"

section \<open>Who may read, join and write\<close>

text \<open>The two \<^verbatim>\<open>EXISTS\<close> conditions on applications, and the one on memberships.\<close>

definition annual_student :: "db \<Rightarrow> forum_tables \<Rightarrow> uuid \<Rightarrow> space_row \<Rightarrow> bool" where
  "annual_student d t acc f \<longleftrightarrow> list_ex (\<lambda>a. ap_account a = acc \<and> Some (ap_year a) = sp_year f
       \<and> ap_status a = ''confirmed''
       \<and> list_ex (\<lambda>c. a_id c = acc \<and> a_identity c = ''student'') (accounts d)) (f_applications t)"

definition program_applicant :: "forum_tables \<Rightarrow> uuid \<Rightarrow> space_row \<Rightarrow> bool" where
  "program_applicant t acc f \<longleftrightarrow> list_ex (\<lambda>a. ap_account a = acc \<and> Some (ap_year a) = sp_year f
       \<and> Some (ap_school a) = sp_school f \<and> Some (ap_program a) = sp_program f
       \<and> ap_status a = ''confirmed'') (f_applications t)"

definition active_member :: "forum_tables \<Rightarrow> uuid \<Rightarrow> space_row \<Rightarrow> bool" where
  "active_member t acc f \<longleftrightarrow>
     list_ex (\<lambda>m. mb_account m = acc \<and> mb_space m = sp_id f \<and> mb_status m = ''active'') (f_members t)"

definition in_scope :: "db \<Rightarrow> forum_tables \<Rightarrow> uuid option \<Rightarrow> space_row \<Rightarrow> bool" where
  "in_scope d t viewer f \<longleftrightarrow> sp_type f = ''global''
     \<or> (case viewer of
          None \<Rightarrow> False
        | Some acc \<Rightarrow> sp_type f = ''annual'' \<and> annual_student d t acc f
                    \<or> sp_type f = ''school_program'' \<and> program_applicant t acc f)"

definition may_post :: "db \<Rightarrow> forum_tables \<Rightarrow> uuid \<Rightarrow> space_row \<Rightarrow> bool" where
  "may_post d t acc f \<longleftrightarrow> sp_type f = ''global''
     \<or> sp_type f = ''annual'' \<and> active_member t acc f \<and> annual_student d t acc f
     \<or> sp_type f = ''school_program'' \<and> active_member t acc f \<and> program_applicant t acc f"

definition find_space :: "forum_tables \<Rightarrow> uuid \<Rightarrow> space_row option" where
  "find_space t i = List.find (\<lambda>f. sp_id f = i) (f_spaces t)"

definition find_thread :: "forum_tables \<Rightarrow> uuid \<Rightarrow> thread_row option" where
  "find_thread t i = List.find (\<lambda>r. th_id r = i) (f_threads t)"

section \<open>Statements\<close>

text \<open>
  \<^verbatim>\<open>INSERT ... SELECT ... RETURNING\<close>: the row the query gives (none: \<open>SNoRows\<close>), its checks, its
  keys, its foreign keys, the effect. \<^verbatim>\<open>UPDATE\<close> gives the number of rows it changed.
\<close>

definition stmt_from ::
  "(db \<Rightarrow> 't \<Rightarrow> 'r option) \<Rightarrow> ('r \<Rightarrow> bool) \<Rightarrow> (db \<Rightarrow> 't \<Rightarrow> 'r \<Rightarrow> bool) \<Rightarrow> (db \<Rightarrow> 't \<Rightarrow> 'r \<Rightarrow> bool)
    \<Rightarrow> ('r \<Rightarrow> db \<times> 't \<Rightarrow> db \<times> 't) \<Rightarrow> ('t state, stmt_error, 'r) op" where
  "stmt_from src chk uniq fk g = stmt (\<lambda>x.
     case src (fst x) (snd x) of
       None \<Rightarrow> (Inl SNoRows, x)
     | Some r \<Rightarrow> if \<not> chk r then (Inl SCheck, x)
               else if \<not> uniq (fst x) (snd x) r then (Inl SUnique, x)
               else if \<not> fk (fst x) (snd x) r then (Inl SForeign, x)
               else (Inr r, g r x))"

definition no_key :: "db \<Rightarrow> 't \<Rightarrow> 'r \<Rightarrow> bool" where
  "no_key d t r = True"

definition draw_id :: "db \<Rightarrow> db" where
  "draw_id d = d\<lparr>next_id := Suc (next_id d)\<rparr>"

lemma stmt_from_Inr:
  assumes "stmt_from src chk uniq fk g s = (Inr r, s')"
  shows "src (fst (tables s)) (snd (tables s)) = Some r" "chk r" "uniq (fst (tables s)) (snd (tables s)) r"
    "fk (fst (tables s)) (snd (tables s)) r" "tables s' = g r (tables s)" "same_clocks s s'"
  using assms by (auto simp: stmt_from_def dest!: stmt_Inr split: option.splits if_splits)

lemma stmt_from_Inl: "stmt_from src chk uniq fk g s = (Inl e, s') \<Longrightarrow> tables s' = tables s"
  unfolding stmt_from_def by (erule stmt_Inl[rotated]; simp split: if_splits option.splits)

text \<open>Runs without faults.\<close>

lemma stmt_calm_run: "faults (fst s) = [] \<Longrightarrow> stmt q s = (fst (q (tables s)), with_tables (snd (q (tables s))) s)"
  by (simp add: stmt_def)

lemma faults_with [simp]: "faults (fst (with_tables x s)) = faults (fst s)" "db_now (fst (with_tables x s)) = db_now (fst s)"
  by (simp_all add: with_tables_def)

lemma stmt_from_run:
  assumes "faults (fst s) = []" "src (fst (tables s)) (snd (tables s)) = Some r" "chk r"
    "uniq (fst (tables s)) (snd (tables s)) r" "fk (fst (tables s)) (snd (tables s)) r"
  shows "stmt_from src chk uniq fk g s = (Inr r, with_tables (g r (tables s)) s)"
  using assms by (simp add: stmt_from_def stmt_calm_run)

lemma in_tx_run:
  assumes "faults (fst s) = []" "body s = (Inr x, s')" "faults (fst s') = []"
  shows "in_tx conv body s = (Inr x, s')"
proof -
  have nop: "stmt_nop u = (Inr (), u)" if "faults (fst u) = []" for u :: "'a state"
    using that by (cases u) (simp add: stmt_nop_def stmt_calm_run with_tables_def tables_def)
  show ?thesis
    using assms by (simp add: in_tx_def in_tx_flag_def nop map_errM_def bindM_run[of body s x s'] ret_def)
qed

lemma bind_fromE:
  assumes "bindM (map_errM c (stmt_from src chk uniq fk g)) k s = (Inr y, s')"
  obtains r s1 where "src (fst (tables s)) (snd (tables s)) = Some r" "chk r"
    "uniq (fst (tables s)) (snd (tables s)) r" "fk (fst (tables s)) (snd (tables s)) r"
    "tables s1 = g r (tables s)" "same_clocks s s1" "k r s1 = (Inr y, s')"
proof -
  from assms obtain r s1 where "stmt_from src chk uniq fk g s = (Inr r, s1)" "k r s1 = (Inr y, s')" by auto
  with stmt_from_Inr[OF this(1)] that show ?thesis by blast
qed

lemma keeps_stmt_from:
  assumes "\<And>d t r. P (d, t) \<Longrightarrow> src d t = Some r \<Longrightarrow> chk r \<Longrightarrow> uniq d t r \<Longrightarrow> fk d t r \<Longrightarrow> P (g r (d, t))"
  shows "tables_keep P (stmt_from src chk uniq fk g)"
  unfolding stmt_from_def by (rule keeps_stmt) (auto split: option.splits intro: assms)

section \<open>Spaces\<close>

definition space_key :: "space_row \<Rightarrow> string \<times> (bool \<times> int) \<times> (bool \<times> string) \<times> bool \<times> string" where
  "space_key f = (sp_type f, (case sp_year f of None \<Rightarrow> (True, 0) | Some y \<Rightarrow> (False, - y)),
     (sp_school f = None, or_empty (sp_school f)), sp_program f = None, or_empty (sp_program f))"

definition forum_space_of :: "forum_tables \<Rightarrow> uuid option \<Rightarrow> space_row \<Rightarrow> forum_space" where
  "forum_space_of t viewer f = \<lparr>fs_id = sp_id f, fs_type = sp_type f, fs_name = sp_name f, fs_year = sp_year f,
     fs_school = or_empty (sp_school f), fs_program = or_empty (sp_program f),
     fs_joined = (case viewer of None \<Rightarrow> False | Some acc \<Rightarrow> active_member t acc f)\<rparr>"

definition list_spaces :: "uuid option \<Rightarrow> forum_space list forum_op" where
  "list_spaces viewer = map_errM ct_raw (stmt_rows (\<lambda>d t.
     map (forum_space_of t viewer)
       (sort_key space_key (filter (\<lambda>f. sp_active f \<and> in_scope d t viewer f) (f_spaces t)))))"

definition joined_space :: "uuid \<Rightarrow> uuid \<Rightarrow> db \<Rightarrow> forum_tables \<Rightarrow> space_row option" where
  "joined_space acc i d t =
     List.find (\<lambda>f. sp_id f = i \<and> sp_active f \<and> in_scope d t (Some acc) f) (f_spaces t)"

text \<open>\<^verbatim>\<open>ON CONFLICT (account_id, space_id) DO UPDATE SET status = 'active', removed_at = NULL\<close>\<close>

definition upsert_member :: "uuid \<Rightarrow> uuid \<Rightarrow> time \<Rightarrow> forum_tables \<Rightarrow> forum_tables" where
  "upsert_member acc i ts t =
     (if list_ex (\<lambda>m. mb_account m = acc \<and> mb_space m = i) (f_members t)
      then t\<lparr>f_members := update_where (\<lambda>m. mb_account m = acc \<and> mb_space m = i)
                 (\<lambda>m. m\<lparr>mb_status := ''active'', mb_removed := None\<rparr>) (f_members t)\<rparr>
      else t\<lparr>f_members := f_members t @ [\<lparr>mb_account = acc, mb_space = i, mb_status = ''active'',
                 mb_joined = ts, mb_removed = None\<rparr>]\<rparr>)"

definition join_space :: "uuid \<Rightarrow> uuid \<Rightarrow> unit forum_op" where
  "join_space acc i =
     bindM db_clock (\<lambda>ts.
     bindM (map_errM (ct_missing CtForbidden)
       (stmt_from (joined_space acc i) (\<lambda>_. True) no_key (\<lambda>d t f. has_account d acc)
          (\<lambda>f (d, t). (d, upsert_member acc i ts t)))) (\<lambda>_. ret ()))"

definition leave_space :: "uuid \<Rightarrow> uuid \<Rightarrow> unit forum_op" where
  "leave_space acc i =
     bindM db_clock (\<lambda>ts.
     bindM (map_errM ct_raw (stmt_write
       (\<lambda>t. t\<lparr>f_members := update_where (\<lambda>m. mb_account m = acc \<and> mb_space m = i)
                (\<lambda>m. m\<lparr>mb_status := ''removed'', mb_removed := Some ts\<rparr>) (f_members t)\<rparr>)
       (\<lambda>d t. affected (\<lambda>m. mb_account m = acc \<and> mb_space m = i) (f_members t)))) (\<lambda>n.
     if n \<noteq> 1 then fail CtNotFound else ret ()))"

section \<open>Reactions\<close>

definition target_exists :: "string \<Rightarrow> (forum_tables \<Rightarrow> uuid \<Rightarrow> bool) option" where
  "target_exists ty =
     (if ty = ''forum_post'' then Some (\<lambda>t i. list_ex (\<lambda>p. po_id p = i) (f_posts t))
      else if ty = ''experience'' then Some (\<lambda>t i. list_ex (\<lambda>e. xp_id e = i) (f_experiences t))
      else None)"

definition reaction_chk :: "reaction_row \<Rightarrow> bool" where
  "reaction_chk r \<longleftrightarrow> rune_count (rx_emoji r) \<le> 32 \<and> pg_text (rx_emoji r) \<and> \<not> pg_blank (rx_emoji r)"

text \<open>The rows affected by the insert: none when the target is missing or the reaction is there.\<close>

definition insert_reaction ::
  "(forum_tables \<Rightarrow> uuid \<Rightarrow> bool) \<Rightarrow> reaction_row \<Rightarrow> (forum_tables state, stmt_error, nat) op" where
  "insert_reaction there r = stmt (\<lambda>(d, t).
     if \<not> there t (rx_target r) then (Inr 0, (d, t))
     else if \<not> reaction_chk r then (Inl SCheck, (d, t))
     else if r \<in> set (f_reactions t) then (Inr 0, (d, t))
     else if \<not> has_account d (rx_account r) then (Inl SForeign, (d, t))
     else (Inr 1, (d, t\<lparr>f_reactions := f_reactions t @ [r]\<rparr>)))"

definition set_reaction :: "string \<Rightarrow> uuid \<Rightarrow> uuid \<Rightarrow> string \<Rightarrow> unit forum_op" where
  "set_reaction ty i acc emoji =
     (case target_exists ty of
        None \<Rightarrow> fail CtInvalidReaction
      | Some there \<Rightarrow>
          bindM (map_errM ct_raw (insert_reaction there
            \<lparr>rx_type = ty, rx_target = i, rx_account = acc, rx_emoji = emoji\<rparr>)) (\<lambda>n.
          if n = 0
          then bindM (map_errM ct_raw (stmt_rows (\<lambda>d t. there t i))) (\<lambda>ok.
               if \<not> ok then fail CtNotFound else ret ())
          else ret ()))"

definition remove_reaction :: "string \<Rightarrow> uuid \<Rightarrow> uuid \<Rightarrow> string \<Rightarrow> unit forum_op" where
  "remove_reaction ty i acc emoji =
     (case target_exists ty of
        None \<Rightarrow> fail CtInvalidReaction
      | Some _ \<Rightarrow> map_errM ct_raw (stmt_write
          (\<lambda>t. t\<lparr>f_reactions := filter (\<lambda>r. r \<noteq> \<lparr>rx_type = ty, rx_target = i, rx_account = acc, rx_emoji = emoji\<rparr>)
                   (f_reactions t)\<rparr>) (\<lambda>_ _. ())))"

definition reactions_on :: "forum_tables \<Rightarrow> string \<Rightarrow> uuid \<Rightarrow> reaction_row list" where
  "reactions_on t ty i = filter (\<lambda>r. rx_type r = ty \<and> rx_target r = i) (f_reactions t)"

definition tally :: "uuid \<Rightarrow> reaction_row list \<Rightarrow> string \<Rightarrow> reaction_tally" where
  "tally viewer rs e = (let mine = filter (\<lambda>r. rx_emoji r = e) rs in
     \<lparr>tl_emoji = e, tl_count = int (length mine), tl_mine = list_ex (\<lambda>r. rx_account r = viewer) mine\<rparr>)"

definition load_reactions :: "string \<Rightarrow> uuid list \<Rightarrow> uuid \<Rightarrow> (uuid \<Rightarrow> reaction_tally list) forum_op" where
  "load_reactions ty ids viewer =
     (if ids = [] then ret (\<lambda>_. [])
      else map_errM ct_raw (stmt_rows (\<lambda>d t i. if i \<notin> set ids then []
             else let rs = reactions_on t ty i in
                  sort_key (\<lambda>x. (- tl_count x, tl_emoji x)) (map (tally viewer rs) (remdups (map rx_emoji rs))))))"

definition viewer_or_nil :: "uuid option \<Rightarrow> uuid" where
  "viewer_or_nil viewer = (case viewer of None \<Rightarrow> 0 | Some acc \<Rightarrow> acc)"

section \<open>Threads and posts\<close>

type_synonym position = "(time \<times> uuid) option"

definition position_of :: "env \<Rightarrow> cursor \<Rightarrow> position" where
  "position_of en after = (if cursor_zero after then None else Some (cu_time after, cursor_uuid en after))"

definition visible_space :: "db \<Rightarrow> forum_tables \<Rightarrow> uuid option \<Rightarrow> uuid \<Rightarrow> bool" where
  "visible_space d t viewer i \<longleftrightarrow> list_ex (\<lambda>f. sp_id f = i \<and> sp_active f \<and> in_scope d t viewer f) (f_spaces t)"

definition thread_key :: "thread_row \<Rightarrow> time \<times> uuid" where
  "thread_key r = (th_updated r, th_id r)"

definition readable :: "thread_row \<Rightarrow> bool" where
  "readable r \<longleftrightarrow> th_status r = ''published'' \<or> th_status r = ''locked''"

definition threads_of :: "db \<Rightarrow> forum_tables \<Rightarrow> uuid option \<Rightarrow> uuid \<Rightarrow> thread_row list" where
  "threads_of d t viewer i = rev (sort_key thread_key
     (filter (\<lambda>r. th_space r = i \<and> readable r \<and> visible_space d t viewer i) (f_threads t)))"

definition page_threads :: "db \<Rightarrow> forum_tables \<Rightarrow> uuid option \<Rightarrow> uuid \<Rightarrow> nat \<Rightarrow> position \<Rightarrow> thread_row list" where
  "page_threads d t viewer i l after =
     take l (filter (\<lambda>r. case after of None \<Rightarrow> True | Some k \<Rightarrow> thread_key r < k) (threads_of d t viewer i))"

definition forum_thread_of :: "thread_row \<Rightarrow> forum_thread" where
  "forum_thread_of r = \<lparr>ft_id = th_id r, ft_space = th_space r, ft_title = th_title r,
     ft_created = th_created r, ft_updated = th_updated r\<rparr>"

definition list_threads ::
  "env \<Rightarrow> cursor_json \<Rightarrow> uuid option \<Rightarrow> uuid \<Rightarrow> int \<Rightarrow> cursor \<Rightarrow> (forum_thread list \<times> string) forum_op" where
  "list_threads en j viewer i l0 after =
     (let l = clamp_limit l0 50 100 in
      bindM (map_errM ct_raw (stmt_rows (\<lambda>d t. map forum_thread_of
        (page_threads d t viewer i (nat l) (position_of en after))))) (\<lambda>items.
      ret (items, if items = [] then []
                  else next_cursor en j (int (length items)) l (ft_updated (last items)) (ft_id (last items)))))"

text \<open>Posts are listed oldest first: the page is above the position.\<close>

definition post_key :: "post_row \<Rightarrow> time \<times> uuid" where
  "post_key p = (po_created p, po_id p)"

definition posts_of :: "db \<Rightarrow> forum_tables \<Rightarrow> uuid option \<Rightarrow> uuid \<Rightarrow> post_row list" where
  "posts_of d t viewer i = sort_key post_key (filter (\<lambda>p. po_thread p = i \<and> po_status p = ''published''
     \<and> list_ex (\<lambda>r. th_id r = i \<and> readable r \<and> visible_space d t viewer (th_space r)) (f_threads t)) (f_posts t))"

definition page_posts :: "db \<Rightarrow> forum_tables \<Rightarrow> uuid option \<Rightarrow> uuid \<Rightarrow> nat \<Rightarrow> position \<Rightarrow> post_row list" where
  "page_posts d t viewer i l after =
     take l (filter (\<lambda>p. case after of None \<Rightarrow> True | Some k \<Rightarrow> k < post_key p) (posts_of d t viewer i))"

definition forum_post_of :: "post_row \<Rightarrow> forum_post" where
  "forum_post_of p = \<lparr>fp_id = po_id p, fp_thread = po_thread p, fp_body = po_body p, fp_quote = po_quote p,
     fp_created = po_created p, fp_reactions = []\<rparr>"

definition attach_post_reactions :: "forum_post list \<Rightarrow> uuid option \<Rightarrow> forum_post list forum_op" where
  "attach_post_reactions posts viewer =
     (if posts = [] then ret posts
      else bindM (load_reactions ''forum_post'' (map fp_id posts) (viewer_or_nil viewer)) (\<lambda>by_id.
           ret (map (\<lambda>p. p\<lparr>fp_reactions := by_id (fp_id p)\<rparr>) posts)))"

definition list_posts ::
  "env \<Rightarrow> cursor_json \<Rightarrow> uuid option \<Rightarrow> uuid \<Rightarrow> int \<Rightarrow> cursor \<Rightarrow> (forum_post list \<times> string) forum_op" where
  "list_posts en j viewer i l0 after =
     (let l = clamp_limit l0 50 100 in
      bindM (map_errM ct_raw (stmt_rows (\<lambda>d t. map forum_post_of
        (page_posts d t viewer i (nat l) (position_of en after))))) (\<lambda>items0.
      bindM (attach_post_reactions items0 viewer) (\<lambda>items.
      ret (items, if items = [] then []
                  else next_cursor en j (int (length items)) l (fp_created (last items)) (fp_id (last items))))))"

text \<open>A new row takes the next identifier; its text must be one PostgreSQL accepts.\<close>

definition new_thread :: "uuid \<Rightarrow> uuid \<Rightarrow> string \<Rightarrow> time \<Rightarrow> db \<Rightarrow> forum_tables \<Rightarrow> thread_row option" where
  "new_thread acc i title ts d t =
     (if list_ex (\<lambda>f. sp_id f = i \<and> sp_active f \<and> may_post d t acc f) (f_spaces t)
      then Some \<lparr>th_id = next_id d, th_space = i, th_account = acc, th_title = title,
             th_status = ''published'', th_created = ts, th_updated = ts\<rparr>
      else None)"

definition new_post :: "uuid \<Rightarrow> uuid \<Rightarrow> string \<Rightarrow> uuid option \<Rightarrow> time \<Rightarrow> db \<Rightarrow> post_row" where
  "new_post acc i content quote ts d = \<lparr>po_id = next_id d, po_thread = i, po_account = acc, po_body = content,
     po_quote = quote, po_status = ''published'', po_created = ts\<rparr>"

definition text_chk :: "string \<Rightarrow> bool" where
  "text_chk s \<longleftrightarrow> pg_text s \<and> \<not> pg_blank s"

definition post_fk :: "db \<Rightarrow> forum_tables \<Rightarrow> post_row \<Rightarrow> bool" where
  "post_fk d t p \<longleftrightarrow> has_account d (po_account p) \<and> find_thread t (po_thread p) \<noteq> None
     \<and> (case po_quote p of None \<Rightarrow> True | Some x \<Rightarrow> list_ex (\<lambda>e. xp_id e = x) (f_experiences t))"

definition add_post :: "post_row \<Rightarrow> db \<times> forum_tables \<Rightarrow> db \<times> forum_tables" where
  "add_post p x = (draw_id (fst x), (snd x)\<lparr>f_posts := f_posts (snd x) @ [p]\<rparr>)"

definition create_thread :: "uuid \<Rightarrow> uuid \<Rightarrow> string \<Rightarrow> string \<Rightarrow> (forum_thread \<times> forum_post) forum_op" where
  "create_thread acc i title content =
     bindM db_clock (\<lambda>ts. in_tx ct_raw (
       bindM (map_errM (ct_missing CtForbidden)
         (stmt_from (new_thread acc i title ts) (\<lambda>r. text_chk (th_title r)) no_key
            (\<lambda>d t r. has_account d (th_account r))
            (\<lambda>r (d, t). (draw_id d, t\<lparr>f_threads := f_threads t @ [r]\<rparr>)))) (\<lambda>thread.
       bindM (map_errM ct_raw
         (stmt_from (\<lambda>d t. Some (new_post acc (th_id thread) content None ts d)) (\<lambda>p. text_chk (po_body p))
            no_key post_fk add_post)) (\<lambda>post.
       ret (forum_thread_of thread, forum_post_of post)))))"

definition open_thread :: "uuid \<Rightarrow> uuid \<Rightarrow> db \<Rightarrow> forum_tables \<Rightarrow> bool" where
  "open_thread acc i d t \<longleftrightarrow> list_ex (\<lambda>r. th_id r = i \<and> th_status r = ''published''
     \<and> list_ex (\<lambda>f. sp_id f = th_space r \<and> sp_active f \<and> may_post d t acc f) (f_spaces t)) (f_threads t)"

definition quotable :: "uuid option \<Rightarrow> forum_tables \<Rightarrow> bool" where
  "quotable quote t \<longleftrightarrow> (case quote of None \<Rightarrow> True
     | Some x \<Rightarrow> list_ex (\<lambda>e. xp_id e = x \<and> xp_visibility e = ''published'') (f_experiences t))"

definition create_post :: "uuid \<Rightarrow> uuid \<Rightarrow> string \<Rightarrow> uuid option \<Rightarrow> forum_post forum_op" where
  "create_post acc i content quote =
     bindM db_clock (\<lambda>ts.
     bindM (map_errM (ct_missing CtForbidden)
       (stmt_from (\<lambda>d t. if open_thread acc i d t \<and> quotable quote t then Some (new_post acc i content quote ts d) else None)
          (\<lambda>p. text_chk (po_body p)) no_key post_fk add_post)) (\<lambda>post.
     ret (forum_post_of post)))"

section \<open>Moderation\<close>

definition username_of :: "db \<Rightarrow> uuid \<Rightarrow> string option" where
  "username_of d i = map_option a_username (List.find (\<lambda>a. a_id a = i) (accounts d))"

definition admin_thread_of :: "db \<Rightarrow> thread_row \<Rightarrow> admin_thread option" where
  "admin_thread_of d r = map_option (\<lambda>name. \<lparr>at_id = th_id r, at_space = th_space r, at_title = th_title r,
     at_status = th_status r, at_account = th_account r, at_author = name, at_created = th_created r,
     at_updated = th_updated r\<rparr>) (username_of d (th_account r))"

definition admin_threads :: "db \<Rightarrow> forum_tables \<Rightarrow> admin_thread list" where
  "admin_threads d t = rev (sort_key (\<lambda>r. (at_created r, at_id r)) (List.map_filter (admin_thread_of d) (f_threads t)))"

definition admin_list_threads :: "env \<Rightarrow> cursor_json \<Rightarrow> int \<Rightarrow> cursor \<Rightarrow> (admin_thread list \<times> string) forum_op" where
  "admin_list_threads en j l0 after =
     (let l = clamp_limit l0 50 100 in
      bindM (map_errM ct_raw (stmt_rows (\<lambda>d t. take (nat l)
        (filter (\<lambda>r. case position_of en after of None \<Rightarrow> True | Some k \<Rightarrow> (at_created r, at_id r) < k)
           (admin_threads d t))))) (\<lambda>items.
      ret (items, if items = [] then []
                  else next_cursor en j (int (length items)) l (at_created (last items)) (at_id (last items)))))"

definition admin_post_of :: "db \<Rightarrow> post_row \<Rightarrow> admin_post option" where
  "admin_post_of d p = map_option (\<lambda>name. \<lparr>adp_id = po_id p, adp_thread = po_thread p, adp_body = po_body p,
     adp_quote = po_quote p, adp_status = po_status p, adp_account = po_account p, adp_author = name,
     adp_created = po_created p\<rparr>) (username_of d (po_account p))"

definition admin_list_posts :: "uuid \<Rightarrow> admin_post list forum_op" where
  "admin_list_posts i = map_errM ct_raw (stmt_rows (\<lambda>d t.
     List.map_filter (admin_post_of d) (sort_key post_key (filter (\<lambda>p. po_thread p = i) (f_posts t)))))"

definition set_thread_status :: "uuid \<Rightarrow> string \<Rightarrow> unit forum_op" where
  "set_thread_status i status =
     (if status \<notin> {''published'', ''locked'', ''removed'', ''archived''} then fail CtInvalidStatus
      else bindM db_clock (\<lambda>ts.
           bindM (map_errM ct_raw (stmt_write
             (\<lambda>t. t\<lparr>f_threads := update_where (\<lambda>r. th_id r = i)
                      (\<lambda>r. r\<lparr>th_status := status, th_updated := ts\<rparr>) (f_threads t)\<rparr>)
             (\<lambda>d t. affected (\<lambda>r. th_id r = i) (f_threads t)))) (\<lambda>n.
           if n = 0 then fail CtNotFound else ret ())))"

definition set_post_status :: "uuid \<Rightarrow> string \<Rightarrow> unit forum_op" where
  "set_post_status i status =
     (if status \<notin> {''published'', ''removed'', ''archived''} then fail CtInvalidStatus
      else bindM (map_errM ct_raw (stmt_write
             (\<lambda>t. t\<lparr>f_posts := update_where (\<lambda>p. po_id p = i) (\<lambda>p. p\<lparr>po_status := status\<rparr>) (f_posts t)\<rparr>)
             (\<lambda>d t. affected (\<lambda>p. po_id p = i) (f_posts t)))) (\<lambda>n.
           if n = 0 then fail CtNotFound else ret ()))"

definition forum_is_admin :: "uuid \<Rightarrow> bool forum_op" where
  "forum_is_admin acc = map_errM ct_raw (stmt_rows (\<lambda>d t. (acc, ''admin'') \<in> set (roles d)))"

end
