(* ===== verification/ExperienceStore.thy ===== *)
theory ExperienceStore imports ForumStore begin

text \<open>
  Experiences, the second half of the content repository: an author writes revisions, submits them,
  an administrator approves or rejects; the approved one becomes the public text. Every change of a
  revision leaves an event.
\<close>

section \<open>Values\<close>

record experience =
  ex_id :: uuid
  ex_author_type :: string
  ex_outcome :: string
  ex_visibility :: string
  ex_revision :: uuid
  ex_title :: string
  ex_body :: string
  ex_number :: int
  ex_created :: time
  ex_updated :: time
  ex_reactions :: "reaction_tally list"

record revision_input =
  rvi_title :: string
  rvi_body :: string
  rvi_author_type :: string
  rvi_outcome :: string

definition empty_dash :: "string \<Rightarrow> string" where
  "empty_dash v = (if v = [] then ''-'' else v)"

definition experience_of :: "experience_row \<Rightarrow> revision_row \<Rightarrow> experience" where
  "experience_of e r = \<lparr>ex_id = xp_id e, ex_author_type = xr_author_type r, ex_outcome = xr_outcome r,
     ex_visibility = xp_visibility e, ex_revision = xr_id r, ex_title = xr_title r, ex_body = xr_body r,
     ex_number = xr_version r, ex_created = xp_created e, ex_updated = xp_updated e, ex_reactions = []\<rparr>"

definition find_experience :: "forum_tables \<Rightarrow> uuid \<Rightarrow> experience_row option" where
  "find_experience t i = List.find (\<lambda>e. xp_id e = i) (f_experiences t)"

definition find_revision :: "forum_tables \<Rightarrow> uuid \<Rightarrow> revision_row option" where
  "find_revision t i = List.find (\<lambda>r. xr_id r = i) (f_revisions t)"

definition revisions_of :: "forum_tables \<Rightarrow> uuid \<Rightarrow> revision_row list" where
  "revisions_of t i = filter (\<lambda>r. xr_experience r = i) (f_revisions t)"

text \<open>\<^verbatim>\<open>ORDER BY r.version_number DESC LIMIT 1\<close>\<close>

definition latest :: "(revision_row \<Rightarrow> bool) \<Rightarrow> revision_row list \<Rightarrow> revision_row option" where
  "latest p rs = select_first (\<lambda>r. - xr_version r) p rs"

section \<open>Reading\<close>

definition attach_experience_reactions :: "experience list \<Rightarrow> uuid option \<Rightarrow> experience list forum_op" where
  "attach_experience_reactions items viewer =
     (if items = [] then ret items
      else bindM (load_reactions ''experience'' (map ex_id items) (viewer_or_nil viewer)) (\<lambda>by_id.
           ret (map (\<lambda>x. x\<lparr>ex_reactions := by_id (ex_id x)\<rparr>) items)))"

definition public_revision :: "forum_tables \<Rightarrow> experience_row \<Rightarrow> revision_row option" where
  "public_revision t e = (case xp_public e of None \<Rightarrow> None
     | Some i \<Rightarrow> List.find (\<lambda>r. xr_id r = i \<and> xr_status r = ''approved'') (f_revisions t))"

definition published_experiences :: "forum_tables \<Rightarrow> experience list" where
  "published_experiences t = rev (sort_key (\<lambda>x. (ex_updated x, ex_id x))
     (List.map_filter (\<lambda>e. map_option (experience_of e) (public_revision t e))
        (filter (\<lambda>e. xp_visibility e = ''published'') (f_experiences t))))"

definition list_published_experiences ::
  "env \<Rightarrow> cursor_json \<Rightarrow> int \<Rightarrow> cursor \<Rightarrow> (experience list \<times> string) forum_op" where
  "list_published_experiences en j l0 after =
     (let l = clamp_limit l0 50 100 in
      bindM (map_errM ct_raw (stmt_rows (\<lambda>d t. take (nat l)
        (filter (\<lambda>x. case position_of en after of None \<Rightarrow> True | Some k \<Rightarrow> (ex_updated x, ex_id x) < k)
           (published_experiences t))))) (\<lambda>items0.
      bindM (attach_experience_reactions items0 None) (\<lambda>items.
      ret (items, if items = [] then []
                  else next_cursor en j (int (length items)) l (ex_updated (last items)) (ex_id (last items))))))"

definition shown_revision :: "forum_tables \<Rightarrow> uuid option \<Rightarrow> experience_row \<Rightarrow> revision_row option" where
  "shown_revision t viewer e = latest
     (\<lambda>r. xp_visibility e = ''published'' \<and> xp_public e = Some (xr_id r) \<and> xr_status r = ''approved''
          \<or> viewer = Some (xp_author e)) (revisions_of t (xp_id e))"

definition get_experience :: "uuid option \<Rightarrow> uuid \<Rightarrow> experience forum_op" where
  "get_experience viewer i =
     bindM (map_errM ct_raw (stmt_rows (\<lambda>d t.
       case find_experience t i of
         None \<Rightarrow> []
       | Some e \<Rightarrow> (case shown_revision t viewer e of None \<Rightarrow> [] | Some r \<Rightarrow> [experience_of e r])))) (\<lambda>items0.
     if items0 = [] then fail CtNotFound
     else bindM (attach_experience_reactions items0 viewer) (\<lambda>items. ret (hd items)))"

definition get_latest_experience :: "uuid \<Rightarrow> experience forum_op" where
  "get_latest_experience i = map_errM (\<lambda>e. if e = SNoRows then CtNotFound else CtSQL) (stmt_row (\<lambda>d t.
     case find_experience t i of
       None \<Rightarrow> None
     | Some e \<Rightarrow> map_option (experience_of e) (latest (\<lambda>_. True) (revisions_of t i))))"

section \<open>Writing\<close>

definition new_revision :: "uuid \<Rightarrow> int \<Rightarrow> revision_input \<Rightarrow> db \<Rightarrow> revision_row" where
  "new_revision i version input d = \<lparr>xr_id = next_id d, xr_experience = i, xr_version = version,
     xr_title = rvi_title input, xr_body = rvi_body input, xr_author_type = empty_dash (rvi_author_type input),
     xr_outcome = empty_dash (rvi_outcome input), xr_status = ''draft'', xr_reason = None, xr_reviewer = None,
     xr_reviewed = None\<rparr>"

definition revision_chk :: "revision_row \<Rightarrow> bool" where
  "revision_chk r \<longleftrightarrow> 0 < xr_version r \<and> text_chk (xr_title r) \<and> text_chk (xr_body r)
     \<and> pg_text (xr_author_type r) \<and> pg_text (xr_outcome r)"

definition insert_revision :: "uuid \<Rightarrow> (forum_tables \<Rightarrow> int) \<Rightarrow> revision_input
    \<Rightarrow> (forum_tables state, stmt_error, revision_row) op" where
  "insert_revision i version input =
     stmt_from (\<lambda>d t. Some (new_revision i (version t) input d)) revision_chk
       (\<lambda>d t r. \<not> list_ex (\<lambda>x. xr_experience x = i \<and> xr_version x = xr_version r) (f_revisions t))
       (\<lambda>d t r. find_experience t i \<noteq> None)
       (\<lambda>r (d, t). (draw_id d, t\<lparr>f_revisions := f_revisions t @ [r]\<rparr>))"

definition add_revision_event :: "revision_event \<Rightarrow> unit forum_op" where
  "add_revision_event e = map_errM ct_raw (stmt_add (\<lambda>_ _. pg_text (xe_reason e)) (\<lambda>_ _. True)
     (\<lambda>d t. find_revision t (xe_revision e) \<noteq> None \<and> has_account d (xe_actor e))
     (\<lambda>(d, t). (d, t\<lparr>f_events := f_events t @ [e]\<rparr>)) (\<lambda>_ _. ()))"

definition created_event :: "uuid \<Rightarrow> uuid \<Rightarrow> revision_event" where
  "created_event i acc = \<lparr>xe_revision = i, xe_actor = acc, xe_action = ''created'', xe_from = None,
     xe_to = ''draft'', xe_reason = ''-''\<rparr>"

definition create_experience :: "uuid \<Rightarrow> revision_input \<Rightarrow> experience forum_op" where
  "create_experience acc input =
     bindM db_clock (\<lambda>ts. in_tx ct_raw (
       bindM (map_errM ct_raw (stmt_from
         (\<lambda>d t. Some \<lparr>xp_id = next_id d, xp_author = acc, xp_visibility = ''hidden'', xp_public = None,
                      xp_created = ts, xp_updated = ts\<rparr>)
         (\<lambda>_. True) no_key (\<lambda>d t e. has_account d acc)
         (\<lambda>e (d, t). (draw_id d, t\<lparr>f_experiences := f_experiences t @ [e]\<rparr>)))) (\<lambda>e.
       bindM (map_errM ct_raw (insert_revision (xp_id e) (\<lambda>_. 1) input)) (\<lambda>r.
       bindM (add_revision_event (created_event (xr_id r) acc)) (\<lambda>_.
       ret (experience_of e r))))))"

definition next_version :: "uuid \<Rightarrow> forum_tables \<Rightarrow> int" where
  "next_version i t = foldr max (map xr_version (revisions_of t i)) 0 + 1"

definition create_revision :: "uuid \<Rightarrow> uuid \<Rightarrow> revision_input \<Rightarrow> experience forum_op" where
  "create_revision acc i input =
     bindM (in_tx ct_raw (
       bindM (map_errM (\<lambda>e. if e = SNoRows then CtForbidden else CtSQL) (stmt_row (\<lambda>d t.
         List.find (\<lambda>e. xp_id e = i \<and> xp_author e = acc) (f_experiences t)))) (\<lambda>e.
       bindM (map_errM map_content_error (insert_revision i (next_version i) input)) (\<lambda>r.
       add_revision_event (created_event (xr_id r) acc))))) (\<lambda>_.
     get_experience (Some acc) i)"

definition owned_revision :: "uuid \<Rightarrow> uuid \<Rightarrow> forum_tables \<Rightarrow> (uuid \<times> string) option" where
  "owned_revision acc i t =
     (case find_revision t i of
        None \<Rightarrow> None
      | Some r \<Rightarrow> if list_ex (\<lambda>e. xp_id e = xr_experience r \<and> xp_author e = acc) (f_experiences t)
                 then Some (xr_experience r, xr_status r) else None)"

definition update_revision :: "uuid \<Rightarrow> (revision_row \<Rightarrow> revision_row) \<Rightarrow> forum_tables \<Rightarrow> forum_tables" where
  "update_revision i f t = t\<lparr>f_revisions := update_where (\<lambda>r. xr_id r = i) f (f_revisions t)\<rparr>"

definition update_experience :: "uuid \<Rightarrow> (experience_row \<Rightarrow> experience_row) \<Rightarrow> forum_tables \<Rightarrow> forum_tables" where
  "update_experience i f t = t\<lparr>f_experiences := update_where (\<lambda>e. xp_id e = i) f (f_experiences t)\<rparr>"

definition submit_revision :: "uuid \<Rightarrow> uuid \<Rightarrow> experience forum_op" where
  "submit_revision acc i =
     bindM (in_tx ct_raw (
       bindM (map_errM (\<lambda>e. if e = SNoRows then CtNotFound else CtSQL) (stmt_row (\<lambda>d t. owned_revision acc i t)))
         (\<lambda>(x, old).
       if old \<noteq> ''draft'' \<and> old \<noteq> ''rejected'' then fail CtInvalidStatus else
       bindM (map_errM ct_raw (stmt_write
         (update_revision i (\<lambda>r. r\<lparr>xr_status := ''pending_review'', xr_reason := None\<rparr>)) (\<lambda>_ _. ()))) (\<lambda>_.
       bindM (add_revision_event \<lparr>xe_revision = i, xe_actor = acc, xe_action = ''submitted'', xe_from = Some old,
         xe_to = ''pending_review'', xe_reason = ''-''\<rparr>) (\<lambda>_.
       ret x))))) (\<lambda>x.
     get_experience (Some acc) x)"

text \<open>The revision an unpublication is recorded on; 0 (\<^verbatim>\<open>uuid.Nil\<close>) when there is none.\<close>

definition current_revision :: "forum_tables \<Rightarrow> experience_row \<Rightarrow> uuid" where
  "current_revision t e = (case xp_public e of Some i \<Rightarrow> i
     | None \<Rightarrow> (case latest (\<lambda>_. True) (revisions_of t (xp_id e)) of Some r \<Rightarrow> xr_id r | None \<Rightarrow> 0))"

definition unpublish_experience :: "uuid \<Rightarrow> uuid \<Rightarrow> unit forum_op" where
  "unpublish_experience acc i =
     bindM db_clock (\<lambda>ts. in_tx ct_raw (
       bindM (map_errM (\<lambda>e. if e = SNoRows then CtNotFound else CtSQL) (stmt_row (\<lambda>d t.
         map_option (\<lambda>e. (current_revision t e, xp_visibility e))
           (List.find (\<lambda>e. xp_id e = i \<and> xp_author e = acc) (f_experiences t))))) (\<lambda>(x, visibility).
       if visibility = ''unpublished'' then ret () else
       bindM (map_errM ct_raw (stmt_write
         (update_experience i (\<lambda>e. e\<lparr>xp_visibility := ''unpublished'', xp_updated := ts\<rparr>)) (\<lambda>_ _. ()))) (\<lambda>_.
       add_revision_event \<lparr>xe_revision = x, xe_actor = acc, xe_action = ''unpublished'',
         xe_from = Some visibility, xe_to = ''unpublished'', xe_reason = ''author unpublished experience''\<rparr>))))"

section \<open>Review\<close>

definition null_if_empty :: "string \<Rightarrow> string option" where
  "null_if_empty s = (if s = [] then None else Some s)"

definition decide_revision :: "uuid \<Rightarrow> review_input \<Rightarrow> time \<Rightarrow> revision_row \<Rightarrow> revision_row" where
  "decide_revision adm input ts r = r\<lparr>xr_status := (if ri_approved input then ''approved'' else ''rejected''),
     xr_reason := null_if_empty (ri_reason input), xr_reviewer := Some adm, xr_reviewed := Some ts\<rparr>"

definition review_revision_rows :: "uuid \<Rightarrow> uuid \<Rightarrow> review_input \<Rightarrow> uuid forum_op" where
  "review_revision_rows adm i input =
     bindM db_clock (\<lambda>ts. in_tx ct_raw (
       bindM (map_errM (\<lambda>e. if e = SNoRows then CtNotFound else CtSQL) (stmt_row (\<lambda>d t.
         map_option (\<lambda>r. (xr_experience r, xr_status r)) (find_revision t i)))) (\<lambda>(x, old).
       if old \<noteq> ''pending_review'' then fail CtInvalidStatus else
       bindM (map_errM ct_raw (stmt_add (\<lambda>_ _. pg_text (ri_reason input)) (\<lambda>_ _. True) (\<lambda>d t. has_account d adm)
         (\<lambda>(d, t). (d, update_revision i (decide_revision adm input ts) t)) (\<lambda>_ _. ()))) (\<lambda>_.
       bindM (if ri_approved input
              then map_errM ct_raw (stmt_write (update_experience x
                     (\<lambda>e. e\<lparr>xp_public := Some i, xp_visibility := ''published'', xp_updated := ts\<rparr>)) (\<lambda>_ _. ()))
              else ret ()) (\<lambda>_.
       bindM (add_revision_event \<lparr>xe_revision = i, xe_actor = adm,
         xe_action = (if ri_approved input then ''approved'' else ''rejected''), xe_from = Some old,
         xe_to = (if ri_approved input then ''approved'' else ''rejected''), xe_reason = ri_reason input\<rparr>) (\<lambda>_.
       ret x))))))"

definition review_experience :: "uuid \<Rightarrow> uuid \<Rightarrow> review_input \<Rightarrow> experience forum_op" where
  "review_experience adm i input =
     bindM (forum_is_admin adm) (\<lambda>ok.
     if \<not> ok then fail CtAdminRequired else
     bindM (review_revision_rows adm i input) (\<lambda>x.
     catchM (get_experience None x)
       (\<lambda>e. if e = CtNotFound then get_latest_experience x else fail e) ret))"

end
