(* ===== verification/Applications.thy ===== *)
theory Applications imports ForumStore begin

text \<open>
  Applications (internal/applications/model.go and postgres_repository.go) and the identifier of a
  programme (internal/admissions/model.go). A confirmed application opens the forum spaces of its
  year and of its programme; one that comes late goes through a request ticket that an
  administrator reviews.
\<close>

section \<open>Programme identifiers\<close>

record program_identifier =
  pi_year :: int
  pi_school :: string
  pi_program :: string

definition code_ok :: "string \<Rightarrow> bool" where
  "code_ok v \<longleftrightarrow> three_digits v \<and> v \<noteq> ''000''"

definition identifier_string :: "program_identifier \<Rightarrow> string" where
  "identifier_string i = zero_pad 3 (itoa (nat (pi_year i))) @ ''-'' @ pi_school i @ ''-'' @ pi_program i"

definition parse_program_identifier :: "string \<Rightarrow> program_identifier option" where
  "parse_program_identifier raw =
     (case split_on (CHR ''-'') raw of
        [y, s, p] \<Rightarrow>
          if length y \<noteq> 3 \<or> \<not> code_ok s \<or> \<not> code_ok p then None
          else (case atoi y of
                  None \<Rightarrow> None
                | Some n \<Rightarrow> if n < 100 \<or> 999 < n then None
                          else Some \<lparr>pi_year = n, pi_school = s, pi_program = p\<rparr>)
      | _ \<Rightarrow> None)"

section \<open>Values and errors\<close>

record application =
  an_id :: uuid
  an_identifier :: string
  an_school :: string
  an_school_name :: string
  an_program :: string
  an_program_name :: string
  an_year :: int
  an_status :: string
  an_locked :: "time option"

record request_ticket =
  qt_id :: uuid
  qt_identifier :: string
  qt_reason :: string
  qt_status :: string
  qt_created :: time

datatype application_error = ApConflict | ApNotFound | ApAdminRequired | ApInvalidStatus | ApNoRows | ApSQL

type_synonym 'a application_op = "(forum_tables state, application_error, 'a) op"

fun map_application_error :: "stmt_error \<Rightarrow> application_error" where
  "map_application_error SUnique = ApConflict"
| "map_application_error SForeign = ApNotFound"
| "map_application_error SNoRows = ApNoRows"
| "map_application_error _ = ApSQL"

definition ap_raw :: "stmt_error \<Rightarrow> application_error" where
  "ap_raw e = (if e = SNoRows then ApNoRows else ApSQL)"

definition ap_missing :: "stmt_error \<Rightarrow> application_error" where
  "ap_missing e = (if e = SNoRows then ApNotFound else map_application_error e)"

section \<open>Statements\<close>

definition find_program :: "forum_tables \<Rightarrow> int \<Rightarrow> string \<Rightarrow> string \<Rightarrow> program_row option" where
  "find_program t y s p = List.find (\<lambda>r. pr_year r = y \<and> pr_school r = s \<and> pr_code r = p) (f_programs t)"

text \<open>The generated column \<^verbatim>\<open>program_identifier\<close>.\<close>

definition row_identifier :: "program_row \<Rightarrow> string" where
  "row_identifier r = zero_pad 3 (itoa (nat (pr_year r))) @ ''-'' @ pr_school r @ ''-'' @ pr_code r"

definition school_name :: "forum_tables \<Rightarrow> string \<Rightarrow> string option" where
  "school_name t s = map_option snd (List.find (\<lambda>x. fst x = s) (f_schools t))"

definition active_student :: "db \<Rightarrow> uuid \<Rightarrow> bool" where
  "active_student d acc \<longleftrightarrow>
     list_ex (\<lambda>a. a_id a = acc \<and> a_status a = ''active'' \<and> a_identity a = ''student'') (accounts d)"

definition new_application ::
  "uuid \<Rightarrow> int \<Rightarrow> string \<Rightarrow> string \<Rightarrow> time \<Rightarrow> db \<Rightarrow> forum_tables \<Rightarrow> application_row option" where
  "new_application acc y s p ts d t =
     (case find_program t y s p of
        None \<Rightarrow> None
      | Some r \<Rightarrow>
          if pr_review r = ''published'' \<and> active_student d acc
          then Some \<lparr>ap_id = next_id d, ap_account = acc, ap_year = pr_year r, ap_school = pr_school r,
                     ap_program = pr_code r, ap_status = ''confirmed'', ap_locked = Some ts\<rparr>
          else None)"

definition same_application :: "application_row \<Rightarrow> application_row \<Rightarrow> bool" where
  "same_application a b \<longleftrightarrow> ap_account a = ap_account b \<and> ap_year a = ap_year b \<and> ap_school a = ap_school b
     \<and> ap_program a = ap_program b"

definition insert_application ::
  "uuid \<Rightarrow> int \<Rightarrow> string \<Rightarrow> string \<Rightarrow> time \<Rightarrow> (forum_tables state, stmt_error, application_row) op" where
  "insert_application acc y s p ts =
     stmt_from (new_application acc y s p ts) (\<lambda>_. True)
       (\<lambda>d t a. \<not> list_ex (same_application a) (f_applications t)) (\<lambda>d t a. has_account d (ap_account a))
       (\<lambda>a (d, t). (draw_id d, t\<lparr>f_applications := f_applications t @ [a]\<rparr>))"

definition application_of :: "forum_tables \<Rightarrow> application_row \<Rightarrow> application option" where
  "application_of t a =
     (case (find_program t (ap_year a) (ap_school a) (ap_program a), school_name t (ap_school a)) of
        (Some r, Some name) \<Rightarrow>
          Some \<lparr>an_id = ap_id a, an_identifier = row_identifier r, an_school = ap_school a, an_school_name = name,
                an_program = ap_program a, an_program_name = pr_name r, an_year = ap_year a,
                an_status = ap_status a, an_locked = ap_locked a\<rparr>
      | _ \<Rightarrow> None)"

definition load_application :: "uuid \<Rightarrow> application application_op" where
  "load_application i = map_errM ap_raw (stmt_row (\<lambda>d t.
     case List.find (\<lambda>a. ap_id a = i) (f_applications t) of None \<Rightarrow> None | Some a \<Rightarrow> application_of t a))"

section \<open>Spaces of an application\<close>

text \<open>The name of an annual space ends with the Chinese words for a forum of special admission.\<close>

definition annual_suffix :: string where
  "annual_suffix = [CHR '' '', CHR 0xE7, CHR 0x89, CHR 0xB9, CHR 0xE9, CHR 0x81, CHR 0xB8,
     CHR 0xE8, CHR 0xAB, CHR 0x96, CHR 0xE5, CHR 0xA3, CHR 0x87]"

definition annual_space :: "application \<Rightarrow> db \<Rightarrow> space_row" where
  "annual_space a d = \<lparr>sp_id = next_id d, sp_type = ''annual'', sp_name = itoa_int (an_year a) @ annual_suffix,
     sp_year = Some (an_year a), sp_school = None, sp_program = None, sp_active = True\<rparr>"

definition program_space :: "application \<Rightarrow> db \<Rightarrow> space_row" where
  "program_space a d = \<lparr>sp_id = next_id d, sp_type = ''school_program'',
     sp_name = an_school_name a @ '' '' @ an_program_name a, sp_year = Some (an_year a),
     sp_school = Some (an_school a), sp_program = Some (an_program a), sp_active = True\<rparr>"

definition space_chk :: "space_row \<Rightarrow> bool" where
  "space_chk f \<longleftrightarrow> \<not> pg_blank (sp_name f)
     \<and> (case sp_year f of None \<Rightarrow> True | Some y \<Rightarrow> 100 \<le> y \<and> y \<le> 999)
     \<and> (case sp_program f of None \<Rightarrow> True | Some p \<Rightarrow> three_digits p)"

definition same_scope :: "space_row \<Rightarrow> space_row \<Rightarrow> bool" where
  "same_scope f g \<longleftrightarrow> sp_type f = sp_type g \<and> sp_year f = sp_year g \<and> sp_school f = sp_school g
     \<and> sp_program f = sp_program g"

text \<open>\<^verbatim>\<open>INSERT ... ON CONFLICT ... DO NOTHING\<close>\<close>

definition ensure_space :: "(db \<Rightarrow> space_row) \<Rightarrow> (forum_tables state, stmt_error, unit) op" where
  "ensure_space f = stmt (\<lambda>(d, t).
     if \<not> space_chk (f d) then (Inl SCheck, (d, t))
     else if list_ex (same_scope (f d)) (f_spaces t) then (Inr (), (d, t))
     else if \<not> (case sp_school (f d) of None \<Rightarrow> True | Some s \<Rightarrow> school_name t s \<noteq> None) then (Inl SForeign, (d, t))
     else (Inr (), (draw_id d, t\<lparr>f_spaces := f_spaces t @ [f d]\<rparr>)))"

definition ensure_forum_spaces :: "application \<Rightarrow> unit application_op" where
  "ensure_forum_spaces a =
     bindM (map_errM (\<lambda>_. ApSQL) (ensure_space (annual_space a))) (\<lambda>_.
     map_errM (\<lambda>_. ApSQL) (ensure_space (program_space a)))"

section \<open>Operations\<close>

definition confirm_one :: "uuid \<Rightarrow> time \<Rightarrow> int \<Rightarrow> string \<Rightarrow> string \<Rightarrow> application application_op" where
  "confirm_one acc ts y s p =
     bindM (map_errM ap_missing (insert_application acc y s p ts)) (\<lambda>r.
     bindM (load_application (ap_id r)) (\<lambda>a.
     bindM (ensure_forum_spaces a) (\<lambda>_. ret a)))"

fun confirm_all :: "uuid \<Rightarrow> time \<Rightarrow> program_identifier list \<Rightarrow> application list application_op" where
  "confirm_all acc ts [] = ret []"
| "confirm_all acc ts (i # is') =
     bindM (confirm_one acc ts (pi_year i) (pi_school i) (pi_program i)) (\<lambda>a.
     bindM (confirm_all acc ts is') (\<lambda>as. ret (a # as)))"

definition create_confirmed :: "uuid \<Rightarrow> program_identifier list \<Rightarrow> application list application_op" where
  "create_confirmed acc ids = bindM db_clock (\<lambda>ts. in_tx ap_raw (confirm_all acc ts ids))"

definition list_by_account :: "uuid \<Rightarrow> application list application_op" where
  "list_by_account acc = map_errM ap_raw (stmt_rows (\<lambda>d t.
     List.map_filter (application_of t)
       (sort_key (\<lambda>a. (- ap_year a, ap_school a, ap_program a)) (filter (\<lambda>a. ap_account a = acc) (f_applications t)))))"

definition request_ticket_chk :: "request_ticket_row \<Rightarrow> bool" where
  "request_ticket_chk r \<longleftrightarrow> 100 \<le> rt_year r \<and> rt_year r \<le> 999 \<and> three_digits (rt_program r)
     \<and> text_chk (rt_reason r)"

definition create_request_ticket :: "uuid \<Rightarrow> program_identifier \<Rightarrow> string \<Rightarrow> request_ticket application_op" where
  "create_request_ticket acc i reason =
     bindM db_clock (\<lambda>ts.
     bindM (map_errM map_application_error (stmt_from
       (\<lambda>d t. if active_student d acc
          then Some \<lparr>rt_id = next_id d, rt_account = acc, rt_year = pi_year i, rt_school = pi_school i,
                     rt_program = pi_program i, rt_reason = reason, rt_status = ''open'', rt_reviewer = None,
                     rt_reviewed = None, rt_created = ts\<rparr>
          else None)
       request_ticket_chk no_key
       (\<lambda>d t r. has_account d (rt_account r) \<and> school_name t (rt_school r) \<noteq> None
              \<and> find_program t (rt_year r) (rt_school r) (rt_program r) \<noteq> None)
       (\<lambda>r (d, t). (draw_id d, t\<lparr>f_tickets := f_tickets t @ [r]\<rparr>)))) (\<lambda>r.
     ret \<lparr>qt_id = rt_id r, qt_identifier = identifier_string i, qt_reason = rt_reason r, qt_status = rt_status r,
          qt_created = rt_created r\<rparr>))"

definition request_ticket_of :: "forum_tables \<Rightarrow> request_ticket_row \<Rightarrow> request_ticket option" where
  "request_ticket_of t r = map_option (\<lambda>p. \<lparr>qt_id = rt_id r, qt_identifier = row_identifier p,
     qt_reason = rt_reason r, qt_status = rt_status r, qt_created = rt_created r\<rparr>)
     (find_program t (rt_year r) (rt_school r) (rt_program r))"

definition applications_is_admin :: "uuid \<Rightarrow> bool application_op" where
  "applications_is_admin acc = map_errM ap_raw (stmt_rows (\<lambda>d t. (acc, ''admin'') \<in> set (roles d)))"

definition list_open_request_tickets :: "uuid \<Rightarrow> request_ticket list application_op" where
  "list_open_request_tickets adm =
     bindM (applications_is_admin adm) (\<lambda>ok.
     if \<not> ok then fail ApAdminRequired
     else map_errM ap_raw (stmt_rows (\<lambda>d t. List.map_filter (request_ticket_of t)
            (sort_key rt_created (filter (\<lambda>r. rt_status r = ''open'') (f_tickets t))))))"

definition empty_review_reason :: "string \<Rightarrow> string" where
  "empty_review_reason v = (if is_blank v then ''-'' else trim_space v)"

definition find_request_ticket :: "forum_tables \<Rightarrow> uuid \<Rightarrow> request_ticket_row option" where
  "find_request_ticket t i = List.find (\<lambda>r. rt_id r = i) (f_tickets t)"

definition review_request_ticket :: "env \<Rightarrow> uuid \<Rightarrow> uuid \<Rightarrow> review_input \<Rightarrow> request_ticket application_op" where
  "review_request_ticket en adm i input =
     bindM (applications_is_admin adm) (\<lambda>ok.
     if \<not> ok then fail ApAdminRequired else
     bindM db_clock (\<lambda>ts. in_tx ap_raw (
       bindM (map_errM (\<lambda>e. if e = SNoRows then ApNotFound else ApSQL)
                (stmt_row (\<lambda>d t. find_request_ticket t i))) (\<lambda>r.
       if rt_status r \<noteq> ''open'' then fail ApInvalidStatus else
       bindM (if ri_approved input
              then bindM (confirm_one (rt_account r) ts (rt_year r) (rt_school r) (rt_program r)) (\<lambda>_. ret ())
              else ret ()) (\<lambda>_.
       let status = (if ri_approved input then ''approved'' else ''rejected'') in
       bindM (map_errM ap_raw (stmt_add (\<lambda>_ _. True) (\<lambda>_ _. True) (\<lambda>d t. has_account d adm)
         (\<lambda>(d, t). (d, t\<lparr>f_tickets := update_where (\<lambda>r. rt_id r = i)
            (\<lambda>r. r\<lparr>rt_status := status, rt_reviewer := Some adm, rt_reviewed := Some ts\<rparr>) (f_tickets t)\<rparr>))
         (\<lambda>_ _. ()))) (\<lambda>_.
       bindM (map_errM ap_raw (stmt_add (\<lambda>_ _. pg_text (ri_reason input) \<and> \<not> pg_blank (e_uuid en i)) (\<lambda>_ _. True)
         (\<lambda>d t. has_account d adm)
         (\<lambda>(d, t). (d, t\<lparr>f_audit := f_audit t @ [\<lparr>au_actor = adm, au_action = ''review'',
            au_entity = ''application_service_ticket'', au_key = e_uuid en i, au_before = ''open'',
            au_after = status, au_reason = empty_review_reason (ri_reason input)\<rparr>]\<rparr>)) (\<lambda>_ _. ()))) (\<lambda>_.
       map_errM ap_raw (stmt_row (\<lambda>d t.
         case find_request_ticket t i of None \<Rightarrow> None | Some r \<Rightarrow> request_ticket_of t r)))))))))"

end
