(* ===== verification/ForumHandler.thy ===== *)
theory ForumHandler imports ExperienceStore Applications RequestSteps begin

text \<open>
  The routes of forum and experiences (internal/content/handler.go) and of applications
  (internal/applications/handler.go). A body is its decoded value; JSON texts, logging and
  rate-limit headers are left out.
\<close>

record forum_handler =
  fh_auth :: service
  fh_cursors :: cursor_json
  fh_distributed :: distributed_limiter

abbreviation fh_env :: "forum_handler \<Rightarrow> env" where
  "fh_env h \<equiv> sv_env (fh_auth h)"

definition new_forum_limiters :: forum_limiters where
  "new_forum_limiters = \<lparr>fl_thread = Some (new_fixed_window_limiter 10 minute 10000),
     fl_post = Some (new_fixed_window_limiter 20 minute 10000),
     fl_experience = Some (new_fixed_window_limiter 10 minute 10000),
     fl_revision = Some (new_fixed_window_limiter 10 minute 10000),
     fl_reaction = Some (new_fixed_window_limiter 60 minute 10000),
     fl_application = Some (new_fixed_window_limiter 10 minute 10000),
     fl_ticket = Some (new_fixed_window_limiter 10 minute 10000)\<rparr>"

datatype forum_body =
    SpacesOut "forum_space list" | ThreadsOut "forum_thread list" string | PostsOut "forum_post list" string
  | ThreadOut forum_thread forum_post | PostOut forum_post | ExperiencesOut "experience list" string
  | ExperienceOut experience | AdminThreadsOut "admin_thread list" string | AdminPostsOut "admin_post list"
  | ApplicationsOut "application list" | RequestTicketOut request_ticket | RequestTicketsOut "request_ticket list"
  | NoForumBody

type_synonym 'a forum_step = "(forum_tables, forum_body, 'a) route"

section \<open>Guards\<close>

definition viewer_step :: "forum_handler \<Rightarrow> request \<Rightarrow> uuid option forum_step" where
  "viewer_step h rq =
     catchM (core (authenticate (fh_auth h) rq)) (\<lambda>_. ret None) (\<lambda>rs. ret (Some (acc_id (session_account rs))))"

definition content_require_mutation :: "forum_handler \<Rightarrow> request \<Rightarrow> request_session forum_step" where
  "content_require_mutation h rq =
     bindM (session_step (fh_auth h) rq) (\<lambda>rs. bindM (csrf_step (fh_auth h) rq rs) (\<lambda>_. ret rs))"

definition require_verified_identity :: "forum_handler \<Rightarrow> request \<Rightarrow> request_session forum_step" where
  "require_verified_identity h rq =
     bindM (content_require_mutation h rq) (\<lambda>rs.
     if acc_identity (session_account rs) = ''temporary'' then
       bindM (map_errM (\<lambda>_. refuse_internal) (forum_is_admin (acc_id (session_account rs)))) (\<lambda>ok.
       if \<not> ok then fail (Refused 403 ''identity_verification_required''
                            ''a verified school or senior identity is required to post'')
       else ret rs)
     else ret rs)"

definition content_require_admin :: "forum_handler \<Rightarrow> request \<Rightarrow> request_session forum_step" where
  "content_require_admin h rq =
     bindM (session_step (fh_auth h) rq) (\<lambda>rs.
     bindM (admin_step forum_is_admin rs) (\<lambda>_.
     bindM (mfa_step (fh_auth h) rq rs) (\<lambda>_. ret rs)))"

definition content_require_admin_mutation :: "forum_handler \<Rightarrow> request \<Rightarrow> request_session forum_step" where
  "content_require_admin_mutation h rq =
     bindM (content_require_admin h rq) (\<lambda>rs. bindM (csrf_step (fh_auth h) rq rs) (\<lambda>_. ret rs))"

definition session_acc :: "request_session \<Rightarrow> uuid" where
  "session_acc rs = acc_id (session_account rs)"

definition content_rate :: "forum_handler \<Rightarrow> (forum_limiters \<Rightarrow> limiter option)
    \<Rightarrow> ((limiter option \<Rightarrow> limiter option) \<Rightarrow> forum_limiters \<Rightarrow> forum_limiters)
    \<Rightarrow> string \<Rightarrow> request_session \<Rightarrow> int \<Rightarrow> unit forum_step" where
  "content_rate h sel upd ns rs l =
     rate_step (fh_auth h) (fh_distributed h) (\<lambda>t. sel (f_limiters t))
       (\<lambda>lo t. t\<lparr>f_limiters := upd (\<lambda>_. lo) (f_limiters t)\<rparr>) ns (e_uuid (fh_env h) (session_acc rs)) l minute"

fun content_refusal :: "content_error \<Rightarrow> forum_body reply" where
  "content_refusal CtNotFound = Refused 404 ''not_found'' ''content resource not found''"
| "content_refusal CtForbidden = Refused 403 ''forbidden'' ''content access is not allowed''"
| "content_refusal CtConflict = Refused 409 ''conflict'' ''content resource conflict''"
| "content_refusal CtInvalidStatus = Refused 409 ''invalid_status'' ''content status transition is invalid''"
| "content_refusal CtAdminRequired = refuse_admin"
| "content_refusal _ = refuse_internal"

definition serve_content :: "'a forum_op \<Rightarrow> 'a forum_step" where
  "serve_content m = map_errM content_refusal m"

definition serve_content_list :: "'a forum_op \<Rightarrow> 'a forum_step" where
  "serve_content_list m = map_errM (\<lambda>_. refuse_internal) m"

definition content_page_query :: "forum_handler \<Rightarrow> string \<Rightarrow> string \<Rightarrow> (int \<times> cursor) forum_step" where
  "content_page_query h raw token =
     body_step (case (if raw = [] then Some 50
                      else case atoi raw of None \<Rightarrow> None | Some n \<Rightarrow> if n < 1 \<or> 100 < n then None else Some n) of
                  None \<Rightarrow> None
                | Some l \<Rightarrow> map_option (Pair l) (decode_cursor (fh_env h) (fh_cursors h) token))
       ''invalid_query'' ''list query is invalid''"

definition space_path :: "forum_handler \<Rightarrow> string \<Rightarrow> uuid forum_step" where
  "space_path h raw = path_uuid (fh_env h) raw ''invalid_space_id'' ''space id is invalid''"

definition thread_path :: "forum_handler \<Rightarrow> string \<Rightarrow> uuid forum_step" where
  "thread_path h raw = path_uuid (fh_env h) raw ''invalid_thread_id'' ''thread id is invalid''"

definition post_path :: "forum_handler \<Rightarrow> string \<Rightarrow> uuid forum_step" where
  "post_path h raw = path_uuid (fh_env h) raw ''invalid_post_id'' ''post id is invalid''"

definition experience_path :: "forum_handler \<Rightarrow> string \<Rightarrow> uuid forum_step" where
  "experience_path h raw = path_uuid (fh_env h) raw ''invalid_experience_id'' ''experience id is invalid''"

definition revision_path :: "forum_handler \<Rightarrow> string \<Rightarrow> uuid forum_step" where
  "revision_path h raw = path_uuid (fh_env h) raw ''invalid_revision_id'' ''revision id is invalid''"

section \<open>Forum\<close>

definition route_list_spaces :: "forum_handler \<Rightarrow> request \<Rightarrow> forum_body reply forum_step" where
  "route_list_spaces h rq =
     bindM (viewer_step h rq) (\<lambda>viewer.
     bindM (serve_content_list (list_spaces viewer)) (\<lambda>items. ret (Replied 200 (SpacesOut items))))"

definition route_join_space :: "forum_handler \<Rightarrow> request \<Rightarrow> string \<Rightarrow> forum_body reply forum_step" where
  "route_join_space h rq raw =
     bindM (content_require_mutation h rq) (\<lambda>rs.
     bindM (space_path h raw) (\<lambda>i.
     bindM (serve_content (join_space (session_acc rs) i)) (\<lambda>_. ret (Replied 204 NoForumBody))))"

definition route_leave_space :: "forum_handler \<Rightarrow> request \<Rightarrow> string \<Rightarrow> forum_body reply forum_step" where
  "route_leave_space h rq raw =
     bindM (content_require_mutation h rq) (\<lambda>rs.
     bindM (space_path h raw) (\<lambda>i.
     bindM (serve_content (leave_space (session_acc rs) i)) (\<lambda>_. ret (Replied 204 NoForumBody))))"

definition route_list_threads ::
  "forum_handler \<Rightarrow> request \<Rightarrow> string \<Rightarrow> string \<Rightarrow> string \<Rightarrow> forum_body reply forum_step" where
  "route_list_threads h rq raw raw_limit token =
     bindM (space_path h raw) (\<lambda>i.
     bindM (content_page_query h raw_limit token) (\<lambda>(l, after).
     bindM (viewer_step h rq) (\<lambda>viewer.
     bindM (serve_content (list_threads (fh_env h) (fh_cursors h) viewer i l after)) (\<lambda>(items, next).
     ret (Replied 200 (ThreadsOut items next))))))"

definition route_list_posts ::
  "forum_handler \<Rightarrow> request \<Rightarrow> string \<Rightarrow> string \<Rightarrow> string \<Rightarrow> forum_body reply forum_step" where
  "route_list_posts h rq raw raw_limit token =
     bindM (thread_path h raw) (\<lambda>i.
     bindM (content_page_query h raw_limit token) (\<lambda>(l, after).
     bindM (viewer_step h rq) (\<lambda>viewer.
     bindM (serve_content (list_posts (fh_env h) (fh_cursors h) viewer i l after)) (\<lambda>(items, next).
     ret (Replied 200 (PostsOut items next))))))"

definition route_create_thread ::
  "forum_handler \<Rightarrow> request \<Rightarrow> string \<Rightarrow> (string \<times> string) option \<Rightarrow> forum_body reply forum_step" where
  "route_create_thread h rq raw body =
     bindM (require_verified_identity h rq) (\<lambda>rs.
     bindM (content_rate h fl_thread fl_thread_update ''content-thread'' rs 10) (\<lambda>_.
     bindM (space_path h raw) (\<lambda>i.
     bindM (body_step (case body of None \<Rightarrow> None
              | Some (title, content) \<Rightarrow>
                  if is_blank title \<or> is_blank content \<or> 300 < length title \<or> 100000 < length content
                  then None else body) ''invalid_thread'' ''thread data is invalid'') (\<lambda>(title, content).
     bindM (serve_content (create_thread (session_acc rs) i (trim_space title) (trim_space content))) (\<lambda>(thread, post).
     ret (Replied 201 (ThreadOut thread post)))))))"

definition route_create_post ::
  "forum_handler \<Rightarrow> request \<Rightarrow> string \<Rightarrow> (string \<times> uuid option) option \<Rightarrow> forum_body reply forum_step" where
  "route_create_post h rq raw body =
     bindM (require_verified_identity h rq) (\<lambda>rs.
     bindM (content_rate h fl_post fl_post_update ''content-post'' rs 20) (\<lambda>_.
     bindM (thread_path h raw) (\<lambda>i.
     bindM (body_step (case body of None \<Rightarrow> None
              | Some (content, quote) \<Rightarrow> if is_blank content \<or> 100000 < length content then None else body)
              ''invalid_post'' ''post data is invalid'') (\<lambda>(content, quote).
     bindM (serve_content (create_post (session_acc rs) i (trim_space content) quote)) (\<lambda>post.
     ret (Replied 201 (PostOut post)))))))"

definition route_admin_threads ::
  "forum_handler \<Rightarrow> request \<Rightarrow> string \<Rightarrow> string \<Rightarrow> forum_body reply forum_step" where
  "route_admin_threads h rq raw_limit token =
     bindM (content_require_admin h rq) (\<lambda>_.
     bindM (content_page_query h raw_limit token) (\<lambda>(l, after).
     bindM (serve_content_list (admin_list_threads (fh_env h) (fh_cursors h) l after)) (\<lambda>(items, next).
     ret (Replied 200 (AdminThreadsOut items next)))))"

definition route_admin_posts :: "forum_handler \<Rightarrow> request \<Rightarrow> string \<Rightarrow> forum_body reply forum_step" where
  "route_admin_posts h rq raw =
     bindM (content_require_admin h rq) (\<lambda>_.
     bindM (thread_path h raw) (\<lambda>i.
     bindM (serve_content_list (admin_list_posts i)) (\<lambda>items. ret (Replied 200 (AdminPostsOut items)))))"

definition route_thread_status ::
  "forum_handler \<Rightarrow> request \<Rightarrow> string \<Rightarrow> string \<Rightarrow> forum_body reply forum_step" where
  "route_thread_status h rq raw status =
     bindM (content_require_admin_mutation h rq) (\<lambda>_.
     bindM (thread_path h raw) (\<lambda>i.
     bindM (serve_content (set_thread_status i status)) (\<lambda>_. ret (Replied 204 NoForumBody))))"

definition route_delete_post :: "forum_handler \<Rightarrow> request \<Rightarrow> string \<Rightarrow> forum_body reply forum_step" where
  "route_delete_post h rq raw =
     bindM (content_require_admin_mutation h rq) (\<lambda>_.
     bindM (post_path h raw) (\<lambda>i.
     bindM (serve_content (set_post_status i ''removed'')) (\<lambda>_. ret (Replied 204 NoForumBody))))"

definition route_archive_post :: "forum_handler \<Rightarrow> request \<Rightarrow> string \<Rightarrow> forum_body reply forum_step" where
  "route_archive_post h rq raw =
     bindM (content_require_admin_mutation h rq) (\<lambda>_.
     bindM (post_path h raw) (\<lambda>i.
     bindM (serve_content (set_post_status i ''archived'')) (\<lambda>_. ret (Replied 204 NoForumBody))))"

section \<open>Experiences\<close>

definition route_list_experiences ::
  "forum_handler \<Rightarrow> request \<Rightarrow> string \<Rightarrow> string \<Rightarrow> forum_body reply forum_step" where
  "route_list_experiences h rq raw_limit token =
     bindM (content_page_query h raw_limit token) (\<lambda>(l, after).
     bindM (serve_content_list (list_published_experiences (fh_env h) (fh_cursors h) l after)) (\<lambda>(items, next).
     ret (Replied 200 (ExperiencesOut items next))))"

definition route_get_experience :: "forum_handler \<Rightarrow> request \<Rightarrow> string \<Rightarrow> forum_body reply forum_step" where
  "route_get_experience h rq raw =
     bindM (experience_path h raw) (\<lambda>i.
     bindM (viewer_step h rq) (\<lambda>viewer.
     bindM (map_errM (\<lambda>e. if e = CtNotFound then Refused 404 ''not_found'' ''experience not found''
                          else refuse_internal) (get_experience viewer i)) (\<lambda>x.
     ret (Replied 200 (ExperienceOut x)))))"

definition revision_body :: "revision_input option \<Rightarrow> string \<Rightarrow> string \<Rightarrow> revision_input forum_step" where
  "revision_body body code message =
     body_step (case body of None \<Rightarrow> None
       | Some input \<Rightarrow> if valid_content_text (rvi_title input) (rvi_body input) then body else None) code message"

definition route_create_experience ::
  "forum_handler \<Rightarrow> request \<Rightarrow> revision_input option \<Rightarrow> forum_body reply forum_step" where
  "route_create_experience h rq body =
     bindM (content_require_mutation h rq) (\<lambda>rs.
     bindM (content_rate h fl_experience fl_experience_update ''content-experience'' rs 10) (\<lambda>_.
     bindM (revision_body body ''invalid_experience'' ''experience data is invalid'') (\<lambda>input.
     bindM (serve_content (create_experience (session_acc rs) input)) (\<lambda>x.
     ret (Replied 201 (ExperienceOut x))))))"

definition route_create_revision ::
  "forum_handler \<Rightarrow> request \<Rightarrow> string \<Rightarrow> revision_input option \<Rightarrow> forum_body reply forum_step" where
  "route_create_revision h rq raw body =
     bindM (content_require_mutation h rq) (\<lambda>rs.
     bindM (content_rate h fl_revision fl_revision_update ''content-revision'' rs 10) (\<lambda>_.
     bindM (experience_path h raw) (\<lambda>i.
     bindM (revision_body body ''invalid_revision'' ''revision data is invalid'') (\<lambda>input.
     bindM (serve_content (create_revision (session_acc rs) i input)) (\<lambda>x.
     ret (Replied 201 (ExperienceOut x)))))))"

definition route_submit_revision :: "forum_handler \<Rightarrow> request \<Rightarrow> string \<Rightarrow> forum_body reply forum_step" where
  "route_submit_revision h rq raw =
     bindM (content_require_mutation h rq) (\<lambda>rs.
     bindM (content_rate h fl_revision fl_revision_update ''content-revision'' rs 10) (\<lambda>_.
     bindM (revision_path h raw) (\<lambda>i.
     bindM (serve_content (submit_revision (session_acc rs) i)) (\<lambda>x.
     ret (Replied 200 (ExperienceOut x))))))"

definition route_unpublish :: "forum_handler \<Rightarrow> request \<Rightarrow> string \<Rightarrow> forum_body reply forum_step" where
  "route_unpublish h rq raw =
     bindM (content_require_mutation h rq) (\<lambda>rs.
     bindM (experience_path h raw) (\<lambda>i.
     bindM (serve_content (unpublish_experience (session_acc rs) i)) (\<lambda>_. ret (Replied 204 NoForumBody))))"

definition review_body_ok :: "review_input option \<Rightarrow> review_input option" where
  "review_body_ok body = (case body of None \<Rightarrow> None
     | Some input \<Rightarrow> if \<not> ri_approved input \<and> is_blank (ri_reason input) \<or> 2000 < length (ri_reason input)
                    then None else body)"

definition route_review_experience ::
  "forum_handler \<Rightarrow> request \<Rightarrow> string \<Rightarrow> review_input option \<Rightarrow> forum_body reply forum_step" where
  "route_review_experience h rq raw body =
     bindM (content_require_admin_mutation h rq) (\<lambda>rs.
     bindM (revision_path h raw) (\<lambda>i.
     bindM (body_step (review_body_ok body) ''invalid_review'' ''review data is invalid'') (\<lambda>input.
     bindM (serve_content (review_experience (session_acc rs) i input)) (\<lambda>x.
     ret (Replied 200 (ExperienceOut x))))))"

text \<open>\<open>add\<close> tells \<^verbatim>\<open>PUT\<close> from \<^verbatim>\<open>DELETE\<close>.\<close>

definition reaction_op ::
  "forum_handler \<Rightarrow> request \<Rightarrow> string \<Rightarrow> string \<Rightarrow> string \<Rightarrow> bool \<Rightarrow> forum_body reply forum_step" where
  "reaction_op h rq ty raw raw_emoji add =
     bindM (content_require_mutation h rq) (\<lambda>rs.
     bindM (content_rate h fl_reaction fl_reaction_update ''content-reaction'' rs 60) (\<lambda>_.
     bindM (path_uuid (fh_env h) raw ''invalid_id'' ''target id is invalid'') (\<lambda>i.
     bindM (body_step (normalize_reaction raw_emoji) ''invalid_reaction'' ''reaction is invalid'') (\<lambda>emoji.
     bindM (map_errM (\<lambda>e. if e = CtInvalidReaction then Refused 400 ''invalid_reaction'' ''reaction is invalid''
                          else content_refusal e)
              (if add then set_reaction ty i (session_acc rs) emoji
               else remove_reaction ty i (session_acc rs) emoji)) (\<lambda>_.
     ret (Replied 204 NoForumBody))))))"

section \<open>Applications\<close>

fun application_refusal :: "application_error \<Rightarrow> forum_body reply" where
  "application_refusal ApConflict = Refused 409 ''application_conflict'' ''application already exists''"
| "application_refusal ApNotFound = Refused 404 ''program_not_found'' ''admission program not found''"
| "application_refusal ApAdminRequired = refuse_admin"
| "application_refusal ApInvalidStatus = Refused 409 ''invalid_status'' ''service ticket status is invalid''"
| "application_refusal _ = refuse_internal"

definition serve_application :: "'a application_op \<Rightarrow> 'a forum_step" where
  "serve_application m = map_errM application_refusal m"

text \<open>The CSRF token is asked for unless the method is \<^verbatim>\<open>GET\<close> (\<open>reads\<close>).\<close>

definition require_identity :: "forum_handler \<Rightarrow> request \<Rightarrow> bool \<Rightarrow> bool \<Rightarrow> request_session forum_step" where
  "require_identity h rq reads allow_senior =
     bindM (map_errM (\<lambda>_. refuse_unauthorized) (core (authenticate (fh_auth h) rq))) (\<lambda>rs.
     let who = acc_identity (session_account rs) in
     if \<not> (who = ''student'' \<or> allow_senior \<and> who = ''senior'')
     then fail (Refused 403 ''verification_required'' ''verified identity is required'')
     else bindM (if reads then ret () else csrf_step (fh_auth h) rq rs) (\<lambda>_. ret rs))"

definition application_require_admin :: "forum_handler \<Rightarrow> request \<Rightarrow> bool \<Rightarrow> request_session forum_step" where
  "application_require_admin h rq reads =
     bindM (session_step (fh_auth h) rq) (\<lambda>rs.
     bindM (if reads then ret () else csrf_step (fh_auth h) rq rs) (\<lambda>_.
     bindM (admin_step applications_is_admin rs) (\<lambda>_.
     bindM (mfa_step (fh_auth h) rq rs) (\<lambda>_. ret rs))))"

definition route_list_applications :: "forum_handler \<Rightarrow> request \<Rightarrow> forum_body reply forum_step" where
  "route_list_applications h rq =
     bindM (require_identity h rq True True) (\<lambda>rs.
     bindM (map_errM (\<lambda>_. refuse_internal) (list_by_account (session_acc rs))) (\<lambda>items.
     ret (Replied 200 (ApplicationsOut items))))"

text \<open>The identifiers, in order, as long as each parses and is new.\<close>

fun parse_identifiers :: "string list \<Rightarrow> string list \<Rightarrow> program_identifier list forum_step" where
  "parse_identifiers seen [] = ret []"
| "parse_identifiers seen (raw # raws) =
     (case parse_program_identifier (trim_space raw) of
        None \<Rightarrow> fail (Refused 400 ''invalid_program_identifier'' ''program identifier is invalid'')
      | Some i \<Rightarrow>
          if identifier_string i \<in> set seen
          then fail (Refused 400 ''duplicate_program'' ''program identifier is duplicated'')
          else bindM (parse_identifiers (identifier_string i # seen) raws) (\<lambda>is'. ret (i # is')))"

definition route_create_applications ::
  "forum_handler \<Rightarrow> request \<Rightarrow> string list option \<Rightarrow> forum_body reply forum_step" where
  "route_create_applications h rq body =
     bindM (require_identity h rq False False) (\<lambda>rs.
     bindM (content_rate h fl_application fl_application_update ''applications-create'' rs 10) (\<lambda>_.
     bindM (body_step (case body of None \<Rightarrow> None | Some raws \<Rightarrow> if raws = [] \<or> 50 < length raws then None else body)
              ''invalid_request'' ''program_identifiers is invalid'') (\<lambda>raws.
     bindM (parse_identifiers [] raws) (\<lambda>ids.
     bindM (serve_application (create_confirmed (session_acc rs) ids)) (\<lambda>items.
     ret (Replied 201 (ApplicationsOut items)))))))"

definition route_create_ticket ::
  "forum_handler \<Rightarrow> request \<Rightarrow> (string \<times> string) option \<Rightarrow> forum_body reply forum_step" where
  "route_create_ticket h rq body =
     bindM (require_identity h rq False False) (\<lambda>rs.
     bindM (content_rate h fl_ticket fl_ticket_update ''applications-ticket'' rs 10) (\<lambda>_.
     bindM (body_step (case body of None \<Rightarrow> None
              | Some (raw, reason) \<Rightarrow> if is_blank reason \<or> 2000 < length reason then None else body)
              ''invalid_request'' ''ticket data is invalid'') (\<lambda>(raw, reason).
     bindM (body_step (parse_program_identifier (trim_space raw))
              ''invalid_program_identifier'' ''program identifier is invalid'') (\<lambda>i.
     bindM (serve_application (create_request_ticket (session_acc rs) i (trim_space reason))) (\<lambda>x.
     ret (Replied 201 (RequestTicketOut x)))))))"

definition route_open_tickets :: "forum_handler \<Rightarrow> request \<Rightarrow> forum_body reply forum_step" where
  "route_open_tickets h rq =
     bindM (application_require_admin h rq True) (\<lambda>rs.
     bindM (serve_application (list_open_request_tickets (session_acc rs))) (\<lambda>items.
     ret (Replied 200 (RequestTicketsOut items))))"

definition route_review_ticket ::
  "forum_handler \<Rightarrow> request \<Rightarrow> string \<Rightarrow> review_input option \<Rightarrow> forum_body reply forum_step" where
  "route_review_ticket h rq raw body =
     bindM (application_require_admin h rq False) (\<lambda>rs.
     bindM (path_uuid (fh_env h) raw ''invalid_ticket_id'' ''ticket id is invalid'') (\<lambda>i.
     bindM (body_step (review_body_ok body) ''invalid_review'' ''ticket review is invalid'') (\<lambda>input.
     bindM (serve_application (review_request_ticket (fh_env h) (session_acc rs) i input)) (\<lambda>x.
     ret (Replied 200 (RequestTicketOut x))))))"

section \<open>Dispatch\<close>

datatype forum_call =
    ListSpacesCall | JoinSpaceCall string | LeaveSpaceCall string | ListThreadsCall string string string
  | CreateThreadCall string "(string \<times> string) option" | ListPostsCall string string string
  | CreatePostCall string "(string \<times> uuid option) option" | ListExperiencesCall string string
  | GetExperienceCall string | CreateExperienceCall "revision_input option"
  | CreateRevisionCall string "revision_input option" | SubmitRevisionCall string | UnpublishCall string
  | ReviewExperienceCall string "review_input option" | PostReactionCall string string bool
  | ExperienceReactionCall string string bool | AdminThreadsCall string string | AdminPostsCall string
  | LockThreadCall string | UnlockThreadCall string | ArchiveThreadCall string | DeleteThreadCall string
  | ArchivePostCall string | DeletePostCall string | ListApplicationsCall
  | CreateApplicationsCall "string list option" | CreateRequestTicketCall "(string \<times> string) option"
  | OpenTicketsCall | ReviewTicketCall string "review_input option"

fun forum_route :: "forum_handler \<Rightarrow> request \<Rightarrow> forum_call \<Rightarrow> forum_body reply forum_step" where
  "forum_route h rq ListSpacesCall = route_list_spaces h rq"
| "forum_route h rq (JoinSpaceCall raw) = route_join_space h rq raw"
| "forum_route h rq (LeaveSpaceCall raw) = route_leave_space h rq raw"
| "forum_route h rq (ListThreadsCall raw l token) = route_list_threads h rq raw l token"
| "forum_route h rq (CreateThreadCall raw body) = route_create_thread h rq raw body"
| "forum_route h rq (ListPostsCall raw l token) = route_list_posts h rq raw l token"
| "forum_route h rq (CreatePostCall raw body) = route_create_post h rq raw body"
| "forum_route h rq (ListExperiencesCall l token) = route_list_experiences h rq l token"
| "forum_route h rq (GetExperienceCall raw) = route_get_experience h rq raw"
| "forum_route h rq (CreateExperienceCall body) = route_create_experience h rq body"
| "forum_route h rq (CreateRevisionCall raw body) = route_create_revision h rq raw body"
| "forum_route h rq (SubmitRevisionCall raw) = route_submit_revision h rq raw"
| "forum_route h rq (UnpublishCall raw) = route_unpublish h rq raw"
| "forum_route h rq (ReviewExperienceCall raw body) = route_review_experience h rq raw body"
| "forum_route h rq (PostReactionCall raw emoji add) = reaction_op h rq ''forum_post'' raw emoji add"
| "forum_route h rq (ExperienceReactionCall raw emoji add) = reaction_op h rq ''experience'' raw emoji add"
| "forum_route h rq (AdminThreadsCall l token) = route_admin_threads h rq l token"
| "forum_route h rq (AdminPostsCall raw) = route_admin_posts h rq raw"
| "forum_route h rq (LockThreadCall raw) = route_thread_status h rq raw ''locked''"
| "forum_route h rq (UnlockThreadCall raw) = route_thread_status h rq raw ''published''"
| "forum_route h rq (ArchiveThreadCall raw) = route_thread_status h rq raw ''archived''"
| "forum_route h rq (DeleteThreadCall raw) = route_thread_status h rq raw ''removed''"
| "forum_route h rq (ArchivePostCall raw) = route_archive_post h rq raw"
| "forum_route h rq (DeletePostCall raw) = route_delete_post h rq raw"
| "forum_route h rq ListApplicationsCall = route_list_applications h rq"
| "forum_route h rq (CreateApplicationsCall body) = route_create_applications h rq body"
| "forum_route h rq (CreateRequestTicketCall body) = route_create_ticket h rq body"
| "forum_route h rq OpenTicketsCall = route_open_tickets h rq"
| "forum_route h rq (ReviewTicketCall raw body) = route_review_ticket h rq raw body"

end
