(* ===== verification/ForumInvariants.thy ===== *)
theory ForumInvariants imports ForumHandler begin

text \<open>
  The invariants of forum, experiences and applications, kept by every request: what is public has
  been approved and its approval is on record; whoever wrote in a space had a confirmed application
  for its scope; a confirmed application has its two spaces.
\<close>

section \<open>Experiences\<close>

definition keys_ok :: "db \<times> forum_tables \<Rightarrow> bool" where
  "keys_ok x \<longleftrightarrow> new_keys (next_id (fst x)) xr_id (f_revisions (snd x))
     \<and> new_keys (next_id (fst x)) xp_id (f_experiences (snd x))"

definition approved_in :: "forum_tables \<Rightarrow> uuid \<Rightarrow> uuid \<Rightarrow> bool" where
  "approved_in t e i \<longleftrightarrow> (\<exists>r \<in> set (f_revisions t). xr_id r = i \<and> xr_experience r = e \<and> xr_status r = ''approved'')"

definition public_ok :: "forum_tables \<Rightarrow> bool" where
  "public_ok t \<longleftrightarrow> (\<forall>e \<in> set (f_experiences t).
     (xp_visibility e = ''published'' \<longrightarrow> xp_public e \<noteq> None)
     \<and> (\<forall>i. xp_public e = Some i \<longrightarrow> approved_in t (xp_id e) i))"

definition approval_logged :: "forum_tables \<Rightarrow> revision_row \<Rightarrow> bool" where
  "approval_logged t r \<longleftrightarrow> (\<exists>v \<in> set (f_events t). xe_revision v = xr_id r \<and> xe_action v = ''approved''
     \<and> xe_from v = Some ''pending_review'' \<and> xr_reviewer r = Some (xe_actor v))"

definition approvals_ok :: "forum_tables \<Rightarrow> bool" where
  "approvals_ok t \<longleftrightarrow> (\<forall>r \<in> set (f_revisions t). xr_status r = ''approved'' \<longrightarrow> approval_logged t r)"

definition reviewed :: "db \<times> forum_tables \<Rightarrow> bool" where
  "reviewed x \<longleftrightarrow> keys_ok x \<and> public_ok (snd x) \<and> approvals_ok (snd x)"

lemma reviewed_cong:
  assumes "reviewed (d, t)" "next_id d \<le> next_id d'" "f_revisions t' = f_revisions t"
    "f_experiences t' = f_experiences t" "set (f_events t) \<subseteq> set (f_events t')"
  shows "reviewed (d', t')"
  using assms unfolding reviewed_def keys_ok_def public_ok_def approvals_ok_def approved_in_def approval_logged_def
  by (auto intro: new_keys_mono) blast

text \<open>A revision that is not approved may be rewritten as long as it does not become so.\<close>

lemma reviewed_update_revision:
  assumes ok: "reviewed (d, t)" and r: "find_revision t i = Some r" "xr_status r \<noteq> ''approved''"
    and f: "\<And>x. xr_id (f x) = xr_id x" "\<And>x. xr_status (f x) \<noteq> ''approved''"
  shows "reviewed (d, update_revision i f t)"
proof -
  from r(1) have rin: "r \<in> set (f_revisions t)" "xr_id r = i" unfolding find_revision_def by (auto dest: find_Some_D)
  have d: "distinct (map xr_id (f_revisions t))" using ok by (simp add: reviewed_def keys_ok_def new_keys_def)
  have only: "x = r" if "x \<in> set (f_revisions t)" "xr_id x = i" for x
    using distinct_key_eq[OF d that(1) rin(1)] that(2) rin(2) by simp
  have ap: "approved_in (update_revision i f t) e k" if "approved_in t e k" for e k
  proof -
    from that obtain x where x: "x \<in> set (f_revisions t)" "xr_id x = k" "xr_experience x = e" "xr_status x = ''approved''"
      by (auto simp: approved_in_def)
    with only r(2) have "xr_id x \<noteq> i" by auto
    with x show ?thesis by (auto simp: approved_in_def update_revision_def bex_update_where intro!: bexI[of _ x])
  qed
  have lg: "approval_logged (update_revision i f t) x" if "x \<in> set (f_revisions (update_revision i f t))"
    "xr_status x = ''approved''" for x
    using that ok f(2) unfolding reviewed_def approvals_ok_def
    by (auto simp: update_revision_def approval_logged_def elim!: in_update_whereE)
  show ?thesis using ok ap lg
    by (auto simp: reviewed_def keys_ok_def public_ok_def approvals_ok_def update_revision_def new_keys_update f(1))
qed

lemma reviewed_new_revision:
  assumes "reviewed (d, t)" "xr_id r = next_id d" "xr_status r = ''draft''"
  shows "reviewed (draw_id d, t\<lparr>f_revisions := f_revisions t @ [r]\<rparr>)"
  using assms
  by (auto simp: reviewed_def keys_ok_def public_ok_def approvals_ok_def approved_in_def approval_logged_def draw_id_def
      intro: new_keys_append new_keys_mono)

lemma reviewed_new_experience:
  assumes "reviewed (d, t)" "xp_id e = next_id d" "xp_visibility e = ''hidden''" "xp_public e = None"
  shows "reviewed (draw_id d, t\<lparr>f_experiences := f_experiences t @ [e]\<rparr>)"
  using assms
  by (auto simp: reviewed_def keys_ok_def public_ok_def approvals_ok_def approved_in_def approval_logged_def draw_id_def
      intro: new_keys_append new_keys_mono)

lemma reviewed_unpublish:
  assumes "reviewed (d, t)"
  shows "reviewed (d, update_experience i (\<lambda>e. e\<lparr>xp_visibility := ''unpublished'', xp_updated := ts\<rparr>) t)"
  using assms
  by (auto simp: reviewed_def keys_ok_def public_ok_def approvals_ok_def approved_in_def approval_logged_def
      update_experience_def new_keys_update elim!: in_update_whereE)

lemma reviewed_event: "reviewed (d, t) \<Longrightarrow> reviewed (d, t\<lparr>f_events := f_events t @ [v]\<rparr>)"
  by (rule reviewed_cong) auto

lemma keeps_add_revision_event: "tables_keep reviewed (add_revision_event v)"
  unfolding add_revision_event_def by (intro keeps_intros keeps_stmt_add) (auto intro: reviewed_event)

lemma keeps_insert_revision: "tables_keep reviewed (insert_revision i version input)"
  unfolding insert_revision_def
  by (rule keeps_stmt_from) (auto simp: new_revision_def intro!: reviewed_new_revision)

lemma keeps_get_experience: "tables_keep P (get_experience viewer i)" "tables_keep P (get_latest_experience i)"
  unfolding get_experience_def get_latest_experience_def attach_experience_reactions_def load_reactions_def
  by (intro keeps_intros)+

lemma keeps_create_experience: "tables_keep reviewed (create_experience acc input)"
  unfolding create_experience_def
  by (intro keeps_intros keeps_insert_revision keeps_add_revision_event keeps_stmt_from)
    (auto intro!: reviewed_new_experience)

lemma keeps_create_revision: "tables_keep reviewed (create_revision acc i input)"
  unfolding create_revision_def
  by (intro keeps_intros keeps_insert_revision keeps_add_revision_event keeps_get_experience)

lemma keeps_unpublish: "tables_keep reviewed (unpublish_experience acc i)"
  unfolding unpublish_experience_def
  by (intro keeps_intros keeps_add_revision_event keeps_stmt_write reviewed_unpublish)

lemma add_revision_event_Inr:
  assumes "add_revision_event v s = (Inr u, s')"
  shows "tables s' = (fst (tables s), (snd (tables s))\<lparr>f_events := f_events (snd (tables s)) @ [v]\<rparr>)"
    "find_revision (snd (tables s)) (xe_revision v) \<noteq> None" "has_account (fst (tables s)) (xe_actor v)"
  using stmt_add_Inr[OF assms[unfolded add_revision_event_def map_errM_Inr_iff]]
  by (auto simp: case_prod_beta)

text \<open>What a submission and a review do to the rows when they succeed.\<close>

lemma submit_body_Inr:
  assumes "bindM (map_errM c (stmt_row (\<lambda>d t. owned_revision acc i t))) (\<lambda>(x, old).
       if old \<noteq> ''draft'' \<and> old \<noteq> ''rejected'' then fail CtInvalidStatus else
       bindM (map_errM ct_raw (stmt_write
         (update_revision i (\<lambda>r. r\<lparr>xr_status := ''pending_review'', xr_reason := None\<rparr>)) (\<lambda>_ _. ()))) (\<lambda>_.
       bindM (add_revision_event (v old)) (\<lambda>_. ret x))) s = (Inr y, s')"
  obtains r where "find_revision (snd (tables s)) i = Some r" "xr_status r \<in> {''draft'', ''rejected''}"
    "list_ex (\<lambda>e. xp_id e = xr_experience r \<and> xp_author e = acc) (f_experiences (snd (tables s)))"
    "y = xr_experience r"
    "tables s' = (fst (tables s), (let t = update_revision i (\<lambda>r. r\<lparr>xr_status := ''pending_review'', xr_reason := None\<rparr>)
        (snd (tables s)) in t\<lparr>f_events := f_events t @ [v (xr_status r)]\<rparr>))"
  using assms
proof (elim bind_rowE)
  fix z s1
  assume z: "owned_revision acc i (snd (tables s)) = Some z" "tables s1 = tables s"
    and run: "(case z of (x, old) \<Rightarrow> if old \<noteq> ''draft'' \<and> old \<noteq> ''rejected'' then fail CtInvalidStatus else
       bindM (map_errM ct_raw (stmt_write
         (update_revision i (\<lambda>r. r\<lparr>xr_status := ''pending_review'', xr_reason := None\<rparr>)) (\<lambda>_ _. ()))) (\<lambda>_.
       bindM (add_revision_event (v old)) (\<lambda>_. ret x))) s1 = (Inr y, s')"
  from z(1) obtain r where r: "find_revision (snd (tables s)) i = Some r" "z = (xr_experience r, xr_status r)"
    "list_ex (\<lambda>e. xp_id e = xr_experience r \<and> xp_author e = acc) (f_experiences (snd (tables s)))"
    by (auto simp: owned_revision_def split: option.splits if_splits)
  from run[unfolded r(2) prod.case] show thesis
  proof (elim if_failE bind_stmt_writeE bindM_InrE)
    fix s2 u s3
    assume "\<not> (xr_status r \<noteq> ''draft'' \<and> xr_status r \<noteq> ''rejected'')"
      and "tables s2 = (fst (tables s1), update_revision i (\<lambda>r. r\<lparr>xr_status := ''pending_review'', xr_reason := None\<rparr>) (snd (tables s1)))"
      and "add_revision_event (v (xr_status r)) s2 = (Inr u, s3)" and "ret (xr_experience r) s3 = (Inr y, s')"
    with r z(2) add_revision_event_Inr(1)[of "v (xr_status r)" s2 u s3] show thesis
      by (intro that[of r]) (auto simp: Let_def)
  qed
qed

lemma keeps_submit: "tables_keep reviewed (submit_revision acc i)"
proof -
  let ?f = "\<lambda>r. r\<lparr>xr_status := ''pending_review'', xr_reason := None\<rparr>"
  show ?thesis
    unfolding submit_revision_def
  proof (intro keeps_bindM keeps_get_experience keeps_in_tx_success)
    fix s y s'
    assume ok: "reviewed (tables s)"
      and run: "bindM (map_errM (\<lambda>e. if e = SNoRows then CtNotFound else CtSQL)
          (stmt_row (\<lambda>d t. owned_revision acc i t))) (\<lambda>(x, old).
       if old \<noteq> ''draft'' \<and> old \<noteq> ''rejected'' then fail CtInvalidStatus else
       bindM (map_errM ct_raw (stmt_write (update_revision i ?f) (\<lambda>_ _. ()))) (\<lambda>_.
       bindM (add_revision_event \<lparr>xe_revision = i, xe_actor = acc, xe_action = ''submitted'', xe_from = Some old,
         xe_to = ''pending_review'', xe_reason = ''-''\<rparr>) (\<lambda>_. ret x))) s = (Inr y, s')"
    from run show "reviewed (tables s')"
    proof (rule submit_body_Inr)
      fix r
      assume r: "find_revision (snd (tables s)) i = Some r" "xr_status r \<in> {''draft'', ''rejected''}"
        and t: "tables s' = (fst (tables s), (let t = update_revision i ?f (snd (tables s)) in
          t\<lparr>f_events := f_events t @ [\<lparr>xe_revision = i, xe_actor = acc, xe_action = ''submitted'',
            xe_from = Some (xr_status r), xe_to = ''pending_review'', xe_reason = ''-''\<rparr>]\<rparr>))"
      have "reviewed (fst (tables s), update_revision i ?f (snd (tables s)))"
        by (rule reviewed_update_revision[OF _ r(1)]) (use ok r(2) in auto)
      then show "reviewed (tables s')" unfolding t Let_def by (rule reviewed_event)
    qed
  qed
qed

definition reviewed_rows ::
  "uuid \<Rightarrow> uuid \<Rightarrow> review_input \<Rightarrow> time \<Rightarrow> uuid \<Rightarrow> forum_tables \<Rightarrow> forum_tables" where
  "reviewed_rows adm i input ts x t =
     (let t1 = update_revision i (decide_revision adm input ts) t;
          t2 = (if ri_approved input
                then update_experience x (\<lambda>e. e\<lparr>xp_public := Some i, xp_visibility := ''published'', xp_updated := ts\<rparr>) t1
                else t1);
          verdict = (if ri_approved input then ''approved'' else ''rejected'')
      in t2\<lparr>f_events := f_events t2 @ [\<lparr>xe_revision = i, xe_actor = adm, xe_action = verdict,
           xe_from = Some ''pending_review'', xe_to = verdict, xe_reason = ri_reason input\<rparr>]\<rparr>)"

lemma review_revision_rows_Inr:
  assumes "review_revision_rows adm i input s = (Inr x, s')"
  obtains r where "find_revision (snd (tables s)) i = Some r" "xr_status r = ''pending_review''"
    "x = xr_experience r" "has_account (fst (tables s)) adm"
    "tables s' = (fst (tables s), reviewed_rows adm i input (db_now (fst s)) x (snd (tables s)))"
proof -
  let ?ts = "db_now (fst s)" and ?verdict = "if ri_approved input then ''approved'' else ''rejected''"
  from assms show thesis
    unfolding review_revision_rows_def bindM_readM
  proof (elim in_tx_Inr)
    fix s1 s2
    assume s1: "tables s1 = tables s" and s2: "tables s' = tables s2"
      and run: "bindM (map_errM (\<lambda>e. if e = SNoRows then CtNotFound else CtSQL)
          (stmt_row (\<lambda>d t. map_option (\<lambda>r. (xr_experience r, xr_status r)) (find_revision t i)))) (\<lambda>(x, old).
        if old \<noteq> ''pending_review'' then fail CtInvalidStatus else
        bindM (map_errM ct_raw (stmt_add (\<lambda>_ _. pg_text (ri_reason input)) (\<lambda>_ _. True) (\<lambda>d t. has_account d adm)
          (\<lambda>(d, t). (d, update_revision i (decide_revision adm input ?ts) t)) (\<lambda>_ _. ()))) (\<lambda>_.
        bindM (if ri_approved input
               then map_errM ct_raw (stmt_write (update_experience x
                      (\<lambda>e. e\<lparr>xp_public := Some i, xp_visibility := ''published'', xp_updated := ?ts\<rparr>)) (\<lambda>_ _. ()))
               else ret ()) (\<lambda>_.
        bindM (add_revision_event \<lparr>xe_revision = i, xe_actor = adm, xe_action = ?verdict, xe_from = Some old,
          xe_to = ?verdict, xe_reason = ri_reason input\<rparr>) (\<lambda>_. ret x)))) s1 = (Inr x, s2)"
    from run show thesis
    proof (elim bind_rowE)
      fix z s3
      assume z: "map_option (\<lambda>r. (xr_experience r, xr_status r)) (find_revision (snd (tables s1)) i) = Some z"
          "tables s3 = tables s1"
        and run: "(case z of (x, old) \<Rightarrow>
        if old \<noteq> ''pending_review'' then fail CtInvalidStatus else
        bindM (map_errM ct_raw (stmt_add (\<lambda>_ _. pg_text (ri_reason input)) (\<lambda>_ _. True) (\<lambda>d t. has_account d adm)
          (\<lambda>(d, t). (d, update_revision i (decide_revision adm input ?ts) t)) (\<lambda>_ _. ()))) (\<lambda>_.
        bindM (if ri_approved input
               then map_errM ct_raw (stmt_write (update_experience x
                      (\<lambda>e. e\<lparr>xp_public := Some i, xp_visibility := ''published'', xp_updated := ?ts\<rparr>)) (\<lambda>_ _. ()))
               else ret ()) (\<lambda>_.
        bindM (add_revision_event \<lparr>xe_revision = i, xe_actor = adm, xe_action = ?verdict, xe_from = Some old,
          xe_to = ?verdict, xe_reason = ri_reason input\<rparr>) (\<lambda>_. ret x)))) s3 = (Inr x, s2)"
      from z obtain r where r: "find_revision (snd (tables s)) i = Some r" "z = (xr_experience r, xr_status r)"
        unfolding s1 by blast
      from run[unfolded r(2) prod.case] show thesis
      proof (elim if_failE bindM_InrE)
        fix u4 s4 u5 s5 u6 s6
        assume pend: "\<not> xr_status r \<noteq> ''pending_review''"
          and a: "map_errM ct_raw (stmt_add (\<lambda>_ _. pg_text (ri_reason input)) (\<lambda>_ _. True) (\<lambda>d t. has_account d adm)
             (\<lambda>(d, t). (d, update_revision i (decide_revision adm input ?ts) t)) (\<lambda>_ _. ())) s3 = (Inr u4, s4)"
          and b: "(if ri_approved input
               then map_errM ct_raw (stmt_write (update_experience (xr_experience r)
                      (\<lambda>e. e\<lparr>xp_public := Some i, xp_visibility := ''published'', xp_updated := ?ts\<rparr>)) (\<lambda>_ _. ()))
               else ret ()) s4 = (Inr u5, s5)"
          and c: "add_revision_event \<lparr>xe_revision = i, xe_actor = adm, xe_action = ?verdict,
             xe_from = Some (xr_status r), xe_to = ?verdict, xe_reason = ri_reason input\<rparr> s5 = (Inr u6, s6)"
          and e: "ret (xr_experience r) s6 = (Inr x, s2)"
        from stmt_add_Inr[OF a[unfolded map_errM_Inr_iff]]
        have A: "has_account (fst (tables s)) adm"
          "tables s4 = (fst (tables s), update_revision i (decide_revision adm input ?ts) (snd (tables s)))"
          using s1 z(2) by (auto simp: case_prod_beta)
        from b have B: "tables s5 = (fst (tables s4), if ri_approved input
             then update_experience (xr_experience r)
                (\<lambda>e. e\<lparr>xp_public := Some i, xp_visibility := ''published'', xp_updated := ?ts\<rparr>) (snd (tables s4))
             else snd (tables s4))"
          by (cases "ri_approved input") (auto dest!: stmt_write_Inr)
        have "tables s' = (fst (tables s), reviewed_rows adm i input ?ts x (snd (tables s)))"
          using s2 e pend add_revision_event_Inr(1)[OF c] unfolding A(2) B
          by (simp add: reviewed_rows_def Let_def)
        with r(1) pend A(1) e that show thesis by simp
      qed
    qed
  qed
qed

lemma find_revision_unique:
  assumes "reviewed (d, t)" "find_revision t i = Some r"
  shows "r \<in> set (f_revisions t)" "xr_id r = i" "x \<in> set (f_revisions t) \<Longrightarrow> xr_id x = i \<Longrightarrow> x = r"
proof -
  show r: "r \<in> set (f_revisions t)" "xr_id r = i" using assms(2) unfolding find_revision_def by (auto dest: find_Some_D)
  have "distinct (map xr_id (f_revisions t))" using assms(1) by (simp add: reviewed_def keys_ok_def new_keys_def)
  from distinct_key_eq[OF this _ r(1)] r(2) show "x \<in> set (f_revisions t) \<Longrightarrow> xr_id x = i \<Longrightarrow> x = r" by simp
qed

lemma reviewed_decision:
  assumes ok: "reviewed (d, t)" and r: "find_revision t i = Some r" "xr_status r = ''pending_review''"
  shows "reviewed (d, reviewed_rows adm i input ts (xr_experience r) t)"
proof (cases "ri_approved input")
  case False
  have "reviewed (d, update_revision i (decide_revision adm input ts) t)"
    by (rule reviewed_update_revision[OF ok r(1)]) (simp_all add: r(2) decide_revision_def False)
  with False show ?thesis by (simp add: reviewed_rows_def Let_def reviewed_event)
next
  case True
  note u = find_revision_unique[OF ok r(1)]
  let ?t = "reviewed_rows adm i input ts (xr_experience r) t"
  have revs: "f_revisions ?t = update_where (\<lambda>x. xr_id x = i) (decide_revision adm input ts) (f_revisions t)"
    by (simp add: reviewed_rows_def Let_def True update_revision_def update_experience_def)
  have exps: "f_experiences ?t = update_where (\<lambda>e. xp_id e = xr_experience r)
      (\<lambda>e. e\<lparr>xp_public := Some i, xp_visibility := ''published'', xp_updated := ts\<rparr>) (f_experiences t)"
    by (simp add: reviewed_rows_def Let_def True update_revision_def update_experience_def)
  have evs: "f_events ?t = f_events t @ [\<lparr>xe_revision = i, xe_actor = adm, xe_action = ''approved'',
      xe_from = Some ''pending_review'', xe_to = ''approved'', xe_reason = ri_reason input\<rparr>]"
    by (simp add: reviewed_rows_def Let_def True update_revision_def update_experience_def)
  have new: "approved_in ?t (xr_experience r) i"
    using u(1,2) by (auto simp: approved_in_def revs bex_update_where decide_revision_def True intro!: bexI[of _ r])
  have old: "approved_in ?t e k" if "approved_in t e k" for e k
    using that u(3) r(2) by (auto simp: approved_in_def revs bex_update_where decide_revision_def True)
  have lg: "approval_logged ?t x" if x: "x \<in> set (f_revisions ?t)" "xr_status x = ''approved''" for x
    using x(1) unfolding revs
  proof (cases rule: in_update_whereE)
    case 1
    then have "approval_logged t x" using ok x(2) by (auto simp: reviewed_def approvals_ok_def)
    then show ?thesis by (auto simp: approval_logged_def evs)
  next
    case (2 r0)
    then show ?thesis by (auto simp: approval_logged_def evs decide_revision_def)
  qed
  show ?thesis unfolding reviewed_def keys_ok_def public_ok_def approvals_ok_def fst_conv snd_conv
  proof (intro conjI ballI impI allI)
    show "new_keys (next_id d) xr_id (f_revisions ?t)" "new_keys (next_id d) xp_id (f_experiences ?t)"
      using ok unfolding revs exps
      by (simp_all add: reviewed_def keys_ok_def new_keys_update decide_revision_def)
  next
    fix e assume "e \<in> set (f_experiences ?t)" "xp_visibility e = ''published''"
    then show "xp_public e \<noteq> None" using ok unfolding exps
      by (auto simp: reviewed_def public_ok_def elim!: in_update_whereE)
  next
    fix e k assume "e \<in> set (f_experiences ?t)" "xp_public e = Some k"
    then show "approved_in ?t (xp_id e) k" using ok new old unfolding exps
      by (auto simp: reviewed_def public_ok_def elim!: in_update_whereE)
  qed (rule lg)
qed

lemma keeps_review: "tables_keep reviewed (review_experience adm i input)"
proof -
  have "tables_keep reviewed (review_revision_rows adm i input)"
  proof (rule keepsI)
    fix s z s' assume ok: "reviewed (tables s)" and run: "review_revision_rows adm i input s = (z, s')"
    show "reviewed (tables s')"
    proof (cases z)
      case (Inl e)
      with run ok show ?thesis by (auto simp: review_revision_rows_def dest: in_tx_Inl)
    next
      case (Inr x)
      from run[unfolded Inr] show ?thesis
      proof (rule review_revision_rows_Inr)
        fix r
        assume r: "find_revision (snd (tables s)) i = Some r" "xr_status r = ''pending_review''" "x = xr_experience r"
          and t: "tables s' = (fst (tables s), reviewed_rows adm i input (db_now (fst s)) x (snd (tables s)))"
        have "reviewed (fst (tables s), snd (tables s))" using ok by simp
        from reviewed_decision[OF this r(1,2)] show ?thesis unfolding t r(3) .
      qed
    qed
  qed
  then show ?thesis unfolding review_experience_def forum_is_admin_def
    by (intro keeps_intros keeps_get_experience)
qed

section \<open>Forum and applications\<close>

definition confirmed_for :: "uuid \<Rightarrow> space_row \<Rightarrow> application_row \<Rightarrow> bool" where
  "confirmed_for acc f a \<longleftrightarrow> ap_account a = acc \<and> ap_status a = ''confirmed'' \<and> Some (ap_year a) = sp_year f
     \<and> (sp_type f = ''annual'' \<or> Some (ap_school a) = sp_school f \<and> Some (ap_program a) = sp_program f)"

definition entitled :: "forum_tables \<Rightarrow> uuid \<Rightarrow> space_row \<Rightarrow> bool" where
  "entitled t acc f \<longleftrightarrow> sp_type f = ''global''
     \<or> sp_type f \<in> {''annual'', ''school_program''} \<and> (\<exists>a \<in> set (f_applications t). confirmed_for acc f a)"

definition writes_in :: "forum_tables \<Rightarrow> uuid \<Rightarrow> uuid \<Rightarrow> bool" where
  "writes_in t acc i \<longleftrightarrow> (\<exists>f \<in> set (f_spaces t). sp_id f = i \<and> entitled t acc f)"

definition authors_ok :: "forum_tables \<Rightarrow> bool" where
  "authors_ok t \<longleftrightarrow> (\<forall>r \<in> set (f_threads t). writes_in t (th_account r) (th_space r))
     \<and> (\<forall>p \<in> set (f_posts t). \<exists>r \<in> set (f_threads t). th_id r = po_thread p \<and> writes_in t (po_account p) (th_space r))"

definition has_space :: "forum_tables \<Rightarrow> string \<Rightarrow> int \<Rightarrow> string option \<Rightarrow> string option \<Rightarrow> bool" where
  "has_space t ty y s p \<longleftrightarrow> (\<exists>f \<in> set (f_spaces t). sp_type f = ty \<and> sp_year f = Some y \<and> sp_school f = s
     \<and> sp_program f = p \<and> sp_active f)"

definition spaces_ok :: "forum_tables \<Rightarrow> bool" where
  "spaces_ok t \<longleftrightarrow> (\<forall>f \<in> set (f_spaces t). sp_active f)
     \<and> (\<forall>a \<in> set (f_applications t). ap_status a = ''confirmed'' \<longrightarrow>
          has_space t ''annual'' (ap_year a) None None
          \<and> has_space t ''school_program'' (ap_year a) (Some (ap_school a)) (Some (ap_program a)))"

definition reactions_ok :: "forum_tables \<Rightarrow> bool" where
  "reactions_ok t \<longleftrightarrow> distinct (f_reactions t)
     \<and> (\<forall>x \<in> set (f_reactions t). case target_exists (rx_type x) of None \<Rightarrow> False | Some there \<Rightarrow> there t (rx_target x))"

definition placed :: "db \<times> forum_tables \<Rightarrow> bool" where
  "placed x \<longleftrightarrow> new_keys (next_id (fst x)) sp_id (f_spaces (snd x)) \<and> new_keys (next_id (fst x)) th_id (f_threads (snd x))
     \<and> new_keys (next_id (fst x)) ap_id (f_applications (snd x)) \<and> authors_ok (snd x) \<and> spaces_ok (snd x) \<and> reactions_ok (snd x)"

lemma may_post_entitled: "may_post d t acc f \<Longrightarrow> entitled t acc f"
  by (auto simp: may_post_def entitled_def confirmed_for_def annual_student_def program_applicant_def list_ex_iff)

lemma entitled_mono: "entitled t acc f \<Longrightarrow> set (f_applications t) \<subseteq> set (f_applications t') \<Longrightarrow> entitled t' acc f"
  by (auto simp: entitled_def)

lemma writes_in_mono:
  "writes_in t acc i \<Longrightarrow> set (f_applications t) \<subseteq> set (f_applications t') \<Longrightarrow> set (f_spaces t) \<subseteq> set (f_spaces t')
     \<Longrightarrow> writes_in t' acc i"
  by (auto simp: writes_in_def intro: entitled_mono)

lemma target_mono:
  assumes "case target_exists ty of None \<Rightarrow> False | Some there \<Rightarrow> there t i"
    "po_id ` set (f_posts t) \<subseteq> po_id ` set (f_posts t')" "xp_id ` set (f_experiences t) \<subseteq> xp_id ` set (f_experiences t')"
  shows "case target_exists ty of None \<Rightarrow> False | Some there \<Rightarrow> there t' i"
  using assms by (fastforce simp: target_exists_def list_ex_iff split: if_splits)

lemma placed_cong:
  assumes "placed (d, t)" "next_id d \<le> next_id d'" "f_applications t' = f_applications t" "f_spaces t' = f_spaces t"
    "f_threads t' = f_threads t" "f_posts t' = f_posts t" "f_reactions t' = f_reactions t"
    "xp_id ` set (f_experiences t) \<subseteq> xp_id ` set (f_experiences t')"
  shows "placed (d', t')"
proof -
  have w: "writes_in t' = writes_in t" "has_space t' = has_space t"
    by (intro ext, simp add: writes_in_def entitled_def has_space_def assms)+
  have "\<forall>x \<in> set (f_reactions t'). case target_exists (rx_type x) of None \<Rightarrow> False | Some there \<Rightarrow> there t' (rx_target x)"
    using assms(1) target_mono[where t = t and t' = t'] assms(6-8)
    by (auto simp: placed_def reactions_ok_def)
  with assms(1-7) w show ?thesis
    by (auto simp: placed_def authors_ok_def spaces_ok_def reactions_ok_def intro: new_keys_mono)
qed

lemma placed_members: "placed (d, t) \<Longrightarrow> placed (d, t\<lparr>f_members := m\<rparr>)"
  by (erule placed_cong) simp_all

lemma placed_thread:
  assumes "placed (d, t)" "th_id r = next_id d" "writes_in t (th_account r) (th_space r)"
  shows "placed (draw_id d, t\<lparr>f_threads := f_threads t @ [r]\<rparr>)"
proof -
  let ?t = "t\<lparr>f_threads := f_threads t @ [r]\<rparr>"
  have w: "writes_in ?t = writes_in t" "has_space ?t = has_space t"
    by (intro ext, simp add: writes_in_def entitled_def has_space_def)+
  have "\<forall>x \<in> set (f_reactions t). case target_exists (rx_type x) of None \<Rightarrow> False | Some there \<Rightarrow> there ?t (rx_target x)"
    using assms(1) target_mono[where t = t and t' = ?t] by (auto simp: placed_def reactions_ok_def)
  with assms w show ?thesis
    by (auto simp: placed_def authors_ok_def spaces_ok_def reactions_ok_def draw_id_def intro: new_keys_append new_keys_mono)
qed

lemma placed_post:
  assumes "placed (d, t)" "\<exists>r \<in> set (f_threads t). th_id r = po_thread p \<and> writes_in t (po_account p) (th_space r)"
  shows "placed (add_post p (d, t))"
proof -
  let ?t = "t\<lparr>f_posts := f_posts t @ [p]\<rparr>"
  have w: "writes_in ?t = writes_in t" "has_space ?t = has_space t"
    by (intro ext, simp add: writes_in_def entitled_def has_space_def)+
  have "\<forall>x \<in> set (f_reactions t). case target_exists (rx_type x) of None \<Rightarrow> False | Some there \<Rightarrow> there ?t (rx_target x)"
    using assms(1) target_mono[where t = t and t' = ?t] by (auto simp: placed_def reactions_ok_def)
  with assms w show ?thesis
    by (auto simp: placed_def authors_ok_def spaces_ok_def reactions_ok_def draw_id_def add_post_def intro: new_keys_mono)
qed

lemma placed_status:
  assumes "placed (d, t)"
  shows "placed (d, t\<lparr>f_threads := update_where q (\<lambda>r. r\<lparr>th_status := st, th_updated := ts\<rparr>) (f_threads t)\<rparr>)"
    "placed (d, t\<lparr>f_posts := update_where q' (\<lambda>p. p\<lparr>po_status := st\<rparr>) (f_posts t)\<rparr>)"
proof -
  let ?t = "t\<lparr>f_threads := update_where q (\<lambda>r. r\<lparr>th_status := st, th_updated := ts\<rparr>) (f_threads t)\<rparr>"
  let ?u = "t\<lparr>f_posts := update_where q' (\<lambda>p. p\<lparr>po_status := st\<rparr>) (f_posts t)\<rparr>"
  have w: "writes_in ?t = writes_in t" "has_space ?t = has_space t" "writes_in ?u = writes_in t" "has_space ?u = has_space t"
    by (intro ext, simp add: writes_in_def entitled_def has_space_def)+
  have "map po_id (f_posts ?u) = map po_id (f_posts t)" by (simp add: map_update_where)
  then have p: "po_id ` set (f_posts t) \<subseteq> po_id ` set (f_posts ?u)" by (metis list.set_map order_refl)
  have "\<forall>x \<in> set (f_reactions t). case target_exists (rx_type x) of None \<Rightarrow> False | Some there \<Rightarrow> there ?t (rx_target x)"
    using assms target_mono[where t = t and t' = ?t] by (auto simp: placed_def reactions_ok_def)
  with assms w(1,2) show "placed (d, ?t)"
    by (auto simp: placed_def authors_ok_def spaces_ok_def reactions_ok_def ball_update_where bex_update_where new_keys_update)
  have "\<forall>x \<in> set (f_reactions t). case target_exists (rx_type x) of None \<Rightarrow> False | Some there \<Rightarrow> there ?u (rx_target x)"
    using assms target_mono[where t = t and t' = ?u] p by (auto simp: placed_def reactions_ok_def)
  with assms w(3,4) show "placed (d, ?u)"
    by (auto simp: placed_def authors_ok_def spaces_ok_def reactions_ok_def ball_update_where new_keys_update)
qed

lemma placed_space:
  assumes "placed (d, t)" "sp_id f = next_id d" "sp_active f"
  shows "placed (draw_id d, t\<lparr>f_spaces := f_spaces t @ [f]\<rparr>)"
proof -
  let ?t = "t\<lparr>f_spaces := f_spaces t @ [f]\<rparr>"
  have w: "writes_in t acc i \<Longrightarrow> writes_in ?t acc i" "has_space t ty y s p \<Longrightarrow> has_space ?t ty y s p" for acc i ty y s p
    by (auto simp: writes_in_def entitled_def has_space_def)
  have "\<forall>x \<in> set (f_reactions t). case target_exists (rx_type x) of None \<Rightarrow> False | Some there \<Rightarrow> there ?t (rx_target x)"
    using assms(1) target_mono[where t = t and t' = ?t] by (auto simp: placed_def reactions_ok_def)
  moreover have "authors_ok ?t"
    using assms(1) w(1) unfolding placed_def authors_ok_def by fastforce
  moreover have "spaces_ok ?t"
    using assms(1,3) w(2) unfolding placed_def spaces_ok_def by auto
  ultimately show ?thesis using assms(1,2)
    by (auto simp: placed_def reactions_ok_def draw_id_def intro: new_keys_append new_keys_mono)
qed

section \<open>The operations keep the placement\<close>

lemma placed_reactions:
  assumes "placed (d, t)" "distinct rs"
    "\<forall>x \<in> set rs. case target_exists (rx_type x) of None \<Rightarrow> False | Some there \<Rightarrow> there t (rx_target x)"
  shows "placed (d, t\<lparr>f_reactions := rs\<rparr>)"
proof -
  let ?t = "t\<lparr>f_reactions := rs\<rparr>"
  have w: "writes_in ?t = writes_in t" "has_space ?t = has_space t"
    by (intro ext, simp add: writes_in_def entitled_def has_space_def)+
  have "\<forall>x \<in> set rs. case target_exists (rx_type x) of None \<Rightarrow> False | Some there \<Rightarrow> there ?t (rx_target x)"
    using assms(3) target_mono[where t = t and t' = ?t] by auto
  with assms(1,2) w show ?thesis by (auto simp: placed_def reactions_ok_def authors_ok_def spaces_ok_def)
qed

lemma keeps_placed_reactions: "tables_keep placed (set_reaction ty i acc e)" "tables_keep placed (remove_reaction ty i acc e)"
proof -
  have ins: "tables_keep placed (insert_reaction there r)" if there: "target_exists (rx_type r) = Some there" for there r
    unfolding insert_reaction_def
  proof (rule keeps_stmt)
    fix x assume ok: "placed x"
    obtain d t where x: "x = (d, t)" by (cases x)
    have "placed (d, t\<lparr>f_reactions := f_reactions t @ [r]\<rparr>)" if "there t (rx_target r)" "r \<notin> set (f_reactions t)"
      using ok that there unfolding x by (intro placed_reactions) (auto simp: placed_def reactions_ok_def)
    with ok show "placed (snd (case x of (d, t) \<Rightarrow>
       if \<not> there t (rx_target r) then (Inr 0, (d, t))
       else if \<not> reaction_chk r then (Inl SCheck, (d, t))
       else if r \<in> set (f_reactions t) then (Inr 0, (d, t))
       else if \<not> has_account d (rx_account r) then (Inl SForeign, (d, t))
       else (Inr 1, (d, t\<lparr>f_reactions := f_reactions t @ [r]\<rparr>))))"
      unfolding x by simp
  qed
  show "tables_keep placed (set_reaction ty i acc e)"
    unfolding set_reaction_def by (intro keeps_intros ins) simp
  show "tables_keep placed (remove_reaction ty i acc e)"
    unfolding remove_reaction_def
    by (intro keeps_intros keeps_stmt_write placed_reactions) (auto simp: placed_def reactions_ok_def)
qed

lemma create_thread_Inr:
  assumes "create_thread acc i title content s = (Inr (th, po), s')"
  obtains r p d where "new_thread acc i title (db_now (fst s)) (fst (tables s)) (snd (tables s)) = Some r"
    "p = new_post acc (th_id r) content None (db_now (fst s)) (draw_id (fst (tables s)))"
    "th = forum_thread_of r" "po = forum_post_of p" "text_chk title" "text_chk content"
    "tables s' = (draw_id (draw_id (fst (tables s))),
       (snd (tables s))\<lparr>f_threads := f_threads (snd (tables s)) @ [r], f_posts := f_posts (snd (tables s)) @ [p]\<rparr>)"
  using assms unfolding create_thread_def bindM_readM
proof (elim in_tx_Inr bind_fromE)
  fix s1 s2 r s3 p s4
  assume "tables s1 = tables s" "tables s' = tables s2"
    "new_thread acc i title (db_now (fst s)) (fst (tables s1)) (snd (tables s1)) = Some r" "text_chk (th_title r)"
    "tables s3 = (case tables s1 of (d, t) \<Rightarrow> (draw_id d, t\<lparr>f_threads := f_threads t @ [r]\<rparr>))"
    "Some (new_post acc (th_id r) content None (db_now (fst s)) (fst (tables s3))) = Some p" "text_chk (po_body p)"
    "tables s4 = add_post p (tables s3)" "ret (forum_thread_of r, forum_post_of p) s4 = (Inr (th, po), s2)"
  then show thesis
    by (intro that[of r p]) (auto simp: new_thread_def new_post_def add_post_def case_prod_beta split: if_splits)
qed

lemma keeps_placed_create_thread: "tables_keep placed (create_thread acc i title content)"
proof (rule keepsI)
  fix s x s' assume ok: "placed (tables s)" and run: "create_thread acc i title content s = (x, s')"
  show "placed (tables s')"
  proof (cases x)
    case (Inl e)
    with run ok show ?thesis by (auto simp: create_thread_def dest: in_tx_Inl)
  next
    case (Inr y)
    obtain th po where y: "y = (th, po)" by (cases y)
    let ?t = "snd (tables s)" and ?d = "fst (tables s)"
    from run[unfolded Inr y] show ?thesis
    proof (rule create_thread_Inr)
      fix r p
      assume r: "new_thread acc i title (db_now (fst s)) ?d ?t = Some r"
        and p: "p = new_post acc (th_id r) content None (db_now (fst s)) (draw_id ?d)"
        and t: "tables s' = (draw_id (draw_id ?d), ?t\<lparr>f_threads := f_threads ?t @ [r], f_posts := f_posts ?t @ [p]\<rparr>)"
      from r have R: "th_id r = next_id ?d" "writes_in ?t (th_account r) (th_space r)" "th_account r = acc"
        by (auto simp: new_thread_def split: if_splits)
          (auto simp: writes_in_def list_ex_iff intro!: bexI dest: may_post_entitled)
      have "placed (?d, ?t)" using ok by simp
      from placed_thread[OF this R(1,2)] have ok1: "placed (draw_id ?d, ?t\<lparr>f_threads := f_threads ?t @ [r]\<rparr>)" .
      have "placed (add_post p (draw_id ?d, ?t\<lparr>f_threads := f_threads ?t @ [r]\<rparr>))"
        by (rule placed_post[OF ok1])
          (use R in \<open>auto simp: p new_post_def writes_in_def entitled_def intro!: bexI[of _ r]\<close>)
      then show ?thesis unfolding t by (simp add: add_post_def)
    qed
  qed
qed

lemma keeps_placed_create_post: "tables_keep placed (create_post acc i content quote)"
  unfolding create_post_def
proof (intro keeps_intros keeps_stmt_from)
  fix ts d t p
  assume ok: "placed (d, t)" and p: "(if open_thread acc i d t \<and> quotable quote t
      then Some (new_post acc i content quote ts d) else None) = Some p"
  from p have "\<exists>r \<in> set (f_threads t). th_id r = po_thread p \<and> writes_in t (po_account p) (th_space r)"
    by (fastforce simp: open_thread_def new_post_def list_ex_iff writes_in_def dest: may_post_entitled split: if_splits)
  then show "placed (add_post p (d, t))" by (rule placed_post[OF ok])
qed

lemma keeps_placed_status: "tables_keep placed (set_thread_status i st)" "tables_keep placed (set_post_status i st)"
  unfolding set_thread_status_def set_post_status_def
  by (intro keeps_intros keeps_stmt_write placed_status; assumption)+

lemma keeps_placed_members: "tables_keep placed (join_space acc i)" "tables_keep placed (leave_space acc i)"
  unfolding join_space_def leave_space_def upsert_member_def
  by (intro keeps_intros keeps_stmt_write keeps_stmt_from; simp add: placed_members)+

section \<open>Applications keep the placement\<close>

definition ensured :: "(db \<Rightarrow> space_row) \<Rightarrow> db \<times> forum_tables \<Rightarrow> db \<times> forum_tables" where
  "ensured f x = (if list_ex (same_scope (f (fst x))) (f_spaces (snd x)) then x
     else (draw_id (fst x), (snd x)\<lparr>f_spaces := f_spaces (snd x) @ [f (fst x)]\<rparr>))"

lemma ensure_space_Inr: "ensure_space f s = (Inr u, s') \<Longrightarrow> tables s' = ensured f (tables s)"
  unfolding ensure_space_def
  by (drule stmt_Inr) (auto simp: ensured_def case_prod_beta split: if_splits)

lemma ensured_applications:
  "ensured f (d, t\<lparr>f_applications := as\<rparr>)
     = (fst (ensured f (d, t)), (snd (ensured f (d, t)))\<lparr>f_applications := as\<rparr>)"
  by (simp add: ensured_def)

lemma ensured_same: "f_applications (snd (ensured f x)) = f_applications (snd x)" "accounts (fst (ensured f x)) = accounts (fst x)"
  "f_programs (snd (ensured f x)) = f_programs (snd x)"
  by (simp_all add: ensured_def draw_id_def)

lemma placed_ensured:
  assumes "placed x" "\<And>d. sp_id (f d) = next_id d" "\<And>d. sp_active (f d)"
  shows "placed (ensured f x)"
  using assms placed_space[of "fst x" "snd x" "f (fst x)"] by (simp add: ensured_def)

lemma ensured_has_space:
  assumes "placed x" "sp_type (f (fst x)) = ty" "sp_year (f (fst x)) = Some y" "sp_school (f (fst x)) = s"
    "sp_program (f (fst x)) = p" "\<And>d. sp_active (f d)"
  shows "has_space (snd (ensured f x)) ty y s p"
proof (cases "list_ex (same_scope (f (fst x))) (f_spaces (snd x))")
  case True
  then obtain g where "g \<in> set (f_spaces (snd x))" "same_scope (f (fst x)) g" by (auto simp: list_ex_iff)
  with assms True show ?thesis
    by (auto simp: ensured_def has_space_def same_scope_def placed_def spaces_ok_def intro!: bexI[of _ g])
next
  case False
  with assms show ?thesis by (auto simp: ensured_def has_space_def)
qed

lemma has_space_ensured: "has_space (snd x) ty y s p \<Longrightarrow> has_space (snd (ensured f x)) ty y s p"
  by (auto simp: ensured_def has_space_def)

lemma placed_application:
  assumes "placed (d, t)" "new_keys (next_id d) ap_id (f_applications t @ [a])" "has_space t ''annual'' (ap_year a) None None"
    "has_space t ''school_program'' (ap_year a) (Some (ap_school a)) (Some (ap_program a))"
  shows "placed (d, t\<lparr>f_applications := f_applications t @ [a]\<rparr>)"
proof -
  let ?t = "t\<lparr>f_applications := f_applications t @ [a]\<rparr>"
  have w: "writes_in t acc i \<Longrightarrow> writes_in ?t acc i" for acc i
    by (erule writes_in_mono) auto
  have h: "has_space ?t = has_space t" by (intro ext) (simp add: has_space_def)
  have "\<forall>x \<in> set (f_reactions t). case target_exists (rx_type x) of None \<Rightarrow> False | Some there \<Rightarrow> there ?t (rx_target x)"
    using assms(1) target_mono[where t = t and t' = ?t] by (auto simp: placed_def reactions_ok_def)
  moreover have "authors_ok ?t" using assms(1) w unfolding placed_def authors_ok_def by fastforce
  moreover have "spaces_ok ?t" using assms h unfolding placed_def spaces_ok_def by auto
  ultimately show ?thesis using assms(1,2) by (auto simp: placed_def reactions_ok_def)
qed

text \<open>A confirmed application with its two spaces.\<close>

lemma confirm_one_Inr:
  assumes ok: "placed (tables st)" and run: "confirm_one acc ts y s p st = (Inr a, st')"
  obtains r where "new_application acc y s p ts (fst (tables st)) (snd (tables st)) = Some r"
    "\<not> list_ex (same_application r) (f_applications (snd (tables st)))"
    "an_year a = y" "an_school a = s" "an_program a = p"
    "tables st' = ensured (program_space a) (ensured (annual_space a)
       (draw_id (fst (tables st)), (snd (tables st))\<lparr>f_applications := f_applications (snd (tables st)) @ [r]\<rparr>))"
  using run unfolding confirm_one_def
proof (elim bindM_InrE)
  fix r s1 b s2 u s3
  let ?t = "snd (tables st)" and ?d = "fst (tables st)"
  assume ins: "map_errM ap_missing (insert_application acc y s p ts) st = (Inr r, s1)"
    and load: "load_application (ap_id r) s1 = (Inr b, s2)"
    and ens: "ensure_forum_spaces b s2 = (Inr u, s3)" and fin: "ret b s3 = (Inr a, st')"
  from stmt_from_Inr[OF ins[unfolded insert_application_def map_errM_Inr_iff]]
  have r: "new_application acc y s p ts ?d ?t = Some r" "\<not> list_ex (same_application r) (f_applications ?t)"
    "tables s1 = (draw_id ?d, ?t\<lparr>f_applications := f_applications ?t @ [r]\<rparr>)" by (auto simp: case_prod_beta)
  from load have L: "tables s2 = tables s1"
    "(case List.find (\<lambda>x. ap_id x = ap_id r) (f_applications (snd (tables s1))) of None \<Rightarrow> None
      | Some x \<Rightarrow> application_of (snd (tables s1)) x) = Some b"
    unfolding load_application_def by (auto dest!: stmt_row_Inr)
  from ens have E: "tables s3 = ensured (program_space b) (ensured (annual_space b) (tables s2))"
    unfolding ensure_forum_spaces_def by (auto dest!: ensure_space_Inr)
  have "ap_id r = next_id ?d" using r(1) by (auto simp: new_application_def split: option.splits if_splits)
  then have "List.find (\<lambda>x. ap_id x = ap_id r) (f_applications ?t) = None"
    using ok by (auto simp: find_None_iff placed_def new_keys_def list_all_iff)
  then have "List.find (\<lambda>x. ap_id x = ap_id r) (f_applications (snd (tables s1))) = Some r"
    unfolding r(3) by (simp add: find_append_None)
  with L(2) have "application_of (snd (tables s1)) r = Some b" by simp
  then have "an_year b = ap_year r" "an_school b = ap_school r" "an_program b = ap_program r"
    by (auto simp: application_of_def split: option.splits)
  moreover have "ap_year r = y" "ap_school r = s" "ap_program r = p"
    using r(1) by (auto simp: new_application_def find_program_def split: option.splits if_splits dest!: find_Some_D)
  ultimately show thesis using that[OF r(1,2)] E L(1) r(3) fin by simp
qed

lemma new_application_Some:
  assumes "new_application acc y s p ts d t = Some r"
  shows "ap_id r = next_id d" "ap_account r = acc" "ap_year r = y" "ap_school r = s" "ap_program r = p"
    "ap_status r = ''confirmed''" "active_student d acc"
  using assms by (auto simp: new_application_def find_program_def split: option.splits if_splits dest!: find_Some_D)

lemma placed_confirm_one:
  assumes ok: "placed (tables st)" and run: "confirm_one acc ts y s p st = (Inr a, st')"
  shows "placed (tables st')"
  using ok run
proof (rule confirm_one_Inr)
  fix r
  let ?d = "fst (tables st)" and ?t = "snd (tables st)"
  let ?e = "\<lambda>x. ensured (program_space a) (ensured (annual_space a) x)"
  assume r: "new_application acc y s p ts ?d ?t = Some r"
    and a: "an_year a = y" "an_school a = s" "an_program a = p"
    and t: "tables st' = ?e (draw_id ?d, ?t\<lparr>f_applications := f_applications ?t @ [r]\<rparr>)"
  note R = new_application_Some[OF r]
  have "placed (draw_id ?d, ?t)" by (rule placed_cong[of ?d ?t]) (use ok in \<open>simp_all add: draw_id_def\<close>)
  then have one: "placed (ensured (annual_space a) (draw_id ?d, ?t))"
    by (rule placed_ensured) (simp_all add: annual_space_def)
  then have two: "placed (?e (draw_id ?d, ?t))" by (rule placed_ensured) (simp_all add: program_space_def)
  have "has_space (snd (ensured (annual_space a) (draw_id ?d, ?t))) ''annual'' y None None"
    by (rule ensured_has_space[OF \<open>placed (draw_id ?d, ?t)\<close>]) (simp_all add: annual_space_def a)
  then have h1: "has_space (snd (?e (draw_id ?d, ?t))) ''annual'' y None None" by (rule has_space_ensured)
  have h2: "has_space (snd (?e (draw_id ?d, ?t))) ''school_program'' y (Some s) (Some p)"
    by (rule ensured_has_space[OF one]) (simp_all add: program_space_def a)
  define d2 where "d2 = fst (?e (draw_id ?d, ?t))"
  define t2 where "t2 = snd (?e (draw_id ?d, ?t))"
  have "next_id (draw_id ?d) \<le> next_id d2" "f_applications t2 = f_applications ?t"
    by (simp_all add: d2_def t2_def ensured_def draw_id_def)
  moreover have "new_keys (Suc (next_id ?d)) ap_id (f_applications ?t @ [r])"
    by (rule new_keys_append) (use ok R(1) in \<open>auto simp: placed_def\<close>)
  ultimately have keys: "new_keys (next_id d2) ap_id (f_applications t2 @ [r])"
    by (auto simp: draw_id_def intro: new_keys_mono)
  have "tables st' = (d2, t2\<lparr>f_applications := f_applications t2 @ [r]\<rparr>)"
    unfolding t d2_def t2_def by (simp add: ensured_def draw_id_def program_space_def annual_space_def)
  moreover have "placed (d2, t2\<lparr>f_applications := f_applications t2 @ [r]\<rparr>)"
    by (rule placed_application[OF _ keys]) (use two h1 h2 R in \<open>simp_all add: d2_def t2_def\<close>)
  ultimately show ?thesis by simp
qed

text \<open>Inside a transaction only the runs that succeed count.\<close>

definition on_success :: "(db \<times> 't \<Rightarrow> bool) \<Rightarrow> ('t state, 'e, 'a) op \<Rightarrow> bool" where
  "on_success P m \<longleftrightarrow> (\<forall>s x s'. P (tables s) \<longrightarrow> m s = (Inr x, s') \<longrightarrow> P (tables s'))"

lemma on_success_keeps: "tables_keep P m \<Longrightarrow> on_success P m"
  by (auto simp: on_success_def intro: keepsD[of "\<lambda>s. P (tables s)"])

lemma on_success_bind: "on_success P m \<Longrightarrow> (\<And>x. on_success P (f x)) \<Longrightarrow> on_success P (bindM m f)"
  unfolding on_success_def by (intro allI impI, elim bindM_InrE) blast

lemma on_success_if: "on_success P m \<Longrightarrow> on_success P n \<Longrightarrow> on_success P (if b then m else n)"
  by simp

lemma keeps_in_tx_on_success: "on_success P body \<Longrightarrow> tables_keep P (in_tx conv body)"
  by (rule keeps_in_tx_success) (auto simp: on_success_def)

lemma on_success_confirm_one: "on_success placed (confirm_one acc ts y s p)"
  by (auto simp: on_success_def intro: placed_confirm_one)

lemma on_success_ret: "on_success P (ret x)"
  by (simp add: on_success_def)

lemma on_success_confirm_all: "on_success placed (confirm_all acc ts ids)"
proof (induction ids)
  case Nil
  show ?case by (simp add: on_success_ret)
next
  case (Cons i ids)
  then show ?case unfolding confirm_all.simps by (intro on_success_bind on_success_confirm_one on_success_ret)
qed

lemma keeps_placed_create_confirmed: "tables_keep placed (create_confirmed acc ids)"
  unfolding create_confirmed_def
  by (intro keeps_bindM keeps_readM keeps_in_tx_on_success on_success_confirm_all)

lemma keeps_placed_tickets:
  "tables_keep placed (create_request_ticket acc i reason)" "tables_keep placed (list_by_account acc)"
  "tables_keep placed (list_open_request_tickets acc)" "tables_keep placed (applications_is_admin acc)"
  unfolding create_request_ticket_def list_by_account_def list_open_request_tickets_def applications_is_admin_def
  by (intro keeps_intros keeps_stmt_from; auto simp: draw_id_def elim!: placed_cong)+

lemma keeps_placed_review_ticket: "tables_keep placed (review_request_ticket en adm i input)"
  unfolding review_request_ticket_def Let_def applications_is_admin_def
  by (intro keeps_bindM keeps_map_errM keeps_stmt_read keeps_if keeps_fail keeps_readM keeps_in_tx_on_success
      on_success_bind on_success_if on_success_confirm_one on_success_keeps[OF keeps_fail]
      on_success_keeps[OF keeps_ret] on_success_keeps[OF keeps_map_errM[OF keeps_stmt_read(1)]]
      on_success_keeps[OF keeps_map_errM[OF keeps_stmt_add]])
    (auto elim!: placed_cong)

section \<open>Every other operation keeps the experiences, every experience operation the placement\<close>

lemma keeps_reviewed_forum:
  "tables_keep reviewed (join_space acc i)" "tables_keep reviewed (leave_space acc i)"
  "tables_keep reviewed (create_thread acc i title content)" "tables_keep reviewed (create_post acc i content quote)"
  "tables_keep reviewed (set_thread_status i st)" "tables_keep reviewed (set_post_status i st)"
  "tables_keep reviewed (remove_reaction ty i acc e)"
  unfolding join_space_def leave_space_def upsert_member_def create_thread_def create_post_def set_thread_status_def
    set_post_status_def remove_reaction_def
  by (intro keeps_intros keeps_stmt_write keeps_stmt_from;
      auto simp: draw_id_def add_post_def elim!: reviewed_cong)+

lemma keeps_reviewed_set_reaction: "tables_keep reviewed (set_reaction ty i acc e)"
  unfolding set_reaction_def insert_reaction_def
  by (intro keeps_intros keeps_stmt) (auto elim!: reviewed_cong)

lemma keeps_reviewed_confirm_one: "tables_keep reviewed (confirm_one acc ts y s p)"
  unfolding confirm_one_def insert_application_def load_application_def ensure_forum_spaces_def ensure_space_def
  by (intro keeps_intros keeps_stmt_from keeps_stmt) (auto simp: draw_id_def elim!: reviewed_cong)

lemma keeps_reviewed_applications:
  "tables_keep reviewed (create_confirmed acc ids)" "tables_keep reviewed (create_request_ticket acc pid reason)"
  "tables_keep reviewed (list_by_account acc)" "tables_keep reviewed (list_open_request_tickets acc)"
  "tables_keep reviewed (review_request_ticket en adm i input)"
proof -
  have all: "tables_keep reviewed (confirm_all acc ts ids)" for ts ids
    by (induction ids) (auto intro!: keeps_bindM keeps_ret keeps_reviewed_confirm_one)
  show "tables_keep reviewed (create_confirmed acc ids)"
    unfolding create_confirmed_def by (intro keeps_intros all)
  show "tables_keep reviewed (create_request_ticket acc pid reason)"
    unfolding create_request_ticket_def
    by (intro keeps_intros keeps_stmt_from) (auto simp: draw_id_def elim!: reviewed_cong)
  show "tables_keep reviewed (list_by_account acc)" "tables_keep reviewed (list_open_request_tickets acc)"
    unfolding list_by_account_def list_open_request_tickets_def applications_is_admin_def by (intro keeps_intros)+
  show "tables_keep reviewed (review_request_ticket en adm i input)"
    unfolding review_request_ticket_def applications_is_admin_def Let_def
    by (intro keeps_intros keeps_stmt_add keeps_reviewed_confirm_one) (auto elim!: reviewed_cong)
qed

lemma keeps_placed_events: "tables_keep placed (add_revision_event v)" "tables_keep placed (insert_revision x version input)"
  unfolding add_revision_event_def insert_revision_def
  by (intro keeps_intros keeps_stmt_add keeps_stmt_from; auto simp: draw_id_def elim!: placed_cong)+

lemma placed_update_experience: "placed (d, t) \<Longrightarrow> (\<And>e. xp_id (f e) = xp_id e) \<Longrightarrow> placed (d, update_experience i f t)"
proof (erule placed_cong)
  assume "\<And>e. xp_id (f e) = xp_id e"
  then have "map xp_id (f_experiences (update_experience i f t)) = map xp_id (f_experiences t)"
    by (simp add: update_experience_def map_update_where)
  then show "xp_id ` set (f_experiences t) \<subseteq> xp_id ` set (f_experiences (update_experience i f t))"
    by (metis list.set_map order_refl)
qed (simp_all add: update_experience_def)

lemma placed_update_revision: "placed (d, t) \<Longrightarrow> placed (d, update_revision i f t)"
  by (erule placed_cong) (simp_all add: update_revision_def)

lemma keeps_placed_experiences:
  "tables_keep placed (create_experience acc input)" "tables_keep placed (create_revision acc i input)"
  "tables_keep placed (submit_revision acc i)" "tables_keep placed (unpublish_experience acc i)"
  "tables_keep placed (review_experience adm i rinput)"
  unfolding create_experience_def create_revision_def submit_revision_def unpublish_experience_def
    review_experience_def review_revision_rows_def forum_is_admin_def
  by (intro keeps_intros keeps_placed_events keeps_get_experience keeps_stmt_write keeps_stmt_add keeps_stmt_from
      placed_update_experience placed_update_revision; auto simp: draw_id_def elim!: placed_cong
      intro!: placed_update_revision)+

section \<open>Requests\<close>

definition forum_ok :: "db \<times> forum_tables \<Rightarrow> bool" where
  "forum_ok x \<longleftrightarrow> reviewed x \<and> placed x"

lemma keeps_forum_ok: "tables_keep reviewed m \<Longrightarrow> tables_keep placed m \<Longrightarrow> tables_keep forum_ok m"
  by (simp add: keeps_def forum_ok_def)

lemma forum_ok_cong:
  assumes "forum_ok (d, t)" "next_id d \<le> next_id d'"
    "f_applications t' = f_applications t" "f_spaces t' = f_spaces t" "f_threads t' = f_threads t" "f_posts t' = f_posts t"
    "f_reactions t' = f_reactions t" "f_experiences t' = f_experiences t" "f_revisions t' = f_revisions t"
    "f_events t' = f_events t"
  shows "forum_ok (d', t')"
  unfolding forum_ok_def
proof
  show "reviewed (d', t')" by (rule reviewed_cong[of d t]) (use assms in \<open>simp_all add: forum_ok_def\<close>)
  show "placed (d', t')" by (rule placed_cong[of d t]) (use assms in \<open>simp_all add: forum_ok_def\<close>)
qed

interpretation forum_rows: steady forum_ok
  by unfold_locales (erule forum_ok_cong; simp)

lemmas forum_operations =
  keeps_forum_ok[OF keeps_reviewed_forum(1) keeps_placed_members(1)]
  keeps_forum_ok[OF keeps_reviewed_forum(2) keeps_placed_members(2)]
  keeps_forum_ok[OF keeps_reviewed_forum(3) keeps_placed_create_thread]
  keeps_forum_ok[OF keeps_reviewed_forum(4) keeps_placed_create_post]
  keeps_forum_ok[OF keeps_reviewed_forum(5) keeps_placed_status(1)]
  keeps_forum_ok[OF keeps_reviewed_forum(6) keeps_placed_status(2)]
  keeps_forum_ok[OF keeps_reviewed_forum(7) keeps_placed_reactions(2)]
  keeps_forum_ok[OF keeps_reviewed_set_reaction keeps_placed_reactions(1)]
  keeps_forum_ok[OF keeps_create_experience keeps_placed_experiences(1)]
  keeps_forum_ok[OF keeps_create_revision keeps_placed_experiences(2)]
  keeps_forum_ok[OF keeps_submit keeps_placed_experiences(3)]
  keeps_forum_ok[OF keeps_unpublish keeps_placed_experiences(4)]
  keeps_forum_ok[OF keeps_review keeps_placed_experiences(5)]
  keeps_forum_ok[OF keeps_reviewed_applications(1) keeps_placed_create_confirmed]
  keeps_forum_ok[OF keeps_reviewed_applications(2) keeps_placed_tickets(1)]
  keeps_forum_ok[OF keeps_reviewed_applications(5) keeps_placed_review_ticket]

lemma forum_reads:
  "tables_keep P (list_spaces viewer)" "tables_keep P (list_threads en j viewer i l after)"
  "tables_keep P (list_posts en j viewer i l after)" "tables_keep P (admin_list_threads en j l after)"
  "tables_keep P (admin_list_posts i)" "tables_keep P (list_published_experiences en j l after)"
  "tables_keep P (get_experience viewer i)" "tables_keep P (list_by_account acc)"
  "tables_keep P (list_open_request_tickets acc)" "tables_keep P (forum_is_admin acc)"
  unfolding list_spaces_def list_threads_def list_posts_def admin_list_threads_def admin_list_posts_def
    list_published_experiences_def list_by_account_def list_open_request_tickets_def applications_is_admin_def
    forum_is_admin_def attach_post_reactions_def attach_experience_reactions_def load_reactions_def get_experience_def Let_def
  by (intro keeps_intros)+

lemma calm_viewer: "keeps (calm_rows s0) (viewer_step h rq)"
  unfolding viewer_step_def by (intro keeps_intros calm_core calm_authenticate)

lemma calm_identity: "keeps (calm_rows s0) (require_identity h rq reads senior)"
  unfolding require_identity_def Let_def by (intro keeps_intros calm_core calm_authenticate)

lemma forum_guards:
  "tables_keep forum_ok (viewer_step h rq)" "tables_keep forum_ok (content_require_mutation h rq)"
  "tables_keep forum_ok (require_verified_identity h rq)" "tables_keep forum_ok (content_require_admin h rq)"
  "tables_keep forum_ok (content_require_admin_mutation h rq)" "tables_keep forum_ok (require_identity h rq reads senior)"
  "tables_keep forum_ok (application_require_admin h rq reads)" "tables_keep forum_ok (content_page_query h raw token)"
  "tables_keep forum_ok (space_path h raw)" "tables_keep forum_ok (thread_path h raw)" "tables_keep forum_ok (post_path h raw)"
  "tables_keep forum_ok (experience_path h raw)" "tables_keep forum_ok (revision_path h raw)"
  "tables_keep forum_ok (revision_body rbody code msg)"
  unfolding content_require_mutation_def require_verified_identity_def content_require_admin_def
    content_require_admin_mutation_def application_require_admin_def content_page_query_def space_path_def
    thread_path_def post_path_def experience_path_def revision_path_def revision_body_def forum_is_admin_def
    applications_is_admin_def
  by (intro forum_rows.calm keeps_intros calm_viewer calm_identity)+

lemma content_rate_keeps: "tables_keep forum_ok (content_rate h sel upd ns rs l)"
  unfolding content_rate_def by (rule forum_rows.rate) (erule forum_ok_cong; simp)

lemma parse_identifiers_keeps: "tables_keep forum_ok (parse_identifiers seen raws)"
  by (induction seen raws rule: parse_identifiers.induct)
    (auto intro!: keeps_intros split: option.splits)

lemma forum_route_ok: "tables_keep forum_ok (forum_route h rq call)"
  by (cases call)
    (simp_all only: forum_route.simps route_list_spaces_def route_join_space_def route_leave_space_def
      route_list_threads_def route_list_posts_def route_create_thread_def route_create_post_def route_admin_threads_def
      route_admin_posts_def route_thread_status_def route_delete_post_def route_archive_post_def
      route_list_experiences_def route_get_experience_def route_create_experience_def route_create_revision_def
      route_submit_revision_def route_unpublish_def route_review_experience_def reaction_op_def
      route_list_applications_def route_create_applications_def route_create_ticket_def route_open_tickets_def
      route_review_ticket_def serve_content_def serve_content_list_def serve_application_def,
     (intro keeps_intros forum_guards content_rate_keeps forum_operations forum_reads parse_identifiers_keeps
       forum_rows.guards)+)

text \<open>One operation of the two repositories, whatever its outcome.\<close>

inductive forum_step :: "forum_tables state \<Rightarrow> forum_tables state \<Rightarrow> bool" where
  join: "join_space acc i s = (r1, s') \<Longrightarrow> forum_step s s'"
| leave: "leave_space acc i s = (r1, s') \<Longrightarrow> forum_step s s'"
| thread: "create_thread acc i title content s = (r2, s') \<Longrightarrow> forum_step s s'"
| post: "create_post acc i content quote s = (r3, s') \<Longrightarrow> forum_step s s'"
| thread_status: "set_thread_status i st s = (r1, s') \<Longrightarrow> forum_step s s'"
| post_status: "set_post_status i st s = (r1, s') \<Longrightarrow> forum_step s s'"
| react: "set_reaction ty i acc e s = (r1, s') \<Longrightarrow> forum_step s s'"
| unreact: "remove_reaction ty i acc e s = (r1, s') \<Longrightarrow> forum_step s s'"
| compose: "create_experience acc input s = (r4, s') \<Longrightarrow> forum_step s s'"
| revise: "create_revision acc i input s = (r4, s') \<Longrightarrow> forum_step s s'"
| submit: "submit_revision acc i s = (r4, s') \<Longrightarrow> forum_step s s'"
| unpublish: "unpublish_experience acc i s = (r1, s') \<Longrightarrow> forum_step s s'"
| review: "review_experience acc i verdict s = (r4, s') \<Longrightarrow> forum_step s s'"
| apply_for: "create_confirmed acc ids s = (r5, s') \<Longrightarrow> forum_step s s'"
| ask: "create_request_ticket acc pid reason s = (r6, s') \<Longrightarrow> forum_step s s'"
| answer: "review_request_ticket en acc i verdict s = (r6, s') \<Longrightarrow> forum_step s s'"

lemmas forum_operations_run = forum_operations[THEN keepsD]

lemma forum_step_ok: "forum_step s s' \<Longrightarrow> forum_ok (tables s) \<Longrightarrow> forum_ok (tables s')"
  by (induction rule: forum_step.induct) (blast dest: forum_operations_run)+

text \<open>
  What forum, experiences and applications can become: their tables start with spaces that are
  active and nothing else; an operation or a request runs; elsewhere the shared tables, the clocks
  and the faults change, and programmes and schools are edited.
\<close>

inductive forum_served :: "forum_handler \<Rightarrow> forum_tables state \<Rightarrow> bool" for h where
  start: "f_applications t = [] \<Longrightarrow> f_threads t = [] \<Longrightarrow> f_posts t = [] \<Longrightarrow> f_reactions t = [] \<Longrightarrow>
    f_experiences t = [] \<Longrightarrow> f_revisions t = [] \<Longrightarrow> list_all sp_active (f_spaces t) \<Longrightarrow>
    new_keys (next_id (w_db w)) sp_id (f_spaces t) \<Longrightarrow> forum_served h (w, t)"
| operation: "forum_served h s \<Longrightarrow> forum_step s s' \<Longrightarrow> forum_served h s'"
| request: "forum_served h s \<Longrightarrow> forum_route h rq call s = (x, s') \<Longrightarrow> forum_served h s'"
| elsewhere: "forum_served h (w, t) \<Longrightarrow> next_id (w_db w) \<le> next_id (w_db w') \<Longrightarrow>
    forum_served h (w', t\<lparr>f_programs := ps, f_schools := ss\<rparr>)"

lemma forum_served_ok: "forum_served h s \<Longrightarrow> forum_ok (tables s)"
proof (induction rule: forum_served.induct)
  case (start t w)
  then show ?case
    by (simp add: forum_ok_def reviewed_def keys_ok_def public_ok_def approvals_ok_def placed_def authors_ok_def
        spaces_ok_def reactions_ok_def tables_def new_keys_def list_all_iff)
next
  case (operation s s')
  then show ?case using forum_step_ok by blast
next
  case (request s rq call x s')
  then show ?case using keepsD[OF forum_route_ok] by blast
next
  case (elsewhere w t w' ps ss)
  then show ?case by (auto simp: tables_def elim!: forum_ok_cong)
qed

end
