(* ===== verification/ForumProperties.thy ===== *)
theory ForumProperties imports ForumInvariants ToyService begin

text \<open>
  What forum, experiences and applications promise: a reader sees approved texts only, writers
  are in the scope of the space, a confirmed application opens its forum, and identifiers of
  programmes are canonical.
\<close>

section \<open>What readers see\<close>

definition public_text :: "forum_tables \<Rightarrow> experience \<Rightarrow> bool" where
  "public_text t x \<longleftrightarrow> (\<exists>r \<in> set (f_revisions t). xr_id r = ex_revision x \<and> xr_experience r = ex_id x
     \<and> xr_title r = ex_title x \<and> xr_body r = ex_body x \<and> xr_status r = ''approved'' \<and> approval_logged t r)"

lemma get_experience_Inr:
  assumes "get_experience viewer i s = (Inr x, s')"
  obtains e r where "find_experience (snd (tables s)) i = Some e" "shown_revision (snd (tables s)) viewer e = Some r"
    "x = (experience_of e r)\<lparr>ex_reactions := ex_reactions x\<rparr>" "tables s' = tables s"
  using assms unfolding get_experience_def
proof (elim bind_rowsE if_failE bindM_InrE)
  fix s1 items s2
  let ?rows = "\<lambda>t. case find_experience t i of None \<Rightarrow> []
       | Some e \<Rightarrow> (case shown_revision t viewer e of None \<Rightarrow> [] | Some r \<Rightarrow> [experience_of e r])"
  assume s1: "tables s1 = tables s" and ne: "\<not> ?rows (snd (tables s)) = []"
    and att: "attach_experience_reactions (?rows (snd (tables s))) viewer s1 = (Inr items, s2)"
    and fin: "ret (hd items) s2 = (Inr x, s')"
  from ne obtain e r where er: "find_experience (snd (tables s)) i = Some e"
    "shown_revision (snd (tables s)) viewer e = Some r" by (auto split: option.splits)
  from att er s1 obtain by_id where "items = [(experience_of e r)\<lparr>ex_reactions := by_id (xp_id e)\<rparr>]" "tables s2 = tables s"
    unfolding attach_experience_reactions_def load_reactions_def
    by (auto simp: experience_of_def dest!: stmt_rows_Inr)
  with er fin show thesis by (intro that[of e r]) auto
qed

lemma shown_revision_cases:
  assumes "shown_revision t viewer e = Some r"
  shows "r \<in> set (f_revisions t) \<and> xr_experience r = xp_id e \<and> (viewer = Some (xp_author e) \<or> xr_status r = ''approved'')"
proof -
  from assms have "r \<in> set (revisions_of t (xp_id e)) \<and> (xp_visibility e = ''published'' \<and> xp_public e = Some (xr_id r)
      \<and> xr_status r = ''approved'' \<or> viewer = Some (xp_author e))"
    unfolding shown_revision_def latest_def by (rule select_first_Some)
  then show ?thesis by (auto simp: revisions_of_def)
qed

lemma get_experience_public:
  assumes ok: "forum_ok (tables s)" and run: "get_experience viewer i s = (Inr x, s')"
  shows "public_text (snd (tables s)) x
    \<or> (\<exists>e \<in> set (f_experiences (snd (tables s))). xp_id e = ex_id x \<and> viewer = Some (xp_author e))"
  using run
proof (rule get_experience_Inr)
  fix e r
  assume e: "find_experience (snd (tables s)) i = Some e" and r: "shown_revision (snd (tables s)) viewer e = Some r"
    and x: "x = (experience_of e r)\<lparr>ex_reactions := ex_reactions x\<rparr>"
  have fields: "ex_id x = xp_id e" "ex_revision x = xr_id r" "ex_title x = xr_title r" "ex_body x = xr_body r"
    by (subst x, simp add: experience_of_def)+
  from e have "e \<in> set (f_experiences (snd (tables s)))" by (auto simp: find_experience_def dest: find_Some_D)
  moreover from shown_revision_cases[OF r] have "viewer = Some (xp_author e) \<or> public_text (snd (tables s)) x"
    using ok by (auto simp: forum_ok_def reviewed_def approvals_ok_def public_text_def fields)
  ultimately show ?thesis using fields(1) by auto
qed

lemma published_public:
  assumes ok: "forum_ok (d, t)" and x: "x \<in> set (published_experiences t)"
  shows "public_text t x"
proof -
  from x obtain e r where er: "e \<in> set (f_experiences t)" "xp_visibility e = ''published''"
    "public_revision t e = Some r" "x = experience_of e r"
    by (auto simp: published_experiences_def map_filter_def split: option.splits)
  from er(3) have r: "r \<in> set (f_revisions t)" "xp_public e = Some (xr_id r)" "xr_status r = ''approved''"
    by (auto simp: public_revision_def split: option.splits dest!: find_Some_D)
  from ok er(1) r(2) have "approved_in t (xp_id e) (xr_id r)" by (auto simp: forum_ok_def reviewed_def public_ok_def)
  moreover have "distinct (map xr_id (f_revisions t))"
    using ok by (simp add: forum_ok_def reviewed_def keys_ok_def new_keys_def)
  ultimately have "xr_experience r = xp_id e"
    using r(1) by (auto simp: approved_in_def dest: distinct_key_eq)
  with r ok er(4) show ?thesis
    by (auto simp: public_text_def experience_of_def forum_ok_def reviewed_def approvals_ok_def)
qed

text \<open>The texts a reply shows.\<close>

fun shown_texts :: "forum_body reply \<Rightarrow> experience list" where
  "shown_texts (Replied _ (ExperienceOut x)) = [x]"
| "shown_texts (Replied _ (ExperiencesOut xs _)) = xs"
| "shown_texts _ = []"

lemma public_text_reactions [simp]: "public_text t (x\<lparr>ex_reactions := r\<rparr>) = public_text t x"
  by (simp add: public_text_def)

lemma attach_Inr:
  assumes "attach_experience_reactions xs viewer s = (Inr ys, s')" "y \<in> set ys"
  shows "\<exists>x \<in> set xs. \<exists>r. y = x\<lparr>ex_reactions := r\<rparr>"
proof (cases "xs = []")
  case True
  with assms show ?thesis by (simp add: attach_experience_reactions_def)
next
  case False
  with assms(1) obtain by_id where "ys = map (\<lambda>x. x\<lparr>ex_reactions := by_id (ex_id x)\<rparr>) xs"
    by (auto simp: attach_experience_reactions_def)
  with assms(2) show ?thesis by auto
qed

lemma list_published_public:
  assumes "forum_ok (tables s)" "list_published_experiences en j l after s = (Inr (items, rest), s')"
    "x \<in> set items"
  shows "public_text (snd (tables s)) x"
proof -
  let ?rows = "\<lambda>t. take (nat (clamp_limit l 50 100)) (filter (\<lambda>x. case position_of en after of None \<Rightarrow> True
      | Some k \<Rightarrow> (ex_updated x, ex_id x) < k) (published_experiences t))"
  from assms(2) obtain s1 s2 items1 where
    att: "attach_experience_reactions (?rows (snd (tables s))) None s1 = (Inr items1, s2)" "items = items1"
    unfolding list_published_experiences_def Let_def by (auto dest!: stmt_rows_Inr)
  with attach_Inr assms(3) have "\<exists>y \<in> set (?rows (snd (tables s))). \<exists>r. x = y\<lparr>ex_reactions := r\<rparr>" by blast
  then obtain y r where y: "y \<in> set (published_experiences (snd (tables s)))" "x = y\<lparr>ex_reactions := r\<rparr>"
    by (auto dest!: in_set_takeD)
  from assms(1) published_public[of "fst (tables s)" "snd (tables s)" y] y show ?thesis by simp
qed

lemma viewer_step_Inr:
  assumes "viewer_step h rq s = (Inr viewer, s')"
  shows "snd s' = snd s"
    "viewer = Some acc \<Longrightarrow> \<exists>rs w. authenticate (fh_auth h) rq (fst s) = (Inr rs, w) \<and> acc = session_acc rs"
  using assms unfolding viewer_step_def
  by (auto simp: catchM_eq_iff core_Inr core_Inl session_acc_def)

lemma content_page_query_Inr: "content_page_query h raw token s = (Inr q, s') \<Longrightarrow> s' = s"
  by (auto simp: content_page_query_def body_step_def split: option.splits)

lemma shown_public:
  assumes "forum_served h s" "call = ListExperiencesCall l token \<or> call = GetExperienceCall raw"
    "forum_route h rq call s = (Inr reply, s')" "x \<in> set (shown_texts reply)"
  shows "public_text (snd s) x \<or> call = GetExperienceCall raw \<and> (\<exists>e \<in> set (f_experiences (snd s)). xp_id e = ex_id x
    \<and> (\<exists>rs w. authenticate (fh_auth h) rq (fst s) = (Inr rs, w) \<and> session_acc rs = xp_author e))"
proof -
  note ok = forum_served_ok[OF assms(1)]
  have rows: "snd (tables s) = snd s" by (simp add: tables_def)
  from assms(2) show ?thesis
  proof
    assume "call = ListExperiencesCall l token"
    with assms(3) obtain q s1 items rest s2 where
      q: "content_page_query h l token s = (Inr q, s1)"
      and run: "list_published_experiences (fh_env h) (fh_cursors h) (fst q) (snd q) s1 = (Inr (items, rest), s2)"
      and reply: "reply = Replied 200 (ExperiencesOut items rest)"
      by (auto simp: route_list_experiences_def serve_content_list_def)
    have "s1 = s" using q by (rule content_page_query_Inr)
    with list_published_public[OF ok, of "fh_env h" "fh_cursors h"] run assms(4) reply rows show ?thesis by auto
  next
    assume call: "call = GetExperienceCall raw"
    with assms(3) obtain i viewer s1 s2 y where
      v: "viewer_step h rq s = (Inr viewer, s1)" and run: "get_experience viewer i s1 = (Inr y, s2)"
      and reply: "reply = Replied 200 (ExperienceOut y)"
      by (auto simp: route_get_experience_def experience_path_def path_uuid_def split: option.splits)
    have ok1: "forum_ok (tables s1)" using keepsD[OF forum_guards(1) ok v] .
    have "snd (tables s1) = snd s" using viewer_step_Inr(1)[OF v] by (simp add: tables_def)
    with get_experience_public[OF ok1 run] have "public_text (snd s) y
      \<or> (\<exists>e \<in> set (f_experiences (snd s)). xp_id e = ex_id y \<and> viewer = Some (xp_author e))" by simp
    then show ?thesis
    proof
      assume "\<exists>e \<in> set (f_experiences (snd s)). xp_id e = ex_id y \<and> viewer = Some (xp_author e)"
      then obtain e where e: "e \<in> set (f_experiences (snd s))" "xp_id e = ex_id y" "viewer = Some (xp_author e)" by blast
      from viewer_step_Inr(2)[OF v e(3)] e(1,2) reply assms(4) call show ?thesis by fastforce
    qed (use reply assms(4) in simp)
  qed
qed

section \<open>Who writes where\<close>

lemma author_in_scope:
  assumes "forum_served h s" "p \<in> set (f_posts (snd s))"
  shows "\<exists>r \<in> set (f_threads (snd s)). \<exists>f \<in> set (f_spaces (snd s)). th_id r = po_thread p \<and> sp_id f = th_space r
    \<and> (\<forall>g \<in> set (f_spaces (snd s)). sp_id g = sp_id f \<longrightarrow> g = f)
    \<and> (sp_type f = ''global'' \<or> (\<exists>a \<in> set (f_applications (snd s)). confirmed_for (po_account p) f a))"
proof -
  have ok: "placed (fst (tables s), snd s)"
    using forum_served_ok[OF assms(1)] by (simp add: forum_ok_def tables_def)
  then obtain r where r: "r \<in> set (f_threads (snd s))" "th_id r = po_thread p" "writes_in (snd s) (po_account p) (th_space r)"
    using assms(2) by (auto simp: placed_def authors_ok_def)
  then obtain f where f: "f \<in> set (f_spaces (snd s))" "sp_id f = th_space r" "entitled (snd s) (po_account p) f"
    by (auto simp: writes_in_def)
  have "distinct (map sp_id (f_spaces (snd s)))" using ok by (simp add: placed_def new_keys_def)
  from distinct_key_eq[OF this _ f(1)] have "\<forall>g \<in> set (f_spaces (snd s)). sp_id g = sp_id f \<longrightarrow> g = f" by blast
  moreover from f(3) have "sp_type f = ''global'' \<or> (\<exists>a \<in> set (f_applications (snd s)). confirmed_for (po_account p) f a)"
    by (auto simp: entitled_def)
  ultimately show ?thesis using r(1,2) f(1,2) by blast
qed

section \<open>A confirmed application opens its forum\<close>

lemma active_student_ensured: "active_student (fst (ensured f x)) acc = active_student (fst x) acc"
  by (simp add: active_student_def ensured_same)

lemma confirm_all_Inr:
  assumes "placed (tables s)" "confirm_all acc ts ids s = (Inr items, s')"
  shows "set (f_applications (snd (tables s))) \<subseteq> set (f_applications (snd (tables s')))
    \<and> (active_student (fst (tables s)) acc \<longrightarrow> active_student (fst (tables s')) acc)
    \<and> (\<forall>i \<in> set ids. active_student (fst (tables s')) acc \<and> (\<exists>a \<in> set (f_applications (snd (tables s'))). ap_account a = acc
         \<and> ap_status a = ''confirmed'' \<and> ap_year a = pi_year i \<and> ap_school a = pi_school i \<and> ap_program a = pi_program i))"
  using assms
proof (induction ids arbitrary: s items)
  case Nil
  then show ?case by simp
next
  case (Cons i ids)
  from Cons.prems(2) obtain a s1 rest where one: "confirm_one acc ts (pi_year i) (pi_school i) (pi_program i) s = (Inr a, s1)"
    and more: "confirm_all acc ts ids s1 = (Inr rest, s')" by auto
  note IH = Cons.IH[OF placed_confirm_one[OF Cons.prems(1) one] more]
  from Cons.prems(1) one show ?case
  proof (rule confirm_one_Inr)
    fix r
    let ?x = "(draw_id (fst (tables s)), (snd (tables s))\<lparr>f_applications := f_applications (snd (tables s)) @ [r]\<rparr>)"
    assume r: "new_application acc (pi_year i) (pi_school i) (pi_program i) ts (fst (tables s)) (snd (tables s)) = Some r"
      and t: "tables s1 = ensured (program_space a) (ensured (annual_space a) ?x)"
    note R = new_application_Some[OF r]
    have apps: "f_applications (snd (tables s1)) = f_applications (snd (tables s)) @ [r]"
      unfolding t by (simp add: ensured_same)
    have act: "active_student (fst (tables s1)) acc"
      using R(7) unfolding t active_student_ensured by (simp add: active_student_def draw_id_def)
    have "r \<in> set (f_applications (snd (tables s')))" using IH apps by auto
    with R IH act apps show ?case by auto
  qed
qed

lemma create_confirmed_Inr:
  assumes "forum_ok (tables s)" "create_confirmed acc ids s = (Inr items, s')" "i \<in> set ids"
  shows "active_student (fst (tables s')) acc"
    "\<exists>a \<in> set (f_applications (snd (tables s'))). ap_account a = acc \<and> ap_status a = ''confirmed''
       \<and> ap_year a = pi_year i \<and> ap_school a = pi_school i \<and> ap_program a = pi_program i"
proof -
  from assms(2) obtain s1 s2 where "tables s1 = tables s" "confirm_all acc (db_now (fst s)) ids s1 = (Inr items, s2)"
    "tables s' = tables s2"
    unfolding create_confirmed_def bindM_readM by (elim in_tx_Inr)
  with confirm_all_Inr[of s1 acc _ ids items s2] assms(1,3)
  show "active_student (fst (tables s')) acc"
    "\<exists>a \<in> set (f_applications (snd (tables s'))). ap_account a = acc \<and> ap_status a = ''confirmed''
       \<and> ap_year a = pi_year i \<and> ap_school a = pi_school i \<and> ap_program a = pi_program i"
    by (auto simp: forum_ok_def)
qed

lemma join_space_run:
  assumes "faults (fst s) = []" "joined_space acc i (fst (tables s)) (snd (tables s)) = Some f" "has_account (fst (tables s)) acc"
  shows "join_space acc i s = (Inr (), with_tables (fst (tables s), upsert_member acc i (db_now (fst s)) (snd (tables s))) s)"
  unfolding join_space_def bindM_readM
  using assms
  by (simp add: bindM_def map_errM_def stmt_from_run[where r = f] no_key_def ret_def case_prod_beta)

lemma create_thread_run:
  assumes "faults (fst s) = []" "list_ex (\<lambda>f. sp_id f = i \<and> sp_active f \<and> may_post (fst (tables s)) (snd (tables s)) acc f) (f_spaces (snd (tables s)))"
    "has_account (fst (tables s)) acc" "text_chk title" "text_chk content"
    "list_all (\<lambda>r. th_id r \<noteq> next_id (fst (tables s))) (f_threads (snd (tables s)))"
  shows "\<exists>th po s'. create_thread acc i title content s = (Inr (th, po), s') \<and> ft_space th = i \<and> fp_thread po = ft_id th"
proof -
  let ?d = "fst (tables s)" and ?t = "snd (tables s)" and ?ts = "db_now (fst s)"
  obtain r where r: "new_thread acc i title ?ts ?d ?t = Some r" using assms(2) by (simp add: new_thread_def)
  have R: "th_id r = next_id ?d" "th_space r = i" "th_account r = acc" "th_title r = title"
    using r by (auto simp: new_thread_def split: if_splits)
  define s1 where "s1 = with_tables (draw_id ?d, ?t\<lparr>f_threads := f_threads ?t @ [r]\<rparr>) s"
  define p where "p = new_post acc (th_id r) content None ?ts (fst (tables s1))"
  define s2 where "s2 = with_tables (add_post p (tables s1)) s1"
  have one: "stmt_from (new_thread acc i title ?ts) (\<lambda>r. text_chk (th_title r)) no_key
        (\<lambda>d t r. has_account d (th_account r)) (\<lambda>r (d, t). (draw_id d, t\<lparr>f_threads := f_threads t @ [r]\<rparr>)) s = (Inr r, s1)"
    using stmt_from_run[OF assms(1), of "new_thread acc i title ?ts" r] r R assms(3,4)
    by (simp add: no_key_def s1_def case_prod_beta)
  have find: "find_thread (snd (tables s1)) (th_id r) = Some r"
    using assms(6) R(1) by (auto simp: s1_def find_thread_def list_all_iff find_append_None find_None_iff)
  have two: "stmt_from (\<lambda>d t. Some (new_post acc (th_id r) content None ?ts d)) (\<lambda>p. text_chk (po_body p)) no_key
        post_fk add_post s1 = (Inr p, s2)"
    using stmt_from_run[of s1 "\<lambda>d t. Some (new_post acc (th_id r) content None ?ts d)" p] assms(1,3,5) find
    by (simp add: no_key_def p_def s2_def post_fk_def new_post_def s1_def has_account_def draw_id_def)
  have "create_thread acc i title content s = (Inr (forum_thread_of r, forum_post_of p), s2)"
    unfolding create_thread_def bindM_readM
  proof (rule in_tx_run[OF assms(1)])
    show "faults (fst s2) = []" using assms(1) by (simp add: s2_def s1_def)
  qed (simp add: bindM_def map_errM_def one two ret_def)
  then show ?thesis using R by (auto simp: forum_thread_of_def forum_post_of_def p_def new_post_def)
qed

lemma confirmed_opens:
  assumes served: "forum_served h s" and run: "create_confirmed acc ids s = (Inr items, s')" and calm: "faults (fst s') = []"
    and i: "i \<in> set ids" and texts: "text_chk title" "text_chk content"
  shows "\<exists>f \<in> set (f_spaces (snd s')). sp_type f = ''school_program'' \<and> sp_year f = Some (pi_year i)
    \<and> sp_school f = Some (pi_school i) \<and> sp_program f = Some (pi_program i)
    \<and> (\<exists>s1 th po s2. join_space acc (sp_id f) s' = (Inr (), s1)
         \<and> create_thread acc (sp_id f) title content s1 = (Inr (th, po), s2) \<and> ft_space th = sp_id f)"
proof -
  let ?d = "fst (tables s')" and ?t = "snd (tables s')" and ?ts = "db_now (fst s')"
  have t: "?t = snd s'" by (simp add: tables_def)
  have ok: "forum_ok (tables s')" using keepsD[OF forum_operations(14) forum_served_ok[OF served] run] .
  note C = create_confirmed_Inr[OF forum_served_ok[OF served] run i]
  from C(2) obtain a where a: "a \<in> set (f_applications ?t)" "ap_account a = acc" "ap_status a = ''confirmed''"
    "ap_year a = pi_year i" "ap_school a = pi_school i" "ap_program a = pi_program i" by blast
  have "spaces_ok ?t" using ok by (simp add: forum_ok_def placed_def)
  with a have "has_space ?t ''school_program'' (pi_year i) (Some (pi_school i)) (Some (pi_program i))"
    unfolding spaces_ok_def by fastforce
  then obtain f where f: "f \<in> set (f_spaces ?t)" "sp_type f = ''school_program''" "sp_year f = Some (pi_year i)"
    "sp_school f = Some (pi_school i)" "sp_program f = Some (pi_program i)" "sp_active f" by (auto simp: has_space_def)
  have applicant: "program_applicant ?t acc f" using a f by (auto simp: program_applicant_def list_ex_iff)
  have account: "has_account ?d acc" using C(1) by (auto simp: active_student_def has_account_def list_ex_iff)
  have keys: "new_keys (next_id ?d) th_id (f_threads ?t)" "distinct (map sp_id (f_spaces ?t))"
    using ok by (simp_all add: forum_ok_def placed_def new_keys_def)
  have "joined_space acc (sp_id f) ?d ?t \<noteq> None"
    using f applicant by (auto simp: joined_space_def in_scope_def find_None_iff)
  then obtain g where "joined_space acc (sp_id f) ?d ?t = Some g" by blast
  note join = join_space_run[OF calm this account]
  define s1 where "s1 = with_tables (?d, upsert_member acc (sp_id f) ?ts ?t) s'"
  have member: "active_member (snd (tables s1)) acc f"
    by (auto simp: s1_def active_member_def upsert_member_def list_ex_iff bex_update_where)
  have same: "f_spaces (snd (tables s1)) = f_spaces ?t" "f_applications (snd (tables s1)) = f_applications ?t"
    "f_threads (snd (tables s1)) = f_threads ?t" "fst (tables s1) = ?d"
    by (simp_all add: s1_def upsert_member_def)
  have still: "faults (fst s1) = []" using calm by (simp add: s1_def)
  have "may_post (fst (tables s1)) (snd (tables s1)) acc f"
    using f(2) member applicant by (simp add: may_post_def program_applicant_def same)
  then have "\<exists>th po s2. create_thread acc (sp_id f) title content s1 = (Inr (th, po), s2) \<and> ft_space th = sp_id f
      \<and> fp_thread po = ft_id th"
    using f(1,6) account texts keys(1) still
    by (intro create_thread_run) (auto simp: same list_ex_iff list_all_iff new_keys_def intro!: bexI[of _ f])
  with join f t show ?thesis unfolding s1_def by (intro bexI[of _ f]) auto
qed

section \<open>Moderation\<close>

text \<open>
  A thread kept as evidence comes back into the forum when somebody unlocks it: the status that
  \<^verbatim>\<open>archiveThread\<close> calls one-way is left by \<^verbatim>\<open>POST .../unlock\<close>.
\<close>

lemma set_thread_status_Inr:
  assumes "set_thread_status i st s = (Inr (), s')"
  shows "f_threads (snd (tables s')) = update_where (\<lambda>r. th_id r = i)
    (\<lambda>r. r\<lparr>th_status := st, th_updated := db_now (fst s)\<rparr>) (f_threads (snd (tables s)))"
  using assms unfolding set_thread_status_def bindM_readM by (elim if_failE bind_stmt_writeE) simp

lemma archived_thread_comes_back:
  assumes "set_thread_status i ''archived'' s = (Inr (), s1)" "set_thread_status i ''published'' s1 = (Inr (), s2)"
    "r \<in> set (f_threads (snd (tables s2)))" "th_id r = i"
  shows "readable r"
  using assms(3) unfolding set_thread_status_Inr[OF assms(2)]
  by (rule in_update_whereE) (use assms(4) in \<open>auto simp: readable_def\<close>)

section \<open>The promises\<close>

text \<open>
  Property C29. No reader is shown a text that has not been reviewed: whatever has happened to the
  tables, every experience in the public list, and every single one but an author's own, is word
  by word a revision that is approved and whose approval, by the reviewer it names and from the
  state of a pending review, is on record.
\<close>

theorem readers_see_reviewed_texts:
  assumes "forum_served h s" "call = ListExperiencesCall l token \<or> call = GetExperienceCall raw"
    "forum_route h rq call s = (Inr reply, s')" "x \<in> set (shown_texts reply)"
  shows "public_text (snd s) x \<or> call = GetExperienceCall raw \<and> (\<exists>e \<in> set (f_experiences (snd s)). xp_id e = ex_id x
    \<and> (\<exists>rs w. authenticate (fh_auth h) rq (fst s) = (Inr rs, w) \<and> session_acc rs = xp_author e))"
  by (rule shown_public[OF assms])

text \<open>
  Property C30. Whoever has written in a space that is not the global one has a confirmed
  application of the space's year, and of its programme if the space is a programme's; the space of
  a post is one and exists, whatever has happened since.
\<close>

theorem authors_in_scope:
  assumes "forum_served h s" "p \<in> set (f_posts (snd s))"
  shows "\<exists>r \<in> set (f_threads (snd s)). \<exists>f \<in> set (f_spaces (snd s)). th_id r = po_thread p \<and> sp_id f = th_space r
    \<and> (\<forall>g \<in> set (f_spaces (snd s)). sp_id g = sp_id f \<longrightarrow> g = f)
    \<and> (sp_type f = ''global'' \<or> (\<exists>a \<in> set (f_applications (snd s)). confirmed_for (po_account p) f a))"
  by (rule author_in_scope[OF assms])

text \<open>
  Property C31. Confirming an application opens its forum: for every programme of the request there
  is then a space that the applicant can join, and having joined can write a thread in, as long as
  the database answers.
\<close>

theorem application_opens_forum:
  assumes "forum_served h s" "create_confirmed acc ids s = (Inr items, s')" "faults (fst s') = []"
    "i \<in> set ids" "text_chk title" "text_chk content"
  shows "\<exists>f \<in> set (f_spaces (snd s')). sp_type f = ''school_program'' \<and> sp_year f = Some (pi_year i)
    \<and> sp_school f = Some (pi_school i) \<and> sp_program f = Some (pi_program i)
    \<and> (\<exists>s1 th po s2. join_space acc (sp_id f) s' = (Inr (), s1)
         \<and> create_thread acc (sp_id f) title content s1 = (Inr (th, po), s2) \<and> ft_space th = sp_id f)"
  by (rule confirmed_opens[OF assms])

section \<open>Concrete runs\<close>

definition forum_world :: "forum_tables state" where
  "forum_world = (demo_world\<lparr>w_db := empty_db\<lparr>accounts := [toy_account\<lparr>a_email_ct := ''ct'', a_email_hash := ''h'',
       a_password := ''p'', a_identity := ''student'', a_status := ''active''\<rparr>],
     roles := [(1, ''admin'')], next_id := 3\<rparr>\<rparr>,
     \<lparr>f_schools = [(''001'', ''NTU'')],
      f_programs = [\<lparr>pr_year = 115, pr_school = ''001'', pr_code = ''002'', pr_name = ''CS'', pr_review = ''published''\<rparr>],
      f_applications = [], f_tickets = [], f_audit = [],
      f_spaces = [\<lparr>sp_id = 2, sp_type = ''global'', sp_name = ''all'', sp_year = None, sp_school = None,
        sp_program = None, sp_active = True\<rparr>],
      f_members = [], f_threads = [], f_posts = [], f_experiences = [], f_revisions = [], f_events = [],
      f_reactions = [], f_limiters = new_forum_limiters\<rparr>)"

definition forum_demo :: forum_handler where
  "forum_demo = \<lparr>fh_auth = toy_service, fh_cursors = \<lparr>cj_marshal = (\<lambda>c. None), cj_unmarshal = (\<lambda>s. None)\<rparr>,
     fh_distributed = NoDistributed\<rparr>"

definition forum_reader :: request where
  "forum_reader = \<lparr>rq_remote = [], rq_headers = [], rq_cookies = [], rq_path = ''/api/v1/experiences'', rq_host = [],
     rq_url_host = []\<rparr>"

lemmas forum_runs =
  forum_served.operation[OF _ forum_step.compose[OF prod.collapse[symmetric]]]
  forum_served.operation[OF _ forum_step.submit[OF prod.collapse[symmetric]]]
  forum_served.operation[OF _ forum_step.review[OF prod.collapse[symmetric]]]
  forum_served.operation[OF _ forum_step.apply_for[OF prod.collapse[symmetric]]]
  forum_served.operation[OF _ forum_step.join[OF prod.collapse[symmetric]]]
  forum_served.operation[OF _ forum_step.thread[OF prod.collapse[symmetric]]]

lemma forum_world_served: "forum_served forum_demo forum_world"
  unfolding forum_world_def
  by (rule forum_served.start) (simp_all add: new_keys_def demo_world_def)

text \<open>An experience is written, submitted and approved, and then listed.\<close>

definition forum_published :: "forum_tables state" where
  "forum_published = snd (review_experience 1 4 \<lparr>ri_approved = True, ri_reason = []\<rparr> (snd (submit_revision 1 4
     (snd (create_experience 1 \<lparr>rvi_title = ''T'', rvi_body = ''B'', rvi_author_type = [], rvi_outcome = []\<rparr>
       forum_world)))))"

lemma forum_published_served: "forum_served forum_demo forum_published"
  unfolding forum_published_def
  by (intro forum_world_served forum_runs)

lemma forum_published_list:
  "fst (forum_route forum_demo forum_reader (ListExperiencesCall [] []) forum_published)
     = Inr (Replied 200 (ExperiencesOut [\<lparr>ex_id = 3, ex_author_type = ''-'', ex_outcome = ''-'',
        ex_visibility = ''published'', ex_revision = 4, ex_title = ''T'', ex_body = ''B'', ex_number = 1,
        ex_created = 1000 * second, ex_updated = 1000 * second, ex_reactions = []\<rparr>] []))"
  by code_simp

theorem readers_see_reviewed_texts_witness:
  "public_text (snd forum_published) \<lparr>ex_id = 3, ex_author_type = ''-'', ex_outcome = ''-'',
     ex_visibility = ''published'', ex_revision = 4, ex_title = ''T'', ex_body = ''B'', ex_number = 1,
     ex_created = 1000 * second, ex_updated = 1000 * second, ex_reactions = []\<rparr>"
  using readers_see_reviewed_texts[OF forum_published_served, of "ListExperiencesCall [] []" "[]" "[]" "[]" forum_reader]
    forum_published_list
  by (cases "forum_route forum_demo forum_reader (ListExperiencesCall [] []) forum_published") auto

text \<open>An application is confirmed, its space joined and a thread written.\<close>

definition forum_application :: program_identifier where
  "forum_application = \<lparr>pi_year = 115, pi_school = ''001'', pi_program = ''002''\<rparr>"

definition forum_confirmed :: "forum_tables state" where
  "forum_confirmed = snd (create_confirmed 1 [forum_application] forum_world)"

definition forum_written :: "forum_tables state" where
  "forum_written = snd (create_thread 1 5 ''Hi'' ''There'' (snd (join_space 1 5 forum_confirmed)))"

lemma forum_written_served: "forum_served forum_demo forum_written"
  unfolding forum_written_def forum_confirmed_def
  by (intro forum_world_served forum_runs)

theorem authors_in_scope_witness:
  "\<exists>f \<in> set (f_spaces (snd forum_written)). sp_type f = ''global''
     \<or> (\<exists>a \<in> set (f_applications (snd forum_written)). confirmed_for 1 f a)"
proof -
  have "\<exists>p \<in> set (f_posts (snd forum_written)). po_account p = 1"
    by code_simp
  then obtain p where "p \<in> set (f_posts (snd forum_written))" "po_account p = 1" by blast
  with authors_in_scope[OF forum_written_served this(1)] show ?thesis by auto
qed

theorem application_opens_forum_witness:
  "\<exists>f \<in> set (f_spaces (snd forum_confirmed)). sp_type f = ''school_program'' \<and> sp_program f = Some ''002''
    \<and> (\<exists>s1 th po s2. join_space 1 (sp_id f) forum_confirmed = (Inr (), s1)
         \<and> create_thread 1 (sp_id f) ''Hi'' ''There'' s1 = (Inr (th, po), s2))"
proof -
  have ok: "case fst (create_confirmed 1 [forum_application] forum_world) of Inl e \<Rightarrow> False | Inr items \<Rightarrow> True"
    by code_simp
  have still: "faults (fst forum_confirmed) = []" by code_simp
  from ok obtain items where "fst (create_confirmed 1 [forum_application] forum_world) = Inr items"
    by (auto split: sum.splits)
  then have run: "create_confirmed 1 [forum_application] forum_world = (Inr items, forum_confirmed)"
    unfolding forum_confirmed_def by (metis prod.collapse)
  have "text_chk ''Hi''" "text_chk ''There''" by code_simp+
  from application_opens_forum[OF forum_world_served run still _ this, of forum_application]
  show ?thesis by (fastforce simp: forum_application_def)
qed

end
