(* ===== verification/ProgramIdentifiers.thy ===== *)
theory ProgramIdentifiers imports Applications begin

text \<open>
  The identifier of a programme (internal/admissions/model.go) has one form: printing and parsing
  are inverse to each other, so that comparing the printed forms finds every repeated programme of a
  request.
\<close>

definition identifier_ok :: "program_identifier \<Rightarrow> bool" where
  "identifier_ok i \<longleftrightarrow> 100 \<le> pi_year i \<and> pi_year i \<le> 999 \<and> code_ok (pi_school i) \<and> code_ok (pi_program i)"

lemma dash_not_digit [simp]: "\<not> is_digit_char (CHR ''-'')" "\<not> is_digit_char (CHR ''+'')"
  by (simp_all add: is_digit_char_def byte_of_def)

lemma digits_no_dash: "list_all is_digit_char s \<Longrightarrow> CHR ''-'' \<notin> set s"
  by (auto simp: list_all_iff)

lemma itoa_three:
  assumes "100 \<le> n" "n \<le> 999"
  shows "itoa n = [digit_char (n div 100), digit_char (n div 10 mod 10), digit_char (n mod 10)]"
proof -
  have "itoa (n div 10 div 10) = [digit_char (n div 10 div 10)]"
    using assms by (subst itoa.simps) simp
  moreover have "itoa (n div 10) = itoa (n div 10 div 10) @ [digit_char (n div 10 mod 10)]"
    using assms by (subst itoa.simps) simp
  moreover have "itoa n = itoa (n div 10) @ [digit_char (n mod 10)]"
    using assms by (subst itoa.simps) simp
  ultimately show ?thesis by (simp add: div_mult2_eq[symmetric])
qed

lemma digit_char_byte: "is_digit_char c \<Longrightarrow> digit_char (byte_of c - 48) = c"
  by (simp add: is_digit_char_def digit_char_def byte_of_def)

lemma three_digits_value:
  assumes "list_all is_digit_char [a, b, c]" "100 \<le> digits_value [a, b, c]"
  shows "itoa (digits_value [a, b, c]) = [a, b, c]" "digits_value [a, b, c] \<le> 999"
proof -
  define x y z where d: "x = byte_of a - 48" "y = byte_of b - 48" "z = byte_of c - 48"
  have r: "x < 10" "y < 10" "z < 10" using assms(1) by (auto simp: d is_digit_char_def)
  have v: "digits_value [a, b, c] = 100 * x + 10 * y + z" by (simp add: digits_value_def d)
  from r v show le: "digits_value [a, b, c] \<le> 999" by simp
  have "(100 * x + 10 * y + z) div 100 = x" by (rule div_nat_eqI) (use r in auto)
  moreover have "(100 * x + 10 * y + z) div 10 = 10 * x + y" by (rule div_nat_eqI) (use r in auto)
  moreover have "(10 * x + y) mod 10 = y" using r by simp
  moreover have "(10 * (10 * x + y) + z) mod 10 = z" using r(3) by (simp only: mod_mult_self4 mod_less)
  then have "(100 * x + 10 * y + z) mod 10 = z" by (simp add: algebra_simps)
  ultimately show "itoa (digits_value [a, b, c]) = [a, b, c]"
    using itoa_three[OF assms(2) le] assms(1) unfolding v by (simp add: d digit_char_byte)
qed

lemma atoi_itoa: "atoi (itoa n) = Some (int n)"
proof -
  obtain c cs where c: "itoa n = c # cs" by (cases "itoa n") auto
  with itoa_digits[of n] have "c \<noteq> CHR ''-''" "c \<noteq> CHR ''+''" by auto
  with c have "\<not> has_prefix (itoa n) ''-''" "\<not> has_prefix (itoa n) ''+''" by (simp_all add: has_prefix_def)
  then show ?thesis by (simp add: atoi_def itoa_digits digits_value_itoa)
qed

lemma atoi_year:
  assumes "atoi s = Some n" "length s = 3" "100 \<le> n"
  shows "s = itoa (nat n)" "n \<le> 999"
proof -
  obtain a b c where s: "s = [a, b, c]" using assms(2) by (auto simp: length_Suc_conv numeral_3_eq_3)
  have small: "digits_value [b, c] \<le> 99" if "list_all is_digit_char [b, c]"
    using that by (auto simp: digits_value_def is_digit_char_def)
  have "\<not> has_prefix s ''-''" "\<not> has_prefix s ''+''"
    using assms(1,3) small by (auto simp: atoi_def Let_def s split: if_splits)
  with assms(1) have "list_all is_digit_char s" "n = int (digits_value s)"
    by (auto simp: atoi_def Let_def split: if_splits)
  with three_digits_value[of a b c] assms(3) show "s = itoa (nat n)" "n \<le> 999"
    unfolding s by auto
qed

lemma parse_identifier_string:
  assumes "identifier_ok i"
  shows "parse_program_identifier (identifier_string i) = Some i"
proof -
  let ?y = "itoa (nat (pi_year i))"
  have y: "length ?y = 3" using assms by (subst itoa_three) (auto simp: identifier_ok_def)
  have pad: "zero_pad 3 ?y = ?y" by (simp add: zero_pad_def y)
  have nd: "CHR ''-'' \<notin> set ?y" "CHR ''-'' \<notin> set (pi_school i)" "CHR ''-'' \<notin> set (pi_program i)"
    using assms itoa_digits[of "nat (pi_year i)"] digits_no_dash
    by (auto simp: identifier_ok_def code_ok_def three_digits_def)
  have "split_on (CHR ''-'') (identifier_string i) = [?y, pi_school i, pi_program i]"
    unfolding identifier_string_def pad using nd by (simp add: split_on_append split_on_single)
  with assms y show ?thesis by (auto simp: parse_program_identifier_def identifier_ok_def atoi_itoa)
qed

lemma identifier_string_parse:
  assumes "parse_program_identifier raw = Some i"
  shows "identifier_ok i" "identifier_string i = raw"
proof -
  from assms obtain y s p n where parts: "split_on (CHR ''-'') raw = [y, s, p]" "length y = 3" "code_ok s" "code_ok p"
    "atoi y = Some n" "100 \<le> n" "n \<le> 999" "i = \<lparr>pi_year = n, pi_school = s, pi_program = p\<rparr>"
    by (auto simp: parse_program_identifier_def split: list.splits option.splits if_splits)
  then show "identifier_ok i" by (simp add: identifier_ok_def)
  have "raw = y @ ''-'' @ s @ ''-'' @ p" using join_split[of "CHR ''-''" raw] parts(1) by simp
  moreover have "y = itoa (nat n)" by (rule atoi_year[OF parts(5,2,6)])
  ultimately show "identifier_string i = raw" using parts(2,8) by (simp add: identifier_string_def zero_pad_def)
qed

text \<open>
  A text is accepted as a programme identifier exactly when it is the printed form of
  a year from 100 to 999 and two codes of three digits other than 000, and then it denotes that
  identifier: two texts of one request denote the same programme only if they are equal.
\<close>

theorem program_identifier_roundtrip:
  "parse_program_identifier raw = Some i \<longleftrightarrow> identifier_ok i \<and> raw = identifier_string i"
  using parse_identifier_string identifier_string_parse by metis

end
