(* ===== verification/ChatStore.thy ===== *)
theory ChatStore imports ForumStore begin

text \<open>
  Chat, the data and the repository (internal/chat/model.go, security.go, postgres_repository.go
  and social.go): channels, messages with replies, forwards, pins and reactions, messages that
  arrive from Discord and Telegram, and the queue of messages that go out to them. What is
  published to the event hub is a log beside the tables, and so is what the senders were handed.
\<close>

section \<open>Tables\<close>

record channel_row =
  ch_id :: uuid
  ch_key :: string
  ch_name :: string
  ch_active :: bool
  ch_kind :: string
  ch_default :: bool
  ch_topic :: "string option"
  ch_archived :: "time option"

record chat_row =
  cm_id :: uuid
  cm_channel :: uuid
  cm_author :: "uuid option"
  cm_source :: string
  cm_hash :: "string option"
  cm_body :: string
  cm_status :: string
  cm_created :: time
  cm_edited :: "time option"
  cm_deleted :: "time option"
  cm_parent :: "uuid option"
  cm_forwarded :: "uuid option"
  cm_pinned :: "time option"
  cm_pinner :: "uuid option"

record chat_bridge =
  cb_message :: uuid
  cb_platform :: string
  cb_external :: string
  cb_status :: string
  cb_error :: "string option"
  cb_synced :: "time option"

record chat_job =
  cj_id :: uuid
  cj_message :: uuid
  cj_platform :: string
  cj_operation :: string
  cj_body :: string
  cj_status :: string
  cj_attempts :: int
  cj_max :: int
  cj_error :: "string option"
  cj_available :: time
  cj_created :: time
  cj_updated :: time

record chat_reaction =
  cx_message :: uuid
  cx_account :: uuid
  cx_emoji :: string

record chat_message =
  cv_id :: uuid
  cv_body :: string
  cv_source :: string
  cv_status :: string
  cv_created :: time
  cv_edited :: "time option"
  cv_channel :: string
  cv_parent :: "uuid option"
  cv_forwarded :: "uuid option"
  cv_pinned :: "time option"
  cv_replies :: int
  cv_reactions :: "reaction_tally list"

record chat_task =
  ck_id :: uuid
  ck_message :: uuid
  ck_platform :: string
  ck_operation :: string
  ck_body :: string
  ck_external :: string

record chat_tables =
  c_channels :: "channel_row list"
  c_messages :: "chat_row list"
  c_bridges :: "chat_bridge list"
  c_inbound :: "((string \<times> string) \<times> uuid) list"
  c_jobs :: "chat_job list"
  c_reactions :: "chat_reaction list"
  c_limiter :: "limiter option"
  c_announced :: "(string \<times> chat_message) list"
  c_posted :: "chat_task list"

record chat_channel =
  cc_key :: string
  cc_name :: string
  cc_kind :: string
  cc_topic :: string
  cc_default :: bool

record chat_external =
  xm_platform :: string
  xm_id :: string
  xm_author :: string
  xm_body :: string
  xm_operation :: string

record chat_repo =
  cr_env :: env
  cr_cursors :: cursor_json
  cr_live :: bool

datatype chat_error =
  ChInvalid | ChNotFound | ChForbidden | ChReaction | ChSQL | ChCrypto crypto_error | ChNoExternal

type_synonym 'a chat_op = "(chat_tables state, chat_error, 'a) op"

fun map_chat_error :: "stmt_error \<Rightarrow> chat_error" where
  "map_chat_error SUnique = ChNotFound"
| "map_chat_error _ = ChSQL"

definition ch_raw :: "stmt_error \<Rightarrow> chat_error" where
  "ch_raw e = ChSQL"

definition ch_missing :: "stmt_error \<Rightarrow> chat_error" where
  "ch_missing e = (if e = SNoRows then ChNotFound else ChSQL)"

section \<open>Validation\<close>

definition max_chat_length :: nat where
  "max_chat_length = 2000"

definition chat_control :: "string \<Rightarrow> bool" where
  "chat_control v \<longleftrightarrow> list_ex (\<lambda>(r, _). r < 0x20 \<or> r = 0x7F) (runes v)"

definition chat_body_control :: "string \<Rightarrow> bool" where
  "chat_body_control v \<longleftrightarrow>
     list_ex (\<lambda>(r, _). (r < 0x20 \<and> r \<noteq> 10 \<and> r \<noteq> 13 \<and> r \<noteq> 9) \<or> r = 0x7F) (runes v)"

definition chat_normalize_reaction :: "string \<Rightarrow> string option" where
  "chat_normalize_reaction raw =
     (let token = trim_space raw in
      if token = [] \<or> 32 < length token \<or> chat_control token then None else Some token)"

definition validate_chat_external :: "chat_external \<Rightarrow> bool" where
  "validate_chat_external i \<longleftrightarrow>
     (xm_platform i = ''discord'' \<or> xm_platform i = ''telegram'')
     \<and> \<not> (is_blank (xm_id i) \<or> 256 < length (xm_id i) \<or> is_blank (xm_author i) \<or> 256 < length (xm_author i)
          \<or> chat_control (xm_id i) \<or> chat_control (xm_author i))
     \<and> (xm_operation i = ''create'' \<or> xm_operation i = ''edit'' \<or> xm_operation i = ''delete'')
     \<and> \<not> (xm_operation i \<noteq> ''delete'' \<and> (is_blank (xm_body i) \<or> max_chat_length < length (xm_body i)
          \<or> chat_body_control (xm_body i)))"

definition chat_signature_ok :: "crypto \<Rightarrow> string \<Rightarrow> string \<Rightarrow> string \<Rightarrow> bool" where
  "chat_signature_ok cr secret body signature =
     (if secret = [] \<or> signature = [] then False
      else case hex_decode signature of
        None \<Rightarrow> False
      | Some got \<Rightarrow> constant_time_string_equal got (c_hmac_sha256 cr secret body))"

section \<open>Rows\<close>

definition default_channel_key :: string where
  "default_channel_key = ''lounge''"

text \<open>The display name of the default channel, in UTF-8.\<close>

definition lounge_name :: string where
  "lounge_name = map char_of [0xE9, 0x96, 0x92, 0xE8, 0x81, 0x8A :: nat]"

definition find_chat :: "chat_tables \<Rightarrow> uuid \<Rightarrow> chat_row option" where
  "find_chat t i = List.find (\<lambda>m. cm_id m = i) (c_messages t)"

definition find_channel :: "chat_tables \<Rightarrow> uuid \<Rightarrow> channel_row option" where
  "find_channel t i = List.find (\<lambda>c. ch_id c = i) (c_channels t)"

definition chat_live :: "chat_row \<Rightarrow> bool" where
  "chat_live m \<longleftrightarrow> cm_status m \<noteq> ''deleted''"

definition live_chat :: "chat_tables \<Rightarrow> uuid \<Rightarrow> bool" where
  "live_chat t i = list_ex (\<lambda>m. cm_id m = i \<and> chat_live m) (c_messages t)"

text \<open>What a \<^verbatim>\<open>RETURNING\<close> clause scans; the channel's key is filled in by the caller.\<close>

definition chat_message_of :: "chat_row \<Rightarrow> chat_message" where
  "chat_message_of m = \<lparr>cv_id = cm_id m, cv_body = cm_body m, cv_source = cm_source m, cv_status = cm_status m,
     cv_created = cm_created m, cv_edited = cm_edited m, cv_channel = [], cv_parent = None, cv_forwarded = None,
     cv_pinned = None, cv_replies = 0, cv_reactions = []\<rparr>"

definition announce :: "chat_repo \<Rightarrow> string \<Rightarrow> chat_message \<Rightarrow> unit chat_op" where
  "announce r key m s =
     (Inr (), if cr_live r
              then (fst s, (snd s)\<lparr>c_announced := c_announced (snd s)
                      @ [(''chat:'' @ (if key = [] then default_channel_key else key), m)]\<rparr>)
              else s)"

section \<open>Writing\<close>

text \<open>
  \<^verbatim>\<open>INSERT ... ON CONFLICT (channel_key) DO UPDATE SET is_active = TRUE RETURNING id\<close>. The migration
  seeds the channel as the default one; this insert would not.
\<close>

definition has_lounge :: "chat_tables \<Rightarrow> bool" where
  "has_lounge t = list_ex (\<lambda>c. ch_key c = default_channel_key) (c_channels t)"

definition ensure_channel :: "uuid chat_op" where
  "ensure_channel = map_errM ch_raw (stmt (\<lambda>(d, t).
     case List.find (\<lambda>c. ch_key c = default_channel_key) (c_channels t) of
       Some c \<Rightarrow> (Inr (ch_id c), (d, t\<lparr>c_channels := update_where (\<lambda>c. ch_key c = default_channel_key)
                                        (\<lambda>c. c\<lparr>ch_active := True\<rparr>) (c_channels t)\<rparr>))
     | None \<Rightarrow> (Inr (next_id d), (draw_id d, t\<lparr>c_channels := c_channels t
                 @ [\<lparr>ch_id = next_id d, ch_key = default_channel_key, ch_name = lounge_name, ch_active = True,
                     ch_kind = ''standard'', ch_default = False, ch_topic = None, ch_archived = None\<rparr>]\<rparr>))))"

definition new_chat ::
  "uuid \<Rightarrow> uuid option \<Rightarrow> string \<Rightarrow> string option \<Rightarrow> string \<Rightarrow> uuid option \<Rightarrow> uuid option \<Rightarrow> time \<Rightarrow> db \<Rightarrow> chat_row" where
  "new_chat chan acc platform hash body parent forwarded ts d =
     \<lparr>cm_id = next_id d, cm_channel = chan, cm_author = acc, cm_source = platform, cm_hash = hash, cm_body = body,
      cm_status = ''active'', cm_created = ts, cm_edited = None, cm_deleted = None, cm_parent = parent,
      cm_forwarded = forwarded, cm_pinned = None, cm_pinner = None\<rparr>"

definition known_source :: "string \<Rightarrow> bool" where
  "known_source p \<longleftrightarrow> p = ''website'' \<or> p = ''discord'' \<or> p = ''telegram''"

definition chat_chk :: "chat_row \<Rightarrow> bool" where
  "chat_chk m \<longleftrightarrow> pg_text (cm_body m) \<and> known_source (cm_source m) \<and> (\<not> pg_blank (cm_body m) \<or> cm_status m = ''deleted'')"

definition chat_fk :: "db \<Rightarrow> chat_tables \<Rightarrow> chat_row \<Rightarrow> bool" where
  "chat_fk d t m \<longleftrightarrow> find_channel t (cm_channel m) \<noteq> None
     \<and> (case cm_author m of None \<Rightarrow> True | Some a \<Rightarrow> has_account d a)
     \<and> (case cm_parent m of None \<Rightarrow> True | Some i \<Rightarrow> find_chat t i \<noteq> None)
     \<and> (case cm_forwarded m of None \<Rightarrow> True | Some i \<Rightarrow> find_chat t i \<noteq> None)"

definition add_chat :: "chat_row \<Rightarrow> db \<times> chat_tables \<Rightarrow> db \<times> chat_tables" where
  "add_chat m x = (draw_id (fst x), (snd x)\<lparr>c_messages := c_messages (snd x) @ [m]\<rparr>)"

definition insert_chat ::
  "uuid \<Rightarrow> uuid option \<Rightarrow> string \<Rightarrow> string option \<Rightarrow> string \<Rightarrow> uuid option \<Rightarrow> chat_message chat_op" where
  "insert_chat chan acc platform hash body parent =
     bindM db_clock (\<lambda>ts.
     bindM (map_errM map_chat_error
       (stmt_from (\<lambda>d t. Some (new_chat chan acc platform hash body parent None ts d)) chat_chk no_key chat_fk add_chat)) (\<lambda>m.
     ret ((chat_message_of m)\<lparr>cv_parent := cm_parent m\<rparr>)))"

definition delete_chat :: "time \<Rightarrow> chat_row \<Rightarrow> chat_row" where
  "delete_chat ts m = m\<lparr>cm_status := ''deleted'', cm_body := [], cm_deleted := Some ts\<rparr>"

definition edit_chat :: "string \<Rightarrow> time \<Rightarrow> chat_row \<Rightarrow> chat_row" where
  "edit_chat body ts m = m\<lparr>cm_body := body, cm_status := ''edited'', cm_edited := Some ts\<rparr>"

definition revise_chat :: "string \<Rightarrow> string \<Rightarrow> time \<Rightarrow> chat_row \<Rightarrow> chat_row" where
  "revise_chat op body ts m = (if op = ''delete'' then delete_chat ts m else edit_chat body ts m)"

definition update_existing_message :: "uuid \<Rightarrow> string \<Rightarrow> string \<Rightarrow> chat_message chat_op" where
  "update_existing_message i op body =
     bindM db_clock (\<lambda>ts.
     bindM (map_errM map_chat_error
       (stmt_from (\<lambda>d t. map_option (revise_chat op body ts) (find_chat t i)) chat_chk no_key (\<lambda>_ _ _. True)
          (\<lambda>m (d, t). (d, t\<lparr>c_messages := update_where (\<lambda>m. cm_id m = i) (revise_chat op body ts) (c_messages t)\<rparr>)))) (\<lambda>m.
     ret (chat_message_of m)))"

definition new_job :: "uuid \<Rightarrow> string \<Rightarrow> string \<Rightarrow> string \<Rightarrow> time \<Rightarrow> db \<Rightarrow> chat_job" where
  "new_job i platform op body ts d =
     \<lparr>cj_id = next_id d, cj_message = i, cj_platform = platform, cj_operation = op, cj_body = body,
      cj_status = ''pending'', cj_attempts = 0, cj_max = 8, cj_error = None, cj_available = ts, cj_created = ts,
      cj_updated = ts\<rparr>"

definition insert_job :: "uuid \<Rightarrow> string \<Rightarrow> string \<Rightarrow> string \<Rightarrow> unit chat_op" where
  "insert_job i platform op body =
     bindM db_clock (\<lambda>ts.
     bindM (map_errM ch_raw
       (stmt_from (\<lambda>d t. Some (new_job i platform op body ts d))
          (\<lambda>j. pg_text (cj_body j) \<and> cj_operation j \<in> {''create'', ''edit'', ''delete''}) no_key
          (\<lambda>d t j. find_chat t (cj_message j) \<noteq> None)
          (\<lambda>j (d, t). (draw_id d, t\<lparr>c_jobs := c_jobs t @ [j]\<rparr>)))) (\<lambda>_. ret ()))"

definition create_outbound_tasks_except :: "uuid \<Rightarrow> string \<Rightarrow> string \<Rightarrow> string \<Rightarrow> unit chat_op" where
  "create_outbound_tasks_except i except op body =
     bindM (if except = ''discord'' then ret () else insert_job i ''discord'' op body) (\<lambda>_.
     if except = ''telegram'' then ret () else insert_job i ''telegram'' op body)"

definition create_outbound_tasks :: "uuid \<Rightarrow> string \<Rightarrow> string \<Rightarrow> unit chat_op" where
  "create_outbound_tasks i op body = create_outbound_tasks_except i [] op body"

definition create_website_message :: "chat_repo \<Rightarrow> uuid \<Rightarrow> string \<Rightarrow> chat_message chat_op" where
  "create_website_message r acc body =
     bindM (in_tx ch_raw (
       bindM ensure_channel (\<lambda>chan.
       bindM (insert_chat chan (Some acc) ''website'' None body None) (\<lambda>m.
       bindM (create_outbound_tasks (cv_id m) ''create'' (cv_body m)) (\<lambda>_.
       ret m))))) (\<lambda>m.
     bindM (announce r default_channel_key m) (\<lambda>_. ret m))"

definition bridge_status :: "string \<Rightarrow> string" where
  "bridge_status op = (if op = ''edit'' then ''edited'' else if op = ''delete'' then ''deleted'' else ''sent'')"

section \<open>Messages from the platforms\<close>

definition get_chat_message :: "uuid \<Rightarrow> chat_message chat_op" where
  "get_chat_message i = map_errM ch_missing (stmt_row (\<lambda>d t. map_option chat_message_of (find_chat t i)))"

definition insert_chat_inbound :: "string \<Rightarrow> string \<Rightarrow> uuid \<Rightarrow> unit chat_op" where
  "insert_chat_inbound platform ext i =
     map_errM map_chat_error (stmt_insert (\<lambda>d t. pg_text ext) (\<lambda>d t. (platform, ext) \<notin> fst ` set (c_inbound t))
       (\<lambda>(d, t). (d, t\<lparr>c_inbound := c_inbound t @ [((platform, ext), i)]\<rparr>)) (\<lambda>_ _. ()))"

definition insert_chat_bridge :: "uuid \<Rightarrow> string \<Rightarrow> string \<Rightarrow> unit chat_op" where
  "insert_chat_bridge i platform ext =
     bindM db_clock (\<lambda>ts. map_errM map_chat_error (stmt_insert (\<lambda>d t. pg_text ext)
       (\<lambda>d t. list_all (\<lambda>b. cb_platform b = platform \<longrightarrow> cb_message b \<noteq> i \<and> cb_external b \<noteq> ext) (c_bridges t))
       (\<lambda>(d, t). (d, t\<lparr>c_bridges := c_bridges t @ [\<lparr>cb_message = i, cb_platform = platform, cb_external = ext,
          cb_status = ''sent'', cb_error = None, cb_synced = Some ts\<rparr>]\<rparr>)) (\<lambda>_ _. ())))"

text \<open>The first delivery of an external message, whatever its operation, creates it.\<close>

definition first_delivery :: "chat_repo \<Rightarrow> uuid \<Rightarrow> chat_external \<Rightarrow> string \<Rightarrow> chat_message chat_op" where
  "first_delivery r chan i key =
     bindM (liftM (case lookup_hash (e_crypto (cr_env r)) key (xm_author i) of
                     Inl e \<Rightarrow> Inl (ChCrypto e) | Inr h \<Rightarrow> Inr h)) (\<lambda>hash.
     bindM (insert_chat chan None (xm_platform i) (Some hash) (xm_body i) None) (\<lambda>m.
     bindM (insert_chat_inbound (xm_platform i) (xm_id i) (cv_id m)) (\<lambda>_.
     bindM (insert_chat_bridge (cv_id m) (xm_platform i) (xm_id i)) (\<lambda>_.
     bindM (create_outbound_tasks_except (cv_id m) (xm_platform i) ''create'' (cv_body m)) (\<lambda>_.
     ret m)))))"

definition later_revision :: "chat_external \<Rightarrow> uuid \<Rightarrow> chat_message chat_op" where
  "later_revision i known =
     bindM (update_existing_message known (xm_operation i) (xm_body i)) (\<lambda>m.
     bindM db_clock (\<lambda>ts.
     bindM (map_errM ch_raw (stmt_write (\<lambda>t. t\<lparr>c_bridges := update_where
              (\<lambda>b. cb_message b = cv_id m \<and> cb_platform b = xm_platform i)
              (\<lambda>b. b\<lparr>cb_status := bridge_status (xm_operation i), cb_synced := Some ts, cb_error := None\<rparr>)
              (c_bridges t)\<rparr>) (\<lambda>_ _. ()))) (\<lambda>_.
     bindM (create_outbound_tasks_except (cv_id m) (xm_platform i) (xm_operation i) (xm_body i)) (\<lambda>_.
     ret m))))"

text \<open>A repeated delivery of \<^verbatim>\<open>create\<close> commits and answers without an announcement.\<close>

definition apply_external_message :: "chat_repo \<Rightarrow> chat_external \<Rightarrow> string \<Rightarrow> chat_message chat_op" where
  "apply_external_message r i key =
     (if \<not> validate_chat_external i then fail ChInvalid
      else bindM (in_tx ch_raw (
        bindM ensure_channel (\<lambda>chan.
        catchM (stmt (\<lambda>x. (if \<not> pg_text (xm_id i) then Inl SCheck
                            else case map_of (c_inbound (snd x)) (xm_platform i, xm_id i) of
                                   None \<Rightarrow> Inl SNoRows | Some k \<Rightarrow> Inr k, x)))
          (\<lambda>e. if e \<noteq> SNoRows then fail ChSQL else bindM (first_delivery r chan i key) (\<lambda>m. ret (True, m)))
          (\<lambda>known. if xm_operation i = ''create'' then bindM (get_chat_message known) (\<lambda>m. ret (False, m))
                   else bindM (later_revision i known) (\<lambda>m. ret (True, m)))))) (\<lambda>(news, m).
      bindM (if news then announce r default_channel_key m else ret ()) (\<lambda>_. ret m)))"

section \<open>Reading\<close>

definition list_channels :: "chat_channel list chat_op" where
  "list_channels = map_errM ch_raw (stmt_rows (\<lambda>d t.
     map (\<lambda>c. \<lparr>cc_key = ch_key c, cc_name = ch_name c, cc_kind = ch_kind c, cc_topic = or_empty (ch_topic c),
               cc_default = ch_default c\<rparr>)
       (sort_key (\<lambda>c. (\<not> ch_default c, ch_name c)) (filter (\<lambda>c. ch_active c \<and> ch_archived c = None) (c_channels t)))))"

definition open_channel :: "chat_tables \<Rightarrow> string \<Rightarrow> channel_row option" where
  "open_channel t key = List.find (\<lambda>c. ch_key c = key \<and> ch_active c \<and> ch_archived c = None) (c_channels t)"

definition channel_id :: "string \<Rightarrow> (uuid \<times> bool) chat_op" where
  "channel_id key = map_errM ch_missing (stmt (\<lambda>x.
     (if \<not> pg_text key then Inl SCheck
      else case open_channel (snd x) key of None \<Rightarrow> Inl SNoRows | Some c \<Rightarrow> Inr (ch_id c, ch_default c), x)))"

text \<open>The columns of \<^verbatim>\<open>messageSelect\<close>, joined with the channel.\<close>

definition listed_chat :: "chat_tables \<Rightarrow> chat_row \<Rightarrow> chat_message option" where
  "listed_chat t m = map_option (\<lambda>c. (chat_message_of m)\<lparr>cv_parent := cm_parent m, cv_forwarded := cm_forwarded m,
     cv_pinned := cm_pinned m, cv_channel := ch_key c\<rparr>) (find_channel t (cm_channel m))"

definition chat_key :: "chat_message \<Rightarrow> time \<times> uuid" where
  "chat_key m = (cv_created m, cv_id m)"

definition channel_messages :: "chat_tables \<Rightarrow> string \<Rightarrow> chat_message list" where
  "channel_messages t key = filter (\<lambda>m. cv_channel m = key \<and> cv_status m \<noteq> ''deleted'' \<and> cv_parent m = None)
     (List.map_filter (listed_chat t) (c_messages t))"

definition thread_replies :: "chat_tables \<Rightarrow> uuid \<Rightarrow> chat_message list" where
  "thread_replies t i = filter (\<lambda>m. cv_parent m = Some i \<and> cv_status m \<noteq> ''deleted'')
     (List.map_filter (listed_chat t) (c_messages t))"

definition pinned_messages :: "chat_tables \<Rightarrow> string \<Rightarrow> chat_message list" where
  "pinned_messages t key = filter (\<lambda>m. cv_channel m = key \<and> cv_pinned m \<noteq> None \<and> cv_status m \<noteq> ''deleted'')
     (List.map_filter (listed_chat t) (c_messages t))"

definition chat_tally :: "uuid \<Rightarrow> chat_reaction list \<Rightarrow> string \<Rightarrow> reaction_tally" where
  "chat_tally viewer rs e = (let same = filter (\<lambda>r. cx_emoji r = e) rs in
     \<lparr>tl_emoji = e, tl_count = int (length same), tl_mine = list_ex (\<lambda>r. cx_account r = viewer) same\<rparr>)"

definition chat_tallies :: "chat_tables \<Rightarrow> uuid \<Rightarrow> uuid \<Rightarrow> reaction_tally list" where
  "chat_tallies t viewer i = (let rs = filter (\<lambda>r. cx_message r = i) (c_reactions t) in
     sort_key (\<lambda>x. (- tl_count x, tl_emoji x)) (map (chat_tally viewer rs) (remdups (map cx_emoji rs))))"

definition reply_count :: "chat_tables \<Rightarrow> uuid \<Rightarrow> int" where
  "reply_count t i = int (length (filter (\<lambda>m. cm_parent m = Some i \<and> chat_live m) (c_messages t)))"

definition enrich :: "chat_message list \<Rightarrow> uuid \<Rightarrow> chat_message list chat_op" where
  "enrich ms viewer =
     (if ms = [] then ret ms
      else bindM (map_errM ch_raw (stmt_rows (\<lambda>d t. map (\<lambda>m. m\<lparr>cv_reactions := chat_tallies t viewer (cv_id m)\<rparr>) ms))) (\<lambda>ms1.
           map_errM ch_raw (stmt_rows (\<lambda>d t. map (\<lambda>m. m\<lparr>cv_replies := reply_count t (cv_id m)\<rparr>) ms1))))"

definition chat_next :: "chat_repo \<Rightarrow> chat_message list \<Rightarrow> int \<Rightarrow> string" where
  "chat_next r ms l = (if ms = [] then []
     else next_cursor (cr_env r) (cr_cursors r) (int (length ms)) l (cv_created (last ms)) (cv_id (last ms)))"

definition list_channel_messages ::
  "chat_repo \<Rightarrow> string \<Rightarrow> uuid \<Rightarrow> int \<Rightarrow> cursor \<Rightarrow> (chat_message list \<times> string) chat_op" where
  "list_channel_messages r key viewer l0 after =
     (let l = clamp_limit l0 50 100 in
      bindM (channel_id key) (\<lambda>_.
      bindM (map_errM ch_raw (stmt_rows (\<lambda>d t. take (nat l)
        (filter (\<lambda>m. case position_of (cr_env r) after of None \<Rightarrow> True | Some k \<Rightarrow> chat_key m < k)
           (rev (sort_key chat_key (channel_messages t key))))))) (\<lambda>ms0.
      bindM (enrich ms0 viewer) (\<lambda>ms.
      ret (ms, chat_next r ms l)))))"

definition list_messages :: "chat_repo \<Rightarrow> int \<Rightarrow> cursor \<Rightarrow> (chat_message list \<times> string) chat_op" where
  "list_messages r l after = list_channel_messages r default_channel_key 0 l after"

text \<open>Replies are listed oldest first.\<close>

definition list_thread_replies ::
  "chat_repo \<Rightarrow> uuid \<Rightarrow> uuid \<Rightarrow> int \<Rightarrow> cursor \<Rightarrow> (chat_message list \<times> string) chat_op" where
  "list_thread_replies r parent viewer l0 after =
     (let l = clamp_limit l0 50 100 in
      bindM (map_errM ch_raw (stmt_rows (\<lambda>d t. find_chat t parent \<noteq> None))) (\<lambda>there.
      if \<not> there then fail ChNotFound else
      bindM (map_errM ch_raw (stmt_rows (\<lambda>d t. take (nat l)
        (filter (\<lambda>m. case position_of (cr_env r) after of None \<Rightarrow> True | Some k \<Rightarrow> k < chat_key m)
           (sort_key chat_key (thread_replies t parent)))))) (\<lambda>ms0.
      bindM (enrich ms0 viewer) (\<lambda>ms.
      ret (ms, chat_next r ms l)))))"

definition pin_time :: "chat_message \<Rightarrow> time" where
  "pin_time m = (case cv_pinned m of None \<Rightarrow> 0 | Some ts \<Rightarrow> ts)"

definition list_pinned :: "string \<Rightarrow> uuid \<Rightarrow> chat_message list chat_op" where
  "list_pinned key viewer =
     bindM (channel_id key) (\<lambda>_.
     bindM (map_errM ch_raw (stmt_rows (\<lambda>d t. take 100 (sort_key (\<lambda>m. - pin_time m) (pinned_messages t key))))) (\<lambda>ms.
     enrich ms viewer))"

end
