(* ===== verification/ChatActions.thy ===== *)
theory ChatActions imports ChatStore begin

text \<open>
  Chat, what members do (internal/chat/social.go) and how messages go out (the outbox half of
  postgres_repository.go, worker.go and platforms.go). The HTTP calls to Discord and Telegram are
  a parameter.
\<close>

section \<open>Members\<close>

text \<open>The parent must exist, stand in the channel and be no reply itself.\<close>

definition check_parent :: "uuid \<Rightarrow> uuid option \<Rightarrow> unit chat_op" where
  "check_parent chan parent =
     (case parent of
        None \<Rightarrow> ret ()
      | Some p \<Rightarrow>
          bindM (map_errM ch_missing (stmt_row (\<lambda>d t.
            map_option (\<lambda>m. (cm_channel m, cm_parent m \<noteq> None))
              (List.find (\<lambda>m. cm_id m = p \<and> chat_live m) (c_messages t))))) (\<lambda>(parent_channel, has_parent).
          if parent_channel \<noteq> chan \<or> has_parent then fail ChInvalid else ret ()))"

definition create_channel_message ::
  "chat_repo \<Rightarrow> string \<Rightarrow> uuid \<Rightarrow> string \<Rightarrow> uuid option \<Rightarrow> chat_message chat_op" where
  "create_channel_message r key acc body parent =
     bindM (channel_id key) (\<lambda>(chan, is_default).
     bindM (in_tx ch_raw (
       bindM (check_parent chan parent) (\<lambda>_.
       bindM (insert_chat chan (Some acc) ''website'' None body parent) (\<lambda>m.
       bindM (if is_default \<and> parent = None then create_outbound_tasks (cv_id m) ''create'' (cv_body m) else ret ()) (\<lambda>_.
       ret m))))) (\<lambda>m0. let m = m0\<lparr>cv_channel := key\<rparr> in
     bindM (if parent = None then announce r key m else ret ()) (\<lambda>_. ret m)))"

definition forward_message :: "chat_repo \<Rightarrow> uuid \<Rightarrow> string \<Rightarrow> uuid \<Rightarrow> chat_message chat_op" where
  "forward_message r source key acc =
     bindM (channel_id key) (\<lambda>(chan, is_default).
     bindM db_clock (\<lambda>ts.
     bindM (in_tx ch_raw (
       bindM (map_errM ch_missing (stmt_row (\<lambda>d t.
         map_option cm_body (List.find (\<lambda>m. cm_id m = source \<and> chat_live m) (c_messages t))))) (\<lambda>body.
       bindM (map_errM map_chat_error
         (stmt_from (\<lambda>d t. Some (new_chat chan (Some acc) ''website'' None body None (Some source) ts d))
            chat_chk no_key chat_fk add_chat)) (\<lambda>row.
       let m = (chat_message_of row)\<lparr>cv_parent := cm_parent row, cv_forwarded := cm_forwarded row\<rparr> in
       bindM (if is_default then create_outbound_tasks (cv_id m) ''create'' (cv_body m) else ret ()) (\<lambda>_.
       ret m))))) (\<lambda>m0. let m = m0\<lparr>cv_channel := key\<rparr> in
     bindM (announce r key m) (\<lambda>_. ret m))))"

text \<open>The row of an owner-only change: its channel's key and whether that is the bridged one.\<close>

definition lock_owned_website_message :: "uuid \<Rightarrow> uuid \<Rightarrow> (string \<times> bool) chat_op" where
  "lock_owned_website_message i acc =
     bindM (map_errM ch_missing (stmt_row (\<lambda>d t.
       case find_chat t i of
         None \<Rightarrow> None
       | Some m \<Rightarrow> map_option (\<lambda>c. (m, ch_key c, ch_default c)) (find_channel t (cm_channel m))))) (\<lambda>(m, info).
     if cm_status m = ''deleted'' then fail ChNotFound
     else if cm_source m \<noteq> ''website'' \<or> cm_author m \<noteq> Some acc then fail ChForbidden
     else ret info)"

definition change_own_message :: "chat_repo \<Rightarrow> uuid \<Rightarrow> uuid \<Rightarrow> string \<Rightarrow> string \<Rightarrow> chat_message chat_op" where
  "change_own_message r i acc op body =
     bindM (in_tx ch_raw (
       bindM (lock_owned_website_message i acc) (\<lambda>(key, is_default).
       bindM (update_existing_message i op body) (\<lambda>m.
       bindM (if is_default then create_outbound_tasks_except i [] op body else ret ()) (\<lambda>_.
       ret (key, m)))))) (\<lambda>(key, m0). let m = m0\<lparr>cv_channel := key\<rparr> in
     bindM (announce r key m) (\<lambda>_. ret m))"

definition edit_own_message :: "chat_repo \<Rightarrow> uuid \<Rightarrow> uuid \<Rightarrow> string \<Rightarrow> chat_message chat_op" where
  "edit_own_message r i acc body = change_own_message r i acc ''edit'' body"

definition withdraw_own_message :: "chat_repo \<Rightarrow> uuid \<Rightarrow> uuid \<Rightarrow> chat_message chat_op" where
  "withdraw_own_message r i acc = change_own_message r i acc ''delete'' []"

section \<open>Reactions and pins\<close>

definition chat_reaction_chk :: "chat_reaction \<Rightarrow> bool" where
  "chat_reaction_chk x \<longleftrightarrow> rune_count (cx_emoji x) \<le> 32 \<and> pg_text (cx_emoji x) \<and> \<not> pg_blank (cx_emoji x)"

definition insert_chat_reaction :: "chat_reaction \<Rightarrow> (chat_tables state, stmt_error, nat) op" where
  "insert_chat_reaction x = stmt (\<lambda>(d, t).
     if \<not> pg_text (cx_emoji x) then (Inl SCheck, (d, t))
     else if \<not> live_chat t (cx_message x) then (Inr 0, (d, t))
     else if \<not> chat_reaction_chk x then (Inl SCheck, (d, t))
     else if x \<in> set (c_reactions t) then (Inr 0, (d, t))
     else if \<not> has_account d (cx_account x) then (Inl SForeign, (d, t))
     else (Inr 1, (d, t\<lparr>c_reactions := c_reactions t @ [x]\<rparr>)))"

text \<open>No row changed: is the message gone, or the change already made?\<close>

definition unless_gone :: "uuid \<Rightarrow> nat \<Rightarrow> unit chat_op" where
  "unless_gone i n =
     (if n = 0 then bindM (map_errM ch_raw (stmt_rows (\<lambda>d t. live_chat t i))) (\<lambda>there.
        if \<not> there then fail ChNotFound else ret ())
      else ret ())"

definition set_chat_reaction :: "uuid \<Rightarrow> uuid \<Rightarrow> string \<Rightarrow> unit chat_op" where
  "set_chat_reaction i acc emoji =
     bindM (map_errM ch_raw (insert_chat_reaction \<lparr>cx_message = i, cx_account = acc, cx_emoji = emoji\<rparr>)) (unless_gone i)"

definition remove_chat_reaction :: "uuid \<Rightarrow> uuid \<Rightarrow> string \<Rightarrow> unit chat_op" where
  "remove_chat_reaction i acc emoji =
     map_errM ch_raw (stmt_insert (\<lambda>d t. pg_text emoji) (\<lambda>_ _. True)
       (\<lambda>(d, t). (d, t\<lparr>c_reactions := filter (\<lambda>x. x \<noteq> \<lparr>cx_message = i, cx_account = acc, cx_emoji = emoji\<rparr>)
                          (c_reactions t)\<rparr>)) (\<lambda>_ _. ()))"

definition pin_chat :: "uuid \<Rightarrow> time \<Rightarrow> chat_row \<Rightarrow> chat_row" where
  "pin_chat admin ts m = m\<lparr>cm_pinned := Some ts, cm_pinner := Some admin\<rparr>"

definition unpin_chat :: "chat_row \<Rightarrow> chat_row" where
  "unpin_chat m = m\<lparr>cm_pinned := None, cm_pinner := None\<rparr>"

text \<open>The foreign key on the administrator is looked at only when a row is pinned.\<close>

definition pinnable :: "uuid \<Rightarrow> chat_row \<Rightarrow> bool" where
  "pinnable i m \<longleftrightarrow> cm_id m = i \<and> chat_live m \<and> cm_pinned m = None"

definition set_pinned :: "uuid \<Rightarrow> uuid \<Rightarrow> bool \<Rightarrow> unit chat_op" where
  "set_pinned i admin pinned =
     bindM db_clock (\<lambda>ts.
     bindM (map_errM ch_raw
       (if pinned
        then stmt_insert (\<lambda>d t. list_ex (pinnable i) (c_messages t) \<longrightarrow> has_account d admin) (\<lambda>_ _. True)
               (\<lambda>(d, t). (d, t\<lparr>c_messages := update_where (pinnable i) (pin_chat admin ts) (c_messages t)\<rparr>))
               (\<lambda>d t. affected (pinnable i) (c_messages t))
        else stmt_write (\<lambda>t. t\<lparr>c_messages := update_where (\<lambda>m. cm_id m = i \<and> cm_pinned m \<noteq> None) unpin_chat (c_messages t)\<rparr>)
               (\<lambda>d t. affected (\<lambda>m. cm_id m = i \<and> cm_pinned m \<noteq> None) (c_messages t)))) (unless_gone i))"

section \<open>The outbox\<close>

definition job_due :: "time \<Rightarrow> chat_job \<Rightarrow> bool" where
  "job_due ts j \<longleftrightarrow> (cj_status j = ''pending'' \<or> cj_status j = ''failed'') \<and> cj_available j \<le> ts
     \<or> cj_status j = ''processing'' \<and> cj_updated j < ts - 5 * minute"

definition job_blocked :: "chat_job list \<Rightarrow> chat_job \<Rightarrow> bool" where
  "job_blocked js j \<longleftrightarrow> list_ex (\<lambda>p. cj_message p = cj_message j \<and> cj_platform p = cj_platform j \<and> cj_id p \<noteq> cj_id j
     \<and> cj_created p < cj_created j \<and> cj_status p \<noteq> ''sent'') js"

definition claimable_jobs :: "chat_tables \<Rightarrow> time \<Rightarrow> nat \<Rightarrow> chat_job list" where
  "claimable_jobs t ts n = take n (sort_key cj_created
     (filter (\<lambda>j. job_due ts j \<and> \<not> job_blocked (c_jobs t) j) (c_jobs t)))"

definition task_of :: "chat_tables \<Rightarrow> chat_job \<Rightarrow> chat_task" where
  "task_of t j = \<lparr>ck_id = cj_id j, ck_message = cj_message j, ck_platform = cj_platform j, ck_operation = cj_operation j,
     ck_body = cj_body j,
     ck_external = (case List.find (\<lambda>b. cb_message b = cj_message j \<and> cb_platform b = cj_platform j) (c_bridges t) of
                      None \<Rightarrow> [] | Some b \<Rightarrow> cb_external b)\<rparr>"

fun take_jobs :: "time \<Rightarrow> chat_task list \<Rightarrow> unit chat_op" where
  "take_jobs ts [] = ret ()"
| "take_jobs ts (k # ks) =
     bindM (map_errM ch_raw (stmt_write (\<lambda>t. t\<lparr>c_jobs := update_where (\<lambda>j. cj_id j = ck_id k)
              (\<lambda>j. j\<lparr>cj_status := ''processing'', cj_attempts := cj_attempts j + 1, cj_updated := ts\<rparr>)
              (c_jobs t)\<rparr>) (\<lambda>_ _. ()))) (\<lambda>_.
     take_jobs ts ks)"

definition claim_chat_outbox :: "int \<Rightarrow> chat_task list chat_op" where
  "claim_chat_outbox limit0 =
     (let n = nat (if limit0 < 1 \<or> 100 < limit0 then 20 else limit0) in
      bindM db_clock (\<lambda>ts. in_tx ch_raw (
        bindM (map_errM ch_raw (stmt_rows (\<lambda>d t. map (task_of t) (claimable_jobs t ts n)))) (\<lambda>tasks.
        bindM (take_jobs ts tasks) (\<lambda>_.
        ret tasks)))))"

definition upsert_chat_bridge :: "chat_task \<Rightarrow> string \<Rightarrow> unit chat_op" where
  "upsert_chat_bridge k ext =
     bindM db_clock (\<lambda>ts. map_errM map_chat_error (stmt_insert
       (\<lambda>d t. pg_text ext \<and> find_chat t (ck_message k) \<noteq> None)
       (\<lambda>d t. list_all (\<lambda>b. cb_platform b = ck_platform k \<and> cb_external b = ext \<longrightarrow> cb_message b = ck_message k) (c_bridges t))
       (\<lambda>(d, t). let mine = (\<lambda>b. cb_message b = ck_message k \<and> cb_platform b = ck_platform k);
                     status = bridge_status (ck_operation k) in
          if list_ex mine (c_bridges t)
          then (d, t\<lparr>c_bridges := update_where mine
                 (\<lambda>b. b\<lparr>cb_external := ext, cb_status := status, cb_synced := Some ts, cb_error := None\<rparr>) (c_bridges t)\<rparr>)
          else (d, t\<lparr>c_bridges := c_bridges t @ [\<lparr>cb_message = ck_message k, cb_platform = ck_platform k,
                 cb_external = ext, cb_status = status, cb_error = None, cb_synced = Some ts\<rparr>]\<rparr>))
       (\<lambda>_ _. ())))"

definition mark_chat_sent :: "chat_task \<Rightarrow> string \<Rightarrow> unit chat_op" where
  "mark_chat_sent k ext =
     (if is_blank ext then fail ChNoExternal
      else bindM db_clock (\<lambda>ts. in_tx ch_raw (
        bindM (upsert_chat_bridge k ext) (\<lambda>_.
        map_errM ch_raw (stmt_write (\<lambda>t. t\<lparr>c_jobs := update_where (\<lambda>j. cj_id j = ck_id k)
          (\<lambda>j. j\<lparr>cj_status := ''sent'', cj_updated := ts\<rparr>) (c_jobs t)\<rparr>) (\<lambda>_ _. ()))))))"

definition fail_job :: "string \<Rightarrow> time \<Rightarrow> chat_job \<Rightarrow> chat_job" where
  "fail_job message ts j = j\<lparr>cj_status := (if cj_max j \<le> cj_attempts j then ''abandoned'' else ''failed''),
     cj_error := Some message, cj_available := ts + 30 * second * min (max (cj_attempts j) 1) 10, cj_updated := ts\<rparr>"

definition mark_chat_failed :: "chat_task \<Rightarrow> string \<Rightarrow> unit chat_op" where
  "mark_chat_failed k message0 =
     (let message = (if 500 < length message0 then take 500 message0 else message0) in
      bindM db_clock (\<lambda>ts. map_errM ch_raw (stmt_insert (\<lambda>d t. pg_text message) (\<lambda>_ _. True)
        (\<lambda>(d, t). (d, t\<lparr>c_jobs := update_where (\<lambda>j. cj_id j = ck_id k) (fail_job message ts) (c_jobs t)\<rparr>)) (\<lambda>_ _. ()))))"

section \<open>Senders\<close>

record platform_config =
  pf_token :: string
  pf_target :: string

text \<open>\<^verbatim>\<open>NewDiscordSender\<close> and \<^verbatim>\<open>NewTelegramSender\<close> differ in the name of the second setting.\<close>

definition new_platform_sender :: "string \<Rightarrow> string \<Rightarrow> platform_config option" where
  "new_platform_sender token0 target0 =
     (let token = trim_space token0; target = trim_space target0 in
      if token = [] \<or> target = [] then None else Some \<lparr>pf_token = token, pf_target = target\<rparr>)"

text \<open>
  The calls: channel or chat, then the message. \<open>http\<close> makes one and gives the id that the response
  holds (\<open>Inr []\<close> when it holds none), or the text of the error.
\<close>

datatype platform_call =
    PostDiscord string string | PatchDiscord string string string | RemoveDiscord string string
  | PostTelegram string string | EditTelegram string int string | RemoveTelegram string int

definition keep_external :: "string \<Rightarrow> string + string \<Rightarrow> string + string" where
  "keep_external ext x = (case x of Inl e \<Rightarrow> Inl e | Inr _ \<Rightarrow> Inr ext)"

definition discord_send_task ::
  "platform_config \<Rightarrow> (platform_call \<Rightarrow> string + string) \<Rightarrow> chat_task \<Rightarrow> string + string" where
  "discord_send_task c http k =
     (if pf_token c = [] \<or> pf_target c = [] then Inl ''chat platform is not configured''
      else if ck_platform k \<noteq> ''discord'' then Inl (''discord sender received '' @ ck_platform k @ '' task'')
      else if ck_operation k = ''create'' then
        (case http (PostDiscord (pf_target c) (ck_body k)) of
           Inl e \<Rightarrow> Inl e
         | Inr i \<Rightarrow> if i = [] then Inl ''discord response did not contain a message id'' else Inr i)
      else if ck_operation k = ''edit'' then
        (if ck_external k = [] then Inl ''discord edit is missing external message id''
         else keep_external (ck_external k) (http (PatchDiscord (pf_target c) (ck_external k) (ck_body k))))
      else if ck_operation k = ''delete'' then
        (if ck_external k = [] then Inl ''discord delete is missing external message id''
         else keep_external (ck_external k) (http (RemoveDiscord (pf_target c) (ck_external k))))
      else Inl ''invalid chat message'')"

definition telegram_message_id :: "string \<Rightarrow> int option" where
  "telegram_message_id v =
     (case atoi v of None \<Rightarrow> None | Some n \<Rightarrow> if n \<le> 0 \<or> 2 ^ 63 \<le> n then None else Some n)"

definition telegram_send_task ::
  "platform_config \<Rightarrow> (platform_call \<Rightarrow> string + string) \<Rightarrow> chat_task \<Rightarrow> string + string" where
  "telegram_send_task c http k =
     (if pf_token c = [] \<or> pf_target c = [] then Inl ''chat platform is not configured''
      else if ck_platform k \<noteq> ''telegram'' then Inl (''telegram sender received '' @ ck_platform k @ '' task'')
      else if ck_operation k = ''create'' then
        (case http (PostTelegram (pf_target c) (ck_body k)) of
           Inl e \<Rightarrow> Inl e
         | Inr i \<Rightarrow> if telegram_message_id i = None then Inl ''telegram response did not contain a message id'' else Inr i)
      else if ck_operation k = ''edit'' then
        (if ck_external k = [] then Inl ''telegram edit is missing external message id''
         else case telegram_message_id (ck_external k) of
                None \<Rightarrow> Inl ''telegram external message id is invalid''
              | Some n \<Rightarrow> keep_external (ck_external k) (http (EditTelegram (pf_target c) n (ck_body k))))
      else if ck_operation k = ''delete'' then
        (if ck_external k = [] then Inl ''telegram delete is missing external message id''
         else case telegram_message_id (ck_external k) of
                None \<Rightarrow> Inl ''telegram external message id is invalid''
              | Some n \<Rightarrow> keep_external (ck_external k) (http (RemoveTelegram (pf_target c) n)))
      else Inl ''invalid chat message'')"

section \<open>The worker\<close>

text \<open>\<open>senders\<close> gives for a platform its sender; the calls are counted, so that answers may vary.\<close>

type_synonym chat_senders = "string \<Rightarrow> (nat \<Rightarrow> chat_task \<Rightarrow> string + string) option"

datatype chat_failure = ChatSendFailed string | ChatStoreFailed chat_error

definition chat_worker_error :: "string \<Rightarrow> string" where
  "chat_worker_error e = (let m = trim_space e in if 500 < length m then take 500 m else m)"

definition post_chat :: "chat_senders \<Rightarrow> chat_task \<Rightarrow> (chat_tables state, 'e, string + string) op" where
  "post_chat senders k s =
     (case senders (ck_platform k) of
        None \<Rightarrow> (Inr (Inl ''target platform sender is not configured''), s)
      | Some send \<Rightarrow> (Inr (send (length (c_posted (snd s))) k), (fst s, (snd s)\<lparr>c_posted := c_posted (snd s) @ [k]\<rparr>)))"

definition first_chat_failure :: "chat_failure option \<Rightarrow> chat_failure \<Rightarrow> chat_failure option" where
  "first_chat_failure old new = (case old of None \<Rightarrow> Some new | Some _ \<Rightarrow> old)"

definition note_chat_failure ::
  "chat_task \<Rightarrow> string \<Rightarrow> chat_failure \<Rightarrow> chat_failure option \<Rightarrow> (chat_tables state, 'e, chat_failure option) op" where
  "note_chat_failure k message e old =
     catchM (mark_chat_failed k (chat_worker_error message))
       (\<lambda>me. ret (first_chat_failure (first_chat_failure old (ChatStoreFailed me)) e))
       (\<lambda>_. ret (first_chat_failure old e))"

text \<open>The text of an error of \<^const>\<open>mark_chat_sent\<close>.\<close>

definition chat_error_text :: "env \<Rightarrow> chat_error \<Rightarrow> string" where
  "chat_error_text en e = (if e = ChNoExternal then ''external message id is required''
     else if e = ChNotFound then ''chat message not found'' else e_sql_text en)"

definition chat_sync_task ::
  "env \<Rightarrow> chat_senders \<Rightarrow> chat_task \<Rightarrow> chat_failure option \<Rightarrow> (chat_tables state, 'e, chat_failure option) op" where
  "chat_sync_task en senders k old =
     bindM (post_chat senders k) (\<lambda>res.
     case res of
       Inl e \<Rightarrow> note_chat_failure k e (ChatSendFailed e) old
     | Inr ext \<Rightarrow>
         catchM (mark_chat_sent k ext)
           (\<lambda>me. note_chat_failure k (chat_error_text en me) (ChatStoreFailed me) old)
           (\<lambda>_. ret old))"

fun chat_sync_tasks ::
  "env \<Rightarrow> chat_senders \<Rightarrow> chat_task list \<Rightarrow> chat_failure option \<Rightarrow> (chat_tables state, 'e, chat_failure option) op" where
  "chat_sync_tasks en senders [] old = ret old"
| "chat_sync_tasks en senders (k # ks) old =
     bindM (chat_sync_task en senders k old) (\<lambda>e. chat_sync_tasks en senders ks e)"

definition chat_process_once ::
  "env \<Rightarrow> chat_senders \<Rightarrow> int \<Rightarrow> (chat_tables state, 'e, chat_failure option) op" where
  "chat_process_once en senders batch0 =
     (let batch = (if batch0 < 1 \<or> 100 < batch0 then 20 else batch0) in
      catchM (claim_chat_outbox batch) (\<lambda>e. ret (Some (ChatStoreFailed e)))
        (\<lambda>tasks. chat_sync_tasks en senders tasks None))"

end
