(* ===== verification/ChatHandler.thy ===== *)
theory ChatHandler imports ChatActions RequestSteps begin

text \<open>
  The routes of chat (internal/chat/handler.go). A body is its decoded value; JSON texts and
  rate-limit headers are left out. The signed webhooks get the bytes of the body; the JSON decoder
  of an external message is a parameter.
\<close>

record chat_handler =
  hc_auth :: service
  hc_repo :: chat_repo
  hc_discord_secret :: string
  hc_telegram_secret :: string
  hc_lookup_key :: string
  hc_distributed :: distributed_limiter
  hc_json :: "string \<Rightarrow> chat_external option"

abbreviation hc_env :: "chat_handler \<Rightarrow> env" where
  "hc_env h \<equiv> sv_env (hc_auth h)"

definition new_chat_limiter :: "limiter option" where
  "new_chat_limiter = Some (new_fixed_window_limiter 20 minute 10000)"

definition new_chat_handler :: "chat_handler \<Rightarrow> chat_handler option" where
  "new_chat_handler h = (if length (hc_lookup_key h) \<noteq> 32 then None else Some h)"

datatype chat_body =
    MessagesOut "chat_message list" string | ChannelsOut "chat_channel list" | PinsOut "chat_message list"
  | ChatMessageOut chat_message | NoChatBody

type_synonym 'a chat_step = "(chat_tables, chat_body, 'a) route"

section \<open>Guards\<close>

definition chat_authed :: "chat_handler \<Rightarrow> request \<Rightarrow> request_session chat_step" where
  "chat_authed h rq = map_errM (\<lambda>_. refuse_unauthorized) (core (authenticate (hc_auth h) rq))"

definition chat_authed_mutation :: "chat_handler \<Rightarrow> request \<Rightarrow> request_session chat_step" where
  "chat_authed_mutation h rq =
     bindM (chat_authed h rq) (\<lambda>rs. bindM (csrf_step (hc_auth h) rq rs) (\<lambda>_. ret rs))"

definition chat_account :: "request_session \<Rightarrow> uuid" where
  "chat_account rs = acc_id (session_account rs)"

text \<open>The two refusals of the limiter have texts of their own here.\<close>

definition chat_rate_text :: "chat_body reply \<Rightarrow> chat_body reply" where
  "chat_rate_text x = (case x of
     Refused n code message \<Rightarrow>
       if n = 503 then Refused n code ''request protection is temporarily unavailable''
       else Refused n code ''too many messages''
   | Replied n p \<Rightarrow> x)"

definition chat_allow_message :: "chat_handler \<Rightarrow> request_session \<Rightarrow> unit chat_step" where
  "chat_allow_message h rs = map_errM chat_rate_text
     (rate_step (hc_auth h) (hc_distributed h) c_limiter (\<lambda>lo t. t\<lparr>c_limiter := lo\<rparr>)
        ''chat-messages'' (e_uuid (hc_env h) (chat_account rs)) 20 minute)"

fun chat_refusal :: "chat_error \<Rightarrow> chat_body reply" where
  "chat_refusal ChNotFound = Refused 404 ''not_found'' ''chat resource not found''"
| "chat_refusal ChForbidden = Refused 403 ''forbidden'' ''you cannot modify this message''"
| "chat_refusal ChInvalid = Refused 400 ''invalid_message'' ''request is invalid''"
| "chat_refusal ChReaction = Refused 400 ''invalid_message'' ''request is invalid''"
| "chat_refusal _ = refuse_internal"

definition serve_chat :: "'a chat_op \<Rightarrow> 'a chat_step" where
  "serve_chat m = map_errM chat_refusal m"

definition chat_page_query :: "chat_handler \<Rightarrow> string \<Rightarrow> string \<Rightarrow> (int \<times> cursor) chat_step" where
  "chat_page_query h raw token =
     body_step (case (if raw = [] then Some 50
                      else case atoi raw of None \<Rightarrow> None | Some n \<Rightarrow> if n < 1 \<or> 100 < n then None else Some n) of
                  None \<Rightarrow> None
                | Some l \<Rightarrow> map_option (Pair l) (decode_cursor (hc_env h) (cr_cursors (hc_repo h)) token))
       ''invalid_query'' ''chat query is invalid''"

definition message_path :: "chat_handler \<Rightarrow> string \<Rightarrow> uuid chat_step" where
  "message_path h raw = path_uuid (hc_env h) raw ''invalid_message_id'' ''message id is invalid''"

text \<open>The conditions on the text of a message, which is trimmed when it is passed on.\<close>

definition chat_text_ok :: "string \<Rightarrow> bool" where
  "chat_text_ok body \<longleftrightarrow> \<not> (is_blank body \<or> max_chat_length < length body \<or> chat_body_control body)"

definition text_body :: "string option \<Rightarrow> string chat_step" where
  "text_body body = body_step (case body of None \<Rightarrow> None | Some b \<Rightarrow> if chat_text_ok b then Some (trim_space b) else None)
     ''invalid_message'' ''message is invalid''"

section \<open>Routes\<close>

definition route_chat_list :: "chat_handler \<Rightarrow> string \<Rightarrow> string \<Rightarrow> chat_body reply chat_step" where
  "route_chat_list h raw_limit token =
     bindM (chat_page_query h raw_limit token) (\<lambda>(l, after).
     bindM (map_errM (\<lambda>_. refuse_internal) (list_messages (hc_repo h) l after)) (\<lambda>(ms, next).
     ret (Replied 200 (MessagesOut ms next))))"

definition route_chat_create :: "chat_handler \<Rightarrow> request \<Rightarrow> string option \<Rightarrow> chat_body reply chat_step" where
  "route_chat_create h rq body =
     bindM (chat_authed_mutation h rq) (\<lambda>rs.
     bindM (chat_allow_message h rs) (\<lambda>_.
     bindM (text_body body) (\<lambda>b.
     bindM (map_errM (\<lambda>_. refuse_internal) (create_website_message (hc_repo h) (chat_account rs) b)) (\<lambda>m.
     ret (Replied 201 (ChatMessageOut m))))))"

definition route_chat_channels :: "chat_handler \<Rightarrow> request \<Rightarrow> chat_body reply chat_step" where
  "route_chat_channels h rq =
     bindM (chat_authed h rq) (\<lambda>_.
     bindM (map_errM (\<lambda>_. refuse_internal) list_channels) (\<lambda>cs. ret (Replied 200 (ChannelsOut cs))))"

definition route_channel_list ::
  "chat_handler \<Rightarrow> request \<Rightarrow> string \<Rightarrow> string \<Rightarrow> string \<Rightarrow> chat_body reply chat_step" where
  "route_channel_list h rq key raw_limit token =
     bindM (chat_authed h rq) (\<lambda>rs.
     bindM (chat_page_query h raw_limit token) (\<lambda>(l, after).
     bindM (serve_chat (list_channel_messages (hc_repo h) key (chat_account rs) l after)) (\<lambda>(ms, next).
     ret (Replied 200 (MessagesOut ms next)))))"

text \<open>A body is its text and the parent's identifier as sent.\<close>

definition channel_body :: "chat_handler \<Rightarrow> (string \<times> string) option \<Rightarrow> (string \<times> uuid option) chat_step" where
  "channel_body h body =
     bindM (text_body (map_option fst body)) (\<lambda>b.
     let raw = (case body of None \<Rightarrow> [] | Some x \<Rightarrow> snd x) in
     if is_blank raw then ret (b, None)
     else bindM (path_uuid (hc_env h) raw ''invalid_message'' ''parent_id is invalid'') (\<lambda>p. ret (b, Some p)))"

definition route_channel_create ::
  "chat_handler \<Rightarrow> request \<Rightarrow> string \<Rightarrow> (string \<times> string) option \<Rightarrow> chat_body reply chat_step" where
  "route_channel_create h rq key body =
     bindM (chat_authed_mutation h rq) (\<lambda>rs.
     bindM (chat_allow_message h rs) (\<lambda>_.
     bindM (channel_body h body) (\<lambda>(b, parent).
     bindM (serve_chat (create_channel_message (hc_repo h) key (chat_account rs) b parent)) (\<lambda>m.
     ret (Replied 201 (ChatMessageOut m))))))"

definition route_chat_pins :: "chat_handler \<Rightarrow> request \<Rightarrow> string \<Rightarrow> chat_body reply chat_step" where
  "route_chat_pins h rq key =
     bindM (chat_authed h rq) (\<lambda>rs.
     bindM (serve_chat (list_pinned key (chat_account rs))) (\<lambda>ms. ret (Replied 200 (PinsOut ms))))"

definition route_chat_replies ::
  "chat_handler \<Rightarrow> request \<Rightarrow> string \<Rightarrow> string \<Rightarrow> string \<Rightarrow> chat_body reply chat_step" where
  "route_chat_replies h rq raw raw_limit token =
     bindM (chat_authed h rq) (\<lambda>rs.
     bindM (message_path h raw) (\<lambda>i.
     bindM (chat_page_query h raw_limit token) (\<lambda>(l, after).
     bindM (serve_chat (list_thread_replies (hc_repo h) i (chat_account rs) l after)) (\<lambda>(ms, next).
     ret (Replied 200 (MessagesOut ms next))))))"

definition chat_emoji :: "string \<Rightarrow> string chat_step" where
  "chat_emoji raw = body_step (chat_normalize_reaction raw) ''invalid_reaction'' ''reaction is invalid''"

definition route_add_chat_reaction :: "chat_handler \<Rightarrow> request \<Rightarrow> string \<Rightarrow> string \<Rightarrow> chat_body reply chat_step" where
  "route_add_chat_reaction h rq raw raw_emoji =
     bindM (chat_authed_mutation h rq) (\<lambda>rs.
     bindM (message_path h raw) (\<lambda>i.
     bindM (chat_emoji raw_emoji) (\<lambda>emoji.
     bindM (serve_chat (set_chat_reaction i (chat_account rs) emoji)) (\<lambda>_. ret (Replied 204 NoChatBody)))))"

definition route_remove_chat_reaction :: "chat_handler \<Rightarrow> request \<Rightarrow> string \<Rightarrow> string \<Rightarrow> chat_body reply chat_step" where
  "route_remove_chat_reaction h rq raw raw_emoji =
     bindM (chat_authed_mutation h rq) (\<lambda>rs.
     bindM (message_path h raw) (\<lambda>i.
     bindM (chat_emoji raw_emoji) (\<lambda>emoji.
     bindM (serve_chat (remove_chat_reaction i (chat_account rs) emoji)) (\<lambda>_. ret (Replied 204 NoChatBody)))))"

definition chat_is_admin :: "uuid \<Rightarrow> (chat_tables state, auth_error, bool) op" where
  "chat_is_admin acc = core (is_admin acc)"

definition route_set_pin :: "chat_handler \<Rightarrow> request \<Rightarrow> string \<Rightarrow> bool \<Rightarrow> chat_body reply chat_step" where
  "route_set_pin h rq raw pinned =
     bindM (chat_authed_mutation h rq) (\<lambda>rs.
     bindM (admin_step chat_is_admin rs) (\<lambda>_.
     bindM (message_path h raw) (\<lambda>i.
     bindM (serve_chat (set_pinned i (chat_account rs) pinned)) (\<lambda>_. ret (Replied 204 NoChatBody)))))"

definition route_forward ::
  "chat_handler \<Rightarrow> request \<Rightarrow> string \<Rightarrow> string option \<Rightarrow> chat_body reply chat_step" where
  "route_forward h rq raw body =
     bindM (chat_authed_mutation h rq) (\<lambda>rs.
     bindM (chat_allow_message h rs) (\<lambda>_.
     bindM (message_path h raw) (\<lambda>i.
     bindM (body_step (case body of None \<Rightarrow> None | Some k \<Rightarrow> if is_blank k then None else Some (trim_space k))
              ''invalid_message'' ''channel_key is required'') (\<lambda>key.
     bindM (serve_chat (forward_message (hc_repo h) i key (chat_account rs))) (\<lambda>m.
     ret (Replied 201 (ChatMessageOut m)))))))"

definition route_chat_edit :: "chat_handler \<Rightarrow> request \<Rightarrow> string \<Rightarrow> string option \<Rightarrow> chat_body reply chat_step" where
  "route_chat_edit h rq raw body =
     bindM (chat_authed_mutation h rq) (\<lambda>rs.
     bindM (message_path h raw) (\<lambda>i.
     bindM (text_body body) (\<lambda>b.
     bindM (serve_chat (edit_own_message (hc_repo h) i (chat_account rs) b)) (\<lambda>m.
     ret (Replied 200 (ChatMessageOut m))))))"

definition route_chat_withdraw :: "chat_handler \<Rightarrow> request \<Rightarrow> string \<Rightarrow> chat_body reply chat_step" where
  "route_chat_withdraw h rq raw =
     bindM (chat_authed_mutation h rq) (\<lambda>rs.
     bindM (message_path h raw) (\<lambda>i.
     bindM (serve_chat (withdraw_own_message (hc_repo h) i (chat_account rs))) (\<lambda>_. ret (Replied 204 NoChatBody))))"

text \<open>The bytes of the body are \<^const>\<open>None\<close> when reading them fails or they are too many.\<close>

definition chat_webhook ::
  "chat_handler \<Rightarrow> string \<Rightarrow> string \<Rightarrow> request \<Rightarrow> string option \<Rightarrow> chat_body reply chat_step" where
  "chat_webhook h platform secret rq bytes =
     (case bytes of
        None \<Rightarrow> fail (Refused 401 ''invalid_signature'' ''webhook signature is invalid'')
      | Some body \<Rightarrow>
          if \<not> chat_signature_ok (e_crypto (hc_env h)) secret body (header rq ''X-Sta-Signature'')
          then fail (Refused 401 ''invalid_signature'' ''webhook signature is invalid'')
          else bindM (body_step (case hc_json h body of
                        None \<Rightarrow> None
                      | Some x \<Rightarrow> let i = x\<lparr>xm_platform := platform\<rparr> in
                          if validate_chat_external i then Some i else None)
                      ''invalid_message'' ''webhook payload is invalid'') (\<lambda>i.
               bindM (map_errM (\<lambda>_. Refused 400 ''sync_failed'' ''webhook message could not be synchronized'')
                        (apply_external_message (hc_repo h) i (hc_lookup_key h))) (\<lambda>m.
               ret (Replied 200 (ChatMessageOut m)))))"

section \<open>Dispatch\<close>

datatype chat_call =
    LoungeListCall string string | LoungePostCall "string option" | ChannelsCall
  | ChannelListCall string string string | ChannelPostCall string "(string \<times> string) option" | PinsCall string
  | RepliesCall string string string | ChatEditCall string "string option" | ChatWithdrawCall string
  | ForwardCall string "string option" | ChatReactCall string string | ChatUnreactCall string string
  | PinCall string | UnpinCall string | DiscordChatCall "string option" | TelegramChatCall "string option"

fun chat_route :: "chat_handler \<Rightarrow> request \<Rightarrow> chat_call \<Rightarrow> chat_body reply chat_step" where
  "chat_route h rq (LoungeListCall n token) = route_chat_list h n token"
| "chat_route h rq (LoungePostCall body) = route_chat_create h rq body"
| "chat_route h rq ChannelsCall = route_chat_channels h rq"
| "chat_route h rq (ChannelListCall key n token) = route_channel_list h rq key n token"
| "chat_route h rq (ChannelPostCall key body) = route_channel_create h rq key body"
| "chat_route h rq (PinsCall key) = route_chat_pins h rq key"
| "chat_route h rq (RepliesCall raw n token) = route_chat_replies h rq raw n token"
| "chat_route h rq (ChatEditCall raw body) = route_chat_edit h rq raw body"
| "chat_route h rq (ChatWithdrawCall raw) = route_chat_withdraw h rq raw"
| "chat_route h rq (ForwardCall raw body) = route_forward h rq raw body"
| "chat_route h rq (ChatReactCall raw emoji) = route_add_chat_reaction h rq raw emoji"
| "chat_route h rq (ChatUnreactCall raw emoji) = route_remove_chat_reaction h rq raw emoji"
| "chat_route h rq (PinCall raw) = route_set_pin h rq raw True"
| "chat_route h rq (UnpinCall raw) = route_set_pin h rq raw False"
| "chat_route h rq (DiscordChatCall bytes) = chat_webhook h ''discord'' (hc_discord_secret h) rq bytes"
| "chat_route h rq (TelegramChatCall bytes) = chat_webhook h ''telegram'' (hc_telegram_secret h) rq bytes"

end
