(* ===== verification/ChatInvariants.thy ===== *)
theory ChatInvariants imports ChatHandler begin

text \<open>
  What every operation of chat keeps: threads are one level deep and stay in their channel, a
  message of the website has an author and an external one has none, what a platform delivered is a
  message of that platform, nothing goes out to the platform it came from, and a withdrawn message
  has no text. Beside this stands a frame: the messages of the website that a step may not touch.
\<close>

section \<open>Triples\<close>

text \<open>\<open>gives P m Q\<close>: from \<open>P\<close>, a failure leaves \<open>P\<close> and a value \<open>x\<close> leaves \<open>Q x\<close>.\<close>

definition gives :: "('w \<Rightarrow> bool) \<Rightarrow> ('w, 'e, 'a) op \<Rightarrow> ('a \<Rightarrow> 'w \<Rightarrow> bool) \<Rightarrow> bool" where
  "gives P m Q \<longleftrightarrow> (\<forall>s r s'. P s \<longrightarrow> m s = (r, s') \<longrightarrow> (case r of Inl _ \<Rightarrow> P s' | Inr x \<Rightarrow> Q x s'))"

lemma keeps_bind_gives:
  assumes "gives P m Q" "\<And>x. keeps (Q x) (f x)" "\<And>x s. Q x s \<Longrightarrow> P s"
  shows "keeps P (bindM m f)"
  using assms unfolding gives_def keeps_def bindM_def by (fastforce split: prod.splits sum.splits)

lemma keeps_ex: "(\<And>a. keeps (P a) m) \<Longrightarrow> keeps (\<lambda>s. \<exists>a. P a s) m"
  unfolding keeps_def by blast

lemma keeps_pre: "(Q \<Longrightarrow> keeps P m) \<Longrightarrow> keeps (\<lambda>s. Q \<and> P s) m"
  unfolding keeps_def by blast

section \<open>Stems\<close>

text \<open>What never changes about a message: its id, channel, author, source and parent.\<close>

type_synonym stem = "uuid \<times> uuid \<times> uuid option \<times> string \<times> uuid option"

definition stem_of :: "chat_row \<Rightarrow> stem" where
  "stem_of m = (cm_id m, cm_channel m, cm_author m, cm_source m, cm_parent m)"

definition stems :: "chat_tables \<Rightarrow> stem set" where
  "stems t = stem_of ` set (c_messages t)"

text \<open>\<open>sourced S i o\<close>: the message is there and came from \<open>o\<close>.\<close>

definition sourced :: "stem set \<Rightarrow> uuid \<Rightarrow> string \<Rightarrow> bool" where
  "sourced S i src \<longleftrightarrow> (\<exists>c a p. (i, c, a, src, p) \<in> S)"

definition authors_fit :: "stem set \<Rightarrow> bool" where
  "authors_fit S \<longleftrightarrow> (\<forall>(i, c, a, src, p) \<in> S. src = ''website'' \<longleftrightarrow> a \<noteq> None)"

definition flat_threads :: "stem set \<Rightarrow> bool" where
  "flat_threads S \<longleftrightarrow> (\<forall>(i, c, a, src, p) \<in> S. \<forall>q. p = Some q \<longrightarrow> (\<exists>a' src'. (q, c, a', src', None) \<in> S))"

definition inbound_fit :: "stem set \<Rightarrow> chat_tables \<Rightarrow> bool" where
  "inbound_fit S t \<longleftrightarrow> (\<forall>((pl, x), i) \<in> set (c_inbound t). pl \<noteq> ''website'' \<and> sourced S i pl)"

definition no_echo :: "stem set \<Rightarrow> uuid \<Rightarrow> string \<Rightarrow> bool" where
  "no_echo S i pl \<longleftrightarrow> (\<exists>src. sourced S i src \<and> pl \<noteq> src)"

definition jobs_fit :: "stem set \<Rightarrow> chat_tables \<Rightarrow> bool" where
  "jobs_fit S t \<longleftrightarrow> (\<forall>j \<in> set (c_jobs t). no_echo S (cj_message j) (cj_platform j))"

definition posted_fit :: "stem set \<Rightarrow> chat_tables \<Rightarrow> bool" where
  "posted_fit S t \<longleftrightarrow> (\<forall>k \<in> set (c_posted t). no_echo S (ck_message k) (ck_platform k))"

definition emptied :: "chat_tables \<Rightarrow> bool" where
  "emptied t \<longleftrightarrow> (\<forall>m \<in> set (c_messages t). \<not> chat_live m \<longrightarrow> cm_body m = [])"

definition chat_ok :: "db \<times> chat_tables \<Rightarrow> bool" where
  "chat_ok x \<longleftrightarrow> new_keys (next_id (fst x)) cm_id (c_messages (snd x)) \<and> new_keys (next_id (fst x)) cj_id (c_jobs (snd x))
     \<and> authors_fit (stems (snd x)) \<and> flat_threads (stems (snd x)) \<and> inbound_fit (stems (snd x)) (snd x)
     \<and> jobs_fit (stems (snd x)) (snd x) \<and> posted_fit (stems (snd x)) (snd x) \<and> emptied (snd x)"

section \<open>The frame\<close>

text \<open>All of a message but its pin; the messages that nobody or only the pairs \<open>A\<close> of an account and a message may change.\<close>

definition plain :: "chat_row \<Rightarrow> chat_row" where
  "plain m = m\<lparr>cm_pinned := None, cm_pinner := None\<rparr>"

definition yielding :: "(uuid \<times> uuid) set \<Rightarrow> chat_row \<Rightarrow> bool" where
  "yielding A m \<longleftrightarrow> cm_source m \<noteq> ''website'' \<or> chat_live m \<and> (\<exists>(a, i) \<in> A. cm_author m = Some a \<and> cm_id m = i)"

definition chat_framed :: "(uuid \<times> uuid) set \<Rightarrow> chat_row list \<Rightarrow> chat_tables \<Rightarrow> bool" where
  "chat_framed A ms t \<longleftrightarrow> (\<forall>m \<in> set ms. \<not> yielding A m \<longrightarrow> (\<exists>m' \<in> set (c_messages t). plain m' = plain m))"

definition chat_inv :: "(uuid \<times> uuid) set \<Rightarrow> chat_row list \<Rightarrow> stem set \<Rightarrow> db \<times> chat_tables \<Rightarrow> bool" where
  "chat_inv A ms W x \<longleftrightarrow> chat_ok x \<and> chat_framed A ms (snd x) \<and> W \<subseteq> stems (snd x)"

lemma plain_sel [simp]: "cm_id (plain m) = cm_id m" "cm_source (plain m) = cm_source m"
  "cm_author (plain m) = cm_author m" "cm_status (plain m) = cm_status m" "cm_body (plain m) = cm_body m"
  by (simp_all add: plain_def)

lemma plain_sels:
  assumes "plain m' = plain m"
  shows "cm_id m' = cm_id m" "cm_source m' = cm_source m" "cm_author m' = cm_author m" "cm_status m' = cm_status m"
    "cm_body m' = cm_body m"
  using assms plain_sel by metis+

lemma yielding_plain: "plain m' = plain m \<Longrightarrow> yielding A m' = yielding A m"
  using plain_sels[of m' m] by (simp add: yielding_def chat_live_def)

lemma sourced_mono: "sourced S i src \<Longrightarrow> S \<subseteq> T \<Longrightarrow> sourced T i src"
  unfolding sourced_def by blast

lemma no_echo_mono: "no_echo S i pl \<Longrightarrow> S \<subseteq> T \<Longrightarrow> no_echo T i pl"
  unfolding no_echo_def using sourced_mono by blast

text \<open>Everything but the messages may change, the identifiers only upwards.\<close>

lemma chat_inv_cong:
  assumes "chat_inv A ms W (d, t)" "next_id d \<le> next_id d'" "c_messages t' = c_messages t"
    "new_keys (next_id d') cj_id (c_jobs t')"
    "inbound_fit (stems t) t'" "jobs_fit (stems t) t'" "posted_fit (stems t) t'"
  shows "chat_inv A ms W (d', t')"
proof -
  have "stems t' = stems t" by (simp add: stems_def assms(3))
  moreover have "new_keys (next_id d') cm_id (c_messages t')"
    using assms(1-3) by (auto simp: chat_inv_def chat_ok_def intro: new_keys_mono)
  ultimately show ?thesis
    using assms by (simp add: chat_inv_def chat_ok_def chat_framed_def emptied_def)
qed

lemma chat_invD:
  assumes "chat_inv A ms W (d, t)"
  shows "new_keys (next_id d) cj_id (c_jobs t)" "inbound_fit (stems t) t" "jobs_fit (stems t) t" "posted_fit (stems t) t"
    "new_keys (next_id d) cm_id (c_messages t)" "W \<subseteq> stems t" "emptied t" "authors_fit (stems t)" "flat_threads (stems t)"
    "chat_framed A ms t"
  using assms by (simp_all add: chat_inv_def chat_ok_def)

lemma chat_inv_same:
  assumes "chat_inv A ms W (d, t)" "next_id d \<le> next_id d'" "c_messages t' = c_messages t" "c_jobs t' = c_jobs t"
    "c_inbound t' = c_inbound t" "c_posted t' = c_posted t"
  shows "chat_inv A ms W (d', t')"
  using chat_inv_cong[OF assms(1,2,3)] chat_invD[OF assms(1)] assms
  by (auto simp: inbound_fit_def jobs_fit_def posted_fit_def intro: new_keys_mono)

lemma chat_inv_weaken: "chat_inv A ms W x \<Longrightarrow> V \<subseteq> W \<Longrightarrow> chat_inv A ms V x"
  unfolding chat_inv_def by blast

interpretation chat_rows: steady "chat_inv A ms W"
  by unfold_locales (erule chat_inv_same; simp)

section \<open>Changes of messages\<close>

lemma stems_update: "(\<And>m. stem_of (f m) = stem_of m) \<Longrightarrow> stem_of ` set (update_where p f ms) = stem_of ` set ms"
  by (metis list.set_map map_update_where)

lemma chat_inv_update:
  assumes inv: "chat_inv A ms W (d, t)" and f: "\<And>m. stem_of (f m) = stem_of m"
    and dead: "\<And>m. m \<in> set (c_messages t) \<Longrightarrow> p m \<Longrightarrow> \<not> chat_live (f m) \<Longrightarrow> cm_body (f m) = []"
    and may: "\<And>m. m \<in> set (c_messages t) \<Longrightarrow> p m \<Longrightarrow> yielding A m \<or> plain (f m) = plain m"
  shows "chat_inv A ms W (d, t\<lparr>c_messages := update_where p f (c_messages t)\<rparr>)"
proof -
  let ?t = "t\<lparr>c_messages := update_where p f (c_messages t)\<rparr>"
  have id: "cm_id (f m) = cm_id m" for m using f[of m] by (simp add: stem_of_def)
  have S: "stems ?t = stems t" using f by (simp add: stems_def stems_update)
  have "chat_framed A ms ?t" unfolding chat_framed_def
  proof (intro ballI impI)
    fix m assume m: "m \<in> set ms" "\<not> yielding A m"
    with chat_invD(10)[OF inv] obtain m' where m': "m' \<in> set (c_messages t)" "plain m' = plain m"
      unfolding chat_framed_def by blast
    with m(2) have "\<not> yielding A m'" using yielding_plain by blast
    with may[OF m'(1)] have "p m' \<Longrightarrow> plain (f m') = plain m'" by blast
    with m' show "\<exists>x \<in> set (c_messages ?t). plain x = plain m" by (auto simp: bex_update_where)
  qed
  moreover have "emptied ?t" using chat_invD(7)[OF inv] dead by (auto simp: emptied_def ball_update_where)
  moreover have "new_keys (next_id d) cm_id (c_messages ?t)"
    using chat_invD(5)[OF inv] by (simp add: new_keys_update id)
  ultimately show ?thesis using inv S
    by (simp add: chat_inv_def chat_ok_def inbound_fit_def jobs_fit_def posted_fit_def)
qed

lemma flat_insert:
  assumes "flat_threads S" "\<And>q. cm_parent m = Some q \<Longrightarrow> \<exists>a src. (q, cm_channel m, a, src, None) \<in> S"
  shows "flat_threads (insert (stem_of m) S)"
  unfolding flat_threads_def
proof (clarify)
  fix i c a src q assume x: "(i, c, a, src, Some q) \<in> insert (stem_of m) S"
  have "\<exists>a' src'. (q, c, a', src', None) \<in> S"
  proof (cases "(i, c, a, src, Some q) \<in> S")
    case True
    with assms(1) show ?thesis unfolding flat_threads_def by fast
  next
    case False
    with x have "cm_parent m = Some q" "cm_channel m = c" by (simp_all add: stem_of_def)
    with assms(2) show ?thesis by blast
  qed
  then show "\<exists>a' src'. (q, c, a', src', None) \<in> insert (stem_of m) S" by blast
qed

lemma inbound_mono: "inbound_fit S t \<Longrightarrow> S \<subseteq> T \<Longrightarrow> c_inbound t' = c_inbound t \<Longrightarrow> inbound_fit T t'"
  unfolding inbound_fit_def using sourced_mono by fastforce

lemma chat_inv_add:
  assumes inv: "chat_inv A ms W (d, t)" and id: "cm_id m = next_id d"
    and author: "cm_source m = ''website'' \<longleftrightarrow> cm_author m \<noteq> None"
    and parent: "\<And>q. cm_parent m = Some q \<Longrightarrow> \<exists>a src. (q, cm_channel m, a, src, None) \<in> stems t"
    and live: "chat_live m"
  shows "chat_inv A ms (insert (stem_of m) W) (add_chat m (d, t))"
proof -
  let ?t = "t\<lparr>c_messages := c_messages t @ [m]\<rparr>"
  note I = chat_invD[OF inv]
  have S: "stems ?t = insert (stem_of m) (stems t)" by (simp add: stems_def)
  have mono: "stems t \<subseteq> stems ?t" by (auto simp: S)
  have "new_keys (Suc (next_id d)) cm_id (c_messages ?t)" using I(5) id by (simp add: new_keys_append)
  moreover have "new_keys (Suc (next_id d)) cj_id (c_jobs ?t)" using I(1) by (simp add: new_keys_mono)
  moreover have "authors_fit (stems ?t)" using I(8) author by (simp add: S authors_fit_def stem_of_def)
  moreover have "flat_threads (stems ?t)" unfolding S by (rule flat_insert[OF I(9) parent])
  moreover have "inbound_fit (stems ?t) ?t" by (rule inbound_mono[OF I(2) mono]) simp
  moreover have "jobs_fit (stems ?t) ?t" using I(3) no_echo_mono[OF _ mono] by (auto simp: jobs_fit_def)
  moreover have "posted_fit (stems ?t) ?t" using I(4) no_echo_mono[OF _ mono] by (auto simp: posted_fit_def)
  moreover have "emptied ?t" using I(7) live by (auto simp: emptied_def)
  moreover have "chat_framed A ms ?t" using I(10) by (auto simp: chat_framed_def)
  moreover have "insert (stem_of m) W \<subseteq> stems ?t" using I(6) by (auto simp: S)
  ultimately show ?thesis by (simp add: chat_inv_def chat_ok_def add_chat_def draw_id_def)
qed

section \<open>Operations\<close>

abbreviation chat_keeps :: "(uuid \<times> uuid) set \<Rightarrow> chat_row list \<Rightarrow> stem set \<Rightarrow> (chat_tables state, 'e, 'a) op \<Rightarrow> bool" where
  "chat_keeps A ms W \<equiv> tables_keep (chat_inv A ms W)"

lemma keeps_stmt_inbound:
  "(\<And>x. snd (q x) = x) \<Longrightarrow> tables_keep P (stmt q)"
  by (rule keeps_stmt) simp

lemma keeps_announce: "chat_keeps A ms W (announce r key m)"
  by (auto simp: keeps_def announce_def tables_def elim!: chat_inv_same)

lemma keeps_ensure_channel: "chat_keeps A ms W ensure_channel"
  unfolding ensure_channel_def
  by (intro keeps_intros keeps_stmt) (auto simp: draw_id_def split: option.splits elim!: chat_inv_same)

lemma new_chat_gives:
  assumes "src = ''website'' \<longleftrightarrow> acc \<noteq> None" "\<And>q. parent = Some q \<Longrightarrow> \<exists>a o'. (q, chan, a, o', None) \<in> W"
  shows "gives (\<lambda>s. chat_inv A ms W (tables s))
    (map_errM c (stmt_from (\<lambda>d t. Some (new_chat chan acc src hash body parent fw ts d)) chat_chk no_key chat_fk add_chat))
    (\<lambda>row s. chat_inv A ms (insert (cm_id row, chan, acc, src, parent) W) (tables s))"
  unfolding gives_def
proof (intro allI impI)
  fix s z s' assume inv: "chat_inv A ms W (tables s)"
    and run: "map_errM c (stmt_from (\<lambda>d t. Some (new_chat chan acc src hash body parent fw ts d)) chat_chk no_key chat_fk
      add_chat) s = (z, s')"
  show "case z of Inl e \<Rightarrow> chat_inv A ms W (tables s')
      | Inr row \<Rightarrow> chat_inv A ms (insert (cm_id row, chan, acc, src, parent) W) (tables s')"
  proof (cases z)
    case (Inl e)
    with run inv show ?thesis by (auto simp: map_errM_Inl_iff dest!: stmt_from_Inl)
  next
    case (Inr row)
    note R = stmt_from_Inr[OF run[unfolded Inr map_errM_Inr_iff]]
    have row: "new_chat chan acc src hash body parent fw ts (fst (tables s)) = row" using R(1) by simp
    have stem: "stem_of row = (cm_id row, chan, acc, src, parent)" "cm_id row = next_id (fst (tables s))" "chat_live row"
      unfolding row[symmetric] by (simp_all add: new_chat_def stem_of_def chat_live_def)
    have "chat_inv A ms (insert (stem_of row) W) (add_chat row (fst (tables s), snd (tables s)))"
    proof (rule chat_inv_add)
      show "chat_inv A ms W (fst (tables s), snd (tables s))" using inv by simp
      show "cm_source row = ''website'' \<longleftrightarrow> cm_author row \<noteq> None" using row assms(1) by (auto simp: new_chat_def)
      fix q assume "cm_parent row = Some q"
      then have "parent = Some q" "cm_channel row = chan" using row by (auto simp: new_chat_def)
      with assms(2) inv show "\<exists>a src. (q, cm_channel row, a, src, None) \<in> stems (snd (tables s))"
        unfolding chat_inv_def by blast
    qed (use stem in simp_all)
    with R(5) stem Inr show ?thesis by simp
  qed
qed

lemma gives_bind_ret: "gives P m Q \<Longrightarrow> (\<And>x s. Q x s \<Longrightarrow> R (f x) s) \<Longrightarrow> gives P (bindM m (\<lambda>x. ret (f x))) R"
  unfolding gives_def bindM_def ret_def by (fastforce split: prod.splits sum.splits)

lemma gives_readM: "(\<And>x. gives P (f x) Q) \<Longrightarrow> gives P (bindM (readM g) f) Q"
  unfolding gives_def by simp

lemma insert_chat_gives:
  assumes "src = ''website'' \<longleftrightarrow> acc \<noteq> None" "\<And>q. parent = Some q \<Longrightarrow> \<exists>a o'. (q, chan, a, o', None) \<in> W"
  shows "gives (\<lambda>s. chat_inv A ms W (tables s)) (insert_chat chan acc src hash body parent)
    (\<lambda>m s. chat_inv A ms (insert (cv_id m, chan, acc, src, parent) W) (tables s))"
  unfolding insert_chat_def
  by (rule gives_readM, rule gives_bind_ret[OF new_chat_gives[OF assms]]) (simp_all add: chat_message_of_def)

lemma keeps_insert_job:
  assumes "no_echo W i platform"
  shows "chat_keeps A ms W (insert_job i platform op body)"
  unfolding insert_job_def
proof (intro keeps_intros keeps_stmt_from)
  fix ts d t j
  assume inv: "chat_inv A ms W (d, t)" and j: "Some (new_job i platform op body ts d) = Some j"
  have "no_echo (stems t) i platform" using assms chat_invD(6)[OF inv] by (rule no_echo_mono)
  moreover have "new_keys (Suc (next_id d)) cj_id (c_jobs t @ [j])"
    using chat_invD(1)[OF inv] j by (auto simp: new_job_def intro: new_keys_append)
  ultimately show "chat_inv A ms W ((\<lambda>(d, t). (draw_id d, t\<lparr>c_jobs := c_jobs t @ [j]\<rparr>)) (d, t))"
    using chat_invD[OF inv] j unfolding prod.case
    by (intro chat_inv_cong[OF inv]) (auto simp: draw_id_def jobs_fit_def new_job_def inbound_fit_def posted_fit_def)
qed

lemma keeps_outbound:
  assumes "sourced W i src" "src = ''website'' \<or> src = except"
  shows "chat_keeps A ms W (create_outbound_tasks_except i except op body)"
proof -
  have "except \<noteq> ''discord'' \<Longrightarrow> no_echo W i ''discord''" "except \<noteq> ''telegram'' \<Longrightarrow> no_echo W i ''telegram''"
    using assms by (auto simp: no_echo_def)
  then show ?thesis unfolding create_outbound_tasks_except_def by (intro keeps_intros keeps_insert_job) simp_all
qed

lemma sourcedI: "(i, c, a, src, p) \<in> W \<Longrightarrow> sourced W i src"
  unfolding sourced_def by blast

lemma keeps_website_message:
  assumes "\<And>q. parent = Some q \<Longrightarrow> \<exists>a o'. (q, chan, a, o', None) \<in> W"
  shows "chat_keeps A ms W (bindM (insert_chat chan (Some acc) ''website'' hash body parent) (\<lambda>m.
     bindM (if b then create_outbound_tasks (cv_id m) ''create'' (cv_body m) else ret ()) (\<lambda>_. ret m)))"
proof (rule keeps_bind_gives[OF insert_chat_gives])
  fix m :: chat_message
  let ?W = "insert (cv_id m, chan, Some acc, ''website'', parent) W"
  show "chat_keeps A ms ?W (bindM (if b then create_outbound_tasks (cv_id m) ''create'' (cv_body m) else ret ()) (\<lambda>_. ret m))"
    unfolding create_outbound_tasks_def
    by (intro keeps_intros keeps_outbound[where src = "''website''"]
        sourcedI[of _ chan "Some acc" _ parent]) simp_all
qed (use assms in \<open>auto intro: chat_inv_weaken\<close>)

lemma keeps_create_website_message: "chat_keeps A ms W (create_website_message r acc body)"
proof -
  have "chat_keeps A ms W (bindM (insert_chat chan (Some acc) ''website'' None body None) (\<lambda>m.
      bindM (create_outbound_tasks (cv_id m) ''create'' (cv_body m)) (\<lambda>_. ret m)))" for chan
    using keeps_website_message[where b = True and parent = None] by simp
  then show ?thesis unfolding create_website_message_def
    by (rule keeps_bindM[OF keeps_in_tx[OF keeps_bindM[OF keeps_ensure_channel]]])
      (intro keeps_intros keeps_announce)
qed

lemma check_parent_gives:
  "gives (\<lambda>s. chat_inv A ms W (tables s)) (check_parent chan parent)
     (\<lambda>_ s. \<exists>V. (\<forall>q. parent = Some q \<longrightarrow> (\<exists>a o'. (q, chan, a, o', None) \<in> V)) \<and> chat_inv A ms (W \<union> V) (tables s))"
  (is "gives ?P _ ?Q")
  unfolding gives_def
proof (intro allI impI)
  fix s z s' assume inv: "?P s" and run: "check_parent chan parent s = (z, s')"
  have t: "tables s' = tables s"
    using run by (cases z) (auto simp: check_parent_def bindM_Inl_iff map_errM_Inl_iff dest!: stmt_row_Inr stmt_Inl_tables(1)
        split: option.splits prod.splits if_splits)
  show "case z of Inl _ \<Rightarrow> ?P s' | Inr x \<Rightarrow> ?Q x s'"
  proof (cases z)
    case (Inl e)
    with inv t show ?thesis by simp
  next
    case (Inr u)
    show ?thesis
    proof (cases parent)
      case None
      with Inr inv t show ?thesis by (auto intro!: exI[of _ "{}"])
    next
      case (Some p)
      from run[unfolded Inr check_parent_def Some option.case] show ?thesis
      proof (rule bind_rowE)
        fix x s1
        assume x: "map_option (\<lambda>m. (cm_channel m, cm_parent m \<noteq> None))
            (List.find (\<lambda>m. cm_id m = p \<and> chat_live m) (c_messages (snd (tables s)))) = Some x"
          and rest: "(case x of (c, has) \<Rightarrow> if c \<noteq> chan \<or> has then fail ChInvalid else ret ()) s1 = (Inr u, s')"
        then obtain m where m: "List.find (\<lambda>m. cm_id m = p \<and> chat_live m) (c_messages (snd (tables s))) = Some m"
          "cm_channel m = chan" "cm_parent m = None" by (auto split: if_splits)
        then have "stem_of m \<in> stems (snd (tables s))" "stem_of m = (p, chan, cm_author m, cm_source m, None)"
          by (auto simp: stems_def stem_of_def dest!: find_Some_D)
        with Inr inv t Some show ?thesis by (auto simp: chat_inv_def intro!: exI[of _ "{stem_of m}"])
      qed
    qed
  qed
qed

lemma keeps_stems: "(\<And>V. Q V \<Longrightarrow> chat_keeps A ms (W \<union> V) m) \<Longrightarrow> keeps (\<lambda>s. \<exists>V. Q V \<and> chat_inv A ms (W \<union> V) (tables s)) m"
  by (rule keeps_ex, rule keeps_pre)

lemma keeps_channel_id: "tables_keep P (channel_id key)"
  unfolding channel_id_def by (intro keeps_intros keeps_stmt) simp

lemma keeps_create_channel_message: "chat_keeps A ms W (create_channel_message r key acc body parent)"
proof -
  have "chat_keeps A ms W (bindM (check_parent chan parent) (\<lambda>_.
       bindM (insert_chat chan (Some acc) ''website'' None body parent) (\<lambda>m.
       bindM (if b then create_outbound_tasks (cv_id m) ''create'' (cv_body m) else ret ()) (\<lambda>_. ret m))))" for chan b
    by (rule keeps_bind_gives[OF check_parent_gives], rule keeps_stems, rule keeps_website_message)
      (auto intro: chat_inv_weaken)
  note body = this
  show ?thesis unfolding create_channel_message_def Let_def
    by (rule keeps_bindM[OF keeps_channel_id], rule keeps_case_prod, rule keeps_bindM[OF keeps_in_tx[OF body]])
      (intro keeps_intros keeps_announce)
qed

lemma keeps_forward_message: "chat_keeps A ms W (forward_message r source key acc)"
proof -
  have "chat_keeps A ms W (bindM (map_errM map_chat_error
         (stmt_from (\<lambda>d t. Some (new_chat chan (Some acc) ''website'' None body None (Some source) ts d))
            chat_chk no_key chat_fk add_chat)) (\<lambda>row.
       bindM (if b then create_outbound_tasks (cv_id (f row)) ''create'' (cv_body (f row)) else ret ()) (\<lambda>_. ret (f row))))"
    if "\<And>row. cv_id (f row) = cm_id row" for chan body ts b f
    by (rule keeps_bind_gives[OF new_chat_gives[where A = A and ms = ms and W = W]])
      (auto simp: that create_outbound_tasks_def intro!: keeps_intros keeps_outbound[where src = "''website''"]
        sourcedI[of _ chan "Some acc" _ None] intro: chat_inv_weaken)
  note body = this
  show ?thesis unfolding forward_message_def Let_def
    by (rule keeps_bindM[OF keeps_channel_id], rule keeps_case_prod, rule keeps_bindM[OF keeps_readM],
        rule keeps_bindM[OF keeps_in_tx[OF keeps_bindM[OF keeps_map_errM[OF keeps_stmt_read(1)] body]]])
      (simp add: chat_message_of_def, intro keeps_intros keeps_announce)
qed

section \<open>Changes by the author and by the platform\<close>

lemma update_existing_inv:
  assumes run: "update_existing_message i op body s = (r, s')" and inv: "chat_inv A ms W (tables s)"
    and may: "\<And>m. m \<in> set (c_messages (snd (tables s))) \<Longrightarrow> cm_id m = i \<Longrightarrow> yielding A m"
  shows "chat_inv A ms W (tables s')"
proof (cases r)
  case (Inl e)
  with run inv show ?thesis by (auto simp: update_existing_message_def bindM_Inl_iff map_errM_Inl_iff dest!: stmt_from_Inl)
next
  case (Inr x)
  let ?f = "revise_chat op body (db_now (fst s))"
  obtain d t where dt: "tables s = (d, t)" by (rule prod.exhaust)
  from run[unfolded Inr update_existing_message_def bindM_readM]
  have "tables s' = (d, t\<lparr>c_messages := update_where (\<lambda>m. cm_id m = i) ?f (c_messages t)\<rparr>)"
    by (rule bind_fromE) (simp add: dt)
  moreover have "chat_inv A ms W (d, t\<lparr>c_messages := update_where (\<lambda>m. cm_id m = i) ?f (c_messages t)\<rparr>)"
  proof (rule chat_inv_update)
    show "chat_inv A ms W (d, t)" using inv dt by simp
    show "stem_of (?f m) = stem_of m" for m by (simp add: revise_chat_def delete_chat_def edit_chat_def stem_of_def)
    show "cm_body (?f m) = []" if "\<not> chat_live (?f m)" for m
      using that by (auto simp: revise_chat_def delete_chat_def edit_chat_def chat_live_def split: if_splits)
  qed (use may dt in simp)
  ultimately show ?thesis by simp
qed

lemma source_unique:
  assumes "chat_inv A ms W (d, t)" "sourced (stems t) i src" "m \<in> set (c_messages t)" "cm_id m = i"
  shows "cm_source m = src"
proof -
  from assms(2) obtain m' where m': "m' \<in> set (c_messages t)" "cm_id m' = i" "cm_source m' = src"
    by (auto simp: sourced_def stems_def stem_of_def)
  have "distinct (map cm_id (c_messages t))" using chat_invD(5)[OF assms(1)] by (simp add: new_keys_def)
  from distinct_key_eq[OF this assms(3) m'(1)] assms(4) m' show ?thesis by simp
qed

lemma lock_owned_Inr:
  assumes "lock_owned_website_message i acc s = (Inr info, s')"
  obtains m where "find_chat (snd (tables s)) i = Some m" "chat_live m" "cm_source m = ''website''" "cm_author m = Some acc"
    "tables s' = tables s"
  using assms unfolding lock_owned_website_message_def
  by (elim bind_rowE) (auto split: option.splits if_splits simp: chat_live_def)

lemma find_chat_only:
  assumes "chat_inv A ms W (d, t)" "find_chat t i = Some m" "m' \<in> set (c_messages t)" "cm_id m' = i"
  shows "m' = m"
proof -
  have "m \<in> set (c_messages t)" "cm_id m = i" using assms(2) by (auto simp: find_chat_def dest!: find_Some_D)
  moreover have "distinct (map cm_id (c_messages t))" using chat_invD(5)[OF assms(1)] by (simp add: new_keys_def)
  ultimately show ?thesis using distinct_key_eq[of cm_id "c_messages t" m' m] assms(3,4) by simp
qed

lemma keeps_change_own_message:
  assumes "(acc, i) \<in> A"
  shows "chat_keeps A ms W (change_own_message r i acc op body)"
proof -
  have "chat_keeps A ms W (in_tx ch_raw (
       bindM (lock_owned_website_message i acc) (\<lambda>(key, is_default).
       bindM (update_existing_message i op body) (\<lambda>m.
       bindM (if is_default then create_outbound_tasks_except i [] op body else ret ()) (\<lambda>_. ret (key, m))))))" (is "chat_keeps A ms W (in_tx ch_raw ?body)")
  proof (rule keeps_in_tx_success)
    fix s x s' assume inv: "chat_inv A ms W (tables s)" and run: "?body s = (Inr x, s')"
    obtain d t where dt: "tables s = (d, t)" by (rule prod.exhaust)
    from run show "chat_inv A ms W (tables s')"
    proof (elim bindM_InrE)
      fix info s1
      assume lock: "lock_owned_website_message i acc s = (Inr info, s1)"
        and run: "(case info of (key, is_default) \<Rightarrow>
          bindM (update_existing_message i op body) (\<lambda>m.
          bindM (if is_default then create_outbound_tasks_except i [] op body else ret ()) (\<lambda>_. ret (key, m)))) s1 = (Inr x, s')"
      from lock obtain m where m: "find_chat (snd (tables s)) i = Some m" "chat_live m" "cm_source m = ''website''"
        "cm_author m = Some acc" and s1: "tables s1 = tables s" by (rule lock_owned_Inr)
      have stem: "stem_of m \<in> stems t" "stem_of m = (i, cm_channel m, Some acc, ''website'', cm_parent m)"
        using m by (auto simp: find_chat_def stems_def stem_of_def dt dest!: find_Some_D)
      let ?W = "insert (stem_of m) W"
      have inv1: "chat_inv A ms ?W (tables s1)" using inv stem by (simp add: s1 dt chat_inv_def)
      obtain key b where info: "info = (key, b)" by (rule prod.exhaust)
      from run[unfolded info prod.case] show ?thesis
      proof (elim bindM_InrE)
        fix u s2 v s3
        assume upd: "update_existing_message i op body s1 = (Inr u, s2)"
          and out: "(if b then create_outbound_tasks_except i [] op body else ret ()) s2 = (Inr v, s3)"
          and fin: "ret (key, u) s3 = (Inr x, s')"
        have inv2: "chat_inv A ms ?W (tables s2)"
        proof (rule update_existing_inv[OF upd inv1])
          fix m' assume "m' \<in> set (c_messages (snd (tables s1)))" "cm_id m' = i"
          with find_chat_only[of A ms W d t i m m'] inv m(1) have "m' = m" by (simp add: s1 dt)
          with m assms show "yielding A m'" using \<open>cm_id m' = i\<close> by (auto simp: yielding_def)
        qed
        have "chat_keeps A ms ?W (if b then create_outbound_tasks_except i [] op body else ret ())"
          by (intro keeps_intros keeps_outbound[where src = "''website''"]
              sourcedI[of _ "cm_channel m" "Some acc" _ "cm_parent m"]) (simp_all add: stem(2))
        from keepsD[OF this inv2 out] fin show ?thesis by (auto intro: chat_inv_weaken)
      qed
    qed
  qed
  note body = this
  show ?thesis unfolding change_own_message_def Let_def
    by (rule keeps_bindM[OF body]) (intro keeps_intros keeps_announce)
qed

lemma keeps_catch_gives:
  assumes "gives P m Q" "\<And>e. keeps P (h e)" "\<And>x. keeps (Q x) (k x)" "\<And>x s. Q x s \<Longrightarrow> P s"
  shows "keeps P (catchM m h k)"
proof (rule keepsI)
  fix s r s' assume P: "P s" and run: "catchM m h k s = (r, s')"
  obtain z s1 where m: "m s = (z, s1)" by (rule prod.exhaust)
  have z: "case z of Inl _ \<Rightarrow> P s1 | Inr x \<Rightarrow> Q x s1" using assms(1) P m unfolding gives_def by blast
  show "P s'"
  proof (cases z)
    case (Inl e)
    with run m have "h e s1 = (r, s')" by (simp add: catchM_def)
    with keepsD[OF assms(2)] z Inl show ?thesis by simp
  next
    case (Inr x)
    with run m have "k x s1 = (r, s')" by (simp add: catchM_def)
    moreover have "Q x s1" using z Inr by simp
    ultimately have "Q x s'" using keepsD[OF assms(3)] by blast
    then show ?thesis by (rule assms(4))
  qed
qed

lemma update_external_gives:
  assumes "sourced W i pl" "pl \<noteq> ''website''"
  shows "gives (\<lambda>s. chat_inv A ms W (tables s)) (update_existing_message i op body)
    (\<lambda>m s. cv_id m = i \<and> chat_inv A ms W (tables s))"
  unfolding gives_def
proof (intro allI impI)
  fix s r s' assume inv: "chat_inv A ms W (tables s)" and run: "update_existing_message i op body s = (r, s')"
  obtain d t where dt: "tables s = (d, t)" by (rule prod.exhaust)
  have "sourced (stems t) i pl" using inv assms(1) sourced_mono unfolding chat_inv_def dt by auto
  from source_unique[OF inv[unfolded dt] this] assms(2)
  have inv': "chat_inv A ms W (tables s')" by (intro update_existing_inv[OF run inv]) (auto simp: yielding_def dt)
  have "cv_id m = i" if "r = Inr m" for m
    using run[unfolded that update_existing_message_def bindM_readM]
    by (elim bind_fromE) (auto simp: find_chat_def chat_message_of_def revise_chat_def delete_chat_def edit_chat_def
        dest!: find_Some_D)
  with inv' show "case r of Inl _ \<Rightarrow> chat_inv A ms W (tables s') | Inr m \<Rightarrow> cv_id m = i \<and> chat_inv A ms W (tables s')"
    by (simp split: sum.split)
qed

lemma keeps_later_revision:
  assumes "sourced W i (xm_platform x)" "xm_platform x \<noteq> ''website''"
  shows "chat_keeps A ms W (later_revision x i)"
  unfolding later_revision_def
proof (rule keeps_bind_gives[OF update_external_gives[OF assms]], rule keeps_pre)
  fix m :: chat_message assume "cv_id m = i"
  with assms(1) show "chat_keeps A ms W (bindM db_clock (\<lambda>ts.
     bindM (map_errM ch_raw (stmt_write (\<lambda>t. t\<lparr>c_bridges := update_where
              (\<lambda>b. cb_message b = cv_id m \<and> cb_platform b = xm_platform x)
              (\<lambda>b. b\<lparr>cb_status := bridge_status (xm_operation x), cb_synced := Some ts, cb_error := None\<rparr>)
              (c_bridges t)\<rparr>) (\<lambda>_ _. ()))) (\<lambda>_.
     bindM (create_outbound_tasks_except (cv_id m) (xm_platform x) (xm_operation x) (xm_body x)) (\<lambda>_.
     ret m))))"
    by (intro keeps_intros keeps_stmt_write keeps_outbound[where src = "xm_platform x"]) (auto elim!: chat_inv_same)
qed simp

lemma keeps_chat_inbound:
  assumes "sourced W i pl" "pl \<noteq> ''website''"
  shows "chat_keeps A ms W (insert_chat_inbound pl ext i)" "chat_keeps A ms W (insert_chat_bridge i pl ext)"
proof -
  have "chat_inv A ms W (d, t\<lparr>c_inbound := c_inbound t @ [((pl, ext), i)]\<rparr>)" if inv: "chat_inv A ms W (d, t)" for d t
  proof (rule chat_inv_cong[OF inv])
    have "sourced (stems t) i pl" using assms(1) chat_invD(6)[OF inv] by (rule sourced_mono)
    then show "inbound_fit (stems t) (t\<lparr>c_inbound := c_inbound t @ [((pl, ext), i)]\<rparr>)"
      using chat_invD(2)[OF inv] assms(2) by (auto simp: inbound_fit_def)
  qed (use chat_invD[OF inv] in \<open>simp_all add: jobs_fit_def posted_fit_def\<close>)
  then show "chat_keeps A ms W (insert_chat_inbound pl ext i)"
    unfolding insert_chat_inbound_def by (intro keeps_intros keeps_stmt_insert) simp
  show "chat_keeps A ms W (insert_chat_bridge i pl ext)"
    unfolding insert_chat_bridge_def by (intro keeps_intros keeps_stmt_insert) (auto elim!: chat_inv_same)
qed

lemma keeps_first_delivery:
  assumes "xm_platform x \<noteq> ''website''"
  shows "chat_keeps A ms W (first_delivery r chan x key)"
proof -
  let ?pl = "xm_platform x"
  have "chat_keeps A ms W (bindM (insert_chat chan None ?pl (Some hash) (xm_body x) None) (\<lambda>m.
     bindM (insert_chat_inbound ?pl (xm_id x) (cv_id m)) (\<lambda>_.
     bindM (insert_chat_bridge (cv_id m) ?pl (xm_id x)) (\<lambda>_.
     bindM (create_outbound_tasks_except (cv_id m) ?pl ''create'' (cv_body m)) (\<lambda>_.
     ret m)))))" for hash
  proof (rule keeps_bind_gives[OF insert_chat_gives])
    fix m :: chat_message
    let ?W = "insert (cv_id m, chan, None, ?pl, None) W"
    have "sourced ?W (cv_id m) ?pl" by (rule sourcedI[of _ chan None _ None]) simp
    then show "chat_keeps A ms ?W (bindM (insert_chat_inbound ?pl (xm_id x) (cv_id m)) (\<lambda>_.
     bindM (insert_chat_bridge (cv_id m) ?pl (xm_id x)) (\<lambda>_.
     bindM (create_outbound_tasks_except (cv_id m) ?pl ''create'' (cv_body m)) (\<lambda>_.
     ret m))))"
      using assms by (intro keeps_intros keeps_chat_inbound keeps_outbound[where src = ?pl]) simp_all
  qed (use assms in \<open>auto intro: chat_inv_weaken\<close>)
  then show ?thesis unfolding first_delivery_def by (intro keeps_bindM[OF keeps_liftM])
qed

lemma lookup_inbound_gives:
  "gives (\<lambda>s. chat_inv A ms W (tables s))
     (stmt (\<lambda>x. (if \<not> pg_text ext then Inl SCheck
        else case map_of (c_inbound (snd x)) (pl, ext) of None \<Rightarrow> Inl SNoRows | Some k \<Rightarrow> Inr k, x)))
     (\<lambda>k s. \<exists>V. (sourced V k pl \<and> pl \<noteq> ''website'') \<and> chat_inv A ms (W \<union> V) (tables s))"
  unfolding gives_def
proof (intro allI impI)
  fix s r s'
  let ?q = "\<lambda>x. (if \<not> pg_text ext then Inl SCheck
        else case map_of (c_inbound (snd x)) (pl, ext) of None \<Rightarrow> Inl SNoRows | Some k \<Rightarrow> Inr k, x)"
  assume inv: "chat_inv A ms W (tables s)" and run: "stmt ?q s = (r, s')"
  show "case r of Inl _ \<Rightarrow> chat_inv A ms W (tables s')
      | Inr k \<Rightarrow> \<exists>V. (sourced V k pl \<and> pl \<noteq> ''website'') \<and> chat_inv A ms (W \<union> V) (tables s')"
  proof (cases r)
    case (Inl e)
    with inv keepsD[OF keeps_stmt[of "chat_inv A ms W" ?q] inv run] show ?thesis by simp
  next
    case (Inr k)
    obtain d t where dt: "tables s = (d, t)" by (rule prod.exhaust)
    from stmt_Inr[OF run[unfolded Inr]] have "map_of (c_inbound t) (pl, ext) = Some k" and t: "tables s' = (d, t)"
      by (auto simp: dt split: if_splits option.splits)
    then have "((pl, ext), k) \<in> set (c_inbound t)" by (simp add: map_of_SomeD)
    with chat_invD(2)[OF inv[unfolded dt]] have "sourced (stems t) k pl" "pl \<noteq> ''website''"
      unfolding inbound_fit_def by fastforce+
    with inv Inr show ?thesis by (auto simp: t dt chat_inv_def intro!: exI[of _ "stems t"])
  qed
qed

lemma keeps_apply_external: "chat_keeps A ms W (apply_external_message r x key)"
proof (cases "validate_chat_external x")
  case False
  then show ?thesis by (simp add: apply_external_message_def keeps_fail)
next
  case True
  then have pl: "xm_platform x \<noteq> ''website''" by (auto simp: validate_chat_external_def)
  have body: "chat_keeps A ms W (in_tx ch_raw (bindM ensure_channel (\<lambda>chan.
        catchM (stmt (\<lambda>y. (if \<not> pg_text (xm_id x) then Inl SCheck
                            else case map_of (c_inbound (snd y)) (xm_platform x, xm_id x) of
                                   None \<Rightarrow> Inl SNoRows | Some k \<Rightarrow> Inr k, y)))
          (\<lambda>e. if e \<noteq> SNoRows then fail ChSQL else bindM (first_delivery r chan x key) (\<lambda>m. ret (True, m)))
          (\<lambda>known. if xm_operation x = ''create'' then bindM (get_chat_message known) (\<lambda>m. ret (False, m))
                   else bindM (later_revision x known) (\<lambda>m. ret (True, m))))))"
    by (rule keeps_in_tx, rule keeps_bindM[OF keeps_ensure_channel], rule keeps_catch_gives[OF lookup_inbound_gives])
      (use pl in \<open>auto simp: get_chat_message_def intro!: keeps_intros keeps_first_delivery keeps_stems keeps_later_revision
          intro: sourced_mono chat_inv_weaken\<close>)
  show ?thesis unfolding apply_external_message_def using True
    by (simp only: not_True_eq_False if_False, intro keeps_bindM[OF body]) (intro keeps_intros keeps_announce)
qed

section \<open>Reactions, pins and lists\<close>

lemma keeps_unless_gone: "tables_keep P (unless_gone i n)"
  unfolding unless_gone_def by (intro keeps_intros)

lemma keeps_chat_reactions:
  "chat_keeps A ms W (set_chat_reaction i acc e)" "chat_keeps A ms W (remove_chat_reaction i acc e)"
  unfolding set_chat_reaction_def remove_chat_reaction_def insert_chat_reaction_def
  by (intro keeps_intros keeps_unless_gone keeps_stmt keeps_stmt_insert; auto elim!: chat_inv_same)+

lemma chat_inv_pins:
  assumes "chat_inv A ms W (d, t)"
  shows "chat_inv A ms W (d, t\<lparr>c_messages := update_where (pinnable i) (pin_chat admin ts) (c_messages t)\<rparr>)"
    "chat_inv A ms W (d, t\<lparr>c_messages := update_where (\<lambda>m. cm_id m = i \<and> cm_pinned m \<noteq> None) unpin_chat (c_messages t)\<rparr>)"
  using chat_invD(7)[OF assms]
  by (auto intro!: chat_inv_update[OF assms]
      simp: pin_chat_def unpin_chat_def stem_of_def plain_def chat_live_def emptied_def)

lemma keeps_set_pinned: "chat_keeps A ms W (set_pinned i admin pinned)"
  unfolding set_pinned_def
  by (intro keeps_intros keeps_unless_gone keeps_stmt_insert keeps_stmt_write) (simp_all add: chat_inv_pins del: not_None_eq)

lemma keeps_chat_reads:
  "tables_keep P list_channels" "tables_keep P (list_channel_messages r key viewer l after)"
  "tables_keep P (list_messages r l after)" "tables_keep P (list_thread_replies r i viewer l after)"
  "tables_keep P (list_pinned key viewer)"
  unfolding list_channels_def list_messages_def list_channel_messages_def list_thread_replies_def list_pinned_def
    enrich_def Let_def
  by (intro keeps_intros keeps_channel_id)+

section \<open>The worker\<close>

lemma chat_inv_jobs:
  assumes inv: "chat_inv A ms W (d, t)" and f: "\<And>j. cj_id (f j) = cj_id j \<and> cj_message (f j) = cj_message j \<and> cj_platform (f j) = cj_platform j"
  shows "chat_inv A ms W (d, t\<lparr>c_jobs := update_where p f (c_jobs t)\<rparr>)"
  using chat_invD[OF inv] f
  by (intro chat_inv_cong[OF inv])
    (auto simp: new_keys_update jobs_fit_def ball_update_where inbound_fit_def posted_fit_def)

lemma keeps_take_jobs: "chat_keeps A ms W (take_jobs ts ks)"
  by (induction ks) (auto intro!: keeps_intros keeps_stmt_write chat_inv_jobs)

definition fits_out :: "stem set \<Rightarrow> chat_task list \<Rightarrow> bool" where
  "fits_out V ks \<longleftrightarrow> (\<forall>k \<in> set ks. no_echo V (ck_message k) (ck_platform k))"

lemma fits_out_mono: "fits_out V ks \<Longrightarrow> fits_out (W \<union> V) ks"
  unfolding fits_out_def using no_echo_mono by blast

lemma claim_chat_Inr:
  assumes "claim_chat_outbox l s = (Inr ks, s')"
  obtains n where "ks = map (task_of (snd (tables s))) (claimable_jobs (snd (tables s)) (db_now (fst s)) n)"
  using assms unfolding claim_chat_outbox_def Let_def bindM_readM
  by (elim in_tx_Inr bind_rowsE) auto

lemma claimed_job: "k \<in> set (map (task_of t) (claimable_jobs t ts n)) \<Longrightarrow>
    \<exists>j \<in> set (c_jobs t). k = task_of t j \<and> job_due ts j \<and> \<not> job_blocked (c_jobs t) j"
  by (auto simp: claimable_jobs_def dest!: in_set_takeD)

lemma keeps_claim_chat: "chat_keeps A ms W (claim_chat_outbox l)"
  unfolding claim_chat_outbox_def Let_def by (intro keeps_intros keeps_take_jobs)

lemma claim_chat_gives:
  "gives (\<lambda>s. chat_inv A ms W (tables s)) (claim_chat_outbox l)
     (\<lambda>ks s. \<exists>V. fits_out V ks \<and> chat_inv A ms (W \<union> V) (tables s))"
  unfolding gives_def
proof (intro allI impI)
  fix s r s' assume inv: "chat_inv A ms W (tables s)" and run: "claim_chat_outbox l s = (r, s')"
  obtain d t where dt: "tables s = (d, t)" by (rule prod.exhaust)
  show "case r of Inl _ \<Rightarrow> chat_inv A ms W (tables s')
      | Inr ks \<Rightarrow> \<exists>V. fits_out V ks \<and> chat_inv A ms (W \<union> V) (tables s')"
  proof (cases r)
    case (Inl e)
    with keepsD[OF keeps_claim_chat inv run] show ?thesis by simp
  next
    case (Inr ks)
    from run[unfolded Inr] obtain n where ks: "ks = map (task_of t) (claimable_jobs t (db_now (fst s)) n)"
      by (rule claim_chat_Inr) (simp add: dt)
    have "fits_out (stems t) ks" unfolding fits_out_def
    proof
      fix k assume "k \<in> set ks"
      from claimed_job[OF this[unfolded ks]] obtain j where "j \<in> set (c_jobs t)" "k = task_of t j" by blast
      with chat_invD(3)[OF inv[unfolded dt]] show "no_echo (stems t) (ck_message k) (ck_platform k)"
        by (auto simp: jobs_fit_def task_of_def)
    qed
    moreover have "chat_inv A ms (W \<union> stems t) (tables s')"
    proof (rule keepsD[OF keeps_claim_chat _ run])
      show "chat_inv A ms (W \<union> stems t) (tables s)" using inv by (simp add: dt chat_inv_def)
    qed
    ultimately show ?thesis using Inr by auto
  qed
qed

lemma keeps_post_chat:
  assumes "no_echo W (ck_message k) (ck_platform k)"
  shows "chat_keeps A ms W (post_chat senders k)"
proof (rule keepsI)
  fix s r s' assume inv: "chat_inv A ms W (tables s)" and run: "post_chat senders k s = (r, s')"
  obtain d t where dt: "tables s = (d, t)" by (rule prod.exhaust)
  have "chat_inv A ms W (d, t\<lparr>c_posted := c_posted t @ [k]\<rparr>)"
  proof (rule chat_inv_cong[OF inv[unfolded dt]])
    have "no_echo (stems t) (ck_message k) (ck_platform k)"
      using assms chat_invD(6)[OF inv[unfolded dt]] by (rule no_echo_mono)
    then show "posted_fit (stems t) (t\<lparr>c_posted := c_posted t @ [k]\<rparr>)"
      using chat_invD(4)[OF inv[unfolded dt]] by (simp add: posted_fit_def)
  qed (use chat_invD[OF inv[unfolded dt]] in \<open>simp_all add: inbound_fit_def jobs_fit_def\<close>)
  with run inv dt show "chat_inv A ms W (tables s')" by (auto simp: post_chat_def tables_def split: option.splits)
qed

lemma keeps_chat_marks:
  "chat_keeps A ms W (mark_chat_sent k ext)" "chat_keeps A ms W (mark_chat_failed k msg)"
proof -
  have "chat_keeps A ms W (upsert_chat_bridge k ext)"
    unfolding upsert_chat_bridge_def by (intro keeps_intros keeps_stmt_insert) (auto simp: Let_def elim!: chat_inv_same)
  then show "chat_keeps A ms W (mark_chat_sent k ext)"
    unfolding mark_chat_sent_def by (intro keeps_intros keeps_stmt_write) (auto intro: chat_inv_jobs)
  show "chat_keeps A ms W (mark_chat_failed k msg)"
    unfolding mark_chat_failed_def Let_def
    by (intro keeps_intros keeps_stmt_insert) (auto simp: fail_job_def intro: chat_inv_jobs)
qed

lemma keeps_chat_sync:
  "fits_out W ks \<Longrightarrow> chat_keeps A ms W (chat_sync_tasks en senders ks old)"
proof (induction ks arbitrary: old)
  case (Cons k ks)
  then have k: "no_echo W (ck_message k) (ck_platform k)" and ks: "fits_out W ks" by (simp_all add: fits_out_def)
  have note_keeps: "chat_keeps A ms W (note_chat_failure k msg e old)" for msg e
    unfolding note_chat_failure_def by (intro keeps_intros keeps_chat_marks)
  show ?case unfolding chat_sync_tasks.simps chat_sync_task_def
    by (intro keeps_intros keeps_post_chat k note_keeps keeps_chat_marks Cons.IH ks)
qed (simp add: keeps_ret)

lemma keeps_chat_process: "chat_keeps A ms W (chat_process_once en senders batch)"
  unfolding chat_process_once_def Let_def
  by (rule keeps_catch_gives[OF claim_chat_gives])
    (auto intro!: keeps_ret keeps_stems keeps_chat_sync intro: chat_inv_weaken fits_out_mono)

section \<open>Requests\<close>

lemma calm_chat_authed: "keeps (calm_rows s0) (chat_authed h rq)"
  unfolding chat_authed_def by (intro keeps_intros calm_core calm_authenticate)

lemma calm_chat_admin: "keeps (calm_rows s0) (chat_is_admin acc)"
  unfolding chat_is_admin_def is_admin_def has_role_def by (intro calm_core keeps_intros)

lemma chat_guards:
  "chat_keeps A ms W (chat_authed h rq)" "chat_keeps A ms W (chat_authed_mutation h rq)"
  "chat_keeps A ms W (chat_page_query h raw token)" "chat_keeps A ms W (message_path h raw)"
  "chat_keeps A ms W (text_body body)" "chat_keeps A ms W (chat_emoji raw)" "chat_keeps A ms W (channel_body h pbody)"
  "chat_keeps A ms W (admin_step chat_is_admin rs)"
  unfolding chat_authed_mutation_def chat_page_query_def message_path_def text_body_def chat_emoji_def channel_body_def Let_def
  by (intro chat_rows.calm chat_rows.guards chat_rows.admin keeps_intros calm_chat_authed calm_chat_admin)+

lemma chat_allow_message_keeps: "chat_keeps A ms W (chat_allow_message h rs)"
  unfolding chat_allow_message_def by (intro keeps_intros chat_rows.rate) (auto elim!: chat_inv_same)

lemmas chat_operations = keeps_create_website_message keeps_create_channel_message keeps_forward_message
  keeps_chat_reactions keeps_set_pinned keeps_apply_external keeps_chat_reads

text \<open>Editing and withdrawing are the calls that change a message of the website.\<close>

definition owner_call :: "chat_handler \<Rightarrow> chat_call \<Rightarrow> uuid \<Rightarrow> bool" where
  "owner_call h call i \<longleftrightarrow> (\<exists>raw. e_parse_uuid (hc_env h) raw = Some i
     \<and> (call = ChatWithdrawCall raw \<or> (\<exists>body. call = ChatEditCall raw body)))"

lemma other_routes_keep:
  assumes "\<And>raw body. call \<noteq> ChatEditCall raw body" "\<And>raw. call \<noteq> ChatWithdrawCall raw"
  shows "chat_keeps A ms W (chat_route h rq call)"
proof (cases call)
  case (ChatEditCall raw body)
  then show ?thesis using assms by simp
next
  case (ChatWithdrawCall raw)
  then show ?thesis using assms by simp
qed (simp_all only: chat_route.simps route_chat_list_def route_chat_create_def route_chat_channels_def route_channel_list_def
      route_channel_create_def route_chat_pins_def route_chat_replies_def route_add_chat_reaction_def
      route_remove_chat_reaction_def route_set_pin_def route_forward_def chat_webhook_def serve_chat_def,
     (intro keeps_intros chat_guards chat_rows.guards chat_allow_message_keeps chat_operations)+)

definition chat_caller :: "chat_handler \<Rightarrow> request \<Rightarrow> chat_tables state \<Rightarrow> uuid \<Rightarrow> bool" where
  "chat_caller h rq s acc \<longleftrightarrow> (\<exists>rs w. authenticate (hc_auth h) rq (fst s) = (Inr rs, w) \<and> chat_account rs = acc)"

lemma authed_run:
  assumes inv: "chat_inv A ms W (tables s)" and run: "bindM (chat_authed_mutation h rq) f s = (r, s')"
    and keep: "\<And>rs. chat_caller h rq s (chat_account rs) \<Longrightarrow> chat_keeps A ms W (f rs)"
  shows "chat_inv A ms W (tables s')"
proof -
  obtain z s1 where m: "chat_authed_mutation h rq s = (z, s1)" by (rule prod.exhaust)
  have inv1: "chat_inv A ms W (tables s1)" by (rule keepsD[OF chat_guards(2) inv m])
  show ?thesis
  proof (cases z)
    case (Inl e)
    with run m inv1 show ?thesis by (simp add: bindM_def)
  next
    case (Inr rs)
    with run m have rest: "f rs s1 = (r, s')" by (simp add: bindM_def)
    from m[unfolded Inr] have "chat_caller h rq s (chat_account rs)"
      by (auto simp: chat_authed_mutation_def chat_authed_def chat_caller_def core_Inr)
    from keepsD[OF keep[OF this] inv1 rest] show ?thesis .
  qed
qed

lemma keeps_message_path: "(\<And>i. e_parse_uuid (hc_env h) raw = Some i \<Longrightarrow> tables_keep P (f i)) \<Longrightarrow> tables_keep P (bindM (message_path h raw) f)"
  by (cases "e_parse_uuid (hc_env h) raw") (simp_all add: message_path_def path_uuid_def keeps_fail)

lemma owner_routes_keep:
  assumes inv: "chat_inv A ms W (tables s)" and run: "chat_route h rq call s = (r, s')"
    and A: "\<And>acc i. chat_caller h rq s acc \<Longrightarrow> owner_call h call i \<Longrightarrow> (acc, i) \<in> A"
  shows "chat_inv A ms W (tables s')"
proof (cases "(\<exists>raw body. call = ChatEditCall raw body) \<or> (\<exists>raw. call = ChatWithdrawCall raw)")
  case False
  then have "chat_keeps A ms W (chat_route h rq call)" by (intro other_routes_keep) auto
  from keepsD[OF this inv run] show ?thesis .
next
  case True
  then show ?thesis
  proof (elim disjE exE)
    fix raw body assume call: "call = ChatEditCall raw body"
    from run[unfolded call chat_route.simps route_chat_edit_def] show ?thesis
    proof (rule authed_run[OF inv])
      fix rs assume "chat_caller h rq s (chat_account rs)"
      with A have "e_parse_uuid (hc_env h) raw = Some i \<Longrightarrow> (chat_account rs, i) \<in> A" for i
        by (auto simp: owner_call_def call)
      then show "chat_keeps A ms W (bindM (message_path h raw) (\<lambda>i. bindM (text_body body) (\<lambda>b.
          bindM (serve_chat (edit_own_message (hc_repo h) i (chat_account rs) b)) (\<lambda>m. ret (Replied 200 (ChatMessageOut m))))))"
        unfolding serve_chat_def edit_own_message_def
        by (intro keeps_message_path keeps_bindM[OF chat_guards(5)] keeps_intros keeps_change_own_message)
    qed
  next
    fix raw assume call: "call = ChatWithdrawCall raw"
    from run[unfolded call chat_route.simps route_chat_withdraw_def] show ?thesis
    proof (rule authed_run[OF inv])
      fix rs assume "chat_caller h rq s (chat_account rs)"
      with A have "e_parse_uuid (hc_env h) raw = Some i \<Longrightarrow> (chat_account rs, i) \<in> A" for i
        by (auto simp: owner_call_def call)
      then show "chat_keeps A ms W (bindM (message_path h raw) (\<lambda>i.
          bindM (serve_chat (withdraw_own_message (hc_repo h) i (chat_account rs))) (\<lambda>_. ret (Replied 204 NoChatBody))))"
        unfolding serve_chat_def withdraw_own_message_def
        by (intro keeps_message_path keeps_intros keeps_change_own_message)
    qed
  qed
qed

section \<open>What chat can become\<close>

text \<open>
  A request, a message sent or changed through the repository alone, a pass of the worker, or a
  change elsewhere: of the shared tables, the clocks and the channels, which no code of this
  component edits.
\<close>

inductive chat_step :: "chat_handler \<Rightarrow> chat_senders \<Rightarrow> chat_tables state \<Rightarrow> chat_tables state \<Rightarrow> bool" for h senders where
  request: "chat_route h rq call s = (x, s') \<Longrightarrow> chat_step h senders s s'"
| compose: "create_website_message (hc_repo h) acc body s = (z, s') \<Longrightarrow> chat_step h senders s s'"
| reply: "create_channel_message (hc_repo h) key acc body parent s = (z, s') \<Longrightarrow> chat_step h senders s s'"
| revise: "change_own_message (hc_repo h) i acc op body s = (z, s') \<Longrightarrow> chat_step h senders s s'"
| worker: "chat_process_once (hc_env h) senders batch s = (y :: unit + chat_failure option, s') \<Longrightarrow> chat_step h senders s s'"
| elsewhere: "next_id (w_db w) \<le> next_id (w_db w') \<Longrightarrow> chat_step h senders (w, t) (w', t\<lparr>c_channels := cs\<rparr>)"

inductive chat_served :: "chat_handler \<Rightarrow> chat_senders \<Rightarrow> chat_tables state \<Rightarrow> bool" for h senders where
  start: "c_messages t = [] \<Longrightarrow> c_inbound t = [] \<Longrightarrow> c_jobs t = [] \<Longrightarrow> c_posted t = [] \<Longrightarrow> chat_served h senders (w, t)"
| step: "chat_served h senders s \<Longrightarrow> chat_step h senders s s' \<Longrightarrow> chat_served h senders s'"

lemma chat_step_inv: "chat_step h senders s s' \<Longrightarrow> chat_inv UNIV ms W (tables s) \<Longrightarrow> chat_inv UNIV ms W (tables s')"
proof (induction rule: chat_step.induct)
  case (request rq call s x s')
  then show ?case by (intro owner_routes_keep[OF request(2,1)]) simp
next
  case (compose acc body s z s')
  from keepsD[OF keeps_create_website_message compose(2,1)] show ?case .
next
  case (reply key acc body parent s z s')
  from keepsD[OF keeps_create_channel_message reply(2,1)] show ?case .
next
  case (revise i acc op body s z s')
  from keepsD[OF keeps_change_own_message revise(2,1)] show ?case by simp
next
  case (worker batch s y s')
  from keepsD[OF keeps_chat_process worker(2,1)] show ?case .
next
  case (elsewhere w w' t cs)
  then show ?case by (auto simp: tables_def elim!: chat_inv_same)
qed

lemma chat_served_inv: "chat_served h senders s \<Longrightarrow> chat_inv UNIV [] {} (tables s)"
proof (induction rule: chat_served.induct)
  case (start t w)
  then show ?case
    by (simp add: chat_inv_def chat_ok_def tables_def new_keys_def authors_fit_def flat_threads_def inbound_fit_def
        jobs_fit_def posted_fit_def emptied_def chat_framed_def stems_def)
qed (rule chat_step_inv)

lemma chat_served_ok: "chat_served h senders s \<Longrightarrow> chat_ok (tables s)"
  using chat_served_inv by (simp add: chat_inv_def)

text \<open>Everybody's own messages, and those withdrawn, in any state that chat can be in.\<close>

lemma chat_served_frame:
  assumes "chat_served h senders s"
  shows "chat_inv A (c_messages (snd s)) {} (tables s)"
  using chat_served_ok[OF assms] by (auto simp: chat_inv_def chat_framed_def tables_def)

end
