(* ===== verification/ChatProperties.thy ===== *)
theory ChatProperties imports ChatInvariants ToyRun begin

text \<open>
  What chat promises: only its author changes a message of the website, a withdrawn one is gone,
  threads are flat, nothing is echoed; and what its outbox does to a message behind a job it has
  given up.
\<close>

section \<open>Who changes a message\<close>

lemma author_changes:
  assumes "chat_served h senders s" "chat_route h rq call s = (x, s')"
    "m \<in> set (c_messages (snd s))" "cm_source m = ''website''"
  shows "(\<exists>m' \<in> set (c_messages (snd s')). plain m' = plain m)
    \<or> chat_live m \<and> owner_call h call (cm_id m) \<and> (\<exists>acc. chat_caller h rq s acc \<and> cm_author m = Some acc)"
proof -
  let ?A = "{(acc, i). chat_caller h rq s acc \<and> owner_call h call i}"
  have "chat_inv ?A (c_messages (snd s)) {} (tables s')"
    by (rule owner_routes_keep[OF chat_served_frame[OF assms(1)] assms(2)]) simp
  then have "chat_framed ?A (c_messages (snd s)) (snd s')" by (simp add: chat_inv_def tables_def)
  with assms(3) have "yielding ?A m \<or> (\<exists>m' \<in> set (c_messages (snd s')). plain m' = plain m)"
    unfolding chat_framed_def by blast
  with assms(4) show ?thesis by (auto simp: yielding_def)
qed

section \<open>What is shown\<close>

fun shown_chat :: "chat_body reply \<Rightarrow> chat_message list" where
  "shown_chat (Replied n (MessagesOut ms t)) = ms"
| "shown_chat (Replied n (PinsOut ms)) = ms"
| "shown_chat (Replied n (ChatMessageOut m)) = [m]"
| "shown_chat _ = []"

definition reading_call :: "chat_call \<Rightarrow> bool" where
  "reading_call call \<longleftrightarrow> (\<exists>n token. call = LoungeListCall n token) \<or> (\<exists>key n token. call = ChannelListCall key n token)
     \<or> (\<exists>key. call = PinsCall key) \<or> (\<exists>raw n token. call = RepliesCall raw n token)"

definition visible_chat :: "chat_tables \<Rightarrow> chat_message \<Rightarrow> bool" where
  "visible_chat t v \<longleftrightarrow> (\<exists>m \<in> set (c_messages t). cm_id m = cv_id v \<and> cm_body m = cv_body v \<and> chat_live m)"

lemma visible_enriched [simp]:
  "visible_chat t (m\<lparr>cv_reactions := a\<rparr>) = visible_chat t m" "visible_chat t (m\<lparr>cv_replies := n\<rparr>) = visible_chat t m"
  by (simp_all add: visible_chat_def)

lemma listed_visible:
  assumes "v \<in> set (List.map_filter (listed_chat t) (c_messages t))" "cv_status v \<noteq> ''deleted''"
  shows "visible_chat t v"
  using assms by (auto simp: map_filter_def listed_chat_def visible_chat_def chat_message_of_def chat_live_def)

lemma pages_visible:
  "v \<in> set (channel_messages t key) \<Longrightarrow> visible_chat t v" "v \<in> set (thread_replies t i) \<Longrightarrow> visible_chat t v"
  "v \<in> set (pinned_messages t key) \<Longrightarrow> visible_chat t v"
  by (auto simp: channel_messages_def thread_replies_def pinned_messages_def intro: listed_visible)

lemma enrich_visible:
  assumes "enrich ms viewer s = (Inr ms', s')" "\<And>v. v \<in> set ms \<Longrightarrow> visible_chat t v" "v \<in> set ms'"
  shows "visible_chat t v"
  using assms by (auto simp: enrich_def split: if_splits dest!: stmt_rows_Inr)

lemma channel_id_tables: "channel_id key s = (Inr x, s') \<Longrightarrow> snd s' = snd s"
  by (auto simp: channel_id_def tables_def dest!: stmt_Inr split: if_splits option.splits)

lemma stmt_rows_snd: "stmt_rows f s = (Inr y, s') \<Longrightarrow> y = f (w_db (fst s)) (snd s) \<and> snd s' = snd s"
  by (auto simp: tables_def dest!: stmt_rows_Inr)

lemma lists_visible:
  "list_channel_messages r key viewer l after s = (Inr (ms, next), s') \<Longrightarrow> v \<in> set ms \<Longrightarrow> visible_chat (snd s) v"
  "list_thread_replies r i viewer l after s = (Inr (ms, next), s') \<Longrightarrow> v \<in> set ms \<Longrightarrow> visible_chat (snd s) v"
  "list_pinned key viewer s = (Inr ms, s') \<Longrightarrow> v \<in> set ms \<Longrightarrow> visible_chat (snd s) v"
proof -
  show "list_channel_messages r key viewer l after s = (Inr (ms, next), s') \<Longrightarrow> v \<in> set ms \<Longrightarrow> visible_chat (snd s) v"
    unfolding list_channel_messages_def Let_def
    by (auto dest!: channel_id_tables stmt_rows_snd dest!: in_set_takeD elim!: enrich_visible intro: pages_visible(1))
  show "list_thread_replies r i viewer l after s = (Inr (ms, next), s') \<Longrightarrow> v \<in> set ms \<Longrightarrow> visible_chat (snd s) v"
    unfolding list_thread_replies_def Let_def
    by (auto dest!: stmt_rows_snd in_set_takeD split: if_splits elim!: enrich_visible intro: pages_visible(2))
  show "list_pinned key viewer s = (Inr ms, s') \<Longrightarrow> v \<in> set ms \<Longrightarrow> visible_chat (snd s) v"
    unfolding list_pinned_def
    by (auto dest!: channel_id_tables stmt_rows_snd in_set_takeD elim!: enrich_visible intro: pages_visible(3))
qed

lemma chat_authed_rows: "chat_authed h rq s = (Inr rs, s') \<Longrightarrow> snd s' = snd s"
  by (auto simp: chat_authed_def core_Inr)

lemma chat_query_rows: "chat_page_query h raw token s = (Inr q, s') \<Longrightarrow> s' = s"
  "message_path h raw s = (Inr i, s') \<Longrightarrow> s' = s"
  by (auto simp: chat_page_query_def message_path_def body_step_def path_uuid_def split: option.splits if_splits)

lemma reading_shows_visible:
  assumes "reading_call call" "chat_route h rq call s = (Inr reply, s')" "v \<in> set (shown_chat reply)"
  shows "visible_chat (snd s) v"
  using assms unfolding reading_call_def
  by (elim disjE exE)
    (auto simp: route_chat_list_def route_channel_list_def route_chat_pins_def route_chat_replies_def serve_chat_def
        list_messages_def dest!: chat_authed_rows chat_query_rows dest: lists_visible split: prod.splits)

lemma chat_steps_inv:
  "(chat_step h senders)\<^sup>*\<^sup>* s s' \<Longrightarrow> chat_inv UNIV ms W (tables s) \<Longrightarrow> chat_inv UNIV ms W (tables s')"
  by (induction rule: rtranclp_induct) (auto dest: chat_step_inv)

lemma chat_steps_served: "(chat_step h senders)\<^sup>*\<^sup>* s s' \<Longrightarrow> chat_served h senders s \<Longrightarrow> chat_served h senders s'"
  by (induction rule: rtranclp_induct) (auto intro: chat_served.step)

lemma withdrawn_gone:
  assumes "chat_served h senders s" "m \<in> set (c_messages (snd s))" "cm_source m = ''website''" "\<not> chat_live m"
    "(chat_step h senders)\<^sup>*\<^sup>* s s'"
  shows "\<exists>m' \<in> set (c_messages (snd s')). plain m' = plain m \<and> cm_body m' = []"
    "\<not> (\<exists>x \<in> set (c_messages (snd s')). cm_id x = cm_id m \<and> chat_live x)"
proof -
  have inv: "chat_inv UNIV (c_messages (snd s)) {} (tables s')"
    by (rule chat_steps_inv[OF assms(5) chat_served_frame[OF assms(1)]])
  then have "chat_framed UNIV (c_messages (snd s)) (snd s')" by (simp add: chat_inv_def tables_def)
  moreover have "\<not> yielding UNIV m" using assms(3,4) by (simp add: yielding_def)
  ultimately obtain m' where m': "m' \<in> set (c_messages (snd s'))" "plain m' = plain m"
    using assms(2) unfolding chat_framed_def by blast
  have dead: "\<not> chat_live m'" "cm_id m' = cm_id m" using plain_sels[OF m'(2)] assms(4) by (simp_all add: chat_live_def)
  have t: "tables s' = (w_db (fst s'), snd s')" by (simp add: tables_def)
  show "\<exists>m' \<in> set (c_messages (snd s')). plain m' = plain m \<and> cm_body m' = []"
    using m' dead(1) chat_invD(7)[OF inv[unfolded t]] by (auto simp: emptied_def)
  have "distinct (map cm_id (c_messages (snd s')))"
    using chat_invD(5)[OF inv[unfolded t]] by (simp add: new_keys_def)
  from distinct_key_eq[OF this _ m'(1)] dead
  show "\<not> (\<exists>x \<in> set (c_messages (snd s')). cm_id x = cm_id m \<and> chat_live x)" by auto
qed

lemma withdrawn_never_shown:
  assumes "chat_served h senders s" "m \<in> set (c_messages (snd s))" "cm_source m = ''website''" "\<not> chat_live m"
    "(chat_step h senders)\<^sup>*\<^sup>* s s'" "reading_call call" "chat_route h rq call s' = (Inr reply, s'')"
    "v \<in> set (shown_chat reply)"
  shows "cv_id v \<noteq> cm_id m"
  using withdrawn_gone(2)[OF assms(1-5)] reading_shows_visible[OF assms(6-8)]
  by (auto simp: visible_chat_def)

section \<open>A job behind one that was given up\<close>

definition behind :: "chat_job \<Rightarrow> chat_job \<Rightarrow> bool" where
  "behind j l \<longleftrightarrow> cj_status j = ''abandoned'' \<and> cj_message l = cj_message j \<and> cj_platform l = cj_platform j
     \<and> cj_id l \<noteq> cj_id j \<and> cj_created j < cj_created l \<and> (cj_status l = ''pending'' \<or> cj_status l = ''failed'')"

text \<open>Both rows stand, and nothing handed out after the first \<open>n\<close> tasks is the later one.\<close>

definition blocked :: "nat \<Rightarrow> chat_job \<Rightarrow> chat_job \<Rightarrow> db \<times> chat_tables \<Rightarrow> bool" where
  "blocked n j l x \<longleftrightarrow> new_keys (next_id (fst x)) cj_id (c_jobs (snd x)) \<and> j \<in> set (c_jobs (snd x))
     \<and> l \<in> set (c_jobs (snd x)) \<and> behind j l \<and> n \<le> length (c_posted (snd x))
     \<and> (\<forall>k \<in> set (drop n (c_posted (snd x))). ck_id k \<noteq> cj_id l)"

lemma blocked_cong:
  "blocked n j l (d, t) \<Longrightarrow> next_id d \<le> next_id d' \<Longrightarrow> c_jobs t' = c_jobs t \<Longrightarrow> c_posted t' = c_posted t
    \<Longrightarrow> blocked n j l (d', t')"
  by (auto simp: blocked_def intro: new_keys_mono)

interpretation blocked_rows: steady "blocked n j l"
  by unfold_locales (erule blocked_cong; simp)

lemma blocked_update:
  assumes "blocked n j l (d, t)" "i \<noteq> cj_id j" "i \<noteq> cj_id l" "\<And>q. cj_id (f q) = cj_id q"
  shows "blocked n j l (d, t\<lparr>c_jobs := update_where (\<lambda>q. cj_id q = i) f (c_jobs t)\<rparr>)"
  using assms by (auto simp: blocked_def new_keys_update intro!: in_update_where_same)

named_theorems blocked_ops \<open>operations that leave the blocked job where it is\<close>

lemma blocked_insert_job [blocked_ops]: "tables_keep (blocked n j l) (insert_job i pl op body)"
  unfolding insert_job_def
  by (intro keeps_intros keeps_stmt_from)
    (auto simp: blocked_def draw_id_def new_job_def intro: new_keys_append)

lemma blocked_announce [blocked_ops]: "tables_keep (blocked n j l) (announce r key m)"
  by (auto simp: keeps_def announce_def tables_def elim!: blocked_cong)

lemma blocked_messages [blocked_ops]:
  "tables_keep (blocked n j l) ensure_channel" "tables_keep (blocked n j l) (insert_chat chan acc src hash body parent)"
  "tables_keep (blocked n j l) (update_existing_message i op body)"
  "tables_keep (blocked n j l) (check_parent chan parent)" "tables_keep (blocked n j l) (channel_id key)"
  "tables_keep (blocked n j l) (insert_chat_inbound pl ext i)" "tables_keep (blocked n j l) (insert_chat_bridge i pl ext)"
  "tables_keep (blocked n j l) (lock_owned_website_message i acc')" "tables_keep (blocked n j l) (get_chat_message i)"
  "tables_keep (blocked n j l) (insert_chat_reaction x)" "tables_keep (blocked n j l) (remove_chat_reaction i acc' e)"
  "tables_keep (blocked n j l) (set_pinned i acc' b)" "tables_keep (blocked n j l) (upsert_chat_bridge k ext)"
  unfolding ensure_channel_def insert_chat_def update_existing_message_def check_parent_def channel_id_def
    insert_chat_inbound_def insert_chat_bridge_def lock_owned_website_message_def get_chat_message_def
    insert_chat_reaction_def remove_chat_reaction_def set_pinned_def upsert_chat_bridge_def
  by (intro keeps_intros keeps_unless_gone keeps_stmt keeps_stmt_insert keeps_stmt_write keeps_stmt_from;
      auto simp: draw_id_def add_chat_def Let_def split: option.splits elim!: blocked_cong)+

lemma blocked_outbound [blocked_ops]: "tables_keep (blocked n j l) (create_outbound_tasks_except i except op body)"
  unfolding create_outbound_tasks_except_def by (intro keeps_intros blocked_ops)

lemma blocked_forward: "tables_keep (blocked n j l) (forward_message r src key acc)"
  unfolding forward_message_def Let_def create_outbound_tasks_def
  by (intro keeps_intros blocked_ops keeps_stmt_from; auto simp: draw_id_def add_chat_def elim!: blocked_cong)

lemma blocked_stores:
  "tables_keep (blocked n j l) (create_website_message r acc body)"
  "tables_keep (blocked n j l) (create_channel_message r key acc body parent)"
  "tables_keep (blocked n j l) (change_own_message r i acc op body)"
  "tables_keep (blocked n j l) (set_chat_reaction i acc e)"
  unfolding create_website_message_def create_channel_message_def change_own_message_def set_chat_reaction_def
    create_outbound_tasks_def Let_def
  by (intro keeps_intros blocked_ops keeps_unless_gone)+

lemma blocked_external: "tables_keep (blocked n j l) (apply_external_message r x key)"
proof -
  have "tables_keep (blocked n j l) (stmt (\<lambda>y. (q y, y)))" for q :: "db \<times> chat_tables \<Rightarrow> stmt_error + uuid"
    by (rule keeps_stmt) simp
  note lookup = this
  show ?thesis
    unfolding apply_external_message_def first_delivery_def later_revision_def
    by (intro keeps_intros blocked_ops lookup keeps_stmt_write) (auto elim!: blocked_cong)
qed

lemma blocked_route: "tables_keep (blocked n j l) (chat_route h rq call)"
proof -
  have guards: "tables_keep (blocked n j l) (chat_authed h rq)" "tables_keep (blocked n j l) (chat_authed_mutation h rq)"
    "tables_keep (blocked n j l) (chat_page_query h raw token)" "tables_keep (blocked n j l) (message_path h raw)"
    "tables_keep (blocked n j l) (text_body body)" "tables_keep (blocked n j l) (chat_emoji raw)"
    "tables_keep (blocked n j l) (channel_body h pbody)" "tables_keep (blocked n j l) (admin_step chat_is_admin rs)"
    "tables_keep (blocked n j l) (chat_allow_message h rs)" for raw token body pbody rs
    unfolding chat_authed_mutation_def chat_page_query_def message_path_def text_body_def chat_emoji_def channel_body_def
      chat_allow_message_def Let_def
    by (intro blocked_rows.calm blocked_rows.guards blocked_rows.admin blocked_rows.rate keeps_intros calm_chat_authed
        calm_chat_admin; auto elim!: blocked_cong)+
  show ?thesis
    by (cases call)
      (simp_all only: chat_route.simps route_chat_list_def route_chat_create_def route_chat_channels_def route_channel_list_def
        route_channel_create_def route_chat_pins_def route_chat_replies_def route_add_chat_reaction_def
        route_remove_chat_reaction_def route_set_pin_def route_forward_def route_chat_edit_def route_chat_withdraw_def
        chat_webhook_def serve_chat_def edit_own_message_def withdraw_own_message_def,
       (intro keeps_intros guards blocked_rows.guards blocked_ops blocked_stores blocked_forward blocked_external
         keeps_chat_reads)+)
qed

text \<open>A claim takes neither: the first is not due, the second waits for it.\<close>

definition spares :: "chat_job \<Rightarrow> chat_job \<Rightarrow> chat_task list \<Rightarrow> bool" where
  "spares j l ks \<longleftrightarrow> (\<forall>k \<in> set ks. ck_id k \<noteq> cj_id j \<and> ck_id k \<noteq> cj_id l)"

lemma claimable_spares:
  assumes "blocked n j l (d, t)"
  shows "spares j l (map (task_of t) (claimable_jobs t ts q))"
  unfolding spares_def
proof
  fix k assume "k \<in> set (map (task_of t) (claimable_jobs t ts q))"
  from claimed_job[OF this] obtain i where i: "i \<in> set (c_jobs t)" "ck_id k = cj_id i" "job_due ts i"
    "\<not> job_blocked (c_jobs t) i" by (auto simp: task_of_def)
  have B: "j \<in> set (c_jobs t)" "l \<in> set (c_jobs t)" "behind j l" "distinct (map cj_id (c_jobs t))"
    using assms by (simp_all add: blocked_def new_keys_def)
  have "\<not> job_due ts j" using B(3) by (auto simp: behind_def job_due_def)
  moreover have "job_blocked (c_jobs t) l" using B(1,3) by (auto simp: behind_def job_blocked_def list_ex_iff)
  ultimately have "i \<noteq> j" "i \<noteq> l" using i by auto
  with distinct_key_eq[OF B(4) i(1)] B(1,2) i(2) show "ck_id k \<noteq> cj_id j \<and> ck_id k \<noteq> cj_id l" by auto
qed

lemma blocked_take: "spares j l ks \<Longrightarrow> tables_keep (blocked n j l) (take_jobs ts ks)"
proof (induction ks)
  case (Cons k ks)
  then have "tables_keep (blocked n j l) (take_jobs ts ks)" by (simp add: spares_def)
  then show ?case unfolding take_jobs.simps using Cons.prems
    by (intro keeps_intros keeps_stmt_write) (auto simp: spares_def intro!: blocked_update)
qed (simp add: keeps_ret)

lemma blocked_claim:
  "gives (\<lambda>s. blocked n j l (tables s)) (claim_chat_outbox b) (\<lambda>ks s. spares j l ks \<and> blocked n j l (tables s))"
proof -
  have jobs: "gives (\<lambda>s. blocked n j l (tables s)) (map_errM ch_raw (stmt_rows (\<lambda>d t. map (task_of t) (claimable_jobs t ts q))))
     (\<lambda>ks s. spares j l ks \<and> blocked n j l (tables s))" for ts q
    unfolding gives_def
    by (auto simp: map_errM_Inl_iff tables_def split: sum.splits dest!: stmt_rows_Inr stmt_Inl_tables(2)
        intro: claimable_spares)
  have keep: "tables_keep (blocked n j l) (claim_chat_outbox b)"
    unfolding claim_chat_outbox_def Let_def
    by (intro keeps_bindM[OF keeps_readM] keeps_in_tx keeps_bind_gives[OF jobs] keeps_pre keeps_intros blocked_take) auto
  show ?thesis unfolding gives_def
  proof (intro allI impI)
    fix s r s' assume b: "blocked n j l (tables s)" and run: "claim_chat_outbox b s = (r, s')"
    have b': "blocked n j l (tables s')" by (rule keepsD[OF keep b run])
    show "case r of Inl _ \<Rightarrow> blocked n j l (tables s') | Inr ks \<Rightarrow> spares j l ks \<and> blocked n j l (tables s')"
    proof (cases r)
      case (Inr ks)
      from run[unfolded Inr] obtain q where "ks = map (task_of (snd (tables s))) (claimable_jobs (snd (tables s)) (db_now (fst s)) q)"
        by (rule claim_chat_Inr)
      with claimable_spares[of n j l "fst (tables s)"] b b' Inr show ?thesis by simp
    qed (simp add: b')
  qed
qed

lemma blocked_marks:
  assumes "ck_id k \<noteq> cj_id j" "ck_id k \<noteq> cj_id l"
  shows "tables_keep (blocked n j l) (mark_chat_sent k ext)" "tables_keep (blocked n j l) (mark_chat_failed k msg)"
    "tables_keep (blocked n j l) (post_chat senders k)"
proof -
  show "tables_keep (blocked n j l) (mark_chat_sent k ext)" "tables_keep (blocked n j l) (mark_chat_failed k msg)"
    unfolding mark_chat_sent_def mark_chat_failed_def Let_def using assms
    by (intro keeps_intros blocked_ops keeps_stmt_write keeps_stmt_insert; auto simp: fail_job_def intro!: blocked_update)+
  show "tables_keep (blocked n j l) (post_chat senders k)"
    using assms by (auto simp: keeps_def post_chat_def tables_def blocked_def split: option.splits)
qed

lemma blocked_sync: "spares j l ks \<Longrightarrow> tables_keep (blocked n j l) (chat_sync_tasks en senders ks old)"
proof (induction ks arbitrary: old)
  case (Cons k ks)
  then have k: "ck_id k \<noteq> cj_id j" "ck_id k \<noteq> cj_id l" and ks: "spares j l ks" by (simp_all add: spares_def)
  show ?case unfolding chat_sync_tasks.simps chat_sync_task_def note_chat_failure_def
    by (intro keeps_intros blocked_marks k Cons.IH ks)
qed (simp add: keeps_ret)

lemma blocked_process: "tables_keep (blocked n j l) (chat_process_once en senders batch)"
  unfolding chat_process_once_def Let_def
  by (rule keeps_catch_gives[OF blocked_claim]) (auto intro!: keeps_ret keeps_pre blocked_sync)

lemma blocked_step: "chat_step h senders s s' \<Longrightarrow> blocked n j l (tables s) \<Longrightarrow> blocked n j l (tables s')"
proof (induction rule: chat_step.induct)
  case (request rq call s x s')
  from keepsD[OF blocked_route request(2,1)] show ?case .
next
  case (compose acc body s z s')
  from keepsD[OF blocked_stores(1) compose(2,1)] show ?case .
next
  case (reply key acc body parent s z s')
  from keepsD[OF blocked_stores(2) reply(2,1)] show ?case .
next
  case (revise i acc op body s z s')
  from keepsD[OF blocked_stores(3) revise(2,1)] show ?case .
next
  case (worker batch s y s')
  from keepsD[OF blocked_process worker(2,1)] show ?case .
next
  case (elsewhere w w' t cs)
  then show ?case by (auto simp: tables_def elim!: blocked_cong)
qed

lemma blocked_steps: "(chat_step h senders)\<^sup>*\<^sup>* s s' \<Longrightarrow> blocked n j l (tables s) \<Longrightarrow> blocked n j l (tables s')"
  by (induction rule: rtranclp_induct) (auto dest: blocked_step)

section \<open>The promises\<close>

text \<open>
  Property C32. Only its author changes a message of the website: whatever request is served, a
  platform's webhook included, every such message is afterwards as it was but for its pin, unless
  the request edits or withdraws this very message, was sent by the account that wrote it, and the
  message was not withdrawn before.
\<close>

theorem author_alone_changes_message:
  assumes "chat_served h senders s" "chat_route h rq call s = (x, s')"
    "m \<in> set (c_messages (snd s))" "cm_source m = ''website''"
  shows "(\<exists>m' \<in> set (c_messages (snd s')). plain m' = plain m)
    \<or> chat_live m \<and> owner_call h call (cm_id m) \<and> (\<exists>acc. chat_caller h rq s acc \<and> cm_author m = Some acc)"
  by (rule author_changes[OF assms])

text \<open>
  Property C33. A withdrawn message of the website is never shown again: whatever requests, worker
  passes and other changes follow, no list of a channel, of pins or of replies contains it.
\<close>

theorem withdrawn_message_never_shown:
  assumes "chat_served h senders s" "m \<in> set (c_messages (snd s))" "cm_source m = ''website''" "\<not> chat_live m"
    "(chat_step h senders)\<^sup>*\<^sup>* s s'" "reading_call call" "chat_route h rq call s' = (Inr reply, s'')"
    "v \<in> set (shown_chat reply)"
  shows "cv_id v \<noteq> cm_id m"
  by (rule withdrawn_never_shown[OF assms])

text \<open>
  Threads are one level deep and stay in their channel: the parent of a reply exists,
  is no reply, and stands in the same channel.
\<close>

theorem threads_are_flat:
  assumes "chat_served h senders s" "m \<in> set (c_messages (snd s))" "cm_parent m = Some p"
  shows "\<exists>q \<in> set (c_messages (snd s)). cm_id q = p \<and> cm_parent q = None \<and> cm_channel q = cm_channel m"
proof -
  have "flat_threads (stems (snd s))" using chat_served_ok[OF assms(1)] by (simp add: chat_ok_def tables_def)
  moreover have "stem_of m \<in> stems (snd s)" using assms(2) by (simp add: stems_def)
  ultimately have "\<exists>a src. (p, cm_channel m, a, src, None) \<in> stems (snd s)"
    using assms(3) unfolding flat_threads_def stem_of_def by fast
  then show ?thesis by (auto simp: stems_def stem_of_def)
qed

text \<open>
  Property C34. Nothing is echoed: every task that was ever handed to the sender of a platform is
  about a message that exists and did not come from that platform.
\<close>

theorem nothing_is_echoed:
  assumes "chat_served h senders s" "k \<in> set (c_posted (snd s))"
  shows "\<exists>m \<in> set (c_messages (snd s)). cm_id m = ck_message k \<and> cm_source m \<noteq> ck_platform k"
proof -
  have "posted_fit (stems (snd s)) (snd s)" using chat_served_ok[OF assms(1)] by (simp add: chat_ok_def tables_def)
  with assms(2) show ?thesis
    unfolding posted_fit_def no_echo_def sourced_def by (fastforce simp: stems_def stem_of_def)
qed

text \<open>
  Property C35. A job that was given up blocks the message for good: from a state where it is
  abandoned and a later job of the same message and platform waits, whatever follows, the later job
  waits unchanged and is never handed to a sender. So a withdrawal is never carried out on a
  platform once an edit there has failed eight times.
\<close>

theorem given_up_job_blocks:
  assumes "chat_served h senders s" "j \<in> set (c_jobs (snd s))" "l \<in> set (c_jobs (snd s))" "behind j l"
    "(chat_step h senders)\<^sup>*\<^sup>* s s'"
  shows "l \<in> set (c_jobs (snd s'))
    \<and> (\<forall>k \<in> set (drop (length (c_posted (snd s))) (c_posted (snd s'))). ck_id k \<noteq> cj_id l)"
proof -
  have "blocked (length (c_posted (snd s))) j l (tables s)"
    using assms(2-4) chat_served_ok[OF assms(1)] by (simp add: blocked_def chat_ok_def tables_def)
  from blocked_steps[OF assms(5) this] show ?thesis by (simp add: blocked_def tables_def)
qed

section \<open>Concrete runs\<close>

definition chat_demo :: chat_handler where
  "chat_demo = \<lparr>hc_auth = toy_service,
     hc_repo = \<lparr>cr_env = toy_env, cr_cursors = \<lparr>cj_marshal = (\<lambda>c. None), cj_unmarshal = (\<lambda>s. None)\<rparr>, cr_live = True\<rparr>,
     hc_discord_secret = ''discord'', hc_telegram_secret = ''telegram'', hc_lookup_key = replicate 32 (CHR ''k''),
     hc_distributed = NoDistributed, hc_json = (\<lambda>s. None)\<rparr>"

definition chat_world :: "chat_tables state" where
  "chat_world = (demo_world\<lparr>w_db := empty_db\<lparr>accounts := [toy_account\<lparr>a_email_ct := ''ct'', a_email_hash := ''h'',
       a_password := ''p'', a_identity := ''student'', a_status := ''active''\<rparr>], next_id := 3\<rparr>\<rparr>,
     \<lparr>c_channels = [\<lparr>ch_id = 2, ch_key = ''lounge'', ch_name = lounge_name, ch_active = True, ch_kind = ''standard'',
        ch_default = True, ch_topic = None, ch_archived = None\<rparr>],
      c_messages = [], c_bridges = [], c_inbound = [], c_jobs = [], c_reactions = [], c_limiter = new_chat_limiter,
      c_announced = [], c_posted = []\<rparr>)"

text \<open>Telegram takes everything; Discord takes new messages and fails to edit them.\<close>

definition demo_senders :: chat_senders where
  "demo_senders pl = Some (\<lambda>n k. if pl = ''telegram'' then Inr ''7''
     else if ck_operation k = ''create'' then Inr ''9'' else Inl ''down'')"

definition later_by :: "int \<Rightarrow> chat_tables state \<Rightarrow> chat_tables state" where
  "later_by n s = ((fst s)\<lparr>db_now := db_now (fst s) + n * minute\<rparr>, snd s)"

definition chat_pass :: "chat_tables state \<Rightarrow> chat_tables state" where
  "chat_pass s = later_by 10 (snd (chat_process_once toy_env demo_senders 20 s :: (unit + chat_failure option) \<times> _))"

definition chat_change :: "string \<Rightarrow> string \<Rightarrow> chat_tables state \<Rightarrow> chat_tables state" where
  "chat_change op body s = snd (change_own_message (hc_repo chat_demo) 3 1 op body s)"

definition chat_said :: "string \<Rightarrow> chat_tables state \<Rightarrow> chat_tables state" where
  "chat_said body s = snd (create_website_message (hc_repo chat_demo) 1 body s)"

lemma chat_demo_sel [simp]: "sv_env (hc_auth chat_demo) = toy_env" "hc_repo chat_demo = \<lparr>cr_env = toy_env,
    cr_cursors = \<lparr>cj_marshal = (\<lambda>c. None), cj_unmarshal = (\<lambda>s. None)\<rparr>, cr_live = True\<rparr>"
  by (simp_all add: chat_demo_def toy_sel)

lemma later_step: "chat_step h senders s (later_by n s)"
proof -
  have "chat_step h senders (fst s, snd s)
      ((fst s)\<lparr>db_now := db_now (fst s) + n * minute\<rparr>, (snd s)\<lparr>c_channels := c_channels (snd s)\<rparr>)"
    by (rule chat_step.elsewhere) simp
  then show ?thesis by (simp add: later_by_def)
qed

lemma pass_steps:
  "(chat_step chat_demo demo_senders)\<^sup>*\<^sup>* s
     (later_by 10 (snd (chat_process_once toy_env demo_senders 20 s :: (unit + chat_failure option) \<times> _)))"
proof -
  have "chat_step chat_demo demo_senders s (snd (chat_process_once toy_env demo_senders 20 s :: (unit + chat_failure option) \<times> _))"
    by (rule chat_step.worker[of _ _ 20]) (simp, rule prod.collapse[symmetric])
  with later_step show ?thesis by (meson converse_rtranclp_into_rtranclp r_into_rtranclp)
qed

lemma served_runs:
  assumes "chat_served chat_demo demo_senders s"
  shows "chat_served chat_demo demo_senders (chat_pass s)" "chat_served chat_demo demo_senders (chat_change op body s)"
    "chat_served chat_demo demo_senders (chat_said body s)"
proof -
  show "chat_served chat_demo demo_senders (chat_pass s)"
    unfolding chat_pass_def by (rule chat_steps_served[OF pass_steps assms])
  show "chat_served chat_demo demo_senders (chat_change op body s)"
    unfolding chat_change_def by (rule chat_served.step[OF assms chat_step.revise[OF prod.collapse[symmetric]]])
  show "chat_served chat_demo demo_senders (chat_said body s)"
    unfolding chat_said_def by (rule chat_served.step[OF assms chat_step.compose[OF prod.collapse[symmetric]]])
qed

lemma chat_world_served: "chat_served h senders chat_world"
  unfolding chat_world_def by (rule chat_served.start) simp_all

text \<open>A message is said and delivered; its edit fails eight times; then it is withdrawn.\<close>

definition chat_passes :: "chat_tables state \<Rightarrow> chat_tables state" where
  "chat_passes s = chat_pass (chat_pass (chat_pass (chat_pass (chat_pass (chat_pass (chat_pass (chat_pass s)))))))"

definition chat_given_up :: "chat_tables state" where
  "chat_given_up = chat_change ''delete'' []
     (chat_passes (chat_change ''edit'' ''second'' (chat_pass (chat_said ''first'' chat_world))))"

lemma chat_given_up_served: "chat_served chat_demo demo_senders chat_given_up"
  unfolding chat_given_up_def chat_passes_def by (intro served_runs chat_world_served)

lemma chat_given_up_jobs:
  "map (\<lambda>j. (cj_id j, cj_platform j, cj_operation j, cj_status j)) (c_jobs (snd chat_given_up)) =
     [(4, ''discord'', ''create'', ''sent''), (5, ''telegram'', ''create'', ''sent''),
      (6, ''discord'', ''edit'', ''abandoned''), (7, ''telegram'', ''edit'', ''sent''),
      (8, ''discord'', ''delete'', ''pending''), (9, ''telegram'', ''delete'', ''pending'')]"
  by code_simp

text \<open>The withdrawal is behind the edit, so that it never reaches Discord.\<close>

definition eighth_is_behind :: "chat_job list \<Rightarrow> bool" where
  "eighth_is_behind js \<longleftrightarrow> list_ex (\<lambda>j. list_ex (\<lambda>l. cj_id l = 8 \<and> behind j l) js) js"

lemma chat_given_up_behind: "eighth_is_behind (c_jobs (snd chat_given_up))"
  by code_simp

theorem given_up_job_blocks_witness:
  "\<exists>l \<in> set (c_jobs (snd (chat_pass chat_given_up))). cj_id l = 8 \<and> cj_status l = ''pending''"
proof -
  from chat_given_up_behind obtain j l where jl: "j \<in> set (c_jobs (snd chat_given_up))" "l \<in> set (c_jobs (snd chat_given_up))"
    "behind j l" "cj_id l = 8" by (auto simp: list_ex_iff eighth_is_behind_def)
  have "(chat_step chat_demo demo_senders)\<^sup>*\<^sup>* chat_given_up (chat_pass chat_given_up)"
    unfolding chat_pass_def by (rule pass_steps)
  from given_up_job_blocks[OF chat_given_up_served jl(1-3) this]
  have "l \<in> set (c_jobs (snd (chat_pass chat_given_up)))" by blast
  moreover have "cj_status l = ''pending''"
  proof -
    have "list_all (\<lambda>l. cj_id l = 8 \<longrightarrow> cj_status l = ''pending'') (c_jobs (snd chat_given_up))" by code_simp
    with jl(2,4) show ?thesis by (auto simp: list_all_iff)
  qed
  ultimately show ?thesis using jl(4) by blast
qed

theorem nothing_is_echoed_witness:
  "\<exists>k \<in> set (c_posted (snd chat_given_up)). \<exists>m \<in> set (c_messages (snd chat_given_up)).
     cm_id m = ck_message k \<and> cm_source m \<noteq> ck_platform k"
proof -
  have "c_posted (snd chat_given_up) \<noteq> []" by code_simp
  then obtain k where "k \<in> set (c_posted (snd chat_given_up))" by (metis list.set_intros(1) neq_Nil_conv)
  with nothing_is_echoed[OF chat_given_up_served this] show ?thesis by blast
qed

text \<open>A reply, and what readers see after a withdrawal.\<close>

definition chat_replied :: "chat_tables state" where
  "chat_replied = snd (create_channel_message (hc_repo chat_demo) ''lounge'' 1 ''reply'' (Some 3) (chat_said ''first'' chat_world))"

lemma chat_replied_served: "chat_served chat_demo demo_senders chat_replied"
  unfolding chat_replied_def
  by (rule chat_served.step[OF served_runs(3)[OF chat_world_served] chat_step.reply[OF prod.collapse[symmetric]]])

theorem threads_are_flat_witness:
  "\<exists>m \<in> set (c_messages (snd chat_replied)). \<exists>q \<in> set (c_messages (snd chat_replied)).
     cm_id q = 3 \<and> cm_parent m = Some 3 \<and> cm_parent q = None \<and> cm_channel q = cm_channel m"
proof -
  have "\<exists>m \<in> set (c_messages (snd chat_replied)). cm_parent m = Some 3" by code_simp
  then obtain m where "m \<in> set (c_messages (snd chat_replied))" "cm_parent m = Some 3" by blast
  with threads_are_flat[OF chat_replied_served this] show ?thesis by blast
qed

definition chat_withdrawn :: "chat_tables state" where
  "chat_withdrawn = chat_said ''other'' (chat_change ''delete'' [] (chat_said ''first'' chat_world))"

lemma chat_withdrawn_served: "chat_served chat_demo demo_senders chat_withdrawn"
  unfolding chat_withdrawn_def by (intro served_runs chat_world_served)

definition chat_reader :: request where
  "chat_reader = \<lparr>rq_remote = [], rq_headers = [], rq_cookies = [], rq_path = ''/api/v1/chat/lounge/messages'', rq_host = [],
     rq_url_host = []\<rparr>"

lemma chat_withdrawn_rows:
  "list_ex (\<lambda>m. cm_id m = 3 \<and> cm_source m = ''website'' \<and> \<not> chat_live m) (c_messages (snd chat_withdrawn))"
  by code_simp

lemma chat_withdrawn_list:
  "case fst (chat_route chat_demo chat_reader (LoungeListCall [] []) chat_withdrawn) of
     Inl e \<Rightarrow> False | Inr reply \<Rightarrow> map cv_body (shown_chat reply) = [''other'']"
  by code_simp

theorem withdrawn_message_never_shown_witness:
  "\<exists>reply v. fst (chat_route chat_demo chat_reader (LoungeListCall [] []) chat_withdrawn) = Inr reply
     \<and> v \<in> set (shown_chat reply) \<and> cv_body v = ''other'' \<and> cv_id v \<noteq> 3"
proof -
  from chat_withdrawn_rows obtain m where m: "m \<in> set (c_messages (snd chat_withdrawn))" "cm_id m = 3"
    "cm_source m = ''website''" "\<not> chat_live m" by (auto simp: list_ex_iff)
  from chat_withdrawn_list obtain reply v where r: "fst (chat_route chat_demo chat_reader (LoungeListCall [] []) chat_withdrawn) = Inr reply"
    "v \<in> set (shown_chat reply)" "cv_body v = ''other''"
    by (auto split: sum.splits)
  have run: "chat_route chat_demo chat_reader (LoungeListCall [] []) chat_withdrawn
      = (Inr reply, snd (chat_route chat_demo chat_reader (LoungeListCall [] []) chat_withdrawn))"
    using r(1) by (metis prod.collapse)
  have "reading_call (LoungeListCall [] [])" by (auto simp: reading_call_def)
  from withdrawn_message_never_shown[OF chat_withdrawn_served m(1,3,4) rtranclp.rtrancl_refl this run r(2)] m(2) r
  show ?thesis by auto
qed

text \<open>Somebody without a session tries to withdraw the message.\<close>

lemma chat_stranger:
  "case authenticate (hc_auth chat_demo) chat_reader (fst (chat_said ''first'' chat_world)) of
     (Inl e, w) \<Rightarrow> True | (Inr rs, w) \<Rightarrow> False"
  by code_simp

theorem author_alone_changes_message_witness:
  "\<exists>m \<in> set (c_messages (snd (chat_said ''first'' chat_world))).
     \<exists>m' \<in> set (c_messages (snd (snd (chat_route chat_demo chat_reader (ChatWithdrawCall ''3'') (chat_said ''first'' chat_world))))).
       plain m' = plain m"
proof -
  let ?s = "chat_said ''first'' chat_world"
  have "list_ex (\<lambda>m. cm_source m = ''website'') (c_messages (snd ?s))" by code_simp
  then obtain m where m: "m \<in> set (c_messages (snd ?s))" "cm_source m = ''website''" by (auto simp: list_ex_iff)
  have "\<not> chat_caller chat_demo chat_reader ?s acc" for acc
    using chat_stranger by (auto simp: chat_caller_def)
  with author_alone_changes_message[OF served_runs(3)[OF chat_world_served] prod.collapse[symmetric] m] m(1)
  show ?thesis by blast
qed

end
