(* ===== verification/ResultModel.thy ===== *)
theory ResultModel imports Pagination VerificationStore begin

text \<open>
  Official results, the data (internal/results/model.go, the candidate lists of
  internal/jobs/contracts.go and the boundary of official sources in internal/admissions/model.go):
  the lists a school publishes, row by row, the applications they are matched with, the answers
  candidates give, and what a caller may send. Candidate numbers are kept as a hash and their last
  four characters.

  The columns of programmes and applications that this component reads or writes stand with its
  tables. Parsing of URLs (\<^verbatim>\<open>net/url\<close>, \<^verbatim>\<open>idna\<close>) and of the payload of an ingestion job are
  parameters.
\<close>

section \<open>Tables\<close>

record listed_program =
  lp_year :: int
  lp_school :: string
  lp_code :: string
  lp_values :: "int list"

record listed_application =
  la_id :: uuid
  la_account :: uuid
  la_year :: int
  la_school :: string
  la_program :: string
  la_status :: string
  la_cipher :: "string option"
  la_hash :: "string option"
  la_last4 :: "string option"

record list_batch =
  lb_id :: uuid
  lb_year :: int
  lb_school :: string
  lb_url :: string
  lb_sha :: string
  lb_status :: string
  lb_imported :: time
  lb_reviewer :: "uuid option"
  lb_reviewed :: "time option"

record list_row =
  lr_id :: uuid
  lr_batch :: uuid
  lr_year :: int
  lr_school :: string
  lr_program :: string
  lr_application :: "uuid option"
  lr_hash :: string
  lr_last4 :: string
  lr_masked :: string
  lr_status :: string
  lr_rank :: "int option"
  lr_quota :: "int option"
  lr_page :: "int option"
  lr_updated :: time
  lr_index :: "int option"

record willingness_row =
  lw_application :: uuid
  lw_value :: "int option"
  lw_updated :: time

record inquiry_row =
  lq_id :: uuid
  lq_application :: uuid
  lq_result :: "uuid option"
  lq_batch :: "uuid option"
  lq_round :: string
  lq_deadline :: "time option"
  lq_created :: time
  lq_notify :: string
  lq_available :: time
  lq_error :: "string option"

record response_event =
  le_id :: uuid
  le_application :: uuid
  le_inquiry :: uuid
  le_result :: uuid
  le_value :: int
  le_source :: string
  le_external :: "string option"

record extract_job_row =
  lj_id :: uuid
  lj_type :: string
  lj_status :: string
  lj_payload :: string

text \<open>The JSON documents of the audit log, field by field.\<close>

datatype audit_data =
    RowData string "int option" "int option" string "int option" | LastFourData string

record result_audit =
  lo_actor :: uuid
  lo_action :: string
  lo_entity :: string
  lo_key :: string
  lo_before :: "audit_data option"
  lo_after :: audit_data
  lo_reason :: string

record result_tables =
  l_schools :: "string list"
  l_programs :: "listed_program list"
  l_applications :: "listed_application list"
  l_batches :: "list_batch list"
  l_rows :: "list_row list"
  l_willingness :: "willingness_row list"
  l_inquiries :: "inquiry_row list"
  l_events :: "response_event list"
  l_jobs :: "extract_job_row list"
  l_audit :: "result_audit list"

datatype result_error =
  RsNotFound | RsInvalidInput | RsConflict | RsInvalidQuery | RsAdminRequired | RsInvalidWillingness
| RsSQL | RsCrypto crypto_error

type_synonym 'a result_op = "(result_tables state, result_error, 'a) op"

fun map_result_error :: "stmt_error \<Rightarrow> result_error" where
  "map_result_error SForeign = RsNotFound"
| "map_result_error SUnique = RsConflict"
| "map_result_error _ = RsSQL"

definition rs_raw :: "stmt_error \<Rightarrow> result_error" where
  "rs_raw e = RsSQL"

definition rs_missing :: "stmt_error \<Rightarrow> result_error" where
  "rs_missing e = (if e = SNoRows then RsNotFound else RsSQL)"

section \<open>Inputs\<close>

record official_row =
  oi_year :: int
  oi_school :: string
  oi_program :: string
  oi_number :: string
  oi_masked :: string
  oi_status :: string
  oi_rank :: "int option"
  oi_quota :: "int option"
  oi_page :: int

record import_input =
  im_year :: int
  im_school :: string
  im_url :: string
  im_sha :: string
  im_rows :: "official_row list"

record correction_input =
  ci_status :: string
  ci_rank :: "int option"
  ci_quota :: "int option"
  ci_masked :: string
  ci_reason :: string

record batch_query =
  bq_year :: int
  bq_school :: string
  bq_status :: string
  bq_limit :: int
  bq_offset :: int

record candidate_row =
  cl_program :: string
  cl_number :: string
  cl_name :: string
  cl_masked :: string
  cl_status :: string
  cl_rank :: "int option"
  cl_quota :: "int option"
  cl_page :: int

record candidate_list =
  xl_type :: string
  xl_job :: uuid
  xl_year :: int
  xl_school :: string
  xl_sha :: string
  xl_url :: string
  xl_processor :: string
  xl_rows :: "candidate_row list"
  xl_generated :: time

record extract_job =
  ej_type :: string
  ej_year :: int
  ej_school :: string
  ej_program :: string
  ej_sha :: string
  ej_url :: string

text \<open>What \<^verbatim>\<open>url.Parse\<close> gives: host, whether there is user information, scheme, host name and port.\<close>

record parsed_url =
  pu_host :: string
  pu_user :: bool
  pu_scheme :: string
  pu_name :: string
  pu_port :: string

text \<open>
  \<open>lx_visit\<close> is the order in which an \<^verbatim>\<open>UPDATE\<close> visits the rows of a batch; the database does not
  promise any.
\<close>

record result_repo =
  lx_env :: env
  lx_key :: string
  lx_parse_url :: "string \<Rightarrow> parsed_url option"
  lx_to_ascii :: "string \<Rightarrow> string option"
  lx_job :: "string \<Rightarrow> extract_job option"
  lx_visit :: "uuid list \<Rightarrow> uuid list"

section \<open>Validation\<close>

definition valid_result_status :: "string \<Rightarrow> bool" where
  "valid_result_status s \<longleftrightarrow> s = ''admitted'' \<or> s = ''waitlisted'' \<or> s = ''rejected'' \<or> s = ''unknown''"

definition willingness_status :: "string \<Rightarrow> bool" where
  "willingness_status s \<longleftrightarrow> s = ''admitted'' \<or> s = ''waitlisted''"

definition valid_batch_status :: "string \<Rightarrow> bool" where
  "valid_batch_status s \<longleftrightarrow> s = ''processing'' \<or> s = ''pending_review'' \<or> s = ''approved'' \<or> s = ''rejected''
     \<or> s = ''published'' \<or> s = ''superseded''"

definition validate_willingness :: "int \<Rightarrow> bool" where
  "validate_willingness v \<longleftrightarrow> v \<in> {0, 20, 40, 60, 80, 100}"

definition alnum_rune :: "nat \<Rightarrow> bool" where
  "alnum_rune r \<longleftrightarrow> (97 \<le> r \<and> r \<le> 122) \<or> (65 \<le> r \<and> r \<le> 90) \<or> (48 \<le> r \<and> r \<le> 57)"

definition number_rune :: "nat \<Rightarrow> bool" where
  "number_rune r \<longleftrightarrow> alnum_rune r \<or> r = 45 \<or> r = 95"

definition last_four :: "string \<Rightarrow> string" where
  "last_four v = (if length v \<le> 4 then v else drop (length v - 4) v)"

definition normalize_candidate_number :: "string \<Rightarrow> string option" where
  "normalize_candidate_number raw =
     (let value = trim_space raw in
      if length value < 4 \<or> 64 < length value then None
      else if \<not> list_all (\<lambda>(r, _). number_rune r) (runes value) then None
      else if \<not> list_all (\<lambda>(r, _). alnum_rune r) (runes (last_four value)) then None
      else Some value)"

definition rank_and_quota_ok :: "string \<Rightarrow> int option \<Rightarrow> int option \<Rightarrow> bool" where
  "rank_and_quota_ok status rank quota \<longleftrightarrow>
     valid_result_status status
     \<and> (case rank of None \<Rightarrow> True | Some k \<Rightarrow> 1 \<le> k) \<and> (case quota of None \<Rightarrow> True | Some q \<Rightarrow> 0 \<le> q)
     \<and> (willingness_status status \<longrightarrow> rank \<noteq> None)"

definition official_row_ok :: "official_row \<Rightarrow> bool" where
  "official_row_ok r \<longleftrightarrow>
     \<not> (oi_year r < 100 \<or> 999 < oi_year r \<or> \<not> three_digits (oi_school r) \<or> \<not> three_digits (oi_program r)
        \<or> 200 < length (oi_masked r) \<or> oi_page r < 1 \<or> 999 < oi_page r)
     \<and> normalize_candidate_number (oi_number r) \<noteq> None
     \<and> rank_and_quota_ok (oi_status r) (oi_rank r) (oi_quota r)"

definition missing_value :: string where
  "missing_value = ''-''"

definition validate_official_url :: "result_repo \<Rightarrow> string \<Rightarrow> bool" where
  "validate_official_url rp raw0 =
     (let raw = trim_space raw0; uc = e_unicode (lx_env rp) in
      if raw = [] \<or> raw = missing_value then True
      else case lx_parse_url rp raw of
        None \<Rightarrow> False
      | Some u \<Rightarrow>
          if pu_host u = [] \<or> pu_user u then False
          else let scheme = to_lower uc (pu_scheme u) in
          if scheme \<noteq> ''http'' \<and> scheme \<noteq> ''https'' then False
          else let host = trim_suffix (to_lower uc (pu_name u)) ''.'' in
          if host = [] then False
          else case lx_to_ascii rp host of
            None \<Rightarrow> False
          | Some host \<Rightarrow>
              if e_parse_ip (lx_env rp) host \<noteq> None then False
              else if pu_port u \<noteq> [] \<and> pu_port u \<noteq> ''80'' \<and> pu_port u \<noteq> ''443'' then False
              else if \<not> has_suffix host ''.edu.tw'' \<and> \<not> has_suffix host ''.gov.tw'' then False
              else \<not> (host = ''edu.tw'' \<or> host = ''gov.tw''))"

definition validate_official_source_url :: "result_repo \<Rightarrow> string \<Rightarrow> bool" where
  "validate_official_source_url rp raw =
     (let value = trim_space raw in
      \<not> (value = [] \<or> value = missing_value \<or> \<not> validate_official_url rp value))"

definition import_ok :: "result_repo \<Rightarrow> import_input \<Rightarrow> bool" where
  "import_ok rp i \<longleftrightarrow>
     \<not> (im_year i < 100 \<or> 999 < im_year i \<or> \<not> three_digits (im_school i) \<or> 2048 < length (im_url i)
        \<or> im_rows i = [] \<or> 10000 < length (im_rows i)
        \<or> \<not> hex64 (to_lower (e_unicode (lx_env rp)) (trim_space (im_sha i))))
     \<and> validate_official_source_url rp (im_url i)
     \<and> list_all (\<lambda>r. oi_year r = im_year i \<and> oi_school r = im_school i \<and> official_row_ok r) (im_rows i)"

definition correction_ok :: "correction_input \<Rightarrow> bool" where
  "correction_ok i \<longleftrightarrow> \<not> (is_blank (ci_reason i) \<or> 2000 < length (ci_reason i) \<or> 200 < length (ci_masked i))
     \<and> rank_and_quota_ok (ci_status i) (ci_rank i) (ci_quota i)"

definition batch_query_ok :: "batch_query \<Rightarrow> bool" where
  "batch_query_ok q \<longleftrightarrow>
     \<not> (bq_year q \<noteq> 0 \<and> (bq_year q < 100 \<or> 999 < bq_year q))
     \<and> \<not> (bq_school q \<noteq> [] \<and> \<not> three_digits (bq_school q))
     \<and> \<not> (bq_status q \<noteq> [] \<and> \<not> valid_batch_status (bq_status q))
     \<and> \<not> (bq_limit q < 1 \<or> 100 < bq_limit q \<or> bq_offset q < 0 \<or> 10000 < bq_offset q)"

definition candidate_row_ok :: "candidate_row \<Rightarrow> bool" where
  "candidate_row_ok r \<longleftrightarrow>
     \<not> (is_blank (cl_number r) \<or> 64 < length (cl_number r))
     \<and> list_all (\<lambda>(c, _). number_rune c) (runes (cl_number r))
     \<and> \<not> (200 < rune_count (cl_name r) \<or> 200 < rune_count (cl_masked r))
     \<and> \<not> (is_blank (cl_name r) \<and> is_blank (cl_masked r))
     \<and> \<not> (cl_program r \<noteq> [] \<and> \<not> three_digits (cl_program r))
     \<and> 1 \<le> cl_page r \<and> cl_page r \<le> 999
     \<and> (case cl_rank r of None \<Rightarrow> True | Some k \<Rightarrow> 1 \<le> k) \<and> (case cl_quota r of None \<Rightarrow> True | Some q \<Rightarrow> 0 \<le> q)"

definition candidate_list_ok :: "unicode \<Rightarrow> candidate_list \<Rightarrow> bool" where
  "candidate_list_ok uc x \<longleftrightarrow>
     \<not> (xl_type x \<noteq> [] \<and> xl_type x \<noteq> ''candidate_list'')
     \<and> \<not> (xl_job x = 0 \<or> xl_year x < 100 \<or> 999 < xl_year x \<or> \<not> three_digits (xl_school x))
     \<and> hex64 (to_lower uc (xl_sha x))
     \<and> \<not> (is_blank (xl_processor x) \<or> 64 < length (xl_processor x) \<or> xl_generated x = zero_time)
     \<and> \<not> (xl_rows x = [] \<or> 10000 < length (xl_rows x))
     \<and> list_all candidate_row_ok (xl_rows x)"

definition effective_source_type :: "extract_job \<Rightarrow> string" where
  "effective_source_type j = (if is_blank (ej_type j) then ''brochure'' else ej_type j)"

text \<open>The first character of a name, and a circle for each of the others.\<close>

definition circle :: string where
  "circle = map char_of [0xE2, 0x97, 0x8B :: nat]"

definition mask_candidate_name :: "string \<Rightarrow> string" where
  "mask_candidate_name name0 =
     (let name = trim_space name0; rs = map fst (runes name) in
      case rs of
        [] \<Rightarrow> ''-''
      | r # rest \<Rightarrow> encode_rune r @ concat (replicate (length rest) circle))"

definition result_dash :: "string \<Rightarrow> string" where
  "result_dash v = (if v = [] then ''-'' else v)"

section \<open>Values\<close>

record result_report =
  rg_application :: uuid
  rg_status :: string
  rg_rank :: "int option"
  rg_quota :: "int option"
  rg_front :: int
  rg_responses :: int
  rg_position :: "int option"
  rg_probability :: "int option"
  rg_willingness :: "int option"
  rg_last4 :: string
  rg_number_set :: bool

record willingness_response =
  wr_id :: uuid
  wr_year :: int
  wr_school :: string
  wr_program :: string
  wr_status :: string
  wr_rank :: int
  wr_value :: int

record inquiry =
  qy_id :: uuid
  qy_round :: string
  qy_deadline :: "time option"
  qy_created :: time
  qy_responded :: bool
  qy_willingness :: "int option"

record admin_batch =
  ab_id :: uuid
  ab_year :: int
  ab_school :: string
  ab_url :: string
  ab_sha :: string
  ab_status :: string
  ab_imported :: time
  ab_reviewed :: "time option"
  ab_results :: nat
  ab_matched :: nat
  ab_inquiries :: nat

record admin_row =
  ar_id :: uuid
  ar_program :: string
  ar_last4 :: string
  ar_masked :: string
  ar_status :: string
  ar_rank :: "int option"
  ar_quota :: "int option"
  ar_page :: int
  ar_matched :: bool

end
