(* ===== verification/ResultStore.thy ===== *)
theory ResultStore imports ResultModel ForumStore begin

text \<open>
  Official results, what administrators and the extraction worker do
  (internal/results/postgres_repository.go): a list is imported or extracted as a pending batch,
  published, corrected. Publishing a list retires the one before, matches its rows with
  applications again, numbers the admitted and then the waitlisted candidates of every programme
  and gives each a slot in the programme's array of answers.
\<close>

section \<open>Rows\<close>

definition find_row :: "result_tables \<Rightarrow> uuid \<Rightarrow> list_row option" where
  "find_row t i = List.find (\<lambda>r. lr_id r = i) (l_rows t)"

definition find_batch :: "result_tables \<Rightarrow> uuid \<Rightarrow> list_batch option" where
  "find_batch t i = List.find (\<lambda>b. lb_id b = i) (l_batches t)"

definition published_batch :: "result_tables \<Rightarrow> uuid \<Rightarrow> bool" where
  "published_batch t i \<longleftrightarrow> list_ex (\<lambda>b. lb_id b = i \<and> lb_status b = ''published'') (l_batches t)"

definition imported_at :: "result_tables \<Rightarrow> uuid \<Rightarrow> time" where
  "imported_at t i = (case find_batch t i of None \<Rightarrow> 0 | Some b \<Rightarrow> lb_imported b)"

definition pg_int4 :: "int \<Rightarrow> bool" where
  "pg_int4 v \<longleftrightarrow> - 2147483648 \<le> v \<and> v \<le> 2147483647"

definition batch_chk :: "list_batch \<Rightarrow> bool" where
  "batch_chk b \<longleftrightarrow> 100 \<le> lb_year b \<and> lb_year b \<le> 999 \<and> hex64 (lb_sha b) \<and> pg_text (lb_url b)"

definition same_list :: "list_batch \<Rightarrow> list_batch \<Rightarrow> bool" where
  "same_list a b \<longleftrightarrow> lb_year a = lb_year b \<and> lb_school a = lb_school b \<and> lb_sha a = lb_sha b"

definition alnum_char :: "char \<Rightarrow> bool" where
  "alnum_char c \<longleftrightarrow> alnum_rune (byte_of c)"

definition last4_chk :: "string \<Rightarrow> bool" where
  "last4_chk v \<longleftrightarrow> length v = 4 \<and> list_all alnum_char v"

definition row_chk :: "list_row \<Rightarrow> bool" where
  "row_chk r \<longleftrightarrow> 100 \<le> lr_year r \<and> lr_year r \<le> 999 \<and> three_digits (lr_program r) \<and> lr_hash r \<noteq> []
     \<and> last4_chk (lr_last4 r) \<and> pg_text (lr_masked r) \<and> valid_result_status (lr_status r)
     \<and> (case lr_rank r of None \<Rightarrow> True | Some k \<Rightarrow> 0 < k \<and> pg_int4 k)
     \<and> (case lr_quota r of None \<Rightarrow> True | Some q \<Rightarrow> 0 \<le> q \<and> pg_int4 q)
     \<and> (case lr_page r of None \<Rightarrow> True | Some p \<Rightarrow> 1 \<le> p \<and> p \<le> 999)"

definition same_program :: "list_row \<Rightarrow> list_row \<Rightarrow> bool" where
  "same_program a b \<longleftrightarrow> lr_year a = lr_year b \<and> lr_school a = lr_school b \<and> lr_program a = lr_program b"

definition same_candidate :: "list_row \<Rightarrow> list_row \<Rightarrow> bool" where
  "same_candidate a b \<longleftrightarrow> lr_batch a = lr_batch b \<and> same_program a b \<and> lr_hash a = lr_hash b"

definition program_of_row :: "list_row \<Rightarrow> listed_program \<Rightarrow> bool" where
  "program_of_row r p \<longleftrightarrow> lp_year p = lr_year r \<and> lp_school p = lr_school r \<and> lp_code p = lr_program r"

definition row_fk :: "result_tables \<Rightarrow> list_row \<Rightarrow> bool" where
  "row_fk t r \<longleftrightarrow> list_ex (\<lambda>b. lb_id b = lr_batch r) (l_batches t) \<and> lr_school r \<in> set (l_schools t)
     \<and> list_ex (program_of_row r) (l_programs t)"

definition new_row ::
  "uuid \<Rightarrow> int \<Rightarrow> string \<Rightarrow> string \<Rightarrow> string \<Rightarrow> string \<Rightarrow> string \<Rightarrow> string \<Rightarrow> int option \<Rightarrow> int option \<Rightarrow> int
    \<Rightarrow> time \<Rightarrow> db \<Rightarrow> list_row" where
  "new_row b y s p hash last4 masked status rank quota page ts d =
     \<lparr>lr_id = next_id d, lr_batch = b, lr_year = y, lr_school = s, lr_program = p, lr_application = None,
      lr_hash = hash, lr_last4 = last4, lr_masked = masked, lr_status = status, lr_rank = rank, lr_quota = quota,
      lr_page = (if page = 0 then None else Some page), lr_updated = ts, lr_index = None\<rparr>"

definition add_list_row :: "list_row \<Rightarrow> db \<times> result_tables \<Rightarrow> db \<times> result_tables" where
  "add_list_row r x = (draw_id (fst x), (snd x)\<lparr>l_rows := l_rows (snd x) @ [r]\<rparr>)"

definition insert_row :: "(db \<Rightarrow> list_row) \<Rightarrow> (result_tables state, stmt_error, list_row) op" where
  "insert_row f = stmt_from (\<lambda>d t. Some (f d)) row_chk (\<lambda>d t r. \<not> list_ex (same_candidate r) (l_rows t))
     (\<lambda>d t r. row_fk t r) add_list_row"

text \<open>With \<^verbatim>\<open>ON CONFLICT (...) DO NOTHING\<close> the row that is already there stays as it is.\<close>

definition insert_row_once :: "(db \<Rightarrow> list_row) \<Rightarrow> (result_tables state, stmt_error, unit) op" where
  "insert_row_once f = stmt (\<lambda>(d, t).
     if \<not> row_chk (f d) then (Inl SCheck, (d, t))
     else if list_ex (same_candidate (f d)) (l_rows t) then (Inr (), (d, t))
     else if \<not> row_fk t (f d) then (Inl SForeign, (d, t))
     else (Inr (), add_list_row (f d) (d, t)))"

section \<open>Matching rows with applications\<close>

text \<open>The join of the three \<^verbatim>\<open>UPDATE ... FROM applications\<close> statements.\<close>

definition owns_row :: "listed_application \<Rightarrow> list_row \<Rightarrow> bool" where
  "owns_row a r \<longleftrightarrow> la_year a = lr_year r \<and> la_school a = lr_school r \<and> la_program a = lr_program r
     \<and> la_status a = ''confirmed'' \<and> la_hash a = Some (lr_hash r)"

definition set_owner :: "listed_application list \<Rightarrow> time \<Rightarrow> list_row \<Rightarrow> list_row" where
  "set_owner as ts r = r\<lparr>lr_application := map_option la_id (List.find (\<lambda>a. owns_row a r) as), lr_updated := ts\<rparr>"

definition match_rows :: "uuid \<Rightarrow> time \<Rightarrow> result_tables \<Rightarrow> result_tables" where
  "match_rows i ts t = t\<lparr>l_rows :=
     update_where (\<lambda>r. lr_batch r = i \<and> list_ex (\<lambda>a. owns_row a r) (l_applications t))
       (set_owner (l_applications t) ts) (l_rows t)\<rparr>"

section \<open>Import\<close>

definition result_is_admin :: "uuid \<Rightarrow> bool result_op" where
  "result_is_admin acc = map_errM rs_raw (stmt_rows (\<lambda>d t. (acc, ''admin'') \<in> set (roles d)))"

definition as_result_admin :: "uuid \<Rightarrow> 'a result_op \<Rightarrow> 'a result_op" where
  "as_result_admin acc m = bindM (result_is_admin acc) (\<lambda>ok. if \<not> ok then fail RsAdminRequired else m)"

definition result_hash :: "result_repo \<Rightarrow> string \<Rightarrow> string result_op" where
  "result_hash rp candidate = liftM (case lookup_hash (e_crypto (lx_env rp)) (lx_key rp) candidate of
     Inl e \<Rightarrow> Inl (RsCrypto e) | Inr h \<Rightarrow> Inr h)"

definition pending_batch :: "int \<Rightarrow> string \<Rightarrow> string \<Rightarrow> string \<Rightarrow> time \<Rightarrow> db \<Rightarrow> list_batch" where
  "pending_batch y s url sha ts d = \<lparr>lb_id = next_id d, lb_year = y, lb_school = s, lb_url = url, lb_sha = sha,
     lb_status = ''pending_review'', lb_imported = ts, lb_reviewer = None, lb_reviewed = None\<rparr>"

definition add_batch :: "list_batch \<Rightarrow> db \<times> result_tables \<Rightarrow> db \<times> result_tables" where
  "add_batch b x = (draw_id (fst x), (snd x)\<lparr>l_batches := l_batches (snd x) @ [b]\<rparr>)"

definition import_row :: "result_repo \<Rightarrow> import_input \<Rightarrow> uuid \<Rightarrow> time \<Rightarrow> official_row \<Rightarrow> unit result_op" where
  "import_row rp i b ts r =
     (if oi_year r \<noteq> im_year i \<or> oi_school r \<noteq> im_school i \<or> oi_program r = [] then fail RsInvalidInput
      else case normalize_candidate_number (oi_number r) of
        None \<Rightarrow> fail RsInvalidInput
      | Some candidate \<Rightarrow>
          bindM (result_hash rp candidate) (\<lambda>hash.
          bindM (map_errM map_result_error (insert_row (new_row b (oi_year r) (oi_school r) (oi_program r) hash
            (last_four candidate) (result_dash (oi_masked r)) (oi_status r) (oi_rank r) (oi_quota r) (oi_page r) ts))) (\<lambda>_.
          ret ())))"

fun import_rows :: "result_repo \<Rightarrow> import_input \<Rightarrow> uuid \<Rightarrow> time \<Rightarrow> official_row list \<Rightarrow> unit result_op" where
  "import_rows rp i b ts [] = ret ()"
| "import_rows rp i b ts (r # rs) = bindM (import_row rp i b ts r) (\<lambda>_. import_rows rp i b ts rs)"

definition import_official_batch :: "result_repo \<Rightarrow> uuid \<Rightarrow> import_input \<Rightarrow> uuid result_op" where
  "import_official_batch rp adm i =
     as_result_admin adm (
       if length (lx_key rp) \<noteq> 32 then fail RsInvalidInput
       else if \<not> import_ok rp i then fail RsInvalidInput
       else
         let sha = to_lower (e_unicode (lx_env rp)) (trim_space (im_sha i)); url = trim_space (im_url i) in
         bindM db_clock (\<lambda>ts. in_tx rs_raw (
         bindM (map_errM map_result_error
           (stmt_from (\<lambda>d t. Some (pending_batch (im_year i) (im_school i) (result_dash url) sha ts d)) batch_chk
              (\<lambda>d t b. \<not> list_ex (same_list b) (l_batches t)) (\<lambda>d t b. lb_school b \<in> set (l_schools t)) add_batch)) (\<lambda>b.
         bindM (import_rows rp i (lb_id b) ts (im_rows i)) (\<lambda>_.
         bindM (map_errM rs_raw (stmt_write (match_rows (lb_id b) ts) (\<lambda>_ _. ()))) (\<lambda>_.
         ret (lb_id b)))))))"

section \<open>Extraction\<close>

definition find_job :: "result_tables \<Rightarrow> uuid \<Rightarrow> extract_job_row option" where
  "find_job t i = List.find (\<lambda>j. lj_id j = i) (l_jobs t)"

text \<open>The pending batch of the document, or the one it already has, whatever its status.\<close>

definition extraction_batch :: "int \<Rightarrow> string \<Rightarrow> string \<Rightarrow> string \<Rightarrow> time \<Rightarrow> uuid result_op" where
  "extraction_batch y s url sha ts =
     bindM (map_errM map_result_error (stmt (\<lambda>(d, t). let b = pending_batch y s url sha ts d in
         if \<not> batch_chk b then (Inl SCheck, (d, t))
         else if list_ex (same_list b) (l_batches t) then (Inr None, (d, t))
         else if s \<notin> set (l_schools t) then (Inl SForeign, (d, t))
         else (Inr (Some (lb_id b)), add_batch b (d, t))))) (\<lambda>found.
     case found of
       Some i \<Rightarrow> ret i
     | None \<Rightarrow> map_errM map_result_error (stmt_row (\<lambda>d t. map_option lb_id
                 (List.find (\<lambda>b. lb_year b = y \<and> lb_school b = s \<and> lb_sha b = sha) (l_batches t)))))"

definition first_nonempty :: "string \<Rightarrow> string \<Rightarrow> string" where
  "first_nonempty a b = (if trim_space a = [] then trim_space b else trim_space a)"

definition extract_row ::
  "result_repo \<Rightarrow> candidate_list \<Rightarrow> extract_job \<Rightarrow> uuid \<Rightarrow> time \<Rightarrow> (string \<times> string) list \<Rightarrow> candidate_row
    \<Rightarrow> (string \<times> string) result_op" where
  "extract_row rp x job b ts seen r =
     (let program = first_nonempty (cl_program r) (ej_program job) in
      if \<not> three_digits program then fail RsInvalidInput
      else case normalize_candidate_number (cl_number r) of
        None \<Rightarrow> fail RsInvalidInput
      | Some candidate \<Rightarrow>
          bindM (result_hash rp candidate) (\<lambda>hash.
          if (program, hash) \<in> set seen then fail RsConflict
          else
            let status = (if trim_space (cl_status r) = [] then ''unknown'' else trim_space (cl_status r)) in
            if \<not> valid_result_status status \<or> willingness_status status \<and> cl_rank r = None then fail RsInvalidInput
            else
              bindM (map_errM map_result_error (insert_row_once (new_row b (xl_year x) (xl_school x) program hash
                (last_four candidate) (mask_candidate_name (first_nonempty (cl_name r) (cl_masked r))) status
                (cl_rank r) (cl_quota r) (cl_page r) ts))) (\<lambda>_.
              ret (program, hash))))"

fun extract_rows ::
  "result_repo \<Rightarrow> candidate_list \<Rightarrow> extract_job \<Rightarrow> uuid \<Rightarrow> time \<Rightarrow> (string \<times> string) list \<Rightarrow> candidate_row list
    \<Rightarrow> unit result_op" where
  "extract_rows rp x job b ts seen [] = ret ()"
| "extract_rows rp x job b ts seen (r # rs) =
     bindM (extract_row rp x job b ts seen r) (\<lambda>k. extract_rows rp x job b ts (k # seen) rs)"

definition job_matches :: "unicode \<Rightarrow> candidate_list \<Rightarrow> extract_job \<Rightarrow> bool" where
  "job_matches uc x j \<longleftrightarrow> effective_source_type j = ''candidate_list'' \<and> ej_year j = xl_year x
     \<and> ej_school j = xl_school x \<and> to_lower uc (ej_sha j) = xl_sha x"

definition apply_candidate_list :: "result_repo \<Rightarrow> candidate_list \<Rightarrow> unit result_op" where
  "apply_candidate_list rp x0 =
     (let uc = e_unicode (lx_env rp); x = x0\<lparr>xl_sha := to_lower uc (trim_space (xl_sha x0))\<rparr> in
      if \<not> candidate_list_ok uc x \<or> length (lx_key rp) \<noteq> 32 then fail RsInvalidInput
      else if xl_url x \<noteq> [] \<and> xl_url x \<noteq> ''-'' \<and> \<not> validate_official_source_url rp (xl_url x) then fail RsInvalidInput
      else bindM db_clock (\<lambda>ts. in_tx rs_raw (
        bindM (map_errM rs_missing (stmt_row (\<lambda>d t. find_job t (xl_job x)))) (\<lambda>row.
        if lj_type row \<noteq> ''admissions.candidate-list.extract'' then fail RsInvalidInput
        else case lx_job rp (lj_payload row) of
          None \<Rightarrow> fail RsInvalidInput
        | Some job \<Rightarrow>
            if \<not> job_matches uc x job then fail RsInvalidInput
            else if lj_status row = ''succeeded'' then ret ()
            else
              bindM (extraction_batch (xl_year x) (xl_school x)
                       (result_dash (first_nonempty (xl_url x) (ej_url job))) (xl_sha x) ts) (\<lambda>b.
              bindM (extract_rows rp x job b ts [] (xl_rows x)) (\<lambda>_.
              bindM (map_errM rs_raw (stmt_write (match_rows b ts) (\<lambda>_ _. ()))) (\<lambda>_.
              map_errM rs_raw (stmt_write (\<lambda>t. t\<lparr>l_jobs := update_where (\<lambda>j. lj_id j = xl_job x)
                (\<lambda>j. j\<lparr>lj_status := ''succeeded''\<rparr>) (l_jobs t)\<rparr>) (\<lambda>_ _. ())))))))))"

section \<open>The numbering of a list\<close>

text \<open>
  \<^verbatim>\<open>row_number() OVER (PARTITION BY year, school, program ORDER BY ...)\<close>: the admitted first, then by
  rank, rows without a rank last, then by identifier. Identifiers are distinct, so that the number of
  a row, from 0, is how many rows of its partition stand before it.
\<close>

definition standing_key :: "list_row \<Rightarrow> bool \<times> (bool \<times> int) \<times> uuid" where
  "standing_key r = (lr_status r \<noteq> ''admitted'', (case lr_rank r of None \<Rightarrow> (True, 0) | Some k \<Rightarrow> (False, k)), lr_id r)"

definition standing :: "uuid \<Rightarrow> list_row list \<Rightarrow> list_row list" where
  "standing b rows = filter (\<lambda>r. lr_batch r = b \<and> willingness_status (lr_status r)) rows"

definition place :: "uuid \<Rightarrow> list_row list \<Rightarrow> list_row \<Rightarrow> int" where
  "place b rows r = int (length (filter (\<lambda>x. same_program x r \<and> standing_key x < standing_key r) (standing b rows)))"

text \<open>
  The rows are updated one at a time, in the order the database visits them, and the unique index on
  the places of a batch is checked at every one of them.
\<close>

definition place_taken :: "list_row \<Rightarrow> int \<Rightarrow> list_row list \<Rightarrow> bool" where
  "place_taken r k rows \<longleftrightarrow> list_ex (\<lambda>x. lr_id x \<noteq> lr_id r \<and> lr_batch x = lr_batch r \<and> same_program x r
     \<and> lr_index x = Some k) rows"

definition put_place :: "uuid \<Rightarrow> int \<Rightarrow> time \<Rightarrow> list_row list \<Rightarrow> list_row list" where
  "put_place i k ts rows = update_where (\<lambda>r. lr_id r = i) (\<lambda>r. r\<lparr>lr_index := Some k, lr_updated := ts\<rparr>) rows"

fun assign_places :: "time \<Rightarrow> (list_row \<times> int) list \<Rightarrow> list_row list \<Rightarrow> list_row list option" where
  "assign_places ts [] rows = Some rows"
| "assign_places ts ((r, k) # ps) rows =
     (if place_taken r k rows then None else assign_places ts ps (put_place (lr_id r) k ts rows))"

definition ordered_places :: "result_repo \<Rightarrow> uuid \<Rightarrow> list_row list \<Rightarrow> (list_row \<times> int) list" where
  "ordered_places rp b rows = List.map_filter
     (\<lambda>i. map_option (\<lambda>r. (r, place b rows r)) (List.find (\<lambda>r. lr_id r = i) (standing b rows)))
     (lx_visit rp (map lr_id (standing b rows)))"

definition number_rows :: "result_repo \<Rightarrow> uuid \<Rightarrow> time \<Rightarrow> (result_tables state, stmt_error, unit) op" where
  "number_rows rp b ts = stmt (\<lambda>(d, t).
     case assign_places ts (ordered_places rp b (l_rows t)) (l_rows t) of
       None \<Rightarrow> (Inl SUnique, (d, t)) | Some rows \<Rightarrow> (Inr (), (d, t\<lparr>l_rows := rows\<rparr>)))"

text \<open>\<^verbatim>\<open>array_agg(value ORDER BY willingness_index)\<close> over the numbered rows of a programme.\<close>

definition placed_rows :: "uuid \<Rightarrow> listed_program \<Rightarrow> list_row list \<Rightarrow> list_row list" where
  "placed_rows b p rows = sort_key (\<lambda>r. case lr_index r of None \<Rightarrow> 0 | Some k \<Rightarrow> k)
     (filter (\<lambda>r. lr_batch r = b \<and> program_of_row r p \<and> lr_index r \<noteq> None) rows)"

definition fill_arrays :: "uuid \<Rightarrow> int \<Rightarrow> string \<Rightarrow> (list_row \<Rightarrow> int) \<Rightarrow> result_tables \<Rightarrow> result_tables" where
  "fill_arrays b y s v t = t\<lparr>l_programs := update_where (\<lambda>p. lp_year p = y \<and> lp_school p = s)
     (\<lambda>p. p\<lparr>lp_values := map v (placed_rows b p (l_rows t))\<rparr>) (l_programs t)\<rparr>"

text \<open>\<^verbatim>\<open>COALESCE(w.value, 100)\<close> of the row's application.\<close>

definition answer_of :: "result_tables \<Rightarrow> uuid option \<Rightarrow> int option" where
  "answer_of t a = (case a of None \<Rightarrow> None
     | Some i \<Rightarrow> (case List.find (\<lambda>w. lw_application w = i) (l_willingness t) of None \<Rightarrow> None | Some w \<Rightarrow> lw_value w))"

definition answer_or_100 :: "result_tables \<Rightarrow> list_row \<Rightarrow> int" where
  "answer_or_100 t r = (case answer_of t (lr_application r) of None \<Rightarrow> 100 | Some v \<Rightarrow> v)"

section \<open>Inquiries\<close>

definition new_inquiry :: "string \<Rightarrow> time option \<Rightarrow> uuid \<Rightarrow> list_row \<Rightarrow> time \<Rightarrow> db \<Rightarrow> inquiry_row" where
  "new_inquiry rnd deadline a r ts d = \<lparr>lq_id = next_id d, lq_application = a, lq_result = Some (lr_id r),
     lq_batch = Some (lr_batch r), lq_round = rnd, lq_deadline = deadline, lq_created = ts,
     lq_notify = ''pending'', lq_available = ts, lq_error = None\<rparr>"

definition asked :: "uuid \<Rightarrow> string \<Rightarrow> inquiry_row \<Rightarrow> bool" where
  "asked r rnd q \<longleftrightarrow> lq_result q = Some r \<and> lq_round q = rnd"

definition asked_of :: "uuid \<Rightarrow> uuid \<Rightarrow> string \<Rightarrow> inquiry_row \<Rightarrow> bool" where
  "asked_of a b rnd q \<longleftrightarrow> lq_application q = a \<and> lq_batch q = Some b \<and> lq_round q = rnd"

definition ask_again :: "time option \<Rightarrow> time \<Rightarrow> inquiry_row \<Rightarrow> inquiry_row" where
  "ask_again deadline ts q = q\<lparr>lq_deadline := deadline,
     lq_notify := (if lq_notify q = ''enqueued'' then ''enqueued'' else ''pending''), lq_available := ts, lq_error := None\<rparr>"

text \<open>
  \<^verbatim>\<open>INSERT INTO willingness_inquiries SELECT ...\<close>, row by row. \<^verbatim>\<open>ON CONFLICT (official_result_id,
  inquiry_round)\<close> does nothing, or updates the inquiry (\<open>again\<close>); the other unique key, on application,
  batch and round, makes the statement fail.
\<close>

fun add_inquiries ::
  "string \<Rightarrow> time option \<Rightarrow> bool \<Rightarrow> time \<Rightarrow> (uuid \<times> list_row) list \<Rightarrow> db \<times> result_tables
    \<Rightarrow> (db \<times> result_tables) option" where
  "add_inquiries rnd dl again ts [] x = Some x"
| "add_inquiries rnd dl again ts ((a, r) # rs) (d, t) =
     (if list_ex (asked (lr_id r) rnd) (l_inquiries t)
      then add_inquiries rnd dl again ts rs (d, if again
             then t\<lparr>l_inquiries := update_where (asked (lr_id r) rnd) (ask_again dl ts) (l_inquiries t)\<rparr> else t)
      else if list_ex (asked_of a (lr_batch r) rnd) (l_inquiries t) then None
      else add_inquiries rnd dl again ts rs
             (draw_id d, t\<lparr>l_inquiries := l_inquiries t @ [new_inquiry rnd dl a r ts d]\<rparr>))"

definition ask_rows ::
  "string \<Rightarrow> time option \<Rightarrow> bool \<Rightarrow> time \<Rightarrow> (result_tables \<Rightarrow> (uuid \<times> list_row) list)
    \<Rightarrow> (result_tables state, stmt_error, unit) op" where
  "ask_rows rnd dl again ts sel = stmt (\<lambda>x.
     case add_inquiries rnd dl again ts (sel (snd x)) x of None \<Rightarrow> (Inl SUnique, x) | Some x' \<Rightarrow> (Inr (), x'))"

text \<open>The matched rows that stand in the list.\<close>

definition askable :: "(list_row \<Rightarrow> bool) \<Rightarrow> result_tables \<Rightarrow> (uuid \<times> list_row) list" where
  "askable p t = List.map_filter (\<lambda>r. case lr_application r of None \<Rightarrow> None
     | Some a \<Rightarrow> if p r \<and> willingness_status (lr_status r) then Some (a, r) else None) (l_rows t)"

section \<open>Publishing and correcting\<close>

definition set_batch_status :: "(list_batch \<Rightarrow> bool) \<Rightarrow> (list_batch \<Rightarrow> list_batch) \<Rightarrow> result_tables \<Rightarrow> result_tables" where
  "set_batch_status p f t = t\<lparr>l_batches := update_where p f (l_batches t)\<rparr>"

definition clear_rows :: "(list_row \<Rightarrow> bool) \<Rightarrow> (list_row \<Rightarrow> list_row) \<Rightarrow> result_tables \<Rightarrow> result_tables" where
  "clear_rows p f t = t\<lparr>l_rows := update_where p f (l_rows t)\<rparr>"

definition drop_answers :: "uuid \<Rightarrow> result_tables \<Rightarrow> result_tables" where
  "drop_answers i t = t\<lparr>l_willingness := filter (\<lambda>w. \<not> list_ex (\<lambda>r. lr_batch r = i
     \<and> lr_application r = Some (lw_application w)) (l_rows t)) (l_willingness t)\<rparr>"

definition publish_official_batch :: "result_repo \<Rightarrow> uuid \<Rightarrow> uuid \<Rightarrow> unit result_op" where
  "publish_official_batch rp adm i =
     as_result_admin adm (bindM db_clock (\<lambda>ts. in_tx rs_raw (
       bindM (map_errM rs_raw stmt_nop) (\<lambda>_.
       bindM (map_errM rs_missing (stmt_row (\<lambda>d t. map_option (\<lambda>b. (lb_year b, lb_school b))
         (List.find (\<lambda>b. lb_id b = i \<and> lb_status b = ''pending_review'') (l_batches t))))) (\<lambda>(y, s).
       bindM (map_errM rs_raw (stmt_write (set_batch_status
         (\<lambda>b. lb_year b = y \<and> lb_school b = s \<and> lb_status b = ''published'') (\<lambda>b. b\<lparr>lb_status := ''superseded''\<rparr>))
         (\<lambda>_ _. ()))) (\<lambda>_.
       bindM (map_errM rs_raw (stmt_add (\<lambda>_ _. True) (\<lambda>_ _. True) (\<lambda>d t. has_account d adm)
         (\<lambda>(d, t). (d, set_batch_status (\<lambda>b. lb_id b = i)
            (\<lambda>b. b\<lparr>lb_status := ''published'', lb_reviewer := Some adm, lb_reviewed := Some ts\<rparr>) t)) (\<lambda>_ _. ()))) (\<lambda>_.
       bindM (map_errM rs_raw (stmt_write (clear_rows (\<lambda>r. lr_batch r = i)
         (\<lambda>r. r\<lparr>lr_application := None, lr_updated := ts\<rparr>)) (\<lambda>_ _. ()))) (\<lambda>_.
       bindM (map_errM rs_raw (stmt_write (match_rows i ts) (\<lambda>_ _. ()))) (\<lambda>_.
       bindM (map_errM rs_raw (stmt_write (clear_rows (\<lambda>r. lr_batch r = i)
         (\<lambda>r. r\<lparr>lr_index := None, lr_updated := ts\<rparr>)) (\<lambda>_ _. ()))) (\<lambda>_.
       bindM (map_errM rs_raw (number_rows rp i ts)) (\<lambda>_.
       bindM (map_errM rs_raw (stmt_write (fill_arrays i y s (\<lambda>_. 100)) (\<lambda>_ _. ()))) (\<lambda>_.
       bindM (map_errM rs_raw (stmt_write (drop_answers i) (\<lambda>_ _. ()))) (\<lambda>_.
       map_errM rs_raw (ask_rows ''result_released'' None False ts (askable (\<lambda>r. lr_batch r = i))))))))))))))))"

definition create_deadline_inquiries :: "uuid \<Rightarrow> uuid \<Rightarrow> time \<Rightarrow> unit result_op" where
  "create_deadline_inquiries adm i deadline =
     as_result_admin adm (bindM clock (\<lambda>now.
       if deadline < now then fail RsInvalidInput
       else bindM db_clock (\<lambda>ts. map_errM map_result_error
         (ask_rows ''acceptance_deadline'' (Some deadline) True ts
            (\<lambda>t. askable (\<lambda>r. lr_batch r = i \<and> published_batch t i \<and> answer_of t (lr_application r) = None) t)))))"

definition row_data :: "list_row \<Rightarrow> audit_data" where
  "row_data r = RowData (lr_status r) (lr_rank r) (lr_quota r) (lr_masked r) (lr_page r)"

definition add_result_audit :: "result_audit \<Rightarrow> (result_tables state, stmt_error, unit) op" where
  "add_result_audit a = stmt_add (\<lambda>_ _. pg_text (lo_reason a) \<and> \<not> pg_blank (lo_key a)) (\<lambda>_ _. True)
     (\<lambda>d t. has_account d (lo_actor a)) (\<lambda>(d, t). (d, t\<lparr>l_audit := l_audit t @ [a]\<rparr>)) (\<lambda>_ _. ())"

definition correct_row :: "correction_input \<Rightarrow> time \<Rightarrow> list_row \<Rightarrow> list_row" where
  "correct_row i ts r = r\<lparr>lr_status := ci_status i, lr_rank := ci_rank i, lr_quota := ci_quota i,
     lr_masked := result_dash (ci_masked i), lr_index := None, lr_updated := ts\<rparr>"

text \<open>The inquiry of a corrected row, unless its application has an answer.\<close>

definition corrected_ask :: "uuid \<Rightarrow> uuid \<Rightarrow> result_tables \<Rightarrow> (uuid \<times> list_row) list" where
  "corrected_ask a i t = (if list_ex (\<lambda>w. lw_application w = a) (l_willingness t) then []
     else case find_row t i of None \<Rightarrow> [] | Some r \<Rightarrow> [(a, r)])"

definition correct_official_result :: "result_repo \<Rightarrow> uuid \<Rightarrow> uuid \<Rightarrow> correction_input \<Rightarrow> unit result_op" where
  "correct_official_result rp adm i input =
     as_result_admin adm (
       if \<not> correction_ok input then fail RsInvalidInput
       else bindM db_clock (\<lambda>ts. in_tx rs_raw (
         bindM (map_errM rs_missing (stmt_row (\<lambda>d t. case find_row t i of
              None \<Rightarrow> None
            | Some r \<Rightarrow> (case List.find (\<lambda>b. lb_id b = lr_batch r \<and> lb_status b = ''published'') (l_batches t) of
                 None \<Rightarrow> None | Some b \<Rightarrow> Some (r, lb_year b, lb_school b))))) (\<lambda>(before, y, s).
         let b = lr_batch before in
         bindM (map_errM rs_raw (stmt_from (\<lambda>d t. map_option (correct_row input ts) (find_row t i)) row_chk no_key
           (\<lambda>_ _ _. True) (\<lambda>r (d, t). (d, clear_rows (\<lambda>r. lr_id r = i) (correct_row input ts) t)))) (\<lambda>_.
         bindM (map_errM rs_raw (add_result_audit \<lparr>lo_actor = adm, lo_action = ''correct'',
           lo_entity = ''official_result'', lo_key = e_uuid (lx_env rp) i, lo_before = Some (row_data before),
           lo_after = RowData (ci_status input) (ci_rank input) (ci_quota input) (result_dash (ci_masked input)) None,
           lo_reason = ci_reason input\<rparr>)) (\<lambda>_.
         bindM (map_errM rs_raw (number_rows rp b ts)) (\<lambda>_.
         bindM (map_errM rs_raw (stmt_write (\<lambda>t. fill_arrays b y s (answer_or_100 t) t) (\<lambda>_ _. ()))) (\<lambda>_.
         case lr_application before of
           None \<Rightarrow> ret ()
         | Some a \<Rightarrow>
             if willingness_status (ci_status input)
             then map_errM rs_raw (ask_rows ''result_released'' None False ts (corrected_ask a i))
             else ret ()))))))))"

section \<open>Lists for administrators\<close>

definition rows_of :: "result_tables \<Rightarrow> uuid \<Rightarrow> list_row list" where
  "rows_of t i = filter (\<lambda>r. lr_batch r = i) (l_rows t)"

definition inquiries_of :: "result_tables \<Rightarrow> uuid \<Rightarrow> inquiry_row list" where
  "inquiries_of t i = filter (\<lambda>q. list_ex (\<lambda>r. lq_result q = Some (lr_id r)) (rows_of t i)) (l_inquiries t)"

definition admin_batch_of :: "result_tables \<Rightarrow> list_batch \<Rightarrow> admin_batch" where
  "admin_batch_of t b = \<lparr>ab_id = lb_id b, ab_year = lb_year b, ab_school = lb_school b, ab_url = lb_url b,
     ab_sha = lb_sha b, ab_status = lb_status b, ab_imported = lb_imported b, ab_reviewed = lb_reviewed b,
     ab_results = length (rows_of t (lb_id b)),
     ab_matched = length (filter (\<lambda>r. lr_application r \<noteq> None) (rows_of t (lb_id b))),
     ab_inquiries = length (inquiries_of t (lb_id b))\<rparr>"

definition batch_selected :: "batch_query \<Rightarrow> list_batch \<Rightarrow> bool" where
  "batch_selected q b \<longleftrightarrow> (bq_year q \<noteq> 0 \<longrightarrow> lb_year b = bq_year q) \<and> (bq_school q \<noteq> [] \<longrightarrow> lb_school b = bq_school q)
     \<and> (bq_status q \<noteq> [] \<longrightarrow> lb_status b = bq_status q)"

definition list_admin_batches :: "uuid \<Rightarrow> batch_query \<Rightarrow> admin_batch list result_op" where
  "list_admin_batches adm q =
     as_result_admin adm (
       if \<not> batch_query_ok q then fail RsInvalidQuery
       else map_errM rs_raw (stmt_rows (\<lambda>d t. map (admin_batch_of t)
         (take (nat (bq_limit q)) (drop (nat (bq_offset q))
           (rev (sort_key (\<lambda>b. (lb_imported b, lb_id b)) (filter (batch_selected q) (l_batches t)))))))))"

definition admin_row_of :: "list_row \<Rightarrow> admin_row option" where
  "admin_row_of r = map_option (\<lambda>page. \<lparr>ar_id = lr_id r, ar_program = lr_program r, ar_last4 = lr_last4 r,
     ar_masked = lr_masked r, ar_status = lr_status r, ar_rank = lr_rank r, ar_quota = lr_quota r, ar_page = page,
     ar_matched = (lr_application r \<noteq> None)\<rparr>) (lr_page r)"

text \<open>A row without a page cannot be scanned into the reply.\<close>

fun all_some :: "'a option list \<Rightarrow> 'a list option" where
  "all_some [] = Some []"
| "all_some (None # xs) = None"
| "all_some (Some x # xs) = map_option ((#) x) (all_some xs)"

definition get_admin_batch :: "uuid \<Rightarrow> uuid \<Rightarrow> (admin_batch \<times> admin_row list) result_op" where
  "get_admin_batch adm i =
     as_result_admin adm (
       bindM (map_errM rs_missing (stmt_row (\<lambda>d t. map_option (admin_batch_of t) (find_batch t i)))) (\<lambda>b.
       bindM (map_errM rs_raw (stmt_rows (\<lambda>d t. map admin_row_of
         (sort_key (\<lambda>r. (lr_program r, (case lr_rank r of None \<Rightarrow> (True, 0) | Some k \<Rightarrow> (False, k)), lr_id r))
            (rows_of t i))))) (\<lambda>rows.
       case all_some rows of None \<Rightarrow> fail RsSQL | Some rows \<Rightarrow> ret (b, rows))))"

end
