(* ===== verification/WillingnessStore.thy ===== *)
theory WillingnessStore imports ResultStore begin

text \<open>
  Official results, what candidates do (internal/results/postgres_repository.go): they enter the
  candidate number that matches their application with the published row, read their report, and
  answer the inquiries, on the web site or through a channel. An answer goes to the slot of the
  row the inquiry is about.
\<close>

section \<open>Candidate numbers\<close>

definition confirmed_application :: "result_tables \<Rightarrow> uuid \<Rightarrow> uuid \<Rightarrow> listed_application option" where
  "confirmed_application t acc i =
     List.find (\<lambda>a. la_id a = i \<and> la_account a = acc \<and> la_status a = ''confirmed'') (l_applications t)"

definition set_number :: "string \<Rightarrow> string \<Rightarrow> string \<Rightarrow> listed_application \<Rightarrow> listed_application" where
  "set_number cipher hash last4 a = a\<lparr>la_cipher := Some cipher, la_hash := Some hash, la_last4 := Some last4\<rparr>"

text \<open>The partial unique index on the numbers of confirmed applications.\<close>

definition same_number :: "listed_application \<Rightarrow> listed_application \<Rightarrow> bool" where
  "same_number a b \<longleftrightarrow> la_id a \<noteq> la_id b \<and> la_status a = ''confirmed'' \<and> la_status b = ''confirmed''
     \<and> la_year a = la_year b \<and> la_school a = la_school b \<and> la_program a = la_program b \<and> la_hash a = la_hash b"

definition save_number :: "uuid \<Rightarrow> uuid \<Rightarrow> string \<Rightarrow> string \<Rightarrow> string \<Rightarrow> (result_tables state, stmt_error, listed_application) op" where
  "save_number acc i cipher hash last4 =
     stmt_from (\<lambda>d t. map_option (set_number cipher hash last4) (confirmed_application t acc i))
       (\<lambda>a. last4_chk last4) (\<lambda>d t a. \<not> list_ex (same_number a) (l_applications t)) (\<lambda>_ _ _. True)
       (\<lambda>a (d, t). (d, t\<lparr>l_applications := update_where (\<lambda>a. la_id a = i \<and> la_account a = acc \<and> la_status a = ''confirmed'')
          (set_number cipher hash last4) (l_applications t)\<rparr>))"

definition unlink_rows :: "uuid \<Rightarrow> time \<Rightarrow> result_tables \<Rightarrow> result_tables" where
  "unlink_rows i ts t = clear_rows (\<lambda>r. lr_application r = Some i \<and> published_batch t (lr_batch r))
     (\<lambda>r. r\<lparr>lr_application := None, lr_updated := ts\<rparr>) t"

definition link_rows :: "uuid \<Rightarrow> uuid \<Rightarrow> string \<Rightarrow> time \<Rightarrow> result_tables \<Rightarrow> result_tables" where
  "link_rows acc i hash ts t =
     (case confirmed_application t acc i of
        None \<Rightarrow> t
      | Some a \<Rightarrow> clear_rows (\<lambda>r. published_batch t (lr_batch r) \<and> la_year a = lr_year r \<and> la_school a = lr_school r
            \<and> la_program a = lr_program r \<and> lr_hash r = hash \<and> lr_application r = None)
          (\<lambda>r. r\<lparr>lr_application := Some i, lr_updated := ts\<rparr>) t)"

definition set_candidate_number :: "result_repo \<Rightarrow> uuid \<Rightarrow> uuid \<Rightarrow> string \<Rightarrow> string \<Rightarrow> string \<Rightarrow> unit result_op" where
  "set_candidate_number rp acc i cipher hash last4 =
     bindM db_clock (\<lambda>ts. in_tx rs_raw (
       bindM (map_errM (\<lambda>e. if e = SNoRows then RsNotFound else map_result_error e) (save_number acc i cipher hash last4)) (\<lambda>_.
       bindM (map_errM rs_raw (stmt_write (unlink_rows i ts) (\<lambda>_ _. ()))) (\<lambda>_.
       bindM (map_errM rs_raw (stmt_write (link_rows acc i hash ts) (\<lambda>_ _. ()))) (\<lambda>_.
       bindM (map_errM rs_raw (ask_rows ''result_released'' None False ts
         (\<lambda>t. askable (\<lambda>r. lr_application r = Some i \<and> published_batch t (lr_batch r)
                          \<and> answer_of t (lr_application r) = None) t))) (\<lambda>_.
       map_errM rs_raw (add_result_audit \<lparr>lo_actor = acc, lo_action = ''set_candidate_number'',
         lo_entity = ''application'', lo_key = e_uuid (lx_env rp) i, lo_before = None,
         lo_after = LastFourData last4, lo_reason = ''user updated candidate number''\<rparr>)))))))"

section \<open>The report\<close>

definition find_listed :: "result_tables \<Rightarrow> list_row \<Rightarrow> listed_program option" where
  "find_listed t r = List.find (program_of_row r) (l_programs t)"

text \<open>\<^verbatim>\<open>willingness_values[willingness_index + 1]\<close>, null out of range.\<close>

definition slot :: "listed_program \<Rightarrow> list_row \<Rightarrow> int option" where
  "slot p r = (case lr_index r of None \<Rightarrow> None
     | Some k \<Rightarrow> if 0 \<le> k \<and> nat k < length (lp_values p) then Some (lp_values p ! nat k) else None)"

definition report_target :: "uuid \<Rightarrow> uuid \<Rightarrow> result_tables \<Rightarrow> (list_row \<times> listed_application \<times> listed_program) option" where
  "report_target acc i t =
     (case (confirmed_application t acc i,
            select_first (\<lambda>r. - imported_at t (lr_batch r))
              (\<lambda>r. lr_application r = Some i \<and> published_batch t (lr_batch r) \<and> find_listed t r \<noteq> None) (l_rows t)) of
        (Some a, Some r) \<Rightarrow> map_option (\<lambda>p. (r, a, p)) (find_listed t r)
      | _ \<Rightarrow> None)"

definition front_rows :: "result_tables \<Rightarrow> list_row \<Rightarrow> list_row list" where
  "front_rows t r = filter (\<lambda>f. same_program f r \<and> lr_batch f = lr_batch r \<and> lr_status r = ''waitlisted''
     \<and> willingness_status (lr_status f)
     \<and> (case (lr_index f, lr_index r) of (Some j, Some k) \<Rightarrow> j < k | _ \<Rightarrow> False)) (l_rows t)"

definition row_answered :: "result_tables \<Rightarrow> list_row \<Rightarrow> bool" where
  "row_answered t r \<longleftrightarrow> list_ex (\<lambda>e. le_result e = lr_id r) (l_events t)"

text \<open>\<^verbatim>\<open>ROUND(AVG(value), 2)\<close> in hundredths; halves are rounded up.\<close>

definition average_hundredths :: "int list \<Rightarrow> int option" where
  "average_hundredths vs = (if vs = [] then None
     else Some ((200 * sum_list vs + int (length vs)) div (2 * int (length vs))))"

definition get_report :: "uuid \<Rightarrow> uuid \<Rightarrow> result_report result_op" where
  "get_report acc i = map_errM rs_missing (stmt_row (\<lambda>d t. map_option (\<lambda>(r, a, p).
     let front = front_rows t r; values = List.map_filter (slot p) front in
     \<lparr>rg_application = i, rg_status = lr_status r, rg_rank = lr_rank r, rg_quota = lr_quota r,
      rg_front = int (length front), rg_responses = int (length (filter (row_answered t) front)),
      rg_position = (if lr_status r = ''waitlisted'' then Some (1 + int (length (filter (\<lambda>v. 0 < v) values))) else None),
      rg_probability = (if lr_status r = ''admitted'' then Some 10000
                        else if lr_status r = ''waitlisted'' then average_hundredths values else None),
      rg_willingness = slot p r, rg_last4 = or_empty (la_last4 a), rg_number_set = (la_hash a \<noteq> None)\<rparr>)
     (report_target acc i t)))"

section \<open>Inquiries of an application\<close>

definition current_result :: "uuid \<Rightarrow> result_tables \<Rightarrow> list_row option" where
  "current_result i t = select_first (\<lambda>r. (- imported_at t (lr_batch r), - lr_updated r, - int (lr_id r)))
     (\<lambda>r. lr_application r = Some i \<and> published_batch t (lr_batch r)) (l_rows t)"

definition inquiry_shown :: "uuid \<Rightarrow> result_tables \<Rightarrow> inquiry_row \<Rightarrow> bool" where
  "inquiry_shown i t q \<longleftrightarrow> lq_application q = i
     \<and> (lq_result q = None
        \<or> (case lq_result q of None \<Rightarrow> False
           | Some x \<Rightarrow> (case find_row t x of None \<Rightarrow> False
              | Some r \<Rightarrow> published_batch t (lr_batch r) \<and> map_option lr_id (current_result i t) = Some x)))"

definition inquiry_value :: "result_tables \<Rightarrow> inquiry_row \<Rightarrow> int option" where
  "inquiry_value t q =
     (let of_slot = (case lq_result q of None \<Rightarrow> None
            | Some x \<Rightarrow> (case find_row t x of None \<Rightarrow> None
               | Some r \<Rightarrow> (case find_listed t r of None \<Rightarrow> None | Some p \<Rightarrow> slot p r)))
      in if of_slot = None then answer_of t (Some (lq_application q)) else of_slot)"

definition inquiry_of :: "result_tables \<Rightarrow> inquiry_row \<Rightarrow> inquiry" where
  "inquiry_of t q = \<lparr>qy_id = lq_id q, qy_round = lq_round q, qy_deadline = lq_deadline q, qy_created = lq_created q,
     qy_responded = list_ex (\<lambda>e. le_inquiry e = lq_id q) (l_events t), qy_willingness = inquiry_value t q\<rparr>"

definition list_inquiries :: "uuid \<Rightarrow> uuid \<Rightarrow> inquiry list result_op" where
  "list_inquiries acc i =
     bindM (map_errM rs_raw (stmt_rows (\<lambda>d t. confirmed_application t acc i \<noteq> None))) (\<lambda>there.
     if \<not> there then fail RsNotFound
     else map_errM rs_raw (stmt_rows (\<lambda>d t. map (inquiry_of t)
            (sort_key (\<lambda>q. - lq_created q) (filter (inquiry_shown i t) (l_inquiries t))))))"

section \<open>Answers\<close>

definition willingness_answer :: "uuid \<Rightarrow> list_row \<Rightarrow> int \<Rightarrow> willingness_response" where
  "willingness_answer e r v = \<lparr>wr_id = e, wr_year = lr_year r, wr_school = lr_school r, wr_program = lr_program r,
     wr_status = lr_status r, wr_rank = (case lr_rank r of None \<Rightarrow> 0 | Some k \<Rightarrow> k), wr_value = v\<rparr>"

text \<open>The answer an external event has already given, if it is this application's.\<close>

definition known_event :: "uuid \<Rightarrow> uuid \<Rightarrow> string \<Rightarrow> string \<Rightarrow> result_tables \<Rightarrow> willingness_response option" where
  "known_event acc i source ext t =
     (case List.find (\<lambda>e. le_source e = source \<and> le_external e = Some ext \<and> le_application e = i
              \<and> find_row t (le_result e) \<noteq> None
              \<and> list_ex (\<lambda>a. la_id a = i \<and> la_account a = acc) (l_applications t)) (l_events t) of
        None \<Rightarrow> None
      | Some e \<Rightarrow> map_option (\<lambda>r. willingness_answer (le_id e) r (le_value e)) (find_row t (le_result e)))"

definition open_inquiry :: "uuid \<Rightarrow> time \<Rightarrow> result_tables \<Rightarrow> inquiry_row \<Rightarrow> bool" where
  "open_inquiry i ts t q \<longleftrightarrow> lq_application q = i
     \<and> (case lq_result q of None \<Rightarrow> False
        | Some x \<Rightarrow> (case find_row t x of None \<Rightarrow> False | Some r \<Rightarrow> published_batch t (lr_batch r)))
     \<and> (case lq_deadline q of None \<Rightarrow> True | Some dl \<Rightarrow> ts < dl)"

definition row_of_inquiry :: "result_tables \<Rightarrow> inquiry_row \<Rightarrow> list_row option" where
  "row_of_inquiry t q = (case lq_result q of None \<Rightarrow> None | Some x \<Rightarrow> find_row t x)"

definition inquiry_imported :: "result_tables \<Rightarrow> inquiry_row \<Rightarrow> time" where
  "inquiry_imported t q = (case row_of_inquiry t q of None \<Rightarrow> 0 | Some r \<Rightarrow> imported_at t (lr_batch r))"

text \<open>The inquiry the caller names (0 is \<^verbatim>\<open>uuid.Nil\<close>), or the latest one that is open.\<close>

definition selected_inquiry ::
  "uuid \<Rightarrow> uuid \<Rightarrow> uuid option \<Rightarrow> time \<Rightarrow> result_tables \<Rightarrow> (inquiry_row \<times> list_row) option" where
  "selected_inquiry acc i named ts t =
     (let latest = select_first (\<lambda>q. (- inquiry_imported t q, - lq_created q)) (open_inquiry i ts t) (l_inquiries t);
          chosen = (case named of
            None \<Rightarrow> latest
          | Some n \<Rightarrow> if n = 0 then latest
                      else if confirmed_application t acc i = None then None
                      else List.find (\<lambda>q. lq_id q = n \<and> open_inquiry i ts t q) (l_inquiries t))
      in case chosen of None \<Rightarrow> None | Some q \<Rightarrow> map_option (\<lambda>r. (q, r)) (row_of_inquiry t q))"

definition save_answer :: "uuid \<Rightarrow> int \<Rightarrow> time \<Rightarrow> result_tables \<Rightarrow> result_tables" where
  "save_answer i v ts t =
     (if list_ex (\<lambda>w. lw_application w = i) (l_willingness t)
      then t\<lparr>l_willingness := update_where (\<lambda>w. lw_application w = i)
             (\<lambda>w. w\<lparr>lw_value := Some v, lw_updated := ts\<rparr>) (l_willingness t)\<rparr>
      else t\<lparr>l_willingness := l_willingness t @ [\<lparr>lw_application = i, lw_value = Some v, lw_updated = ts\<rparr>]\<rparr>)"

text \<open>\<^verbatim>\<open>array_length\<close> of an empty array is null: such an array has no slot.\<close>

definition has_slot :: "list_row \<Rightarrow> int \<Rightarrow> listed_program \<Rightarrow> bool" where
  "has_slot r k p \<longleftrightarrow> program_of_row r p \<and> k < int (length (lp_values p))"

definition put_slot :: "list_row \<Rightarrow> int \<Rightarrow> int \<Rightarrow> result_tables \<Rightarrow> result_tables" where
  "put_slot r k v t = t\<lparr>l_programs := update_where (has_slot r k)
     (\<lambda>p. p\<lparr>lp_values := (lp_values p)[nat k := v]\<rparr>) (l_programs t)\<rparr>"

definition new_event :: "uuid \<Rightarrow> uuid \<Rightarrow> uuid \<Rightarrow> int \<Rightarrow> string \<Rightarrow> string option \<Rightarrow> db \<Rightarrow> response_event" where
  "new_event i q r v source ext d = \<lparr>le_id = next_id d, le_application = i, le_inquiry = q, le_result = r,
     le_value = v, le_source = source, le_external = ext\<rparr>"

definition event_chk :: "response_event \<Rightarrow> bool" where
  "event_chk e \<longleftrightarrow> (le_source e = ''web'' \<or> le_source e = ''telegram'')
     \<and> (case le_external e of None \<Rightarrow> True | Some x \<Rightarrow> pg_text x \<and> 1 \<le> rune_count x \<and> rune_count x \<le> 200)"

definition same_event :: "response_event \<Rightarrow> response_event \<Rightarrow> bool" where
  "same_event a b \<longleftrightarrow> le_external a \<noteq> None \<and> le_source a = le_source b \<and> le_external a = le_external b"

definition add_response :: "response_event \<Rightarrow> db \<times> result_tables \<Rightarrow> db \<times> result_tables" where
  "add_response e x = (draw_id (fst x), (snd x)\<lparr>l_events := l_events (snd x) @ [e]\<rparr>)"

definition insert_event ::
  "uuid \<Rightarrow> uuid \<Rightarrow> uuid \<Rightarrow> int \<Rightarrow> string \<Rightarrow> string option \<Rightarrow> (result_tables state, stmt_error, response_event) op" where
  "insert_event i q r v source ext = stmt_from (\<lambda>d t. Some (new_event i q r v source ext d)) event_chk
     (\<lambda>d t e. \<not> list_ex (same_event e) (l_events t)) (\<lambda>_ _ _. True) add_response"

definition record_answer ::
  "uuid \<Rightarrow> int \<Rightarrow> time \<Rightarrow> string \<Rightarrow> string \<Rightarrow> inquiry_row \<times> list_row \<Rightarrow> willingness_response result_op" where
  "record_answer i v ts source ext x =
     (let r = snd x; k = (case lr_index r of None \<Rightarrow> - 1 | Some k \<Rightarrow> k);
          rank = (case lr_rank r of None \<Rightarrow> 0 | Some k \<Rightarrow> k) in
      if k < 0 \<or> rank < 1 then fail RsNotFound else
      bindM (map_errM map_result_error (stmt_write (save_answer i v ts) (\<lambda>_ _. ()))) (\<lambda>_.
      bindM (map_errM rs_raw (stmt_write (put_slot r k v) (\<lambda>d t. affected (has_slot r k) (l_programs t)))) (\<lambda>n.
      if n \<noteq> 1 then fail RsConflict else
      bindM (map_errM rs_raw (insert_event i (lq_id (fst x)) (lr_id r) v source (if ext = [] then None else Some ext))) (\<lambda>e.
      ret (willingness_answer (le_id e) r v)))))"

definition set_willingness_as ::
  "result_repo \<Rightarrow> uuid \<Rightarrow> uuid \<Rightarrow> int \<Rightarrow> uuid option \<Rightarrow> string \<Rightarrow> string \<Rightarrow> willingness_response result_op" where
  "set_willingness_as rp acc i v named source0 ext =
     (let source = to_lower (e_unicode (lx_env rp)) (trim_space source0) in
      if \<not> validate_willingness v then fail RsInvalidWillingness
      else if source = [] \<or> 16 < length source then fail RsInvalidInput
      else bindM db_clock (\<lambda>ts. in_tx rs_raw (
        bindM (map_errM rs_raw (stmt_rows (\<lambda>d t. confirmed_application t acc i \<noteq> None))) (\<lambda>there.
        if \<not> there then fail RsNotFound else
        bindM (if ext = [] then ret None
               else bindM (map_errM rs_raw (stmt (\<lambda>x. (if pg_text (source @ '':'' @ ext) then Inr () else Inl SCheck, x)))) (\<lambda>_.
                    map_errM rs_raw (stmt_rows (\<lambda>d t. known_event acc i source ext t)))) (\<lambda>known.
        case known of
          Some x \<Rightarrow> ret x
        | None \<Rightarrow>
            bindM (map_errM rs_missing (stmt_row (\<lambda>d t. selected_inquiry acc i named ts t)))
              (record_answer i v ts source ext))))))"

definition set_willingness ::
  "result_repo \<Rightarrow> uuid \<Rightarrow> uuid \<Rightarrow> int \<Rightarrow> uuid option \<Rightarrow> willingness_response result_op" where
  "set_willingness rp acc i v named = set_willingness_as rp acc i v named ''web'' []"

definition set_willingness_from_channel ::
  "result_repo \<Rightarrow> uuid \<Rightarrow> uuid \<Rightarrow> int \<Rightarrow> uuid \<Rightarrow> string \<Rightarrow> string \<Rightarrow> willingness_response result_op" where
  "set_willingness_from_channel rp acc i v q source0 ext0 =
     (let source = to_lower (e_unicode (lx_env rp)) (trim_space source0); ext = trim_space ext0 in
      if q = 0 \<or> source = [] \<or> source = ''web'' \<or> ext = [] \<or> 200 < length ext then fail RsInvalidInput
      else set_willingness_as rp acc i v (Some q) source ext)"

end
