(* ===== verification/ResultHandler.thy ===== *)
theory ResultHandler imports WillingnessStore RequestSteps begin

text \<open>
  The routes of official results (internal/results/handler.go): six for administrators, four for
  candidates. A body is its decoded value; JSON texts are left out.
\<close>

record result_handler =
  hr_auth :: service
  hr_repo :: result_repo
  hr_cipher :: "field_cipher option"
  hr_key :: string

abbreviation hr_env :: "result_handler \<Rightarrow> env" where
  "hr_env h \<equiv> sv_env (hr_auth h)"

definition new_result_handler :: "result_handler \<Rightarrow> result_handler option" where
  "new_result_handler h = (if hr_cipher h = None \<or> length (hr_key h) \<noteq> 32 then None else Some h)"

datatype result_body =
    BatchIdOut uuid | BatchesOut "admin_batch list" int int | BatchOut admin_batch "admin_row list"
  | ReportOut result_report | InquiriesOut "inquiry list" | WillingnessOut willingness_response | NoResultBody

type_synonym 'a result_step = "(result_tables, result_body, 'a) route"

section \<open>Guards\<close>

definition result_account :: "request_session \<Rightarrow> uuid" where
  "result_account rs = acc_id (session_account rs)"

definition result_require_admin :: "result_handler \<Rightarrow> request \<Rightarrow> request_session result_step" where
  "result_require_admin h rq =
     bindM (session_step (hr_auth h) rq) (\<lambda>rs.
     bindM (admin_step result_is_admin rs) (\<lambda>_.
     bindM (mfa_step (hr_auth h) rq rs) (\<lambda>_. ret rs)))"

text \<open>A mutation asks for the CSRF token, and for the second factor once more.\<close>

definition result_require_admin_mutation :: "result_handler \<Rightarrow> request \<Rightarrow> request_session result_step" where
  "result_require_admin_mutation h rq =
     bindM (result_require_admin h rq) (\<lambda>rs.
     bindM (csrf_step (hr_auth h) rq rs) (\<lambda>_.
     bindM (mfa_step (hr_auth h) rq rs) (\<lambda>_. ret rs)))"

definition result_require_verified :: "result_handler \<Rightarrow> request \<Rightarrow> bool \<Rightarrow> request_session result_step" where
  "result_require_verified h rq mutation =
     bindM (map_errM (\<lambda>_. refuse_unauthorized) (core (authenticate (hr_auth h) rq))) (\<lambda>rs.
     if acc_identity (session_account rs) \<noteq> ''student''
     then fail (Refused 403 ''verification_required'' ''verified identity is required'')
     else bindM (if mutation then csrf_step (hr_auth h) rq rs else ret ()) (\<lambda>_. ret rs))"

definition application_path :: "result_handler \<Rightarrow> string \<Rightarrow> uuid result_step" where
  "application_path h raw =
     path_uuid (hr_env h) (trim_space raw) ''invalid_application_id'' ''application id is invalid''"

definition batch_path :: "result_handler \<Rightarrow> string \<Rightarrow> uuid result_step" where
  "batch_path h raw = path_uuid (hr_env h) raw ''invalid_batch_id'' ''batch id is invalid''"

fun importer_refusal :: "result_error \<Rightarrow> result_body reply" where
  "importer_refusal RsInvalidInput = Refused 400 ''invalid_request'' ''result request is invalid''"
| "importer_refusal RsInvalidQuery = Refused 400 ''invalid_request'' ''result request is invalid''"
| "importer_refusal RsNotFound = Refused 404 ''not_found'' ''result resource was not found''"
| "importer_refusal RsConflict = Refused 409 ''conflict'' ''result resource already exists''"
| "importer_refusal RsAdminRequired = refuse_admin"
| "importer_refusal _ = refuse_internal"

fun repository_refusal :: "result_error \<Rightarrow> result_body reply" where
  "repository_refusal RsInvalidInput = Refused 400 ''invalid_request'' ''result request is invalid''"
| "repository_refusal RsInvalidWillingness = Refused 400 ''invalid_request'' ''result request is invalid''"
| "repository_refusal RsNotFound = Refused 404 ''not_found'' ''result resource not found''"
| "repository_refusal RsConflict = Refused 409 ''conflict'' ''result resource conflict''"
| "repository_refusal _ = refuse_internal"

definition missing_refusal :: "string \<Rightarrow> string \<Rightarrow> result_error \<Rightarrow> result_body reply" where
  "missing_refusal code message e = (if e = RsNotFound then Refused 404 code message else refuse_internal)"

section \<open>Administrators\<close>

definition route_import :: "result_handler \<Rightarrow> request \<Rightarrow> import_input option \<Rightarrow> result_body reply result_step" where
  "route_import h rq body =
     bindM (result_require_admin_mutation h rq) (\<lambda>rs.
     bindM (body_step (case body of None \<Rightarrow> None | Some i \<Rightarrow> if import_ok (hr_repo h) i then body else None)
              ''invalid_import'' ''result import is invalid'') (\<lambda>i.
     bindM (body_step (if list_all official_row_ok (im_rows i) then Some () else None)
              ''invalid_import_row'' ''result import row is invalid'') (\<lambda>_.
     bindM (map_errM importer_refusal (import_official_batch (hr_repo h) (result_account rs) i)) (\<lambda>b.
     ret (Replied 201 (BatchIdOut b))))))"

definition route_publish :: "result_handler \<Rightarrow> request \<Rightarrow> string \<Rightarrow> result_body reply result_step" where
  "route_publish h rq raw =
     bindM (result_require_admin_mutation h rq) (\<lambda>rs.
     bindM (batch_path h raw) (\<lambda>i.
     bindM (map_errM importer_refusal (publish_official_batch (hr_repo h) (result_account rs) i)) (\<lambda>_.
     ret (Replied 204 NoResultBody))))"

text \<open>The deadline of the body: \<^const>\<open>zero_time\<close> is \<^verbatim>\<open>time.Time{}\<close>.\<close>

definition route_deadline :: "result_handler \<Rightarrow> request \<Rightarrow> string \<Rightarrow> time option \<Rightarrow> result_body reply result_step" where
  "route_deadline h rq raw body =
     bindM (result_require_admin_mutation h rq) (\<lambda>rs.
     bindM (batch_path h raw) (\<lambda>i.
     bindM clock (\<lambda>now.
     bindM (body_step (case body of None \<Rightarrow> None | Some dl \<Rightarrow> if dl = zero_time \<or> dl < now then None else body)
              ''invalid_deadline'' ''deadline is invalid'') (\<lambda>dl.
     bindM (map_errM importer_refusal (create_deadline_inquiries (result_account rs) i dl)) (\<lambda>_.
     ret (Replied 204 NoResultBody))))))"

definition route_correct ::
  "result_handler \<Rightarrow> request \<Rightarrow> string \<Rightarrow> correction_input option \<Rightarrow> result_body reply result_step" where
  "route_correct h rq raw body =
     bindM (result_require_admin_mutation h rq) (\<lambda>rs.
     bindM (path_uuid (hr_env h) raw ''invalid_result_id'' ''result id is invalid'') (\<lambda>i.
     bindM (body_step (case body of None \<Rightarrow> None | Some x \<Rightarrow> if correction_ok x then body else None)
              ''invalid_correction'' ''correction data is invalid'') (\<lambda>x.
     bindM (map_errM importer_refusal (correct_official_result (hr_repo h) (result_account rs) i x)) (\<lambda>_.
     ret (Replied 204 NoResultBody)))))"

definition number_or :: "int \<Rightarrow> string \<Rightarrow> int option" where
  "number_or preset raw = (if trim_space raw = [] then Some preset else atoi (trim_space raw))"

definition parse_admin_batch_query ::
  "string \<Rightarrow> string \<Rightarrow> string \<Rightarrow> string \<Rightarrow> string \<Rightarrow> batch_query option" where
  "parse_admin_batch_query year school status l offset =
     (case (number_or 0 year, number_or 50 l, number_or 0 offset) of
        (Some y, Some n, Some k) \<Rightarrow>
          let q = \<lparr>bq_year = y, bq_school = trim_space school, bq_status = trim_space status, bq_limit = n, bq_offset = k\<rparr> in
          if batch_query_ok q then Some q else None
      | _ \<Rightarrow> None)"

definition route_list_batches ::
  "result_handler \<Rightarrow> request \<Rightarrow> string \<Rightarrow> string \<Rightarrow> string \<Rightarrow> string \<Rightarrow> string \<Rightarrow> result_body reply result_step" where
  "route_list_batches h rq year school status l offset =
     bindM (result_require_admin h rq) (\<lambda>rs.
     bindM (body_step (parse_admin_batch_query year school status l offset)
              ''invalid_query'' ''result batch query is invalid'') (\<lambda>q.
     bindM (map_errM importer_refusal (list_admin_batches (result_account rs) q)) (\<lambda>bs.
     ret (Replied 200 (BatchesOut bs (bq_limit q) (bq_offset q))))))"

definition route_get_batch :: "result_handler \<Rightarrow> request \<Rightarrow> string \<Rightarrow> result_body reply result_step" where
  "route_get_batch h rq raw =
     bindM (result_require_admin h rq) (\<lambda>rs.
     bindM (batch_path h raw) (\<lambda>i.
     bindM (map_errM importer_refusal (get_admin_batch (result_account rs) i)) (\<lambda>(b, rows).
     ret (Replied 200 (BatchOut b rows)))))"

section \<open>Candidates\<close>

definition route_report :: "result_handler \<Rightarrow> request \<Rightarrow> string \<Rightarrow> result_body reply result_step" where
  "route_report h rq raw =
     bindM (result_require_verified h rq False) (\<lambda>rs.
     bindM (application_path h raw) (\<lambda>i.
     bindM (map_errM (missing_refusal ''result_not_found'' ''official result is not available'')
              (get_report (result_account rs) i)) (\<lambda>x.
     ret (Replied 200 (ReportOut x)))))"

definition route_candidate_number ::
  "result_handler \<Rightarrow> request \<Rightarrow> string \<Rightarrow> string option \<Rightarrow> result_body reply result_step" where
  "route_candidate_number h rq raw body =
     bindM (result_require_verified h rq True) (\<lambda>rs.
     bindM (application_path h raw) (\<lambda>i.
     bindM (body_step body ''invalid_request'' ''candidate number is invalid'') (\<lambda>number.
     bindM (body_step (normalize_candidate_number number)
              ''invalid_candidate_number'' ''candidate number is invalid'') (\<lambda>candidate.
     bindM (core (with_draws (\<lambda>_. refuse_internal)
              (fc_seal (e_crypto (hr_env h)) (hr_cipher h) candidate))) (\<lambda>cipher.
     bindM (liftM (case lookup_hash (e_crypto (hr_env h)) (hr_key h) candidate of
                     Inl e \<Rightarrow> Inl refuse_internal | Inr x \<Rightarrow> Inr x)) (\<lambda>hash.
     bindM (map_errM repository_refusal
              (set_candidate_number (hr_repo h) (result_account rs) i cipher hash (last_four candidate))) (\<lambda>_.
     ret (Replied 204 NoResultBody))))))))"

text \<open>The body is the value and the inquiry it answers; a value out of range is refused with its own text.\<close>

definition route_willingness ::
  "result_handler \<Rightarrow> request \<Rightarrow> string \<Rightarrow> (int \<times> uuid option) option \<Rightarrow> result_body reply result_step" where
  "route_willingness h rq raw body =
     bindM (result_require_verified h rq True) (\<lambda>rs.
     bindM (application_path h raw) (\<lambda>i.
     bindM (body_step body ''invalid_request'' ''willingness is invalid'') (\<lambda>(v, named).
     bindM (body_step (if validate_willingness v then Some () else None)
              ''invalid_willingness'' ''willingness must be 0, 20, 40, 60, 80, or 100'') (\<lambda>_.
     bindM (map_errM repository_refusal (set_willingness (hr_repo h) (result_account rs) i v named)) (\<lambda>x.
     ret (Replied 200 (WillingnessOut x)))))))"

definition route_inquiries :: "result_handler \<Rightarrow> request \<Rightarrow> string \<Rightarrow> result_body reply result_step" where
  "route_inquiries h rq raw =
     bindM (result_require_verified h rq False) (\<lambda>rs.
     bindM (application_path h raw) (\<lambda>i.
     bindM (map_errM (missing_refusal ''inquiries_not_found'' ''application inquiries are not available'')
              (list_inquiries (result_account rs) i)) (\<lambda>xs.
     ret (Replied 200 (InquiriesOut xs)))))"

section \<open>Dispatch\<close>

datatype result_call =
    ListBatchesCall string string string string string | GetBatchCall string | ImportCall "import_input option"
  | PublishCall string | DeadlineCall string "time option" | CorrectCall string "correction_input option"
  | ReportCall string | InquiriesCall string | CandidateNumberCall string "string option"
  | WillingnessCall string "(int \<times> uuid option) option"

fun result_route :: "result_handler \<Rightarrow> request \<Rightarrow> result_call \<Rightarrow> result_body reply result_step" where
  "result_route h rq (ListBatchesCall y s st l k) = route_list_batches h rq y s st l k"
| "result_route h rq (GetBatchCall raw) = route_get_batch h rq raw"
| "result_route h rq (ImportCall body) = route_import h rq body"
| "result_route h rq (PublishCall raw) = route_publish h rq raw"
| "result_route h rq (DeadlineCall raw body) = route_deadline h rq raw body"
| "result_route h rq (CorrectCall raw body) = route_correct h rq raw body"
| "result_route h rq (ReportCall raw) = route_report h rq raw"
| "result_route h rq (InquiriesCall raw) = route_inquiries h rq raw"
| "result_route h rq (CandidateNumberCall raw body) = route_candidate_number h rq raw body"
| "result_route h rq (WillingnessCall raw body) = route_willingness h rq raw body"

end
