(* ===== verification/ResultInvariants.thy ===== *)
theory ResultInvariants imports ResultHandler "HOL-Library.Multiset" begin

text \<open>
  What every operation on official results keeps: a school has one published list a year; the
  numbered rows of a published list and the slots of its programmes correspond, the admitted
  first and then by rank; a published row is matched with an application that carries its number;
  every stored answer is one of the six values; an inquiry is about a row of a list that has been
  published.
\<close>

section \<open>The invariant\<close>

definition result_keys :: "db \<Rightarrow> result_tables \<Rightarrow> bool" where
  "result_keys d t \<longleftrightarrow> new_keys (next_id d) lb_id (l_batches t) \<and> new_keys (next_id d) lr_id (l_rows t)
     \<and> distinct (map la_id (l_applications t))
     \<and> distinct (map (\<lambda>p. (lp_year p, lp_school p, lp_code p)) (l_programs t))"

text \<open>Every row is of the year and school of its batch, and its programme is there.\<close>

definition at_home :: "list_batch list \<Rightarrow> listed_program list \<Rightarrow> list_row \<Rightarrow> bool" where
  "at_home bs ps r \<longleftrightarrow> (\<exists>b \<in> set bs. lb_id b = lr_batch r \<and> lb_year b = lr_year r \<and> lb_school b = lr_school r)
     \<and> (\<exists>p \<in> set ps. program_of_row r p)"

definition rows_at_home :: "result_tables \<Rightarrow> bool" where
  "rows_at_home t \<longleftrightarrow> (\<forall>r \<in> set (l_rows t). at_home (l_batches t) (l_programs t) r)"

definition one_list :: "result_tables \<Rightarrow> bool" where
  "one_list t \<longleftrightarrow> (\<forall>a \<in> set (l_batches t). \<forall>b \<in> set (l_batches t). lb_status a = ''published'' \<longrightarrow> lb_status b = ''published'' \<longrightarrow>
     lb_year a = lb_year b \<longrightarrow> lb_school a = lb_school b \<longrightarrow> a = b)"

definition numbered :: "uuid \<Rightarrow> listed_program \<Rightarrow> list_row \<Rightarrow> bool" where
  "numbered b p r \<longleftrightarrow> lr_batch r = b \<and> program_of_row r p \<and> lr_index r \<noteq> None"

definition before :: "uuid \<Rightarrow> listed_program \<Rightarrow> list_row \<Rightarrow> list_row list \<Rightarrow> list_row list" where
  "before b p r rows = filter (\<lambda>x. numbered b p x \<and> standing_key x < standing_key r) rows"

definition slots_fit :: "uuid \<Rightarrow> listed_program \<Rightarrow> list_row list \<Rightarrow> bool" where
  "slots_fit b p rows \<longleftrightarrow> length (lp_values p) = length (filter (numbered b p) rows)
     \<and> (\<forall>r \<in> set rows. numbered b p r \<longrightarrow> lr_index r = Some (int (length (before b p r rows))))"

definition slots_ok :: "result_tables \<Rightarrow> bool" where
  "slots_ok t \<longleftrightarrow> (\<forall>b \<in> set (l_batches t). lb_status b = ''published'' \<longrightarrow>
     (\<forall>p \<in> set (l_programs t). lp_year p = lb_year b \<longrightarrow> lp_school p = lb_school b \<longrightarrow> slots_fit (lb_id b) p (l_rows t)))"

definition numbers_stand :: "result_tables \<Rightarrow> bool" where
  "numbers_stand t \<longleftrightarrow> (\<forall>r \<in> set (l_rows t). lr_index r \<noteq> None \<longrightarrow> willingness_status (lr_status r))"

definition matches_ok :: "result_tables \<Rightarrow> bool" where
  "matches_ok t \<longleftrightarrow> (\<forall>r \<in> set (l_rows t). published_batch t (lr_batch r) \<longrightarrow>
     (\<forall>i. lr_application r = Some i \<longrightarrow> (\<exists>a \<in> set (l_applications t). la_id a = i \<and> owns_row a r)))"

definition numbers_unique :: "listed_application list \<Rightarrow> bool" where
  "numbers_unique as \<longleftrightarrow> (\<forall>a \<in> set as. \<forall>b \<in> set as. la_hash a \<noteq> None \<longrightarrow> \<not> same_number a b)"

definition candidates_unique :: "list_row list \<Rightarrow> bool" where
  "candidates_unique rows \<longleftrightarrow> (\<forall>a \<in> set rows. \<forall>b \<in> set rows. same_candidate a b \<longrightarrow> lr_id a = lr_id b)"

definition answers_ok :: "result_tables \<Rightarrow> bool" where
  "answers_ok t \<longleftrightarrow> (\<forall>p \<in> set (l_programs t). \<forall>v \<in> set (lp_values p). validate_willingness v)
     \<and> (\<forall>w \<in> set (l_willingness t). \<forall>v. lw_value w = Some v \<longrightarrow> validate_willingness v)"

definition inquiries_ok :: "result_tables \<Rightarrow> bool" where
  "inquiries_ok t \<longleftrightarrow> (\<forall>q \<in> set (l_inquiries t). \<forall>x. lq_result q = Some x \<longrightarrow>
     (\<exists>r \<in> set (l_rows t). lr_id r = x \<and> lq_batch q = Some (lr_batch r)
        \<and> (\<forall>b \<in> set (l_batches t). lb_id b = lr_batch r \<longrightarrow> lb_status b \<noteq> ''pending_review'')))"

definition result_inv :: "db \<times> result_tables \<Rightarrow> bool" where
  "result_inv x \<longleftrightarrow> result_keys (fst x) (snd x) \<and> rows_at_home (snd x) \<and> one_list (snd x) \<and> slots_ok (snd x)
     \<and> numbers_stand (snd x) \<and> matches_ok (snd x) \<and> numbers_unique (l_applications (snd x))
     \<and> candidates_unique (l_rows (snd x)) \<and> answers_ok (snd x) \<and> inquiries_ok (snd x)"

lemma inquiries_okE:
  assumes "inquiries_ok t" "q \<in> set (l_inquiries t)" "lq_result q = Some x"
  obtains r where "r \<in> set (l_rows t)" "lr_id r = x" "lq_batch q = Some (lr_batch r)"
    "\<forall>b \<in> set (l_batches t). lb_id b = lr_batch r \<longrightarrow> lb_status b \<noteq> ''pending_review''"
  using assms unfolding inquiries_ok_def by blast

lemma result_invI:
  "result_keys d t \<Longrightarrow> rows_at_home t \<Longrightarrow> one_list t \<Longrightarrow> slots_ok t \<Longrightarrow> numbers_stand t \<Longrightarrow> matches_ok t \<Longrightarrow>
   numbers_unique (l_applications t) \<Longrightarrow> candidates_unique (l_rows t) \<Longrightarrow> answers_ok t \<Longrightarrow> inquiries_ok t \<Longrightarrow>
   result_inv (d, t)"
  by (simp add: result_inv_def)

lemma result_invD:
  assumes "result_inv (d, t)"
  shows "result_keys d t" "rows_at_home t" "one_list t" "slots_ok t" "numbers_stand t" "matches_ok t"
    "numbers_unique (l_applications t)" "candidates_unique (l_rows t)" "answers_ok t" "inquiries_ok t"
  using assms by (simp_all add: result_inv_def)

lemma result_keysD:
  assumes "result_keys d t"
  shows "distinct (map lb_id (l_batches t))" "distinct (map lr_id (l_rows t))" "distinct (map la_id (l_applications t))"
    "\<And>r. r \<in> set (l_rows t) \<Longrightarrow> lr_id r < next_id d" "\<And>b. b \<in> set (l_batches t) \<Longrightarrow> lb_id b < next_id d"
  using assms by (auto simp: result_keys_def new_keys_def list_all_iff)

section \<open>The rows whose standing does not change\<close>

text \<open>What the list says of a candidate, and the row's number.\<close>

definition standing_of :: "list_row \<Rightarrow> uuid \<times> uuid \<times> int \<times> string \<times> string \<times> string \<times> string \<times> int option \<times> int option" where
  "standing_of r = (lr_id r, lr_batch r, lr_year r, lr_school r, lr_program r, lr_hash r, lr_status r, lr_rank r, lr_index r)"

lemma standing_of_sels:
  assumes "standing_of a = standing_of b"
  shows "lr_id a = lr_id b" "lr_batch a = lr_batch b" "lr_year a = lr_year b" "lr_school a = lr_school b"
    "lr_program a = lr_program b" "lr_hash a = lr_hash b" "lr_status a = lr_status b" "lr_rank a = lr_rank b"
    "lr_index a = lr_index b"
  using assms by (simp_all add: standing_of_def)

lemma standing_of_cong:
  assumes "standing_of a = standing_of b"
  shows "numbered i p a = numbered i p b" "standing_key a = standing_key b" "program_of_row a p = program_of_row b p"
    "at_home bs ps a = at_home bs ps b" "owns_row x a = owns_row x b"
  using standing_of_sels[OF assms]
  by (simp_all add: numbered_def standing_key_def program_of_row_def at_home_def owns_row_def)

lemma slots_fit_map:
  assumes "\<And>r. standing_of (g r) = standing_of r"
  shows "slots_fit b p (map g rows) = slots_fit b p rows"
proof -
  have "numbered b p (g r) = numbered b p r" "standing_key (g r) = standing_key r" for r
    using standing_of_cong[OF assms[of r]] by simp_all
  moreover have "lr_index (g r) = lr_index r" for r using standing_of_sels[OF assms[of r]] by simp
  ultimately show ?thesis
    by (simp add: slots_fit_def before_def filter_map o_def)
qed

text \<open>Rows whose owners change together with the applications.\<close>

lemma result_inv_relinked:
  assumes inv: "result_inv (d, t)" and g: "\<And>r. standing_of (g r) = standing_of r"
    and as: "map la_id as = map la_id (l_applications t)" "numbers_unique as"
    and m: "matches_ok (t\<lparr>l_applications := as, l_rows := map g (l_rows t)\<rparr>)"
  shows "result_inv (d, t\<lparr>l_applications := as, l_rows := map g (l_rows t)\<rparr>)"
proof -
  note g' = standing_of_sels[OF g] standing_of_cong[OF g]
  have "same_candidate (g a) (g b) = same_candidate a b" for a b by (simp add: same_candidate_def same_program_def g')
  then have uniq: "candidates_unique (map g (l_rows t)) = candidates_unique (l_rows t)"
    by (simp add: candidates_unique_def g')
  have ids: "map lr_id (map g (l_rows t)) = map lr_id (l_rows t)" by (simp add: g')
  let ?t = "t\<lparr>l_applications := as, l_rows := map g (l_rows t)\<rparr>"
  show ?thesis
  proof (rule result_invI[OF _ _ _ _ _ m])
    show "result_keys d ?t"
      using result_invD(1)[OF inv] ids as(1) by (simp add: result_keys_def new_keys_def list_all_iff g' o_def)
    show "slots_ok ?t" using result_invD(4)[OF inv] by (simp add: slots_ok_def slots_fit_map[OF g])
    show "candidates_unique (l_rows ?t)" using result_invD(8)[OF inv] uniq by simp
    show "inquiries_ok ?t" using result_invD(10)[OF inv] by (simp add: inquiries_ok_def g')
    show "numbers_unique (l_applications ?t)" using as(2) by simp
  qed (use result_invD[OF inv] in \<open>simp_all add: rows_at_home_def one_list_def numbers_stand_def answers_ok_def g'\<close>)
qed

text \<open>Updates of the matches alone.\<close>

lemma result_inv_rows:
  assumes inv: "result_inv (d, t)" and g: "\<And>r. standing_of (g r) = standing_of r"
    and m: "matches_ok (t\<lparr>l_rows := map g (l_rows t)\<rparr>)"
  shows "result_inv (d, t\<lparr>l_rows := map g (l_rows t)\<rparr>)"
  using result_inv_relinked[OF inv g refl result_invD(7)[OF inv]] m by simp

text \<open>Nothing about lists, rows, applications, programmes or inquiries changes.\<close>

lemma result_inv_same:
  assumes "result_inv (d, t)" "next_id d \<le> next_id d'" "l_batches t' = l_batches t" "l_rows t' = l_rows t"
    "l_applications t' = l_applications t" "l_programs t' = l_programs t" "l_willingness t' = l_willingness t"
    "l_inquiries t' = l_inquiries t"
  shows "result_inv (d', t')"
  using assms
  by (auto simp: result_inv_def result_keys_def rows_at_home_def one_list_def slots_ok_def numbers_stand_def matches_ok_def
      published_batch_def answers_ok_def inquiries_ok_def intro: new_keys_mono)

interpretation result_rows: steady result_inv
  by unfold_locales (erule result_inv_same; simp)

section \<open>Matching\<close>

lemma owner_found:
  assumes "list_ex (\<lambda>a. owns_row a r) as"
  obtains a where "a \<in> set as" "owns_row a r" "lr_application (set_owner as ts r) = Some (la_id a)"
proof (cases "List.find (\<lambda>a. owns_row a r) as")
  case None
  with assms show ?thesis by (auto simp: find_None_iff list_ex_iff)
next
  case (Some a)
  with find_Some_D[OF Some] show ?thesis by (intro that[of a]) (auto simp: set_owner_def)
qed

lemma set_owner_sels [simp]: "standing_of (set_owner as ts r) = standing_of r"
  by (simp add: set_owner_def standing_of_def)

definition match_row :: "uuid \<Rightarrow> time \<Rightarrow> listed_application list \<Rightarrow> list_row \<Rightarrow> list_row" where
  "match_row i ts as r = (if lr_batch r = i \<and> list_ex (\<lambda>a. owns_row a r) as then set_owner as ts r else r)"

lemma match_rows_map: "match_rows i ts t = t\<lparr>l_rows := map (match_row i ts (l_applications t)) (l_rows t)\<rparr>"
  by (simp add: match_rows_def update_where_def match_row_def[abs_def])

lemma match_row_standing [simp]: "standing_of (match_row i ts as r) = standing_of r"
  by (simp add: match_row_def)

lemma match_row_owner:
  assumes "lr_application (match_row i ts as r) = Some x" "\<not> (lr_batch r = i \<and> list_ex (\<lambda>a. owns_row a r) as) \<Longrightarrow>
     lr_application r = Some x \<Longrightarrow> \<exists>a \<in> set as. la_id a = x \<and> owns_row a r"
  shows "\<exists>a \<in> set as. la_id a = x \<and> owns_row a r"
proof (cases "lr_batch r = i \<and> list_ex (\<lambda>a. owns_row a r) as")
  case True
  then obtain a where "a \<in> set as" "owns_row a r" "lr_application (set_owner as ts r) = Some (la_id a)"
    using owner_found by blast
  with True assms(1) show ?thesis by (auto simp: match_row_def)
next
  case False
  with assms show ?thesis by (simp add: match_row_def split: if_splits)
qed

lemma match_rows_inv:
  assumes inv: "result_inv (d, t)"
  shows "result_inv (d, match_rows i ts t)"
  unfolding match_rows_map
proof (rule result_inv_rows[OF inv])
  show "matches_ok (t\<lparr>l_rows := map (match_row i ts (l_applications t)) (l_rows t)\<rparr>)"
    unfolding matches_ok_def
  proof (intro ballI impI allI)
    fix r x assume r: "r \<in> set (l_rows (t\<lparr>l_rows := map (match_row i ts (l_applications t)) (l_rows t)\<rparr>))"
      and pub: "published_batch (t\<lparr>l_rows := map (match_row i ts (l_applications t)) (l_rows t)\<rparr>) (lr_batch r)"
      and x: "lr_application r = Some x"
    from r obtain r0 where r0: "r0 \<in> set (l_rows t)" "r = match_row i ts (l_applications t) r0" by auto
    have st: "standing_of r = standing_of r0" by (simp add: r0(2))
    have "published_batch t (lr_batch r0)" using pub standing_of_sels[OF st] by (simp add: published_batch_def)
    with result_invD(6)[OF inv] r0(1)
    have "lr_application r0 = Some x \<Longrightarrow> \<exists>a \<in> set (l_applications t). la_id a = x \<and> owns_row a r0"
      by (auto simp: matches_ok_def)
    with match_row_owner[OF x[unfolded r0(2)]] have "\<exists>a \<in> set (l_applications t). la_id a = x \<and> owns_row a r0" by blast
    then show "\<exists>a \<in> set (l_applications (t\<lparr>l_rows := map (match_row i ts (l_applications t)) (l_rows t)\<rparr>)). la_id a = x \<and> owns_row a r"
      using standing_of_cong(5)[OF st] by simp
  qed
qed simp

section \<open>New batches and rows\<close>

lemma published_batch_append: "lb_status b \<noteq> ''published'' \<Longrightarrow> published_batch (t\<lparr>l_batches := l_batches t @ [b]\<rparr>) i = published_batch t i"
  by (simp add: published_batch_def)

lemma add_batch_inv:
  assumes inv: "result_inv (d, t)" and b: "lb_id b = next_id d" "lb_status b = ''pending_review''"
  shows "result_inv (add_batch b (d, t))"
proof -
  have fresh: "lr_batch r \<noteq> next_id d" if "r \<in> set (l_rows t)" for r
    using result_invD(2)[OF inv] result_keysD(5)[OF result_invD(1)[OF inv]] that
    by (force simp: rows_at_home_def at_home_def)
  show ?thesis unfolding add_batch_def fst_conv snd_conv
  proof (rule result_invI)
    show "result_keys (draw_id d) (t\<lparr>l_batches := l_batches t @ [b]\<rparr>)"
      using result_invD(1)[OF inv] b by (auto simp: result_keys_def draw_id_def intro: new_keys_append new_keys_mono)
    show "matches_ok (t\<lparr>l_batches := l_batches t @ [b]\<rparr>)"
      using result_invD(6)[OF inv] b by (simp add: matches_ok_def published_batch_append)
    show "inquiries_ok (t\<lparr>l_batches := l_batches t @ [b]\<rparr>)"
      using result_invD(10)[OF inv] b fresh by (fastforce simp: inquiries_ok_def)
  qed (use result_invD[OF inv] b in \<open>auto simp: rows_at_home_def at_home_def one_list_def slots_ok_def numbers_stand_def answers_ok_def\<close>)
qed

lemma slots_fit_append: "lr_index r = None \<Longrightarrow> slots_fit b p (rows @ [r]) = slots_fit b p rows"
  by (auto simp: slots_fit_def numbered_def before_def)

lemma same_candidate_sym: "same_candidate a b \<Longrightarrow> same_candidate b a"
  by (simp add: same_candidate_def same_program_def)

lemma candidates_append:
  assumes u: "candidates_unique rows" and n: "\<not> list_ex (same_candidate r) rows"
  shows "candidates_unique (rows @ [r])"
  unfolding candidates_unique_def
proof (intro ballI impI)
  fix a b assume ab: "a \<in> set (rows @ [r])" "b \<in> set (rows @ [r])" and c: "same_candidate a b"
  have no: "\<not> same_candidate r x" if "x \<in> set rows" for x using n that by (auto simp: list_ex_iff)
  consider "a \<in> set rows" "b \<in> set rows" | "a = r" "b = r" | "a = r" "b \<in> set rows" | "a \<in> set rows" "b = r"
    using ab by auto
  then show "lr_id a = lr_id b"
  proof cases
    case 1
    then show ?thesis using u c unfolding candidates_unique_def by blast
  next
    case 3
    then show ?thesis using no c by blast
  next
    case 4
    then show ?thesis using no same_candidate_sym[OF c] by blast
  qed simp
qed

lemma add_list_row_inv:
  assumes inv: "result_inv (d, t)" and r: "lr_id r = next_id d" "lr_application r = None" "lr_index r = None"
    and home: "at_home (l_batches t) (l_programs t) r" and new: "\<not> list_ex (same_candidate r) (l_rows t)"
  shows "result_inv (add_list_row r (d, t))"
  unfolding add_list_row_def fst_conv snd_conv
proof (rule result_invI)
  show "result_keys (draw_id d) (t\<lparr>l_rows := l_rows t @ [r]\<rparr>)"
    using result_invD(1)[OF inv] r by (auto simp: result_keys_def draw_id_def intro: new_keys_append new_keys_mono)
  show "candidates_unique (l_rows (t\<lparr>l_rows := l_rows t @ [r]\<rparr>))"
    using candidates_append[OF result_invD(8)[OF inv] new] by simp
  show "slots_ok (t\<lparr>l_rows := l_rows t @ [r]\<rparr>)"
    using result_invD(4)[OF inv] by (simp add: slots_ok_def slots_fit_append[OF r(3)])
  show "matches_ok (t\<lparr>l_rows := l_rows t @ [r]\<rparr>)"
    using result_invD(6)[OF inv] r by (auto simp: matches_ok_def published_batch_def)
  show "inquiries_ok (t\<lparr>l_rows := l_rows t @ [r]\<rparr>)"
    using result_invD(10)[OF inv] by (fastforce simp: inquiries_ok_def)
qed (use result_invD[OF inv] r home in \<open>auto simp: rows_at_home_def one_list_def numbers_stand_def answers_ok_def\<close>)

section \<open>Numbering\<close>

lemma assign_places_Some:
  assumes "assign_places ts ps rows = Some rows'" "distinct (map (\<lambda>x. lr_id (fst x)) ps)"
  shows "rows' = map (\<lambda>r. case map_of (map (\<lambda>(x, k). (lr_id x, k)) ps) (lr_id r) of
     None \<Rightarrow> r | Some k \<Rightarrow> r\<lparr>lr_index := Some k, lr_updated := ts\<rparr>) rows"
  using assms
proof (induction ts ps rows rule: assign_places.induct)
  case (2 ts x k ps rows)
  from 2(2) have free: "\<not> place_taken x k rows" and rest: "assign_places ts ps (put_place (lr_id x) k ts rows) = Some rows'"
    by (simp_all split: if_splits)
  have out: "map_of (map (\<lambda>(x, k). (lr_id x, k)) ps) (lr_id x) = None"
    using 2(3) by (force simp: map_of_eq_None_iff)
  from 2(1)[OF free rest] 2(3) show ?case
    using out by (auto simp: put_place_def update_where_def)
qed simp

definition visits_all :: "result_repo \<Rightarrow> bool" where
  "visits_all rp \<longleftrightarrow> (\<forall>xs. mset (lx_visit rp xs) = mset xs)"

lemma find_standing:
  assumes "distinct (map lr_id rows)" "r \<in> set (standing b rows)"
  shows "List.find (\<lambda>x. lr_id x = lr_id r) (standing b rows) = Some r"
  using assms by (intro find_unique_key) (simp_all add: standing_def distinct_map_filter)

lemma looked_up:
  assumes "\<And>i. i \<in> set xs \<Longrightarrow> \<exists>r. look i = Some r \<and> lr_id r = i"
  shows "map (\<lambda>(x, k). (lr_id x, k)) (List.map_filter (\<lambda>i. map_option (\<lambda>r. (r, f r)) (look i)) xs)
     = map (\<lambda>i. (i, f (the (look i)))) xs"
  using assms
proof (induction xs)
  case (Cons i xs)
  from Cons.prems[of i] obtain r where "look i = Some r" "lr_id r = i" by auto
  with Cons show ?case by (simp add: map_filter_simps)
qed (simp add: map_filter_simps)

definition number_row :: "uuid \<Rightarrow> time \<Rightarrow> list_row list \<Rightarrow> list_row \<Rightarrow> list_row" where
  "number_row b ts rows r = (if lr_batch r = b \<and> willingness_status (lr_status r)
     then r\<lparr>lr_index := Some (place b rows r), lr_updated := ts\<rparr> else r)"

text \<open>When no place is taken on the way, the result does not depend on the order of the visits.\<close>

lemma assigned_places:
  assumes v: "visits_all rp" and dist: "distinct (map lr_id rows)"
    and run: "assign_places ts (ordered_places rp b rows) rows = Some rows'"
  shows "rows' = map (number_row b ts rows) rows"
proof -
  let ?look = "\<lambda>i. List.find (\<lambda>r. lr_id r = i) (standing b rows)"
  let ?xs = "lx_visit rp (map lr_id (standing b rows))"
  have ids: "set ?xs = lr_id ` set (standing b rows)" "distinct ?xs"
  proof -
    have m: "mset ?xs = mset (map lr_id (standing b rows))" using v by (simp add: visits_all_def)
    show "set ?xs = lr_id ` set (standing b rows)" using mset_eq_setD[OF m] by simp
    have "distinct (map lr_id (standing b rows))" using dist by (simp add: standing_def distinct_map_filter)
    then show "distinct ?xs" using mset_eq_imp_distinct_iff[OF m] by simp
  qed
  have eq: "map (\<lambda>(x, k). (lr_id x, k)) (ordered_places rp b rows) = map (\<lambda>i. (i, place b rows (the (?look i)))) ?xs"
    unfolding ordered_places_def using ids find_standing[OF dist] by (intro looked_up) auto
  have "map fst (map (\<lambda>(x, k). (lr_id x, k)) (ordered_places rp b rows)) = ?xs"
    unfolding eq by (simp add: o_def)
  then have "map (\<lambda>x. lr_id (fst x)) (ordered_places rp b rows) = ?xs" by (simp add: o_def case_prod_unfold)
  with assign_places_Some[OF run] ids(2)
  have rows': "rows' = map (\<lambda>r. case map_of (map (\<lambda>(x, k). (lr_id x, k)) (ordered_places rp b rows)) (lr_id r) of
     None \<Rightarrow> r | Some k \<Rightarrow> r\<lparr>lr_index := Some k, lr_updated := ts\<rparr>) rows" by simp
  show ?thesis unfolding rows' eq
  proof (rule map_cong[OF refl])
    fix r assume r: "r \<in> set rows"
    show "(case map_of (map (\<lambda>i. (i, place b rows (the (?look i)))) ?xs) (lr_id r) of
       None \<Rightarrow> r | Some k \<Rightarrow> r\<lparr>lr_index := Some k, lr_updated := ts\<rparr>) = number_row b ts rows r"
    proof (cases "r \<in> set (standing b rows)")
      case True
      then have "lr_id r \<in> set ?xs" using ids by simp
      with True find_standing[OF dist True] show ?thesis
        by (auto simp: map_of_map_restrict restrict_map_def number_row_def standing_def)
    next
      case False
      have "lr_id r \<notin> set ?xs"
        using False r dist ids distinct_key_eq[OF dist] by (auto simp: standing_def)
      with False r show ?thesis by (auto simp: map_of_map_restrict restrict_map_def number_row_def standing_def)
    qed
  qed
qed

lemma number_row_sels [simp]: "lr_id (number_row b ts rows r) = lr_id r" "lr_batch (number_row b ts rows r) = lr_batch r"
  "lr_year (number_row b ts rows r) = lr_year r" "lr_school (number_row b ts rows r) = lr_school r"
  "lr_program (number_row b ts rows r) = lr_program r" "lr_hash (number_row b ts rows r) = lr_hash r"
  "lr_status (number_row b ts rows r) = lr_status r" "lr_rank (number_row b ts rows r) = lr_rank r"
  "lr_application (number_row b ts rows r) = lr_application r"
  "standing_key (number_row b ts rows r) = standing_key r"
  by (simp_all add: number_row_def standing_key_def)

lemma place_map:
  assumes "\<And>x. lr_batch (g x) = lr_batch x" "\<And>x. lr_status (g x) = lr_status x" "\<And>x. standing_key (g x) = standing_key x"
    "\<And>x y. same_program (g x) (g y) = same_program x y"
  shows "place b (map g rows) (g r) = place b rows r"
  using assms by (simp add: place_def standing_def filter_map o_def)

text \<open>A numbered list whose programme has one value for every numbered row.\<close>

lemma slots_fit_numbered:
  assumes num: "\<And>r. r \<in> set rows \<Longrightarrow> lr_batch r = b \<Longrightarrow>
      lr_index r = (if willingness_status (lr_status r) then Some (place b rows r) else None)"
    and vals: "lp_values p = map v (placed_rows b p rows)"
  shows "slots_fit b p rows"
proof -
  have nb: "numbered b p x \<longleftrightarrow> lr_batch x = b \<and> willingness_status (lr_status x) \<and> program_of_row x p" if "x \<in> set rows" for x
    using num[OF that] by (auto simp: numbered_def split: if_splits)
  have "lr_index r = Some (int (length (before b p r rows)))" if r: "r \<in> set rows" "numbered b p r" for r
  proof -
    from r nb have rp: "program_of_row r p" "lr_batch r = b" "willingness_status (lr_status r)" by auto
    have "before b p r rows = filter (\<lambda>x. same_program x r \<and> standing_key x < standing_key r) (standing b rows)"
      unfolding before_def standing_def filter_filter
      by (rule filter_cong[OF refl]) (use nb rp in \<open>auto simp: same_program_def program_of_row_def\<close>)
    with num[OF r(1) rp(2)] rp show ?thesis by (simp add: place_def)
  qed
  moreover have "length (lp_values p) = length (filter (numbered b p) rows)"
    unfolding vals placed_rows_def by (simp add: numbered_def[abs_def])
  ultimately show ?thesis by (simp add: slots_fit_def)
qed

section \<open>A list takes its place\<close>

lemma filter_map_same:
  "(\<And>x. x \<in> set xs \<Longrightarrow> P (g x) = P x) \<Longrightarrow> (\<And>x. x \<in> set xs \<Longrightarrow> P x \<Longrightarrow> g x = x) \<Longrightarrow>
   filter P (map g xs) = filter P xs"
  by (induction xs) auto

lemma new_keys_cong:
  assumes "map f xs = map f ys"
  shows "new_keys n f xs = new_keys n f ys"
proof -
  have "list_all (\<lambda>r. f r < n) xs = list_all (\<lambda>k. k < n) (map f xs)" for xs by (simp add: list_all_iff)
  then show ?thesis using assms by (simp add: new_keys_def)
qed

lemma slots_fit_other:
  assumes "b \<noteq> i" "\<And>r. r \<in> set rows \<Longrightarrow> lr_batch (g r) = lr_batch r" "\<And>r. r \<in> set rows \<Longrightarrow> lr_batch r \<noteq> i \<Longrightarrow> g r = r"
  shows "slots_fit b p (map g rows) = slots_fit b p rows"
proof -
  have n: "numbered b p (g x) = numbered b p x" if "x \<in> set rows" for x
    using assms(1) assms(2,3)[OF that] by (cases "lr_batch x = i") (auto simp: numbered_def)
  have same: "g x = x" if "x \<in> set rows" "numbered b p x" for x
    using assms(1) assms(3)[OF that(1)] that(2) by (auto simp: numbered_def)
  have "filter (numbered b p) (map g rows) = filter (numbered b p) rows"
    by (rule filter_map_same) (use n same in blast)+
  moreover have "before b p r (map g rows) = before b p r rows" for r
    unfolding before_def by (rule filter_map_same) (use n same in auto)
  ultimately show ?thesis
    using n same by (auto simp: slots_fit_def)
qed

lemma relisted_inv:
  assumes inv: "result_inv (d, t)" and d: "next_id d \<le> next_id d'"
    and bs: "l_batches t' = map h (l_batches t)" "\<And>b. lb_id (h b) = lb_id b \<and> lb_year (h b) = lb_year b \<and> lb_school (h b) = lb_school b"
    and i: "b0 \<in> set (l_batches t)" "lb_id b0 = i" "lb_year b0 = y" "lb_school b0 = s"
    and pub: "\<And>b. b \<in> set (l_batches t) \<Longrightarrow> lb_status (h b) = ''published'' \<Longrightarrow> lb_id b \<noteq> i \<Longrightarrow>
        lb_status b = ''published'' \<and> h b = b \<and> \<not> (lb_year b = y \<and> lb_school b = s)"
    and rows: "l_rows t' = map g (l_rows t)"
    and g: "\<And>r. lr_id (g r) = lr_id r \<and> lr_batch (g r) = lr_batch r \<and> lr_hash (g r) = lr_hash r \<and> same_program (g r) r"
      "\<And>r. r \<in> set (l_rows t) \<Longrightarrow> lr_batch r \<noteq> i \<Longrightarrow> g r = r"
    and num: "\<And>r. r \<in> set (l_rows t') \<Longrightarrow> lr_batch r = i \<Longrightarrow>
      lr_index r = (if willingness_status (lr_status r) then Some (place i (l_rows t') r) else None)"
    and ps: "l_programs t' = update_where (\<lambda>p. lp_year p = y \<and> lp_school p = s)
      (\<lambda>p. p\<lparr>lp_values := map v (placed_rows i p (l_rows t'))\<rparr>) (l_programs t)"
    and v: "\<And>r. validate_willingness (v r)"
    and rest: "l_applications t' = l_applications t" "set (l_willingness t') \<subseteq> set (l_willingness t)"
    and fine: "matches_ok t'" "inquiries_ok t'"
  shows "result_inv (d', t')"
proof (rule result_invI[OF _ _ _ _ _ fine(1) _ _ _ fine(2)])
  note keys = result_keysD[OF result_invD(1)[OF inv]]
  have b0: "b = b0" if "b \<in> set (l_batches t)" "lb_id b = i" for b
    using distinct_key_eq[OF keys(1) that(1) i(1)] that(2) i(2) by simp
  have key: "map (\<lambda>p. (lp_year p, lp_school p, lp_code p)) (l_programs t') = map (\<lambda>p. (lp_year p, lp_school p, lp_code p)) (l_programs t)"
    unfolding ps by (rule map_update_where) simp
  have ids: "map lr_id (l_rows t') = map lr_id (l_rows t)" "map lb_id (l_batches t') = map lb_id (l_batches t)"
    using g(1) bs(2) by (simp_all add: rows bs(1))
  show "result_keys d' t'"
    using result_invD(1)[OF inv] d key new_keys_cong[OF ids(1)] new_keys_cong[OF ids(2)] new_keys_mono
    unfolding result_keys_def rest by metis
  show "rows_at_home t'" unfolding rows_at_home_def
  proof
    fix r assume "r \<in> set (l_rows t')"
    then obtain r0 where r0: "r0 \<in> set (l_rows t)" "r = g r0" by (auto simp: rows)
    with result_invD(2)[OF inv] obtain b p where b: "b \<in> set (l_batches t)" "lb_id b = lr_batch r0" "lb_year b = lr_year r0"
        "lb_school b = lr_school r0" and p: "p \<in> set (l_programs t)" "program_of_row r0 p"
      by (auto simp: rows_at_home_def at_home_def)
    have "\<exists>p \<in> set (l_programs t'). program_of_row r p"
      unfolding ps bex_update_where using p g(1)[of r0] r0(2) by (intro bexI[of _ p]) (auto simp: program_of_row_def same_program_def)
    moreover have "\<exists>b \<in> set (l_batches t'). lb_id b = lr_batch r \<and> lb_year b = lr_year r \<and> lb_school b = lr_school r"
      using b g(1)[of r0] bs r0(2) by (intro bexI[of _ "h b"]) (auto simp: same_program_def)
    ultimately show "at_home (l_batches t') (l_programs t') r" by (simp add: at_home_def)
  qed
  show "one_list t'" unfolding one_list_def bs(1) set_map ball_simps
  proof (intro ballI impI)
    fix a b assume a: "a \<in> set (l_batches t)" "lb_status (h a) = ''published''" and b: "b \<in> set (l_batches t)" "lb_status (h b) = ''published''"
      and eq: "lb_year (h a) = lb_year (h b)" "lb_school (h a) = lb_school (h b)"
    show "h a = h b"
    proof (cases "lb_id a = i \<or> lb_id b = i")
      case True
      then show ?thesis
        using pub[OF a] pub[OF b] b0 i eq bs(2) a b by metis
    next
      case False
      with pub[OF a] pub[OF b] eq bs(2) result_invD(3)[OF inv] a b show ?thesis by (simp add: one_list_def)
    qed
  qed
  show "slots_ok t'" unfolding slots_ok_def bs(1) set_map ball_simps
  proof (intro ballI impI)
    fix b p' assume b: "b \<in> set (l_batches t)" "lb_status (h b) = ''published''" and p': "p' \<in> set (l_programs t')"
      and at: "lp_year p' = lb_year (h b)" "lp_school p' = lb_school (h b)"
    from p' obtain p where p: "p \<in> set (l_programs t)" "p' = (if lp_year p = y \<and> lp_school p = s
        then p\<lparr>lp_values := map v (placed_rows i p (l_rows t'))\<rparr> else p)" by (auto simp: ps update_where_def)
    show "slots_fit (lb_id (h b)) p' (l_rows t')"
    proof (cases "lb_id b = i")
      case True
      with b0[OF b(1)] i at bs(2) p have "p' = p\<lparr>lp_values := map v (placed_rows i p (l_rows t'))\<rparr>" by (auto split: if_splits)
      moreover have "placed_rows i (p\<lparr>lp_values := x\<rparr>) rs = placed_rows i p rs" for x rs
        by (simp add: placed_rows_def program_of_row_def)
      ultimately have "slots_fit i p' (l_rows t')" using num by (intro slots_fit_numbered[where v = v]) simp_all
      with True bs(2) show ?thesis by simp
    next
      case False
      with pub[OF b False] at bs(2) p have "p' = p" by (auto split: if_splits)
      with result_invD(4)[OF inv] pub[OF b False] b at bs(2) p have "slots_fit (lb_id b) p' (l_rows t)" by (simp add: slots_ok_def)
      with bs(2) show ?thesis unfolding rows using slots_fit_other[OF False] g by simp
    qed
  qed
  show "numbers_stand t'" unfolding numbers_stand_def
  proof (intro ballI impI)
    fix r assume r: "r \<in> set (l_rows t')" "lr_index r \<noteq> None"
    show "willingness_status (lr_status r)"
    proof (cases "lr_batch r = i")
      case True
      with num[OF r(1)] r(2) show ?thesis by (simp split: if_splits)
    next
      case False
      with r g have "r \<in> set (l_rows t)" by (auto simp: rows)
      with result_invD(5)[OF inv] r show ?thesis by (simp add: numbers_stand_def)
    qed
  qed
  show "numbers_unique (l_applications t')" using result_invD(7)[OF inv] by (simp add: rest)
  have "same_candidate (g a) (g b) = same_candidate a b" for a b using g(1)[of a] g(1)[of b] by (auto simp: same_candidate_def same_program_def)
  then have "candidates_unique (map g (l_rows t)) = candidates_unique (l_rows t)" by (simp add: candidates_unique_def g(1))
  then show "candidates_unique (l_rows t')" using result_invD(8)[OF inv] by (simp add: rows)
  show "answers_ok t'"
    using result_invD(9)[OF inv] rest(2) v unfolding answers_ok_def ps ball_update_where by auto
qed

section \<open>Inquiries\<close>

text \<open>Of an inquiry only the deadline and its notification change later.\<close>

definition about :: "inquiry_row \<Rightarrow> uuid \<times> uuid \<times> uuid option \<times> uuid option \<times> string" where
  "about q = (lq_id q, lq_application q, lq_result q, lq_batch q, lq_round q)"

definition asks :: "string \<Rightarrow> uuid \<times> list_row \<Rightarrow> inquiry_row \<Rightarrow> bool" where
  "asks rnd x q \<longleftrightarrow> lq_application q = fst x \<and> asked (lr_id (snd x)) rnd q \<and> lq_batch q = Some (lr_batch (snd x))"

lemma about_again [simp]: "about (ask_again dl ts q) = about q"
  by (simp add: about_def ask_again_def)

lemma add_inquiries_Some:
  assumes "add_inquiries rnd dl again ts xs (d, t) = Some (d', t')"
  shows "\<exists>qs. t' = t\<lparr>l_inquiries := qs\<rparr> \<and> next_id d \<le> next_id d'
    \<and> (\<forall>q \<in> set qs. about q \<in> about ` set (l_inquiries t) \<or> (\<exists>x \<in> set xs. asks rnd x q))"
  using assms
proof (induction xs arbitrary: d t)
  case (Cons x xs)
  obtain a r where x: "x = (a, r)" by (rule prod.exhaust)
  consider (asked) "list_ex (asked (lr_id r) rnd) (l_inquiries t)"
    | (new) "\<not> list_ex (asked (lr_id r) rnd) (l_inquiries t)" "\<not> list_ex (asked_of a (lr_batch r) rnd) (l_inquiries t)"
    using Cons.prems by (auto simp: x split: if_splits)
  then show ?case
  proof cases
    case asked
    let ?qs = "if again then update_where (asked (lr_id r) rnd) (ask_again dl ts) (l_inquiries t) else l_inquiries t"
    from Cons.prems asked have "add_inquiries rnd dl again ts xs (d, t\<lparr>l_inquiries := ?qs\<rparr>) = Some (d', t')"
      by (cases again) (simp_all add: x)
    from Cons.IH[OF this] obtain qs where qs: "t' = t\<lparr>l_inquiries := qs\<rparr>" "next_id d \<le> next_id d'"
      "\<forall>q \<in> set qs. about q \<in> about ` set ?qs \<or> (\<exists>x \<in> set xs. asks rnd x q)" by auto
    moreover have "map about ?qs = map about (l_inquiries t)"
      by (cases again) (simp_all add: map_update_where)
    then have "about ` set ?qs = about ` set (l_inquiries t)" by (metis list.set_map)
    ultimately show ?thesis by auto
  next
    case new
    from Cons.prems new
    have "add_inquiries rnd dl again ts xs (draw_id d, t\<lparr>l_inquiries := l_inquiries t @ [new_inquiry rnd dl a r ts d]\<rparr>) = Some (d', t')"
      by (simp add: x)
    from Cons.IH[OF this] obtain qs where qs: "t' = t\<lparr>l_inquiries := qs\<rparr>" "next_id (draw_id d) \<le> next_id d'"
      "\<forall>q \<in> set qs. about q \<in> about ` set (l_inquiries t @ [new_inquiry rnd dl a r ts d]) \<or> (\<exists>x \<in> set xs. asks rnd x q)" by auto
    moreover have "asks rnd x q" if "about q = about (new_inquiry rnd dl a r ts d)" for q
      using that by (simp add: asks_def asked_def about_def new_inquiry_def x)
    ultimately show ?thesis by (auto simp: draw_id_def) fastforce
  qed
next
  case Nil
  then show ?case by (intro exI[of _ "l_inquiries t"]) auto
qed

definition not_pending :: "result_tables \<Rightarrow> uuid \<Rightarrow> bool" where
  "not_pending t i \<longleftrightarrow> (\<forall>b \<in> set (l_batches t). lb_id b = i \<longrightarrow> lb_status b \<noteq> ''pending_review'')"

lemma published_not_pending:
  assumes "distinct (map lb_id (l_batches t))" "published_batch t i"
  shows "not_pending t i"
proof -
  from assms(2) obtain b0 where "b0 \<in> set (l_batches t)" "lb_id b0 = i" "lb_status b0 = ''published''"
    by (auto simp: published_batch_def list_ex_iff)
  with distinct_key_eq[OF assms(1)] show ?thesis by (fastforce simp: not_pending_def)
qed

lemma ask_inv:
  assumes inv: "result_inv (d, t)" and run: "add_inquiries rnd dl again ts xs (d, t) = Some x"
    and xs: "\<And>a r. (a, r) \<in> set xs \<Longrightarrow> r \<in> set (l_rows t) \<and> not_pending t (lr_batch r)"
  shows "result_inv x"
proof -
  obtain d' t' where x: "x = (d', t')" by (rule prod.exhaust)
  from add_inquiries_Some[OF run[unfolded x]] obtain qs where t': "t' = t\<lparr>l_inquiries := qs\<rparr>" and d: "next_id d \<le> next_id d'"
    and qs: "\<And>q. q \<in> set qs \<Longrightarrow> about q \<in> about ` set (l_inquiries t) \<or> (\<exists>x \<in> set xs. asks rnd x q)" by blast
  have "inquiries_ok t'" unfolding inquiries_ok_def t'
  proof (intro ballI allI impI)
    fix q y assume "q \<in> set (l_inquiries (t\<lparr>l_inquiries := qs\<rparr>))" and y: "lq_result q = Some y"
    then have "q \<in> set qs" by simp
    from qs[OF this] have "\<exists>r \<in> set (l_rows t). lr_id r = y \<and> lq_batch q = Some (lr_batch r) \<and> not_pending t (lr_batch r)"
    proof
      assume "about q \<in> about ` set (l_inquiries t)"
      then obtain q0 where "q0 \<in> set (l_inquiries t)" "lq_result q0 = Some y" "lq_batch q0 = lq_batch q"
        using y by (auto simp: about_def)
      with result_invD(10)[OF inv] show ?thesis by (fastforce simp: inquiries_ok_def not_pending_def)
    next
      assume "\<exists>x \<in> set xs. asks rnd x q"
      with xs y show ?thesis by (fastforce simp: asks_def asked_def)
    qed
    then show "\<exists>r \<in> set (l_rows (t\<lparr>l_inquiries := qs\<rparr>)). lr_id r = y \<and> lq_batch q = Some (lr_batch r)
        \<and> (\<forall>b \<in> set (l_batches (t\<lparr>l_inquiries := qs\<rparr>)). lb_id b = lr_batch r \<longrightarrow> lb_status b \<noteq> ''pending_review'')"
      by (simp add: not_pending_def)
  qed
  with result_invD[OF inv] d show ?thesis
    unfolding x by (auto simp: t' result_inv_def result_keys_def rows_at_home_def one_list_def slots_ok_def numbers_stand_def
        matches_ok_def published_batch_def answers_ok_def intro: new_keys_mono)
qed

lemma askable_rows: "(a, r) \<in> set (askable p t) \<Longrightarrow> r \<in> set (l_rows t) \<and> lr_application r = Some a \<and> p r \<and> willingness_status (lr_status r)"
  by (auto simp: askable_def List.map_filter_def split: option.splits if_splits)

lemma ask_rows_Inr:
  assumes "ask_rows rnd dl again ts sel s = (Inr u, s')"
  shows "add_inquiries rnd dl again ts (sel (snd (tables s))) (tables s) = Some (tables s')"
  using assms by (auto simp: ask_rows_def dest!: stmt_Inr split: option.splits)

section \<open>Publishing\<close>

lemma as_adminE:
  assumes "as_result_admin adm m s = (Inr y, s')"
  obtains s1 where "(adm, ''admin'') \<in> set (roles (fst (tables s)))" "tables s1 = tables s" "same_clocks s s1" "m s1 = (Inr y, s')"
  using assms unfolding as_result_admin_def result_is_admin_def
  by (auto split: if_splits dest!: stmt_rows_Inr)

lemma bind_stmt_addE:
  assumes "bindM (map_errM c (stmt_add chk uniq fk g f)) k s = (Inr y, s')"
  obtains s1 where "chk (fst (tables s)) (snd (tables s))" "uniq (fst (tables s)) (snd (tables s))"
    "fk (fst (tables s)) (snd (tables s))" "tables s1 = g (tables s)" "same_clocks s s1"
    "k (f (fst (tables s)) (snd (tables s))) s1 = (Inr y, s')"
  using assms by (auto dest!: stmt_add_Inr)

lemma bind_numberE:
  assumes "bindM (map_errM c (number_rows rp b ts)) k s = (Inr y, s')"
  obtains s1 rows where "assign_places ts (ordered_places rp b (l_rows (snd (tables s)))) (l_rows (snd (tables s))) = Some rows"
    "tables s1 = (fst (tables s), (snd (tables s))\<lparr>l_rows := rows\<rparr>)" "same_clocks s s1" "k () s1 = (Inr y, s')"
  using assms by (auto simp: number_rows_def dest!: stmt_Inr split: option.splits prod.splits)

text \<open>The tables when the rows of the batch are to be numbered, in two steps.\<close>

definition release :: "uuid \<Rightarrow> uuid \<Rightarrow> time \<Rightarrow> int \<Rightarrow> string \<Rightarrow> list_batch \<Rightarrow> list_batch" where
  "release adm i ts y s b = (let b1 = (if lb_year b = y \<and> lb_school b = s \<and> lb_status b = ''published'' then b\<lparr>lb_status := ''superseded''\<rparr> else b)
     in if lb_id b1 = i then b1\<lparr>lb_status := ''published'', lb_reviewer := Some adm, lb_reviewed := Some ts\<rparr> else b1)"

definition fresh_row :: "uuid \<Rightarrow> time \<Rightarrow> listed_application list \<Rightarrow> list_row \<Rightarrow> list_row" where
  "fresh_row i ts as r = (if lr_batch r = i
     then (match_row i ts as (r\<lparr>lr_application := None, lr_updated := ts\<rparr>))\<lparr>lr_index := None, lr_updated := ts\<rparr> else r)"

definition cleared :: "uuid \<Rightarrow> uuid \<Rightarrow> time \<Rightarrow> int \<Rightarrow> string \<Rightarrow> result_tables \<Rightarrow> result_tables" where
  "cleared adm i ts y s t = t\<lparr>l_batches := map (release adm i ts y s) (l_batches t),
     l_rows := map (fresh_row i ts (l_applications t)) (l_rows t)\<rparr>"

lemma cleared_steps:
  "clear_rows (\<lambda>r. lr_batch r = i) (\<lambda>r. r\<lparr>lr_index := None, lr_updated := ts\<rparr>) (match_rows i ts
     (clear_rows (\<lambda>r. lr_batch r = i) (\<lambda>r. r\<lparr>lr_application := None, lr_updated := ts\<rparr>)
        (set_batch_status (\<lambda>b. lb_id b = i) (\<lambda>b. b\<lparr>lb_status := ''published'', lb_reviewer := Some adm, lb_reviewed := Some ts\<rparr>)
           (set_batch_status (\<lambda>b. lb_year b = y \<and> lb_school b = s \<and> lb_status b = ''published'') (\<lambda>b. b\<lparr>lb_status := ''superseded''\<rparr>) t))))
   = cleared adm i ts y s t"
  by (simp add: cleared_def clear_rows_def match_rows_map set_batch_status_def update_where_def o_def)
    (auto simp: release_def fresh_row_def match_row_def set_owner_def Let_def)

lemma publish_Inr:
  assumes "publish_official_batch rp adm i s0 = (Inr u, s')"
  obtains b ts rows t8 where "b \<in> set (l_batches (snd (tables s0)))" "lb_id b = i" "lb_status b = ''pending_review''"
    "assign_places ts (ordered_places rp i (l_rows (cleared adm i ts (lb_year b) (lb_school b) (snd (tables s0)))))
       (l_rows (cleared adm i ts (lb_year b) (lb_school b) (snd (tables s0)))) = Some rows"
    "t8 = drop_answers i (fill_arrays i (lb_year b) (lb_school b) (\<lambda>_. 100)
        ((cleared adm i ts (lb_year b) (lb_school b) (snd (tables s0)))\<lparr>l_rows := rows\<rparr>))"
    "add_inquiries ''result_released'' None False ts (askable (\<lambda>r. lr_batch r = i) t8) (fst (tables s0), t8) = Some (tables s')"
  using assms unfolding publish_official_batch_def
  apply (elim as_adminE)
  apply (simp only: bindM_readM)
  apply (elim in_tx_Inr bindM_InrE[of "map_errM rs_raw stmt_nop"] bind_rowE)
  subgoal premises prems for s1 s1a s2 x w1 ys s1b
  proof -
    obtain y s where ys: "ys = (y, s)" by (rule prod.exhaust)
    have tw: "tables w1 = tables s0" using prems by (auto dest!: stmt_nop_tables)
    from prems tw obtain b where b: "b \<in> set (l_batches (snd (tables s0)))" "lb_id b = i" "lb_status b = ''pending_review''"
      "lb_year b = y" "lb_school b = s"
      by (auto simp: ys dest!: find_Some_D)
    have t1: "tables s1b = tables s0" using prems tw by simp
    note rest = prems(13)[unfolded ys prod.case]
    show thesis
      using rest
      apply (elim bind_stmt_writeE bind_stmt_addE bind_numberE)
      apply (simp only: map_errM_Inr_iff)
      apply (drule ask_rows_Inr)
      apply (rule that[OF b(1-3) _ refl])
       apply (simp add: b t1 cleared_steps)
      apply (simp add: b t1 cleared_steps prems)
      done
  qed
  done

lemma fresh_row_sels [simp]: "lr_id (fresh_row i ts as r) = lr_id r" "lr_batch (fresh_row i ts as r) = lr_batch r"
  "lr_hash (fresh_row i ts as r) = lr_hash r" "lr_year (fresh_row i ts as r) = lr_year r"
  "lr_school (fresh_row i ts as r) = lr_school r" "lr_program (fresh_row i ts as r) = lr_program r"
  by (simp_all add: fresh_row_def match_row_def set_owner_def)

lemma fresh_row_other: "lr_batch r \<noteq> i \<Longrightarrow> fresh_row i ts as r = r"
  by (simp add: fresh_row_def)

lemma fresh_row_index: "lr_batch r = i \<Longrightarrow> lr_index (fresh_row i ts as r) = None"
  by (simp add: fresh_row_def)

lemma number_row_other: "lr_batch r \<noteq> i \<Longrightarrow> number_row i ts rows r = r"
  by (simp add: number_row_def)

lemma owns_row_cong:
  "lr_year a = lr_year b \<Longrightarrow> lr_school a = lr_school b \<Longrightarrow> lr_program a = lr_program b \<Longrightarrow> lr_hash a = lr_hash b \<Longrightarrow>
   owns_row x a = owns_row x b"
  by (simp add: owns_row_def)

lemma fresh_row_owner:
  assumes "lr_batch r = i" "lr_application (fresh_row i ts as r) = Some x"
  shows "\<exists>a \<in> set as. la_id a = x \<and> owns_row a r"
proof -
  let ?r = "r\<lparr>lr_application := None, lr_updated := ts\<rparr>"
  from assms have "lr_application (match_row i ts as ?r) = Some x" by (simp add: fresh_row_def)
  then have "\<exists>a \<in> set as. la_id a = x \<and> owns_row a ?r" by (rule match_row_owner) simp
  then show ?thesis by (simp add: owns_row_def)
qed

text \<open>A batch that is numbered after its rows lost their numbers, or one of them did.\<close>

lemma renumbered:
  assumes "\<And>r. r \<in> set rows \<Longrightarrow> lr_batch r = i \<Longrightarrow> \<not> willingness_status (lr_status r) \<Longrightarrow> lr_index r = None"
    and r: "r \<in> set (map (number_row i ts rows) rows)" "lr_batch r = i"
  shows "lr_index r = (if willingness_status (lr_status r) then Some (place i (map (number_row i ts rows) rows) r) else None)"
proof -
  from r obtain r1 where r1: "r1 \<in> set rows" "r = number_row i ts rows r1" by auto
  have "place i (map (number_row i ts rows) rows) r = place i rows r1"
    unfolding r1(2) by (rule place_map) (simp_all add: same_program_def)
  moreover have "lr_batch r1 = i" using r(2) r1(2) by simp
  ultimately show ?thesis using assms(1)[OF r1(1)] unfolding r1(2) number_row_def by simp
qed

lemma release_sels [simp]: "lb_id (release adm i ts y s b) = lb_id b" "lb_year (release adm i ts y s b) = lb_year b"
  "lb_school (release adm i ts y s b) = lb_school b"
  by (simp_all add: release_def Let_def)

lemma release_published:
  "lb_status (release adm i ts y s b) = ''published'' \<Longrightarrow> lb_id b \<noteq> i \<Longrightarrow>
     lb_status b = ''published'' \<and> release adm i ts y s b = b \<and> \<not> (lb_year b = y \<and> lb_school b = s)"
  by (auto simp: release_def Let_def split: if_splits)

lemma release_pending: "lb_status b \<noteq> ''pending_review'' \<Longrightarrow> lb_status (release adm i ts y s b) \<noteq> ''pending_review''"
  by (simp add: release_def Let_def)

text \<open>The tables that a successful publication asks the inquiries in, row by row.\<close>

lemma publish_mapped:
  assumes dist: "distinct (map lr_id (l_rows t))" and dt: "tables s0 = (d, t)" and v: "visits_all rp"
    and run: "publish_official_batch rp adm i s0 = (Inr u, s')"
  obtains b ts t8 where "b \<in> set (l_batches t)" "lb_id b = i" "lb_status b = ''pending_review''"
    "l_batches t8 = map (release adm i ts (lb_year b) (lb_school b)) (l_batches t)"
    "l_rows t8 = map (\<lambda>r. number_row i ts (map (fresh_row i ts (l_applications t)) (l_rows t)) (fresh_row i ts (l_applications t) r))
       (l_rows t)"
    "l_applications t8 = l_applications t" "l_inquiries t8 = l_inquiries t"
    "l_programs t8 = update_where (\<lambda>p. lp_year p = lb_year b \<and> lp_school p = lb_school b)
       (\<lambda>p. p\<lparr>lp_values := map (\<lambda>_. 100) (placed_rows i p (l_rows t8))\<rparr>) (l_programs t)"
    "set (l_willingness t8) \<subseteq> set (l_willingness t)"
    "add_inquiries ''result_released'' None False ts (askable (\<lambda>r. lr_batch r = i) t8) (d, t8) = Some (tables s')"
proof -
  from run obtain b ts rows t8 where b: "b \<in> set (l_batches t)" "lb_id b = i" "lb_status b = ''pending_review''"
    and as: "assign_places ts (ordered_places rp i (l_rows (cleared adm i ts (lb_year b) (lb_school b) t)))
       (l_rows (cleared adm i ts (lb_year b) (lb_school b) t)) = Some rows"
    and t8: "t8 = drop_answers i (fill_arrays i (lb_year b) (lb_school b) (\<lambda>_. 100)
        ((cleared adm i ts (lb_year b) (lb_school b) t)\<lparr>l_rows := rows\<rparr>))"
    and ask: "add_inquiries ''result_released'' None False ts (askable (\<lambda>r. lr_batch r = i) t8) (d, t8) = Some (tables s')"
    by (rule publish_Inr) (simp add: dt)
  let ?R = "map (fresh_row i ts (l_applications t)) (l_rows t)"
  have "distinct (map lr_id ?R)" using dist by (simp add: o_def)
  from assigned_places[OF v this, of ts i rows] as have rows: "rows = map (number_row i ts ?R) ?R"
    by (simp add: cleared_def del: map_map)
  show thesis
    by (rule that[OF b _ _ _ _ _ _ ask]) (auto simp: t8 drop_answers_def fill_arrays_def cleared_def rows o_def)
qed

lemma publish_inv:
  assumes inv: "result_inv (tables s0)" and v: "visits_all rp"
    and run: "publish_official_batch rp adm i s0 = (Inr u, s')"
  shows "result_inv (tables s')"
proof -
  obtain d t where dt: "tables s0 = (d, t)" by (rule prod.exhaust)
  note inv = inv[unfolded dt]
  from publish_mapped[OF result_keysD(2)[OF result_invD(1)[OF inv]] dt v run] obtain b ts t8 where
    b: "b \<in> set (l_batches t)" "lb_id b = i"
    and l: "l_batches t8 = map (release adm i ts (lb_year b) (lb_school b)) (l_batches t)"
      "l_rows t8 = map (\<lambda>r. number_row i ts (map (fresh_row i ts (l_applications t)) (l_rows t)) (fresh_row i ts (l_applications t) r))
         (l_rows t)" "l_applications t8 = l_applications t" "l_inquiries t8 = l_inquiries t"
    and ps: "l_programs t8 = update_where (\<lambda>p. lp_year p = lb_year b \<and> lp_school p = lb_school b)
       (\<lambda>p. p\<lparr>lp_values := map (\<lambda>_. 100) (placed_rows i p (l_rows t8))\<rparr>) (l_programs t)"
    and ws: "set (l_willingness t8) \<subseteq> set (l_willingness t)"
    and ask: "add_inquiries ''result_released'' None False ts (askable (\<lambda>r. lr_batch r = i) t8) (d, t8) = Some (tables s')" .
  let ?y = "lb_year b" let ?s = "lb_school b"
  let ?h = "release adm i ts ?y ?s" let ?f = "fresh_row i ts (l_applications t)" let ?R = "map ?f (l_rows t)"
  let ?g = "\<lambda>r. number_row i ts ?R (?f r)"
  have "lb_status (?h b) = ''published''" using b(2) by (simp add: release_def Let_def)
  with b have pub8: "published_batch t8 i" by (auto simp: published_batch_def l(1) list_ex_iff)
  have inv8: "result_inv (d, t8)"
  proof (rule relisted_inv[OF inv order.refl l(1) _ b refl refl _ l(2)])
    show "l_programs t8 = update_where (\<lambda>p. lp_year p = ?y \<and> lp_school p = ?s)
        (\<lambda>p. p\<lparr>lp_values := map (\<lambda>_. 100) (placed_rows i p (l_rows t8))\<rparr>) (l_programs t)" by (rule ps)
    show "lr_index r = (if willingness_status (lr_status r) then Some (place i (l_rows t8) r) else None)"
      if "r \<in> set (l_rows t8)" "lr_batch r = i" for r
    proof -
      have R: "l_rows t8 = map (number_row i ts ?R) ?R" by (simp add: l(2) o_def)
      show ?thesis unfolding R
      proof (rule renumbered)
        show "lr_index x = None" if "x \<in> set ?R" "lr_batch x = i" for x
        proof -
          from that(1) obtain x0 where x: "x = ?f x0" by auto
          with that(2) have "lr_batch x0 = i" by simp
          with x show ?thesis by (simp add: fresh_row_index)
        qed
        show "r \<in> set (map (number_row i ts ?R) ?R)" "lr_batch r = i" using that unfolding R by blast+
      qed
    qed
    show "matches_ok t8" unfolding matches_ok_def
    proof (intro ballI impI allI)
      fix r x assume r: "r \<in> set (l_rows t8)" "published_batch t8 (lr_batch r)" "lr_application r = Some x"
      then obtain r0 where r0: "r0 \<in> set (l_rows t)" "r = ?g r0" by (auto simp: l(2))
      have "\<exists>a \<in> set (l_applications t). la_id a = x \<and> owns_row a r0"
      proof (cases "lr_batch r0 = i")
        case True
        with r(3) r0(2) show ?thesis by (intro fresh_row_owner) simp_all
      next
        case False
        then have rr: "r = r0" using r0(2) by (simp add: fresh_row_other number_row_other)
        from r(2) obtain c where "c \<in> set (l_batches t)" "lb_id (?h c) = lr_batch r0" "lb_status (?h c) = ''published''"
          unfolding rr by (auto simp: published_batch_def l(1) list_ex_iff)
        with release_published[of adm i ts ?y ?s c] False have "published_batch t (lr_batch r0)"
          by (auto simp: published_batch_def list_ex_iff)
        with result_invD(6)[OF inv] r0(1) r(3) rr show ?thesis by (simp add: matches_ok_def)
      qed
      moreover have "owns_row a r = owns_row a r0" for a by (rule owns_row_cong) (simp_all add: r0(2))
      ultimately show "\<exists>a \<in> set (l_applications t8). la_id a = x \<and> owns_row a r" by (simp add: l(3))
    qed
    show "inquiries_ok t8" unfolding inquiries_ok_def l
    proof (intro ballI allI impI)
      fix q x assume "q \<in> set (l_inquiries t)" "lq_result q = Some x"
      with result_invD(10)[OF inv] obtain r where r: "r \<in> set (l_rows t)" "lr_id r = x" "lq_batch q = Some (lr_batch r)"
        "\<forall>b \<in> set (l_batches t). lb_id b = lr_batch r \<longrightarrow> lb_status b \<noteq> ''pending_review''"
        by (rule inquiries_okE)
      show "\<exists>r \<in> set (map ?g (l_rows t)). lr_id r = x \<and> lq_batch q = Some (lr_batch r)
          \<and> (\<forall>b \<in> set (map ?h (l_batches t)). lb_id b = lr_batch r \<longrightarrow> lb_status b \<noteq> ''pending_review'')"
        using r release_pending by (intro bexI[of _ "?g r"]) auto
    qed
    show "set (l_willingness t8) \<subseteq> set (l_willingness t)" by (rule ws)
  qed (auto simp: same_program_def l(3) validate_willingness_def fresh_row_other number_row_other dest: release_published)
  show ?thesis
    using ask_inv[OF inv8 ask] askable_rows published_not_pending[OF result_keysD(1)[OF result_invD(1)[OF inv8]] pub8]
    by blast
qed

section \<open>Correcting\<close>

definition corrected :: "uuid \<Rightarrow> correction_input \<Rightarrow> time \<Rightarrow> result_tables \<Rightarrow> result_tables" where
  "corrected i input ts t = t\<lparr>l_rows := map (\<lambda>r. if lr_id r = i then correct_row input ts r else r) (l_rows t)\<rparr>"

lemma answer_of_cong: "l_willingness t = l_willingness t' \<Longrightarrow> answer_of t = answer_of t'"
  by (rule ext) (simp add: answer_of_def cong: option.case_cong)

lemma answer_or_100_cong: "l_willingness t = l_willingness t' \<Longrightarrow> answer_or_100 t = answer_or_100 t'"
  by (rule ext) (simp add: answer_or_100_def answer_of_cong[of t t'])

lemma correct_Inr:
  assumes "correct_official_result rp adm i input s0 = (Inr u, s')"
  obtains r0 b ts as rows t8 where "find_row (snd (tables s0)) i = Some r0"
    "b \<in> set (l_batches (snd (tables s0)))" "lb_id b = lr_batch r0" "lb_status b = ''published''"
    "assign_places ts (ordered_places rp (lr_batch r0) (l_rows (corrected i input ts (snd (tables s0)))))
       (l_rows (corrected i input ts (snd (tables s0)))) = Some rows"
    "t8 = fill_arrays (lr_batch r0) (lb_year b) (lb_school b) (answer_or_100 (snd (tables s0)))
       ((corrected i input ts (snd (tables s0)))\<lparr>l_audit := as, l_rows := rows\<rparr>)"
    "tables s' = (fst (tables s0), t8) \<or> (\<exists>a. lr_application r0 = Some a \<and>
       add_inquiries ''result_released'' None False ts (corrected_ask a i t8) (fst (tables s0), t8) = Some (tables s'))"
  using assms unfolding correct_official_result_def Let_def
  apply (elim as_adminE if_failE)
  apply (simp only: bindM_readM)
  apply (elim in_tx_Inr bind_rowE)
  subgoal premises prems for s1 s1a s2 x s1b
  proof -
    obtain r0 y s where x: "x = (r0, y, s)" by (rule prod_cases3)
    have tw: "tables s1b = tables s0" using prems(3,6,11) by simp
    have "tables s1a = tables s0" using prems(3,6) by simp
    with prems(10) obtain b where b: "find_row (snd (tables s0)) i = Some r0" "b \<in> set (l_batches (snd (tables s0)))"
      "lb_id b = lr_batch r0" "lb_status b = ''published''" "lb_year b = y" "lb_school b = s"
      by (auto simp: x split: option.splits dest!: find_Some_D)
    let ?ts = "db_now (fst s1)" let ?t = "snd (tables s0)"
    have rest: "bindM (map_errM rs_raw (stmt_from (\<lambda>d t. map_option (correct_row input ?ts) (find_row t i)) row_chk no_key
           (\<lambda>_ _ _. True) (\<lambda>r (d, t). (d, clear_rows (\<lambda>r. lr_id r = i) (correct_row input ?ts) t)))) (\<lambda>_.
         bindM (map_errM rs_raw (add_result_audit \<lparr>lo_actor = adm, lo_action = ''correct'',
           lo_entity = ''official_result'', lo_key = e_uuid (lx_env rp) i, lo_before = Some (row_data r0),
           lo_after = RowData (ci_status input) (ci_rank input) (ci_quota input) (result_dash (ci_masked input)) None,
           lo_reason = ci_reason input\<rparr>)) (\<lambda>_.
         bindM (map_errM rs_raw (number_rows rp (lr_batch r0) ?ts)) (\<lambda>_.
         bindM (map_errM rs_raw (stmt_write (\<lambda>t. fill_arrays (lr_batch r0) y s (answer_or_100 t) t) (\<lambda>_ _. ()))) (\<lambda>_.
         case lr_application r0 of None \<Rightarrow> ret ()
         | Some a \<Rightarrow> if willingness_status (ci_status input)
             then map_errM rs_raw (ask_rows ''result_released'' None False ?ts (corrected_ask a i)) else ret ())))) s1b = (Inr u, s2)"
      using prems(13) unfolding x prod.case Let_def .
    have step: "\<exists>as. tables s6 = (fst (tables s0), (corrected i input ?ts ?t)\<lparr>l_audit := as\<rparr>)"
      if "tables s5 = (case tables s1b of (d, t) \<Rightarrow> (d, clear_rows (\<lambda>r. lr_id r = i) (correct_row input ?ts) t))"
        "tables s6 = (case tables s5 of (d, t) \<Rightarrow> (d, t\<lparr>l_audit := l_audit t @ [a]\<rparr>))" for s5 s6 a
      using that tw by (intro exI[of _ "l_audit ?t @ [a]"])
        (auto simp: corrected_def clear_rows_def update_where_def split: prod.splits)
    show thesis
      using rest unfolding add_result_audit_def
      apply (elim bind_fromE bind_stmt_writeE bind_stmt_addE bind_numberE)
      subgoal premises q for r s5 s6 s7 rows s8
      proof -
        from step[OF q(5,10)] obtain as where t6: "tables s6 = (fst (tables s0), (corrected i input ?ts ?t)\<lparr>l_audit := as\<rparr>)" by blast
        let ?t8 = "fill_arrays (lr_batch r0) (lb_year b) (lb_school b) (answer_or_100 ?t)
           ((corrected i input ?ts ?t)\<lparr>l_audit := as, l_rows := rows\<rparr>)"
        have same: "answer_or_100 ((corrected i input ?ts ?t)\<lparr>l_audit := as, l_rows := rows\<rparr>) = answer_or_100 ?t"
          by (rule answer_or_100_cong) (simp add: corrected_def)
        have t8: "tables s8 = (fst (tables s0), ?t8)" unfolding q(15) q(13) t6 using b same by simp
        have A: "assign_places ?ts (ordered_places rp (lr_batch r0) (l_rows (corrected i input ?ts ?t))) (l_rows (corrected i input ?ts ?t)) = Some rows"
          using q(12) unfolding t6 using b by simp
        have B: "tables s2 = (fst (tables s0), ?t8) \<or> (\<exists>a. lr_application r0 = Some a \<and>
            add_inquiries ''result_released'' None False ?ts (corrected_ask a i ?t8) (fst (tables s0), ?t8) = Some (tables s2))"
        proof (cases "lr_application r0")
          case None
          with q(17) t8 show ?thesis by simp
        next
          case (Some a)
          with q(17) t8 show ?thesis by (auto split: if_splits dest!: ask_rows_Inr)
        qed
        show thesis using prems(1)[OF b(1-4) A refl] B unfolding prems(8) by blast
      qed
      done
  qed
  done

lemma answer_or_100_valid:
  assumes "answers_ok t"
  shows "validate_willingness (answer_or_100 t r)"
proof (cases "answer_of t (lr_application r)")
  case None
  then show ?thesis by (simp add: answer_or_100_def validate_willingness_def)
next
  case (Some v)
  then obtain i w where "List.find (\<lambda>w. lw_application w = i) (l_willingness t) = Some w" "lw_value w = Some v"
    by (auto simp: answer_of_def split: option.splits)
  with find_Some_D have "w \<in> set (l_willingness t)" "lw_value w = Some v" by metis+
  with assms Some show ?thesis by (simp add: answers_ok_def answer_or_100_def)
qed

lemma correct_row_sels [simp]: "lr_id (correct_row x ts r) = lr_id r" "lr_batch (correct_row x ts r) = lr_batch r"
  "lr_hash (correct_row x ts r) = lr_hash r" "lr_year (correct_row x ts r) = lr_year r"
  "lr_school (correct_row x ts r) = lr_school r" "lr_program (correct_row x ts r) = lr_program r"
  "lr_application (correct_row x ts r) = lr_application r" "lr_index (correct_row x ts r) = None"
  by (simp_all add: correct_row_def)

lemma correct_inv:
  assumes inv: "result_inv (tables s0)" and v: "visits_all rp"
    and run: "correct_official_result rp adm i input s0 = (Inr u, s')"
  shows "result_inv (tables s')"
proof -
  obtain d t where dt: "tables s0 = (d, t)" by (rule prod.exhaust)
  note inv = inv[unfolded dt]
  from run obtain r0 b ts as rows t8 where r0: "find_row t i = Some r0"
    and b: "b \<in> set (l_batches t)" "lb_id b = lr_batch r0" "lb_status b = ''published''"
    and asg: "assign_places ts (ordered_places rp (lb_id b) (l_rows (corrected i input ts t))) (l_rows (corrected i input ts t)) = Some rows"
    and t8: "t8 = fill_arrays (lb_id b) (lb_year b) (lb_school b) (answer_or_100 t)
       ((corrected i input ts t)\<lparr>l_audit := as, l_rows := rows\<rparr>)"
    and ask: "tables s' = (d, t8) \<or> (\<exists>a. lr_application r0 = Some a \<and>
       add_inquiries ''result_released'' None False ts (corrected_ask a i t8) (d, t8) = Some (tables s'))"
    by (rule correct_Inr) (simp add: dt)
  let ?i = "lb_id b"
  let ?f = "\<lambda>r. if lr_id r = i then correct_row input ts r else r" let ?R = "map ?f (l_rows t)"
  have f: "lr_id (?f r) = lr_id r" "lr_batch (?f r) = lr_batch r" "lr_hash (?f r) = lr_hash r" "lr_year (?f r) = lr_year r"
    "lr_school (?f r) = lr_school r" "lr_program (?f r) = lr_program r" "lr_application (?f r) = lr_application r" for r by simp_all
  note keys = result_keysD[OF result_invD(1)[OF inv]]
  have r0': "r0 \<in> set (l_rows t)" "lr_id r0 = i" using find_Some_D[OF r0[unfolded find_row_def]] by auto
  have "distinct (map lr_id ?R)" using keys(2) by (simp add: o_def f)
  from assigned_places[OF v this, of ts ?i rows] asg have rows: "rows = map (number_row ?i ts ?R) ?R"
    by (simp add: corrected_def del: map_map)
  let ?g = "\<lambda>r. number_row ?i ts ?R (?f r)"
  have l: "l_batches t8 = map (\<lambda>b. b) (l_batches t)" "l_rows t8 = map ?g (l_rows t)" "l_applications t8 = l_applications t"
    "l_inquiries t8 = l_inquiries t" "l_willingness t8 = l_willingness t"
    by (simp_all add: t8 fill_arrays_def corrected_def rows o_def)
  have pub: "published_batch t8 x = published_batch t x" for x by (simp add: published_batch_def l(1))
  have inv8: "result_inv (d, t8)"
  proof (rule relisted_inv[OF inv order.refl l(1) _ b(1) refl refl refl _ l(2)])
    show "l_programs t8 = update_where (\<lambda>p. lp_year p = lb_year b \<and> lp_school p = lb_school b)
        (\<lambda>p. p\<lparr>lp_values := map (answer_or_100 t) (placed_rows ?i p (l_rows t8))\<rparr>) (l_programs t)"
      unfolding l(2) by (simp add: t8 fill_arrays_def corrected_def rows o_def)
    show "validate_willingness (answer_or_100 t r)" for r by (rule answer_or_100_valid[OF result_invD(9)[OF inv]])
    show "?g r = r" if "r \<in> set (l_rows t)" "lr_batch r \<noteq> ?i" for r
    proof -
      have "lr_id r \<noteq> i" using distinct_key_eq[OF keys(2) that(1) r0'(1)] r0'(2) that(2) b(2) by auto
      with that(2) show ?thesis by (simp add: number_row_other)
    qed
    show "lb_status c = ''published'' \<and> c = c \<and> \<not> (lb_year c = lb_year b \<and> lb_school c = lb_school b)"
      if "c \<in> set (l_batches t)" "lb_status c = ''published''" "lb_id c \<noteq> ?i" for c
      using result_invD(3)[OF inv] that b unfolding one_list_def by blast
    show "lr_index r = (if willingness_status (lr_status r) then Some (place ?i (l_rows t8) r) else None)"
      if "r \<in> set (l_rows t8)" "lr_batch r = ?i" for r
    proof -
      have R: "l_rows t8 = map (number_row ?i ts ?R) ?R" by (simp add: l(2) o_def)
      show ?thesis unfolding R
      proof (rule renumbered)
        show "lr_index x = None" if "x \<in> set ?R" "\<not> willingness_status (lr_status x)" for x
        proof -
          from that(1) obtain x0 where x: "x = ?f x0" "x0 \<in> set (l_rows t)" unfolding set_map by (rule imageE)
          with that(2) result_invD(5)[OF inv] show ?thesis by (auto simp: numbers_stand_def split: if_splits)
        qed
        show "r \<in> set (map (number_row ?i ts ?R) ?R)" "lr_batch r = ?i" using that unfolding R by blast+
      qed
    qed
    show "matches_ok t8" unfolding matches_ok_def
    proof (intro ballI impI allI)
      fix r x assume r: "r \<in> set (l_rows t8)" "published_batch t8 (lr_batch r)" "lr_application r = Some x"
      then obtain r1 where r1: "r1 \<in> set (l_rows t)" "r = ?g r1" by (auto simp: l(2))
      have "owns_row a r = owns_row a r1" for a by (rule owns_row_cong) (simp_all add: r1(2))
      moreover have "published_batch t (lr_batch r1)" "lr_application r1 = Some x"
        using r(2,3) unfolding r1(2) number_row_sels f pub .
      ultimately show "\<exists>a \<in> set (l_applications t8). la_id a = x \<and> owns_row a r"
        using result_invD(6)[OF inv] r1(1) by (simp add: matches_ok_def l(3))
    qed
    show "inquiries_ok t8" unfolding inquiries_ok_def l
    proof (intro ballI allI impI)
      fix q x assume "q \<in> set (l_inquiries t)" "lq_result q = Some x"
      with result_invD(10)[OF inv] obtain r where r: "r \<in> set (l_rows t)" "lr_id r = x" "lq_batch q = Some (lr_batch r)"
        "\<forall>b \<in> set (l_batches t). lb_id b = lr_batch r \<longrightarrow> lb_status b \<noteq> ''pending_review''"
        by (rule inquiries_okE)
      show "\<exists>r \<in> set (map ?g (l_rows t)). lr_id r = x \<and> lq_batch q = Some (lr_batch r)
          \<and> (\<forall>b \<in> set (map (\<lambda>b. b) (l_batches t)). lb_id b = lr_batch r \<longrightarrow> lb_status b \<noteq> ''pending_review'')"
        using r by (intro bexI[of _ "?g r"]) auto
    qed
  qed (auto simp: same_program_def l(3,5))
  from ask show ?thesis
  proof
    assume "\<exists>a. lr_application r0 = Some a \<and> add_inquiries ''result_released'' None False ts (corrected_ask a i t8) (d, t8) = Some (tables s')"
    then obtain a where run: "add_inquiries ''result_released'' None False ts (corrected_ask a i t8) (d, t8) = Some (tables s')" by blast
    have "published_batch t8 (lr_batch r0)" unfolding pub using b by (auto simp: published_batch_def list_ex_iff)
    then have np: "not_pending t8 (lr_batch r0)"
      by (rule published_not_pending[OF result_keysD(1)[OF result_invD(1)[OF inv8]]])
    show ?thesis
    proof (rule ask_inv[OF inv8 run])
      fix a' r assume "(a', r) \<in> set (corrected_ask a i t8)"
      then have "find_row t8 i = Some r" by (auto simp: corrected_ask_def split: if_splits option.splits)
      then have r: "r \<in> set (l_rows t8)" "lr_id r = i" using find_Some_D by (fastforce simp: find_row_def)+
      then obtain r1 where r1: "r1 \<in> set (l_rows t)" "r = ?g r1" by (auto simp: l(2))
      have "lr_id r1 = i" using r(2) unfolding r1(2) number_row_sels f .
      with distinct_key_eq[OF keys(2) r1(1) r0'(1)] r0'(2) have "r1 = r0" by simp
      then have "lr_batch r = lr_batch r0" unfolding r1(2) number_row_sels f by simp
      with r(1) np show "r \<in> set (l_rows t8) \<and> not_pending t8 (lr_batch r)" by simp
    qed
  qed (use inv8 in simp)
qed

end
