(* ===== verification/ResultServed.thy ===== *)
theory ResultServed imports ResultInvariants begin

text \<open>
  Official results over whole runs: every operation and request keeps the invariant, and
  \<open>result_served\<close> are the states that requests, the extraction worker, answers from other
  channels and the other components lead to.
\<close>

section \<open>Import and extraction\<close>

text \<open>The batch is there, and is of the year and school.\<close>

definition list_at :: "uuid \<Rightarrow> int \<Rightarrow> string \<Rightarrow> result_tables \<Rightarrow> bool" where
  "list_at b y s t \<longleftrightarrow> (\<exists>x \<in> set (l_batches t). lb_id x = b \<and> lb_year x = y \<and> lb_school x = s)"

definition result_inv_at :: "uuid \<Rightarrow> int \<Rightarrow> string \<Rightarrow> db \<times> result_tables \<Rightarrow> bool" where
  "result_inv_at b y s x \<longleftrightarrow> result_inv x \<and> list_at b y s (snd x)"

lemma row_fk_home:
  assumes "result_inv_at b y s (d, t)" "row_fk t r" "lr_batch r = b" "lr_year r = y" "lr_school r = s"
  shows "at_home (l_batches t) (l_programs t) r"
  using assms by (auto simp: result_inv_at_def list_at_def row_fk_def at_home_def list_ex_iff)

lemma keeps_insert_row:
  "tables_keep (result_inv_at b y s) (insert_row (new_row b y s p hash last4 masked status rank quota page ts))"
  "tables_keep (result_inv_at b y s) (insert_row_once (new_row b y s p hash last4 masked status rank quota page ts))"
proof -
  have add: "result_inv_at b y s (add_list_row r (d, t))"
    if "result_inv_at b y s (d, t)" "r = new_row b y s p hash last4 masked status rank quota page ts d" "row_fk t r"
      "\<not> list_ex (same_candidate r) (l_rows t)" for d t r
  proof -
    have "at_home (l_batches t) (l_programs t) r" by (rule row_fk_home[OF that(1,3)]) (simp_all add: that(2) new_row_def)
    with that have "result_inv (add_list_row r (d, t))"
      by (intro add_list_row_inv) (auto simp: result_inv_at_def new_row_def)
    with that(1) show ?thesis by (simp add: result_inv_at_def list_at_def add_list_row_def)
  qed
  show "tables_keep (result_inv_at b y s) (insert_row (new_row b y s p hash last4 masked status rank quota page ts))"
    unfolding insert_row_def by (rule keeps_stmt_from) (use add in auto)
  show "tables_keep (result_inv_at b y s) (insert_row_once (new_row b y s p hash last4 masked status rank quota page ts))"
    unfolding insert_row_once_def by (rule keeps_stmt) (use add in \<open>auto split: prod.splits\<close>)
qed

lemma keeps_result_hash: "tables_keep P (result_hash rp c)"
  unfolding result_hash_def by (intro keeps_intros)

lemma keeps_import_row:
  "tables_keep (result_inv_at b (im_year i) (im_school i)) (import_row rp i b ts r)"
proof -
  have "tables_keep (result_inv_at b (im_year i) (im_school i)) (insert_row (new_row b (oi_year r) (oi_school r)
      (oi_program r) h l m st k q pg ts))" if "oi_year r = im_year i" "oi_school r = im_school i" for h l m st k q pg
    unfolding that by (rule keeps_insert_row)
  then show ?thesis unfolding import_row_def by (intro keeps_intros keeps_result_hash) auto
qed

lemma keeps_import_rows: "tables_keep (result_inv_at b (im_year i) (im_school i)) (import_rows rp i b ts rs)"
  by (induction rs) (auto intro!: keeps_intros keeps_import_row)

lemma keeps_match_rows: "tables_keep result_inv (map_errM c (stmt_write (match_rows b ts) f))"
  by (intro keeps_intros keeps_stmt_write match_rows_inv)

lemma keeps_result_admin: "tables_keep P (result_is_admin acc)" "tables_keep P m \<Longrightarrow> tables_keep P (as_result_admin acc m)"
  unfolding as_result_admin_def result_is_admin_def by (intro keeps_intros; simp)+

lemma keeps_import: "tables_keep result_inv (import_official_batch rp adm i)"
proof -
  let ?sha = "to_lower (e_unicode (lx_env rp)) (trim_space (im_sha i))" let ?url = "trim_space (im_url i)"
  have tx: "tables_keep result_inv (in_tx rs_raw (
         bindM (map_errM map_result_error
           (stmt_from (\<lambda>d t. Some (pending_batch (im_year i) (im_school i) (result_dash ?url) ?sha ts d)) batch_chk
              (\<lambda>d t b. \<not> list_ex (same_list b) (l_batches t)) (\<lambda>d t b. lb_school b \<in> set (l_schools t)) add_batch)) (\<lambda>b.
         bindM (import_rows rp i (lb_id b) ts (im_rows i)) (\<lambda>_.
         bindM (map_errM rs_raw (stmt_write (match_rows (lb_id b) ts) (\<lambda>_ _. ()))) (\<lambda>_.
         ret (lb_id b))))))" for ts
  proof (rule keeps_in_tx_success)
    fix s x s' assume inv: "result_inv (tables s)" and run: "bindM (map_errM map_result_error
           (stmt_from (\<lambda>d t. Some (pending_batch (im_year i) (im_school i) (result_dash ?url) ?sha ts d)) batch_chk
              (\<lambda>d t b. \<not> list_ex (same_list b) (l_batches t)) (\<lambda>d t b. lb_school b \<in> set (l_schools t)) add_batch)) (\<lambda>b.
         bindM (import_rows rp i (lb_id b) ts (im_rows i)) (\<lambda>_.
         bindM (map_errM rs_raw (stmt_write (match_rows (lb_id b) ts) (\<lambda>_ _. ()))) (\<lambda>_.
         ret (lb_id b)))) s = (Inr x, s')"
    obtain d t where dt: "tables s = (d, t)" by (rule prod.exhaust)
    from run obtain b s1 where b: "b = pending_batch (im_year i) (im_school i) (result_dash ?url) ?sha ts d"
      and s1: "tables s1 = add_batch b (d, t)"
      and rest: "bindM (import_rows rp i (lb_id b) ts (im_rows i)) (\<lambda>_.
         bindM (map_errM rs_raw (stmt_write (match_rows (lb_id b) ts) (\<lambda>_ _. ()))) (\<lambda>_. ret (lb_id b))) s1 = (Inr x, s')"
      by (rule bind_fromE) (simp add: dt)
    have inv1: "result_inv_at (lb_id b) (im_year i) (im_school i) (tables s1)"
      using add_batch_inv[OF inv[unfolded dt], of b]
      by (simp add: s1 result_inv_at_def b pending_batch_def list_at_def add_batch_def)
    from rest obtain u s2 where m: "import_rows rp i (lb_id b) ts (im_rows i) s1 = (Inr u, s2)"
      and last: "bindM (map_errM rs_raw (stmt_write (match_rows (lb_id b) ts) (\<lambda>_ _. ()))) (\<lambda>_. ret (lb_id b)) s2 = (Inr x, s')"
      by (rule bindM_InrE)
    from keepsD[OF keeps_import_rows inv1 m] have inv2: "result_inv (tables s2)" by (simp add: result_inv_at_def)
    have "tables_keep result_inv (bindM (map_errM rs_raw (stmt_write (match_rows (lb_id b) ts) (\<lambda>_ _. ()))) (\<lambda>_. ret (lb_id b)))"
      by (intro keeps_bindM keeps_match_rows keeps_ret)
    from keepsD[OF this inv2 last] show "result_inv (tables s')" .
  qed
  show ?thesis unfolding import_official_batch_def Let_def
    by (intro keeps_result_admin(2) keeps_if keeps_fail keeps_bindM[OF keeps_readM] tx)
qed

lemma extraction_batch_gives:
  assumes inv: "result_inv (tables s)" and run: "extraction_batch y sc url sha ts s = (Inr b, s')"
  shows "result_inv_at b y sc (tables s')"
proof -
  obtain d t where dt: "tables s = (d, t)" by (rule prod.exhaust)
  let ?b = "pending_batch y sc url sha ts d"
  from run obtain found s1 where st: "stmt (\<lambda>(d, t). let b = pending_batch y sc url sha ts d in
         if \<not> batch_chk b then (Inl SCheck, (d, t))
         else if list_ex (same_list b) (l_batches t) then (Inr None, (d, t))
         else if sc \<notin> set (l_schools t) then (Inl SForeign, (d, t))
         else (Inr (Some (lb_id b)), add_batch b (d, t))) s = (Inr found, s1)"
      and rest: "(case found of Some i \<Rightarrow> ret i
     | None \<Rightarrow> map_errM map_result_error (stmt_row (\<lambda>d t. map_option lb_id
                 (List.find (\<lambda>b. lb_year b = y \<and> lb_school b = sc \<and> lb_sha b = sha) (l_batches t))))) s1 = (Inr b, s')"
    unfolding extraction_batch_def by auto
  show ?thesis
  proof (cases found)
    case None
    with stmt_Inr[OF st] have s1: "tables s1 = (d, t)" by (simp add: dt Let_def split: if_splits)
    from rest None have "stmt_row (\<lambda>d t. map_option lb_id
        (List.find (\<lambda>b. lb_year b = y \<and> lb_school b = sc \<and> lb_sha b = sha) (l_batches t))) s1 = (Inr b, s')" by simp
    from stmt_row_Inr[OF this] s1 obtain x where "List.find (\<lambda>b. lb_year b = y \<and> lb_school b = sc \<and> lb_sha b = sha) (l_batches t) = Some x"
      "lb_id x = b" "tables s' = (d, t)" by auto
    with inv dt find_Some_D[OF this(1)] show ?thesis by (auto simp: result_inv_at_def list_at_def)
  next
    case (Some i)
    with stmt_Inr[OF st] have s1: "i = lb_id ?b" "tables s1 = add_batch ?b (d, t)" by (simp_all add: dt Let_def split: if_splits)
    from rest Some have "b = i" "s' = s1" by simp_all
    with s1 add_batch_inv[OF inv[unfolded dt], of ?b] show ?thesis
      by (simp add: result_inv_at_def list_at_def pending_batch_def add_batch_def)
  qed
qed

lemma keeps_extract_rows:
  "tables_keep (result_inv_at b (xl_year x) (xl_school x)) (extract_rows rp x job b ts seen rs)"
proof (induction rs arbitrary: seen)
  case (Cons r rs)
  have "tables_keep (result_inv_at b (xl_year x) (xl_school x)) (extract_row rp x job b ts seen r)"
    unfolding extract_row_def Let_def by (intro keeps_intros keeps_result_hash keeps_insert_row)
  with Cons show ?case by (auto intro!: keeps_bindM)
qed (simp add: keeps_ret)

lemma extraction_fills:
  assumes inv: "result_inv (tables s1)"
    and run: "bindM (extraction_batch (xl_year x) (xl_school x) url sha ts) (\<lambda>b.
       bindM (extract_rows rp x job b ts [] (xl_rows x)) (\<lambda>_. bindM (map_errM rs_raw (stmt_write (match_rows b ts) (\<lambda>_ _. ()))) (\<lambda>_.
       map_errM rs_raw (stmt_write (\<lambda>t. t\<lparr>l_jobs := f t\<rparr>) (\<lambda>_ _. ()))))) s1 = (Inr u, s')"
  shows "result_inv (tables s')"
proof -
  from run obtain b s2 where b: "extraction_batch (xl_year x) (xl_school x) url sha ts s1 = (Inr b, s2)"
    and r2: "bindM (extract_rows rp x job b ts [] (xl_rows x)) (\<lambda>_. bindM (map_errM rs_raw (stmt_write (match_rows b ts) (\<lambda>_ _. ()))) (\<lambda>_.
       map_errM rs_raw (stmt_write (\<lambda>t. t\<lparr>l_jobs := f t\<rparr>) (\<lambda>_ _. ())))) s2 = (Inr u, s')"
    by (rule bindM_InrE)
  from r2 obtain v s3 where rows: "extract_rows rp x job b ts [] (xl_rows x) s2 = (Inr v, s3)"
    and r3: "bindM (map_errM rs_raw (stmt_write (match_rows b ts) (\<lambda>_ _. ()))) (\<lambda>_.
       map_errM rs_raw (stmt_write (\<lambda>t. t\<lparr>l_jobs := f t\<rparr>) (\<lambda>_ _. ()))) s3 = (Inr u, s')"
    by (rule bindM_InrE)
  from keepsD[OF keeps_extract_rows extraction_batch_gives[OF inv b] rows] have inv3: "result_inv (tables s3)"
    by (simp add: result_inv_at_def)
  have "tables_keep result_inv (bindM (map_errM rs_raw (stmt_write (match_rows b ts) (\<lambda>_ _. ()))) (\<lambda>_.
       map_errM rs_raw (stmt_write (\<lambda>t. t\<lparr>l_jobs := f t\<rparr>) (\<lambda>_ _. ()))))"
    by (intro keeps_bindM keeps_match_rows keeps_map_errM keeps_stmt_write) (auto elim!: result_inv_same)
  from keepsD[OF this inv3 r3] show ?thesis .
qed

lemma extraction_cases:
  assumes "(if c1 then fail e else case j of None \<Rightarrow> fail e
     | Some job \<Rightarrow> if c2 job then fail e else if c3 then ret () else chain job) s1 = (Inr u, s')"
  obtains "s' = s1" | job where "chain job s1 = (Inr u, s')"
  using assms by (auto split: if_splits option.splits)

lemma keeps_extraction: "tables_keep result_inv (apply_candidate_list rp x0)"
  unfolding apply_candidate_list_def Let_def
proof (intro keeps_if keeps_fail keeps_bindM[OF keeps_readM] keeps_in_tx_success, erule bind_rowE, erule extraction_cases, goal_cases)
  case (1 ts s u s' row s1)
  then show ?case by simp
next
  case (2 ts s u s' row s1 job)
  then have "result_inv (tables s1)" by simp
  then show ?case by (rule extraction_fills) (rule 2(7))
qed

section \<open>The other operations\<close>

lemma admin_reads: "result_is_admin adm s = (x, s1) \<Longrightarrow> tables s1 = tables s"
  using keepsD[OF keeps_result_admin(1)[of "\<lambda>y. y = tables s"]] by blast

text \<open>A failed transaction leaves the tables alone, whoever asked for it.\<close>

lemma admin_Inl:
  assumes run: "as_result_admin adm m s = (Inl e, s')" and m: "\<And>s1 e. m s1 = (Inl e, s') \<Longrightarrow> tables s' = tables s1"
  shows "tables s' = tables s"
proof -
  obtain x s1 where a: "result_is_admin adm s = (x, s1)" by (rule prod.exhaust)
  note t = admin_reads[OF a]
  show ?thesis
  proof (cases x)
    case (Inl e')
    with run a t show ?thesis by (simp add: as_result_admin_def bindM_def)
  next
    case (Inr ok)
    with run a t m show ?thesis by (cases ok) (auto simp: as_result_admin_def bindM_def fail_def)
  qed
qed

lemma keeps_publish: "visits_all rp \<Longrightarrow> tables_keep result_inv (publish_official_batch rp adm i)"
proof (rule keepsI)
  fix s r s' assume v: "visits_all rp" and inv: "result_inv (tables s)" and run: "publish_official_batch rp adm i s = (r, s')"
  show "result_inv (tables s')"
  proof (cases r)
    case (Inl e)
    have "tables s' = tables s"
      by (rule admin_Inl[OF run[unfolded Inl publish_official_batch_def]]) (simp only: bindM_readM in_tx_Inl)
    with inv show ?thesis by simp
  next
    case (Inr u)
    from publish_inv[OF inv v run[unfolded Inr]] show ?thesis .
  qed
qed

lemma keeps_correct: "visits_all rp \<Longrightarrow> tables_keep result_inv (correct_official_result rp adm i input)"
proof (rule keepsI)
  fix s r s' assume v: "visits_all rp" and inv: "result_inv (tables s)" and run: "correct_official_result rp adm i input s = (r, s')"
  show "result_inv (tables s')"
  proof (cases r)
    case (Inl e)
    have "tables s' = tables s"
    proof (rule admin_Inl[OF run[unfolded Inl correct_official_result_def]], goal_cases)
      case (1 s1 e)
      then show ?case by (cases "correction_ok input") (simp only: if_True if_False not_True_eq_False not_False_eq_True
          bindM_readM in_tx_Inl, simp add: fail_def)
    qed
    with inv show ?thesis by simp
  next
    case (Inr u)
    from correct_inv[OF inv v run[unfolded Inr]] show ?thesis .
  qed
qed

lemma keeps_ask_rows:
  assumes "\<And>d t a r. result_inv (d, t) \<Longrightarrow> (a, r) \<in> set (sel t) \<Longrightarrow> r \<in> set (l_rows t) \<and> published_batch t (lr_batch r)"
  shows "tables_keep result_inv (ask_rows rnd dl again ts sel)"
  unfolding ask_rows_def
proof (rule keeps_stmt)
  fix x assume inv: "result_inv x"
  obtain d t where x: "x = (d, t)" by (rule prod.exhaust)
  show "result_inv (snd (case add_inquiries rnd dl again ts (sel (snd x)) x of None \<Rightarrow> (Inl SUnique, x) | Some x' \<Rightarrow> (Inr (), x')))"
  proof (cases "add_inquiries rnd dl again ts (sel (snd x)) x")
    case (Some x')
    have "result_inv x'"
    proof (rule ask_inv[OF inv[unfolded x] Some[unfolded x]])
      fix a r assume "(a, r) \<in> set (sel (snd (d, t)))"
      with assms[OF inv[unfolded x]] published_not_pending[OF result_keysD(1)[OF result_invD(1)[OF inv[unfolded x]]]]
      show "r \<in> set (l_rows t) \<and> not_pending t (lr_batch r)" by auto
    qed
    with Some show ?thesis by simp
  qed (use inv in simp)
qed

lemma keeps_deadline: "tables_keep result_inv (create_deadline_inquiries adm i dl)"
  unfolding create_deadline_inquiries_def
proof (intro keeps_result_admin(2) keeps_if keeps_fail keeps_bindM[OF keeps_readM] keeps_map_errM keeps_ask_rows)
  fix t a r assume "(a, r) \<in> set (askable (\<lambda>r. lr_batch r = i \<and> published_batch t i \<and> answer_of t (lr_application r) = None) t)"
  from askable_rows[OF this] show "r \<in> set (l_rows t) \<and> published_batch t (lr_batch r)" by blast
qed

lemma keeps_result_reads:
  "tables_keep P (list_admin_batches adm q)" "tables_keep P (get_admin_batch adm i)" "tables_keep P (get_report acc i)"
  "tables_keep P (list_inquiries acc i)"
  unfolding list_admin_batches_def get_admin_batch_def get_report_def list_inquiries_def
  by (intro keeps_intros keeps_result_admin(2))+

section \<open>Candidate numbers\<close>

text \<open>
  The number is stored, the application's published rows are unlinked and those of the new number
  linked: together they keep the invariant.
\<close>

definition linked :: "uuid \<Rightarrow> uuid \<Rightarrow> string \<Rightarrow> string \<Rightarrow> string \<Rightarrow> time \<Rightarrow> result_tables \<Rightarrow> result_tables" where
  "linked acc i cipher hash last4 ts t = link_rows acc i hash ts (unlink_rows i ts
     (t\<lparr>l_applications := update_where (\<lambda>a. la_id a = i \<and> la_account a = acc \<and> la_status a = ''confirmed'')
          (set_number cipher hash last4) (l_applications t)\<rparr>))"

lemma confirmedD:
  assumes "confirmed_application t acc i = Some a"
  shows "a \<in> set (l_applications t)" "la_id a = i" "la_account a = acc" "la_status a = ''confirmed''"
  using find_Some_D[OF assms[unfolded confirmed_application_def]] by auto

lemma set_number_sels [simp]: "la_id (set_number c h l a) = la_id a" "la_account (set_number c h l a) = la_account a"
  "la_year (set_number c h l a) = la_year a" "la_school (set_number c h l a) = la_school a"
  "la_program (set_number c h l a) = la_program a" "la_status (set_number c h l a) = la_status a"
  "la_hash (set_number c h l a) = Some h"
  by (simp_all add: set_number_def)

lemma same_number_sym: "same_number a b \<longleftrightarrow> same_number b a"
  by (auto simp: same_number_def)

definition linked_row :: "(list_row \<Rightarrow> bool) \<Rightarrow> listed_application \<Rightarrow> time \<Rightarrow> list_row \<Rightarrow> list_row" where
  "linked_row pub a ts r =
     (let r1 = if lr_application r = Some (la_id a) \<and> pub r then r\<lparr>lr_application := None, lr_updated := ts\<rparr> else r
      in if pub r \<and> owns_row a r \<and> lr_application r1 = None
         then r1\<lparr>lr_application := Some (la_id a), lr_updated := ts\<rparr> else r1)"

lemma linked_row_standing [simp]: "standing_of (linked_row pub a ts r) = standing_of r"
  by (simp add: linked_row_def Let_def standing_of_def)

lemma linked_row_owner:
  assumes "lr_application (linked_row pub a ts r) = Some x" "pub r"
  shows "x = la_id a \<and> owns_row a r \<or> x \<noteq> la_id a \<and> lr_application r = Some x"
  using assms by (auto simp: linked_row_def Let_def split: if_splits)

lemma linked_rows:
  assumes inv: "result_inv (d, t)" and a: "confirmed_application t acc i = Some a"
  shows "linked acc i cipher hash last4 ts t = t\<lparr>
     l_applications := update_where (\<lambda>x. la_id x = i) (set_number cipher hash last4) (l_applications t),
     l_rows := map (linked_row (\<lambda>r. published_batch t (lr_batch r)) (set_number cipher hash last4 a) ts) (l_rows t)\<rparr>"
    "set (update_where (\<lambda>x. la_id x = i) (set_number cipher hash last4) (l_applications t))
      = insert (set_number cipher hash last4 a) {x \<in> set (l_applications t). la_id x \<noteq> i}"
proof -
  note keys = result_keysD[OF result_invD(1)[OF inv]] and aD = confirmedD[OF a]
  have only: "x = a" if "x \<in> set (l_applications t)" "la_id x = i" for x
    using distinct_key_eq[OF keys(3) that(1) aD(1)] that(2) aD(2) by simp
  let ?as = "update_where (\<lambda>x. la_id x = i) (set_number cipher hash last4) (l_applications t)"
  show as: "set ?as = insert (set_number cipher hash last4 a) {x \<in> set (l_applications t). la_id x \<noteq> i}"
  proof (intro set_eqI iffI)
    fix y assume "y \<in> set ?as"
    then obtain x where x: "x \<in> set (l_applications t)" "y = (if la_id x = i then set_number cipher hash last4 x else x)"
      by (auto simp: update_where_def)
    with only[OF x(1)] show "y \<in> insert (set_number cipher hash last4 a) {x \<in> set (l_applications t). la_id x \<noteq> i}"
      by (cases "la_id x = i") simp_all
  next
    fix y assume "y \<in> insert (set_number cipher hash last4 a) {x \<in> set (l_applications t). la_id x \<noteq> i}"
    with aD(1,2) show "y \<in> set ?as" by (force simp: update_where_def)
  qed
  have as': "update_where (\<lambda>a. la_id a = i \<and> la_account a = acc \<and> la_status a = ''confirmed'') (set_number cipher hash last4)
      (l_applications t) = ?as"
    unfolding update_where_def
  proof (rule map_cong[OF refl])
    fix x assume "x \<in> set (l_applications t)"
    from only[OF this] aD(3,4)
    show "(if la_id x = i \<and> la_account x = acc \<and> la_status x = ''confirmed'' then set_number cipher hash last4 x else x)
        = (if la_id x = i then set_number cipher hash last4 x else x)" by (cases "la_id x = i") simp_all
  qed
  have "\<exists>y \<in> set ?as. la_id y = i \<and> la_account y = acc \<and> la_status y = ''confirmed''" unfolding as using aD by simp
  then obtain a' where a': "confirmed_application (t\<lparr>l_applications := ?as\<rparr>) acc i = Some a'"
    unfolding confirmed_application_def by (cases "List.find (\<lambda>a. la_id a = i \<and> la_account a = acc \<and> la_status a = ''confirmed'') ?as")
      (auto simp: find_None_iff)
  have a'': "a' = set_number cipher hash last4 a"
  proof -
    have "a' \<in> set ?as" using confirmedD(1)[OF a'] by simp
    then show ?thesis unfolding as using confirmedD(2)[OF a'] by blast
  qed
  let ?pub = "\<lambda>r. published_batch t (lr_batch r)"
  let ?u = "\<lambda>r. if lr_application r = Some i \<and> ?pub r then r\<lparr>lr_application := None, lr_updated := ts\<rparr> else r"
  let ?t2 = "t\<lparr>l_applications := ?as, l_rows := map ?u (l_rows t)\<rparr>"
  let ?v = "\<lambda>r. if ?pub r \<and> la_year a = lr_year r \<and> la_school a = lr_school r \<and> la_program a = lr_program r \<and> lr_hash r = hash
     \<and> lr_application r = None then r\<lparr>lr_application := Some i, lr_updated := ts\<rparr> else r"
  have u: "unlink_rows i ts (t\<lparr>l_applications := ?as\<rparr>) = ?t2"
    by (simp add: unlink_rows_def clear_rows_def update_where_def[of _ _ "l_rows t"] published_batch_def)
  have ca: "confirmed_application ?t2 acc i = Some (set_number cipher hash last4 a)"
    using a' a'' by (simp add: confirmed_application_def)
  have v: "link_rows acc i hash ts ?t2 = ?t2\<lparr>l_rows := map ?v (map ?u (l_rows t))\<rparr>"
  proof -
    have "published_batch ?t2 x = published_batch t x" for x by (simp add: published_batch_def)
    then show ?thesis
      unfolding link_rows_def ca option.case clear_rows_def
      by (simp add: update_where_def[of _ _ "map ?u (l_rows t)"] del: map_map)
  qed
  have own: "owns_row (set_number cipher hash last4 a) r \<longleftrightarrow> la_year a = lr_year r \<and> la_school a = lr_school r
      \<and> la_program a = lr_program r \<and> lr_hash r = hash" for r
    using aD(4) by (auto simp: owns_row_def)
  have vu: "?v (?u r) = linked_row ?pub (set_number cipher hash last4 a) ts r" for r
    unfolding linked_row_def own Let_def set_number_sels aD(2)
    by (cases "lr_application r = Some i \<and> ?pub r") simp_all
  show "linked acc i cipher hash last4 ts t = t\<lparr>l_applications := ?as,
     l_rows := map (linked_row ?pub (set_number cipher hash last4 a) ts) (l_rows t)\<rparr>"
    unfolding linked_def as' u v map_map o_def vu by simp
qed

lemma linked_inv:
  assumes inv: "result_inv (d, t)" and a: "confirmed_application t acc i = Some a"
    and free: "\<not> list_ex (same_number (set_number cipher hash last4 a)) (l_applications t)"
  shows "result_inv (d, linked acc i cipher hash last4 ts t)"
proof -
  let ?new = "set_number cipher hash last4 a" and ?g = "linked_row (\<lambda>r. published_batch t (lr_batch r)) (set_number cipher hash last4 a) ts"
  let ?as = "update_where (\<lambda>x. la_id x = i) (set_number cipher hash last4) (l_applications t)"
  note aD = confirmedD[OF a] and as = linked_rows(2)[OF inv a, of cipher hash last4]
  have ids: "map la_id ?as = map la_id (l_applications t)" by (simp add: map_update_where)
  have uniq: "numbers_unique ?as"
    unfolding numbers_unique_def as using result_invD(7)[OF inv] free same_number_sym
    by (auto simp: numbers_unique_def list_ex_iff) (auto simp: same_number_def)
  have "matches_ok (t\<lparr>l_applications := ?as, l_rows := map ?g (l_rows t)\<rparr>)"
    unfolding matches_ok_def
  proof (intro ballI impI allI)
    fix r x assume r: "r \<in> set (l_rows (t\<lparr>l_applications := ?as, l_rows := map ?g (l_rows t)\<rparr>))"
      and pub: "published_batch (t\<lparr>l_applications := ?as, l_rows := map ?g (l_rows t)\<rparr>) (lr_batch r)"
      and x: "lr_application r = Some x"
    from r obtain r0 where r0: "r0 \<in> set (l_rows t)" "r = ?g r0" by auto
    have st: "standing_of r = standing_of r0" by (simp add: r0(2))
    have pub0: "published_batch t (lr_batch r0)" using pub standing_of_sels[OF st] by (simp add: published_batch_def)
    have "\<exists>a \<in> set ?as. la_id a = x \<and> owns_row a r0"
      using linked_row_owner[OF x[unfolded r0(2)] pub0]
    proof
      assume "x = la_id ?new \<and> owns_row ?new r0"
      then show ?thesis unfolding as by blast
    next
      assume "x \<noteq> la_id ?new \<and> lr_application r0 = Some x"
      with result_invD(6)[OF inv] r0(1) pub0 aD show ?thesis unfolding as matches_ok_def by fastforce
    qed
    then show "\<exists>a \<in> set (l_applications (t\<lparr>l_applications := ?as, l_rows := map ?g (l_rows t)\<rparr>)). la_id a = x \<and> owns_row a r"
      using standing_of_cong(5)[OF st] by simp
  qed
  then show ?thesis
    unfolding linked_rows(1)[OF inv a] by (intro result_inv_relinked[OF inv _ ids uniq]) simp_all
qed

lemma keeps_result_audit: "tables_keep result_inv (map_errM c (add_result_audit a))"
  unfolding add_result_audit_def by (intro keeps_intros keeps_stmt_add) (auto elim!: result_inv_same)

lemma keeps_set_candidate_number: "tables_keep result_inv (set_candidate_number rp acc i cipher hash last4)"
  unfolding set_candidate_number_def
proof (rule keeps_bindM[OF keeps_readM], rule keeps_in_tx_success, unfold save_number_def, elim bind_fromE bind_stmt_writeE)
  fix ts s x s' a s1 s2 s3
  let ?sel = "\<lambda>t. askable (\<lambda>r. lr_application r = Some i \<and> published_batch t (lr_batch r)
                          \<and> answer_of t (lr_application r) = None) t"
  let ?log = "\<lparr>lo_actor = acc, lo_action = ''set_candidate_number'', lo_entity = ''application'',
     lo_key = e_uuid (lx_env rp) i, lo_before = None, lo_after = LastFourData last4, lo_reason = ''user updated candidate number''\<rparr>"
  assume inv: "result_inv (tables s)"
    and a: "map_option (set_number cipher hash last4) (confirmed_application (snd (tables s)) acc i) = Some a"
    and free: "\<not> list_ex (same_number a) (l_applications (snd (tables s)))"
    and s1: "tables s1 = (case tables s of (d, t) \<Rightarrow> (d, t\<lparr>l_applications := update_where
       (\<lambda>a. la_id a = i \<and> la_account a = acc \<and> la_status a = ''confirmed'') (set_number cipher hash last4) (l_applications t)\<rparr>))"
    and s2: "tables s2 = (fst (tables s1), unlink_rows i ts (snd (tables s1)))"
    and s3: "tables s3 = (fst (tables s2), link_rows acc i hash ts (snd (tables s2)))"
    and rest: "bindM (map_errM rs_raw (ask_rows ''result_released'' None False ts ?sel)) (\<lambda>_. map_errM rs_raw (add_result_audit ?log)) s3
       = (Inr x, s')"
  obtain d t where dt: "tables s = (d, t)" by (rule prod.exhaust)
  from a obtain a0 where a0: "confirmed_application t acc i = Some a0" "a = set_number cipher hash last4 a0" by (auto simp: dt)
  have "tables s3 = (d, linked acc i cipher hash last4 ts t)" by (simp add: s3 s2 s1 dt linked_def)
  with linked_inv[OF inv[unfolded dt] a0(1)] free a0(2) have inv3: "result_inv (tables s3)" by (simp add: dt)
  have "tables_keep result_inv (bindM (map_errM rs_raw (ask_rows ''result_released'' None False ts ?sel))
      (\<lambda>_. map_errM rs_raw (add_result_audit ?log)))"
  proof (intro keeps_bindM keeps_map_errM[OF keeps_ask_rows] keeps_result_audit)
    fix t a r assume "(a, r) \<in> set (?sel t)"
    from askable_rows[OF this] show "r \<in> set (l_rows t) \<and> published_batch t (lr_batch r)" by blast
  qed
  from keepsD[OF this inv3 rest] show "result_inv (tables s')" .
qed

section \<open>Answers\<close>

lemma put_slot_inv:
  assumes inv: "result_inv (d, t)" and v: "validate_willingness v"
  shows "result_inv (d, put_slot r k v t)"
proof -
  let ?g = "\<lambda>p. p\<lparr>lp_values := (lp_values p)[nat k := v]\<rparr>"
  let ?h = "\<lambda>p. if has_slot r k p then ?g p else p"
  have l: "l_programs (put_slot r k v t) = map ?h (l_programs t)" "l_batches (put_slot r k v t) = l_batches t"
    "l_rows (put_slot r k v t) = l_rows t" "l_applications (put_slot r k v t) = l_applications t"
    "l_willingness (put_slot r k v t) = l_willingness t" "l_inquiries (put_slot r k v t) = l_inquiries t"
    by (simp_all add: put_slot_def update_where_def)
  have pr: "program_of_row x (?h p) = program_of_row x p" for x p by (simp add: program_of_row_def)
  have fit: "slots_fit b (?h p) rows = slots_fit b p rows" for b p rows
  proof -
    have "numbered b (?h p) = numbered b p" by (rule ext) (simp add: numbered_def pr del: if_distrib)
    moreover have "length (lp_values (?h p)) = length (lp_values p)" by simp
    ultimately show ?thesis by (simp only: slots_fit_def before_def)
  qed
  show ?thesis
  proof (rule result_invI)
    have "map (\<lambda>p. (lp_year p, lp_school p, lp_code p)) (map ?h (l_programs t)) = map (\<lambda>p. (lp_year p, lp_school p, lp_code p)) (l_programs t)"
      by simp
    with result_invD(1)[OF inv] show "result_keys d (put_slot r k v t)" by (simp add: result_keys_def l del: map_map)
    show "rows_at_home (put_slot r k v t)"
      using result_invD(2)[OF inv] unfolding rows_at_home_def at_home_def l set_map bex_simps pr .
    show "slots_ok (put_slot r k v t)"
      using result_invD(4)[OF inv] unfolding slots_ok_def l set_map ball_simps fit by simp
    have "validate_willingness w" if "p \<in> set (l_programs t)" "w \<in> set (lp_values (?h p))" for p w
    proof -
      have "w = v \<or> w \<in> set (lp_values p)" using that(2) set_update_subset_insert[of "lp_values p" "nat k" v]
        by (auto split: if_splits)
      with v result_invD(9)[OF inv] that(1) show ?thesis by (auto simp: answers_ok_def)
    qed
    with result_invD(9)[OF inv] show "answers_ok (put_slot r k v t)" by (auto simp: answers_ok_def l)
  qed (use result_invD[OF inv] in \<open>simp_all add: one_list_def numbers_stand_def matches_ok_def published_batch_def inquiries_ok_def l\<close>)
qed

lemma save_answer_inv:
  assumes inv: "result_inv (d, t)" and v: "validate_willingness v"
  shows "result_inv (d, save_answer i v ts t)"
proof -
  have l: "l_programs (save_answer i v ts t) = l_programs t" "l_batches (save_answer i v ts t) = l_batches t"
    "l_rows (save_answer i v ts t) = l_rows t" "l_applications (save_answer i v ts t) = l_applications t"
    "l_inquiries (save_answer i v ts t) = l_inquiries t"
    by (simp_all add: save_answer_def)
  have "answers_ok (save_answer i v ts t)"
    using result_invD(9)[OF inv] v by (auto simp: answers_ok_def save_answer_def elim!: in_update_whereE)
  with result_invD[OF inv] show ?thesis
    by (simp add: result_inv_def result_keys_def rows_at_home_def one_list_def slots_ok_def numbers_stand_def matches_ok_def
        published_batch_def inquiries_ok_def l)
qed

lemma keeps_record_answer:
  assumes v: "validate_willingness v"
  shows "tables_keep result_inv (record_answer i v ts source ext x)"
  unfolding record_answer_def Let_def insert_event_def
proof (intro keeps_if keeps_fail keeps_bindM keeps_map_errM keeps_ret)
  show "tables_keep result_inv (stmt_write (save_answer i v ts) f)" for f
    by (intro keeps_stmt_write save_answer_inv[OF _ v])
  show "tables_keep result_inv (stmt_write (put_slot (snd x) k v) f)" for k f
    by (intro keeps_stmt_write put_slot_inv[OF _ v])
  show "tables_keep result_inv (stmt_from (\<lambda>d t. Some (new_event i q r v source e d)) event_chk
     (\<lambda>d t e. \<not> list_ex (same_event e) (l_events t)) (\<lambda>_ _ _. True) add_response)" for q r e
    by (rule keeps_stmt_from) (auto simp: add_response_def draw_id_def elim!: result_inv_same)
qed

lemma keeps_set_willingness_as: "tables_keep result_inv (set_willingness_as rp acc i v named source ext)"
proof (cases "validate_willingness v")
  case True
  show ?thesis unfolding set_willingness_as_def Let_def
    by (intro keeps_intros keeps_stmt keeps_record_answer True) auto
qed (simp add: set_willingness_as_def Let_def keeps_fail)

lemma keeps_set_willingness:
  "tables_keep result_inv (set_willingness rp acc i v named)"
  "tables_keep result_inv (set_willingness_from_channel rp acc i v q source ext)"
  unfolding set_willingness_def set_willingness_from_channel_def Let_def
  by (intro keeps_intros keeps_set_willingness_as)+

section \<open>Requests\<close>

lemma result_guards:
  "tables_keep result_inv (result_require_admin h rq)" "tables_keep result_inv (result_require_admin_mutation h rq)"
  "tables_keep result_inv (result_require_verified h rq m)" "tables_keep result_inv (application_path h raw)"
  "tables_keep result_inv (batch_path h raw)"
  unfolding result_require_admin_def result_require_admin_mutation_def result_require_verified_def application_path_def
    batch_path_def result_is_admin_def
  by (intro result_rows.calm keeps_intros calm_core calm_authenticate)+

lemmas result_operations = keeps_import keeps_publish keeps_correct keeps_deadline keeps_set_candidate_number
  keeps_set_willingness keeps_extraction

lemma result_route_inv: "visits_all (hr_repo h) \<Longrightarrow> tables_keep result_inv (result_route h rq call)"
  by (cases call; simp only: result_route.simps route_import_def route_publish_def route_deadline_def route_correct_def
      route_list_batches_def route_get_batch_def route_report_def route_candidate_number_def route_willingness_def
      route_inquiries_def;
     intro keeps_intros result_guards result_rows.guards result_operations keeps_result_reads tables_keep_with_draws; assumption)

section \<open>What official results can become\<close>

text \<open>
  What the other components do to these tables (internal/applications, internal/telegramcrosscheck,
  internal/admissions, internal/notifications): applications come and change as the unique index on
  their numbers allows, except those matched with a published list, whose number and programme stay
  (the import of Telegram participants refuses to change them); programmes come with an empty array
  of answers and go when no row refers to them; the worker marks inquiries. The offline tool that
  erases an account (cmd/account-tool) is not among them.
\<close>

definition same_applicant :: "listed_application \<Rightarrow> listed_application \<Rightarrow> bool" where
  "same_applicant a b \<longleftrightarrow> la_id b = la_id a \<and> la_account b = la_account a \<and> la_year b = la_year a
     \<and> la_school b = la_school a \<and> la_program b = la_program a \<and> la_status b = la_status a \<and> la_hash b = la_hash a"

definition applications_change :: "result_tables \<Rightarrow> listed_application list \<Rightarrow> bool" where
  "applications_change t as \<longleftrightarrow> distinct (map la_id as) \<and> numbers_unique as
     \<and> (\<forall>a \<in> set (l_applications t). list_ex (\<lambda>b. la_id b = la_id a \<and> la_account b = la_account a) as)
     \<and> (\<forall>a \<in> set (l_applications t). \<forall>r \<in> set (l_rows t). lr_application r = Some (la_id a) \<longrightarrow>
          published_batch t (lr_batch r) \<longrightarrow> list_ex (same_applicant a) as)"

definition programs_change :: "result_tables \<Rightarrow> listed_program list \<Rightarrow> bool" where
  "programs_change t ps \<longleftrightarrow> distinct (map (\<lambda>p. (lp_year p, lp_school p, lp_code p)) ps)
     \<and> (\<forall>p \<in> set (l_programs t). \<forall>r \<in> set (l_rows t). program_of_row r p \<longrightarrow> p \<in> set ps)
     \<and> (\<forall>p \<in> set ps. p \<in> set (l_programs t) \<or> lp_values p = [])"

definition changed_elsewhere :: "result_tables \<Rightarrow> result_tables \<Rightarrow> bool" where
  "changed_elsewhere t t' \<longleftrightarrow> l_batches t' = l_batches t \<and> l_rows t' = l_rows t \<and> l_willingness t' = l_willingness t
     \<and> l_events t' = l_events t \<and> map about (l_inquiries t') = map about (l_inquiries t)
     \<and> applications_change t (l_applications t') \<and> programs_change t (l_programs t')"

inductive result_step :: "result_handler \<Rightarrow> result_tables state \<Rightarrow> result_tables state \<Rightarrow> bool" for h where
  request: "result_route h rq call s = (x, s') \<Longrightarrow> result_step h s s'"
| extracted: "apply_candidate_list (hr_repo h) cl s = (y, s') \<Longrightarrow> result_step h s s'"
| channel: "set_willingness_from_channel (hr_repo h) acc i v q source ext s = (z, s') \<Longrightarrow> result_step h s s'"
| imported: "import_official_batch (hr_repo h) adm input s = (r1, s') \<Longrightarrow> result_step h s s'"
| publishes: "publish_official_batch (hr_repo h) adm i s = (r2, s') \<Longrightarrow> result_step h s s'"
| corrects: "correct_official_result (hr_repo h) adm i c s = (r3, s') \<Longrightarrow> result_step h s s'"
| identifies: "set_candidate_number (hr_repo h) acc i cipher hash last4 s = (r4, s') \<Longrightarrow> result_step h s s'"
| answers: "set_willingness (hr_repo h) acc i v named s = (r5, s') \<Longrightarrow> result_step h s s'"
| elsewhere: "next_id (w_db w) \<le> next_id (w_db w') \<Longrightarrow> changed_elsewhere t t' \<Longrightarrow> result_step h (w, t) (w', t')"

inductive result_served :: "result_handler \<Rightarrow> result_tables state \<Rightarrow> bool" for h where
  start: "l_batches t = [] \<Longrightarrow> l_rows t = [] \<Longrightarrow> l_willingness t = [] \<Longrightarrow> l_inquiries t = [] \<Longrightarrow> l_events t = [] \<Longrightarrow>
    l_applications t = [] \<Longrightarrow> l_programs t = [] \<Longrightarrow> result_served h (w, t)"
| step: "result_served h s \<Longrightarrow> result_step h s s' \<Longrightarrow> result_served h s'"

lemma program_keyD:
  assumes "distinct (map (\<lambda>p. (lp_year p, lp_school p, lp_code p)) ps)" "p \<in> set ps" "q \<in> set ps"
    "program_of_row r p" "program_of_row r q"
  shows "p = q"
  using distinct_key_eq[OF assms(1-3)] assms(4,5) by (simp add: program_of_row_def)

lemma changed_elsewhere_inv:
  assumes inv: "result_inv (d, t)" and ch: "changed_elsewhere t t'" and d: "next_id d \<le> next_id d'"
  shows "result_inv (d', t')"
proof -
  have l: "l_batches t' = l_batches t" "l_rows t' = l_rows t" "l_willingness t' = l_willingness t"
    "map about (l_inquiries t') = map about (l_inquiries t)" "applications_change t (l_applications t')"
    "programs_change t (l_programs t')"
    using ch by (simp_all add: changed_elsewhere_def)
  have pub: "published_batch t' x = published_batch t x" for x by (simp add: published_batch_def l(1))
  have home: "\<exists>p \<in> set (l_programs t') \<inter> set (l_programs t). program_of_row r p" if "r \<in> set (l_rows t)" for r
    using result_invD(2)[OF inv] that l(6) by (fastforce simp: rows_at_home_def at_home_def programs_change_def)
  have known: "p \<in> set (l_programs t)" if "p \<in> set (l_programs t')" "r \<in> set (l_rows t)" "program_of_row r p" for p r
  proof -
    from home[OF that(2)] obtain q where q: "q \<in> set (l_programs t')" "q \<in> set (l_programs t)" "program_of_row r q" by blast
    have "p = q" using l(6) by (intro program_keyD[OF _ that(1) q(1) that(3) q(3)]) (simp add: programs_change_def)
    with q(2) show ?thesis by simp
  qed
  show ?thesis
  proof (rule result_invI)
    show "result_keys d' t'"
      using result_invD(1)[OF inv] d l(5,6)
      by (auto simp: result_keys_def l(1,2) applications_change_def programs_change_def intro: new_keys_mono)
    show "rows_at_home t'" using result_invD(2)[OF inv] home by (auto simp: rows_at_home_def at_home_def l(1,2))
    show "slots_ok t'" unfolding slots_ok_def l(1,2)
    proof (intro ballI impI)
      fix b p assume b: "b \<in> set (l_batches t)" "lb_status b = ''published''" and p: "p \<in> set (l_programs t')"
        "lp_year p = lb_year b" "lp_school p = lb_school b"
      show "slots_fit (lb_id b) p (l_rows t)"
      proof (cases "p \<in> set (l_programs t)")
        case True
        with result_invD(4)[OF inv] b p show ?thesis by (simp add: slots_ok_def)
      next
        case False
        with known[OF p(1)] have "\<not> numbered (lb_id b) p r" if "r \<in> set (l_rows t)" for r
          using that by (auto simp: numbered_def)
        moreover have "lp_values p = []" using l(6) p(1) False by (auto simp: programs_change_def)
        ultimately show ?thesis by (simp add: slots_fit_def filter_empty_conv)
      qed
    qed
    show "matches_ok t'" unfolding matches_ok_def
    proof (intro ballI impI allI)
      fix r i assume r: "r \<in> set (l_rows t')" "published_batch t' (lr_batch r)" "lr_application r = Some i"
      with result_invD(6)[OF inv] obtain a where a: "a \<in> set (l_applications t)" "la_id a = i" "owns_row a r"
        by (auto simp: matches_ok_def pub l(2))
      with l(5) r obtain a' where "a' \<in> set (l_applications t')" "same_applicant a a'"
        unfolding applications_change_def pub l(2) list_ex_iff by blast
      with a show "\<exists>a \<in> set (l_applications t'). la_id a = i \<and> owns_row a r"
        by (intro bexI[of _ a']) (auto simp: same_applicant_def owns_row_def)
    qed
    show "answers_ok t'" using result_invD(9)[OF inv] l(6) unfolding answers_ok_def l(3) programs_change_def by fastforce
    show "inquiries_ok t'" unfolding inquiries_ok_def l(1,2)
    proof (intro ballI allI impI)
      fix q x assume q: "q \<in> set (l_inquiries t')" "lq_result q = Some x"
      then have "about q \<in> set (map about (l_inquiries t))" unfolding l(4)[symmetric] by simp
      then obtain q0 where "q0 \<in> set (l_inquiries t)" "lq_result q0 = Some x" "lq_batch q0 = lq_batch q"
        using q(2) by (auto simp: about_def)
      with result_invD(10)[OF inv] show "\<exists>r \<in> set (l_rows t). lr_id r = x \<and> lq_batch q = Some (lr_batch r)
          \<and> (\<forall>b \<in> set (l_batches t). lb_id b = lr_batch r \<longrightarrow> lb_status b \<noteq> ''pending_review'')"
        by (auto simp: inquiries_ok_def)
    qed
    show "numbers_unique (l_applications t')" using l(5) by (simp add: applications_change_def)
  qed (use result_invD[OF inv] in \<open>simp_all add: one_list_def numbers_stand_def l(1,2)\<close>)
qed

text \<open>
  A step is a request, a batch of the extraction worker, an answer from a channel, an operation of the
  repository whoever calls it, or a change elsewhere.
\<close>

lemma result_step_inv: "result_step h s s' \<Longrightarrow> visits_all (hr_repo h) \<Longrightarrow> result_inv (tables s) \<Longrightarrow> result_inv (tables s')"
proof (induction rule: result_step.induct)
  case (request rq call s x s')
  from keepsD[OF result_route_inv[OF request(2)] request(3,1)] show ?case .
next
  case (extracted cl s y s')
  from keepsD[OF keeps_extraction extracted(3,1)] show ?case .
next
  case (channel acc i v q source ext s z s')
  from keepsD[OF keeps_set_willingness(2) channel(3,1)] show ?case .
next
  case (imported adm input s r1 s')
  from keepsD[OF keeps_import imported(3,1)] show ?case .
next
  case (publishes adm i s r2 s')
  from keepsD[OF keeps_publish[OF publishes(2)] publishes(3,1)] show ?case .
next
  case (corrects adm i c s r3 s')
  from keepsD[OF keeps_correct[OF corrects(2)] corrects(3,1)] show ?case .
next
  case (identifies acc i cipher hash last4 s r4 s')
  from keepsD[OF keeps_set_candidate_number identifies(3,1)] show ?case .
next
  case (answers acc i v named s r5 s')
  from keepsD[OF keeps_set_willingness(1) answers(3,1)] show ?case .
next
  case (elsewhere w w' t t')
  then show ?case using changed_elsewhere_inv by (simp add: tables_def)
qed

lemma result_served_inv: "result_served h s \<Longrightarrow> visits_all (hr_repo h) \<Longrightarrow> result_inv (tables s)"
proof (induction rule: result_served.induct)
  case (start t w)
  then show ?case
    by (simp add: tables_def result_inv_def result_keys_def new_keys_def rows_at_home_def one_list_def slots_ok_def
        numbers_stand_def matches_ok_def numbers_unique_def candidates_unique_def answers_ok_def inquiries_ok_def)
qed (rule result_step_inv)

section \<open>What is never lost\<close>

text \<open>
  From \<open>t0\<close> on: events, rows and applications stay, events in their order; inquiries have keys of
  their own, and no two events are the same message of a channel.
\<close>

definition lasting :: "result_tables \<Rightarrow> db \<times> result_tables \<Rightarrow> bool" where
  "lasting t0 x \<longleftrightarrow> new_keys (next_id (fst x)) lq_id (l_inquiries (snd x))
     \<and> sorted_wrt (\<lambda>a b. \<not> same_event b a) (l_events (snd x))
     \<and> (\<exists>es. l_events (snd x) = l_events t0 @ es)
     \<and> set (map lr_id (l_rows t0)) \<subseteq> set (map lr_id (l_rows (snd x)))
     \<and> set (map (\<lambda>a. (la_id a, la_account a)) (l_applications t0))
         \<subseteq> set (map (\<lambda>a. (la_id a, la_account a)) (l_applications (snd x)))"

lemma lasting_cong:
  assumes "lasting t0 (d, t)" "next_id d \<le> next_id d'" "map lq_id (l_inquiries t') = map lq_id (l_inquiries t)"
    "l_events t' = l_events t" "set (map lr_id (l_rows t)) \<subseteq> set (map lr_id (l_rows t'))"
    "set (map (\<lambda>a. (la_id a, la_account a)) (l_applications t)) \<subseteq> set (map (\<lambda>a. (la_id a, la_account a)) (l_applications t'))"
  shows "lasting t0 (d', t')"
proof -
  from assms(1) have a: "new_keys (next_id d) lq_id (l_inquiries t)"
    "(\<exists>es. l_events t = l_events t0 @ es) \<and> sorted_wrt (\<lambda>a b. \<not> same_event b a) (l_events t)"
    "set (map lr_id (l_rows t0)) \<subseteq> set (map lr_id (l_rows t))" "set (map (\<lambda>a. (la_id a, la_account a)) (l_applications t0))
       \<subseteq> set (map (\<lambda>a. (la_id a, la_account a)) (l_applications t))"
    unfolding lasting_def fst_conv snd_conv by blast+
  have "new_keys (next_id d') lq_id (l_inquiries t')"
    using new_keys_mono[OF a(1) assms(2)] unfolding new_keys_cong[OF assms(3)] .
  with a(2) subset_trans[OF a(3) assms(5)] subset_trans[OF a(4) assms(6)] show ?thesis
    unfolding lasting_def fst_conv snd_conv assms(4) by blast
qed

interpretation lasting_rows: steady "lasting t0" for t0
  by unfold_locales (erule lasting_cong; simp)

lemma assign_places_ids: "assign_places ts ps rows = Some rows' \<Longrightarrow> map lr_id rows' = map lr_id rows"
  by (induction ps arbitrary: rows) (auto simp: put_place_def map_update_where split: if_splits)

lemma lasting_ask: "lasting t0 (d, t) \<Longrightarrow> add_inquiries rnd dl again ts xs (d, t) = Some x \<Longrightarrow> lasting t0 x"
proof (induction xs arbitrary: d t)
  case (Cons y ys)
  obtain a r where y: "y = (a, r)" by (rule prod.exhaust)
  have again: "lasting t0 (d, t\<lparr>l_inquiries := update_where p (ask_again dl ts) (l_inquiries t)\<rparr>)" for p
    using Cons.prems(1) by (rule lasting_cong) (simp_all add: map_update_where ask_again_def)
  have new: "lasting t0 (draw_id d, t\<lparr>l_inquiries := l_inquiries t @ [new_inquiry rnd dl a r ts d]\<rparr>)"
    using Cons.prems(1) by (auto simp: lasting_def draw_id_def new_inquiry_def intro: new_keys_append)
  from Cons.prems again new Cons.IH show ?case by (auto simp: y split: if_splits)
qed simp

lemma lasting_statements:
  "tables_keep (lasting t0) (ask_rows rnd dl again ts sel)" "tables_keep (lasting t0) (number_rows rp b ts)"
  "tables_keep (lasting t0) (add_result_audit a)" "tables_keep (lasting t0) (result_hash rp c)"
  "tables_keep (lasting t0) (insert_row f)" "tables_keep (lasting t0) (insert_row_once f)"
  "tables_keep (lasting t0) (save_number acc i cipher hash last4)" "tables_keep (lasting t0) (insert_event i q r v source e)"
proof -
  show "tables_keep (lasting t0) (ask_rows rnd dl again ts sel)"
    unfolding ask_rows_def by (rule keeps_stmt) (auto dest: lasting_ask split: option.splits)
  show "tables_keep (lasting t0) (number_rows rp b ts)"
    unfolding number_rows_def by (rule keeps_stmt) (auto dest!: assign_places_ids elim!: lasting_cong split: option.splits)
  show "tables_keep (lasting t0) (add_result_audit a)"
    unfolding add_result_audit_def by (rule keeps_stmt_add) (auto elim!: lasting_cong)
  show "tables_keep (lasting t0) (result_hash rp c)" by (rule keeps_result_hash)
  show "tables_keep (lasting t0) (insert_row f)"
    unfolding insert_row_def by (rule keeps_stmt_from) (auto simp: add_list_row_def draw_id_def elim!: lasting_cong)
  show "tables_keep (lasting t0) (insert_row_once f)"
    unfolding insert_row_once_def by (rule keeps_stmt) (auto simp: add_list_row_def draw_id_def elim!: lasting_cong split: prod.splits)
  show "tables_keep (lasting t0) (save_number acc i cipher hash last4)"
    unfolding save_number_def by (rule keeps_stmt_from) (auto simp: map_update_where elim!: lasting_cong)
  show "tables_keep (lasting t0) (insert_event i q r v source e)"
    unfolding insert_event_def
    by (rule keeps_stmt_from) (auto simp: add_response_def draw_id_def lasting_def sorted_wrt_append list_ex_iff intro: new_keys_mono)
qed

lemma lasting_writes:
  "tables_keep (lasting t0) (stmt_write (match_rows i ts) f)"
  "tables_keep (lasting t0) (stmt_write (set_batch_status p g) f)"
  "tables_keep (lasting t0) (stmt_write (fill_arrays b y s va) f)"
  "tables_keep (lasting t0) (stmt_write (\<lambda>t. fill_arrays b y s (vb t) t) f)"
  "tables_keep (lasting t0) (stmt_write (drop_answers i) f)"
  "tables_keep (lasting t0) (stmt_write (save_answer i v ts) f)"
  "tables_keep (lasting t0) (stmt_write (put_slot r k v) f2)"
  "tables_keep (lasting t0) (stmt_write (\<lambda>t. t\<lparr>l_jobs := js t\<rparr>) f)"
  "tables_keep (lasting t0) (stmt_write (unlink_rows i ts) f)"
  by (rule keeps_stmt_write, erule lasting_cong;
      simp add: match_rows_def map_update_where set_batch_status_def fill_arrays_def drop_answers_def save_answer_def
        put_slot_def unlink_rows_def clear_rows_def set_owner_def)+

lemma lasting_link: "tables_keep (lasting t0) (stmt_write (link_rows acc i hash ts) f)"
proof (rule keeps_stmt_write)
  fix d t assume l: "lasting t0 (d, t)"
  show "lasting t0 (d, link_rows acc i hash ts t)"
  proof (cases "confirmed_application t acc i")
    case (Some a)
    show ?thesis using l by (rule lasting_cong) (simp_all add: link_rows_def Some clear_rows_def map_update_where flip: set_map)
  qed (use l in \<open>simp add: link_rows_def\<close>)
qed

lemma lasting_clear:
  "(\<And>r. lr_id (g r) = lr_id r) \<Longrightarrow> tables_keep (lasting t0) (stmt_write (clear_rows p g) f)"
  by (rule keeps_stmt_write, erule lasting_cong) (simp_all add: clear_rows_def map_update_where)

lemma lasting_import: "tables_keep (lasting t0) (import_official_batch rp adm i)"
proof -
  have rows: "tables_keep (lasting t0) (import_rows rp i b ts rs)" for b ts rs
    by (induction rs) (simp_all add: import_row_def keeps_intros lasting_statements split: option.split)
  show ?thesis unfolding import_official_batch_def Let_def
    by (intro keeps_result_admin(2) keeps_intros rows lasting_writes keeps_stmt_from)
      (auto simp: add_batch_def draw_id_def elim!: lasting_cong)
qed

lemma lasting_extraction: "tables_keep (lasting t0) (apply_candidate_list rp x0)"
proof -
  have rows: "tables_keep (lasting t0) (extract_rows rp x job b ts seen rs)" for x job b ts seen rs
  proof (induction rs arbitrary: seen)
    case (Cons r rs)
    have "tables_keep (lasting t0) (extract_row rp x job b ts seen r)"
      unfolding extract_row_def Let_def by (intro keeps_intros lasting_statements)
    with Cons show ?case by (auto intro!: keeps_bindM)
  qed (simp add: keeps_ret)
  have batch: "tables_keep (lasting t0) (extraction_batch y sc url sha ts)" for y sc url sha ts
    unfolding extraction_batch_def
    by (intro keeps_intros keeps_stmt) (auto simp: Let_def add_batch_def draw_id_def elim!: lasting_cong)
  show ?thesis unfolding apply_candidate_list_def Let_def
    by (intro keeps_intros rows batch lasting_writes)
qed

lemma lasting_operations:
  "tables_keep (lasting t0) (publish_official_batch rp adm i)" "tables_keep (lasting t0) (correct_official_result rp adm i x)"
  "tables_keep (lasting t0) (create_deadline_inquiries adm i dl)"
  "tables_keep (lasting t0) (set_candidate_number rp acc i cipher hash last4)"
  "tables_keep (lasting t0) (set_willingness_as rp acc i v named source ext)"
proof -
  show "tables_keep (lasting t0) (publish_official_batch rp adm i)" unfolding publish_official_batch_def
    by (intro keeps_result_admin(2) keeps_intros lasting_writes lasting_clear lasting_statements keeps_stmt_add)
      (auto simp: set_batch_status_def elim!: lasting_cong)
  show "tables_keep (lasting t0) (correct_official_result rp adm i x)" unfolding correct_official_result_def Let_def
    by (intro keeps_result_admin(2) keeps_intros lasting_writes lasting_statements keeps_stmt_from)
      (auto simp: clear_rows_def map_update_where elim!: lasting_cong)
  show "tables_keep (lasting t0) (create_deadline_inquiries adm i dl)" unfolding create_deadline_inquiries_def
    by (intro keeps_result_admin(2) keeps_intros lasting_statements)
  show "tables_keep (lasting t0) (set_candidate_number rp acc i cipher hash last4)" unfolding set_candidate_number_def
    by (intro keeps_intros lasting_statements lasting_writes lasting_link)
  show "tables_keep (lasting t0) (set_willingness_as rp acc i v named source ext)"
    unfolding set_willingness_as_def record_answer_def Let_def
    by (intro keeps_intros keeps_stmt lasting_statements lasting_writes) simp_all
qed

lemma lasting_answers:
  "tables_keep (lasting t0) (set_willingness rp acc i v named)"
  "tables_keep (lasting t0) (set_willingness_from_channel rp acc i v q source ext)"
  unfolding set_willingness_def set_willingness_from_channel_def Let_def
  by (intro keeps_intros lasting_operations)+

lemma lasting_guards:
  "tables_keep (lasting t0) (result_require_admin h rq)" "tables_keep (lasting t0) (result_require_admin_mutation h rq)"
  "tables_keep (lasting t0) (result_require_verified h rq m)" "tables_keep (lasting t0) (application_path h raw)"
  "tables_keep (lasting t0) (batch_path h raw)"
  unfolding result_require_admin_def result_require_admin_mutation_def result_require_verified_def application_path_def
    batch_path_def result_is_admin_def
  by (intro lasting_rows.calm keeps_intros calm_core calm_authenticate)+

lemma lasting_route: "tables_keep (lasting t0) (result_route h rq call)"
  by (cases call; simp only: result_route.simps route_import_def route_publish_def route_deadline_def route_correct_def
      route_list_batches_def route_get_batch_def route_report_def route_candidate_number_def route_willingness_def
      route_inquiries_def;
     intro keeps_intros lasting_guards lasting_rows.guards lasting_import lasting_operations lasting_answers
       keeps_result_reads tables_keep_with_draws)

lemma lasting_step: "result_step h s s' \<Longrightarrow> lasting t0 (tables s) \<Longrightarrow> lasting t0 (tables s')"
proof (induction rule: result_step.induct)
  case (request rq call s x s')
  from keepsD[OF lasting_route request(2,1)] show ?case .
next
  case (extracted cl s y s')
  from keepsD[OF lasting_extraction extracted(2,1)] show ?case .
next
  case (channel acc i v q source ext s z s')
  from keepsD[OF lasting_answers(2) channel(2,1)] show ?case .
next
  case (imported adm input s r1 s')
  from keepsD[OF lasting_import imported(2,1)] show ?case .
next
  case (publishes adm i s r2 s')
  from keepsD[OF lasting_operations(1) publishes(2,1)] show ?case .
next
  case (corrects adm i c s r3 s')
  from keepsD[OF lasting_operations(2) corrects(2,1)] show ?case .
next
  case (identifies acc i cipher hash last4 s r4 s')
  from keepsD[OF lasting_operations(4) identifies(2,1)] show ?case .
next
  case (answers acc i v named s r5 s')
  from keepsD[OF lasting_answers(1) answers(2,1)] show ?case .
next
  case (elsewhere w w' t t')
  have "map lq_id (l_inquiries t') = map lq_id (l_inquiries t)"
  proof -
    have "map (fst \<circ> about) (l_inquiries t') = map (fst \<circ> about) (l_inquiries t)"
      using elsewhere(2) unfolding changed_elsewhere_def map_map[symmetric] by metis
    then show ?thesis by (simp add: about_def o_def)
  qed
  moreover have "set (map (\<lambda>a. (la_id a, la_account a)) (l_applications t)) \<subseteq> set (map (\<lambda>a. (la_id a, la_account a)) (l_applications t'))"
    using elsewhere(2) by (auto simp: changed_elsewhere_def applications_change_def list_ex_iff image_iff) metis
  moreover have "lasting t0 (w_db w, t)" using elsewhere(3) by (simp add: tables_def)
  moreover have "l_events t' = l_events t" "l_rows t' = l_rows t" using elsewhere(2) by (simp_all add: changed_elsewhere_def)
  ultimately have "lasting t0 (w_db w', t')"
    using lasting_cong[of t0 "w_db w" t "w_db w'" t'] elsewhere(1) by (simp only: subset_refl)
  then show ?case by (simp add: tables_def)
qed

lemma lasting_steps: "(result_step h)\<^sup>*\<^sup>* s s' \<Longrightarrow> lasting t0 (tables s) \<Longrightarrow> lasting t0 (tables s')"
  by (induction rule: rtranclp_induct) (auto intro: lasting_step)

lemma served_lasting: "result_served h s \<Longrightarrow> lasting (snd s) (tables s)"
proof (induction rule: result_served.induct)
  case (start t w)
  then show ?case by (simp add: lasting_def tables_def new_keys_def)
next
  case (step s s')
  from lasting_step[OF step(2,3)] show ?case by (simp add: lasting_def tables_def)
qed

end
