(* ===== verification/Spec2Isabelle.thy ===== *)
theory Spec2Isabelle imports MfaProperties SupportHttp SupportGateway VerificationExamples NoticePages ForumProperties ProgramIdentifiers ChatProperties ResultServed begin

text \<open>
  A model of the backend of sta-tw.org (Go, src/backend/internal), and what it promises.

  \<^bold>\<open>The program.\<close> One HTTP server with a PostgreSQL database. \<^verbatim>\<open>auth\<close> keeps accounts, sessions,
  roles, password and e-mail challenges, OAuth states and administrator MFA; \<^verbatim>\<open>security\<close> holds the rate
  limiters it consults; \<^verbatim>\<open>notifications\<close> holds the in-app notices and the encrypted e-mail outbox that
  every component writes to inside its own transactions and a worker empties. The other components
  (support, results, admissions, content, ...) keep tables of their own beside those and reach
  accounts, roles and the outbox directly in SQL. Here the state is accordingly a \<open>world\<close> (the shared
  tables, the limiters, the position in the random stream, the clocks of server and database, the
  faults to come) or, for a component with its own tables, a pair of the world and those tables.

  \<^bold>\<open>How code becomes a definition.\<close> A method that may fail is a function from the state to a sum (an
  error or a value) and the next state, written with the combinators of Prelude; the order of its
  statements and early returns is that of the source. An SQL statement is one atomic function of the
  tables: its condition, its constraints (primary, unique and foreign keys, checks, from
  src/backend/migrations) and its effect. Before each statement, \<^verbatim>\<open>BEGIN\<close> and \<^verbatim>\<open>COMMIT\<close> the
  next entry of \<open>faults\<close> says whether the server answers, so a theorem over all states covers a failure
  at every point; a transaction that fails anywhere is undone. Concurrent transactions are not
  modelled: every transaction is one step, which row locks, \<^verbatim>\<open>SKIP LOCKED\<close> and the unique keys give the code
  where it needs it.

  \<^bold>\<open>Theories.\<close>
  \<^item> Prelude (the effect discipline, update-in-place on lists of rows), GoStrings, GoTime, Encodings (the
    library functions of Go the program calls: UTF-8, \<^verbatim>\<open>strings\<close>, \<^verbatim>\<open>strconv\<close>, base64, base32, hex, times).
  \<^item> RateLimit: security/*.go. The local fixed-window limiter and its eviction, the PostgreSQL bucket,
    the Redis script, the two-tier check; each against a reference window.
  \<^item> FieldCrypto, Password, Totp: auth/crypto.go, password.go and the pure part of mfa.go. AES-GCM, HMAC,
    SHA-256 and Argon2id are the record \<open>crypto\<close>; their laws are predicates on it (\<open>aead_ok\<close>, \<open>rand_ok\<close>,
    \<open>argon_ok\<close>, ...), and \<open>toy_crypto\<close> satisfies them.
  \<^item> Database, Environment, AuthStore: the shared tables, what is a parameter (record \<open>env\<close>: Unicode tables
    above ASCII, \<^verbatim>\<open>net/mail\<close>, UUID texts, mail templates, SMTP), and every method of
    auth/postgres_store.go.
  \<^item> StoreInvariants, StoreProperties, SessionStore: the invariant of the shared tables kept by every
    method, the exact effect of the security-relevant ones, and the contract of the session table
    (locale \<open>session_store\<close>, interpreted on the PostgreSQL store).
  \<^item> Outbox, OutboxProperties: notifications/postgres_repository.go and worker.go; claims with a lease,
    the round trip of a mail through the encrypted table, what a pass hands to the sender.
  \<^item> ServiceBase, AdminMfa, AuthService, OAuthFlow, AuthHandler: auth/service.go, mfa.go, admin_contact.go,
    turnstile.go, pending_account_cleanup.go and every route of handler.go.
  \<^item> ServiceInvariants, ServerStates: a locale (\<open>db_invariant\<close>) says what the service needs of its store to
    keep an invariant; inside it every operation and route keeps it. It is interpreted for the tables,
    the outbox and revoked sessions. \<open>served\<close> are the states requests, workers, other components,
    time and failures lead to.
  \<^item> LoginProperties, RevokedSessions, RequestSafety, MfaProperties: login, logout, CSRF and administrator
    MFA over whole requests and all later states. ToyService and ToyRun hold the concrete service and
    the run (registration, login, authenticated requests) at which theorems are applied.
  \<^item> Components: statements and transactions for a component with tables of its own.
  \<^item> SupportModel, SupportStore, SupportSync: support/model.go, postgres_repository.go, worker.go and
    discord.go: tickets, messages, attachments, the bridges to Discord and e-mail and the Discord outbox.
    SupportInvariants (the invariant and its preservation, \<open>support_reachable\<close>), SupportEffects (what each
    operation adds), SupportDelivery (the queue), SupportEnded and SupportProperties (the promises).
  \<^item> ComponentHttp: what the handlers of the components share: a reply, the session, CSRF and
    administrator checks every route starts with, paths and bodies.
  \<^item> RequestSteps: the guards of a route change little (\<open>calm\<close>). SupportHandler: support/handler.go, every
    route with its uploads and the signed webhooks. SupportHttp: a request is a sequence of the
    repository's steps (\<open>via\<close>), so that what holds of \<open>support_reachable\<close> holds of served requests; files
    stored are files attached. SupportGateway: support/gateway.go, a connection over the frames it reads.
  \<^item> Storage: storage/blob.go and scanner.go: keys, file names, types and signatures, staging, the verdict of
    a scan, and the object store as a map from keys to bytes.
  \<^item> Pagination, NoticePages: pagination/cursor.go and the list of notifications with its routes. The
    locale \<open>keyset\<close> states what a keyset page must satisfy for its cursors to reach every row; it is
    interpreted on the notification query.
  \<^item> GoDate, VerificationStore, VerificationService: verification/*.go, repository, service and routes: school
    mail codes, documents, their review, the domains and the annual clean-up. VerificationInvariants (the
    form of the rows, \<open>ver_reachable\<close>), VerificationProperties, VerificationExamples (concrete runs).
  \<^item> ForumStore, ExperienceStore, Applications, ForumHandler: content/*.go and applications/*.go. Spaces, threads,
    posts, reactions and moderation; experiences with their revisions and review; confirmed applications,
    the spaces they open and request tickets; every route of both. ForumInvariants keeps, over
    \<open>forum_served\<close>, what is public, who wrote where and which spaces exist (its guards through the locale
    \<open>steady\<close> of RequestSteps); ForumProperties has the promises, ProgramIdentifiers the identifiers of
    admissions/model.go.
  \<^item> ChatStore, ChatActions, ChatHandler: chat/*.go. Channels, messages with replies, forwards, pins and
    reactions; the signed webhooks of Discord and Telegram; the queue that goes out to them, its senders
    and worker. ChatInvariants: a triple \<open>gives\<close> for results that later steps rely on, the stems of
    messages, the frame \<open>chat_inv\<close> of what a step may touch, \<open>chat_served\<close>; ChatProperties has the promises.
  \<^item> ResultModel, ResultStore, WillingnessStore, ResultHandler: results/*.go, the candidate lists of
    jobs/contracts.go and the official URLs of admissions/model.go. Import, extraction, publishing (the
    numbering of the candidates, the order in which the rows are visited being a parameter, and the array of
    answers of each programme), corrections; candidate numbers, reports, inquiries and answers; every route.
    ResultInvariants: what every operation keeps of them.

  \<^bold>\<open>Termination and bounds.\<close> The loops over rows are structural, the digit and code-point loops have a
  measure. \<open>walk_notices\<close>, a client that follows cursors, has fuel: one page more than the rows fill is
  enough (\<open>notice_pages_complete\<close>). \<open>draw_code\<close>, the rejection loop of crypto/rand.Int, is a
  \<^verbatim>\<open>partial_function\<close>; \<open>draw_code_returns\<close> gives its result as soon as the stream holds a value in range. Machine integers are words where they
  wrap (Totp); row counts, attempts and times are unbounded integers, far from their limits in the code.

  \<^bold>\<open>What is not modelled.\<close> JSON texts, HTML templates, logging, metrics, SMTP and S3 transfers (they are
  parameters or left out); concurrency between transactions; the zero \<^verbatim>\<open>uuid.UUID\<close>, which no row has;
  the heartbeat timer of the Discord gateway; reading an object of the store back. Components without a model yet are listed in the manifest: accountapplications,
  accountmail, admin, admissions, brochurediscovery, calendar, community,
  discordmail, emailinquiries, ingestion, mailintake, mailroutes, portfolio, profile, schools,
  search, sources, telegramcrosscheck. Left out for good, as pure input and
  output or wiring: cmd, config, db, dbtest, email, httpapi, migrate, obs, publicstats, sse; the
  TypeScript user interface and the Python worker are other languages.
\<close>

end
